(* ===== verification/Prelude.thy ===== *)
theory Prelude
  imports Complex_Main "HOL-Library.Word" "HOL-Library.Signed_Division"
begin

text \<open>
  Shared vocabulary of the development: the C integer types as words, the collections of
  rewrite rules the component theories use, and the generic lemmas on words, natural numbers
  and lists that more than one component needs.
\<close>

unbundle bit_operations_syntax

type_synonym u8 = "8 word"
type_synonym u16 = "16 word"
type_synonym u32 = "32 word"
type_synonym u64 = "64 word"
type_synonym i64 = "64 word"
type_synonym w128 = "128 word"

text \<open>
  \<open>limb_simps\<close> holds the facts that turn two-limb arithmetic into arithmetic on natural numbers.
\<close>

named_theorems limb_simps

subsection \<open>Natural numbers split at a modulus\<close>

lemma limb_join:
  fixes h l W :: nat
  assumes "l < W"
  shows "(h mod W) * W + l = (h * W + l) mod (W * W)"
proof -
  have "(h * W + l) mod (W * W) = W * (((h * W + l) div W) mod W) + (h * W + l) mod W"
    by (simp add: mod_mult2_eq)
  also have "(h * W + l) div W = h" using assms by simp
  also have "(h * W + l) mod W = l" using assms by simp
  finally show ?thesis by (simp add: mult.commute)
qed

lemma limb_bound:
  fixes h l W :: nat
  assumes "h < W" "l < W"
  shows "h * W + l < W * W"
proof -
  have "h * W + l < h * W + W" using assms(2) by simp
  also have "\<dots> = Suc h * W" by simp
  also have "\<dots> \<le> W * W" using assms(1) by (intro mult_le_mono1) simp
  finally show ?thesis .
qed

lemma limb_less_iff:
  fixes h l h' l' W :: nat
  assumes "l < W" "l' < W"
  shows "h * W + l < h' * W + l' \<longleftrightarrow> h < h' \<or> (h = h' \<and> l < l')"
proof (cases h h' rule: linorder_cases)
  case less
  then have "Suc h * W \<le> h' * W" by (intro mult_le_mono1) simp
  with assms less show ?thesis by simp
next
  case equal
  then show ?thesis by simp
next
  case greater
  then have "Suc h' * W \<le> h * W" by (intro mult_le_mono1) simp
  with assms greater show ?thesis by simp
qed

lemma limb_eq_iff:
  fixes h l h' l' W :: nat
  assumes "l < W" "l' < W"
  shows "h * W + l = h' * W + l' \<longleftrightarrow> h = h' \<and> l = l'"
  using limb_less_iff [OF assms, of h h'] limb_less_iff [OF assms(2,1), of h' h]
  by (metis nat_neq_iff)

lemma mod_add_carry:
  fixes a b W :: nat
  assumes "a < W" "b < W"
  shows "(a + b) mod W < a \<longleftrightarrow> W \<le> a + b"
    and "(a + b) mod W = (if W \<le> a + b then a + b - W else a + b)"
proof -
  have *: "(a + b) mod W = (if W \<le> a + b then a + b - W else a + b)"
    using assms by (auto simp: le_mod_geq)
  then show "(a + b) mod W = (if W \<le> a + b then a + b - W else a + b)" .
  show "(a + b) mod W < a \<longleftrightarrow> W \<le> a + b" using * assms by auto
qed

lemma mod_sub_borrow:
  fixes a b W :: nat
  assumes "a < W" "b < W"
  shows "(a + W - b) mod W = (if a < b then a + W - b else a - b)"
    and "a < (a + W - b) mod W \<longleftrightarrow> a < b"
proof -
  show *: "(a + W - b) mod W = (if a < b then a + W - b else a - b)"
  proof (cases "a < b")
    case True
    with assms show ?thesis by simp
  next
    case False
    then have "a + W - b = W + (a - b)" by simp
    then have "(a + W - b) mod W = (a - b) mod W" by (metis mod_add_self1)
    with False assms show ?thesis by simp
  qed
  show "a < (a + W - b) mod W \<longleftrightarrow> a < b" unfolding * using assms by auto
qed

subsection \<open>Words as natural numbers\<close>

lemma unat_word_bound [simp]: "unat (w :: 'a::len word) < 2 ^ LENGTH('a)"
  by (rule unsigned_less)

lemma unat_sub_mod:
  fixes a b :: "'a::len word"
  shows "unat (a - b) = (unat a + 2 ^ LENGTH('a) - unat b) mod 2 ^ LENGTH('a)"
proof -
  have b: "unat b \<le> 2 ^ LENGTH('a)" by (simp add: order.strict_implies_order)
  have "int (unat (a - b)) = (uint a - uint b) mod 2 ^ LENGTH('a)"
    by (simp add: uint_word_ariths)
  also have "\<dots> = (uint a + 2 ^ LENGTH('a) - uint b) mod 2 ^ LENGTH('a)"
    by (metis add_diff_eq diff_add_eq mod_add_self2)
  also have "\<dots> = int ((unat a + 2 ^ LENGTH('a) - unat b) mod 2 ^ LENGTH('a))"
    using b by (simp add: of_nat_mod of_nat_diff)
  finally show ?thesis by linarith
qed

lemma unat_neg_mod:
  fixes a :: "'a::len word"
  shows "unat (- a) = (2 ^ LENGTH('a) - unat a) mod 2 ^ LENGTH('a)"
  using unat_sub_mod [of 0 a] by simp

lemma unat_add_mod:
  fixes a b :: "'a::len word"
  shows "unat (a + b) = (unat a + unat b) mod 2 ^ LENGTH('a)"
  by (simp add: unat_word_ariths)

lemma unat_mult_mod:
  fixes a b :: "'a::len word"
  shows "unat (a * b) = (unat a * unat b) mod 2 ^ LENGTH('a)"
  by (simp add: unat_word_ariths)

lemma unat_shiftr: "unat (drop_bit n (w :: 'a::len word)) = unat w div 2 ^ n"
  by (metis drop_bit_eq_div unsigned_drop_bit_eq unat_drop_bit_eq)

lemma unat_shiftl:
  "unat (push_bit n (w :: 'a::len word)) = (unat w * 2 ^ n) mod 2 ^ LENGTH('a)"
  by (metis push_bit_eq_mult take_bit_eq_mod unsigned_push_bit_eq)

lemma unat_mask_and:
  "unat ((w :: 'a::len word) AND mask n) = unat w mod 2 ^ n"
  by (metis take_bit_eq_mask take_bit_eq_mod unsigned_take_bit_eq)

lemma unat_low32: "unat ((w :: u64) AND 0xFFFFFFFF) = unat w mod 2 ^ 32"
  using unat_mask_and [of w 32] by (simp add: mask_eq_exp_minus_1)

lemma push_or_mask:
  "push_bit n x OR (y AND mask n) = push_bit n x + (y AND mask n :: 'a::len word)"
  by (rule disjunctive_add [symmetric]) (auto simp: bit_simps)

lemma unat_and_1: "unat ((w :: 'a::len word) AND 1) = unat w mod 2"
  using unat_mask_and [of w 1] by simp

lemma push_or_1:
  fixes x b :: "'a::len word"
  assumes "unat b < 2"
  shows "push_bit 1 x OR b = push_bit 1 x + b"
proof -
  have "b AND 1 = b" using assms by (simp add: word_unat_eq_iff unat_and_1)
  then show ?thesis using push_or_mask [of 1 x b] by simp
qed

lemma drop_bit_and_1: "drop_bit k (w :: 'a::len word) AND 1 = of_bool (bit w k)"
  by (rule bit_word_eqI) (auto simp: bit_simps bit_1_iff)

lemma unat_eqI: "unat a = unat b \<Longrightarrow> a = b"
  by (rule word_unat_eq_iff [THEN iffD2])

lemma unat_max_word: "unat (- 1 :: 'a::len word) = 2 ^ LENGTH('a) - 1"
  by (simp add: mask_eq_exp_minus_1 unsigned_minus_1_eq_mask)

lemma top_bit_unat: "bit (w :: 64 word) 63 \<longleftrightarrow> 2 ^ 63 \<le> unat w"
proof -
  have "bit w 63 \<longleftrightarrow> bit (unat w) 63"
    by (simp add: bit_unsigned_iff)
  then have "bit w 63 \<longleftrightarrow> odd (unat w div 2 ^ 63)"
    by (simp only: bit_iff_odd)
  moreover have "unat w div 2 ^ 63 < 2" using unat_word_bound [of w]
    by (intro less_mult_imp_div_less) simp
  ultimately show ?thesis
    by (auto simp: less_2_cases_iff div_eq_0_iff not_less split: if_splits)
qed

end
