(* ===== verification/Int128_Native.thy ===== *)
theory Int128_Native
  imports Prelude
begin

text \<open>
  The \<open>V_INT128_NATIVE\<close> half of \<^verbatim>\<open>vlib/v/gen/c/int128_helpers.h\<close> (lines 7 to 246): the helpers
  on the compiler's own \<open>unsigned __int128\<close> and \<open>__int128\<close>. Both types are a 128 bit word; a
  signed operation reads it with \<open>sint\<close>. V compiles the generated C with \<open>-fwrapv\<close>
  (\<^verbatim>\<open>vlib/v/driver/driver.v\<close>), so the signed \<open>+\<close>, \<open>-\<close>, \<open>*\<close> and \<open><<\<close> wrap. A division by
  zero stays undefined there: it is the value \<open>None\<close>.
\<close>

definition v_u128_make_native :: "u64 \<Rightarrow> u64 \<Rightarrow> w128" where
  "v_u128_make_native h l = push_bit 64 (ucast h) OR ucast l"

definition v_u128_shift_count_native :: "w128 \<Rightarrow> u64" where
  "v_u128_shift_count_native a = (if a > ucast (NOT (0 :: u64)) then 128 else ucast a)"

definition v_u128_zero_native :: w128 where
  "v_u128_zero_native = 0"

definition v_u128_is_zero_native :: "w128 \<Rightarrow> bool" where
  "v_u128_is_zero_native a \<longleftrightarrow> a = 0"

definition v_i128_is_zero_native :: "w128 \<Rightarrow> bool" where
  "v_i128_is_zero_native a \<longleftrightarrow> a = 0"

subsection \<open>Conversions\<close>

definition v_u128_from_u64_native :: "u64 \<Rightarrow> w128" where
  "v_u128_from_u64_native x = ucast x"

definition v_u128_from_i64_native :: "i64 \<Rightarrow> w128" where
  "v_u128_from_i64_native x = scast x"

definition v_i128_from_u64_native :: "u64 \<Rightarrow> w128" where
  "v_i128_from_u64_native x = ucast x"

definition v_i128_from_i64_native :: "i64 \<Rightarrow> w128" where
  "v_i128_from_i64_native x = scast x"

definition v_u128_from_i128_native :: "w128 \<Rightarrow> w128" where
  "v_u128_from_i128_native x = x"

definition v_i128_from_u128_native :: "w128 \<Rightarrow> w128" where
  "v_i128_from_u128_native x = x"

definition v_u128_to_u64_native :: "w128 \<Rightarrow> u64" where
  "v_u128_to_u64_native x = ucast x"

definition v_u128_to_i64_native :: "w128 \<Rightarrow> i64" where
  "v_u128_to_i64_native x = ucast x"

definition v_i128_to_u64_native :: "w128 \<Rightarrow> u64" where
  "v_i128_to_u64_native x = ucast x"

definition v_i128_to_i64_native :: "w128 \<Rightarrow> i64" where
  "v_i128_to_i64_native x = ucast x"

subsection \<open>Unsigned arithmetic\<close>

definition v_u128_add_native :: "w128 \<Rightarrow> w128 \<Rightarrow> w128" where
  "v_u128_add_native a b = a + b"

definition v_u128_sub_native :: "w128 \<Rightarrow> w128 \<Rightarrow> w128" where
  "v_u128_sub_native a b = a - b"

definition v_u128_mul_native :: "w128 \<Rightarrow> w128 \<Rightarrow> w128" where
  "v_u128_mul_native a b = a * b"

definition v_u128_div_native :: "w128 \<Rightarrow> w128 \<Rightarrow> w128 option" where
  "v_u128_div_native a b = (if b = 0 then None else Some (a div b))"

definition v_u128_rem_native :: "w128 \<Rightarrow> w128 \<Rightarrow> w128 option" where
  "v_u128_rem_native a b = (if b = 0 then None else Some (a mod b))"

definition v_u128_neg_native :: "w128 \<Rightarrow> w128" where
  "v_u128_neg_native a = 0 - a"

definition v_u128_and_native :: "w128 \<Rightarrow> w128 \<Rightarrow> w128" where
  "v_u128_and_native a b = a AND b"

definition v_u128_or_native :: "w128 \<Rightarrow> w128 \<Rightarrow> w128" where
  "v_u128_or_native a b = a OR b"

definition v_u128_xor_native :: "w128 \<Rightarrow> w128 \<Rightarrow> w128" where
  "v_u128_xor_native a b = a XOR b"

definition v_u128_not_native :: "w128 \<Rightarrow> w128" where
  "v_u128_not_native a = NOT a"

definition v_u128_shl_native :: "w128 \<Rightarrow> u64 \<Rightarrow> w128" where
  "v_u128_shl_native a n = (if n \<ge> 128 then 0 else push_bit (unat n) a)"

definition v_u128_shr_native :: "w128 \<Rightarrow> u64 \<Rightarrow> w128" where
  "v_u128_shr_native a n = (if n \<ge> 128 then 0 else drop_bit (unat n) a)"

subsection \<open>Signed arithmetic\<close>

definition v_i128_add_native :: "w128 \<Rightarrow> w128 \<Rightarrow> w128" where
  "v_i128_add_native a b = a + b"

definition v_i128_sub_native :: "w128 \<Rightarrow> w128 \<Rightarrow> w128" where
  "v_i128_sub_native a b = a - b"

definition v_i128_mul_native :: "w128 \<Rightarrow> w128 \<Rightarrow> w128" where
  "v_i128_mul_native a b = a * b"

text \<open>C's signed division truncates towards zero, as \<open>sdiv\<close> and \<open>smod\<close> do.\<close>

definition v_i128_div_native :: "w128 \<Rightarrow> w128 \<Rightarrow> w128 option" where
  "v_i128_div_native a b =
     (if b = - 1 then Some (0 - a)
      else if b = 0 then None
      else Some (word_of_int (sint a sdiv sint b)))"

definition v_i128_rem_native :: "w128 \<Rightarrow> w128 \<Rightarrow> w128 option" where
  "v_i128_rem_native a b =
     (if b = - 1 then Some 0
      else if b = 0 then None
      else Some (word_of_int (sint a smod sint b)))"

definition v_i128_and_native :: "w128 \<Rightarrow> w128 \<Rightarrow> w128" where
  "v_i128_and_native a b = a AND b"

definition v_i128_or_native :: "w128 \<Rightarrow> w128 \<Rightarrow> w128" where
  "v_i128_or_native a b = a OR b"

definition v_i128_xor_native :: "w128 \<Rightarrow> w128 \<Rightarrow> w128" where
  "v_i128_xor_native a b = a XOR b"

definition v_i128_not_native :: "w128 \<Rightarrow> w128" where
  "v_i128_not_native a = NOT a"

definition v_i128_neg_native :: "w128 \<Rightarrow> w128" where
  "v_i128_neg_native a = 0 - a"

definition v_i128_shl_native :: "w128 \<Rightarrow> u64 \<Rightarrow> w128" where
  "v_i128_shl_native a n = (if n \<ge> 128 then 0 else push_bit (unat n) a)"

definition v_i128_shr_native :: "w128 \<Rightarrow> u64 \<Rightarrow> w128" where
  "v_i128_shr_native a n =
     (if n \<ge> 128 then (if sint a < 0 then - 1 else 0) else signed_drop_bit (unat n) a)"

subsection \<open>Comparisons\<close>

definition v_u128_eq_native :: "w128 \<Rightarrow> w128 \<Rightarrow> bool" where
  "v_u128_eq_native a b \<longleftrightarrow> a = b"

definition v_u128_ne_native :: "w128 \<Rightarrow> w128 \<Rightarrow> bool" where
  "v_u128_ne_native a b \<longleftrightarrow> a \<noteq> b"

definition v_u128_lt_native :: "w128 \<Rightarrow> w128 \<Rightarrow> bool" where
  "v_u128_lt_native a b \<longleftrightarrow> a < b"

definition v_u128_gt_native :: "w128 \<Rightarrow> w128 \<Rightarrow> bool" where
  "v_u128_gt_native a b \<longleftrightarrow> a > b"

definition v_u128_le_native :: "w128 \<Rightarrow> w128 \<Rightarrow> bool" where
  "v_u128_le_native a b \<longleftrightarrow> a \<le> b"

definition v_u128_ge_native :: "w128 \<Rightarrow> w128 \<Rightarrow> bool" where
  "v_u128_ge_native a b \<longleftrightarrow> a \<ge> b"

definition v_i128_eq_native :: "w128 \<Rightarrow> w128 \<Rightarrow> bool" where
  "v_i128_eq_native a b \<longleftrightarrow> a = b"

definition v_i128_ne_native :: "w128 \<Rightarrow> w128 \<Rightarrow> bool" where
  "v_i128_ne_native a b \<longleftrightarrow> a \<noteq> b"

definition v_i128_lt_native :: "w128 \<Rightarrow> w128 \<Rightarrow> bool" where
  "v_i128_lt_native a b \<longleftrightarrow> sint a < sint b"

definition v_i128_gt_native :: "w128 \<Rightarrow> w128 \<Rightarrow> bool" where
  "v_i128_gt_native a b \<longleftrightarrow> sint a > sint b"

definition v_i128_le_native :: "w128 \<Rightarrow> w128 \<Rightarrow> bool" where
  "v_i128_le_native a b \<longleftrightarrow> sint a \<le> sint b"

definition v_i128_ge_native :: "w128 \<Rightarrow> w128 \<Rightarrow> bool" where
  "v_i128_ge_native a b \<longleftrightarrow> sint a \<ge> sint b"

lemmas u128_native_defs =
  v_u128_make_native_def v_u128_shift_count_native_def v_u128_zero_native_def
  v_u128_is_zero_native_def v_i128_is_zero_native_def v_u128_from_u64_native_def
  v_u128_from_i64_native_def v_i128_from_u64_native_def v_i128_from_i64_native_def
  v_u128_from_i128_native_def v_i128_from_u128_native_def v_u128_to_u64_native_def
  v_u128_to_i64_native_def v_i128_to_u64_native_def v_i128_to_i64_native_def
  v_u128_add_native_def v_u128_sub_native_def v_u128_mul_native_def v_u128_neg_native_def
  v_u128_and_native_def v_u128_or_native_def v_u128_xor_native_def v_u128_not_native_def
  v_i128_add_native_def v_i128_sub_native_def v_i128_mul_native_def v_i128_and_native_def
  v_i128_or_native_def v_i128_xor_native_def v_i128_not_native_def v_i128_neg_native_def
  v_u128_eq_native_def v_u128_ne_native_def v_u128_lt_native_def v_u128_gt_native_def
  v_u128_le_native_def v_u128_ge_native_def v_i128_eq_native_def v_i128_ne_native_def
  v_i128_lt_native_def v_i128_gt_native_def v_i128_le_native_def v_i128_ge_native_def

end
