(* ===== verification/Int128_Portable.thy ===== *)
theory Int128_Portable
  imports Prelude
begin

text \<open>
  The portable half of \<^verbatim>\<open>vlib/v/gen/c/int128_helpers.h\<close> (lines 248 to 687): the same helpers on a
  struct of two 64 bit limbs, for C compilers without \<open>__int128\<close>. \<open>u128\<close> and \<open>i128\<close> are the same
  struct there. The value of a struct is \<open>u128_val\<close>; \<open>to_w128\<close> is the 128 bit pattern that the
  native type would hold, which the equivalence theorems of \<open>Int128_Equiv\<close> are about.
\<close>

record v_int128 =
  lo :: u64
  hi :: u64

definition v_u128_make :: "u64 \<Rightarrow> u64 \<Rightarrow> v_int128" where
  "v_u128_make h l = \<lparr>lo = l, hi = h\<rparr>"

definition v_u128_shift_count :: "v_int128 \<Rightarrow> u64" where
  "v_u128_shift_count a = (if hi a \<noteq> 0 then 128 else lo a)"

definition v_u128_zero :: v_int128 where
  "v_u128_zero = v_u128_make 0 0"

subsection \<open>Conversions\<close>

definition v_u128_from_u64 :: "u64 \<Rightarrow> v_int128" where
  "v_u128_from_u64 x = v_u128_make 0 x"

definition v_u128_from_i64 :: "i64 \<Rightarrow> v_int128" where
  "v_u128_from_i64 x = v_u128_make (if sint x < 0 then NOT 0 else 0) x"

definition v_i128_from_u64 :: "u64 \<Rightarrow> v_int128" where
  "v_i128_from_u64 x = v_u128_make 0 x"

definition v_i128_from_i64 :: "i64 \<Rightarrow> v_int128" where
  "v_i128_from_i64 x = v_u128_make (if sint x < 0 then NOT 0 else 0) x"

definition v_u128_from_i128 :: "v_int128 \<Rightarrow> v_int128" where
  "v_u128_from_i128 x = x"

definition v_i128_from_u128 :: "v_int128 \<Rightarrow> v_int128" where
  "v_i128_from_u128 x = x"

definition v_u128_to_u64 :: "v_int128 \<Rightarrow> u64" where
  "v_u128_to_u64 x = lo x"

definition v_u128_to_i64 :: "v_int128 \<Rightarrow> i64" where
  "v_u128_to_i64 x = lo x"

definition v_i128_to_u64 :: "v_int128 \<Rightarrow> u64" where
  "v_i128_to_u64 x = lo x"

definition v_i128_to_i64 :: "v_int128 \<Rightarrow> i64" where
  "v_i128_to_i64 x = lo x"

subsection \<open>Addition, subtraction, negation\<close>

definition v_u128_add :: "v_int128 \<Rightarrow> v_int128 \<Rightarrow> v_int128" where
  "v_u128_add a b =
     (let rlo = lo a + lo b
      in \<lparr>lo = rlo, hi = hi a + hi b + (if rlo < lo a then 1 else 0)\<rparr>)"

definition v_u128_sub :: "v_int128 \<Rightarrow> v_int128 \<Rightarrow> v_int128" where
  "v_u128_sub a b =
     \<lparr>lo = lo a - lo b, hi = hi a - hi b - (if lo a < lo b then 1 else 0)\<rparr>"

definition v_u128_neg :: "v_int128 \<Rightarrow> v_int128" where
  "v_u128_neg a = v_u128_sub v_u128_zero a"

definition v_u128_abs_of :: "v_int128 \<Rightarrow> v_int128" where
  "v_u128_abs_of a = (if drop_bit 63 (hi a) \<noteq> 0 then v_u128_neg a else a)"

definition v_u128_is_zero :: "v_int128 \<Rightarrow> bool" where
  "v_u128_is_zero a \<longleftrightarrow> lo a = 0 \<and> hi a = 0"

definition v_i128_is_zero :: "v_int128 \<Rightarrow> bool" where
  "v_i128_is_zero a \<longleftrightarrow> lo a = 0 \<and> hi a = 0"

subsection \<open>Multiplication by 32 bit limbs\<close>

definition v_u128_mul :: "v_int128 \<Rightarrow> v_int128 \<Rightarrow> v_int128" where
  "v_u128_mul a b =
     (let a0 = lo a AND 0xFFFFFFFF;
          a1 = drop_bit 32 (lo a);
          b0 = lo b AND 0xFFFFFFFF;
          b1 = drop_bit 32 (lo b);
          c0 = a0 * b0;
          c1 = a0 * b1 + drop_bit 32 c0;
          c2 = a1 * b0 + (c1 AND 0xFFFFFFFF)
      in \<lparr>lo = push_bit 32 c2 OR (c0 AND 0xFFFFFFFF),
          hi = a1 * b1 + drop_bit 32 c1 + drop_bit 32 c2 + lo a * hi b + hi a * lo b\<rparr>)"

subsection \<open>Comparisons and bitwise operations\<close>

definition v_u128_eq :: "v_int128 \<Rightarrow> v_int128 \<Rightarrow> bool" where
  "v_u128_eq a b \<longleftrightarrow> lo a = lo b \<and> hi a = hi b"

definition v_u128_ne :: "v_int128 \<Rightarrow> v_int128 \<Rightarrow> bool" where
  "v_u128_ne a b \<longleftrightarrow> lo a \<noteq> lo b \<or> hi a \<noteq> hi b"

definition v_u128_lt :: "v_int128 \<Rightarrow> v_int128 \<Rightarrow> bool" where
  "v_u128_lt a b \<longleftrightarrow> hi a < hi b \<or> (hi a = hi b \<and> lo a < lo b)"

definition v_u128_gt :: "v_int128 \<Rightarrow> v_int128 \<Rightarrow> bool" where
  "v_u128_gt a b \<longleftrightarrow> hi a > hi b \<or> (hi a = hi b \<and> lo a > lo b)"

definition v_u128_le :: "v_int128 \<Rightarrow> v_int128 \<Rightarrow> bool" where
  "v_u128_le a b \<longleftrightarrow> hi a < hi b \<or> (hi a = hi b \<and> lo a \<le> lo b)"

definition v_u128_ge :: "v_int128 \<Rightarrow> v_int128 \<Rightarrow> bool" where
  "v_u128_ge a b \<longleftrightarrow> hi a > hi b \<or> (hi a = hi b \<and> lo a \<ge> lo b)"

definition v_u128_and :: "v_int128 \<Rightarrow> v_int128 \<Rightarrow> v_int128" where
  "v_u128_and a b = v_u128_make (hi a AND hi b) (lo a AND lo b)"

definition v_u128_or :: "v_int128 \<Rightarrow> v_int128 \<Rightarrow> v_int128" where
  "v_u128_or a b = v_u128_make (hi a OR hi b) (lo a OR lo b)"

definition v_u128_xor :: "v_int128 \<Rightarrow> v_int128 \<Rightarrow> v_int128" where
  "v_u128_xor a b = v_u128_make (hi a XOR hi b) (lo a XOR lo b)"

definition v_u128_not :: "v_int128 \<Rightarrow> v_int128" where
  "v_u128_not a = v_u128_make (NOT (hi a)) (NOT (lo a))"

subsection \<open>Shifts\<close>

definition v_u128_shl :: "v_int128 \<Rightarrow> u64 \<Rightarrow> v_int128" where
  "v_u128_shl a n =
     (if n \<ge> 128 then v_u128_zero
      else if n = 0 then a
      else if n \<ge> 64 then v_u128_make (push_bit (unat (n - 64)) (lo a)) 0
      else v_u128_make (push_bit (unat n) (hi a) OR drop_bit (unat (64 - n)) (lo a))
             (push_bit (unat n) (lo a)))"

definition v_u128_shr :: "v_int128 \<Rightarrow> u64 \<Rightarrow> v_int128" where
  "v_u128_shr a n =
     (if n \<ge> 128 then v_u128_zero
      else if n = 0 then a
      else if n \<ge> 64 then v_u128_make 0 (drop_bit (unat (n - 64)) (hi a))
      else v_u128_make (drop_bit (unat n) (hi a))
             (drop_bit (unat n) (lo a) OR push_bit (unat (64 - n)) (hi a)))"

definition v_i128_shr :: "v_int128 \<Rightarrow> u64 \<Rightarrow> v_int128" where
  "v_i128_shr a n =
     (let sign = (if drop_bit 63 (hi a) \<noteq> 0 then NOT 0 else 0)
      in if n \<ge> 128 then v_u128_make sign sign
         else if n = 0 then a
         else if n = 64 then v_u128_make sign (hi a)
         else if n > 64 then v_u128_make sign
                (drop_bit (unat (n - 64)) (hi a) OR push_bit (unat (128 - n)) sign)
         else v_u128_make (drop_bit (unat n) (hi a) OR push_bit (unat (64 - n)) sign)
                (drop_bit (unat n) (lo a) OR push_bit (unat (64 - n)) (hi a)))"

subsection \<open>Binary long division\<close>

text \<open>
  The body of the \<open>for\<close> loop for bit \<open>i\<close>, on the pair of running quotient \<open>qq\<close> and remainder
  \<open>rr\<close>; the loop counts \<open>i\<close> from 127 down to 0, so \<open>divmod_loop (Suc i)\<close> is the loop about to
  run the pass for bit \<open>i\<close>.
\<close>

definition divmod_bit :: "v_int128 \<Rightarrow> nat \<Rightarrow> u64" where
  "divmod_bit a i =
     (if i \<ge> 64 then drop_bit (i - 64) (hi a) AND 1 else drop_bit i (lo a) AND 1)"

definition divmod_shift :: "v_int128 \<Rightarrow> u64 \<Rightarrow> v_int128" where
  "divmod_shift rr b =
     \<lparr>lo = push_bit 1 (lo rr) OR b, hi = push_bit 1 (hi rr) OR drop_bit 63 (lo rr)\<rparr>"

definition divmod_set :: "v_int128 \<Rightarrow> nat \<Rightarrow> v_int128" where
  "divmod_set qq i =
     (if i \<ge> 64 then qq\<lparr>hi := hi qq OR push_bit (i - 64) 1\<rparr>
      else qq\<lparr>lo := lo qq OR push_bit i 1\<rparr>)"

definition divmod_step ::
  "v_int128 \<Rightarrow> v_int128 \<Rightarrow> nat \<Rightarrow> v_int128 \<times> v_int128 \<Rightarrow> v_int128 \<times> v_int128" where
  "divmod_step a b i = (\<lambda>(qq, rr).
     (let rr = divmod_shift rr (divmod_bit a i)
      in if v_u128_ge rr b then (divmod_set qq i, v_u128_sub rr b) else (qq, rr)))"

fun divmod_loop ::
  "v_int128 \<Rightarrow> v_int128 \<Rightarrow> nat \<Rightarrow> v_int128 \<times> v_int128 \<Rightarrow> v_int128 \<times> v_int128" where
  "divmod_loop a b 0 s = s"
| "divmod_loop a b (Suc i) s = divmod_loop a b i (divmod_step a b i s)"

definition v_u128_divmod :: "v_int128 \<Rightarrow> v_int128 \<Rightarrow> v_int128 \<times> v_int128" where
  "v_u128_divmod a b = divmod_loop a b 128 (v_u128_zero, v_u128_zero)"

definition v_u128_div :: "v_int128 \<Rightarrow> v_int128 \<Rightarrow> v_int128" where
  "v_u128_div a b = fst (v_u128_divmod a b)"

definition v_u128_rem :: "v_int128 \<Rightarrow> v_int128 \<Rightarrow> v_int128" where
  "v_u128_rem a b = snd (v_u128_divmod a b)"

subsection \<open>Signed operations\<close>

definition v_i128_add :: "v_int128 \<Rightarrow> v_int128 \<Rightarrow> v_int128" where
  "v_i128_add a b = v_u128_add a b"

definition v_i128_sub :: "v_int128 \<Rightarrow> v_int128 \<Rightarrow> v_int128" where
  "v_i128_sub a b = v_u128_sub a b"

definition v_i128_mul :: "v_int128 \<Rightarrow> v_int128 \<Rightarrow> v_int128" where
  "v_i128_mul a b = v_u128_mul a b"

definition v_i128_and :: "v_int128 \<Rightarrow> v_int128 \<Rightarrow> v_int128" where
  "v_i128_and a b = v_u128_and a b"

definition v_i128_or :: "v_int128 \<Rightarrow> v_int128 \<Rightarrow> v_int128" where
  "v_i128_or a b = v_u128_or a b"

definition v_i128_xor :: "v_int128 \<Rightarrow> v_int128 \<Rightarrow> v_int128" where
  "v_i128_xor a b = v_u128_xor a b"

definition v_i128_not :: "v_int128 \<Rightarrow> v_int128" where
  "v_i128_not a = v_u128_not a"

definition v_i128_shl :: "v_int128 \<Rightarrow> u64 \<Rightarrow> v_int128" where
  "v_i128_shl a n = v_u128_shl a n"

definition v_i128_neg :: "v_int128 \<Rightarrow> v_int128" where
  "v_i128_neg a = v_u128_neg a"

definition v_i128_lt :: "v_int128 \<Rightarrow> v_int128 \<Rightarrow> bool" where
  "v_i128_lt a b =
     (let an = (drop_bit 63 (hi a) \<noteq> 0); bn = (drop_bit 63 (hi b) \<noteq> 0)
      in if an \<noteq> bn then an else v_u128_lt a b)"

definition v_i128_eq :: "v_int128 \<Rightarrow> v_int128 \<Rightarrow> bool" where
  "v_i128_eq a b = v_u128_eq a b"

definition v_i128_ne :: "v_int128 \<Rightarrow> v_int128 \<Rightarrow> bool" where
  "v_i128_ne a b = v_u128_ne a b"

definition v_i128_gt :: "v_int128 \<Rightarrow> v_int128 \<Rightarrow> bool" where
  "v_i128_gt a b = v_i128_lt b a"

definition v_i128_le :: "v_int128 \<Rightarrow> v_int128 \<Rightarrow> bool" where
  "v_i128_le a b \<longleftrightarrow> \<not> v_i128_lt b a"

definition v_i128_ge :: "v_int128 \<Rightarrow> v_int128 \<Rightarrow> bool" where
  "v_i128_ge a b \<longleftrightarrow> \<not> v_i128_lt a b"

definition v_i128_div :: "v_int128 \<Rightarrow> v_int128 \<Rightarrow> v_int128" where
  "v_i128_div a b =
     (let neg = (drop_bit 63 (hi a XOR hi b) \<noteq> 0);
          (q, r) = v_u128_divmod (v_u128_abs_of a) (v_u128_abs_of b)
      in if neg then v_u128_neg q else q)"

definition v_i128_rem :: "v_int128 \<Rightarrow> v_int128 \<Rightarrow> v_int128" where
  "v_i128_rem a b =
     (let neg = (drop_bit 63 (hi a) \<noteq> 0);
          (q, r) = v_u128_divmod (v_u128_abs_of a) (v_u128_abs_of b)
      in if neg then v_u128_neg r else r)"

subsection \<open>The value of a struct\<close>

definition u128_val :: "v_int128 \<Rightarrow> nat" where
  "u128_val a = unat (hi a) * 2 ^ 64 + unat (lo a)"

definition to_w128 :: "v_int128 \<Rightarrow> w128" where
  "to_w128 a = word_cat (hi a) (lo a)"

end
