(* ===== verification/Int128_Value.thy ===== *)
theory Int128_Value
  imports Int128_Portable
begin

text \<open>
  What the portable helpers compute, in terms of \<open>u128_val\<close> (a natural number below
  \<open>2 ^ 128\<close>) and of the bits of \<open>to_w128\<close>. These are the facts every later theorem about the
  two-limb representation goes through.
\<close>

subsection \<open>The two readings of a struct agree\<close>

lemma v_int128_make_sel [simp]:
  "lo (v_u128_make h l) = l" "hi (v_u128_make h l) = h"
  by (simp_all add: v_u128_make_def)

lemma bit_to_w128:
  "bit (to_w128 a) n \<longleftrightarrow> (if n < 64 then bit (lo a) n else n < 128 \<and> bit (hi a) (n - 64))"
  by (simp add: to_w128_def bit_word_cat_iff)

lemma unat_ucast_up:
  "LENGTH('a::len) \<le> LENGTH('b::len) \<Longrightarrow> unat (ucast (w :: 'a word) :: 'b word) = unat w"
  by (metis unsigned_ucast_eq unsigned_take_bit_eq take_bit_word_eq_self take_bit_tightened_less_eq_nat
      unsigned_word_eqI take_bit_nat_eq_self unat_word_bound order_less_le_trans
      power_increasing_iff one_less_numeral_iff semiring_norm(76))

lemma unat_to_w128 [limb_simps]: "unat (to_w128 a) = u128_val a"
proof -
  let ?W = "2 ^ 64 :: nat"
  have h: "unat (hi a) < ?W" and l: "unat (lo a) < ?W"
    using unat_word_bound [of "hi a"] unat_word_bound [of "lo a"] by simp_all
  have "u128_val a < ?W * ?W"
    unfolding u128_val_def by (rule limb_bound [OF h l])
  moreover have "unat (hi a) * ?W < ?W * ?W"
    using h by simp
  moreover have "unat (to_w128 a) = ((unat (hi a) * ?W) mod 2 ^ 128 + unat (lo a)) mod 2 ^ 128"
    by (simp add: to_w128_def word_cat_eq unat_add_mod unat_shiftl unat_ucast_up
        del: push_bit_eq_mult)
  ultimately show ?thesis
    by (simp add: u128_val_def)
qed

lemma u128_val_bound: "u128_val a < 2 ^ 128"
  using unat_word_bound [of "to_w128 a"] by (simp add: unat_to_w128)

lemma u128_val_div: "u128_val a div 2 ^ 64 = unat (hi a)"
  using unat_word_bound [of "lo a"] by (simp add: u128_val_def)

lemma u128_val_mod: "u128_val a mod 2 ^ 64 = unat (lo a)"
  using unat_word_bound [of "lo a"] by (simp add: u128_val_def)

lemma u128_val_inj: "u128_val a = u128_val b \<longleftrightarrow> a = b"
proof
  assume "u128_val a = u128_val b"
  then have "unat (hi a) = unat (hi b)" "unat (lo a) = unat (lo b)"
    by (metis u128_val_div, metis u128_val_mod)
  then show "a = b" by (simp add: word_unat_eq_iff)
qed simp

lemma to_w128_inj: "to_w128 a = to_w128 b \<longleftrightarrow> a = b"
  by (metis unat_to_w128 u128_val_inj)

lemma to_w128_eqI: "unat w = u128_val a \<Longrightarrow> to_w128 a = w"
  by (rule unat_eqI) (simp add: unat_to_w128)

lemma u128_val_make: "u128_val (v_u128_make h l) = unat h * 2 ^ 64 + unat l"
  by (simp add: u128_val_def)

lemma u128_val_zero [simp]: "u128_val v_u128_zero = 0"
  by (simp add: v_u128_zero_def u128_val_def)

lemma u128_val_eq_0: "u128_val a = 0 \<longleftrightarrow> lo a = 0 \<and> hi a = 0"
  by (auto simp: u128_val_def unat_eq_zero)

lemma top_bit_val: "drop_bit 63 (hi a) \<noteq> 0 \<longleftrightarrow> 2 ^ 127 \<le> u128_val a"
proof -
  have "drop_bit 63 (hi a) \<noteq> 0 \<longleftrightarrow> unat (hi a) div 2 ^ 63 \<noteq> 0"
    by (metis unat_shiftr unat_eq_zero)
  also have "\<dots> \<longleftrightarrow> 2 ^ 63 \<le> unat (hi a)"
    by (simp add: div_eq_0_iff not_less)
  also have "\<dots> \<longleftrightarrow> 2 ^ 127 \<le> u128_val a"
  proof
    assume "2 ^ 63 \<le> unat (hi a)"
    then have "2 ^ 63 * 2 ^ 64 \<le> unat (hi a) * 2 ^ 64" by (rule mult_le_mono1)
    then show "2 ^ 127 \<le> u128_val a" by (simp add: u128_val_def)
  next
    assume "2 ^ 127 \<le> u128_val a"
    then have "2 ^ 127 div 2 ^ 64 \<le> u128_val a div 2 ^ 64" by (rule div_le_mono)
    then show "2 ^ 63 \<le> unat (hi a)" unfolding u128_val_div by simp
  qed
  finally show ?thesis .
qed

lemma top_bit_to_w128: "drop_bit 63 (hi a) \<noteq> 0 \<longleftrightarrow> bit (to_w128 a) 127"
proof -
  have "drop_bit 63 (hi a) \<noteq> 0 \<longleftrightarrow> 2 ^ 63 \<le> unat (hi a)"
    by (metis unat_shiftr unat_eq_zero div_eq_0_iff not_less zero_neq_numeral power_not_zero)
  then show ?thesis by (simp add: bit_to_w128 top_bit_unat)
qed

subsection \<open>Addition, subtraction and negation\<close>

lemma u128_val_add [limb_simps]:
  "u128_val (v_u128_add a b) = (u128_val a + u128_val b) mod 2 ^ 128"
proof -
  let ?W = "2 ^ 64 :: nat"
  let ?al = "unat (lo a)" and ?bl = "unat (lo b)" and ?ah = "unat (hi a)" and ?bh = "unat (hi b)"
  let ?c = "if ?W \<le> ?al + ?bl then 1 else 0 :: nat"
  have lt: "?al < ?W" "?bl < ?W" using unat_word_bound [of "lo a"] unat_word_bound [of "lo b"]
    by simp_all
  have l: "unat (lo (v_u128_add a b)) = (?al + ?bl) mod ?W"
    by (simp add: v_u128_add_def Let_def unat_add_mod)
  have carry: "lo a + lo b < lo a \<longleftrightarrow> ?W \<le> ?al + ?bl"
    using mod_add_carry(1) [OF lt] by (simp add: word_less_nat_alt unat_add_mod)
  have h: "unat (hi (v_u128_add a b)) = (?ah + ?bh + ?c) mod ?W"
    by (simp add: v_u128_add_def Let_def carry unat_add_mod mod_simps)
  have "u128_val (v_u128_add a b) = ((?ah + ?bh + ?c) mod ?W) * ?W + (?al + ?bl) mod ?W"
    by (simp only: u128_val_def l h)
  also have "\<dots> = ((?ah + ?bh + ?c) * ?W + (?al + ?bl) mod ?W) mod (?W * ?W)"
    by (rule limb_join) simp
  also have "(?ah + ?bh + ?c) * ?W + (?al + ?bl) mod ?W = u128_val a + u128_val b"
    using mod_add_carry(2) [OF lt] by (simp add: u128_val_def algebra_simps)
  finally show ?thesis by simp
qed

lemma u128_val_sub [limb_simps]:
  "u128_val (v_u128_sub a b) = (u128_val a + 2 ^ 128 - u128_val b) mod 2 ^ 128"
proof -
  have carry: "lo a < lo a - lo b \<longleftrightarrow> lo a < lo b"
    using mod_sub_borrow(2) [of "unat (lo a)" "2 ^ 64" "unat (lo b)"]
      unat_word_bound [of "lo a"] unat_word_bound [of "lo b"]
    by (simp add: word_less_nat_alt unat_sub_mod)
  have *: "v_u128_add (v_u128_sub a b) b = a"
    by (simp add: v_u128_add_def v_u128_sub_def Let_def carry)
  have bnd: "u128_val b < 2 ^ 128" "u128_val a < 2 ^ 128" by (rule u128_val_bound)+
  have s: "u128_val (v_u128_sub a b) < 2 ^ 128" by (rule u128_val_bound)
  have "(u128_val (v_u128_sub a b) + u128_val b) mod 2 ^ 128 = u128_val a"
    using arg_cong [OF *, of u128_val] by (simp only: u128_val_add)
  with bnd s show ?thesis
    using mod_add_carry(2) [OF s bnd(1)] by (auto simp: le_mod_geq split: if_splits)
qed

lemma u128_val_sub_ge:
  "u128_val b \<le> u128_val a \<Longrightarrow> u128_val (v_u128_sub a b) = u128_val a - u128_val b"
  using u128_val_bound [of a] by (simp add: u128_val_sub le_mod_geq)

lemma u128_val_neg [limb_simps]:
  "u128_val (v_u128_neg a) = (2 ^ 128 - u128_val a) mod 2 ^ 128"
  by (simp add: v_u128_neg_def u128_val_sub)

end
