(* ===== verification/Int128_Arith.thy ===== *)
theory Int128_Arith
  imports Int128_Value
begin

text \<open>
  Multiplication by 32 bit limbs and binary long division of the portable representation,
  against arithmetic on natural numbers. The division loop is the hard part: its invariant is
  that after the passes for bits 127 down to \<open>i\<close> the running pair holds the quotient and
  remainder of the top bits of the dividend, and that the remainder never outgrows those bits,
  which is why the shift of the remainder cannot lose a bit.
\<close>

subsection \<open>Multiplication\<close>

text \<open>The schoolbook identity on natural numbers, with \<open>W = Q * Q\<close> the limb base.\<close>

lemma mul_low_limbs:
  fixes al bl Q :: nat
  defines "a0 \<equiv> al mod Q" and "a1 \<equiv> al div Q" and "b0 \<equiv> bl mod Q" and "b1 \<equiv> bl div Q"
  defines "c0 \<equiv> a0 * b0"
  defines "c1 \<equiv> a0 * b1 + c0 div Q"
  defines "c2 \<equiv> a1 * b0 + c1 mod Q"
  shows "al * bl = (a1 * b1 + c1 div Q + c2 div Q) * (Q * Q) + ((c2 mod Q) * Q + c0 mod Q)"
proof -
  have al: "al = a1 * Q + a0" and bl: "bl = b1 * Q + b0"
    by (simp_all add: a0_def a1_def b0_def b1_def)
  have "(a1 * b1 + c1 div Q + c2 div Q) * (Q * Q) + ((c2 mod Q) * Q + c0 mod Q)
      = a1 * b1 * (Q * Q) + (c1 div Q) * Q * Q + ((c2 div Q) * Q + c2 mod Q) * Q + c0 mod Q"
    by (simp only: add_mult_distrib mult.assoc add.assoc)
  also have "\<dots> = a1 * b1 * (Q * Q) + (c1 div Q) * Q * Q + c2 * Q + c0 mod Q"
    by (simp only: div_mult_mod_eq)
  also have "\<dots> = a1 * b1 * (Q * Q) + a1 * b0 * Q + ((c1 div Q) * Q + c1 mod Q) * Q + c0 mod Q"
    by (simp only: c2_def add_mult_distrib add_mult_distrib2 ac_simps)
  also have "\<dots> = a1 * b1 * (Q * Q) + a1 * b0 * Q + c1 * Q + c0 mod Q"
    by (simp only: div_mult_mod_eq)
  also have "\<dots> = a1 * b1 * (Q * Q) + a1 * b0 * Q + a0 * b1 * Q + ((c0 div Q) * Q + c0 mod Q)"
    by (simp add: c1_def algebra_simps)
  also have "\<dots> = al * bl"
    by (simp add: al bl c0_def algebra_simps)
  finally show ?thesis ..
qed

lemma mul_limbs:
  fixes al bl ah bh h l W :: nat
  assumes "al * bl = h * W + l" "l < W"
  shows "((h + al * bh + ah * bl) mod W) * W + l = ((ah * W + al) * (bh * W + bl)) mod (W * W)"
proof -
  have "(ah * W + al) * (bh * W + bl) = ah * bh * (W * W) + ((al * bh + ah * bl) * W + al * bl)"
    by (simp add: algebra_simps)
  also have "\<dots> = ((h + al * bh + ah * bl) * W + l) + ah * bh * (W * W)"
    by (simp add: assms(1) algebra_simps)
  finally show ?thesis
    by (simp only: limb_join [OF assms(2)] mod_mult_self1)
qed

lemma mul_bound:
  fixes x y q :: nat
  assumes "x < q" "y < q" "z < q"
  shows "x * y + z < q * q"
proof -
  have "x * y \<le> (q - 1) * (q - 1)" using assms by (intro mult_le_mono) auto
  moreover have "(q - 1) * (q - 1) + q \<le> q * q"
    using assms(1) by (cases q) auto
  ultimately show ?thesis using assms(3) by linarith
qed

lemma unat_mul_add:
  fixes x y z :: u64
  assumes "unat x < 2 ^ 32" "unat y < 2 ^ 32" "unat z < 2 ^ 32"
  shows "unat (x * y + z) = unat x * unat y + unat z"
proof -
  have "unat x * unat y + unat z < 2 ^ 32 * 2 ^ 32"
    by (rule mul_bound [OF assms])
  then show ?thesis by (simp add: unat_add_mod unat_mult_mod mod_simps)
qed

lemma unat_join32:
  fixes x y :: u64
  shows "unat (push_bit 32 x OR (y AND 0xFFFFFFFF)) = (unat x mod 2 ^ 32) * 2 ^ 32 + unat y mod 2 ^ 32"
proof -
  have "(push_bit 32 x OR (y AND 0xFFFFFFFF)) = push_bit 32 x + (y AND 0xFFFFFFFF)"
    using push_or_mask [of 32 x y] by (simp add: mask_eq_exp_minus_1)
  moreover have "(unat x * 2 ^ 32) mod 2 ^ 64 = (unat x mod 2 ^ 32) * 2 ^ 32"
    by (metis mult_mod_right mult.commute power_add numeral_Bit0)
  moreover have "(unat x mod 2 ^ 32) * 2 ^ 32 + unat y mod 2 ^ 32 < 2 ^ 32 * (2 ^ 32)"
    by (rule limb_bound) simp_all
  ultimately show ?thesis
    by (simp add: unat_add_mod unat_shiftl unat_low32 del: push_bit_eq_mult)
qed

lemma u128_val_mul [limb_simps]:
  "u128_val (v_u128_mul a b) = (u128_val a * u128_val b) mod 2 ^ 128"
proof -
  let ?Q = "2 ^ 32 :: nat"
  define al bl ah bh where "al = unat (lo a)" and "bl = unat (lo b)"
    and "ah = unat (hi a)" and "bh = unat (hi b)"
  define a0 a1 b0 b1 where "a0 = lo a AND 0xFFFFFFFF" and "a1 = drop_bit 32 (lo a)"
    and "b0 = lo b AND 0xFFFFFFFF" and "b1 = drop_bit 32 (lo b)"
  define c0 c1 c2 where "c0 = a0 * b0" and "c1 = a0 * b1 + drop_bit 32 c0"
    and "c2 = a1 * b0 + (c1 AND 0xFFFFFFFF)"
  have n: "unat a0 = al mod ?Q" "unat a1 = al div ?Q" "unat b0 = bl mod ?Q" "unat b1 = bl div ?Q"
    by (simp_all only: a0_def a1_def b0_def b1_def al_def bl_def unat_low32 unat_shiftr)
  have lt: "unat a0 < ?Q" "unat a1 < ?Q" "unat b0 < ?Q" "unat b1 < ?Q"
    using unat_word_bound [of "lo a"] unat_word_bound [of "lo b"]
    by (simp_all add: n al_def bl_def less_mult_imp_div_less)
  have c0: "unat c0 = unat a0 * unat b0"
    using unat_mul_add [OF lt(1,3), of 0] by (simp add: c0_def)
  have q0: "unat (drop_bit 32 c0) < ?Q"
    using unat_word_bound [of c0] by (simp only: unat_shiftr) (simp add: less_mult_imp_div_less)
  have c1: "unat c1 = unat a0 * unat b1 + unat c0 div ?Q"
    using unat_mul_add [OF lt(1,4) q0] by (simp only: c1_def unat_shiftr)
  have c2: "unat c2 = unat a1 * unat b0 + unat c1 mod ?Q"
    using unat_mul_add [OF lt(2,3), of "c1 AND 0xFFFFFFFF"] by (simp add: c2_def unat_low32)
  have r: "v_u128_mul a b = \<lparr>lo = push_bit 32 c2 OR (c0 AND 0xFFFFFFFF),
      hi = a1 * b1 + drop_bit 32 c1 + drop_bit 32 c2 + lo a * hi b + hi a * lo b\<rparr>"
    by (simp only: v_u128_mul_def Let_def a0_def a1_def b0_def b1_def c0_def c1_def c2_def)
  define H L where "H = unat a1 * unat b1 + unat c1 div ?Q + unat c2 div ?Q"
    and "L = (unat c2 mod ?Q) * ?Q + unat c0 mod ?Q"
  have low: "al * bl = H * (?Q * ?Q) + L"
    using mul_low_limbs [of al bl ?Q]
    by (simp only: H_def L_def c0 c1 c2 n)
  have L: "L < ?Q * ?Q" unfolding L_def by (rule limb_bound) simp_all
  have "unat (hi (v_u128_mul a b)) = (H + al * bh + ah * bl) mod 2 ^ 64"
    by (simp add: r H_def unat_add_mod unat_mult_mod unat_shiftr mod_simps al_def bl_def
        ah_def bh_def)
  moreover have "unat (lo (v_u128_mul a b)) = L"
    by (simp only: r L_def unat_join32 v_int128.select_convs)
  ultimately have "u128_val (v_u128_mul a b) = ((H + al * bh + ah * bl) mod (?Q * ?Q)) * (?Q * ?Q) + L"
    by (simp add: u128_val_def)
  also have "\<dots> = ((ah * (?Q * ?Q) + al) * (bh * (?Q * ?Q) + bl)) mod ((?Q * ?Q) * (?Q * ?Q))"
    by (rule mul_limbs [OF low L])
  finally show ?thesis
    by (simp add: u128_val_def al_def bl_def ah_def bh_def)
qed

subsection \<open>Comparisons\<close>

lemma v_u128_lt_val: "v_u128_lt a b \<longleftrightarrow> u128_val a < u128_val b"
  using unat_word_bound [of "lo a"] unat_word_bound [of "lo b"]
  by (simp add: v_u128_lt_def u128_val_def limb_less_iff word_less_nat_alt word_unat_eq_iff
      del: unat_word_bound)

lemma v_u128_gt_val: "v_u128_gt a b \<longleftrightarrow> u128_val b < u128_val a"
  using v_u128_lt_val [of b a] by (auto simp: v_u128_lt_def v_u128_gt_def)

lemma v_u128_le_val: "v_u128_le a b \<longleftrightarrow> u128_val a \<le> u128_val b"
  using v_u128_lt_val [of b a] by (auto simp: v_u128_lt_def v_u128_le_def not_less [symmetric])

lemma v_u128_ge_val: "v_u128_ge a b \<longleftrightarrow> u128_val b \<le> u128_val a"
  using v_u128_lt_val [of a b] by (auto simp: v_u128_lt_def v_u128_ge_def not_less [symmetric])

lemma v_u128_eq_val: "v_u128_eq a b \<longleftrightarrow> a = b"
  by (auto simp: v_u128_eq_def)

lemma v_u128_is_zero_val: "v_u128_is_zero a \<longleftrightarrow> u128_val a = 0"
  by (simp add: v_u128_is_zero_def u128_val_eq_0)

subsection \<open>One pass of the division loop\<close>

lemma divmod_bit_val:
  assumes "i < 128"
  shows "unat (divmod_bit a i) = (u128_val a div 2 ^ i) mod 2"
proof -
  have "divmod_bit a i = of_bool (bit (to_w128 a) i)"
    using assms by (simp add: divmod_bit_def bit_to_w128 drop_bit_and_1)
  moreover have "bit (to_w128 a) i \<longleftrightarrow> odd (u128_val a div 2 ^ i)"
  proof -
    have "bit (to_w128 a) i \<longleftrightarrow> bit (unat (to_w128 a)) i" by (simp add: bit_unsigned_iff)
    then show ?thesis by (simp only: unat_to_w128 bit_iff_odd)
  qed
  ultimately show ?thesis by (simp add: mod_2_eq_odd)
qed

lemma divmod_bit_le: "unat (divmod_bit a i) < 2"
  by (simp add: divmod_bit_def unat_and_1)

lemma divmod_shift_val:
  assumes rr: "u128_val rr < 2 ^ 127" and b: "unat b < 2"
  shows "u128_val (divmod_shift rr b) = 2 * u128_val rr + unat b"
proof -
  let ?W = "2 ^ 64 :: nat"
  let ?l = "unat (lo rr)" and ?h = "unat (hi rr)"
  have h: "?h < 2 ^ 63"
    using rr top_bit_val [of rr] by (metis div_eq_0_iff not_less unat_shiftr unat_eq_zero
        power_not_zero zero_neq_numeral)
  have l: "?l div 2 ^ 63 < 2" using unat_word_bound [of "lo rr"]
    by (intro less_mult_imp_div_less) simp
  have split_l: "(?l * 2) mod ?W + (?l div 2 ^ 63) * ?W = ?l * 2"
  proof -
    have "(?l * 2) div (2 ^ 63 * 2) = ?l div 2 ^ 63" by (rule div_mult_mult2) simp
    then have "(?l * 2) div ?W = ?l div 2 ^ 63" by simp
    then show ?thesis using div_mult_mod_eq [of "?l * 2" ?W] by (simp only: add.commute)
  qed
  have even: "(?l * 2) mod ?W \<le> ?W - 2"
  proof -
    have "even ((?l * 2) mod ?W)" by (simp add: dvd_mod)
    then obtain k where k: "(?l * 2) mod ?W = 2 * k" by (elim evenE)
    have "(?l * 2) mod ?W < ?W" by simp
    with k have "2 * k < ?W" by metis
    then show ?thesis unfolding k by simp
  qed
  have lo': "unat (lo (divmod_shift rr b)) = (?l * 2) mod ?W + unat b"
    using push_or_1 [OF b, of "lo rr"] even b
    by (simp add: divmod_shift_def unat_add_mod unat_mult_mod)
  have hi': "unat (hi (divmod_shift rr b)) = ?h * 2 + ?l div 2 ^ 63"
    using push_or_1 [of "drop_bit 63 (lo rr)" "hi rr"] h l
    by (simp add: divmod_shift_def unat_add_mod unat_mult_mod unat_shiftr)
  show ?thesis
    using split_l by (simp add: u128_val_def lo' hi' algebra_simps)
qed

lemma divmod_set_val:
  assumes "i < 128" and "2 ^ Suc i dvd u128_val qq"
  shows "u128_val (divmod_set qq i) = u128_val qq + 2 ^ i"
proof -
  have w: "to_w128 (divmod_set qq i) = to_w128 qq OR push_bit i 1"
    using assms(1)
    by (intro bit_word_eqI) (auto simp: divmod_set_def bit_to_w128 bit_simps bit_1_iff)
  obtain k where "u128_val qq = 2 ^ Suc i * k" using assms(2) by (elim dvdE)
  then have push: "u128_val qq = push_bit (Suc i) k"
    by (simp only: push_bit_eq_mult mult.commute)
  have "u128_val (divmod_set qq i) = unat (to_w128 qq OR push_bit i 1)"
    by (metis w unat_to_w128)
  also have "\<dots> = u128_val qq OR 2 ^ i"
  proof -
    have "(2 :: nat) ^ i < 2 ^ 128" using assms(1) by (intro power_strict_increasing) simp_all
    then show ?thesis
      by (simp add: unsigned_or_eq unat_to_w128 unat_shiftl del: push_bit_of_1)
  qed
  also have "\<dots> = u128_val qq + 2 ^ i"
  proof (rule disjunctive_add [symmetric])
    fix n
    show "\<not> bit (u128_val qq) n \<or> \<not> bit (2 ^ i :: nat) n"
      unfolding push by (auto simp: bit_push_bit_iff bit_exp_iff bit_0)
  qed
  finally show ?thesis .
qed

subsection \<open>The loop invariant\<close>

definition divmod_inv :: "v_int128 \<Rightarrow> v_int128 \<Rightarrow> nat \<Rightarrow> v_int128 \<times> v_int128 \<Rightarrow> bool" where
  "divmod_inv a b i s \<longleftrightarrow>
     u128_val (snd s) = (u128_val a div 2 ^ i) mod u128_val b \<and>
     u128_val (fst s) = (if u128_val b = 0 then 2 ^ 128 - 2 ^ i
                         else ((u128_val a div 2 ^ i) div u128_val b) * 2 ^ i)"

lemma div_mod_double:
  fixes N B t :: nat
  assumes "0 < B" "t < 2"
  shows "(2 * N + t) div B = 2 * (N div B) + (if B \<le> 2 * (N mod B) + t then 1 else 0)"
    and "(2 * N + t) mod B =
           (if B \<le> 2 * (N mod B) + t then 2 * (N mod B) + t - B else 2 * (N mod B) + t)"
proof -
  let ?r = "2 * (N mod B) + t"
  have N: "2 * N + t = (2 * (N div B)) * B + ?r"
  proof -
    have "2 * N + t = 2 * (N div B * B + N mod B) + t" by simp
    then show ?thesis by (simp only: add_mult_distrib2 mult.assoc add.assoc)
  qed
  have r: "?r < 2 * B" using mod_less_divisor [OF assms(1), of N] assms(2) by linarith
  have "?r div B = (if B \<le> ?r then 1 else 0)" and "?r mod B = (if B \<le> ?r then ?r - B else ?r)"
    using r by (auto simp: div_nat_eqI le_mod_geq)
  with assms(1) show "(2 * N + t) div B = 2 * (N div B) + (if B \<le> ?r then 1 else 0)"
    and "(2 * N + t) mod B = (if B \<le> ?r then ?r - B else ?r)"
    unfolding N by (simp_all only: div_mult_self3 mod_mult_self3 neq0_conv)
qed

lemma divmod_inv_step:
  assumes i: "i < 128" and inv: "divmod_inv a b (Suc i) s"
  shows "divmod_inv a b i (divmod_step a b i s)"
proof -
  obtain qq rr where s: "s = (qq, rr)" by (cases s)
  define A B N t where "A = u128_val a" and "B = u128_val b" and "N = A div 2 ^ Suc i"
    and "t = (A div 2 ^ i) mod 2"
  have Ni: "A div 2 ^ i = 2 * N + t"
    by (simp add: N_def t_def div_mult2_eq [symmetric] flip: power_Suc2)
       (metis div_mult2_eq div_mult_mod_eq mult.commute power_Suc2)
  have rr: "u128_val rr = N mod B"
    and qq: "u128_val qq = (if B = 0 then 2 ^ 128 - 2 ^ Suc i else (N div B) * 2 ^ Suc i)"
    using inv by (simp_all add: s divmod_inv_def A_def B_def N_def)
  have "N < 2 ^ 127"
  proof -
    have "A < 2 ^ 128" unfolding A_def by (rule u128_val_bound)
    moreover have "(2 :: nat) ^ 1 \<le> 2 ^ Suc i" by (rule power_increasing) simp_all
    then have "A div 2 ^ Suc i \<le> A div 2 ^ 1" by (intro div_le_mono2) simp_all
    ultimately show ?thesis unfolding N_def by simp
  qed
  then have small: "u128_val rr < 2 ^ 127"
    using mod_less_eq_dividend [of N B] unfolding rr by linarith
  define rr' where "rr' = divmod_shift rr (divmod_bit a i)"
  have t: "unat (divmod_bit a i) = t" "t < 2"
    using divmod_bit_val [OF i] by (simp_all add: t_def A_def)
  have rr': "u128_val rr' = 2 * (N mod B) + t"
    using divmod_shift_val [OF small divmod_bit_le] t by (simp add: rr'_def rr)
  have dvd: "2 ^ Suc i dvd u128_val qq"
  proof -
    have "(2 :: nat) ^ Suc i dvd 2 ^ 128" using i by (intro le_imp_power_dvd) simp
    then have "(2 :: nat) ^ Suc i dvd 2 ^ 128 - 2 ^ Suc i" by (rule dvd_diff_nat) (rule dvd_refl)
    then show ?thesis by (simp add: qq del: power_Suc)
  qed
  note set = divmod_set_val [OF i dvd]
  have step: "divmod_step a b i s =
      (if B \<le> u128_val rr' then (divmod_set qq i, v_u128_sub rr' b) else (qq, rr'))"
    by (simp add: s divmod_step_def Let_def v_u128_ge_val rr'_def B_def)
  show ?thesis
  proof (cases "B = 0")
    case True
    then have "u128_val (v_u128_sub rr' b) = A div 2 ^ i"
      by (subst u128_val_sub_ge) (simp_all add: B_def [symmetric] rr' Ni)
    moreover have "2 ^ 128 - 2 ^ Suc i + 2 ^ i = 2 ^ 128 - (2 ^ i :: nat)"
    proof -
      have "(2 :: nat) ^ Suc i \<le> 2 ^ 128" using i by (intro power_increasing) simp_all
      then show ?thesis by simp
    qed
    ultimately show ?thesis using True
      by (simp add: divmod_inv_def step set qq B_def [symmetric] A_def [symmetric] del: power_Suc)
  next
    case False
    then have B: "0 < B" by simp
    note dm = div_mod_double [OF B t(2), of N]
    show ?thesis
    proof (cases "B \<le> u128_val rr'")
      case True
      then have sub: "u128_val (v_u128_sub rr' b) = 2 * (N mod B) + t - B"
        by (subst u128_val_sub_ge) (simp_all add: B_def [symmetric] rr')
      show ?thesis
        using True False dm
        by (simp add: divmod_inv_def step set qq sub rr' Ni A_def [symmetric] B_def [symmetric]
            algebra_simps)
    next
      case nle: False
      then show ?thesis
        using False dm
        by (simp add: divmod_inv_def step qq rr' Ni A_def [symmetric] B_def [symmetric]
            algebra_simps)
    qed
  qed
qed

lemma divmod_loop_inv:
  "i \<le> 128 \<Longrightarrow> divmod_inv a b i s \<Longrightarrow> divmod_inv a b 0 (divmod_loop a b i s)"
  by (induction i arbitrary: s) (simp_all add: divmod_inv_step)

lemma divmod_start: "divmod_inv a b 128 (v_u128_zero, v_u128_zero)"
proof -
  have "u128_val a div 2 ^ 128 = 0" using u128_val_bound [of a] by (rule div_less)
  then show ?thesis by (simp add: divmod_inv_def)
qed

lemma u128_val_divmod:
  "u128_val (snd (v_u128_divmod a b)) = u128_val a mod u128_val b"
  "u128_val (fst (v_u128_divmod a b)) =
     (if u128_val b = 0 then 2 ^ 128 - 1 else u128_val a div u128_val b)"
  using divmod_loop_inv [OF order_refl divmod_start, of a b]
  by (auto simp: divmod_inv_def v_u128_divmod_def)

end
