(* ===== verification/Int128_Equiv.thy ===== *)
theory Int128_Equiv
  imports Int128_Native Int128_Arith
begin

text \<open>
  The portable helpers and the native ones are the same functions on bit patterns: for each
  helper, \<open>to_w128\<close> of the portable result is the native result on \<open>to_w128\<close> of the arguments.
  A program that V compiles therefore computes the same \<open>u128\<close> and \<open>i128\<close> values whether or not
  the C compiler has \<open>__int128\<close>.
\<close>

subsection \<open>Signed readings\<close>

lemma sint_w128:
  "sint (w :: w128) = (if 2 ^ 127 \<le> unat w then int (unat w) - 2 ^ 128 else int (unat w))"
proof -
  have top: "bit w 127 \<longleftrightarrow> 2 ^ 127 \<le> unat w"
  proof -
    have "bit w 127 \<longleftrightarrow> bit (unat w) 127" by (simp add: bit_unsigned_iff)
    then have "bit w 127 \<longleftrightarrow> odd (unat w div 2 ^ 127)" by (simp only: bit_iff_odd)
    moreover have "unat w div 2 ^ 127 < 2"
      using unat_word_bound [of w] by (intro less_mult_imp_div_less) simp
    ultimately show ?thesis
      by (auto simp: less_2_cases_iff div_eq_0_iff not_less split: if_splits)
  qed
  have "sint w = take_bit (Suc 127) (uint w) - 2 ^ Suc 127 * of_bool (bit (uint w) 127)"
    using signed_take_bit_eq_take_bit_minus [of 127 "uint w"] by (simp add: sint_uint)
  also have "take_bit (Suc 127) (uint w) = uint w"
    using uint_lt2p [of w] by (intro take_bit_int_eq_self) simp_all
  also have "bit (uint w) 127 \<longleftrightarrow> bit w 127" by (simp add: bit_uint_iff)
  finally show ?thesis by (simp add: top)
qed

lemma sint_to_w128:
  "sint (to_w128 a) = (if 2 ^ 127 \<le> u128_val a then int (u128_val a) - 2 ^ 128 else int (u128_val a))"
  by (simp only: sint_w128 unat_to_w128)

lemma neg_to_w128: "drop_bit 63 (hi a) \<noteq> 0 \<longleftrightarrow> sint (to_w128 a) < 0"
  using u128_val_bound [of a] by (simp add: top_bit_val sint_to_w128)

lemma to_w128_of_val: "to_w128 a = word_of_nat (u128_val a)"
  by (simp flip: unat_to_w128)

lemma to_w128_neg: "to_w128 (v_u128_neg a) = - to_w128 a"
  by (rule to_w128_eqI) (simp add: unat_neg_mod unat_to_w128 u128_val_neg [simplified])

lemma abs_of_val: "int (u128_val (v_u128_abs_of a)) = \<bar>sint (to_w128 a)\<bar>"
proof (cases "2 ^ 127 \<le> u128_val a")
  case True
  then have "u128_val (v_u128_neg a) = 2 ^ 128 - u128_val a"
    using u128_val_bound [of a] by (subst u128_val_neg) simp
  with True show ?thesis
    using u128_val_bound [of a] by (simp add: v_u128_abs_of_def top_bit_val sint_to_w128)
next
  case False
  then show ?thesis by (simp add: v_u128_abs_of_def top_bit_val sint_to_w128)
qed

subsection \<open>Addition, subtraction, multiplication\<close>

text \<open>unsigned arithmetic. The carry, the borrow and the 32 bit limb products of the
  portable \<open>+\<close>, \<open>-\<close>, \<open>*\<close> and unary minus give exactly the wrap-around results of the native
  type.\<close>

lemma u128_arith:
  "to_w128 (v_u128_add a b) = v_u128_add_native (to_w128 a) (to_w128 b) \<and>
   to_w128 (v_u128_sub a b) = v_u128_sub_native (to_w128 a) (to_w128 b) \<and>
   to_w128 (v_u128_mul a b) = v_u128_mul_native (to_w128 a) (to_w128 b) \<and>
   to_w128 (v_u128_neg a) = v_u128_neg_native (to_w128 a)"
  by (intro conjI; rule to_w128_eqI)
     (simp_all add: u128_native_defs unat_add_mod unat_sub_mod unat_mult_mod unat_neg_mod unat_to_w128
        u128_val_add [simplified] u128_val_sub [simplified] u128_val_mul [simplified]
        u128_val_neg [simplified])

text \<open>the signed \<open>+\<close>, \<open>-\<close>, \<open>*\<close> and unary minus agree as well: two's complement needs no
  separate code.\<close>

lemma i128_arith:
  "to_w128 (v_i128_add a b) = v_i128_add_native (to_w128 a) (to_w128 b) \<and>
   to_w128 (v_i128_sub a b) = v_i128_sub_native (to_w128 a) (to_w128 b) \<and>
   to_w128 (v_i128_mul a b) = v_i128_mul_native (to_w128 a) (to_w128 b) \<and>
   to_w128 (v_i128_neg a) = v_i128_neg_native (to_w128 a)"
  by (intro conjI; rule to_w128_eqI)
     (simp_all add: u128_native_defs v_i128_add_def v_i128_sub_def v_i128_mul_def v_i128_neg_def
        unat_add_mod unat_sub_mod unat_mult_mod unat_neg_mod unat_to_w128
        u128_val_add [simplified] u128_val_sub [simplified] u128_val_mul [simplified]
        u128_val_neg [simplified])

subsection \<open>Bitwise operations and shifts\<close>

lemma shift_count_less:
  fixes n :: u64
  shows "n \<ge> 128 \<longleftrightarrow> 128 \<le> unat n" and "n \<ge> 64 \<longleftrightarrow> 64 \<le> unat n"
    and "n > 64 \<longleftrightarrow> 64 < unat n" and "n = 0 \<longleftrightarrow> unat n = 0" and "n = 64 \<longleftrightarrow> unat n = 64"
  by (simp_all add: word_le_nat_alt word_less_nat_alt word_unat_eq_iff)

lemma shift_count_diff:
  fixes n :: u64
  shows "64 \<le> unat n \<Longrightarrow> unat (n - 64) = unat n - 64"
    and "unat n \<le> 64 \<Longrightarrow> unat (64 - n) = 64 - unat n"
    and "unat n \<le> 128 \<Longrightarrow> unat (128 - n) = 128 - unat n"
  by (simp_all add: unat_sub word_le_nat_alt)

lemma bit_u64_bounded:
  obtains H where "\<And>j. bit (w :: u64) j \<longleftrightarrow> j < 64 \<and> H j"
proof
  show "bit w j \<longleftrightarrow> j < 64 \<and> bit w j" for j
    using bit_imp_le_length [of w j] by auto
qed

lemma to_w128_shl:
  "to_w128 (v_u128_shl a n) = (if n \<ge> 128 then 0 else push_bit (unat n) (to_w128 a))"
proof (rule bit_word_eqI)
  obtain H L where HL: "\<And>j. bit (hi a) j \<longleftrightarrow> j < 64 \<and> H j" "\<And>j. bit (lo a) j \<longleftrightarrow> j < 64 \<and> L j"
    using bit_u64_bounded [of "hi a"] bit_u64_bounded [of "lo a"] by metis
  fix k assume "k < LENGTH(128)"
  then have k: "k < 128" by simp
  consider "128 \<le> unat n" | "unat n = 0" | "64 \<le> unat n" "unat n < 128" "k < 64"
    | "64 \<le> unat n" "unat n < 128" "64 \<le> k"
    | "0 < unat n" "unat n < 64" "k < 64"
    | "0 < unat n" "unat n < 64" "64 \<le> k" "k - unat n < 64"
    | "0 < unat n" "unat n < 64" "64 \<le> k" "64 \<le> k - unat n" by linarith
  then show "bit (to_w128 (v_u128_shl a n)) k
      = bit (if n \<ge> 128 then 0 else push_bit (unat n) (to_w128 a)) k"
    by cases
       (use k in \<open>auto simp: v_u128_shl_def shift_count_less [of n] shift_count_diff [of n]
          bit_to_w128 v_u128_zero_def bit_simps not_le HL add.commute [of "unat n"]\<close>)
qed

lemma to_w128_shr:
  "to_w128 (v_u128_shr a n) = (if n \<ge> 128 then 0 else drop_bit (unat n) (to_w128 a))"
proof (rule bit_word_eqI)
  obtain H L where HL: "\<And>j. bit (hi a) j \<longleftrightarrow> j < 64 \<and> H j" "\<And>j. bit (lo a) j \<longleftrightarrow> j < 64 \<and> L j"
    using bit_u64_bounded [of "hi a"] bit_u64_bounded [of "lo a"] by metis
  fix k assume "k < LENGTH(128)"
  then have k: "k < 128" by simp
  consider "128 \<le> unat n" | "unat n = 0" | "64 \<le> unat n" "unat n < 128" "k < 64"
    | "64 \<le> unat n" "unat n < 128" "64 \<le> k"
    | "0 < unat n" "unat n < 64" "64 \<le> k"
    | "0 < unat n" "unat n < 64" "k < 64" "k + unat n < 64"
    | "0 < unat n" "unat n < 64" "k < 64" "64 \<le> k + unat n" by linarith
  then show "bit (to_w128 (v_u128_shr a n)) k
      = bit (if n \<ge> 128 then 0 else drop_bit (unat n) (to_w128 a)) k"
    by cases
       (use k in \<open>auto simp: v_u128_shr_def shift_count_less [of n] shift_count_diff [of n]
          bit_to_w128 v_u128_zero_def bit_simps not_le HL add.commute [of "unat n"]\<close>)
qed

text \<open>the bitwise operations and the left and logical right shifts agree on every shift
  count, including the counts 0, 64 and those of 128 and more.\<close>

lemma u128_bits:
  "to_w128 (v_u128_and a b) = v_u128_and_native (to_w128 a) (to_w128 b) \<and>
   to_w128 (v_u128_or a b) = v_u128_or_native (to_w128 a) (to_w128 b) \<and>
   to_w128 (v_u128_xor a b) = v_u128_xor_native (to_w128 a) (to_w128 b) \<and>
   to_w128 (v_u128_not a) = v_u128_not_native (to_w128 a) \<and>
   to_w128 (v_u128_shl a n) = v_u128_shl_native (to_w128 a) n \<and>
   to_w128 (v_u128_shr a n) = v_u128_shr_native (to_w128 a) n"
proof (intro conjI)
  show "to_w128 (v_u128_shl a n) = v_u128_shl_native (to_w128 a) n"
    by (simp add: to_w128_shl v_u128_shl_native_def)
  show "to_w128 (v_u128_shr a n) = v_u128_shr_native (to_w128 a) n"
    by (simp add: to_w128_shr v_u128_shr_native_def)
qed (rule bit_word_eqI; auto simp: u128_native_defs v_u128_and_def v_u128_or_def v_u128_xor_def
       v_u128_not_def bit_to_w128 bit_simps)+

text \<open>the signed operations on bits agree. The portable \<open>>>\<close> writes the sign into the
  vacated bits in five cases; the native one is C's arithmetic shift, saturated at 128.\<close>

lemma i128_bits:
  "to_w128 (v_i128_and a b) = v_i128_and_native (to_w128 a) (to_w128 b) \<and>
   to_w128 (v_i128_or a b) = v_i128_or_native (to_w128 a) (to_w128 b) \<and>
   to_w128 (v_i128_xor a b) = v_i128_xor_native (to_w128 a) (to_w128 b) \<and>
   to_w128 (v_i128_not a) = v_i128_not_native (to_w128 a) \<and>
   to_w128 (v_i128_shl a n) = v_i128_shl_native (to_w128 a) n \<and>
   to_w128 (v_i128_shr a n) = v_i128_shr_native (to_w128 a) n"
proof (intro conjI)
  have neg: "sint (to_w128 a) < 0 \<longleftrightarrow> bit (hi a) 63"
    using neg_to_w128 [of a] top_bit_to_w128 [of a] by (simp add: bit_to_w128)
  have top: "drop_bit 63 (hi a) \<noteq> 0 \<longleftrightarrow> bit (hi a) 63"
    using neg_to_w128 [of a] neg by simp
  show "to_w128 (v_i128_shl a n) = v_i128_shl_native (to_w128 a) n"
    by (simp add: v_i128_shl_def to_w128_shl v_i128_shl_native_def)
  show "to_w128 (v_i128_shr a n) = v_i128_shr_native (to_w128 a) n"
  proof (rule bit_word_eqI)
    obtain H L where HL: "\<And>j. bit (hi a) j \<longleftrightarrow> j < 64 \<and> H j" "\<And>j. bit (lo a) j \<longleftrightarrow> j < 64 \<and> L j"
    using bit_u64_bounded [of "hi a"] bit_u64_bounded [of "lo a"] by metis
  fix k assume "k < LENGTH(128)"
  then have k: "k < 128" by simp
    have native: "bit (v_i128_shr_native (to_w128 a) n) k
        = (if 128 \<le> k + unat n then bit (hi a) 63 else bit (to_w128 a) (k + unat n))"
      using k by (auto simp: v_i128_shr_native_def shift_count_less [of n] neg bit_simps
          bit_to_w128 add.commute [of "unat n"])
    have port: "bit (to_w128 (v_i128_shr a n)) k
        = (if 128 \<le> k + unat n then bit (hi a) 63 else bit (to_w128 a) (k + unat n))"
      by (cases "128 \<le> unat n"; cases "unat n = 0"; cases "unat n = 64"; cases "64 < unat n"; cases "k < 64")
        (use k in \<open>auto simp: v_i128_shr_def Let_def shift_count_less [of n]
          shift_count_diff [of n] bit_to_w128 bit_simps top [simplified] HL
          add.commute [of "unat n"]\<close>)
    show "bit (to_w128 (v_i128_shr a n)) k = bit (v_i128_shr_native (to_w128 a) n) k"
      unfolding native port ..
  qed
qed (rule bit_word_eqI; auto simp: u128_native_defs v_i128_and_def v_i128_or_def v_i128_xor_def
       v_i128_not_def v_u128_and_def v_u128_or_def v_u128_xor_def v_u128_not_def bit_to_w128
       bit_simps)+

subsection \<open>Comparisons\<close>

text \<open>the six unsigned comparisons agree; the portable ones decide on the high limb first.\<close>

lemma u128_cmp:
  "v_u128_eq a b = v_u128_eq_native (to_w128 a) (to_w128 b) \<and>
   v_u128_ne a b = v_u128_ne_native (to_w128 a) (to_w128 b) \<and>
   v_u128_lt a b = v_u128_lt_native (to_w128 a) (to_w128 b) \<and>
   v_u128_gt a b = v_u128_gt_native (to_w128 a) (to_w128 b) \<and>
   v_u128_le a b = v_u128_le_native (to_w128 a) (to_w128 b) \<and>
   v_u128_ge a b = v_u128_ge_native (to_w128 a) (to_w128 b)"
proof -
  have "v_u128_ne a b \<longleftrightarrow> a \<noteq> b" by (auto simp: v_u128_ne_def)
  then show ?thesis
    by (simp add: u128_native_defs to_w128_inj v_u128_eq_val v_u128_lt_val v_u128_gt_val
        v_u128_le_val v_u128_ge_val word_less_nat_alt word_le_nat_alt unat_to_w128)
qed

lemma v_i128_lt_sint: "v_i128_lt a b \<longleftrightarrow> sint (to_w128 a) < sint (to_w128 b)"
proof -
  have "int (u128_val a) < 2 ^ 128" "int (u128_val b) < 2 ^ 128"
    using u128_val_bound [of a] u128_val_bound [of b] by simp_all
  then show ?thesis
    by (auto simp: v_i128_lt_def v_u128_lt_val top_bit_val [simplified] sint_to_w128)
qed

text \<open>the six signed comparisons agree; the portable ones look at the two signs first.\<close>

lemma i128_cmp:
  "v_i128_eq a b = v_i128_eq_native (to_w128 a) (to_w128 b) \<and>
   v_i128_ne a b = v_i128_ne_native (to_w128 a) (to_w128 b) \<and>
   v_i128_lt a b = v_i128_lt_native (to_w128 a) (to_w128 b) \<and>
   v_i128_gt a b = v_i128_gt_native (to_w128 a) (to_w128 b) \<and>
   v_i128_le a b = v_i128_le_native (to_w128 a) (to_w128 b) \<and>
   v_i128_ge a b = v_i128_ge_native (to_w128 a) (to_w128 b)"
proof -
  have "v_u128_ne a b \<longleftrightarrow> a \<noteq> b" by (auto simp: v_u128_ne_def)
  then show ?thesis
    by (simp add: u128_native_defs to_w128_inj v_i128_eq_def v_i128_ne_def v_u128_eq_val
        v_i128_lt_sint v_i128_gt_def v_i128_le_def v_i128_ge_def not_less)
qed

subsection \<open>Conversions\<close>

lemma to_w128_make: "to_w128 (v_u128_make h l) = v_u128_make_native h l"
  by (rule bit_word_eqI) (auto simp: v_u128_make_native_def bit_to_w128 bit_simps dest: bit_imp_le_length)

lemma to_w128_sign_extend:
  "to_w128 (v_u128_make (if sint x < 0 then NOT 0 else 0) x) = scast (x :: i64)"
  by (rule bit_word_eqI) (auto simp: bit_to_w128 bit_simps bit_last_iff [symmetric])

lemma low_limb_to_w128: "ucast (to_w128 a) = lo a"
  by (rule bit_word_eqI) (auto simp: bit_to_w128 bit_simps)

text \<open>C34: Addition, subtraction, multiplication and negation, the bitwise operations, the shifts by any
  count and the twelve comparisons, unsigned and signed, agree. The carry, the borrow and the 32 bit
  limb products of the portable code give exactly the wrap-around results of the native type, the
  signed right shift fills with the sign, and comparisons decide on the signs and the high limb.\<close>

theorem int128_arith_equiv:
  "to_w128 (v_u128_add a b) = v_u128_add_native (to_w128 a) (to_w128 b) \<and>
   to_w128 (v_u128_sub a b) = v_u128_sub_native (to_w128 a) (to_w128 b) \<and>
   to_w128 (v_u128_mul a b) = v_u128_mul_native (to_w128 a) (to_w128 b) \<and>
   to_w128 (v_u128_neg a) = v_u128_neg_native (to_w128 a) \<and>
   to_w128 (v_i128_add a b) = v_i128_add_native (to_w128 a) (to_w128 b) \<and>
   to_w128 (v_i128_sub a b) = v_i128_sub_native (to_w128 a) (to_w128 b) \<and>
   to_w128 (v_i128_mul a b) = v_i128_mul_native (to_w128 a) (to_w128 b) \<and>
   to_w128 (v_i128_neg a) = v_i128_neg_native (to_w128 a) \<and>
   to_w128 (v_u128_and a b) = v_u128_and_native (to_w128 a) (to_w128 b) \<and>
   to_w128 (v_u128_or a b) = v_u128_or_native (to_w128 a) (to_w128 b) \<and>
   to_w128 (v_u128_xor a b) = v_u128_xor_native (to_w128 a) (to_w128 b) \<and>
   to_w128 (v_u128_not a) = v_u128_not_native (to_w128 a) \<and>
   to_w128 (v_u128_shl a n) = v_u128_shl_native (to_w128 a) n \<and>
   to_w128 (v_u128_shr a n) = v_u128_shr_native (to_w128 a) n \<and>
   to_w128 (v_i128_and a b) = v_i128_and_native (to_w128 a) (to_w128 b) \<and>
   to_w128 (v_i128_or a b) = v_i128_or_native (to_w128 a) (to_w128 b) \<and>
   to_w128 (v_i128_xor a b) = v_i128_xor_native (to_w128 a) (to_w128 b) \<and>
   to_w128 (v_i128_not a) = v_i128_not_native (to_w128 a) \<and>
   to_w128 (v_i128_shl a n) = v_i128_shl_native (to_w128 a) n \<and>
   to_w128 (v_i128_shr a n) = v_i128_shr_native (to_w128 a) n \<and>
   v_u128_eq a b = v_u128_eq_native (to_w128 a) (to_w128 b) \<and>
   v_u128_ne a b = v_u128_ne_native (to_w128 a) (to_w128 b) \<and>
   v_u128_lt a b = v_u128_lt_native (to_w128 a) (to_w128 b) \<and>
   v_u128_gt a b = v_u128_gt_native (to_w128 a) (to_w128 b) \<and>
   v_u128_le a b = v_u128_le_native (to_w128 a) (to_w128 b) \<and>
   v_u128_ge a b = v_u128_ge_native (to_w128 a) (to_w128 b) \<and>
   v_i128_eq a b = v_i128_eq_native (to_w128 a) (to_w128 b) \<and>
   v_i128_ne a b = v_i128_ne_native (to_w128 a) (to_w128 b) \<and>
   v_i128_lt a b = v_i128_lt_native (to_w128 a) (to_w128 b) \<and>
   v_i128_gt a b = v_i128_gt_native (to_w128 a) (to_w128 b) \<and>
   v_i128_le a b = v_i128_le_native (to_w128 a) (to_w128 b) \<and>
   v_i128_ge a b = v_i128_ge_native (to_w128 a) (to_w128 b)"
  using u128_arith [of a b] i128_arith [of a b] u128_bits [of a b n] i128_bits [of a b n]
    u128_cmp [of a b] i128_cmp [of a b] by simp

text \<open>construction, the conversions from and to the 64 bit types, the zero tests and the
  saturating reading of a shift count agree.\<close>

theorem int128_convert_equiv:
  "to_w128 (v_u128_make h l) = v_u128_make_native h l \<and>
   to_w128 (v_u128_from_u64 x) = v_u128_from_u64_native x \<and>
   to_w128 (v_i128_from_u64 x) = v_i128_from_u64_native x \<and>
   to_w128 (v_u128_from_i64 x) = v_u128_from_i64_native x \<and>
   to_w128 (v_i128_from_i64 x) = v_i128_from_i64_native x \<and>
   v_u128_to_u64 a = v_u128_to_u64_native (to_w128 a) \<and>
   v_u128_to_i64 a = v_u128_to_i64_native (to_w128 a) \<and>
   v_i128_to_u64 a = v_i128_to_u64_native (to_w128 a) \<and>
   v_i128_to_i64 a = v_i128_to_i64_native (to_w128 a) \<and>
   v_u128_is_zero a = v_u128_is_zero_native (to_w128 a) \<and>
   v_i128_is_zero a = v_i128_is_zero_native (to_w128 a) \<and>
   v_u128_shift_count a = v_u128_shift_count_native (to_w128 a)"
proof (intro conjI)
  have small: "to_w128 (v_u128_make 0 x) = ucast x"
    by (rule bit_word_eqI) (auto simp: bit_to_w128 bit_simps dest: bit_imp_le_length)
  then show "to_w128 (v_u128_from_u64 x) = v_u128_from_u64_native x"
    and "to_w128 (v_i128_from_u64 x) = v_i128_from_u64_native x"
    by (simp_all add: v_u128_from_u64_def v_i128_from_u64_def u128_native_defs)
  have zero: "to_w128 a = 0 \<longleftrightarrow> lo a = 0 \<and> hi a = 0"
    by (metis u128_val_eq_0 unat_eq_zero unat_to_w128)
  then show "v_u128_is_zero a = v_u128_is_zero_native (to_w128 a)"
    and "v_i128_is_zero a = v_i128_is_zero_native (to_w128 a)"
    by (simp_all add: v_u128_is_zero_def v_i128_is_zero_def u128_native_defs)
  have "unat (ucast (NOT (0 :: u64)) :: w128) = 2 ^ 64 - 1"
    by (simp add: unat_ucast_up unat_max_word)
  moreover have "2 ^ 64 - 1 < u128_val a \<longleftrightarrow> 0 < unat (hi a)"
    using unat_word_bound [of "lo a"] by (cases "unat (hi a)") (auto simp: u128_val_def)
  ultimately show "v_u128_shift_count a = v_u128_shift_count_native (to_w128 a)"
    by (simp add: v_u128_shift_count_def v_u128_shift_count_native_def low_limb_to_w128
        word_less_nat_alt unat_to_w128 unat_gt_0)
  show "to_w128 (v_u128_from_i64 x) = v_u128_from_i64_native x"
    and "to_w128 (v_i128_from_i64 x) = v_i128_from_i64_native x"
    by (simp_all only: to_w128_sign_extend v_u128_from_i64_def v_i128_from_i64_def
        v_u128_from_i64_native_def v_i128_from_i64_native_def)
qed (simp_all add: to_w128_make low_limb_to_w128 u128_native_defs
       v_u128_to_u64_def v_u128_to_i64_def
       v_i128_to_u64_def v_i128_to_i64_def)

end
