(* ===== verification/Int128_Division.thy ===== *)
theory Int128_Division
  imports Int128_Equiv
begin

text \<open>
  Division. The portable helpers run a restoring binary long division on magnitudes and put the
  sign back; the native ones are C's truncating \<open>/\<close> and \<open>%\<close> with a guard for the divisor \<open>-1\<close>.
\<close>

lemma to_w128_divmod:
  assumes "to_w128 b \<noteq> 0"
  shows "to_w128 (fst (v_u128_divmod a b)) = to_w128 a div to_w128 b"
    and "to_w128 (snd (v_u128_divmod a b)) = to_w128 a mod to_w128 b"
proof -
  have "u128_val b \<noteq> 0" using assms by (metis unat_to_w128 unat_eq_zero)
  then show "to_w128 (fst (v_u128_divmod a b)) = to_w128 a div to_w128 b"
    and "to_w128 (snd (v_u128_divmod a b)) = to_w128 a mod to_w128 b"
    by (simp_all add: to_w128_eqI u128_val_divmod unat_div_distrib unat_mod_distrib unat_to_w128)
qed

text \<open>C35: unsigned division. For every non-zero divisor the 128 passes of the portable loop give
  the native quotient and remainder. For a zero divisor, where the native operation is undefined,
  the loop still ends: quotient \<open>2 ^ 128 - 1\<close>, remainder the dividend.\<close>

theorem u128_div_equiv:
  "(case v_u128_div_native (to_w128 a) (to_w128 b) of
      None \<Rightarrow> to_w128 (v_u128_div a b) = - 1 | Some q \<Rightarrow> to_w128 (v_u128_div a b) = q) \<and>
   (case v_u128_rem_native (to_w128 a) (to_w128 b) of
      None \<Rightarrow> v_u128_rem a b = a | Some r \<Rightarrow> to_w128 (v_u128_rem a b) = r)"
proof (cases "to_w128 b = 0")
  case True
  then have "u128_val b = 0" by (metis unat_to_w128 unat_0)
  then have "to_w128 (v_u128_div a b) = - 1" "v_u128_rem a b = a"
    by (simp_all add: v_u128_div_def v_u128_rem_def to_w128_eqI u128_val_divmod
        unat_max_word flip: u128_val_inj)
  with True show ?thesis by (simp add: v_u128_div_native_def v_u128_rem_native_def)
next
  case False
  then show ?thesis
    by (simp add: v_u128_div_native_def v_u128_rem_native_def v_u128_div_def v_u128_rem_def
        to_w128_divmod)
qed

subsection \<open>Signed division\<close>

lemma to_w128_of_int: "to_w128 a = word_of_int (int (u128_val a))"
  by (simp add: to_w128_of_val)

lemma signed_quotient:
  assumes "u128_val b \<noteq> 0"
  shows "to_w128 (v_i128_div a b) = word_of_int (sint (to_w128 a) sdiv sint (to_w128 b))"
proof -
  let ?A = "sint (to_w128 a)" and ?B = "sint (to_w128 b)"
  let ?q = "fst (v_u128_divmod (v_u128_abs_of a) (v_u128_abs_of b))"
  have xor_top: "drop_bit 63 (hi a XOR hi b) \<noteq> 0 \<longleftrightarrow> (?A < 0) \<noteq> (?B < 0)"
  proof -
    have "drop_bit 63 (hi a XOR hi b) \<noteq> 0 \<longleftrightarrow> bit (hi a XOR hi b) 63"
      using top_bit_to_w128 [of "v_u128_make (hi a XOR hi b) 0"] by (simp add: bit_to_w128)
    then show ?thesis
      using top_bit_to_w128 [of a] top_bit_to_w128 [of b]
      by (simp add: bit_xor_iff bit_to_w128 flip: neg_to_w128)
  qed
  have "?B \<noteq> 0" using assms u128_val_bound [of b] by (auto simp: sint_to_w128)
  then have "u128_val (v_u128_abs_of b) \<noteq> 0" using abs_of_val [of b] by auto
  then have "int (u128_val ?q) = \<bar>?A\<bar> div \<bar>?B\<bar>"
    by (simp add: u128_val_divmod zdiv_int abs_of_val)
  moreover have "to_w128 (v_i128_div a b)
      = (if (?A < 0) \<noteq> (?B < 0) then - to_w128 ?q else to_w128 ?q)"
    using xor_top by (simp add: v_i128_div_def Let_def case_prod_unfold to_w128_neg)
  ultimately show ?thesis
    using \<open>?B \<noteq> 0\<close> by (auto simp: to_w128_of_int signed_divide_int_def sgn_if)
qed

lemma signed_remainder:
  assumes "u128_val b \<noteq> 0"
  shows "to_w128 (v_i128_rem a b) = word_of_int (sint (to_w128 a) smod sint (to_w128 b))"
proof -
  let ?A = "sint (to_w128 a)" and ?B = "sint (to_w128 b)"
  let ?r = "snd (v_u128_divmod (v_u128_abs_of a) (v_u128_abs_of b))"
  have "int (u128_val ?r) = \<bar>?A\<bar> mod \<bar>?B\<bar>"
    by (simp add: u128_val_divmod zmod_int abs_of_val)
  moreover have "to_w128 (v_i128_rem a b) = (if ?A < 0 then - to_w128 ?r else to_w128 ?r)"
    by (simp add: v_i128_rem_def Let_def case_prod_unfold to_w128_neg flip: neg_to_w128)
  ultimately show ?thesis
    by (auto simp: to_w128_of_int signed_modulo_int_def sgn_if)
qed

text \<open>C33: signed division. For a non-zero divisor the portable quotient and remainder are the
  native ones: they truncate towards zero, the remainder has the sign of the dividend, and the
  divisor \<open>-1\<close> wraps for the least value instead of trapping.\<close>

theorem i128_div_equiv:
  assumes "to_w128 b \<noteq> 0"
  shows "v_i128_div_native (to_w128 a) (to_w128 b) = Some (to_w128 (v_i128_div a b)) \<and>
         v_i128_rem_native (to_w128 a) (to_w128 b) = Some (to_w128 (v_i128_rem a b))"
proof -
  have b: "u128_val b \<noteq> 0" using assms by (metis unat_to_w128 unat_eq_zero)
  have "sint (to_w128 b) = - 1" if "to_w128 b = - 1" using that by simp
  then show ?thesis
    using assms
    by (auto simp: v_i128_div_native_def v_i128_rem_native_def signed_quotient [OF b]
        signed_remainder [OF b] signed_modulo_int_def)
qed

theorem i128_div_equiv_witness:
  "v_i128_div_native (to_w128 (v_i128_from_i64 (- 7))) (to_w128 (v_i128_from_i64 2))
     = Some (to_w128 (v_i128_div (v_i128_from_i64 (- 7)) (v_i128_from_i64 2)))"
proof -
  have "to_w128 (v_i128_from_i64 2) \<noteq> 0" by code_simp
  then show ?thesis using i128_div_equiv by blast
qed

end
