(* ===== verification/Int128_Text.thy ===== *)
theory Int128_Text
  imports Int128_Division
begin

text \<open>
  Decimal text, \<^verbatim>\<open>vlib/v/gen/c/int128_string.h\<close>. The printers call the helpers of whichever
  representation the build picked; here that choice is the record \<open>int128_rep\<close>, with the
  instances \<open>portable_rep\<close> and \<open>native_rep\<close>. A printer writes a static buffer of 64 bytes
  backwards; writing in front of the buffer is the value \<open>None\<close>.
\<close>

record 'u int128_rep =
  is_zero :: "'u \<Rightarrow> bool"
  u_rem :: "'u \<Rightarrow> 'u \<Rightarrow> 'u option"
  u_div :: "'u \<Rightarrow> 'u \<Rightarrow> 'u option"
  u_from_u64 :: "u64 \<Rightarrow> 'u"
  u_to_u64 :: "'u \<Rightarrow> u64"
  u_neg :: "'u \<Rightarrow> 'u"
  u_from_i128 :: "'u \<Rightarrow> 'u"
  i_from_i64 :: "i64 \<Rightarrow> 'u"
  i_lt :: "'u \<Rightarrow> 'u \<Rightarrow> bool"

definition portable_rep :: "v_int128 int128_rep" where
  "portable_rep =
     \<lparr>is_zero = v_u128_is_zero, u_rem = (\<lambda>a b. Some (v_u128_rem a b)),
      u_div = (\<lambda>a b. Some (v_u128_div a b)), u_from_u64 = v_u128_from_u64,
      u_to_u64 = v_u128_to_u64, u_neg = v_u128_neg, u_from_i128 = v_u128_from_i128,
      i_from_i64 = v_i128_from_i64, i_lt = v_i128_lt\<rparr>"

definition native_rep :: "w128 int128_rep" where
  "native_rep =
     \<lparr>is_zero = v_u128_is_zero_native, u_rem = v_u128_rem_native,
      u_div = v_u128_div_native, u_from_u64 = v_u128_from_u64_native,
      u_to_u64 = v_u128_to_u64_native, u_neg = v_u128_neg_native,
      u_from_i128 = v_u128_from_i128_native,
      i_from_i64 = v_i128_from_i64_native, i_lt = v_i128_lt_native\<rparr>"

text \<open>
  The \<open>while\<close> loop. \<open>p\<close> is the index in \<open>buf\<close> that the C pointer \<open>p\<close> stands at; a pass writes
  one digit at \<open>p - 1\<close>. The recursion is on that index, so it ends by itself.
\<close>

fun digits_loop :: "'u int128_rep \<Rightarrow> nat \<Rightarrow> u8 list \<Rightarrow> 'u \<Rightarrow> (nat \<times> u8 list) option" where
  "digits_loop R 0 buf v = (if is_zero R v then Some (0, buf) else None)"
| "digits_loop R (Suc p) buf v =
     (if is_zero R v then Some (Suc p, buf)
      else case u_rem R v (u_from_u64 R 10) of None \<Rightarrow> None
        | Some r \<Rightarrow> (case u_div R v (u_from_u64 R 10) of None \<Rightarrow> None
          | Some q \<Rightarrow> digits_loop R p (buf[p := 48 + ucast (u_to_u64 R r)]) q))"

text \<open>\<open>*(--p) = c\<close>\<close>

definition put_back :: "u8 \<Rightarrow> nat \<times> u8 list \<Rightarrow> (nat \<times> u8 list) option" where
  "put_back c = (\<lambda>(p, buf). case p of 0 \<Rightarrow> None | Suc i \<Rightarrow> Some (i, buf[i := c]))"

definition put_zero_digit :: "nat \<times> u8 list \<Rightarrow> (nat \<times> u8 list) option" where
  "put_zero_digit s = (if snd s ! fst s = 0 then put_back 48 s else Some s)"

definition v_u128_str :: "'u int128_rep \<Rightarrow> u8 list \<Rightarrow> 'u \<Rightarrow> (nat \<times> u8 list) option" where
  "v_u128_str R buf v =
     Option.bind (digits_loop R 63 (buf[63 := 0]) v) put_zero_digit"

definition v_i128_str :: "'u int128_rep \<Rightarrow> u8 list \<Rightarrow> 'u \<Rightarrow> (nat \<times> u8 list) option" where
  "v_i128_str R buf v =
     (let neg = i_lt R v (i_from_i64 R 0);
          mag = (if neg then u_neg R (u_from_i128 R v) else u_from_i128 R v)
      in Option.bind (Option.bind (digits_loop R 63 (buf[63 := 0]) mag) put_zero_digit)
           (\<lambda>s. if neg then put_back 45 s else Some s))"

subsection \<open>Specification: decimal digits\<close>

fun decimal :: "nat \<Rightarrow> u8 list" where
  "decimal n = (if n < 10 then [48 + of_nat n] else decimal (n div 10) @ [48 + of_nat (n mod 10)])"

declare decimal.simps [simp del]

text \<open>The digits without the special case of zero: what the loop writes.\<close>

definition digits :: "nat \<Rightarrow> u8 list" where
  "digits n = (if n = 0 then [] else decimal n)"

definition signed_decimal :: "int \<Rightarrow> u8 list" where
  "signed_decimal z = (if z < 0 then 45 # decimal (nat (- z)) else decimal (nat z))"

fun parse_decimal :: "nat \<Rightarrow> u8 list \<Rightarrow> nat option" where
  "parse_decimal acc [] = Some acc"
| "parse_decimal acc (c # cs) =
     (if 48 \<le> c \<and> c \<le> 57 then parse_decimal (acc * 10 + unat (c - 48)) cs else None)"

definition parse_signed :: "u8 list \<Rightarrow> int option" where
  "parse_signed cs =
     (case cs of [] \<Rightarrow> None
      | c # ds \<Rightarrow> if c = 45 then map_option (\<lambda>n. - int n) (parse_decimal 0 ds)
                   else map_option int (parse_decimal 0 cs))"

lemma digits_0 [simp]: "digits 0 = []"
  by (simp add: digits_def)

lemma digits_step: "0 < n \<Longrightarrow> digits n = digits (n div 10) @ [48 + of_nat (n mod 10)]"
  by (cases "n < 10") (auto simp: digits_def decimal.simps [of n])

lemma digit_char:
  assumes "d < 10"
  shows "unat (48 + of_nat d :: u8) = 48 + d" and "(48 + of_nat d :: u8) \<noteq> 0"
    and "48 \<le> (48 + of_nat d :: u8)" and "(48 + of_nat d :: u8) \<le> 57"
    and "unat (of_nat d :: u8) = d"
proof -
  show *: "unat (48 + of_nat d :: u8) = 48 + d"
    using assms by (simp add: unat_add_mod unat_of_nat)
  then show "(48 + of_nat d :: u8) \<noteq> 0" "48 \<le> (48 + of_nat d :: u8)"
    "(48 + of_nat d :: u8) \<le> 57"
    using assms by (auto simp: word_le_nat_alt word_unat_eq_iff)
  show "unat (of_nat d :: u8) = d"
    using assms by (simp add: unat_of_nat)
qed

lemma digits_nonzero: "c \<in> set (digits n) \<Longrightarrow> c \<noteq> 0"
proof (induction n rule: less_induct)
  case (less n)
  show ?case
  proof (cases "n = 0")
    case False
    then have "c \<in> set (digits (n div 10)) \<or> c = 48 + of_nat (n mod 10)"
      using less.prems digits_step [of n] by auto
    with False show ?thesis using less.IH [of "n div 10"] digit_char(2) [of "n mod 10"] by auto
  qed (use less.prems in simp)
qed

lemma digits_length: "n < 10 ^ k \<Longrightarrow> length (digits n) \<le> k"
proof (induction k arbitrary: n)
  case (Suc k)
  show ?case
  proof (cases "n = 0")
    case False
    have "n div 10 < 10 ^ k" using Suc.prems by (simp add: less_mult_imp_div_less mult.commute)
    with False show ?thesis using Suc.IH [of "n div 10"] digits_step [of n] by simp
  qed simp
qed simp

lemma decimal_digits: "decimal n = (if n = 0 then [48] else digits n)"
  by (simp add: digits_def decimal.simps [of 0])

lemma parse_append:
  "parse_decimal acc (xs @ ys) = Option.bind (parse_decimal acc xs) (\<lambda>a. parse_decimal a ys)"
  by (induction xs arbitrary: acc) auto

lemma parse_digits: "parse_decimal 0 (digits n) = Some n"
proof (induction n rule: less_induct)
  case (less n)
  show ?case
  proof (cases "n = 0")
    case False
    then have "parse_decimal 0 (digits (n div 10)) = Some (n div 10)" using less by simp
    moreover have "n mod 10 < 10" by simp
    ultimately show ?thesis
      using False by (simp add: digits_step parse_append digit_char)
  qed simp
qed

lemma parse_decimal_decimal: "parse_decimal 0 (decimal n) = Some n"
  by (simp add: decimal_digits parse_digits)

lemma decimal_Cons: "\<exists>c cs. decimal n = c # cs \<and> c \<noteq> 45"
proof (induction n rule: less_induct)
  case (less n)
  have "48 + of_nat (n mod 10) \<noteq> (45 :: u8)"
    using digit_char(1) [of "n mod 10"] by (auto simp: word_unat_eq_iff)
  then show ?case
    using less [of "n div 10"] by (cases "n < 10") (auto simp: decimal.simps [of n])
qed

lemma parse_signed_decimal: "parse_signed (signed_decimal z) = Some z"
proof (cases "z < 0")
  case True
  then show ?thesis by (simp add: parse_signed_def signed_decimal_def parse_decimal_decimal)
next
  case False
  obtain c cs where "decimal (nat z) = c # cs" "c \<noteq> 45" using decimal_Cons by blast
  then show ?thesis
    using False parse_decimal_decimal [of "nat z"]
    by (simp add: parse_signed_def signed_decimal_def)
qed

text \<open>The signed reading of a 128 bit pattern given as a natural number.\<close>

definition signed128 :: "nat \<Rightarrow> int" where
  "signed128 n = (if 2 ^ 127 \<le> n then int n - 2 ^ 128 else int n)"

lemma signed128_sint: "signed128 (unat (w :: w128)) = sint w"
  by (simp add: signed128_def sint_w128)

lemma neg_sint_w128: "sint (w :: w128) < 0 \<longleftrightarrow> 2 ^ 127 \<le> unat w"
proof -
  have "uint w < 2 ^ 128" using uint_lt2p [of w] by simp
  then show ?thesis by (simp add: sint_w128)
qed

subsection \<open>The printers over any representation that obeys the laws\<close>

locale decimal_rep =
  fixes R :: "'u int128_rep" and val :: "'u \<Rightarrow> nat"
  assumes val_bound: "val v < 2 ^ 128"
    and zero_law: "is_zero R v \<longleftrightarrow> val v = 0"
    and rem_law: "\<exists>r. u_rem R v (u_from_u64 R 10) = Some r \<and> u_to_u64 R r = of_nat (val v mod 10)"
    and div_law: "\<exists>q. u_div R v (u_from_u64 R 10) = Some q \<and> val q = val v div 10"
    and neg_law: "val (u_neg R v) = (2 ^ 128 - val v) mod 2 ^ 128"
    and from_i128_law: "val (u_from_i128 R v) = val v"
    and sign_law: "i_lt R v (i_from_i64 R 0) \<longleftrightarrow> 2 ^ 127 \<le> val v"
begin

lemma loop_digits:
  "length (digits (val v)) \<le> p \<Longrightarrow> p \<le> length buf \<Longrightarrow>
   \<exists>buf'. digits_loop R p buf v = Some (p - length (digits (val v)), buf') \<and>
     length buf' = length buf \<and>
     drop (p - length (digits (val v))) buf' = digits (val v) @ drop p buf"
proof (induction p arbitrary: buf v)
  case 0
  then have "val v = 0" by (cases "val v = 0") (auto simp: digits_step)
  then show ?case by (simp add: zero_law)
next
  case (Suc p)
  show ?case
  proof (cases "val v = 0")
    case True
    then show ?thesis by (simp add: zero_law)
  next
    case False
    obtain r where r: "u_rem R v (u_from_u64 R 10) = Some r"
      "u_to_u64 R r = of_nat (val v mod 10)" using rem_law by blast
    obtain q where q: "u_div R v (u_from_u64 R 10) = Some q" "val q = val v div 10"
      using div_law by blast
    define c :: u8 where "c = 48 + of_nat (val v mod 10)"
    have dig: "digits (val v) = digits (val q) @ [c]"
      using False by (simp add: digits_step q c_def)
    have "ucast (of_nat (val v mod 10) :: u64) = (of_nat (val v mod 10) :: u8)"
      by (rule unat_eqI) (simp add: unat_of_nat unsigned_ucast_eq take_bit_eq_mod)
    then have run: "digits_loop R (Suc p) buf v = digits_loop R p (buf[p := c]) q"
      using False by (simp add: zero_law r q c_def)
    have "length (digits (val q)) \<le> p" "p \<le> length (buf[p := c])"
      using Suc.prems dig by simp_all
    from Suc.IH [OF this] obtain buf' where
      "digits_loop R p (buf[p := c]) q = Some (p - length (digits (val q)), buf')"
      "length buf' = length buf"
      "drop (p - length (digits (val q))) buf' = digits (val q) @ drop p (buf[p := c])"
      by auto
    moreover have "drop p (buf[p := c]) = c # drop (Suc p) buf"
      using Suc.prems(2) by (simp flip: Cons_nth_drop_Suc)
    ultimately show ?thesis using run dig by simp
  qed
qed

lemma zero_digit:
  assumes "length (digits (val v)) < 63" "length buf = 64"
  shows "\<exists>p buf'. Option.bind (digits_loop R 63 (buf[63 := 0]) v) put_zero_digit = Some (p, buf') \<and>
    63 - length (decimal (val v)) = p \<and> length buf' = 64 \<and>
    drop p buf' = decimal (val v) @ [0]"
proof -
  have nul: "drop 63 (buf[63 := 0]) = [0]"
    using assms(2) Cons_nth_drop_Suc [of 63 "buf[63 := 0]"] by simp
  obtain p buf' where run: "digits_loop R 63 (buf[63 := 0]) v = Some (p, buf')"
    and p: "p = 63 - length (digits (val v))" and len: "length buf' = 64"
    and chars: "drop p buf' = digits (val v) @ [0]"
    using loop_digits [of v 63 "buf[63 := 0]"] assms nul by auto
  have p64: "p < length buf'" using p len by simp
  show ?thesis
  proof (cases "val v = 0")
    case True
    then have "p = 63" "buf' ! 63 = 0" "drop 63 buf' = [0]"
      using p chars p64 Cons_nth_drop_Suc [of p buf'] by auto
    moreover have "drop 62 (buf'[62 := 48]) = 48 # drop 63 buf'"
      using len Cons_nth_drop_Suc [of 62 "buf'[62 := 48]"] by simp
    ultimately show ?thesis
      using True run len
      by (simp add: put_zero_digit_def put_back_def decimal_digits eval_nat_numeral)
  next
    case False
    then obtain c cs where cs: "digits (val v) = c # cs"
      by (cases "digits (val v)") (simp_all add: digits_step)
    then have "c \<noteq> 0" using digits_nonzero [of c "val v"] by simp
    moreover have "buf' ! p = c"
      using chars cs p64 Cons_nth_drop_Suc [of p buf'] by auto
    ultimately show ?thesis
      using False run p len chars by (simp add: put_zero_digit_def decimal_digits)
  qed
qed

lemma short_text: "length (digits (val v)) \<le> 39" "length (decimal (val v)) \<le> 39"
proof -
  have "val v < 10 ^ 39" by (rule less_trans [OF val_bound]) simp
  then show "length (digits (val v)) \<le> 39" by (rule digits_length)
  then show "length (decimal (val v)) \<le> 39" by (simp add: decimal_digits)
qed

lemma u128_str:
  assumes "length buf = 64"
  shows "\<exists>p buf'. v_u128_str R buf v = Some (p, buf') \<and> length buf' = 64 \<and>
    drop p buf' = decimal (val v) @ [0]"
proof -
  have "length (digits (val v)) < 63" using short_text(1) [of v] by simp
  from zero_digit [OF this assms] show ?thesis unfolding v_u128_str_def by blast
qed

lemma i128_str:
  assumes "length buf = 64"
  shows "\<exists>p buf'. v_i128_str R buf v = Some (p, buf') \<and> length buf' = 64 \<and>
    drop p buf' = signed_decimal (signed128 (val v)) @ [0]"
proof -
  define neg where "neg = i_lt R v (i_from_i64 R 0)"
  define mag where "mag = (if neg then u_neg R (u_from_i128 R v) else u_from_i128 R v)"
  have mag: "int (val mag) = \<bar>signed128 (val v)\<bar>" and sgn: "signed128 (val v) < 0 \<longleftrightarrow> neg"
    using val_bound [of v]
    by (auto simp: mag_def neg_def sign_law neg_law from_i128_law signed128_def)
  have spec: "signed_decimal (signed128 (val v)) = (if neg then [45] else []) @ decimal (val mag)"
  proof -
    have "val mag = nat \<bar>signed128 (val v)\<bar>" using mag by simp
    with sgn show ?thesis by (cases neg) (simp_all add: signed_decimal_def)
  qed
  have "length (digits (val mag)) < 63" using short_text(1) [of mag] by simp
  from zero_digit [OF this assms] obtain p buf' where
    run: "Option.bind (digits_loop R 63 (buf[63 := 0]) mag) put_zero_digit = Some (p, buf')"
    and p: "p = 63 - length (decimal (val mag))" and len: "length buf' = 64"
    and chars: "drop p buf' = decimal (val mag) @ [0]" by blast
  have code: "v_i128_str R buf v = (if neg then put_back 45 (p, buf') else Some (p, buf'))"
    unfolding v_i128_str_def Let_def neg_def [symmetric] mag_def [symmetric] run by simp
  obtain i where i: "p = Suc i" "i < 64"
  proof
    show "p = Suc (p - 1)" "p - 1 < 64" using p short_text(2) [of mag] by simp_all
  qed
  have "drop i (buf'[i := 45]) = 45 # drop p buf'"
    using len i Cons_nth_drop_Suc [of i "buf'[i := 45]"] by simp
  then show ?thesis using code spec chars len i by (auto simp: put_back_def)
qed

end

subsection \<open>Both representations obey the laws\<close>

interpretation portable: decimal_rep portable_rep u128_val
proof
  fix v
  have ten: "u128_val (v_u128_from_u64 10) = 10"
    by (simp add: v_u128_from_u64_def u128_val_make)
  show "u128_val v < 2 ^ 128" by (rule u128_val_bound)
  show "is_zero portable_rep v \<longleftrightarrow> u128_val v = 0"
    by (simp add: portable_rep_def v_u128_is_zero_val)
  have "unat (lo (v_u128_rem v (v_u128_from_u64 10))) = u128_val v mod 10"
    using u128_val_mod [of "v_u128_rem v (v_u128_from_u64 10)"]
    by (simp add: v_u128_rem_def u128_val_divmod ten)
  then have "lo (v_u128_rem v (v_u128_from_u64 10)) = of_nat (u128_val v mod 10)"
    by (metis of_nat_unat ucast_id)
  then show "\<exists>r. u_rem portable_rep v (u_from_u64 portable_rep 10) = Some r \<and>
      u_to_u64 portable_rep r = of_nat (u128_val v mod 10)"
    by (simp add: portable_rep_def v_u128_to_u64_def)
  show "\<exists>q. u_div portable_rep v (u_from_u64 portable_rep 10) = Some q \<and>
      u128_val q = u128_val v div 10"
    by (simp add: portable_rep_def v_u128_div_def u128_val_divmod ten)
  show "u128_val (u_neg portable_rep v) = (2 ^ 128 - u128_val v) mod 2 ^ 128"
    by (simp add: portable_rep_def u128_val_neg)
  show "u128_val (u_from_i128 portable_rep v) = u128_val v"
    by (simp add: portable_rep_def v_u128_from_i128_def)
  show "i_lt portable_rep v (i_from_i64 portable_rep 0) \<longleftrightarrow> 2 ^ 127 \<le> u128_val v"
    using neg_to_w128 [of v] to_w128_sign_extend [of 0]
    by (simp add: portable_rep_def v_i128_lt_sint v_i128_from_i64_def
        top_bit_val [simplified])
qed

interpretation native: decimal_rep native_rep unat
proof
  fix v :: w128
  have ten: "(ucast (10 :: u64) :: w128) = 10" by simp
  show "unat v < 2 ^ 128" using unat_word_bound [of v] by simp
  show "is_zero native_rep v \<longleftrightarrow> unat v = 0"
    by (simp add: native_rep_def v_u128_is_zero_native_def unat_eq_zero)
  have "(ucast (v mod 10) :: u64) = of_nat (unat v mod 10)"
    by (rule unat_eqI) (simp add: unsigned_ucast_eq unat_of_nat unat_mod_distrib take_bit_eq_mod)
  then show "\<exists>r. u_rem native_rep v (u_from_u64 native_rep 10) = Some r \<and>
      u_to_u64 native_rep r = of_nat (unat v mod 10)"
    by (simp add: native_rep_def v_u128_rem_native_def v_u128_from_u64_native_def
        v_u128_to_u64_native_def)
  show "\<exists>q. u_div native_rep v (u_from_u64 native_rep 10) = Some q \<and> unat q = unat v div 10"
    by (simp add: native_rep_def v_u128_div_native_def v_u128_from_u64_native_def
        unat_div_distrib)
  show "unat (u_neg native_rep v) = (2 ^ 128 - unat v) mod 2 ^ 128"
    using unat_neg_mod [of v] by (simp add: native_rep_def v_u128_neg_native_def)
  show "unat (u_from_i128 native_rep v) = unat v"
    by (simp add: native_rep_def v_u128_from_i128_native_def)
  show "i_lt native_rep v (i_from_i64 native_rep 0) \<longleftrightarrow> 2 ^ 127 \<le> unat v"
    using neg_sint_w128 [of v]
    by (simp add: native_rep_def v_i128_lt_native_def v_i128_from_i64_native_def)
qed

subsection \<open>What the printers print\<close>

text \<open>the unsigned printer never writes outside its 64 byte buffer and leaves a NUL
  terminated text, without leading zeros, that reads back as the value; both representations
  print the same characters.\<close>

theorem u128_text:
  assumes "length buf = 64"
  shows "\<exists>p buf' p' buf''.
    v_u128_str portable_rep buf a = Some (p, buf') \<and>
    v_u128_str native_rep buf (to_w128 a) = Some (p', buf'') \<and>
    drop p buf' = decimal (u128_val a) @ [0] \<and> drop p' buf'' = drop p buf' \<and>
    parse_decimal 0 (butlast (drop p buf')) = Some (u128_val a)"
  using portable.u128_str [OF assms, of a] native.u128_str [OF assms, of "to_w128 a"]
  by (auto simp: unat_to_w128 parse_decimal_decimal)

theorem u128_text_witness:
  "\<exists>p buf' p' buf''.
    v_u128_str portable_rep (replicate 64 7) (v_u128_make 1 2) = Some (p, buf') \<and>
    v_u128_str native_rep (replicate 64 7) (to_w128 (v_u128_make 1 2)) = Some (p', buf'') \<and>
    drop p buf' = decimal (2 ^ 64 + 2) @ [0] \<and> drop p' buf'' = drop p buf'"
proof -
  have "u128_val (v_u128_make 1 2) = 2 ^ 64 + 2" by (simp add: u128_val_make)
  then show ?thesis
    using u128_text [of "replicate 64 7" "v_u128_make 1 2"] by fastforce
qed

text \<open>C37: the signed printer prints the two's complement value, with a minus sign in front of
  the magnitude; the least value, whose magnitude has no signed form, is printed as well.\<close>

theorem i128_text:
  assumes "length buf = 64"
  shows "\<exists>p buf' p' buf''.
    v_i128_str portable_rep buf a = Some (p, buf') \<and>
    v_i128_str native_rep buf (to_w128 a) = Some (p', buf'') \<and>
    drop p buf' = signed_decimal (sint (to_w128 a)) @ [0] \<and> drop p' buf'' = drop p buf' \<and>
    parse_signed (butlast (drop p buf')) = Some (sint (to_w128 a))"
  using portable.i128_str [OF assms, of a] native.i128_str [OF assms, of "to_w128 a"]
    signed128_sint [of "to_w128 a"]
  by (auto simp: unat_to_w128 parse_signed_decimal)

theorem i128_text_witness:
  "\<exists>p buf' p' buf''.
    v_i128_str portable_rep (replicate 64 7) (v_i128_from_i64 (- 5)) = Some (p, buf') \<and>
    v_i128_str native_rep (replicate 64 7) (to_w128 (v_i128_from_i64 (- 5))) = Some (p', buf'') \<and>
    drop p buf' = [45, 53, 0] \<and> drop p' buf'' = drop p buf'"
proof -
  have "sint (to_w128 (v_i128_from_i64 (- 5))) = - 5"
    unfolding v_i128_from_i64_def to_w128_sign_extend by simp
  moreover have "signed_decimal (- 5) = [45, 53]"
    by (simp add: signed_decimal_def decimal.simps)
  ultimately show ?thesis
    using i128_text [of "replicate 64 7" "v_i128_from_i64 (- 5)"] by fastforce
qed

end
