(* ===== verification/Int128_Float.thy ===== *)
theory Int128_Float
  imports Int128_Equiv
begin

text \<open>
  Conversion to \<open>double\<close>. Every double that occurs here is an integer below \<open>2 ^ 129\<close>, far from
  overflow, and is modelled by that integer. C's conversion of an integer and a product of doubles
  both round to the nearest multiple of the unit of the last of 53 places, ties to even
  (\<open>rne53\<close>).
\<close>

subsection \<open>Rounding to 53 bits\<close>

fun bitlen :: "nat \<Rightarrow> nat" where
  "bitlen n = (if n = 0 then 0 else Suc (bitlen (n div 2)))"

declare bitlen.simps [simp del]

definition round_shift :: "nat \<Rightarrow> nat \<Rightarrow> nat" where
  "round_shift n s =
     (let q = n div 2 ^ s; r = n mod 2 ^ s
      in if 2 ^ s < 2 * r \<or> (2 * r = 2 ^ s \<and> odd q) then q + 1 else q)"

definition rne53 :: "nat \<Rightarrow> nat" where
  "rne53 n = (if bitlen n \<le> 53 then n else round_shift n (bitlen n - 53) * 2 ^ (bitlen n - 53))"

definition f64_of_int :: "int \<Rightarrow> int" where
  "f64_of_int z = (if z < 0 then - int (rne53 (nat (- z))) else int (rne53 (nat z)))"

lemma bitlen_bounds: "0 < n \<Longrightarrow> 0 < bitlen n \<and> 2 ^ (bitlen n - 1) \<le> n \<and> n < 2 ^ bitlen n"
proof (induction n rule: less_induct)
  case (less n)
  show ?case
  proof (cases "n = 1")
    case True
    then show ?thesis by (simp add: bitlen.simps)
  next
    case False
    with less.prems have "0 < n div 2" "n div 2 < n" by auto
    with less.IH have "0 < bitlen (n div 2)" "2 ^ (bitlen (n div 2) - 1) \<le> n div 2"
      "n div 2 < 2 ^ bitlen (n div 2)" by auto
    then show ?thesis
      using less.prems by (cases "bitlen (n div 2)") (auto simp: bitlen.simps [of n])
  qed
qed

lemma bitlen_eqI:
  assumes "2 ^ k \<le> n" "n < 2 ^ Suc k"
  shows "bitlen n = Suc k"
proof -
  have "0 < n" using assms(1) by (metis gr_zeroI not_le zero_less_numeral zero_less_power)
  then have b: "0 < bitlen n" "2 ^ (bitlen n - 1) \<le> n" "n < 2 ^ bitlen n"
    using bitlen_bounds by auto
  have "k < bitlen n"
    using le_less_trans [OF assms(1) b(3)] by (simp add: power_strict_increasing_iff)
  moreover have "bitlen n - 1 < Suc k"
    by (rule power_less_imp_less_exp [of 2, OF _ le_less_trans [OF b(2) assms(2)]]) simp
  ultimately show ?thesis by simp
qed

lemma bitlen_pos: "k < bitlen n \<Longrightarrow> 0 < n"
  by (cases "n = 0") (simp_all add: bitlen.simps [of 0])

lemma bitlen_le: "n < 2 ^ k \<Longrightarrow> bitlen n \<le> k"
proof (cases "n = 0")
  case False
  assume "n < 2 ^ k"
  with False have "2 ^ (bitlen n - 1) < (2 :: nat) ^ k"
    using bitlen_bounds [of n] by (meson le_less_trans not_gr0)
  then show ?thesis by (simp add: power_strict_increasing_iff)
qed (simp add: bitlen.simps)

lemma rne53_exact:
  assumes "m < 2 ^ 53"
  shows "rne53 (m * 2 ^ k) = m * 2 ^ k"
proof (cases "bitlen (m * 2 ^ k) \<le> 53")
  case False
  let ?n = "m * 2 ^ k" and ?s = "bitlen (m * 2 ^ k) - 53"
  have "bitlen ?n \<le> 53 + k"
    using assms by (intro bitlen_le) (simp add: power_add)
  then have "2 ^ ?s dvd (2 :: nat) ^ k" by (intro le_imp_power_dvd) simp
  then have "?n mod 2 ^ ?s = 0" "?n div 2 ^ ?s * 2 ^ ?s = ?n"
    by (auto simp: mod_eq_0_iff_dvd)
  with False show ?thesis by (simp add: rne53_def round_shift_def Let_def)
qed (simp add: rne53_def)

lemma rne53_exact': "m \<le> 2 ^ 53 \<Longrightarrow> rne53 (m * 2 ^ k) = m * 2 ^ k"
  using rne53_exact [of m k] rne53_exact [of 1 "53 + k"]
  by (cases "m = 2 ^ 53") (auto simp: power_add)

subsection \<open>The native conversions\<close>

definition v_u128_to_f64_native :: "w128 \<Rightarrow> nat" where
  "v_u128_to_f64_native a = rne53 (unat a)"

definition v_i128_to_f64_native :: "w128 \<Rightarrow> int" where
  "v_i128_to_f64_native a = f64_of_int (sint a)"

subsection \<open>The portable conversions\<close>

primrec scale_by_2 :: "nat \<Rightarrow> nat \<Rightarrow> nat" where
  "scale_by_2 m 0 = m"
| "scale_by_2 m (Suc e) = scale_by_2 (rne53 (m * 2)) e"

fun v_u128_scale_pow2 :: "nat \<Rightarrow> nat \<Rightarrow> nat" where
  "v_u128_scale_pow2 m e =
     (if e \<ge> 32 then v_u128_scale_pow2 (rne53 (m * 4294967296)) (e - 32) else scale_by_2 m e)"

declare v_u128_scale_pow2.simps [simp del]

text \<open>
  The loop that counts the significant bits. It does not end on a zero limb, so it has fuel;
  \<open>top_bits\<close> of 64 units returns for every other limb.
\<close>

fun top_bits :: "nat \<Rightarrow> u64 \<Rightarrow> nat \<Rightarrow> nat option" where
  "top_bits 0 tp bits = None"
| "top_bits (Suc fuel) tp bits =
     (if drop_bit 63 tp = 0 then top_bits fuel (push_bit 1 tp) (bits - 1) else Some bits)"

text \<open>The kept bits, the guard bit and the sticky bit for a given \<open>shift\<close>.\<close>

definition split_bits :: "v_int128 \<Rightarrow> nat \<Rightarrow> u64 \<times> bool \<times> bool" where
  "split_bits a shift =
     (if shift \<ge> 64 then
        (let dropped = shift - 64
         in if dropped = 0 then
              (hi a, drop_bit 63 (lo a) \<noteq> 0, lo a AND 0x7fffffffffffffff \<noteq> 0)
            else
              (drop_bit dropped (hi a), drop_bit (dropped - 1) (hi a) AND 1 \<noteq> 0,
               hi a AND (push_bit (dropped - 1) 1 - 1) \<noteq> 0 \<or> lo a \<noteq> 0))
      else
        (push_bit (64 - shift) (hi a) OR drop_bit shift (lo a),
         drop_bit (shift - 1) (lo a) AND 1 \<noteq> 0,
         lo a AND (push_bit (shift - 1) 1 - 1) \<noteq> 0))"

definition v_u128_to_f64 :: "v_int128 \<Rightarrow> nat option" where
  "v_u128_to_f64 a =
     (if hi a = 0 then Some (rne53 (unat (lo a)))
      else case top_bits 64 (hi a) 128 of None \<Rightarrow> None
        | Some bits \<Rightarrow>
            (let shift = bits - 53;
                 (keep, guard, sticky) = split_bits a shift;
                 keep = (if guard \<and> (sticky \<or> keep AND 1 \<noteq> 0) then keep + 1 else keep)
             in Some (v_u128_scale_pow2 (rne53 (unat keep)) shift)))"

definition v_i128_to_f64 :: "v_int128 \<Rightarrow> int option" where
  "v_i128_to_f64 a =
     map_option (\<lambda>v. if drop_bit 63 (hi a) \<noteq> 0 then - int v else int v)
       (v_u128_to_f64 (v_u128_abs_of a))"

subsection \<open>Scaling is exact\<close>

lemma scale_by_2_exact: "m \<le> 2 ^ 53 \<Longrightarrow> scale_by_2 (m * 2 ^ k) e = m * 2 ^ (k + e)"
proof (induction e arbitrary: k)
  case (Suc e)
  have "m * 2 ^ k * 2 = m * 2 ^ Suc k" by simp
  then have "rne53 (m * 2 ^ k * 2) = m * 2 ^ Suc k"
    using rne53_exact' [of m "Suc k", OF Suc.prems] by (simp only:)
  then show ?case using Suc.IH [of "Suc k"] Suc.prems by simp
qed simp

lemma scale_exact: "m \<le> 2 ^ 53 \<Longrightarrow> v_u128_scale_pow2 (m * 2 ^ k) e = m * 2 ^ (k + e)"
proof (induction e arbitrary: k rule: less_induct)
  case (less e)
  show ?case
  proof (cases "e \<ge> 32")
    case True
    have "rne53 (m * 2 ^ k * 4294967296) = m * 2 ^ (k + 32)"
      using rne53_exact' [of m "k + 32"] less.prems by (simp add: mult.assoc power_add)
    then show ?thesis
      using True less.IH [of "e - 32" "k + 32"] less.prems
      by (simp add: v_u128_scale_pow2.simps [of _ e])
  next
    case False
    then show ?thesis
      using scale_by_2_exact less.prems by (simp add: v_u128_scale_pow2.simps [of _ e])
  qed
qed

subsection \<open>Counting the significant bits\<close>

lemma top_bits_count:
  assumes "unat tp \<noteq> 0" "64 - bitlen (unat tp) < fuel" "64 - bitlen (unat tp) \<le> bits"
  shows "top_bits fuel tp bits = Some (bits - (64 - bitlen (unat tp)))"
  using assms
proof (induction fuel arbitrary: tp bits)
  case (Suc fuel)
  have len: "bitlen (unat tp) \<le> 64"
    using unat_word_bound [of tp] by (intro bitlen_le) simp
  have tp: "drop_bit 63 tp = 0 \<longleftrightarrow> unat tp < 2 ^ 63"
    by (metis unat_shiftr unat_eq_zero div_eq_0_iff zero_neq_numeral power_not_zero)
  show ?case
  proof (cases "unat tp < 2 ^ 63")
    case True
    then have dbl: "unat (push_bit 1 tp) = 2 * unat tp"
      by (simp add: unat_shiftl unat_mult_mod)
    have "bitlen (2 * unat tp) = Suc (bitlen (unat tp))"
      using Suc.prems(1) by (simp add: bitlen.simps [of "2 * unat tp"])
    moreover have "bitlen (unat tp) \<le> 63" using True by (rule bitlen_le)
    ultimately show ?thesis
      using Suc.IH [of "push_bit 1 tp" "bits - 1"] Suc.prems tp True dbl by simp
  next
    case False
    then have "bitlen (unat tp) = Suc 63"
      using unat_word_bound [of tp] by (intro bitlen_eqI) simp_all
    with False tp show ?thesis by simp
  qed
qed simp

lemma bitlen_two_limbs:
  assumes "hi a \<noteq> 0"
  shows "bitlen (u128_val a) = 64 + bitlen (unat (hi a))"
proof -
  let ?k = "bitlen (unat (hi a)) - 1"
  have b: "0 < bitlen (unat (hi a))" "2 ^ ?k \<le> unat (hi a)" "unat (hi a) < 2 ^ Suc ?k"
    using bitlen_bounds [of "unat (hi a)"] assms by (auto simp: unat_gt_0)
  have "2 ^ ?k * 2 ^ 64 \<le> unat (hi a) * 2 ^ 64" using b(2) by (rule mult_le_mono1)
  moreover have "Suc (unat (hi a)) * 2 ^ 64 \<le> 2 ^ Suc ?k * 2 ^ 64"
    using b(3) by (intro mult_le_mono1) simp
  ultimately have "bitlen (u128_val a) = Suc (64 + ?k)"
    using unat_word_bound [of "lo a"]
    by (intro bitlen_eqI) (simp_all add: u128_val_def power_add)
  with b(1) show ?thesis by simp
qed

subsection \<open>The three parts of the magnitude\<close>

lemma mask_word: "push_bit k 1 - 1 = (mask k :: 'a::len word)"
  by (simp add: mask_eq_exp_minus_1 push_bit_eq_mult)

lemma and_mask_zero:
  "w AND mask k = 0 \<longleftrightarrow> unat (w :: 'a::len word) mod 2 ^ k = 0"
  "w AND (2 ^ k - 1) = 0 \<longleftrightarrow> unat (w :: 'a::len word) mod 2 ^ k = 0"
  by (metis unat_mask_and unat_eq_zero) (metis unat_mask_and unat_eq_zero mask_eq_exp_minus_1)

lemma shifted_bit: "drop_bit k w AND 1 \<noteq> 0 \<longleftrightarrow> bit (w :: 'a::len word) k"
  by (simp add: drop_bit_and_1)

lemma mod_low_limb:
  assumes "k \<le> 64"
  shows "u128_val a mod 2 ^ k = unat (lo a) mod 2 ^ k"
proof -
  have "(2 :: nat) ^ k dvd 2 ^ 64" using assms by (rule le_imp_power_dvd)
  then have "u128_val a mod 2 ^ 64 mod 2 ^ k = u128_val a mod 2 ^ k" by (rule mod_mod_cancel)
  then show ?thesis by (simp only: u128_val_mod)
qed

lemma mod_high_limb:
  "u128_val a mod 2 ^ (64 + k) = (unat (hi a) mod 2 ^ k) * 2 ^ 64 + unat (lo a)"
  using mod_mult2_eq [of "u128_val a" "2 ^ 64" "2 ^ k"]
  by (simp only: power_add u128_val_div u128_val_mod mult.commute)

lemma split_bits_val:
  assumes s: "12 \<le> s" "s < 76" and small: "u128_val a div 2 ^ s < 2 ^ 53"
    and split: "split_bits a s = (keep, guard, sticky)"
  shows "unat keep = u128_val a div 2 ^ s"
    and "guard \<longleftrightarrow> bit (u128_val a) (s - 1)"
    and "sticky \<longleftrightarrow> u128_val a mod 2 ^ (s - 1) \<noteq> 0"
proof -
  let ?W = "to_w128 a"
  consider "s < 64" | "s = 64" | "64 < s" by linarith
  note range = this
  have bits: "bit (u128_val a) j \<longleftrightarrow> (if j < 64 then bit (lo a) j else j < 128 \<and> bit (hi a) (j - 64))"
    for j
    by (simp add: bit_unsigned_iff flip: unat_to_w128 bit_to_w128)
  obtain H L where HL: "\<And>j. bit (hi a) j \<longleftrightarrow> j < 64 \<and> H j" "\<And>j. bit (lo a) j \<longleftrightarrow> j < 64 \<and> L j"
    using bit_u64_bounded [of "hi a"] bit_u64_bounded [of "lo a"] by metis
  have "keep = ucast (drop_bit s ?W)"
  proof (rule bit_word_eqI)
    fix j assume "j < LENGTH(64)"
    then have j: "j < 64" by simp
    from range show "bit keep j = bit (ucast (drop_bit s ?W) :: u64) j"
      by cases (use split s j in \<open>auto simp: split_bits_def Let_def bit_simps bit_to_w128 HL
          add.commute [of s]\<close>)
  qed
  then have "unat keep = u128_val a div 2 ^ s mod 2 ^ 64"
    by (simp add: unsigned_ucast_eq take_bit_eq_mod unat_shiftr unat_to_w128)
  also have "\<dots> = u128_val a div 2 ^ s" using small by (intro mod_less) simp
  finally show "unat keep = u128_val a div 2 ^ s" .
  from range show "guard \<longleftrightarrow> bit (u128_val a) (s - 1)"
  proof cases
    case 2
    have "drop_bit 63 (lo a) \<noteq> 0 \<longleftrightarrow> bit (lo a) 63"
      using top_bit_to_w128 [of "v_u128_make (lo a) 0"] by (simp add: bit_to_w128)
    with 2 split show ?thesis by (simp add: split_bits_def bits)
  qed (use split s in \<open>auto simp: split_bits_def Let_def shifted_bit bits\<close>)
  from range show "sticky \<longleftrightarrow> u128_val a mod 2 ^ (s - 1) \<noteq> 0"
  proof cases
    case 1
    then show ?thesis
      using split by (auto simp: split_bits_def mask_word and_mask_zero mod_low_limb)
  next
    case 2
    then have "sticky \<longleftrightarrow> lo a AND 0x7fffffffffffffff \<noteq> 0"
      using split by (auto simp: split_bits_def)
    moreover have "lo a AND 0x7fffffffffffffff = 0 \<longleftrightarrow> unat (lo a) mod 2 ^ 63 = 0"
      using and_mask_zero(2) [of "lo a" 63] by simp
    moreover have "u128_val a mod 2 ^ (s - 1) = unat (lo a) mod 2 ^ 63"
      using 2 mod_low_limb [of 63 a] by simp
    ultimately show ?thesis by (simp only: simp_thms)
  next
    case 3
    let ?k = "s - 64 - 1"
    have "sticky \<longleftrightarrow> hi a AND (push_bit ?k 1 - 1) \<noteq> 0 \<or> lo a \<noteq> 0"
      using 3 split by (auto simp: split_bits_def Let_def)
    then have "sticky \<longleftrightarrow> unat (hi a) mod 2 ^ ?k \<noteq> 0 \<or> unat (lo a) \<noteq> 0"
      by (simp only: mask_word and_mask_zero(1) unat_eq_zero simp_thms)
    moreover have "u128_val a mod 2 ^ (s - 1) = (unat (hi a) mod 2 ^ ?k) * 2 ^ 64 + unat (lo a)"
      using 3 mod_high_limb [of a ?k] by simp
    ultimately show ?thesis by simp
  qed
qed

lemma round_shift_bits:
  assumes "0 < s"
  shows "round_shift n s =
    (if bit n (s - 1) \<and> (n mod 2 ^ (s - 1) \<noteq> 0 \<or> odd (n div 2 ^ s))
     then n div 2 ^ s + 1 else n div 2 ^ s)"
proof -
  obtain k where k: "s = Suc k" using assms by (cases s) auto
  define r where "r = n mod 2 ^ k"
  have "n mod 2 ^ s = 2 ^ k * (n div 2 ^ k mod 2) + r"
    using mod_mult2_eq [of n "2 ^ k" 2] by (simp add: k r_def mult.commute)
  moreover have "r < 2 ^ k" by (simp add: r_def)
  moreover have "bit n k \<longleftrightarrow> n div 2 ^ k mod 2 = 1"
    by (simp add: bit_iff_odd odd_iff_mod_2_eq_one)
  ultimately show ?thesis
    by (cases "bit n k") (auto simp: round_shift_def Let_def k simp flip: r_def)
qed

lemma v_u128_to_f64_val: "v_u128_to_f64 a = Some (rne53 (u128_val a))"
proof (cases "hi a = 0")
  case True
  then show ?thesis by (simp add: v_u128_to_f64_def u128_val_def)
next
  case False
  define n where "n = u128_val a"
  define s where "s = bitlen n - 53"
  have len: "bitlen n = 64 + bitlen (unat (hi a))"
    using False by (simp add: n_def bitlen_two_limbs)
  have "0 < unat (hi a)" using False by (simp add: unat_gt_0)
  then have hlen: "0 < bitlen (unat (hi a))" "bitlen (unat (hi a)) \<le> 64"
    using bitlen_bounds unat_word_bound [of "hi a"] by (auto intro: bitlen_le)
  then have s: "12 \<le> s" "s < 76" and bl: "bitlen n = 53 + s" by (auto simp: s_def len)
  have "0 < n" using False by (auto simp: n_def u128_val_eq_0 intro: gr0I)
  then have "n < 2 ^ (53 + s)" using bitlen_bounds [of n] by (simp add: bl)
  then have small: "n div 2 ^ s < 2 ^ 53"
    by (intro less_mult_imp_div_less) (simp add: power_add mult.commute)
  have tb: "top_bits 64 (hi a) 128 = Some (bitlen n)"
    using top_bits_count [of "hi a" 64 128] hlen \<open>0 < unat (hi a)\<close> by (simp add: len)
  obtain keep guard sticky where split: "split_bits a s = (keep, guard, sticky)"
    by (cases "split_bits a s") auto
  note parts = split_bits_val [OF s small [unfolded n_def] split, folded n_def]
  define keep' where "keep' = (if guard \<and> (sticky \<or> keep AND 1 \<noteq> 0) then keep + 1 else keep)"
  have "keep AND 1 \<noteq> 0 \<longleftrightarrow> odd (unat keep)"
    by (metis unat_and_1 unat_eq_zero even_iff_mod_2_eq_zero)
  moreover have "unat (keep + 1) = unat keep + 1"
    using small parts(1) by (simp add: unat_add_mod)
  ultimately have k: "unat keep' = round_shift n s"
    using s parts by (simp add: keep'_def round_shift_bits)
  have "unat keep' \<le> 2 ^ 53"
    using small by (auto simp: k round_shift_def Let_def)
  then have "v_u128_scale_pow2 (rne53 (unat keep')) s = unat keep' * 2 ^ s"
    using scale_exact [of "unat keep'" 0 s] rne53_exact' [of "unat keep'" 0] by simp
  moreover have "v_u128_to_f64 a = Some (v_u128_scale_pow2 (rne53 (unat keep')) s)"
    using False by (simp add: v_u128_to_f64_def tb Let_def split keep'_def flip: s_def)
  ultimately show ?thesis
    using s bl by (simp add: k rne53_def flip: n_def s_def)
qed

text \<open>C38: conversion to \<open>double\<close>. The portable conversions always return, and round once, from the
  whole magnitude: they are the native conversions of both types.\<close>

theorem int128_to_f64_equiv:
  "v_u128_to_f64 a = Some (v_u128_to_f64_native (to_w128 a)) \<and>
   v_i128_to_f64 a = Some (v_i128_to_f64_native (to_w128 a))"
proof
  show "v_u128_to_f64 a = Some (v_u128_to_f64_native (to_w128 a))"
    by (simp add: v_u128_to_f64_val v_u128_to_f64_native_def unat_to_w128)
  have "u128_val (v_u128_abs_of a) = nat \<bar>sint (to_w128 a)\<bar>" using abs_of_val [of a] by simp
  then show "v_i128_to_f64 a = Some (v_i128_to_f64_native (to_w128 a))"
    by (auto simp: v_i128_to_f64_def v_u128_to_f64_val v_i128_to_f64_native_def f64_of_int_def
        neg_to_w128 [simplified])
qed

subsection \<open>The rounding is to nearest\<close>

lemma nearest_multiple:
  fixes n s t :: nat
  shows "\<bar>int (round_shift n s * 2 ^ s) - int n\<bar> \<le> \<bar>int (t * 2 ^ s) - int n\<bar>"
proof -
  define S where "S = (2 :: nat) ^ s"
  define q r where "q = n div S" and "r = n mod S"
  have n: "n = q * S + r" unfolding q_def r_def by (rule div_mult_mod_eq [symmetric])
  have r: "r < S" by (simp add: r_def S_def)
  have x: "round_shift n s = q \<and> 2 * r \<le> S \<or> round_shift n s = q + 1 \<and> S \<le> 2 * r"
    unfolding round_shift_def Let_def S_def [symmetric] q_def [symmetric] r_def [symmetric]
    by auto
  define P T X where "P = q * S" and "T = t * S" and "X = round_shift n s * S"
  have "T \<le> P \<or> P + S \<le> T"
    by (metis P_def T_def mult_le_mono1 not_less_eq_eq mult_Suc add.commute)
  moreover have "X = P \<and> 2 * r \<le> S \<or> X = P + S \<and> S \<le> 2 * r"
    using x by (auto simp: X_def P_def)
  moreover have "n = P + r" using n by (simp add: P_def)
  ultimately have "\<bar>int X - int n\<bar> \<le> \<bar>int T - int n\<bar>" using r by auto
  then show ?thesis by (simp only: X_def T_def S_def)
qed

lemma rne53_nearest:
  assumes "m < 2 ^ 53"
  shows "\<bar>int (rne53 n) - int n\<bar> \<le> \<bar>int (m * 2 ^ e) - int n\<bar>"
proof (cases "bitlen n \<le> 53")
  case False
  define s where "s = bitlen n - 53"
  have bl: "bitlen n = 53 + s" "0 < s" using False by (simp_all add: s_def)
  have x: "rne53 n = round_shift n s * 2 ^ s" using False by (simp add: rne53_def s_def)
  show ?thesis
  proof (cases "s \<le> e")
    case True
    then have "m * 2 ^ e = (m * 2 ^ (e - s)) * 2 ^ s" by (simp flip: power_add)
    then show ?thesis using nearest_multiple [of n s "m * 2 ^ (e - s)"] by (simp only: x)
  next
    case False
    have "(2 :: nat) ^ e \<le> 2 ^ (s - 1)" using False by (intro power_increasing) auto
    then have "m * 2 ^ e \<le> 2 ^ 53 * 2 ^ (s - 1)" using assms by (intro mult_le_mono) simp_all
    also have "\<dots> = 2 ^ 52 * 2 ^ s" using bl(2) by (cases s) simp_all
    finally have y: "m * 2 ^ e \<le> 2 ^ 52 * 2 ^ s" .
    have "0 < n" using bl bitlen_pos [of 52 n] by simp
    then have "2 ^ 52 * 2 ^ s \<le> n"
      using bitlen_bounds [of n] bl by (simp add: power_add)
    moreover have "\<bar>int (rne53 n) - int n\<bar> \<le> \<bar>int (2 ^ 52 * 2 ^ s) - int n\<bar>"
      unfolding x by (rule nearest_multiple)
    ultimately show ?thesis using y by linarith
  qed
qed (simp add: rne53_def)

text \<open>C39: the portable conversion returns a double that is as near to the value as any double:
  no 53 bit significand times a power of two is nearer.\<close>

theorem u128_to_f64_nearest:
  "\<exists>x m k. v_u128_to_f64 a = Some x \<and> x = m * 2 ^ k \<and> m \<le> 2 ^ 53 \<and>
     (\<forall>m' < 2 ^ 53. \<forall>e. \<bar>int x - int (u128_val a)\<bar> \<le> \<bar>int (m' * 2 ^ e) - int (u128_val a)\<bar>)"
proof -
  let ?n = "u128_val a"
  have "\<exists>m k. rne53 ?n = m * 2 ^ k \<and> m \<le> 2 ^ 53"
  proof (cases "bitlen ?n \<le> 53")
    case True
    then have "(2 :: nat) ^ bitlen ?n \<le> 2 ^ 53" by (intro power_increasing) simp_all
    moreover have "?n < 2 ^ bitlen ?n" using bitlen_bounds [of ?n] by (cases "?n = 0") auto
    ultimately have "?n \<le> 2 ^ 53" by simp
    then show ?thesis using True by (intro exI [of _ ?n] exI [of _ 0]) (simp add: rne53_def)
  next
    case False
    then have "0 < ?n" using bitlen_pos [of 53 ?n] by simp
    then have "?n < 2 ^ (53 + (bitlen ?n - 53))" using False bitlen_bounds [of ?n] by simp
    then have "?n div 2 ^ (bitlen ?n - 53) < 2 ^ 53"
      by (intro less_mult_imp_div_less) (simp add: power_add mult.commute)
    then have "round_shift ?n (bitlen ?n - 53) \<le> 2 ^ 53" by (auto simp: round_shift_def Let_def)
    with False show ?thesis by (auto simp: rne53_def)
  qed
  then show ?thesis using rne53_nearest v_u128_to_f64_val by blast
qed

theorem u128_to_f64_nearest_witness:
  "\<exists>x. v_u128_to_f64 (v_u128_make 1 1) = Some x \<and>
     \<bar>int x - int (u128_val (v_u128_make 1 1))\<bar>
       \<le> \<bar>int ((2 ^ 53 - 1) * 2 ^ 11) - int (u128_val (v_u128_make 1 1))\<bar>"
proof -
  obtain x where x: "v_u128_to_f64 (v_u128_make 1 1) = Some x"
    and near: "\<forall>m' < 2 ^ 53. \<forall>e. \<bar>int x - int (u128_val (v_u128_make 1 1))\<bar>
      \<le> \<bar>int (m' * 2 ^ e) - int (u128_val (v_u128_make 1 1))\<bar>"
    using u128_to_f64_nearest [of "v_u128_make 1 1"] by blast
  have "(2 :: nat) ^ 53 - 1 < 2 ^ 53" by simp
  with near x show ?thesis by blast
qed

end
