(* ===== verification/Int128_From_Float.thy ===== *)
theory Int128_From_Float
  imports Int128_Float
begin

text \<open>
  Conversion from \<open>double\<close>. A finite double is its rational value. \<open>rnd\<close> is the rounding of the
  target's double arithmetic; the theorems need of it what IEEE 754 promises, that it is monotone
  and returns a value that is a double unchanged (\<open>ieee_rounding\<close>). C leaves the conversion of a
  double to an integer type undefined when the truncated value does not fit: that is \<open>None\<close>.
\<close>

definition is_f64 :: "rat \<Rightarrow> bool" where
  "is_f64 x \<longleftrightarrow> (\<exists>m e. \<bar>m\<bar> < 2 ^ 53 \<and> - 1074 \<le> e \<and> e \<le> 971 \<and> x = of_int m * 2 powi e)"

definition ieee_rounding :: "(rat \<Rightarrow> rat) \<Rightarrow> bool" where
  "ieee_rounding rnd \<longleftrightarrow> mono rnd \<and> (\<forall>x. is_f64 x \<longrightarrow> rnd x = x)"

definition trunc :: "rat \<Rightarrow> int" where
  "trunc x = (if x < 0 then - \<lfloor>- x\<rfloor> else \<lfloor>x\<rfloor>)"

definition f64_to_u64 :: "rat \<Rightarrow> u64 option" where
  "f64_to_u64 x = (if - 1 < x \<and> x < 2 ^ 64 then Some (word_of_int (trunc x)) else None)"

subsection \<open>The native conversions\<close>

definition v_u128_from_f64_native :: "rat \<Rightarrow> w128 option" where
  "v_u128_from_f64_native d =
     (if - 1 < d \<and> d < 2 ^ 128 then Some (word_of_int (trunc d)) else None)"

definition v_i128_from_f64_native :: "rat \<Rightarrow> w128 option" where
  "v_i128_from_f64_native d =
     (if - (2 ^ 127) - 1 < d \<and> d < 2 ^ 127 then Some (word_of_int (trunc d)) else None)"

subsection \<open>The portable conversions\<close>

text \<open>The two limbs of a positive magnitude, the statements both functions share.\<close>

definition f64_limbs :: "(rat \<Rightarrow> rat) \<Rightarrow> rat \<Rightarrow> v_int128 option" where
  "f64_limbs rnd mag =
     (case f64_to_u64 (rnd (mag / 18446744073709551616)) of
        None \<Rightarrow> None
      | Some h \<Rightarrow>
          (let rest = rnd (mag - rnd (rnd (of_nat (unat h)) * 18446744073709551616))
           in case f64_to_u64 rest of None \<Rightarrow> None | Some l \<Rightarrow> Some (v_u128_make h l)))"

definition v_u128_from_f64 :: "(rat \<Rightarrow> rat) \<Rightarrow> rat \<Rightarrow> v_int128 option" where
  "v_u128_from_f64 rnd d = (if d \<le> 0 then Some v_u128_zero else f64_limbs rnd d)"

definition v_i128_from_f64 :: "(rat \<Rightarrow> rat) \<Rightarrow> rat \<Rightarrow> v_int128 option" where
  "v_i128_from_f64 rnd d =
     (let mag = (if d < 0 then - d else d)
      in if mag \<le> 0 then Some (v_i128_from_u64 0)
         else map_option (\<lambda>bits. if d < 0 then v_u128_neg bits else bits) (f64_limbs rnd mag))"

subsection \<open>The limbs are exact\<close>

lemma is_f64_int: "\<bar>m\<bar> < 2 ^ 53 \<Longrightarrow> is_f64 (of_int m)"
  unfolding is_f64_def by (intro exI [of _ m] exI [of _ 0]) simp

lemma is_f64_scaled: "\<bar>m\<bar> < 2 ^ 53 \<Longrightarrow> - 1074 \<le> e \<Longrightarrow> e \<le> 971 \<Longrightarrow> is_f64 (of_int m * 2 powi e)"
  unfolding is_f64_def by blast

lemma is_f64_minus: "is_f64 x \<Longrightarrow> is_f64 (- x)"
proof -
  assume "is_f64 x"
  then obtain m e where "\<bar>m\<bar> < 2 ^ 53" "- 1074 \<le> e" "e \<le> 971" and x: "x = of_int m * 2 powi e"
    unfolding is_f64_def by blast
  then have "is_f64 (of_int (- m) * 2 powi e)" by (intro is_f64_scaled) simp_all
  then show "is_f64 (- x)" by (simp add: x)
qed

text \<open>Dividing a double of at least 1 by \<open>2 ^ 64\<close>, truncating, scaling back and subtracting never
  leaves the doubles.\<close>

lemma limb_doubles:
  assumes d: "is_f64 d" "1 \<le> d" and h: "h = \<lfloor>d / 2 ^ 64\<rfloor>" and small: "d < 2 ^ 128"
  shows "is_f64 (d / 2 ^ 64)" and "is_f64 (of_int h)" and "is_f64 (of_int h * 2 ^ 64)"
    and "is_f64 (d - of_int h * 2 ^ 64)"
proof -
  obtain m e where m: "\<bar>m\<bar> < 2 ^ 53" and e: "- 1074 \<le> e" "e \<le> 971"
    and dm: "d = of_int m * 2 powi e" using d(1) unfolding is_f64_def by blast
  have pos: "(0 :: rat) < 2 powi e" by simp
  have m0: "0 < m"
  proof (rule ccontr)
    assume "\<not> 0 < m"
    then have "d \<le> 0" using pos by (simp add: dm mult_le_0_iff)
    with d(2) show False by simp
  qed
  have e53: "- 53 < e"
  proof (rule ccontr)
    assume "\<not> - 53 < e"
    then have le: "(2 :: rat) powi e \<le> 2 powi (- int 53)" by (intro power_int_increasing) simp_all
    have "(of_int m :: rat) < 2 ^ 53"
      using m by (metis abs_less_iff of_int_less_iff of_int_numeral of_int_power)
    then have "d < 2 ^ 53 * 2 powi e"
      unfolding dm using pos by (rule mult_strict_right_mono)
    also have "\<dots> \<le> 2 ^ 53 * 2 powi (- int 53)" using le by (rule mult_left_mono) simp
    also have "\<dots> = 1" unfolding power_int_minus power_int_of_nat by (rule right_inverse) simp
    finally show False using d(2) by simp
  qed
  have split: "(2 :: rat) powi e = 2 powi (e - 64) * 2 ^ 64"
    using power_int_add [of "2 :: rat" "e - 64" 64] by simp
  have dd: "d / 2 ^ 64 = of_int m * 2 powi (e - 64)" unfolding dm split by simp
  then show "is_f64 (d / 2 ^ 64)" using m e e53 by (auto intro!: is_f64_scaled)
  have e128: "e < 128"
  proof (rule ccontr)
    assume "\<not> e < 128"
    then have "(2 :: rat) powi 128 \<le> 2 powi e" by (intro power_int_increasing) simp_all
    also have "\<dots> \<le> d" using m0 pos by (simp add: dm)
    finally show False using small by simp
  qed
  show "is_f64 (of_int h)" "is_f64 (of_int h * 2 ^ 64)" "is_f64 (d - of_int h * 2 ^ 64)"
  proof -
    have "is_f64 (of_int h) \<and> is_f64 (of_int h * 2 ^ 64) \<and> is_f64 (d - of_int h * 2 ^ 64)"
    proof (cases "64 \<le> e")
      case True
      then have "d / 2 ^ 64 = of_int (m * 2 ^ nat (e - 64))" unfolding dd by (simp add: power_int_def)
      then have hd: "of_int h = d / 2 ^ 64" by (simp only: h floor_of_int)
      moreover have "is_f64 0" using is_f64_int [of 0] by simp
      moreover have "d / 2 ^ 64 * 2 ^ 64 = d" by simp
      ultimately show ?thesis using d(1) \<open>is_f64 (d / 2 ^ 64)\<close> by (simp only: hd diff_self)
    next
      case False
      define j where "j = nat (64 - e)"
      have pj: "(2 :: rat) powi e * 2 ^ j = 2 ^ 64"
      proof -
        have "(2 :: rat) powi e * 2 ^ j = 2 powi e * 2 powi (int j)" by simp
        also have "\<dots> = 2 powi (e + int j)" by (rule power_int_add [symmetric]) simp
        also have "e + int j = 64" using False by (simp add: j_def)
        finally show ?thesis by simp
      qed
      then have "d / 2 ^ 64 = of_int m / of_int (2 ^ j)"
        unfolding dm pj [symmetric] using pos by simp
      then have hm: "h = m div 2 ^ j" by (simp only: h floor_divide_of_int_eq)
      have hb: "\<bar>h\<bar> < 2 ^ 53"
      proof -
        have "0 \<le> h" using m0 by (simp add: hm pos_imp_zdiv_nonneg_iff)
        moreover have "h \<le> m" using m0 zdiv_mono2 [of m 1 "2 ^ j"] by (simp add: hm)
        ultimately show ?thesis using m by simp
      qed
      have "m = h * 2 ^ j + m mod 2 ^ j" unfolding hm by (rule div_mult_mod_eq [symmetric])
      then have "of_int m = of_int h * (2 :: rat) ^ j + of_int (m mod 2 ^ j)"
        by (metis of_int_add of_int_mult of_int_numeral of_int_power)
      then have "d - of_int h * 2 ^ 64 = of_int (m mod 2 ^ j) * 2 powi e"
        unfolding dm pj [symmetric] by (simp add: algebra_simps)
      moreover have "\<bar>m mod 2 ^ j\<bar> < 2 ^ 53"
        using m m0 zmod_le_nonneg_dividend [of m "2 ^ j"] by simp
      ultimately have "is_f64 (d - of_int h * 2 ^ 64)"
        using e by (auto intro: is_f64_scaled)
      moreover have "is_f64 (of_int h * 2 ^ 64)"
        using is_f64_scaled [OF hb, of 64] by simp
      ultimately show ?thesis using hb is_f64_int by blast
    qed
    then show "is_f64 (of_int h)" "is_f64 (of_int h * 2 ^ 64)" "is_f64 (d - of_int h * 2 ^ 64)"
      by blast+
  qed
qed

lemma floor_limbs:
  fixes d :: rat
  shows "\<lfloor>d / 2 ^ 64\<rfloor> = \<lfloor>d\<rfloor> div 2 ^ 64" and "\<lfloor>d - of_int \<lfloor>d / 2 ^ 64\<rfloor> * 2 ^ 64\<rfloor> = \<lfloor>d\<rfloor> mod 2 ^ 64"
proof -
  define W :: int where "W = 2 ^ 64"
  have W: "0 < W" "(2 :: rat) ^ 64 = of_int W" by (simp_all add: W_def)
  obtain p r where "\<lfloor>d\<rfloor> div W * W = p" and "\<lfloor>d\<rfloor> = p + r" and "0 \<le> r" "r < W"
    using div_mult_mod_eq [of "\<lfloor>d\<rfloor>" W] pos_mod_bound [OF W(1), of "\<lfloor>d\<rfloor>"]
      pos_mod_sign [OF W(1), of "\<lfloor>d\<rfloor>"] by metis
  then have int: "\<lfloor>d\<rfloor> div W * W \<le> \<lfloor>d\<rfloor>" "\<lfloor>d\<rfloor> + 1 \<le> (\<lfloor>d\<rfloor> div W + 1) * W"
    by (simp_all only: distrib_right)
  then have "of_int (\<lfloor>d\<rfloor> div W * W) \<le> d" "d < of_int ((\<lfloor>d\<rfloor> div W + 1) * W)"
    by (simp_all only: le_floor_iff [symmetric] floor_less_iff [symmetric] add1_zle_eq)
  then have lower: "of_int (\<lfloor>d\<rfloor> div W) \<le> d / of_int W"
    and upper: "d / of_int W < of_int (\<lfloor>d\<rfloor> div W) + 1"
    using W(1) by (simp_all add: pos_le_divide_eq pos_divide_less_eq)
  have "\<lfloor>d / of_int W\<rfloor> = \<lfloor>d\<rfloor> div W" using lower upper by (rule floor_unique)
  then show div: "\<lfloor>d / 2 ^ 64\<rfloor> = \<lfloor>d\<rfloor> div 2 ^ 64" unfolding W(2) by (simp add: W_def)
  have "d - of_int \<lfloor>d / 2 ^ 64\<rfloor> * 2 ^ 64 = d - of_int (\<lfloor>d\<rfloor> div 2 ^ 64 * 2 ^ 64)"
    unfolding div by simp
  then have "\<lfloor>d - of_int \<lfloor>d / 2 ^ 64\<rfloor> * 2 ^ 64\<rfloor> = \<lfloor>d\<rfloor> - \<lfloor>d\<rfloor> div 2 ^ 64 * 2 ^ 64"
    by (simp only: floor_diff_of_int)
  then show "\<lfloor>d - of_int \<lfloor>d / 2 ^ 64\<rfloor> * 2 ^ 64\<rfloor> = \<lfloor>d\<rfloor> mod 2 ^ 64"
    by (simp only: minus_div_mult_eq_mod)
qed

lemma ieee_exact: "ieee_rounding rnd \<Longrightarrow> is_f64 x \<Longrightarrow> rnd x = x"
  by (simp add: ieee_rounding_def)

lemma f64_to_u64_nonneg:
  "0 \<le> x \<Longrightarrow> \<lfloor>x\<rfloor> < 2 ^ 64 \<Longrightarrow> f64_to_u64 x = Some (word_of_int \<lfloor>x\<rfloor>)"
  by (simp add: f64_to_u64_def trunc_def floor_less_iff)

lemma small_quotient:
  assumes "ieee_rounding rnd" "0 < d" "d < 1"
  shows "0 \<le> rnd (d / 2 ^ 64)" "rnd (d / 2 ^ 64) < 1"
proof -
  have m: "mono rnd" using assms(1) by (simp add: ieee_rounding_def)
  have "is_f64 0" using is_f64_int [of 0] by simp
  moreover have "is_f64 (of_int 1 * 2 powi (- int 64))" by (rule is_f64_scaled) simp_all
  then have "is_f64 (1 / 2 ^ 64)"
    unfolding power_int_minus power_int_of_nat by (simp only: divide_inverse of_int_1)
  ultimately have "rnd 0 = 0" "rnd (1 / 2 ^ 64) = 1 / 2 ^ 64"
    using ieee_exact [OF assms(1)] by blast+
  moreover have "rnd 0 \<le> rnd (d / 2 ^ 64)" "rnd (d / 2 ^ 64) \<le> rnd (1 / 2 ^ 64)"
    using assms(2,3) by (auto intro!: monoD [OF m] simp: field_simps)
  ultimately show "0 \<le> rnd (d / 2 ^ 64)" "rnd (d / 2 ^ 64) < 1" by simp_all
qed

lemma f64_limbs_exact:
  assumes r: "ieee_rounding rnd" and d: "is_f64 d" "0 < d" "d < 2 ^ 128"
  shows "\<exists>x. f64_limbs rnd d = Some x \<and> int (u128_val x) = \<lfloor>d\<rfloor>"
proof (cases "d < 1")
  case True
  have h: "f64_to_u64 (rnd (d / 2 ^ 64)) = Some 0"
  proof -
    have "\<lfloor>rnd (d / 2 ^ 64)\<rfloor> = 0"
      using small_quotient [OF r d(2) True] by (intro floor_unique) simp_all
    moreover have "rnd (d / 2 ^ 64) < 2 ^ 64"
      using small_quotient(2) [OF r d(2) True] by (rule less_trans) simp
    ultimately show ?thesis
      using small_quotient(1) [OF r d(2) True] by (simp add: f64_to_u64_def trunc_def)
  qed
  have "is_f64 0" using is_f64_int [of 0] by simp
  then have z: "rnd 0 = 0" by (rule ieee_exact [OF r])
  have fl: "\<lfloor>d\<rfloor> = 0" using d(2) True by (intro floor_unique) simp_all
  then have "f64_to_u64 d = Some 0" using f64_to_u64_nonneg [of d] d(2) by simp
  then show ?thesis
    using h z ieee_exact [OF r d(1)] fl by (simp add: f64_limbs_def u128_val_make)
next
  case False
  define h where "h = \<lfloor>d / 2 ^ 64\<rfloor>"
  define l where "l = \<lfloor>d\<rfloor> mod 2 ^ 64"
  have ge: "1 \<le> d" using False by simp
  note ex = limb_doubles [OF d(1) ge h_def d(3), THEN ieee_exact [OF r]]
  have hv: "h = \<lfloor>d\<rfloor> div 2 ^ 64" by (simp only: h_def floor_limbs)
  have "0 \<le> \<lfloor>d\<rfloor>" "\<lfloor>d\<rfloor> < 2 ^ 128" using d(2,3) by (simp_all add: floor_less_iff)
  then have "0 \<le> h" by (simp add: hv pos_imp_zdiv_nonneg_iff)
  moreover have "h < 2 ^ 64" using d(3) by (simp add: h_def floor_less_iff)
  ultimately have hb: "0 \<le> h" "h < 2 ^ 64" by simp_all
  have lb: "0 \<le> l" "l < 2 ^ 64" by (simp_all add: l_def)
  have uh: "int (unat (word_of_int h :: u64)) = h" and ul: "int (unat (word_of_int l :: u64)) = l"
    using hb lb by (simp_all add: uint_word_of_int)
  have "f64_to_u64 (d / 2 ^ 64) = Some (word_of_int h)"
    using f64_to_u64_nonneg [of "d / 2 ^ 64"] hb(2) d(2) by (simp add: h_def)
  then have H: "f64_to_u64 (rnd (d / 2 ^ 64)) = Some (word_of_int h)" by (simp only: ex)
  have "of_nat (unat (word_of_int h :: u64)) = (of_int h :: rat)"
    using uh by (metis of_int_of_nat_eq)
  then have rest: "rnd (d - rnd (rnd (of_nat (unat (word_of_int h :: u64))) * 2 ^ 64))
      = d - of_int h * 2 ^ 64"
    by (simp only: ex)
  have "of_int h * 2 ^ 64 \<le> d"
  proof -
    have "of_int h \<le> d / 2 ^ 64" unfolding h_def by (rule of_int_floor_le)
    then show ?thesis by (simp add: pos_le_divide_eq)
  qed
  then have L: "f64_to_u64 (d - of_int h * 2 ^ 64) = Some (word_of_int l)"
    using f64_to_u64_nonneg [of "d - of_int h * 2 ^ 64"] lb(2)
    unfolding h_def floor_limbs(2) l_def [symmetric] by simp
  have "f64_limbs rnd d = Some (v_u128_make (word_of_int h) (word_of_int l))"
    using H rest L by (simp add: f64_limbs_def)
  moreover have "int (u128_val (v_u128_make (word_of_int h) (word_of_int l))) = \<lfloor>d\<rfloor>"
    unfolding u128_val_make of_nat_add of_nat_mult uh ul by (simp add: hv l_def)
  ultimately show ?thesis by blast
qed

text \<open>C40: conversion from \<open>double\<close>. Wherever the native conversion of a double to \<open>u128\<close> (above -1
  and below \<open>2 ^ 128\<close>) or to \<open>i128\<close> is defined, the portable one returns the same value, the double
  truncated towards zero: the division by \<open>2 ^ 64\<close> and the subtraction of the high limb lose nothing.\<close>

theorem int128_from_f64_equiv:
  assumes "ieee_rounding rnd" "is_f64 d"
  shows "(v_u128_from_f64_native d = Some w \<longrightarrow>
           map_option to_w128 (v_u128_from_f64 rnd d) = Some w) \<and>
         (v_i128_from_f64_native d = Some w \<longrightarrow>
           map_option to_w128 (v_i128_from_f64 rnd d) = Some w)"
proof (intro conjI impI)
  have of_val: "to_w128 x = word_of_int \<lfloor>e\<rfloor>" if "int (u128_val x) = \<lfloor>e\<rfloor>" for x e
    using that by (metis of_int_of_nat_eq to_w128_of_val)
  have zero: "to_w128 v_u128_zero = 0" by (rule to_w128_eqI) simp
  {
    assume "v_u128_from_f64_native d = Some w"
    then have w: "- 1 < d" "d < 2 ^ 128" "w = word_of_int (trunc d)"
      by (auto simp: v_u128_from_f64_native_def split: if_splits)
    show "map_option to_w128 (v_u128_from_f64 rnd d) = Some w"
    proof (cases "0 < d")
      case True
      with f64_limbs_exact [OF assms True w(2)] w(3) show ?thesis
        by (auto simp: v_u128_from_f64_def of_val trunc_def)
    next
      case False
      with w(1) have "trunc d = 0" by (auto simp: trunc_def floor_eq_iff)
      with False show ?thesis by (simp add: w(3) v_u128_from_f64_def zero)
    qed
  next
    assume "v_i128_from_f64_native d = Some w"
    then have w: "- (2 ^ 127) - 1 < d" "d < 2 ^ 127" "w = word_of_int (trunc d)"
      by (auto simp: v_i128_from_f64_native_def split: if_splits)
    show "map_option to_w128 (v_i128_from_f64 rnd d) = Some w"
    proof (cases d "0 :: rat" rule: linorder_cases)
      case less
      have "is_f64 (- d)" using assms(2) by (rule is_f64_minus)
      moreover have "- d < 2 ^ 128" using w(1) by simp
      ultimately obtain x where x: "f64_limbs rnd (- d) = Some x" "int (u128_val x) = \<lfloor>- d\<rfloor>"
        using f64_limbs_exact [OF assms(1), of "- d"] less by auto
      then show ?thesis
        using less by (simp add: v_i128_from_f64_def Let_def to_w128_neg of_val w(3) trunc_def)
    next
      case equal
      then show ?thesis
        using zero by (simp add: v_i128_from_f64_def v_i128_from_u64_def v_u128_zero_def w(3) trunc_def)
    next
      case greater
      moreover have "d < 2 ^ 128" using w(2) by simp
      ultimately obtain x where x: "f64_limbs rnd d = Some x" "int (u128_val x) = \<lfloor>d\<rfloor>"
        using f64_limbs_exact [OF assms] by auto
      then show ?thesis
        using greater by (simp add: v_i128_from_f64_def Let_def of_val w(3) trunc_def)
    qed
  }
qed

theorem int128_from_f64_equiv_witness:
  "map_option to_w128 (v_u128_from_f64 id (5 * 2 ^ 70)) = Some (word_of_int (5 * 2 ^ 70)) \<and>
   map_option to_w128 (v_u128_from_f64 id (- 1 / 2)) = Some 0 \<and>
   map_option to_w128 (v_i128_from_f64 id (- 3)) = Some (- 3)"
proof -
  have r: "ieee_rounding id" by (simp add: ieee_rounding_def mono_def)
  have "is_f64 (of_int 5 * 2 powi (int 70))" by (rule is_f64_scaled) simp_all
  then have "is_f64 (5 * 2 ^ 70)" unfolding power_int_of_nat by simp
  moreover have "v_u128_from_f64_native (5 * 2 ^ 70) = Some (word_of_int (5 * 2 ^ 70))"
    by (simp add: v_u128_from_f64_native_def trunc_def)
  moreover have "is_f64 (of_int (- 1) * 2 powi (- int 1))" by (rule is_f64_scaled) simp_all
  then have "is_f64 (- 1 / 2)" unfolding power_int_minus power_int_of_nat by simp
  moreover have "\<lfloor>1 / 2 :: rat\<rfloor> = 0" by (simp add: floor_eq_iff)
  then have "v_u128_from_f64_native (- 1 / 2) = Some 0"
    by (simp add: v_u128_from_f64_native_def trunc_def)
  moreover have "is_f64 (- 3)" using is_f64_int [of "- 3"] by simp
  moreover have "v_i128_from_f64_native (- 3) = Some (- 3)"
    by (simp add: v_i128_from_f64_native_def trunc_def)
  ultimately show ?thesis
    using int128_from_f64_equiv [OF r, of "5 * 2 ^ 70" "word_of_int (5 * 2 ^ 70)"]
      int128_from_f64_equiv [OF r, of "- 1 / 2" 0] int128_from_f64_equiv [OF r, of "- 3" "- 3"] by simp
qed

end
