(* ===== verification/Readback.thy ===== *)
theory Readback
  imports Prelude
begin

text \<open>
  The Direct3D 11 readback machine, \<^verbatim>\<open>vlib/x/multiwindow/win32_readback_d3d11_helpers.h\<close>: up to 64
  requests to read a rectangle of a texture back into memory, each a record that goes from
  \<open>WAITING_SUBMIT\<close> through \<open>GPU_PENDING\<close> to \<open>READY\<close> or \<open>FAILED\<close>. The machine drives COM through
  the table \<open>readback_ops\<close>, whose functions act on a world of type \<open>'w\<close>.

  Names lose the prefix \<open>v_multiwindow_win32_readback_\<close> in favour of \<open>readback_\<close>. A handle
  (\<open>void *\<close>) is a natural number, \<open>NULL\<close> is 0, \<open>size_t\<close> is 64 bits, an \<open>int\<close> that the code uses as
  a truth value is a \<open>bool\<close>. The calling thread is the argument \<open>tid\<close>; whether an allocation
  succeeds is an argument too. A \<open>NULL\<close> machine, which every entry point refuses first, has no
  counterpart: the functions take the machine itself.
\<close>

definition D3D_OK :: int where "D3D_OK = 0"
definition D3D_S_FALSE :: int where "D3D_S_FALSE = 1"
definition D3D_WAS_STILL_DRAWING :: int where "D3D_WAS_STILL_DRAWING = - 2005270518"
definition FORMAT_BGRA8 :: u32 where "FORMAT_BGRA8 = 1"
definition FORMAT_RGBA8 :: u32 where "FORMAT_RGBA8 = 2"
definition STATUS_READY :: int where "STATUS_READY = 1"
definition STATUS_FAILED :: int where "STATUS_FAILED = 2"
definition MAX_RECORDS :: nat where "MAX_RECORDS = 64"

lemmas d3d_consts =
  D3D_OK_def D3D_S_FALSE_def D3D_WAS_STILL_DRAWING_def FORMAT_BGRA8_def FORMAT_RGBA8_def
  STATUS_READY_def STATUS_FAILED_def

text \<open>
  The table of operations. An out parameter is part of the result; \<open>map_staging\<close> gives the mapped
  memory as a function from byte offsets, or \<open>None\<close> where it leaves the pointer \<open>NULL\<close>.
\<close>

record 'w readback_ops =
  retain_source :: "nat \<Rightarrow> 'w \<Rightarrow> bool \<times> 'w"
  release_source :: "nat \<Rightarrow> 'w \<Rightarrow> 'w"
  describe_source :: "nat \<Rightarrow> 'w \<Rightarrow> (int \<times> u32 \<times> u32 \<times> u32) \<times> 'w"
  copy_region :: "nat \<Rightarrow> u32 \<Rightarrow> u32 \<Rightarrow> u32 \<Rightarrow> u32 \<Rightarrow> 'w \<Rightarrow> (int \<times> nat) \<times> 'w"
  end_event_query :: "'w \<Rightarrow> (int \<times> nat) \<times> 'w"
  get_event_data :: "nat \<Rightarrow> 'w \<Rightarrow> int \<times> 'w"
  map_staging :: "nat \<Rightarrow> 'w \<Rightarrow> (int \<times> (nat \<Rightarrow> u8) option \<times> u64) \<times> 'w"
  unmap_staging :: "nat \<Rightarrow> 'w \<Rightarrow> 'w"
  release_staging :: "nat \<Rightarrow> 'w \<Rightarrow> 'w"
  release_query :: "nat \<Rightarrow> 'w \<Rightarrow> 'w"
  device_removed_reason :: "'w \<Rightarrow> int \<times> 'w"

record readback_result =
  res_request :: u64
  res_state_identity :: u64
  res_renderer_generation :: u64
  res_window_slot :: u64
  res_window_generation :: u32
  res_submitted_frame :: u64
  res_status :: int
  res_width :: u32
  res_height :: u32
  res_stride :: u64
  res_byte_length :: u64

datatype readback_phase = FREE | WAITING_SUBMIT | GPU_PENDING | READY | FAILED

record readback_record =
  used :: bool
  taken :: bool
  copied :: bool
  phase :: readback_phase
  request :: u64
  state_identity :: u64
  renderer_generation :: u64
  window_slot :: u64
  window_generation :: u32
  producing_frame :: u64
  submitted_frame :: u64
  width :: u32
  height :: u32
  format :: u32
  public_stride :: u64
  byte_length :: u64
  staging :: nat
  query :: nat
  pixels :: "u8 list option"

text \<open>\<open>memset(record, 0, sizeof(*record))\<close>\<close>

definition zero_record :: readback_record where
  "zero_record =
     \<lparr>used = False, taken = False, copied = False, phase = FREE, request = 0,
      state_identity = 0, renderer_generation = 0, window_slot = 0, window_generation = 0,
      producing_frame = 0, submitted_frame = 0, width = 0, height = 0, format = 0,
      public_stride = 0, byte_length = 0, staging = 0, query = 0, pixels = None\<rparr>"

record 'w readback_machine =
  ops :: "'w readback_ops"
  world :: 'w
  m_state_identity :: u64
  m_renderer_generation :: u64
  owner_thread :: u64
  bound :: bool
  stopped :: bool
  device_lost :: bool
  records :: "readback_record list"

definition readback_is_owner :: "u64 \<Rightarrow> 'w readback_machine \<Rightarrow> bool" where
  "readback_is_owner tid m \<longleftrightarrow> owner_thread m \<noteq> 0 \<and> owner_thread m = tid"

subsection \<open>Helpers on one record\<close>

text \<open>A record together with the world: the native release, the full clear and the failure mark.\<close>

definition readback_release_native ::
  "'w readback_ops \<Rightarrow> readback_record \<times> 'w \<Rightarrow> readback_record \<times> 'w" where
  "readback_release_native f = (\<lambda>(r, w).
     let (r, w) = (if staging r \<noteq> 0 then (r\<lparr>staging := 0\<rparr>, release_staging f (staging r) w)
                   else (r, w))
     in if query r \<noteq> 0 then (r\<lparr>query := 0\<rparr>, release_query f (query r) w) else (r, w))"

definition readback_clear_record ::
  "'w readback_ops \<Rightarrow> readback_record \<times> 'w \<Rightarrow> readback_record \<times> 'w" where
  "readback_clear_record f rw = (zero_record, snd (readback_release_native f rw))"

definition readback_mark_failed ::
  "'w readback_ops \<Rightarrow> readback_record \<times> 'w \<Rightarrow> readback_record \<times> 'w" where
  "readback_mark_failed f = (\<lambda>(r, w).
     if \<not> used r \<or> phase r = READY \<or> phase r = FAILED then (r, w)
     else let (r, w) = readback_release_native f (r, w)
          in (r\<lparr>pixels := None, byte_length := 0, submitted_frame := 0, phase := FAILED\<rparr>, w))"

subsection \<open>Loops over the records\<close>

text \<open>
  Most loops visit each record once, in index order, and touch only that record and the world:
  \<open>each_record\<close> threads the world through them.
\<close>

fun each_record ::
  "(readback_record \<times> 'w \<Rightarrow> readback_record \<times> 'w) \<Rightarrow> readback_record list \<Rightarrow> 'w
    \<Rightarrow> readback_record list \<times> 'w" where
  "each_record g [] w = ([], w)"
| "each_record g (r # rs) w =
     (let (r', w) = g (r, w); (rs', w) = each_record g rs w in (r' # rs', w))"

definition on_records ::
  "(readback_record \<times> 'w \<Rightarrow> readback_record \<times> 'w) \<Rightarrow> 'w readback_machine \<Rightarrow> 'w readback_machine"
where
  "on_records g m =
     (let (rs, w) = each_record g (records m) (world m) in m\<lparr>records := rs, world := w\<rparr>)"

text \<open>One record of the machine, by index.\<close>

definition at_record ::
  "nat \<Rightarrow> (readback_record \<times> 'w \<Rightarrow> readback_record \<times> 'w) \<Rightarrow> 'w readback_machine
    \<Rightarrow> 'w readback_machine"
where
  "at_record i g m =
     (let (r, w) = g (records m ! i, world m) in m\<lparr>records := (records m)[i := r], world := w\<rparr>)"

definition readback_clear_all :: "'w readback_machine \<Rightarrow> 'w readback_machine" where
  "readback_clear_all m =
     on_records (\<lambda>(r, w). if used r then readback_clear_record (ops m) (r, w) else (r, w)) m"

fun first_index :: "(readback_record \<Rightarrow> bool) \<Rightarrow> readback_record list \<Rightarrow> nat option" where
  "first_index P [] = None"
| "first_index P (r # rs) = (if P r then Some 0 else map_option Suc (first_index P rs))"

definition readback_find_request :: "'w readback_machine \<Rightarrow> u64 \<Rightarrow> nat option" where
  "readback_find_request m req =
     (if req = 0 then None else first_index (\<lambda>r. used r \<and> request r = req) (records m))"

definition readback_free_record :: "'w readback_machine \<Rightarrow> nat option" where
  "readback_free_record m = first_index (\<lambda>r. \<not> used r) (records m)"

definition readback_latch_device_loss :: "'w readback_machine \<Rightarrow> 'w readback_machine" where
  "readback_latch_device_loss m =
     (if device_lost m then m
      else on_records (readback_mark_failed (ops m)) (m\<lparr>device_lost := True\<rparr>))"

subsection \<open>Create and bind\<close>

text \<open>
  The table as the caller passes it: every pointer may be \<open>NULL\<close>.
\<close>

record 'w raw_ops =
  raw_retain_source :: "(nat \<Rightarrow> 'w \<Rightarrow> bool \<times> 'w) option"
  raw_release_source :: "(nat \<Rightarrow> 'w \<Rightarrow> 'w) option"
  raw_describe_source :: "(nat \<Rightarrow> 'w \<Rightarrow> (int \<times> u32 \<times> u32 \<times> u32) \<times> 'w) option"
  raw_copy_region :: "(nat \<Rightarrow> u32 \<Rightarrow> u32 \<Rightarrow> u32 \<Rightarrow> u32 \<Rightarrow> 'w \<Rightarrow> (int \<times> nat) \<times> 'w) option"
  raw_end_event_query :: "('w \<Rightarrow> (int \<times> nat) \<times> 'w) option"
  raw_get_event_data :: "(nat \<Rightarrow> 'w \<Rightarrow> int \<times> 'w) option"
  raw_map_staging :: "(nat \<Rightarrow> 'w \<Rightarrow> (int \<times> (nat \<Rightarrow> u8) option \<times> u64) \<times> 'w) option"
  raw_unmap_staging :: "(nat \<Rightarrow> 'w \<Rightarrow> 'w) option"
  raw_release_staging :: "(nat \<Rightarrow> 'w \<Rightarrow> 'w) option"
  raw_release_query :: "(nat \<Rightarrow> 'w \<Rightarrow> 'w) option"
  raw_device_removed_reason :: "('w \<Rightarrow> int \<times> 'w) option"

definition readback_ops_valid :: "'w raw_ops option \<Rightarrow> bool" where
  "readback_ops_valid po =
     (case po of None \<Rightarrow> False
      | Some f \<Rightarrow> raw_retain_source f \<noteq> None \<and> raw_release_source f \<noteq> None
          \<and> raw_describe_source f \<noteq> None \<and> raw_copy_region f \<noteq> None
          \<and> raw_end_event_query f \<noteq> None \<and> raw_get_event_data f \<noteq> None
          \<and> raw_map_staging f \<noteq> None \<and> raw_unmap_staging f \<noteq> None
          \<and> raw_release_staging f \<noteq> None \<and> raw_release_query f \<noteq> None
          \<and> raw_device_removed_reason f \<noteq> None)"

definition ops_of_raw :: "'w raw_ops \<Rightarrow> 'w readback_ops" where
  "ops_of_raw f =
     \<lparr>retain_source = the (raw_retain_source f), release_source = the (raw_release_source f),
      describe_source = the (raw_describe_source f), copy_region = the (raw_copy_region f),
      end_event_query = the (raw_end_event_query f), get_event_data = the (raw_get_event_data f),
      map_staging = the (raw_map_staging f), unmap_staging = the (raw_unmap_staging f),
      release_staging = the (raw_release_staging f), release_query = the (raw_release_query f),
      device_removed_reason = the (raw_device_removed_reason f)\<rparr>"

definition readback_create ::
  "u64 \<Rightarrow> bool \<Rightarrow> 'w raw_ops option \<Rightarrow> 'w \<Rightarrow> 'w readback_machine option" where
  "readback_create tid alloc po w =
     (if \<not> readback_ops_valid po \<or> \<not> alloc then None
      else Some \<lparr>ops = ops_of_raw (the po), world = w, m_state_identity = 0,
                 m_renderer_generation = 0, owner_thread = tid, bound = False, stopped = False,
                 device_lost = False, records = replicate MAX_RECORDS zero_record\<rparr>)"

definition readback_bind ::
  "u64 \<Rightarrow> 'w readback_machine \<Rightarrow> u64 \<Rightarrow> u64 \<Rightarrow> bool \<times> 'w readback_machine" where
  "readback_bind tid m si rg =
     (if \<not> readback_is_owner tid m \<or> bound m \<or> stopped m \<or> si = 0 \<or> rg = 0 then (False, m)
      else (True, m\<lparr>m_state_identity := si, m_renderer_generation := rg, bound := True\<rparr>))"

subsection \<open>Stage\<close>

text \<open>\<open>public_stride\<close>, \<open>byte_length\<close> and \<open>size_valid\<close>, with the overflow checks of the code.\<close>

definition stage_size :: "u32 \<Rightarrow> u32 \<Rightarrow> u64 \<times> u64 \<times> bool" where
  "stage_size wd ht =
     (let stride = (ucast wd :: u64) * 4;
          size_valid = (wd = 0 \<or> stride div 4 = ucast wd)
      in if size_valid \<and> ht \<noteq> 0 \<and> stride \<le> (- 1) div ucast ht
         then (stride, stride * ucast ht, size_valid) else (stride, 0, False))"

text \<open>
  The acquisitions after the source is retained: \<open>staging\<close>, \<open>query\<close> and the flag \<open>valid\<close>, the
  format, and the world after the retained source is released again.
\<close>

definition stage_acquire ::
  "'w readback_ops \<Rightarrow> nat \<Rightarrow> u32 \<Rightarrow> u32 \<Rightarrow> u32 \<Rightarrow> u32 \<Rightarrow> bool \<Rightarrow> 'w
    \<Rightarrow> (bool \<times> nat \<times> nat \<times> u32) \<times> 'w" where
  "stage_acquire f source x y wd ht size_valid w =
     (let ((res, sw, sh, fmt), w) = describe_source f source w;
          valid = (res = D3D_OK \<and> (fmt = FORMAT_BGRA8 \<or> fmt = FORMAT_RGBA8)
            \<and> x \<le> sw \<and> y \<le> sh \<and> wd \<le> sw - x \<and> ht \<le> sh - y \<and> size_valid);
          ((valid, stg), w) =
            (if valid then
               (let ((res, s), w) = copy_region f source x y wd ht w
                in ((res = D3D_OK \<and> s \<noteq> 0, s), w))
             else ((False, 0), w));
          ((valid, qry), w) =
            (if valid then
               (let ((res, q), w) = end_event_query f w in ((res = D3D_OK \<and> q \<noteq> 0, q), w))
             else ((False, 0), w))
      in ((valid, stg, qry, fmt), release_source f source w))"

definition readback_stage ::
  "u64 \<Rightarrow> 'w readback_machine \<Rightarrow> u64 \<Rightarrow> u64 \<Rightarrow> u64 \<Rightarrow> u64 \<Rightarrow> u32 \<Rightarrow> nat \<Rightarrow> u32 \<Rightarrow> u32
    \<Rightarrow> u32 \<Rightarrow> u32 \<Rightarrow> u64 \<Rightarrow> bool \<Rightarrow> bool \<times> 'w readback_machine" where
  "readback_stage tid m req si rg slot gen source x y wd ht frame resize_pending =
     (if \<not> readback_is_owner tid m \<or> \<not> bound m \<or> stopped m \<or> device_lost m \<or> req = 0
         \<or> source = 0 \<or> si \<noteq> m_state_identity m \<or> rg \<noteq> m_renderer_generation m \<or> slot = 0
         \<or> gen = 0 \<or> wd = 0 \<or> ht = 0 \<or> frame = 0 \<or> resize_pending
         \<or> readback_find_request m req \<noteq> None
      then (False, m)
      else case readback_free_record m of None \<Rightarrow> (False, m)
      | Some i \<Rightarrow>
        (let f = ops m; (retained, w) = retain_source f source (world m)
         in if \<not> retained then (False, m\<lparr>world := w\<rparr>)
            else
              (let (stride, len, size_valid) = stage_size wd ht;
                   ((valid, stg, qry, fmt), w) = stage_acquire f source x y wd ht size_valid w
               in if \<not> valid then
                    (let w = (if stg \<noteq> 0 then release_staging f stg w else w);
                         w = (if qry \<noteq> 0 then release_query f qry w else w)
                     in (False, m\<lparr>world := w\<rparr>))
                  else
                    (True, m\<lparr>world := w, records := (records m)[i := zero_record
                       \<lparr>used := True, phase := WAITING_SUBMIT, request := req,
                        state_identity := si, renderer_generation := rg, window_slot := slot,
                        window_generation := gen, producing_frame := frame, width := wd,
                        height := ht, format := fmt, public_stride := stride,
                        byte_length := len, staging := stg, query := qry\<rparr>]\<rparr>))))"

subsection \<open>Submission, resize and device loss\<close>

definition waits_for :: "u64 \<Rightarrow> u32 \<Rightarrow> u64 \<Rightarrow> readback_record \<Rightarrow> bool" where
  "waits_for slot gen frame r \<longleftrightarrow> used r \<and> phase r = WAITING_SUBMIT \<and> window_slot r = slot
     \<and> window_generation r = gen \<and> producing_frame r = frame"

definition readback_resolve ::
  "u64 \<Rightarrow> 'w readback_machine \<Rightarrow> u64 \<Rightarrow> u32 \<Rightarrow> u64 \<Rightarrow> int \<Rightarrow> int \<Rightarrow> bool \<times> 'w readback_machine"
where
  "readback_resolve tid m slot gen frame succeeded failure_origin =
     (if \<not> readback_is_owner tid m \<or> \<not> bound m \<or> stopped m \<or> device_lost m \<or> slot = 0
         \<or> gen = 0 \<or> frame = 0 \<or> (succeeded \<noteq> 0 \<and> succeeded \<noteq> 1)
      then (False, m)
      else if length (filter (waits_for slot gen frame) (records m)) = 0 then (False, m)
      else
        (let (lost, m) =
           (if succeeded = 0 \<and> failure_origin \<noteq> 0 then
              (let (reason, w) = device_removed_reason (ops m) (world m)
               in (reason < 0, m\<lparr>world := w\<rparr>))
            else (False, m))
         in if lost then (True, readback_latch_device_loss m)
            else (True, on_records (\<lambda>(r, w).
                   if \<not> waits_for slot gen frame r then (r, w)
                   else if succeeded \<noteq> 0 then
                     (r\<lparr>submitted_frame := frame, phase := GPU_PENDING\<rparr>, w)
                   else readback_mark_failed (ops m) (r, w)) m)))"

definition readback_resize_submitted ::
  "u64 \<Rightarrow> 'w readback_machine \<Rightarrow> u64 \<Rightarrow> u32 \<Rightarrow> bool" where
  "readback_resize_submitted tid m slot gen =
     (if \<not> readback_is_owner tid m \<or> \<not> bound m \<or> stopped m \<or> slot = 0 \<or> gen = 0 then False
      else list_ex (\<lambda>r. used r \<and> phase r = GPU_PENDING \<and> window_slot r = slot
             \<and> window_generation r = gen) (records m))"

definition readback_notify_failure ::
  "u64 \<Rightarrow> 'w readback_machine \<Rightarrow> u64 \<Rightarrow> u64 \<Rightarrow> int \<Rightarrow> bool \<times> 'w readback_machine" where
  "readback_notify_failure tid m si rg failure_origin =
     (if \<not> readback_is_owner tid m \<or> \<not> bound m \<or> stopped m \<or> device_lost m
         \<or> failure_origin = 0 \<or> si \<noteq> m_state_identity m \<or> rg \<noteq> m_renderer_generation m
      then (False, m)
      else
        (let (reason, w) = device_removed_reason (ops m) (world m); m = m\<lparr>world := w\<rparr>
         in if reason \<ge> 0 then (False, m) else (True, readback_latch_device_loss m)))"

subsection \<open>Normalisation\<close>

text \<open>
  \<open>alloc\<close> is the outcome of \<open>malloc\<close>: \<open>None\<close> where it fails, otherwise the bytes the fresh block
  happens to hold. Offsets are computed in \<open>size_t\<close>, as in the code.
\<close>

definition put_bytes :: "nat \<Rightarrow> u8 list \<Rightarrow> u8 list \<Rightarrow> u8 list" where
  "put_bytes pos bs buf = fold (\<lambda>(k, b) buf. buf[pos + k := b]) (enumerate 0 bs) buf"

definition bgra_pixel :: "(nat \<Rightarrow> u8) \<Rightarrow> nat \<Rightarrow> u8 list" where
  "bgra_pixel src offset = [src (offset + 2), src (offset + 1), src offset, src (offset + 3)]"

definition normalize_row ::
  "readback_record \<Rightarrow> (nat \<Rightarrow> u8) \<Rightarrow> u64 \<Rightarrow> nat \<Rightarrow> u8 list \<Rightarrow> u8 list" where
  "normalize_row r mapped row_pitch row buf =
     (let src = (\<lambda>k. mapped (unat ((of_nat row :: u64) * row_pitch) + k));
          dst = unat ((of_nat row :: u64) * public_stride r)
      in if format r = FORMAT_RGBA8 then
           put_bytes dst (map src [0..<unat (public_stride r)]) buf
         else
           fold (\<lambda>column buf. put_bytes (dst + column * 4) (bgra_pixel src (column * 4)) buf)
             [0..<unat (width r)] buf)"

definition readback_normalize ::
  "(nat \<Rightarrow> u8) option \<Rightarrow> readback_record \<Rightarrow> (nat \<Rightarrow> u8) option \<Rightarrow> u64
    \<Rightarrow> bool \<times> readback_record" where
  "readback_normalize alloc r mapped row_pitch =
     (case mapped of None \<Rightarrow> (False, r)
      | Some bytes \<Rightarrow>
        if public_stride r = 0 \<or> byte_length r = 0 \<or> row_pitch < public_stride r then (False, r)
        else case alloc of None \<Rightarrow> (False, r)
        | Some fresh \<Rightarrow>
          (True, r\<lparr>pixels := Some (fold (normalize_row r bytes row_pitch) [0..<unat (height r)]
                     (map fresh [0..<unat (byte_length r)]))\<rparr>))"

subsection \<open>Poll\<close>

text \<open>
  One pass of the loop: the record is skipped (\<open>Skip\<close>), was settled (\<open>Published\<close>), or the device
  is gone and the function returns (\<open>Lost\<close>). \<open>lost_or_failed\<close> is the branch for a failing query
  and a failing map.
\<close>

datatype poll_outcome = Skip | Published | Lost

definition lost_or_failed ::
  "nat \<Rightarrow> 'w readback_machine \<Rightarrow> poll_outcome \<times> 'w readback_machine" where
  "lost_or_failed i m =
     (let (reason, w) = device_removed_reason (ops m) (world m); m = m\<lparr>world := w\<rparr>
      in if reason < 0 then (Lost, readback_latch_device_loss m)
         else (Published, at_record i (readback_mark_failed (ops m)) m))"

definition settle_record ::
  "(nat \<Rightarrow> u8) option \<Rightarrow> 'w readback_ops \<Rightarrow> (nat \<Rightarrow> u8) option \<Rightarrow> u64
    \<Rightarrow> readback_record \<times> 'w \<Rightarrow> readback_record \<times> 'w" where
  "settle_record alloc f mapped row_pitch = (\<lambda>(r, w).
     let stg = staging r;
         (normalized, r) = readback_normalize alloc r mapped row_pitch;
         w = unmap_staging f stg w;
         (r, w) = readback_release_native f (r, w)
     in if \<not> normalized then readback_mark_failed f (r, w) else (r\<lparr>phase := READY\<rparr>, w))"

definition poll_record ::
  "(nat \<Rightarrow> u8) option \<Rightarrow> nat \<Rightarrow> 'w readback_machine \<Rightarrow> poll_outcome \<times> 'w readback_machine" where
  "poll_record alloc i m =
     (let r = records m ! i
      in if \<not> used r \<or> phase r \<noteq> GPU_PENDING then (Skip, m)
         else
           (let (query_result, w) = get_event_data (ops m) (query r) (world m); m = m\<lparr>world := w\<rparr>
            in if query_result = D3D_S_FALSE then (Skip, m)
               else if query_result \<noteq> D3D_OK then lost_or_failed i m
               else
                 (let ((map_result, mapped, row_pitch), w) =
                        map_staging (ops m) (staging r) (world m);
                      m = m\<lparr>world := w\<rparr>
                  in if map_result = D3D_WAS_STILL_DRAWING then (Skip, m)
                     else if map_result \<noteq> D3D_OK then lost_or_failed i m
                     else (Published, at_record i (settle_record alloc (ops m) mapped row_pitch) m))))"

fun poll_loop ::
  "(nat \<Rightarrow> (nat \<Rightarrow> u8) option) \<Rightarrow> nat list \<Rightarrow> bool \<Rightarrow> 'w readback_machine
    \<Rightarrow> bool \<times> 'w readback_machine" where
  "poll_loop alloc [] published m = (published, m)"
| "poll_loop alloc (i # is) published m =
     (case poll_record (alloc i) i m of
        (Skip, m) \<Rightarrow> poll_loop alloc is published m
      | (Published, m) \<Rightarrow> poll_loop alloc is True m
      | (Lost, m) \<Rightarrow> (True, m))"

definition readback_poll ::
  "(nat \<Rightarrow> (nat \<Rightarrow> u8) option) \<Rightarrow> u64 \<Rightarrow> 'w readback_machine \<Rightarrow> bool \<times> 'w readback_machine"
where
  "readback_poll alloc tid m =
     (if \<not> readback_is_owner tid m \<or> \<not> bound m \<or> stopped m \<or> device_lost m then (False, m)
      else poll_loop alloc [0..<MAX_RECORDS] False m)"

subsection \<open>Take, copy, release\<close>

definition takeable :: "readback_record \<Rightarrow> bool" where
  "takeable r \<longleftrightarrow> used r \<and> \<not> taken r \<and> (phase r = READY \<or> phase r = FAILED)"

definition result_of :: "readback_record \<Rightarrow> readback_result" where
  "result_of r =
     (let ready = (phase r = READY)
      in \<lparr>res_request = request r, res_state_identity = state_identity r,
          res_renderer_generation = renderer_generation r, res_window_slot = window_slot r,
          res_window_generation = window_generation r,
          res_submitted_frame = (if ready then submitted_frame r else 0),
          res_status = (if ready then STATUS_READY else STATUS_FAILED),
          res_width = width r, res_height = height r,
          res_stride = (if ready then public_stride r else 0),
          res_byte_length = (if ready then byte_length r else 0)\<rparr>)"

definition readback_take ::
  "u64 \<Rightarrow> 'w readback_machine \<Rightarrow> readback_result option \<times> 'w readback_machine" where
  "readback_take tid m =
     (if \<not> readback_is_owner tid m \<or> stopped m then (None, m)
      else case first_index takeable (records m) of None \<Rightarrow> (None, m)
      | Some i \<Rightarrow> (let r = (records m ! i)\<lparr>taken := True\<rparr>
                  in (Some (result_of r), m\<lparr>records := (records m)[i := r]\<rparr>)))"

text \<open>The destination is a caller's buffer; the first \<open>byte_length\<close> bytes of it are replaced.\<close>

definition readback_copy ::
  "u64 \<Rightarrow> 'w readback_machine \<Rightarrow> u64 \<Rightarrow> u8 list option \<Rightarrow> u64
    \<Rightarrow> u8 list option \<times> 'w readback_machine" where
  "readback_copy tid m req dest capacity =
     (case readback_find_request m req of None \<Rightarrow> (None, m)
      | Some i \<Rightarrow>
        (let r = records m ! i
         in if \<not> readback_is_owner tid m \<or> \<not> taken r \<or> copied r \<or> phase r \<noteq> READY then (None, m)
            else case (pixels r, dest) of
              (Some px, Some d) \<Rightarrow>
                if capacity < byte_length r then (None, m)
                else (Some (put_bytes 0 (take (unat (byte_length r)) px) d),
                      m\<lparr>records := (records m)[i := r\<lparr>copied := True\<rparr>]\<rparr>)
            | _ \<Rightarrow> (None, m)))"

definition readback_release ::
  "u64 \<Rightarrow> 'w readback_machine \<Rightarrow> u64 \<Rightarrow> bool \<times> 'w readback_machine" where
  "readback_release tid m req =
     (case readback_find_request m req of None \<Rightarrow> (False, m)
      | Some i \<Rightarrow> if \<not> readback_is_owner tid m \<or> \<not> taken (records m ! i) then (False, m)
                  else (True, at_record i (readback_clear_record (ops m)) m))"

definition readback_cancel ::
  "u64 \<Rightarrow> 'w readback_machine \<Rightarrow> u64 \<Rightarrow> bool \<times> 'w readback_machine" where
  "readback_cancel tid m req =
     (case readback_find_request m req of None \<Rightarrow> (False, m)
      | Some i \<Rightarrow> if \<not> readback_is_owner tid m then (False, m)
                  else (True, at_record i (readback_clear_record (ops m)) m))"

definition of_window :: "u64 \<Rightarrow> u32 \<Rightarrow> readback_record \<Rightarrow> bool" where
  "of_window slot gen r \<longleftrightarrow> used r \<and> window_slot r = slot \<and> window_generation r = gen"

definition readback_quiesce_window ::
  "u64 \<Rightarrow> 'w readback_machine \<Rightarrow> u64 \<Rightarrow> u32 \<Rightarrow> nat \<times> 'w readback_machine" where
  "readback_quiesce_window tid m slot gen =
     (if \<not> readback_is_owner tid m \<or> slot = 0 \<or> gen = 0 then (0, m)
      else (length (filter (of_window slot gen) (records m)),
            on_records (\<lambda>(r, w). if of_window slot gen r
                                 then readback_clear_record (ops m) (r, w) else (r, w)) m))"

definition readback_restart ::
  "u64 \<Rightarrow> 'w readback_machine \<Rightarrow> u64 \<Rightarrow> u64 \<Rightarrow> bool \<times> 'w readback_machine" where
  "readback_restart tid m si rg =
     (if \<not> readback_is_owner tid m \<or> si = 0 \<or> rg = 0 then (False, m)
      else (True, (readback_clear_all m)\<lparr>m_state_identity := si, m_renderer_generation := rg,
                     device_lost := False, stopped := False, bound := True\<rparr>))"

definition readback_stop :: "u64 \<Rightarrow> 'w readback_machine \<Rightarrow> bool \<times> 'w readback_machine" where
  "readback_stop tid m =
     (if \<not> readback_is_owner tid m \<or> stopped m then (False, m)
      else (True, (readback_clear_all m)\<lparr>bound := False, stopped := True\<rparr>))"

definition readback_active :: "u64 \<Rightarrow> 'w readback_machine \<Rightarrow> nat" where
  "readback_active tid m =
     (if \<not> readback_is_owner tid m then 0 else length (filter used (records m)))"

text \<open>Destroying frees the machine: only the world is left.\<close>

definition readback_destroy :: "u64 \<Rightarrow> 'w readback_machine \<Rightarrow> bool \<times> ('w + 'w readback_machine)"
where
  "readback_destroy tid m =
     (if \<not> readback_is_owner tid m then (False, Inr m)
      else (True, Inl (world (readback_clear_all m))))"

subsection \<open>Calls and reachable machines\<close>

datatype readback_call =
    Bind u64 u64
  | Stage u64 u64 u64 u64 u32 nat u32 u32 u32 u32 u64 bool
  | Resolve u64 u32 u64 int int
  | Notify u64 u64 int
  | Poll "nat \<Rightarrow> (nat \<Rightarrow> u8) option"
  | Take
  | Copy u64 "u8 list option" u64
  | Release u64
  | Cancel u64
  | Quiesce u64 u32
  | Restart u64 u64
  | Stop

fun readback_exec :: "u64 \<Rightarrow> readback_call \<Rightarrow> 'w readback_machine \<Rightarrow> 'w readback_machine" where
  "readback_exec tid (Bind si rg) m = snd (readback_bind tid m si rg)"
| "readback_exec tid (Stage req si rg slot gen source x y wd ht frame rz) m =
     snd (readback_stage tid m req si rg slot gen source x y wd ht frame rz)"
| "readback_exec tid (Resolve slot gen frame ok origin) m =
     snd (readback_resolve tid m slot gen frame ok origin)"
| "readback_exec tid (Notify si rg origin) m = snd (readback_notify_failure tid m si rg origin)"
| "readback_exec tid (Poll alloc) m = snd (readback_poll alloc tid m)"
| "readback_exec tid Take m = snd (readback_take tid m)"
| "readback_exec tid (Copy req dest cap) m = snd (readback_copy tid m req dest cap)"
| "readback_exec tid (Release req) m = snd (readback_release tid m req)"
| "readback_exec tid (Cancel req) m = snd (readback_cancel tid m req)"
| "readback_exec tid (Quiesce slot gen) m = snd (readback_quiesce_window tid m slot gen)"
| "readback_exec tid (Restart si rg) m = snd (readback_restart tid m si rg)"
| "readback_exec tid Stop m = snd (readback_stop tid m)"

inductive readback_reachable :: "'w raw_ops \<Rightarrow> 'w \<Rightarrow> 'w readback_machine \<Rightarrow> bool"
  for f :: "'w raw_ops" and w0 :: 'w where
  start: "readback_create tid alloc (Some f) w0 = Some m \<Longrightarrow> readback_reachable f w0 m"
| call: "readback_reachable f w0 m \<Longrightarrow> readback_reachable f w0 (readback_exec tid c m)"

inductive_cases start_cases: "readback_reachable f w0 m"

end
