(* ===== verification/Readback_Inv.thy ===== *)
theory Readback_Inv
  imports Readback
begin

text \<open>
  The invariant of the readback machine: what each record holds in each phase, that the requests
  in use are distinct, and what \<open>device_lost\<close>, \<open>stopped\<close> and \<open>bound\<close> say of the records. Every
  call keeps it, whatever the COM functions return.
\<close>

subsection \<open>The invariant\<close>

definition sized :: "readback_record \<Rightarrow> bool" where
  "sized r \<longleftrightarrow> unat (byte_length r) = 4 * unat (width r) * unat (height r)"

definition in_flight :: "readback_record \<Rightarrow> bool" where
  "in_flight r \<longleftrightarrow> phase r = WAITING_SUBMIT \<or> phase r = GPU_PENDING"

definition phase_ok :: "readback_record \<Rightarrow> bool" where
  "phase_ok r =
     (case phase r of
        FREE \<Rightarrow> False
      | WAITING_SUBMIT \<Rightarrow> staging r \<noteq> 0 \<and> query r \<noteq> 0 \<and> pixels r = None \<and> submitted_frame r = 0
          \<and> sized r \<and> \<not> taken r
      | GPU_PENDING \<Rightarrow> staging r \<noteq> 0 \<and> query r \<noteq> 0 \<and> pixels r = None
          \<and> submitted_frame r = producing_frame r \<and> sized r \<and> \<not> taken r
      | READY \<Rightarrow> staging r = 0 \<and> query r = 0 \<and> submitted_frame r = producing_frame r \<and> sized r
          \<and> pixels r \<noteq> None \<and> length (the (pixels r)) = unat (byte_length r)
      | FAILED \<Rightarrow> staging r = 0 \<and> query r = 0 \<and> pixels r = None \<and> submitted_frame r = 0
          \<and> byte_length r = 0)"

definition record_ok :: "u64 \<Rightarrow> u64 \<Rightarrow> readback_record \<Rightarrow> bool" where
  "record_ok si rg r \<longleftrightarrow>
     (if \<not> used r then r = zero_record
      else request r \<noteq> 0 \<and> state_identity r = si \<and> renderer_generation r = rg
        \<and> window_slot r \<noteq> 0 \<and> window_generation r \<noteq> 0 \<and> producing_frame r \<noteq> 0
        \<and> width r \<noteq> 0 \<and> height r \<noteq> 0
        \<and> (format r = FORMAT_BGRA8 \<or> format r = FORMAT_RGBA8)
        \<and> unat (public_stride r) = 4 * unat (width r)
        \<and> (copied r \<longrightarrow> taken r \<and> phase r = READY) \<and> phase_ok r)"

definition distinct_requests :: "readback_record list \<Rightarrow> bool" where
  "distinct_requests rs \<longleftrightarrow>
     (\<forall>i < length rs. \<forall>j < length rs.
        used (rs ! i) \<and> used (rs ! j) \<and> request (rs ! i) = request (rs ! j) \<longrightarrow> i = j)"

definition machine_ok :: "'w readback_machine \<Rightarrow> bool" where
  "machine_ok m \<longleftrightarrow>
     length (records m) = MAX_RECORDS
     \<and> (\<forall>r \<in> set (records m). record_ok (m_state_identity m) (m_renderer_generation m) r)
     \<and> distinct_requests (records m)
     \<and> (device_lost m \<longrightarrow> (\<forall>r \<in> set (records m). \<not> in_flight r))
     \<and> (\<not> bound m \<longrightarrow> (\<forall>r \<in> set (records m). \<not> used r))
     \<and> (stopped m \<longrightarrow> \<not> bound m)
     \<and> (bound m \<longrightarrow> m_state_identity m \<noteq> 0 \<and> m_renderer_generation m \<noteq> 0)"

subsection \<open>Loops and single updates\<close>

lemma each_record_map:
  assumes "\<And>r w. fst (g (r, w)) = h r"
  shows "fst (each_record g rs w) = map h rs"
proof (induction rs arbitrary: w)
  case (Cons r rs)
  have "fst (g (r, w)) = h r" by (rule assms)
  then show ?case using Cons by (auto simp: split_beta)
qed simp

lemma first_index_SomeD:
  "first_index P rs = Some i \<Longrightarrow> i < length rs \<and> P (rs ! i) \<and> (\<forall>j < i. \<not> P (rs ! j))"
proof (induction rs arbitrary: i)
  case (Cons r rs)
  show ?case
  proof (cases "P r")
    case False
    then obtain k where "first_index P rs = Some k" "i = Suc k" using Cons.prems by auto
    with Cons.IH False show ?thesis by (auto simp: less_Suc_eq_0_disj)
  qed (use Cons.prems in simp)
qed simp

lemma first_index_None: "first_index P rs = None \<longleftrightarrow> (\<forall>r \<in> set rs. \<not> P r)"
  by (induction rs) auto

lemma distinct_requests_map:
  assumes "distinct_requests rs" "\<And>r. used (h r) \<Longrightarrow> used r \<and> request (h r) = request r"
  shows "distinct_requests (map h rs)"
  using assms by (simp add: distinct_requests_def) metis

lemma distinct_requests_updateI:
  assumes "distinct_requests rs"
    and "\<And>j. j < length rs \<Longrightarrow> j \<noteq> i \<Longrightarrow> used r \<Longrightarrow> used (rs ! j) \<Longrightarrow> request (rs ! j) \<noteq> request r"
  shows "distinct_requests (rs[i := r])"
  unfolding distinct_requests_def
proof (intro allI impI)
  fix a b
  assume ab: "a < length (rs[i := r])" "b < length (rs[i := r])"
    and eq: "used (rs[i := r] ! a) \<and> used (rs[i := r] ! b)
      \<and> request (rs[i := r] ! a) = request (rs[i := r] ! b)"
  show "a = b"
  proof (cases "a = i \<or> b = i")
    case True
    then show ?thesis
      using assms(2) [of a] assms(2) [of b] ab eq by (cases "a = b") (auto simp: nth_list_update)
  next
    case False
    then show ?thesis using assms(1) ab eq by (simp add: distinct_requests_def)
  qed
qed

lemma distinct_requests_update:
  assumes "distinct_requests rs" "i < length rs"
    and "used r \<Longrightarrow> used (rs ! i) \<and> request r = request (rs ! i)"
  shows "distinct_requests (rs[i := r])"
  using assms by (intro distinct_requests_updateI) (auto simp: distinct_requests_def)

lemma distinct_requests_insert:
  assumes "distinct_requests rs" "\<forall>r' \<in> set rs. used r' \<longrightarrow> request r' \<noteq> request r"
  shows "distinct_requests (rs[i := r])"
  using assms by (intro distinct_requests_updateI) auto

lemma in_set_updateE:
  assumes "x \<in> set (xs[i := y])" obtains "x \<in> set xs" | "x = y"
  using assms set_update_subset_insert [of xs i y] by blast

subsection \<open>What the helpers do to a record\<close>

definition failed_record :: "readback_record \<Rightarrow> readback_record" where
  "failed_record r =
     (if \<not> used r \<or> phase r = READY \<or> phase r = FAILED then r
      else r\<lparr>staging := 0, query := 0, pixels := None, byte_length := 0, submitted_frame := 0,
             phase := FAILED\<rparr>)"

lemma release_native_record:
  "fst (readback_release_native f (r, w)) = r\<lparr>staging := 0, query := 0\<rparr>"
  by (auto simp: readback_release_native_def Let_def)

lemma mark_failed_record: "fst (readback_mark_failed f (r, w)) = failed_record r"
  using release_native_record [of f r w]
  by (auto simp: readback_mark_failed_def failed_record_def split: prod.split)

lemma clear_record_record: "fst (readback_clear_record f (r, w)) = zero_record"
  by (simp add: readback_clear_record_def)

lemma zero_record_unused [simp]: "\<not> used zero_record" "\<not> in_flight zero_record"
  "staging zero_record = 0" "query zero_record = 0" "record_ok si rg zero_record"
  by (simp_all add: zero_record_def record_ok_def in_flight_def)

lemma failed_record_ok: "record_ok si rg r \<Longrightarrow> record_ok si rg (failed_record r)"
  by (auto simp: failed_record_def record_ok_def phase_ok_def split: readback_phase.splits)

lemma failed_record_not_in_flight: "record_ok si rg r \<Longrightarrow> \<not> in_flight (failed_record r)"
  by (auto simp: failed_record_def record_ok_def in_flight_def zero_record_def)

lemma failed_record_same: "used (failed_record r) = used r" "request (failed_record r) = request r"
  by (simp_all add: failed_record_def)

subsection \<open>Clearing, failing and losing the device\<close>

lemma on_records_fields [simp]:
  "ops (on_records g m) = ops m" "m_state_identity (on_records g m) = m_state_identity m"
  "m_renderer_generation (on_records g m) = m_renderer_generation m"
  "owner_thread (on_records g m) = owner_thread m" "bound (on_records g m) = bound m"
  "stopped (on_records g m) = stopped m" "device_lost (on_records g m) = device_lost m"
  "records (on_records g m) = fst (each_record g (records m) (world m))"
  "world (on_records g m) = snd (each_record g (records m) (world m))"
  by (simp_all add: on_records_def split: prod.split)

lemma at_record_fields [simp]:
  "ops (at_record i g m) = ops m" "m_state_identity (at_record i g m) = m_state_identity m"
  "m_renderer_generation (at_record i g m) = m_renderer_generation m"
  "owner_thread (at_record i g m) = owner_thread m" "bound (at_record i g m) = bound m"
  "stopped (at_record i g m) = stopped m" "device_lost (at_record i g m) = device_lost m"
  "records (at_record i g m) = (records m)[i := fst (g (records m ! i, world m))]"
  "world (at_record i g m) = snd (g (records m ! i, world m))"
  by (simp_all add: at_record_def split: prod.split)

lemma clear_all_records:
  assumes "machine_ok m"
  shows "records (readback_clear_all m) = replicate MAX_RECORDS zero_record"
proof -
  let ?h = "\<lambda>r. if used r then zero_record else r"
  have "records (readback_clear_all m) = map ?h (records m)"
    unfolding readback_clear_all_def on_records_fields
    by (rule each_record_map) (simp add: clear_record_record)
  also have "\<dots> = map (\<lambda>_. zero_record) (records m)"
    using assms by (intro map_cong) (auto simp: machine_ok_def record_ok_def)
  finally show ?thesis using assms by (simp add: map_replicate_const machine_ok_def)
qed

lemma latch_records:
  "\<not> device_lost m \<Longrightarrow> records (readback_latch_device_loss m) = map failed_record (records m)"
  unfolding readback_latch_device_loss_def
  by (simp add: each_record_map [where h = failed_record] mark_failed_record)

lemma latch_fields [simp]:
  "ops (readback_latch_device_loss m) = ops m"
  "m_state_identity (readback_latch_device_loss m) = m_state_identity m"
  "m_renderer_generation (readback_latch_device_loss m) = m_renderer_generation m"
  "owner_thread (readback_latch_device_loss m) = owner_thread m"
  "bound (readback_latch_device_loss m) = bound m"
  "stopped (readback_latch_device_loss m) = stopped m"
  "device_lost (readback_latch_device_loss m)"
  by (simp_all add: readback_latch_device_loss_def)

lemma latch_ok:
  assumes "machine_ok m" shows "machine_ok (readback_latch_device_loss m)"
proof (cases "device_lost m")
  case True
  with assms show ?thesis by (simp add: readback_latch_device_loss_def)
next
  case False
  have d: "distinct_requests (map failed_record (records m))"
    using assms by (intro distinct_requests_map) (simp_all add: machine_ok_def failed_record_same)
  have "record_ok (m_state_identity m) (m_renderer_generation m) (failed_record r)"
    "\<not> in_flight (failed_record r)" if "r \<in> set (records m)" for r
    using assms that
    by (auto simp: machine_ok_def intro: failed_record_ok dest: failed_record_not_in_flight)
  with assms d show ?thesis
    unfolding machine_ok_def latch_records [OF False] latch_fields
    by (auto simp: failed_record_same)
qed

lemma world_ok [simp]: "machine_ok (m\<lparr>world := w\<rparr>) = machine_ok m"
  by (simp add: machine_ok_def)

lemma update_ok:
  assumes "machine_ok m" and "i < length (records m)"
    and "record_ok (m_state_identity m) (m_renderer_generation m) r"
    and "used r \<Longrightarrow> used (records m ! i) \<and> request r = request (records m ! i)"
    and "in_flight r \<Longrightarrow> in_flight (records m ! i)"
  shows "machine_ok (m\<lparr>records := (records m)[i := r]\<rparr>)"
proof -
  have i: "records m ! i \<in> set (records m)" using assms(2) by simp
  have "distinct_requests ((records m)[i := r])"
    using assms(1,2,4) by (intro distinct_requests_update) (simp_all add: machine_ok_def)
  with assms i show ?thesis
    by (auto simp: machine_ok_def elim!: in_set_updateE)
qed

lemma at_record_ok:
  assumes "machine_ok m" and "i < length (records m)" and "\<And>w. fst (g (records m ! i, w)) = r"
    and "record_ok (m_state_identity m) (m_renderer_generation m) r"
    and "used r \<Longrightarrow> used (records m ! i) \<and> request r = request (records m ! i)"
    and "in_flight r \<Longrightarrow> in_flight (records m ! i)"
  shows "machine_ok (at_record i g m)"
proof -
  have "at_record i g m = (m\<lparr>records := (records m)[i := r]\<rparr>)
      \<lparr>world := snd (g (records m ! i, world m))\<rparr>"
    using assms(3) by (simp add: at_record_def split_beta)
  then show ?thesis using update_ok [OF assms(1,2,4-6)] by simp
qed

lemma clear_at_ok: "machine_ok m \<Longrightarrow> i < length (records m)
    \<Longrightarrow> machine_ok (at_record i (readback_clear_record (ops m)) m)"
  by (rule at_record_ok [where r = zero_record]) (simp_all add: clear_record_record)

lemma record_at: "machine_ok m \<Longrightarrow> i < length (records m)
    \<Longrightarrow> record_ok (m_state_identity m) (m_renderer_generation m) (records m ! i)"
  by (simp add: machine_ok_def)

lemma fail_at_ok:
  assumes "machine_ok m" "i < length (records m)"
  shows "machine_ok (at_record i (readback_mark_failed (ops m)) m)"
proof (rule at_record_ok [where r = "failed_record (records m ! i)"])
  show "fst (readback_mark_failed (ops m) (records m ! i, w)) = failed_record (records m ! i)" for w
    by (rule mark_failed_record)
  note ok = record_at [OF assms]
  show "record_ok (m_state_identity m) (m_renderer_generation m) (failed_record (records m ! i))"
    using ok by (rule failed_record_ok)
  show "in_flight (failed_record (records m ! i)) \<Longrightarrow> in_flight (records m ! i)"
    using failed_record_not_in_flight [OF ok] by simp
qed (use assms in \<open>simp_all add: failed_record_same\<close>)

subsection \<open>Sizes\<close>

lemma unat_ucast32: "unat (ucast (w :: u32) :: u64) = unat w"
  by (simp add: unsigned_ucast_eq take_bit_nat_eq_self less_le_trans [OF unat_word_bound])

lemma stage_size_stride: "unat (fst (stage_size wd ht)) = 4 * unat wd"
proof -
  have "unat ((ucast wd :: u64) * 4) = 4 * unat wd"
    using unat_word_bound [of wd] by (simp add: unat_mult_mod unat_ucast32)
  then show ?thesis by (simp add: stage_size_def Let_def)
qed

lemma stage_size_valid:
  assumes "stage_size wd ht = (stride, len, True)"
  shows "unat stride = 4 * unat wd \<and> unat len = 4 * unat wd * unat ht"
proof -
  have stride: "unat stride = 4 * unat wd" using stage_size_stride [of wd ht] assms by simp
  have guard: "ht \<noteq> 0" "stride \<le> (- 1) div ucast ht" "len = stride * ucast ht"
    using assms by (auto simp: stage_size_def Let_def split: if_splits)
  have ht: "0 < unat ht" using guard(1) by (simp add: unat_gt_0)
  have "unat stride \<le> (2 ^ 64 - 1) div unat ht"
    using guard(2) by (simp add: word_le_nat_alt unat_div_distrib unat_max_word unat_ucast32)
  then have "unat stride * unat ht \<le> 2 ^ 64 - 1"
    using ht by (metis div_times_less_eq_dividend mult_le_mono1 order_trans)
  then have "unat len = unat stride * unat ht"
    by (simp add: guard(3) unat_mult_mod unat_ucast32)
  with stride show ?thesis by simp
qed

subsection \<open>Normalised pixels\<close>

lemma put_bytes_length [simp]: "length (put_bytes pos bs buf) = length buf"
proof -
  have "length (fold (\<lambda>(k, b) buf. buf[pos + k := b]) xs buf) = length buf" for xs
    by (induction xs arbitrary: buf) auto
  then show ?thesis by (simp add: put_bytes_def)
qed

lemma fold_length:
  assumes "\<And>x b. length (g x b) = length b"
  shows "length (fold g xs buf) = length (buf :: 'b list)"
  by (induction xs arbitrary: buf) (simp_all add: assms)

lemma normalize_row_length [simp]: "length (normalize_row r mapped pitch row buf) = length buf"
  by (simp add: normalize_row_def Let_def fold_length)

lemma normalize_success:
  assumes "readback_normalize alloc r mapped pitch = (True, r')"
  shows "\<exists>px. r' = r\<lparr>pixels := Some px\<rparr> \<and> length px = unat (byte_length r)"
  using assms
  by (auto simp: readback_normalize_def fold_length split: option.splits if_splits)

lemma normalize_failure: "readback_normalize alloc r mapped pitch = (False, r') \<Longrightarrow> r' = r"
  by (auto simp: readback_normalize_def split: option.splits if_splits)

subsection \<open>Every call keeps the invariant\<close>

lemma create_ok: "readback_create tid alloc po w = Some m \<Longrightarrow> machine_ok m"
  by (auto simp: readback_create_def machine_ok_def distinct_requests_def split: if_splits)

lemma bind_ok:
  assumes "machine_ok m" shows "machine_ok (snd (readback_bind tid m si rg))"
  using assms by (auto simp: readback_bind_def machine_ok_def record_ok_def)

lemma fst_snd_pairs: "(case p of (a, b) \<Rightarrow> h a b) = h (fst p) (snd p)"
  by (simp add: split_beta)

lemma stage_acquire_valid:
  assumes "stage_acquire f source x y wd ht sv w = ((True, stg, qry, fmt), w')"
  shows "stg \<noteq> 0 \<and> qry \<noteq> 0 \<and> sv \<and> (fmt = FORMAT_BGRA8 \<or> fmt = FORMAT_RGBA8)"
  using assms by (auto simp: stage_acquire_def Let_def split: prod.splits if_splits)

text \<open>The guard of \<open>stage\<close> and the record it writes.\<close>

definition stage_guard ::
  "u64 \<Rightarrow> 'w readback_machine \<Rightarrow> u64 \<Rightarrow> u64 \<Rightarrow> u64 \<Rightarrow> u64 \<Rightarrow> u32 \<Rightarrow> nat \<Rightarrow> u32 \<Rightarrow> u32 \<Rightarrow> u64
    \<Rightarrow> bool \<Rightarrow> bool" where
  "stage_guard tid m req si rg slot gen source wd ht frame rz \<longleftrightarrow>
     readback_is_owner tid m \<and> bound m \<and> \<not> stopped m \<and> \<not> device_lost m \<and> req \<noteq> 0
     \<and> source \<noteq> 0 \<and> si = m_state_identity m \<and> rg = m_renderer_generation m \<and> slot \<noteq> 0
     \<and> gen \<noteq> 0 \<and> wd \<noteq> 0 \<and> ht \<noteq> 0 \<and> frame \<noteq> 0 \<and> \<not> rz \<and> readback_find_request m req = None"

definition staged_record ::
  "u64 \<Rightarrow> u64 \<Rightarrow> u64 \<Rightarrow> u64 \<Rightarrow> u32 \<Rightarrow> u64 \<Rightarrow> u32 \<Rightarrow> u32 \<Rightarrow> u32 \<Rightarrow> u64 \<Rightarrow> u64 \<Rightarrow> nat \<Rightarrow> nat
    \<Rightarrow> readback_record" where
  "staged_record req si rg slot gen frame wd ht fmt stride len stg qry =
     zero_record\<lparr>used := True, phase := WAITING_SUBMIT, request := req, state_identity := si,
       renderer_generation := rg, window_slot := slot, window_generation := gen,
       producing_frame := frame, width := wd, height := ht, format := fmt,
       public_stride := stride, byte_length := len, staging := stg, query := qry\<rparr>"

lemma stage_cases:
  obtains (refused) "readback_stage tid m req si rg slot gen source x y wd ht frame rz = (False, m)"
  | (unretained) w where "retain_source (ops m) source (world m) = (False, w)"
      "readback_stage tid m req si rg slot gen source x y wd ht frame rz = (False, m\<lparr>world := w\<rparr>)"
  | (invalid) w1 sv stg qry fmt w2 where "retain_source (ops m) source (world m) = (True, w1)"
      "stage_acquire (ops m) source x y wd ht sv w1 = ((False, stg, qry, fmt), w2)"
      "readback_stage tid m req si rg slot gen source x y wd ht frame rz = (False, m\<lparr>world :=
         (let w = (if stg \<noteq> 0 then release_staging (ops m) stg w2 else w2)
          in if qry \<noteq> 0 then release_query (ops m) qry w else w)\<rparr>)"
  | (staged) i w1 stride len sv stg qry fmt w2 where
      "stage_guard tid m req si rg slot gen source wd ht frame rz"
      "readback_free_record m = Some i" "stage_size wd ht = (stride, len, sv)"
      "retain_source (ops m) source (world m) = (True, w1)"
      "stage_acquire (ops m) source x y wd ht sv w1 = ((True, stg, qry, fmt), w2)"
      "readback_stage tid m req si rg slot gen source x y wd ht frame rz = (True, m\<lparr>world := w2,
         records := (records m)
           [i := staged_record req si rg slot gen frame wd ht fmt stride len stg qry]\<rparr>)"
proof -
  let ?G = "stage_guard tid m req si rg slot gen source wd ht frame rz"
  obtain ret w1 where ret: "retain_source (ops m) source (world m) = (ret, w1)" by fastforce
  obtain stride len sv where size: "stage_size wd ht = (stride, len, sv)"
    by (cases "stage_size wd ht") auto
  obtain valid stg qry fmt w2 where
    acq: "stage_acquire (ops m) source x y wd ht sv w1 = ((valid, stg, qry, fmt), w2)"
    by (cases "stage_acquire (ops m) source x y wd ht sv w1") auto
  have step: "readback_stage tid m req si rg slot gen source x y wd ht frame rz =
    (if \<not> ?G then (False, m) else
     case readback_free_record m of None \<Rightarrow> (False, m) | Some i \<Rightarrow>
       if \<not> ret then (False, m\<lparr>world := w1\<rparr>) else
       if \<not> valid then (False, m\<lparr>world :=
         (let w = (if stg \<noteq> 0 then release_staging (ops m) stg w2 else w2)
          in if qry \<noteq> 0 then release_query (ops m) qry w else w)\<rparr>)
       else (True, m\<lparr>world := w2, records := (records m)
           [i := staged_record req si rg slot gen frame wd ht fmt stride len stg qry]\<rparr>))"
    unfolding readback_stage_def stage_guard_def Let_def ret size
    by (simp add: staged_record_def acq split: option.split)
  show thesis
  proof (cases "?G \<and> readback_free_record m \<noteq> None")
    case False
    then show thesis using refused by (auto simp: step split: option.splits)
  next
    case True
    then obtain i where i: "readback_free_record m = Some i" by blast
    from True have G: ?G by blast
    show thesis
    proof (cases ret)
      case False
      have "readback_stage tid m req si rg slot gen source x y wd ht frame rz
          = (False, m\<lparr>world := w1\<rparr>)"
        unfolding step using G i False by simp
      with ret False show thesis by (intro unretained) auto
    next
      case retained: True
      show thesis
      proof (cases valid)
        case False
        show thesis
          by (rule invalid [of w1 sv stg qry fmt w2]) (use ret retained acq False G i in
              \<open>simp_all add: step\<close>)
      next
        case True
        show thesis
          by (rule staged [of i stride len sv w1 stg qry fmt w2])
            (use ret retained acq True G i size in \<open>simp_all add: step\<close>)
      qed
    qed
  qed
qed

lemma stage_ok:
  assumes "machine_ok m"
  shows "machine_ok (snd (readback_stage tid m req si rg slot gen source x y wd ht frame rz))"
proof (cases rule: stage_cases [of tid m req si rg slot gen source x y wd ht frame rz])
  case (staged i w1 stride len sv stg qry fmt w2)
  let ?r = "staged_record req si rg slot gen frame wd ht fmt stride len stg qry"
  note acq = stage_acquire_valid [OF staged(5)]
  with staged(3) have sizes: "unat stride = 4 * unat wd" "unat len = 4 * unat wd * unat ht"
    using stage_size_valid [of wd ht stride len] by auto
  then have "record_ok (m_state_identity m) (m_renderer_generation m) ?r"
    using staged(1) acq
    by (simp add: staged_record_def stage_guard_def record_ok_def phase_ok_def sized_def
        zero_record_def)
  moreover have "distinct_requests ((records m)[i := ?r])"
    using assms staged(1)
    by (intro distinct_requests_insert) (auto simp: machine_ok_def stage_guard_def
        readback_find_request_def first_index_None staged_record_def)
  ultimately have "machine_ok (m\<lparr>world := w2, records := (records m)[i := ?r]\<rparr>)"
    using assms staged(1) by (auto simp: machine_ok_def stage_guard_def elim!: in_set_updateE)
  then show ?thesis by (simp add: staged(6))
qed (use assms in simp_all)

text \<open>A loop whose step acts on each record as \<open>h\<close> keeps the invariant if \<open>h\<close> does.\<close>

lemma on_records_ok:
  assumes "machine_ok m" and "\<And>r w. fst (g (r, w)) = h r"
    and "\<And>r. r \<in> set (records m) \<Longrightarrow>
      record_ok (m_state_identity m) (m_renderer_generation m) r \<Longrightarrow>
      record_ok (m_state_identity m) (m_renderer_generation m) (h r)"
    and "\<And>r. used (h r) \<Longrightarrow> used r \<and> request (h r) = request r"
    and "\<And>r. in_flight (h r) \<Longrightarrow> in_flight r"
  shows "machine_ok (on_records g m)"
proof -
  have "distinct_requests (map h (records m))"
    using assms(1,4) by (intro distinct_requests_map) (auto simp: machine_ok_def)
  moreover have "fst (each_record g (records m) (world m)) = map h (records m)"
    using assms(2) by (rule each_record_map)
  ultimately show ?thesis using assms(1,3-5) by (auto simp: machine_ok_def)
qed

lemma resolve_ok:
  assumes "machine_ok m" shows "machine_ok (snd (readback_resolve tid m slot gen frame ok origin))"
proof -
  let ?h = "\<lambda>r. if \<not> waits_for slot gen frame r then r
    else if ok \<noteq> 0 then r\<lparr>submitted_frame := frame, phase := GPU_PENDING\<rparr> else failed_record r"
  have h: "record_ok si rg (?h r)" if "record_ok si rg r" for si rg r
  proof -
    have "record_ok si rg (r\<lparr>submitted_frame := frame, phase := GPU_PENDING\<rparr>)"
      if "waits_for slot gen frame r"
      using \<open>record_ok si rg r\<close> that
      by (auto simp: waits_for_def record_ok_def phase_ok_def sized_def)
    with that failed_record_ok [OF that] show ?thesis by simp
  qed
  have each: "machine_ok (on_records (\<lambda>(r, w). if \<not> waits_for slot gen frame r then (r, w)
      else if ok \<noteq> 0 then (r\<lparr>submitted_frame := frame, phase := GPU_PENDING\<rparr>, w)
      else readback_mark_failed (ops m') (r, w)) m')" if "machine_ok m'" for m' :: "'a readback_machine"
    by (rule on_records_ok [where h = ?h, OF that])
      (use h in \<open>auto simp: mark_failed_record failed_record_same waits_for_def in_flight_def
        failed_record_def split: if_splits\<close>)
  obtain reason w where "device_removed_reason (ops m) (world m) = (reason, w)" by fastforce
  then show ?thesis
    using assms each [of m] each [of "m\<lparr>world := w\<rparr>"] latch_ok [of "m\<lparr>world := w\<rparr>"]
    unfolding readback_resolve_def Let_def by (simp split: prod.split)
qed

lemma notify_ok:
  "machine_ok m \<Longrightarrow> machine_ok (snd (readback_notify_failure tid m si rg origin))"
  by (auto simp: readback_notify_failure_def Let_def latch_ok split: prod.split)

lemma settle_record_record:
  assumes "record_ok si rg r" "used r" "phase r = GPU_PENDING"
  shows "\<exists>r'. (\<forall>w. fst (settle_record alloc f mapped pitch (r, w)) = r') \<and> record_ok si rg r'
    \<and> used r' \<and> request r' = request r \<and> (phase r' = READY \<or> phase r' = FAILED)"
proof -
  obtain ok r1 where norm: "readback_normalize alloc r mapped pitch = (ok, r1)" by fastforce
  let ?r2 = "r1\<lparr>staging := 0, query := 0\<rparr>"
  have fst: "fst (settle_record alloc f mapped pitch (r, w))
      = (if ok then ?r2\<lparr>phase := READY\<rparr> else failed_record ?r2)" for w
    using release_native_record [of f r1 "unmap_staging f (staging r) w"]
      mark_failed_record [of f ?r2]
    by (auto simp: settle_record_def norm Let_def split: prod.splits)
  have "record_ok si rg (if ok then ?r2\<lparr>phase := READY\<rparr> else failed_record ?r2)"
  proof (cases ok)
    case True
    with norm have "readback_normalize alloc r mapped pitch = (True, r1)" by simp
    then obtain px where "r1 = r\<lparr>pixels := Some px\<rparr>" "length px = unat (byte_length r)"
      using normalize_success by blast
    with True assms show ?thesis by (auto simp: record_ok_def phase_ok_def sized_def)
  next
    case False
    then have "r1 = r" using norm normalize_failure [of alloc r mapped pitch r1] by simp
    with False assms show ?thesis by (auto simp: record_ok_def phase_ok_def failed_record_def)
  qed
  moreover have "used r1" "request r1 = request r" "phase r1 = GPU_PENDING"
    using norm normalize_success [of alloc r mapped pitch r1]
      normalize_failure [of alloc r mapped pitch r1] assms by (cases ok; auto)+
  ultimately show ?thesis
    by (intro exI [of _ "if ok then ?r2\<lparr>phase := READY\<rparr> else failed_record ?r2"])
      (auto simp: fst failed_record_def)
qed

lemma lost_or_failed_ok:
  "machine_ok m \<Longrightarrow> i < length (records m) \<Longrightarrow> machine_ok (snd (lost_or_failed i m))"
  using fail_at_ok [of "m\<lparr>world := w\<rparr>" i for w]
  by (auto simp: lost_or_failed_def Let_def latch_ok split: prod.split)

lemma settle_at_ok:
  assumes "machine_ok m" "i < length (records m)" "used (records m ! i)"
    "phase (records m ! i) = GPU_PENDING"
  shows "machine_ok (at_record i (settle_record alloc (ops m) mapped pitch) m)"
proof -
  obtain r' where r': "\<And>w. fst (settle_record alloc (ops m) mapped pitch (records m ! i, w)) = r'"
    "record_ok (m_state_identity m) (m_renderer_generation m) r'" "request r' = request (records m ! i)"
    "phase r' = READY \<or> phase r' = FAILED"
    using settle_record_record [OF record_at [OF assms(1,2)] assms(3,4)] by metis
  show ?thesis
    by (rule at_record_ok [where r = r', OF assms(1,2)])
      (use r' assms in \<open>auto simp: in_flight_def\<close>)
qed

lemma poll_record_ok:
  assumes "machine_ok m" "i < length (records m)"
  shows "machine_ok (snd (poll_record alloc i m))"
  using assms settle_at_ok [of "m\<lparr>world := w\<rparr>" i for w]
    lost_or_failed_ok [of "m\<lparr>world := w\<rparr>" i for w]
  by (auto simp: poll_record_def Let_def split: prod.split)

lemma machine_ok_length: "machine_ok m \<Longrightarrow> length (records m) = MAX_RECORDS"
  by (simp add: machine_ok_def)

lemma poll_loop_ok:
  "machine_ok m \<Longrightarrow> \<forall>i \<in> set is. i < MAX_RECORDS \<Longrightarrow>
   machine_ok (snd (poll_loop alloc is published m))"
proof (induction "is" arbitrary: published m)
  case (Cons i js)
  obtain out m' where step: "poll_record (alloc i) i m = (out, m')" by fastforce
  have "machine_ok m'"
    using poll_record_ok [of m i "alloc i"] Cons.prems machine_ok_length [of m] step by simp
  then show ?case using Cons.IH Cons.prems step by (cases out) simp_all
qed simp

lemma poll_ok: "machine_ok m \<Longrightarrow> machine_ok (snd (readback_poll alloc tid m))"
  by (simp add: readback_poll_def poll_loop_ok)

lemma take_ok:
  assumes "machine_ok m" shows "machine_ok (snd (readback_take tid m))"
proof (cases "first_index takeable (records m)")
  case (Some i)
  note i = first_index_SomeD [OF Some]
  have "machine_ok (m\<lparr>records := (records m)[i := (records m ! i)\<lparr>taken := True\<rparr>]\<rparr>)"
    using assms i record_at [OF assms, of i]
    by (intro update_ok) (auto simp: takeable_def record_ok_def phase_ok_def sized_def in_flight_def)
  with assms Some show ?thesis by (simp add: readback_take_def Let_def)
qed (use assms in \<open>simp add: readback_take_def\<close>)

lemma find_request_SomeD:
  "readback_find_request m req = Some i \<Longrightarrow>
   i < length (records m) \<and> used (records m ! i) \<and> request (records m ! i) = req"
  by (auto simp: readback_find_request_def split: if_splits dest: first_index_SomeD)

lemma copy_ok:
  assumes "machine_ok m" shows "machine_ok (snd (readback_copy tid m req dest cap))"
proof (cases "readback_find_request m req")
  case (Some i)
  note i = find_request_SomeD [OF Some]
  have "machine_ok (m\<lparr>records := (records m)[i := (records m ! i)\<lparr>copied := True\<rparr>]\<rparr>)"
    if "taken (records m ! i)" "phase (records m ! i) = READY"
    using assms i record_at [OF assms, of i] that
    by (intro update_ok) (auto simp: record_ok_def phase_ok_def sized_def in_flight_def)
  with assms Some show ?thesis
    by (auto simp: readback_copy_def Let_def split: option.split)
qed (use assms in \<open>simp add: readback_copy_def\<close>)

lemma release_ok: "machine_ok m \<Longrightarrow> machine_ok (snd (readback_release tid m req))"
  by (auto simp: readback_release_def clear_at_ok split: option.split dest: find_request_SomeD)

lemma cancel_ok: "machine_ok m \<Longrightarrow> machine_ok (snd (readback_cancel tid m req))"
  by (auto simp: readback_cancel_def clear_at_ok split: option.split dest: find_request_SomeD)

lemma quiesce_ok:
  assumes "machine_ok m" shows "machine_ok (snd (readback_quiesce_window tid m slot gen))"
proof -
  have "machine_ok (on_records (\<lambda>(r, w). if of_window slot gen r
      then readback_clear_record (ops m) (r, w) else (r, w)) m)"
    by (rule on_records_ok [where h = "\<lambda>r. if of_window slot gen r then zero_record else r", OF assms])
      (auto simp: clear_record_record split: if_splits)
  with assms show ?thesis by (simp add: readback_quiesce_window_def)
qed

lemma cleared_ok:
  assumes "machine_ok m" "si \<noteq> 0" "rg \<noteq> 0"
  shows "machine_ok ((readback_clear_all m)\<lparr>m_state_identity := si, m_renderer_generation := rg,
           device_lost := False, stopped := False, bound := True\<rparr>)"
    and "machine_ok ((readback_clear_all m)\<lparr>bound := False, stopped := True\<rparr>)"
  using assms clear_all_records [OF assms(1)]
  by (simp_all add: machine_ok_def distinct_requests_def)

lemma restart_ok: "machine_ok m \<Longrightarrow> machine_ok (snd (readback_restart tid m si rg))"
  by (simp add: readback_restart_def cleared_ok)

lemma stop_ok: "machine_ok m \<Longrightarrow> machine_ok (snd (readback_stop tid m))"
  by (simp add: readback_stop_def cleared_ok(2) [of m 1 1])

lemma exec_ok: "machine_ok m \<Longrightarrow> machine_ok (readback_exec tid c m)"
  by (cases c) (simp_all add: bind_ok stage_ok resolve_ok notify_ok poll_ok take_ok copy_ok
    release_ok cancel_ok quiesce_ok restart_ok stop_ok)

lemma reachable_ok: "readback_reachable f w0 m \<Longrightarrow> machine_ok m"
  by (induction rule: readback_reachable.induct) (auto intro: create_ok exec_ok)

end
