(* ===== verification/Readback_Pixels.thy ===== *)
theory Readback_Pixels
  imports Readback_Inv
begin

text \<open>
  What \<open>readback_normalize\<close> writes: a dense RGBA image, row by row, from mapped memory with its own
  row pitch, exchanging the red and blue bytes of a BGRA source.
\<close>

lemma put_bytes_nth:
  assumes "k < length buf"
  shows "put_bytes pos bs buf ! k = (if pos \<le> k \<and> k < pos + length bs then bs ! (k - pos) else buf ! k)"
proof -
  have "fold (\<lambda>(j, b) buf. buf[pos + j := b]) (enumerate n bs) buf ! k
      = (if pos + n \<le> k \<and> k < pos + n + length bs then bs ! (k - (pos + n)) else buf ! k)" for n
    using assms
  proof (induction bs arbitrary: n buf)
    case (Cons b bs)
    have "k - (pos + n) = Suc (k - (pos + Suc n))" if "pos + Suc n \<le> k" using that by simp
    then show ?case using Cons by (auto simp: nth_list_update nth_Cons split: nat.split)
  qed auto
  from this [of 0] show ?thesis by (simp add: put_bytes_def)
qed

text \<open>The source byte that ends up at byte \<open>k\<close> of a row.\<close>

definition source_byte :: "readback_record \<Rightarrow> nat \<Rightarrow> nat" where
  "source_byte r k =
     (if format r = FORMAT_RGBA8 then k else 4 * (k div 4) + [2, 1, 0, 3] ! (k mod 4))"

lemma bgra_columns:
  assumes "dst + 4 * n \<le> length buf" "k < length buf"
  shows "fold (\<lambda>column buf. put_bytes (dst + column * 4) (bgra_pixel src (column * 4)) buf) [0..<n] buf ! k
    = (if dst \<le> k \<and> k < dst + 4 * n
       then src (4 * ((k - dst) div 4) + [2, 1, 0, 3] ! ((k - dst) mod 4)) else buf ! k)"
  using assms
proof (induction n)
  case (Suc n)
  let ?b = "fold (\<lambda>column buf. put_bytes (dst + column * 4) (bgra_pixel src (column * 4)) buf) [0..<n] buf"
  have len: "length ?b = length buf" by (simp add: fold_length)
  show ?case
  proof (cases "dst + 4 * n \<le> k \<and> k < dst + 4 * Suc n")
    case True
    define j where "j = k - (dst + 4 * n)"
    have k: "k = dst + 4 * n + j" "j < 4" using True by (simp_all add: j_def less_diff_conv2)
    then have "(k - dst) div 4 = n" "(k - dst) mod 4 = j" by simp_all
    moreover have "bgra_pixel src (n * 4) ! j = src (4 * n + [2, 1, 0, 3] ! j)"
      using k(2) by (auto simp: bgra_pixel_def less_Suc_eq numeral_eq_Suc mult.commute)
    ultimately show ?thesis
      using Suc.prems True len k
      by (simp add: put_bytes_nth bgra_pixel_def [THEN arg_cong [where f = length]] mult.commute)
  next
    case False
    then show ?thesis
      using Suc.IH Suc.prems len
      by (auto simp: put_bytes_nth bgra_pixel_def mult.commute)
  qed
qed auto

lemma normalize_row_nth:
  assumes "format r = FORMAT_BGRA8 \<or> format r = FORMAT_RGBA8"
    and "unat (public_stride r) = 4 * unat (width r)"
    and dst: "dst = unat ((of_nat row :: u64) * public_stride r)"
    and "dst + 4 * unat (width r) \<le> length buf" "k < length buf"
  shows "normalize_row r mapped pitch row buf ! k =
    (if dst \<le> k \<and> k < dst + 4 * unat (width r)
     then mapped (unat ((of_nat row :: u64) * pitch) + source_byte r (k - dst)) else buf ! k)"
proof (cases "format r = FORMAT_RGBA8")
  case True
  then show ?thesis
    using assms by (auto simp: normalize_row_def Let_def put_bytes_nth source_byte_def)
next
  case False
  then show ?thesis
    using assms(4,5) bgra_columns [of dst "unat (width r)" buf k]
    by (simp add: normalize_row_def Let_def source_byte_def dst [symmetric])
qed

lemma row_offset:
  fixes s :: u64
  assumes "row * unat s < 2 ^ 64" "row < 2 ^ 64"
  shows "unat ((of_nat row :: u64) * s) = row * unat s"
  using assms by (simp add: unat_mult_mod unat_of_nat take_bit_eq_mod)

lemma normalize_rows_nth:
  assumes fmt: "format r = FORMAT_BGRA8 \<or> format r = FORMAT_RGBA8"
    and stride: "unat (public_stride r) = 4 * unat (width r)"
    and len: "n * (4 * unat (width r)) \<le> length buf" "length buf < 2 ^ 64" "k < length buf"
    and n: "n < 2 ^ 64"
  shows "fold (normalize_row r mapped pitch) [0..<n] buf ! k =
    (if k < n * (4 * unat (width r))
     then mapped (unat ((of_nat (k div (4 * unat (width r))) :: u64) * pitch)
                  + source_byte r (k mod (4 * unat (width r)))) else buf ! k)"
  using len(1) n
proof (induction n)
  case (Suc n)
  let ?S = "4 * unat (width r)"
  let ?b = "fold (normalize_row r mapped pitch) [0..<n] buf"
  have bl: "length ?b = length buf" by (simp add: fold_length)
  have sz: "n * ?S + ?S \<le> length buf" using Suc.prems(1) by (simp add: algebra_simps)
  then have dst: "n * ?S = unat ((of_nat n :: u64) * public_stride r)"
    using row_offset [of n "public_stride r"] len(2) Suc.prems(2) stride by simp
  have step: "normalize_row r mapped pitch n ?b ! k =
    (if n * ?S \<le> k \<and> k < n * ?S + ?S
     then mapped (unat ((of_nat n :: u64) * pitch) + source_byte r (k - n * ?S)) else ?b ! k)"
    using normalize_row_nth [OF fmt stride dst, of ?b k] sz len(3) bl by simp
  have IH: "?b ! k = (if k < n * ?S
     then mapped (unat ((of_nat (k div ?S) :: u64) * pitch) + source_byte r (k mod ?S)) else buf ! k)"
    using Suc.IH sz Suc.prems(2) by simp
  have row: "k div ?S = n \<and> k mod ?S = k - n * ?S" if "n * ?S \<le> k" "k < n * ?S + ?S"
  proof -
    have "0 < ?S" using that by linarith
    have "k = n * ?S + (k - n * ?S)" "k - n * ?S < ?S" using that by simp_all
    then show ?thesis
      using \<open>0 < ?S\<close> by (metis add.commute div_mult_self3 div_less add_0 mod_less mod_mult_self3 less_irrefl)
  qed
  have "Suc n * ?S = n * ?S + ?S" by simp
  then show ?case
    using step IH row by auto
qed simp

text \<open>C36: normalisation. The image a request gets is the mapped memory row by row, without the
  padding of the row pitch, with red and blue exchanged when the texture is BGRA. Of the native
  side it needs that the rows of the mapping fit the address space.\<close>

theorem normalize_pixels:
  assumes run: "readback_normalize alloc r (Some mapped) pitch = (True, r')"
    and ok: "record_ok si rg r" "used r" "phase r = GPU_PENDING"
    and addressable: "unat (height r) * unat pitch < 2 ^ 64"
    and pixel: "row < unat (height r)" "col < unat (width r)" "c < 4"
  shows "\<exists>px. pixels r' = Some px \<and> length px = 4 * unat (width r) * unat (height r) \<and>
    px ! (row * (4 * unat (width r)) + (4 * col + c)) =
      mapped (row * unat pitch + 4 * col +
        (if format r = FORMAT_RGBA8 then c else [2, 1, 0, 3] ! c))"
proof -
  let ?W = "unat (width r)" and ?H = "unat (height r)"
  let ?k = "row * (4 * ?W) + (4 * col + c)"
  have fmt: "format r = FORMAT_BGRA8 \<or> format r = FORMAT_RGBA8"
    and stride: "unat (public_stride r) = 4 * ?W" and len: "unat (byte_length r) = 4 * ?W * ?H"
    using ok by (simp_all add: record_ok_def phase_ok_def sized_def)
  obtain fresh where px: "pixels r' = Some (fold (normalize_row r mapped pitch) [0..<?H]
      (map fresh [0..<unat (byte_length r)]))"
    using run by (auto simp: readback_normalize_def split: option.splits if_splits)
  have inner: "4 * col + c < 4 * ?W" using pixel by linarith
  have k: "?k < ?H * (4 * ?W)"
  proof -
    have "?k < Suc row * (4 * ?W)" using inner by simp
    also have "\<dots> \<le> ?H * (4 * ?W)" using pixel(1) by (intro mult_le_mono1) simp
    finally show ?thesis .
  qed
  have divmod: "?k div (4 * ?W) = row" "?k mod (4 * ?W) = 4 * col + c" using inner by simp_all
  have "row * unat pitch \<le> ?H * unat pitch" using pixel(1) by (intro mult_le_mono1) simp
  then have "row * unat pitch < 2 ^ 64" using addressable by (rule le_less_trans)
  then have off: "unat ((of_nat row :: u64) * pitch) = row * unat pitch"
    using pixel(1) unat_word_bound [of "height r"] by (intro row_offset) simp_all
  have src: "source_byte r (4 * col + c)
      = 4 * col + (if format r = FORMAT_RGBA8 then c else [2, 1, 0, 3] ! c)"
    using pixel(3) by (simp add: source_byte_def)
  have "fold (normalize_row r mapped pitch) [0..<?H] (map fresh [0..<unat (byte_length r)]) ! ?k
      = mapped (row * unat pitch + (4 * col + (if format r = FORMAT_RGBA8 then c else [2, 1, 0, 3] ! c)))"
    using normalize_rows_nth [OF fmt stride, of ?H "map fresh [0..<unat (byte_length r)]" ?k mapped pitch]
      k len unat_word_bound [of "byte_length r"] unat_word_bound [of "height r"]
    unfolding divmod off src by (simp add: mult.commute)
  then show ?thesis
    using px len by (simp add: fold_length add.assoc)
qed

text \<open>A submitted 1 by 1 BGRA request.\<close>

definition demo_record :: readback_record where
  "demo_record = (staged_record 1 1 1 1 1 1 1 1 FORMAT_BGRA8 4 4 1 1)
     \<lparr>phase := GPU_PENDING, submitted_frame := 1\<rparr>"

theorem normalize_pixels_witness:
  "\<exists>px. pixels (snd (readback_normalize (Some (\<lambda>k. 0)) demo_record (Some of_nat) 8)) = Some px
     \<and> length px = 4 \<and> px ! 0 = 2"
proof -
  let ?n = "readback_normalize (Some (\<lambda>k. 0)) demo_record (Some of_nat) 8"
  have "fst ?n" by (simp add: readback_normalize_def demo_record_def staged_record_def zero_record_def)
  then have run: "?n = (True, snd ?n)" by (simp add: prod_eq_iff)
  have "\<exists>px. pixels (snd ?n) = Some px \<and>
      length px = 4 * unat (width demo_record) * unat (height demo_record) \<and>
      px ! (0 * (4 * unat (width demo_record)) + (4 * 0 + 0)) =
        of_nat (0 * unat (8 :: u64) + 4 * 0 +
          (if format demo_record = FORMAT_RGBA8 then 0 else [2, 1, 0, 3] ! 0))"
    by (rule normalize_pixels [OF run, of 1 1])
      (simp_all add: demo_record_def staged_record_def zero_record_def record_ok_def phase_ok_def
        sized_def FORMAT_BGRA8_def)
  moreover have "unat (width demo_record) = 1" "unat (height demo_record) = 1"
    "format demo_record \<noteq> FORMAT_RGBA8"
    by (simp_all add: demo_record_def staged_record_def zero_record_def d3d_consts)
  ultimately show ?thesis by simp
qed


end
