(* ===== verification/Readback_Ledger.thy ===== *)
theory Readback_Ledger
  imports Readback_Inv
begin

text \<open>
  Resources. The locale \<open>d3d11_handles\<close> is the contract of the COM operations as the machine relies on
  it: which staging textures and queries are alive, how often a source is retained. A release and
  every use of a handle is only specified for a live one, so that the lemmas also show that the
  machine never uses or releases a handle twice. The ledger of a machine says that the handles in
  its records are exactly the live ones.
\<close>

subsection \<open>Handles of a list of records\<close>

definition handles :: "(readback_record \<Rightarrow> nat) \<Rightarrow> readback_record list \<Rightarrow> nat set" where
  "handles sel rs = sel ` set rs - {0}"

definition handles_once :: "(readback_record \<Rightarrow> nat) \<Rightarrow> readback_record list \<Rightarrow> bool" where
  "handles_once sel rs \<longleftrightarrow>
     (\<forall>i < length rs. \<forall>j < length rs. sel (rs ! i) = sel (rs ! j) \<and> sel (rs ! i) \<noteq> 0 \<longrightarrow> i = j)"

lemma handles_Nil [simp]: "handles sel [] = {}" "handles_once sel []"
  by (simp_all add: handles_def handles_once_def)

lemma handles_Cons: "handles sel (r # rs) = ({sel r} - {0}) \<union> handles sel rs"
  by (auto simp: handles_def)

lemma in_handles: "x \<in> handles sel rs \<longleftrightarrow> x \<noteq> 0 \<and> (\<exists>i < length rs. sel (rs ! i) = x)"
proof -
  have "sel ` set rs = {sel (rs ! i) | i. i < length rs}" by (auto simp: set_conv_nth)
  then show ?thesis by (auto simp: handles_def)
qed

lemma handles_once_Cons:
  "handles_once sel (r # rs) \<longleftrightarrow> sel r \<notin> handles sel rs \<and> handles_once sel rs"
  by (simp add: handles_once_def in_handles All_less_Suc2) metis

lemma handles_update:
  assumes i: "i < length rs" and once: "handles_once sel rs" and r: "sel r = sel (rs ! i) \<or> sel r = 0"
  shows "handles sel (rs[i := r]) = handles sel rs - ({sel (rs ! i)} - {sel r})"
    and "handles_once sel (rs[i := r])"
proof -
  have nth: "sel (rs[i := r] ! j) = (if j = i then sel r else sel (rs ! j))" if "j < length rs" for j
    using that by (simp add: nth_list_update)
  have other: "sel (rs ! j) \<noteq> sel (rs ! i)" if "j < length rs" "j \<noteq> i" "sel (rs ! j) \<noteq> 0" for j
    using once i that unfolding handles_once_def by blast
  show "handles sel (rs[i := r]) = handles sel rs - ({sel (rs ! i)} - {sel r})"
  proof (rule set_eqI)
    fix x
    have "x \<in> handles sel (rs[i := r]) \<longleftrightarrow>
        x \<noteq> 0 \<and> (sel r = x \<or> (\<exists>j < length rs. j \<noteq> i \<and> sel (rs ! j) = x))"
      unfolding in_handles length_list_update using i nth by metis
    also have "\<dots> \<longleftrightarrow> x \<in> handles sel rs - ({sel (rs ! i)} - {sel r})"
      using i r other by (auto simp: in_handles)
    finally show "x \<in> handles sel (rs[i := r]) \<longleftrightarrow> x \<in> handles sel rs - ({sel (rs ! i)} - {sel r})" .
  qed
  show "handles_once sel (rs[i := r])"
    unfolding handles_once_def length_list_update
    using nth other r once unfolding handles_once_def by (metis (no_types, lifting))
qed

lemma handles_insert:
  assumes i: "i < length rs" and once: "handles_once sel rs" and z: "sel (rs ! i) = 0"
    and r: "sel r \<noteq> 0" "sel r \<notin> handles sel rs"
  shows "handles sel (rs[i := r]) = insert (sel r) (handles sel rs)"
    and "handles_once sel (rs[i := r])"
proof -
  have nth: "sel (rs[i := r] ! j) = (if j = i then sel r else sel (rs ! j))" if "j < length rs" for j
    using that by (simp add: nth_list_update)
  have other: "sel (rs ! j) \<noteq> sel r" if "j < length rs" for j
    using r that by (auto simp: in_handles)
  show "handles sel (rs[i := r]) = insert (sel r) (handles sel rs)"
  proof (rule set_eqI)
    fix x
    have "x \<in> handles sel (rs[i := r]) \<longleftrightarrow>
        x \<noteq> 0 \<and> (sel r = x \<or> (\<exists>j < length rs. j \<noteq> i \<and> sel (rs ! j) = x))"
      unfolding in_handles length_list_update using i nth by metis
    then show "x \<in> handles sel (rs[i := r]) \<longleftrightarrow> x \<in> insert (sel r) (handles sel rs)"
      using r(1) z by (auto simp: in_handles)
  qed
  show "handles_once sel (rs[i := r])"
    unfolding handles_once_def length_list_update
    using nth other once unfolding handles_once_def by (metis (no_types, lifting))
qed

subsection \<open>The contract of the COM operations\<close>

fun staged_sources :: "readback_call \<Rightarrow> nat set" where
  "staged_sources (Stage req si rg slot gen source x y wd ht frame rz) = {source}" |
  "staged_sources k = {}"

locale d3d11_handles =
  fixes f :: "'w readback_ops"
    and good :: "'w \<Rightarrow> bool"
    and stagings :: "'w \<Rightarrow> nat set"
    and queries :: "'w \<Rightarrow> nat set"
    and refs :: "'w \<Rightarrow> nat \<Rightarrow> int"
  assumes release_source_law:
    "good w \<Longrightarrow> 0 < refs w s \<Longrightarrow> w' = release_source f s w \<Longrightarrow>
       good w' \<and> stagings w' = stagings w \<and> queries w' = queries w \<and>
       refs w' = (refs w)(s := refs w s - 1)"
    and describe_law:
    "good w \<Longrightarrow> 0 < refs w s \<Longrightarrow> describe_source f s w = (desc, w') \<Longrightarrow>
       good w' \<and> stagings w' = stagings w \<and> queries w' = queries w \<and> refs w' = refs w"
    and copy_region_law:
    "good w \<Longrightarrow> 0 < refs w s \<Longrightarrow> copy_region f s x y wd ht w = ((res, h), w') \<Longrightarrow>
       good w' \<and> queries w' = queries w \<and> refs w' = refs w \<and>
       (if h = 0 then stagings w' = stagings w
        else h \<notin> stagings w \<and> stagings w' = insert h (stagings w))"
    and end_query_law:
    "good w \<Longrightarrow> end_event_query f w = ((res, h), w') \<Longrightarrow>
       good w' \<and> stagings w' = stagings w \<and> refs w' = refs w \<and>
       (if h = 0 then queries w' = queries w
        else h \<notin> queries w \<and> queries w' = insert h (queries w))"
    and get_data_law:
    "good w \<Longrightarrow> q \<in> queries w \<Longrightarrow> get_event_data f q w = (res, w') \<Longrightarrow>
       good w' \<and> stagings w' = stagings w \<and> queries w' = queries w \<and> refs w' = refs w"
    and map_law:
    "good w \<Longrightarrow> h \<in> stagings w \<Longrightarrow> map_staging f h w = (out, w') \<Longrightarrow>
       good w' \<and> stagings w' = stagings w \<and> queries w' = queries w \<and> refs w' = refs w"
    and unmap_law:
    "good w \<Longrightarrow> h \<in> stagings w \<Longrightarrow> w' = unmap_staging f h w \<Longrightarrow>
       good w' \<and> stagings w' = stagings w \<and> queries w' = queries w \<and> refs w' = refs w"
    and release_staging_law:
    "good w \<Longrightarrow> h \<in> stagings w \<Longrightarrow> w' = release_staging f h w \<Longrightarrow>
       good w' \<and> stagings w' = stagings w - {h} \<and> queries w' = queries w \<and> refs w' = refs w"
    and release_query_law:
    "good w \<Longrightarrow> h \<in> queries w \<Longrightarrow> w' = release_query f h w \<Longrightarrow>
       good w' \<and> stagings w' = stagings w \<and> queries w' = queries w - {h} \<and> refs w' = refs w"
    and reason_law:
    "good w \<Longrightarrow> device_removed_reason f w = (res, w') \<Longrightarrow>
       good w' \<and> stagings w' = stagings w \<and> queries w' = queries w \<and> refs w' = refs w"
begin

text \<open>What the contract wants of a source that is retained.\<close>

definition well_retained :: "nat \<Rightarrow> 'w \<Rightarrow> bool" where
  "well_retained s w \<longleftrightarrow> (case retain_source f s w of (ok, w') \<Rightarrow>
     good w' \<and> stagings w' = stagings w \<and> queries w' = queries w \<and>
     (if ok then refs w' = (refs w)(s := refs w s + 1) \<and> 0 < refs w' s else refs w' = refs w))"

definition ledger :: "(nat \<Rightarrow> int) \<Rightarrow> readback_record list \<Rightarrow> 'w \<Rightarrow> bool" where
  "ledger c rs w \<longleftrightarrow> good w \<and> refs w = c \<and> handles_once staging rs \<and> handles_once query rs
     \<and> stagings w = handles staging rs \<and> queries w = handles query rs"

text \<open>A step on one record that may give up its handles, and releases exactly those.\<close>

definition owns :: "readback_record \<Rightarrow> 'w \<Rightarrow> bool" where
  "owns r w \<longleftrightarrow> good w \<and> {staging r} - {0} \<subseteq> stagings w \<and> {query r} - {0} \<subseteq> queries w"

definition handed_back :: "readback_record \<Rightarrow> 'w \<Rightarrow> readback_record \<times> 'w \<Rightarrow> bool" where
  "handed_back r w = (\<lambda>(r', w'). good w' \<and> refs w' = refs w
     \<and> (staging r' = staging r \<or> staging r' = 0) \<and> (query r' = query r \<or> query r' = 0)
     \<and> stagings w' = stagings w - ({staging r} - {staging r'})
     \<and> queries w' = queries w - ({query r} - {query r'}))"

definition gives_up :: "(readback_record \<times> 'w \<Rightarrow> readback_record \<times> 'w) \<Rightarrow> bool" where
  "gives_up g \<longleftrightarrow> (\<forall>r w. owns r w \<longrightarrow> handed_back r w (g (r, w)))"

lemma gives_upD:
  assumes "gives_up g" "owns r w" "g (r, w) = (r', w')"
  shows "good w'" "refs w' = refs w" "staging r' = staging r \<or> staging r' = 0"
    "query r' = query r \<or> query r' = 0" "stagings w' = stagings w - ({staging r} - {staging r'})"
    "queries w' = queries w - ({query r} - {query r'})"
proof -
  have "handed_back r w (r', w')" using assms unfolding gives_up_def by metis
  then show "good w'" "refs w' = refs w" "staging r' = staging r \<or> staging r' = 0"
    "query r' = query r \<or> query r' = 0" "stagings w' = stagings w - ({staging r} - {staging r'})"
    "queries w' = queries w - ({query r} - {query r'})"
    by (simp_all add: handed_back_def)
qed

lemma release_native_gives_up: "gives_up (readback_release_native f)"
  unfolding gives_up_def
proof (intro allI impI)
  fix r w
  assume "owns r w"
  then have w: "good w" "staging r \<noteq> 0 \<Longrightarrow> staging r \<in> stagings w"
    "query r \<noteq> 0 \<Longrightarrow> query r \<in> queries w"
    by (auto simp: owns_def)
  define w1 where "w1 = (if staging r \<noteq> 0 then release_staging f (staging r) w else w)"
  have w1: "good w1" "refs w1 = refs w" "queries w1 = queries w"
    "stagings w1 = stagings w - ({staging r} - {0})"
    using w release_staging_law [OF w(1), of "staging r" w1] by (auto simp: w1_def)
  define w2 where "w2 = (if query r \<noteq> 0 then release_query f (query r) w1 else w1)"
  have w2: "good w2" "refs w2 = refs w1" "stagings w2 = stagings w1"
    "queries w2 = queries w1 - ({query r} - {0})"
    using w w1 release_query_law [OF w1(1), of "query r" w2] by (auto simp: w2_def)
  have "readback_release_native f (r, w) = (r\<lparr>staging := 0, query := 0\<rparr>, w2)"
    by (simp add: readback_release_native_def Let_def w1_def w2_def)
  then show "handed_back r w (readback_release_native f (r, w))"
    using w1 w2 by (simp add: handed_back_def)
qed

lemma handed_back_refl: "owns r w \<Longrightarrow> handed_back r w (r, w)"
  by (simp add: owns_def handed_back_def)

lemma gives_up_if:
  "gives_up g \<Longrightarrow> gives_up (\<lambda>(r, w). if P r then g (r, w) else (r, w))"
  by (simp add: gives_up_def handed_back_refl)

text \<open>Changing other fields of the record afterwards does not matter.\<close>

lemma handed_back_fields:
  "handed_back r w (r', w') \<Longrightarrow> staging r'' = staging r' \<Longrightarrow> query r'' = query r'
    \<Longrightarrow> handed_back r w (r'', w')"
  by (simp add: handed_back_def)

lemma release_native_pair:
  "readback_release_native f (r, w)
    = (r\<lparr>staging := 0, query := 0\<rparr>, snd (readback_release_native f (r, w)))"
  by (simp add: prod_eq_iff release_native_record)

lemma clear_gives_up: "gives_up (readback_clear_record f)"
  unfolding gives_up_def readback_clear_record_def
proof (intro allI impI)
  fix r w
  assume "owns r w"
  then have "handed_back r w (r\<lparr>staging := 0, query := 0\<rparr>, snd (readback_release_native f (r, w)))"
    using release_native_gives_up release_native_pair unfolding gives_up_def by metis
  then show "handed_back r w (zero_record, snd (readback_release_native f (r, w)))"
    by (rule handed_back_fields) simp_all
qed

lemma mark_failed_gives_up: "gives_up (readback_mark_failed f)"
proof -
  let ?fail = "\<lambda>r. r\<lparr>pixels := None, byte_length := 0, submitted_frame := 0, phase := FAILED\<rparr>"
  have "gives_up (\<lambda>(r, w). (?fail (fst (readback_release_native f (r, w))),
      snd (readback_release_native f (r, w))))"
    unfolding gives_up_def
  proof (intro allI impI)
    fix r w
    assume "owns r w"
    then have "handed_back r w (readback_release_native f (r, w))"
      using release_native_gives_up unfolding gives_up_def by blast
    then have "handed_back r w (fst (readback_release_native f (r, w)),
        snd (readback_release_native f (r, w)))" by simp
    then show "handed_back r w (case (r, w) of (r, w) \<Rightarrow>
        (?fail (fst (readback_release_native f (r, w))), snd (readback_release_native f (r, w))))"
      unfolding prod.case by (rule handed_back_fields) simp_all
  qed
  note gives_up_if [OF this, of "\<lambda>r. used r \<and> phase r \<noteq> READY \<and> phase r \<noteq> FAILED"]
  moreover have "readback_mark_failed f = (\<lambda>(r, w).
      if used r \<and> phase r \<noteq> READY \<and> phase r \<noteq> FAILED
      then (\<lambda>(r, w). (?fail (fst (readback_release_native f (r, w))),
        snd (readback_release_native f (r, w)))) (r, w) else (r, w))"
    by (rule ext) (auto simp: readback_mark_failed_def split_beta)
  ultimately show ?thesis by (simp only:)
qed

subsection \<open>Steps on the machine keep the ledger\<close>

lemma each_record_ledger:
  assumes g: "gives_up g"
  shows "good w \<Longrightarrow> handles_once staging rs \<Longrightarrow> handles_once query rs \<Longrightarrow>
    handles staging rs \<subseteq> stagings w \<Longrightarrow> handles query rs \<subseteq> queries w \<Longrightarrow>
    each_record g rs w = (rs', w') \<Longrightarrow>
    good w' \<and> refs w' = refs w \<and> handles_once staging rs' \<and> handles_once query rs'
    \<and> handles staging rs' \<subseteq> handles staging rs \<and> handles query rs' \<subseteq> handles query rs
    \<and> stagings w' = stagings w - (handles staging rs - handles staging rs')
    \<and> queries w' = queries w - (handles query rs - handles query rs')"
proof (induction rs arbitrary: w rs' w')
  case (Cons r rs)
  obtain r1 w1 where r1: "g (r, w) = (r1, w1)" by fastforce
  obtain rs2 w2 where rs2: "each_record g rs w1 = (rs2, w2)" by fastforce
  have out: "rs' = r1 # rs2" "w' = w2" using Cons.prems(6) r1 rs2 by auto
  have pre: "owns r w"
    using Cons.prems(1,4,5) by (auto simp: handles_Cons owns_def)
  note step = gives_upD [OF g pre r1]
  have sub: "handles staging rs \<subseteq> stagings w1" "handles query rs \<subseteq> queries w1"
    using Cons.prems(2-5) step(5,6) by (auto simp: handles_Cons handles_once_Cons)
  have IH: "good w2 \<and> refs w2 = refs w1 \<and> handles_once staging rs2 \<and> handles_once query rs2
    \<and> handles staging rs2 \<subseteq> handles staging rs \<and> handles query rs2 \<subseteq> handles query rs
    \<and> stagings w2 = stagings w1 - (handles staging rs - handles staging rs2)
    \<and> queries w2 = queries w1 - (handles query rs - handles query rs2)"
    using Cons.IH [OF step(1) _ _ sub rs2] Cons.prems(2,3) by (simp add: handles_once_Cons)
  have zero: "0 \<notin> handles sel xs" for sel xs by (simp add: handles_def)
  show ?case
    unfolding out
  proof (intro conjI)
    show "handles_once staging (r1 # rs2)" "handles_once query (r1 # rs2)"
      using IH step(3,4) Cons.prems(2,3) zero by (auto simp: handles_once_Cons)
    show "stagings w2 = stagings w - (handles staging (r # rs) - handles staging (r1 # rs2))"
      using IH step(3,5) Cons.prems(2,4) zero [of staging rs]
      by (auto simp: handles_Cons handles_once_Cons)
    show "queries w2 = queries w - (handles query (r # rs) - handles query (r1 # rs2))"
      using IH step(4,6) Cons.prems(3,5) zero [of query rs]
      by (auto simp: handles_Cons handles_once_Cons)
  qed (use IH step in \<open>auto simp: handles_Cons\<close>)
qed auto

lemma ledger_on_records:
  assumes "gives_up g" "ledger c (records m) (world m)"
  shows "ledger c (records (on_records g m)) (world (on_records g m))"
proof -
  obtain rs' w' where "each_record g (records m) (world m) = (rs', w')" by fastforce
  with each_record_ledger [OF assms(1) _ _ _ _ _ this] assms(2) show ?thesis
    by (auto simp: ledger_def)
qed

lemma ledger_owns: "ledger c rs w \<Longrightarrow> i < length rs \<Longrightarrow> owns (rs ! i) w"
  by (auto simp: ledger_def owns_def in_handles)

lemma ledger_update:
  assumes l: "ledger c rs w" and i: "i < length rs" and g: "gives_up g"
    and run: "g (rs ! i, w) = (r', w')"
  shows "ledger c (rs[i := r']) w'"
proof -
  note step = gives_upD [OF g ledger_owns [OF l i] run]
  show ?thesis
    using l i step handles_update [of i rs staging r'] handles_update [of i rs query r']
    by (simp add: ledger_def)
qed

lemma ledger_at_record:
  assumes "ledger c (records m) (world m)" "i < length (records m)" "gives_up g"
  shows "ledger c (records (at_record i g m)) (world (at_record i g m))"
  unfolding at_record_fields by (rule ledger_update [OF assms]) simp

lemma ledger_same_handles:
  assumes "ledger c rs w" "i < length rs" "staging r = staging (rs ! i)" "query r = query (rs ! i)"
  shows "ledger c (rs[i := r]) w"
  using assms handles_update [of i rs staging r] handles_update [of i rs query r]
  by (simp add: ledger_def)

lemma ledger_latch:
  assumes "ops m = f" "ledger c (records m) (world m)"
  shows "ledger c (records (readback_latch_device_loss m)) (world (readback_latch_device_loss m))"
  using assms ledger_on_records [OF mark_failed_gives_up, of c "m\<lparr>device_lost := True\<rparr>"]
  by (simp add: readback_latch_device_loss_def)

lemma ledger_clear_all:
  assumes "ops m = f" "ledger c (records m) (world m)"
  shows "ledger c (records (readback_clear_all m)) (world (readback_clear_all m))"
  unfolding readback_clear_all_def assms(1)
  using gives_up_if [OF clear_gives_up] assms(2) by (rule ledger_on_records)

text \<open>The machine's ledger: its table is the contract's, and its records own the live handles.\<close>

definition m_ledger :: "(nat \<Rightarrow> int) \<Rightarrow> 'w readback_machine \<Rightarrow> bool" where
  "m_ledger c m \<longleftrightarrow> ops m = f \<and> ledger c (records m) (world m)"

lemma m_ledger_latch: "m_ledger c m \<Longrightarrow> m_ledger c (readback_latch_device_loss m)"
  by (simp add: m_ledger_def ledger_latch)

lemma m_ledger_world:
  "m_ledger c m \<Longrightarrow> good w \<and> stagings w = stagings (world m) \<and> queries w = queries (world m)
    \<and> refs w = refs (world m) \<Longrightarrow> m_ledger c (m\<lparr>world := w\<rparr>)"
  by (simp add: m_ledger_def ledger_def)

lemma m_ledger_reason:
  assumes "m_ledger c m" "device_removed_reason (ops m) (world m) = (reason, w)"
  shows "m_ledger c (m\<lparr>world := w\<rparr>)"
  using assms reason_law [of "world m" reason w]
  by (intro m_ledger_world) (auto simp: m_ledger_def ledger_def)

lemma m_ledger_fields:
  "m_ledger c m \<Longrightarrow> records m' = records m \<Longrightarrow> world m' = world m \<Longrightarrow> ops m' = ops m \<Longrightarrow> m_ledger c m'"
  by (simp add: m_ledger_def)

lemma m_ledger_on_records: "m_ledger c m \<Longrightarrow> gives_up g \<Longrightarrow> m_ledger c (on_records g m)"
  using ledger_on_records [of g c m] by (simp add: m_ledger_def)

lemma m_ledger_at_record:
  "m_ledger c m \<Longrightarrow> i < length (records m) \<Longrightarrow> gives_up g \<Longrightarrow> m_ledger c (at_record i g m)"
  using ledger_at_record [of c m i g] by (simp add: m_ledger_def)

lemma m_ledger_same_handles:
  "m_ledger c m \<Longrightarrow> i < length (records m) \<Longrightarrow> staging r = staging (records m ! i) \<Longrightarrow>
   query r = query (records m ! i) \<Longrightarrow> m_ledger c (m\<lparr>records := (records m)[i := r]\<rparr>)"
  by (simp add: m_ledger_def ledger_same_handles)

subsection \<open>Stage\<close>

lemma stage_acquire_world:
  assumes w: "good w" "0 < refs w source"
    and run: "stage_acquire f source x y wd ht sv w = ((valid, stg, qry, fmt), w')"
  shows "good w' \<and> refs w' = (refs w)(source := refs w source - 1)
    \<and> (if stg = 0 then stagings w' = stagings w
       else stg \<notin> stagings w \<and> stagings w' = insert stg (stagings w))
    \<and> (if qry = 0 then queries w' = queries w
       else qry \<notin> queries w \<and> queries w' = insert qry (queries w))"
proof -
  obtain d w1 where d: "describe_source f source w = (d, w1)" by fastforce
  obtain res sw sh df where dd: "d = (res, sw, sh, df)" by (cases d) auto
  note w1 = describe_law [OF w d]
  define ok1 where "ok1 = (res = D3D_OK \<and> (df = FORMAT_BGRA8 \<or> df = FORMAT_RGBA8)
            \<and> x \<le> sw \<and> y \<le> sh \<and> wd \<le> sw - x \<and> ht \<le> sh - y \<and> sv)"
  obtain res2 s w2' where c: "copy_region f source x y wd ht w1 = ((res2, s), w2')"
    by (metis prod.exhaust)
  define w2 s2 ok2 where "w2 = (if ok1 then w2' else w1)" and "s2 = (if ok1 then s else 0)"
    and "ok2 = (ok1 \<and> res2 = D3D_OK \<and> s \<noteq> 0)"
  have w2: "good w2 \<and> queries w2 = queries w1 \<and> refs w2 = refs w1 \<and>
       (if s2 = 0 then stagings w2 = stagings w1
        else s2 \<notin> stagings w1 \<and> stagings w2 = insert s2 (stagings w1))"
    using copy_region_law [OF _ _ c] w1 w(2) by (auto simp: w2_def s2_def)
  obtain res3 q w3' where e: "end_event_query f w2 = ((res3, q), w3')" by (metis prod.exhaust)
  define w3 q3 where "w3 = (if ok2 then w3' else w2)" and "q3 = (if ok2 then q else 0)"
  have w3: "good w3 \<and> stagings w3 = stagings w2 \<and> refs w3 = refs w2 \<and>
       (if q3 = 0 then queries w3 = queries w2
        else q3 \<notin> queries w2 \<and> queries w3 = insert q3 (queries w2))"
    using end_query_law [OF _ e] w2 by (auto simp: w3_def q3_def)
  have out: "w' = release_source f source w3" "stg = s2" "qry = q3"
    using run c e
    by (auto simp: stage_acquire_def Let_def d dd ok1_def [symmetric] w2_def s2_def ok2_def w3_def
        q3_def split: if_splits)
  have "0 < refs w3 source" using w w1 w2 w3 by simp
  then show ?thesis
    using release_source_law [OF _ _ out(1)] w1 w2 w3 by (auto simp: out)
qed

lemma m_ledger_stage:
  assumes ok: "machine_ok m" and l: "m_ledger c m" and src: "well_retained source (world m)"
  shows "m_ledger c (snd (readback_stage tid m req si rg slot gen source x y wd ht frame rz))"
proof (cases rule: stage_cases [of tid m req si rg slot gen source x y wd ht frame rz])
  case refused
  with l show ?thesis by simp
next
  case (unretained w)
  with l src show ?thesis by (simp add: m_ledger_def ledger_def well_retained_def)
next
  case (invalid w1 sv stg qry fmt w2)
  have f: "ops m = f" and L: "ledger c (records m) (world m)" using l by (auto simp: m_ledger_def)
  have w1: "good w1" "stagings w1 = stagings (world m)" "queries w1 = queries (world m)"
    "refs w1 = c(source := c source + 1)" "0 < refs w1 source"
    using src invalid(1) L by (auto simp: f ledger_def well_retained_def)
  note w2 = stage_acquire_world [OF w1(1,5) invalid(2) [unfolded f]]
  define w3 where "w3 = (if stg \<noteq> 0 then release_staging f stg w2 else w2)"
  have w3: "good w3 \<and> stagings w3 = stagings w1 \<and> queries w3 = queries w2 \<and> refs w3 = refs w2"
    using w2 release_staging_law [of w2 stg w3] by (auto simp: w3_def)
  define w4 where "w4 = (if qry \<noteq> 0 then release_query f qry w3 else w3)"
  have "good w4 \<and> stagings w4 = stagings w1 \<and> queries w4 = queries w1 \<and> refs w4 = refs w2"
    using w2 w3 release_query_law [of w3 qry w4] by (auto simp: w4_def)
  then have "m_ledger c (m\<lparr>world := w4\<rparr>)"
    using l w1 w2 L by (intro m_ledger_world) (auto simp: ledger_def)
  then show ?thesis unfolding invalid(3) f Let_def snd_conv w3_def w4_def .
next
  case (staged i w1 stride len sv stg qry fmt w2)
  have f: "ops m = f" and L: "ledger c (records m) (world m)" using l by (auto simp: m_ledger_def)
  have w1: "good w1" "stagings w1 = stagings (world m)" "queries w1 = queries (world m)"
    "refs w1 = c(source := c source + 1)" "0 < refs w1 source"
    using src staged(4) L by (auto simp: f ledger_def well_retained_def)
  note w2 = stage_acquire_world [OF w1(1,5) staged(5) [unfolded f]]
  note acq = stage_acquire_valid [OF staged(5)]
  let ?r = "staged_record req si rg slot gen frame wd ht fmt stride len stg qry"
  have i: "i < length (records m)" "\<not> used (records m ! i)"
    using staged(2) first_index_SomeD unfolding readback_free_record_def by blast+
  then have z: "records m ! i = zero_record"
    using record_at [OF ok i(1)] by (simp add: record_ok_def)
  have r: "staging ?r = stg" "query ?r = qry" by (simp_all add: staged_record_def)
  have S: "handles staging ((records m)[i := ?r]) = insert stg (handles staging (records m))
      \<and> handles_once staging ((records m)[i := ?r])"
    using handles_insert [of i "records m" staging ?r] i z r acq w1 w2 L by (auto simp: ledger_def)
  have Q: "handles query ((records m)[i := ?r]) = insert qry (handles query (records m))
      \<and> handles_once query ((records m)[i := ?r])"
    using handles_insert [of i "records m" query ?r] i z r acq w1 w2 L by (auto simp: ledger_def)
  show ?thesis
    using S Q L w1 w2 acq by (auto simp: staged(6) m_ledger_def f ledger_def)
qed

subsection \<open>The other calls\<close>

lemma m_ledger_resolve:
  assumes l: "m_ledger c m"
  shows "m_ledger c (snd (readback_resolve tid m slot gen frame ok origin))"
proof -
  have each: "m_ledger c (on_records (\<lambda>(r, w). if \<not> waits_for slot gen frame r then (r, w)
      else if ok \<noteq> 0 then (r\<lparr>submitted_frame := frame, phase := GPU_PENDING\<rparr>, w)
      else readback_mark_failed (ops m') (r, w)) m')" if "m_ledger c m'" for m'
  proof (rule m_ledger_on_records [OF that])
    have "ops m' = f" using that by (simp add: m_ledger_def)
    then show "gives_up (\<lambda>(r, w). if \<not> waits_for slot gen frame r then (r, w)
      else if ok \<noteq> 0 then (r\<lparr>submitted_frame := frame, phase := GPU_PENDING\<rparr>, w)
      else readback_mark_failed (ops m') (r, w))"
      using mark_failed_gives_up handed_back_fields [OF handed_back_refl]
      by (auto simp: gives_up_def handed_back_refl)
  qed
  obtain reason w where w: "device_removed_reason (ops m) (world m) = (reason, w)" by fastforce
  note lw = m_ledger_reason [OF l w]
  show ?thesis
    using l w each [OF l] each [OF lw] m_ledger_latch [OF lw]
    unfolding readback_resolve_def Let_def by (simp split: prod.split)
qed

lemma m_ledger_notify:
  assumes l: "m_ledger c m"
  shows "m_ledger c (snd (readback_notify_failure tid m si rg origin))"
proof -
  obtain reason w where w: "device_removed_reason (ops m) (world m) = (reason, w)" by fastforce
  note lw = m_ledger_reason [OF l w]
  show ?thesis
    using l lw m_ledger_latch [OF lw] w
    unfolding readback_notify_failure_def Let_def by (simp split: prod.split)
qed

lemma settle_gives_up:
  "owns r w \<Longrightarrow> staging r \<noteq> 0 \<Longrightarrow> handed_back r w (settle_record alloc f mapped pitch (r, w))"
proof -
  assume own: "owns r w" and s: "staging r \<noteq> 0"
  obtain ok r1 where norm: "readback_normalize alloc r mapped pitch = (ok, r1)" by fastforce
  have r1: "staging r1 = staging r" "query r1 = query r"
    using norm by (auto simp: readback_normalize_def split: option.splits if_splits)
  define w1 where "w1 = unmap_staging f (staging r) w"
  have w1: "good w1 \<and> stagings w1 = stagings w \<and> queries w1 = queries w \<and> refs w1 = refs w"
    using unmap_law [of w "staging r" w1] own s by (auto simp: owns_def w1_def)
  then have own1: "owns r1 w1" using own r1 by (simp add: owns_def)
  define w2 where "w2 = snd (readback_release_native f (r1, w1))"
  let ?r2 = "r1\<lparr>staging := 0, query := 0\<rparr>"
  have rel: "readback_release_native f (r1, w1) = (?r2, w2)"
    unfolding w2_def by (rule release_native_pair)
  have "handed_back r1 w1 (?r2, w2)"
    using release_native_gives_up own1 rel unfolding gives_up_def by metis
  then have hb: "handed_back r w (?r2, w2)" using w1 r1 by (simp add: handed_back_def)
  have own2: "owns ?r2 w2" using hb by (simp add: handed_back_def owns_def)
  have fail: "handed_back r w (readback_mark_failed f (?r2, w2))"
    using gives_upD [OF mark_failed_gives_up own2 surjective_pairing] hb
    by (auto simp: handed_back_def split: prod.split)
  have "settle_record alloc f mapped pitch (r, w)
      = (if ok then (?r2\<lparr>phase := READY\<rparr>, w2) else readback_mark_failed f (?r2, w2))"
    by (simp add: settle_record_def Let_def norm rel flip: w1_def)
  moreover have "handed_back r w (?r2\<lparr>phase := READY\<rparr>, w2)"
    using hb by (rule handed_back_fields) simp_all
  ultimately show ?thesis using fail by simp
qed

lemma m_ledger_settle:
  assumes "m_ledger c m" "i < length (records m)" "staging (records m ! i) \<noteq> 0"
  shows "m_ledger c (at_record i (settle_record alloc (ops m) mapped pitch) m)"
proof -
  have f: "ops m = f" and L: "ledger c (records m) (world m)" using assms by (auto simp: m_ledger_def)
  obtain r' w' where run: "settle_record alloc f mapped pitch (records m ! i, world m) = (r', w')"
    by fastforce
  have "handed_back (records m ! i) (world m) (r', w')"
    using settle_gives_up [OF ledger_owns [OF L assms(2)] assms(3)] run by metis
  then show ?thesis
    using L assms(2) handles_update [of i "records m" staging r']
      handles_update [of i "records m" query r']
    by (simp add: m_ledger_def f ledger_def handed_back_def run)
qed

lemma m_ledger_lost_or_failed:
  assumes "m_ledger c m" "i < length (records m)"
  shows "m_ledger c (snd (lost_or_failed i m))"
proof -
  obtain reason w where w: "device_removed_reason (ops m) (world m) = (reason, w)" by fastforce
  note lw = m_ledger_reason [OF assms(1) w]
  have "gives_up (readback_mark_failed (ops m))"
    using assms(1) mark_failed_gives_up by (simp add: m_ledger_def)
  then have "m_ledger c (at_record i (readback_mark_failed (ops m)) (m\<lparr>world := w\<rparr>))"
    using lw assms(2) by (intro m_ledger_at_record) simp_all
  with w m_ledger_latch [OF lw] show ?thesis by (simp add: lost_or_failed_def Let_def)
qed

lemma m_ledger_poll_record:
  assumes ok: "machine_ok m" and l: "m_ledger c m" and i: "i < length (records m)"
  shows "m_ledger c (snd (poll_record alloc i m))"
proof (cases "used (records m ! i) \<and> phase (records m ! i) = GPU_PENDING")
  case False
  with l show ?thesis by (auto simp: poll_record_def Let_def)
next
  case True
  have h: "staging (records m ! i) \<noteq> 0" "query (records m ! i) \<noteq> 0"
    using record_at [OF ok i] True by (simp_all add: record_ok_def phase_ok_def)
  have f: "ops m = f" and L: "ledger c (records m) (world m)" using l by (auto simp: m_ledger_def)
  have own: "owns (records m ! i) (world m)" using L i by (rule ledger_owns)
  obtain res w1 where w1: "get_event_data f (query (records m ! i)) (world m) = (res, w1)" by fastforce
  let ?m1 = "m\<lparr>world := w1\<rparr>"
  have l1: "m_ledger c ?m1"
    using get_data_law [OF _ _ w1] own h l by (intro m_ledger_world) (auto simp: owns_def)
  then have own1: "owns (records m ! i) w1"
    using ledger_owns [of c "records m" w1 i] i by (simp add: m_ledger_def)
  obtain mres mapped pitch w2 where
    w2: "map_staging f (staging (records m ! i)) w1 = ((mres, mapped, pitch), w2)"
    by (metis prod.exhaust)
  let ?m2 = "m\<lparr>world := w2\<rparr>"
  have "m_ledger c (?m1\<lparr>world := w2\<rparr>)"
    using map_law [OF _ _ w2] own1 h by (intro m_ledger_world [OF l1]) (auto simp: owns_def)
  then have l2: "m_ledger c ?m2" by simp
  have i1: "i < length (records ?m1)" and i2: "i < length (records ?m2)" using i by simp_all
  show ?thesis
    using True l1 l2 m_ledger_lost_or_failed [OF l1 i1] m_ledger_lost_or_failed [OF l2 i2]
      m_ledger_settle [OF l2 i2, of alloc mapped pitch] h
    by (simp add: poll_record_def Let_def f w1 w2)
qed

lemma m_ledger_poll_loop:
  "machine_ok m \<Longrightarrow> m_ledger c m \<Longrightarrow> \<forall>i \<in> set is. i < MAX_RECORDS \<Longrightarrow>
   m_ledger c (snd (poll_loop alloc is published m))"
proof (induction "is" arbitrary: published m)
  case (Cons i js)
  obtain out m' where step: "poll_record (alloc i) i m = (out, m')" by fastforce
  have i: "i < length (records m)" using Cons.prems machine_ok_length [of m] by simp
  have "machine_ok m'" "m_ledger c m'"
    using poll_record_ok [OF Cons.prems(1) i, of "alloc i"]
      m_ledger_poll_record [OF Cons.prems(1,2) i, of "alloc i"] step by simp_all
  then show ?case using Cons.IH Cons.prems step by (cases out) simp_all
qed simp

lemma m_ledger_clear_at:
  assumes "m_ledger c m" "i < length (records m)"
  shows "m_ledger c (at_record i (readback_clear_record (ops m)) m)"
proof -
  have "gives_up (readback_clear_record (ops m))"
    using assms(1) clear_gives_up by (simp add: m_ledger_def)
  with assms show ?thesis by (rule m_ledger_at_record)
qed

lemma m_ledger_clear_all: "m_ledger c m \<Longrightarrow> m_ledger c (readback_clear_all m)"
  using ledger_clear_all [of m c] by (simp add: m_ledger_def readback_clear_all_def)

lemma m_ledger_exec:
  assumes ok: "machine_ok m" and l: "m_ledger c m"
    and src: "\<forall>s \<in> staged_sources k. well_retained s (world m)"
  shows "m_ledger c (readback_exec tid k m)"
proof (cases k)
  case (Bind si rg)
  then show ?thesis using l by (auto simp: readback_bind_def intro: m_ledger_fields [OF l])
next
  case (Poll alloc)
  then show ?thesis using ok l by (simp add: readback_poll_def m_ledger_poll_loop)
next
  case Take
  then show ?thesis
    using l by (auto simp: readback_take_def Let_def split: option.split
        intro!: m_ledger_same_handles dest: first_index_SomeD)
next
  case (Copy req dest cap)
  then show ?thesis
    using l by (auto simp: readback_copy_def Let_def split: option.split
        intro!: m_ledger_same_handles dest: find_request_SomeD)
next
  case (Release req)
  then show ?thesis
    using l by (auto simp: readback_release_def split: option.split
        intro!: m_ledger_clear_at dest: find_request_SomeD)
next
  case (Cancel req)
  then show ?thesis
    using l by (auto simp: readback_cancel_def split: option.split
        intro!: m_ledger_clear_at dest: find_request_SomeD)
next
  case (Quiesce slot gen)
  have "gives_up (readback_clear_record (ops m))"
    using l clear_gives_up by (simp add: m_ledger_def)
  then show ?thesis
    using l Quiesce by (simp add: readback_quiesce_window_def m_ledger_on_records gives_up_if)
next
  case (Restart si rg)
  then show ?thesis
    using l m_ledger_fields [OF m_ledger_clear_all [OF l]] by (simp add: readback_restart_def)
next
  case Stop
  then show ?thesis
    using l m_ledger_fields [OF m_ledger_clear_all [OF l]] by (simp add: readback_stop_def)
qed (use ok l src in \<open>simp_all add: m_ledger_stage m_ledger_resolve m_ledger_notify\<close>)

end

text \<open>A provider that retains any source, as the test harness does.\<close>

locale d3d11_ops = d3d11_handles +
  assumes retain_law:
    "good w \<Longrightarrow> retain_source f s w = (ok, w') \<Longrightarrow>
       good w' \<and> stagings w' = stagings w \<and> queries w' = queries w \<and>
       (if ok then refs w' = (refs w)(s := refs w s + 1) \<and> 0 < refs w' s else refs w' = refs w)"
begin

lemma any_well_retained: assumes "good w" shows "well_retained s w"
proof (cases "retain_source f s w")
  case (Pair ok w')
  show ?thesis unfolding well_retained_def Pair prod.case by (rule retain_law [OF assms Pair])
qed

lemma m_ledger_call:
  assumes "machine_ok m" "m_ledger c m" shows "m_ledger c (readback_exec tid k m)"
proof -
  have "good (world m)" using assms(2) by (simp add: m_ledger_def ledger_def)
  then show ?thesis using assms any_well_retained by (intro m_ledger_exec) blast+
qed

end

end
