(* ===== verification/Fake_COM.thy ===== *)
theory Fake_COM
  imports Readback_Ledger
begin

text \<open>
  The provider of the COM operations that the repository tests the readback machine with,
  \<^verbatim>\<open>vlib/x/multiwindow/testdata/win32_readback_d3d11_fake_com.h\<close>: a world of recorded staging
  textures and queries with counters of their releases. A pointer to the \<open>k\<close>-th staging texture or
  query is the handle \<open>k + 1\<close>; a source is found by its handle in \<open>sources\<close>. \<open>alloc_outcomes\<close> holds
  the outcomes of the coming \<open>calloc\<close> calls, which succeed when the list has run out.
\<close>

record fake_source =
  src_width :: u32
  src_height :: u32
  src_format :: u32
  src_row_pitch :: u64
  src_pixels :: "nat \<Rightarrow> u8"
  src_refs :: int
  src_add_refs :: int
  src_releases :: int
  src_release_calls :: int

record fake_staging =
  stg_width :: u32
  stg_height :: u32
  stg_format :: u32
  stg_row_pitch :: u64
  stg_pixels :: "(nat \<Rightarrow> u8) option"
  stg_releases :: int
  stg_release_calls :: int

record fake_query =
  qry_releases :: int
  qry_release_calls :: int

record fake_world =
  sources :: "nat \<Rightarrow> fake_source"
  world_staging :: "fake_staging list"
  world_queries :: "fake_query list"
  query_results :: "int list"
  query_result_index :: nat
  map_result :: int
  map_results :: "int list"
  map_result_index :: nat
  map_calls :: int
  unmap_calls :: int
  copy_calls :: int
  end_query_calls :: int
  get_data_calls :: int
  device_reason_calls :: int
  journal :: "int list"
  alloc_outcomes :: "bool list"

definition DEVICE_LOST :: int where "DEVICE_LOST = - 2005270523"

definition v_mw_d3d11_fake_log :: "int \<Rightarrow> fake_world \<Rightarrow> fake_world" where
  "v_mw_d3d11_fake_log op w =
     (if length (journal w) < 256 then w\<lparr>journal := journal w @ [op]\<rparr> else w)"

definition fake_alloc :: "fake_world \<Rightarrow> bool \<times> fake_world" where
  "fake_alloc w = (case alloc_outcomes w of [] \<Rightarrow> (True, w)
     | b # bs \<Rightarrow> (b, w\<lparr>alloc_outcomes := bs\<rparr>))"

subsection \<open>The operations\<close>

definition v_mw_d3d11_fake_retain_source :: "nat \<Rightarrow> fake_world \<Rightarrow> bool \<times> fake_world" where
  "v_mw_d3d11_fake_retain_source s w =
     (if s = 0 \<or> src_refs (sources w s) \<le> 0 then (False, w)
      else (let w = v_mw_d3d11_fake_log 1 w; src = sources w s
            in (True, w\<lparr>sources := (sources w)(s := src\<lparr>src_refs := src_refs src + 1,
                  src_add_refs := src_add_refs src + 1\<rparr>)\<rparr>)))"

definition v_mw_d3d11_fake_release_source :: "nat \<Rightarrow> fake_world \<Rightarrow> fake_world" where
  "v_mw_d3d11_fake_release_source s w =
     (if s = 0 then w
      else (let src = (sources w s)\<lparr>src_release_calls := src_release_calls (sources w s) + 1\<rparr>;
                w = v_mw_d3d11_fake_log 5 (w\<lparr>sources := (sources w)(s := src)\<rparr>)
            in if src_refs src > 0 then
                 w\<lparr>sources := (sources w)(s := src\<lparr>src_refs := src_refs src - 1,
                   src_releases := src_releases src + 1\<rparr>)\<rparr>
               else w))"

definition v_mw_d3d11_fake_describe_source ::
  "nat \<Rightarrow> fake_world \<Rightarrow> (int \<times> u32 \<times> u32 \<times> u32) \<times> fake_world" where
  "v_mw_d3d11_fake_describe_source s w =
     (if s = 0 then ((DEVICE_LOST, 0, 0, 0), w)
      else (let src = sources w s
            in ((D3D_OK, src_width src, src_height src, src_format src),
                v_mw_d3d11_fake_log 2 w)))"

definition fake_region :: "fake_source \<Rightarrow> u32 \<Rightarrow> u32 \<Rightarrow> u32 \<Rightarrow> u32 \<Rightarrow> nat \<Rightarrow> nat \<Rightarrow> u8" where
  "fake_region src x y wd ht pitch k =
     (if k div pitch < unat ht \<and> k mod pitch < unat wd * 4
      then src_pixels src (unat (y + of_nat (k div pitch)) * unat (src_row_pitch src)
             + unat x * 4 + k mod pitch) else 0)"

definition v_mw_d3d11_fake_copy_region ::
  "nat \<Rightarrow> u32 \<Rightarrow> u32 \<Rightarrow> u32 \<Rightarrow> u32 \<Rightarrow> fake_world \<Rightarrow> (int \<times> nat) \<times> fake_world" where
  "v_mw_d3d11_fake_copy_region s x y wd ht w =
     (let src = sources w s
      in if s = 0 \<or> length (world_staging w) \<ge> 32 \<or> wd = 0 \<or> ht = 0
           \<or> x > src_width src \<or> y > src_height src
           \<or> wd > src_width src - x \<or> ht > src_height src - y
           \<or> (ucast wd :: u64) > (- 1 - 13) div 4
           \<or> (ucast ht :: u64) > (- 1) div ucast (wd * 4 + 13)
         then ((DEVICE_LOST, 0), w)
         else
           (let (ok, w) = fake_alloc w
            in if \<not> ok then ((DEVICE_LOST, 0), w)
               else
                 (let pitch = (ucast wd :: u64) * 4 + 13; (ok, w) = fake_alloc w
                  in if \<not> ok then ((DEVICE_LOST, 0), w)
                     else
                       (let stg = \<lparr>stg_width = wd, stg_height = ht, stg_format = src_format src,
                              stg_row_pitch = pitch,
                              stg_pixels = Some (fake_region src x y wd ht (unat pitch)),
                              stg_releases = 0, stg_release_calls = 0\<rparr>;
                            w = w\<lparr>world_staging := world_staging w @ [stg],
                                  copy_calls := copy_calls w + 1\<rparr>
                        in ((D3D_OK, length (world_staging w)), v_mw_d3d11_fake_log 3 w)))))"

definition v_mw_d3d11_fake_end_event_query :: "fake_world \<Rightarrow> (int \<times> nat) \<times> fake_world" where
  "v_mw_d3d11_fake_end_event_query w =
     (if length (world_queries w) \<ge> 32 then ((DEVICE_LOST, 0), w)
      else (let (ok, w) = fake_alloc w
            in if \<not> ok then ((DEVICE_LOST, 0), w)
               else (let w = w\<lparr>world_queries :=
                             world_queries w @ [\<lparr>qry_releases = 0, qry_release_calls = 0\<rparr>],
                           end_query_calls := end_query_calls w + 1\<rparr>
                     in ((D3D_OK, length (world_queries w)), v_mw_d3d11_fake_log 4 w))))"

definition v_mw_d3d11_fake_get_event_data :: "nat \<Rightarrow> fake_world \<Rightarrow> int \<times> fake_world" where
  "v_mw_d3d11_fake_get_event_data q w =
     (if q = 0 then (DEVICE_LOST, w)
      else (let w = v_mw_d3d11_fake_log 6 (w\<lparr>get_data_calls := get_data_calls w + 1\<rparr>)
            in if query_result_index w < length (query_results w) then
                 (query_results w ! query_result_index w,
                  w\<lparr>query_result_index := query_result_index w + 1\<rparr>)
               else (D3D_OK, w)))"

definition v_mw_d3d11_fake_map_staging ::
  "nat \<Rightarrow> fake_world \<Rightarrow> (int \<times> (nat \<Rightarrow> u8) option \<times> u64) \<times> fake_world" where
  "v_mw_d3d11_fake_map_staging h w =
     (if h = 0 then ((DEVICE_LOST, None, 0), w)
      else
        (let w = v_mw_d3d11_fake_log 7 (w\<lparr>map_calls := map_calls w + 1\<rparr>);
             (early, w) =
               (if map_result_index w < length (map_results w) then
                  (map_results w ! map_result_index w,
                   w\<lparr>map_result_index := map_result_index w + 1\<rparr>)
                else (D3D_OK, w))
         in if early \<noteq> D3D_OK then ((early, None, 0), w)
            else if map_result w \<noteq> D3D_OK then ((map_result w, None, 0), w)
            else ((D3D_OK, stg_pixels (world_staging w ! (h - 1)),
                   stg_row_pitch (world_staging w ! (h - 1))), w)))"

definition v_mw_d3d11_fake_unmap_staging :: "nat \<Rightarrow> fake_world \<Rightarrow> fake_world" where
  "v_mw_d3d11_fake_unmap_staging h w =
     (if h = 0 then w else v_mw_d3d11_fake_log 8 (w\<lparr>unmap_calls := unmap_calls w + 1\<rparr>))"

definition v_mw_d3d11_fake_release_staging :: "nat \<Rightarrow> fake_world \<Rightarrow> fake_world" where
  "v_mw_d3d11_fake_release_staging h w =
     (if h = 0 then w
      else (let stg = (world_staging w ! (h - 1))
                  \<lparr>stg_release_calls := stg_release_calls (world_staging w ! (h - 1)) + 1\<rparr>;
                stg = (if stg_releases stg = 0
                       then stg\<lparr>stg_releases := 1, stg_pixels := None\<rparr> else stg)
            in v_mw_d3d11_fake_log 9 (w\<lparr>world_staging := (world_staging w)[h - 1 := stg]\<rparr>)))"

definition v_mw_d3d11_fake_release_query :: "nat \<Rightarrow> fake_world \<Rightarrow> fake_world" where
  "v_mw_d3d11_fake_release_query q w =
     (if q = 0 then w
      else (let qry = (world_queries w ! (q - 1))
                  \<lparr>qry_release_calls := qry_release_calls (world_queries w ! (q - 1)) + 1\<rparr>;
                qry = (if qry_releases qry = 0 then qry\<lparr>qry_releases := 1\<rparr> else qry)
            in v_mw_d3d11_fake_log 10 (w\<lparr>world_queries := (world_queries w)[q - 1 := qry]\<rparr>)))"

definition v_mw_d3d11_fake_device_removed_reason :: "fake_world \<Rightarrow> int \<times> fake_world" where
  "v_mw_d3d11_fake_device_removed_reason w =
     (DEVICE_LOST, v_mw_d3d11_fake_log 11 (w\<lparr>device_reason_calls := device_reason_calls w + 1\<rparr>))"

definition v_mw_d3d11_fake_ops :: "fake_world raw_ops" where
  "v_mw_d3d11_fake_ops =
     \<lparr>raw_retain_source = Some v_mw_d3d11_fake_retain_source,
      raw_release_source = Some v_mw_d3d11_fake_release_source,
      raw_describe_source = Some v_mw_d3d11_fake_describe_source,
      raw_copy_region = Some v_mw_d3d11_fake_copy_region,
      raw_end_event_query = Some v_mw_d3d11_fake_end_event_query,
      raw_get_event_data = Some v_mw_d3d11_fake_get_event_data,
      raw_map_staging = Some v_mw_d3d11_fake_map_staging,
      raw_unmap_staging = Some v_mw_d3d11_fake_unmap_staging,
      raw_release_staging = Some v_mw_d3d11_fake_release_staging,
      raw_release_query = Some v_mw_d3d11_fake_release_query,
      raw_device_removed_reason = Some v_mw_d3d11_fake_device_removed_reason\<rparr>"

definition v_mw_d3d11_fake_world_released_once :: "fake_world \<Rightarrow> bool" where
  "v_mw_d3d11_fake_world_released_once w \<longleftrightarrow>
     list_all (\<lambda>s. stg_releases s = 1 \<and> stg_release_calls s = 1) (world_staging w)
     \<and> list_all (\<lambda>q. qry_releases q = 1 \<and> qry_release_calls q = 1) (world_queries w)"

subsection \<open>The world obeys the contract\<close>

definition fake_good :: "fake_world \<Rightarrow> bool" where
  "fake_good w \<longleftrightarrow>
     (\<forall>s \<in> set (world_staging w). stg_releases s = stg_release_calls s
        \<and> (stg_releases s = 0 \<or> stg_releases s = 1))
     \<and> (\<forall>q \<in> set (world_queries w). qry_releases q = qry_release_calls q
        \<and> (qry_releases q = 0 \<or> qry_releases q = 1))"

definition fake_stagings :: "fake_world \<Rightarrow> nat set" where
  "fake_stagings w = {h. 0 < h \<and> h \<le> length (world_staging w)
     \<and> stg_releases (world_staging w ! (h - 1)) = 0}"

definition fake_queries :: "fake_world \<Rightarrow> nat set" where
  "fake_queries w = {q. 0 < q \<and> q \<le> length (world_queries w)
     \<and> qry_releases (world_queries w ! (q - 1)) = 0}"

definition fake_refs :: "fake_world \<Rightarrow> nat \<Rightarrow> int" where
  "fake_refs w s = (if s = 0 then 0 else src_refs (sources w s))"

lemma fake_log_fields [simp]:
  "sources (v_mw_d3d11_fake_log op w) = sources w"
  "world_staging (v_mw_d3d11_fake_log op w) = world_staging w"
  "world_queries (v_mw_d3d11_fake_log op w) = world_queries w"
  "fake_good (v_mw_d3d11_fake_log op w) = fake_good w"
  "fake_stagings (v_mw_d3d11_fake_log op w) = fake_stagings w"
  "fake_queries (v_mw_d3d11_fake_log op w) = fake_queries w"
  "fake_refs (v_mw_d3d11_fake_log op w) = fake_refs w"
  by (simp_all add: v_mw_d3d11_fake_log_def fake_good_def fake_stagings_def fake_queries_def
      fake_refs_def fun_eq_iff)

text \<open>Two worlds that differ in counters and scripts only.\<close>

definition same_objects :: "fake_world \<Rightarrow> fake_world \<Rightarrow> bool" where
  "same_objects w w' \<longleftrightarrow> sources w' = sources w \<and> world_staging w' = world_staging w
     \<and> world_queries w' = world_queries w"

lemma same_objects_views:
  assumes "same_objects w w'"
  shows "fake_good w' = fake_good w" "fake_stagings w' = fake_stagings w"
    "fake_queries w' = fake_queries w" "fake_refs w' = fake_refs w"
  using assms
  by (simp_all add: same_objects_def fake_good_def fake_stagings_def fake_queries_def
      fake_refs_def fun_eq_iff)

lemma fake_alloc_same: "fake_alloc w = (ok, w') \<Longrightarrow> same_objects w w'"
  by (auto simp: fake_alloc_def same_objects_def split: list.splits)

lemma fresh_handles:
  "Suc (length (world_staging w)) \<notin> fake_stagings w"
  "Suc (length (world_queries w)) \<notin> fake_queries w"
  by (simp_all add: fake_stagings_def fake_queries_def)

lemma append_staging:
  assumes "stg_releases s = 0" "stg_release_calls s = 0"
  shows "fake_good (w\<lparr>world_staging := world_staging w @ [s], copy_calls := n\<rparr>) = fake_good w"
    and "fake_stagings (w\<lparr>world_staging := world_staging w @ [s], copy_calls := n\<rparr>)
      = insert (Suc (length (world_staging w))) (fake_stagings w)"
  using assms
  by (auto simp: fake_good_def fake_stagings_def nth_append le_Suc_eq)

lemma append_query:
  assumes "qry_releases s = 0" "qry_release_calls s = 0"
  shows "fake_good (w\<lparr>world_queries := world_queries w @ [s], end_query_calls := n\<rparr>) = fake_good w"
    and "fake_queries (w\<lparr>world_queries := world_queries w @ [s], end_query_calls := n\<rparr>)
      = insert (Suc (length (world_queries w))) (fake_queries w)"
  using assms
  by (auto simp: fake_good_def fake_queries_def nth_append le_Suc_eq)

lemma fake_copy_region:
  assumes "v_mw_d3d11_fake_copy_region s x y wd ht w = ((res, h), w')"
  shows "(fake_good w' \<longleftrightarrow> fake_good w) \<and> fake_queries w' = fake_queries w
    \<and> fake_refs w' = fake_refs w
    \<and> (if h = 0 then fake_stagings w' = fake_stagings w
       else h \<notin> fake_stagings w \<and> fake_stagings w' = insert h (fake_stagings w))"
proof -
  obtain ok1 w1 where a1: "fake_alloc w = (ok1, w1)" by fastforce
  obtain ok2 w2 where a2: "fake_alloc w1 = (ok2, w2)" by fastforce
  note v1 = same_objects_views [OF fake_alloc_same [OF a1]]
  note v2 = same_objects_views [OF fake_alloc_same [OF a2]]
  have q: "fake_queries (w\<lparr>world_staging := x, copy_calls := n\<rparr>) = fake_queries w"
    "fake_refs (w\<lparr>world_staging := x, copy_calls := n\<rparr>) = fake_refs w" for w x n
    by (simp_all add: fake_queries_def fake_refs_def fun_eq_iff)
  show ?thesis
    using assms a1 a2 v1 v2 append_staging q fresh_handles(1) [of w2]
    unfolding v_mw_d3d11_fake_copy_region_def Let_def
    by (auto split: if_splits prod.splits)
qed

lemma fake_end_query:
  assumes "v_mw_d3d11_fake_end_event_query w = ((res, h), w')"
  shows "(fake_good w' \<longleftrightarrow> fake_good w) \<and> fake_stagings w' = fake_stagings w
    \<and> fake_refs w' = fake_refs w
    \<and> (if h = 0 then fake_queries w' = fake_queries w
       else h \<notin> fake_queries w \<and> fake_queries w' = insert h (fake_queries w))"
proof -
  obtain ok1 w1 where a1: "fake_alloc w = (ok1, w1)" by fastforce
  note v1 = same_objects_views [OF fake_alloc_same [OF a1]]
  have q: "fake_stagings (w\<lparr>world_queries := x, end_query_calls := n\<rparr>) = fake_stagings w"
    "fake_refs (w\<lparr>world_queries := x, end_query_calls := n\<rparr>) = fake_refs w" for w x n
    by (simp_all add: fake_stagings_def fake_refs_def fun_eq_iff)
  show ?thesis
    using assms a1 v1 append_query q fresh_handles(2) [of w1]
    unfolding v_mw_d3d11_fake_end_event_query_def Let_def
    by (auto split: if_splits prod.splits)
qed

lemma fake_release_staging:
  assumes "fake_good w" "h \<in> fake_stagings w"
  shows "fake_good (v_mw_d3d11_fake_release_staging h w)
    \<and> fake_stagings (v_mw_d3d11_fake_release_staging h w) = fake_stagings w - {h}
    \<and> fake_queries (v_mw_d3d11_fake_release_staging h w) = fake_queries w
    \<and> fake_refs (v_mw_d3d11_fake_release_staging h w) = fake_refs w"
proof -
  obtain k where k: "h = Suc k" "k < length (world_staging w)"
    "stg_releases (world_staging w ! k) = 0"
    using assms(2) by (cases h) (auto simp: fake_stagings_def)
  have calls: "stg_release_calls (world_staging w ! k) = 0"
    using assms(1) k nth_mem [OF k(2)] by (auto simp: fake_good_def)
  let ?s = "(world_staging w ! k)\<lparr>stg_release_calls := 1, stg_releases := 1, stg_pixels := None\<rparr>"
  let ?w = "w\<lparr>world_staging := (world_staging w)[k := ?s]\<rparr>"
  have run: "v_mw_d3d11_fake_release_staging h w = v_mw_d3d11_fake_log 9 ?w"
    using k calls by (simp add: v_mw_d3d11_fake_release_staging_def Let_def)
  have "fake_good ?w"
    using assms(1) by (auto simp: fake_good_def elim!: in_set_updateE)
  moreover have "fake_stagings ?w = fake_stagings w - {h}"
    using k by (auto simp: fake_stagings_def nth_list_update Suc_diff_Suc split: if_splits)
  moreover have "fake_queries ?w = fake_queries w" "fake_refs ?w = fake_refs w"
    by (simp_all add: fake_queries_def fake_refs_def fun_eq_iff)
  ultimately show ?thesis by (simp add: run)
qed

lemma fake_release_query:
  assumes "fake_good w" "h \<in> fake_queries w"
  shows "fake_good (v_mw_d3d11_fake_release_query h w)
    \<and> fake_queries (v_mw_d3d11_fake_release_query h w) = fake_queries w - {h}
    \<and> fake_stagings (v_mw_d3d11_fake_release_query h w) = fake_stagings w
    \<and> fake_refs (v_mw_d3d11_fake_release_query h w) = fake_refs w"
proof -
  obtain k where k: "h = Suc k" "k < length (world_queries w)"
    "qry_releases (world_queries w ! k) = 0"
    using assms(2) by (cases h) (auto simp: fake_queries_def)
  have calls: "qry_release_calls (world_queries w ! k) = 0"
    using assms(1) k nth_mem [OF k(2)] by (auto simp: fake_good_def)
  let ?s = "(world_queries w ! k)\<lparr>qry_release_calls := 1, qry_releases := 1\<rparr>"
  let ?w = "w\<lparr>world_queries := (world_queries w)[k := ?s]\<rparr>"
  have run: "v_mw_d3d11_fake_release_query h w = v_mw_d3d11_fake_log 10 ?w"
    using k calls by (simp add: v_mw_d3d11_fake_release_query_def Let_def)
  have "fake_good ?w"
    using assms(1) by (auto simp: fake_good_def elim!: in_set_updateE)
  moreover have "fake_queries ?w = fake_queries w - {h}"
    using k by (auto simp: fake_queries_def nth_list_update Suc_diff_Suc split: if_splits)
  moreover have "fake_stagings ?w = fake_stagings w" "fake_refs ?w = fake_refs w"
    by (simp_all add: fake_stagings_def fake_refs_def fun_eq_iff)
  ultimately show ?thesis by (simp add: run)
qed

lemma fake_sources_views:
  "fake_good (w\<lparr>sources := s\<rparr>) = fake_good w"
  "fake_stagings (w\<lparr>sources := s\<rparr>) = fake_stagings w"
  "fake_queries (w\<lparr>sources := s\<rparr>) = fake_queries w"
  by (simp_all add: fake_good_def fake_stagings_def fake_queries_def)

lemma fake_retain_source:
  assumes "v_mw_d3d11_fake_retain_source s w = (ok, w')"
  shows "(fake_good w' \<longleftrightarrow> fake_good w) \<and> fake_stagings w' = fake_stagings w
    \<and> fake_queries w' = fake_queries w
    \<and> (if ok then fake_refs w' = (fake_refs w)(s := fake_refs w s + 1) \<and> 0 < fake_refs w' s
       else fake_refs w' = fake_refs w)"
  using assms
  by (auto simp: v_mw_d3d11_fake_retain_source_def Let_def fake_sources_views fake_refs_def
      fun_eq_iff split: if_splits)

lemma fake_release_source:
  assumes "0 < fake_refs w s"
  shows "(fake_good (v_mw_d3d11_fake_release_source s w) \<longleftrightarrow> fake_good w)
    \<and> fake_stagings (v_mw_d3d11_fake_release_source s w) = fake_stagings w
    \<and> fake_queries (v_mw_d3d11_fake_release_source s w) = fake_queries w
    \<and> fake_refs (v_mw_d3d11_fake_release_source s w) = (fake_refs w)(s := fake_refs w s - 1)"
  using assms
  by (auto simp: v_mw_d3d11_fake_release_source_def Let_def fake_sources_views fake_refs_def
      fun_eq_iff split: if_splits)

interpretation fake: d3d11_ops "ops_of_raw v_mw_d3d11_fake_ops" fake_good fake_stagings
  fake_queries fake_refs
proof
  fix w w' :: fake_world and s h q :: nat and x y wd ht :: u32 and res :: int
  {
    fix ok
    assume w: "fake_good w" and "retain_source (ops_of_raw v_mw_d3d11_fake_ops) s w = (ok, w')"
    then have run: "v_mw_d3d11_fake_retain_source s w = (ok, w')"
      by (simp add: ops_of_raw_def v_mw_d3d11_fake_ops_def)
    show "fake_good w' \<and> fake_stagings w' = fake_stagings w \<and> fake_queries w' = fake_queries w \<and>
       (if ok then fake_refs w' = (fake_refs w)(s := fake_refs w s + 1) \<and> 0 < fake_refs w' s
        else fake_refs w' = fake_refs w)"
      using fake_retain_source [OF run] w by blast
  next
    assume "fake_good w" "0 < fake_refs w s"
      "w' = release_source (ops_of_raw v_mw_d3d11_fake_ops) s w"
    then show "fake_good w' \<and> fake_stagings w' = fake_stagings w \<and> fake_queries w' = fake_queries w \<and>
       fake_refs w' = (fake_refs w)(s := fake_refs w s - 1)"
      using fake_release_source by (simp add: ops_of_raw_def v_mw_d3d11_fake_ops_def)
  next
    fix desc
    assume "fake_good w" "describe_source (ops_of_raw v_mw_d3d11_fake_ops) s w = (desc, w')"
    then show "fake_good w' \<and> fake_stagings w' = fake_stagings w \<and> fake_queries w' = fake_queries w
      \<and> fake_refs w' = fake_refs w"
      by (auto simp: ops_of_raw_def v_mw_d3d11_fake_ops_def v_mw_d3d11_fake_describe_source_def
          Let_def split: if_splits)
  next
    assume "fake_good w" "copy_region (ops_of_raw v_mw_d3d11_fake_ops) s x y wd ht w = ((res, h), w')"
    then show "fake_good w' \<and> fake_queries w' = fake_queries w \<and> fake_refs w' = fake_refs w \<and>
       (if h = 0 then fake_stagings w' = fake_stagings w
        else h \<notin> fake_stagings w \<and> fake_stagings w' = insert h (fake_stagings w))"
      using fake_copy_region by (simp add: ops_of_raw_def v_mw_d3d11_fake_ops_def)
  next
    assume "fake_good w" "end_event_query (ops_of_raw v_mw_d3d11_fake_ops) w = ((res, h), w')"
    then show "fake_good w' \<and> fake_stagings w' = fake_stagings w \<and> fake_refs w' = fake_refs w \<and>
       (if h = 0 then fake_queries w' = fake_queries w
        else h \<notin> fake_queries w \<and> fake_queries w' = insert h (fake_queries w))"
      using fake_end_query by (simp add: ops_of_raw_def v_mw_d3d11_fake_ops_def)
  next
    assume "fake_good w" "q \<in> fake_queries w"
      "get_event_data (ops_of_raw v_mw_d3d11_fake_ops) q w = (res, w')"
    then have "fake_good w" "same_objects w w'"
      by (auto simp: ops_of_raw_def v_mw_d3d11_fake_ops_def v_mw_d3d11_fake_get_event_data_def
          Let_def same_objects_def split: if_splits)
    then show "fake_good w' \<and> fake_stagings w' = fake_stagings w \<and> fake_queries w' = fake_queries w
      \<and> fake_refs w' = fake_refs w"
      by (simp add: same_objects_views)
  next
    fix out
    assume "fake_good w" "h \<in> fake_stagings w"
      "map_staging (ops_of_raw v_mw_d3d11_fake_ops) h w = (out, w')"
    then have "fake_good w" "same_objects w w'"
      by (auto simp: ops_of_raw_def v_mw_d3d11_fake_ops_def v_mw_d3d11_fake_map_staging_def
          Let_def same_objects_def split: if_splits)
    then show "fake_good w' \<and> fake_stagings w' = fake_stagings w \<and> fake_queries w' = fake_queries w
      \<and> fake_refs w' = fake_refs w"
      by (simp add: same_objects_views)
  next
    assume "fake_good w" "h \<in> fake_stagings w"
      "w' = unmap_staging (ops_of_raw v_mw_d3d11_fake_ops) h w"
    then have "fake_good w" "same_objects w w'"
      by (auto simp: ops_of_raw_def v_mw_d3d11_fake_ops_def v_mw_d3d11_fake_unmap_staging_def
          same_objects_def)
    then show "fake_good w' \<and> fake_stagings w' = fake_stagings w \<and> fake_queries w' = fake_queries w
      \<and> fake_refs w' = fake_refs w"
      by (simp add: same_objects_views)
  next
    assume "fake_good w" "h \<in> fake_stagings w"
      "w' = release_staging (ops_of_raw v_mw_d3d11_fake_ops) h w"
    then show "fake_good w' \<and> fake_stagings w' = fake_stagings w - {h}
      \<and> fake_queries w' = fake_queries w \<and> fake_refs w' = fake_refs w"
      using fake_release_staging by (simp add: ops_of_raw_def v_mw_d3d11_fake_ops_def)
  next
    assume "fake_good w" "h \<in> fake_queries w"
      "w' = release_query (ops_of_raw v_mw_d3d11_fake_ops) h w"
    then show "fake_good w' \<and> fake_stagings w' = fake_stagings w
      \<and> fake_queries w' = fake_queries w - {h} \<and> fake_refs w' = fake_refs w"
      using fake_release_query by (simp add: ops_of_raw_def v_mw_d3d11_fake_ops_def)
  next
    assume "fake_good w" "device_removed_reason (ops_of_raw v_mw_d3d11_fake_ops) w = (res, w')"
    then have "fake_good w" "same_objects w w'"
      by (auto simp: ops_of_raw_def v_mw_d3d11_fake_ops_def same_objects_def
          v_mw_d3d11_fake_device_removed_reason_def)
    then show "fake_good w' \<and> fake_stagings w' = fake_stagings w \<and> fake_queries w' = fake_queries w
      \<and> fake_refs w' = fake_refs w"
      by (simp add: same_objects_views)
  }
qed

end
