(* ===== verification/Readback_Props.thy ===== *)
theory Readback_Props
  imports Readback_Pixels Fake_COM
begin

text \<open>
  The properties of the readback machine: the invariant, the state machine of a request, what is
  delivered and copied and how often, and, on the fake COM world, that every native object is
  released exactly once.
\<close>

subsection \<open>Safety of every reachable machine\<close>

text \<open>C1: every machine that can be reached from creation by any sequence of calls, by any
  thread, with any answers of the COM functions, is well formed: 64 records, distinct requests,
  handles and pixels as the phase of each record wants them, no work in flight after device loss
  and no record in use after stop.\<close>

theorem readback_invariant:
  assumes "readback_reachable f w0 m"
  shows "machine_ok m"
  using assms by (rule reachable_ok)

text \<open>The transitions of a record that is in use.\<close>

inductive phase_step :: "readback_phase \<Rightarrow> readback_phase \<Rightarrow> bool" where
  submitted: "phase_step WAITING_SUBMIT GPU_PENDING"
| settled: "phase_step GPU_PENDING READY"
| dropped: "phase_step WAITING_SUBMIT FAILED"
| failed: "phase_step GPU_PENDING FAILED"
| stays: "phase_step p p"

inductive_simps phase_step_simps [simp]:
  "phase_step WAITING_SUBMIT p" "phase_step GPU_PENDING p" "phase_step READY p" "phase_step FAILED p"

text \<open>One call may change a record in use along \<open>phase_step\<close>, clear it, or put a request of \<open>N\<close>, the
  requests that the call stages, into a free slot.\<close>

definition record_step :: "u64 set \<Rightarrow> readback_record \<Rightarrow> readback_record \<Rightarrow> bool" where
  "record_step N r r' \<longleftrightarrow>
     (used r \<and> used r' \<and> request r' = request r \<and> phase_step (phase r) (phase r')
        \<and> (taken r \<longrightarrow> taken r') \<and> (copied r \<longrightarrow> copied r')
        \<and> (phase r = READY \<longrightarrow> pixels r' = pixels r))
     \<or> r' = zero_record
     \<or> (\<not> used r \<and> used r' \<and> request r' \<in> N \<and> phase r' = WAITING_SUBMIT \<and> \<not> taken r'
        \<and> \<not> copied r')"

definition steps_of :: "u64 set \<Rightarrow> 'w readback_machine \<Rightarrow> 'w readback_machine \<Rightarrow> bool" where
  "steps_of N m m' \<longleftrightarrow> length (records m') = length (records m)
     \<and> (\<forall>i < length (records m). record_step N (records m ! i) (records m' ! i))"

lemma record_step_refl: "record_ok si rg r \<Longrightarrow> record_step N r r"
  by (auto simp: record_step_def record_ok_def intro: phase_step.stays)

lemma all_nth_update:
  assumes "\<And>j. j < length xs \<Longrightarrow> R (xs ! j) (xs ! j)" "i < length xs \<Longrightarrow> R (xs ! i) y"
  shows "\<forall>j < length xs. R (xs ! j) (xs[i := y] ! j)"
proof (intro allI impI)
  fix j assume "j < length xs"
  then show "R (xs ! j) (xs[i := y] ! j)" using assms by (cases "i = j") simp_all
qed

subsection \<open>Settling: what poll and device loss do to a record\<close>

definition settles :: "readback_record \<Rightarrow> readback_record \<Rightarrow> bool" where
  "settles r r' \<longleftrightarrow> r' = r \<or>
     (used r \<and> used r' \<and> request r' = request r \<and> taken r' = taken r \<and> copied r' = copied r
      \<and> (phase r = GPU_PENDING \<and> (phase r' = READY \<or> phase r' = FAILED)
         \<or> phase r = WAITING_SUBMIT \<and> phase r' = FAILED))"

definition all_settle :: "'w readback_machine \<Rightarrow> 'w readback_machine \<Rightarrow> bool" where
  "all_settle m m' \<longleftrightarrow> length (records m') = length (records m)
     \<and> (\<forall>i < length (records m). settles (records m ! i) (records m' ! i))"

lemma settles_step: "record_ok si rg r \<Longrightarrow> settles r r' \<Longrightarrow> record_step N r r'"
  using record_step_refl by (auto simp: settles_def record_step_def)

lemma all_settle_refl: "records m' = records m \<Longrightarrow> all_settle m m'"
  by (simp add: all_settle_def settles_def)

lemma settles_refl [simp]: "settles r r"
  by (simp add: settles_def)

lemma settles_trans: "settles a b \<Longrightarrow> settles b c \<Longrightarrow> settles a c"
  by (auto simp: settles_def)

lemma all_settle_trans: "all_settle m m' \<Longrightarrow> all_settle m' m'' \<Longrightarrow> all_settle m m''"
  by (auto simp: all_settle_def intro: settles_trans)

lemma failed_settles: "record_ok si rg r \<Longrightarrow> settles r (failed_record r)"
proof (cases "used r")
  case True
  assume "record_ok si rg r"
  with True have "phase r \<noteq> FREE" by (auto simp: record_ok_def phase_ok_def)
  with True show ?thesis by (cases "phase r") (simp_all add: settles_def failed_record_def)
qed (simp add: failed_record_def)

lemma latch_settles: "machine_ok m \<Longrightarrow> all_settle m (readback_latch_device_loss m)"
proof (cases "device_lost m")
  case True
  then show ?thesis by (simp add: readback_latch_device_loss_def all_settle_refl)
next
  case False
  assume "machine_ok m"
  then show ?thesis
    using failed_settles [OF record_at [of m]] by (simp add: all_settle_def latch_records [OF False])
qed

lemma at_record_settles:
  assumes "\<And>w. settles (records m ! i) (fst (g (records m ! i, w)))"
  shows "all_settle m (at_record i g m)"
  unfolding all_settle_def using assms by (simp add: all_nth_update)

lemma poll_record_settles:
  assumes ok: "machine_ok m" and i: "i < length (records m)"
  shows "all_settle m (snd (poll_record alloc i m))"
proof (cases "used (records m ! i) \<and> phase (records m ! i) = GPU_PENDING")
  case False
  then show ?thesis by (auto simp: poll_record_def Let_def all_settle_refl)
next
  case True
  let ?r = "records m ! i"
  have fail: "all_settle m (snd (lost_or_failed i (m\<lparr>world := w\<rparr>)))" for w
  proof -
    obtain reason w' where w': "device_removed_reason (ops m) w = (reason, w')" by fastforce
    have "all_settle (m\<lparr>world := w'\<rparr>) (readback_latch_device_loss (m\<lparr>world := w'\<rparr>))"
      using ok by (intro latch_settles) simp
    moreover have "all_settle (m\<lparr>world := w'\<rparr>)
        (at_record i (readback_mark_failed (ops m)) (m\<lparr>world := w'\<rparr>))"
      using failed_settles [OF record_at [OF ok i]]
      by (intro at_record_settles) (simp add: mark_failed_record)
    ultimately show ?thesis by (simp add: lost_or_failed_def Let_def w' all_settle_def)
  qed
  have settle: "all_settle m (at_record i (settle_record alloc (ops m) mapped pitch) (m\<lparr>world := w\<rparr>))"
    for mapped pitch w
  proof -
    obtain ok' r1 where norm: "readback_normalize alloc ?r mapped pitch = (ok', r1)" by fastforce
    have r1: "used r1 = used ?r" "request r1 = request ?r" "taken r1 = taken ?r"
      "copied r1 = copied ?r" "phase r1 = phase ?r"
      using norm by (auto simp: readback_normalize_def split: option.splits if_splits)
    have "settles ?r (fst (settle_record alloc (ops m) mapped pitch (?r, w)))" for w
    proof -
      obtain w2 where rel: "readback_release_native (ops m) (r1, unmap_staging (ops m) (staging ?r) w)
          = (r1\<lparr>staging := 0, query := 0\<rparr>, w2)"
        using release_native_record [of "ops m" r1] by (metis prod.collapse)
      show ?thesis
        using True r1 mark_failed_record [of "ops m" "r1\<lparr>staging := 0, query := 0\<rparr>" w2]
        by (simp add: settle_record_def Let_def norm rel settles_def failed_record_def)
    qed
    then have "all_settle (m\<lparr>world := w\<rparr>)
        (at_record i (settle_record alloc (ops m) mapped pitch) (m\<lparr>world := w\<rparr>))"
      by (intro at_record_settles) simp
    then show ?thesis by (simp add: all_settle_def)
  qed
  show ?thesis
    using fail settle by (auto simp: poll_record_def Let_def all_settle_refl split: prod.split)
qed

lemma poll_loop_settles:
  "machine_ok m \<Longrightarrow> \<forall>i \<in> set is. i < MAX_RECORDS \<Longrightarrow>
   all_settle m (snd (poll_loop alloc is published m))"
proof (induction "is" arbitrary: published m)
  case Nil
  then show ?case by (simp add: all_settle_refl)
next
  case (Cons i js)
  obtain out m' where step: "poll_record (alloc i) i m = (out, m')" by fastforce
  have i: "i < length (records m)" using Cons.prems machine_ok_length [of m] by simp
  have "machine_ok m'" "all_settle m m'"
    using poll_record_ok [OF Cons.prems(1) i, of "alloc i"]
      poll_record_settles [OF Cons.prems(1) i, of "alloc i"] step by simp_all
  then have "all_settle m (snd (poll_loop alloc js p m'))" for p
    using Cons.IH [of m' p] Cons.prems(2) by (auto intro: all_settle_trans)
  then show ?case using step \<open>all_settle m m'\<close> by (cases out) simp_all
qed

subsection \<open>Every call steps every record\<close>

lemma steps_refl: "machine_ok m \<Longrightarrow> records m' = records m \<Longrightarrow> steps_of N m m'"
  using record_step_refl record_at [of m] unfolding steps_of_def by metis

lemma steps_settle: "machine_ok m \<Longrightarrow> all_settle m m' \<Longrightarrow> steps_of N m m'"
  using settles_step record_at [of m] unfolding steps_of_def all_settle_def by metis

lemma steps_update:
  assumes "machine_ok m" "i < length (records m) \<Longrightarrow> record_step N (records m ! i) r"
  shows "steps_of N m (m'\<lparr>records := (records m)[i := r]\<rparr>)"
  unfolding steps_of_def using assms record_step_refl [OF record_at [OF assms(1)]]
  by (simp add: all_nth_update)

lemma steps_map:
  assumes "machine_ok m" "records m' = map h (records m)"
    and "\<And>r. r \<in> set (records m) \<Longrightarrow> record_step N r (h r)"
  shows "steps_of N m m'"
  using assms by (simp add: steps_of_def)

lemma step_to_zero: "record_step N r zero_record"
  by (simp add: record_step_def)

lemma steps_cleared: "machine_ok m \<Longrightarrow> records m' = records (readback_clear_all m) \<Longrightarrow> steps_of N m m'"
  by (simp add: steps_of_def clear_all_records machine_ok_length step_to_zero)

lemma steps_clear_at: "machine_ok m \<Longrightarrow> steps_of N m (at_record i (readback_clear_record f) m)"
  unfolding steps_of_def using record_step_refl [OF record_at [of m]]
  by (simp add: all_nth_update clear_record_record step_to_zero)

fun staged_requests :: "readback_call \<Rightarrow> u64 set" where
  "staged_requests (Stage req si rg slot gen source x y wd ht frame rz) = {req}"
| "staged_requests c = {}"

lemma stage_steps:
  assumes "machine_ok m"
  shows "steps_of {req} m (snd (readback_stage tid m req si rg slot gen source x y wd ht frame rz))"
proof (cases rule: stage_cases [of tid m req si rg slot gen source x y wd ht frame rz])
  case (staged i w1 stride len sv stg qry fmt w2)
  have "\<not> used (records m ! i)"
    using staged(2) first_index_SomeD unfolding readback_free_record_def by blast
  then have "record_step {req} (records m ! i)
      (staged_record req si rg slot gen frame wd ht fmt stride len stg qry)"
    by (simp add: record_step_def staged_record_def zero_record_def)
  from steps_update [OF assms this, where m' = "m\<lparr>world := w2\<rparr>"] show ?thesis
    by (simp add: staged(6))
qed (use assms in \<open>simp_all add: steps_refl\<close>)

lemma resolve_steps:
  assumes "machine_ok m"
  shows "steps_of {} m (snd (readback_resolve tid m slot gen frame ok origin))"
proof -
  let ?h = "\<lambda>r. if \<not> waits_for slot gen frame r then r
    else if ok \<noteq> 0 then r\<lparr>submitted_frame := frame, phase := GPU_PENDING\<rparr> else failed_record r"
  have each: "steps_of {} m (on_records (\<lambda>(r, w). if \<not> waits_for slot gen frame r then (r, w)
      else if ok \<noteq> 0 then (r\<lparr>submitted_frame := frame, phase := GPU_PENDING\<rparr>, w)
      else readback_mark_failed (ops m') (r, w)) m')" if "records m' = records m" for m'
  proof (rule steps_map [OF assms, where h = ?h])
    show "records (on_records (\<lambda>(r, w). if \<not> waits_for slot gen frame r then (r, w)
      else if ok \<noteq> 0 then (r\<lparr>submitted_frame := frame, phase := GPU_PENDING\<rparr>, w)
      else readback_mark_failed (ops m') (r, w)) m') = map ?h (records m)"
      unfolding on_records_fields that by (rule each_record_map) (simp add: mark_failed_record)
    fix r assume "r \<in> set (records m)"
    then have ok: "record_ok (m_state_identity m) (m_renderer_generation m) r"
      using assms by (simp add: machine_ok_def)
    show "record_step {} r (?h r)"
      using record_step_refl [OF ok] settles_step [OF ok failed_settles [OF ok]]
      by (auto simp: waits_for_def record_step_def)
  qed
  have latch: "steps_of {} m (readback_latch_device_loss (m\<lparr>world := w\<rparr>))" for w
    using latch_settles [of "m\<lparr>world := w\<rparr>"] assms
    by (intro steps_settle [OF assms]) (simp add: all_settle_def)
  obtain reason w where "device_removed_reason (ops m) (world m) = (reason, w)" by fastforce
  then show ?thesis
    using steps_refl [OF assms] each [of m] each [of "m\<lparr>world := w\<rparr>"] latch [of w]
    unfolding readback_resolve_def Let_def by (simp split: prod.split)
qed

lemma notify_steps:
  assumes "machine_ok m" shows "steps_of {} m (snd (readback_notify_failure tid m si rg origin))"
proof -
  have "steps_of {} m (readback_latch_device_loss (m\<lparr>world := w\<rparr>))" for w
    using latch_settles [of "m\<lparr>world := w\<rparr>"] assms
    by (intro steps_settle [OF assms]) (simp add: all_settle_def)
  then show ?thesis
    using steps_refl [OF assms] by (simp add: readback_notify_failure_def Let_def split: prod.split)
qed

lemma take_steps:
  assumes "machine_ok m" shows "steps_of {} m (snd (readback_take tid m))"
proof (cases "first_index takeable (records m)")
  case (Some i)
  have "record_step {} (records m ! i) ((records m ! i)\<lparr>taken := True\<rparr>)"
    using first_index_SomeD [OF Some] by (auto simp: takeable_def record_step_def)
  from steps_update [OF assms this] show ?thesis
    using Some steps_refl [OF assms] by (simp add: readback_take_def Let_def)
qed (use steps_refl [OF assms] in \<open>simp add: readback_take_def\<close>)

lemma copy_steps:
  assumes "machine_ok m" shows "steps_of {} m (snd (readback_copy tid m req dest cap))"
proof (cases "readback_find_request m req")
  case (Some i)
  have "steps_of {} m (m\<lparr>records := (records m)[i := (records m ! i)\<lparr>copied := True\<rparr>]\<rparr>)"
    if "phase (records m ! i) = READY"
    using find_request_SomeD [OF Some] that
    by (intro steps_update [OF assms]) (auto simp: record_step_def)
  with Some steps_refl [OF assms] show ?thesis
    by (auto simp: readback_copy_def Let_def split: option.split)
qed (use steps_refl [OF assms] in \<open>simp add: readback_copy_def\<close>)

lemma quiesce_steps:
  assumes "machine_ok m" shows "steps_of {} m (snd (readback_quiesce_window tid m slot gen))"
proof -
  let ?h = "\<lambda>r. if of_window slot gen r then zero_record else r"
  have "steps_of {} m (on_records (\<lambda>(r, w). if of_window slot gen r
      then readback_clear_record (ops m) (r, w) else (r, w)) m)"
  proof (rule steps_map [OF assms, where h = ?h])
    show "records (on_records (\<lambda>(r, w). if of_window slot gen r
      then readback_clear_record (ops m) (r, w) else (r, w)) m) = map ?h (records m)"
      unfolding on_records_fields by (rule each_record_map) (simp add: clear_record_record)
    fix r assume "r \<in> set (records m)"
    then have "record_ok (m_state_identity m) (m_renderer_generation m) r"
      using assms by (simp add: machine_ok_def)
    then show "record_step {} r (?h r)" by (simp add: record_step_refl step_to_zero)
  qed
  then show ?thesis using steps_refl [OF assms] by (simp add: readback_quiesce_window_def)
qed

lemma exec_steps:
  assumes "machine_ok m"
  shows "steps_of (staged_requests c) m (readback_exec tid c m)"
  using steps_refl [OF assms] steps_clear_at [OF assms] steps_cleared [OF assms]
    steps_settle [OF assms poll_loop_settles [OF assms]]
  by (cases c)
    (simp_all add: assms stage_steps resolve_steps notify_steps take_steps copy_steps quiesce_steps
      readback_bind_def readback_poll_def readback_release_def readback_cancel_def
      readback_restart_def readback_stop_def split: option.split)

text \<open>the life of a request. One call moves every record in use at most one step along
  \<open>WAITING_SUBMIT\<close>, \<open>GPU_PENDING\<close>, \<open>READY\<close> or \<open>FAILED\<close>, keeps its request, never takes back a
  delivery or a copy and never changes pixels once they are \<open>READY\<close>; otherwise it clears the
  record or stages the call's own request in a free slot.\<close>

theorem readback_phases:
  assumes "readback_reachable f w0 m"
  shows "steps_of (staged_requests c) m (readback_exec tid c m)"
  using exec_steps [OF reachable_ok [OF assms]] .

subsection \<open>Delivered once, copied once\<close>

fun readback_run :: "(u64 \<times> readback_call) list \<Rightarrow> 'w readback_machine \<Rightarrow> 'w readback_machine" where
  "readback_run [] m = m"
| "readback_run ((tid, c) # cs) m = readback_run cs (readback_exec tid c m)"

lemma run_ok: "machine_ok m \<Longrightarrow> machine_ok (readback_run cs m)"
  by (induction cs m rule: readback_run.induct) (simp_all add: exec_ok)

text \<open>A property of the records of one request that steps keep, for calls that do not stage it.\<close>

lemma run_keeps:
  assumes keep: "\<And>N r r'. q \<notin> N \<Longrightarrow> record_step N r r' \<Longrightarrow> used r' \<Longrightarrow> request r' = q \<Longrightarrow> P r \<Longrightarrow> P r'"
  shows "machine_ok m \<Longrightarrow> \<forall>(t, c) \<in> set cs. q \<notin> staged_requests c \<Longrightarrow>
    \<forall>r \<in> set (records m). used r \<and> request r = q \<longrightarrow> P r \<Longrightarrow>
    \<forall>r \<in> set (records (readback_run cs m)). used r \<and> request r = q \<longrightarrow> P r"
proof (induction cs m rule: readback_run.induct)
  case (2 tid c cs m)
  let ?m = "readback_exec tid c m"
  have steps: "steps_of (staged_requests c) m ?m" using 2 exec_steps by blast
  have "P (records ?m ! i)" if i: "i < length (records ?m)" "used (records ?m ! i)"
    "request (records ?m ! i) = q" for i
  proof -
    have i': "i < length (records m)" and st: "record_step (staged_requests c) (records m ! i) (records ?m ! i)"
      using steps i(1) by (auto simp: steps_of_def)
    have q: "q \<notin> staged_requests c" using 2 by auto
    then have "used (records m ! i) \<and> request (records m ! i) = q"
      using st i by (auto simp: record_step_def)
    with 2 i' have "P (records m ! i)" by auto
    with keep q st i show ?thesis by blast
  qed
  then have "\<forall>r \<in> set (records ?m). used r \<and> request r = q \<longrightarrow> P r"
    by (auto simp: in_set_conv_nth)
  with 2 show ?case by (simp add: exec_ok)
qed simp

lemma same_request:
  assumes "machine_ok m" "i < length (records m)" "used (records m ! i)" "r \<in> set (records m)"
    "used r" "request r = request (records m ! i)"
  shows "r = records m ! i"
proof -
  obtain j where j: "j < length (records m)" "r = records m ! j"
    using assms(4) by (metis in_set_conv_nth)
  have "distinct_requests (records m)" using assms(1) by (simp add: machine_ok_def)
  then have "j = i" using j assms(2,3,5,6) unfolding distinct_requests_def by blast
  with j show ?thesis by simp
qed

text \<open>a request is delivered at most once. After \<open>take\<close> has returned a result, no sequence of
  calls that does not stage that request anew makes \<open>take\<close> return it again.\<close>

theorem readback_take_once:
  assumes "readback_reachable f w0 m" and "readback_take tid m = (Some res, m')"
    and "\<forall>(t, c) \<in> set cs. res_request res \<notin> staged_requests c"
    and "readback_take tid' (readback_run cs m') = (Some res', m'')"
  shows "res_request res' \<noteq> res_request res"
proof -
  note ok = reachable_ok [OF assms(1)]
  obtain i where i: "first_index takeable (records m) = Some i"
    "res = result_of ((records m ! i)\<lparr>taken := True\<rparr>)"
    "m' = m\<lparr>records := (records m)[i := (records m ! i)\<lparr>taken := True\<rparr>]\<rparr>"
    using assms(2) by (auto simp: readback_take_def Let_def split: if_splits option.splits)
  note ii = first_index_SomeD [OF i(1)]
  have ok': "machine_ok m'" using take_ok [OF ok, of tid] assms(2) by simp
  have q: "request (records m' ! i) = res_request res" "used (records m' ! i)" "taken (records m' ! i)"
    "i < length (records m')"
    using ii by (auto simp: i(2,3) result_of_def Let_def takeable_def)
  have "\<forall>r \<in> set (records m'). used r \<and> request r = res_request res \<longrightarrow> taken r"
    using same_request [OF ok' q(4,2)] q by auto
  then have inv: "\<forall>r \<in> set (records (readback_run cs m')). used r \<and> request r = res_request res \<longrightarrow> taken r"
    using ok' assms(3) by (intro run_keeps [where P = taken]) (auto simp: record_step_def)
  obtain j where "first_index takeable (records (readback_run cs m')) = Some j"
    "res' = result_of ((records (readback_run cs m') ! j)\<lparr>taken := True\<rparr>)"
    using assms(4) by (auto simp: readback_take_def Let_def split: if_splits option.splits)
  with first_index_SomeD [OF this(1)] inv show ?thesis
    by (auto simp: result_of_def Let_def takeable_def)
qed

text \<open>pixels are copied out at most once per request, and what is copied is exactly the
  record's image, into the first \<open>byte_length\<close> bytes of the destination.\<close>

theorem readback_copy_once:
  assumes "readback_reachable f w0 m" and "readback_copy tid m q (Some d) cap = (Some d', m')"
  shows "(\<exists>i px. i < length (records m) \<and> request (records m ! i) = q \<and> phase (records m ! i) = READY
      \<and> taken (records m ! i) \<and> pixels (records m ! i) = Some px \<and> length px \<le> unat cap
      \<and> (length px \<le> length d \<longrightarrow> d' = px @ drop (length px) d))
    \<and> (\<forall>cs tid' d2 cap2. (\<forall>(t, c) \<in> set cs. q \<notin> staged_requests c) \<longrightarrow>
         fst (readback_copy tid' (readback_run cs m') q d2 cap2) = None)"
proof -
  note ok = reachable_ok [OF assms(1)]
  obtain i px where i: "readback_find_request m q = Some i" and r: "taken (records m ! i)"
    "phase (records m ! i) = READY" "pixels (records m ! i) = Some px"
    "byte_length (records m ! i) \<le> cap"
    and d': "d' = put_bytes 0 (take (unat (byte_length (records m ! i))) px) d"
    and m': "m' = m\<lparr>records := (records m)[i := (records m ! i)\<lparr>copied := True\<rparr>]\<rparr>"
    using assms(2) by (auto simp: readback_copy_def Let_def not_less split: if_splits option.splits)
  note ii = find_request_SomeD [OF i]
  have len: "length px = unat (byte_length (records m ! i))"
    using record_at [OF ok, of i] ii r by (simp add: record_ok_def phase_ok_def)
  have image: "d' = px @ drop (length px) d" if "length px \<le> length d"
  proof (rule nth_equalityI)
    show "length d' = length (px @ drop (length px) d)" using that by (simp add: d')
    fix k assume "k < length d'"
    then show "d' ! k = (px @ drop (length px) d) ! k"
      using that by (simp add: d' put_bytes_nth len nth_append)
  qed
  have ok': "machine_ok m'" using copy_ok [OF ok, of tid q "Some d" cap] assms(2) by simp
  have q: "request (records m' ! i) = q" "used (records m' ! i)" "copied (records m' ! i)"
    "i < length (records m')" using ii by (auto simp: m')
  then have start: "\<forall>r \<in> set (records m'). used r \<and> request r = q \<longrightarrow> copied r"
    using same_request [OF ok' q(4,2)] by auto
  have "fst (readback_copy tid' (readback_run cs m') q d2 cap2) = None"
    if "\<forall>(t, c) \<in> set cs. q \<notin> staged_requests c" for cs tid' d2 cap2
  proof -
    have inv: "\<forall>r \<in> set (records (readback_run cs m')). used r \<and> request r = q \<longrightarrow> copied r"
      using ok' that start by (intro run_keeps [where P = copied]) (auto simp: record_step_def)
    show ?thesis
    proof (cases "readback_find_request (readback_run cs m') q")
      case (Some j)
      with find_request_SomeD [OF Some] inv have "copied (records (readback_run cs m') ! j)" by auto
      with Some show ?thesis by (simp add: readback_copy_def Let_def)
    qed (simp add: readback_copy_def)
  qed
  moreover have "length px \<le> unat cap" using r(4) len by (simp add: word_le_nat_alt)
  ultimately show ?thesis using ii r image by blast
qed

subsection \<open>Native resources\<close>

lemma fake_all_released:
  assumes "fake_good w" "fake_stagings w = {}" "fake_queries w = {}"
  shows "v_mw_d3d11_fake_world_released_once w"
proof -
  have s: "stg_releases (world_staging w ! k) \<noteq> 0" if "k < length (world_staging w)" for k
  proof -
    have "Suc k \<notin> fake_stagings w" using assms(2) by simp
    with that show ?thesis by (simp add: fake_stagings_def)
  qed
  have q: "qry_releases (world_queries w ! k) \<noteq> 0" if "k < length (world_queries w)" for k
  proof -
    have "Suc k \<notin> fake_queries w" using assms(3) by simp
    with that show ?thesis by (simp add: fake_queries_def)
  qed
  have "stg_releases x \<noteq> 0" if "x \<in> set (world_staging w)" for x
    using s that by (metis in_set_conv_nth)
  moreover have "qry_releases x \<noteq> 0" if "x \<in> set (world_queries w)" for x
    using q that by (metis in_set_conv_nth)
  ultimately show ?thesis
    using assms(1) by (auto simp: v_mw_d3d11_fake_world_released_once_def list_all_iff fake_good_def)
qed

lemma reachable_ledger:
  assumes "readback_reachable v_mw_d3d11_fake_ops w0 m" "world_staging w0 = []" "world_queries w0 = []"
  shows "fake.m_ledger (fake_refs w0) m"
  using assms(1)
proof (induction rule: readback_reachable.induct)
  case (start tid alloc m)
  have "handles sel (replicate MAX_RECORDS zero_record) = {}"
    "handles_once sel (replicate MAX_RECORDS zero_record)" if "sel zero_record = 0" for sel
    using that by (auto simp: handles_def handles_once_def)
  moreover have "fake_good w0" "fake_stagings w0 = {}" "fake_queries w0 = {}"
    using assms(2,3) by (auto simp: fake_good_def fake_stagings_def fake_queries_def)
  moreover have "ops m = ops_of_raw v_mw_d3d11_fake_ops" "world m = w0"
    "records m = replicate MAX_RECORDS zero_record"
    using start by (auto simp: readback_create_def split: if_splits)
  ultimately show ?case by (simp add: fake.m_ledger_def fake.ledger_def)
next
  case (call m tid c)
  then show ?case using fake.m_ledger_call [OF reachable_ok] by blast
qed

text \<open>C2: the resource ledger. On the fake COM world, after any sequence of calls, the staging
  textures and queries that are alive are exactly the ones the records hold, each held by one
  record, and every source has the reference count it started with: no path of \<open>stage\<close>, \<open>resolve\<close>,
  \<open>poll\<close> or the clearing calls leaks, frees twice or keeps a source.\<close>

theorem readback_resources:
  assumes "readback_reachable v_mw_d3d11_fake_ops w0 m" "world_staging w0 = []" "world_queries w0 = []"
  shows "fake_stagings (world m) = handles staging (records m)
    \<and> fake_queries (world m) = handles query (records m)
    \<and> handles_once staging (records m) \<and> handles_once query (records m)
    \<and> fake_refs (world m) = fake_refs w0"
  using reachable_ledger [OF assms] by (simp add: fake.m_ledger_def fake.ledger_def)

text \<open>after \<open>destroy\<close> the harness's own check holds: every staging texture and query that was
  ever created has been released exactly once.\<close>

theorem readback_destroy_releases_once:
  assumes "readback_reachable v_mw_d3d11_fake_ops w0 m" "world_staging w0 = []" "world_queries w0 = []"
    and "readback_is_owner tid m"
  shows "\<exists>w. readback_destroy tid m = (True, Inl w) \<and> v_mw_d3d11_fake_world_released_once w
    \<and> fake_refs w = fake_refs w0"
proof -
  let ?m = "readback_clear_all m"
  have l: "fake.m_ledger (fake_refs w0) ?m"
    using fake.m_ledger_clear_all [OF reachable_ledger [OF assms(1-3)]] .
  have recs: "records ?m = replicate MAX_RECORDS zero_record"
    using clear_all_records [OF reachable_ok [OF assms(1)]] .
  have none: "fake_stagings (world ?m) = {}" "fake_queries (world ?m) = {}"
    and good: "fake_good (world ?m)" and refs: "fake_refs (world ?m) = fake_refs w0"
    using l by (simp_all add: fake.m_ledger_def fake.ledger_def recs handles_def image_constant_conv)
  have "v_mw_d3d11_fake_world_released_once (world ?m)" using good none by (rule fake_all_released)
  then show ?thesis using refs assms(4) by (simp add: readback_destroy_def)
qed

subsection \<open>A run of the machine\<close>

text \<open>Two requests on a 1 by 1 BGRA source, submitted, polled and ready.\<close>

definition demo_source :: fake_source where
  "demo_source = \<lparr>src_width = 1, src_height = 1, src_format = FORMAT_BGRA8, src_row_pitch = 11,
     src_pixels = (\<lambda>k. of_nat (k + 41)), src_refs = 1, src_add_refs = 0, src_releases = 0,
     src_release_calls = 0\<rparr>"

definition demo_world :: fake_world where
  "demo_world = \<lparr>sources = (\<lambda>s. demo_source), world_staging = [], world_queries = [],
     query_results = [], query_result_index = 0, map_result = 0, map_results = [],
     map_result_index = 0, map_calls = 0, unmap_calls = 0, copy_calls = 0, end_query_calls = 0,
     get_data_calls = 0, device_reason_calls = 0, journal = [], alloc_outcomes = []\<rparr>"

definition demo_calls :: "(u64 \<times> readback_call) list" where
  "demo_calls =
     [(1, Bind 51 2), (1, Stage 501 51 2 1 8 7 0 0 1 1 61 False),
      (1, Stage 502 51 2 1 8 7 0 0 1 1 61 False), (1, Resolve 1 8 61 1 0),
      (1, Poll (\<lambda>i. Some (\<lambda>k. 0)))]"

definition demo_machine :: "fake_world readback_machine" where
  "demo_machine =
     readback_run demo_calls (the (readback_create 1 True (Some v_mw_d3d11_fake_ops) demo_world))"

lemma reachable_run:
  "readback_reachable f w0 m \<Longrightarrow> readback_reachable f w0 (readback_run cs m)"
  by (induction cs m rule: readback_run.induct) (simp_all add: readback_reachable.call)

lemma demo_reachable: "readback_reachable v_mw_d3d11_fake_ops demo_world demo_machine"
proof -
  have "readback_create 1 True (Some v_mw_d3d11_fake_ops) demo_world \<noteq> None"
    by (simp add: readback_create_def readback_ops_valid_def v_mw_d3d11_fake_ops_def)
  then have "readback_reachable v_mw_d3d11_fake_ops demo_world
      (the (readback_create 1 True (Some v_mw_d3d11_fake_ops) demo_world))"
    by (auto intro: readback_reachable.start)
  then show ?thesis unfolding demo_machine_def by (rule reachable_run)
qed

lemma demo_empty: "world_staging demo_world = []" "world_queries demo_world = []"
  by (simp_all add: demo_world_def)

text \<open>What the run shows: two deliveries in order, then none, and the copied pixel.\<close>

definition demo_check :: "'w readback_machine \<Rightarrow> bool" where
  "demo_check m \<longleftrightarrow> readback_is_owner 1 m \<and>
     (case readback_take 1 m of
        (None, m') \<Rightarrow> False
      | (Some res, m') \<Rightarrow> res_request res = 501 \<and>
          map_option res_request (fst (readback_take 1 m')) = Some 502 \<and>
          fst (readback_copy 1 m' 501 (Some [0, 0, 0, 0, 9]) 5) = Some [43, 42, 41, 44, 9])"

lemma demo_run: "demo_check demo_machine"
  by code_simp

lemma demo_take:
  obtains res m' where "readback_take 1 demo_machine = (Some res, m')" "res_request res = 501"
    "map_option res_request (fst (readback_take 1 m')) = Some 502"
    "fst (readback_copy 1 m' 501 (Some [0, 0, 0, 0, 9]) 5) = Some [43, 42, 41, 44, 9]"
  using demo_run by (auto simp: demo_check_def split: prod.splits option.splits)

theorem readback_invariant_witness: "machine_ok demo_machine"
  by (rule readback_invariant [OF demo_reachable])

theorem readback_phases_witness: "steps_of {} demo_machine (readback_exec 1 Take demo_machine)"
  using readback_phases [OF demo_reachable, of Take 1] by simp

theorem readback_take_once_witness:
  "\<exists>res m' res' m''. readback_take 1 demo_machine = (Some res, m') \<and>
     readback_take 1 m' = (Some res', m'') \<and> res_request res' \<noteq> res_request res"
proof -
  obtain res m' where t: "readback_take 1 demo_machine = (Some res, m')" "res_request res = 501"
    "map_option res_request (fst (readback_take 1 m')) = Some 502"
    by (rule demo_take)
  obtain res2 m2 where t2: "readback_take 1 m' = (Some res2, m2)"
    using t(3) by (cases "readback_take 1 m'") auto
  have "res_request res2 \<noteq> res_request res"
    by (rule readback_take_once [OF demo_reachable t(1), where cs = "[]" and tid' = 1 and m'' = m2])
      (simp_all add: t2)
  with t(1) t2 show ?thesis by blast
qed

theorem readback_copy_once_witness:
  "\<exists>(m :: fake_world readback_machine) d' m'. readback_copy 1 m 501 (Some [0, 0, 0, 0, 9]) 5 = (Some d', m') \<and> d' = [43, 42, 41, 44, 9]
     \<and> fst (readback_copy 1 m' 501 (Some [0, 0, 0, 0, 9]) 5) = None"
proof -
  obtain res m where t: "readback_take 1 demo_machine = (Some res, m)"
    and c: "fst (readback_copy 1 m 501 (Some [0, 0, 0, 0, 9]) 5) = Some [43, 42, 41, 44, 9]"
    by (rule demo_take)
  have "m = readback_exec 1 Take demo_machine" using t by simp
  then have r: "readback_reachable v_mw_d3d11_fake_ops demo_world m"
    using readback_reachable.call [OF demo_reachable] by blast
  obtain m' where m': "readback_copy 1 m 501 (Some [0, 0, 0, 0, 9]) 5 = (Some [43, 42, 41, 44, 9], m')"
    using c by (metis prod.collapse)
  have "fst (readback_copy 1 (readback_run [] m') 501 (Some [0, 0, 0, 0, 9]) 5) = None"
    using readback_copy_once [OF r m'] by (metis empty_iff empty_set)
  with m' show ?thesis by auto
qed

theorem readback_resources_witness:
  "fake_stagings (world demo_machine) = handles staging (records demo_machine)
     \<and> fake_refs (world demo_machine) = fake_refs demo_world"
  using readback_resources [OF demo_reachable demo_empty] by blast

theorem readback_destroy_releases_once_witness:
  "\<exists>w. readback_destroy 1 demo_machine = (True, Inl w) \<and> v_mw_d3d11_fake_world_released_once w"
proof -
  have "readback_is_owner 1 demo_machine" using demo_run by (simp add: demo_check_def)
  then show ?thesis using readback_destroy_releases_once [OF demo_reachable demo_empty] by blast
qed

end
