(* ===== verification/Host_Monad.thy ===== *)
theory Host_Monad
  imports Prelude "HOL-Library.State_Monad"
begin

text \<open>
  The state monad of the components that call the operating system: an action on the desktop
  (or on a richer host state) is a \<open>state\<close> of the library, \<open>all_checks\<close> is a chain of C
  conjuncts, evaluated from the left until one fails, and \<open>wp\<close> is the weakest precondition
  the proofs run on. The desktop is a type variable and its operations are parameters, so
  whatever happens between two calls (another thread, the user) is part of the operations.
\<close>

named_theorems wp_simps

type_synonym i32 = "32 word"

definition wp :: "('s, 'a) state \<Rightarrow> ('a \<Rightarrow> 's \<Rightarrow> bool) \<Rightarrow> 's \<Rightarrow> bool" where
  "wp m Q s = (case run_state m s of (a, s') \<Rightarrow> Q a s')"

fun all_checks :: "('s, bool) state list \<Rightarrow> ('s, bool) state" where
  "all_checks [] = State_Monad.return True" |
  "all_checks (m # ms) = do { b \<leftarrow> m; if b then all_checks ms else State_Monad.return False }"

abbreviation check :: "bool \<Rightarrow> ('s, bool) state" where
  "check b \<equiv> State_Monad.return b"

text \<open>\<open>negated m\<close> is the C expression \<open>!m\<close>.\<close>

definition negated :: "('s, bool) state \<Rightarrow> ('s, bool) state" where
  "negated m = do { b \<leftarrow> m; State_Monad.return (\<not> b) }"

text \<open>\<open>if_then m n\<close> is the C statement \<open>if (m) n;\<close>.\<close>

definition if_then :: "bool \<Rightarrow> ('s, unit) state \<Rightarrow> ('s, unit) state" where
  "if_then b m = (if b then m else State_Monad.return ())"

lemma wp_return [wp_simps]: "wp (State_Monad.return a) Q = Q a"
  by (rule ext) (simp add: wp_def)

lemma wp_bind [wp_simps]: "wp (State_Monad.bind m f) Q = wp m (\<lambda>a. wp (f a) Q)"
  by (rule ext) (simp add: wp_def split: prod.splits)

lemma wp_State [wp_simps]: "wp (State f) Q s = (case f s of (a, s') \<Rightarrow> Q a s')"
  by (simp add: wp_def)

lemma wp_if [wp_simps]: "wp (if b then m else n) Q = (if b then wp m Q else wp n Q)"
  by simp

lemma wp_negated [wp_simps]: "wp (negated m) Q = wp m (\<lambda>b. Q (\<not> b))"
  by (simp add: negated_def wp_simps)

lemma wp_if_then [wp_simps]:
  "wp (if_then b m) Q = (if b then wp m Q else Q ())"
  by (simp add: if_then_def wp_simps)

lemma wp_all_checks_Nil [wp_simps]: "wp (all_checks []) Q = Q True"
  by (simp add: wp_simps)

lemma wp_all_checks_Cons [wp_simps]:
  "wp (all_checks (m # ms)) Q = wp m (\<lambda>b. if b then wp (all_checks ms) Q else Q False)"
  by (simp add: wp_simps cong: if_cong)

lemma if_applied [wp_simps]: "(if b then f else g) x = (if b then f x else g x)"
  by simp

lemma option_case_if [wp_simps]:
  "case_option n f (if b then Some x else None) = (if b then f x else n)"
  by simp

text \<open>An operation of the outside world may return anything.\<close>

lemma wp_any: "(\<And>a s'. Q a s') \<Longrightarrow> wp m Q s"
  by (simp add: wp_def split: prod.splits)

lemma wp_mono:
  assumes "wp m P s" "\<And>a s'. P a s' \<Longrightarrow> Q a s'"
  shows "wp m Q s"
  using assms by (auto simp: wp_def split: prod.splits)

text \<open>A step whose own rule is known, then the rest.\<close>

lemma wp_follow:
  assumes "wp m P s" "\<And>a s'. P a s' \<Longrightarrow> wp (f a) Q s'"
  shows "wp (State_Monad.bind m f) Q s"
  unfolding wp_bind using assms by (rule wp_mono)

lemma wp_external: "(\<And>a s'. wp (f a) Q s') \<Longrightarrow> wp (State_Monad.bind m f) Q s"
  by (rule wp_follow [OF wp_any [where Q = "\<lambda>_ _. True"]]) simp_all

lemma wp_branch:
  "(b \<Longrightarrow> wp m Q s) \<Longrightarrow> (\<not> b \<Longrightarrow> wp n Q s) \<Longrightarrow> wp (if b then m else n) Q s"
  by simp

lemma wp_done: "Q a s \<Longrightarrow> wp (State_Monad.return a) Q s"
  by (simp add: wp_return)

lemma wp_conj: "wp m (\<lambda>a s'. P a s' \<and> Q a s') s \<longleftrightarrow> wp m P s \<and> wp m Q s"
  by (simp add: wp_def split: prod.splits)

lemma wp_run: "wp m Q s \<longleftrightarrow> Q (fst (run_state m s)) (snd (run_state m s))"
  by (simp add: wp_def split: prod.splits)

lemma wpD: "wp m Q s \<Longrightarrow> run_state m s = (a, s') \<Longrightarrow> Q a s'"
  by (simp add: wp_def)

text \<open>One rule for each form of the first action of a program.\<close>

lemma step_return: "wp (f a) Q s \<Longrightarrow> wp (State_Monad.bind (State_Monad.return a) f) Q s"
  by simp

lemma step_assoc:
  "wp (State_Monad.bind m (\<lambda>x. State_Monad.bind (f x) g)) Q s \<Longrightarrow>
   wp (State_Monad.bind (State_Monad.bind m f) g) Q s"
  by (simp add: wp_simps)

lemma step_if:
  "(b \<Longrightarrow> wp (State_Monad.bind m f) Q s) \<Longrightarrow> (\<not> b \<Longrightarrow> wp (State_Monad.bind n f) Q s) \<Longrightarrow>
   wp (State_Monad.bind (if b then m else n) f) Q s"
  by simp

lemma step_case:
  "(x = None \<Longrightarrow> wp (State_Monad.bind m f) Q s) \<Longrightarrow>
   (\<And>y. x = Some y \<Longrightarrow> wp (State_Monad.bind (n y) f) Q s) \<Longrightarrow>
   wp (State_Monad.bind (case x of None \<Rightarrow> m | Some y \<Rightarrow> n y) f) Q s"
  by (cases x) simp_all

lemma end_case:
  "(x = None \<Longrightarrow> wp m Q s) \<Longrightarrow> (\<And>y. x = Some y \<Longrightarrow> wp (n y) Q s) \<Longrightarrow>
   wp (case x of None \<Rightarrow> m | Some y \<Rightarrow> n y) Q s"
  by (cases x) simp_all

lemma step_let: "wp (f x) Q s \<Longrightarrow> wp (Let x f) Q s"
  by simp

lemma step_bind_let: "wp (State_Monad.bind (g x) f) Q s \<Longrightarrow> wp (State_Monad.bind (Let x g) f) Q s"
  by simp

lemma step_pair: "(\<And>a b. x = (a, b) \<Longrightarrow> wp (State_Monad.bind (m a b) f) Q s) \<Longrightarrow>
   wp (State_Monad.bind (case x of (a, b) \<Rightarrow> m a b) f) Q s"
  by (cases x) simp

lemma end_pair: "(\<And>a b. x = (a, b) \<Longrightarrow> wp (m a b) Q s) \<Longrightarrow> wp (case x of (a, b) \<Rightarrow> m a b) Q s"
  by (cases x) simp

subsection \<open>Invariants and what a program leaves alone\<close>

text \<open>\<open>preserves I m\<close>: \<open>m\<close> keeps the invariant \<open>I\<close>; \<open>keeps view m\<close>: it does not change \<open>view\<close>.\<close>

definition preserves :: "('s \<Rightarrow> bool) \<Rightarrow> ('s, 'a) state \<Rightarrow> bool" where
  "preserves I m \<longleftrightarrow> (\<forall>s. I s \<longrightarrow> wp m (\<lambda>_. I) s)"

definition keeps :: "('s \<Rightarrow> 'v) \<Rightarrow> ('s, 'a) state \<Rightarrow> bool" where
  "keeps view m \<longleftrightarrow> (\<forall>s. wp m (\<lambda>_ s'. view s' = view s) s)"

named_theorems preserves_rules
named_theorems keeps_rules

lemma preservesD: "preserves I m \<Longrightarrow> I s \<Longrightarrow> wp m (\<lambda>_. I) s"
  by (simp add: preserves_def)

lemma preserves_return [preserves_rules]: "preserves I (State_Monad.return a)"
  by (simp add: preserves_def wp_simps)

lemma preserves_bind [preserves_rules]:
  assumes "preserves I m" "\<And>a. preserves I (f a)"
  shows "preserves I (State_Monad.bind m f)"
  unfolding preserves_def using assms by (blast intro: wp_follow preservesD)

lemma preserves_if [preserves_rules]:
  "(b \<Longrightarrow> preserves I m) \<Longrightarrow> (\<not> b \<Longrightarrow> preserves I n) \<Longrightarrow> preserves I (if b then m else n)"
  by simp

lemma preserves_if_then [preserves_rules]: "(b \<Longrightarrow> preserves I m) \<Longrightarrow> preserves I (if_then b m)"
  by (simp add: if_then_def preserves_return)

lemma preserves_let [preserves_rules]: "preserves I (f x) \<Longrightarrow> preserves I (Let x f)"
  by simp

lemma preserves_option [preserves_rules]:
  "preserves I m \<Longrightarrow> (\<And>y. preserves I (n y)) \<Longrightarrow>
   preserves I (case x of None \<Rightarrow> m | Some y \<Rightarrow> n y)"
  by (cases x) simp_all

lemma preserves_sum [preserves_rules]:
  "(\<And>y. x = Inl y \<Longrightarrow> preserves I (m y)) \<Longrightarrow> (\<And>y. x = Inr y \<Longrightarrow> preserves I (n y)) \<Longrightarrow>
   preserves I (case x of Inl y \<Rightarrow> m y | Inr y \<Rightarrow> n y)"
  by (cases x) simp_all

lemma preserves_prod [preserves_rules]:
  "(\<And>a b. x = (a, b) \<Longrightarrow> preserves I (m a b)) \<Longrightarrow> preserves I (case x of (a, b) \<Rightarrow> m a b)"
  by (cases x) simp_all

lemma keeps_preserves: "keeps view m \<longleftrightarrow> (\<forall>v. preserves (\<lambda>s. view s = v) m)"
  by (auto simp: keeps_def preserves_def)

lemma keeps_return [keeps_rules]: "keeps view (State_Monad.return a)"
  by (simp add: keeps_preserves preserves_return)

lemma keeps_bind [keeps_rules]:
  "keeps view m \<Longrightarrow> (\<And>a. keeps view (f a)) \<Longrightarrow> keeps view (State_Monad.bind m f)"
  by (simp add: keeps_preserves preserves_bind)

lemma keeps_if [keeps_rules]: "keeps view m \<Longrightarrow> keeps view n \<Longrightarrow> keeps view (if b then m else n)"
  by simp

lemma keeps_Nil [keeps_rules]: "keeps view (all_checks [])"
  by (simp add: keeps_return)

lemma keeps_Cons [keeps_rules]:
  "keeps view m \<Longrightarrow> keeps view (all_checks ms) \<Longrightarrow> keeps view (all_checks (m # ms))"
  unfolding all_checks.simps by (intro keeps_rules)

lemma keeps_if_then [keeps_rules]: "keeps v m \<Longrightarrow> keeps v (if_then b m)"
  by (simp add: if_then_def keeps_return)

lemma keeps_option [keeps_rules]:
  "keeps v m \<Longrightarrow> (\<And>y. keeps v (n y)) \<Longrightarrow> keeps v (case x of None \<Rightarrow> m | Some y \<Rightarrow> n y)"
  by (cases x) simp_all

lemma keeps_sum [keeps_rules]:
  "(\<And>y. keeps v (m y)) \<Longrightarrow> (\<And>y. keeps v (n y)) \<Longrightarrow> keeps v (case x of Inl y \<Rightarrow> m y | Inr y \<Rightarrow> n y)"
  by (cases x) simp_all

lemma keeps_let [keeps_rules]: "keeps v (f x) \<Longrightarrow> keeps v (Let x f)"
  by simp

lemma keeps_prod [keeps_rules]: "(\<And>a b. keeps v (m a b)) \<Longrightarrow> keeps v (case x of (a, b) \<Rightarrow> m a b)"
  by (cases x) simp_all

lemma keeps_mono: "keeps view m \<Longrightarrow> (\<And>a w'. view w' = view w \<Longrightarrow> Q a w') \<Longrightarrow> wp m Q w"
  unfolding keeps_def by (blast intro: wp_mono)

lemma keeps_step:
  "keeps view m \<Longrightarrow> (\<And>a w'. view w' = view w \<Longrightarrow> wp (f a) Q w') \<Longrightarrow>
   wp (State_Monad.bind m f) Q w"
  unfolding wp_bind by (rule keeps_mono)

end
