(* ===== verification/Win32_Clipboard.thy ===== *)
theory Win32_Clipboard
  imports Host_Monad
begin

text \<open>
  The clipboard half of \<open>x/multiwindow/win32_service_native.h\<close>: the clock, the scan of a
  clipboard block of UTF-16 units, the conversion of UTF-8 text, and the two transactions that
  open the clipboard, hand a global block over or copy one out, and close it again.
  Windows and the C allocator are the record \<open>clip_ops\<close>; the memory of a global block is part
  of their state and is reached through \<open>store_units\<close> and \<open>read_memory\<close>.
\<close>

abbreviation CLIPBOARD_MAX_BYTES :: nat where "CLIPBOARD_MAX_BYTES \<equiv> 16777216"
abbreviation (input) ATTEMPT_FAILED :: int where "ATTEMPT_FAILED \<equiv> - 1"
abbreviation (input) ATTEMPT_RETRY :: int where "ATTEMPT_RETRY \<equiv> 0"
abbreviation (input) ATTEMPT_READY :: int where "ATTEMPT_READY \<equiv> 1"
abbreviation (input) ATTEMPT_CAPACITY :: int where "ATTEMPT_CAPACITY \<equiv> - 2"
abbreviation (input) ATTEMPT_CLEANED :: int where "ATTEMPT_CLEANED \<equiv> - 3"
abbreviation (input) CONVERT_INVALID :: int where "CONVERT_INVALID \<equiv> 0"
abbreviation (input) CONVERT_READY :: int where "CONVERT_READY \<equiv> 1"
abbreviation (input) CONVERT_CAPACITY :: int where "CONVERT_CAPACITY \<equiv> - 1"

abbreviation (input) CF_UNICODETEXT :: nat where "CF_UNICODETEXT \<equiv> 13"
abbreviation (input) GMEM_MOVEABLE :: nat where "GMEM_MOVEABLE \<equiv> 2"

record 'w clip_ops =
  performance_frequency :: "('w, int option) state"
  performance_counter :: "('w, int option) state"
  tick_count :: "('w, u32) state"
  clip_is_window :: "u64 \<Rightarrow> ('w, bool) state"
  open_clipboard :: "u64 \<Rightarrow> ('w, bool) state"
  close_clipboard :: "('w, unit) state"
  empty_clipboard :: "('w, bool) state"
  set_clipboard_data :: "nat \<Rightarrow> u64 \<Rightarrow> ('w, u64) state"
  get_clipboard_data :: "nat \<Rightarrow> ('w, u64) state"
  global_alloc :: "nat \<Rightarrow> nat \<Rightarrow> ('w, u64) state"
  global_lock :: "u64 \<Rightarrow> ('w, u64) state"
  global_unlock :: "u64 \<Rightarrow> ('w, unit) state"
  global_free :: "u64 \<Rightarrow> ('w, u64) state"
  global_size :: "u64 \<Rightarrow> ('w, nat) state"
  store_units :: "u64 \<Rightarrow> u16 list \<Rightarrow> ('w, unit) state"
  read_memory :: "u64 \<Rightarrow> ('w, nat \<Rightarrow> u8) state"
  malloc_bytes :: "nat \<Rightarrow> ('w, u64) state"
  free_bytes :: "u64 \<Rightarrow> ('w, unit) state"
  wide_to_multi_byte :: "u16 list \<Rightarrow> nat \<Rightarrow> ('w, int \<times> u8 list) state"
  multi_byte_to_wide :: "u8 list \<Rightarrow> nat \<Rightarrow> ('w, int \<times> u16 list) state"

subsection \<open>The clock\<close>

text \<open>Signed 64 bit arithmetic wraps; the quotients are those of C, towards zero.\<close>

definition wrap_i64 :: "int \<Rightarrow> int" where
  "wrap_i64 x = signed_take_bit 63 x"

definition ticks_to_ns :: "int \<Rightarrow> int \<Rightarrow> int" where
  "ticks_to_ns counter frequency =
     (let seconds = counter sdiv frequency;
          remainder = counter smod frequency
      in wrap_i64 (wrap_i64 (seconds * 1000000000)
           + wrap_i64 (remainder * 1000000000) sdiv frequency))"

definition clipboard_now_ns :: "('w, 'x) clip_ops_scheme \<Rightarrow> ('w, int) state" where
  "clipboard_now_ns ops = do {
     frequency \<leftarrow> performance_frequency ops;
     counter \<leftarrow> (case frequency of
         Some f \<Rightarrow> if f > 0 then performance_counter ops else State_Monad.return None
       | None \<Rightarrow> State_Monad.return None);
     case (frequency, counter) of
       (Some f, Some c) \<Rightarrow> State_Monad.return (ticks_to_ns c f)
     | _ \<Rightarrow> do {
         t \<leftarrow> tick_count ops;
         State_Monad.return (wrap_i64 (uint t * 1000000)) }
   }"

subsection \<open>Scanning a block of UTF-16 units\<close>

text \<open>
  Reading past the end of the block is \<open>None\<close>. The counts stay below \<open>2 ^ 25\<close>, far from the
  end of \<open>size_t\<close>, so they are natural numbers.
\<close>

definition load16 :: "u8 list \<Rightarrow> nat \<Rightarrow> u16 option" where
  "load16 data offset =
     (if offset + 1 < length data
      then Some (of_nat (unat (data ! offset) + 256 * unat (data ! (offset + 1))))
      else None)"

function scan_terminator :: "u8 list \<Rightarrow> nat \<Rightarrow> nat \<Rightarrow> nat option" where
  "scan_terminator data scan_bytes offset =
     (if offset + 2 \<le> scan_bytes
      then (case load16 data offset of
              None \<Rightarrow> None
            | Some u \<Rightarrow>
                if u = 0 then Some (offset div 2 + 1)
                else scan_terminator data scan_bytes (offset + 2))
      else Some 0)"
  by pat_completeness auto
termination by (relation "measure (\<lambda>(_, scan_bytes, offset). scan_bytes - offset)") auto

text \<open>The loop over the units; \<open>Inl\<close> is an early return with its status.\<close>

function scan_units :: "u8 list \<Rightarrow> nat \<Rightarrow> nat \<Rightarrow> nat \<Rightarrow> (int + nat) option" where
  "scan_units data units index utf8_bytes =
     (if index + 1 < units
      then (case load16 data (index * 2) of
              None \<Rightarrow> None
            | Some u \<Rightarrow>
                if 0xd800 \<le> u \<and> u \<le> 0xdbff
                then if units \<le> index + 2 then Some (Inl CONVERT_INVALID)
                     else (case load16 data ((index + 1) * 2) of
                             None \<Rightarrow> None
                           | Some low \<Rightarrow>
                               if low < 0xdc00 \<or> 0xdfff < low then Some (Inl CONVERT_INVALID)
                               else if utf8_bytes > CLIPBOARD_MAX_BYTES - 4
                                    then Some (Inl CONVERT_CAPACITY)
                                    else scan_units data units (index + 2) (utf8_bytes + 4))
                else if 0xdc00 \<le> u \<and> u \<le> 0xdfff then Some (Inl CONVERT_INVALID)
                else let encoded = (if u \<le> 0x007f then 1 else if u \<le> 0x07ff then 2 else 3)
                     in if utf8_bytes > CLIPBOARD_MAX_BYTES - encoded
                        then Some (Inl CONVERT_CAPACITY)
                        else scan_units data units (index + 1) (utf8_bytes + encoded))
      else Some (Inr utf8_bytes))"
  by pat_completeness auto
termination by (relation "measure (\<lambda>(_, units, index, _). units - index)") auto

declare scan_terminator.simps [simp del] scan_units.simps [simp del]

text \<open>The status with the two values written through the output pointers.\<close>

definition parse_clipboard_utf16 :: "u8 list option \<Rightarrow> nat \<Rightarrow> (int \<times> nat \<times> nat) option" where
  "parse_clipboard_utf16 data bytes =
     (case data of
        None \<Rightarrow> Some (0, 0, 0)
      | Some block \<Rightarrow>
          if bytes < 2 then Some (0, 0, 0)
          else (case scan_terminator block (min bytes CLIPBOARD_MAX_BYTES) 0 of
                  None \<Rightarrow> None
                | Some units \<Rightarrow>
                    if units = 0 then Some (0, 0, 0)
                    else (case scan_units block units 0 1 of
                            None \<Rightarrow> None
                          | Some (Inl status) \<Rightarrow> Some (status, 0, 0)
                          | Some (Inr utf8_bytes) \<Rightarrow> Some (1, units, utf8_bytes))))"

subsection \<open>Converting UTF-8 text\<close>

text \<open>
  \<open>output\<close> is \<open>None\<close> for a null pointer, else the buffer as it was. The result is the status,
  the number written through \<open>out_units\<close> and the buffer afterwards.
\<close>

definition clipboard_utf8_to_utf16 ::
    "('w, 'x) clip_ops_scheme \<Rightarrow> u8 list option \<Rightarrow> nat \<Rightarrow> u16 list option \<Rightarrow>
     ('w, int \<times> nat \<times> u16 list option) state" where
  "clipboard_utf8_to_utf16 ops text_ptr text_bytes output =
     (if text_bytes > CLIPBOARD_MAX_BYTES - 1
      then State_Monad.return (CONVERT_CAPACITY, 0, output)
      else if (text_ptr = None \<and> text_bytes > 0)
            \<or> (text_bytes > 0 \<and> 0 \<in> set (take text_bytes (the text_ptr)))
      then State_Monad.return (CONVERT_INVALID, 0, output)
      else do {
        measured \<leftarrow> (if text_bytes > 0
          then multi_byte_to_wide ops (take text_bytes (the text_ptr)) 0
          else State_Monad.return (0, []));
        let converted = fst measured;
        if text_bytes > 0 \<and> converted \<le> 0
        then State_Monad.return (CONVERT_INVALID, 0, output)
        else if nat converted + 1 > CLIPBOARD_MAX_BYTES div 2
        then State_Monad.return (CONVERT_CAPACITY, 0, output)
        else (case output of
          None \<Rightarrow> State_Monad.return (CONVERT_READY, nat converted + 1, output)
        | Some buffer \<Rightarrow>
            if length buffer < nat converted + 1
            then State_Monad.return (CONVERT_INVALID, nat converted + 1, output)
            else do {
              written \<leftarrow> (if converted > 0
                then multi_byte_to_wide ops (take text_bytes (the text_ptr)) (nat converted)
                else State_Monad.return (converted, []));
              let filled = take (nat converted) (snd written)
                @ drop (min (nat converted) (length (snd written))) buffer;
              if fst written \<noteq> converted
              then State_Monad.return (CONVERT_INVALID, nat converted + 1, Some filled)
              else State_Monad.return
                (CONVERT_READY, nat converted + 1, Some (filled[nat converted := 0]))
            })
      })"

subsection \<open>The observer of the write transaction\<close>

text \<open>Each member is a pointer to a counter; \<open>None\<close> is a null pointer.\<close>

record write_observer =
  owned_globals :: "int option"
  owned_globals_peak :: "int option"
  global_allocations :: "int option"
  global_transfers :: "int option"
  global_frees :: "int option"
  fail_before_transfer :: "int option"

definition count_up :: "int option \<Rightarrow> int option" where
  "count_up c = map_option (\<lambda>n. n + 1) c"

definition clipboard_observe_allocation :: "write_observer option \<Rightarrow> write_observer option" where
  "clipboard_observe_allocation observer =
     (case observer of
        None \<Rightarrow> None
      | Some obs \<Rightarrow>
          let obs = obs\<lparr>global_allocations := count_up (global_allocations obs)\<rparr>
          in (case owned_globals obs of
                None \<Rightarrow> Some obs
              | Some owned \<Rightarrow>
                  Some (obs\<lparr>owned_globals := Some (owned + 1),
                            owned_globals_peak :=
                              (case owned_globals_peak obs of
                                 None \<Rightarrow> None
                               | Some peak \<Rightarrow>
                                   Some (if owned + 1 > peak then owned + 1 else peak))\<rparr>)))"

definition count_down :: "int option \<Rightarrow> int option" where
  "count_down c = map_option (\<lambda>n. if n > 0 then n - 1 else n) c"

definition clipboard_observe_free :: "write_observer option \<Rightarrow> write_observer option" where
  "clipboard_observe_free observer =
     map_option (\<lambda>obs. obs\<lparr>global_frees := count_up (global_frees obs),
                           owned_globals := count_down (owned_globals obs)\<rparr>) observer"

definition clipboard_observe_transfer :: "write_observer option \<Rightarrow> write_observer option" where
  "clipboard_observe_transfer observer =
     map_option (\<lambda>obs. obs\<lparr>global_transfers := count_up (global_transfers obs),
                           owned_globals := count_down (owned_globals obs)\<rparr>) observer"

definition clipboard_take_pretransfer_failure ::
    "write_observer option \<Rightarrow> bool \<times> write_observer option" where
  "clipboard_take_pretransfer_failure observer =
     (case observer of
        None \<Rightarrow> (False, None)
      | Some obs \<Rightarrow>
          (case fail_before_transfer obs of
             None \<Rightarrow> (False, Some obs)
           | Some n \<Rightarrow>
               if n \<le> 0 then (False, Some obs)
               else (True, Some (obs\<lparr>fail_before_transfer := Some (n - 1)\<rparr>))))"

definition clipboard_free_owned_global ::
    "('w, 'x) clip_ops_scheme \<Rightarrow> u64 \<Rightarrow> write_observer option \<Rightarrow>
     ('w, write_observer option) state" where
  "clipboard_free_owned_global ops global observer =
     (if global \<noteq> 0
      then do {
        r \<leftarrow> global_free ops global;
        State_Monad.return (if r = 0 then clipboard_observe_free observer else observer) }
      else State_Monad.return observer)"

subsection \<open>The write transaction\<close>

definition clipboard_write_observed ::
    "('w, 'x) clip_ops_scheme \<Rightarrow> u64 \<Rightarrow> u16 list option \<Rightarrow> nat \<Rightarrow> write_observer option \<Rightarrow>
     ('w, int \<times> write_observer option) state" where
  "clipboard_write_observed ops owner text_ptr units observer = do {
     usable \<leftarrow> all_checks
       [check (owner \<noteq> 0), clip_is_window ops owner, check (text_ptr \<noteq> None),
        check (units \<noteq> 0), check (units \<le> CLIPBOARD_MAX_BYTES div 2),
        check (the text_ptr ! (units - 1) = 0)];
     if \<not> usable then State_Monad.return (ATTEMPT_FAILED, observer) else do {
     opened \<leftarrow> open_clipboard ops owner;
     if \<not> opened then State_Monad.return (ATTEMPT_RETRY, observer) else do {
     let bytes = units * 2;
     global \<leftarrow> global_alloc ops GMEM_MOVEABLE bytes;
     let observer = (if global \<noteq> 0 then clipboard_observe_allocation observer else observer);
     target \<leftarrow> (if global \<noteq> 0 then global_lock ops global else State_Monad.return 0);
     if target = 0 then do {
       observer \<leftarrow> (if global \<noteq> 0 then clipboard_free_owned_global ops global observer
                   else State_Monad.return observer);
       close_clipboard ops;
       State_Monad.return (if global \<noteq> 0 then ATTEMPT_CLEANED else ATTEMPT_FAILED, observer) }
     else do {
     store_units ops target (take units (the text_ptr));
     global_unlock ops global;
     let failing = clipboard_take_pretransfer_failure observer;
     let observer = snd failing;
     if fst failing then do {
       observer \<leftarrow> clipboard_free_owned_global ops global observer;
       close_clipboard ops;
       State_Monad.return (ATTEMPT_CLEANED, observer) }
     else do {
     emptied \<leftarrow> empty_clipboard ops;
     if \<not> emptied then do {
       observer \<leftarrow> clipboard_free_owned_global ops global observer;
       close_clipboard ops;
       State_Monad.return (ATTEMPT_CLEANED, observer) }
     else do {
     taken \<leftarrow> set_clipboard_data ops CF_UNICODETEXT global;
     if taken = 0 then do {
       observer \<leftarrow> clipboard_free_owned_global ops global observer;
       close_clipboard ops;
       State_Monad.return (ATTEMPT_CLEANED, observer) }
     else do {
     close_clipboard ops;
     State_Monad.return (ATTEMPT_READY, clipboard_observe_transfer observer) }}}}}}
   }"

definition clipboard_write ::
    "('w, 'x) clip_ops_scheme \<Rightarrow> u64 \<Rightarrow> u16 list option \<Rightarrow> nat \<Rightarrow> ('w, int) state" where
  "clipboard_write ops owner text_ptr units = do {
     r \<leftarrow> clipboard_write_observed ops owner text_ptr units None;
     State_Monad.return (fst r) }"

subsection \<open>The read transaction\<close>

text \<open>
  The result is the status, the buffer handed out (0 for none; \<open>out_text\<close> tells whether the
  caller passed a pointer), its contents with the final zero, and the length written through
  \<open>out_text_bytes\<close>. The buffer is a block of the C allocator whose bytes are carried with it.
  \<open>GetClipboardData\<close> is followed by \<open>GlobalSize\<close> only for a non-null handle.
\<close>

definition clipboard_read ::
    "('w, 'x) clip_ops_scheme \<Rightarrow> u64 \<Rightarrow> bool \<Rightarrow>
     ('w, (int \<times> u64 \<times> u8 list \<times> nat) option) state" where
  "clipboard_read ops owner out_text = do {
     usable \<leftarrow> all_checks [check (owner \<noteq> 0), clip_is_window ops owner];
     if \<not> usable then State_Monad.return (Some (ATTEMPT_FAILED, 0, [], 0)) else do {
     opened \<leftarrow> open_clipboard ops owner;
     if \<not> opened then State_Monad.return (Some (ATTEMPT_RETRY, 0, [], 0)) else do {
     global \<leftarrow> get_clipboard_data ops CF_UNICODETEXT;
     bytes \<leftarrow> (if global \<noteq> 0 then global_size ops global else State_Monad.return 0);
     source \<leftarrow> (if bytes \<ge> 2 then global_lock ops global else State_Monad.return 0);
     memory \<leftarrow> (if source \<noteq> 0 then read_memory ops source else State_Monad.return (\<lambda>_. 0));
     let block = map memory [0..<bytes];
     case (if source \<noteq> 0 then parse_clipboard_utf16 (Some block) bytes
           else Some (CONVERT_INVALID, 0, 0)) of
       None \<Rightarrow> State_Monad.return None
     | Some (status, units, utf8_bytes) \<Rightarrow>
     if status \<noteq> CONVERT_READY then do {
       if_then (source \<noteq> 0) (global_unlock ops global);
       close_clipboard ops;
       State_Monad.return (Some
         (if status = CONVERT_CAPACITY \<or> bytes > CLIPBOARD_MAX_BYTES
          then ATTEMPT_CAPACITY else ATTEMPT_FAILED, 0, [], 0)) }
     else do {
     converted \<leftarrow> malloc_bytes ops utf8_bytes;
     if converted = 0 then do {
       global_unlock ops global;
       close_clipboard ops;
       State_Monad.return (Some (ATTEMPT_FAILED, 0, [], 0)) }
     else do {
     let source_units = units - 1;
     result \<leftarrow> (if source_units > 0
       then wide_to_multi_byte ops
              (map (\<lambda>i. the (load16 block (2 * i))) [0..<source_units]) (utf8_bytes - 1)
       else State_Monad.return (0, []));
     global_unlock ops global;
     close_clipboard ops;
     if (source_units > 0 \<and> fst result \<noteq> int (utf8_bytes - 1))
        \<or> (source_units = 0 \<and> utf8_bytes \<noteq> 1)
     then do {
       free_bytes ops converted;
       State_Monad.return (Some (ATTEMPT_FAILED, 0, [], 0)) }
     else do {
     let contents = take (utf8_bytes - 1) (snd result) @ [0];
     if_then (\<not> out_text) (free_bytes ops converted);
     State_Monad.return (Some
       (ATTEMPT_READY, if out_text then converted else 0,
        if out_text then contents else [], utf8_bytes - 1)) }}}}}
   }"

definition clipboard_text_free :: "('w, 'x) clip_ops_scheme \<Rightarrow> u64 \<Rightarrow> ('w, unit) state" where
  "clipboard_text_free ops block = free_bytes ops block"

end
