(* ===== verification/Win32_Clipboard_Props.thy ===== *)
theory Win32_Clipboard_Props
  imports Win32_Clipboard
begin

text \<open>
  What the clipboard code promises: the scan accepts exactly the well-formed UTF-16 texts that
  end in the block and fit the limit, and never reads outside the block; the two transactions
  close the clipboard they opened and leave no global block, lock or heap block behind, whatever
  Windows answers. The transactions run on operations that log their calls.
\<close>

subsection \<open>The UTF-16 scan\<close>

definition block_units :: "u8 list \<Rightarrow> nat \<Rightarrow> u16 list" where
  "block_units block n = map (\<lambda>i. the (load16 block (2 * i))) [0..<n]"

definition high_unit :: "u16 \<Rightarrow> bool" where
  "high_unit u \<longleftrightarrow> 0xd800 \<le> u \<and> u \<le> 0xdbff"

definition low_unit :: "u16 \<Rightarrow> bool" where
  "low_unit u \<longleftrightarrow> 0xdc00 \<le> u \<and> u \<le> 0xdfff"

text \<open>The code points of a text of UTF-16 units, and the length of their UTF-8 encodings.\<close>

fun utf16_scalars :: "u16 list \<Rightarrow> nat list option" where
  "utf16_scalars [] = Some []" |
  "utf16_scalars (u # us) =
     (if high_unit u
      then (case us of
              [] \<Rightarrow> None
            | low # rest \<Rightarrow>
                if low_unit low
                then map_option
                       ((#) (0x10000 + (unat u - 0xd800) * 0x400 + (unat low - 0xdc00)))
                       (utf16_scalars rest)
                else None)
      else if low_unit u then None
      else map_option ((#) (unat u)) (utf16_scalars us))"

definition utf8_length :: "nat \<Rightarrow> nat" where
  "utf8_length c = (if c < 0x80 then 1 else if c < 0x800 then 2 else if c < 0x10000 then 3 else 4)"

text \<open>\<open>scan_list\<close> is the loop on the list of units still to be read.\<close>

fun scan_list :: "u16 list \<Rightarrow> nat \<Rightarrow> int + nat" where
  "scan_list [] n = Inr n" |
  "scan_list (u # us) n =
     (if high_unit u
      then (case us of
              [] \<Rightarrow> Inl CONVERT_INVALID
            | low # rest \<Rightarrow>
                if \<not> low_unit low then Inl CONVERT_INVALID
                else if n > CLIPBOARD_MAX_BYTES - 4 then Inl CONVERT_CAPACITY
                else scan_list rest (n + 4))
      else if low_unit u then Inl CONVERT_INVALID
      else if n > CLIPBOARD_MAX_BYTES - utf8_length (unat u) then Inl CONVERT_CAPACITY
      else scan_list us (n + utf8_length (unat u)))"

lemma load16_inside:
  "offset + 1 < length data \<Longrightarrow> load16 data offset = Some (the (load16 data offset))"
  by (simp add: load16_def)

lemma utf8_length_unit:
  "utf8_length (unat (u :: u16)) = (if u \<le> 0x007f then 1 else if u \<le> 0x07ff then 2 else 3)"
proof -
  have "unat u < 65536" using unat_word_bound [of u] by simp
  moreover have "u \<le> 0x007f \<longleftrightarrow> unat u < 0x80" by (auto simp: word_le_nat_alt)
  moreover have "u \<le> 0x07ff \<longleftrightarrow> unat u < 0x800" by (auto simp: word_le_nat_alt)
  ultimately show ?thesis by (simp add: utf8_length_def)
qed

text \<open>One pass of the loop over units that are inside the block.\<close>

lemma scan_units_step:
  assumes "index + 1 < units" "load16 data (index * 2) = Some u"
  shows "scan_units data units index n =
    (if high_unit u
     then if units \<le> index + 2 then Some (Inl CONVERT_INVALID)
          else (case load16 data ((index + 1) * 2) of
                  None \<Rightarrow> None
                | Some low \<Rightarrow>
                    if \<not> low_unit low then Some (Inl CONVERT_INVALID)
                    else if n > CLIPBOARD_MAX_BYTES - 4 then Some (Inl CONVERT_CAPACITY)
                    else scan_units data units (index + 2) (n + 4))
     else if low_unit u then Some (Inl CONVERT_INVALID)
     else if n > CLIPBOARD_MAX_BYTES - utf8_length (unat u) then Some (Inl CONVERT_CAPACITY)
     else scan_units data units (index + 1) (n + utf8_length (unat u)))"
proof -
  have low: "(w < 0xdc00 \<or> 0xdfff < w) \<longleftrightarrow> \<not> low_unit w" for w
    by (simp add: low_unit_def not_le disj_commute)
  show ?thesis using assms
    by (subst scan_units.simps)
      (simp only: low high_unit_def [symmetric] low_unit_def [symmetric] Let_def
        utf8_length_unit [symmetric] if_True option.case)
qed

lemma scan_units_list:
  assumes "2 * units \<le> length data"
  shows "scan_units data units index n =
    Some (scan_list (map (\<lambda>i. the (load16 data (2 * i))) [index..<units - 1]) n)"
  using assms
proof (induction "units - index" arbitrary: index n rule: less_induct)
  case less
  let ?rest = "\<lambda>k. map (\<lambda>i. the (load16 data (2 * i))) [k..<units - 1]"
  show ?case
  proof (cases "index + 1 < units")
    case False
    then show ?thesis by (simp add: scan_units.simps)
  next
    case more: True
    define u where "u = the (load16 data (2 * index))"
    have u: "load16 data (index * 2) = Some u"
      using load16_inside [of "2 * index" data] more less.prems by (simp add: u_def mult.commute)
    have rest: "?rest index = u # ?rest (index + 1)"
      using more by (simp add: upt_conv_Cons u_def)
    have one: "scan_units data units (index + 1) k = Some (scan_list (?rest (index + 1)) k)" for k
      using more less.prems by (intro less.hyps) auto
    show ?thesis
    proof (cases "high_unit u \<and> \<not> units \<le> index + 2")
      case False
      then show ?thesis unfolding scan_units_step [OF more u] rest one
        by (auto split: list.split)
    next
      case pair: True
      define low where "low = the (load16 data (2 * (index + 1)))"
      have low: "load16 data ((index + 1) * 2) = Some low"
        using load16_inside [of "2 * (index + 1)" data] pair less.prems
        by (simp add: low_def mult.commute)
      have rest2: "?rest (index + 1) = low # ?rest (index + 2)"
      proof -
        have "index + 1 < units - 1" using pair by linarith
        then have "[index + 1..<units - 1] = (index + 1) # [index + 2..<units - 1]"
          by (simp add: upt_conv_Cons)
        then show ?thesis by (simp only: list.map low_def)
      qed
      have two: "scan_units data units (index + 2) k = Some (scan_list (?rest (index + 2)) k)" for k
        using more less.prems by (intro less.hyps) auto
      show ?thesis using pair unfolding scan_units_step [OF more u] rest rest2 low two
        by simp
    qed
  qed
qed

lemma unit_not_four: "utf8_length (unat (u :: u16)) \<le> 3"
  by (simp add: utf8_length_unit)

lemma surrogate_length: "utf8_length (0x10000 + m + n) = 4"
  by (simp add: utf8_length_def)

definition text_size :: "nat list \<Rightarrow> nat" where
  "text_size cs = sum_list (map utf8_length cs)"

lemma text_size_simps [simp]:
  "text_size [] = 0" "text_size (c # cs) = utf8_length c + text_size cs"
  by (simp_all add: text_size_def)

text \<open>The loop decides well-formedness and the limit, and adds up the sizes.\<close>

lemma scan_list_result:
  assumes "n \<le> CLIPBOARD_MAX_BYTES"
  shows "case scan_list us n of
      Inr t \<Rightarrow> \<exists>cs. utf16_scalars us = Some cs \<and> t = n + text_size cs
                    \<and> t \<le> CLIPBOARD_MAX_BYTES
    | Inl status \<Rightarrow> (status = CONVERT_INVALID \<and> utf16_scalars us = None)
        \<or> (status = CONVERT_CAPACITY
            \<and> (\<forall>cs. utf16_scalars us = Some cs \<longrightarrow> n + text_size cs > CLIPBOARD_MAX_BYTES))"
  using assms
proof (induction us n rule: scan_list.induct)
  case (1 n)
  then show ?case by simp
next
  case (2 u us n)
  show ?case
  proof (cases "high_unit u")
    case pair: True
    show ?thesis
    proof (cases us)
      case Nil
      then show ?thesis using pair by simp
    next
      case (Cons low rest)
      show ?thesis
      proof (cases "\<not> low_unit low")
        case True
        then show ?thesis using pair Cons by simp
      next
        case low: False
        show ?thesis
        proof (cases "n > CLIPBOARD_MAX_BYTES - 4")
          case True
          then show ?thesis using pair Cons low by (auto simp: surrogate_length)
        next
          case False
          then have "n + 4 \<le> CLIPBOARD_MAX_BYTES" by simp
          from 2(1) [OF pair Cons low False this] show ?thesis using pair Cons low False
            by (auto simp: surrogate_length split: sum.splits)
        qed
      qed
    qed
  next
    case single: False
    show ?thesis
    proof (cases "low_unit u")
      case True
      then show ?thesis using single by simp
    next
      case unit: False
      show ?thesis
      proof (cases "n > CLIPBOARD_MAX_BYTES - utf8_length (unat u)")
        case True
        then show ?thesis using single unit by auto
      next
        case False
        then have "n + utf8_length (unat u) \<le> CLIPBOARD_MAX_BYTES"
          using unit_not_four [of u] by simp
        from 2(2) [OF single unit False this] show ?thesis using single unit False
          by (auto split: sum.splits)
      qed
    qed
  qed
qed

lemma block_units_nth:
  "i < n \<Longrightarrow> block_units block n ! i = the (load16 block (2 * i))"
  by (simp add: block_units_def)

text \<open>The first loop finds the first zero unit at or after \<open>k\<close>.\<close>

lemma scan_terminator_drop:
  assumes "scan \<le> length block" "k \<le> scan div 2"
  shows "scan_terminator block scan (2 * k) =
    Some (if 0 \<in> set (drop k (block_units block (scan div 2)))
          then k + length (takeWhile (\<lambda>u. u \<noteq> 0) (drop k (block_units block (scan div 2)))) + 1
          else 0)"
  using assms
proof (induction "scan div 2 - k" arbitrary: k)
  case 0
  then have "k = scan div 2" by simp
  then have "\<not> 2 * k + 2 \<le> scan" "drop k (block_units block (scan div 2)) = []"
    by (auto simp: block_units_def)
  then show ?case by (simp add: scan_terminator.simps)
next
  case (Suc d)
  then have k: "k < scan div 2" by simp
  then have inside: "2 * k + 2 \<le> scan" by linarith
  define us where "us = block_units block (scan div 2)"
  have len: "length us = scan div 2" by (simp add: us_def block_units_def)
  have d: "drop k us = us ! k # drop (k + 1) us"
    using k len by (simp add: Cons_nth_drop_Suc)
  have unit: "load16 block (2 * k) = Some (us ! k)"
    using load16_inside [of "2 * k" block] inside Suc.prems k
    by (simp add: us_def block_units_nth)
  have ih: "scan_terminator block scan (2 * (k + 1)) =
    Some (if 0 \<in> set (drop (k + 1) us)
          then (k + 1) + length (takeWhile (\<lambda>u. u \<noteq> 0) (drop (k + 1) us)) + 1 else 0)"
    unfolding us_def using Suc k by (intro Suc.hyps(1)) auto
  have "scan_terminator block scan (2 * k) =
    (if us ! k = 0 then Some (k + 1) else scan_terminator block scan (2 * (k + 1)))"
    using inside unit by (subst scan_terminator.simps) simp
  then show ?case unfolding us_def [symmetric] d ih by auto
qed

lemma takeWhile_less:
  "\<exists>x\<in>set xs. \<not> P x \<Longrightarrow> length (takeWhile P xs) < length xs"
  by (induction xs) auto

lemma block_units_takeWhile:
  assumes "0 \<in> set (block_units block n)"
  defines "l \<equiv> length (takeWhile (\<lambda>u. u \<noteq> 0) (block_units block n))"
  shows "block_units block l = takeWhile (\<lambda>u. u \<noteq> 0) (block_units block n)" "l < n"
proof -
  have "l < length (block_units block n)"
    unfolding l_def by (rule takeWhile_less) (use assms(1) in auto)
  then show less: "l < n" by (simp add: block_units_def)
  have "takeWhile (\<lambda>u. u \<noteq> 0) (block_units block n) = take l (block_units block n)"
    unfolding l_def by (rule takeWhile_eq_take)
  also have "\<dots> = block_units block l"
    using less by (simp add: block_units_def take_map)
  finally show "block_units block l = takeWhile (\<lambda>u. u \<noteq> 0) (block_units block n)" by simp
qed

lemma parse_clipboard_result:
  assumes "bytes \<le> length block"
  shows "\<exists>status units n. parse_clipboard_utf16 (Some block) bytes = Some (status, units, n)
    \<and> (status = CONVERT_READY \<longleftrightarrow>
         0 \<in> set (block_units block (min bytes CLIPBOARD_MAX_BYTES div 2))
         \<and> (\<exists>cs. utf16_scalars (takeWhile (\<lambda>u. u \<noteq> 0)
                (block_units block (min bytes CLIPBOARD_MAX_BYTES div 2))) = Some cs
              \<and> text_size cs + 1 \<le> CLIPBOARD_MAX_BYTES
              \<and> n = text_size cs + 1))
    \<and> (if status = CONVERT_READY
       then units = length (takeWhile (\<lambda>u. u \<noteq> 0)
              (block_units block (min bytes CLIPBOARD_MAX_BYTES div 2))) + 1
         \<and> 2 * units \<le> bytes
       else units = 0 \<and> n = 0)"
proof -
  define scan where "scan = min bytes CLIPBOARD_MAX_BYTES"
  define us where "us = block_units block (scan div 2)"
  define l where "l = length (takeWhile (\<lambda>u. u \<noteq> 0) us)"
  have first: "scan_terminator block scan 0 = Some (if 0 \<in> set us then l + 1 else 0)"
    using scan_terminator_drop [of scan block 0] assms
    by (simp add: scan_def us_def l_def)
  have goal: "\<exists>status units n. parse_clipboard_utf16 (Some block) bytes = Some (status, units, n)
    \<and> (status = CONVERT_READY \<longleftrightarrow> 0 \<in> set us
         \<and> (\<exists>cs. utf16_scalars (takeWhile (\<lambda>u. u \<noteq> 0) us) = Some cs
              \<and> text_size cs + 1 \<le> CLIPBOARD_MAX_BYTES \<and> n = text_size cs + 1))
    \<and> (if status = CONVERT_READY then units = l + 1 \<and> 2 * units \<le> bytes
       else units = 0 \<and> n = 0)"
  proof (cases "bytes < 2 \<or> 0 \<notin> set us")
    case True
    moreover have "bytes < 2 \<Longrightarrow> 0 \<notin> set us"
      by (simp add: us_def scan_def block_units_def min_def)
    ultimately show ?thesis
      using first by (auto simp: parse_clipboard_utf16_def scan_def)
  next
    case False
    then have prefix: "block_units block l = takeWhile (\<lambda>u. u \<noteq> 0) us" and l: "l < scan div 2"
      using block_units_takeWhile [of block "scan div 2"] by (auto simp: us_def l_def)
    then have room: "2 * (l + 1) \<le> bytes" by (simp add: scan_def)
    have "scan_units block (l + 1) 0 1 = Some (scan_list (block_units block l) 1)"
      using scan_units_list [of "l + 1" block 0 1] room assms by (simp add: block_units_def)
    then have parsed: "parse_clipboard_utf16 (Some block) bytes =
      Some (case scan_list (takeWhile (\<lambda>u. u \<noteq> 0) us) 1 of
              Inl status \<Rightarrow> (status, 0, 0) | Inr n \<Rightarrow> (1, l + 1, n))"
      using False first prefix by (simp add: parse_clipboard_utf16_def scan_def split: sum.splits)
    have "0 \<in> set us" using False by simp
    show ?thesis
    proof (cases "scan_list (takeWhile (\<lambda>u. u \<noteq> 0) us) 1")
      case (Inl status)
      then have "status \<noteq> CONVERT_READY"
        using scan_list_result [of 1 "takeWhile (\<lambda>u. u \<noteq> 0) us"] by auto
      moreover have "\<And>cs. utf16_scalars (takeWhile (\<lambda>u. u \<noteq> 0) us) = Some cs \<Longrightarrow>
          \<not> text_size cs + 1 \<le> CLIPBOARD_MAX_BYTES"
        using scan_list_result [of 1 "takeWhile (\<lambda>u. u \<noteq> 0) us"] Inl by auto
      ultimately show ?thesis using parsed Inl by auto
    next
      case (Inr n)
      then obtain cs where "utf16_scalars (takeWhile (\<lambda>u. u \<noteq> 0) us) = Some cs"
          "n = 1 + text_size cs" "n \<le> CLIPBOARD_MAX_BYTES"
        using scan_list_result [of 1 "takeWhile (\<lambda>u. u \<noteq> 0) us"] by auto
      then show ?thesis using parsed Inr room \<open>0 \<in> set us\<close> by auto
    qed
  qed
  then show ?thesis unfolding us_def scan_def l_def .
qed

text \<open>C25: For a block at least as long as announced, the scan stays inside the block; it accepts
  exactly when a zero unit ends the text within the first 16 MiB, the text is well-formed UTF-16
  and its UTF-8 form with the final zero has at most 16 MiB; then it reports the units including
  the terminator and the exact UTF-8 size, and otherwise it reports zeros.\<close>
theorem parse_clipboard_exact:
  assumes "bytes \<le> length block"
  shows "\<exists>status units n. parse_clipboard_utf16 (Some block) bytes = Some (status, units, n)
    \<and> (status = CONVERT_READY \<longleftrightarrow>
         0 \<in> set (block_units block (min bytes CLIPBOARD_MAX_BYTES div 2))
         \<and> (\<exists>cs. utf16_scalars (takeWhile (\<lambda>u. u \<noteq> 0)
                (block_units block (min bytes CLIPBOARD_MAX_BYTES div 2))) = Some cs
              \<and> text_size cs + 1 \<le> CLIPBOARD_MAX_BYTES
              \<and> n = text_size cs + 1))
    \<and> (if status = CONVERT_READY
       then units = length (takeWhile (\<lambda>u. u \<noteq> 0)
              (block_units block (min bytes CLIPBOARD_MAX_BYTES div 2))) + 1
         \<and> 2 * units \<le> bytes
       else units = 0 \<and> n = 0)"
  by (rule parse_clipboard_result [OF assms])

lemma parse_clipboard_exact_witness:
  "\<exists>status units n. parse_clipboard_utf16 (Some [0x41, 0, 0x3d, 0xd8, 0, 0xde, 0, 0]) 8
      = Some (status, units, n)
    \<and> (if status = CONVERT_READY then units = 4 else units = 0 \<and> n = 0)"
proof -
  have "length (takeWhile (\<lambda>u. u \<noteq> 0) (block_units [0x41, 0, 0x3d, 0xd8, 0, 0xde, 0, 0]
      (min 8 CLIPBOARD_MAX_BYTES div 2))) + 1 = 4"
    by (simp add: block_units_def load16_def upt_rec)
  then show ?thesis
    using parse_clipboard_exact [of 8 "[0x41, 0, 0x3d, 0xd8, 0, 0xde, 0, 0]"]
    by (simp split: if_splits) blast
qed

subsection \<open>The transactions, on operations that log their calls\<close>

datatype clip_event =
    Opened bool | Closed | Emptied bool | Handed_over u64 u64
  | Allocated u64 | Locked u64 u64 | Unlocked u64 | Freed u64 | Heap_allocated u64 | Heap_freed u64

definition logged ::
    "('a \<Rightarrow> clip_event) \<Rightarrow> ('w, 'a) state \<Rightarrow> ('w \<times> clip_event list, 'a) state" where
  "logged event m = State (\<lambda>(w, trace).
     case run_state m w of (a, w') \<Rightarrow> (a, (w', trace @ [event a])))"

definition unlogged :: "('w, 'a) state \<Rightarrow> ('w \<times> clip_event list, 'a) state" where
  "unlogged m = State (\<lambda>(w, trace). case run_state m w of (a, w') \<Rightarrow> (a, (w', trace)))"

definition traced :: "'w clip_ops \<Rightarrow> ('w \<times> clip_event list) clip_ops" where
  "traced ops = \<lparr>
     performance_frequency = unlogged (performance_frequency ops),
     performance_counter = unlogged (performance_counter ops),
     tick_count = unlogged (tick_count ops),
     clip_is_window = (\<lambda>h. unlogged (clip_is_window ops h)),
     open_clipboard = (\<lambda>h. logged Opened (open_clipboard ops h)),
     close_clipboard = logged (\<lambda>_. Closed) (close_clipboard ops),
     empty_clipboard = logged Emptied (empty_clipboard ops),
     set_clipboard_data = (\<lambda>f h. logged (Handed_over h) (set_clipboard_data ops f h)),
     get_clipboard_data = (\<lambda>f. unlogged (get_clipboard_data ops f)),
     global_alloc = (\<lambda>f n. logged Allocated (global_alloc ops f n)),
     global_lock = (\<lambda>h. logged (Locked h) (global_lock ops h)),
     global_unlock = (\<lambda>h. logged (\<lambda>_. Unlocked h) (global_unlock ops h)),
     global_free = (\<lambda>h. logged (\<lambda>_. Freed h) (global_free ops h)),
     global_size = (\<lambda>h. unlogged (global_size ops h)),
     store_units = (\<lambda>p us. unlogged (store_units ops p us)),
     read_memory = (\<lambda>p. unlogged (read_memory ops p)),
     malloc_bytes = (\<lambda>n. logged Heap_allocated (malloc_bytes ops n)),
     free_bytes = (\<lambda>p. logged (\<lambda>_. Heap_freed p) (free_bytes ops p)),
     wide_to_multi_byte = (\<lambda>us n. unlogged (wide_to_multi_byte ops us n)),
     multi_byte_to_wide = (\<lambda>bs n. unlogged (multi_byte_to_wide ops bs n))\<rparr>"

lemma wp_logged [wp_simps]:
  "wp (logged event m) Q (w, trace) =
    wp m (\<lambda>a w'. Q a (w', trace @ [event a])) w"
  by (simp add: logged_def wp_def split: prod.splits)

lemma wp_unlogged [wp_simps]:
  "wp (unlogged m) Q (w, trace) = wp m (\<lambda>a w'. Q a (w', trace)) w"
  by (simp add: unlogged_def wp_def split: prod.splits)

text \<open>The handles and blocks of each kind, in the order of the trace.\<close>

definition nonzero :: "u64 \<Rightarrow> u64 list" where
  "nonzero h = (if h = 0 then [] else [h])"

fun allocated :: "clip_event list \<Rightarrow> u64 list" where
  "allocated [] = []" |
  "allocated (Allocated h # es) = nonzero h @ allocated es" |
  "allocated (_ # es) = allocated es"

fun freed :: "clip_event list \<Rightarrow> u64 list" where
  "freed [] = []" |
  "freed (Freed h # es) = h # freed es" |
  "freed (_ # es) = freed es"

fun handed_over :: "clip_event list \<Rightarrow> u64 list" where
  "handed_over [] = []" |
  "handed_over (Handed_over h r # es) = (if r = 0 then [] else [h]) @ handed_over es" |
  "handed_over (_ # es) = handed_over es"

fun locked_handles :: "clip_event list \<Rightarrow> u64 list" where
  "locked_handles [] = []" |
  "locked_handles (Locked h p # es) = (if p = 0 then [] else [h]) @ locked_handles es" |
  "locked_handles (_ # es) = locked_handles es"

fun unlocked_handles :: "clip_event list \<Rightarrow> u64 list" where
  "unlocked_handles [] = []" |
  "unlocked_handles (Unlocked h # es) = h # unlocked_handles es" |
  "unlocked_handles (_ # es) = unlocked_handles es"

fun heap_allocated :: "clip_event list \<Rightarrow> u64 list" where
  "heap_allocated [] = []" |
  "heap_allocated (Heap_allocated p # es) = nonzero p @ heap_allocated es" |
  "heap_allocated (_ # es) = heap_allocated es"

fun heap_freed :: "clip_event list \<Rightarrow> u64 list" where
  "heap_freed [] = []" |
  "heap_freed (Heap_freed p # es) = p # heap_freed es" |
  "heap_freed (_ # es) = heap_freed es"

text \<open>Every successful open is followed by exactly one close, which ends the trace.\<close>

fun clipboard_closed :: "clip_event list \<Rightarrow> bool" where
  "clipboard_closed [] = True" |
  "clipboard_closed (Opened b # es) =
     (if b then es \<noteq> [] \<and> filter (\<lambda>e. e = Closed \<or> (\<exists>b. e = Opened b)) es = [Closed]
      else es = [])" |
  "clipboard_closed (_ # es) = False"

definition write_outcome :: "int \<Rightarrow> clip_event list \<Rightarrow> bool" where
  "write_outcome r trace \<longleftrightarrow>
     clipboard_closed trace
     \<and> allocated trace = handed_over trace @ freed trace
     \<and> locked_handles trace = unlocked_handles trace
     \<and> (r = ATTEMPT_READY \<longleftrightarrow> handed_over trace \<noteq> [])
     \<and> (r = ATTEMPT_CLEANED \<longleftrightarrow> freed trace \<noteq> [])
     \<and> (r = ATTEMPT_RETRY \<longleftrightarrow> Opened False \<in> set trace)"

text \<open>C24: Whatever Windows answers, the write transaction closes the clipboard it opened, unlocks
  what it locked, and every global block it allocated is either handed to the clipboard or given
  back with exactly one call of GlobalFree, never both; READY is returned exactly when the block
  was handed over, CLEANED exactly when it was given back, RETRY exactly when opening failed.\<close>
theorem clipboard_write_ownership:
  "wp (clipboard_write_observed (traced ops) owner txt units observer)
      (\<lambda>(r, _) (_, trace). write_outcome r trace) (w, [])"
  unfolding clipboard_write_observed_def clipboard_free_owned_global_def
  by (auto simp: wp_simps traced_def Let_def write_outcome_def nonzero_def intro!: wp_any)

text \<open>
  The counters of an observer that passes every pointer: what it counts as owned is what was
  allocated and neither transferred nor freed, never negative and at most the peak.
\<close>

definition observer_balanced :: "write_observer option \<Rightarrow> bool" where
  "observer_balanced observer \<longleftrightarrow>
     (\<exists>obs owned peak allocations transfers frees.
        observer = Some obs \<and> owned_globals obs = Some owned
        \<and> owned_globals_peak obs = Some peak
        \<and> global_allocations obs = Some allocations
        \<and> global_transfers obs = Some transfers \<and> global_frees obs = Some frees
        \<and> owned = allocations - transfers - frees \<and> 0 \<le> owned \<and> owned \<le> peak)"

definition owned_of :: "write_observer option \<Rightarrow> int" where
  "owned_of observer = the (owned_globals (the observer))"

lemmas observer_defs = clipboard_observe_allocation_def clipboard_observe_free_def
  clipboard_observe_transfer_def clipboard_take_pretransfer_failure_def count_up_def count_down_def

lemma observe_allocation_balanced:
  assumes "observer_balanced observer"
  shows "observer_balanced (clipboard_observe_allocation observer)"
    and "owned_of (clipboard_observe_allocation observer) = owned_of observer + 1"
  using assms by (auto simp: observer_balanced_def observer_defs owned_of_def)

lemma observe_free_balanced:
  assumes "observer_balanced observer" "0 < owned_of observer"
  shows "observer_balanced (clipboard_observe_free observer)"
    and "owned_of (clipboard_observe_free observer) = owned_of observer - 1"
  using assms by (auto simp: observer_balanced_def observer_defs owned_of_def)

lemma observe_transfer_balanced:
  assumes "observer_balanced observer" "0 < owned_of observer"
  shows "observer_balanced (clipboard_observe_transfer observer)"
    and "owned_of (clipboard_observe_transfer observer) = owned_of observer - 1"
  using assms by (auto simp: observer_balanced_def observer_defs owned_of_def)

lemma take_failure_balanced:
  assumes "observer_balanced observer"
  shows "observer_balanced (snd (clipboard_take_pretransfer_failure observer))"
    and "owned_of (snd (clipboard_take_pretransfer_failure observer)) = owned_of observer"
  using assms by (auto simp: observer_balanced_def observer_defs owned_of_def split: option.splits)

lemma owned_nonneg: "observer_balanced observer \<Longrightarrow> 0 \<le> owned_of observer"
  by (auto simp: observer_balanced_def owned_of_def)

lemmas balanced_simps = observe_allocation_balanced observe_free_balanced
  observe_transfer_balanced take_failure_balanced

text \<open>With an observer whose counters balance, a write leaves them balanced; it owns no block
  more than before when it reports READY, FAILED or RETRY, and one more only after CLEANED, when
  GlobalFree refused the block.\<close>
theorem clipboard_write_observer:
  assumes "observer_balanced observer"
  shows "wp (clipboard_write_observed ops owner txt units observer)
    (\<lambda>(r, observer') _. observer_balanced observer'
       \<and> (owned_of observer' = owned_of observer
          \<or> r = ATTEMPT_CLEANED \<and> owned_of observer' = owned_of observer + 1)) w"
  using assms owned_nonneg [OF assms]
  unfolding clipboard_write_observed_def clipboard_free_owned_global_def
  by (auto simp: wp_simps Let_def balanced_simps split: if_splits intro!: wp_any)

definition zero_observer :: write_observer where
  "zero_observer = \<lparr>owned_globals = Some 0, owned_globals_peak = Some 0, global_allocations = Some 0,
     global_transfers = Some 0, global_frees = Some 0, fail_before_transfer = Some 0\<rparr>"

text \<open>A Windows on which every call succeeds, except that no memory can be given back.\<close>

definition leaky_ops :: "unit clip_ops" where
  "leaky_ops = \<lparr>
     performance_frequency = State_Monad.return (Some 10000000), performance_counter = State_Monad.return (Some 25),
     tick_count = State_Monad.return 3, clip_is_window = (\<lambda>_. check True),
     open_clipboard = (\<lambda>_. check True), close_clipboard = State_Monad.return (),
     empty_clipboard = check False, set_clipboard_data = (\<lambda>_. State_Monad.return),
     get_clipboard_data = (\<lambda>_. State_Monad.return 7), global_alloc = (\<lambda>_ _. State_Monad.return 7),
     global_lock = (\<lambda>_. State_Monad.return 9), global_unlock = (\<lambda>_. State_Monad.return ()),
     global_free = State_Monad.return, global_size = (\<lambda>_. State_Monad.return 4),
     store_units = (\<lambda>_ _. State_Monad.return ()), read_memory = (\<lambda>_. State_Monad.return (\<lambda>_. 0)),
     malloc_bytes = (\<lambda>_. State_Monad.return 5), free_bytes = (\<lambda>_. State_Monad.return ()),
     wide_to_multi_byte = (\<lambda>us _. State_Monad.return (0, [])),
     multi_byte_to_wide = (\<lambda>bs _. State_Monad.return (0, []))\<rparr>"

lemma clipboard_write_observer_witness:
  "observer_balanced (Some zero_observer)
   \<and> wp (clipboard_write_observed leaky_ops 1 (Some [0x41, 0]) 2 (Some zero_observer))
       (\<lambda>(r, observer') _. observer_balanced observer'
          \<and> (owned_of observer' = 0 \<or> r = ATTEMPT_CLEANED \<and> owned_of observer' = 1)) ()"
proof -
  have start: "observer_balanced (Some zero_observer)" "owned_of (Some zero_observer) = 0"
    by (simp_all add: observer_balanced_def zero_observer_def owned_of_def)
  show ?thesis
    using clipboard_write_observer [OF start(1), of leaky_ops 1 "Some [0x41, 0]" 2 "()"] start
    by simp
qed

text \<open>The same run in full: the block that could not be freed stays owned.\<close>

lemma leaky_write:
  "run_state (clipboard_write_observed leaky_ops 1 (Some [0x41, 0]) 2 (Some zero_observer)) ()
   = ((ATTEMPT_CLEANED, Some (zero_observer\<lparr>owned_globals := Some 1, owned_globals_peak := Some 1,
        global_allocations := Some 1\<rparr>)), ())"
  by (simp add: clipboard_write_observed_def leaky_ops_def zero_observer_def observer_defs
      clipboard_free_owned_global_def Let_def)

definition read_outcome ::
    "bool \<Rightarrow> (int \<times> u64 \<times> u8 list \<times> nat) option \<Rightarrow> clip_event list \<Rightarrow> bool" where
  "read_outcome out_text result trace \<longleftrightarrow>
     (case result of
        None \<Rightarrow> False
      | Some (status, block, contents, n) \<Rightarrow>
          clipboard_closed trace
          \<and> locked_handles trace = unlocked_handles trace
          \<and> heap_allocated trace = heap_freed trace @ nonzero block
          \<and> allocated trace = [] \<and> freed trace = []
          \<and> (block \<noteq> 0 \<longleftrightarrow> status = ATTEMPT_READY \<and> out_text)
          \<and> (block \<noteq> 0 \<longleftrightarrow> contents \<noteq> [])
          \<and> n < CLIPBOARD_MAX_BYTES)"

lemma parse_clipboard_inside:
  assumes "parse_clipboard_utf16 (Some (map f [0..<bytes])) bytes = result"
  shows "\<exists>status units n. result = Some (status, units, n)
    \<and> (status = CONVERT_READY \<longrightarrow> 0 < n \<and> n \<le> CLIPBOARD_MAX_BYTES) \<and> (status \<noteq> CONVERT_READY \<longrightarrow> n = 0)"
  using parse_clipboard_result [of bytes "map f [0..<bytes]"] assms by (auto split: if_splits)

lemma parse_clipboard_returns:
  "\<exists>status units n. parse_clipboard_utf16 (Some (map f [0..<bytes])) bytes = Some (status, units, n)"
  using parse_clipboard_inside [OF refl] by blast

text \<open>The read transaction always returns, closes the clipboard it opened, unlocks what it
  locked, allocates no global block, and gives the caller exactly the heap block it did not free:
  one block when it reports READY and the caller asked for the text, none otherwise.\<close>
theorem clipboard_read_ownership:
  "wp (clipboard_read (traced ops) owner out_text)
      (\<lambda>result (_, trace). read_outcome out_text result trace) (w, [])"
  unfolding clipboard_read_def
  by (auto simp: wp_simps traced_def Let_def read_outcome_def nonzero_def
      split: option.split prod.split dest!: parse_clipboard_inside
      intro!: wp_any parse_clipboard_returns)

subsection \<open>Conversion and clock\<close>

definition conversion_outcome ::
    "u16 list option \<Rightarrow> int \<times> nat \<times> u16 list option \<Rightarrow> bool" where
  "conversion_outcome output result =
     (case result of (status, needed, output') \<Rightarrow>
        map_option length output' = map_option length output
        \<and> 2 * needed \<le> CLIPBOARD_MAX_BYTES
        \<and> (status = CONVERT_CAPACITY \<longrightarrow> needed = 0 \<and> output' = output)
        \<and> (status = CONVERT_READY \<longrightarrow> 0 < needed
            \<and> (case output' of None \<Rightarrow> True
                | Some buffer \<Rightarrow> needed \<le> length buffer \<and> buffer ! (needed - 1) = 0)))"

text \<open>The conversion of UTF-8 text never writes outside the caller's buffer and never asks for
  more than 16 MiB; when it reports READY the buffer holds the units it asked for, the last of
  them zero; text that is too long leaves the buffer untouched.\<close>
theorem clipboard_utf8_to_utf16_bounds:
  "wp (clipboard_utf8_to_utf16 ops text_ptr text_bytes output)
      (\<lambda>result _. conversion_outcome output result) w"
  unfolding clipboard_utf8_to_utf16_def
  by (auto simp: wp_simps Let_def conversion_outcome_def min_def Suc_le_eq split: option.split prod.split
      intro!: wp_any)

lemma wrap_i64_id: "0 \<le> x \<Longrightarrow> x < 2 ^ 63 \<Longrightarrow> wrap_i64 x = x"
  by (simp add: wrap_i64_def signed_take_bit_int_eq_self)

text \<open>The performance counter is converted to nanoseconds exactly (rounded down), without
  overflow, for every frequency below 2 ^ 63 / 10 ^ 9 and every reading whose result fits.\<close>
theorem ticks_to_ns_exact:
  assumes "0 < frequency" "frequency * 1000000000 < 2 ^ 63" "0 \<le> counter"
    and "counter * 1000000000 div frequency < 2 ^ 63"
  shows "ticks_to_ns counter frequency = counter * 1000000000 div frequency"
proof -
  define q r where "q = counter div frequency" and "r = counter mod frequency"
  have r: "0 \<le> r" "r < frequency" using assms by (simp_all add: r_def)
  have c: "counter = q * frequency + r" by (simp add: q_def r_def)
  have q: "0 \<le> q" using assms by (simp add: q_def pos_imp_zdiv_nonneg_iff)
  have split: "counter * 1000000000 div frequency = q * 1000000000 + r * 1000000000 div frequency"
  proof -
    have "counter * 1000000000 = r * 1000000000 + (q * 1000000000) * frequency"
      by (simp add: c algebra_simps)
    then show ?thesis using assms(1) by (simp add: div_mult_self1)
  qed
  have rest: "0 \<le> r * 1000000000 div frequency"
    using r assms(1) by (simp add: pos_imp_zdiv_nonneg_iff)
  have rb: "r * 1000000000 < 2 ^ 63" using r assms(2) by linarith
  have qb: "q * 1000000000 < 2 ^ 63" using split rest assms(4) by linarith
  have quot: "counter sdiv frequency = q" "counter smod frequency = r"
    using assms by (simp_all add: q_def r_def signed_divide_int_def signed_modulo_int_def
        sgn_if abs_if minus_div_mult_eq_mod [symmetric] split: if_splits)
  have "wrap_i64 (r * 1000000000) sdiv frequency = r * 1000000000 div frequency"
    using r assms(1) rb
    by (auto simp: wrap_i64_id signed_divide_int_def sgn_if abs_if split: if_splits)
  then show ?thesis
    using q qb rest assms(4) split by (simp add: ticks_to_ns_def Let_def quot wrap_i64_id)
qed

lemma ticks_to_ns_exact_witness:
  "ticks_to_ns 12345678901 10000000 = 12345678901 * 1000000000 div 10000000"
  by (rule ticks_to_ns_exact) simp_all

end
