(* ===== verification/Win32_Monitors.thy ===== *)
theory Win32_Monitors
  imports Host_Monad
begin

text \<open>
  The monitor snapshot of \<open>x/multiwindow/win32_service_native.h\<close>: an array that
  doubles from 8 to at most 4096 entries while Windows enumerates the monitors, and its readers.
  \<open>EnumDisplayMonitors\<close> is an operation that yields the monitors in the order it reports them,
  and a flag for its own failure; it stops at the first callback that answers FALSE.
\<close>

abbreviation MONITOR_INITIAL_CAPACITY :: int where "MONITOR_INITIAL_CAPACITY \<equiv> 8"
abbreviation MONITOR_MAX_CAPACITY :: int where "MONITOR_MAX_CAPACITY \<equiv> 4096"
abbreviation (input) CCHDEVICENAME :: nat where "CCHDEVICENAME \<equiv> 32"
abbreviation (input) LOGPIXELSX :: nat where "LOGPIXELSX \<equiv> 88"

record rect =
  rect_left :: i32
  rect_top :: i32
  rect_right :: i32
  rect_bottom :: i32

record monitor_info =
  info_monitor :: rect
  info_work :: rect
  info_flags :: u32
  info_device :: "u16 list"

record service_monitor =
  native_id :: u64
  monitor_name :: "u16 list"
  geometry :: rect
  work_area :: rect
  monitor_dpi :: u32
  primary :: bool

record monitor_snapshot =
  monitors :: "service_monitor list"
  snapshot_count :: int
  snapshot_capacity :: int
  snapshot_failed :: bool

record 'w monitor_ops =
  load_shcore :: "('w, u64) state"
  proc_address :: "u64 \<Rightarrow> string \<Rightarrow> ('w, u64) state"
  free_library :: "u64 \<Rightarrow> ('w, unit) state"
  call_dpi_for_monitor :: "u64 \<Rightarrow> u64 \<Rightarrow> ('w, i32 \<times> u32) state"
  module_user32 :: "('w, u64) state"
  call_dpi_for_window :: "u64 \<Rightarrow> u64 \<Rightarrow> ('w, u32) state"
  get_dc :: "u64 \<Rightarrow> ('w, u64) state"
  release_dc :: "u64 \<Rightarrow> u64 \<Rightarrow> ('w, unit) state"
  device_caps :: "u64 \<Rightarrow> nat \<Rightarrow> ('w, i32) state"
  monitor_info_of :: "u64 \<Rightarrow> ('w, monitor_info option) state"
  grow_monitors :: "int \<Rightarrow> ('w, bool) state"
  allocate_snapshot :: "('w, bool) state"
  allocate_monitors :: "int \<Rightarrow> ('w, bool) state"
  release_monitors :: "('w, unit) state"
  release_snapshot :: "('w, unit) state"
  enumerated_monitors :: "('w, u64 list \<times> bool) state"
  monitor_is_window :: "u64 \<Rightarrow> ('w, bool) state"
  monitor_from_window :: "u64 \<Rightarrow> ('w, u64) state"

text \<open>\<open>FAILED\<close> and \<open>SUCCEEDED\<close> read the sign of an \<open>HRESULT\<close>.\<close>

definition hr_succeeded :: "i32 \<Rightarrow> bool" where
  "hr_succeeded result \<longleftrightarrow> 0 \<le> sint result"

definition device_dpi :: "('w, 'x) monitor_ops_scheme \<Rightarrow> u64 \<Rightarrow> ('w, u32) state" where
  "device_dpi ops hwnd = do {
     dc \<leftarrow> get_dc ops hwnd;
     dpi \<leftarrow> (if dc \<noteq> 0 then device_caps ops dc LOGPIXELSX else State_Monad.return 96);
     if_then (dc \<noteq> 0) (release_dc ops hwnd dc);
     State_Monad.return (if 0 < sint dpi then dpi else 96) }"

definition service_monitor_dpi :: "('w, 'x) monitor_ops_scheme \<Rightarrow> u64 \<Rightarrow> ('w, u32) state" where
  "service_monitor_dpi ops monitor = do {
     shcore \<leftarrow> load_shcore ops;
     found \<leftarrow> (if shcore \<noteq> 0 then do {
         get_dpi_for_monitor \<leftarrow> proc_address ops shcore ''GetDpiForMonitor'';
         if get_dpi_for_monitor \<noteq> 0 then do {
           answer \<leftarrow> call_dpi_for_monitor ops get_dpi_for_monitor monitor;
           free_library ops shcore;
           State_Monad.return
             (if hr_succeeded (fst answer) \<and> 0 < snd answer then Some (snd answer) else None) }
         else do {
           free_library ops shcore;
           State_Monad.return None } }
       else State_Monad.return None);
     case found of
       Some dpi \<Rightarrow> State_Monad.return dpi
     | None \<Rightarrow> device_dpi ops 0 }"

text \<open>
  \<open>wcsncpy\<close> into a field of 32 units, whose last unit is then set to zero. It pads with zeros.
\<close>

definition copy_name :: "u16 list \<Rightarrow> u16 list" where
  "copy_name source =
     (let text = takeWhile (\<lambda>u. u \<noteq> 0) (take (CCHDEVICENAME - 1) source)
      in text @ replicate (CCHDEVICENAME - length text) 0)"

definition blank_monitor :: service_monitor where
  "blank_monitor = \<lparr>native_id = 0, monitor_name = [],
     geometry = \<lparr>rect_left = 0, rect_top = 0, rect_right = 0, rect_bottom = 0\<rparr>,
     work_area = \<lparr>rect_left = 0, rect_top = 0, rect_right = 0, rect_bottom = 0\<rparr>,
     monitor_dpi = 0, primary = False\<rparr>"

text \<open>
  The callback: the answer TRUE or FALSE, and the snapshot afterwards. \<open>realloc\<close> keeps the
  entries and appends uninitialised ones, which the model fills with blanks; a write outside the
  array is \<open>None\<close>.
\<close>

definition snapshot_grow ::
    "('w, 'x) monitor_ops_scheme \<Rightarrow> monitor_snapshot \<Rightarrow> ('w, bool \<times> monitor_snapshot) state" where
  "snapshot_grow ops snapshot =
     (if snapshot_capacity snapshot \<ge> MONITOR_MAX_CAPACITY
      then State_Monad.return (False, snapshot\<lparr>snapshot_failed := True\<rparr>)
      else do {
        let doubled = (if snapshot_capacity snapshot > 0 then snapshot_capacity snapshot * 2
                       else MONITOR_INITIAL_CAPACITY);
        let next_capacity =
          (if doubled > MONITOR_MAX_CAPACITY then MONITOR_MAX_CAPACITY else doubled);
        grown \<leftarrow> grow_monitors ops next_capacity;
        if \<not> grown then State_Monad.return (False, snapshot\<lparr>snapshot_failed := True\<rparr>)
        else State_Monad.return (True, snapshot\<lparr>
          monitors := monitors snapshot
            @ replicate (nat next_capacity - length (monitors snapshot)) blank_monitor,
          snapshot_capacity := next_capacity\<rparr>) })"

definition snapshot_store ::
    "('w, 'x) monitor_ops_scheme \<Rightarrow> u64 \<Rightarrow> monitor_info \<Rightarrow> monitor_snapshot \<Rightarrow>
     ('w, (bool \<times> monitor_snapshot) option) state" where
  "snapshot_store ops monitor base snapshot = do {
     dpi \<leftarrow> service_monitor_dpi ops monitor;
     let index = nat (snapshot_count snapshot);
     State_Monad.return
       (if index < length (monitors snapshot)
        then Some (True, snapshot\<lparr>
          snapshot_count := snapshot_count snapshot + 1,
          monitors := (monitors snapshot)[index := \<lparr>
            native_id = monitor, monitor_name = copy_name (info_device base),
            geometry = info_monitor base, work_area = info_work base,
            monitor_dpi = dpi, primary = (info_flags base AND 1 \<noteq> 0)\<rparr>]\<rparr>)
        else None) }"

definition service_monitor_snapshot_callback ::
    "('w, 'x) monitor_ops_scheme \<Rightarrow> u64 \<Rightarrow> monitor_snapshot \<Rightarrow>
     ('w, (bool \<times> monitor_snapshot) option) state" where
  "service_monitor_snapshot_callback ops monitor snapshot = do {
     room \<leftarrow> (if snapshot_count snapshot \<ge> snapshot_capacity snapshot
              then snapshot_grow ops snapshot
              else State_Monad.return (True, snapshot));
     let snapshot = snd room;
     if \<not> fst room then State_Monad.return (Some (False, snapshot)) else do {
     info \<leftarrow> monitor_info_of ops monitor;
     case info of
       None \<Rightarrow> State_Monad.return (Some (False, snapshot\<lparr>snapshot_failed := True\<rparr>))
     | Some base \<Rightarrow> snapshot_store ops monitor base snapshot } }"

fun run_callbacks ::
    "('w, 'x) monitor_ops_scheme \<Rightarrow> u64 list \<Rightarrow> monitor_snapshot \<Rightarrow>
     ('w, (bool \<times> monitor_snapshot) option) state" where
  "run_callbacks ops [] snapshot = State_Monad.return (Some (True, snapshot))" |
  "run_callbacks ops (monitor # rest) snapshot = do {
     answer \<leftarrow> service_monitor_snapshot_callback ops monitor snapshot;
     case answer of
       None \<Rightarrow> State_Monad.return None
     | Some (goes_on, snapshot) \<Rightarrow>
         if goes_on then run_callbacks ops rest snapshot
         else State_Monad.return (Some (False, snapshot)) }"

text \<open>The outer \<open>None\<close> is a write outside the array, the inner one the null pointer returned.\<close>

definition service_monitor_snapshot_new ::
    "('w, 'x) monitor_ops_scheme \<Rightarrow> ('w, monitor_snapshot option option) state" where
  "service_monitor_snapshot_new ops = do {
     allocated \<leftarrow> allocate_snapshot ops;
     if \<not> allocated then State_Monad.return (Some None) else do {
     reserved \<leftarrow> allocate_monitors ops MONITOR_INITIAL_CAPACITY;
     if \<not> reserved then do {
       release_snapshot ops;
       State_Monad.return (Some None) }
     else do {
     let snapshot = \<lparr>monitors = replicate (nat MONITOR_INITIAL_CAPACITY) blank_monitor,
       snapshot_count = 0, snapshot_capacity = MONITOR_INITIAL_CAPACITY, snapshot_failed = False\<rparr>;
     reported \<leftarrow> enumerated_monitors ops;
     result \<leftarrow> run_callbacks ops (fst reported) snapshot;
     case result of
       None \<Rightarrow> State_Monad.return None
     | Some (goes_on, snapshot) \<Rightarrow>
         if \<not> (goes_on \<and> snd reported) \<or> snapshot_failed snapshot then do {
           release_monitors ops;
           release_snapshot ops;
           State_Monad.return (Some None) }
         else State_Monad.return (Some (Some snapshot)) }} }"

definition service_monitor_snapshot_free ::
    "('w, 'x) monitor_ops_scheme \<Rightarrow> monitor_snapshot option \<Rightarrow> ('w, unit) state" where
  "service_monitor_snapshot_free ops snapshot =
     (case snapshot of
        None \<Rightarrow> State_Monad.return ()
      | Some _ \<Rightarrow> do { release_monitors ops; release_snapshot ops })"

subsection \<open>Reading a snapshot\<close>

definition service_monitor_snapshot_count :: "monitor_snapshot option \<Rightarrow> int" where
  "service_monitor_snapshot_count snapshot =
     (case snapshot of Some s \<Rightarrow> snapshot_count s | None \<Rightarrow> - 1)"

definition snapshot_index_ok :: "monitor_snapshot option \<Rightarrow> int \<Rightarrow> bool" where
  "snapshot_index_ok snapshot index \<longleftrightarrow>
     (case snapshot of None \<Rightarrow> False | Some s \<Rightarrow> 0 \<le> index \<and> index < snapshot_count s)"

definition service_monitor_snapshot_native_id :: "monitor_snapshot option \<Rightarrow> int \<Rightarrow> u64" where
  "service_monitor_snapshot_native_id snapshot index =
     (if snapshot_index_ok snapshot index
      then native_id (monitors (the snapshot) ! nat index) else 0)"

definition service_monitor_snapshot_name ::
    "monitor_snapshot option \<Rightarrow> int \<Rightarrow> u16 list option" where
  "service_monitor_snapshot_name snapshot index =
     (if snapshot_index_ok snapshot index
      then Some (monitor_name (monitors (the snapshot) ! nat index)) else None)"

text \<open>The values written through the output pointers, all of which the callers pass.\<close>

record monitor_geometry =
  out_x :: i32
  out_y :: i32
  out_width :: i32
  out_height :: i32
  out_work_x :: i32
  out_work_y :: i32
  out_work_width :: i32
  out_work_height :: i32
  out_dpi :: u32
  out_primary :: bool

definition service_monitor_snapshot_info ::
    "monitor_snapshot option \<Rightarrow> int \<Rightarrow> monitor_geometry option" where
  "service_monitor_snapshot_info snapshot index =
     (if \<not> snapshot_index_ok snapshot index then None
      else let item = monitors (the snapshot) ! nat index in Some \<lparr>
        out_x = rect_left (geometry item), out_y = rect_top (geometry item),
        out_width = rect_right (geometry item) - rect_left (geometry item),
        out_height = rect_bottom (geometry item) - rect_top (geometry item),
        out_work_x = rect_left (work_area item), out_work_y = rect_top (work_area item),
        out_work_width = rect_right (work_area item) - rect_left (work_area item),
        out_work_height = rect_bottom (work_area item) - rect_top (work_area item),
        out_dpi = monitor_dpi item, out_primary = primary item\<rparr>)"

definition service_window_monitor :: "('w, 'x) monitor_ops_scheme \<Rightarrow> u64 \<Rightarrow> ('w, u64) state" where
  "service_window_monitor ops hwnd = do {
     usable \<leftarrow> all_checks [check (hwnd \<noteq> 0), monitor_is_window ops hwnd];
     if \<not> usable then State_Monad.return 0 else monitor_from_window ops hwnd }"

definition service_window_dpi :: "('w, 'x) monitor_ops_scheme \<Rightarrow> u64 \<Rightarrow> ('w, u32) state" where
  "service_window_dpi ops hwnd = do {
     usable \<leftarrow> all_checks [check (hwnd \<noteq> 0), monitor_is_window ops hwnd];
     if \<not> usable then State_Monad.return 0 else do {
     user32 \<leftarrow> module_user32 ops;
     get_dpi_for_window \<leftarrow> (if user32 \<noteq> 0 then proc_address ops user32 ''GetDpiForWindow''
                           else State_Monad.return 0);
     dpi \<leftarrow> (if get_dpi_for_window \<noteq> 0 then call_dpi_for_window ops get_dpi_for_window hwnd
            else State_Monad.return 0);
     if 0 < dpi then State_Monad.return dpi else device_dpi ops hwnd }}"

subsection \<open>What a snapshot holds\<close>

definition snapshot_ok :: "monitor_snapshot \<Rightarrow> bool" where
  "snapshot_ok s \<longleftrightarrow> 0 \<le> snapshot_count s \<and> snapshot_count s \<le> snapshot_capacity s
     \<and> snapshot_capacity s \<le> MONITOR_MAX_CAPACITY
     \<and> int (length (monitors s)) = snapshot_capacity s"

definition snapshot_ids :: "monitor_snapshot \<Rightarrow> u64 list" where
  "snapshot_ids s = map native_id (take (nat (snapshot_count s)) (monitors s))"

definition entries_ok :: "monitor_snapshot \<Rightarrow> bool" where
  "entries_ok s \<longleftrightarrow> (\<forall>m \<in> set (take (nat (snapshot_count s)) (monitors s)).
     length (monitor_name m) = 32 \<and> last (monitor_name m) = 0 \<and> 0 < monitor_dpi m)"

lemma copy_name_shape: "length (copy_name n) = 32" "last (copy_name n) = 0"
proof -
  define t where "t = takeWhile (\<lambda>u. u \<noteq> 0) (take 31 n)"
  have "length t \<le> length (take 31 n)" unfolding t_def by (rule length_takeWhile_le)
  then have t: "length t \<le> 31" by simp
  have "copy_name n = t @ replicate (32 - length t) 0" by (simp add: copy_name_def t_def Let_def)
  then show "length (copy_name n) = 32" "last (copy_name n) = 0" using t by simp_all
qed

lemma positive_unsigned: "0 < sint d \<Longrightarrow> 0 < (d :: u32)"
  by (metis less_irrefl signed_0 word_neq_0_conv)

lemma monitor_dpi_positive: "wp (service_monitor_dpi ops monitor) (\<lambda>dpi _. 0 < dpi) w"
  unfolding service_monitor_dpi_def device_dpi_def
  by (auto simp: wp_simps positive_unsigned split: option.split intro!: wp_any)

text \<open>One callback keeps the snapshot in shape and, when it answers TRUE, appends its monitor.\<close>

definition callback_outcome ::
    "u64 \<Rightarrow> monitor_snapshot \<Rightarrow> (bool \<times> monitor_snapshot) option \<Rightarrow> bool" where
  "callback_outcome monitor s result \<longleftrightarrow>
     (case result of
        None \<Rightarrow> False
      | Some (goes_on, s') \<Rightarrow>
          snapshot_ok s' \<and> entries_ok s'
          \<and> (if goes_on then snapshot_ids s' = snapshot_ids s @ [monitor]
                \<and> snapshot_failed s' = snapshot_failed s
                \<and> snapshot_count s < MONITOR_MAX_CAPACITY
             else snapshot_failed s' \<and> snapshot_ids s' = snapshot_ids s))"

lemma snapshot_grow_ok:
  assumes "snapshot_ok s" "entries_ok s" "snapshot_capacity s \<le> snapshot_count s"
  shows "wp (snapshot_grow ops s) (\<lambda>(room, s') _. snapshot_ok s' \<and> entries_ok s'
      \<and> snapshot_ids s' = snapshot_ids s \<and> snapshot_count s' = snapshot_count s
      \<and> (if room then snapshot_failed s' = snapshot_failed s
            \<and> snapshot_count s' < snapshot_capacity s'
         else snapshot_failed s')) w"
proof -
  have n: "nat (snapshot_count s) = length (monitors s)" "snapshot_count s = snapshot_capacity s"
    using assms by (auto simp: snapshot_ok_def)
  show ?thesis using assms n unfolding snapshot_grow_def
    by (auto simp: wp_simps Let_def snapshot_ok_def entries_ok_def snapshot_ids_def intro!: wp_any)
qed

lemma snapshot_append:
  assumes "snapshot_ok s" "entries_ok s" "snapshot_count s < snapshot_capacity s"
    and "length (monitor_name m) = 32" "last (monitor_name m) = 0" "0 < monitor_dpi m"
  defines "s' \<equiv> s\<lparr>snapshot_count := snapshot_count s + 1,
      monitors := (monitors s)[nat (snapshot_count s) := m]\<rparr>"
  shows "snapshot_ok s' \<and> entries_ok s' \<and> snapshot_ids s' = snapshot_ids s @ [native_id m]
    \<and> snapshot_failed s' = snapshot_failed s"
proof -
  define n where "n = nat (snapshot_count s)"
  have n: "n < length (monitors s)" "nat (snapshot_count s + 1) = Suc n"
    using assms(1,3) by (auto simp: snapshot_ok_def n_def)
  have "take (Suc n) ((monitors s)[n := m]) = take n (monitors s) @ [m]"
    using n by (simp add: take_Suc_conv_app_nth)
  then show ?thesis using assms n
    by (auto simp: snapshot_ok_def entries_ok_def snapshot_ids_def n_def [symmetric])
qed

lemma snapshot_store_ok:
  assumes "snapshot_ok s" "entries_ok s" "snapshot_count s < snapshot_capacity s"
  shows "wp (snapshot_store ops monitor base s) (\<lambda>result _. \<exists>s'. result = Some (True, s')
    \<and> snapshot_ok s' \<and> entries_ok s' \<and> snapshot_ids s' = snapshot_ids s @ [monitor]
    \<and> snapshot_failed s' = snapshot_failed s) w"
  unfolding snapshot_store_def
proof (rule wp_follow [OF monitor_dpi_positive])
  fix dpi :: u32 and w'
  assume "0 < dpi"
  moreover have "nat (snapshot_count s) < length (monitors s)"
    using assms by (auto simp: snapshot_ok_def)
  ultimately show "wp (do { let index = nat (snapshot_count s);
      State_Monad.return (if index < length (monitors s)
        then Some (True, s\<lparr>snapshot_count := snapshot_count s + 1,
          monitors := (monitors s)[index := \<lparr>native_id = monitor,
            monitor_name = copy_name (info_device base), geometry = info_monitor base,
            work_area = info_work base, monitor_dpi = dpi,
            primary = (info_flags base AND 1 \<noteq> 0)\<rparr>]\<rparr>)
        else None) })
    (\<lambda>result _. \<exists>s'. result = Some (True, s') \<and> snapshot_ok s' \<and> entries_ok s'
      \<and> snapshot_ids s' = snapshot_ids s @ [monitor] \<and> snapshot_failed s' = snapshot_failed s) w'"
    using snapshot_append [OF assms, of "\<lparr>native_id = monitor,
        monitor_name = copy_name (info_device base), geometry = info_monitor base,
        work_area = info_work base, monitor_dpi = dpi,
        primary = (info_flags base AND 1 \<noteq> 0)\<rparr>"]
    by (simp add: wp_simps Let_def copy_name_shape)
qed

lemma callback_ok:
  assumes "snapshot_ok s" "entries_ok s"
  shows "wp (service_monitor_snapshot_callback ops monitor s)
    (\<lambda>result _. callback_outcome monitor s result) w"
  unfolding service_monitor_snapshot_callback_def
proof (rule wp_follow [where P = "\<lambda>(room, s') _. snapshot_ok s' \<and> entries_ok s'
      \<and> snapshot_ids s' = snapshot_ids s \<and> snapshot_count s' = snapshot_count s
      \<and> (if room then snapshot_failed s' = snapshot_failed s
            \<and> snapshot_count s' < snapshot_capacity s'
         else snapshot_failed s')"], goal_cases)
  case 1
  show ?case using assms by (auto simp: wp_simps intro!: snapshot_grow_ok)
next
  case (2 answer w')
  obtain room s1 where r: "answer = (room, s1)" by (cases answer)
  have s1: "snapshot_ok s1" "entries_ok s1" "snapshot_ids s1 = snapshot_ids s"
    "snapshot_count s1 = snapshot_count s" using 2 r by auto
  show ?case
  proof (cases room)
    case False
    then show ?thesis using 2 r by (simp add: wp_simps Let_def callback_outcome_def)
  next
    case True
    then have inside: "snapshot_count s1 < snapshot_capacity s1"
        "snapshot_failed s1 = snapshot_failed s" using 2 r by auto
    then have less: "snapshot_count s < MONITOR_MAX_CAPACITY"
      using s1 by (auto simp: snapshot_ok_def)
    have failed: "callback_outcome monitor s (Some (False, s1\<lparr>snapshot_failed := True\<rparr>))"
      using s1 by (simp add: callback_outcome_def snapshot_ok_def entries_ok_def snapshot_ids_def)
    have stored: "wp (snapshot_store ops monitor base s1)
        (\<lambda>result _. callback_outcome monitor s result) v" for base v
      by (rule wp_mono [OF snapshot_store_ok [OF s1(1,2) inside(1)]])
        (use s1 inside less in \<open>auto simp: callback_outcome_def\<close>)
    show ?thesis unfolding r
      by (simp add: True wp_simps Let_def, rule wp_any)
        (simp add: wp_simps failed stored split: option.split)
  qed
qed

text \<open>The enumeration as a whole.\<close>

definition run_outcome ::
    "u64 list \<Rightarrow> u64 list \<Rightarrow> (bool \<times> monitor_snapshot) option \<Rightarrow> bool" where
  "run_outcome before reported result \<longleftrightarrow>
     (case result of
        None \<Rightarrow> False
      | Some (goes_on, s') \<Rightarrow>
          snapshot_ok s' \<and> entries_ok s'
          \<and> (if goes_on then \<not> snapshot_failed s' \<and> snapshot_ids s' = before @ reported
             else snapshot_failed s'))"

lemma run_callbacks_ok:
  assumes "snapshot_ok s" "entries_ok s" "\<not> snapshot_failed s"
  shows "wp (run_callbacks ops reported s)
    (\<lambda>result _. run_outcome (snapshot_ids s) reported result) w"
  using assms
proof (induction reported arbitrary: s w)
  case Nil
  then show ?case by (simp add: wp_simps run_outcome_def)
next
  case (Cons monitor rest)
  show ?case unfolding run_callbacks.simps
  proof (rule wp_follow [OF callback_ok [OF Cons.prems(1,2)]], goal_cases)
    case (1 result w')
    then obtain goes_on s1 where r: "result = Some (goes_on, s1)" "snapshot_ok s1" "entries_ok s1"
      "if goes_on then snapshot_ids s1 = snapshot_ids s @ [monitor]
         \<and> snapshot_failed s1 = snapshot_failed s
       else snapshot_failed s1"
      by (auto simp: callback_outcome_def split: option.splits if_splits)
    show ?case
    proof (cases goes_on)
      case True
      then have "snapshot_ids s1 @ rest = snapshot_ids s @ monitor # rest" using r by simp
      then have "run_outcome (snapshot_ids s1) rest = run_outcome (snapshot_ids s) (monitor # rest)"
        unfolding run_outcome_def by (simp only:)
      then show ?thesis using True r Cons.IH [of s1 w'] Cons.prems(3) by simp
    next
      case False
      then show ?thesis using r by (simp add: wp_simps run_outcome_def)
    qed
  qed
qed

definition snapshot_outcome ::
    "bool \<Rightarrow> u64 list \<Rightarrow> monitor_snapshot option option \<Rightarrow> bool" where
  "snapshot_outcome ok reported result \<longleftrightarrow>
     (case result of
        None \<Rightarrow> False
      | Some None \<Rightarrow> True
      | Some (Some s) \<Rightarrow>
          ok \<and> snapshot_ids s = reported \<and> length reported \<le> 4096
          \<and> snapshot_ok s \<and> entries_ok s
          \<and> service_monitor_snapshot_count (Some s) = int (length reported)
          \<and> map (service_monitor_snapshot_native_id (Some s)) (map int [0..<length reported])
              = reported)"

lemma snapshot_readers:
  assumes "snapshot_ok s" "snapshot_ids s = reported"
  shows "service_monitor_snapshot_count (Some s) = int (length reported)"
    and "map (service_monitor_snapshot_native_id (Some s)) (map int [0..<length reported]) = reported"
    and "length reported \<le> 4096"
proof -
  have n: "length reported = nat (snapshot_count s)" "snapshot_count s \<le> int (length (monitors s))"
    using assms by (auto simp: snapshot_ok_def snapshot_ids_def)
  have bounds: "0 \<le> snapshot_count s" "length (monitors s) \<le> 4096"
    using assms by (auto simp: snapshot_ok_def)
  have "reported ! i = native_id (monitors s ! i)" if "i < length reported" for i
    using assms(2) that n by (auto simp: snapshot_ids_def)
  then show "map (service_monitor_snapshot_native_id (Some s)) (map int [0..<length reported]) = reported"
    using n bounds by (auto simp: service_monitor_snapshot_native_id_def
        snapshot_index_ok_def intro!: nth_equalityI)
  show "service_monitor_snapshot_count (Some s) = int (length reported)" "length reported \<le> 4096"
    using n bounds by (simp_all add: service_monitor_snapshot_count_def)
qed

text \<open>Whatever Windows answers, building a snapshot never writes outside its array; a snapshot
  that is returned holds exactly the monitors reported, in order, at most 4096 of them, each with
  a terminated name and a positive dpi, and its count and capacity agree with the array.\<close>
theorem monitor_snapshot_complete:
  "wp (service_monitor_snapshot_new (ops\<lparr>enumerated_monitors := State_Monad.return (reported, ok)\<rparr>))
    (\<lambda>result _. snapshot_outcome ok reported result) w"
proof -
  define ops' where "ops' = ops\<lparr>enumerated_monitors := State_Monad.return (reported, ok)\<rparr>"
  define s0 where "s0 = \<lparr>monitors = replicate (nat MONITOR_INITIAL_CAPACITY) blank_monitor,
    snapshot_count = 0, snapshot_capacity = MONITOR_INITIAL_CAPACITY, snapshot_failed = False\<rparr>"
  have s0: "snapshot_ok s0" "entries_ok s0" "\<not> snapshot_failed s0" "snapshot_ids s0 = []"
    by (simp_all add: s0_def snapshot_ok_def entries_ok_def snapshot_ids_def)
  have finish: "wp (case result of
         None \<Rightarrow> State_Monad.return None
       | Some (goes_on, snapshot) \<Rightarrow>
           if \<not> (goes_on \<and> ok) \<or> snapshot_failed snapshot then do {
             release_monitors ops';
             release_snapshot ops';
             State_Monad.return (Some None) }
           else State_Monad.return (Some (Some snapshot)))
      (\<lambda>result _. snapshot_outcome ok reported result) v"
    if outcome: "run_outcome [] reported result" for result v
  proof -
    obtain goes_on s where r: "result = Some (goes_on, s)" "snapshot_ok s" "entries_ok s"
        "goes_on \<Longrightarrow> snapshot_ids s = reported" "\<not> goes_on \<Longrightarrow> snapshot_failed s"
      using outcome by (auto simp: run_outcome_def split: option.splits if_splits)
    have none: "snapshot_outcome ok reported (Some None)" by (simp add: snapshot_outcome_def)
    have "snapshot_outcome ok reported (Some (Some s))" if "goes_on" "ok"
      using that r snapshot_readers [of s reported] by (simp add: snapshot_outcome_def)
    then show ?thesis using none r(5) unfolding r(1)
      by (cases "goes_on \<and> ok \<and> \<not> snapshot_failed s") (auto simp: wp_simps intro!: wp_any)
  qed
  have run: "wp (run_callbacks ops' reported s0) (\<lambda>result _. run_outcome [] reported result) v" for v
    using run_callbacks_ok [OF s0(1-3)] by (simp add: s0(4))
  have none: "snapshot_outcome ok reported (Some None)" by (simp add: snapshot_outcome_def)
  have reported: "enumerated_monitors ops' = State_Monad.return (reported, ok)"
    by (simp add: ops'_def)
  show ?thesis
    unfolding service_monitor_snapshot_new_def ops'_def [symmetric] Let_def s0_def [symmetric]
      reported bind_left_identity fst_conv snd_conv
    by (intro wp_external wp_branch wp_done wp_follow [OF run finish] none)
qed

text \<open>The dpi of a monitor and of a live window is positive whatever the lookups answer, with
  96 as the last resort, and 0 stands only for a window that is not one.\<close>
theorem dpi_positive:
  "wp (service_monitor_dpi ops monitor) (\<lambda>dpi _. 0 < dpi) w
   \<and> wp (service_window_dpi (ops\<lparr>monitor_is_window := (\<lambda>_. check live)\<rparr>) hwnd)
        (\<lambda>dpi _. 0 < dpi \<longleftrightarrow> live \<and> hwnd \<noteq> 0) w"
proof (rule conjI)
  show "wp (service_monitor_dpi ops monitor) (\<lambda>dpi _. 0 < dpi) w"
    by (rule monitor_dpi_positive)
  show "wp (service_window_dpi (ops\<lparr>monitor_is_window := (\<lambda>_. check live)\<rparr>) hwnd)
        (\<lambda>dpi _. 0 < dpi \<longleftrightarrow> live \<and> hwnd \<noteq> 0) w"
    unfolding service_window_dpi_def device_dpi_def
    by (auto simp: wp_simps positive_unsigned intro!: wp_any)
qed

end
