(* ===== verification/Win32_Mouse.thy ===== *)
theory Win32_Mouse
  imports Win32_Monitors
begin

text \<open>
  The mouse lock of \<open>x/multiwindow/win32_service_native.h\<close>: the service object of a window, the
  process-wide owner cell, the raw input inventory, and the acquire, cleanup and restore
  protocols. Windows is the record \<open>mouse_ops\<close>. Functions that take a const pointer get the
  object by value; the others act on the host state, which holds the desktop, the owner cell and
  the object at the address \<open>self\<close>. A null pointer is the address 0.
\<close>

subsection \<open>Data\<close>

abbreviation (input) SERVICE_OK :: int where "SERVICE_OK \<equiv> 1"
abbreviation (input) SERVICE_UNAVAILABLE :: int where "SERVICE_UNAVAILABLE \<equiv> 0"
abbreviation (input) SERVICE_WRONG_THREAD :: int where "SERVICE_WRONG_THREAD \<equiv> - 1"
abbreviation (input) SERVICE_INVALID :: int where "SERVICE_INVALID \<equiv> - 2"

datatype lock_state = Lock_Off | Lock_Locked | Lock_Cleanup | Lock_Teardown_Prepared
datatype resource_state = Resource_Dirty | Resource_Baseline | Resource_Locked

abbreviation (input) LOCK_PROP :: string where
  "LOCK_PROP \<equiv> ''V_x_multiwindow_mouse_lock_active''"
abbreviation (input) TRACKED_PROP :: string where
  "TRACKED_PROP \<equiv> ''V_x_multiwindow_mouse_tracked''"
abbreviation (input) GWLP_USERDATA :: int where "GWLP_USERDATA \<equiv> - 21"
abbreviation (input) RIDEV_REMOVE :: u32 where "RIDEV_REMOVE \<equiv> 1"
abbreviation (input) RIDEV_PAGEONLY :: u32 where "RIDEV_PAGEONLY \<equiv> 0x20"

record raw_device =
  usage_page :: u16
  usage :: u16
  device_flags :: u32
  hwnd_target :: u64

record raw_inventory =
  items :: "raw_device list option"
  item_count :: u32

record mouse_apis =
  get_registered_devices :: u64
  register_devices :: u64

record window_placement =
  placement_flags :: u32
  show_cmd :: u32
  min_x :: i32
  min_y :: i32
  max_x :: i32
  max_y :: i32
  normal_position :: rect

record service_state =
  hwnd :: u64
  record_data :: u64
  owner_thread :: u32
  owner_process :: u32
  fullscreen :: bool
  fullscreen_known :: bool
  restore_valid :: bool
  windowed_visible :: bool
  windowed_style :: u64
  windowed_ex_style :: u64
  windowed_placement :: window_placement
  requested_width :: i32
  requested_height :: i32
  resizable :: bool
  borderless :: bool
  mouse_lock_state :: lock_state
  mouse_lock_committed :: bool
  mouse_delivery_enabled :: bool
  mouse_raw_owned :: bool
  mouse_clip_owned :: bool
  mouse_baseline_valid :: bool
  mouse_baseline_clip :: rect
  mouse_locked_clip :: rect
  mouse_baseline_devices :: "raw_device list option"
  mouse_baseline_count :: u32

definition zero_rect :: rect where
  "zero_rect = \<lparr>rect_left = 0, rect_top = 0, rect_right = 0, rect_bottom = 0\<rparr>"

definition zero_device :: raw_device where
  "zero_device = \<lparr>usage_page = 0, usage = 0, device_flags = 0, hwnd_target = 0\<rparr>"

text \<open>
  \<open>call_get_registered\<close> is \<open>GetRegisteredRawInputDevices\<close> behind a resolved address, with the
  capacity passed when there is a buffer: its result, the count written back and the entries
  written to the buffer.
\<close>

record 'w mouse_ops =
  is_window :: "u64 \<Rightarrow> ('w, bool) state"
  window_thread_process :: "u64 \<Rightarrow> ('w, u32 \<times> u32) state"
  current_thread :: "('w, u32) state"
  current_process :: "('w, u32) state"
  get_window_long :: "u64 \<Rightarrow> int \<Rightarrow> ('w, u64) state"
  is_window_visible :: "u64 \<Rightarrow> ('w, bool) state"
  foreground_window :: "('w, u64) state"
  focus_window :: "('w, u64) state"
  capture_window :: "('w, u64) state"
  get_prop :: "u64 \<Rightarrow> string \<Rightarrow> ('w, u64) state"
  set_prop :: "u64 \<Rightarrow> string \<Rightarrow> u64 \<Rightarrow> ('w, bool) state"
  remove_prop :: "u64 \<Rightarrow> string \<Rightarrow> ('w, unit) state"
  cancel_mouse_leave :: "u64 \<Rightarrow> ('w, bool) state"
  user32_module :: "('w, u64) state"
  user32_proc :: "u64 \<Rightarrow> string \<Rightarrow> ('w, u64) state"
  call_get_registered :: "u64 \<Rightarrow> u32 option \<Rightarrow> ('w, u32 \<times> u32 \<times> raw_device list) state"
  call_register :: "u64 \<Rightarrow> raw_device list \<Rightarrow> ('w, bool) state"
  calloc_items :: "nat \<Rightarrow> nat \<Rightarrow> ('w, bool) state"
  free_items :: "('w, unit) state"
  get_clip_cursor :: "('w, rect option) state"
  clip_cursor :: "rect option \<Rightarrow> ('w, bool) state"
  system_metrics :: "nat \<Rightarrow> ('w, i32) state"
  client_rect :: "u64 \<Rightarrow> ('w, rect option) state"
  set_last_error :: "u32 \<Rightarrow> ('w, unit) state"
  last_error :: "('w, u32) state"
  map_to_screen :: "u64 \<Rightarrow> rect \<Rightarrow> ('w, i32 \<times> rect) state"

subsection \<open>Authority over the window and the entry points\<close>

definition service_authority :: "('w, 'x) mouse_ops_scheme \<Rightarrow> service_state \<Rightarrow> ('w, int) state" where
  "service_authority ops st = do {
     live \<leftarrow> all_checks [check (hwnd st \<noteq> 0), is_window ops (hwnd st)];
     if \<not> live then State_Monad.return SERVICE_INVALID else do {
     ids \<leftarrow> window_thread_process ops (hwnd st);
     let window_thread = fst ids;
     let window_process = snd ids;
     ours \<leftarrow> all_checks
       [check (window_thread \<noteq> 0 \<and> window_thread = owner_thread st
          \<and> window_process \<noteq> 0 \<and> window_process = owner_process st),
        do { p \<leftarrow> current_process ops; check (owner_process st = p) },
        do { d \<leftarrow> get_window_long ops (hwnd st) GWLP_USERDATA; check (d = record_data st) }];
     if \<not> ours then State_Monad.return SERVICE_INVALID else do {
     thread \<leftarrow> current_thread ops;
     State_Monad.return (if thread \<noteq> owner_thread st then SERVICE_WRONG_THREAD else SERVICE_OK)
     }}}"

text \<open>The destination of a resolved procedure always has the size of a pointer.\<close>

definition mouse_resolve_proc :: "('w, 'x) mouse_ops_scheme \<Rightarrow> u64 \<Rightarrow> string \<Rightarrow> ('w, u64) state" where
  "mouse_resolve_proc ops library name =
     (if library = 0 then State_Monad.return 0 else user32_proc ops library name)"

definition mouse_resolve_apis :: "('w, 'x) mouse_ops_scheme \<Rightarrow> ('w, mouse_apis option) state" where
  "mouse_resolve_apis ops = do {
     user32 \<leftarrow> user32_module ops;
     if user32 = 0 then State_Monad.return None else do {
     getter \<leftarrow> mouse_resolve_proc ops user32 ''GetRegisteredRawInputDevices'';
     if getter = 0 then State_Monad.return None else do {
     setter \<leftarrow> mouse_resolve_proc ops user32 ''RegisterRawInputDevices'';
     if setter = 0 then State_Monad.return None
     else State_Monad.return
       (Some \<lparr>get_registered_devices = getter, register_devices = setter\<rparr>) }}}"

subsection \<open>The raw input inventory\<close>

definition raw_inventory_free :: "('w, 'x) mouse_ops_scheme \<Rightarrow> ('w, raw_inventory) state" where
  "raw_inventory_free ops = do {
     free_items ops;
     State_Monad.return \<lparr>items = None, item_count = 0\<rparr> }"

definition raw_inventory_query ::
    "('w, 'x) mouse_ops_scheme \<Rightarrow> u64 \<Rightarrow> ('w, raw_inventory option) state" where
  "raw_inventory_query ops query =
     (if query = 0 then State_Monad.return None else do {
      first \<leftarrow> call_get_registered ops query None;
      let result = fst first;
      let count = fst (snd first);
      if result \<noteq> 0 then State_Monad.return None
      else if count = 0 then State_Monad.return (Some \<lparr>items = None, item_count = 0\<rparr>)
      else if (ucast count :: u64) > - 1 div 16 then State_Monad.return None
      else do {
      allocated \<leftarrow> calloc_items ops (unat count) 16;
      if \<not> allocated then State_Monad.return None else do {
      second \<leftarrow> call_get_registered ops query (Some count);
      let result = fst second;
      let copied = fst (snd second);
      let buffer = take (unat count) (snd (snd second) @ replicate (unat count) zero_device);
      if result = - 1 \<or> result \<noteq> copied \<or> copied > count then do {
        free_items ops;
        State_Monad.return None }
      else State_Monad.return (Some \<lparr>items = Some buffer, item_count = copied\<rparr>) }}})"

definition raw_device_equal :: "raw_device \<Rightarrow> raw_device \<Rightarrow> bool" where
  "raw_device_equal left right \<longleftrightarrow>
     usage_page left = usage_page right \<and> usage left = usage right
     \<and> device_flags left = device_flags right \<and> hwnd_target left = hwnd_target right"

text \<open>The inner loop: the first entry not yet matched that equals the device is marked.\<close>

fun match_device :: "raw_device \<Rightarrow> raw_device list \<Rightarrow> bool list \<Rightarrow> bool list option" where
  "match_device d (r # rs) (m # ms) =
     (if \<not> m \<and> raw_device_equal d r then Some (True # ms)
      else map_option ((#) m) (match_device d rs ms))" |
  "match_device d _ _ = None"

fun match_devices :: "raw_device list \<Rightarrow> raw_device list \<Rightarrow> bool list \<Rightarrow> bool" where
  "match_devices [] rs ms = True" |
  "match_devices (d # ds) rs ms =
     (case match_device d rs ms of None \<Rightarrow> False | Some ms' \<Rightarrow> match_devices ds rs ms')"

text \<open>\<open>entries a n\<close> are the first \<open>n\<close> entries of the array a pointer refers to.\<close>

definition entries :: "raw_device list option \<Rightarrow> u32 \<Rightarrow> raw_device list" where
  "entries a n = (case a of None \<Rightarrow> [] | Some xs \<Rightarrow> take (unat n) xs)"

definition raw_inventory_equal ::
    "('w, 'x) mouse_ops_scheme \<Rightarrow> raw_device list option \<Rightarrow> u32 \<Rightarrow>
     raw_device list option \<Rightarrow> u32 \<Rightarrow> ('w, bool) state" where
  "raw_inventory_equal ops left left_count right right_count =
     (if left_count \<noteq> right_count \<or> (left_count > 0 \<and> (left = None \<or> right = None))
      then State_Monad.return False
      else if left_count = 0 then State_Monad.return True
      else do {
        allocated \<leftarrow> calloc_items ops (unat right_count) 1;
        if \<not> allocated then State_Monad.return False else do {
        let equal = match_devices (entries left left_count) (entries right right_count)
                      (replicate (unat right_count) False);
        free_items ops;
        State_Monad.return equal }})"

definition raw_inventory_mouse_free :: "raw_inventory \<Rightarrow> bool" where
  "raw_inventory_mouse_free inventory \<longleftrightarrow>
     list_all (\<lambda>item. \<not> (usage_page item = 0x01
        \<and> (usage item = 0x02
           \<or> (usage item = 0 \<and> device_flags item AND RIDEV_PAGEONLY \<noteq> 0))))
       (entries (items inventory) (item_count inventory))"

definition lock_device :: "u64 \<Rightarrow> raw_device" where
  "lock_device window =
     \<lparr>usage_page = 0x01, usage = 0x02, device_flags = 0, hwnd_target = window\<rparr>"

text \<open>
  The loop that takes the exact registrations of the lock out of the inventory: what remains (at
  most \<open>room\<close> entries, else the early return) and how many were taken out.
\<close>

fun split_locked ::
    "u64 \<Rightarrow> nat \<Rightarrow> raw_device list \<Rightarrow> raw_device list \<Rightarrow> nat \<Rightarrow> (raw_device list \<times> nat) option" where
  "split_locked window room [] remainder exact = Some (remainder, exact)" |
  "split_locked window room (item # rest) remainder exact =
     (if usage_page item = 0x01 \<and> usage item = 0x02 \<and> device_flags item = 0
         \<and> hwnd_target item = window
      then split_locked window room rest remainder (exact + 1)
      else if length remainder \<ge> room then None
      else split_locked window room rest (remainder @ [item]) exact)"

definition raw_inventory_locked_exact ::
    "('w, 'x) mouse_ops_scheme \<Rightarrow> service_state \<Rightarrow> raw_inventory \<Rightarrow> ('w, bool) state" where
  "raw_inventory_locked_exact ops st current =
     (if \<not> mouse_baseline_valid st \<or> mouse_baseline_count st = - 1
         \<or> item_count current \<noteq> mouse_baseline_count st + 1
      then State_Monad.return False
      else do {
        allocated \<leftarrow> (if mouse_baseline_count st > 0
          then if (ucast (mouse_baseline_count st) :: u64) > - 1 div 16
               then State_Monad.return False
               else calloc_items ops (unat (mouse_baseline_count st)) 16
          else State_Monad.return True);
        if \<not> allocated then State_Monad.return False else do {
        case split_locked (hwnd st) (unat (mouse_baseline_count st))
               (entries (items current) (item_count current)) [] 0 of
          None \<Rightarrow> do { free_items ops; State_Monad.return False }
        | Some (remainder, exact) \<Rightarrow> do {
            equal \<leftarrow> all_checks
              [check (exact = 1),
               check (length remainder = unat (mouse_baseline_count st)),
               raw_inventory_equal ops (mouse_baseline_devices st) (mouse_baseline_count st)
                 (if mouse_baseline_count st > 0 then Some remainder else None)
                 (of_nat (length remainder))];
            free_items ops;
            State_Monad.return equal } }})"

subsection \<open>Rectangles\<close>

definition rect_equal :: "rect \<Rightarrow> rect \<Rightarrow> bool" where
  "rect_equal left right \<longleftrightarrow>
     rect_left left = rect_left right \<and> rect_top left = rect_top right
     \<and> rect_right left = rect_right right \<and> rect_bottom left = rect_bottom right"

definition rect_nonempty :: "rect \<Rightarrow> bool" where
  "rect_nonempty r \<longleftrightarrow>
     sint (rect_left r) < sint (rect_right r) \<and> sint (rect_top r) < sint (rect_bottom r)"

definition virtual_screen_rect :: "('w, 'x) mouse_ops_scheme \<Rightarrow> ('w, rect option) state" where
  "virtual_screen_rect ops = do {
     width \<leftarrow> system_metrics ops 78;
     height \<leftarrow> system_metrics ops 79;
     if sint width \<le> 0 \<or> sint height \<le> 0 then State_Monad.return None else do {
     left \<leftarrow> system_metrics ops 76;
     upper \<leftarrow> system_metrics ops 77;
     let r = \<lparr>rect_left = left, rect_top = upper,
              rect_right = left + width, rect_bottom = upper + height\<rparr>;
     State_Monad.return (if rect_nonempty r then Some r else None) }}"

definition client_screen_rect :: "('w, 'x) mouse_ops_scheme \<Rightarrow> u64 \<Rightarrow> ('w, rect option) state" where
  "client_screen_rect ops window =
     (if window = 0 then State_Monad.return None else do {
      client \<leftarrow> client_rect ops window;
      case client of
        None \<Rightarrow> State_Monad.return None
      | Some c \<Rightarrow>
          if \<not> rect_nonempty c then State_Monad.return None else do {
          set_last_error ops 0;
          mapped \<leftarrow> map_to_screen ops window c;
          bad \<leftarrow> (if fst mapped = 0 then do { e \<leftarrow> last_error ops; State_Monad.return (e \<noteq> 0) }
                 else State_Monad.return False);
          State_Monad.return
            (if \<not> bad \<and> rect_nonempty (snd mapped) then Some (snd mapped) else None) }})"

subsection \<open>The state of the two resources\<close>

definition mouse_raw_resource_state ::
    "('w, 'x) mouse_ops_scheme \<Rightarrow> service_state \<Rightarrow> mouse_apis \<Rightarrow> ('w, resource_state) state" where
  "mouse_raw_resource_state ops st apis =
     (if \<not> mouse_baseline_valid st \<or> get_registered_devices apis = 0
         \<or> (mouse_baseline_count st > 0 \<and> mouse_baseline_devices st = None)
      then State_Monad.return Resource_Dirty
      else do {
        queried \<leftarrow> raw_inventory_query ops (get_registered_devices apis);
        case queried of
          None \<Rightarrow> State_Monad.return Resource_Dirty
        | Some current \<Rightarrow> do {
            same \<leftarrow> raw_inventory_equal ops (mouse_baseline_devices st) (mouse_baseline_count st)
                     (items current) (item_count current);
            found \<leftarrow> (if same then State_Monad.return Resource_Baseline
              else do {
                exact \<leftarrow> raw_inventory_locked_exact ops st current;
                State_Monad.return (if exact then Resource_Locked else Resource_Dirty) });
            raw_inventory_free ops;
            State_Monad.return found } })"

definition mouse_clip_resource_state ::
    "('w, 'x) mouse_ops_scheme \<Rightarrow> service_state \<Rightarrow> ('w, resource_state) state" where
  "mouse_clip_resource_state ops st =
     (if \<not> mouse_baseline_valid st then State_Monad.return Resource_Dirty else do {
      clip \<leftarrow> get_clip_cursor ops;
      case clip of
        None \<Rightarrow> State_Monad.return Resource_Dirty
      | Some c \<Rightarrow> State_Monad.return
          (if rect_equal c (mouse_baseline_clip st) then Resource_Baseline
           else if rect_equal c (mouse_locked_clip st) then Resource_Locked
           else Resource_Dirty) })"

definition mouse_cancel_tracking ::
    "('w, 'x) mouse_ops_scheme \<Rightarrow> service_state \<Rightarrow> bool \<Rightarrow> ('w, bool) state" where
  "mouse_cancel_tracking ops st live =
     (if \<not> live then State_Monad.return True else do {
      tracked \<leftarrow> get_prop ops (hwnd st) TRACKED_PROP;
      if tracked = 0 then State_Monad.return True else do {
      cancelled \<leftarrow> cancel_mouse_leave ops (hwnd st);
      if \<not> cancelled then State_Monad.return False else do {
      remove_prop ops (hwnd st) TRACKED_PROP;
      tracked \<leftarrow> get_prop ops (hwnd st) TRACKED_PROP;
      State_Monad.return (tracked = 0) }}})"

subsection \<open>The exact states\<close>

text \<open>\<open>mine\<close> is whether the owner cell holds this object.\<close>

definition mouse_released :: "service_state \<Rightarrow> bool \<Rightarrow> bool" where
  "mouse_released st mine \<longleftrightarrow>
     \<not> mouse_lock_committed st \<and> \<not> mouse_delivery_enabled st
     \<and> \<not> mouse_raw_owned st \<and> \<not> mouse_clip_owned st
     \<and> \<not> mouse_baseline_valid st \<and> mouse_baseline_devices st = None
     \<and> mouse_baseline_count st = 0 \<and> \<not> mine"

definition mouse_off_exact ::
    "('w, 'x) mouse_ops_scheme \<Rightarrow> service_state \<Rightarrow> bool \<Rightarrow> bool \<Rightarrow> ('w, bool) state" where
  "mouse_off_exact ops st mine live = all_checks
     [check (mouse_lock_state st = Lock_Off \<and> mouse_released st mine),
      (if live then do { p \<leftarrow> get_prop ops (hwnd st) LOCK_PROP; check (p = 0) } else check True)]"

definition mouse_prepared_exact :: "service_state \<Rightarrow> bool \<Rightarrow> bool" where
  "mouse_prepared_exact st mine \<longleftrightarrow>
     mouse_lock_state st = Lock_Teardown_Prepared \<and> mouse_released st mine"

definition mouse_live_environment_exact ::
    "('w, 'x) mouse_ops_scheme \<Rightarrow> service_state \<Rightarrow> ('w, bool) state" where
  "mouse_live_environment_exact ops st = all_checks
     [do { a \<leftarrow> service_authority ops st; check (a = SERVICE_OK) },
      is_window_visible ops (hwnd st),
      do { w \<leftarrow> foreground_window ops; check (w = hwnd st) },
      do { w \<leftarrow> focus_window ops; check (w = hwnd st) },
      do { w \<leftarrow> capture_window ops; check (w = 0) }]"

definition mouse_client_clip_exact ::
    "('w, 'x) mouse_ops_scheme \<Rightarrow> service_state \<Rightarrow> ('w, bool) state" where
  "mouse_client_clip_exact ops st = do {
     client \<leftarrow> client_screen_rect ops (hwnd st);
     case client of
       None \<Rightarrow> State_Monad.return False
     | Some c \<Rightarrow>
         if \<not> rect_equal c (mouse_locked_clip st) then State_Monad.return False
         else do {
           r \<leftarrow> mouse_clip_resource_state ops st;
           State_Monad.return (r = Resource_Locked) } }"

text \<open>The checks on the desktop that the locked and the candidate state share.\<close>

definition mouse_held_exact ::
    "('w, 'x) mouse_ops_scheme \<Rightarrow> service_state \<Rightarrow> mouse_apis \<Rightarrow> ('w, bool) state" where
  "mouse_held_exact ops st apis = all_checks
     [do { p \<leftarrow> get_prop ops (hwnd st) LOCK_PROP; check (p = record_data st) },
      mouse_live_environment_exact ops st,
      do { r \<leftarrow> mouse_raw_resource_state ops st apis; check (r = Resource_Locked) },
      mouse_client_clip_exact ops st]"

definition mouse_locked_exact ::
    "('w, 'x) mouse_ops_scheme \<Rightarrow> service_state \<Rightarrow> bool \<Rightarrow> mouse_apis \<Rightarrow> ('w, bool) state" where
  "mouse_locked_exact ops st mine apis = all_checks
     [check (mouse_lock_state st = Lock_Locked \<and> mouse_lock_committed st
        \<and> mouse_delivery_enabled st \<and> mouse_raw_owned st \<and> mouse_clip_owned st
        \<and> mouse_baseline_valid st \<and> mine),
      mouse_held_exact ops st apis]"

definition mouse_acquire_candidate_exact ::
    "('w, 'x) mouse_ops_scheme \<Rightarrow> service_state \<Rightarrow> bool \<Rightarrow> mouse_apis \<Rightarrow> ('w, bool) state" where
  "mouse_acquire_candidate_exact ops st mine apis = all_checks
     [check (mouse_lock_state st = Lock_Cleanup \<and> \<not> mouse_lock_committed st
        \<and> \<not> mouse_delivery_enabled st \<and> mouse_raw_owned st \<and> mouse_clip_owned st
        \<and> mouse_baseline_valid st \<and> mine),
      mouse_held_exact ops st apis]"

end
