(* ===== verification/Win32_Mouse_Lock.thy ===== *)
theory Win32_Mouse_Lock
  imports Win32_Mouse
begin

text \<open>
  The operations of the mouse lock that change the service object: cleaning and restoring the two
  resources, the cleanup protocol with its rollback and teardown variants, acquiring the lock,
  and the entry points the backend calls.
\<close>

subsection \<open>The host state\<close>

record 'w host =
  desktop :: 'w
  lock_owner :: u64
  service :: service_state

definition on_desktop :: "('w, 'a) state \<Rightarrow> ('w host, 'a) state" where
  "on_desktop m = State (\<lambda>s.
     case run_state m (desktop s) of (a, w) \<Rightarrow> (a, s\<lparr>desktop := w\<rparr>))"

definition get_service :: "('w host, service_state) state" where
  "get_service = State (\<lambda>s. (service s, s))"

definition set_service :: "(service_state \<Rightarrow> service_state) \<Rightarrow> ('w host, unit) state" where
  "set_service f = State (\<lambda>s. ((), s\<lparr>service := f (service s)\<rparr>))"

text \<open>The owner cell is read and written with one compare-and-exchange each.\<close>

definition mouse_lock_owner_load :: "('w host, u64) state" where
  "mouse_lock_owner_load = State (\<lambda>s. (lock_owner s, s))"

definition mouse_lock_owner_claim :: "u64 \<Rightarrow> ('w host, bool) state" where
  "mouse_lock_owner_claim self = State (\<lambda>s.
     if self \<noteq> 0 \<and> lock_owner s = 0 then (True, s\<lparr>lock_owner := self\<rparr>) else (False, s))"

definition mouse_lock_owner_release :: "u64 \<Rightarrow> ('w host, bool) state" where
  "mouse_lock_owner_release self = State (\<lambda>s.
     if self \<noteq> 0 \<and> lock_owner s = self then (True, s\<lparr>lock_owner := 0\<rparr>) else (False, s))"

text \<open>\<open>with_service m\<close> runs a function of the object by value.\<close>

definition with_service :: "(service_state \<Rightarrow> ('w, 'a) state) \<Rightarrow> ('w host, 'a) state" where
  "with_service m = do { st \<leftarrow> get_service; on_desktop (m st) }"

definition is_owner :: "u64 \<Rightarrow> ('w host, bool) state" where
  "is_owner self = do { lock \<leftarrow> mouse_lock_owner_load; State_Monad.return (lock = self) }"

subsection \<open>Cleaning and restoring the resources\<close>

definition remove_device :: raw_device where
  "remove_device = \<lparr>usage_page = 0x01, usage = 0x02, device_flags = RIDEV_REMOVE, hwnd_target = 0\<rparr>"

definition service_mouse_cleanup_raw ::
    "('w, 'x) mouse_ops_scheme \<Rightarrow> mouse_apis \<Rightarrow> ('w host, bool) state" where
  "service_mouse_cleanup_raw ops apis = do {
     st \<leftarrow> get_service;
     if \<not> mouse_baseline_valid st \<or> get_registered_devices apis = 0 \<or> register_devices apis = 0
     then State_Monad.return False else do {
     found \<leftarrow> on_desktop (mouse_raw_resource_state ops st apis);
     if found = Resource_Baseline then do {
       set_service (\<lambda>st. st\<lparr>mouse_raw_owned := False\<rparr>);
       State_Monad.return True }
     else if found \<noteq> Resource_Locked \<or> \<not> mouse_raw_owned st then State_Monad.return False
     else do {
     on_desktop (call_register ops (register_devices apis) [remove_device]);
     found \<leftarrow> on_desktop (mouse_raw_resource_state ops st apis);
     if found \<noteq> Resource_Baseline then State_Monad.return False else do {
     set_service (\<lambda>st. st\<lparr>mouse_raw_owned := False\<rparr>);
     State_Monad.return True }}}}"

definition service_mouse_cleanup_clip :: "('w, 'x) mouse_ops_scheme \<Rightarrow> ('w host, bool) state" where
  "service_mouse_cleanup_clip ops = do {
     st \<leftarrow> get_service;
     if \<not> mouse_baseline_valid st then State_Monad.return False else do {
     found \<leftarrow> on_desktop (mouse_clip_resource_state ops st);
     if found = Resource_Baseline then do {
       set_service (\<lambda>st. st\<lparr>mouse_clip_owned := False\<rparr>);
       State_Monad.return True }
     else if found \<noteq> Resource_Locked \<or> \<not> mouse_clip_owned st then State_Monad.return False
     else do {
     on_desktop (clip_cursor ops None);
     found \<leftarrow> on_desktop (mouse_clip_resource_state ops st);
     if found \<noteq> Resource_Baseline then State_Monad.return False else do {
     set_service (\<lambda>st. st\<lparr>mouse_clip_owned := False\<rparr>);
     State_Monad.return True }}}}"

definition service_mouse_restore_raw ::
    "('w, 'x) mouse_ops_scheme \<Rightarrow> mouse_apis \<Rightarrow> ('w host, bool) state" where
  "service_mouse_restore_raw ops apis = do {
     st \<leftarrow> get_service;
     if \<not> mouse_baseline_valid st \<or> get_registered_devices apis = 0 \<or> register_devices apis = 0
     then State_Monad.return False else do {
     found \<leftarrow> on_desktop (mouse_raw_resource_state ops st apis);
     if found = Resource_Locked then State_Monad.return (mouse_raw_owned st)
     else if found \<noteq> Resource_Baseline then State_Monad.return False
     else do {
     registered \<leftarrow> on_desktop (call_register ops (register_devices apis) [lock_device (hwnd st)]);
     if \<not> registered then State_Monad.return False else do {
     set_service (\<lambda>st. st\<lparr>mouse_raw_owned := True\<rparr>);
     found \<leftarrow> on_desktop (mouse_raw_resource_state ops st apis);
     State_Monad.return (found = Resource_Locked) }}}}"

definition service_mouse_restore_clip :: "('w, 'x) mouse_ops_scheme \<Rightarrow> ('w host, bool) state" where
  "service_mouse_restore_clip ops = do {
     st \<leftarrow> get_service;
     if \<not> mouse_baseline_valid st then State_Monad.return False else do {
     found \<leftarrow> on_desktop (mouse_clip_resource_state ops st);
     if found = Resource_Locked then State_Monad.return (mouse_clip_owned st)
     else if found \<noteq> Resource_Baseline then State_Monad.return False
     else do {
     clipped \<leftarrow> on_desktop (clip_cursor ops (Some (mouse_locked_clip st)));
     if \<not> clipped then State_Monad.return False else do {
     set_service (\<lambda>st. st\<lparr>mouse_clip_owned := True\<rparr>);
     found \<leftarrow> on_desktop (mouse_clip_resource_state ops st);
     State_Monad.return (found = Resource_Locked) }}}}"

definition mouse_baseline_free :: "('w, 'x) mouse_ops_scheme \<Rightarrow> ('w host, unit) state" where
  "mouse_baseline_free ops = do {
     on_desktop (free_items ops);
     set_service (\<lambda>st. st\<lparr>mouse_baseline_devices := None, mouse_baseline_count := 0,
       mouse_baseline_valid := False\<rparr>) }"

definition service_mouse_complete_cleanup ::
    "('w, 'x) mouse_ops_scheme \<Rightarrow> u64 \<Rightarrow> bool \<Rightarrow> ('w host, bool) state" where
  "service_mouse_complete_cleanup ops self teardown = do {
     released \<leftarrow> mouse_lock_owner_release self;
     if \<not> released then State_Monad.return False else do {
     set_service (\<lambda>st. st\<lparr>mouse_lock_committed := False, mouse_delivery_enabled := False,
       mouse_raw_owned := False, mouse_clip_owned := False\<rparr>);
     mouse_baseline_free ops;
     set_service (\<lambda>st. st\<lparr>mouse_baseline_clip := zero_rect, mouse_locked_clip := zero_rect,
       mouse_lock_state := (if teardown then Lock_Teardown_Prepared else Lock_Off)\<rparr>);
     State_Monad.return True }}"

text \<open>Delivery off and the cleanup state, as every failed path leaves them.\<close>

definition enter_cleanup :: "('w host, unit) state" where
  "enter_cleanup =
     set_service (\<lambda>st. st\<lparr>mouse_lock_state := Lock_Cleanup, mouse_delivery_enabled := False\<rparr>)"

definition service_mouse_restore_locked ::
    "('w, 'x) mouse_ops_scheme \<Rightarrow> u64 \<Rightarrow> mouse_apis \<Rightarrow> ('w host, bool) state" where
  "service_mouse_restore_locked ops self apis = do {
     st \<leftarrow> get_service;
     ready \<leftarrow> all_checks
       [check (mouse_baseline_valid st), is_owner self,
        do { a \<leftarrow> with_service (service_authority ops); check (a = SERVICE_OK) }];
     if \<not> ready then State_Monad.return False else do {
     property \<leftarrow> on_desktop (get_prop ops (hwnd st) LOCK_PROP);
     live \<leftarrow> with_service (mouse_live_environment_exact ops);
     if \<not> live \<or> (property \<noteq> 0 \<and> property \<noteq> record_data st) then State_Monad.return False
     else do {
     raw_restored \<leftarrow> service_mouse_restore_raw ops apis;
     clip_restored \<leftarrow> service_mouse_restore_clip ops;
     if \<not> raw_restored \<or> \<not> clip_restored then State_Monad.return False else do {
     property \<leftarrow> on_desktop (get_prop ops (hwnd st) LOCK_PROP);
     marked \<leftarrow> (if property = 0 then on_desktop (set_prop ops (hwnd st) LOCK_PROP (record_data st))
               else State_Monad.return (property = record_data st));
     if \<not> marked then State_Monad.return False else do {
     exact \<leftarrow> all_checks
       [with_service (mouse_live_environment_exact ops),
        do { p \<leftarrow> on_desktop (get_prop ops (hwnd st) LOCK_PROP); check (p = record_data st) },
        do { r \<leftarrow> with_service (\<lambda>st. mouse_raw_resource_state ops st apis);
             check (r = Resource_Locked) },
        with_service (mouse_client_clip_exact ops)];
     if \<not> exact then State_Monad.return False else do {
     set_service (\<lambda>st. st\<lparr>mouse_lock_committed := True, mouse_lock_state := Lock_Locked,
       mouse_delivery_enabled := True\<rparr>);
     mine \<leftarrow> is_owner self;
     locked \<leftarrow> with_service (\<lambda>st. mouse_locked_exact ops st mine apis);
     if \<not> locked then do {
       enter_cleanup;
       State_Monad.return False }
     else State_Monad.return True }}}}}}"

subsection \<open>The cleanup protocol\<close>

text \<open>The guards, which return before anything is touched; \<open>Inr\<close> carries whether the window lives.\<close>

definition cleanup_guards ::
    "('w, 'x) mouse_ops_scheme \<Rightarrow> u64 \<Rightarrow> bool \<Rightarrow> ('w host, int + bool) state" where
  "cleanup_guards ops self teardown =
     (if self = 0 then State_Monad.return (Inl SERVICE_INVALID) else do {
      st \<leftarrow> get_service;
      thread \<leftarrow> on_desktop (current_thread ops);
      if thread \<noteq> owner_thread st then State_Monad.return (Inl SERVICE_WRONG_THREAD) else do {
      process \<leftarrow> on_desktop (current_process ops);
      if process \<noteq> owner_process st then State_Monad.return (Inl SERVICE_INVALID) else do {
      mine \<leftarrow> is_owner self;
      if mouse_prepared_exact st mine
      then State_Monad.return (Inl (if teardown then SERVICE_OK else SERVICE_INVALID)) else do {
      live \<leftarrow> on_desktop (all_checks [check (hwnd st \<noteq> 0), is_window ops (hwnd st)]);
      authority \<leftarrow> on_desktop (service_authority ops st);
      if live \<and> authority \<noteq> SERVICE_OK then State_Monad.return (Inl authority)
      else if \<not> live \<and> \<not> teardown then State_Monad.return (Inl SERVICE_INVALID) else do {
      off \<leftarrow> on_desktop (mouse_off_exact ops st mine live);
      if off then
        (if teardown then do {
           clean \<leftarrow> on_desktop (mouse_cancel_tracking ops st live);
           if \<not> clean then State_Monad.return (Inl SERVICE_UNAVAILABLE) else do {
           set_service (\<lambda>st. st\<lparr>mouse_lock_state := Lock_Teardown_Prepared\<rparr>);
           State_Monad.return (Inl SERVICE_OK) }}
         else State_Monad.return (Inl SERVICE_OK))
      else do {
      let held = (mine \<and> mouse_baseline_valid st
        \<and> (mouse_lock_state st = Lock_Locked \<or> mouse_lock_state st = Lock_Cleanup));
      if \<not> live \<and> (hwnd st = 0 \<or> record_data st = 0 \<or> \<not> held)
      then State_Monad.return (Inl SERVICE_INVALID)
      else if record_data st = 0 \<or> \<not> held
      then State_Monad.return (Inl SERVICE_UNAVAILABLE)
      else State_Monad.return (Inr live) }}}}}})"

definition remove_lock_prop :: "('w, 'x) mouse_ops_scheme \<Rightarrow> u64 \<Rightarrow> bool \<Rightarrow> ('w, bool) state" where
  "remove_lock_prop ops window remove = do {
     if_then remove (remove_prop ops window LOCK_PROP);
     p \<leftarrow> get_prop ops window LOCK_PROP;
     State_Monad.return (p = 0) }"

definition cleanup_raw_if ::
    "('w, 'x) mouse_ops_scheme \<Rightarrow> mouse_apis option \<Rightarrow> ('w host, bool) state" where
  "cleanup_raw_if ops apis =
     (case apis of Some a \<Rightarrow> service_mouse_cleanup_raw ops a | None \<Rightarrow> State_Monad.return False)"

text \<open>
  Removing the lock: tracking, the marker on the window (first when rolling back, last
  otherwise), the clip and the registration. The answers are \<open>tracking_clean\<close>,
  \<open>property_clean\<close>, \<open>raw_clean\<close> and \<open>clip_clean\<close>.
\<close>

definition cleanup_take_apart ::
    "('w, 'x) mouse_ops_scheme \<Rightarrow> bool \<Rightarrow> bool \<Rightarrow> mouse_apis option \<Rightarrow>
     ('w host, bool \<times> bool \<times> bool \<times> bool) state" where
  "cleanup_take_apart ops rollback live apis = do {
     st \<leftarrow> get_service;
     tracking_clean \<leftarrow> on_desktop (mouse_cancel_tracking ops st live);
     if rollback then do {
       property_clean \<leftarrow> (if live then do {
           property \<leftarrow> on_desktop (get_prop ops (hwnd st) LOCK_PROP);
           on_desktop (remove_lock_prop ops (hwnd st) (property = record_data st)) }
         else State_Monad.return False);
       clip_clean \<leftarrow> service_mouse_cleanup_clip ops;
       raw_clean \<leftarrow> cleanup_raw_if ops apis;
       State_Monad.return (tracking_clean, property_clean, raw_clean, clip_clean) }
     else do {
       raw_clean \<leftarrow> cleanup_raw_if ops apis;
       clip_clean \<leftarrow> service_mouse_cleanup_clip ops;
       State_Monad.return (tracking_clean, False, raw_clean, clip_clean) }}"

text \<open>What the desktop shows afterwards; the answer is \<open>clean\<close>.\<close>

definition cleanup_inspect ::
    "('w, 'x) mouse_ops_scheme \<Rightarrow> u64 \<Rightarrow> bool \<Rightarrow> bool \<Rightarrow> mouse_apis option \<Rightarrow>
     bool \<times> bool \<times> bool \<times> bool \<Rightarrow> ('w host, bool) state" where
  "cleanup_inspect ops self rollback live apis answers =
     (case answers of (tracking_clean, property_clean, raw_clean, clip_clean) \<Rightarrow> do {
      st \<leftarrow> get_service;
      raw_found \<leftarrow> (case apis of
          Some a \<Rightarrow> with_service (\<lambda>st. mouse_raw_resource_state ops st a)
        | None \<Rightarrow> State_Monad.return Resource_Dirty);
      clip_found \<leftarrow> with_service (mouse_clip_resource_state ops);
      let resources = (tracking_clean \<and> raw_clean \<and> clip_clean
        \<and> raw_found = Resource_Baseline \<and> clip_found = Resource_Baseline);
      rest \<leftarrow> (if live then do {
          authority \<leftarrow> with_service (service_authority ops);
          capture \<leftarrow> on_desktop (capture_window ops);
          property \<leftarrow> on_desktop (get_prop ops (hwnd st) LOCK_PROP);
          property_clean \<leftarrow> (if \<not> rollback \<and> resources \<and> authority = SERVICE_OK \<and> capture = 0
              \<and> (property = 0 \<or> property = record_data st)
            then on_desktop (remove_lock_prop ops (hwnd st) (property = record_data st))
            else State_Monad.return property_clean);
          State_Monad.return (property_clean \<and> authority = SERVICE_OK \<and> capture = 0) }
        else do {
          authority_clean \<leftarrow> all_checks
            [do { t \<leftarrow> on_desktop (current_thread ops); check (t = owner_thread st) },
             do { p \<leftarrow> on_desktop (current_process ops); check (p = owner_process st) },
             is_owner self];
          capture \<leftarrow> on_desktop (capture_window ops);
          State_Monad.return (authority_clean \<and> capture = 0) });
      mine \<leftarrow> is_owner self;
      State_Monad.return
        (resources \<and> rest \<and> \<not> mouse_raw_owned st \<and> \<not> mouse_clip_owned st \<and> mine) })"

text \<open>After a cleanup that is not clean: an explicit unlock tries to put the lock back.\<close>

definition cleanup_not_clean ::
    "('w, 'x) mouse_ops_scheme \<Rightarrow> u64 \<Rightarrow> bool \<Rightarrow> mouse_apis option \<Rightarrow> ('w host, int) state" where
  "cleanup_not_clean ops self restore apis = do {
     restored \<leftarrow> (case apis of
         Some a \<Rightarrow>
           if restore then service_mouse_restore_locked ops self a else State_Monad.return False
       | None \<Rightarrow> State_Monad.return False);
     if restored then State_Monad.return SERVICE_UNAVAILABLE else do {
     enter_cleanup;
     State_Monad.return SERVICE_UNAVAILABLE }}"

text \<open>The protocol for a lock that is held.\<close>

definition cleanup_held ::
    "('w, 'x) mouse_ops_scheme \<Rightarrow> u64 \<Rightarrow> bool \<Rightarrow> bool \<Rightarrow> bool \<Rightarrow> ('w host, int) state" where
  "cleanup_held ops self teardown rollback live = do {
     apis \<leftarrow> on_desktop (mouse_resolve_apis ops);
     restore_allowed \<leftarrow> (case apis of
         Some a \<Rightarrow>
           if \<not> teardown \<and> \<not> rollback \<and> live then do {
             mine \<leftarrow> is_owner self;
             with_service (\<lambda>st. mouse_locked_exact ops st mine a) }
           else State_Monad.return False
       | None \<Rightarrow> State_Monad.return False);
     enter_cleanup;
     answers \<leftarrow> cleanup_take_apart ops rollback live apis;
     clean \<leftarrow> cleanup_inspect ops self rollback live apis answers;
     if \<not> clean
     then cleanup_not_clean ops self (\<not> teardown \<and> \<not> rollback \<and> restore_allowed \<and> live) apis
     else do {
     completed \<leftarrow> service_mouse_complete_cleanup ops self teardown;
     if completed then State_Monad.return SERVICE_OK else do {
     enter_cleanup;
     State_Monad.return SERVICE_UNAVAILABLE }}}"

definition service_mouse_cleanup ::
    "('w, 'x) mouse_ops_scheme \<Rightarrow> u64 \<Rightarrow> bool \<Rightarrow> bool \<Rightarrow> ('w host, int) state" where
  "service_mouse_cleanup ops self teardown rollback = do {
     guarded \<leftarrow> cleanup_guards ops self teardown;
     case guarded of
       Inl status \<Rightarrow> State_Monad.return status
     | Inr live \<Rightarrow> cleanup_held ops self teardown rollback live }"

subsection \<open>Acquiring the lock\<close>

text \<open>
  What must hold before the owner cell is claimed: the apis, the baseline inventory and the two
  clips. A failure frees the inventory that was queried.
\<close>

definition acquire_baseline ::
    "('w, 'x) mouse_ops_scheme \<Rightarrow> service_state \<Rightarrow>
     ('w, (mouse_apis \<times> raw_inventory \<times> rect \<times> rect) option) state" where
  "acquire_baseline ops st = do {
     apis \<leftarrow> mouse_resolve_apis ops;
     case apis of None \<Rightarrow> do { raw_inventory_free ops; State_Monad.return None }
     | Some apis \<Rightarrow> do {
     baseline \<leftarrow> raw_inventory_query ops (get_registered_devices apis);
     case baseline of None \<Rightarrow> do { raw_inventory_free ops; State_Monad.return None }
     | Some baseline \<Rightarrow>
     if \<not> raw_inventory_mouse_free baseline
     then do { raw_inventory_free ops; State_Monad.return None } else do {
     screen \<leftarrow> virtual_screen_rect ops;
     case screen of None \<Rightarrow> do { raw_inventory_free ops; State_Monad.return None }
     | Some virtual_screen \<Rightarrow> do {
     clip \<leftarrow> get_clip_cursor ops;
     case clip of None \<Rightarrow> do { raw_inventory_free ops; State_Monad.return None }
     | Some current_clip \<Rightarrow>
     if \<not> rect_equal current_clip virtual_screen
     then do { raw_inventory_free ops; State_Monad.return None } else do {
     client \<leftarrow> client_screen_rect ops (hwnd st);
     case client of None \<Rightarrow> do { raw_inventory_free ops; State_Monad.return None }
     | Some client_clip \<Rightarrow>
         State_Monad.return (Some (apis, baseline, current_clip, client_clip)) }}}}}"

text \<open>Registering the device, clipping the cursor and marking the window; False is \<open>goto rollback\<close>.\<close>

definition acquire_resources ::
    "('w, 'x) mouse_ops_scheme \<Rightarrow> u64 \<Rightarrow> mouse_apis \<Rightarrow> rect \<Rightarrow> ('w host, bool) state" where
  "acquire_resources ops self apis client_clip = do {
     st \<leftarrow> get_service;
     registered \<leftarrow> on_desktop (call_register ops (register_devices apis) [lock_device (hwnd st)]);
     if \<not> registered then State_Monad.return False else do {
     set_service (\<lambda>st. st\<lparr>mouse_raw_owned := True\<rparr>);
     raw \<leftarrow> with_service (\<lambda>st. mouse_raw_resource_state ops st apis);
     if raw \<noteq> Resource_Locked then State_Monad.return False else do {
     clipped \<leftarrow> on_desktop (clip_cursor ops (Some client_clip));
     if \<not> clipped then State_Monad.return False else do {
     set_service (\<lambda>st. st\<lparr>mouse_clip_owned := True\<rparr>);
     clip \<leftarrow> with_service (mouse_clip_resource_state ops);
     if clip \<noteq> Resource_Locked then State_Monad.return False else do {
     marked \<leftarrow> on_desktop (set_prop ops (hwnd st) LOCK_PROP (record_data st));
     if \<not> marked then State_Monad.return False else do {
     mine \<leftarrow> is_owner self;
     with_service (\<lambda>st. mouse_acquire_candidate_exact ops st mine apis) }}}}}}"

text \<open>From the claim of the owner cell on.\<close>

definition acquire_claimed ::
    "('w, 'x) mouse_ops_scheme \<Rightarrow> u64 \<Rightarrow> mouse_apis \<Rightarrow> raw_inventory \<Rightarrow> rect \<Rightarrow> rect \<Rightarrow>
     ('w host, int) state" where
  "acquire_claimed ops self apis baseline current_clip client_clip = do {
     claimed \<leftarrow> mouse_lock_owner_claim self;
     if \<not> claimed then do {
       on_desktop (raw_inventory_free ops);
       State_Monad.return SERVICE_UNAVAILABLE }
     else do {
     set_service (\<lambda>st. st\<lparr>mouse_baseline_devices := items baseline,
       mouse_baseline_count := item_count baseline, mouse_baseline_clip := current_clip,
       mouse_locked_clip := client_clip, mouse_baseline_valid := True,
       mouse_lock_state := Lock_Cleanup\<rparr>);
     acquired \<leftarrow> acquire_resources ops self apis client_clip;
     if acquired then do {
       set_service (\<lambda>st. st\<lparr>mouse_lock_committed := True, mouse_delivery_enabled := True,
         mouse_lock_state := Lock_Locked\<rparr>);
       State_Monad.return SERVICE_OK }
     else do {
       service_mouse_cleanup ops self False True;
       State_Monad.return SERVICE_UNAVAILABLE }}}"

definition service_mouse_acquire ::
    "('w, 'x) mouse_ops_scheme \<Rightarrow> u64 \<Rightarrow> ('w host, int) state" where
  "service_mouse_acquire ops self =
     (if self = 0 then State_Monad.return SERVICE_INVALID else do {
      authority \<leftarrow> with_service (service_authority ops);
      if authority \<noteq> SERVICE_OK then State_Monad.return authority else do {
      st \<leftarrow> get_service;
      mine \<leftarrow> is_owner self;
      free \<leftarrow> all_checks
        [on_desktop (mouse_off_exact ops st mine True), is_owner 0, check (record_data st \<noteq> 0),
         on_desktop (is_window_visible ops (hwnd st)),
         do { w \<leftarrow> on_desktop (foreground_window ops); check (w = hwnd st) },
         do { w \<leftarrow> on_desktop (focus_window ops); check (w = hwnd st) },
         do { w \<leftarrow> on_desktop (capture_window ops); check (w = 0) }];
      if \<not> free then State_Monad.return SERVICE_UNAVAILABLE else do {
      found \<leftarrow> on_desktop (acquire_baseline ops st);
      case found of
        None \<Rightarrow> State_Monad.return SERVICE_UNAVAILABLE
      | Some (apis, baseline, current_clip, client_clip) \<Rightarrow>
          acquire_claimed ops self apis baseline current_clip client_clip }}})"

subsection \<open>Entry points\<close>

definition service_set_mouse_lock ::
    "('w, 'x) mouse_ops_scheme \<Rightarrow> u64 \<Rightarrow> bool \<Rightarrow> ('w host, int) state" where
  "service_set_mouse_lock ops self enabled =
     (if enabled then service_mouse_acquire ops self else service_mouse_cleanup ops self False False)"

definition service_focus_lost :: "('w, 'x) mouse_ops_scheme \<Rightarrow> u64 \<Rightarrow> ('w host, int) state" where
  "service_focus_lost ops self = service_mouse_cleanup ops self False False"

definition service_mouse_delivery_active ::
    "('w, 'x) mouse_ops_scheme \<Rightarrow> u64 \<Rightarrow> ('w host, bool) state" where
  "service_mouse_delivery_active ops self = do {
     apis \<leftarrow> on_desktop (mouse_resolve_apis ops);
     case apis of
       None \<Rightarrow> State_Monad.return False
     | Some a \<Rightarrow>
         if self = 0 then State_Monad.return False else do {
         mine \<leftarrow> is_owner self;
         with_service (\<lambda>st. mouse_locked_exact ops st mine a) }}"

definition service_disable_mouse_delivery ::
    "('w, 'x) mouse_ops_scheme \<Rightarrow> u64 \<Rightarrow> ('w host, int) state" where
  "service_disable_mouse_delivery ops self =
     (if self = 0 then State_Monad.return SERVICE_INVALID else do {
      authority \<leftarrow> with_service (service_authority ops);
      if authority \<noteq> SERVICE_OK then State_Monad.return authority else do {
      st \<leftarrow> get_service;
      if mouse_lock_state st \<noteq> Lock_Locked \<or> \<not> mouse_lock_committed st
         \<or> \<not> mouse_delivery_enabled st
      then State_Monad.return SERVICE_UNAVAILABLE else do {
      set_service (\<lambda>st. st\<lparr>mouse_delivery_enabled := False\<rparr>);
      State_Monad.return SERVICE_OK }}})"

definition service_prepare_window_teardown ::
    "('w, 'x) mouse_ops_scheme \<Rightarrow> u64 \<Rightarrow> ('w host, int) state" where
  "service_prepare_window_teardown ops self = service_mouse_cleanup ops self True False"

definition service_teardown_prepared :: "u64 \<Rightarrow> ('w host, bool) state" where
  "service_teardown_prepared self = do {
     st \<leftarrow> get_service;
     mine \<leftarrow> is_owner self;
     State_Monad.return (self \<noteq> 0 \<and> mouse_prepared_exact st mine) }"

text \<open>The status and the value written through \<open>out_locked\<close>.\<close>

definition service_mouse_observation ::
    "('w, 'x) mouse_ops_scheme \<Rightarrow> u64 \<Rightarrow> ('w host, int \<times> bool) state" where
  "service_mouse_observation ops self =
     (if self = 0 then State_Monad.return (SERVICE_INVALID, False) else do {
      authority \<leftarrow> with_service (service_authority ops);
      if authority \<noteq> SERVICE_OK then State_Monad.return (authority, False) else do {
      mine \<leftarrow> is_owner self;
      off \<leftarrow> with_service (\<lambda>st. mouse_off_exact ops st mine True);
      if off then State_Monad.return (SERVICE_OK, False) else do {
      apis \<leftarrow> on_desktop (mouse_resolve_apis ops);
      locked \<leftarrow> (case apis of
          None \<Rightarrow> State_Monad.return False
        | Some a \<Rightarrow> do {
            mine \<leftarrow> is_owner self;
            with_service (\<lambda>st. mouse_locked_exact ops st mine a) });
      State_Monad.return (if locked then (SERVICE_OK, True) else (SERVICE_UNAVAILABLE, False)) }}})"

text \<open>Releasing the object: the flag tells whether it was freed.\<close>

definition service_release ::
    "('w, 'x) mouse_ops_scheme \<Rightarrow> u64 \<Rightarrow> ('w host, int \<times> bool) state" where
  "service_release ops self =
     (if self = 0 then State_Monad.return (SERVICE_OK, False) else do {
      st \<leftarrow> get_service;
      thread \<leftarrow> on_desktop (current_thread ops);
      if thread \<noteq> owner_thread st then State_Monad.return (SERVICE_WRONG_THREAD, False) else do {
      process \<leftarrow> on_desktop (current_process ops);
      if process \<noteq> owner_process st then State_Monad.return (SERVICE_INVALID, False) else do {
      mine \<leftarrow> is_owner self;
      if \<not> mouse_prepared_exact st mine then State_Monad.return (SERVICE_UNAVAILABLE, False)
      else do {
      set_service (\<lambda>st. st\<lparr>hwnd := 0\<rparr>);
      State_Monad.return (SERVICE_OK, True) }}}})"

end
