(* ===== verification/Win32_Window.thy ===== *)
theory Win32_Window
  imports Win32_Mouse_Lock
begin

text \<open>
  The window half of \<open>x/multiwindow/win32_service_native.h\<close>: creating a service object, the saved
  placement, entering and leaving fullscreen with the roll back of a failed exit, the reported
  window state and the simple window commands. The operations extend those of the mouse lock.
  What is modelled is the production build, without the failure injection that
  \<open>V_MULTIWINDOW_WIN32_SERVICE_TEST\<close> compiles in.
\<close>

record native_snapshot =
  snapshot_style :: u64
  snapshot_ex_style :: u64
  snapshot_placement :: window_placement
  snapshot_rect :: rect
  snapshot_visible :: bool

record 'w window_ops = "'w mouse_ops" +
  set_window_long :: "u64 \<Rightarrow> int \<Rightarrow> u64 \<Rightarrow> ('w, u64) state"
  get_placement :: "u64 \<Rightarrow> ('w, window_placement option) state"
  set_placement :: "u64 \<Rightarrow> window_placement \<Rightarrow> ('w, bool) state"
  get_window_rect :: "u64 \<Rightarrow> ('w, rect option) state"
  set_window_pos :: "u64 \<Rightarrow> u64 \<Rightarrow> i32 \<Rightarrow> i32 \<Rightarrow> i32 \<Rightarrow> i32 \<Rightarrow> u32 \<Rightarrow> ('w, bool) state"
  show_window :: "u64 \<Rightarrow> u32 \<Rightarrow> ('w, unit) state"
  update_window :: "u64 \<Rightarrow> ('w, unit) state"
  is_iconic :: "u64 \<Rightarrow> ('w, bool) state"
  is_zoomed :: "u64 \<Rightarrow> ('w, bool) state"
  set_foreground :: "u64 \<Rightarrow> ('w, unit) state"
  set_focus :: "u64 \<Rightarrow> ('w, unit) state"
  nearest_monitor :: "u64 \<Rightarrow> ('w, u64) state"
  monitor_rects :: "u64 \<Rightarrow> ('w, (rect \<times> rect) option) state"
  adjust_rect :: "rect \<Rightarrow> u32 \<Rightarrow> u32 \<Rightarrow> ('w, rect option) state"
  calloc_service :: "('w, u64) state"
  free_service :: "u64 \<Rightarrow> ('w, unit) state"

abbreviation (input) GWL_STYLE :: int where "GWL_STYLE \<equiv> - 16"
abbreviation (input) GWL_EXSTYLE :: int where "GWL_EXSTYLE \<equiv> - 20"
abbreviation (input) SW_HIDE :: u32 where "SW_HIDE \<equiv> 0"
abbreviation (input) SW_MAXIMIZE :: u32 where "SW_MAXIMIZE \<equiv> 3"
abbreviation (input) SW_SHOWNOACTIVATE :: u32 where "SW_SHOWNOACTIVATE \<equiv> 4"
abbreviation (input) SW_MINIMIZE :: u32 where "SW_MINIMIZE \<equiv> 6"
abbreviation (input) SW_RESTORE :: u32 where "SW_RESTORE \<equiv> 9"
abbreviation (input) SWP_NOSIZE :: u32 where "SWP_NOSIZE \<equiv> 0x1"
abbreviation (input) SWP_NOMOVE :: u32 where "SWP_NOMOVE \<equiv> 0x2"
abbreviation (input) SWP_NOZORDER :: u32 where "SWP_NOZORDER \<equiv> 0x4"
abbreviation (input) SWP_NOACTIVATE :: u32 where "SWP_NOACTIVATE \<equiv> 0x10"
abbreviation (input) SWP_FRAMECHANGED :: u32 where "SWP_FRAMECHANGED \<equiv> 0x20"
abbreviation (input) SWP_NOOWNERZORDER :: u32 where "SWP_NOOWNERZORDER \<equiv> 0x200"
abbreviation (input) WS_OVERLAPPEDWINDOW :: u64 where "WS_OVERLAPPEDWINDOW \<equiv> 0x00CF0000"
abbreviation (input) WS_POPUP :: u64 where "WS_POPUP \<equiv> 0x80000000"
abbreviation (input) WS_EX_WINDOWEDGE :: u64 where "WS_EX_WINDOWEDGE \<equiv> 0x100"

text \<open>\<open>WS_CAPTION\<close>, \<open>WS_SYSMENU\<close>, \<open>WS_MINIMIZEBOX\<close>, \<open>WS_SIZEBOX\<close>, \<open>WS_MAXIMIZEBOX\<close>, \<open>WS_CLIPSIBLINGS\<close>,
  \<open>WS_CLIPCHILDREN\<close>, \<open>WS_EX_APPWINDOW\<close> by value.\<close>

definition service_windowed_style :: "bool \<Rightarrow> bool \<Rightarrow> u32" where
  "service_windowed_style is_resizable is_borderless =
     (if is_borderless then 0x80000000 OR 0x04000000 OR 0x02000000
      else let style = 0x00C00000 OR 0x00080000 OR 0x00020000 OR 0x04000000 OR 0x02000000
           in if is_resizable then style OR (0x00040000 OR 0x00010000) else style)"

definition service_windowed_ex_style :: "bool \<Rightarrow> u32" where
  "service_windowed_ex_style is_borderless =
     (if is_borderless then 0x00040000 else 0x00040000 OR 0x100)"

subsection \<open>Snapshots of the native window\<close>

definition service_set_long_ptr ::
    "('w, 'x) window_ops_scheme \<Rightarrow> u64 \<Rightarrow> int \<Rightarrow> u64 \<Rightarrow> ('w, bool) state" where
  "service_set_long_ptr ops window index v = do {
     set_last_error ops 0;
     previous \<leftarrow> set_window_long ops window index v;
     if previous \<noteq> 0 then State_Monad.return True else do {
     e \<leftarrow> last_error ops;
     State_Monad.return (e = 0) }}"

definition service_capture_native_snapshot ::
    "('w, 'x) window_ops_scheme \<Rightarrow> u64 \<Rightarrow> ('w, native_snapshot option) state" where
  "service_capture_native_snapshot ops window = do {
     live \<leftarrow> all_checks [check (window \<noteq> 0), is_window ops window];
     if \<not> live then State_Monad.return None else do {
     placement \<leftarrow> get_placement ops window;
     case placement of None \<Rightarrow> State_Monad.return None
     | Some p \<Rightarrow> do {
     bounds \<leftarrow> get_window_rect ops window;
     case bounds of None \<Rightarrow> State_Monad.return None
     | Some r \<Rightarrow> do {
     style \<leftarrow> get_window_long ops window GWL_STYLE;
     ex_style \<leftarrow> get_window_long ops window GWL_EXSTYLE;
     visible \<leftarrow> is_window_visible ops window;
     State_Monad.return (Some \<lparr>snapshot_style = style, snapshot_ex_style = ex_style,
       snapshot_placement = p, snapshot_rect = r, snapshot_visible = visible\<rparr>) }}}}"

definition same_placement :: "window_placement \<Rightarrow> window_placement \<Rightarrow> bool" where
  "same_placement p q \<longleftrightarrow>
     placement_flags p = placement_flags q \<and> show_cmd p = show_cmd q
     \<and> min_x p = min_x q \<and> min_y p = min_y q \<and> max_x p = max_x q \<and> max_y p = max_y q
     \<and> rect_equal (normal_position p) (normal_position q)"

definition service_native_snapshot_matches ::
    "('w, 'x) window_ops_scheme \<Rightarrow> u64 \<Rightarrow> native_snapshot \<Rightarrow> ('w, bool) state" where
  "service_native_snapshot_matches ops window snapshot = do {
     styled \<leftarrow> all_checks
       [check (window \<noteq> 0), is_window ops window,
        do { v \<leftarrow> get_window_long ops window GWL_STYLE; check (v = snapshot_style snapshot) },
        do { v \<leftarrow> get_window_long ops window GWL_EXSTYLE; check (v = snapshot_ex_style snapshot) }];
     if \<not> styled then State_Monad.return False else do {
     placement \<leftarrow> get_placement ops window;
     case placement of None \<Rightarrow> State_Monad.return False
     | Some p \<Rightarrow> do {
     bounds \<leftarrow> get_window_rect ops window;
     case bounds of None \<Rightarrow> State_Monad.return False
     | Some r \<Rightarrow>
     if \<not> same_placement p (snapshot_placement snapshot) \<or> \<not> rect_equal r (snapshot_rect snapshot)
     then State_Monad.return False else do {
     visible \<leftarrow> is_window_visible ops window;
     State_Monad.return (visible = snapshot_visible snapshot) }}}}"

definition service_restore_visibility ::
    "('w, 'x) window_ops_scheme \<Rightarrow> u64 \<Rightarrow> bool \<Rightarrow> u32 \<Rightarrow> ('w, bool) state" where
  "service_restore_visibility ops window visible show_command = do {
     now \<leftarrow> is_window_visible ops window;
     (if visible
      then if_then (\<not> now) (show_window ops window
             (if show_command = SW_HIDE then SW_SHOWNOACTIVATE else show_command))
      else if_then now (show_window ops window SW_HIDE));
     now \<leftarrow> is_window_visible ops window;
     State_Monad.return (now = visible) }"

definition service_restore_native_snapshot ::
    "('w, 'x) window_ops_scheme \<Rightarrow> u64 \<Rightarrow> native_snapshot \<Rightarrow> ('w, bool) state" where
  "service_restore_native_snapshot ops window snapshot =
     (if window = 0 then State_Monad.return False else do {
      styled \<leftarrow> service_set_long_ptr ops window GWL_STYLE (snapshot_style snapshot);
      ex_styled \<leftarrow> service_set_long_ptr ops window GWL_EXSTYLE (snapshot_ex_style snapshot);
      placed \<leftarrow> set_placement ops window (snapshot_placement snapshot);
      moved \<leftarrow> set_window_pos ops window 0
        (rect_left (snapshot_rect snapshot)) (rect_top (snapshot_rect snapshot))
        (rect_right (snapshot_rect snapshot) - rect_left (snapshot_rect snapshot))
        (rect_bottom (snapshot_rect snapshot) - rect_top (snapshot_rect snapshot))
        (SWP_NOZORDER OR SWP_NOACTIVATE OR SWP_NOOWNERZORDER OR SWP_FRAMECHANGED);
      shown \<leftarrow> service_restore_visibility ops window (snapshot_visible snapshot)
        (show_cmd (snapshot_placement snapshot));
      if \<not> (styled \<and> ex_styled \<and> placed \<and> moved \<and> shown) then State_Monad.return False
      else service_native_snapshot_matches ops window snapshot })"

subsection \<open>The saved placement\<close>

definition service_capture_restore :: "('w, 'x) window_ops_scheme \<Rightarrow> ('w host, bool) state" where
  "service_capture_restore ops = do {
     st \<leftarrow> get_service;
     authority \<leftarrow> on_desktop (service_authority ops st);
     if authority \<noteq> SERVICE_OK then State_Monad.return False else do {
     placement \<leftarrow> on_desktop (get_placement ops (hwnd st));
     case placement of None \<Rightarrow> State_Monad.return False
     | Some p \<Rightarrow> do {
     style \<leftarrow> on_desktop (get_window_long ops (hwnd st) GWL_STYLE);
     ex_style \<leftarrow> on_desktop (get_window_long ops (hwnd st) GWL_EXSTYLE);
     visible \<leftarrow> on_desktop (is_window_visible ops (hwnd st));
     set_service (\<lambda>st. st\<lparr>windowed_style := style, windowed_ex_style := ex_style,
       windowed_placement := p, windowed_visible := visible, restore_valid := True\<rparr>);
     State_Monad.return True }}}"

text \<open>Halving rounds towards zero, as in C.\<close>

definition half :: "i32 \<Rightarrow> i32" where
  "half x = word_of_int (sint x sdiv 2)"

definition centred_placement :: "rect \<Rightarrow> rect \<Rightarrow> rect \<Rightarrow> u32 \<Rightarrow> window_placement" where
  "centred_placement frame monitor_bounds work command =
     (let width = rect_right frame - rect_left frame;
          height = rect_bottom frame - rect_top frame;
          work_width = rect_right work - rect_left work;
          work_height = rect_bottom work - rect_top work;
          screen_x = rect_left work + half (work_width - width);
          screen_y = rect_top work + half (work_height - height);
          workspace_x = screen_x + rect_left monitor_bounds - rect_left work;
          workspace_y = screen_y + rect_top monitor_bounds - rect_top work
      in \<lparr>placement_flags = 0, show_cmd = command, min_x = 0, min_y = 0, max_x = 0, max_y = 0,
          normal_position = \<lparr>rect_left = workspace_x, rect_top = workspace_y,
            rect_right = workspace_x + width, rect_bottom = workspace_y + height\<rparr>\<rparr>)"

definition service_synthesize_restore :: "('w, 'x) window_ops_scheme \<Rightarrow> ('w host, bool) state" where
  "service_synthesize_restore ops = do {
     st \<leftarrow> get_service;
     authority \<leftarrow> on_desktop (service_authority ops st);
     if authority \<noteq> SERVICE_OK then State_Monad.return False else do {
     let style = service_windowed_style (resizable st) (borderless st);
     let ex_style = service_windowed_ex_style (borderless st);
     adjusted \<leftarrow> on_desktop (adjust_rect ops
       \<lparr>rect_left = 0, rect_top = 0,
        rect_right = (if sint (requested_width st) > 0 then requested_width st else 1),
        rect_bottom = (if sint (requested_height st) > 0 then requested_height st else 1)\<rparr>
       style ex_style);
     case adjusted of None \<Rightarrow> State_Monad.return False
     | Some frame \<Rightarrow> do {
     monitor \<leftarrow> on_desktop (nearest_monitor ops (hwnd st));
     info \<leftarrow> (if monitor = 0 then State_Monad.return None
             else on_desktop (monitor_rects ops monitor));
     case info of None \<Rightarrow> State_Monad.return False
     | Some (monitor_bounds, work) \<Rightarrow> do {
     current \<leftarrow> on_desktop (get_placement ops (hwnd st));
     case current of None \<Rightarrow> State_Monad.return False
     | Some c \<Rightarrow> do {
     visible \<leftarrow> on_desktop (is_window_visible ops (hwnd st));
     set_service (\<lambda>st. st\<lparr>windowed_style := ucast style, windowed_ex_style := ucast ex_style,
       windowed_placement := centred_placement frame monitor_bounds work (show_cmd c),
       windowed_visible := visible, restore_valid := True\<rparr>);
     State_Monad.return True }}}}}"

text \<open>The object as \<open>calloc\<close> and the assignments of \<open>create\<close> make it.\<close>

definition new_service ::
    "u64 \<Rightarrow> u64 \<Rightarrow> u32 \<Rightarrow> u32 \<Rightarrow> bool \<Rightarrow> i32 \<Rightarrow> i32 \<Rightarrow> bool \<Rightarrow> bool \<Rightarrow> service_state" where
  "new_service window record thread process initial_fullscreen w h is_resizable is_borderless = \<lparr>
     hwnd = window, record_data = record, owner_thread = thread, owner_process = process,
     fullscreen = initial_fullscreen, fullscreen_known = True, restore_valid = False,
     windowed_visible = False, windowed_style = 0, windowed_ex_style = 0,
     windowed_placement = \<lparr>placement_flags = 0, show_cmd = 0, min_x = 0, min_y = 0,
       max_x = 0, max_y = 0, normal_position = zero_rect\<rparr>,
     requested_width = w, requested_height = h, resizable = is_resizable, borderless = is_borderless,
     mouse_lock_state = Lock_Off, mouse_lock_committed = False, mouse_delivery_enabled = False,
     mouse_raw_owned = False, mouse_clip_owned = False, mouse_baseline_valid = False,
     mouse_baseline_clip = zero_rect, mouse_locked_clip = zero_rect,
     mouse_baseline_devices = None, mouse_baseline_count = 0\<rparr>"

text \<open>
  \<open>create\<close> acts on the slot of the new object and returns its address, 0 for a null pointer.
\<close>

definition service_create ::
    "('w, 'x) window_ops_scheme \<Rightarrow> u64 \<Rightarrow> u64 \<Rightarrow> bool \<Rightarrow> i32 \<Rightarrow> i32 \<Rightarrow> bool \<Rightarrow> bool \<Rightarrow>
     ('w host, u64) state" where
  "service_create ops window record initial_fullscreen w h is_resizable is_borderless = do {
     live \<leftarrow> on_desktop (all_checks [check (window \<noteq> 0), is_window ops window]);
     if \<not> live then State_Monad.return 0 else do {
     ids \<leftarrow> on_desktop (window_thread_process ops window);
     ours \<leftarrow> on_desktop (all_checks
       [check (fst ids \<noteq> 0),
        do { t \<leftarrow> current_thread ops; check (fst ids = t) },
        check (snd ids \<noteq> 0),
        do { p \<leftarrow> current_process ops; check (snd ids = p) },
        do { d \<leftarrow> get_window_long ops window GWLP_USERDATA; check (d = record) }]);
     if \<not> ours then State_Monad.return 0 else do {
     self \<leftarrow> on_desktop (calloc_service ops);
     if self = 0 then State_Monad.return 0 else do {
     set_service (\<lambda>_. new_service window record (fst ids) (snd ids) initial_fullscreen w h
       is_resizable is_borderless);
     captured \<leftarrow> (if initial_fullscreen then service_synthesize_restore ops
                 else service_capture_restore ops);
     if \<not> captured then do {
       on_desktop (free_service ops self);
       State_Monad.return 0 }
     else State_Monad.return self }}}}"

subsection \<open>Fullscreen\<close>

definition restore_windowed ::
    "('w, 'x) window_ops_scheme \<Rightarrow> service_state \<Rightarrow> ('w, unit) state" where
  "restore_windowed ops st = do {
     service_set_long_ptr ops (hwnd st) GWL_STYLE (windowed_style st);
     service_set_long_ptr ops (hwnd st) GWL_EXSTYLE (windowed_ex_style st);
     set_placement ops (hwnd st) (windowed_placement st);
     set_window_pos ops (hwnd st) 0 0 0 0 0
       (SWP_NOMOVE OR SWP_NOSIZE OR SWP_NOZORDER OR SWP_NOACTIVATE OR SWP_NOOWNERZORDER
          OR SWP_FRAMECHANGED);
     State_Monad.return () }"

definition enter_fullscreen :: "('w, 'x) window_ops_scheme \<Rightarrow> ('w host, int) state" where
  "enter_fullscreen ops = do {
     captured \<leftarrow> service_capture_restore ops;
     if \<not> captured then State_Monad.return SERVICE_UNAVAILABLE else do {
     st \<leftarrow> get_service;
     monitor \<leftarrow> on_desktop (nearest_monitor ops (hwnd st));
     info \<leftarrow> (if monitor = 0 then State_Monad.return None
             else on_desktop (monitor_rects ops monitor));
     case info of None \<Rightarrow> State_Monad.return SERVICE_UNAVAILABLE
     | Some (bounds, _) \<Rightarrow> do {
     done \<leftarrow> on_desktop (all_checks
       [service_set_long_ptr ops (hwnd st) GWL_STYLE
          ((windowed_style st AND NOT WS_OVERLAPPEDWINDOW) OR WS_POPUP),
        service_set_long_ptr ops (hwnd st) GWL_EXSTYLE
          (windowed_ex_style st AND NOT WS_EX_WINDOWEDGE),
        set_window_pos ops (hwnd st) 0 (rect_left bounds) (rect_top bounds)
          (rect_right bounds - rect_left bounds) (rect_bottom bounds - rect_top bounds)
          (SWP_NOACTIVATE OR SWP_NOOWNERZORDER OR SWP_FRAMECHANGED)]);
     if \<not> done then do {
       on_desktop (restore_windowed ops st);
       State_Monad.return SERVICE_UNAVAILABLE }
     else do {
     set_service (\<lambda>st. st\<lparr>fullscreen := True, fullscreen_known := True\<rparr>);
     State_Monad.return SERVICE_OK }}}}"

definition leave_fullscreen :: "('w, 'x) window_ops_scheme \<Rightarrow> ('w host, int) state" where
  "leave_fullscreen ops = do {
     st \<leftarrow> get_service;
     if \<not> restore_valid st then State_Monad.return SERVICE_UNAVAILABLE else do {
     captured \<leftarrow> on_desktop (service_capture_native_snapshot ops (hwnd st));
     case captured of None \<Rightarrow> State_Monad.return SERVICE_UNAVAILABLE
     | Some snapshot \<Rightarrow> do {
     restored \<leftarrow> on_desktop (all_checks
       [service_set_long_ptr ops (hwnd st) GWL_STYLE (windowed_style st),
        service_set_long_ptr ops (hwnd st) GWL_EXSTYLE (windowed_ex_style st),
        set_placement ops (hwnd st) (windowed_placement st),
        set_window_pos ops (hwnd st) 0 0 0 0 0
          (SWP_NOMOVE OR SWP_NOSIZE OR SWP_NOZORDER OR SWP_NOACTIVATE OR SWP_NOOWNERZORDER
             OR SWP_FRAMECHANGED),
        service_restore_visibility ops (hwnd st) (windowed_visible st)
          (show_cmd (windowed_placement st))]);
     if \<not> restored then do {
       rolled_back \<leftarrow> on_desktop (service_restore_native_snapshot ops (hwnd st) snapshot);
       if_then (\<not> rolled_back) (set_service (\<lambda>st. st\<lparr>fullscreen_known := False\<rparr>));
       State_Monad.return SERVICE_UNAVAILABLE }
     else do {
     set_service (\<lambda>st. st\<lparr>fullscreen := False, fullscreen_known := True\<rparr>);
     State_Monad.return SERVICE_OK }}}}"

definition service_set_fullscreen ::
    "('w, 'x) window_ops_scheme \<Rightarrow> u64 \<Rightarrow> bool \<Rightarrow> ('w host, int) state" where
  "service_set_fullscreen ops self enabled =
     (if self = 0 then State_Monad.return SERVICE_INVALID else do {
      authority \<leftarrow> with_service (service_authority ops);
      if authority \<noteq> SERVICE_OK then State_Monad.return authority else do {
      st \<leftarrow> get_service;
      if \<not> fullscreen_known st then State_Monad.return SERVICE_UNAVAILABLE
      else if fullscreen st = enabled then State_Monad.return SERVICE_OK
      else if enabled then enter_fullscreen ops else leave_fullscreen ops }})"

definition service_fullscreen_known ::
    "('w, 'x) window_ops_scheme \<Rightarrow> u64 \<Rightarrow> ('w host, bool) state" where
  "service_fullscreen_known ops self =
     (if self = 0 then State_Monad.return False else do {
      authority \<leftarrow> with_service (service_authority ops);
      st \<leftarrow> get_service;
      State_Monad.return (authority = SERVICE_OK \<and> fullscreen_known st) })"

subsection \<open>The reported state and the simple commands\<close>

text \<open>The values written through the output pointers, all of which the callers pass; 2 is yes, 1 no.\<close>

record window_report =
  out_mapping :: int
  out_visibility :: int
  out_active :: int
  out_focused :: int
  out_minimized :: int
  out_maximized :: int
  out_fullscreen :: int
  out_mouse_locked :: int
  out_position_known :: bool
  out_window_x :: i32
  out_window_y :: i32

definition yes_no :: "bool \<Rightarrow> int" where
  "yes_no b = (if b then 2 else 1)"

definition service_window_state_with_mouse_lock ::
    "('w, 'x) window_ops_scheme \<Rightarrow> u64 \<Rightarrow> ('w host, int \<times> window_report option) state" where
  "service_window_state_with_mouse_lock ops self = do {
     observation \<leftarrow> service_mouse_observation ops self;
     if fst observation \<noteq> SERVICE_OK then State_Monad.return (fst observation, None) else do {
     st \<leftarrow> get_service;
     bounds \<leftarrow> on_desktop (get_window_rect ops (hwnd st));
     visible \<leftarrow> on_desktop (is_window_visible ops (hwnd st));
     front \<leftarrow> on_desktop (foreground_window ops);
     let active = (front = hwnd st);
     focused \<leftarrow> (if active then do { f \<leftarrow> on_desktop (focus_window ops); State_Monad.return (f = hwnd st) }
                else State_Monad.return False);
     minimized \<leftarrow> on_desktop (is_iconic ops (hwnd st));
     maximized \<leftarrow> on_desktop (is_zoomed ops (hwnd st));
     State_Monad.return (SERVICE_OK, Some \<lparr>
       out_mapping = yes_no visible, out_visibility = yes_no visible, out_active = yes_no active,
       out_focused = yes_no focused, out_minimized = yes_no minimized,
       out_maximized = yes_no maximized,
       out_fullscreen = (if fullscreen_known st then yes_no (fullscreen st) else 0),
       out_mouse_locked = yes_no (snd observation), out_position_known = (bounds \<noteq> None),
       out_window_x = (case bounds of Some r \<Rightarrow> rect_left r | None \<Rightarrow> 0),
       out_window_y = (case bounds of Some r \<Rightarrow> rect_top r | None \<Rightarrow> 0)\<rparr>) }}"

text \<open>The variant without the mouse lock, whose output pointer is null: nothing is written, here 0.\<close>

definition service_window_state ::
    "('w, 'x) window_ops_scheme \<Rightarrow> u64 \<Rightarrow> ('w host, int \<times> window_report option) state" where
  "service_window_state ops self = do {
     report \<leftarrow> service_window_state_with_mouse_lock ops self;
     State_Monad.return (map_prod id (map_option (\<lambda>r. r\<lparr>out_mouse_locked := 0\<rparr>)) report) }"

text \<open>Every command first asks for the authority over the window.\<close>

definition with_authority ::
    "('w, 'x) window_ops_scheme \<Rightarrow> u64 \<Rightarrow> (u64 \<Rightarrow> ('w, int) state) \<Rightarrow> ('w host, int) state" where
  "with_authority ops self body =
     (if self = 0 then State_Monad.return SERVICE_INVALID else do {
      authority \<leftarrow> with_service (service_authority ops);
      if authority \<noteq> SERVICE_OK then State_Monad.return authority else do {
      st \<leftarrow> get_service;
      on_desktop (body (hwnd st)) }})"

definition status_of :: "bool \<Rightarrow> int" where
  "status_of b = (if b then SERVICE_OK else SERVICE_UNAVAILABLE)"

definition service_show_window :: "('w, 'x) window_ops_scheme \<Rightarrow> u64 \<Rightarrow> ('w host, int) state" where
  "service_show_window ops self = with_authority ops self (\<lambda>window. do {
     show_window ops window SW_SHOWNOACTIVATE;
     update_window ops window;
     visible \<leftarrow> is_window_visible ops window;
     State_Monad.return (status_of visible) })"

definition service_hide_window :: "('w, 'x) window_ops_scheme \<Rightarrow> u64 \<Rightarrow> ('w host, int) state" where
  "service_hide_window ops self = with_authority ops self (\<lambda>window. do {
     show_window ops window SW_HIDE;
     visible \<leftarrow> is_window_visible ops window;
     State_Monad.return (status_of (\<not> visible)) })"

definition service_focus_window :: "('w, 'x) window_ops_scheme \<Rightarrow> u64 \<Rightarrow> ('w host, int) state" where
  "service_focus_window ops self = with_authority ops self (\<lambda>window. do {
     iconic \<leftarrow> is_iconic ops window;
     if_then iconic (show_window ops window SW_RESTORE);
     set_foreground ops window;
     front \<leftarrow> foreground_window ops;
     if_then (front = window) (set_focus ops window);
     State_Monad.return SERVICE_OK })"

definition service_raise_window :: "('w, 'x) window_ops_scheme \<Rightarrow> u64 \<Rightarrow> ('w host, int) state" where
  "service_raise_window ops self = with_authority ops self (\<lambda>window. do {
     moved \<leftarrow> set_window_pos ops window 0 0 0 0 0
       (SWP_NOMOVE OR SWP_NOSIZE OR SWP_NOACTIVATE OR SWP_NOOWNERZORDER);
     State_Monad.return (status_of moved) })"

definition service_set_window_position ::
    "('w, 'x) window_ops_scheme \<Rightarrow> u64 \<Rightarrow> i32 \<Rightarrow> i32 \<Rightarrow> ('w host, int) state" where
  "service_set_window_position ops self x y = with_authority ops self (\<lambda>window. do {
     moved \<leftarrow> set_window_pos ops window 0 x y 0 0
       (SWP_NOSIZE OR SWP_NOZORDER OR SWP_NOACTIVATE OR SWP_NOOWNERZORDER);
     State_Monad.return (status_of moved) })"

definition service_minimize_window :: "('w, 'x) window_ops_scheme \<Rightarrow> u64 \<Rightarrow> ('w host, int) state" where
  "service_minimize_window ops self = with_authority ops self (\<lambda>window. do {
     show_window ops window SW_MINIMIZE;
     iconic \<leftarrow> is_iconic ops window;
     State_Monad.return (status_of iconic) })"

definition service_maximize_window :: "('w, 'x) window_ops_scheme \<Rightarrow> u64 \<Rightarrow> ('w host, int) state" where
  "service_maximize_window ops self = with_authority ops self (\<lambda>window. do {
     show_window ops window SW_MAXIMIZE;
     zoomed \<leftarrow> is_zoomed ops window;
     State_Monad.return (status_of zoomed) })"

definition service_restore_window :: "('w, 'x) window_ops_scheme \<Rightarrow> u64 \<Rightarrow> ('w host, int) state" where
  "service_restore_window ops self =
     (if self = 0 then State_Monad.return SERVICE_INVALID else do {
      authority \<leftarrow> with_service (service_authority ops);
      if authority \<noteq> SERVICE_OK then State_Monad.return authority else do {
      st \<leftarrow> get_service;
      if fullscreen st then service_set_fullscreen ops self False else on_desktop (do {
        show_window ops (hwnd st) SW_RESTORE;
        plain \<leftarrow> all_checks [negated (is_iconic ops (hwnd st)), negated (is_zoomed ops (hwnd st))];
        State_Monad.return (status_of plain) }) }})"

definition service_native_window :: "('w, 'x) window_ops_scheme \<Rightarrow> u64 \<Rightarrow> ('w host, u64) state" where
  "service_native_window ops self =
     (if self = 0 then State_Monad.return 0 else do {
      authority \<leftarrow> with_service (service_authority ops);
      st \<leftarrow> get_service;
      State_Monad.return (if authority = SERVICE_OK then hwnd st else 0) })"

end
