(* ===== verification/Win32_Mouse_Inv.thy ===== *)
theory Win32_Mouse_Inv
  imports Win32_Mouse_Lock
begin

text \<open>
  The invariant of the mouse lock, for every behaviour of Windows: what the lock state of an
  object says about its other members and about the owner cell, that every operation keeps it,
  and what each status means. The rules of the operations say which members they may change.
\<close>

subsection \<open>Rules of the host state\<close>

lemma wp_get_service [wp_simps]: "wp get_service Q s = Q (service s) s"
  by (simp add: get_service_def wp_simps)

lemma wp_set_service [wp_simps]:
  "wp (set_service f) Q s = Q () (s\<lparr>service := f (service s)\<rparr>)"
  by (simp add: set_service_def wp_simps)

lemma wp_on_desktop_run:
  "wp (on_desktop m) Q s = wp m (\<lambda>a w. Q a (s\<lparr>desktop := w\<rparr>)) (desktop s)"
  by (simp add: on_desktop_def wp_def split: prod.splits)

lemma wp_on_desktop: "(\<And>a w. Q a (s\<lparr>desktop := w\<rparr>)) \<Longrightarrow> wp (on_desktop m) Q s"
  unfolding wp_on_desktop_run by (rule wp_any)

lemma wp_with_service: "(\<And>a w. Q a (s\<lparr>desktop := w\<rparr>)) \<Longrightarrow> wp (with_service m) Q s"
  unfolding with_service_def by (simp add: wp_simps) (rule wp_on_desktop)

lemma wp_is_owner [wp_simps]: "wp (is_owner self) Q s = Q (lock_owner s = self) s"
  by (simp add: is_owner_def mouse_lock_owner_load_def wp_simps)

text \<open>A chain of checks that leaves everything but the desktop alone.\<close>

definition desktop_only :: "('w host, 'a) state \<Rightarrow> bool" where
  "desktop_only m \<longleftrightarrow> (\<forall>s. \<exists>a w. run_state m s = (a, s\<lparr>desktop := w\<rparr>))"

named_theorems desktop_only_rules

lemma wp_desktop_only:
  "desktop_only m \<Longrightarrow> (\<And>a w. Q a (s\<lparr>desktop := w\<rparr>)) \<Longrightarrow> wp m Q s"
  unfolding desktop_only_def wp_def by (metis case_prod_conv)

lemma host_desktop_same: "s\<lparr>desktop := desktop s\<rparr> = s"
  by simp

lemma host_desktop_twice: "s\<lparr>desktop := v, desktop := w\<rparr> = s\<lparr>desktop := w\<rparr>"
  by simp

lemma desktop_only_return [desktop_only_rules]: "desktop_only (State_Monad.return a)"
  unfolding desktop_only_def by (metis run_state_return host_desktop_same)

lemma desktop_only_bind [desktop_only_rules]:
  assumes "desktop_only m" "\<And>a. desktop_only (f a)"
  shows "desktop_only (State_Monad.bind m f)"
  unfolding desktop_only_def
proof
  fix s
  obtain a w where m: "run_state m s = (a, s\<lparr>desktop := w\<rparr>)"
    using assms(1) unfolding desktop_only_def by metis
  obtain b v where "run_state (f a) (s\<lparr>desktop := w\<rparr>) = (b, s\<lparr>desktop := w\<rparr>\<lparr>desktop := v\<rparr>)"
    using assms(2) unfolding desktop_only_def by metis
  then show "\<exists>a w. run_state (State_Monad.bind m f) s = (a, s\<lparr>desktop := w\<rparr>)"
    using m by auto
qed

lemma desktop_only_on_desktop [desktop_only_rules]: "desktop_only (on_desktop m)"
  unfolding desktop_only_def on_desktop_def by (auto split: prod.splits)

lemma desktop_only_get_service [desktop_only_rules]: "desktop_only get_service"
  unfolding desktop_only_def get_service_def by (metis host_desktop_same state.sel)

lemma desktop_only_is_owner [desktop_only_rules]: "desktop_only (is_owner self)"
  unfolding desktop_only_def is_owner_def mouse_lock_owner_load_def
  by (simp, metis host_desktop_same)

lemma desktop_only_with_service [desktop_only_rules]: "desktop_only (with_service m)"
  unfolding with_service_def by (intro desktop_only_rules)

lemma desktop_only_Nil [desktop_only_rules]: "desktop_only (all_checks [])"
  by (simp add: desktop_only_return)

lemma desktop_only_Cons [desktop_only_rules]:
  assumes "desktop_only m" "desktop_only (all_checks ms)"
  shows "desktop_only (all_checks (m # ms))"
  unfolding all_checks.simps using assms
  by (intro desktop_only_bind) (auto intro: desktop_only_return)

text \<open>The steps of a host program, one rule for each form of its first action.\<close>

lemma step_on_desktop:
  "(\<And>a w. wp (f a) Q (s\<lparr>desktop := w\<rparr>)) \<Longrightarrow> wp (State_Monad.bind (on_desktop m) f) Q s"
  unfolding wp_bind by (rule wp_on_desktop)

lemma step_with_service:
  "(\<And>a w. wp (f a) Q (s\<lparr>desktop := w\<rparr>)) \<Longrightarrow> wp (State_Monad.bind (with_service m) f) Q s"
  unfolding wp_bind by (rule wp_with_service)

lemma step_all_checks:
  "desktop_only (all_checks ms) \<Longrightarrow> (\<And>a w. wp (f a) Q (s\<lparr>desktop := w\<rparr>)) \<Longrightarrow>
   wp (State_Monad.bind (all_checks ms) f) Q s"
  unfolding wp_bind by (rule wp_desktop_only)

lemma step_is_owner:
  "wp (f (lock_owner s = self)) Q s \<Longrightarrow> wp (State_Monad.bind (is_owner self) f) Q s"
  by (simp add: wp_simps)

lemma step_get_service:
  "wp (f (service s)) Q s \<Longrightarrow> wp (State_Monad.bind get_service f) Q s"
  by (simp add: wp_simps)

lemma step_set_service:
  "wp (f ()) Q (s\<lparr>service := g (service s)\<rparr>) \<Longrightarrow> wp (State_Monad.bind (set_service g) f) Q s"
  by (simp add: wp_simps)

lemmas host_steps = step_on_desktop step_with_service step_all_checks step_is_owner
  step_get_service step_set_service step_return step_assoc step_if step_case end_case step_let
  step_bind_let wp_branch wp_done wp_on_desktop wp_with_service desktop_only_rules

subsection \<open>The resources\<close>

text \<open>\<open>owns raw clip s\<close> is the host with the two ownership flags replaced.\<close>

definition owns :: "bool \<Rightarrow> bool \<Rightarrow> 'w \<Rightarrow> 'w host \<Rightarrow> 'w host" where
  "owns raw clip w s = s\<lparr>desktop := w,
     service := (service s)\<lparr>mouse_raw_owned := raw, mouse_clip_owned := clip\<rparr>\<rparr>"

abbreviation raw_flag :: "'w host \<Rightarrow> bool" where "raw_flag s \<equiv> mouse_raw_owned (service s)"
abbreviation clip_flag :: "'w host \<Rightarrow> bool" where "clip_flag s \<equiv> mouse_clip_owned (service s)"

lemma owns_owns [simp]: "owns r c w (owns r' c' w' s) = owns r c w s"
  by (simp add: owns_def)

lemma owns_desktop [simp]: "(owns r c w s)\<lparr>desktop := w'\<rparr> = owns r c w' s"
  by (simp add: owns_def)

lemma desktop_owns: "s\<lparr>desktop := w\<rparr> = owns (raw_flag s) (clip_flag s) w s"
  by (simp add: owns_def)

lemma owns_members [simp]:
  "lock_owner (owns r c w s) = lock_owner s" "desktop (owns r c w s) = w"
  "service (owns r c w s) = (service s)\<lparr>mouse_raw_owned := r, mouse_clip_owned := c\<rparr>"
  by (simp_all add: owns_def)

lemma host_update_order: "s\<lparr>service := v, desktop := w\<rparr> = s\<lparr>desktop := w, service := v\<rparr>"
  by simp

lemma cleanup_raw_rule:
  assumes "\<And>b r w. (b \<longrightarrow> \<not> r) \<Longrightarrow> (r \<longrightarrow> raw_flag s) \<Longrightarrow> Q b (owns r (clip_flag s) w s)"
  shows "wp (service_mouse_cleanup_raw ops apis) Q s"
  unfolding service_mouse_cleanup_raw_def
  using assms [of False "raw_flag s" "desktop s"] assms [of _ "raw_flag s"] assms [of _ False]
  by (auto simp: wp_simps owns_def host_update_order intro!: wp_on_desktop)

lemma cleanup_clip_rule:
  assumes "\<And>b c w. (b \<longrightarrow> \<not> c) \<Longrightarrow> (c \<longrightarrow> clip_flag s) \<Longrightarrow> Q b (owns (raw_flag s) c w s)"
  shows "wp (service_mouse_cleanup_clip ops) Q s"
  unfolding service_mouse_cleanup_clip_def
  using assms [of False "clip_flag s" "desktop s"] assms [of _ "clip_flag s"] assms [of _ False]
  by (auto simp: wp_simps owns_def host_update_order intro!: wp_on_desktop)

lemma restore_raw_rule:
  assumes "\<And>b r w. (b \<longrightarrow> r) \<Longrightarrow> Q b (owns r (clip_flag s) w s)"
  shows "wp (service_mouse_restore_raw ops apis) Q s"
  unfolding service_mouse_restore_raw_def
  using assms [of False "raw_flag s" "desktop s"] assms [of _ "raw_flag s"] assms [of _ True]
  by (auto simp: wp_simps owns_def host_update_order intro!: wp_on_desktop)

lemma restore_clip_rule:
  assumes "\<And>b c w. (b \<longrightarrow> c) \<Longrightarrow> Q b (owns (raw_flag s) c w s)"
  shows "wp (service_mouse_restore_clip ops) Q s"
  unfolding service_mouse_restore_clip_def
  using assms [of False "clip_flag s" "desktop s"] assms [of _ "clip_flag s"] assms [of _ True]
  by (auto simp: wp_simps owns_def host_update_order intro!: wp_on_desktop)

lemmas step_cleanup_raw = cleanup_raw_rule [where Q = "\<lambda>a. wp (f a) Q" for f Q, folded wp_bind]
lemmas step_cleanup_clip = cleanup_clip_rule [where Q = "\<lambda>a. wp (f a) Q" for f Q, folded wp_bind]
lemmas step_restore_raw = restore_raw_rule [where Q = "\<lambda>a. wp (f a) Q" for f Q, folded wp_bind]
lemmas step_restore_clip = restore_clip_rule [where Q = "\<lambda>a. wp (f a) Q" for f Q, folded wp_bind]

subsection \<open>Cleanup\<close>

text \<open>The members the lock never changes, and the object with all members of the lock replaced.\<close>

definition same_identity :: "service_state \<Rightarrow> service_state \<Rightarrow> bool" where
  "same_identity st st' \<longleftrightarrow>
     hwnd st' = hwnd st \<and> record_data st' = record_data st
     \<and> owner_thread st' = owner_thread st \<and> owner_process st' = owner_process st
     \<and> fullscreen st' = fullscreen st \<and> fullscreen_known st' = fullscreen_known st
     \<and> restore_valid st' = restore_valid st \<and> windowed_visible st' = windowed_visible st
     \<and> windowed_style st' = windowed_style st \<and> windowed_ex_style st' = windowed_ex_style st
     \<and> windowed_placement st' = windowed_placement st"

text \<open>While the lock is held the baseline stays as it was.\<close>

definition same_baseline :: "service_state \<Rightarrow> service_state \<Rightarrow> bool" where
  "same_baseline st st' \<longleftrightarrow> same_identity st st'
     \<and> mouse_baseline_valid st' = mouse_baseline_valid st
     \<and> mouse_baseline_clip st' = mouse_baseline_clip st
     \<and> mouse_locked_clip st' = mouse_locked_clip st
     \<and> mouse_baseline_devices st' = mouse_baseline_devices st
     \<and> mouse_baseline_count st' = mouse_baseline_count st"

lemma same_identity_refl [simp]: "same_identity st st" "same_baseline st st"
  by (simp_all add: same_identity_def same_baseline_def)

lemma same_identity_trans: "same_identity a b \<Longrightarrow> same_identity b c \<Longrightarrow> same_identity a c"
  by (simp add: same_identity_def)

lemma same_baseline_trans: "same_baseline a b \<Longrightarrow> same_baseline b c \<Longrightarrow> same_baseline a c"
  by (simp add: same_baseline_def same_identity_def)

lemma complete_cleanup_rule:
  assumes "self \<noteq> 0" "lock_owner s = self"
    and "\<And>s'. lock_owner s' = 0 \<Longrightarrow> mouse_released (service s') False \<Longrightarrow>
      mouse_lock_state (service s') = (if teardown then Lock_Teardown_Prepared else Lock_Off) \<Longrightarrow>
      same_identity (service s) (service s') \<Longrightarrow> Q True s'"
  shows "wp (service_mouse_complete_cleanup ops self teardown) Q s"
  unfolding service_mouse_complete_cleanup_def mouse_lock_owner_release_def mouse_baseline_free_def
  using assms
  by (auto simp: wp_simps mouse_released_def same_identity_def intro!: wp_on_desktop)

text \<open>
  Restoring the lock either ends in the locked state or leaves the baseline and the cell alone.
\<close>

lemma restore_locked_rule:
  assumes "\<And>s'. lock_owner s' = lock_owner s \<Longrightarrow> same_baseline (service s) (service s') \<Longrightarrow>
      Q False s'"
    and "\<And>s'. lock_owner s' = lock_owner s \<Longrightarrow> same_baseline (service s) (service s') \<Longrightarrow>
      mouse_lock_state (service s') = Lock_Locked \<Longrightarrow> mouse_lock_committed (service s') \<Longrightarrow>
      mouse_raw_owned (service s') \<Longrightarrow> mouse_clip_owned (service s') \<Longrightarrow> Q True s'"
  shows "wp (service_mouse_restore_locked ops self apis) Q s"
  unfolding service_mouse_restore_locked_def enter_cleanup_def
  apply (intro host_steps step_restore_raw step_restore_clip)
  apply (simp_all add: same_baseline_def same_identity_def assms)
  done

lemmas step_restore_locked =
  restore_locked_rule [where Q = "\<lambda>a. wp (f a) Q" for f Q, folded wp_bind]
lemmas step_complete_cleanup =
  complete_cleanup_rule [where Q = "\<lambda>a. wp (f a) Q" for f Q, folded wp_bind]

subsection \<open>The invariant\<close>

text \<open>\<open>mine\<close> tells whether the owner cell holds the object's address.\<close>

definition lock_consistent :: "service_state \<Rightarrow> bool \<Rightarrow> bool" where
  "lock_consistent st mine \<longleftrightarrow>
     (case mouse_lock_state st of
        Lock_Off \<Rightarrow> mouse_released st mine
      | Lock_Teardown_Prepared \<Rightarrow> mouse_released st mine
      | Lock_Locked \<Rightarrow> mine \<and> mouse_baseline_valid st \<and> mouse_lock_committed st
          \<and> mouse_raw_owned st \<and> mouse_clip_owned st
      | Lock_Cleanup \<Rightarrow> mine \<and> mouse_baseline_valid st \<and> \<not> mouse_delivery_enabled st)"

definition lock_held :: "service_state \<Rightarrow> bool" where
  "lock_held st \<longleftrightarrow> mouse_lock_state st = Lock_Locked \<or> mouse_lock_state st = Lock_Cleanup"

lemma consistent_held: "lock_consistent st mine \<Longrightarrow> lock_held st \<longleftrightarrow> mine"
  by (auto simp: lock_consistent_def lock_held_def mouse_released_def split: lock_state.splits)

lemma wp_cases_sum:
  "(\<And>a. x = Inl a \<Longrightarrow> wp (m a) Q s) \<Longrightarrow> (\<And>b. x = Inr b \<Longrightarrow> wp (n b) Q s) \<Longrightarrow>
   wp (case x of Inl a \<Rightarrow> m a | Inr b \<Rightarrow> n b) Q s"
  by (cases x) simp_all

text \<open>The guards let only a held lock through and otherwise at most mark an idle object.\<close>

lemma cleanup_guards_rule:
  assumes idle: "\<And>status w. (status = SERVICE_OK \<longrightarrow> teardown \<longrightarrow>
        mouse_lock_state (service s) = Lock_Teardown_Prepared) \<Longrightarrow>
      (status = SERVICE_OK \<longrightarrow> \<not> teardown \<longrightarrow> mouse_lock_state (service s) = Lock_Off) \<Longrightarrow>
      Q (Inl status) (s\<lparr>desktop := w\<rparr>)"
    and prepared: "\<And>w. teardown \<Longrightarrow> mouse_lock_state (service s) = Lock_Off \<Longrightarrow>
      Q (Inl SERVICE_OK) (s\<lparr>desktop := w,
        service := (service s)\<lparr>mouse_lock_state := Lock_Teardown_Prepared\<rparr>\<rparr>)"
    and held: "\<And>live w. self \<noteq> 0 \<Longrightarrow> lock_owner s = self \<Longrightarrow> mouse_baseline_valid (service s) \<Longrightarrow>
      lock_held (service s) \<Longrightarrow> live \<or> teardown \<Longrightarrow> Q (Inr live) (s\<lparr>desktop := w\<rparr>)"
  shows "wp (cleanup_guards ops self teardown) Q s"
proof -
  have off: "wp (State_Monad.bind (on_desktop (mouse_off_exact ops st mine live)) f) Q s'"
    if "\<And>a w. (a \<longrightarrow> mouse_lock_state st = Lock_Off) \<Longrightarrow> wp (f a) Q (s'\<lparr>desktop := w\<rparr>)"
    for st mine live f and s' :: "'a host"
  proof -
    have "wp (mouse_off_exact ops st mine live) (\<lambda>a _. a \<longrightarrow> mouse_lock_state st = Lock_Off)
        (desktop s')"
      unfolding mouse_off_exact_def by (auto simp: wp_simps intro!: wp_any)
    then show ?thesis unfolding wp_bind wp_on_desktop_run by (rule wp_mono) (rule that)
  qed
  show ?thesis
    unfolding cleanup_guards_def
    apply (intro off host_steps)
    using idle [of SERVICE_INVALID "desktop s"]
    apply (auto simp: host_update_order mouse_prepared_exact_def lock_held_def idle held prepared)
    done
qed

lemma cleanup_raw_if_rule:
  assumes "\<And>b r w. (b \<longrightarrow> \<not> r) \<Longrightarrow> (r \<longrightarrow> raw_flag s) \<Longrightarrow> Q b (owns r (clip_flag s) w s)"
  shows "wp (cleanup_raw_if ops apis) Q s"
  unfolding cleanup_raw_if_def
  using assms [of False "raw_flag s" "desktop s"]
  by (intro end_case cleanup_raw_rule assms) (auto simp: wp_simps owns_def)

lemmas step_cleanup_raw_if =
  cleanup_raw_if_rule [where Q = "\<lambda>a. wp (f a) Q" for f Q, folded wp_bind]

text \<open>Removing the lock touches the two flags only, and is clean only when both are off.\<close>

lemma cleanup_take_apart_rule:
  assumes "\<And>answers r c w. Q answers (owns r c w s)"
  shows "wp (cleanup_take_apart ops rollback live apis) Q s"
  unfolding cleanup_take_apart_def
  by (intro host_steps step_cleanup_raw_if step_cleanup_clip) (auto simp: desktop_owns intro!: assms)

lemma cleanup_inspect_rule:
  assumes "\<And>clean w. (clean \<longrightarrow> \<not> raw_flag s \<and> \<not> clip_flag s \<and> lock_owner s = self) \<Longrightarrow>
      Q clean (s\<lparr>desktop := w\<rparr>)"
  shows "wp (cleanup_inspect ops self rollback live apis answers) Q s"
  unfolding cleanup_inspect_def
  by (cases answers) (simp, intro host_steps, auto intro!: assms)

lemma step_cleanup_release:
  assumes "\<And>clean r c w. (clean \<longrightarrow> \<not> r \<and> \<not> c \<and> lock_owner s = self) \<Longrightarrow>
      wp (f clean) Q (owns r c w s)"
  shows "wp (State_Monad.bind (cleanup_take_apart ops rollback live apis) (\<lambda>answers.
      State_Monad.bind (cleanup_inspect ops self rollback live apis answers) f)) Q s"
  unfolding wp_bind
  by (rule cleanup_take_apart_rule, rule cleanup_inspect_rule) (use assms in simp)

lemmas step_cleanup_guards =
  cleanup_guards_rule [where Q = "\<lambda>a. wp (f a) Q" for f Q, folded wp_bind]

text \<open>What one cleanup call makes of a consistent object, by the status it returns.\<close>

definition cleanup_outcome :: "bool \<Rightarrow> bool \<Rightarrow> u64 \<Rightarrow> 'w host \<Rightarrow> int \<Rightarrow> 'w host \<Rightarrow> bool" where
  "cleanup_outcome teardown rollback self s r s' \<longleftrightarrow>
     lock_consistent (service s') (lock_owner s' = self)
     \<and> same_identity (service s) (service s')
     \<and> (lock_owner s' = lock_owner s \<or> lock_owner s = self \<and> lock_owner s' = 0)
     \<and> (r = SERVICE_OK \<longrightarrow> mouse_lock_state (service s') =
          (if teardown then Lock_Teardown_Prepared else Lock_Off))
     \<and> (lock_held (service s') \<longrightarrow> lock_held (service s) \<and> same_baseline (service s) (service s'))
     \<and> (mouse_lock_state (service s') = Lock_Teardown_Prepared \<longrightarrow>
          teardown \<or> service s' = service s)
     \<and> (rollback \<or> teardown \<longrightarrow> mouse_lock_state (service s') = Lock_Locked \<longrightarrow>
          mouse_lock_state (service s) = Lock_Locked \<and> service s' = service s)"

text \<open>The state in which a held lock is taken apart.\<close>

definition in_cleanup :: "u64 \<Rightarrow> service_state \<Rightarrow> 'w host \<Rightarrow> bool" where
  "in_cleanup self st s \<longleftrightarrow>
     lock_owner s = self \<and> same_baseline st (service s) \<and> mouse_baseline_valid (service s)
     \<and> mouse_lock_state (service s) = Lock_Cleanup \<and> \<not> mouse_delivery_enabled (service s)"

lemma in_cleanup_owns: "in_cleanup self st s \<Longrightarrow> in_cleanup self st (owns r c w s)"
  by (auto simp: in_cleanup_def same_baseline_def same_identity_def)

lemma in_cleanup_consistent:
  "in_cleanup self st s \<Longrightarrow> lock_consistent (service s) (lock_owner s = self)"
  by (simp add: in_cleanup_def lock_consistent_def)

lemma enter_cleanup_rule:
  assumes "lock_owner s = self" "same_baseline st (service s)" "mouse_baseline_valid (service s)"
    and "\<And>s'. in_cleanup self st s' \<Longrightarrow> wp (f ()) Q s'"
  shows "wp (State_Monad.bind enter_cleanup f) Q s"
  unfolding enter_cleanup_def
  by (rule step_set_service, rule assms(4))
    (use assms(1-3) in \<open>auto simp: in_cleanup_def same_baseline_def same_identity_def\<close>)

lemma cleanup_not_clean_rule:
  assumes start: "in_cleanup self st s"
    and "\<And>s'. in_cleanup self st s' \<Longrightarrow> Q SERVICE_UNAVAILABLE s'"
    and "\<And>s'. restore \<Longrightarrow> lock_owner s' = self \<Longrightarrow> same_baseline st (service s') \<Longrightarrow>
      lock_consistent (service s') True \<Longrightarrow> mouse_lock_state (service s') = Lock_Locked \<Longrightarrow>
      Q SERVICE_UNAVAILABLE s'"
  shows "wp (cleanup_not_clean ops self restore apis) Q s"
proof -
  have st: "lock_owner s = self" "same_baseline st (service s)" "mouse_baseline_valid (service s)"
    using start by (auto simp: in_cleanup_def)
  have after: "lock_owner s' = self" "same_baseline st (service s')" "mouse_baseline_valid (service s')"
    if "lock_owner s' = lock_owner s" "same_baseline (service s) (service s')" for s' :: "'a host"
    using st that same_baseline_trans [of st "service s" "service s'"]
    by (auto simp: same_baseline_def)
  have failed: "wp (State_Monad.bind enter_cleanup (\<lambda>_. State_Monad.return SERVICE_UNAVAILABLE)) Q s'"
    if "lock_owner s' = lock_owner s" "same_baseline (service s) (service s')" for s' :: "'a host"
    by (rule enter_cleanup_rule [OF after [OF that]]) (simp add: wp_simps assms(2))
  have undone: "Q SERVICE_UNAVAILABLE s'"
    if "restore" "lock_owner s' = lock_owner s" "same_baseline (service s) (service s')"
      "mouse_lock_state (service s') = Lock_Locked" "mouse_lock_committed (service s')"
      "mouse_raw_owned (service s')" "mouse_clip_owned (service s')" for s' :: "'a host"
    using that after [OF that(2,3)] by (intro assms(3)) (simp_all add: lock_consistent_def)
  have now: "wp (State_Monad.bind enter_cleanup (\<lambda>_. State_Monad.return SERVICE_UNAVAILABLE)) Q s"
    by (rule failed) simp_all
  show ?thesis
    unfolding cleanup_not_clean_def
    by (intro host_steps step_restore_locked) (simp_all add: failed now undone del: wp_simps)
qed

lemma cleanup_held_rule:
  assumes "self \<noteq> 0" "lock_owner s = self" "mouse_baseline_valid (service s)"
    "lock_held (service s)"
  shows "wp (cleanup_held ops self teardown rollback live)
    (\<lambda>r s'. cleanup_outcome teardown rollback self s r s') s"
proof -
  define st where "st = service s"
  have stuck: "cleanup_outcome teardown rollback self s SERVICE_UNAVAILABLE s'"
    if "in_cleanup self st s'" for s'
    using that assms in_cleanup_consistent [OF that]
    by (auto simp: cleanup_outcome_def in_cleanup_def st_def same_baseline_def)
  have undone: "cleanup_outcome teardown rollback self s SERVICE_UNAVAILABLE s'"
    if "\<not> teardown" "\<not> rollback" "lock_owner s' = self" "same_baseline st (service s')"
      "lock_consistent (service s') True" for s'
    using that assms
    by (auto simp: cleanup_outcome_def st_def same_baseline_def lock_consistent_def
        mouse_released_def)
  have gone: "cleanup_outcome teardown rollback self s SERVICE_OK s'"
    if "lock_owner s' = 0" "mouse_released (service s') False"
      "mouse_lock_state (service s') = (if teardown then Lock_Teardown_Prepared else Lock_Off)"
      "in_cleanup self st s1" "same_identity (service s1) (service s')" for s' s1
    using that assms same_identity_trans [of st "service s1" "service s'"]
    by (auto simp: cleanup_outcome_def lock_consistent_def lock_held_def in_cleanup_def
        same_baseline_def st_def)
  have ready: "same_baseline st (service s)" by (simp add: st_def)
  note owner = assms(2)
  have rest: "wp (State_Monad.bind enter_cleanup (\<lambda>_. State_Monad.bind
        (cleanup_take_apart ops rollback live apis) (\<lambda>answers. State_Monad.bind
        (cleanup_inspect ops self rollback live apis answers) (\<lambda>clean.
          if \<not> clean
          then cleanup_not_clean ops self (\<not> teardown \<and> \<not> rollback \<and> allowed \<and> live) apis
          else State_Monad.bind (service_mouse_complete_cleanup ops self teardown) (\<lambda>completed.
            if completed then State_Monad.return SERVICE_OK else
            State_Monad.bind enter_cleanup (\<lambda>_. State_Monad.return SERVICE_UNAVAILABLE))))))
      (\<lambda>r s'. cleanup_outcome teardown rollback self s r s') (s\<lparr>desktop := w\<rparr>)" for apis allowed w
  proof (rule enter_cleanup_rule [of _ self st])
    fix s1 :: "'a host"
    assume s1: "in_cleanup self st s1"
    then have own1: "lock_owner s1 = self" by (simp add: in_cleanup_def)
    show "wp (State_Monad.bind
        (cleanup_take_apart ops rollback live apis) (\<lambda>answers. State_Monad.bind
        (cleanup_inspect ops self rollback live apis answers) (\<lambda>clean.
          if \<not> clean
          then cleanup_not_clean ops self (\<not> teardown \<and> \<not> rollback \<and> allowed \<and> live) apis
          else State_Monad.bind (service_mouse_complete_cleanup ops self teardown) (\<lambda>completed.
            if completed then State_Monad.return SERVICE_OK else
            State_Monad.bind enter_cleanup (\<lambda>_. State_Monad.return SERVICE_UNAVAILABLE)))))
      (\<lambda>r s'. cleanup_outcome teardown rollback self s r s') s1"
    proof (rule step_cleanup_release, rule wp_branch)
      fix clean r c w
      show "wp (cleanup_not_clean ops self (\<not> teardown \<and> \<not> rollback \<and> allowed \<and> live) apis)
          (cleanup_outcome teardown rollback self s) (owns r c w s1)"
      proof (rule cleanup_not_clean_rule [OF in_cleanup_owns [OF s1]], goal_cases)
        case (1 s')
        then show ?case by (rule stuck)
      next
        case (2 s')
        show ?case by (rule undone) (use 2 in auto)
      qed
      show "wp (State_Monad.bind (service_mouse_complete_cleanup ops self teardown) (\<lambda>completed.
            if completed then State_Monad.return SERVICE_OK else
            State_Monad.bind enter_cleanup (\<lambda>_. State_Monad.return SERVICE_UNAVAILABLE)))
          (cleanup_outcome teardown rollback self s) (owns r c w s1)"
        by (rule step_complete_cleanup)
          (use assms(1) own1 gone [OF _ _ _ in_cleanup_owns [OF s1]] in \<open>auto simp: wp_simps\<close>)
    qed
  qed (use assms ready in simp_all)
  show ?thesis
    unfolding cleanup_held_def
    by (intro host_steps) (rule rest | subst host_desktop_twice, rule rest)+
qed

lemma cleanup_outcome_desktop:
  "cleanup_outcome teardown rollback self (s\<lparr>desktop := w\<rparr>) = cleanup_outcome teardown rollback self s"
  by (simp add: cleanup_outcome_def fun_eq_iff)

lemma cleanup_rule:
  assumes "lock_consistent (service s) (lock_owner s = self)"
  shows "wp (service_mouse_cleanup ops self teardown rollback)
    (\<lambda>r s'. cleanup_outcome teardown rollback self s r s') s"
  unfolding service_mouse_cleanup_def
proof (rule step_cleanup_guards, goal_cases)
  case (1 status w)
  then show ?case using assms
    by (auto simp: wp_simps cleanup_outcome_def)
next
  case (2 w)
  then show ?case using assms
    by (auto simp: wp_simps cleanup_outcome_def lock_consistent_def mouse_released_def
        lock_held_def same_identity_def)
next
  case (3 live w)
  have "wp (cleanup_held ops self teardown rollback live)
    (cleanup_outcome teardown rollback self (s\<lparr>desktop := w\<rparr>)) (s\<lparr>desktop := w\<rparr>)"
    by (rule cleanup_held_rule) (use 3 in simp_all)
  then show ?case by (simp only: cleanup_outcome_desktop sum.case)
qed

subsection \<open>Acquiring\<close>

definition acquire_outcome :: "u64 \<Rightarrow> 'w host \<Rightarrow> int \<Rightarrow> 'w host \<Rightarrow> bool" where
  "acquire_outcome self s r s' \<longleftrightarrow>
     lock_consistent (service s') (lock_owner s' = self)
     \<and> same_identity (service s) (service s')
     \<and> (lock_owner s' = lock_owner s \<or> lock_owner s = 0 \<and> lock_owner s' = self)
     \<and> (r = SERVICE_OK \<longrightarrow> mouse_lock_state (service s) = Lock_Off \<and> lock_owner s = 0
          \<and> mouse_lock_state (service s') = Lock_Locked \<and> mouse_delivery_enabled (service s'))
     \<and> (r \<noteq> SERVICE_OK \<longrightarrow> service s' = service s \<and> lock_owner s' = lock_owner s
          \<or> mouse_lock_state (service s) = Lock_Off \<and> lock_owner s = 0
            \<and> (mouse_lock_state (service s') = Lock_Off
               \<or> mouse_lock_state (service s') = Lock_Cleanup)
            \<and> \<not> mouse_delivery_enabled (service s'))"

text \<open>Taking the resources changes the two flags; success means both are owned.\<close>

lemma mouse_candidate_rule:
  "wp (mouse_acquire_candidate_exact ops st mine apis)
     (\<lambda>b _. b \<longrightarrow> mouse_raw_owned st \<and> mouse_clip_owned st) w"
  unfolding mouse_acquire_candidate_exact_def by (auto simp: wp_simps intro!: wp_any)

lemma wp_with_service_candidate:
  assumes "\<And>b w. (b \<longrightarrow> raw_flag s \<and> clip_flag s) \<Longrightarrow> Q b (s\<lparr>desktop := w\<rparr>)"
  shows "wp (with_service (\<lambda>st. mouse_acquire_candidate_exact ops st mine apis)) Q s"
  unfolding with_service_def wp_bind wp_get_service wp_on_desktop_run
  by (rule wp_mono [OF mouse_candidate_rule]) (rule assms)

lemma acquire_resources_rule:
  assumes "\<And>b r c w. (b \<longrightarrow> r \<and> c) \<Longrightarrow> Q b (owns r c w s)"
  shows "wp (acquire_resources ops self apis client_clip) Q s"
  unfolding acquire_resources_def
  by (intro wp_with_service_candidate host_steps)
    (use assms assms [of False "raw_flag s" "clip_flag s"] assms [of False True "clip_flag s"]
      in \<open>auto simp: owns_def host_update_order\<close>)

lemmas step_acquire_resources =
  acquire_resources_rule [where Q = "\<lambda>a. wp (f a) Q" for f Q, folded wp_bind]

lemma owner_claim_rule:
  assumes "self \<noteq> 0 \<Longrightarrow> lock_owner s = 0 \<Longrightarrow> wp (f True) Q (s\<lparr>lock_owner := self\<rparr>)"
    and "wp (f False) Q s"
  shows "wp (State_Monad.bind (mouse_lock_owner_claim self) f) Q s"
  using assms by (simp add: wp_simps mouse_lock_owner_claim_def)

text \<open>The first two checks: the object is off and nobody holds the lock.\<close>

lemma off_step:
  assumes "desktop_only (all_checks ms)"
    and "\<And>a w. (a \<longrightarrow> mouse_lock_state st = Lock_Off \<and> lock_owner s = 0) \<Longrightarrow>
      wp (f a) Q (s\<lparr>desktop := w\<rparr>)"
  shows "wp (State_Monad.bind (all_checks
      (on_desktop (mouse_off_exact ops st mine live) # is_owner 0 # ms)) f) Q s"
proof -
  have "wp (mouse_off_exact ops st mine live) (\<lambda>a _. a \<longrightarrow> mouse_lock_state st = Lock_Off) (desktop s)"
    unfolding mouse_off_exact_def by (auto simp: wp_simps intro!: wp_any)
  then have "wp (on_desktop (mouse_off_exact ops st mine live))
      (\<lambda>a s'. (a \<longrightarrow> mouse_lock_state st = Lock_Off) \<and> (\<exists>w. s' = s\<lparr>desktop := w\<rparr>)) s"
    unfolding wp_on_desktop_run by (rule wp_mono) auto
  then show ?thesis
    unfolding wp_bind wp_all_checks_Cons
    by (rule wp_mono)
      (auto simp: wp_simps assms(2) intro!: wp_desktop_only [OF assms(1)])
qed

lemma step_cleanup:
  assumes "lock_consistent (service s) (lock_owner s = self)"
    and "\<And>r s'. cleanup_outcome teardown rollback self s r s' \<Longrightarrow> wp (f r) Q s'"
  shows "wp (State_Monad.bind (service_mouse_cleanup ops self teardown rollback) f) Q s"
  by (rule wp_follow [OF cleanup_rule [OF assms(1)] assms(2)])

lemma acquire_outcome_desktop:
  "acquire_outcome self (s\<lparr>desktop := w\<rparr>) = acquire_outcome self s"
  by (simp add: acquire_outcome_def fun_eq_iff)

lemma acquire_claimed_rule:
  assumes "lock_consistent (service s) False" "mouse_lock_state (service s) = Lock_Off"
    "lock_owner s = 0" "self \<noteq> 0"
  shows "wp (acquire_claimed ops self apis baseline current_clip client_clip)
    (\<lambda>r s'. acquire_outcome self s r s') s"
proof -
  define s1 where "s1 = s\<lparr>lock_owner := self, service := (service s)\<lparr>
    mouse_baseline_devices := items baseline, mouse_baseline_count := item_count baseline,
    mouse_baseline_clip := current_clip, mouse_locked_clip := client_clip,
    mouse_baseline_valid := True, mouse_lock_state := Lock_Cleanup\<rparr>\<rparr>"
  have s1: "lock_owner s1 = self" "same_identity (service s) (service s1)"
    "mouse_lock_state (service s1) = Lock_Cleanup" "mouse_baseline_valid (service s1)"
    "\<not> mouse_delivery_enabled (service s1)"
    using assms by (auto simp: s1_def same_identity_def lock_consistent_def mouse_released_def)
  have locked: "acquire_outcome self s SERVICE_OK
      ((owns True True w s1)\<lparr>service := (service (owns True True w s1))\<lparr>mouse_lock_committed := True,
         mouse_delivery_enabled := True, mouse_lock_state := Lock_Locked\<rparr>\<rparr>)" for w
    using s1 assms by (simp add: acquire_outcome_def lock_consistent_def same_identity_def)
  have consistent: "lock_consistent (service (owns r c w s1)) (lock_owner (owns r c w s1) = self)"
    for r c w using s1 by (simp add: lock_consistent_def)
  have undone: "acquire_outcome self s SERVICE_UNAVAILABLE s'"
    if "cleanup_outcome False True self (owns r c w s1) q s'" for r c w q s'
  proof -
    have o: "lock_owner s' = self \<or> lock_owner s' = 0" and c: "lock_consistent (service s') (lock_owner s' = self)"
      and i: "same_identity (service (owns r c w s1)) (service s')"
      and l: "mouse_lock_state (service s') \<noteq> Lock_Locked"
      using that s1 by (auto simp: cleanup_outcome_def)
    have p: "mouse_lock_state (service s') \<noteq> Lock_Teardown_Prepared"
      using that s1 by (auto simp: cleanup_outcome_def)
    have "same_identity (service s) (service s')"
      using i s1(2) by (auto simp: same_identity_def)
    moreover have "\<not> mouse_delivery_enabled (service s')"
      using c l by (auto simp: lock_consistent_def mouse_released_def split: lock_state.splits)
    moreover have "mouse_lock_state (service s') = Lock_Off \<or> mouse_lock_state (service s') = Lock_Cleanup"
      using l p by (cases "mouse_lock_state (service s')") auto
    ultimately show ?thesis using o c assms by (auto simp: acquire_outcome_def)
  qed
  have s1_raw: "s\<lparr>lock_owner := self, service := (service (s\<lparr>lock_owner := self\<rparr>))\<lparr>
      mouse_baseline_devices := items baseline, mouse_baseline_count := item_count baseline,
      mouse_baseline_clip := current_clip, mouse_locked_clip := client_clip,
      mouse_baseline_valid := True, mouse_lock_state := Lock_Cleanup\<rparr>\<rparr> = s1"
    by (simp add: s1_def)
  have idle: "acquire_outcome self s SERVICE_UNAVAILABLE (s\<lparr>desktop := w\<rparr>)" for w
    using assms by (simp add: acquire_outcome_def)
  show ?thesis
    unfolding acquire_claimed_def
    by (intro owner_claim_rule host_steps step_acquire_resources step_cleanup,
        simp_all only: s1_raw not_True_eq_False not_False_eq_True simp_thms)
      (use locked consistent undone idle in blast)+
qed

lemma acquire_rule:
  assumes "lock_consistent (service s) (lock_owner s = self)"
  shows "wp (service_mouse_acquire ops self) (\<lambda>r s'. acquire_outcome self s r s') s"
proof -
  have same: "acquire_outcome self s r (s\<lparr>desktop := w\<rparr>)" if "r \<noteq> SERVICE_OK" for r w
    using that assms by (auto simp: acquire_outcome_def)
  have same': "acquire_outcome self s r s" if "r \<noteq> SERVICE_OK" for r
    using same [OF that, of "desktop s"] by simp
  have claimed: "wp (acquire_claimed ops self apis baseline current_clip client_clip)
      (acquire_outcome self s) (s\<lparr>desktop := w\<rparr>)"
    if "self \<noteq> 0" "mouse_lock_state (service s) = Lock_Off" "lock_owner s = 0"
    for apis baseline current_clip client_clip w
  proof -
    have "wp (acquire_claimed ops self apis baseline current_clip client_clip)
      (acquire_outcome self (s\<lparr>desktop := w\<rparr>)) (s\<lparr>desktop := w\<rparr>)"
      by (rule acquire_claimed_rule) (use that assms in simp_all)
    then show ?thesis by (simp only: acquire_outcome_desktop)
  qed
  show ?thesis
  proof (cases "self = 0")
    case True
    have "acquire_outcome self s SERVICE_INVALID s" by (rule same') simp
    then show ?thesis unfolding service_mouse_acquire_def True by (simp add: wp_simps)
  next
    case False
    then show ?thesis
      unfolding service_mouse_acquire_def
      by (intro off_step host_steps) (simp_all add: same same' claimed split: prod.split)
  qed
qed

subsection \<open>Several services and one owner cell\<close>

text \<open>
  The process: the desktop, the owner cell and the service objects by address. A step is one call
  on the object at an address, the creation or the release of an object, or anything that happens
  on the desktop meanwhile. Calls on one object come from its owner thread, and one call is one
  step.
\<close>

record 'w process =
  screen :: 'w
  owner_cell :: u64
  services :: "u64 \<Rightarrow> service_state option"

datatype mouse_call = Set_Mouse_Lock bool | Focus_Lost | Disable_Delivery | Prepare_Teardown
  | Delivery_Active | Observe

definition run_call :: "('w, 'x) mouse_ops_scheme \<Rightarrow> u64 \<Rightarrow> mouse_call \<Rightarrow> ('w host, unit) state" where
  "run_call ops self call =
     (case call of
        Set_Mouse_Lock enabled \<Rightarrow> do { service_set_mouse_lock ops self enabled; State_Monad.return () }
      | Focus_Lost \<Rightarrow> do { service_focus_lost ops self; State_Monad.return () }
      | Disable_Delivery \<Rightarrow> do { service_disable_mouse_delivery ops self; State_Monad.return () }
      | Prepare_Teardown \<Rightarrow> do { service_prepare_window_teardown ops self; State_Monad.return () }
      | Delivery_Active \<Rightarrow> do { service_mouse_delivery_active ops self; State_Monad.return () }
      | Observe \<Rightarrow> do { service_mouse_observation ops self; State_Monad.return () })"

definition fresh_service :: "service_state \<Rightarrow> bool" where
  "fresh_service st \<longleftrightarrow> mouse_lock_state st = Lock_Off \<and> mouse_released st False"

inductive process_step :: "('w, 'x) mouse_ops_scheme \<Rightarrow> 'w process \<Rightarrow> 'w process \<Rightarrow> bool"
  for ops where
  call: "services p self = Some st \<Longrightarrow> self \<noteq> 0 \<Longrightarrow>
     run_state (run_call ops self call) \<lparr>desktop = screen p, lock_owner = owner_cell p, service = st\<rparr>
       = ((), s') \<Longrightarrow>
     process_step ops p (p\<lparr>screen := desktop s', owner_cell := lock_owner s',
       services := (services p)(self \<mapsto> service s')\<rparr>)"
| create: "services p self = None \<Longrightarrow> self \<noteq> 0 \<Longrightarrow> fresh_service st \<Longrightarrow>
     process_step ops p (p\<lparr>screen := w, services := (services p)(self \<mapsto> st)\<rparr>)"
| release: "services p self = Some st \<Longrightarrow> self \<noteq> 0 \<Longrightarrow>
     run_state (service_release ops self) \<lparr>desktop = screen p, lock_owner = owner_cell p, service = st\<rparr>
       = ((r, True), s') \<Longrightarrow>
     process_step ops p (p\<lparr>screen := desktop s', owner_cell := lock_owner s',
       services := (services p)(self := None)\<rparr>)"
| outside: "process_step ops p (p\<lparr>screen := w\<rparr>)"

inductive process_reachable :: "('w, 'x) mouse_ops_scheme \<Rightarrow> 'w process \<Rightarrow> bool" for ops where
  start: "process_reachable ops \<lparr>screen = w, owner_cell = 0, services = Map.empty\<rparr>"
| further: "process_reachable ops p \<Longrightarrow> process_step ops p p' \<Longrightarrow> process_reachable ops p'"

definition process_ok :: "'w process \<Rightarrow> bool" where
  "process_ok p \<longleftrightarrow>
     (\<forall>a st. services p a = Some st \<longrightarrow> a \<noteq> 0 \<and> lock_consistent st (owner_cell p = a))
     \<and> (owner_cell p \<noteq> 0 \<longrightarrow> services p (owner_cell p) \<noteq> None)"

lemma disable_rule:
  assumes "lock_consistent (service s) (lock_owner s = self)"
  shows "wp (service_disable_mouse_delivery ops self)
    (\<lambda>r s'. lock_consistent (service s') (lock_owner s' = self) \<and> lock_owner s' = lock_owner s) s"
  unfolding service_disable_mouse_delivery_def
  by (intro host_steps)
    (use assms in \<open>auto simp: lock_consistent_def split: lock_state.splits\<close>)

text \<open>One call on a consistent object keeps it consistent and moves the cell at most between 0 and it.\<close>

definition call_keeps :: "u64 \<Rightarrow> 'w host \<Rightarrow> 'w host \<Rightarrow> bool" where
  "call_keeps self s s' \<longleftrightarrow>
     lock_consistent (service s') (lock_owner s' = self)
     \<and> (lock_owner s' = lock_owner s \<or> lock_owner s \<in> {0, self} \<and> lock_owner s' \<in> {0, self})"

lemma run_call_keeps:
  assumes "lock_consistent (service s) (lock_owner s = self)"
  shows "wp (run_call ops self call) (\<lambda>_ s'. call_keeps self s s') s"
proof -
  have cleanup: "wp (State_Monad.bind (service_mouse_cleanup ops self teardown rollback)
      (\<lambda>_. State_Monad.return ())) (\<lambda>_ s'. call_keeps self s s') s" for teardown rollback
    by (rule step_cleanup [OF assms]) (auto simp: wp_simps call_keeps_def cleanup_outcome_def)
  have acquire: "wp (State_Monad.bind (service_mouse_acquire ops self)
      (\<lambda>_. State_Monad.return ())) (\<lambda>_ s'. call_keeps self s s') s"
    by (rule wp_follow [OF acquire_rule [OF assms]])
      (auto simp: wp_simps call_keeps_def acquire_outcome_def)
  have disable: "wp (State_Monad.bind (service_disable_mouse_delivery ops self)
      (\<lambda>_. State_Monad.return ())) (\<lambda>_ s'. call_keeps self s s') s"
    by (rule wp_follow [OF disable_rule [OF assms]]) (auto simp: wp_simps call_keeps_def)
  have still: "call_keeps self s (s\<lparr>desktop := w\<rparr>)" "call_keeps self s s" for w
    using assms by (simp_all add: call_keeps_def)
  have observe: "wp (State_Monad.bind (service_mouse_observation ops self)
      (\<lambda>_. State_Monad.return ())) (\<lambda>_ s'. call_keeps self s s') s"
    unfolding service_mouse_observation_def
    by (intro host_steps) (use still in simp_all)
  have active: "wp (State_Monad.bind (service_mouse_delivery_active ops self)
      (\<lambda>_. State_Monad.return ())) (\<lambda>_ s'. call_keeps self s s') s"
    unfolding service_mouse_delivery_active_def
    by (intro host_steps) (use still in simp_all)
  show ?thesis
    unfolding run_call_def service_set_mouse_lock_def service_focus_lost_def
      service_prepare_window_teardown_def
    using cleanup acquire disable observe active by (cases call) auto
qed

lemma process_step_ok:
  assumes "process_step ops p p'" "process_ok p"
  shows "process_ok p'"
  using assms
proof (induction rule: process_step.induct)
  case (call p self st call s')
  let ?s = "\<lparr>desktop = screen p, lock_owner = owner_cell p, service = st\<rparr>"
  have start: "lock_consistent (service ?s) (lock_owner ?s = self)"
    using call by (auto simp: process_ok_def)
  have keeps: "call_keeps self ?s s'"
    by (rule wpD [OF run_call_keeps [OF start] call.hyps(3)])
  have others: "lock_consistent st' (lock_owner s' = a)"
    if "services p a = Some st'" "a \<noteq> self" for a st'
  proof -
    have "a \<noteq> 0" "lock_consistent st' (owner_cell p = a)"
      using call.prems that by (auto simp: process_ok_def)
    then show ?thesis using keeps that by (auto simp: call_keeps_def)
  qed
  have known: "a \<noteq> 0" if "services p a = Some st'" for a st'
    using call.prems that by (auto simp: process_ok_def)
  have "lock_owner s' \<noteq> 0 \<Longrightarrow> lock_owner s' = self \<or> services p (lock_owner s') \<noteq> None"
    using keeps call.prems by (auto simp: call_keeps_def process_ok_def)
  then show ?case
    using keeps others known call.hyps(2) unfolding process_ok_def
    by (auto simp: call_keeps_def)
next
  case (release p self st r s')
  let ?s = "\<lparr>desktop = screen p, lock_owner = owner_cell p, service = st\<rparr>"
  have "wp (service_release ops self)
      (\<lambda>(r, gone) s'. lock_owner s' = owner_cell p \<and> (gone \<longrightarrow> mouse_released st (owner_cell p = self))) ?s"
    unfolding service_release_def
    by (intro host_steps) (auto simp: mouse_prepared_exact_def)
  then have "lock_owner s' = owner_cell p" "mouse_released st (owner_cell p = self)"
    using wpD release.hyps(3) by fastforce+
  then show ?case using release.prems
    by (auto simp: process_ok_def mouse_released_def)
next
  case (create p self st w)
  then have "(owner_cell p = self) = False" by (auto simp: process_ok_def)
  then have "lock_consistent st (owner_cell p = self)"
    using create.hyps(3) by (simp only: fresh_service_def lock_consistent_def) simp
  then show ?case using create by (auto simp: process_ok_def)
next
  case (outside p w)
  then show ?case by (simp add: process_ok_def)
qed

lemma process_reachable_ok: "process_reachable ops p \<Longrightarrow> process_ok p"
proof (induction rule: process_reachable.induct)
  case (start w)
  then show ?case by (simp add: process_ok_def)
next
  case (further p p')
  then show ?case by (blast intro: process_step_ok)
qed

end
