(* ===== verification/Win32_Window_Props.thy ===== *)
theory Win32_Window_Props
  imports Win32_Window Win32_Mouse_Inv
begin

text \<open>
  Properties of the window service: a new object is made for the owner of its window only, and is
  the fresh object the mouse lock starts from;
  no command touches the window without authority over it; the fullscreen flag changes only with
  status OK; and a failed exit from fullscreen either leaves the window as it was or says that
  its state is no longer known.
\<close>

subsection \<open>The saved placement\<close>

text \<open>The object without the members of the saved placement.\<close>

definition without_restore :: "service_state \<Rightarrow> service_state" where
  "without_restore st = st\<lparr>windowed_style := 0, windowed_ex_style := 0,
     windowed_placement := \<lparr>placement_flags = 0, show_cmd = 0, min_x = 0, min_y = 0,
       max_x = 0, max_y = 0, normal_position = zero_rect\<rparr>,
     windowed_visible := False, restore_valid := False\<rparr>"

lemma without_restore_update [simp]:
  "without_restore (st\<lparr>windowed_style := a, windowed_ex_style := b, windowed_placement := p,
     windowed_visible := v, restore_valid := r\<rparr>) = without_restore st"
  by (simp add: without_restore_def)

definition restore_saved :: "'w host \<Rightarrow> bool \<Rightarrow> 'w host \<Rightarrow> bool" where
  "restore_saved s b s' \<longleftrightarrow>
     lock_owner s' = lock_owner s
     \<and> without_restore (service s') = without_restore (service s)
     \<and> (if b then restore_valid (service s') else service s' = service s)"

lemma capture_restore_rule: "wp (service_capture_restore ops) (restore_saved s) s"
  unfolding service_capture_restore_def
  by (intro host_steps) (simp_all add: restore_saved_def)

lemma synthesize_restore_rule: "wp (service_synthesize_restore ops) (restore_saved s) s"
  unfolding service_synthesize_restore_def
  by (intro host_steps step_pair end_pair) (simp_all add: restore_saved_def)

lemma step_capture_restore:
  "(\<And>b s'. restore_saved s b s' \<Longrightarrow> wp (f b) Q s') \<Longrightarrow>
   wp (State_Monad.bind (service_capture_restore ops) f) Q s"
  by (rule wp_follow [OF capture_restore_rule])

lemma step_synthesize_restore:
  "(\<And>b s'. restore_saved s b s' \<Longrightarrow> wp (f b) Q s') \<Longrightarrow>
   wp (State_Monad.bind (service_synthesize_restore ops) f) Q s"
  by (rule wp_follow [OF synthesize_restore_rule])

subsection \<open>Queries that report the state\<close>

text \<open>\<open>answers view P m\<close>: the query \<open>m\<close> does not change what \<open>view\<close> reads, and its answer fits it.\<close>

definition answers :: "('w \<Rightarrow> 'v) \<Rightarrow> ('v \<Rightarrow> 'a \<Rightarrow> bool) \<Rightarrow> ('w, 'a) state \<Rightarrow> bool" where
  "answers view P m \<longleftrightarrow> (\<forall>w. wp m (\<lambda>a w'. view w' = view w \<and> P (view w) a) w)"

lemma answers_step:
  "answers view P m \<Longrightarrow> (\<And>a w'. view w' = view w \<Longrightarrow> P (view w) a \<Longrightarrow> wp (f a) Q w') \<Longrightarrow>
   wp (State_Monad.bind m f) Q w"
  unfolding answers_def wp_bind by (blast intro: wp_mono)

lemma step_desktop_answers:
  assumes "answers view P m"
    "\<And>a w'. view w' = view (desktop s) \<Longrightarrow> P (view (desktop s)) a \<Longrightarrow> wp (f a) Q (s\<lparr>desktop := w'\<rparr>)"
  shows "wp (State_Monad.bind (on_desktop m) f) Q s"
  unfolding wp_bind wp_on_desktop_run
  by (rule wp_mono [OF assms(1) [unfolded answers_def, rule_format]]) (auto intro: assms(2))

subsection \<open>Creating\<close>

lemma fresh_without_restore:
  assumes "without_restore st = without_restore (new_service w r t p i x y z b)"
  shows "fresh_service st" "hwnd st = w" "record_data st = r" "owner_thread st = t"
    "owner_process st = p" "fullscreen st = i" "fullscreen_known st"
  using assms
  by (cases st, simp add: without_restore_def new_service_def fresh_service_def mouse_released_def)+

text \<open>What the desktop says about a window and about who is running, and the queries that report it.\<close>

record window_facts =
  window_live :: bool
  window_thread :: u32
  window_process :: u32
  running_thread :: u32
  running_process :: u32
  window_record :: u64

definition reports_facts :: "('w, 'x) window_ops_scheme \<Rightarrow> u64 \<Rightarrow> ('w \<Rightarrow> window_facts) \<Rightarrow> bool" where
  "reports_facts ops window facts \<longleftrightarrow>
     answers facts (\<lambda>f a. a = window_live f) (is_window ops window)
     \<and> answers facts (\<lambda>f a. a = (window_thread f, window_process f)) (window_thread_process ops window)
     \<and> answers facts (\<lambda>f a. a = running_thread f) (current_thread ops)
     \<and> answers facts (\<lambda>f a. a = running_process f) (current_process ops)
     \<and> answers facts (\<lambda>f a. a = window_record f) (get_window_long ops window GWLP_USERDATA)"

text \<open>The window is there, belongs to the thread and the process that are running, and carries the record.\<close>

definition own_window :: "u64 \<Rightarrow> u64 \<Rightarrow> window_facts \<Rightarrow> bool" where
  "own_window window record f \<longleftrightarrow> window \<noteq> 0 \<and> window_live f
     \<and> window_thread f \<noteq> 0 \<and> window_thread f = running_thread f
     \<and> window_process f \<noteq> 0 \<and> window_process f = running_process f \<and> window_record f = record"

lemma live_answers:
  assumes "reports_facts ops window facts"
  shows "answers facts (\<lambda>f a. a \<longleftrightarrow> window \<noteq> 0 \<and> window_live f)
    (all_checks [check (window \<noteq> 0), is_window ops window])"
proof -
  have "answers facts (\<lambda>f a. a = window_live f) (is_window ops window)"
    using assms by (simp add: reports_facts_def)
  then show ?thesis unfolding answers_def all_checks.simps
    by (intro allI step_return wp_branch wp_done answers_step [OF \<open>answers _ _ (is_window _ _)\<close>]) auto
qed

lemma ours_answers:
  assumes "reports_facts ops window facts"
  shows "answers facts (\<lambda>f a. a \<longleftrightarrow> thread \<noteq> 0 \<and> thread = running_thread f \<and> pid \<noteq> 0
      \<and> pid = running_process f \<and> window_record f = record)
    (all_checks
       [check (thread \<noteq> 0),
        do { t \<leftarrow> current_thread ops; check (thread = t) },
        check (pid \<noteq> 0),
        do { p \<leftarrow> current_process ops; check (pid = p) },
        do { d \<leftarrow> get_window_long ops window GWLP_USERDATA; check (d = record) }])"
proof -
  have reports: "answers facts (\<lambda>f a. a = running_thread f) (current_thread ops)"
      "answers facts (\<lambda>f a. a = running_process f) (current_process ops)"
      "answers facts (\<lambda>f a. a = window_record f) (get_window_long ops window GWLP_USERDATA)"
    using assms by (simp_all add: reports_facts_def)
  show ?thesis unfolding answers_def all_checks.simps
    by (intro allI step_return step_assoc wp_branch wp_done reports [THEN answers_step]) auto
qed

text \<open>The service runs with authority wherever the window is still as it was.\<close>

lemma authority_answers:
  assumes "reports_facts ops (hwnd st) facts"
  shows "answers facts (\<lambda>f a. own_window (hwnd st) (record_data st) f \<and> owner_thread st = window_thread f
      \<and> owner_process st = window_process f \<longrightarrow> a = SERVICE_OK) (service_authority ops st)"
proof -
  have reports: "answers facts (\<lambda>f a. a = (window_thread f, window_process f)) (window_thread_process ops (hwnd st))"
      "answers facts (\<lambda>f a. a = running_thread f) (current_thread ops)"
      "answers facts (\<lambda>f a. a = running_process f) (current_process ops)"
      "answers facts (\<lambda>f a. a = window_record f) (get_window_long ops (hwnd st) GWLP_USERDATA)"
    using assms by (simp_all add: reports_facts_def)
  have ours: "answers facts (\<lambda>f a. a \<longleftrightarrow> b \<and> pid = running_process f \<and> window_record f = data)
    (all_checks [check b,
       do { p \<leftarrow> current_process ops; check (pid = p) },
       do { d \<leftarrow> get_window_long ops (hwnd st) GWLP_USERDATA; check (d = data) }])" for b pid data
    unfolding answers_def all_checks.simps
    by (intro allI step_return step_assoc wp_branch wp_done reports(3,4) [THEN answers_step]) auto
  show ?thesis unfolding answers_def service_authority_def Let_def
    by (intro allI answers_step [OF live_answers [OF assms]] wp_branch wp_done
        answers_step [OF reports(1)] answers_step [OF ours] answers_step [OF reports(2)])
      (auto simp: own_window_def)
qed

definition created :: "u64 \<Rightarrow> u64 \<Rightarrow> bool \<Rightarrow> window_facts \<Rightarrow> service_state \<Rightarrow> bool" where
  "created window record initial_fullscreen f st \<longleftrightarrow>
     fresh_service st \<and> restore_valid st \<and> hwnd st = window \<and> record_data st = record
     \<and> owner_thread st = running_thread f \<and> owner_process st = running_process f
     \<and> fullscreen st = initial_fullscreen \<and> fullscreen_known st"

definition save_placement :: "('w, 'x) window_ops_scheme \<Rightarrow> bool \<Rightarrow> ('w host, bool) state" where
  "save_placement ops initial_fullscreen =
     (if initial_fullscreen then service_synthesize_restore ops else service_capture_restore ops)"

text \<open>The reasons for which an object is refused over a window that may have one.\<close>

definition creation_fails :: "('w, 'x) window_ops_scheme \<Rightarrow> bool \<Rightarrow> (service_state \<Rightarrow> bool) \<Rightarrow> bool" where
  "creation_fails ops initial_fullscreen is_new \<longleftrightarrow>
     (\<exists>d. fst (run_state (calloc_service ops) d) = 0)
     \<or> (\<exists>t. is_new (service t) \<and> \<not> fst (run_state (save_placement ops initial_fullscreen) t))"

lemma step_alloc:
  assumes "\<And>a d. a = fst (run_state m (desktop s)) \<Longrightarrow> wp (f a) Q (s\<lparr>desktop := d\<rparr>)"
  shows "wp (State_Monad.bind (on_desktop m) f) Q s"
  unfolding wp_bind wp_on_desktop_run wp_run [of m] by (rule assms) simp

lemma step_saved:
  assumes "\<And>b s'. restore_saved s b s' \<Longrightarrow> b = fst (run_state (save_placement ops i) s) \<Longrightarrow> wp (f b) Q s'"
  shows "wp (State_Monad.bind (if i then service_synthesize_restore ops else service_capture_restore ops) f) Q s"
  unfolding save_placement_def [symmetric]
proof -
  have "wp (save_placement ops i) (restore_saved s) s"
    unfolding save_placement_def by (intro wp_branch capture_restore_rule synthesize_restore_rule)
  then have "wp (save_placement ops i) (\<lambda>b s'. restore_saved s b s' \<and> b = fst (run_state (save_placement ops i) s)) s"
    by (simp add: wp_run)
  then show "wp (State_Monad.bind (save_placement ops i) f) Q s"
    by (rule wp_follow) (simp add: assms)
qed

lemma created_new:
  assumes "own_window window record f" "t = window_thread f" "p = window_process f"
    "restore_saved (s\<lparr>desktop := d, service := new_service window record t p i x y z bl\<rparr>) True s'"
  shows "lock_owner s' = lock_owner s" "created window record i f (service s')"
  using assms fresh_without_restore [of "service s'" window "record" t p i x y z bl]
  by (simp_all add: restore_saved_def created_def own_window_def)

lemma created_authority:
  assumes "reports_facts ops window facts" "own_window window record (facts w)"
    "created window record i (facts w) st"
  shows "fst (run_state (service_authority ops st) w) = SERVICE_OK"
proof -
  have "reports_facts ops (hwnd st) facts" using assms by (simp add: created_def)
  from authority_answers [OF this, unfolded answers_def, rule_format, of w] assms(2,3) show ?thesis
    by (auto simp: wp_run created_def own_window_def)
qed

definition creation_outcome ::
    "('w, 'x) window_ops_scheme \<Rightarrow> u64 \<Rightarrow> u64 \<Rightarrow> bool \<Rightarrow> window_facts \<Rightarrow> 'w host \<Rightarrow> (service_state \<Rightarrow> bool) \<Rightarrow>
     u64 \<Rightarrow> 'w host \<Rightarrow> bool" where
  "creation_outcome ops window record i f s is_new self s' \<longleftrightarrow>
     lock_owner s' = lock_owner s
     \<and> (if self \<noteq> 0 then own_window window record f \<and> created window record i f (service s')
        else if own_window window record f then creation_fails ops i is_new
        else service s' = service s)"

lemma create_outcome:
  fixes s :: "'w host"
  assumes "reports_facts ops window facts" and f: "f = facts (desktop s)"
  shows "wp (service_create ops window record i w h is_resizable is_borderless)
     (creation_outcome ops window record i f s
        (\<lambda>st. st = new_service window record (window_thread f) (window_process f) i w h is_resizable is_borderless)) s"
proof -
  have ids: "answers facts (\<lambda>f a. a = (window_thread f, window_process f)) (window_thread_process ops window)"
    using assms by (simp add: reports_facts_def)
  let ?new = "\<lambda>st. st = new_service window record (window_thread f) (window_process f) i w h is_resizable is_borderless"
  have made: "wp (do {
      set_service (\<lambda>_. new_service window record (window_thread f) (window_process f) i w h is_resizable is_borderless);
      captured \<leftarrow> (if i then service_synthesize_restore ops else service_capture_restore ops);
      if \<not> captured then do { on_desktop (free_service ops self); State_Monad.return 0 }
      else State_Monad.return self })
      (creation_outcome ops window record i f s ?new) (s\<lparr>desktop := d\<rparr>)"
    if "own_window window record f" "self \<noteq> 0" for self d
  proof (rule step_set_service, rule step_saved, rule wp_branch, goal_cases)
    case (1 b t)
    then have "creation_fails ops i ?new"
      unfolding creation_fails_def
      by (intro disjI2 exI [of _ "s\<lparr>desktop := d, service := new_service window record (window_thread f)
        (window_process f) i w h is_resizable is_borderless\<rparr>"]) simp
    with 1 that show ?case
      by (intro step_on_desktop wp_done) (simp add: creation_outcome_def restore_saved_def)
  next
    case (2 b t)
    then have "restore_saved (s\<lparr>desktop := d, service := new_service window record (window_thread f)
        (window_process f) i w h is_resizable is_borderless\<rparr>) True t" by simp
    from created_new [OF that(1) refl refl this] that show ?case
      by (intro wp_done) (simp add: creation_outcome_def)
  qed
  show ?thesis unfolding service_create_def
  proof (rule step_desktop_answers [OF live_answers [OF assms(1)]], rule wp_branch, goal_cases)
    case (1 live d)
    then show ?case by (intro wp_done) (auto simp: creation_outcome_def own_window_def f)
  next
    case (2 live d)
    note live = this
    show ?case
    proof (rule step_desktop_answers [OF ids], rule step_desktop_answers [OF ours_answers [OF assms(1)]],
        rule wp_branch, goal_cases)
      case (1 ids d ours d')
      with live show ?case by (intro wp_done) (auto simp: creation_outcome_def own_window_def f)
    next
      case (2 ids d ours d')
      with live have own: "own_window window record f" and ids: "ids = (window_thread f, window_process f)"
        by (auto simp: own_window_def f)
      show ?case
      proof (rule step_alloc, rule wp_branch, goal_cases)
        case (1 self e)
        then have "creation_fails ops i ?new" by (auto simp: creation_fails_def)
        then show ?case by (intro wp_done) (simp add: creation_outcome_def own)
      next
        case (2 self e)
        then show ?case using made [OF own] by (simp add: ids)
      qed
    qed
  qed
qed

text \<open>C32: Creating a service. The object is made only over a window that is there, belongs to the thread and
  the process that are running and carries the record; it is then owned by them, has authority over the
  window, and starts with the lock off and nothing of it held, the fullscreen flag known to be the initial
  one and a placement saved to return to. Over any other window nothing is made and no object touched;
  over such a window only a lack of memory or a placement that cannot be saved prevents it. The owner of
  the mouse lock stays. Assumed is that the queries report the facts of the desktop and do not change them.
\<close>

theorem service_create_fresh:
  assumes "reports_facts ops window facts"
  shows "wp (service_create ops window record i w h is_resizable is_borderless)
     (\<lambda>self s'. let f = facts (desktop s) in
        lock_owner s' = lock_owner s
        \<and> (if self \<noteq> 0 then
             own_window window record f \<and> created window record i f (service s')
             \<and> fst (run_state (service_authority ops (service s')) (desktop s)) = SERVICE_OK
           else if own_window window record f then
             creation_fails ops i (\<lambda>st. st = new_service window record (window_thread f) (window_process f)
               i w h is_resizable is_borderless)
           else service s' = service s)) s"
  by (rule wp_mono [OF create_outcome [OF assms refl]])
    (auto simp: creation_outcome_def Let_def intro: created_authority [OF assms] split: if_splits)

subsection \<open>Authority\<close>

datatype window_command = Show | Hide | Focus | Raise | Move_To i32 i32 | Minimize | Maximize
  | Restore | Set_Fullscreen bool

definition run_command ::
    "('w, 'x) window_ops_scheme \<Rightarrow> u64 \<Rightarrow> window_command \<Rightarrow> ('w host, int) state" where
  "run_command ops self command =
     (case command of
        Show \<Rightarrow> service_show_window ops self
      | Hide \<Rightarrow> service_hide_window ops self
      | Focus \<Rightarrow> service_focus_window ops self
      | Raise \<Rightarrow> service_raise_window ops self
      | Move_To x y \<Rightarrow> service_set_window_position ops self x y
      | Minimize \<Rightarrow> service_minimize_window ops self
      | Maximize \<Rightarrow> service_maximize_window ops self
      | Restore \<Rightarrow> service_restore_window ops self
      | Set_Fullscreen enabled \<Rightarrow> service_set_fullscreen ops self enabled)"

lemma run_with_service:
  "run_state (with_service m) s = (case run_state (m (service s)) (desktop s) of
     (a, w) \<Rightarrow> (a, s\<lparr>desktop := w\<rparr>))"
  by (simp add: with_service_def get_service_def on_desktop_def)

text \<open>Without authority over the window (it is gone, belongs to another thread or process, or
  carries another record) every window command does nothing but ask for the authority, leaves the
  object and the mouse lock as they are, and returns the reason; on a null object it returns
  INVALID and asks nothing.\<close>
theorem window_command_needs_authority:
  assumes "run_state (service_authority ops (service s)) (desktop s) = (code, w)" "code \<noteq> 1"
  shows "run_state (run_command ops self command) s =
    (if self = 0 then (- 2, s) else (code, s\<lparr>desktop := w\<rparr>))"
  by (cases command)
    (simp_all add: run_command_def with_authority_def run_with_service assms
      service_show_window_def service_hide_window_def service_focus_window_def
      service_raise_window_def service_set_window_position_def service_minimize_window_def
      service_maximize_window_def service_restore_window_def service_set_fullscreen_def)

subsection \<open>The fullscreen flag\<close>

text \<open>The object without the placement and without the two fullscreen flags.\<close>

definition fixed_part :: "service_state \<Rightarrow> service_state" where
  "fixed_part st = (without_restore st)\<lparr>fullscreen := False, fullscreen_known := False\<rparr>"

lemma fixed_part_flags [simp]:
  "fixed_part (st\<lparr>fullscreen := a, fullscreen_known := b\<rparr>) = fixed_part st"
  "fixed_part (st\<lparr>fullscreen := a\<rparr>) = fixed_part st"
  "fixed_part (st\<lparr>fullscreen_known := b\<rparr>) = fixed_part st"
  by (simp_all add: fixed_part_def without_restore_def)

lemma restore_saved_fixed:
  "restore_saved s b s' \<Longrightarrow> lock_owner s' = lock_owner s \<and> fixed_part (service s') = fixed_part (service s)"
  by (simp add: restore_saved_def fixed_part_def)

lemma restore_saved_fullscreen:
  assumes "restore_saved s b s'"
  shows "fullscreen (service s') = fullscreen (service s)"
    "fullscreen_known (service s') = fullscreen_known (service s)"
proof -
  have "without_restore (service s') = without_restore (service s)"
    using assms by (simp add: restore_saved_def)
  then have "fullscreen (without_restore (service s')) = fullscreen (without_restore (service s))"
    "fullscreen_known (without_restore (service s')) = fullscreen_known (without_restore (service s))"
    by simp_all
  then show "fullscreen (service s') = fullscreen (service s)"
    "fullscreen_known (service s') = fullscreen_known (service s)"
    by (simp_all add: without_restore_def)
qed

definition fullscreen_outcome :: "bool \<Rightarrow> 'w host \<Rightarrow> int \<Rightarrow> 'w host \<Rightarrow> bool" where
  "fullscreen_outcome enabled s code s' \<longleftrightarrow>
     lock_owner s' = lock_owner s \<and> fixed_part (service s') = fixed_part (service s)
     \<and> (if code = SERVICE_OK
        then fullscreen (service s') = enabled \<and> fullscreen_known (service s')
        else fullscreen (service s') = fullscreen (service s)
          \<and> (if enabled then fullscreen_known (service s') = fullscreen_known (service s)
             else fullscreen_known (service s') \<le> fullscreen_known (service s)))"

lemma enter_rule: "wp (enter_fullscreen ops) (fullscreen_outcome True s) s"
  unfolding enter_fullscreen_def
  by (intro step_capture_restore host_steps step_pair end_pair)
    (simp_all add: fullscreen_outcome_def restore_saved_fixed restore_saved_fullscreen)

lemma leave_rule:
  assumes "fullscreen_known (service s)"
  shows "wp (leave_fullscreen ops) (fullscreen_outcome False s) s"
  unfolding leave_fullscreen_def if_then_def
  by (intro host_steps) (simp_all add: fullscreen_outcome_def assms)

lemma fullscreen_outcome_desktop:
  "fullscreen_outcome enabled (s\<lparr>desktop := w\<rparr>) = fullscreen_outcome enabled s"
  by (simp add: fullscreen_outcome_def fun_eq_iff)

text \<open>Changing the fullscreen state returns OK exactly by leaving the flag at the requested
  value and known; any other status leaves the flag at its old value, and only a failed exit can
  make it unknown. The mouse lock, the window and the owner are never touched.\<close>
theorem set_fullscreen_status:
  "wp (service_set_fullscreen ops self enabled) (fullscreen_outcome enabled s) s"
proof -
  have enter: "wp (enter_fullscreen ops) (fullscreen_outcome True s) (s\<lparr>desktop := w\<rparr>)" for w
    using enter_rule [of ops "s\<lparr>desktop := w\<rparr>"] by (simp only: fullscreen_outcome_desktop)
  have leave: "wp (leave_fullscreen ops) (fullscreen_outcome False s) (s\<lparr>desktop := w\<rparr>)"
    if "fullscreen_known (service s)" for w
    using leave_rule [of "s\<lparr>desktop := w\<rparr>" ops] that by (simp add: fullscreen_outcome_desktop)
  show ?thesis
    unfolding service_set_fullscreen_def
    by (intro host_steps) (simp_all add: enter leave, simp_all add: fullscreen_outcome_def)
qed

subsection \<open>Rolling back a failed exit\<close>

text \<open>
  \<open>view\<close> reads the native state of a window off a desktop. The queries of the snapshot report it
  or fail, and neither they nor those of the authority change it; the setters are free.
\<close>

definition snapshot_reads ::
    "('w, 'x) window_ops_scheme \<Rightarrow> u64 \<Rightarrow> ('w \<Rightarrow> native_snapshot) \<Rightarrow> bool" where
  "snapshot_reads ops window view \<longleftrightarrow>
     keeps view (is_window ops window) \<and> keeps view (window_thread_process ops window)
     \<and> keeps view (current_thread ops) \<and> keeps view (current_process ops)
     \<and> keeps view (get_window_long ops window GWLP_USERDATA)
     \<and> answers view (\<lambda>v a. a = snapshot_style v) (get_window_long ops window GWL_STYLE)
     \<and> answers view (\<lambda>v a. a = snapshot_ex_style v) (get_window_long ops window GWL_EXSTYLE)
     \<and> answers view (\<lambda>v a. a = snapshot_visible v) (is_window_visible ops window)
     \<and> answers view (\<lambda>v a. a = None \<or> a = Some (snapshot_placement v)) (get_placement ops window)
     \<and> answers view (\<lambda>v a. a = None \<or> a = Some (snapshot_rect v)) (get_window_rect ops window)"

lemma authority_keeps:
  assumes "snapshot_reads ops (hwnd st) view"
  shows "keeps view (service_authority ops st)"
  unfolding service_authority_def Let_def
  by (intro keeps_rules) (use assms in \<open>simp_all add: snapshot_reads_def\<close>)

lemma snapshot_readsD:
  assumes "snapshot_reads ops window view"
  shows "keeps view (is_window ops window)"
    "answers view (\<lambda>v a. a = snapshot_style v) (get_window_long ops window GWL_STYLE)"
    "answers view (\<lambda>v a. a = snapshot_ex_style v) (get_window_long ops window GWL_EXSTYLE)"
    "answers view (\<lambda>v a. a = snapshot_visible v) (is_window_visible ops window)"
    "answers view (\<lambda>v a. a = None \<or> a = Some (snapshot_placement v)) (get_placement ops window)"
    "answers view (\<lambda>v a. a = None \<or> a = Some (snapshot_rect v)) (get_window_rect ops window)"
  using assms by (simp_all add: snapshot_reads_def)

lemma capture_answers:
  assumes "snapshot_reads ops window view"
  shows "answers view (\<lambda>v r. r = None \<or> r = Some v) (service_capture_native_snapshot ops window)"
proof -
  note reads = snapshot_readsD [OF assms]
  have live: "keeps view (all_checks [check (window \<noteq> 0), is_window ops window])"
    by (intro keeps_rules reads)
  show ?thesis
    unfolding answers_def service_capture_native_snapshot_def
    by (intro allI keeps_step [OF live] wp_branch wp_done end_case reads(2-) [THEN answers_step]) auto
qed

lemma matches_answers:
  assumes "snapshot_reads ops window view"
  shows "answers view (\<lambda>v b. b \<longrightarrow> v = snapshot) (service_native_snapshot_matches ops window snapshot)"
proof -
  note reads = snapshot_readsD [OF assms]
  have styled: "answers view (\<lambda>v b. b \<longrightarrow> snapshot_style v = snapshot_style snapshot
        \<and> snapshot_ex_style v = snapshot_ex_style snapshot)
      (all_checks [check (window \<noteq> 0), is_window ops window,
        do { v \<leftarrow> get_window_long ops window GWL_STYLE; check (v = snapshot_style snapshot) },
        do { v \<leftarrow> get_window_long ops window GWL_EXSTYLE; check (v = snapshot_ex_style snapshot) }])"
    unfolding answers_def all_checks.simps
    by (intro allI step_return step_assoc step_if wp_branch wp_done reads(1) [THEN keeps_step]
          reads(2-) [THEN answers_step]) auto
  show ?thesis
    unfolding answers_def service_native_snapshot_matches_def
    by (intro allI styled [THEN answers_step] wp_branch wp_done end_case reads(4-) [THEN answers_step])
      (auto simp: same_placement_def rect_equal_def)
qed

lemma restored_exactly:
  assumes "snapshot_reads ops window view"
  shows "wp (service_restore_native_snapshot ops window snapshot)
    (\<lambda>b w'. b \<longrightarrow> view w' = snapshot) w"
  unfolding service_restore_native_snapshot_def
  by (intro wp_branch wp_done wp_external
      wp_mono [OF matches_answers [OF assms, unfolded answers_def, rule_format]]) auto

definition exit_rolled_back :: "('w \<Rightarrow> native_snapshot) \<Rightarrow> 'w host \<Rightarrow> int \<Rightarrow> 'w host \<Rightarrow> bool" where
  "exit_rolled_back view s code s' \<longleftrightarrow>
     (code \<noteq> SERVICE_OK \<longrightarrow> fullscreen_known (service s') \<longrightarrow> view (desktop s') = view (desktop s))"

lemma step_desktop_keeps:
  assumes "keeps view m" "\<And>a w'. view w' = view (desktop s) \<Longrightarrow> wp (f a) Q (s\<lparr>desktop := w'\<rparr>)"
  shows "wp (State_Monad.bind (on_desktop m) f) Q s"
  unfolding wp_bind wp_on_desktop_run by (rule keeps_mono [OF assms(1)]) (rule assms(2))

lemma step_restored:
  assumes "snapshot_reads ops window view"
    "\<And>a w'. (a \<longrightarrow> view w' = snapshot) \<Longrightarrow> wp (f a) Q (s\<lparr>desktop := w'\<rparr>)"
  shows "wp (State_Monad.bind (on_desktop (service_restore_native_snapshot ops window snapshot)) f) Q s"
  unfolding wp_bind wp_on_desktop_run
  by (rule wp_mono [OF restored_exactly [OF assms(1)]]) (rule assms(2))

lemma leave_rolled_back:
  assumes "snapshot_reads ops (hwnd (service s)) view"
  shows "wp (leave_fullscreen ops) (exit_rolled_back view s) s"
  unfolding leave_fullscreen_def if_then_def
  by (intro step_get_service step_desktop_answers [OF capture_answers [OF assms]]
        step_restored [OF assms] host_steps)
    (auto simp: exit_rolled_back_def)

text \<open>C17: When leaving fullscreen fails for whatever reason, at any of its five native calls, and
  the service still claims to know the fullscreen state, then the style, the extended style, the
  placement, the rectangle and the visibility of the window are what they were before the call.
  Assumed is that the queries report the native state or fail, nothing about the setters.\<close>
theorem failed_exit_rolled_back:
  assumes "snapshot_reads ops (hwnd (service s)) view"
  shows "wp (service_set_fullscreen ops self False) (exit_rolled_back view s) s"
proof -
  have moved: "exit_rolled_back view (s\<lparr>desktop := w\<rparr>) = exit_rolled_back view s"
    if "view w = view (desktop s)" for w
    using that by (simp add: exit_rolled_back_def fun_eq_iff)
  have leave: "wp (leave_fullscreen ops) (exit_rolled_back view s) (s\<lparr>desktop := w\<rparr>)"
    if "view w = view (desktop s)" for w
    using leave_rolled_back [of ops "s\<lparr>desktop := w\<rparr>" view] assms moved [OF that] by simp
  have start: "wp (with_service (service_authority ops))
      (\<lambda>_ s'. \<exists>w. view w = view (desktop s) \<and> s' = s\<lparr>desktop := w\<rparr>) s"
    unfolding with_service_def
    by (intro step_get_service) (auto simp: wp_on_desktop_run intro: keeps_mono [OF authority_keeps [OF assms]])
  show ?thesis
    unfolding service_set_fullscreen_def
    by (intro wp_branch wp_done wp_follow [OF start] step_get_service)
      (auto simp: leave wp_simps exit_rolled_back_def)
qed

subsection \<open>The owner cell as a mutex\<close>

text \<open>
  What the lock promises to the callers: a mutex with the set of the services that deliver
  relative motion. It is taken when free, given back by clearing it, never handed over, and only
  its owner delivers.
\<close>

inductive mutex_step :: "u64 \<times> u64 set \<Rightarrow> u64 \<times> u64 set \<Rightarrow> bool" where
  take: "owner \<noteq> 0 \<Longrightarrow> active \<subseteq> {owner} \<Longrightarrow> mutex_step (0, {}) (owner, active)"
| keep: "active \<subseteq> {owner} \<Longrightarrow> active' \<subseteq> {owner} \<Longrightarrow> mutex_step (owner, active) (owner, active')"
| drop: "active \<subseteq> {owner} \<Longrightarrow> mutex_step (owner, active) (0, {})"

definition mutex_of :: "'w process \<Rightarrow> u64 \<times> u64 set" where
  "mutex_of p = (owner_cell p,
     {a. \<exists>st. services p a = Some st \<and> mouse_delivery_enabled st})"

lemma active_mine: "lock_consistent st mine \<Longrightarrow> mouse_delivery_enabled st \<Longrightarrow> mine"
  by (auto simp: lock_consistent_def mouse_released_def split: lock_state.splits)

lemma active_owner:
  assumes "process_ok p"
  shows "snd (mutex_of p) \<subseteq> {owner_cell p}" "owner_cell p = 0 \<Longrightarrow> snd (mutex_of p) = {}"
proof -
  have mine: "a = owner_cell p \<and> a \<noteq> 0"
    if "services p a = Some st" "mouse_delivery_enabled st" for a st
    using assms active_mine [of st "owner_cell p = a"] that by (auto simp: process_ok_def)
  then show "snd (mutex_of p) \<subseteq> {owner_cell p}" by (auto simp: mutex_of_def)
  show "owner_cell p = 0 \<Longrightarrow> snd (mutex_of p) = {}" using mine by (fastforce simp: mutex_of_def)
qed

lemma mutex_step_ok:
  assumes "process_ok p" "process_ok p'"
    and "owner_cell p' = owner_cell p \<or> owner_cell p = 0 \<or> owner_cell p' = 0"
  shows "mutex_step (mutex_of p) (mutex_of p')"
proof -
  obtain a d where p: "mutex_of p = (a, d)" "owner_cell p = a" by (simp add: mutex_of_def)
  obtain a' d' where p': "mutex_of p' = (a', d')" "owner_cell p' = a'" by (simp add: mutex_of_def)
  have d: "d \<subseteq> {a}" "a = 0 \<Longrightarrow> d = {}" and d': "d' \<subseteq> {a'}" "a' = 0 \<Longrightarrow> d' = {}"
    using active_owner [OF assms(1)] active_owner [OF assms(2)] p p' by auto
  consider "a' = a" | "a = 0" "a' \<noteq> 0" | "a' = 0" using assms(3) p p' by auto
  then show ?thesis
    using d d' by cases (auto simp: p p' intro: mutex_step.intros)
qed

lemma owner_moves:
  assumes "process_step ops p p'" "process_ok p"
  shows "owner_cell p' = owner_cell p \<or> owner_cell p = 0 \<or> owner_cell p' = 0"
  using assms
proof (induction rule: process_step.induct)
  case (call p self st call s')
  let ?s = "\<lparr>desktop = screen p, lock_owner = owner_cell p, service = st\<rparr>"
  have "lock_consistent (service ?s) (lock_owner ?s = self)"
    using call by (auto simp: process_ok_def)
  from wpD [OF run_call_keeps [OF this] call.hyps(3)] show ?case
    by (auto simp: call_keeps_def)
next
  case (release p self st r s')
  let ?s = "\<lparr>desktop = screen p, lock_owner = owner_cell p, service = st\<rparr>"
  have "wp (service_release ops self) (\<lambda>_ s'. lock_owner s' = owner_cell p) ?s"
    unfolding service_release_def by (intro host_steps) simp_all
  from wpD [OF this release.hyps(3)] show ?case by simp
qed simp_all

text \<open>C31: Whatever the services of a process do, in any order and with anything happening on the
  desktop in between, every step of the process is a step of the mutex (or leaves it alone): the
  owner cell is claimed only when free, is never handed from one service to another, and relative
  motion is delivered to its owner alone. Creation, release and outside events included.\<close>
theorem process_refines_mutex:
  assumes "process_reachable ops p" "process_step ops p p'"
  shows "mutex_step (mutex_of p) (mutex_of p')"
proof -
  have ok: "process_ok p" using assms(1) by (rule process_reachable_ok)
  show ?thesis
    by (rule mutex_step_ok [OF ok process_step_ok [OF assms(2) ok] owner_moves [OF assms(2) ok]])
qed

end
