(* ===== verification/Win32_Mouse_Inventory.thy ===== *)
theory Win32_Mouse_Inventory
  imports Win32_Mouse "HOL-Library.Multiset"
begin

text \<open>
  What the comparisons of raw input inventories decide: equality up to order, and being the
  baseline with exactly one registration of the lock.
\<close>

text \<open>The entries of an inventory not yet matched.\<close>

definition unmatched :: "raw_device list \<Rightarrow> bool list \<Rightarrow> raw_device list" where
  "unmatched rs ms = map fst (filter (\<lambda>(_, m). \<not> m) (zip rs ms))"

lemma unmatched_simps [simp]:
  "unmatched [] ms = []" "unmatched rs [] = []"
  "unmatched (r # rs) (m # ms) = (if m then unmatched rs ms else r # unmatched rs ms)"
  by (simp_all add: unmatched_def)

lemma unmatched_none: "unmatched rs (replicate (length rs) False) = rs"
  by (induction rs) simp_all

lemma raw_device_equal_iff: "raw_device_equal d r \<longleftrightarrow> d = r"
  by (cases d; cases r) (auto simp: raw_device_equal_def)

lemma match_device_unmatched:
  "case match_device d rs ms of
     None \<Rightarrow> d \<notin> set (unmatched rs ms)
   | Some ms' \<Rightarrow> mset (unmatched rs ms) = add_mset d (mset (unmatched rs ms'))"
  by (induction d rs ms rule: match_device.induct)
    (auto simp: raw_device_equal_iff split: option.splits)

lemma match_devices_iff:
  "match_devices ds rs ms \<longleftrightarrow> mset ds \<subseteq># mset (unmatched rs ms)"
proof (induction ds arbitrary: ms)
  case Nil
  then show ?case by simp
next
  case (Cons d ds)
  show ?case
  proof (cases "match_device d rs ms")
    case None
    then have "d \<notin># mset (unmatched rs ms)" using match_device_unmatched [of d rs ms] by simp
    then have "\<not> mset (d # ds) \<subseteq># mset (unmatched rs ms)" by (auto dest: mset_subset_eqD)
    then show ?thesis using None by simp
  next
    case (Some ms')
    then have "mset (unmatched rs ms) = add_mset d (mset (unmatched rs ms'))"
      using match_device_unmatched [of d rs ms] by simp
    then show ?thesis using Some Cons.IH [of ms'] by simp
  qed
qed

lemma match_devices_mset:
  assumes "length ds = length rs"
  shows "match_devices ds rs (replicate (length rs) False) \<longleftrightarrow> mset ds = mset rs"
proof -
  have "mset ds \<subseteq># mset rs \<longleftrightarrow> mset ds = mset rs"
    using assms by (metis size_mset mset_subset_size subset_mset.le_less subset_mset.order_refl
        less_irrefl)
  then show ?thesis by (simp add: match_devices_iff unmatched_none)
qed

text \<open>A pointer that may be read up to its count.\<close>

definition array_ok :: "raw_device list option \<Rightarrow> u32 \<Rightarrow> bool" where
  "array_ok a n \<longleftrightarrow> n = 0 \<or> (\<exists>xs. a = Some xs \<and> unat n \<le> length xs)"

lemma array_entries: "array_ok a n \<Longrightarrow> length (entries a n) = unat n"
  by (auto simp: array_ok_def entries_def split: option.splits)

lemma entries_zero [simp]: "entries a 0 = []"
  by (simp add: entries_def split: option.splits)

lemma inventory_equal_rule:
  assumes "array_ok left lc" "array_ok right rc"
    and "\<And>b w'. (b \<longrightarrow> mset (entries left lc) = mset (entries right rc)) \<Longrightarrow> Q b w'"
  shows "wp (raw_inventory_equal ops left lc right rc) Q w"
proof -
  have "match_devices (entries left lc) (entries right rc) (replicate (unat rc) False)
      \<longleftrightarrow> mset (entries left lc) = mset (entries right rc)" if "lc = rc"
    using match_devices_mset [of "entries left lc" "entries right rc"] that
      array_entries [OF assms(1)] array_entries [OF assms(2)] by simp
  then show ?thesis
    unfolding raw_inventory_equal_def using assms(3)
    by (auto simp: wp_simps Let_def intro!: wp_any)
qed

text \<open>The allocator grants every request.\<close>

definition granting :: "('w, 'x) mouse_ops_scheme \<Rightarrow> ('w, 'x) mouse_ops_scheme" where
  "granting ops = ops\<lparr>calloc_items := (\<lambda>_ _. State_Monad.return True)\<rparr>"

lemma inventory_equal_exact:
  assumes "array_ok left lc" "array_ok right rc"
    and "\<And>w'. Q (mset (entries left lc) = mset (entries right rc)) w'"
  shows "wp (raw_inventory_equal (granting ops) left lc right rc) Q w"
proof -
  have sizes: "mset (entries left lc) = mset (entries right rc) \<Longrightarrow> lc = rc"
    using array_entries [OF assms(1)] array_entries [OF assms(2)]
    by (metis size_mset unat_eqI)
  have ptrs: "lc > 0 \<Longrightarrow> left \<noteq> None" "rc > 0 \<Longrightarrow> right \<noteq> None"
    using assms(1,2) by (auto simp: array_ok_def)
  have eq: "match_devices (entries left lc) (entries right rc) (replicate (unat rc) False)
      \<longleftrightarrow> mset (entries left lc) = mset (entries right rc)" if "lc = rc"
    using match_devices_mset [of "entries left lc" "entries right rc"] that
      array_entries [OF assms(1)] array_entries [OF assms(2)] by simp
  show ?thesis
  proof (cases "lc = rc")
    case True
    then show ?thesis
      unfolding raw_inventory_equal_def granting_def using assms(3) ptrs eq
      by (cases "lc = 0") (auto simp: wp_simps Let_def word_neq_0_conv intro!: wp_any)
  next
    case False
    then have "mset (entries left lc) \<noteq> mset (entries right rc)" using sizes by blast
    then show ?thesis unfolding raw_inventory_equal_def using False assms(3)
      by (simp add: wp_simps)
  qed
qed

text \<open>The split takes out the lock's registrations and keeps the rest in order.\<close>

lemma lock_device_iff:
  "item = lock_device w \<longleftrightarrow>
     usage_page item = 0x01 \<and> usage item = 0x02 \<and> device_flags item = 0 \<and> hwnd_target item = w"
  by (cases item) (auto simp: lock_device_def)

lemma split_locked_iff:
  assumes "length remainder \<le> room"
  shows "split_locked win room xs remainder k =
    (if length remainder + length (filter (\<lambda>x. x \<noteq> lock_device win) xs) \<le> room
     then Some (remainder @ filter (\<lambda>x. x \<noteq> lock_device win) xs,
                k + count_list xs (lock_device win))
     else None)"
  using assms
proof (induction xs arbitrary: remainder k)
  case Nil
  then show ?case by simp
next
  case (Cons item xs)
  show ?case
  proof (cases "item = lock_device win")
    case True
    then have "split_locked win room (item # xs) remainder k = split_locked win room xs remainder (k + 1)"
      by (simp add: lock_device_iff [symmetric])
    then show ?thesis using True Cons.IH [OF Cons.prems, of "k + 1"] by simp
  next
    case False
    then have step: "split_locked win room (item # xs) remainder k =
      (if room \<le> length remainder then None else split_locked win room xs (remainder @ [item]) k)"
      by (simp only: split_locked.simps lock_device_iff [symmetric] if_False)
    show ?thesis
    proof (cases "room \<le> length remainder")
      case True
      then show ?thesis using False step by simp
    next
      case inside: False
      then show ?thesis using False step Cons.IH [of "remainder @ [item]" k] by simp
    qed
  qed
qed

lemma locked_inventory_iff:
  fixes xs base :: "raw_device list"
  shows "count_list xs L = 1 \<and> mset (filter (\<lambda>x. x \<noteq> L) xs) = mset base \<longleftrightarrow>
     mset xs = add_mset L (mset base) \<and> L \<notin> set base"
proof -
  have parts: "mset xs = mset (filter (\<lambda>x. x \<noteq> L) xs) + replicate_mset (count_list xs L) L"
    by (induction xs) auto
  have no: "L \<notin># mset (filter (\<lambda>x. x \<noteq> L) xs)" by simp
  show ?thesis
  proof
    assume *: "count_list xs L = 1 \<and> mset (filter (\<lambda>x. x \<noteq> L) xs) = mset base"
    then have c: "count_list xs L = 1" "mset (filter (\<lambda>x. x \<noteq> L) xs) = mset base" by auto
    have "mset xs = mset base + replicate_mset 1 L" using parts unfolding c .
    then have "mset xs = add_mset L (mset base)" by simp
    moreover have "L \<notin> set base" using c(2) no by (metis set_mset_mset)
    ultimately show "mset xs = add_mset L (mset base) \<and> L \<notin> set base" by simp
  next
    assume *: "mset xs = add_mset L (mset base) \<and> L \<notin> set base"
    have "count_list xs L = count (mset xs) L" by (induction xs) auto
    also have "\<dots> = 1" using * by (simp add: count_mset_0_iff)
    finally have one: "count_list xs L = 1" .
    have "mset xs = mset (filter (\<lambda>x. x \<noteq> L) xs) + replicate_mset 1 L" using parts unfolding one .
    then have "add_mset L (mset base) = add_mset L (mset (filter (\<lambda>x. x \<noteq> L) xs))"
      using * by (metis add_mset_add_single replicate_mset_Suc replicate_mset_0 One_nat_def)
    then show "count_list xs L = 1 \<and> mset (filter (\<lambda>x. x \<noteq> L) xs) = mset base"
      using one by (metis add_mset_add_single add_right_cancel)
  qed
qed

definition service_arrays_ok :: "service_state \<Rightarrow> bool" where
  "service_arrays_ok st \<longleftrightarrow> array_ok (mouse_baseline_devices st) (mouse_baseline_count st)"

abbreviation baseline_entries :: "service_state \<Rightarrow> raw_device list" where
  "baseline_entries st \<equiv> entries (mouse_baseline_devices st) (mouse_baseline_count st)"

abbreviation current_entries :: "raw_inventory \<Rightarrow> raw_device list" where
  "current_entries current \<equiv> entries (items current) (item_count current)"

lemma locked_exact_rule:
  assumes "service_arrays_ok st" "array_ok (items current) (item_count current)"
    and "\<And>b w'. (b \<longrightarrow> mset (current_entries current)
        = add_mset (lock_device (hwnd st)) (mset (baseline_entries st))
      \<and> lock_device (hwnd st) \<notin> set (baseline_entries st)) \<Longrightarrow> Q b w'"
  shows "wp (raw_inventory_locked_exact ops st current) Q w"
proof -
  define L where "L = lock_device (hwnd st)"
  define others where "others = filter (\<lambda>x. x \<noteq> L) (current_entries current)"
  have base: "array_ok (mouse_baseline_devices st) (mouse_baseline_count st)"
    using assms(1) by (simp add: service_arrays_ok_def)
  have split: "split_locked (hwnd st) (unat (mouse_baseline_count st)) (current_entries current) [] 0
      = (if length others \<le> unat (mouse_baseline_count st)
         then Some (others, count_list (current_entries current) L) else None)"
    using split_locked_iff [of "[]"] by (simp add: others_def L_def)
  have final: "wp (State_Monad.bind (all_checks
      [check (count_list (current_entries current) L = 1),
       check (length others = unat (mouse_baseline_count st)),
       raw_inventory_equal ops (mouse_baseline_devices st) (mouse_baseline_count st)
         (if mouse_baseline_count st > 0 then Some others else None) (of_nat (length others))])
      (\<lambda>b. State_Monad.bind (free_items ops) (\<lambda>_. State_Monad.return b))) Q v" for v
  proof (cases "length others = unat (mouse_baseline_count st)")
    case False
    then show ?thesis using assms(3) by (auto simp: wp_simps simp del: all_checks.simps intro!: wp_any)
  next
    case len: True
    define ptr where "ptr = (if mouse_baseline_count st > 0 then Some others else None)"
    have n: "(of_nat (length others) :: u32) = mouse_baseline_count st" using len by simp
    have array: "array_ok ptr (of_nat (length others))"
      using len by (cases "mouse_baseline_count st = 0") (auto simp: array_ok_def n word_gt_0 ptr_def)
    have entries: "entries ptr (of_nat (length others)) = others"
      using len by (cases "mouse_baseline_count st = 0") (auto simp: entries_def n word_gt_0 ptr_def)
    have "mset (current_entries current) = add_mset L (mset (baseline_entries st))
        \<and> L \<notin> set (baseline_entries st)"
      if "count_list (current_entries current) L = 1" "mset (baseline_entries st) = mset others"
      using locked_inventory_iff [of "current_entries current" L "baseline_entries st"] that
      by (simp add: others_def)
    then have good: "wp (raw_inventory_equal ops (mouse_baseline_devices st) (mouse_baseline_count st)
        ptr (of_nat (length others))) R v'"
      if "count_list (current_entries current) L = 1"
        "\<And>b v'. (b \<longrightarrow> mset (current_entries current) = add_mset L (mset (baseline_entries st))
          \<and> L \<notin> set (baseline_entries st)) \<Longrightarrow> R b v'" for R v'
      using that by (intro inventory_equal_rule [OF base array] that(2)) (auto simp: entries)
    have close: "wp (State_Monad.bind (free_items ops) (\<lambda>_. State_Monad.return b)) Q v'"
      if "b \<longrightarrow> mset (current_entries current) = add_mset L (mset (baseline_entries st))
          \<and> L \<notin> set (baseline_entries st)" for b v'
      by (intro wp_external wp_done assms(3)) (use that in \<open>simp add: L_def\<close>)
    show ?thesis
      unfolding ptr_def [symmetric] wp_bind [of "all_checks ms" for ms] wp_all_checks_Cons wp_all_checks_Nil wp_return
      by (auto simp: len close intro!: good [unfolded n One_nat_def])
  qed
  have refused: "Q False v" for v by (rule assms(3)) simp
  show ?thesis
  proof (cases "length others \<le> unat (mouse_baseline_count st)")
    case True
    then have "split_locked (hwnd st) (unat (mouse_baseline_count st)) (current_entries current) [] 0
        = Some (others, count_list (current_entries current) L)" by (simp add: split)
    then show ?thesis unfolding raw_inventory_locked_exact_def
      by (simp only: option.case prod.case) (intro wp_branch wp_done refused final wp_external)
  next
    case False
    then have "split_locked (hwnd st) (unat (mouse_baseline_count st)) (current_entries current) [] 0
        = None" by (simp add: split)
    then show ?thesis unfolding raw_inventory_locked_exact_def
      by (simp only: option.case) (intro wp_branch wp_done refused wp_external)
  qed
qed

end
