(* ===== verification/Win32_Mouse_Props.thy ===== *)
theory Win32_Mouse_Props
  imports Win32_Mouse_Inv Win32_Mouse_Inventory
begin

text \<open>
  The properties of the mouse lock: mutual exclusion between the services of a process, the
  meaning of each status, and, on a desktop whose calls do what Windows documents, that an
  acquired lock is visible on the desktop and that a released one has left no trace.
\<close>

subsection \<open>A lawful desktop\<close>

text \<open>
  \<open>clip\<close> and \<open>devs\<close> read the cursor clip and the registered devices off a desktop. Every call but
  the two that change them leaves them alone, and the two queries report them.
\<close>

definition same_view :: "('w \<Rightarrow> rect) \<Rightarrow> ('w \<Rightarrow> raw_device list) \<Rightarrow> 'w \<Rightarrow> 'w \<Rightarrow> bool" where
  "same_view clip devs w w' \<longleftrightarrow> clip w' = clip w \<and> devs w' = devs w"

definition quiet :: "('w \<Rightarrow> rect) \<Rightarrow> ('w \<Rightarrow> raw_device list) \<Rightarrow> ('w, 'a) state \<Rightarrow> bool" where
  "quiet clip devs m \<longleftrightarrow> (\<forall>w. wp m (\<lambda>_ w'. same_view clip devs w w') w)"

definition lawful_reads :: "('w, 'x) mouse_ops_scheme \<Rightarrow> ('w \<Rightarrow> rect) \<Rightarrow> ('w \<Rightarrow> raw_device list) \<Rightarrow> bool" where
  "lawful_reads ops clip devs \<longleftrightarrow>
     (\<forall>h. quiet clip devs (is_window ops h)) \<and> (\<forall>h. quiet clip devs (window_thread_process ops h))
     \<and> quiet clip devs (current_thread ops) \<and> quiet clip devs (current_process ops)
     \<and> (\<forall>h i. quiet clip devs (get_window_long ops h i))
     \<and> (\<forall>h. quiet clip devs (is_window_visible ops h))
     \<and> quiet clip devs (foreground_window ops) \<and> quiet clip devs (focus_window ops)
     \<and> quiet clip devs (capture_window ops) \<and> (\<forall>h n. quiet clip devs (get_prop ops h n))
     \<and> (\<forall>h n v. quiet clip devs (set_prop ops h n v)) \<and> (\<forall>h n. quiet clip devs (remove_prop ops h n))
     \<and> (\<forall>n k. quiet clip devs (calloc_items ops n k)) \<and> quiet clip devs (free_items ops)
     \<and> (\<forall>h. quiet clip devs (client_rect ops h)) \<and> (\<forall>e. quiet clip devs (set_last_error ops e))
     \<and> quiet clip devs (last_error ops) \<and> (\<forall>h r. quiet clip devs (map_to_screen ops h r))
     \<and> (\<forall>i. quiet clip devs (system_metrics ops i)) \<and> quiet clip devs (user32_module ops)
     \<and> (\<forall>h n. quiet clip devs (user32_proc ops h n))"

definition lawful_queries :: "('w, 'x) mouse_ops_scheme \<Rightarrow> ('w \<Rightarrow> rect) \<Rightarrow> ('w \<Rightarrow> raw_device list) \<Rightarrow> bool" where
  "lawful_queries ops clip devs \<longleftrightarrow>
     (\<forall>w. wp (get_clip_cursor ops)
        (\<lambda>r w'. same_view clip devs w w' \<and> (r = None \<or> r = Some (clip w))) w)
     \<and> (\<forall>w a. wp (call_get_registered ops a None)
        (\<lambda>r w'. same_view clip devs w w' \<and> (fst r = 0 \<longrightarrow> unat (fst (snd r)) = length (devs w))) w)
     \<and> (\<forall>w a cap. wp (call_get_registered ops a (Some cap))
        (\<lambda>r w'. same_view clip devs w w' \<and> (fst r \<noteq> - 1 \<longrightarrow> snd (snd r) = devs w
           \<and> unat (fst (snd r)) = length (devs w))) w)"

named_theorems quiet_rules

lemma quiet_return [quiet_rules]: "quiet clip devs (State_Monad.return a)"
  by (simp add: quiet_def wp_simps same_view_def)

lemma same_view_trans:
  "same_view clip devs u v \<Longrightarrow> same_view clip devs v w \<Longrightarrow> same_view clip devs u w"
  by (simp add: same_view_def)

lemma quiet_bind [quiet_rules]:
  "quiet clip devs m \<Longrightarrow> (\<And>a. quiet clip devs (f a)) \<Longrightarrow> quiet clip devs (State_Monad.bind m f)"
  unfolding quiet_def wp_bind
  by (blast intro: wp_mono [of m] same_view_trans wp_mono)

lemma quiet_if [quiet_rules]:
  "quiet clip devs m \<Longrightarrow> quiet clip devs n \<Longrightarrow> quiet clip devs (if b then m else n)"
  by simp

lemma quiet_if_then [quiet_rules]:
  "quiet clip devs m \<Longrightarrow> quiet clip devs (if_then b m)"
  by (simp add: if_then_def quiet_return)

lemma quiet_option [quiet_rules]:
  "quiet clip devs m \<Longrightarrow> (\<And>a. quiet clip devs (f a)) \<Longrightarrow>
   quiet clip devs (case x of None \<Rightarrow> m | Some a \<Rightarrow> f a)"
  by (cases x) simp_all

lemma quiet_let [quiet_rules]: "quiet clip devs (f x) \<Longrightarrow> quiet clip devs (Let x f)"
  by simp

lemma quiet_Nil [quiet_rules]: "quiet clip devs (all_checks [])"
  by (simp add: quiet_return)

lemma quiet_Cons [quiet_rules]:
  "quiet clip devs m \<Longrightarrow> quiet clip devs (all_checks ms) \<Longrightarrow> quiet clip devs (all_checks (m # ms))"
  unfolding all_checks.simps by (intro quiet_rules)

lemma quiet_clip_cursor: "lawful_queries ops clip devs \<Longrightarrow> quiet clip devs (get_clip_cursor ops)"
  unfolding lawful_queries_def quiet_def by (blast intro: wp_mono)

lemma quiet_registered:
  "lawful_queries ops clip devs \<Longrightarrow> quiet clip devs (call_get_registered ops a buffer)"
  unfolding lawful_queries_def quiet_def by (cases buffer) (blast intro: wp_mono)+

lemma wp_quiet:
  assumes "quiet clip devs m" "\<And>a w'. same_view clip devs w w' \<Longrightarrow> Q a w'"
  shows "wp m Q w"
  using assms unfolding quiet_def by (blast intro: wp_mono)

text \<open>The members of \<open>lawful_reads\<close> one by one, as rules.\<close>

lemma lawful_quiet:
  assumes "lawful_reads ops clip devs"
  shows "quiet clip devs (is_window ops h)" "quiet clip devs (window_thread_process ops h)"
    "quiet clip devs (current_thread ops)" "quiet clip devs (current_process ops)"
    "quiet clip devs (get_window_long ops h i)" "quiet clip devs (is_window_visible ops h)"
    "quiet clip devs (foreground_window ops)" "quiet clip devs (focus_window ops)"
    "quiet clip devs (capture_window ops)" "quiet clip devs (get_prop ops h n)"
    "quiet clip devs (set_prop ops h n v)" "quiet clip devs (remove_prop ops h n)"
    "quiet clip devs (calloc_items ops c k)" "quiet clip devs (free_items ops)"
    "quiet clip devs (client_rect ops h)" "quiet clip devs (set_last_error ops e)"
    "quiet clip devs (last_error ops)" "quiet clip devs (map_to_screen ops h r)"
    "quiet clip devs (system_metrics ops m)" "quiet clip devs (user32_module ops)"
    "quiet clip devs (user32_proc ops h n)"
  using assms by (simp_all add: lawful_reads_def)

lemma quiet_authority: "lawful_reads ops clip devs \<Longrightarrow> quiet clip devs (service_authority ops st)"
  unfolding service_authority_def Let_def by (intro quiet_rules lawful_quiet)

lemma quiet_inventory_equal:
  "lawful_reads ops clip devs \<Longrightarrow> quiet clip devs (raw_inventory_equal ops left lc right rc)"
  unfolding raw_inventory_equal_def Let_def by (intro quiet_rules lawful_quiet)

lemma quiet_locked_exact:
  "lawful_reads ops clip devs \<Longrightarrow> quiet clip devs (raw_inventory_locked_exact ops st current)"
  unfolding raw_inventory_locked_exact_def Let_def
  by (cases "split_locked (hwnd st) (unat (mouse_baseline_count st))
      (entries (items current) (item_count current)) [] 0")
    (auto intro!: quiet_rules lawful_quiet quiet_inventory_equal split: prod.split)

lemma quiet_remove_lock_prop:
  "lawful_reads ops clip devs \<Longrightarrow> quiet clip devs (remove_lock_prop ops window b)"
  unfolding remove_lock_prop_def by (intro quiet_rules lawful_quiet)

lemma lawful_clip:
  "lawful_queries ops clip devs \<Longrightarrow> wp (get_clip_cursor ops)
     (\<lambda>r w'. same_view clip devs w w' \<and> (r = None \<or> r = Some (clip w))) w"
  by (simp add: lawful_queries_def)

lemma lawful_count:
  "lawful_queries ops clip devs \<Longrightarrow> wp (call_get_registered ops a None)
     (\<lambda>r w'. same_view clip devs w w' \<and> (fst r = 0 \<longrightarrow> unat (fst (snd r)) = length (devs w))) w"
  by (simp add: lawful_queries_def)

lemma lawful_list:
  "lawful_queries ops clip devs \<Longrightarrow> wp (call_get_registered ops a (Some cap))
     (\<lambda>r w'. same_view clip devs w w' \<and> (fst r \<noteq> - 1 \<longrightarrow> snd (snd r) = devs w
        \<and> unat (fst (snd r)) = length (devs w))) w"
  by (simp add: lawful_queries_def)

text \<open>A query that succeeds returns the devices of the desktop in an array of their length.\<close>

lemma inventory_query_rule:
  assumes "lawful_reads ops clip devs" "lawful_queries ops clip devs"
    and "\<And>r w'. same_view clip devs w w' \<Longrightarrow>
      (\<And>i. r = Some i \<Longrightarrow> array_ok (items i) (item_count i) \<and> current_entries i = devs w) \<Longrightarrow> Q r w'"
  shows "wp (raw_inventory_query ops q) Q w"
proof -
  have none: "Q None w'" if "same_view clip devs w w'" for w'
    using that by (rule assms(3)) simp
  have first: "wp (State_Monad.bind (call_get_registered ops q None) f) Q w"
    if "\<And>r w'. same_view clip devs w w' \<Longrightarrow>
      (fst r = 0 \<longrightarrow> unat (fst (snd r)) = length (devs w)) \<Longrightarrow> wp (f r) Q w'" for f
    by (rule wp_follow [OF lawful_count [OF assms(2)]], rule that) auto
  have calloc: "wp (State_Monad.bind (calloc_items ops n k) f) Q w'"
    if "same_view clip devs w w'"
      "\<And>a w'. same_view clip devs w w' \<Longrightarrow> wp (f a) Q w'" for n k f w'
    unfolding wp_bind
    by (rule wp_quiet [OF lawful_quiet(13) [OF assms(1)]], rule that(2),
        rule same_view_trans [OF that(1)])
  have free: "wp (State_Monad.bind (free_items ops) f) Q w'"
    if "same_view clip devs w w'"
      "\<And>a w'. same_view clip devs w w' \<Longrightarrow> wp (f a) Q w'" for f w'
    unfolding wp_bind
    by (rule wp_quiet [OF lawful_quiet(14) [OF assms(1)]], rule that(2),
        rule same_view_trans [OF that(1)])
  have second: "wp (State_Monad.bind (call_get_registered ops q (Some c)) f) Q w'"
    if "same_view clip devs w w'" "\<And>r w'. same_view clip devs w w' \<Longrightarrow>
      (fst r \<noteq> - 1 \<longrightarrow> snd (snd r) = devs w \<and> unat (fst (snd r)) = length (devs w)) \<Longrightarrow>
      wp (f r) Q w'" for f c w'
    by (rule wp_follow [OF lawful_list [OF assms(2)]], rule that(2))
      (use that(1) in \<open>auto simp: same_view_def\<close>)
  have found: "Q (Some \<lparr>items = Some (devs w), item_count = m\<rparr>) w'"
    if "same_view clip devs w w'" "unat m = length (devs w)" for m w'
    using that by (intro assms(3)) (auto simp: array_ok_def entries_def)
  have empty: "Q (Some \<lparr>items = None, item_count = 0\<rparr>) w'"
    if "same_view clip devs w w'" "length (devs w) = 0" for w'
    using that by (intro assms(3)) (auto simp: array_ok_def)
  show ?thesis
    unfolding raw_inventory_query_def Let_def
    apply (intro wp_branch first second calloc free wp_done none)
    apply (auto simp: same_view_def intro!: none found empty)
    done
qed

text \<open>What the two resource states say of a lawful desktop.\<close>

definition raw_view :: "service_state \<Rightarrow> resource_state \<Rightarrow> raw_device list \<Rightarrow> bool" where
  "raw_view st r ds \<longleftrightarrow>
     (r = Resource_Baseline \<longrightarrow> mset ds = mset (baseline_entries st))
     \<and> (r = Resource_Locked \<longrightarrow> mset ds = add_mset (lock_device (hwnd st)) (mset (baseline_entries st)))"

lemma wp_both:
  assumes "quiet clip devs m" "\<And>Q. (\<And>a w'. P a \<Longrightarrow> Q a w') \<Longrightarrow> wp m Q w"
    and "\<And>a w'. same_view clip devs w w' \<Longrightarrow> P a \<Longrightarrow> Q a w'"
  shows "wp m Q w"
proof -
  have "wp m (\<lambda>a w'. P a \<and> same_view clip devs w w') w"
    unfolding wp_conj using assms(1,2) by (simp add: quiet_def)
  then show ?thesis by (rule wp_mono) (use assms(3) in blast)
qed

lemma raw_resource_rule:
  assumes law: "lawful_reads ops clip devs" "lawful_queries ops clip devs"
    and arrays: "service_arrays_ok st"
    and post: "\<And>r w'. same_view clip devs w w' \<Longrightarrow> raw_view st r (devs w) \<Longrightarrow> Q r w'"
  shows "wp (mouse_raw_resource_state ops st apis) Q w"
proof -
  have dirty: "Q Resource_Dirty w'" if "same_view clip devs w w'" for w'
    using that by (rule post) (simp add: raw_view_def)
  have equal: "wp (raw_inventory_equal ops (mouse_baseline_devices st) (mouse_baseline_count st)
      (items i) (item_count i)) R v"
    if "array_ok (items i) (item_count i)" "current_entries i = devs w"
      "\<And>b v'. same_view clip devs v v' \<Longrightarrow> (b \<longrightarrow> mset (devs w) = mset (baseline_entries st)) \<Longrightarrow> R b v'"
    for i R v
    by (rule wp_both [OF quiet_inventory_equal [OF law(1)],
          where P = "\<lambda>b. b \<longrightarrow> mset (devs w) = mset (baseline_entries st)"])
      (use that arrays in \<open>auto simp: service_arrays_ok_def intro!: inventory_equal_rule\<close>)
  have locked: "wp (raw_inventory_locked_exact ops st i) R v"
    if "array_ok (items i) (item_count i)" "current_entries i = devs w"
      "\<And>b v'. same_view clip devs v v' \<Longrightarrow> (b \<longrightarrow> mset (devs w)
        = add_mset (lock_device (hwnd st)) (mset (baseline_entries st))) \<Longrightarrow> R b v'" for i R v
    by (rule wp_both [OF quiet_locked_exact [OF law(1)],
          where P = "\<lambda>b. b \<longrightarrow> mset (devs w)
            = add_mset (lock_device (hwnd st)) (mset (baseline_entries st))"])
      (use that arrays in \<open>auto intro!: locked_exact_rule\<close>)
  have free: "wp (raw_inventory_free ops) (\<lambda>_. R) v"
    if "\<And>v'. same_view clip devs v v' \<Longrightarrow> R v'" for R v
    unfolding raw_inventory_free_def wp_bind wp_return
    by (rule wp_quiet [OF lawful_quiet(14) [OF law(1)]]) (rule that)
  have known: "wp (State_Monad.bind (raw_inventory_equal ops (mouse_baseline_devices st)
        (mouse_baseline_count st) (items i) (item_count i)) (\<lambda>same.
      State_Monad.bind (if same then State_Monad.return Resource_Baseline
        else State_Monad.bind (raw_inventory_locked_exact ops st i) (\<lambda>exact.
          State_Monad.return (if exact then Resource_Locked else Resource_Dirty))) (\<lambda>found.
      State_Monad.bind (raw_inventory_free ops) (\<lambda>_. State_Monad.return found)))) Q w1"
    if "same_view clip devs w w1" "array_ok (items i) (item_count i)" "current_entries i = devs w"
    for i w1
    unfolding wp_bind
    by (rule equal [OF that(2,3)])
      (use that(1) in \<open>auto simp: wp_simps raw_view_def same_view_def
        intro!: free locked [OF that(2,3)] post\<close>)
  show ?thesis
    unfolding mouse_raw_resource_state_def
  proof (rule wp_branch)
    show "wp (State_Monad.return Resource_Dirty) Q w"
      by (rule wp_done, rule dirty) (simp add: same_view_def)
    show "wp (State_Monad.bind (raw_inventory_query ops (get_registered_devices apis)) (\<lambda>queried.
      case queried of
          None \<Rightarrow> State_Monad.return Resource_Dirty
        | Some current \<Rightarrow> do {
            same \<leftarrow> raw_inventory_equal ops (mouse_baseline_devices st) (mouse_baseline_count st)
                     (items current) (item_count current);
            found \<leftarrow> (if same then State_Monad.return Resource_Baseline
              else do {
                exact \<leftarrow> raw_inventory_locked_exact ops st current;
                State_Monad.return (if exact then Resource_Locked else Resource_Dirty) });
            raw_inventory_free ops;
            State_Monad.return found })) Q w"
      unfolding wp_bind [of "raw_inventory_query ops (get_registered_devices apis)"]
      by (rule inventory_query_rule [OF law])
        (auto intro!: known wp_done dirty split: option.split)
  qed
qed

lemma clip_resource_rule:
  assumes law: "lawful_reads ops clip devs" "lawful_queries ops clip devs"
    and post: "\<And>r w'. same_view clip devs w w' \<Longrightarrow>
      (r = Resource_Baseline \<longrightarrow> clip w = mouse_baseline_clip st) \<Longrightarrow>
      (r = Resource_Locked \<longrightarrow> clip w = mouse_locked_clip st) \<Longrightarrow> Q r w'"
  shows "wp (mouse_clip_resource_state ops st) Q w"
proof -
  have eq: "rect_equal a b \<longleftrightarrow> a = b" for a b :: rect
    by (cases a; cases b) (auto simp: rect_equal_def)
  show ?thesis
    unfolding mouse_clip_resource_state_def
    by (intro wp_branch wp_done wp_follow [OF lawful_clip [OF law(2)]])
      (auto simp: same_view_def eq wp_simps split: option.split intro!: post)
qed

text \<open>Clean means: the desktop shows the baseline when the cleanup has finished.\<close>

definition shows_baseline ::
    "('w \<Rightarrow> rect) \<Rightarrow> ('w \<Rightarrow> raw_device list) \<Rightarrow> service_state \<Rightarrow> 'w \<Rightarrow> bool" where
  "shows_baseline clip devs st w \<longleftrightarrow>
     clip w = mouse_baseline_clip st \<and> mset (devs w) = mset (baseline_entries st)"

definition shows_lock ::
    "('w \<Rightarrow> rect) \<Rightarrow> ('w \<Rightarrow> raw_device list) \<Rightarrow> service_state \<Rightarrow> 'w \<Rightarrow> bool" where
  "shows_lock clip devs st w \<longleftrightarrow> clip w = mouse_locked_clip st
     \<and> mset (devs w) = add_mset (lock_device (hwnd st)) (mset (baseline_entries st))"

lemma step_quiet_desktop:
  assumes "quiet clip devs m"
    "\<And>a w. same_view clip devs (desktop s) w \<Longrightarrow> wp (f a) Q (s\<lparr>desktop := w\<rparr>)"
  shows "wp (State_Monad.bind (on_desktop m) f) Q s"
  unfolding wp_bind wp_on_desktop_run by (rule wp_quiet [OF assms(1)]) (rule assms(2))

lemma step_quiet_service:
  assumes "quiet clip devs (m (service s))"
    "\<And>a w. same_view clip devs (desktop s) w \<Longrightarrow> wp (f a) Q (s\<lparr>desktop := w\<rparr>)"
  shows "wp (State_Monad.bind (with_service m) f) Q s"
  unfolding with_service_def by (intro step_assoc step_get_service step_quiet_desktop [OF assms])

lemma step_raw_state:
  assumes "lawful_reads ops clip devs" "lawful_queries ops clip devs" "service_arrays_ok (service s)"
    "\<And>r w. same_view clip devs (desktop s) w \<Longrightarrow> raw_view (service s) r (devs w) \<Longrightarrow>
      wp (f r) Q (s\<lparr>desktop := w\<rparr>)"
  shows "wp (State_Monad.bind (with_service (\<lambda>st. mouse_raw_resource_state ops st apis)) f) Q s"
  unfolding with_service_def wp_bind wp_get_service wp_on_desktop_run
  by (rule raw_resource_rule [OF assms(1-3)]) (use assms(4) in \<open>simp add: same_view_def\<close>)

lemma step_clip_state:
  assumes "lawful_reads ops clip devs" "lawful_queries ops clip devs"
    "\<And>r w. same_view clip devs (desktop s) w \<Longrightarrow>
      (r = Resource_Baseline \<longrightarrow> clip w = mouse_baseline_clip (service s)) \<Longrightarrow>
      (r = Resource_Locked \<longrightarrow> clip w = mouse_locked_clip (service s)) \<Longrightarrow>
      wp (f r) Q (s\<lparr>desktop := w\<rparr>)"
  shows "wp (State_Monad.bind (with_service (mouse_clip_resource_state ops)) f) Q s"
  unfolding with_service_def wp_bind wp_get_service wp_on_desktop_run
  by (rule clip_resource_rule [OF assms(1,2)]) (use assms(3) in \<open>simp add: same_view_def\<close>)

lemma step_quiet_checks:
  assumes "\<And>a w. same_view clip devs (desktop s) w \<Longrightarrow> wp (f a) Q (s\<lparr>desktop := w\<rparr>)"
    "lawful_reads ops clip devs"
  shows "wp (State_Monad.bind (all_checks
      [do { t \<leftarrow> on_desktop (current_thread ops); check (t = a) },
       do { p \<leftarrow> on_desktop (current_process ops); check (p = b) },
       is_owner self]) f) Q s"
  unfolding all_checks.simps
  by (intro step_assoc step_quiet_desktop [OF lawful_quiet(3) [OF assms(2)]]
      step_quiet_desktop [OF lawful_quiet(4) [OF assms(2)]] step_return step_if step_is_owner)
    (use assms(1) in \<open>auto simp: same_view_def\<close>)

lemma cleanup_inspect_shows:
  assumes law: "lawful_reads ops clip devs" "lawful_queries ops clip devs"
    and arrays: "service_arrays_ok (service s)"
    and post: "\<And>clean w. (clean \<longrightarrow> \<not> raw_flag s \<and> \<not> clip_flag s \<and> lock_owner s = self
      \<and> shows_baseline clip devs (service s) w) \<Longrightarrow> Q clean (s\<lparr>desktop := w\<rparr>)"
  shows "wp (cleanup_inspect ops self rollback live apis answers) Q s"
  unfolding cleanup_inspect_def
  apply (cases answers)
  apply (simp only: prod.case)
  apply (intro step_get_service step_case step_raw_state [OF law] step_clip_state [OF law]
    step_quiet_service [OF quiet_authority [OF law(1)]] step_let step_bind_let step_if step_return
    step_quiet_desktop [OF lawful_quiet(9) [OF law(1)]] step_quiet_desktop [OF lawful_quiet(10) [OF law(1)]]
    step_quiet_desktop [OF quiet_remove_lock_prop [OF law(1)]] step_quiet_checks [OF _ law(1)]
    step_is_owner step_assoc wp_done)
  apply (auto simp: arrays same_view_def raw_view_def shows_baseline_def intro!: post)
  done

lemma step_inspect_shows:
  assumes "lawful_reads ops clip devs" "lawful_queries ops clip devs" "service_arrays_ok (service s)"
    and "\<And>clean w. (clean \<longrightarrow> lock_owner s = self \<and> shows_baseline clip devs (service s) w) \<Longrightarrow>
      wp (f clean) Q (s\<lparr>desktop := w\<rparr>)"
  shows "wp (State_Monad.bind (cleanup_inspect ops self rollback live apis answers) f) Q s"
  unfolding wp_bind by (rule cleanup_inspect_shows [OF assms(1-3)]) (use assms(4) in auto)

lemma complete_cleanup_quiet:
  assumes "lawful_reads ops clip devs"
    and "\<And>b s'. same_view clip devs (desktop s) (desktop s') \<Longrightarrow> Q b s'"
  shows "wp (service_mouse_complete_cleanup ops self teardown) Q s"
  unfolding service_mouse_complete_cleanup_def mouse_lock_owner_release_def mouse_baseline_free_def
    wp_bind wp_State
  by (auto simp: wp_simps wp_on_desktop_run same_view_def
      intro!: assms(2) wp_quiet [OF lawful_quiet(14) [OF assms(1)]])

lemma cleanup_not_clean_status: "wp (cleanup_not_clean ops self restore apis) (\<lambda>r _. r \<noteq> SERVICE_OK) s"
  unfolding cleanup_not_clean_def enter_cleanup_def
  by (intro host_steps step_restore_locked) simp_all

lemma cleanup_held_shows:
  assumes law: "lawful_reads ops clip devs" "lawful_queries ops clip devs"
    and arrays: "service_arrays_ok (service s)"
  shows "wp (cleanup_held ops self teardown rollback live)
    (\<lambda>r s'. r = SERVICE_OK \<longrightarrow> shows_baseline clip devs (service s) (desktop s')) s"
proof -
  let ?Q = "\<lambda>r s'. r = SERVICE_OK \<longrightarrow> shows_baseline clip devs (service s) (desktop s')"
  have stuck: "wp (cleanup_not_clean ops self restore apis) ?Q s'" for restore apis s'
    by (rule wp_mono [OF cleanup_not_clean_status]) simp
  have complete: "wp (State_Monad.bind (service_mouse_complete_cleanup ops self teardown) (\<lambda>completed.
      if completed then State_Monad.return SERVICE_OK
      else State_Monad.bind enter_cleanup (\<lambda>_. State_Monad.return SERVICE_UNAVAILABLE))) ?Q s'"
    if "shows_baseline clip devs (service s) (desktop s')" for s'
    unfolding wp_bind [of "service_mouse_complete_cleanup ops self teardown"]
    by (rule complete_cleanup_quiet [OF law(1)])
      (use that in \<open>auto simp: wp_simps enter_cleanup_def same_view_def shows_baseline_def\<close>)
  have rest: "wp (State_Monad.bind enter_cleanup (\<lambda>_. State_Monad.bind
      (cleanup_take_apart ops rollback live apis) (\<lambda>answers. State_Monad.bind
      (cleanup_inspect ops self rollback live apis answers) (\<lambda>clean.
        if \<not> clean
        then cleanup_not_clean ops self (\<not> teardown \<and> \<not> rollback \<and> allowed \<and> live) apis
        else State_Monad.bind (service_mouse_complete_cleanup ops self teardown) (\<lambda>completed.
          if completed then State_Monad.return SERVICE_OK
          else State_Monad.bind enter_cleanup (\<lambda>_. State_Monad.return SERVICE_UNAVAILABLE))))))
    ?Q s'" if "service s' = service s" for apis allowed s'
    unfolding enter_cleanup_def
  proof (rule step_set_service, unfold wp_bind [of "cleanup_take_apart ops rollback live apis"],
      rule cleanup_take_apart_rule, rule step_inspect_shows [OF law])
    fix r c w
    let ?s2 = "owns r c w (s'\<lparr>service := (service s')\<lparr>mouse_lock_state := Lock_Cleanup,
      mouse_delivery_enabled := False\<rparr>\<rparr>)"
    show "service_arrays_ok (service ?s2)"
      using arrays that by (simp add: service_arrays_ok_def)
    fix clean v
    assume clean: "clean \<longrightarrow> lock_owner ?s2 = self \<and> shows_baseline clip devs (service ?s2) v"
    have same: "shows_baseline clip devs (service ?s2) v = shows_baseline clip devs (service s) v"
      using that by (simp add: shows_baseline_def)
    show "wp (if \<not> clean
        then cleanup_not_clean ops self (\<not> teardown \<and> \<not> rollback \<and> allowed \<and> live) apis
        else State_Monad.bind (service_mouse_complete_cleanup ops self teardown) (\<lambda>completed.
          if completed then State_Monad.return SERVICE_OK
          else State_Monad.bind (set_service (\<lambda>st. st\<lparr>mouse_lock_state := Lock_Cleanup,
            mouse_delivery_enabled := False\<rparr>)) (\<lambda>_. State_Monad.return SERVICE_UNAVAILABLE)))
      ?Q (?s2\<lparr>desktop := v\<rparr>)"
      using clean same
      by (intro wp_branch stuck complete [unfolded enter_cleanup_def]) auto
  qed
  show ?thesis
    unfolding cleanup_held_def
    by (intro host_steps rest) auto
qed

text \<open>C5: On a desktop that does what Windows documents, a cleanup of a held lock that reports OK
  leaves the cursor clip and the registered raw input devices as they were before the lock was
  taken, whether it is an unlock, a focus loss, a rollback or a teardown.\<close>
theorem mouse_unlock_leaves_no_trace:
  assumes "lawful_reads ops clip devs" "lawful_queries ops clip devs"
    and "lock_held (service s)" "service_arrays_ok (service s)"
  shows "wp (service_mouse_cleanup ops self teardown rollback)
    (\<lambda>r s'. r = SERVICE_OK \<longrightarrow> shows_baseline clip devs (service s) (desktop s')) s"
  unfolding service_mouse_cleanup_def
proof (rule step_cleanup_guards, goal_cases)
  case (1 status w)
  then show ?case using assms(3) by (auto simp: wp_simps lock_held_def)
next
  case (2 w)
  then show ?case using assms(3) by (auto simp: lock_held_def)
next
  case (3 live w)
  have "wp (cleanup_held ops self teardown rollback live)
    (\<lambda>r s'. r = SERVICE_OK \<longrightarrow> shows_baseline clip devs (service (s\<lparr>desktop := w\<rparr>)) (desktop s'))
    (s\<lparr>desktop := w\<rparr>)"
    by (rule cleanup_held_shows [OF assms(1,2)]) (use assms(4) in simp)
  then show ?case by simp
qed

subsection \<open>Acquiring shows on the desktop\<close>

lemma quiet_client_screen:
  "lawful_reads ops clip devs \<Longrightarrow> quiet clip devs (client_screen_rect ops h)"
  unfolding client_screen_rect_def Let_def by (intro quiet_rules lawful_quiet)

lemma quiet_virtual_screen: "lawful_reads ops clip devs \<Longrightarrow> quiet clip devs (virtual_screen_rect ops)"
  unfolding virtual_screen_rect_def Let_def by (intro quiet_rules lawful_quiet)

lemma quiet_resolve: "lawful_reads ops clip devs \<Longrightarrow> quiet clip devs (mouse_resolve_apis ops)"
  unfolding mouse_resolve_apis_def mouse_resolve_proc_def by (intro quiet_rules lawful_quiet)

lemma quiet_environment:
  "lawful_reads ops clip devs \<Longrightarrow> quiet clip devs (mouse_live_environment_exact ops st)"
  unfolding mouse_live_environment_exact_def by (intro quiet_rules lawful_quiet quiet_authority)

lemma quiet_off_exact:
  "lawful_reads ops clip devs \<Longrightarrow> quiet clip devs (mouse_off_exact ops st mine live)"
  unfolding mouse_off_exact_def by (intro quiet_rules lawful_quiet)

lemma wp_quiet_step:
  assumes "quiet clip devs m" "same_view clip devs w0 w"
    "\<And>a w'. same_view clip devs w0 w' \<Longrightarrow> wp (f a) Q w'"
  shows "wp (State_Monad.bind m f) Q w"
  unfolding wp_bind by (rule wp_quiet [OF assms(1)], rule assms(3)) (rule same_view_trans [OF assms(2)])

lemma checks_skip:
  assumes "\<And>v. wp (all_checks ms) (\<lambda>b w'. b \<longrightarrow> P w') v"
  shows "wp (all_checks (m # ms)) (\<lambda>b w'. b \<longrightarrow> P w') w"
  unfolding wp_all_checks_Cons by (rule wp_any) (use assms in simp)

lemma checks_last: "wp (all_checks [m]) Q = wp m Q"
proof -
  have "(\<lambda>b. if b then Q True else Q False) = Q" by (rule ext) simp
  then show ?thesis by (simp only: wp_all_checks_Cons wp_all_checks_Nil)
qed

lemma candidate_rule:
  assumes law: "lawful_reads ops clip devs" "lawful_queries ops clip devs"
    and arrays: "service_arrays_ok st"
  shows "wp (mouse_acquire_candidate_exact ops st mine apis)
    (\<lambda>b w'. b \<longrightarrow> shows_lock clip devs st w') w"
proof -
  have clip: "wp (mouse_client_clip_exact ops st)
      (\<lambda>b w'. b \<longrightarrow> shows_lock clip devs st w') v"
    if "mset (devs v) = add_mset (lock_device (hwnd st)) (mset (baseline_entries st))" for v
    unfolding mouse_client_clip_exact_def
    by (rule wp_quiet_step [OF quiet_client_screen [OF law(1)], of v], simp add: same_view_def,
        intro end_case wp_branch wp_done, simp, simp,
        unfold wp_bind, rule clip_resource_rule [OF law])
      (use that in \<open>auto simp: wp_simps shows_lock_def same_view_def\<close>)
  have raw: "wp (all_checks [State_Monad.bind (mouse_raw_resource_state ops st apis)
        (\<lambda>r. check (r = Resource_Locked)), mouse_client_clip_exact ops st])
      (\<lambda>b w'. b \<longrightarrow> shows_lock clip devs st w') v" for v
    unfolding wp_all_checks_Cons [of "State_Monad.bind m f" for m f] checks_last wp_bind
    by (rule raw_resource_rule [OF law arrays])
      (auto simp: wp_return raw_view_def same_view_def intro!: clip)
  show ?thesis
    unfolding mouse_acquire_candidate_exact_def mouse_held_exact_def
    by (rule checks_skip, unfold checks_last) (intro checks_skip raw)
qed

lemma acquire_resources_shows:
  assumes law: "lawful_reads ops clip devs" "lawful_queries ops clip devs"
    and arrays: "service_arrays_ok (service s)"
    and post: "\<And>b s'. same_baseline (service s) (service s') \<Longrightarrow>
      (b \<longrightarrow> shows_lock clip devs (service s') (desktop s')) \<Longrightarrow> Q b s'"
  shows "wp (acquire_resources ops self apis client_clip) Q s"
proof -
  have last: "wp (with_service (\<lambda>st. mouse_acquire_candidate_exact ops st mine apis)) Q s'"
    if "same_baseline (service s) (service s')" for mine s'
  proof -
    have "service_arrays_ok (service s')"
      using arrays that by (simp add: service_arrays_ok_def same_baseline_def)
    then show ?thesis unfolding with_service_def wp_bind wp_get_service wp_on_desktop_run
      by (rule wp_mono [OF candidate_rule [OF law]]) (use that in \<open>auto intro: post\<close>)
  qed
  show ?thesis
    unfolding acquire_resources_def
    by (intro last host_steps)
      (auto simp: same_baseline_def same_identity_def intro!: post)
qed

text \<open>The baseline that is recorded is what the desktop shows when it is read.\<close>

definition baseline_read ::
    "('w \<Rightarrow> rect) \<Rightarrow> ('w \<Rightarrow> raw_device list) \<Rightarrow> 'w \<Rightarrow>
     (mouse_apis \<times> raw_inventory \<times> rect \<times> rect) option \<Rightarrow> bool" where
  "baseline_read clip devs w found \<longleftrightarrow>
     (case found of None \<Rightarrow> True
      | Some (_, baseline, current_clip, _) \<Rightarrow>
          array_ok (items baseline) (item_count baseline)
          \<and> current_entries baseline = devs w \<and> current_clip = clip w)"

lemma acquire_baseline_rule:
  assumes law: "lawful_reads ops clip devs" "lawful_queries ops clip devs"
    and view: "same_view clip devs w0 w"
  shows "wp (acquire_baseline ops st) (\<lambda>found _. baseline_read clip devs w0 found) w"
proof -
  let ?Q = "\<lambda>found _. baseline_read clip devs w0 found"
  have fail: "wp (State_Monad.bind (raw_inventory_free ops) (\<lambda>_. State_Monad.return None)) ?Q v" for v
    by (intro wp_external wp_done) (simp add: baseline_read_def)
  have query: "wp (State_Monad.bind (raw_inventory_query ops q) f) ?Q v"
    if "same_view clip devs w0 v" "\<And>r w'. same_view clip devs w0 w' \<Longrightarrow>
      (\<And>i. r = Some i \<Longrightarrow> array_ok (items i) (item_count i) \<and> current_entries i = devs w0) \<Longrightarrow>
      wp (f r) ?Q w'" for q f v
    unfolding wp_bind
    by (rule inventory_query_rule [OF law], rule that(2))
      (use that(1) in \<open>auto simp: same_view_def\<close>)
  have cursor: "wp (State_Monad.bind (get_clip_cursor ops) f) ?Q v"
    if "same_view clip devs w0 v" "\<And>r w'. same_view clip devs w0 w' \<Longrightarrow>
      (r = None \<or> r = Some (clip w0)) \<Longrightarrow> wp (f r) ?Q w'" for f v
    by (rule wp_follow [OF lawful_clip [OF law(2)]], rule that(2))
      (use that(1) in \<open>auto simp: same_view_def\<close>)
  show ?thesis
    unfolding acquire_baseline_def
    by (intro wp_quiet_step [OF quiet_resolve [OF law(1)] view] end_case fail query cursor wp_branch
        wp_quiet_step [OF quiet_virtual_screen [OF law(1)]]
        wp_quiet_step [OF quiet_client_screen [OF law(1)]] wp_done)
      (auto simp: baseline_read_def)
qed

lemma acquire_claimed_shows:
  assumes law: "lawful_reads ops clip devs" "lawful_queries ops clip devs"
    and read: "baseline_read clip devs w0 (Some (apis, baseline, current_clip, client_clip))"
  shows "wp (acquire_claimed ops self apis baseline current_clip client_clip)
    (\<lambda>r s'. r = SERVICE_OK \<longrightarrow> shows_lock clip devs (service s') (desktop s')
       \<and> shows_baseline clip devs (service s') w0) s"
proof -
  let ?Q = "\<lambda>r s'. r = SERVICE_OK \<longrightarrow> shows_lock clip devs (service s') (desktop s')
       \<and> shows_baseline clip devs (service s') w0"
  define set_base where "set_base = (\<lambda>st :: service_state. st\<lparr>mouse_baseline_devices := items baseline,
        mouse_baseline_count := item_count baseline, mouse_baseline_clip := current_clip,
        mouse_locked_clip := client_clip, mouse_baseline_valid := True,
        mouse_lock_state := Lock_Cleanup\<rparr>)"
  have base: "service_arrays_ok (set_base st)" "shows_baseline clip devs (set_base st) w0" for st
    using read by (auto simp: set_base_def service_arrays_ok_def shows_baseline_def baseline_read_def)
  have taken: "wp (State_Monad.bind (acquire_resources ops self apis client_clip) (\<lambda>acquired.
      if acquired then State_Monad.bind (set_service (\<lambda>st. st\<lparr>mouse_lock_committed := True,
          mouse_delivery_enabled := True, mouse_lock_state := Lock_Locked\<rparr>))
          (\<lambda>_. State_Monad.return SERVICE_OK)
      else State_Monad.bind (service_mouse_cleanup ops self False True)
          (\<lambda>_. State_Monad.return SERVICE_UNAVAILABLE))) ?Q s'"
    if "service s' = set_base st" for st s'
    unfolding wp_bind [of "acquire_resources ops self apis client_clip"]
  proof (rule acquire_resources_shows [OF law])
    show "service_arrays_ok (service s')" using base that by simp
    fix b and s2 :: "'a host"
    assume s2: "same_baseline (service s') (service s2)"
      "b \<longrightarrow> shows_lock clip devs (service s2) (desktop s2)"
    have "shows_baseline clip devs (service s2) w0"
      using s2(1) base(2) [of st] that by (simp add: same_baseline_def shows_baseline_def)
    then show "wp (if b then State_Monad.bind (set_service (\<lambda>st. st\<lparr>mouse_lock_committed := True,
          mouse_delivery_enabled := True, mouse_lock_state := Lock_Locked\<rparr>))
          (\<lambda>_. State_Monad.return SERVICE_OK)
      else State_Monad.bind (service_mouse_cleanup ops self False True)
          (\<lambda>_. State_Monad.return SERVICE_UNAVAILABLE)) ?Q s2"
      using s2(2)
      by (intro wp_branch step_set_service wp_external wp_done)
        (auto simp: shows_lock_def shows_baseline_def)
  qed
  show ?thesis
    unfolding acquire_claimed_def set_base_def [symmetric]
    by (intro owner_claim_rule wp_branch step_on_desktop wp_done step_set_service taken) simp_all
qed

text \<open>On a desktop that does what Windows documents, acquiring the lock with status OK leaves
  the cursor clipped to the window's client area and exactly one more raw input device, the
  lock's own; and the baseline recorded in the object is what the desktop showed before.\<close>
theorem mouse_lock_shows_on_desktop:
  assumes "lawful_reads ops clip devs" "lawful_queries ops clip devs"
  shows "wp (service_mouse_acquire ops self)
    (\<lambda>r s'. r = SERVICE_OK \<longrightarrow> shows_lock clip devs (service s') (desktop s')
       \<and> shows_baseline clip devs (service s') (desktop s)) s"
proof -
  let ?Q = "\<lambda>r s'. r = SERVICE_OK \<longrightarrow> shows_lock clip devs (service s') (desktop s')
       \<and> shows_baseline clip devs (service s') (desktop s)"
  have checks: "wp (State_Monad.bind (all_checks
      [on_desktop (mouse_off_exact ops st mine True), is_owner 0, check c,
       on_desktop (is_window_visible ops h),
       do { w \<leftarrow> on_desktop (foreground_window ops); check (w = h) },
       do { w \<leftarrow> on_desktop (focus_window ops); check (w = h) },
       do { w \<leftarrow> on_desktop (capture_window ops); check (w = 0) }]) f) ?Q s'"
    if "same_view clip devs (desktop s) (desktop s')"
      "\<And>a s'. same_view clip devs (desktop s) (desktop s') \<Longrightarrow> wp (f a) ?Q s'"
    for st mine c h f s'
    unfolding all_checks.simps
    by (intro step_assoc step_quiet_desktop [OF quiet_off_exact [OF assms(1)]]
        step_quiet_desktop [OF lawful_quiet(6) [OF assms(1)]]
        step_quiet_desktop [OF lawful_quiet(7) [OF assms(1)]]
        step_quiet_desktop [OF lawful_quiet(8) [OF assms(1)]]
        step_quiet_desktop [OF lawful_quiet(9) [OF assms(1)]]
        step_return step_if step_is_owner that(2))
      (use that(1) in \<open>auto simp: same_view_def\<close>)
  have found: "wp (State_Monad.bind (on_desktop (acquire_baseline ops st)) f) ?Q s'"
    if "same_view clip devs (desktop s) (desktop s')"
      "\<And>found s'. baseline_read clip devs (desktop s) found \<Longrightarrow> wp (f found) ?Q s'" for st f s'
    unfolding wp_bind wp_on_desktop_run
    by (rule wp_mono [OF acquire_baseline_rule [OF assms that(1)]]) (rule that(2))
  show ?thesis
    unfolding service_mouse_acquire_def
    by (intro wp_branch wp_done step_quiet_service [OF quiet_authority [OF assms(1)]] step_get_service
        step_is_owner checks found end_case)
      (auto simp: same_view_def intro!: acquire_claimed_shows [OF assms])
qed

subsection \<open>Exclusion and status\<close>

text \<open>C4: In every process, whatever Windows and the other threads do between the calls, at most
  one service holds the mouse lock (or is still cleaning it up), and that is the one the owner
  cell names; a locked service owns both resources and remembers its baseline; a service that is
  off or torn down owns nothing; and the owner cell never names a service that was freed.\<close>
theorem mouse_lock_exclusive:
  assumes "process_reachable ops p"
  shows "(\<forall>a b st st'. services p a = Some st \<longrightarrow> lock_held st \<longrightarrow>
        services p b = Some st' \<longrightarrow> lock_held st' \<longrightarrow> a = b \<and> owner_cell p = a)
    \<and> (\<forall>a st. services p a = Some st \<longrightarrow> lock_consistent st (owner_cell p = a))
    \<and> (owner_cell p \<noteq> 0 \<longrightarrow> (\<exists>st. services p (owner_cell p) = Some st \<and> lock_held st))"
proof -
  have ok: "process_ok p" using assms by (rule process_reachable_ok)
  then have c: "lock_consistent st (owner_cell p = a)" if "services p a = Some st" for a st
    using that by (auto simp: process_ok_def)
  have held: "owner_cell p = a \<longleftrightarrow> lock_held st" if "services p a = Some st" for a st
    using consistent_held [OF c [OF that]] by simp
  moreover have "owner_cell p \<noteq> 0 \<Longrightarrow> \<exists>st. services p (owner_cell p) = Some st"
    using ok by (auto simp: process_ok_def)
  ultimately show ?thesis using c by metis
qed

text \<open>Acquiring reports OK exactly by going from off to locked with the owner cell claimed and
  delivery on; every other status leaves the object untouched or, after a failed attempt, off or
  in cleanup with delivery off. The window's saved placement is never touched.\<close>
theorem mouse_acquire_status:
  assumes "lock_consistent (service s) (lock_owner s = self)"
  shows "wp (service_mouse_acquire ops self) (\<lambda>r s'. acquire_outcome self s r s') s"
  by (rule acquire_rule [OF assms])

text \<open>Cleaning up reports OK only with the lock released and the object off (or prepared for
  teardown); otherwise the object stays consistent, a lock that is still held keeps its baseline,
  and neither a rollback nor a teardown ever ends locked again.\<close>
theorem mouse_cleanup_status:
  assumes "lock_consistent (service s) (lock_owner s = self)"
  shows "wp (service_mouse_cleanup ops self teardown rollback)
    (\<lambda>r s'. cleanup_outcome teardown rollback self s r s') s"
  by (rule cleanup_rule [OF assms])

text \<open>When memory is available the comparison of two inventories decides equality of the
  registrations up to order, multiplicities included.\<close>
theorem raw_inventory_equal_decides:
  assumes "array_ok left lc" "array_ok right rc"
  shows "wp (raw_inventory_equal (granting ops) left lc right rc)
    (\<lambda>b _. b \<longleftrightarrow> mset (entries left lc) = mset (entries right rc)) w"
  by (rule inventory_equal_exact [OF assms]) simp

text \<open>An inventory is taken for the locked one only when it is the baseline, up to order, plus
  exactly one registration, the lock's own, which the baseline does not contain.\<close>
theorem raw_inventory_locked_sound:
  assumes "service_arrays_ok st" "array_ok (items current) (item_count current)"
  shows "wp (raw_inventory_locked_exact ops st current)
    (\<lambda>b _. b \<longrightarrow> mset (current_entries current)
        = add_mset (lock_device (hwnd st)) (mset (baseline_entries st))
      \<and> lock_device (hwnd st) \<notin> set (baseline_entries st)) w"
  by (rule locked_exact_rule [OF assms]) simp

end
