(* ===== verification/Win32_Mouse_Demo.thy ===== *)
theory Win32_Mouse_Demo
  imports Win32_Mouse_Props
begin

text \<open>
  A small desktop that does what Windows documents, for the window 0x10 with the record 0x20 of
  the service at 0x40: every property of the mouse lock applied to it, and a run in which the
  lock is taken and released again.
\<close>

record demo_desktop =
  cursor_clip :: rect
  raw_devices :: "raw_device list"
  lock_marker :: u64

definition screen_rect :: rect where
  "screen_rect = \<lparr>rect_left = 0, rect_top = 0, rect_right = 1920, rect_bottom = 1080\<rparr>"

definition window_rect :: rect where
  "window_rect = \<lparr>rect_left = 100, rect_top = 100, rect_right = 740, rect_bottom = 580\<rparr>"

definition keyboard :: raw_device where
  "keyboard = \<lparr>usage_page = 1, usage = 6, device_flags = 0, hwnd_target = 0x10\<rparr>"

definition reading :: "('w \<Rightarrow> 'a) \<Rightarrow> ('w, 'a) state" where
  "reading f = State (\<lambda>w. (f w, w))"

definition changing :: "('w \<Rightarrow> 'w) \<Rightarrow> ('w, bool) state" where
  "changing f = State (\<lambda>w. (True, f w))"

definition register_demo :: "raw_device list \<Rightarrow> demo_desktop \<Rightarrow> demo_desktop" where
  "register_demo ds w = fold (\<lambda>d w.
     if device_flags d AND 1 \<noteq> 0
     then w\<lparr>raw_devices := filter (\<lambda>e. \<not> (usage_page e = usage_page d \<and> usage e = usage d))
             (raw_devices w)\<rparr>
     else w\<lparr>raw_devices := raw_devices w @ [d]\<rparr>) ds w"

definition demo_ops :: "demo_desktop mouse_ops" where
  "demo_ops = \<lparr>
     is_window = (\<lambda>h. State_Monad.return (h = 0x10)),
     window_thread_process = (\<lambda>_. State_Monad.return (7, 9)),
     current_thread = State_Monad.return 7, current_process = State_Monad.return 9,
     get_window_long = (\<lambda>_ _. State_Monad.return 0x20),
     is_window_visible = (\<lambda>_. State_Monad.return True),
     foreground_window = State_Monad.return 0x10, focus_window = State_Monad.return 0x10,
     capture_window = State_Monad.return 0,
     get_prop = (\<lambda>_ n. if n = LOCK_PROP then reading lock_marker else State_Monad.return 0),
     set_prop = (\<lambda>_ _ v. changing (\<lambda>w. w\<lparr>lock_marker := v\<rparr>)),
     remove_prop = (\<lambda>_ _. State (\<lambda>w. ((), w\<lparr>lock_marker := 0\<rparr>))),
     cancel_mouse_leave = (\<lambda>_. State_Monad.return True),
     user32_module = State_Monad.return 1, user32_proc = (\<lambda>_ _. State_Monad.return 2),
     call_get_registered = (\<lambda>_ buffer. case buffer of
         None \<Rightarrow> reading (\<lambda>w. (if length (raw_devices w) < 64 then 0 else - 1,
           of_nat (length (raw_devices w)), []))
       | Some cap \<Rightarrow> reading (\<lambda>w. (if length (raw_devices w) \<le> unat cap
             then of_nat (length (raw_devices w)) else - 1,
           of_nat (length (raw_devices w)), raw_devices w))),
     call_register = (\<lambda>_ ds. changing (register_demo ds)),
     calloc_items = (\<lambda>_ _. State_Monad.return True), free_items = State_Monad.return (),
     get_clip_cursor = reading (\<lambda>w. Some (cursor_clip w)),
     clip_cursor = (\<lambda>r. changing (\<lambda>w. w\<lparr>cursor_clip := (case r of None \<Rightarrow> screen_rect | Some r \<Rightarrow> r)\<rparr>)),
     system_metrics = (\<lambda>i. State_Monad.return (if i = 78 then 1920 else if i = 79 then 1080 else 0)),
     client_rect = (\<lambda>_. State_Monad.return
       (Some \<lparr>rect_left = 0, rect_top = 0, rect_right = 640, rect_bottom = 480\<rparr>)),
     set_last_error = (\<lambda>_. State_Monad.return ()), last_error = State_Monad.return 0,
     map_to_screen = (\<lambda>_ _. State_Monad.return (100, window_rect))\<rparr>"

definition demo_placement :: window_placement where
  "demo_placement = \<lparr>placement_flags = 0, show_cmd = 1, min_x = 0, min_y = 0, max_x = 0, max_y = 0,
     normal_position = window_rect\<rparr>"

definition demo_service :: service_state where
  "demo_service = \<lparr>hwnd = 0x10, record_data = 0x20, owner_thread = 7, owner_process = 9,
     fullscreen = False, fullscreen_known = True, restore_valid = True, windowed_visible = True,
     windowed_style = 0, windowed_ex_style = 0, windowed_placement = demo_placement,
     requested_width = 640, requested_height = 480, resizable = True, borderless = False,
     mouse_lock_state = Lock_Off, mouse_lock_committed = False, mouse_delivery_enabled = False,
     mouse_raw_owned = False, mouse_clip_owned = False, mouse_baseline_valid = False,
     mouse_baseline_clip = zero_rect, mouse_locked_clip = zero_rect,
     mouse_baseline_devices = None, mouse_baseline_count = 0\<rparr>"

definition demo_screen :: demo_desktop where
  "demo_screen = \<lparr>cursor_clip = screen_rect, raw_devices = [keyboard], lock_marker = 0\<rparr>"

definition demo_host :: "demo_desktop host" where
  "demo_host = \<lparr>desktop = demo_screen, lock_owner = 0, service = demo_service\<rparr>"

text \<open>The service as it is while the lock is held, and the desktop then.\<close>

definition locked_service :: service_state where
  "locked_service = demo_service\<lparr>mouse_lock_state := Lock_Locked, mouse_lock_committed := True,
     mouse_delivery_enabled := True, mouse_raw_owned := True, mouse_clip_owned := True,
     mouse_baseline_valid := True, mouse_baseline_clip := screen_rect,
     mouse_locked_clip := window_rect, mouse_baseline_devices := Some [keyboard],
     mouse_baseline_count := 1\<rparr>"

definition locked_host :: "demo_desktop host" where
  "locked_host = \<lparr>desktop = \<lparr>cursor_clip = window_rect, raw_devices = [keyboard, lock_device 0x10],
     lock_marker = 0x20\<rparr>, lock_owner = 0x40, service = locked_service\<rparr>"

lemma demo_acquire: "run_state (service_mouse_acquire demo_ops 0x40) demo_host = (1, locked_host)"
  by code_simp

lemma demo_release:
  "run_state (service_mouse_cleanup demo_ops 0x40 False False) locked_host = (1, demo_host)"
  by code_simp

text \<open>The laws hold of this desktop, and its objects are consistent.\<close>

lemma small_count:
  assumes "n \<le> unat (c :: u32)"
  shows "unat (of_nat n :: u32) = n"
proof -
  have "n < 2 ^ 32" using assms unat_word_bound [of c] by simp
  then show ?thesis by (simp add: unsigned_of_nat take_bit_nat_eq_self)
qed

lemma demo_lawful:
  "lawful_reads demo_ops cursor_clip raw_devices" "lawful_queries demo_ops cursor_clip raw_devices"
  by (auto simp: lawful_reads_def lawful_queries_def quiet_def same_view_def demo_ops_def
      reading_def changing_def wp_simps small_count small_count [of _ 63] less_Suc_eq_le)

lemma demo_consistent:
  "lock_consistent (service demo_host) (lock_owner demo_host = 0x40)"
  "lock_consistent (service locked_host) (lock_owner locked_host = 0x40)"
  by (simp_all add: lock_consistent_def mouse_released_def demo_host_def locked_host_def
      demo_service_def locked_service_def)

lemma locked_arrays: "service_arrays_ok (service locked_host)" "lock_held (service locked_host)"
  by (simp_all add: service_arrays_ok_def array_ok_def locked_host_def locked_service_def lock_held_def)

lemma mouse_unlock_leaves_no_trace_witness:
  "shows_baseline cursor_clip raw_devices (service locked_host) (desktop demo_host)"
  using wpD [OF mouse_unlock_leaves_no_trace [OF demo_lawful locked_arrays(2,1)] demo_release] by simp

lemma mouse_lock_shows_on_desktop_witness:
  "shows_lock cursor_clip raw_devices (service locked_host) (desktop locked_host)
   \<and> shows_baseline cursor_clip raw_devices (service locked_host) (desktop demo_host)"
  using wpD [OF mouse_lock_shows_on_desktop [OF demo_lawful] demo_acquire] by simp

lemma mouse_acquire_status_witness: "acquire_outcome 0x40 demo_host 1 locked_host"
  by (rule wpD [OF mouse_acquire_status [OF demo_consistent(1)] demo_acquire])

lemma mouse_cleanup_status_witness: "cleanup_outcome False False 0x40 locked_host 1 demo_host"
  by (rule wpD [OF mouse_cleanup_status [OF demo_consistent(2)] demo_release])

lemma raw_inventory_equal_decides_witness:
  "wp (raw_inventory_equal (granting demo_ops) (Some [keyboard, lock_device 1]) 2
        (Some [lock_device 1, keyboard]) 2)
     (\<lambda>b _. b \<longleftrightarrow> mset [keyboard, lock_device 1] = mset [lock_device 1, keyboard]) demo_screen"
  using raw_inventory_equal_decides [of "Some [keyboard, lock_device 1]" 2
      "Some [lock_device 1, keyboard]" 2 demo_ops demo_screen]
  by (simp add: array_ok_def entries_def)

lemma raw_inventory_locked_sound_witness:
  "wp (raw_inventory_locked_exact demo_ops locked_service
        \<lparr>items = Some [lock_device 0x10, keyboard], item_count = 2\<rparr>)
     (\<lambda>b _. b \<longrightarrow> lock_device 0x10 \<notin> {keyboard}) demo_screen"
  by (rule wp_mono [OF raw_inventory_locked_sound])
    (simp_all add: service_arrays_ok_def array_ok_def locked_service_def demo_service_def entries_def)

text \<open>A process that creates the service and takes the lock.\<close>

definition demo_process :: "demo_desktop process" where
  "demo_process = \<lparr>screen = desktop locked_host, owner_cell = 0x40,
     services = [0x40 \<mapsto> locked_service]\<rparr>"

definition fresh_process :: "demo_desktop process" where
  "fresh_process = \<lparr>screen = demo_screen, owner_cell = 0, services = [0x40 \<mapsto> demo_service]\<rparr>"

lemma fresh_reachable: "process_reachable demo_ops fresh_process"
proof -
  have "process_reachable demo_ops \<lparr>screen = demo_screen, owner_cell = 0, services = Map.empty\<rparr>"
    by (rule process_reachable.start)
  then have "process_reachable demo_ops (\<lparr>screen = demo_screen, owner_cell = 0, services = Map.empty\<rparr>
      \<lparr>screen := demo_screen, services := Map.empty(0x40 \<mapsto> demo_service)\<rparr>)"
    by (rule process_reachable.further)
      (use process_step.create [of "\<lparr>screen = demo_screen, owner_cell = 0, services = Map.empty\<rparr>"
          "0x40" demo_service demo_ops demo_screen]
        in \<open>simp add: fresh_service_def mouse_released_def demo_service_def\<close>)
  then show ?thesis by (simp add: fresh_process_def)
qed

lemma demo_takes: "process_step demo_ops fresh_process demo_process"
proof -
  have run: "run_state (run_call demo_ops 0x40 (Set_Mouse_Lock True)) demo_host = ((), locked_host)"
    using demo_acquire by (simp add: run_call_def service_set_mouse_lock_def)
  show ?thesis
    using process_step.call [of fresh_process "0x40" demo_service demo_ops "Set_Mouse_Lock True"
        locked_host] run
    by (simp add: demo_host_def fresh_process_def demo_process_def locked_host_def)
qed

lemma demo_process_reachable: "process_reachable demo_ops demo_process"
  by (rule process_reachable.further [OF fresh_reachable demo_takes])

lemma mouse_lock_exclusive_witness:
  "\<exists>st. services demo_process (owner_cell demo_process) = Some st \<and> lock_held st"
  using mouse_lock_exclusive [OF demo_process_reachable, THEN conjunct2, THEN conjunct2]
  by (simp add: demo_process_def)

end
