(* ===== verification/Win32_Window_Demo.thy ===== *)
theory Win32_Window_Demo
  imports Win32_Window_Props Win32_Mouse_Demo
begin

text \<open>
  A desktop with one window on it, for the properties of the window service: the setters change
  the native state, and \<open>refusals\<close> says how many of the next placements Windows refuses.
\<close>

record demo_window =
  native :: native_snapshot
  refusals :: nat

definition set_native :: "(native_snapshot \<Rightarrow> native_snapshot) \<Rightarrow> (demo_window, bool) state" where
  "set_native f = changing (\<lambda>w. w\<lparr>native := f (native w)\<rparr>)"

definition place_native :: "window_placement \<Rightarrow> (demo_window, bool) state" where
  "place_native p = State (\<lambda>w. if refusals w = 0
     then (True, w\<lparr>native := (native w)\<lparr>snapshot_placement := p, snapshot_rect := normal_position p\<rparr>\<rparr>)
     else (False, w\<lparr>refusals := refusals w - 1\<rparr>))"

definition swap_long :: "int \<Rightarrow> u64 \<Rightarrow> (demo_window, u64) state" where
  "swap_long i v = State (\<lambda>w. if i = GWL_STYLE
     then (snapshot_style (native w), w\<lparr>native := (native w)\<lparr>snapshot_style := v\<rparr>\<rparr>)
     else (snapshot_ex_style (native w), w\<lparr>native := (native w)\<lparr>snapshot_ex_style := v\<rparr>\<rparr>))"

definition window_demo :: "demo_window window_ops" where
  "window_demo = \<lparr>
     is_window = (\<lambda>h. State_Monad.return (h = 0x10)),
     window_thread_process = (\<lambda>_. State_Monad.return (7, 9)),
     current_thread = State_Monad.return 7, current_process = State_Monad.return 9,
     get_window_long = (\<lambda>_ i. if i = GWLP_USERDATA then State_Monad.return 0x20
       else if i = GWL_STYLE then reading (\<lambda>w. snapshot_style (native w))
       else reading (\<lambda>w. snapshot_ex_style (native w))),
     is_window_visible = (\<lambda>_. reading (\<lambda>w. snapshot_visible (native w))),
     foreground_window = State_Monad.return 0x10, focus_window = State_Monad.return 0x10,
     capture_window = State_Monad.return 0, get_prop = (\<lambda>_ _. State_Monad.return 0),
     set_prop = (\<lambda>_ _ _. State_Monad.return True), remove_prop = (\<lambda>_ _. State_Monad.return ()),
     cancel_mouse_leave = (\<lambda>_. State_Monad.return True),
     user32_module = State_Monad.return 0, user32_proc = (\<lambda>_ _. State_Monad.return 0),
     call_get_registered = (\<lambda>_ _. State_Monad.return (0, 0, [])),
     call_register = (\<lambda>_ _. State_Monad.return False),
     calloc_items = (\<lambda>_ _. State_Monad.return True), free_items = State_Monad.return (),
     get_clip_cursor = State_Monad.return None, clip_cursor = (\<lambda>_. State_Monad.return False),
     system_metrics = (\<lambda>_. State_Monad.return 0), client_rect = (\<lambda>_. State_Monad.return None),
     set_last_error = (\<lambda>_. State_Monad.return ()), last_error = State_Monad.return 0,
     map_to_screen = (\<lambda>_ r. State_Monad.return (0, r)),
     set_window_long = (\<lambda>_. swap_long),
     get_placement = (\<lambda>_. reading (\<lambda>w. Some (snapshot_placement (native w)))),
     set_placement = (\<lambda>_. place_native),
     get_window_rect = (\<lambda>_. reading (\<lambda>w. Some (snapshot_rect (native w)))),
     set_window_pos = (\<lambda>_ _ x y cx cy flags. if flags AND 3 = 0
       then set_native (\<lambda>n. n\<lparr>snapshot_rect := \<lparr>rect_left = x, rect_top = y,
         rect_right = x + cx, rect_bottom = y + cy\<rparr>\<rparr>)
       else State_Monad.return True),
     show_window = (\<lambda>_ command. do { set_native (\<lambda>n. n\<lparr>snapshot_visible := (command \<noteq> 0)\<rparr>);
       State_Monad.return () }),
     update_window = (\<lambda>_. State_Monad.return ()),
     is_iconic = (\<lambda>_. State_Monad.return False), is_zoomed = (\<lambda>_. State_Monad.return False),
     set_foreground = (\<lambda>_. State_Monad.return ()), set_focus = (\<lambda>_. State_Monad.return ()),
     nearest_monitor = (\<lambda>_. State_Monad.return 1),
     monitor_rects = (\<lambda>_. State_Monad.return (Some (screen_rect, screen_rect))),
     adjust_rect = (\<lambda>r _ _. State_Monad.return (Some r)),
     calloc_service = State_Monad.return 0x40, free_service = (\<lambda>_. State_Monad.return ())\<rparr>"

definition fullscreen_native :: native_snapshot where
  "fullscreen_native = \<lparr>snapshot_style = 0x96000000, snapshot_ex_style = 0x40000,
     snapshot_placement = demo_placement, snapshot_rect = screen_rect, snapshot_visible = True\<rparr>"

definition fullscreen_host :: "nat \<Rightarrow> demo_window host" where
  "fullscreen_host n = \<lparr>desktop = \<lparr>native = fullscreen_native, refusals = n\<rparr>, lock_owner = 0,
     service = demo_service\<lparr>fullscreen := True, windowed_style := 0x16CF0000,
       windowed_ex_style := 0x40100\<rparr>\<rparr>"

lemma window_demo_reads: "snapshot_reads window_demo 0x10 native"
  by (simp add: snapshot_reads_def keeps_def answers_def window_demo_def reading_def wp_simps)

lemma demo_exit: "fst (run_state (service_set_fullscreen window_demo 0x40 False) (fullscreen_host 0)) = 1"
  by code_simp

text \<open>Windows refuses the placement once: the exit fails and is rolled back.\<close>

lemma demo_failed_exit:
  "run_state (service_set_fullscreen window_demo 0x40 False) (fullscreen_host 1)
     = (0, fullscreen_host 0)"
  by code_simp

text \<open>It refuses it twice: the roll back fails too, and the state is no longer known.\<close>

lemma demo_lost_exit:
  "map_prod id (\<lambda>s. fullscreen_known (service s))
     (run_state (service_set_fullscreen window_demo 0x40 False) (fullscreen_host 2)) = (0, False)"
  by code_simp

lemma failed_exit_rolled_back_witness:
  "exit_rolled_back native (fullscreen_host 1) 0 (fullscreen_host 0)
   \<and> fullscreen_known (service (fullscreen_host 0))"
proof
  have "snapshot_reads window_demo (hwnd (service (fullscreen_host 1))) native"
    using window_demo_reads by (simp add: fullscreen_host_def demo_service_def)
  from wpD [OF failed_exit_rolled_back [OF this] demo_failed_exit]
  show "exit_rolled_back native (fullscreen_host 1) 0 (fullscreen_host 0)" .
  show "fullscreen_known (service (fullscreen_host 0))" by code_simp
qed

text \<open>A service for the window of the desktop, which carries the record 0x20, and none for the record 0x21.\<close>

definition demo_facts :: window_facts where
  "demo_facts = \<lparr>window_live = True, window_thread = 7, window_process = 9, running_thread = 7,
     running_process = 9, window_record = 0x20\<rparr>"

lemma window_demo_facts: "reports_facts window_demo 0x10 (\<lambda>_. demo_facts)"
  by (simp add: reports_facts_def answers_def window_demo_def demo_facts_def wp_simps)

abbreviation (input) demo_create :: "u64 \<Rightarrow> (demo_window host, u64) state" where
  "demo_create record \<equiv> service_create window_demo 0x10 record False 640 480 True False"

lemma demo_created: "fst (run_state (demo_create 0x20) (fullscreen_host 0)) = 0x40"
  by code_simp

theorem service_create_fresh_witness:
  "wp (demo_create 0x20) (\<lambda>self s'. self = 0x40 \<and> created 0x10 0x20 False demo_facts (service s')) (fullscreen_host 0)
   \<and> wp (demo_create 0x21) (\<lambda>self s'. self = 0 \<and> service s' = service (fullscreen_host 0)) (fullscreen_host 0)"
  using service_create_fresh [OF window_demo_facts, of "0x20" False 640 480 True False "fullscreen_host 0"]
    service_create_fresh [OF window_demo_facts, of "0x21" False 640 480 True False "fullscreen_host 0"]
    demo_created
  by (auto simp: wp_run Let_def own_window_def demo_facts_def split: if_splits)

text \<open>The window belongs to another process: the reason is reported and nothing happens.\<close>

definition foreign_host :: "demo_window host" where
  "foreign_host = (fullscreen_host 0)\<lparr>service := demo_service\<lparr>owner_thread := 7, owner_process := 3\<rparr>\<rparr>"

lemma foreign_authority:
  "run_state (service_authority window_demo (service foreign_host)) (desktop foreign_host)
     = (- 2, desktop foreign_host)"
  by code_simp

lemma window_command_needs_authority_witness:
  "run_state (run_command window_demo 0x40 Maximize) foreign_host = (- 2, foreign_host)"
  using window_command_needs_authority [OF foreign_authority, of "0x40" Maximize] by simp

lemma process_refines_mutex_witness:
  "mutex_of fresh_process = (0, {}) \<and> mutex_of demo_process = (0x40, {0x40})
   \<and> mutex_step (0, {}) (0x40, {0x40})"
proof -
  have "mutex_of fresh_process = (0, {})" "mutex_of demo_process = (0x40, {0x40})"
    by (auto simp: mutex_of_def fresh_process_def demo_process_def demo_service_def
        locked_service_def split: if_splits)
  then show ?thesis using process_refines_mutex [OF fresh_reachable demo_takes] by simp
qed

end
