(* ===== verification/Run_Signals.thy ===== *)
theory Run_Signals
  imports Host_Monad
begin

text \<open>
  \<^verbatim>\<open>vlib/v/driver/run_signals_nix.c\<close>: how \<^verbatim>\<open>v run\<close> stays between the terminal and the program it
  started. It forwards the signals it gets to the process group of the program, relays the ones
  the terminal sends to the program back to its own pipeline through a small observer process,
  and hands the terminal over and back.

  POSIX is the record \<open>posix_ops\<close> on a kernel of its own type. \<open>pending\<close> is asked after every
  call and at the places marked \<open>poll\<close>: it names the signals the kernel would deliver there. Those
  that are blocked stay pending in the kernel; for the others the handler of the source runs to its
  end before the program goes on, as if it were a call. Modelled is the build with the system's
  headers, with the signal numbers of Linux; \<open>errno\<close> is the left value of a failed call.
\<close>

abbreviation (input) EPERM :: int where "EPERM \<equiv> 1"
abbreviation (input) ESRCH :: int where "ESRCH \<equiv> 3"
abbreviation (input) EINTR :: int where "EINTR \<equiv> 4"

abbreviation (input) SIG_HUP :: int where "SIG_HUP \<equiv> 1"
abbreviation (input) SIG_INT :: int where "SIG_INT \<equiv> 2"
abbreviation (input) SIG_QUIT :: int where "SIG_QUIT \<equiv> 3"
abbreviation (input) SIG_KILL :: int where "SIG_KILL \<equiv> 9"
abbreviation (input) SIG_TERM :: int where "SIG_TERM \<equiv> 15"
abbreviation (input) SIG_CONT :: int where "SIG_CONT \<equiv> 18"
abbreviation (input) SIG_STOP :: int where "SIG_STOP \<equiv> 19"
abbreviation (input) SIG_TSTP :: int where "SIG_TSTP \<equiv> 20"
abbreviation (input) SIG_TTIN :: int where "SIG_TTIN \<equiv> 21"
abbreviation (input) SIG_TTOU :: int where "SIG_TTOU \<equiv> 22"

datatype wait_status = Exited int | Signaled int | Stopped int

text \<open>What a signal does: the handler of the driver, that of the observer, nothing, or the rest.\<close>

datatype action = Forwarding | Observing | Ignoring | Other_Action nat

record 'w posix_ops =
  pending :: "('w, int list) state"
  sigset_ok :: "int list \<Rightarrow> ('w, bool) state"
  procmask_ok :: "('w, bool) state"
  sigaction_ok :: "int \<Rightarrow> ('w, bool) state"
  kill_pid :: "int \<Rightarrow> int \<Rightarrow> ('w, int + unit) state"
  write_notice :: "int \<Rightarrow> int \<Rightarrow> ('w, unit) state"
  read_notices :: "int \<Rightarrow> ('w, int + int list) state"
  read_control :: "int \<Rightarrow> ('w, int + nat) state"
  getpgrp_call :: "('w, int) state"
  getpgid_call :: "int \<Rightarrow> ('w, int + int) state"
  setpgid_call :: "int \<Rightarrow> int \<Rightarrow> ('w, int + unit) state"
  tcgetpgrp_call :: "int \<Rightarrow> ('w, int) state"
  tcsetpgrp_call :: "int \<Rightarrow> int \<Rightarrow> ('w, bool) state"
  open_tty :: "('w, int) state"
  close_fd :: "int \<Rightarrow> ('w, unit) state"
  set_cloexec :: "int \<Rightarrow> ('w, bool) state"
  get_flags :: "int \<Rightarrow> ('w, int) state"
  set_nonblock :: "int \<Rightarrow> int \<Rightarrow> ('w, bool) state"
  pipe_call :: "('w, (int \<times> int) option) state"
  fork_call :: "('w, int) state"
  waitpid_call :: "int \<Rightarrow> bool \<Rightarrow> ('w, int + int \<times> wait_status) state"

text \<open>
  \<open>write_notice\<close> is the call \<^verbatim>\<open>write\<close> repeated while it fails with \<open>EINTR\<close>. The globals of the file,
  with the process's own pid, its signal mask and its dispositions:
\<close>

record 'w driver =
  kernel :: 'w
  self_pid :: int
  sigmask :: "int set"
  disposition :: "int \<Rightarrow> action"
  owner_pid :: int
  child_pid :: int
  received_signal :: int
  termination_signal :: int
  forwarded_stop :: int
  bridging_stop :: bool
  bridging_interrupt :: int
  observer_pid :: int
  forwarded_int :: bool
  forwarded_quit :: bool
  forwarded_tstp :: bool
  observed_stop :: bool
  observer_control :: int
  observer_stopped :: bool
  notice_read :: int
  notice_write :: int
  owner_group :: int
  terminal_fd :: int
  handoff_terminal :: bool
  previous_action :: "int \<Rightarrow> action"

type_synonym ('w, 'a) run = "('w driver, 'a) state"

definition on_kernel :: "('w, 'a) state \<Rightarrow> ('w, 'a) run" where
  "on_kernel m = State (\<lambda>s. case run_state m (kernel s) of (a, w) \<Rightarrow> (a, s\<lparr>kernel := w\<rparr>))"

definition globals :: "('w, 'w driver) run" where
  "globals = State (\<lambda>s. (s, s))"

definition assign :: "('w driver \<Rightarrow> 'w driver) \<Rightarrow> ('w, unit) run" where
  "assign f = State (\<lambda>s. ((), f s))"

definition is_stop :: "int \<Rightarrow> bool" where
  "is_stop sig \<longleftrightarrow> sig = SIG_TSTP \<or> sig = SIG_TTIN \<or> sig = SIG_TTOU"

definition forwarded_signals :: "int list" where
  "forwarded_signals = [SIG_TERM, SIG_HUP, SIG_INT, SIG_QUIT, SIG_TSTP, SIG_TTIN, SIG_TTOU]"

subsection \<open>The handler\<close>

definition announced :: "int \<Rightarrow> 'w driver \<Rightarrow> bool" where
  "announced sig s = (if sig = SIG_INT then forwarded_int s
     else if sig = SIG_QUIT then forwarded_quit s else forwarded_tstp s)"

definition announce :: "int \<Rightarrow> 'w driver \<Rightarrow> 'w driver" where
  "announce sig s = (if sig = SIG_INT then s\<lparr>forwarded_int := True\<rparr>
     else if sig = SIG_QUIT then s\<lparr>forwarded_quit := True\<rparr> else s\<lparr>forwarded_tstp := True\<rparr>)"

definition send_child_signal :: "('w, 'x) posix_ops_scheme \<Rightarrow> int \<Rightarrow> ('w, unit) run" where
  "send_child_signal ops sig = do {
     s \<leftarrow> globals;
     if_then (observer_pid s > 0 \<and> notice_write s \<ge> 0
         \<and> (sig = SIG_INT \<or> sig = SIG_QUIT \<or> sig = SIG_TSTP) \<and> \<not> announced sig s) (do {
       assign (announce sig);
       on_kernel (write_notice ops (notice_write s) sig) });
     if child_pid s > 0 then do {
       on_kernel (kill_pid ops (- child_pid s) sig);
       State_Monad.return () }
     else State_Monad.return () }"

text \<open>The result is the argument of \<^verbatim>\<open>_exit\<close> when the handler ends the process, a forked child.\<close>

definition forward_signal :: "('w, 'x) posix_ops_scheme \<Rightarrow> int \<Rightarrow> ('w, int option) run" where
  "forward_signal ops sig = do {
     s \<leftarrow> globals;
     if self_pid s \<noteq> owner_pid s then
       (if is_stop sig then do {
          on_kernel (kill_pid ops (self_pid s) SIG_STOP);
          State_Monad.return None }
        else State_Monad.return (Some (128 + sig)))
     else if is_stop sig \<and> bridging_stop s \<or> sig = bridging_interrupt s
     then State_Monad.return None
     else do {
       if_then (is_stop sig) (assign (\<lambda>s. s\<lparr>forwarded_stop := sig\<rparr>));
       assign (\<lambda>s. s\<lparr>received_signal := sig\<rparr>);
       if_then (sig = SIG_HUP \<or> sig = SIG_TERM) (assign (\<lambda>s. s\<lparr>termination_signal := sig\<rparr>));
       send_child_signal ops sig;
       State_Monad.return None }}"

text \<open>
  A place where signals arrive. Only the driver's own process is followed, in which the handler
  returns.
\<close>

fun deliver :: "('w, 'x) posix_ops_scheme \<Rightarrow> int list \<Rightarrow> ('w, unit) run" where
  "deliver ops [] = State_Monad.return ()" |
  "deliver ops (sig # sigs) = do {
     s \<leftarrow> globals;
     if_then (sig \<notin> sigmask s \<and> disposition s sig = Forwarding) (do {
       forward_signal ops sig;
       State_Monad.return () });
     deliver ops sigs }"

definition poll :: "('w, 'x) posix_ops_scheme \<Rightarrow> ('w, unit) run" where
  "poll ops = do { sigs \<leftarrow> on_kernel (pending ops); deliver ops sigs }"

definition sys :: "('w, 'x) posix_ops_scheme \<Rightarrow> ('w, 'a) state \<Rightarrow> ('w, 'a) run" where
  "sys ops m = do { r \<leftarrow> on_kernel m; poll ops; State_Monad.return r }"

subsection \<open>Masks, dispositions and the terminal\<close>

text \<open>The previous mask, or \<open>None\<close> for -1.\<close>

definition block_set :: "('w, 'x) posix_ops_scheme \<Rightarrow> int list \<Rightarrow> ('w, int set option) run" where
  "block_set ops sigs = do {
     built \<leftarrow> sys ops (sigset_ok ops sigs);
     if \<not> built then State_Monad.return None else do {
     ok \<leftarrow> sys ops (procmask_ok ops);
     if \<not> ok then State_Monad.return None else do {
     s \<leftarrow> globals;
     assign (\<lambda>s. s\<lparr>sigmask := sigmask s \<union> set sigs\<rparr>);
     State_Monad.return (Some (sigmask s)) }}}"

definition block_signals :: "('w, 'x) posix_ops_scheme \<Rightarrow> ('w, int set option) run" where
  "block_signals ops = block_set ops forwarded_signals"

definition set_mask :: "('w, 'x) posix_ops_scheme \<Rightarrow> int set \<Rightarrow> ('w, unit) run" where
  "set_mask ops m = do {
     ok \<leftarrow> on_kernel (procmask_ok ops);
     if_then ok (assign (\<lambda>s. s\<lparr>sigmask := m\<rparr>));
     poll ops }"

definition unblock :: "('w, 'x) posix_ops_scheme \<Rightarrow> int \<Rightarrow> ('w, unit) run" where
  "unblock ops sig = do {
     ok \<leftarrow> on_kernel (procmask_ok ops);
     if_then ok (assign (\<lambda>s. s\<lparr>sigmask := sigmask s - {sig}\<rparr>));
     poll ops }"

definition install_signal :: "('w, 'x) posix_ops_scheme \<Rightarrow> int \<Rightarrow> ('w, bool) run" where
  "install_signal ops sig = do {
     known \<leftarrow> sys ops (sigaction_ok ops sig);
     if \<not> known then State_Monad.return False else do {
     assign (\<lambda>s. s\<lparr>previous_action := (previous_action s)(sig := disposition s sig)\<rparr>);
     s \<leftarrow> globals;
     if disposition s sig = Ignoring then State_Monad.return True else do {
     ok \<leftarrow> sys ops (sigaction_ok ops sig);
     if_then ok (assign (\<lambda>s. s\<lparr>disposition := (disposition s)(sig := Forwarding)\<rparr>));
     State_Monad.return ok }}}"

definition restore_action :: "('w, 'x) posix_ops_scheme \<Rightarrow> int \<Rightarrow> ('w, unit) run" where
  "restore_action ops sig = do {
     ok \<leftarrow> sys ops (sigaction_ok ops sig);
     if_then ok (assign (\<lambda>s. s\<lparr>disposition := (disposition s)(sig := previous_action s sig)\<rparr>)) }"

fun restore_actions :: "('w, 'x) posix_ops_scheme \<Rightarrow> int list \<Rightarrow> ('w, unit) run" where
  "restore_actions ops [] = State_Monad.return ()" |
  "restore_actions ops (sig # sigs) = do { restore_action ops sig; restore_actions ops sigs }"

text \<open>Installs the signals in order; the answer has those installed, the last one first.\<close>

fun install_signals ::
    "('w, 'x) posix_ops_scheme \<Rightarrow> int list \<Rightarrow> int list \<Rightarrow> ('w, bool \<times> int list) run" where
  "install_signals ops [] installed = State_Monad.return (True, installed)" |
  "install_signals ops (sig # sigs) installed = do {
     ok \<leftarrow> install_signal ops sig;
     if ok then install_signals ops sigs (sig # installed)
     else State_Monad.return (False, installed) }"

definition set_foreground :: "('w, 'x) posix_ops_scheme \<Rightarrow> int \<Rightarrow> ('w, bool) run" where
  "set_foreground ops pgrp = do {
     previous_mask \<leftarrow> block_set ops [SIG_TTOU];
     case previous_mask of
       None \<Rightarrow> State_Monad.return False
     | Some m \<Rightarrow> do {
         s \<leftarrow> globals;
         ok \<leftarrow> sys ops (tcsetpgrp_call ops (terminal_fd s) pgrp);
         set_mask ops m;
         State_Monad.return ok } }"

definition restore_terminal :: "('w, 'x) posix_ops_scheme \<Rightarrow> ('w, unit) run" where
  "restore_terminal ops = do {
     s \<leftarrow> globals;
     if terminal_fd s < 0 then State_Monad.return () else do {
     pgrp \<leftarrow> sys ops (tcgetpgrp_call ops (terminal_fd s));
     if pgrp = child_pid s then do {
       set_foreground ops (owner_group s);
       State_Monad.return () }
     else State_Monad.return () }}"

definition foreground_child :: "('w, 'x) posix_ops_scheme \<Rightarrow> ('w, bool) run" where
  "foreground_child ops = do {
     s \<leftarrow> globals;
     if \<not> handoff_terminal s \<or> terminal_fd s < 0 then State_Monad.return True else do {
     pgrp \<leftarrow> sys ops (tcgetpgrp_call ops (terminal_fd s));
     if pgrp = owner_group s then set_foreground ops (child_pid s)
     else State_Monad.return True }}"

subsection \<open>The observer process\<close>

text \<open>
  The handler of the observer, in its own process: it reads the notices that are there and ends
  the process with the classification. The loop over \<open>EINTR\<close> has fuel; \<open>None\<close> is that it has not
  ended.
\<close>

fun drain_notices :: "('w, 'x) posix_ops_scheme \<Rightarrow> nat \<Rightarrow> int \<Rightarrow> bool \<Rightarrow> ('w, bool option) run" where
  "drain_notices ops 0 sig forwarded = State_Monad.return None" |
  "drain_notices ops (Suc fuel) sig forwarded = do {
     s \<leftarrow> globals;
     r \<leftarrow> on_kernel (read_notices ops (notice_read s));
     case r of
       Inl e \<Rightarrow> if e = EINTR then drain_notices ops fuel sig forwarded
               else State_Monad.return (Some forwarded)
     | Inr notices \<Rightarrow>
         if notices = [] then State_Monad.return (Some forwarded)
         else drain_notices ops fuel sig (forwarded \<or> sig \<in> set notices) }"

definition observer_interrupt :: "('w, 'x) posix_ops_scheme \<Rightarrow> nat \<Rightarrow> int \<Rightarrow> ('w, int option) run" where
  "observer_interrupt ops fuel sig = do {
     forwarded \<leftarrow> drain_notices ops fuel sig False;
     State_Monad.return (map_option (\<lambda>f. (if f then 64 else 128) + sig) forwarded) }"

text \<open>Setting a handler: the previous action, or \<open>None\<close> for \<^verbatim>\<open>SIG_ERR\<close>.\<close>

definition set_signal :: "('w, 'x) posix_ops_scheme \<Rightarrow> int \<Rightarrow> action \<Rightarrow> ('w, action option) run" where
  "set_signal ops sig act = do {
     ok \<leftarrow> on_kernel (sigaction_ok ops sig);
     s \<leftarrow> globals;
     if \<not> ok then State_Monad.return None else do {
     assign (\<lambda>s. s\<lparr>disposition := (disposition s)(sig := act)\<rparr>);
     State_Monad.return (Some (disposition s sig)) }}"

fun ignore_all :: "('w, 'x) posix_ops_scheme \<Rightarrow> int list \<Rightarrow> ('w, bool) run" where
  "ignore_all ops [] = State_Monad.return True" |
  "ignore_all ops (sig # sigs) = do {
     old \<leftarrow> set_signal ops sig Ignoring;
     if old = None then State_Monad.return False else ignore_all ops sigs }"

fun observe_all :: "('w, 'x) posix_ops_scheme \<Rightarrow> int list \<Rightarrow> ('w, bool) run" where
  "observe_all ops [] = State_Monad.return True" |
  "observe_all ops (sig # sigs) = do {
     old \<leftarrow> set_signal ops sig Observing;
     if old = None then State_Monad.return False else do {
     (if old = Some Ignoring then do { set_signal ops sig Ignoring; State_Monad.return () }
      else State_Monad.return ());
     observe_all ops sigs }}"

fun close_standard :: "('w, 'x) posix_ops_scheme \<Rightarrow> int list \<Rightarrow> int list \<Rightarrow> ('w, unit) run" where
  "close_standard ops kept [] = State_Monad.return ()" |
  "close_standard ops kept (fd # fds) = do {
     if_then (fd \<notin> set kept) (on_kernel (close_fd ops fd));
     close_standard ops kept fds }"

text \<open>Waiting for the control pipe to close, or for the first signal that the observer observes.\<close>

fun observer_wait :: "('w, 'x) posix_ops_scheme \<Rightarrow> nat \<Rightarrow> int \<Rightarrow> ('w, int option) run" where
  "observer_wait ops 0 control = State_Monad.return None" |
  "observer_wait ops (Suc fuel) control = do {
     s \<leftarrow> globals;
     sigs \<leftarrow> on_kernel (pending ops);
     case filter (\<lambda>sig. sig \<notin> sigmask s \<and> disposition s sig = Observing) sigs of
       sig # _ \<Rightarrow> observer_interrupt ops fuel sig
     | [] \<Rightarrow> do {
         r \<leftarrow> on_kernel (read_control ops control);
         case r of
           Inl e \<Rightarrow> if e = EINTR then observer_wait ops fuel control
                   else State_Monad.return (Some 125)
         | Inr n \<Rightarrow> if n = 0 then State_Monad.return (Some 0)
                   else observer_wait ops fuel control } }"

text \<open>What the forked observer does, on its copy of the globals; the answer is its exit code.\<close>

definition observer_process ::
    "('w, 'x) posix_ops_scheme \<Rightarrow> nat \<Rightarrow> int set \<Rightarrow> int \<times> int \<Rightarrow> int \<times> int \<Rightarrow> ('w, int option) run" where
  "observer_process ops fuel previous_mask control notices = do {
     on_kernel (close_fd ops (snd control));
     on_kernel (close_fd ops (snd notices));
     assign (\<lambda>s. s\<lparr>notice_read := fst notices\<rparr>);
     s \<leftarrow> globals;
     joined \<leftarrow> on_kernel (setpgid_call ops 0 (child_pid s));
     if joined \<noteq> Inr () then State_Monad.return (Some 125) else do {
     ignored \<leftarrow> ignore_all ops [SIG_HUP, SIG_TERM, SIG_TTIN, SIG_TTOU];
     if \<not> ignored then State_Monad.return (Some 125) else do {
     observed \<leftarrow> observe_all ops [SIG_INT, SIG_QUIT, SIG_TSTP];
     if \<not> observed then State_Monad.return (Some 125) else do {
     if_then (terminal_fd s \<ge> 0) (on_kernel (close_fd ops (terminal_fd s)));
     close_standard ops [fst control, fst notices] [0, 1, 2];
     ok \<leftarrow> on_kernel (procmask_ok ops);
     if \<not> ok then State_Monad.return (Some 125) else do {
     assign (\<lambda>s. s\<lparr>sigmask := previous_mask\<rparr>);
     observer_wait ops fuel (fst control) }}}}}"

subsection \<open>The observer as the driver sees it\<close>

definition close_pair :: "('w, 'x) posix_ops_scheme \<Rightarrow> int \<times> int \<Rightarrow> ('w, unit) run" where
  "close_pair ops fds = do {
     sys ops (close_fd ops (fst fds));
     sys ops (close_fd ops (snd fds)) }"

definition cloexec_pair :: "('w, 'x) posix_ops_scheme \<Rightarrow> int \<times> int \<Rightarrow> ('w, bool) run" where
  "cloexec_pair ops fds = do {
     first \<leftarrow> sys ops (set_cloexec ops (fst fds));
     if first then sys ops (set_cloexec ops (snd fds)) else State_Monad.return False }"

text \<open>The notice pipe reads without blocking.\<close>

definition notice_pipe_ready :: "('w, 'x) posix_ops_scheme \<Rightarrow> int \<times> int \<Rightarrow> ('w, bool) run" where
  "notice_pipe_ready ops fds = do {
     flags \<leftarrow> sys ops (get_flags ops (fst fds));
     if flags < 0 then State_Monad.return False else do {
     ok \<leftarrow> sys ops (set_nonblock ops (fst fds) flags);
     if ok then cloexec_pair ops fds else State_Monad.return False }}"

text \<open>Reaping an observer that was killed: \<^verbatim>\<open>waitpid\<close> repeated while it fails with \<open>EINTR\<close>.\<close>

fun reap :: "('w, 'x) posix_ops_scheme \<Rightarrow> nat \<Rightarrow> int \<Rightarrow> ('w, unit option) run" where
  "reap ops 0 pid = State_Monad.return None" |
  "reap ops (Suc fuel) pid = do {
     r \<leftarrow> sys ops (waitpid_call ops pid False);
     if r = Inl EINTR then reap ops fuel pid else State_Monad.return (Some ()) }"

text \<open>The driver's side after the fork.\<close>

definition adopt_observer ::
    "('w, 'x) posix_ops_scheme \<Rightarrow> nat \<Rightarrow> int \<times> int \<Rightarrow> int \<times> int \<Rightarrow> int \<Rightarrow> ('w, bool option) run" where
  "adopt_observer ops fuel control notices observer = do {
     sys ops (close_fd ops (fst control));
     s \<leftarrow> globals;
     joined \<leftarrow> sys ops (setpgid_call ops observer (child_pid s));
     member \<leftarrow> (if joined = Inr () then State_Monad.return True else do {
       g \<leftarrow> sys ops (getpgid_call ops observer);
       State_Monad.return (g = Inr (child_pid s)) });
     if \<not> member then do {
       sys ops (close_fd ops (snd control));
       close_pair ops notices;
       sys ops (kill_pid ops observer SIG_KILL);
       reaped \<leftarrow> reap ops fuel observer;
       State_Monad.return (map_option (\<lambda>_. False) reaped) }
     else do {
       assign (\<lambda>s. s\<lparr>observer_pid := observer, observer_control := snd control,
         notice_read := fst notices, notice_write := snd notices, observer_stopped := False,
         forwarded_int := False, forwarded_quit := False, forwarded_tstp := False\<rparr>);
       State_Monad.return (Some True) }}"

definition start_observer :: "('w, 'x) posix_ops_scheme \<Rightarrow> nat \<Rightarrow> ('w, bool option) run" where
  "start_observer ops fuel = do {
     s \<leftarrow> globals;
     if \<not> handoff_terminal s then State_Monad.return (Some True) else do {
     control \<leftarrow> sys ops (pipe_call ops);
     case control of None \<Rightarrow> State_Monad.return (Some False)
     | Some control \<Rightarrow> do {
     ok \<leftarrow> cloexec_pair ops control;
     if \<not> ok then do {
       close_pair ops control;
       State_Monad.return (Some False) }
     else do {
     notices \<leftarrow> sys ops (pipe_call ops);
     case notices of
       None \<Rightarrow> do {
         close_pair ops control;
         State_Monad.return (Some False) }
     | Some notices \<Rightarrow> do {
     ready \<leftarrow> notice_pipe_ready ops notices;
     if \<not> ready then do {
       close_pair ops control;
       close_pair ops notices;
       State_Monad.return (Some False) }
     else do {
     observer \<leftarrow> sys ops (fork_call ops);
     if observer < 0 then do {
       close_pair ops control;
       close_pair ops notices;
       State_Monad.return (Some False) }
     else adopt_observer ops fuel control notices observer }}}}}}"

definition close_if_open :: "('w, 'x) posix_ops_scheme \<Rightarrow> int \<Rightarrow> ('w, unit) run" where
  "close_if_open ops fd = (if fd \<ge> 0 then sys ops (close_fd ops fd) else State_Monad.return ())"

definition close_notices :: "('w, 'x) posix_ops_scheme \<Rightarrow> ('w, unit) run" where
  "close_notices ops = do {
     s \<leftarrow> globals;
     close_if_open ops (notice_read s);
     s \<leftarrow> globals;
     close_if_open ops (notice_write s);
     assign (\<lambda>s. s\<lparr>notice_read := - 1, notice_write := - 1\<rparr>) }"

definition close_control :: "('w, 'x) posix_ops_scheme \<Rightarrow> ('w, unit) run" where
  "close_control ops = do {
     s \<leftarrow> globals;
     close_if_open ops (observer_control s);
     assign (\<lambda>s. s\<lparr>observer_control := - 1\<rparr>) }"

text \<open>Relaying to the original pipeline a signal that reached only the program's group.\<close>

definition relay_interrupt :: "('w, 'x) posix_ops_scheme \<Rightarrow> int \<Rightarrow> ('w, bool) run" where
  "relay_interrupt ops sig = do {
     built \<leftarrow> sys ops (sigset_ok ops [sig]);
     if \<not> built then State_Monad.return False else do {
     assign (\<lambda>s. s\<lparr>bridging_interrupt := sig\<rparr>);
     s \<leftarrow> globals;
     sys ops (kill_pid ops (- owner_group s) sig);
     unblock ops sig;
     assign (\<lambda>s. s\<lparr>bridging_interrupt := 0\<rparr>);
     State_Monad.return True }}"

definition observed_signal :: "wait_status \<Rightarrow> int" where
  "observed_signal status = (case status of Exited c \<Rightarrow> c - 128 | _ \<Rightarrow> 0)"

definition observer_exit :: "('w, 'x) posix_ops_scheme \<Rightarrow> wait_status \<Rightarrow> ('w, bool) run" where
  "observer_exit ops status = do {
     previous_mask \<leftarrow> block_signals ops;
     case previous_mask of None \<Rightarrow> State_Monad.return False
     | Some m \<Rightarrow> do {
     let sig = observed_signal status;
     assign (\<lambda>s. s\<lparr>observer_pid := 0, observer_stopped := False\<rparr>);
     close_control ops;
     close_notices ops;
     if_then (sig = SIG_TSTP) (assign (\<lambda>s. s\<lparr>observed_stop := True\<rparr>));
     relayed \<leftarrow> (if sig = SIG_INT \<or> sig = SIG_QUIT then relay_interrupt ops sig
                else State_Monad.return True);
     set_mask ops m;
     State_Monad.return (relayed \<and> status \<noteq> Exited 125) }}"

fun reap_observer :: "('w, 'x) posix_ops_scheme \<Rightarrow> nat \<Rightarrow> ('w, bool option) run" where
  "reap_observer ops 0 = State_Monad.return None" |
  "reap_observer ops (Suc fuel) = do {
     s \<leftarrow> globals;
     if observer_pid s \<le> 0 then State_Monad.return (Some True) else do {
     r \<leftarrow> sys ops (waitpid_call ops (observer_pid s) True);
     case r of
       Inl e \<Rightarrow>
         if e = EINTR then reap_observer ops fuel else do {
         assign (\<lambda>s. s\<lparr>observer_pid := 0, observer_stopped := False\<rparr>);
         close_notices ops;
         State_Monad.return (Some False) }
     | Inr (waited, status) \<Rightarrow>
         (case status of
            Stopped _ \<Rightarrow> do {
              sys ops (kill_pid ops waited SIG_CONT);
              reap_observer ops fuel }
          | _ \<Rightarrow> do {
              ok \<leftarrow> observer_exit ops status;
              State_Monad.return (Some ok) }) }}"

definition close_observer :: "('w, 'x) posix_ops_scheme \<Rightarrow> nat \<Rightarrow> ('w, bool option) run" where
  "close_observer ops fuel = do {
     close_control ops;
     s \<leftarrow> globals;
     (if observer_pid s > 0 \<and> observer_stopped s then do {
        sys ops (kill_pid ops (observer_pid s) SIG_CONT);
        State_Monad.return () }
      else State_Monad.return ());
     reap_observer ops fuel }"

subsection \<open>A session\<close>

text \<open>Resetting the globals, and the terminal; False is -1.\<close>

definition begin_reset :: "int \<Rightarrow> 'w driver \<Rightarrow> 'w driver" where
  "begin_reset pgrp s = s\<lparr>owner_pid := self_pid s, owner_group := pgrp, child_pid := 0,
     received_signal := 0, termination_signal := 0, forwarded_stop := 0, observed_stop := False,
     bridging_stop := False, bridging_interrupt := 0, observer_pid := 0, observer_control := - 1,
     observer_stopped := False\<rparr>"

definition begin_terminal :: "('w, 'x) posix_ops_scheme \<Rightarrow> ('w, bool) run" where
  "begin_terminal ops = do {
     tty \<leftarrow> sys ops (open_tty ops);
     assign (\<lambda>s. s\<lparr>terminal_fd := tty\<rparr>);
     front \<leftarrow> (if tty \<ge> 0 then sys ops (tcgetpgrp_call ops 0) else State_Monad.return (- 1));
     assign (\<lambda>s. s\<lparr>handoff_terminal := (tty \<ge> 0 \<and> front \<ge> 0)\<rparr>);
     ok \<leftarrow> (if tty \<ge> 0 then sys ops (set_cloexec ops tty) else State_Monad.return True);
     (if ok then State_Monad.return () else do {
       sys ops (close_fd ops tty);
       assign (\<lambda>s. s\<lparr>terminal_fd := - 1\<rparr>) });
     State_Monad.return ok }"

definition begin_install :: "('w, 'x) posix_ops_scheme \<Rightarrow> ('w, bool) run" where
  "begin_install ops = do {
     r \<leftarrow> install_signals ops forwarded_signals [];
     (if fst r then State_Monad.return () else do {
       restore_actions ops (snd r);
       s \<leftarrow> globals;
       close_if_open ops (terminal_fd s);
       assign (\<lambda>s. s\<lparr>terminal_fd := - 1\<rparr>) });
     State_Monad.return (fst r) }"

definition signals_begin :: "('w, 'x) posix_ops_scheme \<Rightarrow> ('w, bool) run" where
  "signals_begin ops = do {
     previous_mask \<leftarrow> block_signals ops;
     case previous_mask of None \<Rightarrow> State_Monad.return False
     | Some m \<Rightarrow> do {
     pgrp \<leftarrow> sys ops (getpgrp_call ops);
     assign (begin_reset pgrp);
     ok \<leftarrow> begin_terminal ops;
     begun \<leftarrow> (if ok then begin_install ops else State_Monad.return False);
     set_mask ops m;
     State_Monad.return begun }}"

text \<open>At most two attempts; the counter has those that are left.\<close>

fun verify_group :: "('w, 'x) posix_ops_scheme \<Rightarrow> int \<Rightarrow> nat \<Rightarrow> ('w, bool) run" where
  "verify_group ops child 0 = State_Monad.return True" |
  "verify_group ops child (Suc left) = do {
     r \<leftarrow> sys ops (setpgid_call ops child child);
     case r of
       Inr _ \<Rightarrow> State_Monad.return True
     | Inl set_error \<Rightarrow> do {
         g \<leftarrow> sys ops (getpgid_call ops child);
         if g = Inr child \<or> set_error = ESRCH \<or> g = Inl ESRCH then State_Monad.return True
         else if set_error = EPERM \<and> left = 1 then verify_group ops child left
         else State_Monad.return False } }"

text \<open>Publishing the child: from here on its group is the target of the handler.\<close>

definition publish_child :: "('w, 'x) posix_ops_scheme \<Rightarrow> nat \<Rightarrow> int \<Rightarrow> ('w, bool option) run" where
  "publish_child ops fuel child = do {
     assign (\<lambda>s. s\<lparr>child_pid := child\<rparr>);
     started \<leftarrow> start_observer ops fuel;
     case started of None \<Rightarrow> State_Monad.return None
     | Some started \<Rightarrow> do {
     ok \<leftarrow> (if started then foreground_child ops else State_Monad.return False);
     gone \<leftarrow> (if ok then State_Monad.return False else do {
       r \<leftarrow> sys ops (kill_pid ops child 0);
       State_Monad.return (r = Inl ESRCH) });
     if ok \<or> gone then do {
       s \<leftarrow> globals;
       if_then (received_signal s \<noteq> 0) (send_child_signal ops (received_signal s));
       State_Monad.return (Some True) }
     else State_Monad.return (Some False) }}"

definition signals_set_pid :: "('w, 'x) posix_ops_scheme \<Rightarrow> nat \<Rightarrow> int \<Rightarrow> ('w, bool option) run" where
  "signals_set_pid ops fuel child = do {
     previous_mask \<leftarrow> block_signals ops;
     case previous_mask of None \<Rightarrow> State_Monad.return (Some False)
     | Some m \<Rightarrow> do {
     verified \<leftarrow> (if child \<le> 0 then State_Monad.return False else verify_group ops child 2);
     r \<leftarrow> (if verified then publish_child ops fuel child else State_Monad.return (Some False));
     case r of None \<Rightarrow> State_Monad.return None
     | Some ok \<Rightarrow> do {
     set_mask ops m;
     State_Monad.return (Some ok) }}}"

text \<open>
  The loop of \<open>suspend_owner\<close>: the process stops itself until it is continued, and again when a
  stop was forwarded meanwhile. The answer is the mask to restore; the outer \<open>None\<close> is fuel.
\<close>

fun stop_owner :: "('w, 'x) posix_ops_scheme \<Rightarrow> nat \<Rightarrow> ('w, int set option option) run" where
  "stop_owner ops 0 = State_Monad.return None" |
  "stop_owner ops (Suc fuel) = do {
     assign (\<lambda>s. s\<lparr>forwarded_stop := 0\<rparr>);
     s \<leftarrow> globals;
     sys ops (kill_pid ops (owner_pid s) SIG_STOP);
     assign (\<lambda>s. s\<lparr>bridging_stop := False\<rparr>);
     previous_mask \<leftarrow> block_signals ops;
     case previous_mask of None \<Rightarrow> State_Monad.return (Some None)
     | Some m \<Rightarrow> do {
     s \<leftarrow> globals;
     if forwarded_stop s = 0 then State_Monad.return (Some (Some m)) else do {
     set_mask ops m;
     stop_owner ops fuel }}}"

definition suspend_owner ::
    "('w, 'x) posix_ops_scheme \<Rightarrow> nat \<Rightarrow> int \<Rightarrow> bool \<Rightarrow> ('w, bool option) run" where
  "suspend_owner ops fuel stop_signal forwarded = do {
     restore_terminal ops;
     s \<leftarrow> globals;
     (if terminal_fd s \<ge> 0 \<and> \<not> forwarded \<and> is_stop stop_signal then do {
        assign (\<lambda>s. s\<lparr>bridging_stop := True\<rparr>);
        sys ops (kill_pid ops (- owner_group s) stop_signal);
        State_Monad.return () }
      else State_Monad.return ());
     stopped \<leftarrow> stop_owner ops fuel;
     case stopped of None \<Rightarrow> State_Monad.return None
     | Some previous_mask \<Rightarrow> (case previous_mask of None \<Rightarrow> State_Monad.return (Some False)
     | Some m \<Rightarrow> do {
     ok \<leftarrow> foreground_child ops;
     s \<leftarrow> globals;
     (if ok then do {
        sys ops (kill_pid ops (- child_pid s) SIG_CONT);
        State_Monad.return () }
      else State_Monad.return ());
     set_mask ops m;
     State_Monad.return (Some ok) }) }"

definition signals_kill :: "('w, 'x) posix_ops_scheme \<Rightarrow> int \<Rightarrow> ('w, unit) run" where
  "signals_kill ops child = do {
     s \<leftarrow> globals;
     (if child > 0 \<and> child_pid s = child then do {
        sys ops (kill_pid ops (- child) SIG_KILL);
        State_Monad.return () }
      else State_Monad.return ());
     if child > 0 then do {
       sys ops (kill_pid ops child SIG_KILL);
       State_Monad.return () }
     else State_Monad.return () }"

text \<open>Starting the next observer under blocked signals.\<close>

definition restart_observer :: "('w, 'x) posix_ops_scheme \<Rightarrow> nat \<Rightarrow> ('w, bool option) run" where
  "restart_observer ops fuel = do {
     previous_mask \<leftarrow> block_signals ops;
     case previous_mask of None \<Rightarrow> State_Monad.return (Some False)
     | Some m \<Rightarrow> do {
     r \<leftarrow> start_observer ops fuel;
     case r of None \<Rightarrow> State_Monad.return None
     | Some ok \<Rightarrow> do {
     set_mask ops m;
     State_Monad.return (Some ok) }}}"

text \<open>One pass of the loop of \<open>wait\<close>; \<open>Pending\<close> is that an inner loop has used up the fuel.\<close>

datatype wait_progress = Pending | Again | Failed | Finished int int

definition suspend_and_restart ::
    "('w, 'x) posix_ops_scheme \<Rightarrow> nat \<Rightarrow> int \<Rightarrow> bool \<Rightarrow> ('w, wait_progress) run" where
  "suspend_and_restart ops fuel stop_signal forwarded = do {
     suspended \<leftarrow> suspend_owner ops fuel stop_signal forwarded;
     case suspended of None \<Rightarrow> State_Monad.return Pending
     | Some ok \<Rightarrow>
     if \<not> ok then State_Monad.return Failed else do {
     r \<leftarrow> restart_observer ops fuel;
     State_Monad.return (case r of None \<Rightarrow> Pending | Some ok \<Rightarrow> if ok then Again else Failed) }}"

definition wait_observer :: "('w, 'x) posix_ops_scheme \<Rightarrow> nat \<Rightarrow> wait_status \<Rightarrow> ('w, wait_progress) run" where
  "wait_observer ops fuel status =
     (case status of
        Stopped _ \<Rightarrow> do {
          assign (\<lambda>s. s\<lparr>observer_stopped := True\<rparr>);
          State_Monad.return Again }
      | _ \<Rightarrow> do {
          ok \<leftarrow> observer_exit ops status;
          if \<not> ok then State_Monad.return Failed else do {
          s \<leftarrow> globals;
          if observed_stop s then do {
            assign (\<lambda>s. s\<lparr>observed_stop := False\<rparr>);
            suspend_and_restart ops fuel SIG_TSTP False }
          else do {
            r \<leftarrow> restart_observer ops fuel;
            State_Monad.return (case r of None \<Rightarrow> Pending | Some ok \<Rightarrow> if ok then Again else Failed) }}})"

definition wait_stopped :: "('w, 'x) posix_ops_scheme \<Rightarrow> nat \<Rightarrow> int \<Rightarrow> ('w, wait_progress) run" where
  "wait_stopped ops fuel stop_signal = do {
     s \<leftarrow> globals;
     front \<leftarrow> (if (stop_signal = SIG_TTIN \<or> stop_signal = SIG_TTOU) \<and> forwarded_stop s = 0
           \<and> handoff_terminal s \<and> terminal_fd s \<ge> 0
         then do {
           pgrp \<leftarrow> sys ops (tcgetpgrp_call ops (terminal_fd s));
           State_Monad.return (pgrp = child_pid s) }
         else State_Monad.return False);
     if front then do {
       sys ops (kill_pid ops (- child_pid s) SIG_CONT);
       State_Monad.return Again }
     else do {
     s \<leftarrow> globals;
     let forwarded = (forwarded_stop s \<noteq> 0);
     poll ops;
     assign (\<lambda>s. s\<lparr>forwarded_stop := 0\<rparr>);
     if terminal_fd s < 0 \<and> \<not> forwarded then State_Monad.return Again else do {
     closed \<leftarrow> close_observer ops fuel;
     case closed of None \<Rightarrow> State_Monad.return Pending
     | Some ok \<Rightarrow>
     if \<not> ok then State_Monad.return Failed else do {
     assign (\<lambda>s. s\<lparr>observed_stop := False\<rparr>);
     suspend_and_restart ops fuel stop_signal forwarded }}}}"

text \<open>The child has ended; a signal is reported as \<open>128 + n\<close>.\<close>

definition exit_report :: "wait_status \<Rightarrow> wait_progress" where
  "exit_report status = (case status of
       Signaled n \<Rightarrow> if n \<noteq> 0 then Finished (128 + n) n else Finished 0 0
     | Exited c \<Rightarrow> Finished c 0
     | Stopped _ \<Rightarrow> Finished 0 0)"

definition wait_exited :: "('w, 'x) posix_ops_scheme \<Rightarrow> nat \<Rightarrow> wait_status \<Rightarrow> ('w, wait_progress) run" where
  "wait_exited ops fuel status = do {
     restore_terminal ops;
     closed \<leftarrow> close_observer ops fuel;
     State_Monad.return (case closed of None \<Rightarrow> Pending
       | Some ok \<Rightarrow> if ok then exit_report status else Failed) }"

definition wait_pass :: "('w, 'x) posix_ops_scheme \<Rightarrow> nat \<Rightarrow> ('w, wait_progress) run" where
  "wait_pass ops fuel = do {
     s \<leftarrow> globals;
     r \<leftarrow> sys ops (waitpid_call ops (if observer_pid s > 0 then - 1 else child_pid s) True);
     case r of
       Inl e \<Rightarrow> State_Monad.return (if e = EINTR then Again else Failed)
     | Inr (waited, status) \<Rightarrow> do {
         s \<leftarrow> globals;
         if waited = observer_pid s then wait_observer ops fuel status
         else if waited \<noteq> child_pid s then State_Monad.return Again
         else (case status of Stopped sig \<Rightarrow> wait_stopped ops fuel sig
               | _ \<Rightarrow> wait_exited ops fuel status) } }"

fun wait_loop :: "('w, 'x) posix_ops_scheme \<Rightarrow> nat \<Rightarrow> ('w, wait_progress) run" where
  "wait_loop ops 0 = State_Monad.return Pending" |
  "wait_loop ops (Suc fuel) = do {
     r \<leftarrow> wait_pass ops fuel;
     if r = Again then wait_loop ops fuel else State_Monad.return r }"

definition signals_wait :: "('w, 'x) posix_ops_scheme \<Rightarrow> nat \<Rightarrow> ('w, wait_progress) run" where
  "signals_wait ops fuel = do {
     s \<leftarrow> globals;
     if child_pid s \<le> 0 then State_Monad.return Failed else wait_loop ops fuel }"

text \<open>The signal that ended the session, -1 for a failure; the outer \<open>None\<close> is fuel.\<close>

definition signals_finish :: "('w, 'x) posix_ops_scheme \<Rightarrow> nat \<Rightarrow> ('w, int option) run" where
  "signals_finish ops fuel = do {
     previous_mask \<leftarrow> block_signals ops;
     case previous_mask of None \<Rightarrow> State_Monad.return (Some (- 1))
     | Some m \<Rightarrow> do {
     restore_terminal ops;
     closed \<leftarrow> close_observer ops fuel;
     case closed of None \<Rightarrow> State_Monad.return None
     | Some _ \<Rightarrow> do {
     s \<leftarrow> globals;
     close_if_open ops (terminal_fd s);
     assign (\<lambda>s. s\<lparr>terminal_fd := - 1, child_pid := 0\<rparr>);
     s \<leftarrow> globals;
     let received = termination_signal s;
     restore_actions ops (rev forwarded_signals);
     set_mask ops m;
     State_Monad.return (Some received) }}}"

text \<open>
  The only caller, \<^verbatim>\<open>wait_run_process\<close> in \<^verbatim>\<open>run_signals_nix.c.v\<close>: starting the process and waiting
  for it after a failure are the calls \<open>spawn\<close> and \<open>await\<close> of the module \<^verbatim>\<open>os\<close>.
\<close>

datatype run_result = Not_Installed | Not_Started | Not_Waited | Ended int int int

definition run_ending ::
    "('w, 'x) posix_ops_scheme \<Rightarrow> nat \<Rightarrow> (int \<Rightarrow> run_result) \<Rightarrow> ('w, run_result option) run" where
  "run_ending ops fuel report = do {
     r \<leftarrow> signals_finish ops fuel;
     State_Monad.return (map_option report r) }"

definition run_waited ::
    "('w, 'x) posix_ops_scheme \<Rightarrow> (int \<Rightarrow> ('w, unit) state) \<Rightarrow> nat \<Rightarrow> int \<Rightarrow> wait_progress \<Rightarrow>
     ('w, run_result option) run" where
  "run_waited ops await fuel pid waited =
     (if waited = Pending then State_Monad.return None
      else case waited of
        Finished code sig \<Rightarrow> run_ending ops fuel (Ended code sig)
      | _ \<Rightarrow> do {
          signals_kill ops pid;
          sys ops (await pid);
          run_ending ops fuel (\<lambda>_. Not_Waited) })"

definition run_started ::
    "('w, 'x) posix_ops_scheme \<Rightarrow> (int \<Rightarrow> ('w, unit) state) \<Rightarrow> nat \<Rightarrow> int \<Rightarrow> ('w, run_result option) run" where
  "run_started ops await fuel pid = do {
     published \<leftarrow> signals_set_pid ops fuel pid;
     case published of None \<Rightarrow> State_Monad.return None
     | Some ok \<Rightarrow> do {
     waited \<leftarrow> (if ok then signals_wait ops fuel else State_Monad.return Failed);
     run_waited ops await fuel pid waited }}"

definition wait_run_process ::
    "('w, 'x) posix_ops_scheme \<Rightarrow> ('w, int) state \<Rightarrow> (int \<Rightarrow> ('w, unit) state) \<Rightarrow> nat \<Rightarrow>
     ('w, run_result option) run" where
  "wait_run_process ops spawn await fuel = do {
     begun \<leftarrow> signals_begin ops;
     if \<not> begun then State_Monad.return (Some Not_Installed) else do {
     pid \<leftarrow> sys ops spawn;
     if pid \<le> 0 then run_ending ops fuel (\<lambda>_. Not_Started)
     else run_started ops await fuel pid }}"

end
