(* ===== verification/Run_Signals_Inv.thy ===== *)
theory Run_Signals_Inv
  imports Run_Signals
begin

text \<open>
  What stays true while a session runs, whatever the kernel answers and whenever signals arrive:
  whom the driver signals, its own identity and the dispositions it saved; and what happens to the
  signal mask.
\<close>

subsection \<open>Recording the signals that are sent\<close>

text \<open>The kernel with a log of the calls of \<^verbatim>\<open>kill\<close>.\<close>

definition unlogged :: "('w, 'a) state \<Rightarrow> ('w \<times> 'l, 'a) state" where
  "unlogged m = State (\<lambda>(w, l). case run_state m w of (a, w') \<Rightarrow> (a, (w', l)))"

definition log_kill ::
    "(int \<Rightarrow> int \<Rightarrow> ('w, 'a) state) \<Rightarrow> int \<Rightarrow> int \<Rightarrow> ('w \<times> (int \<times> int) list, 'a) state" where
  "log_kill call pid sig = State (\<lambda>(w, l).
     case run_state (call pid sig) w of (a, w') \<Rightarrow> (a, (w', (pid, sig) # l)))"

definition record_kills :: "'w posix_ops \<Rightarrow> ('w \<times> (int \<times> int) list) posix_ops" where
  "record_kills ops = \<lparr>
     pending = unlogged (pending ops),
     sigset_ok = (\<lambda>sigs. unlogged (sigset_ok ops sigs)),
     procmask_ok = unlogged (procmask_ok ops),
     sigaction_ok = (\<lambda>sig. unlogged (sigaction_ok ops sig)),
     kill_pid = log_kill (kill_pid ops),
     write_notice = (\<lambda>fd b. unlogged (write_notice ops fd b)),
     read_notices = (\<lambda>fd. unlogged (read_notices ops fd)),
     read_control = (\<lambda>fd. unlogged (read_control ops fd)),
     getpgrp_call = unlogged (getpgrp_call ops),
     getpgid_call = (\<lambda>pid. unlogged (getpgid_call ops pid)),
     setpgid_call = (\<lambda>pid pgrp. unlogged (setpgid_call ops pid pgrp)),
     tcgetpgrp_call = (\<lambda>fd. unlogged (tcgetpgrp_call ops fd)),
     tcsetpgrp_call = (\<lambda>fd pgrp. unlogged (tcsetpgrp_call ops fd pgrp)),
     open_tty = unlogged (open_tty ops),
     close_fd = (\<lambda>fd. unlogged (close_fd ops fd)),
     set_cloexec = (\<lambda>fd. unlogged (set_cloexec ops fd)),
     get_flags = (\<lambda>fd. unlogged (get_flags ops fd)),
     set_nonblock = (\<lambda>fd flags. unlogged (set_nonblock ops fd flags)),
     pipe_call = unlogged (pipe_call ops),
     fork_call = unlogged (fork_call ops),
     waitpid_call = (\<lambda>pid untraced. unlogged (waitpid_call ops pid untraced))\<rparr>"

abbreviation sent :: "('w \<times> (int \<times> int) list) driver \<Rightarrow> (int \<times> int) list" where
  "sent s \<equiv> snd (kernel s)"

subsection \<open>The invariant of a session\<close>

text \<open>
  \<open>session c g me d p l\<close>: the session of the process \<open>me\<close> of group \<open>g\<close> with the child \<open>c\<close>, the
  dispositions \<open>d\<close>, the saved actions \<open>p\<close> and the log \<open>l\<close> at its start. A signal is sent to a
  single process, to the owner's group, or to the group of the child once that is published.
\<close>

definition target_ok :: "int \<Rightarrow> int \<Rightarrow> int \<times> int \<Rightarrow> bool" where
  "target_ok c g k \<longleftrightarrow> 0 < fst k \<or> fst k = - g \<or> 0 < c \<and> fst k = - c"

definition session ::
    "int \<Rightarrow> int \<Rightarrow> int \<Rightarrow> (int \<Rightarrow> action) \<Rightarrow> (int \<Rightarrow> action) \<Rightarrow> (int \<times> int) list \<Rightarrow>
     ('w \<times> (int \<times> int) list) driver \<Rightarrow> bool" where
  "session c g me d p l s \<longleftrightarrow>
     child_pid s = c \<and> owner_group s = g \<and> owner_pid s = me \<and> self_pid s = me \<and> 0 < me
     \<and> disposition s = d \<and> previous_action s = p
     \<and> (\<exists>new. sent s = new @ l \<and> (\<forall>k \<in> set new. target_ok c g k))"

lemma preserves_globals:
  "(\<And>s. I s \<Longrightarrow> preserves I (f s)) \<Longrightarrow> preserves I (State_Monad.bind globals f)"
  by (simp add: preserves_def globals_def wp_simps)

lemma preserves_assign: "(\<And>s. I s \<Longrightarrow> I (f s)) \<Longrightarrow> preserves I (assign f)"
  by (simp add: preserves_def assign_def wp_simps)

lemma session_assign [preserves_rules]:
  assumes "\<And>s. child_pid (f s) = child_pid s \<and> owner_group (f s) = owner_group s
    \<and> owner_pid (f s) = owner_pid s \<and> self_pid (f s) = self_pid s \<and> disposition (f s) = disposition s
    \<and> previous_action (f s) = previous_action s \<and> kernel (f s) = kernel s"
  shows "preserves (session c g me d p l) (assign f)"
  by (rule preserves_assign) (simp add: session_def assms)

lemma session_unlogged: "preserves (session c g me d p l) (on_kernel (unlogged m))"
  by (auto simp: preserves_def on_kernel_def unlogged_def session_def wp_simps split: prod.splits)

lemma session_logged:
  assumes "session c g me d p l s" "target_ok c g k"
  shows "session c g me d p l (s\<lparr>kernel := (w, k # sent s)\<rparr>)"
proof -
  obtain new where "sent s = new @ l" "\<forall>k \<in> set new. target_ok c g k"
    using assms(1) by (auto simp: session_def)
  then have "k # sent s = (k # new) @ l \<and> (\<forall>k \<in> set (k # new). target_ok c g k)"
    using assms(2) by simp
  then have "\<exists>new. k # sent s = new @ l \<and> (\<forall>k \<in> set new. target_ok c g k)" by blast
  then show ?thesis using assms(1) by (simp add: session_def)
qed

lemma session_kill:
  assumes "target_ok c g (pid, sig)"
  shows "preserves (session c g me d p l) (on_kernel (log_kill call pid sig))"
  unfolding preserves_def on_kernel_def log_kill_def
  by (auto simp: wp_simps split: prod.splits dest: session_logged [OF _ assms])

lemma session_calls [preserves_rules]:
  "preserves (session c g me d p l) (on_kernel (pending (record_kills ops)))"
  "preserves (session c g me d p l) (on_kernel (sigset_ok (record_kills ops) sigs))"
  "preserves (session c g me d p l) (on_kernel (procmask_ok (record_kills ops)))"
  "preserves (session c g me d p l) (on_kernel (sigaction_ok (record_kills ops) sig))"
  "preserves (session c g me d p l) (on_kernel (write_notice (record_kills ops) fd b))"
  "preserves (session c g me d p l) (on_kernel (getpgid_call (record_kills ops) pid))"
  "preserves (session c g me d p l) (on_kernel (setpgid_call (record_kills ops) pid pgrp))"
  "preserves (session c g me d p l) (on_kernel (tcgetpgrp_call (record_kills ops) fd))"
  "preserves (session c g me d p l) (on_kernel (tcsetpgrp_call (record_kills ops) fd pgrp))"
  "preserves (session c g me d p l) (on_kernel (close_fd (record_kills ops) fd))"
  "preserves (session c g me d p l) (on_kernel (set_cloexec (record_kills ops) fd))"
  "preserves (session c g me d p l) (on_kernel (get_flags (record_kills ops) fd))"
  "preserves (session c g me d p l) (on_kernel (set_nonblock (record_kills ops) fd flags))"
  "preserves (session c g me d p l) (on_kernel (pipe_call (record_kills ops)))"
  "preserves (session c g me d p l) (on_kernel (fork_call (record_kills ops)))"
  "preserves (session c g me d p l) (on_kernel (waitpid_call (record_kills ops) pid untraced))"
  by (simp_all add: record_kills_def session_unlogged)

lemma session_kill_pid [preserves_rules]:
  "target_ok c g (pid, sig) \<Longrightarrow>
   preserves (session c g me d p l) (on_kernel (kill_pid (record_kills ops) pid sig))"
  by (simp add: record_kills_def session_kill)

lemma session_target:
  assumes "session c g me d p l s"
  shows "0 < child_pid s \<Longrightarrow> target_ok c g (- child_pid s, sig)" "target_ok c g (- owner_group s, sig)"
    "target_ok c g (owner_pid s, sig)" "target_ok c g (self_pid s, sig)"
  using assms by (auto simp: session_def target_ok_def)

lemma session_child [preserves_rules]:
  "preserves (session c g me d p l) (send_child_signal (record_kills ops) sig)"
  unfolding send_child_signal_def
  by (intro preserves_globals preserves_rules) (auto simp: announce_def intro: session_target)

lemma session_handler [preserves_rules]:
  "preserves (session c g me d p l) (forward_signal (record_kills ops) sig)"
  unfolding forward_signal_def
  by (intro preserves_globals preserves_rules) (auto intro: session_target)

lemma session_deliver [preserves_rules]:
  "preserves (session c g me d p l) (deliver (record_kills ops) sigs)"
  by (induction sigs) (auto intro!: preserves_globals preserves_rules)

lemma session_poll [preserves_rules]: "preserves (session c g me d p l) (poll (record_kills ops))"
  unfolding poll_def by (intro preserves_globals preserves_rules)

lemma session_sys [preserves_rules]:
  "preserves (session c g me d p l) (on_kernel m) \<Longrightarrow>
   preserves (session c g me d p l) (sys (record_kills ops) m)"
  unfolding sys_def by (intro preserves_globals preserves_rules)

lemma preserves_result:
  assumes "preserves I m" "\<And>s. wp m (\<lambda>r _. R r) s" "\<And>r. R r \<Longrightarrow> preserves I (f r)"
  shows "preserves I (State_Monad.bind m f)"
  unfolding preserves_def
proof (intro allI impI)
  fix s
  assume "I s"
  then have "wp m (\<lambda>r s'. R r \<and> I s') s"
    using preservesD [OF assms(1)] assms(2) by (simp add: wp_conj)
  then show "wp (State_Monad.bind m f) (\<lambda>_. I) s"
    by (rule wp_follow) (blast intro: preservesD assms(3))
qed

lemma result_kernel: "wp (on_kernel m) (\<lambda>r _. R r) s \<longleftrightarrow> wp m (\<lambda>r _. R r) (kernel s)"
  by (auto simp: on_kernel_def wp_def split: prod.splits)

lemma result_sys:
  assumes "\<And>w. wp m (\<lambda>r _. R r) w"
  shows "wp (sys ops m) (\<lambda>r _. R r) s"
  unfolding sys_def wp_bind
proof (rule wp_mono [where P = "\<lambda>r _. R r"])
  show "wp (on_kernel m) (\<lambda>r _. R r) s"
    using assms by (simp add: result_kernel)
  show "R r \<Longrightarrow> wp (poll ops) (\<lambda>_. wp (State_Monad.return r) (\<lambda>r _. R r)) s'" for r s'
    by (simp add: wp_simps wp_any)
qed

text \<open>POSIX: \<^verbatim>\<open>waitpid\<close> answers with a process, \<^verbatim>\<open>fork\<close> in the parent never with 0.\<close>

definition process_ids :: "('w, 'x) posix_ops_scheme \<Rightarrow> bool" where
  "process_ids ops \<longleftrightarrow>
     (\<forall>pid untraced w. wp (waitpid_call ops pid untraced)
        (\<lambda>r _. case r of Inr (q, _) \<Rightarrow> 0 < q | Inl _ \<Rightarrow> True) w)
     \<and> (\<forall>w. wp (fork_call ops) (\<lambda>r _. r \<noteq> 0) w)"

lemma result_unlogged: "wp (unlogged m) (\<lambda>r _. R r) wl \<longleftrightarrow> wp m (\<lambda>r _. R r) (fst wl)"
  by (auto simp: unlogged_def wp_def split: prod.splits)

lemma step_waitpid:
  assumes "process_ids ops"
    and "\<And>r. (case r of Inr (q, _) \<Rightarrow> 0 < q | Inl _ \<Rightarrow> True) \<Longrightarrow> preserves (session c g me d p l) (f r)"
  shows "preserves (session c g me d p l)
    (State_Monad.bind (sys (record_kills ops) (waitpid_call (record_kills ops) pid untraced)) f)"
  using assms
  by (intro preserves_result [where R = "\<lambda>r. case r of Inr (q, _) \<Rightarrow> 0 < q | Inl _ \<Rightarrow> True"]
      result_sys preserves_rules)
    (simp_all add: process_ids_def record_kills_def result_unlogged)

lemma step_fork:
  assumes "process_ids ops" "\<And>r. r \<noteq> 0 \<Longrightarrow> preserves (session c g me d p l) (f r)"
  shows "preserves (session c g me d p l)
    (State_Monad.bind (sys (record_kills ops) (fork_call (record_kills ops))) f)"
  using assms
  by (intro preserves_result [where R = "\<lambda>r. r \<noteq> 0"] result_sys preserves_rules)
    (simp_all add: process_ids_def record_kills_def result_unlogged)

lemmas first_steps = preserves_globals step_waitpid step_fork

lemma target_single: "0 < pid \<Longrightarrow> target_ok c g (pid, sig)"
  by (simp add: target_ok_def)

lemma session_block_set [preserves_rules]:
  "preserves (session c g me d p l) (block_set (record_kills ops) sigs)"
  unfolding block_set_def by (intro first_steps preserves_rules) simp_all

lemma session_block [preserves_rules]:
  "preserves (session c g me d p l) (block_signals (record_kills ops))"
  unfolding block_signals_def by (intro first_steps preserves_rules)

lemma session_set_mask [preserves_rules]:
  "preserves (session c g me d p l) (set_mask (record_kills ops) m)"
  unfolding set_mask_def by (intro first_steps preserves_rules) simp_all

lemma session_unblock [preserves_rules]:
  "preserves (session c g me d p l) (unblock (record_kills ops) sig)"
  unfolding unblock_def by (intro first_steps preserves_rules) simp_all

lemma session_set_foreground [preserves_rules]:
  "preserves (session c g me d p l) (set_foreground (record_kills ops) pgrp)"
  unfolding set_foreground_def by (intro first_steps preserves_rules)

lemma session_restore_terminal [preserves_rules]:
  "preserves (session c g me d p l) (restore_terminal (record_kills ops))"
  unfolding restore_terminal_def by (intro first_steps preserves_rules)

lemma session_foreground_child [preserves_rules]:
  "preserves (session c g me d p l) (foreground_child (record_kills ops))"
  unfolding foreground_child_def by (intro first_steps preserves_rules)

lemma session_pairs [preserves_rules]:
  "preserves (session c g me d p l) (close_pair (record_kills ops) fds)"
  "preserves (session c g me d p l) (cloexec_pair (record_kills ops) fds)"
  "preserves (session c g me d p l) (close_if_open (record_kills ops) fd)"
  unfolding close_pair_def cloexec_pair_def close_if_open_def by (intro first_steps preserves_rules)+

lemma session_notice_pipe [preserves_rules]:
  "preserves (session c g me d p l) (notice_pipe_ready (record_kills ops) fds)"
  unfolding notice_pipe_ready_def by (intro first_steps preserves_rules)

lemma session_reap [preserves_rules]:
  "process_ids ops \<Longrightarrow> preserves (session c g me d p l) (reap (record_kills ops) fuel pid)"
  by (induction fuel) (auto intro!: first_steps preserves_rules)

lemma session_adopt [preserves_rules]:
  "process_ids ops \<Longrightarrow> 0 < observer \<Longrightarrow>
   preserves (session c g me d p l) (adopt_observer (record_kills ops) fuel control notices observer)"
  unfolding adopt_observer_def by (intro first_steps preserves_rules target_single) simp_all

lemma session_start_observer [preserves_rules]:
  "process_ids ops \<Longrightarrow> preserves (session c g me d p l) (start_observer (record_kills ops) fuel)"
  unfolding start_observer_def by (intro first_steps preserves_rules) simp_all

lemma session_close_notices [preserves_rules]:
  "preserves (session c g me d p l) (close_notices (record_kills ops))"
  "preserves (session c g me d p l) (close_control (record_kills ops))"
  unfolding close_notices_def close_control_def by (intro first_steps preserves_rules; simp)+

lemma session_relay [preserves_rules]:
  "preserves (session c g me d p l) (relay_interrupt (record_kills ops) sig)"
  unfolding relay_interrupt_def by (intro first_steps preserves_rules session_target) simp_all

lemma session_observer_exit [preserves_rules]:
  "preserves (session c g me d p l) (observer_exit (record_kills ops) status)"
  unfolding observer_exit_def by (intro first_steps preserves_rules) simp_all

lemma preserves_status [preserves_rules]:
  "(\<And>n. status = Stopped n \<Longrightarrow> preserves I (a n)) \<Longrightarrow> preserves I (m status) \<Longrightarrow>
   preserves I (case status of Stopped n \<Rightarrow> a n | Exited _ \<Rightarrow> m status | Signaled _ \<Rightarrow> m status)"
  by (cases status) simp_all

lemma session_published:
  "session c g me d p l s \<Longrightarrow> 0 < c \<Longrightarrow> target_ok c g (- child_pid s, sig)"
  by (simp add: session_def target_ok_def)

lemma session_reap_observer [preserves_rules]:
  assumes "process_ids ops"
  shows "preserves (session c g me d p l) (reap_observer (record_kills ops) fuel)"
proof (induction fuel)
  case (Suc fuel)
  then show ?case
    unfolding reap_observer.simps
    by (intro preserves_globals step_waitpid preserves_rules assms target_single) simp_all
qed (simp add: preserves_rules)

lemma session_close_observer [preserves_rules]:
  "process_ids ops \<Longrightarrow> preserves (session c g me d p l) (close_observer (record_kills ops) fuel)"
  unfolding close_observer_def by (intro first_steps preserves_rules target_single) simp_all

lemma session_verify [preserves_rules]:
  "preserves (session c g me d p l) (verify_group (record_kills ops) child n)"
proof (induction n)
  case (Suc n)
  then show ?case unfolding verify_group.simps by (intro first_steps preserves_rules)
qed (simp add: preserves_rules)

lemma session_stop_owner [preserves_rules]:
  "preserves (session c g me d p l) (stop_owner (record_kills ops) fuel)"
proof (induction fuel)
  case (Suc fuel)
  then show ?case unfolding stop_owner.simps by (intro first_steps preserves_rules session_target) simp_all
qed (simp add: preserves_rules)

lemma session_suspend [preserves_rules]:
  "0 < c \<Longrightarrow> preserves (session c g me d p l) (suspend_owner (record_kills ops) fuel sig forwarded)"
  unfolding suspend_owner_def by (intro first_steps preserves_rules session_target session_published) simp_all

lemma session_signals_kill [preserves_rules]:
  "preserves (session c g me d p l) (signals_kill (record_kills ops) child)"
  unfolding signals_kill_def
  by (intro preserves_globals preserves_rules) (auto simp: session_def target_ok_def)

lemma session_restart [preserves_rules]:
  "process_ids ops \<Longrightarrow> preserves (session c g me d p l) (restart_observer (record_kills ops) fuel)"
  unfolding restart_observer_def by (intro first_steps preserves_rules)

lemma session_suspend_restart [preserves_rules]:
  "process_ids ops \<Longrightarrow> 0 < c \<Longrightarrow>
   preserves (session c g me d p l) (suspend_and_restart (record_kills ops) fuel sig forwarded)"
  unfolding suspend_and_restart_def by (intro first_steps preserves_rules)

lemma session_wait_observer [preserves_rules]:
  "process_ids ops \<Longrightarrow> 0 < c \<Longrightarrow>
   preserves (session c g me d p l) (wait_observer (record_kills ops) fuel status)"
  unfolding wait_observer_def
  by (cases status) (auto intro!: first_steps preserves_rules)

lemma session_wait_stopped [preserves_rules]:
  "process_ids ops \<Longrightarrow> 0 < c \<Longrightarrow>
   preserves (session c g me d p l) (wait_stopped (record_kills ops) fuel sig)"
  unfolding wait_stopped_def by (intro first_steps preserves_rules session_published) simp_all

lemma session_wait_exited [preserves_rules]:
  "process_ids ops \<Longrightarrow> preserves (session c g me d p l) (wait_exited (record_kills ops) fuel status)"
  unfolding wait_exited_def by (intro first_steps preserves_rules)

lemma session_wait_pass [preserves_rules]:
  "process_ids ops \<Longrightarrow> 0 < c \<Longrightarrow> preserves (session c g me d p l) (wait_pass (record_kills ops) fuel)"
  unfolding wait_pass_def
  by (intro first_steps preserves_rules) (auto split: wait_status.split intro!: first_steps preserves_rules)

lemma session_wait_loop [preserves_rules]:
  assumes "process_ids ops" "0 < c"
  shows "preserves (session c g me d p l) (wait_loop (record_kills ops) fuel)"
proof (induction fuel)
  case (Suc fuel)
  then show ?case unfolding wait_loop.simps by (intro first_steps preserves_rules assms)
qed (simp add: preserves_rules)

lemma session_wait [preserves_rules]:
  assumes "process_ids ops"
  shows "preserves (session c g me d p l) (signals_wait (record_kills ops) fuel)"
proof (cases "0 < c")
  case True
  then show ?thesis unfolding signals_wait_def by (intro first_steps preserves_rules assms)
next
  case False
  show ?thesis
    unfolding signals_wait_def
    by (rule preserves_globals) (use False in \<open>auto simp: session_def intro!: first_steps preserves_rules\<close>)
qed

end
