(* ===== verification/Run_Signals_Mask.thy ===== *)
theory Run_Signals_Mask
  imports Run_Signals_Inv
begin

text \<open>
  The signal mask: every function of the session that blocks signals gives back the mask it found,
  on every path that returns, provided \<^verbatim>\<open>sigprocmask\<close> and
  \<^verbatim>\<open>sigaddset\<close> with valid arguments do not fail.
\<close>

definition masks_work :: "('w, 'x) posix_ops_scheme \<Rightarrow> bool" where
  "masks_work ops \<longleftrightarrow> (\<forall>w. wp (procmask_ok ops) (\<lambda>ok _. ok) w)
     \<and> (\<forall>sigs w. wp (sigset_ok ops sigs) (\<lambda>ok _. ok) w)"

subsection \<open>What never touches the mask\<close>

lemma keeps_globals [keeps_rules]: "keeps v globals"
  by (simp add: keeps_def globals_def wp_simps)

lemma keeps_assign: "(\<And>s. v (f s) = v s) \<Longrightarrow> keeps v (assign f)"
  by (simp add: keeps_def assign_def wp_simps)

lemma keeps_mask_kernel [keeps_rules]: "keeps sigmask (on_kernel m)"
  by (simp add: keeps_def on_kernel_def wp_simps split: prod.splits)

lemma keeps_mask_assign [keeps_rules]: "(\<And>s. sigmask (f s) = sigmask s) \<Longrightarrow> keeps sigmask (assign f)"
  by (rule keeps_assign)

lemma keeps_mask_handler [keeps_rules]: "keeps sigmask (forward_signal ops sig)"
  unfolding forward_signal_def send_child_signal_def
  by (intro keeps_rules) (simp_all add: announce_def)

lemma keeps_mask_deliver [keeps_rules]: "keeps sigmask (deliver ops sigs)"
  by (induction sigs) (auto intro!: keeps_rules)

lemma keeps_mask_poll [keeps_rules]: "keeps sigmask (poll ops)"
  unfolding poll_def by (intro keeps_rules)

lemma keeps_mask_sys [keeps_rules]: "keeps sigmask (sys ops m)"
  unfolding sys_def by (intro keeps_rules)

subsection \<open>Blocking and giving back\<close>

text \<open>\<open>given_back ended m\<close>: where \<open>ended\<close> holds of the result, the mask is the one \<open>m\<close> started with.\<close>

definition given_back :: "('a \<Rightarrow> bool) \<Rightarrow> ('w, 'a) run \<Rightarrow> bool" where
  "given_back ended m \<longleftrightarrow> (\<forall>s. wp m (\<lambda>r s'. ended r \<longrightarrow> sigmask s' = sigmask s) s)"

lemma given_back_keeps: "keeps sigmask m \<Longrightarrow> given_back ended m"
  unfolding given_back_def by (blast intro: keeps_mono)

lemma given_back_step:
  assumes "given_back ended m" "\<And>r s'. (ended r \<longrightarrow> sigmask s' = sigmask s) \<Longrightarrow> wp (f r) Q s'"
  shows "wp (State_Monad.bind m f) Q s"
proof (rule wp_follow)
  show "wp m (\<lambda>r s'. ended r \<longrightarrow> sigmask s' = sigmask s) s"
    using assms(1) by (simp add: given_back_def)
qed (rule assms(2))

lemma wp_globals [wp_simps]: "wp globals Q s = Q s s"
  by (simp add: globals_def wp_simps)

lemma wp_assign [wp_simps]: "wp (assign f) Q s = Q () (f s)"
  by (simp add: assign_def wp_simps)

lemma block_set_rule:
  "wp (block_set ops sigs) (\<lambda>r s'. case r of None \<Rightarrow> sigmask s' = sigmask s
     | Some m \<Rightarrow> m = sigmask s \<and> sigmask s' = sigmask s \<union> set sigs) s"
  unfolding block_set_def
  by (intro keeps_step [OF keeps_mask_sys] wp_branch) (simp_all add: wp_simps)

lemma step_block_set:
  assumes "\<And>s'. sigmask s' = sigmask s \<Longrightarrow> wp (f None) Q s'"
    and "\<And>s'. sigmask s' = sigmask s \<union> set sigs \<Longrightarrow> wp (f (Some (sigmask s))) Q s'"
  shows "wp (State_Monad.bind (block_set ops sigs) f) Q s"
  by (rule wp_follow [OF block_set_rule]) (auto split: option.splits intro: assms)

lemma step_block:
  assumes "\<And>s'. sigmask s' = sigmask s \<Longrightarrow> wp (f None) Q s'"
    and "\<And>s'. sigmask s' = sigmask s \<union> set forwarded_signals \<Longrightarrow> wp (f (Some (sigmask s))) Q s'"
  shows "wp (State_Monad.bind (block_signals ops) f) Q s"
  unfolding block_signals_def by (rule step_block_set [OF assms])

lemma set_mask_rule:
  assumes "masks_work ops"
  shows "wp (set_mask ops m) (\<lambda>_ s'. sigmask s' = m) s"
  unfolding set_mask_def wp_bind
proof (rule wp_mono)
  show "wp (on_kernel (procmask_ok ops)) (\<lambda>ok _. ok) s"
    using assms by (simp add: result_kernel masks_work_def)
  show "wp (if_then ok (assign (\<lambda>s. s\<lparr>sigmask := m\<rparr>))) (\<lambda>_. wp (poll ops) (\<lambda>_ s'. sigmask s' = m)) s'"
    if ok for ok s'
    using that by (auto simp: wp_simps intro: keeps_mono [OF keeps_mask_poll])
qed

lemma step_set_mask:
  assumes "masks_work ops" "\<And>r s'. sigmask s' = m \<Longrightarrow> wp (f r) Q s'"
  shows "wp (State_Monad.bind (set_mask ops m) f) Q s"
  by (rule wp_follow [OF set_mask_rule [OF assms(1)]]) (rule assms(2))

text \<open>Anything may happen to the mask in a step that is followed by giving it back.\<close>

lemmas mask_steps = step_block step_block_set step_set_mask

lemma given_set_foreground [keeps_rules]:
  assumes "masks_work ops"
  shows "keeps sigmask (set_foreground ops pgrp)"
  unfolding keeps_def set_foreground_def
  by (intro allI mask_steps assms end_case wp_done wp_external) auto

lemma keeps_restore_terminal [keeps_rules]:
  "masks_work ops \<Longrightarrow> keeps sigmask (restore_terminal ops)"
  unfolding restore_terminal_def by (intro keeps_rules)

lemma keeps_foreground_child [keeps_rules]:
  "masks_work ops \<Longrightarrow> keeps sigmask (foreground_child ops)"
  unfolding foreground_child_def by (intro keeps_rules)

lemma keeps_closes [keeps_rules]:
  "keeps sigmask (close_pair ops fds)" "keeps sigmask (cloexec_pair ops fds)"
  "keeps sigmask (notice_pipe_ready ops fds)" "keeps sigmask (close_if_open ops fd)"
  "keeps sigmask (close_notices ops)" "keeps sigmask (close_control ops)"
  unfolding close_pair_def cloexec_pair_def notice_pipe_ready_def close_if_open_def
    close_notices_def close_control_def
  by (intro keeps_rules; simp)+

lemma keeps_start_observer [keeps_rules]: "keeps sigmask (start_observer ops fuel)"
proof -
  have reap: "keeps sigmask (reap ops fuel pid)" for pid
    by (induction fuel) (auto intro!: keeps_rules)
  show ?thesis
    unfolding start_observer_def adopt_observer_def by (intro keeps_rules reap) simp_all
qed

lemma keeps_observer_exit [keeps_rules]:
  "masks_work ops \<Longrightarrow> keeps sigmask (observer_exit ops status)"
  unfolding keeps_def observer_exit_def Let_def
  by (intro allI mask_steps end_case wp_done wp_external) auto

lemma keeps_status [keeps_rules]:
  "(\<And>n. keeps v (a n)) \<Longrightarrow> keeps v (m status) \<Longrightarrow>
   keeps v (case status of Stopped n \<Rightarrow> a n | Exited _ \<Rightarrow> m status | Signaled _ \<Rightarrow> m status)"
  by (cases status) simp_all

lemma keeps_reap_observer [keeps_rules]:
  assumes "masks_work ops"
  shows "keeps sigmask (reap_observer ops fuel)"
proof (induction fuel)
  case (Suc fuel)
  then show ?case unfolding reap_observer.simps by (intro keeps_rules assms) simp_all
qed (simp add: keeps_rules)

lemma keeps_close_observer [keeps_rules]:
  "masks_work ops \<Longrightarrow> keeps sigmask (close_observer ops fuel)"
  unfolding close_observer_def by (intro keeps_rules)

lemma keeps_install [keeps_rules]:
  "keeps sigmask (install_signals ops sigs done)" "keeps sigmask (restore_actions ops sigs)"
proof -
  have "keeps sigmask (install_signal ops sig)" for sig
    unfolding install_signal_def by (intro keeps_rules) simp_all
  then show "keeps sigmask (install_signals ops sigs done)"
    by (induction sigs arbitrary: "done") (auto intro!: keeps_rules)
  have "keeps sigmask (restore_action ops sig)" for sig
    unfolding restore_action_def by (intro keeps_rules) simp_all
  then show "keeps sigmask (restore_actions ops sigs)"
    by (induction sigs) (auto intro!: keeps_rules)
qed

subsection \<open>The functions of the session\<close>

lemma begin_keeps: "masks_work ops \<Longrightarrow> keeps sigmask (signals_begin ops)"
  unfolding keeps_def signals_begin_def
  by (intro allI mask_steps end_case wp_branch wp_done wp_external) auto

lemma set_pid_gives_back:
  "masks_work ops \<Longrightarrow> given_back (\<lambda>r. r \<noteq> None) (signals_set_pid ops fuel child)"
  unfolding given_back_def signals_set_pid_def
  by (intro allI mask_steps end_case wp_branch wp_done wp_external) auto

lemma restart_gives_back:
  "masks_work ops \<Longrightarrow> given_back (\<lambda>r. r \<noteq> None) (restart_observer ops fuel)"
  unfolding given_back_def restart_observer_def
  by (intro allI mask_steps end_case wp_branch wp_done wp_external) auto

lemma finish_gives_back:
  "masks_work ops \<Longrightarrow> given_back (\<lambda>r. r \<noteq> None) (signals_finish ops fuel)"
  unfolding given_back_def signals_finish_def Let_def
  by (intro allI mask_steps end_case wp_branch wp_done wp_external) auto

lemma kill_keeps [keeps_rules]: "keeps sigmask (signals_kill ops child)"
  unfolding signals_kill_def by (intro keeps_rules)

definition stop_given :: "int set \<Rightarrow> int set option option \<Rightarrow> 'w driver \<Rightarrow> bool" where
  "stop_given before r s' \<longleftrightarrow> (case r of None \<Rightarrow> True
     | Some None \<Rightarrow> sigmask s' = before | Some (Some m) \<Rightarrow> m = before)"

lemma stop_owner_mask:
  assumes "masks_work ops" "sigmask s = before"
  shows "wp (stop_owner ops fuel) (stop_given before) s"
  using assms(2)
proof (induction fuel arbitrary: s)
  case (Suc fuel)
  show ?case
    unfolding stop_owner.simps
    by (intro mask_steps keeps_step [where view = sigmask] keeps_rules assms(1) end_case wp_branch
        wp_done Suc.IH) (simp_all add: Suc.prems stop_given_def)
qed (simp add: wp_simps stop_given_def)

lemma step_stop_owner:
  assumes "masks_work ops" "sigmask s = before"
    and "\<And>r s'. stop_given before r s' \<Longrightarrow> wp (f r) Q s'"
  shows "wp (State_Monad.bind (stop_owner ops fuel) f) Q s"
  by (rule wp_follow [OF stop_owner_mask [OF assms(1,2)]]) (rule assms(3))

lemma suspend_mask:
  assumes "masks_work ops" "sigmask s = before"
  shows "wp (suspend_owner ops fuel sig forwarded) (\<lambda>r s'. r \<noteq> None \<longrightarrow> sigmask s' = before) s"
  unfolding suspend_owner_def
  by (intro mask_steps step_stop_owner [where before = before] keeps_step [where view = sigmask]
      keeps_rules assms(1) end_case wp_branch wp_done)
    (simp_all add: stop_given_def assms(2))

lemma suspend_gives_back:
  "masks_work ops \<Longrightarrow> given_back (\<lambda>r. r \<noteq> None) (suspend_owner ops fuel sig forwarded)"
  unfolding given_back_def by (intro allI suspend_mask refl)

lemma suspend_restart_gives_back:
  assumes "masks_work ops"
  shows "given_back (\<lambda>r. r \<noteq> Pending) (suspend_and_restart ops fuel sig forwarded)"
  unfolding given_back_def suspend_and_restart_def
  by (intro allI given_back_step [OF suspend_gives_back [OF assms]]
      given_back_step [OF restart_gives_back [OF assms]] end_case wp_branch wp_done)
    (auto split: option.splits)

text \<open>A program that ends with such a function after steps that keep the mask.\<close>

named_theorems given_rules

lemma given_return [given_rules]: "given_back ended (State_Monad.return a)"
  by (rule given_back_keeps) (rule keeps_return)

lemma given_after [given_rules]:
  assumes "keeps sigmask m" "\<And>a. given_back ended (f a)"
  shows "given_back ended (State_Monad.bind m f)"
  unfolding given_back_def
proof
  fix s :: "'a driver"
  have "wp (f a) (\<lambda>r s'. ended r \<longrightarrow> sigmask s' = sigmask s) s1" if "sigmask s1 = sigmask s" for a s1
    using assms(2) [unfolded given_back_def, rule_format, of a s1] that by simp
  then show "wp (State_Monad.bind m f) (\<lambda>r s'. ended r \<longrightarrow> sigmask s' = sigmask s) s"
    by (rule keeps_step [OF assms(1)])
qed

lemma given_if [given_rules]:
  "given_back ended m \<Longrightarrow> given_back ended n \<Longrightarrow> given_back ended (if b then m else n)"
  by simp

lemma given_let [given_rules]: "given_back ended (f x) \<Longrightarrow> given_back ended (Let x f)"
  by simp

lemma given_option [given_rules]:
  "given_back ended m \<Longrightarrow> (\<And>y. given_back ended (n y)) \<Longrightarrow>
   given_back ended (case x of None \<Rightarrow> m | Some y \<Rightarrow> n y)"
  by (cases x) simp_all

lemma given_sum [given_rules]:
  "(\<And>y. given_back ended (m y)) \<Longrightarrow> (\<And>y. given_back ended (n y)) \<Longrightarrow>
   given_back ended (case x of Inl y \<Rightarrow> m y | Inr y \<Rightarrow> n y)"
  by (cases x) simp_all

lemma given_prod [given_rules]:
  "(\<And>a b. given_back ended (m a b)) \<Longrightarrow> given_back ended (case x of (a, b) \<Rightarrow> m a b)"
  by (cases x) simp_all

lemma given_status [given_rules]:
  "(\<And>n. given_back ended (a n)) \<Longrightarrow> given_back ended (m status) \<Longrightarrow>
   given_back ended (case status of Stopped n \<Rightarrow> a n | Exited _ \<Rightarrow> m status | Signaled _ \<Rightarrow> m status)"
  by (cases status) simp_all

lemma given_restart [given_rules]:
  assumes "masks_work ops"
  shows "given_back (\<lambda>r. r \<noteq> Pending) (State_Monad.bind (restart_observer ops fuel)
    (\<lambda>r. State_Monad.return (case r of None \<Rightarrow> Pending | Some ok \<Rightarrow> if ok then Again else Failed)))"
  unfolding given_back_def
  by (intro allI given_back_step [OF restart_gives_back [OF assms]] wp_done) (auto split: option.splits)

lemma given_wait_parts [given_rules]:
  assumes "masks_work ops"
  shows "given_back (\<lambda>r. r \<noteq> Pending) (wait_observer ops fuel status)"
    "given_back (\<lambda>r. r \<noteq> Pending) (wait_stopped ops fuel sig)"
    "given_back (\<lambda>r. r \<noteq> Pending) (wait_exited ops fuel status)"
  unfolding wait_observer_def wait_stopped_def wait_exited_def
  by (intro given_status given_restart given_rules suspend_restart_gives_back keeps_rules assms; simp)+

lemma given_wait_pass:
  "masks_work ops \<Longrightarrow> given_back (\<lambda>r. r \<noteq> Pending) (wait_pass ops fuel)"
  unfolding wait_pass_def by (intro given_rules keeps_rules)

lemma given_wait_loop:
  assumes "masks_work ops"
  shows "given_back (\<lambda>r. r \<noteq> Pending) (wait_loop ops fuel)"
proof (induction fuel)
  case (Suc fuel)
  have again: "wp (wait_loop ops fuel) (\<lambda>r s'. r \<noteq> Pending \<longrightarrow> sigmask s' = sigmask s) s1"
    if "sigmask s1 = sigmask s" for s s1 :: "'a driver"
    using Suc.IH [unfolded given_back_def, rule_format, of s1] that by simp
  show ?case
    unfolding given_back_def wait_loop.simps
    by (intro allI given_back_step [OF given_wait_pass [OF assms]] wp_branch wp_done) (auto intro: again)
qed (simp add: given_back_def wp_simps)

lemma wait_gives_back:
  "masks_work ops \<Longrightarrow> given_back (\<lambda>r. r \<noteq> Pending) (signals_wait ops fuel)"
  unfolding signals_wait_def by (intro given_rules keeps_rules given_wait_loop)

end
