(* ===== verification/Run_Signals_Session.thy ===== *)
theory Run_Signals_Session
  imports Run_Signals_Mask
begin

text \<open>
  A whole session: what \<open>begin\<close> sets up is what \<open>finish\<close> takes down, with the dispositions, the mask,
  the terminal and the targets of all signals in between.
\<close>

subsection \<open>While no handler can run\<close>

definition silent :: "'w driver \<Rightarrow> bool" where
  "silent s \<longleftrightarrow> (\<forall>sig. sig \<notin> sigmask s \<longrightarrow> disposition s sig \<noteq> Forwarding)"

lemma deliver_silent: "silent s \<Longrightarrow> run_state (deliver ops sigs) s = ((), s)"
  by (induction sigs) (auto simp: silent_def globals_def if_then_def)

definition unlogged_call :: "('w \<times> (int \<times> int) list, 'a) state \<Rightarrow> bool" where
  "unlogged_call m \<longleftrightarrow> (\<exists>m'. m = unlogged m')"

lemma unlogged_calls [simp]:
  "unlogged_call (pending (record_kills ops))"
  "unlogged_call (sigset_ok (record_kills ops) sigs)"
  "unlogged_call (procmask_ok (record_kills ops))"
  "unlogged_call (sigaction_ok (record_kills ops) sig)"
  "unlogged_call (getpgrp_call (record_kills ops))"
  "unlogged_call (tcgetpgrp_call (record_kills ops) fd)"
  "unlogged_call (open_tty (record_kills ops))"
  "unlogged_call (close_fd (record_kills ops) fd)"
  "unlogged_call (set_cloexec (record_kills ops) fd)"
  unfolding unlogged_call_def record_kills_def by auto

lemma step_kernel:
  assumes "unlogged_call m" "\<And>w. wp m (\<lambda>r _. R r) w"
    and "\<And>a w. R a \<Longrightarrow> wp (f a) Q (s\<lparr>kernel := (w, sent s)\<rparr>)"
  shows "wp (State_Monad.bind (on_kernel m) f) Q s"
proof -
  obtain m' where m: "m = unlogged m'" using assms(1) by (auto simp: unlogged_call_def)
  obtain a w where run: "run_state m' (fst (kernel s)) = (a, w)" by fastforce
  have "R a" using assms(2) [of "kernel s"] run by (simp add: m unlogged_def wp_def split: prod.splits)
  then show ?thesis
    using assms(3) [of a w] run
    by (auto simp: m wp_simps on_kernel_def unlogged_def split: prod.splits)
qed

lemma step_poll_silent:
  assumes "silent s" "\<And>w. wp (f ()) Q (s\<lparr>kernel := (w, sent s)\<rparr>)"
  shows "wp (State_Monad.bind (poll (record_kills ops)) f) Q s"
  unfolding poll_def bind_assoc
proof (rule step_kernel [where R = "\<lambda>_. True"])
  fix sigs :: "int list" and w
  have "silent (s\<lparr>kernel := (w, sent s)\<rparr>)" using assms(1) by (simp add: silent_def)
  then have "run_state (deliver (record_kills ops) sigs) (s\<lparr>kernel := (w, sent s)\<rparr>)
      = ((), s\<lparr>kernel := (w, sent s)\<rparr>)" by (rule deliver_silent)
  then show "wp (State_Monad.bind (deliver (record_kills ops) sigs) f) Q (s\<lparr>kernel := (w, sent s)\<rparr>)"
    using assms(2) [of w] by (simp add: wp_def)
qed (simp_all add: wp_def split: prod.splits)

lemma step_sys_silent:
  assumes "silent s" "unlogged_call m" "\<And>w. wp m (\<lambda>r _. R r) w"
    and "\<And>a w. R a \<Longrightarrow> wp (f a) Q (s\<lparr>kernel := (w, sent s)\<rparr>)"
  shows "wp (State_Monad.bind (sys (record_kills ops) m) f) Q s"
  unfolding sys_def bind_assoc
proof (rule step_kernel [OF assms(2,3)])
  fix a w assume "R a"
  then show "wp (State_Monad.bind (poll (record_kills ops))
      (\<lambda>_. State_Monad.bind (State_Monad.return a) f)) Q (s\<lparr>kernel := (w, sent s)\<rparr>)"
    using assms(1,4) by (intro step_poll_silent) (simp_all add: silent_def)
qed

lemma step_sys_any:
  assumes "silent s" "unlogged_call m" "\<And>a w. wp (f a) Q (s\<lparr>kernel := (w, sent s)\<rparr>)"
  shows "wp (State_Monad.bind (sys (record_kills ops) m) f) Q s"
  by (rule step_sys_silent [OF assms(1,2), where R = "\<lambda>_. True"]) (rule wp_any TrueI assms(3))+

subsection \<open>Blocking\<close>

lemma masks_work_calls:
  assumes "masks_work ops"
  shows "wp (procmask_ok (record_kills ops)) (\<lambda>ok _. ok) w"
    "wp (sigset_ok (record_kills ops) sigs) (\<lambda>ok _. ok) w"
    "masks_work (record_kills ops)"
  using assms by (auto simp: masks_work_def record_kills_def result_unlogged)

lemma silent_kernel [simp]: "silent (s\<lparr>kernel := k\<rparr>) = silent s"
  by (simp add: silent_def)

lemma block_silent:
  assumes "masks_work ops" "silent s"
    and "\<And>w. Q (Some (sigmask s))
      (s\<lparr>kernel := (w, sent s), sigmask := sigmask s \<union> set forwarded_signals\<rparr>)"
  shows "wp (block_signals (record_kills ops)) Q s"
  unfolding block_signals_def block_set_def
proof (rule step_sys_silent [OF assms(2) _ masks_work_calls(2) [OF assms(1)]], simp)
  fix built :: bool and w
  assume built
  have "wp (State_Monad.bind (sys (record_kills ops) (procmask_ok (record_kills ops)))
      (\<lambda>ok. if \<not> ok then State_Monad.return None else do {
         s \<leftarrow> globals;
         assign (\<lambda>s. s\<lparr>sigmask := sigmask s \<union> set forwarded_signals\<rparr>);
         State_Monad.return (Some (sigmask s)) })) Q (s\<lparr>kernel := (w, sent s)\<rparr>)"
    by (rule step_sys_silent [OF _ _ masks_work_calls(1) [OF assms(1)]])
      (use assms(2,3) in \<open>simp_all add: wp_simps\<close>)
  with \<open>built\<close> show "wp (if \<not> built then State_Monad.return None else do {
         ok \<leftarrow> sys (record_kills ops) (procmask_ok (record_kills ops));
         if \<not> ok then State_Monad.return None else do {
         s \<leftarrow> globals;
         assign (\<lambda>s. s\<lparr>sigmask := sigmask s \<union> set forwarded_signals\<rparr>);
         State_Monad.return (Some (sigmask s)) }}) Q (s\<lparr>kernel := (w, sent s)\<rparr>)"
    by simp
qed

lemmas step_block_silent = block_silent [where Q = "\<lambda>a. wp (f a) Q" for f Q, folded wp_bind]

subsection \<open>Installing and restoring\<close>

text \<open>POSIX: whether \<^verbatim>\<open>sigaction\<close> accepts a signal depends on the signal only.\<close>

definition sigactions_steady :: "('w, 'x) posix_ops_scheme \<Rightarrow> (int \<Rightarrow> bool) \<Rightarrow> bool" where
  "sigactions_steady ops good \<longleftrightarrow> (\<forall>sig w. wp (sigaction_ok ops sig) (\<lambda>ok _. ok \<longleftrightarrow> good sig) w)"

lemma steady_calls:
  "sigactions_steady ops good \<Longrightarrow> wp (sigaction_ok (record_kills ops) sig) (\<lambda>ok _. ok \<longleftrightarrow> good sig) w"
  by (simp add: sigactions_steady_def record_kills_def result_unlogged)

text \<open>With \<open>before\<close> the dispositions at the start: what holds when the signals \<open>inst\<close> are installed.\<close>

definition installed ::
    "(int \<Rightarrow> bool) \<Rightarrow> (int \<Rightarrow> action) \<Rightarrow> int list \<Rightarrow> (int \<Rightarrow> action) \<Rightarrow> (int \<Rightarrow> action) \<Rightarrow> bool" where
  "installed good before inst d p \<longleftrightarrow>
     (\<forall>sig \<in> set inst. good sig \<and> p sig = before sig
        \<and> d sig = (if before sig = Ignoring then Ignoring else Forwarding))
     \<and> (\<forall>sig. sig \<notin> set inst \<longrightarrow> d sig = before sig)"

lemma driver_order:
  "s\<lparr>previous_action := p, disposition := d\<rparr> = s\<lparr>disposition := d, previous_action := p\<rparr>"
  "s\<lparr>previous_action := p, kernel := k\<rparr> = s\<lparr>kernel := k, previous_action := p\<rparr>"
  "s\<lparr>disposition := d, kernel := k\<rparr> = s\<lparr>kernel := k, disposition := d\<rparr>"
  "s\<lparr>sigmask := m, kernel := k\<rparr> = s\<lparr>kernel := k, sigmask := m\<rparr>"
  by simp_all

text \<open>What installing one signal does while nothing is delivered.\<close>

lemma install_one:
  assumes "sigactions_steady ops good" "silent s" "sig \<in> sigmask s"
    and "\<And>w p. (\<forall>x. x \<noteq> sig \<longrightarrow> p x = previous_action s x) \<Longrightarrow>
      Q False (s\<lparr>kernel := (w, sent s), previous_action := p\<rparr>)"
    and "\<And>w d. good sig \<Longrightarrow> d = (if disposition s sig = Ignoring then Ignoring else Forwarding) \<Longrightarrow>
      Q True (s\<lparr>kernel := (w, sent s), disposition := (disposition s)(sig := d),
        previous_action := (previous_action s)(sig := disposition s sig)\<rparr>)"
  shows "wp (install_signal (record_kills ops) sig) Q s"
  unfolding install_signal_def
proof (rule step_sys_silent [OF assms(2) _ steady_calls [OF assms(1)]], simp)
  fix known w
  assume known: "known \<longleftrightarrow> good sig"
  define p where "p = (previous_action s)(sig := disposition s sig)"
  have refused: "Q False (s\<lparr>kernel := (w, sent s)\<rparr>)" for w
    using assms(4) [of "previous_action s" w] by simp
  have refused': "Q False (s\<lparr>kernel := (w, sent s), previous_action := p\<rparr>)" for w
    using assms(4) [of p w] by (simp add: p_def)
  have ignored: "Q True (s\<lparr>kernel := (w, sent s), previous_action := p\<rparr>)"
    if "good sig" "disposition s sig = Ignoring" for w
  proof -
    have "(disposition s)(sig := Ignoring) = disposition s" using that(2) by auto
    then show ?thesis using assms(5) [OF that(1), of Ignoring w] that(2) by (simp add: p_def)
  qed
  have taken: "Q True (s\<lparr>kernel := (w, sent s), disposition := (disposition s)(sig := Forwarding),
      previous_action := p\<rparr>)"
    if "good sig" "disposition s sig \<noteq> Ignoring" for w
    using assms(5) [OF that(1), of Forwarding w] that(2) by (simp add: p_def driver_order)
  have "wp (sys (record_kills ops) (sigaction_ok (record_kills ops) sig))
      (\<lambda>ok. wp (if_then ok (assign (\<lambda>s. s\<lparr>disposition := (disposition s)(sig := Forwarding)\<rparr>)))
         (\<lambda>_. wp (State_Monad.return ok) Q)) (s\<lparr>kernel := (w, sent s), previous_action := p\<rparr>)"
    if "good sig" "disposition s sig \<noteq> Ignoring" for w
    unfolding wp_bind [symmetric]
    by (rule step_sys_silent [OF _ _ steady_calls [OF assms(1)]])
      (use that assms(2) taken in \<open>simp_all add: wp_simps silent_def driver_order\<close>)
  then show "wp (if \<not> known then State_Monad.return False else do {
     assign (\<lambda>s. s\<lparr>previous_action := (previous_action s)(sig := disposition s sig)\<rparr>);
     s \<leftarrow> globals;
     if disposition s sig = Ignoring then State_Monad.return True else do {
     ok \<leftarrow> sys (record_kills ops) (sigaction_ok (record_kills ops) sig);
     if_then ok (assign (\<lambda>s. s\<lparr>disposition := (disposition s)(sig := Forwarding)\<rparr>));
     State_Monad.return ok }}) Q (s\<lparr>kernel := (w, sent s)\<rparr>)"
    using known refused ignored by (simp add: wp_simps p_def driver_order)
qed

lemma installed_step:
  assumes "installed good before inst d p" "sig \<notin> set inst" "good sig"
  shows "installed good before (sig # inst)
    (d(sig := if d sig = Ignoring then Ignoring else Forwarding)) (p(sig := d sig))"
  using assms by (auto simp: installed_def)

lemma installed_refused:
  assumes "installed good before inst d p" "sig \<notin> set inst" "\<forall>x. x \<noteq> sig \<longrightarrow> p' x = p x"
  shows "installed good before inst d p'"
  using assms by (auto simp: installed_def)

lemma install_rule:
  assumes "sigactions_steady ops good" "silent s" "set sigs \<subseteq> sigmask s"
    and "installed good before inst (disposition s) (previous_action s)"
    and "distinct sigs" "set sigs \<inter> set inst = {}"
    and "\<And>ok inst' w d p. installed good before inst' d p \<Longrightarrow>
      (ok \<longrightarrow> set inst' = set sigs \<union> set inst) \<Longrightarrow> set inst' \<subseteq> set sigs \<union> set inst \<Longrightarrow>
      Q (ok, inst') (s\<lparr>kernel := (w, sent s), disposition := d, previous_action := p\<rparr>)"
  shows "wp (install_signals (record_kills ops) sigs inst) Q s"
  using assms(2-)
proof (induction sigs arbitrary: inst s)
  case Nil
  have "Q (True, inst) (s\<lparr>kernel := (fst (kernel s), sent s), disposition := disposition s,
      previous_action := previous_action s\<rparr>)"
    by (rule Nil.prems(6)) (use Nil.prems in auto)
  then show ?case by (simp add: wp_simps)
next
  case (Cons sig sigs)
  show ?case
    unfolding install_signals.simps wp_bind
  proof (rule install_one [OF assms(1) Cons.prems(1)])
    show "sig \<in> sigmask s" using Cons.prems(2) by simp
  next
    fix w p
    assume p: "\<forall>x. x \<noteq> sig \<longrightarrow> p x = previous_action s x"
    have "installed good before inst (disposition s) p"
      by (rule installed_refused [OF Cons.prems(3) _ p]) (use Cons.prems(5) in simp)
    then have "Q (False, inst) (s\<lparr>kernel := (w, sent s), disposition := disposition s, previous_action := p\<rparr>)"
      by (rule Cons.prems(6)) auto
    then show "wp (if False then install_signals (record_kills ops) sigs (sig # inst)
        else State_Monad.return (False, inst)) Q (s\<lparr>kernel := (w, sent s), previous_action := p\<rparr>)"
      by (simp add: wp_simps)
  next
    fix w d
    assume good: "good sig" and d: "d = (if disposition s sig = Ignoring then Ignoring else Forwarding)"
    define s1 where "s1 = s\<lparr>kernel := (w, sent s), disposition := (disposition s)(sig := d),
      previous_action := (previous_action s)(sig := disposition s sig)\<rparr>"
    have "wp (install_signals (record_kills ops) sigs (sig # inst)) Q s1"
    proof (rule Cons.IH)
      show "silent s1" "set sigs \<subseteq> sigmask s1"
        using Cons.prems(1,2) by (auto simp: s1_def silent_def)
      show "installed good before (sig # inst) (disposition s1) (previous_action s1)"
        using installed_step [OF Cons.prems(3) _ good] Cons.prems(5) d by (simp add: s1_def)
      show "distinct sigs" "set sigs \<inter> set (sig # inst) = {}" using Cons.prems(4,5) by auto
      fix ok inst' w' d' p'
      assume "installed good before inst' d' p'" "ok \<longrightarrow> set inst' = set sigs \<union> set (sig # inst)"
        "set inst' \<subseteq> set sigs \<union> set (sig # inst)"
      then show "Q (ok, inst') (s1\<lparr>kernel := (w', sent s1), disposition := d', previous_action := p'\<rparr>)"
        using Cons.prems(6) [of inst' d' p' ok w'] by (auto simp: s1_def)
    qed
    then show "wp (if True then install_signals (record_kills ops) sigs (sig # inst)
        else State_Monad.return (False, inst)) Q (s\<lparr>kernel := (w, sent s), disposition := (disposition s)(sig := d),
          previous_action := (previous_action s)(sig := disposition s sig)\<rparr>)"
      by (simp add: s1_def)
  qed
qed

text \<open>Restoring them, in any order, gives the dispositions of the start.\<close>

lemma restore_rule:
  assumes "sigactions_steady ops good" "silent s" "set todo \<subseteq> sigmask s"
    and "\<forall>x \<in> set todo. good x \<and> previous_action s x = before x"
    and "\<forall>x. x \<notin> set todo \<longrightarrow> disposition s x = before x"
    and "\<And>w. Q () (s\<lparr>kernel := (w, sent s), disposition := before\<rparr>)"
  shows "wp (restore_actions (record_kills ops) todo) Q s"
  using assms(2-)
proof (induction todo arbitrary: s)
  case Nil
  then have "before = disposition s" by auto
  then show ?case using Nil.prems(5) [of "fst (kernel s)"] by (simp add: wp_simps)
next
  case (Cons x todo)
  have rest: "wp (restore_actions (record_kills ops) todo) Q
      (s\<lparr>kernel := (w, sent s), disposition := (disposition s)(x := before x)\<rparr>)" for w
  proof (rule Cons.IH)
    show "silent (s\<lparr>kernel := (w, sent s), disposition := (disposition s)(x := before x)\<rparr>)"
      using Cons.prems(1,2) by (auto simp: silent_def)
  qed (use Cons.prems in auto)
  have x: "good x" "previous_action s x = before x" using Cons.prems(3) by simp_all
  show ?case
    unfolding restore_actions.simps restore_action_def bind_assoc
    by (rule step_sys_silent [OF Cons.prems(1) _ steady_calls [OF assms(1)]])
      (use rest x in \<open>simp_all add: wp_simps\<close>)
qed

subsection \<open>Beginning\<close>

lemma step_assign: "wp (f ()) Q (g s) \<Longrightarrow> wp (State_Monad.bind (assign g) f) Q s"
  by (simp add: wp_simps)

lemma step_globals: "wp (f s) Q s \<Longrightarrow> wp (State_Monad.bind globals f) Q s"
  by (simp add: wp_simps)

text \<open>What the invariant of the session and the mask see of the globals.\<close>

definition same_session :: "('w \<times> (int \<times> int) list) driver \<Rightarrow> ('w \<times> (int \<times> int) list) driver \<Rightarrow> bool" where
  "same_session s s' \<longleftrightarrow> sent s' = sent s \<and> child_pid s' = child_pid s
     \<and> owner_group s' = owner_group s \<and> owner_pid s' = owner_pid s \<and> self_pid s' = self_pid s
     \<and> disposition s' = disposition s \<and> previous_action s' = previous_action s
     \<and> sigmask s' = sigmask s"

lemma begin_terminal_rule:
  assumes "silent s"
  shows "wp (begin_terminal (record_kills ops))
    (\<lambda>ok s'. same_session s s' \<and> (ok \<or> terminal_fd s' = - 1)) s"
  unfolding begin_terminal_def
  by (intro step_sys_any step_assign step_assoc step_if step_return wp_done)
    (use assms in \<open>simp_all add: silent_def same_session_def\<close>)

lemma close_if_open_silent:
  assumes "silent s" "\<And>w. Q () (s\<lparr>kernel := (w, sent s)\<rparr>)"
  shows "wp (close_if_open (record_kills ops) fd) Q s"
  unfolding close_if_open_def
proof (rule wp_branch)
  show "wp (sys (record_kills ops) (close_fd (record_kills ops) fd)) Q s"
    using step_sys_any [where f = State_Monad.return, OF assms(1), of "close_fd (record_kills ops) fd" Q ops]
      assms(2) by (simp add: wp_simps)
  show "wp (State_Monad.return ()) Q s"
    using assms(2) [of "fst (kernel s)"] by (simp add: wp_simps)
qed

lemmas step_close_silent = close_if_open_silent [where Q = "\<lambda>a. wp (f a) Q" for f Q, folded wp_bind]
lemmas step_install = install_rule [where Q = "\<lambda>a. wp (f a) Q" for f Q, folded wp_bind]
lemmas step_restore = restore_rule [where Q = "\<lambda>a. wp (f a) Q" for f Q, folded wp_bind]

lemma forwarded_distinct: "distinct forwarded_signals"
  by (simp add: forwarded_signals_def)

lemma begin_install_rule:
  assumes "sigactions_steady ops good" "\<forall>x. disposition s x \<noteq> Forwarding"
    and "set forwarded_signals \<subseteq> sigmask s"
  shows "wp (begin_install (record_kills ops)) (\<lambda>ok s'.
     if ok then installed good (disposition s) forwarded_signals (disposition s') (previous_action s')
       \<and> same_session (s\<lparr>disposition := disposition s', previous_action := previous_action s'\<rparr>) s'
     else same_session (s\<lparr>previous_action := previous_action s'\<rparr>) s' \<and> terminal_fd s' = - 1) s"
proof -
  have silent: "silent s" using assms(2) by (simp add: silent_def)
  have none: "installed good (disposition s) [] (disposition s) (previous_action s)"
    by (simp add: installed_def)
  show ?thesis
    unfolding begin_install_def
  proof (rule step_install [OF assms(1) silent assms(3) none forwarded_distinct], simp)
    fix ok inst w d p
    assume inst: "installed good (disposition s) inst d p" "ok \<longrightarrow> set inst = set forwarded_signals \<union> set []"
      "set inst \<subseteq> set forwarded_signals \<union> set []"
    let ?s = "s\<lparr>kernel := (w, sent s), disposition := d, previous_action := p\<rparr>"
    have silent': "silent ?s"
      using inst(1,3) assms(2,3) unfolding silent_def installed_def by (simp, metis subset_eq)
    have all: "installed good (disposition s) forwarded_signals d p" if ok
      using inst(1,2) that by (simp add: installed_def)
    have undo: "wp (restore_actions (record_kills ops) inst) Q ?s"
      if "\<And>w. Q () (s\<lparr>kernel := (w, sent s), disposition := disposition s, previous_action := p\<rparr>)" for Q
      by (rule restore_rule [where before = "disposition s", OF assms(1) silent'])
        (use inst assms(3) that in \<open>auto simp: installed_def driver_order\<close>)
    show "wp (State_Monad.bind
       (if fst (ok, inst) then State_Monad.return () else do {
          restore_actions (record_kills ops) (snd (ok, inst));
          s \<leftarrow> globals;
          close_if_open (record_kills ops) (terminal_fd s);
          assign (\<lambda>s. s\<lparr>terminal_fd := - 1\<rparr>) })
       (\<lambda>_. State_Monad.return (fst (ok, inst)))) (\<lambda>ok s'.
         if ok then installed good (disposition s) forwarded_signals (disposition s') (previous_action s')
           \<and> same_session (s\<lparr>disposition := disposition s', previous_action := previous_action s'\<rparr>) s'
         else same_session (s\<lparr>previous_action := previous_action s'\<rparr>) s' \<and> terminal_fd s' = - 1) ?s"
    proof (cases ok)
      case True
      then show ?thesis using all by (simp add: wp_simps same_session_def)
    next
      case False
      have closed: "wp (close_if_open (record_kills ops) fd) Q t"
        if "disposition t = disposition s" "\<And>w. Q () (t\<lparr>kernel := (w, sent t)\<rparr>)" for fd Q t
        by (rule close_if_open_silent) (use assms(2) that in \<open>simp_all add: silent_def\<close>)
      show ?thesis
        using False
        by (simp add: wp_simps) (rule undo, simp only: wp_globals, rule closed,
          simp_all add: wp_simps same_session_def)
    qed
  qed
qed

text \<open>\<open>set_mask\<close> while no signal is forwarded, whatever the mask.\<close>

lemma set_mask_silent:
  assumes "masks_work ops" "\<forall>x. disposition s x \<noteq> Forwarding"
    and "\<And>w. Q () (s\<lparr>kernel := (w, sent s), sigmask := m\<rparr>)"
  shows "wp (set_mask (record_kills ops) m) Q s"
  unfolding set_mask_def
proof (rule step_kernel [OF _ masks_work_calls(1) [OF assms(1)]], simp)
  fix ok w assume ok
  have "wp (poll (record_kills ops)) Q (s\<lparr>kernel := (w, sent s), sigmask := m\<rparr>)"
    using step_poll_silent [where f = State_Monad.return, of "s\<lparr>kernel := (w, sent s), sigmask := m\<rparr>" Q ops]
      assms(2,3) by (simp add: silent_def wp_simps driver_order)
  with \<open>ok\<close> show "wp (State_Monad.bind (if_then ok (assign (\<lambda>s. s\<lparr>sigmask := m\<rparr>)))
      (\<lambda>_. poll (record_kills ops))) Q (s\<lparr>kernel := (w, sent s)\<rparr>)"
    by (simp add: wp_simps)
qed

lemma session_same:
  "same_session s s' \<Longrightarrow> session c g me d p l s = session c g me d p l s'"
  by (simp add: same_session_def session_def)

lemma begin_rule:
  assumes "masks_work ops" "sigactions_steady ops good" "\<And>w. wp (getpgrp_call ops) (\<lambda>r _. r = g) w"
    and "\<forall>x. disposition s x \<noteq> Forwarding" "0 < self_pid s"
  shows "wp (signals_begin (record_kills ops)) (\<lambda>ok s'.
     if ok then (\<exists>d p. session 0 g (self_pid s) d p (sent s) s'
       \<and> installed good (disposition s) forwarded_signals d p)
     else disposition s' = disposition s \<and> child_pid s' = 0 \<and> terminal_fd s' = - 1 \<and> sent s' = sent s) s"
  (is "wp _ ?Q s")
proof -
  have silent: "silent s" using assms(4) by (simp add: silent_def)
  have pgrp: "wp (getpgrp_call (record_kills ops)) (\<lambda>r _. r = g) w" for w
    using assms(3) by (simp add: record_kills_def result_unlogged)
  have yes: "wp (State_Monad.bind (set_mask (record_kills ops) m) (\<lambda>_. State_Monad.return True)) ?Q t"
    if "session 0 g (self_pid s) d p (sent s) t" "installed good (disposition s) forwarded_signals d p"
    for d p t m
    by (rule wp_follow [OF preservesD [OF session_set_mask that(1)]])
      (use that(2) in \<open>auto simp: wp_simps\<close>)
  have no: "wp (State_Monad.bind (set_mask (record_kills ops) m) (\<lambda>_. State_Monad.return False)) ?Q t"
    if "disposition t = disposition s" "child_pid t = 0" "terminal_fd t = - 1" "sent t = sent s" for t m
    unfolding wp_bind
    by (rule set_mask_silent [OF assms(1)]) (use that assms(4) in \<open>simp_all add: wp_simps\<close>)
  have handlers: "wp (State_Monad.bind (begin_install (record_kills ops))
      (\<lambda>begun. State_Monad.bind (set_mask (record_kills ops) m) (\<lambda>_. State_Monad.return begun))) ?Q t"
    if t: "same_session (begin_reset g (s\<lparr>sigmask := sigmask s \<union> set forwarded_signals\<rparr>)) t" for t m
  proof (rule wp_follow [OF begin_install_rule [OF assms(2)]])
    show "\<forall>x. disposition t x \<noteq> Forwarding" "set forwarded_signals \<subseteq> sigmask t"
      using t assms(4) by (auto simp: same_session_def begin_reset_def)
    fix ok t'
    assume "if ok then installed good (disposition t) forwarded_signals (disposition t') (previous_action t')
         \<and> same_session (t\<lparr>disposition := disposition t', previous_action := previous_action t'\<rparr>) t'
       else same_session (t\<lparr>previous_action := previous_action t'\<rparr>) t' \<and> terminal_fd t' = - 1"
    then show "wp (State_Monad.bind (set_mask (record_kills ops) m) (\<lambda>_. State_Monad.return ok)) ?Q t'"
      using t assms(5) yes [of "disposition t'" "previous_action t'" t' m] no [of t' m]
      by (cases ok) (simp_all add: same_session_def begin_reset_def session_def)
  qed
  show ?thesis
    unfolding signals_begin_def
  proof (rule step_block_silent [OF assms(1) silent], simp only: option.case,
      rule step_sys_silent [OF _ _ pgrp])
    fix w pgrp w'
    let ?s = "s\<lparr>kernel := (w, sent s), sigmask := sigmask s \<union> set forwarded_signals\<rparr>"
    assume pgrp: "pgrp = g"
    show "wp (State_Monad.bind (assign (begin_reset pgrp)) (\<lambda>_. do {
         ok \<leftarrow> begin_terminal (record_kills ops);
         begun \<leftarrow> (if ok then begin_install (record_kills ops) else State_Monad.return False);
         set_mask (record_kills ops) (sigmask s);
         State_Monad.return begun })) ?Q (?s\<lparr>kernel := (w', sent ?s)\<rparr>)"
    proof (rule step_assign, rule wp_follow [OF begin_terminal_rule])
      show "silent (begin_reset pgrp (?s\<lparr>kernel := (w', sent ?s)\<rparr>))"
        using assms(4) by (simp add: silent_def begin_reset_def)
      fix ok t
      assume "same_session (begin_reset pgrp (?s\<lparr>kernel := (w', sent ?s)\<rparr>)) t \<and> (ok \<or> terminal_fd t = - 1)"
      then have t: "same_session (begin_reset g (s\<lparr>sigmask := sigmask s \<union> set forwarded_signals\<rparr>)) t"
          "\<not> ok \<longrightarrow> terminal_fd t = - 1"
        by (auto simp: same_session_def begin_reset_def pgrp)
      show "wp (do {
           begun \<leftarrow> (if ok then begin_install (record_kills ops) else State_Monad.return False);
           set_mask (record_kills ops) (sigmask s);
           State_Monad.return begun }) ?Q t"
        using handlers [OF t(1)] no [of t] t by (cases ok) (simp_all add: same_session_def begin_reset_def)
    qed
  qed (use assms(4) in \<open>simp_all add: silent_def\<close>)
qed

subsection \<open>Finishing\<close>

text \<open>After a session with the child \<open>c\<close>: what it installed is gone, and whom it signalled.\<close>

definition session_over ::
    "(int \<Rightarrow> action) \<Rightarrow> int \<Rightarrow> int \<Rightarrow> (int \<times> int) list \<Rightarrow> ('w \<times> (int \<times> int) list) driver \<Rightarrow> bool" where
  "session_over before c g l s \<longleftrightarrow> disposition s = before \<and> child_pid s = 0 \<and> terminal_fd s = - 1
     \<and> (\<exists>new. sent s = new @ l \<and> (\<forall>k \<in> set new. target_ok c g k))"

text \<open>What the functions of a session keep together: the invariant and the mask.\<close>

definition steady_session ::
    "int \<Rightarrow> int \<Rightarrow> int \<Rightarrow> (int \<Rightarrow> action) \<Rightarrow> (int \<Rightarrow> action) \<Rightarrow> (int \<times> int) list \<Rightarrow> int set \<Rightarrow>
     ('w \<times> (int \<times> int) list) driver \<Rightarrow> bool" where
  "steady_session c g me d p l m s \<longleftrightarrow> session c g me d p l s \<and> sigmask s = m"

lemma steady_preserved:
  "preserves (session c g me d p l) prog \<Longrightarrow> keeps sigmask prog \<Longrightarrow>
   preserves (steady_session c g me d p l m) prog"
  unfolding preserves_def keeps_def steady_session_def by (auto simp: wp_conj intro: wp_mono)

lemma step_steady:
  assumes "steady_session c g me d p l m s"
    and "preserves (session c g me d p l) prog" "keeps sigmask prog"
    and "\<And>r s'. steady_session c g me d p l m s' \<Longrightarrow> wp (f r) Q s'"
  shows "wp (State_Monad.bind prog f) Q s"
  by (rule wp_follow [OF preservesD [OF steady_preserved [OF assms(2,3)] assms(1)]]) (rule assms(4))

lemma block_works:
  assumes "masks_work ops"
  shows "wp (block_signals ops) (\<lambda>r _. r \<noteq> None) s"
proof -
  have built: "wp (sys ops (sigset_ok ops sigs)) (\<lambda>ok _. ok) s" for sigs s
    by (rule result_sys) (use assms in \<open>simp add: masks_work_def\<close>)
  have ok: "wp (sys ops (procmask_ok ops)) (\<lambda>ok _. ok) s" for s
    by (rule result_sys) (use assms in \<open>simp add: masks_work_def\<close>)
  show ?thesis
    unfolding block_signals_def block_set_def
    by (rule wp_follow [OF built], rule wp_branch, simp,
        rule wp_follow [OF ok]) (simp add: wp_simps)
qed

lemma step_block_session:
  assumes "masks_work ops" "session c g me d p l s"
    and "\<And>s'. steady_session c g me d p l (sigmask s \<union> set forwarded_signals) s' \<Longrightarrow>
      wp (f (Some (sigmask s))) Q s'"
  shows "wp (State_Monad.bind (block_signals (record_kills ops)) f) Q s"
proof (rule wp_follow)
  let ?P = "\<lambda>r s'. (r \<noteq> None \<and> session c g me d p l s')
      \<and> (case r of None \<Rightarrow> sigmask s' = sigmask s
         | Some m \<Rightarrow> m = sigmask s \<and> sigmask s' = sigmask s \<union> set forwarded_signals)"
  show "wp (block_signals (record_kills ops)) ?P s"
    unfolding wp_conj
    using block_works [OF masks_work_calls(3) [OF assms(1)]] preservesD [OF session_block assms(2)]
      block_set_rule [of "record_kills ops" forwarded_signals s]
    by (simp add: block_signals_def)
  show "wp (f r) Q s'" if "?P r s'" for r s'
    using that assms(3) by (auto simp: steady_session_def)
qed

lemma wp_last: "wp (State_Monad.bind m f) Q s = wp m (\<lambda>a. wp (f a) Q) s"
  by (simp add: wp_bind)

lemma finish_rule:
  assumes "masks_work ops" "sigactions_steady ops good" "process_ids ops"
    and "session c g me d p l s" "installed good before forwarded_signals d p"
    and "\<forall>x. before x \<noteq> Forwarding"
  shows "wp (signals_finish (record_kills ops) fuel)
    (\<lambda>r s'. r \<noteq> None \<longrightarrow> session_over before c g l s') s"
  unfolding signals_finish_def
proof (rule step_block_session [OF assms(1,4)], simp only: option.case,
    rule step_steady, assumption, rule session_restore_terminal,
    rule keeps_restore_terminal [OF masks_work_calls(3) [OF assms(1)]],
    rule step_steady, assumption, rule session_close_observer [OF assms(3)],
    rule keeps_close_observer [OF masks_work_calls(3) [OF assms(1)]], rule end_case)
  fix t :: "('a \<times> (int \<times> int) list) driver" and closed :: "bool option"
  assume t: "steady_session c g me d p l (sigmask s \<union> set forwarded_signals) t"
  have d: "disposition t = d" "previous_action t = p" "set forwarded_signals \<subseteq> sigmask t"
    using t by (auto simp: steady_session_def session_def)
  have silent: "silent t"
    using d assms(5,6) unfolding silent_def installed_def by (metis subset_eq)
  have over: "session_over before c g l (t\<lparr>terminal_fd := - 1, child_pid := 0,
      disposition := before, kernel := (w, sent t), sigmask := m\<rparr>)" for w m
    using t by (simp add: session_over_def steady_session_def session_def)
  show "wp (do {
     s \<leftarrow> globals;
     close_if_open (record_kills ops) (terminal_fd s);
     assign (\<lambda>s. s\<lparr>terminal_fd := - 1, child_pid := 0\<rparr>);
     s \<leftarrow> globals;
     let received = termination_signal s;
     restore_actions (record_kills ops) (rev forwarded_signals);
     set_mask (record_kills ops) (sigmask s0);
     State_Monad.return (Some received) })
     (\<lambda>r s'. r \<noteq> None \<longrightarrow> session_over before c g l s') t" for s0
    unfolding Let_def
  proof (rule step_globals, rule step_close_silent [OF silent], rule step_assign, rule step_globals,
      rule step_restore [where before = before, OF assms(2)])
    show "wp (State_Monad.bind (set_mask (record_kills ops) (sigmask s0))
        (\<lambda>_. State_Monad.return (Some (termination_signal u))))
        (\<lambda>r s'. r \<noteq> None \<longrightarrow> session_over before c g l s')
        ((t\<lparr>kernel := (w, sent t), terminal_fd := - 1, child_pid := 0\<rparr>)
          \<lparr>kernel := (w', sent (t\<lparr>kernel := (w, sent t), terminal_fd := - 1, child_pid := 0\<rparr>)),
           disposition := before\<rparr>)" for u w w'
      unfolding wp_last
      by (rule set_mask_silent [OF assms(1)]) (use over assms(6) in \<open>simp_all add: wp_simps\<close>)
  qed (use silent d assms(5) in \<open>auto simp: silent_def installed_def\<close>)
qed (simp_all add: wp_simps)

subsection \<open>Publishing and waiting\<close>

lemma session_weaken: "session 0 g me d p l s \<Longrightarrow> 0 < c \<Longrightarrow> session c g me d p l (s\<lparr>child_pid := c\<rparr>)"
  by (auto simp: session_def target_ok_def)

lemma publish_rule:
  assumes "process_ids ops" "0 < child" "session 0 g me d p l s"
  shows "wp (publish_child (record_kills ops) fuel child) (\<lambda>_. session child g me d p l) s"
  unfolding publish_child_def
proof (rule step_assign)
  let ?rest = "\<lambda>started. case started of None \<Rightarrow> State_Monad.return None
     | Some started \<Rightarrow> do {
     ok \<leftarrow> (if started then foreground_child (record_kills ops) else State_Monad.return False);
     gone \<leftarrow> (if ok then State_Monad.return False else do {
       r \<leftarrow> sys (record_kills ops) (kill_pid (record_kills ops) child 0);
       State_Monad.return (r = Inl ESRCH) });
     if ok \<or> gone then do {
       s \<leftarrow> globals;
       if_then (received_signal s \<noteq> 0) (send_child_signal (record_kills ops) (received_signal s));
       State_Monad.return (Some True) }
     else State_Monad.return (Some False) }"
  have "preserves (session child g me d p l)
      (State_Monad.bind (start_observer (record_kills ops) fuel) ?rest)"
    by (intro first_steps preserves_rules target_single assms(1,2))
  then show "wp (State_Monad.bind (start_observer (record_kills ops) fuel) ?rest)
      (\<lambda>_. session child g me d p l) (s\<lparr>child_pid := child\<rparr>)"
    by (rule preservesD) (rule session_weaken [OF assms(3,2)])
qed

text \<open>Before or after the child is published.\<close>

definition open_session ::
    "int \<Rightarrow> int \<Rightarrow> int \<Rightarrow> (int \<Rightarrow> action) \<Rightarrow> (int \<Rightarrow> action) \<Rightarrow> (int \<times> int) list \<Rightarrow>
     ('w \<times> (int \<times> int) list) driver \<Rightarrow> bool" where
  "open_session c g me d p l s \<longleftrightarrow> session 0 g me d p l s \<or> 0 < c \<and> session c g me d p l s"

lemma open_preserved:
  fixes m :: "('w \<times> (int \<times> int) list, 'b) run"
  assumes "\<And>c. preserves (session c g me d p l) m"
  shows "preserves (open_session c g me d p l) m"
  unfolding preserves_def
proof (intro allI impI)
  fix s :: "('w \<times> (int \<times> int) list) driver"
  assume "open_session c g me d p l s"
  then consider "session 0 g me d p l s" | "0 < c" "session c g me d p l s"
    by (auto simp: open_session_def)
  then show "wp m (\<lambda>_. open_session c g me d p l) s"
  proof cases
    case 1
    show ?thesis by (rule wp_mono [OF preservesD [OF assms 1]]) (simp add: open_session_def)
  next
    case 2
    show ?thesis by (rule wp_mono [OF preservesD [OF assms 2(2)]]) (simp add: open_session_def 2(1))
  qed
qed

lemma set_pid_rule:
  assumes "process_ids ops" "session 0 g me d p l s"
  shows "wp (signals_set_pid (record_kills ops) fuel child) (\<lambda>_. open_session child g me d p l) s"
  unfolding signals_set_pid_def
proof (rule wp_follow [OF preservesD [OF session_block assms(2)]])
  fix r :: "int set option" and s1 :: "('a \<times> (int \<times> int) list) driver"
  assume s1: "session 0 g me d p l s1"
  have verified: "wp (if child \<le> 0 then State_Monad.return False else verify_group (record_kills ops) child 2)
      (\<lambda>v s'. session 0 g me d p l s' \<and> (v \<longrightarrow> 0 < child)) s1"
  proof (rule wp_branch)
    assume "\<not> child \<le> 0"
    then show "wp (verify_group (record_kills ops) child 2)
        (\<lambda>v s'. session 0 g me d p l s' \<and> (v \<longrightarrow> 0 < child)) s1"
      by (intro wp_mono [OF preservesD [OF session_verify s1]]) simp
  qed (simp add: wp_return s1)
  have published: "wp (if v then publish_child (record_kills ops) fuel child else State_Monad.return (Some False))
      (\<lambda>_. open_session child g me d p l) s2"
    if "session 0 g me d p l s2 \<and> (v \<longrightarrow> 0 < child)" for v s2
  proof (rule wp_branch)
    assume v
    with that have "0 < child" "session 0 g me d p l s2" by simp_all
    from publish_rule [OF assms(1) this] show "wp (publish_child (record_kills ops) fuel child)
        (\<lambda>_. open_session child g me d p l) s2"
      by (rule wp_mono) (simp add: open_session_def \<open>0 < child\<close>)
  qed (use that in \<open>simp add: wp_return open_session_def\<close>)
  show "wp (case r of None \<Rightarrow> State_Monad.return (Some False)
     | Some m \<Rightarrow> do {
     verified \<leftarrow> (if child \<le> 0 then State_Monad.return False else verify_group (record_kills ops) child 2);
     r \<leftarrow> (if verified then publish_child (record_kills ops) fuel child else State_Monad.return (Some False));
     case r of None \<Rightarrow> State_Monad.return None
     | Some ok \<Rightarrow> do {
     set_mask (record_kills ops) m;
     State_Monad.return (Some ok) }}) (\<lambda>_. open_session child g me d p l) s1"
  proof (rule end_case, rule wp_done)
    show "open_session child g me d p l s1" using s1 by (simp add: open_session_def)
  next
    fix m
    have given: "wp (State_Monad.bind (set_mask (record_kills ops) m) (\<lambda>_. State_Monad.return (Some ok)))
        (\<lambda>_. open_session child g me d p l) s3"
      if "open_session child g me d p l s3" for ok s3
      by (rule preservesD [OF open_preserved that]) (intro preserves_rules)
    show "wp (do {
     verified \<leftarrow> (if child \<le> 0 then State_Monad.return False else verify_group (record_kills ops) child 2);
     r \<leftarrow> (if verified then publish_child (record_kills ops) fuel child else State_Monad.return (Some False));
     case r of None \<Rightarrow> State_Monad.return None
     | Some ok \<Rightarrow> do {
     set_mask (record_kills ops) m;
     State_Monad.return (Some ok) }}) (\<lambda>_. open_session child g me d p l) s1"
      by (rule wp_follow [OF verified], rule wp_follow [OF published], assumption, rule end_case)
        (simp_all add: wp_return given)
  qed
qed

lemma over_weaken: "session_over before 0 g l s \<Longrightarrow> session_over before c g l s"
  by (auto simp: session_over_def target_ok_def)

lemma finish_open:
  assumes "masks_work ops" "sigactions_steady ops good" "process_ids ops"
    and "installed good before forwarded_signals d p" "\<forall>x. before x \<noteq> Forwarding"
    and "open_session c g me d p l s"
  shows "wp (signals_finish (record_kills ops) fuel)
    (\<lambda>r s'. r \<noteq> None \<longrightarrow> session_over before c g l s') s"
proof -
  have "wp (signals_finish (record_kills ops) fuel) (\<lambda>r s'. r \<noteq> None \<longrightarrow> session_over before c' g l s') s"
    if "session c' g me d p l s" for c'
    by (rule finish_rule [OF assms(1-3) that assms(4,5)])
  then show ?thesis
    using assms(6) unfolding open_session_def by (auto intro: wp_mono over_weaken)
qed

lemma ending_rule:
  assumes "masks_work ops" "sigactions_steady ops good" "process_ids ops"
    and "installed good before forwarded_signals d p" "\<forall>x. before x \<noteq> Forwarding"
    and "open_session c g me d p l s"
  shows "wp (run_ending (record_kills ops) fuel report)
    (\<lambda>r s'. r \<noteq> None \<longrightarrow> session_over before c g l s') s"
  unfolding run_ending_def by (rule wp_follow [OF finish_open [OF assms]]) (simp add: wp_return)

lemma open_step:
  assumes "open_session c g me d p l s" "\<And>c. preserves (session c g me d p l) m"
    and "\<And>r s'. open_session c g me d p l s' \<Longrightarrow> wp (f r) Q s'"
  shows "wp (State_Monad.bind m f) Q s"
  by (rule wp_follow [OF preservesD [OF open_preserved [OF assms(2)] assms(1)]]) (rule assms(3))

lemma open_if:
  "(b \<Longrightarrow> preserves I m) \<Longrightarrow> preserves I (if b then m else State_Monad.return a)"
  by (simp add: preserves_return)

lemma session_external [preserves_rules]:
  "preserves (session c g me d p l) (sys (record_kills ops) (unlogged m))"
  by (rule session_sys) (rule session_unlogged)

lemma waited_rule:
  assumes "masks_work ops" "sigactions_steady ops good" "process_ids ops"
    and "installed good before forwarded_signals d p" "\<forall>x. before x \<noteq> Forwarding"
    and "open_session c g me d p l s"
  shows "wp (run_waited (record_kills ops) (\<lambda>pid. unlogged (await pid)) fuel pid waited)
    (\<lambda>r s'. r \<noteq> None \<longrightarrow> session_over before c g l s') s"
proof -
  note ending = ending_rule [OF assms(1-5)]
  have failed: "wp (do {
       signals_kill (record_kills ops) pid;
       sys (record_kills ops) (unlogged (await pid));
       run_ending (record_kills ops) fuel (\<lambda>_. Not_Waited) })
      (\<lambda>r s'. r \<noteq> None \<longrightarrow> session_over before c g l s') s"
    by (rule open_step [OF assms(6) session_signals_kill], rule open_step, assumption,
        rule session_external) (rule ending)
  show ?thesis
    unfolding run_waited_def
    using failed ending [OF assms(6)] by (cases waited) (simp_all add: wp_return)
qed

lemma started_rule:
  assumes "masks_work ops" "sigactions_steady ops good" "process_ids ops"
    and "installed good before forwarded_signals d p" "\<forall>x. before x \<noteq> Forwarding"
    and "session 0 g me d p l s"
  shows "wp (run_started (record_kills ops) (\<lambda>pid. unlogged (await pid)) fuel c)
    (\<lambda>r s'. r \<noteq> None \<longrightarrow> session_over before c g l s') s"
  unfolding run_started_def
proof (rule wp_follow [OF set_pid_rule [OF assms(3,6)]], rule end_case)
  fix t :: "('a \<times> (int \<times> int) list) driver" and ok
  assume "open_session c g me d p l t"
  then show "wp (do {
      waited \<leftarrow> (if ok then signals_wait (record_kills ops) fuel else State_Monad.return Failed);
      run_waited (record_kills ops) (\<lambda>pid. unlogged (await pid)) fuel c waited })
      (\<lambda>r s'. r \<noteq> None \<longrightarrow> session_over before c g l s') t"
    by (rule open_step) (rule open_if session_wait [OF assms(3)] waited_rule [OF assms(1-5)] | assumption)+
qed (simp add: wp_return)

lemma run_session:
  assumes "masks_work ops" "sigactions_steady ops good" "process_ids ops"
    and "\<And>w. wp (getpgrp_call ops) (\<lambda>r _. r = g) w" "\<And>w. wp spawn (\<lambda>r _. r = c) w"
    and "\<forall>x. disposition s x \<noteq> Forwarding" "0 < self_pid s"
  shows "wp (wait_run_process (record_kills ops) (unlogged spawn) (\<lambda>pid. unlogged (await pid)) fuel)
    (\<lambda>r s'. r \<noteq> None \<longrightarrow> session_over (disposition s) c g (sent s) s') s"
  unfolding wait_run_process_def
proof (rule wp_follow [OF begin_rule [OF assms(1,2,4,6,7)]], rule wp_branch)
  fix t :: "('a \<times> (int \<times> int) list) driver" and begun
  let ?over_here = "\<lambda>r s'. r \<noteq> None \<longrightarrow> session_over (disposition s) c g (sent s) s'"
  let ?over = "if begun then (\<exists>d p. session 0 g (self_pid s) d p (sent s) t
       \<and> installed good (disposition s) forwarded_signals d p)
     else disposition t = disposition s \<and> child_pid t = 0 \<and> terminal_fd t = - 1 \<and> sent t = sent s"
  assume t: ?over
  show "wp (State_Monad.return (Some Not_Installed)) ?over_here t" if "\<not> begun"
    using t that by (simp add: wp_return session_over_def)
  assume "\<not> \<not> begun"
  then obtain d p where d: "session 0 g (self_pid s) d p (sent s) t"
    "installed good (disposition s) forwarded_signals d p" using t by auto
  have pid: "wp (sys (record_kills ops) (unlogged spawn))
      (\<lambda>pid s'. pid = c \<and> session 0 g (self_pid s) d p (sent s) s') t"
    unfolding wp_conj
  proof
    show "wp (sys (record_kills ops) (unlogged spawn)) (\<lambda>pid _. pid = c) t"
      by (rule result_sys) (simp add: result_unlogged assms(5))
    show "wp (sys (record_kills ops) (unlogged spawn)) (\<lambda>_. session 0 g (self_pid s) d p (sent s)) t"
      by (rule preservesD [OF session_external d(1)])
  qed
  show "wp (do {
       pid \<leftarrow> sys (record_kills ops) (unlogged spawn);
       if pid \<le> 0 then run_ending (record_kills ops) fuel (\<lambda>_. Not_Started)
       else run_started (record_kills ops) (\<lambda>pid. unlogged (await pid)) fuel pid }) ?over_here t"
  proof (rule wp_follow [OF pid], rule wp_branch)
    fix pid :: int and u :: "('a \<times> (int \<times> int) list) driver"
    assume u: "pid = c \<and> session 0 g (self_pid s) d p (sent s) u"
    then have "open_session c g (self_pid s) d p (sent s) u" by (simp add: open_session_def)
    then show "wp (run_ending (record_kills ops) fuel (\<lambda>_. Not_Started)) ?over_here u"
      by (rule ending_rule [OF assms(1-3) d(2) assms(6)])
    show "wp (run_started (record_kills ops) (\<lambda>pid. unlogged (await pid)) fuel pid) ?over_here u"
      unfolding conjunct1 [OF u] by (rule started_rule [OF assms(1-3) d(2) assms(6) conjunct2 [OF u]])
  qed
qed

end
