(* ===== verification/Run_Signals_Run.thy ===== *)
theory Run_Signals_Run
  imports Run_Signals_Session
begin

text \<open>The run of a program as a whole, from \<open>begin\<close> to \<open>finish\<close>.\<close>

subsection \<open>The mask over a run\<close>

lemma given_last [given_rules]:
  assumes "given_back (\<lambda>r. r \<noteq> None) m"
  shows "given_back (\<lambda>r. r \<noteq> None) (State_Monad.bind m (\<lambda>r. State_Monad.return (map_option f r)))"
  unfolding given_back_def by (intro allI given_back_step [OF assms] wp_done) simp

lemma given_ending [given_rules]:
  "masks_work ops \<Longrightarrow> given_back (\<lambda>r. r \<noteq> None) (run_ending ops fuel report)"
  unfolding run_ending_def by (intro given_last finish_gives_back)

lemma given_waited:
  assumes "masks_work ops" "waited \<noteq> Pending"
  shows "given_back (\<lambda>r. r \<noteq> None) (run_waited ops await fuel pid waited)"
proof -
  have "given_back (\<lambda>r. r \<noteq> None) (do {
      signals_kill ops pid; sys ops (await pid); run_ending ops fuel (\<lambda>_. Not_Waited) })"
    by (intro given_rules keeps_rules assms(1))
  then show ?thesis
    unfolding run_waited_def
    using given_ending [OF assms(1)] assms(2) by (cases waited) (simp_all del: not_None_eq)
qed

lemma given_started [given_rules]:
  fixes ops :: "('w, 'x) posix_ops_scheme"
  assumes "masks_work ops"
  shows "given_back (\<lambda>r. r \<noteq> None) (run_started ops await fuel pid)"
proof -
  have wait: "given_back (\<lambda>r. r \<noteq> Pending) (if ok then signals_wait ops fuel else State_Monad.return Failed)" for ok
    by (intro given_rules wait_gives_back assms)
  have waited: "wp (run_waited ops await fuel pid waited) (\<lambda>r s'. r \<noteq> None \<longrightarrow> sigmask s' = sigmask s) t"
    if "waited \<noteq> Pending \<longrightarrow> sigmask t = sigmask s" for waited and s t :: "'w driver"
    using given_waited [OF assms, unfolded given_back_def, rule_format, of waited await fuel pid t] that
    by (cases "waited = Pending") (simp_all add: run_waited_def wp_return)
  show ?thesis
    unfolding run_started_def given_back_def
    by (intro allI given_back_step [OF set_pid_gives_back [OF assms]] end_case wp_done
        given_back_step [OF wait] waited) simp_all
qed

lemma run_mask:
  "masks_work ops \<Longrightarrow> given_back (\<lambda>r. r \<noteq> None) (wait_run_process ops spawn await fuel)"
  unfolding wait_run_process_def by (intro given_rules begin_keeps keeps_rules)

end
