(* ===== verification/Run_Signals_Live.thy ===== *)
theory Run_Signals_Live
  imports Run_Signals_Run
begin

text \<open>
  The run returns. Waiting for a program has no bound of its own: it lasts until the program ends. So
  the measure is the kernel's: \<open>finite_events n ops\<close> says that \<open>n\<close> bounds the signals and the changes
  of children that are still to come, after which \<^verbatim>\<open>waitpid\<close> has nobody left to wait for. With more
  fuel than that, every loop ends.
\<close>

subsection \<open>Budgets\<close>

definition spends :: "('w \<Rightarrow> nat) \<Rightarrow> ('w, 'a) state \<Rightarrow> bool" where
  "spends n m \<longleftrightarrow> (\<forall>w. wp m (\<lambda>_ w'. n w' \<le> n w) w)"

definition finite_events :: "('w \<Rightarrow> nat) \<Rightarrow> ('w, 'x) posix_ops_scheme \<Rightarrow> bool" where
  "finite_events n ops \<longleftrightarrow>
     (\<forall>w. wp (pending ops) (\<lambda>sigs w'. n w' \<le> n w \<and> (sigs \<noteq> [] \<longrightarrow> n w' < n w)) w)
     \<and> (\<forall>pid untraced w. wp (waitpid_call ops pid untraced)
          (\<lambda>r w'. n w' \<le> n w \<and> (n w' < n w \<or> (\<exists>e. e \<noteq> EINTR \<and> r = Inl e))) w)
     \<and> (\<forall>sigs. spends n (sigset_ok ops sigs)) \<and> spends n (procmask_ok ops)
     \<and> (\<forall>sig. spends n (sigaction_ok ops sig)) \<and> (\<forall>pid sig. spends n (kill_pid ops pid sig))
     \<and> (\<forall>fd b. spends n (write_notice ops fd b)) \<and> spends n (getpgrp_call ops)
     \<and> (\<forall>pid. spends n (getpgid_call ops pid)) \<and> (\<forall>pid pgrp. spends n (setpgid_call ops pid pgrp))
     \<and> (\<forall>fd. spends n (tcgetpgrp_call ops fd)) \<and> (\<forall>fd pgrp. spends n (tcsetpgrp_call ops fd pgrp))
     \<and> spends n (open_tty ops) \<and> (\<forall>fd. spends n (close_fd ops fd))
     \<and> (\<forall>fd. spends n (set_cloexec ops fd)) \<and> (\<forall>fd. spends n (get_flags ops fd))
     \<and> (\<forall>fd flags. spends n (set_nonblock ops fd flags)) \<and> spends n (pipe_call ops)
     \<and> spends n (fork_call ops)"

definition budget :: "('w \<Rightarrow> nat) \<Rightarrow> nat \<Rightarrow> 'w driver \<Rightarrow> bool" where
  "budget n k s \<longleftrightarrow> n (kernel s) \<le> k"

lemma spends_calls:
  assumes "finite_events n ops"
  shows "spends n (sigset_ok ops sigs)" "spends n (procmask_ok ops)" "spends n (sigaction_ok ops sig)"
    "spends n (kill_pid ops pid sig)" "spends n (write_notice ops fd b)" "spends n (getpgrp_call ops)"
    "spends n (getpgid_call ops pid)" "spends n (setpgid_call ops pid pgrp)"
    "spends n (tcgetpgrp_call ops fd)" "spends n (tcsetpgrp_call ops fd pgrp)" "spends n (open_tty ops)"
    "spends n (close_fd ops fd)" "spends n (set_cloexec ops fd)" "spends n (get_flags ops fd)"
    "spends n (set_nonblock ops fd flags)" "spends n (pipe_call ops)" "spends n (fork_call ops)"
    "spends n (waitpid_call ops pid untraced)" "spends n (pending ops)"
  using assms by (simp_all add: finite_events_def spends_def wp_conj)

named_theorems budget_rules

lemma budget_kernel [budget_rules]: "spends n m \<Longrightarrow> preserves (budget n k) (on_kernel m)"
  by (fastforce simp: preserves_def budget_def spends_def on_kernel_def wp_def split: prod.splits)

lemma budget_assign [budget_rules]:
  "(\<And>s. kernel (f s) = kernel s) \<Longrightarrow> preserves (budget n k) (assign f)"
  by (rule preserves_assign) (simp add: budget_def)

lemma budget_globals [budget_rules]: "preserves I globals"
  by (simp add: preserves_def wp_globals)

lemma budget_handler [budget_rules]:
  "finite_events n ops \<Longrightarrow> preserves (budget n k) (forward_signal ops sig)"
  unfolding forward_signal_def send_child_signal_def
  by (intro preserves_rules budget_rules spends_calls) (simp_all add: announce_def)

lemma budget_deliver [budget_rules]:
  "finite_events n ops \<Longrightarrow> preserves (budget n k) (deliver ops sigs)"
  by (induction sigs) (auto intro!: preserves_rules budget_rules)

lemma budget_poll [budget_rules]: "finite_events n ops \<Longrightarrow> preserves (budget n k) (poll ops)"
  unfolding poll_def by (intro preserves_rules budget_rules spends_calls)

lemma budget_sys [budget_rules]:
  "finite_events n ops \<Longrightarrow> spends n m \<Longrightarrow> preserves (budget n k) (sys ops m)"
  unfolding sys_def by (intro preserves_rules budget_rules)

subsection \<open>Programs that return\<close>

text \<open>\<open>ends n k ended m\<close>: with the budget \<open>k\<close>, \<open>m\<close> returns a result with \<open>ended\<close>.\<close>

definition ends :: "('w \<Rightarrow> nat) \<Rightarrow> nat \<Rightarrow> ('a \<Rightarrow> bool) \<Rightarrow> ('w, 'a) run \<Rightarrow> bool" where
  "ends n k ended m \<longleftrightarrow> (\<forall>s. budget n k s \<longrightarrow> wp m (\<lambda>r _. ended r) s)"

abbreviation returned :: "'a option \<Rightarrow> bool" where
  "returned r \<equiv> r \<noteq> None"

named_theorems ends_rules

lemma ends_return [ends_rules]: "ended a \<Longrightarrow> ends n k ended (State_Monad.return a)"
  by (simp add: ends_def wp_return)

lemma ends_bind:
  assumes "preserves (budget n k) m" "\<And>a. ends n k ended (f a)"
  shows "ends n k ended (State_Monad.bind m f)"
  unfolding ends_def
proof (intro allI impI)
  fix s assume "budget n k s"
  from preservesD [OF assms(1) this] show "wp (State_Monad.bind m f) (\<lambda>r _. ended r) s"
    by (rule wp_follow) (use assms(2) in \<open>simp add: ends_def\<close>)
qed

text \<open>First a program that has its own result to return.\<close>

lemma ends_after:
  assumes "ends n k ended1 m" "preserves (budget n k) m" "\<And>a. ended1 a \<Longrightarrow> ends n k ended (f a)"
  shows "ends n k ended (State_Monad.bind m f)"
  unfolding ends_def
proof (intro allI impI)
  fix s assume s: "budget n k s"
  have "wp m (\<lambda>r s'. ended1 r \<and> budget n k s') s"
    unfolding wp_conj using assms(1) preservesD [OF assms(2) s] s by (simp add: ends_def)
  then show "wp (State_Monad.bind m f) (\<lambda>r _. ended r) s"
    by (rule wp_follow) (use assms(3) in \<open>simp add: ends_def\<close>)
qed

lemma ends_if [ends_rules]:
  "(b \<Longrightarrow> ends n k ended m) \<Longrightarrow> (\<not> b \<Longrightarrow> ends n k ended m') \<Longrightarrow> ends n k ended (if b then m else m')"
  by simp

lemma ends_option [ends_rules]:
  "(x = None \<Longrightarrow> ends n k ended m) \<Longrightarrow> (\<And>y. x = Some y \<Longrightarrow> ends n k ended (f y)) \<Longrightarrow>
   ends n k ended (case x of None \<Rightarrow> m | Some y \<Rightarrow> f y)"
  by (cases x) simp_all

lemma ends_let [ends_rules]: "ends n k ended (f x) \<Longrightarrow> ends n k ended (Let x f)"
  by simp

subsection \<open>The functions keep the budget\<close>

lemma budget_masks [budget_rules]:
  assumes "finite_events n ops"
  shows "preserves (budget n k) (block_set ops sigs)" "preserves (budget n k) (block_signals ops)"
    "preserves (budget n k) (set_mask ops m)" "preserves (budget n k) (unblock ops sig)"
  unfolding block_signals_def block_set_def set_mask_def unblock_def
  by (intro preserves_rules budget_rules spends_calls assms; simp)+

lemma budget_terminal [budget_rules]:
  assumes "finite_events n ops"
  shows "preserves (budget n k) (restore_terminal ops)" "preserves (budget n k) (foreground_child ops)"
  unfolding restore_terminal_def foreground_child_def set_foreground_def
  by (intro preserves_rules budget_rules spends_calls assms)+

lemma budget_closes [budget_rules]:
  assumes "finite_events n ops"
  shows "preserves (budget n k) (close_pair ops fds)" "preserves (budget n k) (cloexec_pair ops fds)"
    "preserves (budget n k) (notice_pipe_ready ops fds)" "preserves (budget n k) (close_if_open ops fd)"
    "preserves (budget n k) (close_notices ops)" "preserves (budget n k) (close_control ops)"
  unfolding close_pair_def cloexec_pair_def notice_pipe_ready_def close_if_open_def
    close_notices_def close_control_def
  by (intro preserves_rules budget_rules spends_calls assms; simp)+

lemma budget_reap [budget_rules]:
  "finite_events n ops \<Longrightarrow> preserves (budget n k) (reap ops fuel pid)"
  by (induction fuel) (auto intro!: preserves_rules budget_rules spends_calls)

lemma budget_adopt [budget_rules]:
  "finite_events n ops \<Longrightarrow> preserves (budget n k) (adopt_observer ops fuel control notices observer)"
  unfolding adopt_observer_def by (intro preserves_rules budget_rules spends_calls) simp_all

lemma budget_start [budget_rules]:
  "finite_events n ops \<Longrightarrow> preserves (budget n k) (start_observer ops fuel)"
  unfolding start_observer_def by (intro preserves_rules budget_rules spends_calls)

lemma budget_observer_exit [budget_rules]:
  "finite_events n ops \<Longrightarrow> preserves (budget n k) (observer_exit ops status)"
  unfolding observer_exit_def relay_interrupt_def
  by (intro preserves_rules budget_rules spends_calls) simp_all

lemma budget_reap_observer [budget_rules]:
  assumes "finite_events n ops"
  shows "preserves (budget n k) (reap_observer ops fuel)"
proof (induction fuel)
  case (Suc fuel)
  then show ?case
    unfolding reap_observer.simps by (intro preserves_rules budget_rules spends_calls assms) simp_all
qed (simp add: preserves_rules)

lemma budget_close_observer [budget_rules]:
  "finite_events n ops \<Longrightarrow> preserves (budget n k) (close_observer ops fuel)"
  unfolding close_observer_def by (intro preserves_rules budget_rules spends_calls)

lemma budget_stop_owner [budget_rules]:
  assumes "finite_events n ops"
  shows "preserves (budget n k) (stop_owner ops fuel)"
proof (induction fuel)
  case (Suc fuel)
  then show ?case
    unfolding stop_owner.simps by (intro preserves_rules budget_rules spends_calls assms) simp_all
qed (simp add: preserves_rules)

lemma budget_suspend [budget_rules]:
  assumes "finite_events n ops"
  shows "preserves (budget n k) (suspend_owner ops fuel sig forwarded)"
    "preserves (budget n k) (restart_observer ops fuel)"
    "preserves (budget n k) (suspend_and_restart ops fuel sig forwarded)"
  unfolding suspend_and_restart_def suspend_owner_def restart_observer_def
  by (intro preserves_rules budget_rules spends_calls assms; simp)+

lemma budget_wait_parts [budget_rules]:
  assumes "finite_events n ops"
  shows "preserves (budget n k) (wait_observer ops fuel status)"
    "preserves (budget n k) (wait_stopped ops fuel sig)"
    "preserves (budget n k) (wait_exited ops fuel status)"
  unfolding wait_observer_def wait_stopped_def wait_exited_def
  by (intro preserves_rules budget_rules spends_calls assms; simp)+

subsection \<open>Every loop ends\<close>

text \<open>What \<^verbatim>\<open>waitpid\<close> answers leaves less to come, unless it says that nobody is left.\<close>

lemma waitpid_rule:
  assumes "finite_events n ops" "budget n k s"
  shows "wp (sys ops (waitpid_call ops pid untraced))
    (\<lambda>r s'. budget n k s' \<and> (n (kernel s') < k \<or> (\<exists>e. e \<noteq> EINTR \<and> r = Inl e))) s"
  unfolding sys_def wp_bind
proof (rule wp_mono)
  let ?P = "\<lambda>r s'. n (kernel s') \<le> k \<and> (n (kernel s') < k \<or> (\<exists>e. e \<noteq> EINTR \<and> r = Inl e))"
  have "wp (waitpid_call ops pid untraced)
      (\<lambda>r w'. n w' \<le> n (kernel s) \<and> (n w' < n (kernel s) \<or> (\<exists>e. e \<noteq> EINTR \<and> r = Inl e))) (kernel s)"
    using assms(1) by (simp add: finite_events_def)
  then show "wp (on_kernel (waitpid_call ops pid untraced)) ?P s"
    using assms(2) by (auto simp: on_kernel_def wp_def budget_def split: prod.splits)
  fix r and s1 :: "'a driver"
  assume s1: "?P r s1"
  have "wp (poll ops) (\<lambda>_. budget n (n (kernel s1))) s1"
    by (rule preservesD [OF budget_poll [OF assms(1)]]) (simp add: budget_def)
  then show "wp (poll ops) (\<lambda>_. wp (State_Monad.return r)
      (\<lambda>r s'. budget n k s' \<and> (n (kernel s') < k \<or> (\<exists>e. e \<noteq> EINTR \<and> r = Inl e)))) s1"
    using s1 by (auto simp: wp_return budget_def intro: wp_mono)
qed

lemma step_waited:
  assumes "finite_events n ops" "budget n k s"
    and "\<And>e s'. e \<noteq> EINTR \<Longrightarrow> budget n k s' \<Longrightarrow> wp (f (Inl e)) Q s'"
    and "\<And>r s' k'. k' < k \<Longrightarrow> budget n k' s' \<Longrightarrow> wp (f r) Q s'"
  shows "wp (State_Monad.bind (sys ops (waitpid_call ops pid untraced)) f) Q s"
  by (rule wp_follow [OF waitpid_rule [OF assms(1,2)]]) (auto simp: budget_def intro: assms(3,4))

lemma endsD: "ends n k ended m \<Longrightarrow> budget n k s \<Longrightarrow> wp m (\<lambda>r _. ended r) s"
  by (simp add: ends_def)

lemma reap_ends [ends_rules]:
  assumes "finite_events n ops" "k < fuel"
  shows "ends n k returned (reap ops fuel pid)"
  using assms(2)
proof (induction fuel arbitrary: k)
  case (Suc fuel)
  show ?case
    unfolding reap.simps ends_def
  proof (intro allI impI, rule step_waited [OF assms(1)], assumption)
    fix r k' and s' :: "'a driver"
    assume "k' < k" "budget n k' s'"
    moreover have "k' < fuel" using \<open>k' < k\<close> Suc.prems by simp
    ultimately show "wp (if r = Inl EINTR then reap ops fuel pid else State_Monad.return (Some ()))
        (\<lambda>r _. returned r) s'"
      by (intro wp_branch wp_done endsD [OF Suc.IH]) simp_all
  qed (simp add: wp_return)
qed simp

lemma reap_observer_ends [ends_rules]:
  assumes "finite_events n ops" "k < fuel"
  shows "ends n k returned (reap_observer ops fuel)"
  using assms(2)
proof (induction fuel arbitrary: k)
  case (Suc fuel)
  let ?rest = "\<lambda>r. case r of
       Inl e \<Rightarrow>
         if e = EINTR then reap_observer ops fuel else do {
         assign (\<lambda>s. s\<lparr>observer_pid := 0, observer_stopped := False\<rparr>);
         close_notices ops;
         State_Monad.return (Some False) }
     | Inr (waited, status) \<Rightarrow>
         (case status of
            Stopped _ \<Rightarrow> do {
              sys ops (kill_pid ops waited SIG_CONT);
              reap_observer ops fuel }
          | _ \<Rightarrow> do {
              ok \<leftarrow> observer_exit ops status;
              State_Monad.return (Some ok) })"
  have lost: "ends n k returned (do {
         assign (\<lambda>s. s\<lparr>observer_pid := 0, observer_stopped := False\<rparr>);
         close_notices ops;
         State_Monad.return (Some False) })" for k
    by (intro ends_bind ends_rules budget_rules assms) simp_all
  have gone: "ends n k returned (do {
         ok \<leftarrow> observer_exit ops status; State_Monad.return (Some ok) })" for k status
    by (intro ends_bind ends_rules budget_rules assms) simp_all
  have rest: "ends n k' returned (?rest r)" if "k' < k" for r k'
  proof -
    have again: "ends n k' returned (reap_observer ops fuel)"
      using Suc.prems that by (intro Suc.IH) simp
    have stopped: "ends n k' returned (do {
              sys ops (kill_pid ops waited SIG_CONT);
              reap_observer ops fuel })" for waited
      by (intro ends_bind again budget_rules spends_calls assms)
    show ?thesis
      using again lost stopped gone by (auto split: sum.split prod.split wait_status.split)
  qed
  show ?case
    unfolding reap_observer.simps ends_def
  proof (intro allI impI, rule step_globals, rule wp_branch)
    fix s assume "budget n k s"
    then show "wp (State_Monad.bind (sys ops (waitpid_call ops (observer_pid s) True)) ?rest)
        (\<lambda>r _. returned r) s"
      by (rule step_waited [OF assms(1)]) (use lost rest in \<open>simp_all add: ends_def\<close>)
  qed (rule wp_done, simp)
qed simp

text \<open>The owner stops again only for a stop that arrived meanwhile.\<close>

definition unstopped :: "('w \<Rightarrow> nat) \<Rightarrow> nat \<Rightarrow> 'w driver \<Rightarrow> bool" where
  "unstopped n k s \<longleftrightarrow> budget n k s \<and> (forwarded_stop s = 0 \<or> n (kernel s) < k)"

lemma unstopped_assign:
  "(\<And>s. kernel (f s) = kernel s \<and> (forwarded_stop (f s) = forwarded_stop s \<or> forwarded_stop (f s) = 0)) \<Longrightarrow>
   preserves (unstopped n k) (assign f)"
  by (rule preserves_assign) (metis unstopped_def budget_def)

lemma unstopped_kernel: "spends n m \<Longrightarrow> preserves (unstopped n k) (on_kernel m)"
  by (fastforce simp: preserves_def unstopped_def budget_def spends_def on_kernel_def wp_def
    split: prod.splits)

lemma unstopped_poll:
  assumes "finite_events n ops"
  shows "preserves (unstopped n k) (poll ops)"
  unfolding preserves_def poll_def wp_bind
proof (intro allI impI)
  fix s assume s: "unstopped n k s"
  have "wp (pending ops) (\<lambda>sigs w'. n w' \<le> n (kernel s) \<and> (sigs \<noteq> [] \<longrightarrow> n w' < n (kernel s))) (kernel s)"
    using assms by (simp add: finite_events_def)
  then have "wp (on_kernel (pending ops))
      (\<lambda>sigs s'. unstopped n k s' \<and> (sigs \<noteq> [] \<longrightarrow> n (kernel s') < k)) s"
    using s by (auto simp: on_kernel_def wp_def unstopped_def budget_def split: prod.splits)
  then show "wp (on_kernel (pending ops)) (\<lambda>sigs. wp (deliver ops sigs) (\<lambda>_. unstopped n k)) s"
  proof (rule wp_mono)
    fix sigs :: "int list" and s' :: "'a driver"
    assume s': "unstopped n k s' \<and> (sigs \<noteq> [] \<longrightarrow> n (kernel s') < k)"
    have "wp (deliver ops sigs) (\<lambda>_. budget n (n (kernel s'))) s'"
      by (rule preservesD [OF budget_deliver [OF assms]]) (simp add: budget_def)
    then show "wp (deliver ops sigs) (\<lambda>_. unstopped n k) s'"
      using s' by (cases sigs) (auto simp: wp_return unstopped_def budget_def intro: wp_mono)
  qed
qed

lemma unstopped_sys:
  "finite_events n ops \<Longrightarrow> spends n m \<Longrightarrow> preserves (unstopped n k) (sys ops m)"
  unfolding sys_def by (intro preserves_rules unstopped_kernel unstopped_poll)

lemma unstopped_block:
  assumes "finite_events n ops"
  shows "preserves (unstopped n k) (block_signals ops)"
  unfolding block_signals_def block_set_def
  by (intro preserves_rules unstopped_sys unstopped_assign budget_globals spends_calls assms) simp

lemma stop_owner_ends [ends_rules]:
  assumes "finite_events n ops" "k < fuel"
  shows "ends n k returned (stop_owner ops fuel)"
  using assms(2)
proof (induction fuel arbitrary: k)
  case (Suc fuel)
  have again: "wp (do { set_mask ops m; stop_owner ops fuel }) (\<lambda>r _. returned r) s"
    if "unstopped n k s" "forwarded_stop s \<noteq> 0" for m s
  proof -
    have less: "n (kernel s) < k" using that by (simp add: unstopped_def)
    have "ends n (n (kernel s)) returned (do { set_mask ops m; stop_owner ops fuel })"
      using Suc.prems less by (intro ends_bind budget_rules assms Suc.IH) simp
    then show ?thesis by (rule endsD) (simp add: budget_def)
  qed
  show ?case
    unfolding stop_owner.simps ends_def
  proof (intro allI impI, rule step_assign, rule step_globals,
      rule wp_follow [OF preservesD [OF unstopped_sys [OF assms(1) spends_calls(4) [OF assms(1)]]]],
      simp add: unstopped_def budget_def, rule step_assign,
      rule wp_follow [OF preservesD [OF unstopped_block [OF assms(1)]]],
      simp add: unstopped_def budget_def, rule end_case)
    fix m and s :: "'a driver"
    assume "unstopped n k s"
    then show "wp (do {
         s \<leftarrow> globals;
         if forwarded_stop s = 0 then State_Monad.return (Some (Some m)) else do {
         set_mask ops m;
         stop_owner ops fuel }}) (\<lambda>r _. returned r) s"
      using again by (intro step_globals wp_branch) (simp_all add: wp_return)
  qed (simp_all add: wp_return)
qed simp

lemma adopt_ends [ends_rules]:
  assumes "finite_events n ops" "k < fuel"
  shows "ends n k returned (adopt_observer ops fuel control notices observer)"
  unfolding adopt_observer_def
  by (intro ends_if ends_return ends_after [OF reap_ends] ends_bind preserves_rules budget_rules
      spends_calls assms) simp_all

lemma start_ends [ends_rules]:
  assumes "finite_events n ops" "k < fuel"
  shows "ends n k returned (start_observer ops fuel)"
  unfolding start_observer_def
  by (intro ends_rules ends_bind preserves_rules budget_rules spends_calls assms) simp_all

lemma close_observer_ends [ends_rules]:
  assumes "finite_events n ops" "k < fuel"
  shows "ends n k returned (close_observer ops fuel)"
  unfolding close_observer_def
  by (intro ends_rules ends_bind preserves_rules budget_rules spends_calls assms)

lemma restart_ends [ends_rules]:
  assumes "finite_events n ops" "k < fuel"
  shows "ends n k returned (restart_observer ops fuel)"
  unfolding restart_observer_def
  by (intro ends_after [OF start_ends] ends_rules ends_bind preserves_rules budget_rules spends_calls
      assms) simp_all

lemma suspend_ends [ends_rules]:
  assumes "finite_events n ops" "k < fuel"
  shows "ends n k returned (suspend_owner ops fuel sig forwarded)"
  unfolding suspend_owner_def
  by (intro ends_after [OF stop_owner_ends] ends_option ends_if ends_return ends_bind preserves_rules
      budget_rules spends_calls assms) simp_all

abbreviation settled :: "wait_progress \<Rightarrow> bool" where
  "settled r \<equiv> r \<noteq> Pending"

lemma restarted_ends:
  assumes "finite_events n ops" "k < fuel"
  shows "ends n k settled (do {
     r \<leftarrow> restart_observer ops fuel;
     State_Monad.return (case r of None \<Rightarrow> Pending | Some ok \<Rightarrow> if ok then Again else Failed) })"
  by (intro ends_after [OF restart_ends] budget_rules assms) (auto intro: ends_return)

lemma suspend_restart_ends [ends_rules]:
  assumes "finite_events n ops" "k < fuel"
  shows "ends n k settled (suspend_and_restart ops fuel sig forwarded)"
  unfolding suspend_and_restart_def
  by (intro ends_after [OF suspend_ends] ends_option ends_if ends_return restarted_ends budget_rules assms)
    simp_all

lemma wait_parts_end [ends_rules]:
  assumes "finite_events n ops" "k < fuel"
  shows "ends n k settled (wait_observer ops fuel status)"
    "ends n k settled (wait_stopped ops fuel sig)"
    "ends n k settled (wait_exited ops fuel status)"
proof -
  have exited: "ends n k settled (do {
          ok \<leftarrow> observer_exit ops status;
          if \<not> ok then State_Monad.return Failed else do {
          s \<leftarrow> globals;
          if observed_stop s then do {
            assign (\<lambda>s. s\<lparr>observed_stop := False\<rparr>);
            suspend_and_restart ops fuel SIG_TSTP False }
          else do {
            r \<leftarrow> restart_observer ops fuel;
            State_Monad.return (case r of None \<Rightarrow> Pending | Some ok \<Rightarrow> if ok then Again else Failed) }}})"
    by (intro restarted_ends ends_rules ends_bind preserves_rules budget_rules spends_calls assms) simp_all
  have stopped: "ends n k settled (do {
          assign (\<lambda>s. s\<lparr>observer_stopped := True\<rparr>);
          State_Monad.return Again })"
    by (intro ends_bind ends_return budget_rules) simp_all
  show "ends n k settled (wait_observer ops fuel status)"
    unfolding wait_observer_def using exited stopped by (cases status) simp_all
  show "ends n k settled (wait_stopped ops fuel sig)"
    unfolding wait_stopped_def
    by (intro ends_after [OF close_observer_ends] ends_rules ends_bind preserves_rules budget_rules
        spends_calls assms) simp_all
  show "ends n k settled (wait_exited ops fuel status)"
    unfolding wait_exited_def
    by (intro ends_bind [OF budget_terminal(1)] ends_after [OF close_observer_ends] budget_rules assms)
      (auto intro!: ends_return simp: exit_report_def split: wait_status.splits if_splits)
qed

text \<open>A pass that asks for another one has used up at least one event.\<close>

lemma wait_pass_ends:
  assumes "finite_events n ops" "budget n k s" "k \<le> fuel"
  shows "wp (wait_pass ops fuel) (\<lambda>r s'. settled r \<and> (r = Again \<longrightarrow> n (kernel s') < k)) s"
  unfolding wait_pass_def
proof (rule step_globals, rule step_waited [OF assms(1,2)])
  let ?Q = "\<lambda>r s'. settled r \<and> (r = Again \<longrightarrow> n (kernel s') < k)"
  let ?rest = "\<lambda>r. case r of
       Inl e \<Rightarrow> State_Monad.return (if e = EINTR then Again else Failed)
     | Inr (waited, status) \<Rightarrow> do {
         s \<leftarrow> globals;
         if waited = observer_pid s then wait_observer ops fuel status
         else if waited \<noteq> child_pid s then State_Monad.return Again
         else (case status of Stopped sig \<Rightarrow> wait_stopped ops fuel sig
               | _ \<Rightarrow> wait_exited ops fuel status) }"
  show "wp (?rest (Inl e)) ?Q s'" if "e \<noteq> EINTR" for e s'
    using that by (simp add: wp_return)
  fix r k' and s' :: "'a driver"
  assume k': "k' < k" "budget n k' s'"
  have part: "wp m ?Q s'" if "ends n k' settled m" "preserves (budget n k') m" for m
  proof (rule wp_mono)
    show "wp m (\<lambda>r s'. settled r \<and> budget n k' s') s'"
      unfolding wp_conj using endsD [OF that(1) k'(2)] preservesD [OF that(2) k'(2)] by simp
  qed (use k'(1) in \<open>auto simp: budget_def\<close>)
  have fuel: "k' < fuel" using k'(1) assms(3) by simp
  have parts: "wp (wait_observer ops fuel status) ?Q s'" "wp (wait_stopped ops fuel sig) ?Q s'"
    "wp (wait_exited ops fuel status) ?Q s'" for status sig
    by (intro part wait_parts_end budget_wait_parts assms(1) fuel)+
  have again: "?Q Again s'" using k' by (simp add: budget_def)
  show "wp (?rest r) ?Q s'"
    using parts again
    by (auto simp: wp_return wp_simps split: sum.split prod.split wait_status.split)
qed

lemma wait_loop_ends:
  assumes "finite_events n ops" "k < fuel"
  shows "ends n k settled (wait_loop ops fuel)"
  using assms(2)
proof (induction fuel arbitrary: k)
  case (Suc fuel)
  show ?case
    unfolding wait_loop.simps ends_def
  proof (intro allI impI)
    fix s assume s: "budget n k s"
    show "wp (State_Monad.bind (wait_pass ops fuel)
        (\<lambda>r. if r = Again then wait_loop ops fuel else State_Monad.return r)) (\<lambda>r _. settled r) s"
    proof (rule wp_follow [OF wait_pass_ends [OF assms(1) s]])
      fix r and s' :: "'a driver"
      assume r: "settled r \<and> (r = Again \<longrightarrow> n (kernel s') < k)"
      have "wp (wait_loop ops fuel) (\<lambda>r _. settled r) s'" if "r = Again"
      proof (rule endsD [OF Suc.IH [of "n (kernel s')"]])
        show "n (kernel s') < fuel" using that r Suc.prems by simp
      qed (simp add: budget_def)
      then show "wp (if r = Again then wait_loop ops fuel else State_Monad.return r)
          (\<lambda>r _. settled r) s'"
        using r by (simp add: wp_return)
    qed (use Suc.prems in simp)
  qed
qed simp

subsection \<open>The run returns\<close>

lemma budget_wait_loop [budget_rules]:
  assumes "finite_events n ops"
  shows "preserves (budget n k) (wait_loop ops fuel)"
proof (induction fuel)
  case (Suc fuel)
  have parts: "preserves (budget n k)
      (case status of Stopped sig \<Rightarrow> wait_stopped ops fuel sig | _ \<Rightarrow> wait_exited ops fuel status)" for status
    using budget_wait_parts [OF assms] by (cases status) simp_all
  show ?case
    unfolding wait_loop.simps wait_pass_def
    by (intro preserves_rules budget_rules spends_calls parts assms Suc)
qed (simp add: preserves_rules)

lemma budget_verify [budget_rules]:
  assumes "finite_events n ops"
  shows "preserves (budget n k) (verify_group ops child i)"
proof (induction i)
  case (Suc i)
  then show ?case
    unfolding verify_group.simps by (intro preserves_rules budget_rules spends_calls assms)
qed (simp add: preserves_rules)

lemma budget_send [budget_rules]:
  "finite_events n ops \<Longrightarrow> preserves (budget n k) (send_child_signal ops sig)"
  unfolding send_child_signal_def
  by (intro preserves_rules budget_rules spends_calls) (simp_all add: announce_def)

lemma budget_publish [budget_rules]:
  assumes "finite_events n ops"
  shows "preserves (budget n k) (publish_child ops fuel child)"
    "preserves (budget n k) (signals_set_pid ops fuel child)"
    "preserves (budget n k) (signals_wait ops fuel)" "preserves (budget n k) (signals_kill ops child)"
  unfolding publish_child_def signals_set_pid_def signals_wait_def signals_kill_def
  by (intro preserves_rules budget_rules spends_calls assms; simp)+

lemma budget_restore [budget_rules]:
  assumes "finite_events n ops"
  shows "preserves (budget n k) (restore_actions ops sigs)"
proof (induction sigs)
  case (Cons sig sigs)
  then show ?case
    unfolding restore_actions.simps restore_action_def
    by (intro preserves_rules budget_rules spends_calls assms) simp_all
qed (simp add: preserves_rules)

lemma budget_install [budget_rules]:
  assumes "finite_events n ops"
  shows "preserves (budget n k) (install_signals ops sigs inst)"
proof (induction sigs arbitrary: inst)
  case (Cons sig sigs)
  then show ?case
    unfolding install_signals.simps install_signal_def
    by (intro preserves_rules budget_rules spends_calls assms) simp_all
qed (simp add: preserves_rules)

lemma budget_begin [budget_rules]:
  assumes "finite_events n ops"
  shows "preserves (budget n k) (signals_begin ops)"
  unfolding signals_begin_def begin_terminal_def begin_install_def
  by (intro preserves_rules budget_rules spends_calls assms) (simp_all add: begin_reset_def)

lemma set_pid_ends [ends_rules]:
  assumes "finite_events n ops" "k < fuel"
  shows "ends n k returned (signals_set_pid ops fuel child)"
proof -
  have published: "ends n k returned (publish_child ops fuel child)"
    unfolding publish_child_def
    by (intro ends_bind [OF budget_assign] ends_after [OF start_ends] ends_option ends_if ends_return
        ends_bind preserves_rules budget_rules spends_calls assms) simp_all
  have chosen: "ends n k returned (if b then publish_child ops fuel child else State_Monad.return (Some False))" for b
    by (intro ends_if published ends_return) simp
  show ?thesis
    unfolding signals_set_pid_def
    by (intro ends_bind [OF budget_masks(2)] ends_option ends_return
        ends_after [OF chosen] ends_bind preserves_rules budget_rules assms) simp_all
qed

lemma wait_ends [ends_rules]:
  assumes "finite_events n ops" "k < fuel"
  shows "ends n k settled (signals_wait ops fuel)"
  unfolding signals_wait_def
  by (intro ends_bind budget_globals ends_if ends_return wait_loop_ends assms) simp

lemma finish_ends [ends_rules]:
  assumes "finite_events n ops" "k < fuel"
  shows "ends n k returned (signals_finish ops fuel)"
  unfolding signals_finish_def Let_def
  by (intro ends_bind [OF budget_masks(2)] ends_bind [OF budget_terminal(1)]
      ends_after [OF close_observer_ends] ends_option ends_return ends_bind preserves_rules budget_rules
      assms) simp_all

lemma ending_ends [ends_rules]:
  assumes "finite_events n ops" "k < fuel"
  shows "ends n k returned (run_ending ops fuel report)"
  unfolding ends_def
proof (intro allI impI)
  fix s assume "budget n k s"
  from endsD [OF finish_ends [OF assms] this]
  show "wp (run_ending ops fuel report) (\<lambda>r _. returned r) s"
    unfolding run_ending_def by (rule wp_follow) (simp add: wp_return)
qed

lemma run_ends:
  assumes "finite_events n ops" "spends n spawn" "\<And>pid. spends n (await pid)" "k < fuel"
  shows "ends n k returned (wait_run_process ops spawn await fuel)"
proof -
  have killed: "ends n k returned (do {
      signals_kill ops pid; sys ops (await pid); run_ending ops fuel (\<lambda>_. Not_Waited) })" for pid
    by (intro ends_bind ending_ends budget_rules assms)
  have waited: "ends n k returned (run_waited ops await fuel pid r)" if "settled r" for pid r
    unfolding run_waited_def
    using that killed ending_ends [OF assms(1,4)] by (cases r) (simp_all del: not_None_eq)
  have chosen: "ends n k settled (if ok then signals_wait ops fuel else State_Monad.return Failed)" for ok
    by (intro ends_if ends_return wait_ends assms) simp
  have started: "ends n k returned (run_started ops await fuel pid)" for pid
    unfolding run_started_def
    by (intro ends_after [OF set_pid_ends] ends_after [OF chosen] ends_option ends_return waited
        preserves_rules budget_rules assms) simp_all
  show ?thesis
    unfolding wait_run_process_def
    by (intro ends_bind ends_if ends_return ending_ends started budget_rules assms) simp
qed

text \<open>Recording the signals sent is not an event.\<close>

lemma wp_on_first: "wp (unlogged m) Q wl = wp m (\<lambda>r w. Q r (w, snd wl)) (fst wl)"
  by (cases wl) (simp add: unlogged_def wp_def split: prod.splits)

lemma wp_kill_logged:
  "wp (log_kill call pid sig) Q wl = wp (call pid sig) (\<lambda>r w. Q r (w, (pid, sig) # snd wl)) (fst wl)"
  by (cases wl) (simp add: log_kill_def wp_def split: prod.splits)

lemmas wp_logged = wp_on_first wp_kill_logged

lemma spends_unlogged: "spends n m \<Longrightarrow> spends (\<lambda>wl. n (fst wl)) (unlogged m)"
  by (simp add: spends_def wp_logged)

lemma finite_recorded:
  "finite_events n ops \<Longrightarrow> finite_events (\<lambda>wl. n (fst wl)) (record_kills ops)"
  by (simp add: finite_events_def spends_def record_kills_def wp_logged)

end
