(* ===== verification/Run_Signals_Terminal.thy ===== *)
theory Run_Signals_Terminal
  imports Run_Signals_Run
begin

text \<open>
  The terminal over a run. The calls on it are recorded; the record tells whether the driver still owes
  the terminal to its own group, because it has put the program's group in the foreground and has neither
  seen another group there since nor asked for its own. The functions of the session are gone through
  inside a locale for any kernel that keeps such a record.
\<close>

subsection \<open>Recording the terminal\<close>

datatype terminal_event = Looked int | Put int

definition log_event :: "('a \<Rightarrow> terminal_event) \<Rightarrow> ('w, 'a) state \<Rightarrow> ('w \<times> terminal_event list, 'a) state" where
  "log_event event m = State (\<lambda>(w, l). case run_state m w of (a, w') \<Rightarrow> (a, (w', event a # l)))"

definition record_terminal :: "'w posix_ops \<Rightarrow> ('w \<times> terminal_event list) posix_ops" where
  "record_terminal ops = \<lparr>
     pending = unlogged (pending ops),
     sigset_ok = (\<lambda>sigs. unlogged (sigset_ok ops sigs)),
     procmask_ok = unlogged (procmask_ok ops),
     sigaction_ok = (\<lambda>sig. unlogged (sigaction_ok ops sig)),
     kill_pid = (\<lambda>pid sig. unlogged (kill_pid ops pid sig)),
     write_notice = (\<lambda>fd b. unlogged (write_notice ops fd b)),
     read_notices = (\<lambda>fd. unlogged (read_notices ops fd)),
     read_control = (\<lambda>fd. unlogged (read_control ops fd)),
     getpgrp_call = unlogged (getpgrp_call ops),
     getpgid_call = (\<lambda>pid. unlogged (getpgid_call ops pid)),
     setpgid_call = (\<lambda>pid pgrp. unlogged (setpgid_call ops pid pgrp)),
     tcgetpgrp_call = (\<lambda>fd. log_event Looked (tcgetpgrp_call ops fd)),
     tcsetpgrp_call = (\<lambda>fd pgrp. log_event (\<lambda>_. Put pgrp) (tcsetpgrp_call ops fd pgrp)),
     open_tty = unlogged (open_tty ops),
     close_fd = (\<lambda>fd. unlogged (close_fd ops fd)),
     set_cloexec = (\<lambda>fd. unlogged (set_cloexec ops fd)),
     get_flags = (\<lambda>fd. unlogged (get_flags ops fd)),
     set_nonblock = (\<lambda>fd flags. unlogged (set_nonblock ops fd flags)),
     pipe_call = unlogged (pipe_call ops),
     fork_call = unlogged (fork_call ops),
     waitpid_call = (\<lambda>pid untraced. unlogged (waitpid_call ops pid untraced))\<rparr>"

text \<open>The last event first: the group \<open>c\<close> was put in the foreground, and it has not been seen out of it
  since, and the own group \<open>g\<close> was not put there.\<close>

fun owes_terminal :: "int \<Rightarrow> int \<Rightarrow> terminal_event list \<Rightarrow> bool" where
  "owes_terminal c g [] \<longleftrightarrow> False" |
  "owes_terminal c g (Looked a # l) \<longleftrightarrow> a = c \<and> owes_terminal c g l" |
  "owes_terminal c g (Put a # l) \<longleftrightarrow> a \<noteq> g \<and> (a = c \<or> owes_terminal c g l)"

subsection \<open>The functions of a session\<close>

definition undisturbed :: "('k \<Rightarrow> bool) \<Rightarrow> ('k, 'a) state \<Rightarrow> bool" where
  "undisturbed owed m \<longleftrightarrow> (\<forall>k. \<not> owed k \<longrightarrow> \<not> owed (snd (run_state m k)))"

named_theorems terminal_rules

locale terminal_calls =
  fixes ops :: "'k posix_ops" and owed :: "'k \<Rightarrow> bool" and c g :: int
  assumes calls: "undisturbed owed (pending ops)" "\<And>sigs. undisturbed owed (sigset_ok ops sigs)"
      "undisturbed owed (procmask_ok ops)" "\<And>sig. undisturbed owed (sigaction_ok ops sig)"
      "\<And>pid sig. undisturbed owed (kill_pid ops pid sig)" "\<And>fd b. undisturbed owed (write_notice ops fd b)"
      "undisturbed owed (getpgrp_call ops)" "\<And>pid. undisturbed owed (getpgid_call ops pid)"
      "\<And>pid pgrp. undisturbed owed (setpgid_call ops pid pgrp)" "undisturbed owed (open_tty ops)"
      "\<And>fd. undisturbed owed (close_fd ops fd)" "\<And>fd. undisturbed owed (set_cloexec ops fd)"
      "\<And>fd. undisturbed owed (get_flags ops fd)" "\<And>fd flags. undisturbed owed (set_nonblock ops fd flags)"
      "undisturbed owed (pipe_call ops)" "undisturbed owed (fork_call ops)"
      "\<And>pid untraced. undisturbed owed (waitpid_call ops pid untraced)"
      "\<And>fd. undisturbed owed (tcgetpgrp_call ops fd)"
      "\<And>fd p. p \<noteq> c \<or> p = g \<Longrightarrow> undisturbed owed (tcsetpgrp_call ops fd p)"
    and looked: "fst (run_state (tcgetpgrp_call ops fd) k) \<noteq> c \<Longrightarrow> \<not> owed (snd (run_state (tcgetpgrp_call ops fd) k))"
    and put_back: "\<not> owed (snd (run_state (tcsetpgrp_call ops fd g) k))"
begin

text \<open>\<open>F\<close> fixes what it wants of the child, the own group and the terminal; with \<open>b\<close> nothing is owed.\<close>

definition front :: "(int \<times> int \<times> int \<Rightarrow> bool) \<Rightarrow> bool \<Rightarrow> 'k driver \<Rightarrow> bool" where
  "front F b s \<longleftrightarrow> F (child_pid s, owner_group s, terminal_fd s) \<and> (b \<longrightarrow> \<not> owed (kernel s))"

lemma kernel_step [terminal_rules]:
  assumes "undisturbed owed m"
  shows "preserves (front F b) (on_kernel m)"
proof -
  have "\<not> owed (snd (run_state m k))" if "\<not> owed k" for k
    using assms that by (simp add: undisturbed_def)
  then show ?thesis
    by (simp add: preserves_def front_def on_kernel_def wp_run split: prod.split) (metis snd_conv)
qed

lemma kernel_any: "preserves (front F False) (on_kernel m)"
  by (auto simp: preserves_def front_def on_kernel_def wp_simps split: prod.splits)

lemma assign_step [terminal_rules]:
  "(\<And>s. child_pid (f s) = child_pid s \<and> owner_group (f s) = owner_group s
      \<and> terminal_fd (f s) = terminal_fd s \<and> kernel (f s) = kernel s) \<Longrightarrow> preserves (front F b) (assign f)"
  by (rule preserves_assign) (simp add: front_def)

lemma assign_free: "(\<And>s. kernel (f s) = kernel s) \<Longrightarrow> preserves (front (\<lambda>_. True) b) (assign f)"
  by (rule preserves_assign) (simp add: front_def)

lemmas start = preserves_globals preserves_rules calls

lemma handler [terminal_rules]: "preserves (front F b) (forward_signal ops sig)"
    "preserves (front F b) (send_child_signal ops sig)"
  unfolding forward_signal_def send_child_signal_def by (intro start terminal_rules; simp add: announce_def)+

lemma deliver [terminal_rules]: "preserves (front F b) (deliver ops sigs)"
  by (induction sigs) (auto intro!: start terminal_rules)

lemma poll [terminal_rules]: "preserves (front F b) (poll ops)"
  unfolding poll_def by (intro start terminal_rules)

lemma sys [terminal_rules]: "undisturbed owed m \<Longrightarrow> preserves (front F b) (sys ops m)"
  unfolding sys_def by (intro start terminal_rules)

lemma masks [terminal_rules]:
  "preserves (front F b) (block_set ops sigs)" "preserves (front F b) (block_signals ops)"
  "preserves (front F b) (set_mask ops m)" "preserves (front F b) (unblock ops sig)"
  unfolding block_signals_def block_set_def set_mask_def unblock_def by (intro start terminal_rules; simp)+

lemma actions [terminal_rules]:
  "preserves (front F b) (restore_actions ops sigs)" "preserves (front F b) (install_signals ops sigs list)"
proof -
  have "preserves (front F b) (restore_action ops sig)" for sig
    unfolding restore_action_def by (intro start terminal_rules; simp)
  then show "preserves (front F b) (restore_actions ops sigs)" by (induction sigs) (auto intro!: start terminal_rules)
  have "preserves (front F b) (install_signal ops sig)" for sig
    unfolding install_signal_def by (intro start terminal_rules; simp)
  then show "preserves (front F b) (install_signals ops sigs list)"
    by (induction sigs arbitrary: list) (auto intro!: start terminal_rules)
qed

lemma closes [terminal_rules]:
  "preserves (front F b) (close_pair ops fds)" "preserves (front F b) (cloexec_pair ops fds)"
  "preserves (front F b) (notice_pipe_ready ops fds)" "preserves (front F b) (close_if_open ops fd)"
  "preserves (front F b) (close_notices ops)" "preserves (front F b) (close_control ops)"
  unfolding close_pair_def cloexec_pair_def notice_pipe_ready_def close_if_open_def
    close_notices_def close_control_def
  by (intro start terminal_rules; simp)+

lemma reap [terminal_rules]: "preserves (front F b) (reap ops fuel pid)"
  by (induction fuel) (auto intro!: start terminal_rules)

lemma observer [terminal_rules]:
  "preserves (front F b) (adopt_observer ops fuel control notices observer)"
  "preserves (front F b) (start_observer ops fuel)" "preserves (front F b) (relay_interrupt ops sig)"
  "preserves (front F b) (observer_exit ops status)"
  unfolding start_observer_def adopt_observer_def observer_exit_def relay_interrupt_def
  by (intro start terminal_rules; simp)+

lemma reap_observer [terminal_rules]: "preserves (front F b) (reap_observer ops fuel)"
proof (induction fuel)
  case (Suc fuel)
  then show ?case unfolding reap_observer.simps by (intro start terminal_rules; simp)
qed (simp add: preserves_rules)

lemma close_observer [terminal_rules]: "preserves (front F b) (close_observer ops fuel)"
  unfolding close_observer_def by (intro start terminal_rules)

lemma verify [terminal_rules]: "preserves (front F b) (verify_group ops child n)"
proof (induction n)
  case (Suc n)
  then show ?case unfolding verify_group.simps by (intro start terminal_rules)
qed (simp add: preserves_rules)

lemma stop_owner [terminal_rules]: "preserves (front F b) (stop_owner ops fuel)"
proof (induction fuel)
  case (Suc fuel)
  then show ?case unfolding stop_owner.simps by (intro start terminal_rules; simp)
qed (simp add: preserves_rules)

lemma restart [terminal_rules]: "preserves (front F b) (restart_observer ops fuel)"
    "preserves (front F b) (signals_kill ops child)"
  unfolding restart_observer_def signals_kill_def by (intro start terminal_rules)+

text \<open>A session with the child \<open>child\<close> and the terminal \<open>tty\<close>: something is owed at most while the
  child is published and there is a terminal.\<close>

definition fixed :: "int \<Rightarrow> int \<Rightarrow> int \<times> int \<times> int \<Rightarrow> bool" where
  "fixed child tty v \<longleftrightarrow> v = (child, g, tty)"

definition untouched :: "int \<Rightarrow> int \<Rightarrow> bool" where
  "untouched child tty \<longleftrightarrow> child \<noteq> c \<or> tty < 0"

abbreviation running :: "int \<Rightarrow> int \<Rightarrow> 'k driver \<Rightarrow> bool" where
  "running child tty \<equiv> front (fixed child tty) (untouched child tty)"

lemma put_group:
  assumes "p = g \<or> p \<noteq> c \<or> \<not> b"
  shows "preserves (front F b) (set_foreground ops p)"
proof -
  have put: "preserves (front F b) (on_kernel (tcsetpgrp_call ops fd p))" for fd
    using kernel_any calls(19) assms by (cases b) (auto intro: kernel_step)
  show ?thesis unfolding set_foreground_def sys_def
    by (intro preserves_globals preserves_option preserves_bind preserves_return masks poll put)
qed

lemma run_terminal [terminal_rules]:
  "preserves (running child tty) (restore_terminal ops)"
  "preserves (running child tty) (foreground_child ops)"
proof -
  show "preserves (running child tty) (restore_terminal ops)"
    unfolding restore_terminal_def
    by (rule preserves_globals, intro start terminal_rules) (auto simp: front_def fixed_def untouched_def intro: put_group)
  show "preserves (running child tty) (foreground_child ops)"
    unfolding foreground_child_def
    by (rule preserves_globals, intro start terminal_rules) (auto simp: front_def fixed_def untouched_def intro: put_group)
qed

lemma suspend [terminal_rules]:
  "preserves (running child tty) (suspend_owner ops fuel sig forwarded)"
  "preserves (running child tty) (suspend_and_restart ops fuel sig forwarded)"
  unfolding suspend_and_restart_def suspend_owner_def by (intro start terminal_rules; simp)+

lemma wait_pass [terminal_rules]: "preserves (running child tty) (wait_pass ops fuel)"
proof -
  have "preserves (running child tty) (wait_observer ops fuel status)"
      "preserves (running child tty) (wait_stopped ops fuel sig)"
      "preserves (running child tty) (wait_exited ops fuel status)" for status sig
    unfolding wait_observer_def wait_stopped_def wait_exited_def
    by (intro start terminal_rules preserves_status; simp)+
  then show ?thesis unfolding wait_pass_def
    by (intro start terminal_rules) (auto split: wait_status.split)
qed

lemma wait [terminal_rules]: "preserves (running child tty) (signals_wait ops fuel)"
proof -
  have "preserves (running child tty) (wait_loop ops fuel)"
    by (induction fuel) (auto intro!: start terminal_rules wait_pass)
  then show ?thesis unfolding signals_wait_def by (intro start terminal_rules)
qed

lemma publish [terminal_rules]:
  "wp (publish_child ops fuel c) (\<lambda>_. running c tty) s" if "running 0 tty s" "c \<noteq> 0"
proof -
  have started: "running c tty (s\<lparr>child_pid := c\<rparr>)" using that by (simp add: front_def fixed_def untouched_def)
  show ?thesis unfolding publish_child_def
    by (rule step_assign, rule preservesD [where I = "running c tty", OF _ started]) (intro start terminal_rules)
qed

text \<open>Before the child is published, or after.\<close>

definition open_run :: "int \<Rightarrow> 'k driver \<Rightarrow> bool" where
  "open_run tty s \<longleftrightarrow> running 0 tty s \<or> running c tty s"

lemma open_preserves:
  assumes "\<And>child. preserves (running child tty) m"
  shows "preserves (open_run tty) m"
  unfolding preserves_def open_run_def
proof (intro allI impI, elim disjE)
  fix s
  show "wp m (\<lambda>_ s. running 0 tty s \<or> running c tty s) s" if "running 0 tty s"
    by (rule wp_mono [OF preservesD [OF assms that]]) blast
  show "wp m (\<lambda>_ s. running 0 tty s \<or> running c tty s) s" if "running c tty s"
    by (rule wp_mono [OF preservesD [OF assms that]]) blast
qed

lemma set_pid:
  assumes "0 < c" "running 0 tty s"
  shows "wp (signals_set_pid ops fuel c) (\<lambda>_. open_run tty) s"
  unfolding signals_set_pid_def
proof (rule wp_follow [OF preservesD [OF masks(2) assms(2)]], rule end_case)
  fix t m
  assume t: "running 0 tty t"
  show "wp (State_Monad.return (Some False)) (\<lambda>_. open_run tty) t"
    using t by (simp add: wp_simps open_run_def)
  have last: "wp (case r of None \<Rightarrow> State_Monad.return None | Some ok \<Rightarrow> do {
      set_mask ops m; State_Monad.return (Some ok) }) (\<lambda>_. open_run tty) u"
    if "open_run tty u" for u :: "'k driver" and r
    by (rule preservesD [OF open_preserves that]) (intro start terminal_rules)
  have verified: "wp (if c \<le> 0 then State_Monad.return False else verify_group ops c 2) (\<lambda>_. running 0 tty) t"
    by (rule preservesD [where I = "running 0 tty", OF _ t]) (intro start terminal_rules)
  have published: "wp (if v then publish_child ops fuel c else State_Monad.return (Some False)) (\<lambda>_. open_run tty) u"
    if "running 0 tty u" for u v
    using that assms(1)
    by (intro wp_branch wp_done wp_mono [OF publish [OF that]]) (simp_all add: open_run_def)
  show "wp (do {
     verified \<leftarrow> (if c \<le> 0 then State_Monad.return False else verify_group ops c 2);
     r \<leftarrow> (if verified then publish_child ops fuel c else State_Monad.return (Some False));
     case r of None \<Rightarrow> State_Monad.return None
     | Some ok \<Rightarrow> do {
     set_mask ops m;
     State_Monad.return (Some ok) }}) (\<lambda>_. open_run tty) t"
    by (rule wp_follow [OF verified], rule wp_follow [OF published], assumption, rule last)
qed

text \<open>Giving the terminal back: looking who has it, and asking for the own group if it is the child's.\<close>

lemma block_set_works:
  assumes "masks_work ops"
  shows "wp (block_set ops sigs) (\<lambda>r _. r \<noteq> None) s"
proof -
  have built: "wp (sys ops (sigset_ok ops sigs)) (\<lambda>ok _. ok) s" for sigs s
    by (rule result_sys) (use assms in \<open>simp add: masks_work_def\<close>)
  have ok: "wp (sys ops (procmask_ok ops)) (\<lambda>ok _. ok) s" for s
    by (rule result_sys) (use assms in \<open>simp add: masks_work_def\<close>)
  show ?thesis
    unfolding block_set_def
    by (rule wp_follow [OF built], rule wp_branch, simp,
        rule wp_follow [OF ok]) (simp add: wp_simps)
qed

lemma sys_settles:
  assumes "\<And>k. Q (fst (run_state m k)) \<longrightarrow> \<not> owed (snd (run_state m k))" "front F b s"
  shows "wp (sys ops m) (\<lambda>r. front F (Q r)) s"
  unfolding sys_def
proof (rule wp_follow [where P = "\<lambda>r. front F (Q r)"])
  show "wp (on_kernel m) (\<lambda>r. front F (Q r)) s"
    using assms(1) [of "kernel s"] assms(2) by (cases "run_state m (kernel s)") (simp add: on_kernel_def wp_simps front_def)
  fix r t
  assume "front F (Q r) t"
  then show "wp (do { poll ops; State_Monad.return r }) (\<lambda>r. front F (Q r)) t"
    by (intro wp_follow [OF preservesD [OF poll]] wp_done)
qed

lemma set_settles:
  assumes "masks_work ops" "front F b s"
  shows "wp (set_foreground ops g) (\<lambda>_. front F True) s"
  unfolding set_foreground_def
proof (rule wp_follow [where P = "\<lambda>r s'. r \<noteq> None \<and> front F b s'"])
  show "wp (block_set ops [SIG_TTOU]) (\<lambda>r s'. r \<noteq> None \<and> front F b s') s"
    using block_set_works [OF assms(1)] preservesD [OF masks(1) assms(2)] by (simp add: wp_conj)
  fix r :: "int set option" and t
  assume t: "r \<noteq> None \<and> front F b t"
  have put: "wp (sys ops (tcsetpgrp_call ops fd g)) (\<lambda>_. front F True) t" for fd
    by (rule sys_settles [where Q = "\<lambda>_. True"]) (use t put_back in auto)
  show "wp (case r of None \<Rightarrow> State_Monad.return False | Some m \<Rightarrow> do {
       s \<leftarrow> globals;
       ok \<leftarrow> sys ops (tcsetpgrp_call ops (terminal_fd s) g);
       set_mask ops m;
       State_Monad.return ok }) (\<lambda>_. front F True) t"
    using t
    by (auto intro!: step_globals wp_follow [OF put] wp_follow [OF preservesD [OF masks(3)]] wp_done)
qed

lemma restore_settles:
  assumes "masks_work ops" "running child tty s"
  shows "wp (restore_terminal ops) (\<lambda>_. front (fixed child tty) True) s"
proof (cases "child \<noteq> c \<or> tty < 0")
  case True
  then show ?thesis using preservesD [OF run_terminal(1) assms(2)] by (simp add: untouched_def)
next
  case False
  let ?F = "fixed child tty"
  have s: "child_pid s = c" "owner_group s = g" "terminal_fd s = tty"
    using assms(2) False by (simp_all add: front_def fixed_def)
  have look: "wp (sys ops (tcgetpgrp_call ops tty)) (\<lambda>r. front ?F (r \<noteq> c)) s"
    by (rule sys_settles) (use looked assms(2) in auto)
  show ?thesis unfolding restore_terminal_def
  proof (rule step_globals, rule wp_branch, goal_cases)
    case 2
    show ?case unfolding s
      by (rule wp_follow [OF look], rule wp_branch, rule wp_follow [OF set_settles [OF assms(1)]])
        (auto intro: wp_done)
  qed (use False s in simp)
qed

lemma finish_settles:
  assumes "masks_work ops" "running child tty s"
  shows "wp (signals_finish ops fuel) (\<lambda>r s'. r \<noteq> None \<longrightarrow> \<not> owed (kernel s')) s"
  unfolding signals_finish_def
proof (rule wp_follow [where P = "\<lambda>r s'. r \<noteq> None \<and> running child tty s'"])
  show "wp (block_signals ops) (\<lambda>r s'. r \<noteq> None \<and> running child tty s') s"
    using block_works [OF assms(1)] preservesD [OF masks(2) assms(2)] by (simp add: wp_conj)
  fix r :: "int set option" and t
  assume t: "r \<noteq> None \<and> running child tty t"
  let ?free = "\<lambda>r s'. r \<noteq> (None :: int option) \<longrightarrow> \<not> owed (kernel s')"
  have last: "wp (do {
     s \<leftarrow> globals;
     close_if_open ops (terminal_fd s);
     assign (\<lambda>s. s\<lparr>terminal_fd := - 1, child_pid := 0\<rparr>);
     s \<leftarrow> globals;
     let received = termination_signal s;
     restore_actions ops (rev forwarded_signals);
     set_mask ops m;
     State_Monad.return (Some received) }) ?free u" if "front F True u" for F m u
  proof -
    have "front (\<lambda>_. True) True u" using that by (simp add: front_def)
    then have "wp (do {
     s \<leftarrow> globals;
     close_if_open ops (terminal_fd s);
     assign (\<lambda>s. s\<lparr>terminal_fd := - 1, child_pid := 0\<rparr>);
     s \<leftarrow> globals;
     let received = termination_signal s;
     restore_actions ops (rev forwarded_signals);
     set_mask ops m;
     State_Monad.return (Some received) }) (\<lambda>_. front (\<lambda>_. True) True) u"
      by (rule preservesD [rotated])
        (intro preserves_globals preserves_bind preserves_let preserves_return assign_free terminal_rules; simp)
    then show ?thesis by (rule wp_mono) (simp add: front_def)
  qed
  show "wp (case r of None \<Rightarrow> State_Monad.return (Some (- 1))
     | Some m \<Rightarrow> do {
     restore_terminal ops;
     closed \<leftarrow> close_observer ops fuel;
     case closed of None \<Rightarrow> State_Monad.return None
     | Some _ \<Rightarrow> do {
     s \<leftarrow> globals;
     close_if_open ops (terminal_fd s);
     assign (\<lambda>s. s\<lparr>terminal_fd := - 1, child_pid := 0\<rparr>);
     s \<leftarrow> globals;
     let received = termination_signal s;
     restore_actions ops (rev forwarded_signals);
     set_mask ops m;
     State_Monad.return (Some received) }}) ?free t"
    using t
    by (intro end_case wp_follow [OF restore_settles [OF assms(1)]]
        wp_follow [OF preservesD [OF close_observer]] last wp_done) auto
qed

lemma begin_free: "preserves (front (\<lambda>_. True) True) (signals_begin ops)"
  unfolding signals_begin_def begin_terminal_def begin_install_def
  by (intro preserves_globals assign_free start terminal_rules; simp add: begin_reset_def)

lemma ending_settles:
  assumes "masks_work ops" "open_run tty s"
  shows "wp (run_ending ops fuel report) (\<lambda>r s'. r \<noteq> None \<longrightarrow> \<not> owed (kernel s')) s"
proof -
  have "wp (signals_finish ops fuel) (\<lambda>r s'. r \<noteq> None \<longrightarrow> \<not> owed (kernel s')) s"
    using assms finish_settles unfolding open_run_def by blast
  then show ?thesis unfolding run_ending_def by (rule wp_follow) (simp add: wp_return)
qed

lemma waited_settles:
  assumes "masks_work ops" "\<And>pid. undisturbed owed (await pid)" "open_run tty s"
  shows "wp (run_waited ops await fuel pid waited) (\<lambda>r s'. r \<noteq> None \<longrightarrow> \<not> owed (kernel s')) s"
proof -
  note ending = ending_settles [OF assms(1)]
  have killed: "wp (do { signals_kill ops pid; sys ops (await pid); run_ending ops fuel (\<lambda>_. Not_Waited) })
      (\<lambda>r s'. r \<noteq> None \<longrightarrow> \<not> owed (kernel s')) s"
    by (rule wp_follow [OF preservesD [OF open_preserves assms(3)]], rule restart,
      rule wp_follow [OF preservesD [OF open_preserves]], rule sys, rule assms(2), assumption, rule ending)
  show ?thesis unfolding run_waited_def
    using killed ending [OF assms(3)] by (cases waited) (simp_all add: wp_return)
qed

lemma started_settles:
  assumes "masks_work ops" "\<And>pid. undisturbed owed (await pid)" "0 < c" "running 0 tty s"
  shows "wp (run_started ops await fuel c) (\<lambda>r s'. r \<noteq> None \<longrightarrow> \<not> owed (kernel s')) s"
  unfolding run_started_def
proof (rule wp_follow [OF set_pid [OF assms(3,4)]], rule end_case)
  fix ok t
  assume t: "open_run tty t"
  have "wp (if ok then signals_wait ops fuel else State_Monad.return Failed) (\<lambda>_. open_run tty) t"
    by (rule preservesD [OF open_preserves t]) (intro start terminal_rules)
  then show "wp (do {
      waited \<leftarrow> (if ok then signals_wait ops fuel else State_Monad.return Failed);
      run_waited ops await fuel c waited }) (\<lambda>r s'. r \<noteq> None \<longrightarrow> \<not> owed (kernel s')) t"
    by (rule wp_follow) (rule waited_settles [OF assms(1,2)])
qed (simp add: wp_simps)

lemma spawned_settles:
  assumes "masks_work ops" "\<And>pid. undisturbed owed (await pid)" "undisturbed owed spawn"
    and "\<And>k. fst (run_state spawn k) = c" "front (fixed 0 tty) True s"
  shows "wp (do {
      pid \<leftarrow> sys ops spawn;
      if pid \<le> 0 then run_ending ops fuel (\<lambda>_. Not_Started) else run_started ops await fuel pid })
    (\<lambda>r s'. r \<noteq> None \<longrightarrow> \<not> owed (kernel s')) s"
proof (rule wp_follow [where P = "\<lambda>pid s'. pid = c \<and> front (fixed 0 tty) True s'"])
  have "wp (sys ops spawn) (\<lambda>r _. r = c) s"
    by (rule result_sys) (simp add: wp_run assms(4))
  then show "wp (sys ops spawn) (\<lambda>pid s'. pid = c \<and> front (fixed 0 tty) True s') s"
    using preservesD [OF sys [OF assms(3)] assms(5)] by (simp add: wp_conj)
  fix pid t
  assume t: "pid = c \<and> front (fixed 0 tty) True t"
  then have "running 0 tty t" by (simp add: front_def)
  then show "wp (if pid \<le> 0 then run_ending ops fuel (\<lambda>_. Not_Started) else run_started ops await fuel pid)
      (\<lambda>r s'. r \<noteq> None \<longrightarrow> \<not> owed (kernel s')) t"
    using t ending_settles [OF assms(1), of tty t] started_settles [OF assms(1,2)]
    by (auto simp: open_run_def intro!: wp_branch)
qed

end

subsection \<open>The record keeps the laws\<close>

lemma run_recorded:
  "run_state (unlogged m) k = (fst (run_state m (fst k)), (snd (run_state m (fst k)), snd k))"
  "run_state (log_kill call pid sig) q =
     (fst (run_state (call pid sig) (fst q)), (snd (run_state (call pid sig) (fst q)), (pid, sig) # snd q))"
  "run_state (log_event event n) t =
     (fst (run_state n (fst t)), (snd (run_state n (fst t)), event (fst (run_state n (fst t))) # snd t))"
  by (simp_all add: unlogged_def log_kill_def log_event_def split: prod.split)

lemma undisturbed_unlogged: "undisturbed (\<lambda>k. owes_terminal c g (snd k)) (unlogged m)"
  by (simp add: undisturbed_def run_recorded)

abbreviation terminal_log :: "(('w \<times> terminal_event list) \<times> (int \<times> int) list) driver \<Rightarrow> terminal_event list" where
  "terminal_log s \<equiv> snd (fst (kernel s))"

lemma undisturbed_outer:
  "undisturbed owed m \<Longrightarrow> undisturbed (\<lambda>k. owed (fst k)) (unlogged m)"
  "undisturbed owed (call pid sig) \<Longrightarrow> undisturbed (\<lambda>k. owed (fst k)) (log_kill call pid sig)"
  by (simp_all add: undisturbed_def run_recorded)

lemma undisturbed_terminal:
  "undisturbed (\<lambda>k. owes_terminal c g (snd k)) (log_event Looked m)"
  "p \<noteq> c \<or> p = g \<Longrightarrow> undisturbed (\<lambda>k. owes_terminal c g (snd k)) (log_event (\<lambda>_. Put p) n)"
  by (auto simp: undisturbed_def run_recorded)

interpretation recorded: terminal_calls "record_kills (record_terminal ops)"
  "\<lambda>k. owes_terminal c g (snd (fst k))" c g for ops c g
  by unfold_locales
    (simp_all add: record_kills_def record_terminal_def undisturbed_unlogged undisturbed_terminal run_recorded
      undisturbed_outer(1) [of "\<lambda>k. owes_terminal c g (snd k)"]
      undisturbed_outer(2) [of "\<lambda>k. owes_terminal c g (snd k)"])

subsection \<open>The run\<close>

lemma terminal_laws:
  "masks_work ops \<Longrightarrow> masks_work (record_terminal ops)"
  "sigactions_steady ops good \<Longrightarrow> sigactions_steady (record_terminal ops) good"
  "process_ids ops \<Longrightarrow> process_ids (record_terminal ops)"
  "(\<And>w. wp (getpgrp_call ops) (\<lambda>r _. r = g) w) \<Longrightarrow> wp (getpgrp_call (record_terminal ops)) (\<lambda>r _. r = g) wl"
  by (simp_all add: masks_work_def sigactions_steady_def process_ids_def record_terminal_def result_unlogged)

lemma run_gives_back:
  assumes "masks_work ops" "sigactions_steady ops good"
    and "\<And>w. wp (getpgrp_call ops) (\<lambda>r _. r = g) w" "\<And>w. wp spawn (\<lambda>r _. r = c) w"
    and "\<forall>x. disposition s x \<noteq> Forwarding" "0 < self_pid s" "terminal_log s = []"
  shows "wp (wait_run_process (record_kills (record_terminal ops)) (unlogged (unlogged spawn))
      (\<lambda>pid. unlogged (unlogged (await pid))) fuel)
    (\<lambda>r s'. r \<noteq> None \<longrightarrow> \<not> owes_terminal c g (terminal_log s')) s"
  unfolding wait_run_process_def
proof (rule wp_follow)
  let ?ops = "record_kills (record_terminal ops)"
  note laws = terminal_laws(1) [OF assms(1)] terminal_laws(2) [OF assms(2)] terminal_laws(4) [OF assms(3)]
  have free: "recorded.front c g (\<lambda>_. True) True s" using assms(7) by (simp add: recorded.front_def)
  show "wp (signals_begin ?ops) (\<lambda>begun s'. (begun \<longrightarrow> child_pid s' = 0 \<and> owner_group s' = g)
      \<and> recorded.front c g (\<lambda>_. True) True s') s"
    unfolding wp_conj
  proof
    show "wp (signals_begin ?ops) (\<lambda>begun s'. begun \<longrightarrow> child_pid s' = 0 \<and> owner_group s' = g) s"
      by (rule wp_mono [OF begin_rule [OF laws assms(5,6)]]) (auto simp: session_def split: if_splits)
    show "wp (signals_begin ?ops) (\<lambda>_. recorded.front c g (\<lambda>_. True) True) s"
      by (rule preservesD [OF recorded.begin_free free])
  qed
  fix begun and t :: "(('a \<times> terminal_event list) \<times> (int \<times> int) list) driver"
  assume t: "(begun \<longrightarrow> child_pid t = 0 \<and> owner_group t = g) \<and> recorded.front c g (\<lambda>_. True) True t"
  have outer: "undisturbed (\<lambda>k. owes_terminal c g (snd (fst k))) (unlogged (unlogged m))" for m :: "('a, 'b) state"
    by (simp add: undisturbed_def run_recorded)
  have result: "fst (run_state (unlogged (unlogged spawn)) k) = c" for k :: "('a \<times> terminal_event list) \<times> (int \<times> int) list"
    using assms(4) [of "fst (fst k)"] by (simp add: run_recorded wp_run)
  show "wp (if \<not> begun then State_Monad.return (Some Not_Installed) else do {
      pid \<leftarrow> sys ?ops (unlogged (unlogged spawn));
      if pid \<le> 0 then run_ending ?ops fuel (\<lambda>_. Not_Started)
      else run_started ?ops (\<lambda>pid. unlogged (unlogged (await pid))) fuel pid })
      (\<lambda>r s'. r \<noteq> None \<longrightarrow> \<not> owes_terminal c g (terminal_log s')) t"
  proof (rule wp_branch)
    assume "\<not> \<not> begun"
    with t have "recorded.front c g (recorded.fixed g 0 (terminal_fd t)) True t"
      by (simp add: recorded.front_def recorded.fixed_def)
    from recorded.spawned_settles [OF masks_work_calls(3) [OF laws(1)] _ outer result this]
    show "wp (do {
      pid \<leftarrow> sys ?ops (unlogged (unlogged spawn));
      if pid \<le> 0 then run_ending ?ops fuel (\<lambda>_. Not_Started)
      else run_started ?ops (\<lambda>pid. unlogged (unlogged (await pid))) fuel pid })
      (\<lambda>r s'. r \<noteq> None \<longrightarrow> \<not> owes_terminal c g (terminal_log s')) t"
      by (simp add: undisturbed_def run_recorded)
  qed (use t in \<open>simp add: wp_return recorded.front_def\<close>)
qed

end
