(* ===== verification/Run_Signals_Props.thy ===== *)
theory Run_Signals_Props
  imports Run_Signals_Live Run_Signals_Terminal
begin

text \<open>What the driver promises to the shell, to the program it runs and to the user at the terminal.\<close>

subsection \<open>The handler\<close>

definition swallowed :: "int \<Rightarrow> 'w driver \<Rightarrow> bool" where
  "swallowed sig s \<longleftrightarrow> is_stop sig \<and> bridging_stop s \<or> sig = bridging_interrupt s"

text \<open>What the handler remembers, and what it sends.\<close>

definition remembered :: "int \<Rightarrow> 'w driver \<Rightarrow> 'w driver" where
  "remembered sig s = s\<lparr>forwarded_stop := (if is_stop sig then sig else forwarded_stop s),
     received_signal := sig,
     termination_signal := (if sig = SIG_HUP \<or> sig = SIG_TERM then sig else termination_signal s)\<rparr>"

definition told :: "int \<Rightarrow> 'w driver \<Rightarrow> bool" where
  "told sig s \<longleftrightarrow> observer_pid s > 0 \<and> notice_write s \<ge> 0
     \<and> (sig = SIG_INT \<or> sig = SIG_QUIT \<or> sig = SIG_TSTP) \<and> \<not> announced sig s"

lemma kernel_unlogged:
  "(\<And>a w. Q a (s\<lparr>kernel := (w, sent s)\<rparr>)) \<Longrightarrow> wp (on_kernel (unlogged m)) Q s"
  by (cases "kernel s") (auto simp: on_kernel_def unlogged_def wp_def split: prod.splits)

lemma kernel_kill:
  "(\<And>a w. Q a (s\<lparr>kernel := (w, (pid, sig) # sent s)\<rparr>)) \<Longrightarrow>
   wp (on_kernel (kill_pid (record_kills ops) pid sig)) Q s"
  by (cases "kernel s") (auto simp: on_kernel_def log_kill_def record_kills_def wp_def split: prod.splits)

lemma kernel_notice:
  "(\<And>w. Q () (s\<lparr>kernel := (w, sent s)\<rparr>)) \<Longrightarrow> wp (on_kernel (write_notice (record_kills ops) fd b)) Q s"
  by (simp add: record_kills_def kernel_unlogged)

lemma kernel_same: "\<exists>w. s = s\<lparr>kernel := (w, sent s)\<rparr>"
  by (rule exI [where x = "fst (kernel s)"]) simp

lemma announce_sent [simp]: "sent (announce sig s) = sent s" "child_pid (announce sig s) = child_pid s"
  by (simp_all add: announce_def)

lemma remembered_sent [simp]:
  "sent (remembered sig s) = sent s" "child_pid (remembered sig s) = child_pid s"
  by (simp_all add: remembered_def)

text \<open>Telling the observer, when it is to be told, and the one signal to the group of the child.\<close>

lemma send_rule:
  "wp (send_child_signal (record_kills ops) sig) (\<lambda>_ s'. \<exists>w.
     s' = (if told sig s then announce sig s else s)
       \<lparr>kernel := (w, (if 0 < child_pid s then [(- child_pid s, sig)] else []) @ sent s)\<rparr>) s"
proof -
  have to_child: "wp (if 0 < child_pid s then do {
       on_kernel (kill_pid (record_kills ops) (- child_pid s) sig);
       State_Monad.return () } else State_Monad.return ())
     (\<lambda>_ s'. \<exists>w. s' = u\<lparr>kernel := (w, (if 0 < child_pid s then [(- child_pid s, sig)] else []) @ sent s)\<rparr>) t"
    if "t = u\<lparr>kernel := (w, sent s)\<rparr>" for t u w
    using that by (auto simp: wp_simps intro!: kernel_kill)
  have notice: "wp (if_then (told sig s) (do {
       assign (announce sig);
       on_kernel (write_notice (record_kills ops) (notice_write s) sig) }))
     (\<lambda>_ t. \<exists>w. t = (if told sig s then announce sig s else s)\<lparr>kernel := (w, sent s)\<rparr>) s"
    using kernel_same [of s] by (auto simp: wp_simps intro!: kernel_notice)
  show ?thesis
    unfolding send_child_signal_def
  proof (rule step_globals, fold told_def, rule wp_follow [OF notice])
    fix a t assume "\<exists>w. t = (if told sig s then announce sig s else s)\<lparr>kernel := (w, sent s)\<rparr>"
    then obtain w where "t = (if told sig s then announce sig s else s)\<lparr>kernel := (w, sent s)\<rparr>" ..
    then show "wp (if 0 < child_pid s then do {
         on_kernel (kill_pid (record_kills ops) (- child_pid s) sig);
         State_Monad.return () } else State_Monad.return ())
       (\<lambda>_ s'. \<exists>w. s' = (if told sig s then announce sig s else s)
         \<lparr>kernel := (w, (if 0 < child_pid s then [(- child_pid s, sig)] else []) @ sent s)\<rparr>) t"
      by (rule to_child)
  qed
qed

lemma remember_steps:
  "wp (if_then (is_stop sig) (assign (\<lambda>s. s\<lparr>forwarded_stop := sig\<rparr>)))
     (\<lambda>_. wp (assign (\<lambda>s. s\<lparr>received_signal := sig\<rparr>))
     (\<lambda>_. wp (if_then (sig = SIG_HUP \<or> sig = SIG_TERM) (assign (\<lambda>s. s\<lparr>termination_signal := sig\<rparr>)))
     (\<lambda>_. wp m Q))) s = wp m Q (remembered sig s)"
  by (cases "is_stop sig"; cases "sig = SIG_HUP \<or> sig = SIG_TERM")
    (simp_all only: wp_if_then wp_assign remembered_def if_True if_False, simp_all)

text \<open>The signal handler. In a forked child it stops or ends that process and touches nothing else.
  In the driver it swallows its own copy of a signal that is being relayed; any other signal it
  remembers, tells the observer of the first time, and sends once, to the group of the published
  child, and to nobody before a child is published.
\<close>

theorem handler_forwards:
  "wp (forward_signal (record_kills ops) sig) (\<lambda>r s'.
     if self_pid s \<noteq> owner_pid s then
       (\<exists>w. s' = s\<lparr>kernel := (w, (if is_stop sig then [(self_pid s, SIG_STOP)] else []) @ sent s)\<rparr>)
       \<and> r = (if is_stop sig then None else Some (128 + sig))
     else r = None \<and> (if swallowed sig s then s' = s
       else \<exists>w. s' = (if told sig s then announce sig (remembered sig s) else remembered sig s)
         \<lparr>kernel := (w, (if 0 < child_pid s then [(- child_pid s, sig)] else []) @ sent s)\<rparr>)) s"
  (is "wp _ ?Q s")
proof (cases "self_pid s = owner_pid s")
  case False
  then show ?thesis
    unfolding forward_signal_def using kernel_same [of s]
    by (auto simp: wp_simps intro!: kernel_kill)
next
  case True
  have told: "told sig (remembered sig s) = told sig s"
    by (simp add: told_def remembered_def announced_def)
  have sent: "wp (do { send_child_signal (record_kills ops) sig; State_Monad.return None }) ?Q
      (remembered sig s)" if "\<not> swallowed sig s"
    by (rule wp_follow [OF send_rule [of ops sig "remembered sig s"]])
      (use True that in \<open>auto simp: wp_return told split: if_splits\<close>)
  show ?thesis
  proof (cases "swallowed sig s")
    case swallow: True
    then show ?thesis
      unfolding forward_signal_def using True by (simp add: wp_bind wp_globals wp_return swallowed_def)
  next
    case False
    then show ?thesis
      unfolding forward_signal_def using True sent
      by (simp only: wp_bind wp_globals wp_if swallowed_def simp_thms if_False if_True remember_steps)
  qed
qed

subsection \<open>Relaying an interrupt\<close>

text \<open>The signals sent to the owner's own group, the last one first.\<close>

definition group_sends :: "int \<Rightarrow> ('w \<times> (int \<times> int) list) driver \<Rightarrow> (int \<times> int) list" where
  "group_sends g s = filter (\<lambda>k. fst k = - g) (sent s)"

definition relaying ::
    "int \<Rightarrow> (int \<times> int) list \<Rightarrow> ('w \<times> (int \<times> int) list) driver \<Rightarrow> bool" where
  "relaying g x s \<longleftrightarrow> owner_group s = g \<and> 0 < g \<and> child_pid s \<noteq> g \<and> 0 < owner_pid s
     \<and> self_pid s = owner_pid s \<and> group_sends g s = x"

named_theorems relay_rules

lemma relay_assign [relay_rules]:
  "(\<And>s. child_pid (f s) = child_pid s \<and> owner_group (f s) = owner_group s
    \<and> owner_pid (f s) = owner_pid s \<and> self_pid (f s) = self_pid s \<and> kernel (f s) = kernel s) \<Longrightarrow>
   preserves (relaying g x) (assign f)"
  by (rule preserves_assign) (simp add: relaying_def group_sends_def)

lemma relay_unlogged: "preserves (relaying g x) (on_kernel (unlogged m))"
  unfolding preserves_def
  by (auto intro!: kernel_unlogged simp: relaying_def group_sends_def)

lemma relay_kill [relay_rules]:
  assumes "\<And>s :: ('w \<times> (int \<times> int) list) driver. relaying g x s \<Longrightarrow> pid \<noteq> - g"
  shows "preserves (relaying g x) (on_kernel (kill_pid (record_kills (ops :: 'w posix_ops)) pid sig))"
  unfolding preserves_def
proof (intro allI impI)
  fix s :: "('w \<times> (int \<times> int) list) driver"
  assume s: "relaying g x s"
  have "pid \<noteq> - g" using assms [OF s] .
  then show "wp (on_kernel (kill_pid (record_kills ops) pid sig)) (\<lambda>_. relaying g x) s"
    using s by (intro kernel_kill) (simp add: relaying_def group_sends_def)
qed

lemma relay_calls [relay_rules]:
  "preserves (relaying g x) (on_kernel (pending (record_kills ops)))"
  "preserves (relaying g x) (on_kernel (sigset_ok (record_kills ops) sigs))"
  "preserves (relaying g x) (on_kernel (procmask_ok (record_kills ops)))"
  "preserves (relaying g x) (on_kernel (write_notice (record_kills ops) fd b))"
  "preserves (relaying g x) (on_kernel (close_fd (record_kills ops) fd))"
  by (simp_all add: record_kills_def relay_unlogged)

lemma relay_handler [relay_rules]:
  "preserves (relaying g x) (forward_signal (record_kills ops) sig)"
  unfolding forward_signal_def send_child_signal_def
  by (intro preserves_globals preserves_rules relay_rules)
    (auto simp: announce_def relaying_def)

lemma relay_deliver [relay_rules]:
  "preserves (relaying g x) (deliver (record_kills ops) sigs)"
  by (induction sigs) (auto intro!: preserves_globals preserves_rules relay_rules)

lemma relay_sys [relay_rules]:
  "preserves (relaying g x) (poll (record_kills ops))"
  "preserves (relaying g x) (on_kernel m) \<Longrightarrow> preserves (relaying g x) (sys (record_kills ops) m)"
  unfolding sys_def poll_def by (intro preserves_rules relay_rules)+

lemma relay_masks [relay_rules]:
  "preserves (relaying g x) (block_signals (record_kills ops))"
  "preserves (relaying g x) (set_mask (record_kills ops) m)"
  "preserves (relaying g x) (unblock (record_kills ops) sig)"
  unfolding block_signals_def block_set_def set_mask_def unblock_def
  by (intro preserves_globals preserves_rules relay_rules; simp)+

lemma relay_closes [relay_rules]:
  "preserves (relaying g x) (close_notices (record_kills ops))"
  "preserves (relaying g x) (close_control (record_kills ops))"
  unfolding close_notices_def close_control_def close_if_open_def
  by (intro preserves_globals preserves_rules relay_rules; simp)+

lemma relay_step:
  assumes "relaying g x s" "preserves (relaying g x) m"
    and "\<And>r s'. relaying g x s' \<Longrightarrow> wp (f r) Q s'"
  shows "wp (State_Monad.bind m f) Q s"
  by (rule wp_follow [OF preservesD [OF assms(2,1)]]) (rule assms(3))

text \<open>The one send of \<open>relay_interrupt\<close>, and handlers before and after it.\<close>

lemma relay_send:
  fixes ops :: "'w posix_ops"
  assumes "relaying g x s"
  shows "wp (sys (record_kills ops) (kill_pid (record_kills ops) (- owner_group s) sig))
    (\<lambda>_. relaying g ((- g, sig) # x)) s"
  unfolding sys_def
proof (rule wp_follow)
  show "wp (on_kernel (kill_pid (record_kills ops) (- owner_group s) sig))
      (\<lambda>_. relaying g ((- g, sig) # x)) s"
    using assms by (intro kernel_kill) (simp add: relaying_def group_sends_def)
  fix a :: "int + unit" and s' :: "('w \<times> (int \<times> int) list) driver"
  assume s': "relaying g ((- g, sig) # x) s'"
  show "wp (do { poll (record_kills ops); State_Monad.return a }) (\<lambda>_. relaying g ((- g, sig) # x)) s'"
    by (rule preservesD, intro preserves_rules relay_rules) (rule s')
qed

lemma relay_rule:
  assumes "masks_work ops" "relaying g x s"
  shows "wp (relay_interrupt (record_kills ops) sig) (\<lambda>ok s'. ok \<and> relaying g ((- g, sig) # x) s') s"
proof -
  have built: "wp (sys (record_kills ops) (sigset_ok (record_kills ops) [sig]))
      (\<lambda>ok s'. ok \<and> relaying g x s') s"
    unfolding wp_conj
  proof
    show "wp (sys (record_kills ops) (sigset_ok (record_kills ops) [sig])) (\<lambda>ok _. ok) s"
      by (rule result_sys) (rule masks_work_calls(2) [OF assms(1)])
    show "wp (sys (record_kills ops) (sigset_ok (record_kills ops) [sig])) (\<lambda>_. relaying g x) s"
      by (rule preservesD, intro relay_rules) (rule assms(2))
  qed
  have rest: "wp (do {
       unblock (record_kills ops) sig;
       assign (\<lambda>s. s\<lparr>bridging_interrupt := 0\<rparr>);
       State_Monad.return True }) (\<lambda>ok s'. ok \<and> relaying g y s') t" if t: "relaying g y t" for y t
    by (rule relay_step [OF t relay_masks(3)], rule step_assign, rule wp_done)
      (simp add: relaying_def group_sends_def)
  have bridged: "wp (do {
       s \<leftarrow> globals;
       sys (record_kills ops) (kill_pid (record_kills ops) (- owner_group s) sig);
       unblock (record_kills ops) sig;
       assign (\<lambda>s. s\<lparr>bridging_interrupt := 0\<rparr>);
       State_Monad.return True }) (\<lambda>ok s'. ok \<and> relaying g ((- g, sig) # x) s') t"
    if t: "relaying g x t" for t
    by (rule step_globals, rule wp_follow [OF relay_send [OF t]], rule rest)
  show ?thesis
    unfolding relay_interrupt_def
  proof (rule wp_follow [OF built], rule wp_branch)
    fix ok and t :: "('a \<times> (int \<times> int) list) driver"
    assume "ok \<and> relaying g x t"
    then have "relaying g x (t\<lparr>bridging_interrupt := sig\<rparr>)" by (simp add: relaying_def group_sends_def)
    from bridged [OF this] show "wp (do {
       assign (\<lambda>s. s\<lparr>bridging_interrupt := sig\<rparr>);
       s \<leftarrow> globals;
       sys (record_kills ops) (kill_pid (record_kills ops) (- owner_group s) sig);
       unblock (record_kills ops) sig;
       assign (\<lambda>s. s\<lparr>bridging_interrupt := 0\<rparr>);
       State_Monad.return True }) (\<lambda>ok s'. ok \<and> relaying g ((- g, sig) # x) s') t"
      by (rule step_assign)
  qed simp
qed

text \<open>When the observer has ended, its exit status decides what the driver tells its own pipeline. An
  interrupt or a quit that the terminal sent to the program alone is sent exactly once to the
  driver's group; one that the driver had forwarded itself, or any other status, is not sent at all,
  whatever signals arrive meanwhile. Only an observer that failed is reported.
\<close>

theorem interrupt_relayed_once:
  assumes "masks_work ops" "0 < owner_group s" "child_pid s \<noteq> owner_group s"
    and "0 < owner_pid s" "self_pid s = owner_pid s"
  shows "wp (observer_exit (record_kills ops) status) (\<lambda>ok s'.
     (ok \<longleftrightarrow> status \<noteq> Exited 125)
     \<and> group_sends (owner_group s) s' =
         (if observed_signal status = SIG_INT \<or> observed_signal status = SIG_QUIT
          then [(- owner_group s, observed_signal status)] else []) @ group_sends (owner_group s) s) s"
proof -
  define g where "g = owner_group s"
  define x where "x = group_sends g s"
  define sig where "sig = observed_signal status"
  let ?y = "(if sig = SIG_INT \<or> sig = SIG_QUIT then [(- g, sig)] else []) @ x"
  have start: "relaying g x s" using assms(2-5) by (simp add: relaying_def x_def g_def)
  have blocked: "wp (block_signals (record_kills ops)) (\<lambda>r s'. r \<noteq> None \<and> relaying g x s') s"
    unfolding wp_conj
    using block_works [OF masks_work_calls(3) [OF assms(1)]] preservesD [OF relay_masks(1) start] by simp
  have relayed: "wp (if sig = SIG_INT \<or> sig = SIG_QUIT then relay_interrupt (record_kills ops) sig
      else State_Monad.return True) (\<lambda>ok s'. ok \<and> relaying g ?y s') t" if "relaying g x t" for t
    using relay_rule [OF assms(1) that] that by (auto simp: wp_return)
  have ended: "wp (do { set_mask (record_kills ops) m; State_Monad.return (ok \<and> status \<noteq> Exited 125) })
      (\<lambda>ok s'. (ok \<longleftrightarrow> status \<noteq> Exited 125) \<and> group_sends g s' = ?y) t"
    if "ok \<and> relaying g ?y t" for t ok m
    by (rule relay_step [OF conjunct2 [OF that] relay_masks(2)], rule wp_done)
      (use that in \<open>simp add: relaying_def\<close>)
  have rest: "wp (do {
       assign (\<lambda>s. s\<lparr>observer_pid := 0, observer_stopped := False\<rparr>);
       close_control (record_kills ops);
       close_notices (record_kills ops);
       if_then (sig = SIG_TSTP) (assign (\<lambda>s. s\<lparr>observed_stop := True\<rparr>));
       relayed \<leftarrow> (if sig = SIG_INT \<or> sig = SIG_QUIT then relay_interrupt (record_kills ops) sig
                  else State_Monad.return True);
       set_mask (record_kills ops) m;
       State_Monad.return (relayed \<and> status \<noteq> Exited 125) })
     (\<lambda>ok s'. (ok \<longleftrightarrow> status \<noteq> Exited 125) \<and> group_sends g s' = ?y) t" if t: "relaying g x t" for m t
    by (rule relay_step [OF t], rule relay_assign, simp,
        rule relay_step, assumption, rule relay_closes, rule relay_step, assumption, rule relay_closes,
        rule relay_step, assumption, rule preserves_if_then, rule relay_assign, simp,
        rule wp_follow [OF relayed], assumption, rule ended)
  show ?thesis
    unfolding observer_exit_def Let_def g_def [symmetric] x_def [symmetric] sig_def [symmetric]
  proof (rule wp_follow [OF blocked])
    fix r :: "int set option" and t :: "('a \<times> (int \<times> int) list) driver"
    assume t: "r \<noteq> None \<and> relaying g x t"
    then obtain m where "r = Some m" by auto
    with rest [of t m] t show "wp (case r of None \<Rightarrow> State_Monad.return False
     | Some m \<Rightarrow> do {
         assign (\<lambda>s. s\<lparr>observer_pid := 0, observer_stopped := False\<rparr>);
         close_control (record_kills ops);
         close_notices (record_kills ops);
         if_then (sig = SIG_TSTP) (assign (\<lambda>s. s\<lparr>observed_stop := True\<rparr>));
         relayed \<leftarrow> (if sig = SIG_INT \<or> sig = SIG_QUIT then relay_interrupt (record_kills ops) sig
                    else State_Monad.return True);
         set_mask (record_kills ops) m;
         State_Monad.return (relayed \<and> status \<noteq> Exited 125) })
      (\<lambda>ok s'. (ok \<longleftrightarrow> status \<noteq> Exited 125) \<and> group_sends g s' = ?y) t"
      by (simp only: option.case)
  qed
qed

subsection \<open>The observer's verdict\<close>

text \<open>
  The notice pipe: \<open>q\<close> are the bytes in it, \<open>i\<close> the interruptions to come. \<^verbatim>\<open>read\<close> takes some of the
  bytes, and gives none or an error other than \<open>EINTR\<close> only when the pipe is empty.
\<close>

definition notice_pipe ::
    "('w, 'x) posix_ops_scheme \<Rightarrow> int \<Rightarrow> ('w \<Rightarrow> int list) \<Rightarrow> ('w \<Rightarrow> nat) \<Rightarrow> bool" where
  "notice_pipe ops fd q i \<longleftrightarrow> (\<forall>w. wp (read_notices ops fd) (\<lambda>r w'. case r of
       Inl e \<Rightarrow> if e = EINTR then q w' = q w \<and> i w' < i w else q w = []
     | Inr xs \<Rightarrow> if xs = [] then q w = [] else q w = xs @ q w' \<and> i w' \<le> i w) w)"

lemma drain_rule:
  assumes "notice_pipe ops fd q i"
  shows "notice_read s = fd \<Longrightarrow> length (q (kernel s)) + i (kernel s) < fuel \<Longrightarrow>
    wp (drain_notices ops fuel sig b) (\<lambda>r _. r = Some (b \<or> sig \<in> set (q (kernel s)))) s"
proof (induction fuel arbitrary: s b)
  case (Suc fuel)
  let ?Q = "\<lambda>r _. r = Some (b \<or> sig \<in> set (q (kernel s)))"
  obtain r w where run: "run_state (read_notices ops fd) (kernel s) = (r, w)" by fastforce
  have law: "case r of
       Inl e \<Rightarrow> if e = EINTR then q w = q (kernel s) \<and> i w < i (kernel s) else q (kernel s) = []
     | Inr xs \<Rightarrow> if xs = [] then q (kernel s) = []
         else q (kernel s) = xs @ q w \<and> i w \<le> i (kernel s)"
    by (rule wpD [OF assms [unfolded notice_pipe_def, rule_format] run])
  define t where "t = s\<lparr>kernel := w\<rparr>"
  have again: "wp (drain_notices ops fuel sig b') (\<lambda>r _. r = Some (b' \<or> sig \<in> set (q w))) t"
    if "length (q w) + i w < fuel" for b'
    using Suc.IH [of t b'] that Suc.prems(1) by (simp add: t_def)
  have "wp (case r of
       Inl e \<Rightarrow> if e = EINTR then drain_notices ops fuel sig b else State_Monad.return (Some b)
     | Inr notices \<Rightarrow>
         if notices = [] then State_Monad.return (Some b)
         else drain_notices ops fuel sig (b \<or> sig \<in> set notices)) ?Q t"
  proof (cases r)
    case (Inl e)
    then show ?thesis using law again Suc.prems(2) by (auto simp: wp_return split: if_splits)
  next
    case (Inr xs)
    show ?thesis
    proof (cases "xs = []")
      case False
      then have q: "q (kernel s) = xs @ q w" "i w \<le> i (kernel s)" using law Inr by simp_all
      have "length (q w) + i w < fuel"
        using q False Suc.prems(2) by (cases xs) simp_all
      from again [OF this, of "b \<or> sig \<in> set xs"] show ?thesis using Inr False q by simp
    qed (use law Inr in \<open>simp add: wp_return\<close>)
  qed
  then show ?case
    using Suc.prems(1) run by (simp add: wp_bind wp_globals on_kernel_def wp_State t_def)
qed simp

text \<open>C23: The observer ends with 64 plus the signal when the driver had announced that signal in the pipe,
  and with 128 plus the signal when it had not, which is the status the driver relays.
\<close>

theorem observer_classifies:
  assumes "notice_pipe ops (notice_read s) q i"
    and "length (q (kernel s)) + i (kernel s) < fuel"
  shows "wp (observer_interrupt ops fuel sig)
    (\<lambda>r _. r = Some ((if sig \<in> set (q (kernel s)) then 64 else 128) + sig)) s"
  unfolding observer_interrupt_def
  by (rule wp_follow [OF drain_rule [OF assms(1) refl assms(2)]]) (simp add: wp_return)

subsection \<open>The run\<close>

text \<open>C18: A run leaves no trace in the driver. Whatever the kernel answers and whenever signals arrive:
  when the run returns, on any path, every signal disposition and the signal mask are those of the
  start, no child is published and no descriptor of the terminal is kept. The terminal is not left to
  the program: if the driver has put the program's group in the foreground, it has afterwards either
  found another group there or asked for its own (whether the terminal obeys is the kernel's matter).
  Every signal that was sent went to a single process, to the driver's own group, or to the group of
  the process it started.
\<close>

theorem run_leaves_no_trace:
  assumes "masks_work ops" "sigactions_steady ops good" "process_ids ops"
    and "\<And>w. wp (getpgrp_call ops) (\<lambda>r _. r = g) w" "\<And>w. wp spawn (\<lambda>r _. r = c) w"
    and "\<forall>x. disposition s x \<noteq> Forwarding" "0 < self_pid s" "terminal_log s = []"
  shows "wp (wait_run_process (record_kills (record_terminal ops)) (unlogged (unlogged spawn))
      (\<lambda>pid. unlogged (unlogged (await pid))) fuel)
    (\<lambda>r s'. r \<noteq> None \<longrightarrow> disposition s' = disposition s \<and> sigmask s' = sigmask s
       \<and> child_pid s' = 0 \<and> terminal_fd s' = - 1
       \<and> \<not> owes_terminal c g (terminal_log s')
       \<and> (\<exists>new. sent s' = new @ sent s
            \<and> (\<forall>k \<in> set new. 0 < fst k \<or> fst k = - g \<or> 0 < c \<and> fst k = - c))) s"
proof (rule wp_mono)
  note laws = terminal_laws(1) [OF assms(1)] terminal_laws(2) [OF assms(2)] terminal_laws(3) [OF assms(3)]
    terminal_laws(4) [OF assms(4)]
  have spawned: "wp (unlogged spawn) (\<lambda>r _. r = c) w" for w :: "'a \<times> terminal_event list"
    by (simp add: result_unlogged assms(5))
  show "wp (wait_run_process (record_kills (record_terminal ops)) (unlogged (unlogged spawn))
      (\<lambda>pid. unlogged (unlogged (await pid))) fuel)
    (\<lambda>r s'. ((r \<noteq> None \<longrightarrow> session_over (disposition s) c g (sent s) s')
       \<and> (r \<noteq> None \<longrightarrow> sigmask s' = sigmask s))
       \<and> (r \<noteq> None \<longrightarrow> \<not> owes_terminal c g (terminal_log s'))) s"
    unfolding wp_conj
    using run_session [OF laws spawned assms(6,7)] run_mask [OF masks_work_calls(3) [OF laws(1)]]
      run_gives_back [OF assms(1,2,4-8)]
    by (simp add: given_back_def)
qed (simp add: session_over_def target_ok_def)

text \<open>C19: The run returns: with more fuel than there are events still to come, the whole of it ends with a
  result, through every nested loop that waits, reaps or stops.
\<close>

theorem run_returns:
  assumes "finite_events n ops" "spends n spawn" "\<And>pid. spends n (await pid)"
    and "n (kernel s) < fuel"
  shows "\<exists>r s'. run_state (wait_run_process ops spawn await fuel) s = (Some r, s')"
proof -
  have "wp (wait_run_process ops spawn await fuel) (\<lambda>r _. r \<noteq> None) s"
    by (rule endsD [OF run_ends [OF assms]]) (simp add: budget_def)
  then show ?thesis by (cases "run_state (wait_run_process ops spawn await fuel) s") (auto simp: wp_def)
qed

end
