(* ===== verification/Run_Signals_Demo.thy ===== *)
theory Run_Signals_Demo
  imports Run_Signals_Props
begin

text \<open>
  A small kernel on which the driver runs: a shell's group 7 with a terminal, the driver itself as
  process 6, the program as process 40 and the observer as process 30. The kernel has a script of
  what \<^verbatim>\<open>waitpid\<close> is to report, each report with the signals that arrive with it.
\<close>

record demo_kernel =
  arrived :: "int list"
  script :: "(int list \<times> (int \<times> wait_status) option) list"
  piped :: "int list"
  front :: int

definition demo_pending :: "(demo_kernel, int list) state" where
  "demo_pending = State (\<lambda>w. (arrived w, w\<lparr>arrived := []\<rparr>))"

definition demo_waitpid :: "(demo_kernel, int + int \<times> wait_status) state" where
  "demo_waitpid = State (\<lambda>w. case script w of
       [] \<Rightarrow> (Inl 10, w)
     | (sigs, report) # rest \<Rightarrow>
         (case report of None \<Rightarrow> Inl EINTR | Some (pid, status) \<Rightarrow> Inr (max 1 pid, status),
          w\<lparr>script := rest, arrived := arrived w @ sigs\<rparr>))"

definition demo_read :: "(demo_kernel, int + int list) state" where
  "demo_read = State (\<lambda>w. (Inr (take 2 (piped w)), w\<lparr>piped := drop 2 (piped w)\<rparr>))"

definition demo_ops :: "demo_kernel posix_ops" where
  "demo_ops = \<lparr>
     pending = demo_pending,
     sigset_ok = (\<lambda>_. State_Monad.return True),
     procmask_ok = State_Monad.return True,
     sigaction_ok = (\<lambda>sig. State_Monad.return (sig \<noteq> SIG_KILL \<and> sig \<noteq> SIG_STOP)),
     kill_pid = (\<lambda>_ _. State_Monad.return (Inr ())),
     write_notice = (\<lambda>_ b. State (\<lambda>w. ((), w\<lparr>piped := piped w @ [b]\<rparr>))),
     read_notices = (\<lambda>_. demo_read),
     read_control = (\<lambda>_. State_Monad.return (Inr 0)),
     getpgrp_call = State_Monad.return 7,
     getpgid_call = (\<lambda>_. State_Monad.return (Inr 40)),
     setpgid_call = (\<lambda>_ _. State_Monad.return (Inr ())),
     tcgetpgrp_call = (\<lambda>_. State (\<lambda>w. (front w, w))),
     tcsetpgrp_call = (\<lambda>_ pgrp. State (\<lambda>w. (True, w\<lparr>front := pgrp\<rparr>))),
     open_tty = State_Monad.return 5,
     close_fd = (\<lambda>_. State_Monad.return ()),
     set_cloexec = (\<lambda>_. State_Monad.return True),
     get_flags = (\<lambda>_. State_Monad.return 0),
     set_nonblock = (\<lambda>_ _. State_Monad.return True),
     pipe_call = State_Monad.return (Some (8, 9)),
     fork_call = State_Monad.return 30,
     waitpid_call = (\<lambda>_ _. demo_waitpid)\<rparr>"

definition demo_driver :: "'w \<Rightarrow> 'w driver" where
  "demo_driver w = \<lparr>kernel = w, self_pid = 6, sigmask = {}, disposition = (\<lambda>_. Other_Action 0),
     owner_pid = 0, child_pid = 0, received_signal = 0, termination_signal = 0, forwarded_stop = 0,
     bridging_stop = False, bridging_interrupt = 0, observer_pid = 0, forwarded_int = False,
     forwarded_quit = False, forwarded_tstp = False, observed_stop = False, observer_control = - 1,
     observer_stopped = False, notice_read = - 1, notice_write = - 1, owner_group = 0,
     terminal_fd = - 1, handoff_terminal = False, previous_action = (\<lambda>_. Other_Action 0)\<rparr>"

text \<open>
  The user presses ctrl-C at the terminal, which stops the observer first; a \<open>TERM\<close> for the driver
  arrives, and the program ends by it.
\<close>

definition demo_start :: demo_kernel where
  "demo_start = \<lparr>arrived = [], script = [([], None), ([], Some (30, Exited 130)), ([SIG_TERM], None),
     ([], Some (40, Signaled 15)), ([], Some (30, Exited 0))], piped = [], front = 7\<rparr>"

definition demo_events :: "demo_kernel \<Rightarrow> nat" where
  "demo_events w = length (arrived w) + (\<Sum>(sigs, _) \<leftarrow> script w. Suc (length sigs))"

abbreviation demo_spawn :: "(demo_kernel, int) state" where
  "demo_spawn \<equiv> State_Monad.return 40"

abbreviation demo_await :: "int \<Rightarrow> (demo_kernel, unit) state" where
  "demo_await \<equiv> \<lambda>_. State_Monad.return ()"

subsection \<open>The laws hold\<close>

lemma demo_masks: "masks_work demo_ops"
  by (simp add: masks_work_def demo_ops_def wp_return)

lemma demo_steady: "sigactions_steady demo_ops (\<lambda>sig. sig \<noteq> SIG_KILL \<and> sig \<noteq> SIG_STOP)"
  by (simp add: sigactions_steady_def demo_ops_def wp_return)

lemma demo_ids: "process_ids demo_ops"
  by (auto simp: process_ids_def demo_ops_def demo_waitpid_def wp_simps max_def
      split: list.split option.split)

lemma demo_finite: "finite_events demo_events demo_ops"
  by (auto simp: finite_events_def spends_def demo_ops_def demo_waitpid_def demo_pending_def
      demo_read_def demo_events_def wp_simps split: list.split option.split)

lemma demo_pipe: "notice_pipe demo_ops 8 piped (\<lambda>_. 0)"
  by (auto simp: notice_pipe_def demo_ops_def demo_read_def wp_simps)

subsection \<open>Witnesses\<close>

text \<open>With the signals sent recorded, the run of the script from the dispositions of a shell.\<close>

abbreviation demo_whole_run ::
    "nat \<Rightarrow> ((demo_kernel \<times> terminal_event list) \<times> (int \<times> int) list, run_result option) run" where
  "demo_whole_run \<equiv> wait_run_process (record_kills (record_terminal demo_ops)) (unlogged (unlogged demo_spawn))
     (\<lambda>pid. unlogged (unlogged (demo_await pid)))"

lemma terminal_finite:
  "finite_events n ops \<Longrightarrow> finite_events (\<lambda>wl. n (fst wl)) (record_terminal ops)"
  by (auto simp: finite_events_def spends_def record_terminal_def wp_logged wp_run run_recorded)

lemma demo_recorded_ends:
  "wp (demo_whole_run 10) (\<lambda>r _. r \<noteq> None) (demo_driver ((demo_start, []), []))"
  by (rule endsD [OF run_ends [OF finite_recorded [OF terminal_finite [OF demo_finite]], where k = 6]])
    (simp_all add: spends_def wp_logged wp_return budget_def demo_driver_def demo_start_def
      demo_events_def)

theorem run_leaves_no_trace_witness:
  "\<exists>r s'. run_state (demo_whole_run 10) (demo_driver ((demo_start, []), [])) = (Some r, s')
     \<and> disposition s' = (\<lambda>_. Other_Action 0) \<and> sigmask s' = {} \<and> child_pid s' = 0 \<and> terminal_fd s' = - 1
     \<and> \<not> owes_terminal 40 7 (terminal_log s')
     \<and> (\<forall>k \<in> set (sent s'). 0 < fst k \<or> fst k = - 7 \<or> fst k = - 40)"
proof -
  let ?s = "demo_driver ((demo_start, [] :: terminal_event list), [] :: (int \<times> int) list)"
  have "wp (demo_whole_run 10) (\<lambda>r s'. r \<noteq> None \<longrightarrow> disposition s' = disposition ?s
       \<and> sigmask s' = sigmask ?s \<and> child_pid s' = 0 \<and> terminal_fd s' = - 1
       \<and> \<not> owes_terminal 40 7 (terminal_log s')
       \<and> (\<exists>new. sent s' = new @ sent ?s
            \<and> (\<forall>k \<in> set new. 0 < fst k \<or> fst k = - 7 \<or> 0 < (40 :: int) \<and> fst k = - 40))) ?s"
    by (rule run_leaves_no_trace [OF demo_masks demo_steady demo_ids])
      (simp_all add: demo_ops_def demo_driver_def wp_return)
  with demo_recorded_ends show ?thesis
    by (cases "run_state (demo_whole_run 10) ?s") (auto simp: wp_def demo_driver_def)
qed

text \<open>On this kernel the driver does hand the terminal over, and owes it from then on until it gives it back.\<close>

lemma demo_hands_over:
  "(let s = (demo_driver ((demo_start, []), []))\<lparr>child_pid := 40, owner_group := 7, terminal_fd := 5, handoff_terminal := True\<rparr>;
        t = snd (run_state (foreground_child (record_kills (record_terminal demo_ops))) s);
        u = snd (run_state (restore_terminal (record_kills (record_terminal demo_ops))) t)
    in owes_terminal 40 7 (terminal_log t) \<and> front (fst (fst (kernel t))) = 40
       \<and> \<not> owes_terminal 40 7 (terminal_log u) \<and> front (fst (fst (kernel u))) = 7)"
  by code_simp

theorem run_returns_witness:
  "\<exists>r s'. run_state (wait_run_process demo_ops demo_spawn demo_await 10) (demo_driver demo_start)
     = (Some r, s')"
  by (rule run_returns [OF demo_finite])
    (simp_all add: spends_def wp_return demo_driver_def demo_start_def demo_events_def)

theorem observer_classifies_witness:
  "wp (observer_interrupt demo_ops 3 SIG_INT) (\<lambda>r _. r = Some 66)
     ((demo_driver (demo_start\<lparr>piped := [SIG_QUIT, SIG_INT]\<rparr>))\<lparr>notice_read := 8\<rparr>)"
  using observer_classifies [where s = "(demo_driver (demo_start\<lparr>piped := [SIG_QUIT, SIG_INT]\<rparr>))\<lparr>notice_read := 8\<rparr>"
      and q = piped and i = "\<lambda>_. 0" and fuel = 3 and sig = SIG_INT and ops = demo_ops] demo_pipe
  by (simp add: demo_driver_def)

theorem interrupt_relayed_once_witness:
  "wp (observer_exit (record_kills demo_ops) (Exited 130))
     (\<lambda>ok s'. ok \<and> group_sends 7 s' = [(- 7, SIG_INT)])
     ((demo_driver (demo_start, []))\<lparr>owner_pid := 6, owner_group := 7, child_pid := 40\<rparr>)"
  using interrupt_relayed_once [OF demo_masks, where status = "Exited 130"
      and s = "(demo_driver (demo_start, []))\<lparr>owner_pid := 6, owner_group := 7, child_pid := 40\<rparr>"]
  by (simp add: demo_driver_def observed_signal_def group_sends_def)

end
