(* ===== verification/Segfault.thy ===== *)
theory Segfault
  imports Host_Monad
begin

text \<open>
  \<^verbatim>\<open>vlib/builtin/segfault_handler_nix.h\<close>: the handler for \<^verbatim>\<open>SIGSEGV\<close> and \<^verbatim>\<open>SIGBUS\<close> of hosted Unix
  programs. It runs on an alternate stack, tells a stack overflow from other faults by the fault
  address, reports it with a backtrace along the frame pointers, and leaves other faults to whoever
  handled them before.

  Modelled is the Linux build on 64 bit words, with the pointer authentication of AArch64 as the
  argument \<open>arm\<close>. Memory maps the address of an aligned word to its contents, \<open>None\<close> where reading
  would fault again. The line that \<^verbatim>\<open>backtrace_symbols_fd\<close> prints for an address is the argument
  \<open>line\<close>; without that function it is \<open>hex_line\<close>.
\<close>

type_synonym memory = "u64 \<Rightarrow> u64 option"

definition SIGNAL_STACK_MAGIC :: u64 where "SIGNAL_STACK_MAGIC = 0x56534f56"
definition STACK_OVERFLOW_SLACK :: u64 where "STACK_OVERFLOW_SLACK = 256 * 1024"
definition STACK_OVERFLOW_MAX_LINES :: nat where "STACK_OVERFLOW_MAX_LINES = 48"

abbreviation (input) SIGBUS :: int where "SIGBUS \<equiv> 7"
abbreviation (input) SIGSEGV :: int where "SIGSEGV \<equiv> 11"

subsection \<open>Writing\<close>

text \<open>
  \<open>write_fd2\<close> is \<^verbatim>\<open>write\<close> on the standard error: an error number, or how many characters went out.
  The retry loop over \<open>EINTR\<close> and short writes has fuel.
\<close>

fun v_segfault_write ::
    "(string \<Rightarrow> ('w, int + nat) state) \<Rightarrow> nat \<Rightarrow> string \<Rightarrow> ('w, unit option) state" where
  "v_segfault_write write_fd2 0 s = State_Monad.return None" |
  "v_segfault_write write_fd2 (Suc fuel) s =
     (if s = [] then State_Monad.return (Some ()) else do {
        written \<leftarrow> write_fd2 s;
        case written of
          Inl e \<Rightarrow> if e = 4 then v_segfault_write write_fd2 fuel s else State_Monad.return (Some ())
        | Inr n \<Rightarrow> if n = 0 then State_Monad.return (Some ())
                  else v_segfault_write write_fd2 fuel (drop n s) })"

definition newline :: string where "newline = [char_of (10 :: nat)]"

definition digit_char :: "nat \<Rightarrow> char" where
  "digit_char d = char_of (if d < 10 then 48 + d else 97 + d - 10)"

text \<open>
  The digits of \<open>v_segfault_write_uint\<close>, written from the end of a buffer of 32 characters; the
  second argument counts the places in front of those written.
\<close>

fun uint_loop :: "u64 \<Rightarrow> u64 \<Rightarrow> nat \<Rightarrow> string \<Rightarrow> string" where
  "uint_loop value base 0 written = written" |
  "uint_loop value base (Suc i) written =
     (let written = digit_char (unat (value mod base)) # written; value = value div base
      in if value \<noteq> 0 then uint_loop value base i written else written)"

definition uint_text :: "u64 \<Rightarrow> u64 \<Rightarrow> string" where
  "uint_text value base = uint_loop value base 32 []"

subsection \<open>The alternate stack\<close>

record sigstack =
  on_stack :: bool
  disabled :: bool
  ss_sp :: u64
  ss_size :: u64

text \<open>The outer \<open>None\<close> is a fault on reading, the inner one the result 0.\<close>

definition v_signal_stack_bounds :: "memory \<Rightarrow> sigstack option \<Rightarrow> (u64 \<times> u64) option option" where
  "v_signal_stack_bounds mem queried = (case queried of
       None \<Rightarrow> Some None
     | Some ss \<Rightarrow>
         if \<not> on_stack ss \<or> ss_sp ss = 0 \<or> ss_size ss < 32 then Some None
         else case (mem (ss_sp ss), mem (ss_sp ss + 8), mem (ss_sp ss + 16)) of
           (Some magic, Some low, Some high) \<Rightarrow>
             if magic \<noteq> SIGNAL_STACK_MAGIC \<or> high = 0 then Some None else Some (Some (low, high))
         | _ \<Rightarrow> None)"

definition lowest_address :: "u64 \<Rightarrow> u64" where
  "lowest_address low = (if low > STACK_OVERFLOW_SLACK then low - STACK_OVERFLOW_SLACK else 0)"

text \<open>\<open>info\<close> is the pair of \<^verbatim>\<open>si_code\<close> and \<^verbatim>\<open>si_addr\<close>, or \<open>None\<close> for a null pointer.\<close>

definition v_segfault_is_stack_overflow ::
    "memory \<Rightarrow> sigstack option \<Rightarrow> (int \<times> u64) option \<Rightarrow> bool option" where
  "v_segfault_is_stack_overflow mem queried info = (case info of
       None \<Rightarrow> Some False
     | Some (code, addr) \<Rightarrow>
         if code \<le> 0 then Some False
         else case v_signal_stack_bounds mem queried of
           None \<Rightarrow> None
         | Some None \<Rightarrow> Some False
         | Some (Some (low, high)) \<Rightarrow>
             Some (low \<noteq> 0 \<and> lowest_address low \<le> addr \<and> addr < high))"

subsection \<open>The backtrace\<close>

definition v_segfault_code_address :: "bool \<Rightarrow> u64 \<Rightarrow> u64" where
  "v_segfault_code_address arm addr = (if arm then addr AND 0x0000ffffffffffff else addr)"

record walk =
  frame_ptr :: u64
  current :: u64
  repeats :: u64
  frames :: "u64 list"
  line_count :: nat
  outputs :: "string list"

datatype walk_result = Running | Fault | Overrun | Walked "string list"

definition hex_line :: "u64 \<Rightarrow> string" where
  "hex_line addr = ''0x'' @ uint_text addr 16 @ newline"

definition v_segfault_flush_frames :: "(u64 \<Rightarrow> string) \<Rightarrow> walk \<Rightarrow> walk" where
  "v_segfault_flush_frames line s = s\<lparr>outputs := outputs s @ map line (frames s), frames := []\<rparr>"

text \<open>Reading the next frame record: the next code address, 0 at the end, and frame pointer.\<close>

definition next_frame :: "bool \<Rightarrow> memory \<Rightarrow> u64 \<Rightarrow> u64 \<Rightarrow> u64 \<Rightarrow> (u64 \<times> u64) option" where
  "next_frame arm mem lowest high fp =
     (if lowest \<le> fp \<and> fp \<le> high - 16 \<and> fp mod 8 = 0 then
        case (mem fp, mem (fp + 8)) of
          (Some next_fp, Some return_address) \<Rightarrow>
            Some (v_segfault_code_address arm return_address, if fp < next_fp then next_fp else 0)
        | _ \<Rightarrow> None
      else Some (0, fp))"

text \<open>Recording the current frame; \<open>None\<close> is a write behind the end of the array.\<close>

definition record_frame :: "(u64 \<Rightarrow> string) \<Rightarrow> walk \<Rightarrow> walk option" where
  "record_frame line s =
     (if length (frames s) \<ge> STACK_OVERFLOW_MAX_LINES then None else
      let s = s\<lparr>frames := frames s @ [current s], line_count := line_count s + 1\<rparr>;
          s = (if repeats s > 0 \<or> length (frames s) = STACK_OVERFLOW_MAX_LINES
               then v_segfault_flush_frames line s else s)
      in Some (if repeats s > 0
        then s\<lparr>outputs := outputs s @
            [''    ... the frame above repeats '', uint_text (repeats s) 10, '' more times'' @ newline],
            line_count := line_count s + 1\<rparr>
        else s))"

fun backtrace_loop ::
    "bool \<Rightarrow> memory \<Rightarrow> (u64 \<Rightarrow> string) \<Rightarrow> u64 \<Rightarrow> u64 \<Rightarrow> nat \<Rightarrow> walk \<Rightarrow> walk_result" where
  "backtrace_loop arm mem line lowest high 0 s = Running" |
  "backtrace_loop arm mem line lowest high (Suc fuel) s =
     (case next_frame arm mem lowest high (frame_ptr s) of
        None \<Rightarrow> Fault
      | Some (next, fp) \<Rightarrow>
          let s = s\<lparr>frame_ptr := fp\<rparr> in
          if next \<noteq> 0 \<and> next = current s
          then backtrace_loop arm mem line lowest high fuel (s\<lparr>repeats := repeats s + 1\<rparr>)
          else case (if current s \<noteq> 0 then record_frame line s else Some s) of
            None \<Rightarrow> Overrun
          | Some s \<Rightarrow>
              if next = 0 then Walked (outputs (v_segfault_flush_frames line s))
              else if line_count s \<ge> STACK_OVERFLOW_MAX_LINES
              then Walked (outputs (v_segfault_flush_frames line s) @
                [''    ... more frames omitted'' @ newline])
              else backtrace_loop arm mem line lowest high fuel (s\<lparr>current := next, repeats := 0\<rparr>))"

text \<open>\<open>context\<close> has the program counter and the frame pointer of the interrupted thread.\<close>

definition v_stack_overflow_backtrace ::
    "bool \<Rightarrow> memory \<Rightarrow> (u64 \<Rightarrow> string) \<Rightarrow> nat \<Rightarrow> (u64 \<times> u64) option \<Rightarrow> u64 \<Rightarrow> u64 \<Rightarrow> walk_result" where
  "v_stack_overflow_backtrace arm mem line fuel interrupted low high = (case interrupted of
       None \<Rightarrow> Walked []
     | Some (pc, fp) \<Rightarrow>
         backtrace_loop arm mem line (lowest_address low) high fuel
           \<lparr>frame_ptr = fp, current = v_segfault_code_address arm pc, repeats = 0, frames = [],
            line_count = 0, outputs = []\<rparr>)"

subsection \<open>The handler\<close>

datatype disposition = Default | Ignore | Handler nat | Vs_handler

record sigaction =
  sa_handler :: disposition
  sa_siginfo :: bool
  sa_onstack :: bool
  sa_resethand :: bool
  sa_nodefer :: bool
  sa_restart :: bool
  sa_mask :: "int set"

record segv =
  previous :: "nat \<Rightarrow> sigaction"
  consumed :: "nat \<Rightarrow> bool"
  has_fallback :: bool

datatype effect = Wrote string | Called_previous disposition bool int | Called_fallback int
  | Defaulted int | Raised int | Exited int

definition previous_index :: "int \<Rightarrow> nat" where
  "previous_index sig = (if sig = SIGBUS then 1 else 0)"

text \<open>An atomic exchange: whether the flag was clear.\<close>

definition v_segfault_consume_previous :: "nat \<Rightarrow> segv \<Rightarrow> bool \<times> segv" where
  "v_segfault_consume_previous i s = (\<not> consumed s i, s\<lparr>consumed := (consumed s)(i := True)\<rparr>)"

definition overflow_report ::
    "bool \<Rightarrow> memory \<Rightarrow> (u64 \<Rightarrow> string) \<Rightarrow> nat \<Rightarrow> sigstack option \<Rightarrow> (u64 \<times> u64) option \<Rightarrow> walk_result" where
  "overflow_report arm mem line fuel queried interrupted = (case v_signal_stack_bounds mem queried of
       None \<Rightarrow> Fault
     | Some None \<Rightarrow> Walked []
     | Some (Some (low, high)) \<Rightarrow> v_stack_overflow_backtrace arm mem line fuel interrupted low high)"

text \<open>What happens to every other fault. The handler the process had before sees it first.\<close>

definition forward_fault :: "int \<Rightarrow> segv \<Rightarrow> effect list \<times> segv" where
  "forward_fault sig s =
     (let i = previous_index sig;
          p = previous s i;
          (runs, s) = (if sa_handler p \<noteq> Default \<and> sa_handler p \<noteq> Ignore then
              (if sa_resethand p then v_segfault_consume_previous i s else (True, s))
            else (False, s))
      in if runs then ([Called_previous (sa_handler p) (sa_siginfo p) sig], s)
      else ((if sig = SIGSEGV \<and> has_fallback s then [Called_fallback sig] else [])
        @ [Defaulted sig, Raised sig], s))"

text \<open>\<open>None\<close>: the handler itself faults, or has not ended within the fuel.\<close>

definition v_segfault_signal_handler ::
    "bool \<Rightarrow> memory \<Rightarrow> (u64 \<Rightarrow> string) \<Rightarrow> nat \<Rightarrow> sigstack option \<Rightarrow> int \<Rightarrow> (int \<times> u64) option \<Rightarrow>
     (u64 \<times> u64) option \<Rightarrow> segv \<Rightarrow> (effect list \<times> segv) option" where
  "v_segfault_signal_handler arm mem line fuel queried sig info interrupted s =
     (case v_segfault_is_stack_overflow mem queried info of
        None \<Rightarrow> None
      | Some True \<Rightarrow>
          (case overflow_report arm mem line fuel queried interrupted of
             Walked outs \<Rightarrow> Some (map Wrote ((''V panic: stack overflow'' @ newline) # outs) @ [Exited (128 + sig)], s)
           | _ \<Rightarrow> None)
      | Some False \<Rightarrow> Some (forward_fault sig s))"

subsection \<open>Installation\<close>

text \<open>What the calls answer: \<open>stack_limit\<close> is \<open>None\<close> without a finite limit.\<close>

record install_calls =
  query_ok :: "int \<Rightarrow> bool"
  query_stack :: "sigstack option"
  minimal_stack :: int
  mapped_base :: "u64 option"
  stack_set_ok :: bool
  stack_limit :: "u64 option"
  marker_address :: u64
  main_argv :: u64

record host =
  actions :: "int \<Rightarrow> sigaction"
  alternate :: "sigstack option"
  memory_words :: memory
  segv_state :: segv

definition v_signal_stack_size :: "install_calls \<Rightarrow> u64" where
  "v_signal_stack_size calls =
     (let normal = 64 * 1024
      in if minimal_stack calls > 0 \<and> word_of_int (minimal_stack calls) + 32 * 1024 > (normal :: u64)
         then word_of_int (minimal_stack calls) + 32 * 1024 else normal)"

text \<open>The four words at the base of the mapping.\<close>

definition put_header :: "u64 \<Rightarrow> u64 \<Rightarrow> u64 \<Rightarrow> u64 \<Rightarrow> memory \<Rightarrow> memory" where
  "put_header base low high bytes mem =
     mem(base \<mapsto> SIGNAL_STACK_MAGIC, base + 8 \<mapsto> low, base + 16 \<mapsto> high, base + 24 \<mapsto> bytes)"

definition v_signal_stack_register :: "install_calls \<Rightarrow> u64 \<Rightarrow> u64 \<Rightarrow> host \<Rightarrow> host" where
  "v_signal_stack_register calls low high h = (case query_stack calls of
       None \<Rightarrow> h
     | Some old \<Rightarrow>
         if \<not> disabled old then h
         else case mapped_base calls of
           None \<Rightarrow> h
         | Some base \<Rightarrow>
             let stack_size = v_signal_stack_size calls
             in if stack_set_ok calls
                then h\<lparr>memory_words := put_header base low high stack_size (memory_words h),
                  alternate := Some \<lparr>on_stack = False, disabled = False, ss_sp = base, ss_size = stack_size\<rparr>\<rparr>
                else h)"

definition zero_action :: sigaction where
  "zero_action = \<lparr>sa_handler = Default, sa_siginfo = False, sa_onstack = False, sa_resethand = False,
     sa_nodefer = False, sa_restart = False, sa_mask = {}\<rparr>"

definition v_segfault_save_previous :: "install_calls \<Rightarrow> int \<Rightarrow> host \<Rightarrow> bool \<times> host" where
  "v_segfault_save_previous calls sig h =
     (let found = (if query_ok calls sig then actions h sig else zero_action)
      in (query_ok calls sig \<and> sa_handler found \<noteq> Ignore,
        h\<lparr>segv_state := (segv_state h)
          \<lparr>previous := (previous (segv_state h))(previous_index sig := found)\<rparr>\<rparr>))"

definition v_segfault_install_signal :: "int \<Rightarrow> host \<Rightarrow> host" where
  "v_segfault_install_signal sig h =
     (let p = previous (segv_state h) (previous_index sig)
      in h\<lparr>actions := (actions h)(sig := \<lparr>sa_handler = Vs_handler, sa_siginfo = True, sa_onstack = True,
          sa_resethand = False, sa_nodefer = sa_nodefer p, sa_restart = sa_restart p,
          sa_mask = sa_mask p\<rparr>)\<rparr>)"

text \<open>The estimate of the bounds of the main stack; the lower one is 0 without a finite limit.\<close>

definition main_stack_bounds :: "install_calls \<Rightarrow> u64 \<times> u64" where
  "main_stack_bounds calls =
     (let high = marker_address calls
      in case stack_limit calls of
        None \<Rightarrow> (0, high)
      | Some limit \<Rightarrow>
          if limit < high then
            let high = (if main_argv calls > high \<and> main_argv calls - high < limit
                        then main_argv calls else high)
            in (high - limit, high)
          else (0, high))"

definition v_install_segfault_handler :: "install_calls \<Rightarrow> bool \<Rightarrow> host \<Rightarrow> host" where
  "v_install_segfault_handler calls fallback h =
     (let (install_segv, h) = v_segfault_save_previous calls SIGSEGV h;
          (install_bus, h) = v_segfault_save_previous calls SIGBUS h
      in if \<not> install_segv \<and> \<not> install_bus then h
      else
        let h = h\<lparr>segv_state := (segv_state h)\<lparr>has_fallback := fallback\<rparr>\<rparr>;
            (low, high) = main_stack_bounds calls;
            h = v_signal_stack_register calls low high h;
            h = (if install_segv then v_segfault_install_signal SIGSEGV h else h)
        in if install_bus then v_segfault_install_signal SIGBUS h else h)"

end
