(* ===== verification/Segfault_Props.thy ===== *)
theory Segfault_Props
  imports Segfault
begin

text \<open>What the handler reports, and to whom it hands the other faults.\<close>

subsection \<open>Writing\<close>

text \<open>
  \<open>received\<close> is what the standard error has got. Every call accepts at least one character, or is
  interrupted, and interruptions use up \<open>patience\<close>.
\<close>

definition accepts ::
    "(string \<Rightarrow> ('w, int + nat) state) \<Rightarrow> ('w \<Rightarrow> string) \<Rightarrow> ('w \<Rightarrow> nat) \<Rightarrow> bool" where
  "accepts write_fd2 received patience \<longleftrightarrow>
     (\<forall>s w. s \<noteq> [] \<longrightarrow> (case run_state (write_fd2 s) w of
        (Inl e, w') \<Rightarrow> e = 4 \<and> received w' = received w \<and> patience w' < patience w
      | (Inr n, w') \<Rightarrow> 0 < n \<and> n \<le> length s \<and> received w' = received w @ take n s
          \<and> patience w' \<le> patience w))"

text \<open>With more fuel than characters and interruptions the loop ends with the whole text written, across
  short writes and interrupted calls.
\<close>

theorem write_completes:
  assumes "accepts write_fd2 received patience" "length s + patience w < fuel"
  shows "\<exists>w'. run_state (v_segfault_write write_fd2 fuel s) w = (Some (), w')
    \<and> received w' = received w @ s"
  using assms(2)
proof (induction fuel arbitrary: s w)
  case (Suc fuel)
  show ?case
  proof (cases "s = []")
    case False
    obtain r w' where step: "run_state (write_fd2 s) w = (r, w')" by force
    show ?thesis
    proof (cases r)
      case (Inl e)
      then have "e = 4" "received w' = received w" "patience w' < patience w"
        using assms(1) False step by (auto simp: accepts_def dest!: spec [of _ s] spec [of _ w])
      then show ?thesis using Suc.IH [of s w'] Suc.prems False step Inl
        by (simp add: State_Monad.bind_def)
    next
      case (Inr n)
      then have "0 < n" "n \<le> length s" "received w' = received w @ take n s" "patience w' \<le> patience w"
        using assms(1) False step by (auto simp: accepts_def dest!: spec [of _ s] spec [of _ w])
      then show ?thesis using Suc.IH [of "drop n s" w'] Suc.prems False step Inr
        by (simp add: State_Monad.bind_def)
    qed
  qed (simp add: State_Monad.return_def)
qed simp

subsection \<open>Numbers\<close>

fun digits_text :: "nat \<Rightarrow> nat \<Rightarrow> string" where
  "digits_text base n =
     (if base < 2 \<or> n < base then [digit_char n]
      else digits_text base (n div base) @ [digit_char (n mod base)])"

declare digits_text.simps [simp del]

lemma uint_loop_digits:
  "2 \<le> unat base \<Longrightarrow> 0 < i \<Longrightarrow> unat value < unat base ^ i \<Longrightarrow>
   uint_loop value base i written = digits_text (unat base) (unat value) @ written"
proof (induction i arbitrary: "value" written)
  case (Suc i)
  have quotient: "unat (value div base) = unat value div unat base" by (rule unat_div)
  have digit: "unat (value mod base) = unat value mod unat base" by (rule unat_mod)
  show ?case
  proof (cases "value div base = 0")
    case True
    then have "unat value < unat base" using quotient Suc.prems(1) by (simp add: div_eq_0_iff)
    then show ?thesis using True digit by (simp add: digits_text.simps [of "unat base"])
  next
    case False
    then have large: "\<not> unat value < unat base" using quotient by (metis div_less unat_eq_zero)
    have small: "unat (value div base) < unat base ^ i"
      using Suc.prems(1,3) by (simp add: quotient less_mult_imp_div_less mult.commute)
    have "0 < i"
    proof (rule ccontr)
      assume "\<not> 0 < i"
      then show False using small False by (simp add: unat_eq_zero)
    qed
    from Suc.IH [OF Suc.prems(1) this small] show ?thesis
      using False large quotient digit Suc.prems(1)
      by (simp add: digits_text.simps [of "unat base" "unat value"])
  qed
qed simp

lemma uint_text_digits:
  assumes "4 \<le> unat base"
  shows "uint_text value base = digits_text (unat base) (unat value)"
proof -
  have "unat value < 2 ^ 64" using unat_word_bound [of "value"] by simp
  also have "(2 :: nat) ^ 64 = 4 ^ 32" by simp
  also have "\<dots> \<le> unat base ^ 32" using assms by (rule power_mono) simp
  finally show ?thesis
    unfolding uint_text_def using uint_loop_digits [of base 32 "value" "[]"] assms by simp
qed

subsection \<open>What the backtrace shows\<close>

text \<open>The code addresses along the frame pointers, up to the end of the chain.\<close>

fun chain :: "bool \<Rightarrow> memory \<Rightarrow> u64 \<Rightarrow> u64 \<Rightarrow> nat \<Rightarrow> u64 \<Rightarrow> u64 list" where
  "chain arm mem lowest high 0 fp = []" |
  "chain arm mem lowest high (Suc n) fp = (case next_frame arm mem lowest high fp of
       None \<Rightarrow> []
     | Some (next, fp) \<Rightarrow> if next = 0 then [] else next # chain arm mem lowest high n fp)"

text \<open>Runs of equal addresses, with the number of repetitions.\<close>

fun runs :: "u64 \<Rightarrow> nat \<Rightarrow> u64 list \<Rightarrow> (u64 \<times> nat) list" where
  "runs a n [] = [(a, n)]" |
  "runs a n (x # xs) = (if x = a then runs a (Suc n) xs else (a, n) # runs x 0 xs)"

definition repeat_line :: "nat \<Rightarrow> string" where
  "repeat_line n = ''    ... the frame above repeats '' @ digits_text 10 n @ '' more times'' @ newline"

definition omitted_line :: string where
  "omitted_line = ''    ... more frames omitted'' @ newline"

text \<open>One or two lines for every run, and no run is begun after 48 lines.\<close>

fun report :: "(u64 \<Rightarrow> string) \<Rightarrow> (u64 \<times> nat) list \<Rightarrow> nat \<Rightarrow> string list" where
  "report line [] lines = []" |
  "report line ((a, n) # rest) lines =
     (let shown = (if a = 0 then [] else line a # (if n > 0 then [repeat_line n] else []));
          lines = lines + length shown
      in shown @ (if rest = [] then []
        else if lines \<ge> STACK_OVERFLOW_MAX_LINES then [omitted_line] else report line rest lines))"

lemma runs_not_empty [simp]: "runs a n xs \<noteq> []"
  by (induction xs arbitrary: a n) auto

lemma runs_expand: "concat (map (\<lambda>(a, n). replicate (Suc n) a) (runs a n xs)) = replicate (Suc n) a @ xs"
proof (induction xs arbitrary: a n)
  case (Cons x xs)
  have "replicate (Suc (Suc n)) a @ xs = replicate (Suc n) a @ a # xs"
    by (simp add: replicate_app_Cons_same)
  then show ?case
    using Cons.IH [of a "Suc n"] Cons.IH [of x 0] by (simp del: replicate_Suc add: replicate_Suc [of 0])
qed simp

lemma report_length:
  "lines < STACK_OVERFLOW_MAX_LINES \<Longrightarrow>
   length (report line gs lines) \<le> (STACK_OVERFLOW_MAX_LINES - lines) + 2"
proof (induction line gs lines rule: report.induct)
  case (2 line a n rest lines)
  let ?shown = "if a = 0 then [] else line a # (if n > 0 then [repeat_line n] else [])"
  show ?case
  proof (cases "rest = [] \<or> lines + length ?shown \<ge> STACK_OVERFLOW_MAX_LINES")
    case True
    then show ?thesis using "2.prems" by (auto simp: Let_def)
  next
    case False
    then have "length (report line rest (lines + length ?shown))
        \<le> (STACK_OVERFLOW_MAX_LINES - (lines + length ?shown)) + 2"
      using "2.IH" [OF refl refl] by linarith
    then show ?thesis using False by (auto simp: Let_def split: if_splits)
  qed
qed simp

text \<open>How far a frame pointer is from the end of the stack: what every frame record shortens.\<close>

definition distance :: "u64 \<Rightarrow> u64 \<Rightarrow> u64 \<Rightarrow> nat" where
  "distance lowest high fp = (if lowest \<le> fp \<and> fp \<le> high - 16 then unat high - unat fp else 0)"

lemma distance_bound: "distance lowest high fp \<le> unat high"
  by (simp add: distance_def)

text \<open>Reading any frame record in the window succeeds.\<close>

definition readable :: "memory \<Rightarrow> u64 \<Rightarrow> u64 \<Rightarrow> bool" where
  "readable mem lowest high \<longleftrightarrow>
     (\<forall>a. lowest \<le> a \<and> a \<le> high - 16 \<and> a mod 8 = 0 \<longrightarrow> mem a \<noteq> None \<and> mem (a + 8) \<noteq> None)"

lemma next_frame_step:
  assumes "readable mem lowest high" "0 < lowest" "16 \<le> high"
  obtains "next" fp' where "next_frame arm mem lowest high fp = Some (next, fp')"
    "next \<noteq> 0 \<Longrightarrow> distance lowest high fp' < distance lowest high fp"
proof (cases "lowest \<le> fp \<and> fp \<le> high - 16 \<and> fp mod 8 = 0")
  case True
  with assms(1) have "mem fp \<noteq> None \<and> mem (fp + 8) \<noteq> None" by (simp add: readable_def)
  then obtain a b where read: "mem fp = Some a" "mem (fp + 8) = Some b" by auto
  let ?fp = "if fp < a then a else 0"
  have room: "unat fp + 16 \<le> unat high"
  proof -
    have "unat (high - 16) = unat high - 16" using assms(3) by (simp add: unat_sub)
    moreover have "unat fp \<le> unat (high - 16)" using True by (simp add: word_le_nat_alt)
    moreover have "16 \<le> unat high" using assms(3) by (simp add: word_le_nat_alt)
    ultimately show ?thesis by simp
  qed
  have "distance lowest high ?fp < distance lowest high fp"
    using True room assms(2) by (auto simp: distance_def word_less_nat_alt)
  with that [of "v_segfault_code_address arm b" ?fp] True read show ?thesis
    by (simp add: next_frame_def)
next
  case False
  then show ?thesis using that [of 0 fp] by (auto simp: next_frame_def)
qed

lemma shown_text:
  assumes "length (frames s) \<le> line_count s" "line_count s < STACK_OVERFLOW_MAX_LINES"
  obtains t where "record_frame line s = Some t"
    "frame_ptr t = frame_ptr s" "length (frames t) \<le> line_count t"
    "line_count t = line_count s + (if repeats s > 0 then 2 else 1)"
    "concat (outputs t @ map line (frames t)) = concat (outputs s @ map line (frames s))
      @ concat (line (current s) # (if repeats s > 0 then [repeat_line (unat (repeats s))] else []))"
proof -
  have digits: "uint_text (repeats s) 10 = digits_text 10 (unat (repeats s))"
    using uint_text_digits [of 10] by simp
  obtain t where t: "record_frame line s = Some t"
    using assms by (auto simp: record_frame_def Let_def)
  show ?thesis
  proof (rule that [OF t])
    show "concat (outputs t @ map line (frames t)) = concat (outputs s @ map line (frames s))
      @ concat (line (current s) # (if repeats s > 0 then [repeat_line (unat (repeats s))] else []))"
      using t assms digits
      by (auto simp: record_frame_def Let_def v_segfault_flush_frames_def repeat_line_def
          split: if_splits)
  qed (use t assms in \<open>auto simp: record_frame_def Let_def v_segfault_flush_frames_def split: if_splits\<close>)
qed


lemma flush_outputs [simp]:
  "outputs (v_segfault_flush_frames line s) = outputs s @ map line (frames s)"
  by (simp add: v_segfault_flush_frames_def)

text \<open>The walk from any state of the loop: what is left to print is the report of the rest.\<close>

lemma backtrace_loop_report:
  assumes "readable mem lowest high" "0 < lowest" "16 \<le> high"
  shows "distance lowest high (frame_ptr s) < fuel \<Longrightarrow> length (frames s) \<le> line_count s \<Longrightarrow>
    line_count s < STACK_OVERFLOW_MAX_LINES \<Longrightarrow>
    unat (repeats s) + distance lowest high (frame_ptr s) < 2 ^ 64 \<Longrightarrow>
    \<exists>outs. backtrace_loop arm mem line lowest high fuel s = Walked outs
      \<and> concat outs = concat (outputs s @ map line (frames s))
        @ concat (report line (runs (current s) (unat (repeats s))
            (chain arm mem lowest high fuel (frame_ptr s))) (line_count s))"
proof (induction fuel arbitrary: s)
  case (Suc fuel)
  let ?tail = "chain arm mem lowest high fuel"
  obtain "next" fp' where step: "next_frame arm mem lowest high (frame_ptr s) = Some (next, fp')"
    and closer: "next \<noteq> 0 \<Longrightarrow> distance lowest high fp' < distance lowest high (frame_ptr s)"
    using next_frame_step [OF assms] by metis
  let ?s = "s\<lparr>frame_ptr := fp'\<rparr>"
  show ?case
  proof (cases "next \<noteq> 0 \<and> next = current s")
    case True
    have shorter: "distance lowest high fp' < distance lowest high (frame_ptr s)"
      using True closer by blast
    then have "Suc (unat (repeats s)) < 2 ^ 64" using Suc.prems(4) by linarith
    then have one: "unat (repeats s + 1) = Suc (unat (repeats s))" by (simp add: unat_word_ariths)
    show ?thesis
      using Suc.IH [of "?s\<lparr>repeats := repeats s + 1\<rparr>"] True shorter Suc.prems step one by auto
  next
    case False
    define shown where "shown = (if current s = 0 then []
      else line (current s) # (if repeats s > 0 then [repeat_line (unat (repeats s))] else []))"
    obtain t where t: "(if current s \<noteq> 0 then record_frame line ?s else Some ?s) = Some t"
      "frame_ptr t = fp'" "length (frames t) \<le> line_count t"
      "line_count t = line_count s + length shown"
      "concat (outputs t @ map line (frames t))
        = concat (outputs s @ map line (frames s)) @ concat shown"
    proof (cases "current s = 0")
      case True
      then show ?thesis using that [of ?s] Suc.prems by (simp add: shown_def)
    next
      case False
      obtain t where "record_frame line ?s = Some t" "frame_ptr t = frame_ptr ?s"
        "length (frames t) \<le> line_count t"
        "line_count t = line_count ?s + (if repeats ?s > 0 then 2 else 1)"
        "concat (outputs t @ map line (frames t)) = concat (outputs ?s @ map line (frames ?s))
          @ concat (line (current ?s)
            # (if repeats ?s > 0 then [repeat_line (unat (repeats ?s))] else []))"
        using shown_text [of ?s line] Suc.prems by auto
      then show ?thesis using that [of t] False by (simp add: shown_def)
    qed
    have printed: "concat (outputs t) @ concat (map line (frames t)) @ z
        = concat (outputs s) @ concat (map line (frames s)) @ concat shown @ z" for z
      using t(5) by (metis append.assoc concat_append)
    have final: "report line (runs (current s) (unat (repeats s)) []) (line_count s) = shown"
      by (simp add: shown_def Let_def word_gt_0 unat_gt_0)
    have further: "report line (runs (current s) (unat (repeats s)) (next # xs)) (line_count s)
        = shown @ (if line_count t \<ge> STACK_OVERFLOW_MAX_LINES then [omitted_line]
            else report line (runs next 0 xs) (line_count t))" if "next \<noteq> 0" for xs
      using that False unfolding t(4) shown_def by (simp add: Let_def word_gt_0 unat_gt_0)
    consider (stop) "next = 0" | (full) "next \<noteq> 0" "line_count t \<ge> STACK_OVERFLOW_MAX_LINES"
      | (on) "next \<noteq> 0" "line_count t < STACK_OVERFLOW_MAX_LINES" by linarith
    then show ?thesis
    proof cases
      case stop
      then show ?thesis using t(1) step final printed [of "[]"] by (simp add: Let_def)
    next
      case full
      then show ?thesis
        using t(1) step False printed [of omitted_line] further [OF full(1)]
        by (simp add: Let_def omitted_line_def)
    next
      case on
      have "distance lowest high fp' < fuel" "distance lowest high fp' < 2 ^ 64"
        using closer on(1) Suc.prems by simp_all
      then show ?thesis
        using Suc.IH [of "t\<lparr>current := next, repeats := 0\<rparr>"] on t(1-3) step False further [OF on(1)] printed
        by (simp add: Let_def)
    qed
  qed
qed simp

lemma chain_stable:
  assumes "readable mem lowest high" "0 < lowest" "16 \<le> high"
  shows "distance lowest high fp < n \<Longrightarrow> distance lowest high fp < m \<Longrightarrow>
    chain arm mem lowest high n fp = chain arm mem lowest high m fp"
proof (induction n arbitrary: m fp)
  case (Suc n)
  then obtain k where m: "m = Suc k" by (cases m) auto
  obtain "next" fp' where step: "next_frame arm mem lowest high fp = Some (next, fp')"
    and closer: "next \<noteq> 0 \<Longrightarrow> distance lowest high fp' < distance lowest high fp"
    using next_frame_step [OF assms] by metis
  show ?case
  proof (cases "next = 0")
    case False
    then have "distance lowest high fp' < n" "distance lowest high fp' < k"
      using closer Suc.prems m by linarith+
    then show ?thesis using Suc.IH [of fp' k] step m by simp
  qed (simp add: step m)
qed simp

text \<open>C21: Every frame record is above the one before it, so the walk ends within as many steps as the stack
  has bytes, and prints the report of the whole chain.
\<close>

theorem backtrace_exact:
  assumes "STACK_OVERFLOW_SLACK < low" "16 \<le> high" "readable mem (low - STACK_OVERFLOW_SLACK) high"
    and "unat high < fuel" "unat high < n"
  shows "\<exists>outs. v_stack_overflow_backtrace arm mem line fuel (Some (pc, fp)) low high = Walked outs
    \<and> concat outs = concat (report line (runs (v_segfault_code_address arm pc) 0
        (chain arm mem (low - STACK_OVERFLOW_SLACK) high n fp)) 0)"
proof -
  let ?lowest = "low - STACK_OVERFLOW_SLACK"
  let ?s = "\<lparr>frame_ptr = fp, current = v_segfault_code_address arm pc, repeats = 0, frames = [],
    line_count = 0, outputs = []\<rparr>"
  have lowest: "lowest_address low = ?lowest" "0 < ?lowest"
    using assms(1) by (simp_all add: lowest_address_def word_gt_0)
  have near: "distance ?lowest high fp < fuel" "distance ?lowest high fp < n"
    using distance_bound [of ?lowest high fp] assms(4,5) by linarith+
  have "distance ?lowest high fp < 2 ^ 64"
    using distance_bound [of ?lowest high fp] unat_word_bound [of high] by simp
  then show ?thesis
    using backtrace_loop_report [OF assms(3) lowest(2) assms(2), of ?s fuel arm line] near lowest
      chain_stable [OF assms(3) lowest(2) assms(2) near, of arm]
    by (simp add: v_stack_overflow_backtrace_def STACK_OVERFLOW_MAX_LINES_def)
qed

subsection \<open>The handler after the installation\<close>

lemma signal_stack_size_large: "32 \<le> v_signal_stack_size calls"
proof (cases "(65536 :: u64) < word_of_int (minimal_stack calls) + 32768")
  case True
  then have "32 \<le> word_of_int (minimal_stack calls) + (32768 :: u64)"
    by (rule order_trans [OF _ less_imp_le, rotated]) simp
  then show ?thesis by (simp add: v_signal_stack_size_def)
qed (simp add: v_signal_stack_size_def)

lemma put_header_words:
  "put_header base low high bytes mem base = Some SIGNAL_STACK_MAGIC"
  "put_header base low high bytes mem (base + 8) = Some low"
  "put_header base low high bytes mem (base + 16) = Some high"
  by (simp_all add: put_header_def)

definition on_it :: "host \<Rightarrow> sigstack option" where
  "on_it h = map_option (\<lambda>ss. ss\<lparr>on_stack := True\<rparr>) (alternate h)"

lemma register_bounds:
  assumes "query_stack calls = Some old" "disabled old" "mapped_base calls = Some base" "base \<noteq> 0"
    and "stack_set_ok calls" "high \<noteq> 0"
  shows "v_signal_stack_bounds (memory_words (v_signal_stack_register calls low high h))
    (on_it (v_signal_stack_register calls low high h)) = Some (Some (low, high))"
  using assms signal_stack_size_large [of calls]
  by (simp add: v_signal_stack_bounds_def v_signal_stack_register_def on_it_def Let_def
      put_header_words)

lemma install_signal_parts [simp]:
  "memory_words (v_segfault_install_signal sig h) = memory_words h"
  "alternate (v_segfault_install_signal sig h) = alternate h"
  "segv_state (v_segfault_install_signal sig h) = segv_state h"
  by (simp_all add: v_segfault_install_signal_def Let_def)

lemma register_parts [simp]:
  "actions (v_signal_stack_register calls low high h) = actions h"
  "segv_state (v_signal_stack_register calls low high h) = segv_state h"
  by (simp_all add: v_signal_stack_register_def Let_def split: option.splits)

lemma on_it_install [simp]: "on_it (v_segfault_install_signal sig h) = on_it h"
  by (simp add: on_it_def)

definition saved_actions :: "install_calls \<Rightarrow> bool \<Rightarrow> host \<Rightarrow> host" where
  "saved_actions calls fallback h =
     (let h = snd (v_segfault_save_previous calls SIGBUS (snd (v_segfault_save_previous calls SIGSEGV h)))
      in h\<lparr>segv_state := (segv_state h)\<lparr>has_fallback := fallback\<rparr>\<rparr>)"

lemma installed_memory:
  assumes "query_ok calls SIGSEGV" "sa_handler (actions h SIGSEGV) \<noteq> Ignore"
    and "main_stack_bounds calls = (low, high)"
  shows "memory_words (v_install_segfault_handler calls fallback h)
      = memory_words (v_signal_stack_register calls low high (saved_actions calls fallback h))"
    "on_it (v_install_segfault_handler calls fallback h)
      = on_it (v_signal_stack_register calls low high (saved_actions calls fallback h))"
  using assms
  by (simp_all add: v_install_segfault_handler_def v_segfault_save_previous_def Let_def
      saved_actions_def)

text \<open>Installing takes over the two signals, unless they are ignored, with the mask and the flags of
  the action it replaces, and leaves every other signal alone.
\<close>

theorem installed_actions:
  "actions (v_install_segfault_handler calls fallback h) sig =
    (if sig \<in> {SIGSEGV, SIGBUS} \<and> query_ok calls sig \<and> sa_handler (actions h sig) \<noteq> Ignore
     then (actions h sig)\<lparr>sa_handler := Vs_handler, sa_siginfo := True, sa_onstack := True,
       sa_resethand := False\<rparr>
     else actions h sig)"
  by (cases "actions h sig")
    (auto simp: v_install_segfault_handler_def v_segfault_save_previous_def
      v_segfault_install_signal_def previous_index_def Let_def split: prod.splits)

text \<open>C20: After the installation the handler, running on the stack it registered, reports exactly the faults
  of the hardware in the window of the main stack, with the backtrace of the chain, and ends the
  process with \<open>128 + sig\<close>. Every other fault is forwarded.
\<close>

theorem stack_overflow_reported:
  fixes calls fallback h
  defines "h' \<equiv> v_install_segfault_handler calls fallback h"
  assumes "query_stack calls = Some old" "disabled old" "mapped_base calls = Some base" "base \<noteq> 0"
    and "stack_set_ok calls" "query_ok calls SIGSEGV" "sa_handler (actions h SIGSEGV) \<noteq> Ignore"
    and "main_stack_bounds calls = (low, high)" "STACK_OVERFLOW_SLACK < low" "16 \<le> high"
    and "readable (memory_words h') (low - STACK_OVERFLOW_SLACK) high" "unat high < fuel"
  shows "\<exists>outs. concat outs = concat (report line (runs (v_segfault_code_address arm pc) 0
        (chain arm (memory_words h') (low - STACK_OVERFLOW_SLACK) high fuel fp)) 0)
    \<and> v_segfault_signal_handler arm (memory_words h') line fuel (on_it h') sig info (Some (pc, fp)) s =
      Some (if \<exists>code addr. info = Some (code, addr) \<and> 0 < code
          \<and> low - STACK_OVERFLOW_SLACK \<le> addr \<and> addr < high
        then (map Wrote ((''V panic: stack overflow'' @ newline) # outs) @ [Exited (128 + sig)], s)
        else forward_fault sig s)"
proof -
  note g = installed_memory [OF assms(7,8,9), of fallback, folded h'_def]
  have "high \<noteq> 0" using assms(11) by auto
  then have bounds: "v_signal_stack_bounds (memory_words h') (on_it h') = Some (Some (low, high))"
    unfolding g by (rule register_bounds [OF assms(2-6)])
  obtain outs where outs:
    "v_stack_overflow_backtrace arm (memory_words h') line fuel (Some (pc, fp)) low high = Walked outs"
    "concat outs = concat (report line (runs (v_segfault_code_address arm pc) 0
        (chain arm (memory_words h') (low - STACK_OVERFLOW_SLACK) high fuel fp)) 0)"
    using backtrace_exact [OF assms(10-13,13)] by blast
  have "low \<noteq> 0" "lowest_address low = low - STACK_OVERFLOW_SLACK"
    using assms(10) by (auto simp: lowest_address_def)
  moreover define hit where "hit = (\<exists>code addr. info = Some (code, addr) \<and> 0 < code
        \<and> low - STACK_OVERFLOW_SLACK \<le> addr \<and> addr < high)"
  ultimately have "v_segfault_is_stack_overflow (memory_words h') (on_it h') info = Some hit"
    using bounds by (cases info) (auto simp: v_segfault_is_stack_overflow_def)
  then show ?thesis using bounds outs unfolding hit_def [symmetric]
    by (intro exI [of _ outs])
      (cases hit; simp add: v_segfault_signal_handler_def overflow_report_def)
qed

subsection \<open>One shot handlers\<close>

text \<open>The other faults, one after the other; the flags are exchanged atomically.\<close>

fun forwarded :: "int list \<Rightarrow> segv \<Rightarrow> effect list \<times> segv" where
  "forwarded [] s = ([], s)" |
  "forwarded (sig # sigs) s =
     (let (es, s) = forward_fault sig s; (es', s) = forwarded sigs s in (es @ es', s))"

fun calls_previous :: "nat \<Rightarrow> effect \<Rightarrow> bool" where
  "calls_previous i (Called_previous _ _ sig) \<longleftrightarrow> previous_index sig = i" |
  "calls_previous i _ \<longleftrightarrow> False"

lemma forward_fault_step:
  assumes "forward_fault sig s = (es, s')"
  shows "previous s' = previous s"
    "consumed s' i = (consumed s i \<or> previous_index sig = i
      \<and> sa_handler (previous s i) \<notin> {Default, Ignore} \<and> sa_resethand (previous s i))"
    "length (filter (calls_previous i) es) =
      (if previous_index sig \<noteq> i \<or> sa_handler (previous s i) \<in> {Default, Ignore} then 0
       else if sa_resethand (previous s i) then of_bool (\<not> consumed s i) else 1)"
  using assms
  by (auto simp: forward_fault_def Let_def v_segfault_consume_previous_def split: if_splits)

text \<open>A handler that was installed for one signal only runs at most once, over any sequence of faults, and
  not at all once its flag is set. Any other handler sees every fault that is forwarded to it.
\<close>

theorem previous_runs:
  "length (filter (calls_previous i) (fst (forwarded sigs s))) =
    (if sa_handler (previous s i) \<in> {Default, Ignore} then 0
     else if sa_resethand (previous s i)
     then of_bool (\<not> consumed s i \<and> (\<exists>sig\<in>set sigs. previous_index sig = i))
     else length (filter (\<lambda>sig. previous_index sig = i) sigs))"
proof (induction sigs arbitrary: s)
  case (Cons sig sigs)
  obtain es s' where step: "forward_fault sig s = (es, s')" by force
  note steps = forward_fault_step [OF step]
  have "length (filter (calls_previous i) (fst (forwarded (sig # sigs) s)))
      = length (filter (calls_previous i) es)
        + length (filter (calls_previous i) (fst (forwarded sigs s')))"
    by (simp add: step split_beta)
  then show ?case unfolding Cons.IH [of s'] steps
    by (cases "previous_index sig = i") auto
qed simp

end
