(* ===== verification/Segfault_Demo.thy ===== *)
theory Segfault_Demo
  imports Segfault_Props
begin

text \<open>A stack with three frames, a host that lends it a signal stack, and a slow error output.\<close>

subsection \<open>The write loop\<close>

text \<open>An output that is interrupted once and takes two characters at a time.\<close>

definition slow_write :: "string \<Rightarrow> (string \<times> nat, int + nat) state" where
  "slow_write s = State (\<lambda>(got, interrupts).
     if interrupts > 0 then (Inl 4, (got, interrupts - 1))
     else (Inr (min 2 (length s)), (got @ take 2 s, interrupts)))"

lemma slow_write_accepts: "accepts slow_write fst snd"
  by (auto simp: accepts_def slow_write_def min_def)

theorem write_completes_witness:
  "\<exists>w'. run_state (v_segfault_write slow_write 10 ''hello'') ([], 1) = (Some (), w')
    \<and> fst w' = ''hello''"
  using write_completes [OF slow_write_accepts, of "''hello''" "([], 1)" 10] by simp

subsection \<open>Three frames\<close>

definition demo_line :: "u64 \<Rightarrow> string" where
  "demo_line a = (if a = 0x5000 then ''f'' else ''main'') @ newline"

definition demo_stack :: memory where
  "demo_stack = (\<lambda>a. Some 0)(0x180000 \<mapsto> 0x180010, 0x180008 \<mapsto> 0x5000, 0x180010 \<mapsto> 0x180020,
     0x180018 \<mapsto> 0x5000, 0x180020 \<mapsto> 0, 0x180028 \<mapsto> 0x6000)"

definition holds_demo :: "memory \<Rightarrow> bool" where
  "holds_demo mem \<longleftrightarrow> (\<forall>a. mem a \<noteq> None) \<and> (\<forall>a < 0x200000. mem a = demo_stack a)"

lemma demo_readable: "holds_demo mem \<Longrightarrow> readable mem lowest high"
  by (simp add: readable_def holds_demo_def)

lemma holds_demo_stack: "holds_demo demo_stack"
  by (simp add: demo_stack_def holds_demo_def)

lemma chain_unfold:
  "0 < n \<Longrightarrow> chain arm mem lowest high n fp = (case next_frame arm mem lowest high fp of
     None \<Rightarrow> []
   | Some (next, fp) \<Rightarrow> if next = 0 then [] else next # chain arm mem lowest high (n - 1) fp)"
  by (cases n) (auto split: option.split)

lemma demo_steps:
  assumes "holds_demo mem"
  shows "next_frame False mem 0xc0000 0x200000 0x180000 = Some (0x5000, 0x180010)"
    "next_frame False mem 0xc0000 0x200000 0x180010 = Some (0x5000, 0x180020)"
    "next_frame False mem 0xc0000 0x200000 0x180020 = Some (0x6000, 0)"
    "next_frame False mem 0xc0000 0x200000 0 = Some (0, 0)"
  using assms
  by (simp_all add: holds_demo_def next_frame_def demo_stack_def v_segfault_code_address_def)

lemma demo_chain:
  "holds_demo mem \<Longrightarrow> 4 < n \<Longrightarrow>
   chain False mem 0xc0000 0x200000 n 0x180000 = [0x5000, 0x5000, 0x6000]"
  by (simp add: chain_unfold [of _ _ _ _ _ "0x180000"] chain_unfold [of _ _ _ _ _ "0x180010"]
      chain_unfold [of _ _ _ _ _ "0x180020"] chain_unfold [of _ _ _ _ _ 0] demo_steps)

lemma demo_report:
  "report demo_line (runs 0x5000 0 [0x5000, 0x5000, 0x6000]) 0 =
     [''f'' @ newline, repeat_line 2, ''main'' @ newline]"
  by (simp add: Let_def demo_line_def STACK_OVERFLOW_MAX_LINES_def numeral_2_eq_2 [symmetric])

theorem backtrace_exact_witness:
  "\<exists>outs. v_stack_overflow_backtrace False demo_stack demo_line 0x200001
      (Some (0x5000, 0x180000)) 0x100000 0x200000 = Walked outs
    \<and> concat outs = concat [''f'' @ newline, repeat_line 2, ''main'' @ newline]"
  using backtrace_exact [of "0x100000" "0x200000" demo_stack "0x200001" "0x200001" False demo_line
      "0x5000" "0x180000"] demo_readable [OF holds_demo_stack]
      demo_chain [OF holds_demo_stack, of "0x200001"] demo_report
  by (simp add: STACK_OVERFLOW_SLACK_def v_segfault_code_address_def)

subsection \<open>A host that lends a signal stack\<close>

definition demo_calls :: install_calls where
  "demo_calls = \<lparr>query_ok = (\<lambda>_. True),
     query_stack = Some \<lparr>on_stack = False, disabled = True, ss_sp = 0, ss_size = 0\<rparr>,
     minimal_stack = 2048, mapped_base = Some 0x700000, stack_set_ok = True,
     stack_limit = Some 0x100000, marker_address = 0x1fff00, main_argv = 0x200000\<rparr>"

definition demo_host :: host where
  "demo_host = \<lparr>actions = (\<lambda>_. zero_action), alternate = None, memory_words = demo_stack,
     segv_state = \<lparr>previous = (\<lambda>_. zero_action), consumed = (\<lambda>_. False), has_fallback = False\<rparr>\<rparr>"

lemma demo_bounds: "main_stack_bounds demo_calls = (0x100000, 0x200000)"
  by (simp add: main_stack_bounds_def demo_calls_def)

lemma demo_usable: "query_ok demo_calls SIGSEGV" "sa_handler (actions demo_host SIGSEGV) \<noteq> Ignore"
  by (simp_all add: demo_calls_def demo_host_def zero_action_def)

lemma demo_installed: "holds_demo (memory_words (v_install_segfault_handler demo_calls True demo_host))"
  unfolding installed_memory(1) [OF demo_usable demo_bounds]
  by (simp add: demo_calls_def demo_host_def zero_action_def v_signal_stack_register_def
      saved_actions_def v_segfault_save_previous_def Let_def
      put_header_def holds_demo_def demo_stack_def word_less_nat_alt)

theorem stack_overflow_reported_witness:
  "\<exists>outs. concat outs = concat [''f'' @ newline, repeat_line 2, ''main'' @ newline]
    \<and> v_segfault_signal_handler False
        (memory_words (v_install_segfault_handler demo_calls True demo_host)) demo_line 0x200001
        (on_it (v_install_segfault_handler demo_calls True demo_host)) 11 (Some (1, 0xffff8))
        (Some (0x5000, 0x180000)) (segv_state demo_host) =
      Some (map Wrote ((''V panic: stack overflow'' @ newline) # outs) @ [Exited 139], segv_state demo_host)"
  using stack_overflow_reported [where calls = demo_calls and h = demo_host and fallback = True
      and base = "0x700000" and low = "0x100000" and high = "0x200000" and fuel = "0x200001"
      and arm = False and pc = "0x5000" and fp = "0x180000" and line = demo_line and sig = 11
      and info = "Some (1, 0xffff8)" and s = "segv_state demo_host" and old = "the (query_stack demo_calls)"]
    demo_readable [OF demo_installed] demo_chain [OF demo_installed, of "0x200001"] demo_report
    demo_bounds demo_usable
  by (simp add: STACK_OVERFLOW_SLACK_def v_segfault_code_address_def demo_calls_def)

end
