(* ===== verification/Execute_Capture.thy ===== *)
theory Execute_Capture
  imports Host_Monad
begin

text \<open>
  \<^verbatim>\<open>vlib/os/execute_capture_nix.h\<close>: start a child process whose output, and on macOS input, goes
  through a pipe. The process is modelled by its table of file descriptors; a child has a copy of it,
  changed by the file actions, without the descriptors that are closed on exec.

  What the system calls answer is the argument \<open>calls\<close>. The fork of the build for old Android
  versions and the \<^verbatim>\<open>posix_spawn\<close> of the others are both modelled.
\<close>

subsection \<open>Processes\<close>

datatype open_file = Read_End nat | Write_End nat | Other_File nat

record descriptor =
  opened_file :: open_file
  cloexec :: bool

type_synonym fd_table = "int \<Rightarrow> descriptor option"

datatype spawn_action = Dup2 int int | Close int

record child =
  child_argv :: "string list"
  child_fds :: fd_table

record process =
  fds :: fd_table
  pipes_made :: nat
  live_actions :: nat
  children :: "child list"

record capture_calls =
  pipe_answer :: "fd_table \<Rightarrow> (int \<times> int) option"
  flags_ok :: "int \<Rightarrow> bool"
  init_ok :: bool
  add_ok :: "spawn_action \<Rightarrow> bool"
  spawn_answer :: "string list \<Rightarrow> int option"

definition close_fd :: "int \<Rightarrow> process \<Rightarrow> process" where
  "close_fd fd p = p\<lparr>fds := (fds p)(fd := None)\<rparr>"

definition open_pipe :: "capture_calls \<Rightarrow> process \<Rightarrow> ((int \<times> int) \<times> process) option" where
  "open_pipe calls p = (case pipe_answer calls (fds p) of
       None \<Rightarrow> None
     | Some (r, w) \<Rightarrow> Some ((r, w),
         p\<lparr>fds := (fds p)(r \<mapsto> \<lparr>opened_file = Read_End (pipes_made p), cloexec = False\<rparr>,
             w \<mapsto> \<lparr>opened_file = Write_End (pipes_made p), cloexec = False\<rparr>),
           pipes_made := pipes_made p + 1\<rparr>))"

definition v_os_execute_set_cloexec :: "capture_calls \<Rightarrow> int \<Rightarrow> process \<Rightarrow> process" where
  "v_os_execute_set_cloexec calls fd p =
     (if flags_ok calls fd
      then p\<lparr>fds := (fds p)(fd := map_option (\<lambda>d. d\<lparr>cloexec := True\<rparr>) (fds p fd))\<rparr> else p)"

text \<open>The table after \<^verbatim>\<open>exec\<close>.\<close>

definition exec_fds :: "fd_table \<Rightarrow> fd_table" where
  "exec_fds t = (\<lambda>fd. case t fd of None \<Rightarrow> None | Some d \<Rightarrow> if cloexec d then None else Some d)"

subsection \<open>Spawning\<close>

text \<open>A file action of \<^verbatim>\<open>posix_spawn\<close> in the child; the spawn fails with \<open>None\<close>.\<close>

fun spawn_step :: "spawn_action \<Rightarrow> fd_table \<Rightarrow> fd_table option" where
  "spawn_step (Dup2 a b) t = (case t a of None \<Rightarrow> None | Some d \<Rightarrow> Some (t(b \<mapsto> d\<lparr>cloexec := False\<rparr>)))" |
  "spawn_step (Close a) t = Some (t(a := None))"

fun spawn_steps :: "spawn_action list \<Rightarrow> fd_table \<Rightarrow> fd_table option" where
  "spawn_steps [] t = Some t" |
  "spawn_steps (a # as) t = Option.bind (spawn_step a t) (spawn_steps as)"

definition posix_spawn ::
    "capture_calls \<Rightarrow> spawn_action list \<Rightarrow> string list \<Rightarrow> process \<Rightarrow> int option \<times> process" where
  "posix_spawn calls as argv p = (case (spawn_answer calls argv, spawn_steps as (fds p)) of
       (Some pid, Some t) \<Rightarrow>
         (Some pid, p\<lparr>children := children p @ [\<lparr>child_argv = argv, child_fds = exec_fds t\<rparr>]\<rparr>)
     | _ \<Rightarrow> (None, p))"

definition actions_destroy :: "process \<Rightarrow> process" where
  "actions_destroy p = p\<lparr>live_actions := live_actions p - 1\<rparr>"

text \<open>
  From the file actions to the end of the spawn, the same in the three functions: \<open>opened\<close> are the
  descriptors that are closed when it fails.
\<close>

definition spawn_child ::
    "capture_calls \<Rightarrow> int list \<Rightarrow> spawn_action list \<Rightarrow> string list \<Rightarrow> process \<Rightarrow> int option \<times> process" where
  "spawn_child calls opened as argv p =
     (if \<not> init_ok calls then (None, fold close_fd opened p) else
      let p = p\<lparr>live_actions := live_actions p + 1\<rparr>
      in if \<not> list_all (add_ok calls) as then (None, fold close_fd opened (actions_destroy p)) else
      let (started, p) = posix_spawn calls as argv p;
          p = actions_destroy p
      in case started of
        None \<Rightarrow> (None, fold close_fd opened p)
      | Some pid \<Rightarrow> (Some pid, p))"

text \<open>The results are \<open>None\<close> for -1, or the child and the read end.\<close>

definition v_os_execute_capture_start ::
    "capture_calls \<Rightarrow> string \<Rightarrow> process \<Rightarrow> (int \<times> int) option \<times> process" where
  "v_os_execute_capture_start calls cmd p = (case open_pipe calls p of
       None \<Rightarrow> (None, p)
     | Some ((r, w), p) \<Rightarrow>
         let p = v_os_execute_set_cloexec calls w (v_os_execute_set_cloexec calls r p);
             (started, p) = spawn_child calls [r, w] [Dup2 w 1, Dup2 w 2, Close r, Close w]
               [''/bin/sh'', ''-c'', cmd] p
         in case started of
           None \<Rightarrow> (None, p)
         | Some pid \<Rightarrow> (Some (pid, r), close_fd w p))"

definition v_os_exec_capture_start ::
    "capture_calls \<Rightarrow> string list option \<Rightarrow> process \<Rightarrow> (int \<times> int) option \<times> process" where
  "v_os_exec_capture_start calls argv p =
     (if argv = None \<or> argv = Some [] then (None, p) else
      case open_pipe calls p of
        None \<Rightarrow> (None, p)
      | Some ((r, w), p) \<Rightarrow>
          let p = v_os_execute_set_cloexec calls w (v_os_execute_set_cloexec calls r p);
              (started, p) = spawn_child calls [r, w] [Dup2 w 1, Dup2 w 2, Close r, Close w] (the argv) p
          in case started of
            None \<Rightarrow> (None, p)
          | Some pid \<Rightarrow> (Some (pid, r), close_fd w p))"

text \<open>With an input pipe: the results are the child, the read end and the write end.\<close>

definition v_os_exec_capture_input_start ::
    "capture_calls \<Rightarrow> string list option \<Rightarrow> process \<Rightarrow> (int \<times> int \<times> int) option \<times> process" where
  "v_os_exec_capture_input_start calls argv p =
     (if argv = None \<or> argv = Some [] then (None, p) else
      case open_pipe calls p of
        None \<Rightarrow> (None, p)
      | Some ((out_r, out_w), p) \<Rightarrow>
      case open_pipe calls p of
        None \<Rightarrow> (None, close_fd out_w (close_fd out_r p))
      | Some ((in_r, in_w), p) \<Rightarrow>
          let p = fold (v_os_execute_set_cloexec calls) [out_r, out_w, in_r, in_w] p;
              (started, p) = spawn_child calls [out_r, out_w, in_r, in_w]
                [Dup2 in_r 0, Dup2 out_w 1, Dup2 out_w 2, Close in_r, Close in_w, Close out_r, Close out_w]
                (the argv) p
          in case started of
            None \<Rightarrow> (None, p)
          | Some pid \<Rightarrow> (Some (pid, out_r, in_w), close_fd in_r (close_fd out_w p)))"

subsection \<open>Forking\<close>

text \<open>The child of a fork ignores errors, and \<^verbatim>\<open>dup2\<close> onto itself does nothing.\<close>

fun fork_step :: "spawn_action \<Rightarrow> fd_table \<Rightarrow> fd_table" where
  "fork_step (Dup2 a b) t =
     (case t a of None \<Rightarrow> t | Some d \<Rightarrow> if a = b then t else t(b \<mapsto> d\<lparr>cloexec := False\<rparr>))" |
  "fork_step (Close a) t = t(a := None)"

definition fork_capture ::
    "capture_calls \<Rightarrow> string list \<Rightarrow> process \<Rightarrow> (int \<times> int) option \<times> process" where
  "fork_capture calls argv p = (case open_pipe calls p of
       None \<Rightarrow> (None, p)
     | Some ((r, w), p) \<Rightarrow>
         let p = v_os_execute_set_cloexec calls w (v_os_execute_set_cloexec calls r p)
         in case spawn_answer calls argv of
           None \<Rightarrow> (None, close_fd w (close_fd r p))
         | Some pid \<Rightarrow>
             let t = fold fork_step [Dup2 w 1, Dup2 w 2, Close r, Close w] (fds p);
                 p = p\<lparr>children := children p @ [\<lparr>child_argv = argv, child_fds = exec_fds t\<rparr>]\<rparr>
             in (Some (pid, r), close_fd w p))"

definition fork_execute_capture_start ::
    "capture_calls \<Rightarrow> string \<Rightarrow> process \<Rightarrow> (int \<times> int) option \<times> process" where
  "fork_execute_capture_start calls cmd p = fork_capture calls [''sh'', ''-c'', cmd] p"

definition fork_exec_capture_start ::
    "capture_calls \<Rightarrow> string list option \<Rightarrow> process \<Rightarrow> (int \<times> int) option \<times> process" where
  "fork_exec_capture_start calls argv p =
     (if argv = None \<or> argv = Some [] then (None, p) else fork_capture calls (the argv) p)"

subsection \<open>Writing\<close>

text \<open>\<open>write_fd\<close> gives the number of characters written, or -1 with any error.\<close>

fun v_os_fd_write_all :: "(string \<Rightarrow> ('w, int) state) \<Rightarrow> nat \<Rightarrow> string \<Rightarrow> ('w, unit option) state" where
  "v_os_fd_write_all write_fd 0 s = State_Monad.return None" |
  "v_os_fd_write_all write_fd (Suc fuel) s =
     (if s = [] then State_Monad.return (Some ()) else do {
        written \<leftarrow> write_fd s;
        if written \<le> 0 then State_Monad.return (Some ())
        else v_os_fd_write_all write_fd fuel (drop (nat written) s) })"

end
