(* ===== verification/Execute_Capture_Props.thy ===== *)
theory Execute_Capture_Props
  imports Execute_Capture
begin

text \<open>
  What a started child inherits, and that no descriptor is lost on any path. \<open>sound_pipe\<close> is the
  promise of \<^verbatim>\<open>pipe\<close>: two different descriptors that were free.
\<close>

definition sound_pipe :: "capture_calls \<Rightarrow> bool" where
  "sound_pipe calls \<longleftrightarrow> (\<forall>t r w. pipe_answer calls t = Some (r, w) \<longrightarrow>
     t r = None \<and> t w = None \<and> r \<noteq> w)"

fun pipe_of :: "open_file \<Rightarrow> nat option" where
  "pipe_of (Read_End n) = Some n" |
  "pipe_of (Write_End n) = Some n" |
  "pipe_of (Other_File n) = None"

text \<open>Pipes are numbered as they are made.\<close>

definition wf_process :: "process \<Rightarrow> bool" where
  "wf_process p \<longleftrightarrow> (\<forall>fd d n. fds p fd = Some d \<longrightarrow> pipe_of (opened_file d) = Some n \<longrightarrow> n < pipes_made p)"

text \<open>The same descriptors, actions and children: nothing of the call is left.\<close>

definition nothing_left :: "process \<Rightarrow> process \<Rightarrow> bool" where
  "nothing_left p q \<longleftrightarrow> fds q = fds p \<and> live_actions q = live_actions p \<and> children q = children p
     \<and> wf_process q"

text \<open>Of this process and the child it has started last, only the child's descriptors in \<open>writers\<close> write
  to the pipe \<open>n\<close>. Children of other threads are not looked at here.\<close>

definition child_writes :: "nat \<Rightarrow> int set \<Rightarrow> process \<Rightarrow> bool" where
  "child_writes n writers q \<longleftrightarrow>
     (\<forall>fd d. fds q fd = Some d \<longrightarrow> opened_file d \<noteq> Write_End n)
     \<and> (\<forall>fd d. child_fds (last (children q)) fd = Some d \<longrightarrow> opened_file d = Write_End n \<longrightarrow> fd \<in> writers)"

text \<open>
  A capture: the parent has the read end only, and the child has the write end as its output and
  error output, and apart from that just what it would inherit anyway.
\<close>

definition captures ::
    "capture_calls \<Rightarrow> string list \<Rightarrow> process \<Rightarrow> (int \<times> int) option \<times> process \<Rightarrow> bool" where
  "captures calls argv p result = (case result of
       (None, q) \<Rightarrow> nothing_left p q
     | (Some (pid, r), q) \<Rightarrow>
         let n = pipes_made p; output = Some \<lparr>opened_file = Write_End n, cloexec = False\<rparr>
         in fds p r = None
           \<and> fds q = (fds p)(r \<mapsto> \<lparr>opened_file = Read_End n, cloexec = flags_ok calls r\<rparr>)
           \<and> live_actions q = live_actions p
           \<and> children q = children p @ [\<lparr>child_argv = argv,
               child_fds = (exec_fds (fds p))(1 := output, 2 := output)\<rparr>]
           \<and> child_writes n {1, 2} q
           \<and> wf_process q)"

lemma exec_fds_apply: "exec_fds t fd = (case t fd of None \<Rightarrow> None | Some d \<Rightarrow> if cloexec d then None else Some d)"
  by (simp add: exec_fds_def)

lemma fold_close_parts [simp]:
  "live_actions (fold close_fd opened p) = live_actions p"
  "children (fold close_fd opened p) = children p"
  "pipes_made (fold close_fd opened p) = pipes_made p"
  "fds (fold close_fd opened p) = (\<lambda>fd. if fd \<in> set opened then None else fds p fd)"
  by (induction opened arbitrary: p) (auto simp: close_fd_def)

text \<open>The common part of the functions, on the table after the pipes are made.\<close>

lemma spawn_child_failed:
  assumes "spawn_child calls opened as argv p = (None, q)"
  shows "live_actions q = live_actions p" "children q = children p" "pipes_made q = pipes_made p"
    "fds q = (\<lambda>fd. if fd \<in> set opened then None else fds p fd)"
  using assms
  by (auto simp: spawn_child_def posix_spawn_def actions_destroy_def Let_def
      split: if_splits option.splits prod.splits)

lemma spawn_child_started:
  assumes "spawn_child calls opened as argv p = (Some pid, q)"
  obtains t where "spawn_steps as (fds p) = Some t" "live_actions q = live_actions p"
    "children q = children p @ [\<lparr>child_argv = argv, child_fds = exec_fds t\<rparr>]"
    "pipes_made q = pipes_made p" "fds q = fds p"
  using assms
  by (auto simp: spawn_child_def posix_spawn_def actions_destroy_def Let_def
      split: if_splits option.splits prod.splits)

text \<open>The pipe, with both ends closed on exec where the flags could be set.\<close>

definition piped :: "capture_calls \<Rightarrow> process \<Rightarrow> int \<Rightarrow> int \<Rightarrow> process \<Rightarrow> bool" where
  "piped calls p r w q \<longleftrightarrow> fds p r = None \<and> fds p w = None \<and> r \<noteq> w
     \<and> fds q = (fds p)(r \<mapsto> \<lparr>opened_file = Read_End (pipes_made p), cloexec = flags_ok calls r\<rparr>,
         w \<mapsto> \<lparr>opened_file = Write_End (pipes_made p), cloexec = flags_ok calls w\<rparr>)
     \<and> pipes_made q = pipes_made p + 1 \<and> live_actions q = live_actions p \<and> children q = children p"

lemma open_pipe_piped:
  assumes "open_pipe calls p = Some ((r, w), p')" "sound_pipe calls"
  shows "piped calls p r w (v_os_execute_set_cloexec calls w (v_os_execute_set_cloexec calls r p'))"
  using assms
  by (auto simp: open_pipe_def piped_def sound_pipe_def v_os_execute_set_cloexec_def fun_eq_iff
      split: option.splits)

text \<open>The file actions, where the pipe did not take the place of a standard descriptor.\<close>

lemma exec_after_actions:
  assumes "piped calls p r w q" "fds p 1 \<noteq> None" "fds p 2 \<noteq> None"
  defines "output \<equiv> Some \<lparr>opened_file = Write_End (pipes_made p), cloexec = False\<rparr>"
  shows "spawn_steps [Dup2 w 1, Dup2 w 2, Close r, Close w] (fds q)
      = Some ((fds p)(1 := output, 2 := output))"
    "fold fork_step [Dup2 w 1, Dup2 w 2, Close r, Close w] (fds q)
      = (fds p)(1 := output, 2 := output)"
proof -
  have "r \<noteq> 1" "r \<noteq> 2" "w \<noteq> 1" "w \<noteq> 2" using assms(1-3) by (auto simp: piped_def)
  then show "spawn_steps [Dup2 w 1, Dup2 w 2, Close r, Close w] (fds q)
      = Some ((fds p)(1 := output, 2 := output))"
    "fold fork_step [Dup2 w 1, Dup2 w 2, Close r, Close w] (fds q)
      = (fds p)(1 := output, 2 := output)"
    using assms(1) unfolding output_def by (auto simp: piped_def fun_eq_iff)
qed

text \<open>The number of a new pipe is on no descriptor yet, and so on none that is inherited.\<close>

lemma new_pipe_unused:
  assumes "wf_process p" "pipes_made p \<le> n"
  shows "fds p fd = Some d \<Longrightarrow> opened_file d \<noteq> Write_End n"
    "exec_fds (fds p) fd = Some d \<Longrightarrow> opened_file d \<noteq> Write_End n"
proof -
  have unused: "opened_file d \<noteq> Write_End n" if "fds p fd = Some d" for fd d
    using assms that by (fastforce simp: wf_process_def)
  then show "fds p fd = Some d \<Longrightarrow> opened_file d \<noteq> Write_End n" .
  show "exec_fds (fds p) fd = Some d \<Longrightarrow> opened_file d \<noteq> Write_End n"
    using unused by (auto simp: exec_fds_apply split: option.splits if_splits)
qed

lemma exec_fds_output:
  "exec_fds (t(1 := output, 2 := output)) = (exec_fds t)(1 := exec_fds (\<lambda>_. output) 0, 2 := exec_fds (\<lambda>_. output) 0)"
  by (auto simp: exec_fds_def)

lemma close_both:
  assumes "piped calls p r w q" "wf_process p"
  shows "nothing_left p (close_fd w (close_fd r q))"
  using assms by (auto simp: nothing_left_def piped_def close_fd_def fun_eq_iff wf_process_def
      intro: less_SucI)

lemma keep_read_end:
  assumes "piped calls p r w q" "wf_process p"
    and "t = (fds p)(1 \<mapsto> \<lparr>opened_file = Write_End (pipes_made p), cloexec = False\<rparr>,
      2 \<mapsto> \<lparr>opened_file = Write_End (pipes_made p), cloexec = False\<rparr>)"
    and "fds q' = fds q" "live_actions q' = live_actions q" "pipes_made q' = pipes_made q"
    and "children q' = children q @ [\<lparr>child_argv = argv, child_fds = exec_fds t\<rparr>]"
  shows "captures calls argv p (Some (pid, r), close_fd w q')"
proof -
  have "wf_process (close_fd w q')"
    using assms by (auto simp: wf_process_def piped_def close_fd_def intro: less_SucI)
  moreover have "fds (close_fd w q') = (fds p)
      (r \<mapsto> \<lparr>opened_file = Read_End (pipes_made p), cloexec = flags_ok calls r\<rparr>)"
    using assms(1,4) by (auto simp: piped_def close_fd_def fun_eq_iff)
  moreover have "live_actions (close_fd w q') = live_actions p" "children (close_fd w q')
      = children p @ [\<lparr>child_argv = argv, child_fds = exec_fds t\<rparr>]"
    using assms(1,5,7) by (simp_all add: piped_def close_fd_def)
  moreover from calculation(2,4) have "child_writes (pipes_made p) {1, 2} (close_fd w q')"
    using new_pipe_unused [OF assms(2) order_refl]
    by (auto simp: child_writes_def assms(3) exec_fds_output exec_fds_apply split: if_splits)
  ultimately show ?thesis
    using assms(1,3) by (simp add: captures_def piped_def Let_def exec_fds_output exec_fds_apply)
qed

lemma nothing_left_refl: "wf_process p \<Longrightarrow> nothing_left p p"
  by (simp add: nothing_left_def)

lemma capture_body:
  assumes "piped calls p r w q" "wf_process p" "fds p 1 \<noteq> None" "fds p 2 \<noteq> None"
    and "spawn_child calls [r, w] [Dup2 w 1, Dup2 w 2, Close r, Close w] argv q = (started, q')"
  shows "captures calls argv p (case started of None \<Rightarrow> (None, q')
    | Some pid \<Rightarrow> (Some (pid, r), close_fd w q'))"
proof (cases started)
  case None
  have "nothing_left p q'"
    using spawn_child_failed [OF assms(5) [unfolded None]] assms(1,2)
    by (auto simp: nothing_left_def piped_def fun_eq_iff wf_process_def intro: less_SucI)
  then show ?thesis using None by (simp add: captures_def)
next
  case (Some pid)
  obtain t where t: "spawn_steps [Dup2 w 1, Dup2 w 2, Close r, Close w] (fds q) = Some t"
    "live_actions q' = live_actions q" "pipes_made q' = pipes_made q" "fds q' = fds q"
    "children q' = children q @ [\<lparr>child_argv = argv, child_fds = exec_fds t\<rparr>]"
    using spawn_child_started [OF assms(5) [unfolded Some]] by metis
  show ?thesis
    using keep_read_end [OF assms(1,2) _ t(4,2,3,5)] exec_after_actions(1) [OF assms(1,3,4)] t(1) Some
    by simp
qed

lemma fork_body:
  assumes "sound_pipe calls" "wf_process p" "fds p 1 \<noteq> None" "fds p 2 \<noteq> None"
  shows "captures calls argv p (fork_capture calls argv p)"
proof (cases "open_pipe calls p")
  case None
  then show ?thesis
    using assms(2) by (simp add: fork_capture_def captures_def nothing_left_refl)
next
  case (Some opened)
  obtain r w p' where opened: "opened = ((r, w), p')" by (metis prod.exhaust)
  define q where "q = v_os_execute_set_cloexec calls w (v_os_execute_set_cloexec calls r p')"
  have piped: "piped calls p r w q"
    unfolding q_def using open_pipe_piped Some opened assms(1) by blast
  show ?thesis
    using keep_read_end [OF piped assms(2) refl, of "q\<lparr>children := children q
        @ [\<lparr>child_argv = argv, child_fds = exec_fds _\<rparr>]\<rparr>" argv]
      exec_after_actions(2) [OF piped assms(3,4)] close_both [OF piped assms(2)] Some opened
    by (simp add: fork_capture_def Let_def q_def [symmetric] captures_def [of _ _ _ "(None, _)"]
        del: fold_simps split: option.split)
qed

lemma spawn_captures:
  assumes "sound_pipe calls" "wf_process p" "fds p 1 \<noteq> None" "fds p 2 \<noteq> None"
  shows "captures calls av p (case open_pipe calls p of None \<Rightarrow> (None, p)
     | Some ((r, w), p) \<Rightarrow>
         let p = v_os_execute_set_cloexec calls w (v_os_execute_set_cloexec calls r p);
             (started, p) = spawn_child calls [r, w] [Dup2 w 1, Dup2 w 2, Close r, Close w] av p
         in case started of
           None \<Rightarrow> (None, p)
         | Some pid \<Rightarrow> (Some (pid, r), close_fd w p))"
proof (cases "open_pipe calls p")
  case None
  then show ?thesis using assms(2) by (simp add: captures_def nothing_left_refl)
next
  case (Some opened)
  obtain r w p' where opened: "opened = ((r, w), p')" by (metis prod.exhaust)
  from open_pipe_piped [OF Some [unfolded opened] assms(1)] show ?thesis
    using capture_body [OF _ assms(2-4)] Some opened by (simp add: Let_def split: prod.split)
qed

lemma exec_captures:
  assumes "sound_pipe calls" "wf_process p" "fds p 1 \<noteq> None" "fds p 2 \<noteq> None"
  shows "captures calls (the argv) p (v_os_exec_capture_start calls argv p)"
  using spawn_captures [OF assms, of "the argv"] assms(2)
  by (simp add: v_os_exec_capture_start_def captures_def nothing_left_refl)

subsection \<open>Other threads\<close>

lemma open_pipe_fresh:
  assumes "open_pipe calls p = Some ((r, w), q)" "sound_pipe calls"
  shows "fds p r = None" "fds p w = None" "r \<noteq> w"
    "fds q = (fds p)(r \<mapsto> \<lparr>opened_file = Read_End (pipes_made p), cloexec = False\<rparr>,
       w \<mapsto> \<lparr>opened_file = Write_End (pipes_made p), cloexec = False\<rparr>)"
    "wf_process p \<Longrightarrow> wf_process q"
proof -
  have fresh: "pipe_answer calls (fds p) = Some (r, w)" "pipes_made q = Suc (pipes_made p)"
    and q: "fds q = (fds p)(r \<mapsto> \<lparr>opened_file = Read_End (pipes_made p), cloexec = False\<rparr>,
       w \<mapsto> \<lparr>opened_file = Write_End (pipes_made p), cloexec = False\<rparr>)"
    using assms(1) by (auto simp: open_pipe_def split: option.splits)
  show "fds p r = None" "fds p w = None" "r \<noteq> w"
    using fresh(1) assms(2) unfolding sound_pipe_def by blast+
  show "wf_process q" if "wf_process p"
    using that fresh(2) q by (auto simp: wf_process_def intro: less_SucI split: if_splits)
  show "fds q = (fds p)(r \<mapsto> \<lparr>opened_file = Read_End (pipes_made p), cloexec = False\<rparr>,
       w \<mapsto> \<lparr>opened_file = Write_End (pipes_made p), cloexec = False\<rparr>)" by (rule q)
qed

lemma inherited:
  assumes "sound_pipe calls" "wf_process q" "fds q 1 \<noteq> None" "fds q 2 \<noteq> None"
    and "v_os_exec_capture_start calls argv q = (Some started, q')"
    and "child_fds (last (children q')) fd = Some d"
  shows "fds q fd = Some d \<and> \<not> cloexec d \<or> opened_file d = Write_End (pipes_made q)"
proof -
  have "child_fds (last (children q')) = (exec_fds (fds q))
      (1 \<mapsto> \<lparr>opened_file = Write_End (pipes_made q), cloexec = False\<rparr>,
       2 \<mapsto> \<lparr>opened_file = Write_End (pipes_made q), cloexec = False\<rparr>)"
    using exec_captures [OF assms(1-4), of argv] assms(5)
    by (simp add: captures_def Let_def split: prod.splits)
  with assms(6) show ?thesis by (auto simp: exec_fds_apply split: if_splits option.splits)
qed

text \<open>Once both ends of a pipe are closed on exec, no child that another thread starts has an end of it,
  so its end alone decides when the output ends.
\<close>

theorem cloexec_shields:
  assumes "sound_pipe calls" "wf_process p" "fds p 1 \<noteq> None" "fds p 2 \<noteq> None"
    and "open_pipe calls p = Some ((r, w), p')" "flags_ok calls r" "flags_ok calls w"
    and "v_os_exec_capture_start calls argv
      (v_os_execute_set_cloexec calls w (v_os_execute_set_cloexec calls r p')) = (Some started, q')"
    and "child_fds (last (children q')) fd = Some d"
  shows "pipe_of (opened_file d) \<noteq> Some (pipes_made p)"
proof -
  let ?q = "v_os_execute_set_cloexec calls w (v_os_execute_set_cloexec calls r p')"
  note piped = open_pipe_piped [OF assms(5,1)]
  have q: "wf_process ?q" "fds ?q 1 \<noteq> None" "fds ?q 2 \<noteq> None" "pipes_made ?q = Suc (pipes_made p)"
    using assms(2-4) piped by (auto simp: piped_def wf_process_def intro: less_SucI)
  from inherited [OF assms(1) q(1-3) assms(8,9)] show ?thesis
  proof
    assume d: "fds ?q fd = Some d \<and> \<not> cloexec d"
    then have "fds p fd = Some d" using assms(6,7) piped by (auto simp: piped_def split: if_splits)
    then show ?thesis using assms(2) by (auto simp: wf_process_def)
  qed (simp add: q(4))
qed

text \<open>
  Between the two calls the pipe is not protected yet: a child that another thread starts then keeps
  the write end open.
\<close>

theorem cloexec_window:
  assumes "sound_pipe calls" "wf_process p" "fds p 1 \<noteq> None" "fds p 2 \<noteq> None"
    and "open_pipe calls p = Some ((r, w), q)"
    and "v_os_exec_capture_start calls argv q = (Some started, q')"
  shows "\<exists>d. child_fds (last (children q')) w = Some d \<and> opened_file d = Write_End (pipes_made p)"
proof -
  note q = open_pipe_fresh [OF assms(5,1)]
  have "w \<noteq> 1" "w \<noteq> 2" "fds q 1 \<noteq> None" "fds q 2 \<noteq> None" using q(1-4) assms(3,4) by auto
  with exec_captures [OF assms(1) q(5) [OF assms(2)], of argv] show ?thesis
    using assms(6) q(4) by (simp add: captures_def Let_def exec_fds_apply split: prod.splits)
qed

subsection \<open>With an input pipe\<close>

definition captures_input ::
    "capture_calls \<Rightarrow> string list \<Rightarrow> process \<Rightarrow> (int \<times> int \<times> int) option \<times> process \<Rightarrow> bool" where
  "captures_input calls argv p result = (case result of
       (None, q) \<Rightarrow> nothing_left p q
     | (Some (pid, r, w), q) \<Rightarrow>
         let n = pipes_made p;
             input = Some \<lparr>opened_file = Read_End (Suc n), cloexec = False\<rparr>;
             output = Some \<lparr>opened_file = Write_End n, cloexec = False\<rparr>
         in fds p r = None \<and> fds p w = None \<and> r \<noteq> w
           \<and> fds q = (fds p)(r \<mapsto> \<lparr>opened_file = Read_End n, cloexec = flags_ok calls r\<rparr>,
               w \<mapsto> \<lparr>opened_file = Write_End (Suc n), cloexec = flags_ok calls w\<rparr>)
           \<and> live_actions q = live_actions p
           \<and> children q = children p @ [\<lparr>child_argv = argv,
               child_fds = (exec_fds (fds p))(0 := input, 1 := output, 2 := output)\<rparr>]
           \<and> child_writes n {1, 2} q
           \<and> (\<forall>fd d. child_fds (last (children q)) fd = Some d \<longrightarrow> opened_file d \<noteq> Write_End (Suc n))
           \<and> wf_process q)"

definition piped_twice ::
    "capture_calls \<Rightarrow> process \<Rightarrow> int \<Rightarrow> int \<Rightarrow> int \<Rightarrow> int \<Rightarrow> process \<Rightarrow> bool" where
  "piped_twice calls p out_r out_w in_r in_w q \<longleftrightarrow>
     fds p out_r = None \<and> fds p out_w = None \<and> fds p in_r = None \<and> fds p in_w = None
     \<and> distinct [out_r, out_w, in_r, in_w]
     \<and> fds q = (fds p)
         (out_r \<mapsto> \<lparr>opened_file = Read_End (pipes_made p), cloexec = flags_ok calls out_r\<rparr>,
          out_w \<mapsto> \<lparr>opened_file = Write_End (pipes_made p), cloexec = flags_ok calls out_w\<rparr>,
          in_r \<mapsto> \<lparr>opened_file = Read_End (Suc (pipes_made p)), cloexec = flags_ok calls in_r\<rparr>,
          in_w \<mapsto> \<lparr>opened_file = Write_End (Suc (pipes_made p)), cloexec = flags_ok calls in_w\<rparr>)
     \<and> pipes_made q = pipes_made p + 2 \<and> live_actions q = live_actions p \<and> children q = children p"

lemma set_cloexec_parts [simp]:
  "fds (v_os_execute_set_cloexec calls fd p) = (fds p)(fd := map_option
     (\<lambda>d. if flags_ok calls fd then d\<lparr>cloexec := True\<rparr> else d) (fds p fd))"
  "pipes_made (v_os_execute_set_cloexec calls fd p) = pipes_made p"
  "live_actions (v_os_execute_set_cloexec calls fd p) = live_actions p"
  "children (v_os_execute_set_cloexec calls fd p) = children p"
  by (auto simp: v_os_execute_set_cloexec_def option.map_ident)

lemma open_pipe_parts:
  assumes "open_pipe calls p = Some ((r, w), q)"
  shows "pipes_made q = Suc (pipes_made p)" "live_actions q = live_actions p"
    "children q = children p"
  using assms by (auto simp: open_pipe_def split: option.splits)

lemma open_pipes_piped:
  assumes "open_pipe calls p = Some ((out_r, out_w), p1)" "sound_pipe calls"
    and "open_pipe calls p1 = Some ((in_r, in_w), p2)"
  shows "piped_twice calls p out_r out_w in_r in_w
    (fold (v_os_execute_set_cloexec calls) [out_r, out_w, in_r, in_w] p2)"
proof -
  note one = open_pipe_fresh(1-4) [OF assms(1,2)] open_pipe_parts [OF assms(1)]
  note two = open_pipe_fresh(1-4) [OF assms(3,2)] open_pipe_parts [OF assms(3)]
  have "distinct [out_r, out_w, in_r, in_w]" "fds p in_r = None" "fds p in_w = None"
    using one(3,4) two(1-3) by (auto split: if_splits)
  then show ?thesis
    using one two by (simp add: piped_twice_def fun_upd_twist)
qed

lemma close_four:
  assumes "piped_twice calls p out_r out_w in_r in_w q" "wf_process p"
    and "pipes_made q' = pipes_made q" "live_actions q' = live_actions q" "children q' = children q"
    and "fds q' = (\<lambda>fd. if fd \<in> set [out_r, out_w, in_r, in_w] then None else fds q fd)"
  shows "nothing_left p q'"
proof -
  have "fds q' = fds p" using assms(1,6) by (auto simp: piped_twice_def fun_eq_iff)
  moreover from this have "wf_process q'"
    using assms(1,2,3) by (fastforce simp: piped_twice_def wf_process_def)
  ultimately show ?thesis using assms(1,4,5) by (simp add: nothing_left_def piped_twice_def)
qed

lemma exec_after_input_actions:
  assumes "piped_twice calls p out_r out_w in_r in_w q"
    and "fds p 0 \<noteq> None" "fds p 1 \<noteq> None" "fds p 2 \<noteq> None"
  defines "output \<equiv> Some \<lparr>opened_file = Write_End (pipes_made p), cloexec = False\<rparr>"
  defines "input \<equiv> Some \<lparr>opened_file = Read_End (Suc (pipes_made p)), cloexec = False\<rparr>"
  shows "spawn_steps [Dup2 in_r 0, Dup2 out_w 1, Dup2 out_w 2, Close in_r, Close in_w, Close out_r,
      Close out_w] (fds q) = Some ((fds p)(0 := input, 1 := output, 2 := output))"
proof -
  have "{0, 1, 2} \<inter> {out_r, out_w, in_r, in_w} = {}"
    using assms(1-4) by (auto simp: piped_twice_def)
  then show ?thesis
    using assms(1) unfolding output_def input_def
    by (simp add: piped_twice_def) (auto simp: fun_eq_iff)
qed

lemma keep_outer_ends:
  assumes "piped_twice calls p out_r out_w in_r in_w q" "wf_process p"
    and "fds q' = fds q" "pipes_made q' = pipes_made q"
  shows "fds (close_fd in_r (close_fd out_w q')) = (fds p)
      (out_r \<mapsto> \<lparr>opened_file = Read_End (pipes_made p), cloexec = flags_ok calls out_r\<rparr>,
       in_w \<mapsto> \<lparr>opened_file = Write_End (Suc (pipes_made p)), cloexec = flags_ok calls in_w\<rparr>)"
    "wf_process (close_fd in_r (close_fd out_w q'))"
proof -
  show table: "fds (close_fd in_r (close_fd out_w q')) = (fds p)
      (out_r \<mapsto> \<lparr>opened_file = Read_End (pipes_made p), cloexec = flags_ok calls out_r\<rparr>,
       in_w \<mapsto> \<lparr>opened_file = Write_End (Suc (pipes_made p)), cloexec = flags_ok calls in_w\<rparr>)"
    using assms(1,3) by (auto simp: piped_twice_def close_fd_def fun_eq_iff)
  have "pipes_made (close_fd in_r (close_fd out_w q')) = pipes_made p + 2"
    using assms(1,4) by (simp add: piped_twice_def close_fd_def)
  then show "wf_process (close_fd in_r (close_fd out_w q'))"
    using assms(2) unfolding wf_process_def table by (fastforce split: if_splits)
qed

text \<open>The variant with an input pipe either leaves nothing behind or starts one child that reads from the
  second pipe and writes to the first; the caller keeps just the two other ends.
\<close>

lemma input_captures:
  assumes "sound_pipe calls" "wf_process p" "fds p 0 \<noteq> None" "fds p 1 \<noteq> None" "fds p 2 \<noteq> None"
  shows "captures_input calls (the argv) p (v_os_exec_capture_input_start calls argv p)"
proof (cases "argv = None \<or> argv = Some [] \<or> open_pipe calls p = None")
  case True
  then show ?thesis using assms(2)
    by (auto simp: v_os_exec_capture_input_start_def captures_input_def nothing_left_refl)
next
  case False
  then have argv: "\<not> (argv = None \<or> argv = Some [])" by blast
  from False obtain out_r out_w p1 where one: "open_pipe calls p = Some ((out_r, out_w), p1)"
    by (metis option.exhaust prod.exhaust)
  note fresh = open_pipe_fresh [OF one assms(1)] open_pipe_parts [OF one]
  show ?thesis
  proof (cases "open_pipe calls p1")
    case None
    have "nothing_left p (close_fd out_w (close_fd out_r p1))"
      using fresh assms(2) by (auto simp: nothing_left_def close_fd_def wf_process_def fun_eq_iff
          intro: less_SucI)
    then show ?thesis using None False one
      by (auto simp: v_os_exec_capture_input_start_def captures_input_def)
  next
    case (Some opened)
    obtain in_r in_w p2 where opened: "opened = ((in_r, in_w), p2)" by (metis prod.exhaust)
    define q where "q = fold (v_os_execute_set_cloexec calls) [out_r, out_w, in_r, in_w] p2"
    let ?actions = "[Dup2 in_r 0, Dup2 out_w 1, Dup2 out_w 2, Close in_r, Close in_w, Close out_r,
      Close out_w]"
    have piped: "piped_twice calls p out_r out_w in_r in_w q"
      unfolding q_def by (rule open_pipes_piped [OF one assms(1) Some [unfolded opened]])
    obtain started q' where spawned:
      "spawn_child calls [out_r, out_w, in_r, in_w] ?actions (the argv) q = (started, q')" by force
    have run: "v_os_exec_capture_input_start calls argv p = (case started of None \<Rightarrow> (None, q')
        | Some pid \<Rightarrow> (Some (pid, out_r, in_w), close_fd in_r (close_fd out_w q')))"
      using one Some opened spawned unfolding v_os_exec_capture_input_start_def if_not_P [OF argv]
      by (simp add: Let_def q_def)
    show ?thesis
    proof (cases started)
      case None
      have "nothing_left p q'"
        using close_four [OF piped assms(2)] spawn_child_failed [OF spawned [unfolded None]] by simp
      then show ?thesis using run None by (simp add: captures_input_def)
    next
      case (Some pid)
      obtain t where t: "spawn_steps ?actions (fds q) = Some t" "live_actions q' = live_actions q"
        "children q' = children q @ [\<lparr>child_argv = the argv, child_fds = exec_fds t\<rparr>]"
        "pipes_made q' = pipes_made q" "fds q' = fds q"
        using spawn_child_started [OF spawned [unfolded Some]] by metis
      have "exec_fds t = (exec_fds (fds p))
          (0 \<mapsto> \<lparr>opened_file = Read_End (Suc (pipes_made p)), cloexec = False\<rparr>,
           1 \<mapsto> \<lparr>opened_file = Write_End (pipes_made p), cloexec = False\<rparr>,
           2 \<mapsto> \<lparr>opened_file = Write_End (pipes_made p), cloexec = False\<rparr>)"
      proof -
        have "t = (fds p)(0 \<mapsto> \<lparr>opened_file = Read_End (Suc (pipes_made p)), cloexec = False\<rparr>,
           1 \<mapsto> \<lparr>opened_file = Write_End (pipes_made p), cloexec = False\<rparr>,
           2 \<mapsto> \<lparr>opened_file = Write_End (pipes_made p), cloexec = False\<rparr>)"
          using exec_after_input_actions [OF piped assms(3-5)] t(1) by (simp only: option.inject)
        then show ?thesis by (auto simp: exec_fds_def)
      qed
      moreover from this have "child_writes (pipes_made p) {1, 2} (close_fd in_r (close_fd out_w q'))"
          "\<forall>fd d. exec_fds t fd = Some d \<longrightarrow> opened_file d \<noteq> Write_End (Suc (pipes_made p))"
        using new_pipe_unused [OF assms(2), of "pipes_made p"] new_pipe_unused [OF assms(2), of "Suc (pipes_made p)"]
          keep_outer_ends(1) [OF piped assms(2) t(5,4)] t(3)
        by (auto simp: child_writes_def split: if_splits) (auto simp: close_fd_def split: if_splits)
      ultimately show ?thesis
        using keep_outer_ends [OF piped assms(2) t(5,4)] piped t(2,3) run Some
        by (simp add: captures_input_def Let_def piped_twice_def) (simp add: close_fd_def)
    qed
  qed
qed

subsection \<open>Every capture\<close>

text \<open>C22: Every function that starts a child with captured output, for a caller whose standard output and
  error are open (and whose standard input is, for the variant with an input pipe): it either fails and
  leaves no descriptor, no file action object and no child behind, or starts one child with exactly the
  descriptors of \<open>captures\<close> or \<open>captures_input\<close> and leaves the caller just its ends. Of the caller and
  that child only the child's output and error output write to the output pipe, and only the caller to
  the input pipe. What children of other threads inherit between \<^verbatim>\<open>pipe\<close> and the setting of the flags is
  not part of this (\<open>cloexec_window\<close>).
\<close>

theorem capture_started:
  assumes "sound_pipe calls" "wf_process p" "fds p 1 \<noteq> None" "fds p 2 \<noteq> None"
  shows "captures calls [''/bin/sh'', ''-c'', cmd] p (v_os_execute_capture_start calls cmd p)
    \<and> captures calls (the argv) p (v_os_exec_capture_start calls argv p)
    \<and> captures calls [''sh'', ''-c'', cmd] p (fork_execute_capture_start calls cmd p)
    \<and> captures calls (the argv) p (fork_exec_capture_start calls argv p)
    \<and> (fds p 0 \<noteq> None \<longrightarrow> captures_input calls (the argv) p (v_os_exec_capture_input_start calls argv p))"
  using spawn_captures [OF assms, of "[''/bin/sh'', ''-c'', cmd]"] exec_captures [OF assms]
    fork_body [OF assms] assms(2) input_captures [OF assms(1,2) _ assms(3,4)]
  by (simp add: v_os_execute_capture_start_def fork_execute_capture_start_def
      fork_exec_capture_start_def captures_def [of _ _ _ "(None, _)"] nothing_left_refl)

subsection \<open>Writing\<close>

text \<open>What a file has received after a write of \<open>n\<close> characters, and that an error changes nothing.\<close>

definition writes :: "(string \<Rightarrow> ('w, int) state) \<Rightarrow> ('w \<Rightarrow> string) \<Rightarrow> bool" where
  "writes write_fd received \<longleftrightarrow> (\<forall>s w. let (n, w') = run_state (write_fd s) w in
     n \<le> int (length s) \<and> received w' = received w @ take (nat n) s)"

text \<open>The write loop ends, after at most as many calls as characters. It has written a prefix, and all of
  the text unless the last call failed; it does not tell which.
\<close>

theorem fd_write_all_prefix:
  assumes "writes write_fd received" "length s < fuel"
  shows "\<exists>k w'. run_state (v_os_fd_write_all write_fd fuel s) w = (Some (), w')
    \<and> received w' = received w @ take k s
    \<and> (k < length s \<longrightarrow> (\<exists>u. fst (run_state (write_fd (drop k s)) u) \<le> 0))"
  using assms(2)
proof (induction fuel arbitrary: s w)
  case (Suc fuel)
  obtain n w1 where step: "run_state (write_fd s) w = (n, w1)" by force
  then have n: "n \<le> int (length s)" "received w1 = received w @ take (nat n) s"
    using assms(1) by (auto simp: writes_def Let_def dest!: spec [of _ s] spec [of _ w])
  consider "s = []" | (stop) "s \<noteq> []" "n \<le> 0" | (on) "s \<noteq> []" "n > 0" by linarith
  then show ?case
  proof cases
    case stop
    then show ?thesis using step n
      by (intro exI [of _ 0] exI [of _ w1]) (auto simp: State_Monad.bind_def intro!: exI [of _ w])
  next
    case on
    have shorter: "length (drop (nat n) s) < fuel" using Suc.prems on by (cases s) auto
    obtain k w' where rest: "run_state (v_os_fd_write_all write_fd fuel (drop (nat n) s)) w1 = (Some (), w')"
      "received w' = received w1 @ take k (drop (nat n) s)"
      "k < length (drop (nat n) s)
        \<longrightarrow> (\<exists>u. fst (run_state (write_fd (drop k (drop (nat n) s))) u) \<le> 0)"
      using Suc.IH [of "drop (nat n) s" w1, OF shorter] by blast
    have "take (nat n) s @ take k (drop (nat n) s) = take (nat n + k) s" by (simp add: take_add)
    then show ?thesis using on step n rest
      by (intro exI [of _ "nat n + k"] exI [of _ w']) (auto simp: State_Monad.bind_def add.commute)
  qed simp
qed simp

end
