(* ===== verification/Execute_Capture_Demo.thy ===== *)
theory Execute_Capture_Demo
  imports Execute_Capture_Props
begin

text \<open>A process whose \<^verbatim>\<open>pipe\<close> takes the lowest free descriptors, as POSIX has it.\<close>

definition lowest_pipe :: "fd_table \<Rightarrow> (int \<times> int) option" where
  "lowest_pipe t = (case filter (\<lambda>fd. t fd = None) [0, 1, 2, 3, 4, 5, 6, 7] of
     r # w # _ \<Rightarrow> Some (r, w) | _ \<Rightarrow> None)"

definition demo_calls :: capture_calls where
  "demo_calls = \<lparr>pipe_answer = lowest_pipe, flags_ok = (\<lambda>_. True), init_ok = True,
     add_ok = (\<lambda>_. True), spawn_answer = (\<lambda>_. Some 4711)\<rparr>"

definition terminal :: descriptor where
  "terminal = \<lparr>opened_file = Other_File 0, cloexec = False\<rparr>"

definition demo_process :: "fd_table \<Rightarrow> process" where
  "demo_process t = \<lparr>fds = t, pipes_made = 0, live_actions = 0, children = []\<rparr>"

abbreviation standard_fds :: fd_table where
  "standard_fds \<equiv> [0 \<mapsto> terminal, 1 \<mapsto> terminal, 2 \<mapsto> terminal]"

lemma demo_sound: "sound_pipe demo_calls"
proof -
  have "t r = None \<and> t w = None \<and> r \<noteq> w" if "lowest_pipe t = Some (r, w)" for t r w
  proof -
    define free where "free = filter (\<lambda>fd. t fd = None) [0, 1, 2, 3, 4, 5, 6, 7 :: int]"
    have "(case free of r # w # _ \<Rightarrow> Some (r, w) | _ \<Rightarrow> None) = Some (r, w)"
      using that unfolding lowest_pipe_def free_def .
    then obtain rest where found: "free = r # w # rest" by (auto split: list.splits)
    have "distinct free" by (simp add: free_def)
    moreover have "set free \<subseteq> {fd. t fd = None}" unfolding free_def by auto
    ultimately show ?thesis unfolding found by simp
  qed
  then show ?thesis by (auto simp: sound_pipe_def demo_calls_def)
qed

lemma demo_wf: "wf_process (demo_process standard_fds)"
  by (auto simp: wf_process_def demo_process_def terminal_def split: if_splits)

theorem capture_started_witness:
  "captures demo_calls [''/bin/sh'', ''-c'', ''ls''] (demo_process standard_fds)
      (v_os_execute_capture_start demo_calls ''ls'' (demo_process standard_fds))
    \<and> captures_input demo_calls [''cat''] (demo_process standard_fds)
      (v_os_exec_capture_input_start demo_calls (Some [''cat'']) (demo_process standard_fds))"
  using capture_started [OF demo_sound demo_wf, of "''ls''" "Some [''cat'']"] by (simp add: demo_process_def)

text \<open>The child of another thread, started while the first pipe exists.\<close>

definition shared_process :: "bool \<Rightarrow> process" where
  "shared_process protected = demo_process (standard_fds
     (3 \<mapsto> \<lparr>opened_file = Read_End 0, cloexec = protected\<rparr>,
      4 \<mapsto> \<lparr>opened_file = Write_End 0, cloexec = protected\<rparr>))\<lparr>pipes_made := 1\<rparr>"

lemma shared_protected:
  "v_os_execute_set_cloexec demo_calls 4 (v_os_execute_set_cloexec demo_calls 3 (shared_process False))
    = shared_process True"
  by (simp add: v_os_execute_set_cloexec_def shared_process_def demo_process_def demo_calls_def
      fun_upd_twist)

lemma shared_opened: "open_pipe demo_calls (demo_process standard_fds) = Some ((3, 4), shared_process False)"
  by (simp add: open_pipe_def shared_process_def demo_process_def demo_calls_def lowest_pipe_def)

lemma shared_start:
  "v_os_exec_capture_start demo_calls (Some [''cat'']) (shared_process b) =
    (Some (4711, 5), snd (v_os_exec_capture_start demo_calls (Some [''cat'']) (shared_process b)))"
  by (simp add: v_os_exec_capture_start_def open_pipe_def shared_process_def demo_process_def
      demo_calls_def lowest_pipe_def spawn_child_def posix_spawn_def v_os_execute_set_cloexec_def
      terminal_def Let_def)

theorem cloexec_window_witness:
  "\<exists>d. child_fds (last (children (snd (v_os_exec_capture_start demo_calls (Some [''cat''])
    (shared_process False))))) 4 = Some d \<and> opened_file d = Write_End 0"
  using cloexec_window [OF demo_sound demo_wf _ _ shared_opened shared_start]
  by (simp add: demo_process_def)

theorem cloexec_shields_witness:
  "\<exists>d. child_fds (last (children (snd (v_os_exec_capture_start demo_calls (Some [''cat''])
    (shared_process True))))) 1 = Some d \<and> pipe_of (opened_file d) \<noteq> Some 0"
proof -
  let ?q = "snd (v_os_exec_capture_start demo_calls (Some [''cat'']) (shared_process True))"
  have "\<exists>d. child_fds (last (children ?q)) 1 = Some d"
    by (simp add: v_os_exec_capture_start_def open_pipe_def shared_process_def demo_process_def
        demo_calls_def lowest_pipe_def spawn_child_def posix_spawn_def v_os_execute_set_cloexec_def
        terminal_def exec_fds_def Let_def actions_destroy_def close_fd_def)
  then obtain d where "child_fds (last (children ?q)) 1 = Some d" by blast
  with cloexec_shields [OF demo_sound demo_wf _ _ shared_opened _ _
      shared_start [of True, folded shared_protected] this [folded shared_protected]] show ?thesis
    by (simp add: demo_process_def demo_calls_def)
qed

text \<open>A caller that has closed its standard output gets it back as the read end of the pipe. The file
  action that closes the read end in the child then closes the output it has just set up: the child
  is started, without an output to capture.
\<close>

theorem closed_output_is_lost:
  "case v_os_execute_capture_start demo_calls cmd (demo_process [0 \<mapsto> terminal, 2 \<mapsto> terminal]) of
     (result, q) \<Rightarrow> result = Some (4711, 1) \<and> fds q 1 = Some \<lparr>opened_file = Read_End 0, cloexec = True\<rparr>
       \<and> child_fds (last (children q)) 1 = None"
  by (simp add: v_os_execute_capture_start_def open_pipe_def demo_process_def demo_calls_def
      lowest_pipe_def spawn_child_def posix_spawn_def v_os_execute_set_cloexec_def terminal_def
      exec_fds_def Let_def actions_destroy_def close_fd_def)

text \<open>A write that is interrupted by a signal ends the loop, with nothing written.\<close>

definition interrupted_write :: "string \<Rightarrow> (string \<times> nat, int) state" where
  "interrupted_write s = State (\<lambda>(got, interrupts).
     if interrupts > 0 then (-1, (got, interrupts - 1))
     else (int (length s), (got @ s, interrupts)))"

theorem fd_write_all_interrupted:
  "run_state (v_os_fd_write_all interrupted_write 10 ''hello'') ([], 1) = (Some (), ([], 0))"
  by (simp add: interrupted_write_def State_Monad.bind_def State_Monad.return_def eval_nat_numeral)

theorem fd_write_all_prefix_witness:
  "\<exists>k w'. run_state (v_os_fd_write_all interrupted_write 10 ''hello'') ([], 0) = (Some (), w')
    \<and> fst w' = take k ''hello''"
proof -
  have "writes interrupted_write fst" by (auto simp: writes_def interrupted_write_def)
  from fd_write_all_prefix [OF this, of "''hello''" 10 "([], 0)"] show ?thesis by force
qed

end
