(* ===== verification/X11_Input.thy ===== *)
theory X11_Input
  imports Prelude "HOL-Library.Monad_Syntax"
begin

unbundle bit_operations_syntax

text \<open>
  Input events on X11 (\<^verbatim>\<open>x/multiwindow/x11_egl_backend_helpers.h\<close>): what the backend reads from an
  event, modifiers and mouse buttons, and the key codes, which are a table from the scan codes of the
  keyboard, made from the names of its keys, and the key symbols as a fallback. The numbers of masks,
  symbols and shapes are those of the X11 headers. A table is a list, and an access outside it makes
  the result \<open>None\<close>.
\<close>

subsection \<open>Events\<close>

text \<open>
  \<open>Key_Event\<close> has: pressed, window, key code, state, time. \<open>Button_Event\<close>: pressed, window, button, state,
  x, y. \<open>Motion_Event\<close> and \<open>Crossing_Event\<close>: window, state, x, y, with entered before. \<open>Focus_Event\<close>:
  focused, window, mode. \<open>Property_Event\<close>: window, atom, state.
\<close>

datatype x_event =
    Key_Event bool u64 u32 u32 u64
  | Button_Event bool u64 u32 u32 int int
  | Motion_Event u64 u32 int int
  | Crossing_Event bool u64 u32 int int
  | Focus_Event bool u64 int
  | Client_Event u64
  | Configure_Event u64
  | Map_Event u64
  | Unmap_Event u64
  | Destroy_Event u64
  | Property_Event u64 u64 int
  | Other_Event int

fun event_window :: "x_event \<Rightarrow> u64" where
  "event_window (Key_Event _ w _ _ _) = w" |
  "event_window (Button_Event _ w _ _ _ _) = w" |
  "event_window (Motion_Event w _ _ _) = w" |
  "event_window (Crossing_Event _ w _ _ _) = w" |
  "event_window (Focus_Event _ w _) = w" |
  "event_window (Client_Event w) = w" |
  "event_window (Configure_Event w) = w" |
  "event_window (Map_Event w) = w" |
  "event_window (Unmap_Event w) = w" |
  "event_window (Destroy_Event w) = w" |
  "event_window (Property_Event w _ _) = w" |
  "event_window (Other_Event _) = 0"

fun property_atom :: "x_event \<Rightarrow> u64" where
  "property_atom (Property_Event _ a _) = a" |
  "property_atom _ = 0"

fun property_state :: "x_event \<Rightarrow> int" where
  "property_state (Property_Event _ _ s) = s" |
  "property_state _ = -1"

fun event_x :: "x_event \<Rightarrow> int" where
  "event_x (Button_Event _ _ _ _ x y) = x" |
  "event_x (Motion_Event _ _ x y) = x" |
  "event_x (Crossing_Event _ _ _ x y) = x" |
  "event_x _ = 0"

fun event_y :: "x_event \<Rightarrow> int" where
  "event_y (Button_Event _ _ _ _ x y) = y" |
  "event_y (Motion_Event _ _ x y) = y" |
  "event_y (Crossing_Event _ _ _ x y) = y" |
  "event_y _ = 0"

fun event_state :: "x_event \<Rightarrow> u32" where
  "event_state (Key_Event _ _ _ s _) = s" |
  "event_state (Button_Event _ _ _ s _ _) = s" |
  "event_state (Motion_Event _ s _ _) = s" |
  "event_state (Crossing_Event _ _ s _ _) = s" |
  "event_state _ = 0"

fun event_keycode :: "x_event \<Rightarrow> u32" where
  "event_keycode (Key_Event _ _ k _ _) = k" |
  "event_keycode _ = 0"

fun event_button :: "x_event \<Rightarrow> u32" where
  "event_button (Button_Event _ _ b _ _ _) = b" |
  "event_button _ = 0"

fun focus_mode :: "x_event \<Rightarrow> int" where
  "focus_mode (Focus_Event _ _ m) = m" |
  "focus_mode _ = -1"

definition is_notify_grab_or_ungrab :: "int \<Rightarrow> bool" where
  "is_notify_grab_or_ungrab mode \<longleftrightarrow> mode = 1 \<or> mode = 2"

text \<open>\<open>pending\<close> is the queue of events behind this one.\<close>

definition is_auto_repeat_release :: "bool \<Rightarrow> x_event list \<Rightarrow> x_event option \<Rightarrow> bool" where
  "is_auto_repeat_release has_display pending event = (case (event, pending) of
       (Some (Key_Event False w k _ t), Key_Event True w' k' _ t' # _) \<Rightarrow>
         has_display \<and> w' = w \<and> k' = k \<and> t' = t
     | _ \<Rightarrow> False)"

subsection \<open>Modifiers and buttons\<close>

definition modifiers :: "u32 \<Rightarrow> u32" where
  "modifiers state =
     (if state AND 1 \<noteq> 0 then 1 else 0) OR
     (if state AND 4 \<noteq> 0 then 2 else 0) OR
     (if state AND 8 \<noteq> 0 then 4 else 0) OR
     (if state AND 0x40 \<noteq> 0 then 8 else 0) OR
     (if state AND 0x100 \<noteq> 0 then 0x100 else 0) OR
     (if state AND 0x400 \<noteq> 0 then 0x200 else 0) OR
     (if state AND 0x200 \<noteq> 0 then 0x400 else 0)"

definition key_modifier_bit :: "int \<Rightarrow> u32" where
  "key_modifier_bit key_code =
     (if key_code = 340 \<or> key_code = 344 then 1
      else if key_code = 341 \<or> key_code = 345 then 2
      else if key_code = 342 \<or> key_code = 346 then 4
      else if key_code = 343 \<or> key_code = 347 then 8
      else 0)"

definition mouse_button :: "u32 \<Rightarrow> int" where
  "mouse_button button =
     (if button = 1 then 0 else if button = 3 then 1 else if button = 2 then 2 else 256)"

definition button_modifier_bit :: "int \<Rightarrow> u32" where
  "button_modifier_bit button =
     (if button = 0 then 0x100 else if button = 1 then 0x200 else if button = 2 then 0x400 else 0)"

text \<open>The glyph of the cursor font for a cursor shape.\<close>

definition cursor_shapes :: "(int \<times> int) list" where
  "cursor_shapes = [(1, 60), (2, 52), (15, 52), (16, 52), (20, 52), (17, 152), (18, 34), (19, 0),
     (3, 138), (4, 16), (5, 96), (6, 70), (7, 136), (8, 134), (9, 14), (10, 12), (11, 108), (12, 116),
     (13, 136), (14, 134)]"

definition cursor_font_shape :: "int \<Rightarrow> int" where
  "cursor_font_shape shape = (case map_of cursor_shapes shape of Some glyph \<Rightarrow> glyph | None \<Rightarrow> 68)"

subsection \<open>Key symbols\<close>

definition keysym_codes :: "(int \<times> int) list" where
  "keysym_codes =
    [(0x20, 32), (0x27, 39), (0x2c, 44), (0x2d, 45), (0x2e, 46),
     (0x2f, 47), (0x3b, 59), (0x3d, 61), (0x5b, 91), (0x5c, 92),
     (0x5d, 93), (0x60, 96), (0x3c, 161), (0xff1b, 256), (0xff0d, 257),
     (0xff09, 258), (0xfe20, 258), (0xff08, 259), (0xff63, 260), (0xffff, 261),
     (0xff53, 262), (0xff51, 263), (0xff54, 264), (0xff52, 265), (0xff55, 266),
     (0xff56, 267), (0xff50, 268), (0xff57, 269), (0xffe5, 280), (0xff14, 281),
     (0xff7f, 282), (0xff61, 283), (0xff13, 284), (0xffae, 330), (0xffac, 330),
     (0xff9f, 330), (0xffaf, 331), (0xffaa, 332), (0xffad, 333), (0xffab, 334),
     (0xff8d, 335), (0xffbd, 336), (0xff9e, 320), (0xff9c, 321), (0xff99, 322),
     (0xff9b, 323), (0xff96, 324), (0xff98, 326), (0xff95, 327), (0xff97, 328),
     (0xff9a, 329), (0xffe1, 340), (0xffe3, 341), (0xffe9, 342), (0xffe7, 342),
     (0xffeb, 343), (0xffe2, 344), (0xffe4, 345), (0xff7e, 346), (0xfe03, 346),
     (0xffea, 346), (0xffe8, 346), (0xffec, 347), (0xff67, 348)]"

definition key_code_from_keysym :: "int \<Rightarrow> int" where
  "key_code_from_keysym keysym =
     (if 0x61 \<le> keysym \<and> keysym \<le> 0x7a then keysym - 0x61 + 65
      else if 0x41 \<le> keysym \<and> keysym \<le> 0x5a then keysym - 0x41 + 65
      else if 0x30 \<le> keysym \<and> keysym \<le> 0x39 then keysym - 0x30 + 48
      else if 0xffbe \<le> keysym \<and> keysym \<le> 0xffd6 then keysym - 0xffbe + 290
      else if 0xffb0 \<le> keysym \<and> keysym \<le> 0xffb9 then keysym - 0xffb0 + 320
      else case map_of keysym_codes keysym of Some code \<Rightarrow> code | None \<Rightarrow> 0)"

definition keypad_codes :: "(int \<times> int) list" where
  "keypad_codes =
    [(0xffb0, 320), (0xffb1, 321), (0xffb2, 322), (0xffb3, 323), (0xffb4, 324),
     (0xffb5, 325), (0xffb6, 326), (0xffb7, 327), (0xffb8, 328), (0xffb9, 329),
     (0xffac, 330), (0xffae, 330), (0xffbd, 336), (0xff8d, 335)]"

definition at_index :: "'a list \<Rightarrow> int \<Rightarrow> 'a option" where
  "at_index xs i = (if 0 \<le> i \<and> i < int (length xs) then Some (xs ! nat i) else None)"

text \<open>\<open>keysyms\<close> is the array of all symbols, of which the function gets a pointer to \<open>base\<close>.\<close>

definition key_code_from_keysyms :: "int list option \<Rightarrow> int \<Rightarrow> int \<Rightarrow> int option" where
  "key_code_from_keysyms keysyms base width = (case keysyms of
       None \<Rightarrow> Some 0
     | Some symbols \<Rightarrow>
         if width \<le> 0 then Some 0 else do {
           keypad \<leftarrow> (if width > 1 then do {
                symbol \<leftarrow> at_index symbols (base + 1);
                Some (map_of keypad_codes symbol) }
              else Some None);
           case keypad of
             Some code \<Rightarrow> Some code
           | None \<Rightarrow> do { symbol \<leftarrow> at_index symbols base; Some (key_code_from_keysym symbol) } })"

subsection \<open>The table of key codes\<close>

text \<open>A key name has four characters, filled up with zeros.\<close>

definition key_name :: "string \<Rightarrow> string" where
  "key_name s = take 4 (s @ [CHR 0x00, CHR 0x00, CHR 0x00, CHR 0x00])"

definition keymap :: "(int \<times> string) list" where
  "keymap =
    [(96, key_name ''TLDE''), (49, key_name ''AE01''), (50, key_name ''AE02''), (51, key_name ''AE03''),
     (52, key_name ''AE04''), (53, key_name ''AE05''), (54, key_name ''AE06''), (55, key_name ''AE07''),
     (56, key_name ''AE08''), (57, key_name ''AE09''), (48, key_name ''AE10''), (45, key_name ''AE11''),
     (61, key_name ''AE12''), (81, key_name ''AD01''), (87, key_name ''AD02''), (69, key_name ''AD03''),
     (82, key_name ''AD04''), (84, key_name ''AD05''), (89, key_name ''AD06''), (85, key_name ''AD07''),
     (73, key_name ''AD08''), (79, key_name ''AD09''), (80, key_name ''AD10''), (91, key_name ''AD11''),
     (93, key_name ''AD12''), (65, key_name ''AC01''), (83, key_name ''AC02''), (68, key_name ''AC03''),
     (70, key_name ''AC04''), (71, key_name ''AC05''), (72, key_name ''AC06''), (74, key_name ''AC07''),
     (75, key_name ''AC08''), (76, key_name ''AC09''), (59, key_name ''AC10''), (39, key_name ''AC11''),
     (90, key_name ''AB01''), (88, key_name ''AB02''), (67, key_name ''AB03''), (86, key_name ''AB04''),
     (66, key_name ''AB05''), (78, key_name ''AB06''), (77, key_name ''AB07''), (44, key_name ''AB08''),
     (46, key_name ''AB09''), (47, key_name ''AB10''), (92, key_name ''BKSL''), (161, key_name ''LSGT''),
     (32, key_name ''SPCE''), (256, key_name ''ESC''), (257, key_name ''RTRN''), (258, key_name ''TAB''),
     (259, key_name ''BKSP''), (260, key_name ''INS''), (261, key_name ''DELE''), (262, key_name ''RGHT''),
     (263, key_name ''LEFT''), (264, key_name ''DOWN''), (265, key_name ''UP''), (266, key_name ''PGUP''),
     (267, key_name ''PGDN''), (268, key_name ''HOME''), (269, key_name ''END''), (280, key_name ''CAPS''),
     (281, key_name ''SCLK''), (282, key_name ''NMLK''), (283, key_name ''PRSC''), (284, key_name ''PAUS''),
     (290, key_name ''FK01''), (291, key_name ''FK02''), (292, key_name ''FK03''), (293, key_name ''FK04''),
     (294, key_name ''FK05''), (295, key_name ''FK06''), (296, key_name ''FK07''), (297, key_name ''FK08''),
     (298, key_name ''FK09''), (299, key_name ''FK10''), (300, key_name ''FK11''), (301, key_name ''FK12''),
     (302, key_name ''FK13''), (303, key_name ''FK14''), (304, key_name ''FK15''), (305, key_name ''FK16''),
     (306, key_name ''FK17''), (307, key_name ''FK18''), (308, key_name ''FK19''), (309, key_name ''FK20''),
     (310, key_name ''FK21''), (311, key_name ''FK22''), (312, key_name ''FK23''), (313, key_name ''FK24''),
     (314, key_name ''FK25''), (320, key_name ''KP0''), (321, key_name ''KP1''), (322, key_name ''KP2''),
     (323, key_name ''KP3''), (324, key_name ''KP4''), (325, key_name ''KP5''), (326, key_name ''KP6''),
     (327, key_name ''KP7''), (328, key_name ''KP8''), (329, key_name ''KP9''), (330, key_name ''KPDL''),
     (331, key_name ''KPDV''), (332, key_name ''KPMU''), (333, key_name ''KPSU''), (334, key_name ''KPAD''),
     (335, key_name ''KPEN''), (336, key_name ''KPEQ''), (340, key_name ''LFSH''), (341, key_name ''LCTL''),
     (342, key_name ''LALT''), (343, key_name ''LWIN''), (344, key_name ''RTSH''), (345, key_name ''RCTL''),
     (346, key_name ''RALT''), (346, key_name ''LVL3''), (346, key_name ''MDSW''), (347, key_name ''RWIN''),
     (348, key_name ''MENU'')]"

definition find_key :: "string \<Rightarrow> int" where
  "find_key name = (case find (\<lambda>(_, n). n = name) keymap of Some (key, _) \<Rightarrow> key | None \<Rightarrow> 0)"

text \<open>An alias is the real name and the other one.\<close>

fun alias_key :: "string \<Rightarrow> (string \<times> string) list \<Rightarrow> int" where
  "alias_key name [] = 0" |
  "alias_key name ((real_name, alias) # aliases) =
     (if real_name \<noteq> name then alias_key name aliases
      else let key = find_key alias in if key \<noteq> 0 then key else alias_key name aliases)"

record xkb_desc =
  names_ok :: bool
  desc_min :: int
  desc_max :: int
  key_names :: "string list option"
  key_aliases :: "(string \<times> string) list option"

text \<open>\<open>symbol_map\<close> answers \<^verbatim>\<open>XGetKeyboardMapping\<close>: the symbols from a first code on, and how many per code.\<close>

record keyboard =
  min_code :: int
  max_code :: int
  xkb :: "xkb_desc option"
  symbol_map :: "int \<Rightarrow> int \<Rightarrow> (int list \<times> int) option"

text \<open>Blocks of the X library that are still to be freed.\<close>

record x_blocks =
  keyboard_blocks :: int
  names_blocks :: int
  symbols_blocks :: int

definition named_key :: "xkb_desc \<Rightarrow> int \<Rightarrow> int option" where
  "named_key desc scancode = (case key_names desc of
       None \<Rightarrow> None
     | Some names \<Rightarrow> do {
         name \<leftarrow> at_index names scancode;
         let key = find_key name;
         Some (if key = 0 then
           (case key_aliases desc of Some aliases \<Rightarrow> alias_key name aliases | None \<Rightarrow> 0) else key) })"

definition store :: "int \<Rightarrow> int \<Rightarrow> int list \<Rightarrow> int list option" where
  "store i x xs = (if 0 \<le> i \<and> i < int (length xs) then Some (xs[nat i := x]) else None)"

text \<open>The passes over the scan codes, given as the list of codes the loops visit.\<close>

fun name_pass :: "xkb_desc \<Rightarrow> int list \<Rightarrow> int list \<Rightarrow> int list option" where
  "name_pass desc [] keycodes = Some keycodes" |
  "name_pass desc (scancode # rest) keycodes =
     (if scancode < 0 \<or> key_names desc = None then name_pass desc rest keycodes
      else do {
        key \<leftarrow> named_key desc scancode;
        keycodes \<leftarrow> store scancode key keycodes;
        name_pass desc rest keycodes })"

fun symbol_pass :: "int list \<Rightarrow> int \<Rightarrow> int \<Rightarrow> int list \<Rightarrow> int list \<Rightarrow> int list option" where
  "symbol_pass symbols per_code first [] keycodes = Some keycodes" |
  "symbol_pass symbols per_code first (scancode # rest) keycodes = do {
     old \<leftarrow> at_index keycodes scancode;
     if old = 0 then do {
       key \<leftarrow> key_code_from_keysyms (Some symbols) ((scancode - first) * per_code) per_code;
       keycodes \<leftarrow> store scancode key keycodes;
       symbol_pass symbols per_code first rest keycodes }
     else symbol_pass symbols per_code first rest keycodes }"

text \<open>The names: the range of codes that counts from here on, and the table.\<close>

definition read_names ::
    "keyboard \<Rightarrow> int list \<Rightarrow> x_blocks \<Rightarrow> ((int \<times> int) \<times> int list \<times> x_blocks) option" where
  "read_names kb keycodes live = (case xkb kb of
       None \<Rightarrow> Some ((min_code kb, max_code kb), keycodes, live)
     | Some desc \<Rightarrow>
         let live = live\<lparr>keyboard_blocks := keyboard_blocks live + 1\<rparr>
         in if names_ok desc then
           let live = live\<lparr>names_blocks := names_blocks live + 1\<rparr> in do {
             keycodes \<leftarrow> name_pass desc
               [desc_min desc .. min (desc_max desc) (int (length keycodes) - 1)] keycodes;
             let live = live\<lparr>names_blocks := names_blocks live - 1\<rparr>;
             Some ((desc_min desc, desc_max desc), keycodes,
               live\<lparr>keyboard_blocks := keyboard_blocks live - 1\<rparr>) }
         else Some ((min_code kb, max_code kb), keycodes,
           live\<lparr>keyboard_blocks := keyboard_blocks live - 1\<rparr>))"

definition init_keycodes :: "keyboard option \<Rightarrow> int list option \<Rightarrow> (int list \<times> x_blocks) option" where
  "init_keycodes display table =
     (let live = \<lparr>keyboard_blocks = 0, names_blocks = 0, symbols_blocks = 0\<rparr>
      in case table of
        None \<Rightarrow> Some ([], live)
      | Some keycodes \<Rightarrow>
          if keycodes = [] then Some ([], live) else
          let keycodes = map (\<lambda>_. 0) keycodes
          in case display of
            None \<Rightarrow> Some (keycodes, live)
          | Some kb \<Rightarrow> do {
              ((low, high), keycodes, live) \<leftarrow> read_names kb keycodes live;
              let low = max low 0;
              let high = (if high \<ge> int (length keycodes) then int (length keycodes) - 1 else high);
              if low > high then Some (keycodes, live)
              else case symbol_map kb low (high - low + 1) of
                None \<Rightarrow> Some (keycodes, live)
              | Some (symbols, per_code) \<Rightarrow>
                  let live = live\<lparr>symbols_blocks := symbols_blocks live + 1\<rparr> in do {
                    keycodes \<leftarrow> symbol_pass symbols per_code low [low .. high] keycodes;
                    Some (keycodes, live\<lparr>symbols_blocks := symbols_blocks live - 1\<rparr>) } })"

text \<open>\<open>keysym\<close> is the first symbol of the event's key.\<close>

definition key_code :: "int \<Rightarrow> u32 \<Rightarrow> int list option \<Rightarrow> int" where
  "key_code keysym scancode keycodes =
     (let code = key_code_from_keysym keysym
      in if 256 \<le> code \<and> code \<le> 348 then code
      else case keycodes of
        None \<Rightarrow> code
      | Some table \<Rightarrow>
          if uint scancode < int (length table) \<and> table ! unat scancode \<noteq> 0
          then table ! unat scancode else code)"

end
