(* ===== verification/X11_Input_Props.thy ===== *)
theory X11_Input_Props
  imports X11_Input
begin

text \<open>The modifiers of the two sources agree, and what the table of key codes holds.\<close>

subsection \<open>Modifiers\<close>

lemma mask_bits:
  "(s :: u32) AND 1 \<noteq> 0 \<longleftrightarrow> bit s 0" "s AND 4 \<noteq> 0 \<longleftrightarrow> bit s 2" "s AND 8 \<noteq> 0 \<longleftrightarrow> bit s 3"
  "s AND 0x40 \<noteq> 0 \<longleftrightarrow> bit s 6" "s AND 0x100 \<noteq> 0 \<longleftrightarrow> bit s 8" "s AND 0x200 \<noteq> 0 \<longleftrightarrow> bit s 9"
  "s AND 0x400 \<noteq> 0 \<longleftrightarrow> bit s 10"
  using and_exp_eq_0_iff_not_bit [of s 0] and_exp_eq_0_iff_not_bit [of s 2]
    and_exp_eq_0_iff_not_bit [of s 3] and_exp_eq_0_iff_not_bit [of s 6]
    and_exp_eq_0_iff_not_bit [of s 8] and_exp_eq_0_iff_not_bit [of s 9]
    and_exp_eq_0_iff_not_bit [of s 10] by simp_all

lemma exp_bit: "c = 2 ^ k \<Longrightarrow> k < 32 \<Longrightarrow> bit (c :: u32) n \<longleftrightarrow> n = k"
  by (auto simp: bit_exp_iff)

lemma constant_bits:
  "bit (1 :: u32) n \<longleftrightarrow> n = 0" "bit (2 :: u32) n \<longleftrightarrow> n = 1" "bit (4 :: u32) n \<longleftrightarrow> n = 2"
  "bit (8 :: u32) n \<longleftrightarrow> n = 3" "bit (0x100 :: u32) n \<longleftrightarrow> n = 8" "bit (0x200 :: u32) n \<longleftrightarrow> n = 9"
  "bit (0x400 :: u32) n \<longleftrightarrow> n = 10"
  by (rule exp_bit; simp)+

lemma if_bits:
  "bit (if b then c else (0 :: u32)) n \<longleftrightarrow> b \<and> bit c n"
  by simp

lemma modifiers_bits:
  "bit (modifiers state) n \<longleftrightarrow> bit state 0 \<and> n = 0 \<or> bit state 2 \<and> n = 1 \<or> bit state 3 \<and> n = 2
    \<or> bit state 6 \<and> n = 3 \<or> bit state 8 \<and> n = 8 \<or> bit state 10 \<and> n = 9 \<or> bit state 9 \<and> n = 10"
  unfolding modifiers_def bit_or_iff if_bits constant_bits mask_bits by simp

text \<open>
  Each modifier bit stands for one mask bit of the X server, and the bit that a modifier key or a mouse
  button sets when it goes down is the one its mask bit is reported as.
\<close>

theorem modifiers_agree:
  "(bit (modifiers state) n \<longleftrightarrow>
      map_of [(0, 0), (1, 2), (2, 3), (3, 6), (8, 8), (9, 10), (10, 9)] n
        \<in> Some ` {k. bit state k})
   \<and> map (\<lambda>keysym. key_modifier_bit (key_code_from_keysym keysym))
       [0xffe1, 0xffe2, 0xffe3, 0xffe4, 0xffe9, 0xffea, 0xffeb, 0xffec]
     = map modifiers [1, 1, 4, 4, 8, 8, 0x40, 0x40]
   \<and> map (\<lambda>button. button_modifier_bit (mouse_button button)) [1, 2, 3]
     = map modifiers [0x100, 0x200, 0x400]"
proof (intro conjI)
  show "bit (modifiers state) n \<longleftrightarrow>
      map_of [(0, 0), (1, 2), (2, 3), (3, 6), (8, 8), (9, 10), (10, 9)] n
        \<in> Some ` {k. bit state k}"
    unfolding modifiers_bits by auto
  have "map key_code_from_keysym [0xffe1, 0xffe2, 0xffe3, 0xffe4, 0xffe9, 0xffea, 0xffeb, 0xffec]
      = [340, 344, 341, 345, 342, 346, 343, 347]"
    by code_simp
  then show "map (\<lambda>keysym. key_modifier_bit (key_code_from_keysym keysym))
      [0xffe1, 0xffe2, 0xffe3, 0xffe4, 0xffe9, 0xffea, 0xffeb, 0xffec]
    = map modifiers [1, 1, 4, 4, 8, 8, 0x40, 0x40]"
    by (simp add: key_modifier_bit_def modifiers_def)
qed (simp add: button_modifier_bit_def mouse_button_def modifiers_def)

subsection \<open>The table\<close>

lemma at_index_some [simp]: "0 \<le> i \<Longrightarrow> i < int (length xs) \<Longrightarrow> at_index xs i = Some (xs ! nat i)"
  by (simp add: at_index_def)

lemma store_some [simp]:
  "0 \<le> i \<Longrightarrow> i < int (length xs) \<Longrightarrow> store i x xs = Some (xs[nat i := x])"
  by (simp add: store_def)

lemma name_pass_result:
  assumes "\<forall>c \<in> set codes. 0 \<le> c \<and> c < int (length table)"
    and "key_names desc = Some names" "\<forall>c \<in> set codes. c < int (length names)"
  shows "\<exists>t. name_pass desc codes table = Some t \<and> length t = length table
    \<and> (\<forall>i < length table. t ! i = (if int i \<in> set codes then the (named_key desc (int i)) else table ! i))"
  using assms
proof (induction codes arbitrary: table)
  case (Cons c codes)
  obtain key where key: "named_key desc c = Some key"
    using Cons.prems by (auto simp: named_key_def Let_def)
  obtain t where t: "name_pass desc codes (table[nat c := key]) = Some t" "length t = length table"
    "\<forall>i < length table. t ! i = (if int i \<in> set codes then the (named_key desc (int i))
      else table[nat c := key] ! i)"
    using Cons.IH [of "table[nat c := key]"] Cons.prems by auto
  have "t ! i = (if int i \<in> set (c # codes) then the (named_key desc (int i)) else table ! i)"
    if "i < length table" for i
  proof -
    have "nat c = i \<longleftrightarrow> int i = c" using Cons.prems(1) by auto
    then show ?thesis using t(3) that key by (auto simp: nth_list_update)
  qed
  then show ?case using t(1,2) key Cons.prems by (auto simp: not_less)
qed simp

lemma symbol_pass_result:
  assumes "\<forall>c \<in> set codes. 0 \<le> c \<and> c < int (length table)"
    and "\<forall>c \<in> set codes. key_code_from_keysyms (Some symbols) ((c - first) * per_code) per_code = Some (key c)"
  shows "\<exists>t. symbol_pass symbols per_code first codes table = Some t \<and> length t = length table
    \<and> (\<forall>i < length table. t ! i = (if int i \<in> set codes \<and> table ! i = 0 then key (int i) else table ! i))"
  using assms
proof (induction codes arbitrary: table)
  case (Cons c codes)
  let ?t = "if table ! nat c = 0 then table[nat c := key c] else table"
  obtain t where t: "symbol_pass symbols per_code first codes ?t = Some t" "length t = length table"
    "\<forall>i < length table. t ! i = (if int i \<in> set codes \<and> ?t ! i = 0 then key (int i) else ?t ! i)"
  proof -
    have same: "length ?t = length table" by simp
    have "\<forall>c \<in> set codes. 0 \<le> c \<and> c < int (length table)" using Cons.prems(1) by simp
    then show ?thesis
      using Cons.IH [of ?t, unfolded same] Cons.prems(2) that by auto
  qed
  have "t ! i = (if int i \<in> set (c # codes) \<and> table ! i = 0 then key (int i) else table ! i)"
    if "i < length table" for i
  proof -
    have "nat c = i \<longleftrightarrow> int i = c" using Cons.prems(1) by auto
    then show ?thesis using t(3) that by (auto simp: nth_list_update)
  qed
  moreover have "symbol_pass symbols per_code first (c # codes) table = Some t"
    using t(1) Cons.prems by auto
  ultimately show ?case using t(2) by blast
qed simp

text \<open>
  A server that keeps the promises of the X library: the names reach to the largest code, and a
  symbol map has all the symbols that were asked for.
\<close>

definition sound_keyboard :: "keyboard \<Rightarrow> bool" where
  "sound_keyboard kb \<longleftrightarrow>
     (case xkb kb of None \<Rightarrow> True | Some desc \<Rightarrow> 0 \<le> desc_min desc \<and>
        (case key_names desc of None \<Rightarrow> True | Some names \<Rightarrow> desc_max desc < int (length names))) \<and>
     (\<forall>low n symbols per_code. symbol_map kb low n = Some (symbols, per_code) \<longrightarrow>
        n * per_code \<le> int (length symbols))"

text \<open>The key a scan code has by its name, its range, and the key it has by its symbols.\<close>

definition named :: "keyboard \<Rightarrow> int \<Rightarrow> int" where
  "named kb c = (case xkb kb of
       None \<Rightarrow> 0
     | Some desc \<Rightarrow>
         if names_ok desc \<and> desc_min desc \<le> c \<and> c \<le> desc_max desc
         then (case named_key desc c of None \<Rightarrow> 0 | Some key \<Rightarrow> key) else 0)"

definition code_range :: "keyboard \<Rightarrow> int \<Rightarrow> int \<times> int" where
  "code_range kb len = (let (low, high) = (case xkb kb of
       None \<Rightarrow> (min_code kb, max_code kb)
     | Some desc \<Rightarrow> if names_ok desc then (desc_min desc, desc_max desc) else (min_code kb, max_code kb))
     in (max low 0, min high (len - 1)))"

definition symbol_key :: "keyboard \<Rightarrow> int \<Rightarrow> int \<Rightarrow> int" where
  "symbol_key kb len c = (case code_range kb len of (low, high) \<Rightarrow>
     if c < low \<or> high < c then 0
     else case symbol_map kb low (high - low + 1) of
       None \<Rightarrow> 0
     | Some (symbols, per_code) \<Rightarrow>
         the (key_code_from_keysyms (Some symbols) ((c - low) * per_code) per_code))"

lemma from_keysyms_in_map:
  assumes "low \<le> c" "c \<le> high" "(high - low + 1) * per_code \<le> int (length symbols)"
  shows "\<exists>key. key_code_from_keysyms (Some symbols) ((c - low) * per_code) per_code = Some key"
proof (cases "per_code \<le> 0")
  case False
  have "(c - low + 1) * per_code \<le> (high - low + 1) * per_code"
    using assms(2) False by (intro mult_right_mono) simp_all
  then have room: "(c - low) * per_code + per_code \<le> int (length symbols)"
    using assms(3) by (simp add: algebra_simps)
  have "0 \<le> (c - low) * per_code" using assms(1) False by simp
  with room False show ?thesis
    by (cases "per_code > 1")
      (auto simp: key_code_from_keysyms_def split: option.split)
qed (simp add: key_code_from_keysyms_def)

lemma read_names_result:
  assumes "sound_keyboard kb" "table = replicate len 0" "0 < len"
  shows "\<exists>range t. read_names kb table live = Some (range, t, live) \<and> length t = len
    \<and> (max (fst range) 0, min (snd range) (int len - 1)) = code_range kb (int len)
    \<and> (\<forall>i < len. t ! i = named kb (int i))"
proof (cases "xkb kb")
  case None
  then show ?thesis using assms(2) by (simp add: read_names_def code_range_def named_def)
next
  case (Some desc)
  show ?thesis
  proof (cases "names_ok desc")
    case False
    then show ?thesis using Some assms(2) by (simp add: read_names_def code_range_def named_def)
  next
    case True
    let ?codes = "[desc_min desc..min (desc_max desc) (int len - 1)]"
    have "0 \<le> desc_min desc" using assms(1) Some by (simp add: sound_keyboard_def)
    then have codes: "\<forall>c \<in> set ?codes. 0 \<le> c \<and> c < int (length table)" using assms(2) by auto
    have "\<exists>t. name_pass desc ?codes table = Some t \<and> length t = len
        \<and> (\<forall>i < len. t ! i = named kb (int i))"
    proof (cases "key_names desc")
      case None
      have "name_pass desc cs table = Some table" for cs by (induction cs) (simp_all add: None)
      then show ?thesis using None Some assms(2) by (simp add: named_def named_key_def)
    next
      case (Some names)
      then have "\<forall>c \<in> set ?codes. c < int (length names)"
        using assms(1) \<open>xkb kb = Some desc\<close> by (auto simp: sound_keyboard_def)
      then obtain t where t: "name_pass desc ?codes table = Some t" "length t = length table"
        "\<forall>i < length table. t ! i = (if int i \<in> set ?codes then the (named_key desc (int i)) else table ! i)"
        using name_pass_result [OF codes Some] by blast
      have "named kb (int i) = (if int i \<in> set ?codes then the (named_key desc (int i)) else 0)"
        if "i < len" for i
        using that Some \<open>xkb kb = Some desc\<close> True assms(1)
        by (auto simp: named_def named_key_def sound_keyboard_def Let_def)
      then show ?thesis using t assms(2) by auto
    qed
    then show ?thesis using True Some assms(2) by (auto simp: read_names_def code_range_def)
  qed
qed

lemma init_keycodes_table:
  assumes "sound_keyboard kb" "table \<noteq> []"
  shows "\<exists>t. init_keycodes (Some kb) (Some table)
      = Some (t, \<lparr>keyboard_blocks = 0, names_blocks = 0, symbols_blocks = 0\<rparr>)
    \<and> length t = length table
    \<and> (\<forall>i < length table. t ! i = (if named kb (int i) \<noteq> 0 then named kb (int i)
        else symbol_key kb (int (length table)) (int i)))"
proof -
  let ?live = "\<lparr>keyboard_blocks = 0, names_blocks = 0, symbols_blocks = 0\<rparr>"
  let ?len = "length table"
  have zeros: "map (\<lambda>_. 0 :: int) table = replicate ?len 0" by (rule map_replicate_const)
  obtain low high t where names: "read_names kb (map (\<lambda>_. 0) table) ?live = Some ((low, high), t, ?live)"
    "length t = ?len" "(max low 0, min high (int ?len - 1)) = code_range kb (int ?len)"
    "\<forall>i < ?len. t ! i = named kb (int i)"
    using read_names_result [OF assms(1) zeros] assms(2) by (metis fst_conv length_greater_0_conv
        prod.exhaust_sel snd_conv)
  define first final where "first = max low 0" and "final = min high (int ?len - 1)"
  have clamp: "(if high \<ge> int (length t) then int (length t) - 1 else high) = final"
    using names(2) by (simp add: final_def)
  have range: "code_range kb (int ?len) = (first, final)"
    using names(3) by (simp add: first_def final_def)
  note run = init_keycodes_def Let_def clamp first_def [symmetric]
  show ?thesis
  proof (cases "first > final \<or> symbol_map kb first (final - first + 1) = None")
    case True
    then have "symbol_key kb (int ?len) (int i) = 0" if "i < ?len" for i
      using range that by (auto simp: symbol_key_def)
    moreover have "init_keycodes (Some kb) (Some table) = Some (t, ?live)"
      using True names(1) assms(2) by (auto simp: run)
    ultimately show ?thesis using names(2,4) by auto
  next
    case False
    then obtain symbols per_code where
      map: "symbol_map kb first (final - first + 1) = Some (symbols, per_code)" by auto
    have enough: "(final - first + 1) * per_code \<le> int (length symbols)"
      using assms(1) map unfolding sound_keyboard_def by blast
    let ?key = "\<lambda>c. the (key_code_from_keysyms (Some symbols) ((c - first) * per_code) per_code)"
    have codes: "\<forall>c \<in> set [first..final]. 0 \<le> c \<and> c < int (length t)" using names(2) by (auto simp: first_def final_def)
    have keys: "\<forall>c \<in> set [first..final].
        key_code_from_keysyms (Some symbols) ((c - first) * per_code) per_code = Some (?key c)"
      using from_keysyms_in_map [OF _ _ enough] by force
    obtain u where u: "symbol_pass symbols per_code first [first..final] t = Some u" "length u = length t"
      "\<forall>i < length t. u ! i = (if int i \<in> set [first..final] \<and> t ! i = 0 then ?key (int i) else t ! i)"
      using symbol_pass_result [OF codes keys] by blast
    have "symbol_key kb (int ?len) (int i) = (if int i \<in> set [first..final] then ?key (int i) else 0)" for i
      using range map by (simp add: symbol_key_def not_less)
    then have "u ! i = (if named kb (int i) \<noteq> 0 then named kb (int i)
        else symbol_key kb (int ?len) (int i))" if "i < ?len" for i
      using u(3) names(2,4) that by simp
    moreover have "init_keycodes (Some kb) (Some table) = Some (u, ?live)"
      using False map u(1) names(1) assms(2) by (simp add: run)
    ultimately show ?thesis using u(2) names(2) by auto
  qed
qed

text \<open>Filling the table ends without an access outside an array and frees every block of the X library.
  Each entry is the key that the scan code has by its name or an alias of it, and where it has none,
  by its symbols.
\<close>

theorem init_keycodes_exact:
  assumes "sound_keyboard kb" "table \<noteq> []"
  shows "\<exists>t. init_keycodes (Some kb) (Some table)
      = Some (t, \<lparr>keyboard_blocks = 0, names_blocks = 0, symbols_blocks = 0\<rparr>)
    \<and> length t = length table
    \<and> (\<forall>i < length table. t ! i = (if named kb (int i) \<noteq> 0 then named kb (int i)
        else symbol_key kb (int (length table)) (int i)))"
  by (rule init_keycodes_table [OF assms])

text \<open>The printable keys are positions: a key event is reported by the name of its key on the keyboard,
  whatever its symbol in the current layout is, as long as that is not the symbol of a function key.
\<close>

theorem key_code_by_position:
  assumes "sound_keyboard kb" "init_keycodes (Some kb) (Some table) = Some (t, live)"
    and "uint scancode < int (length table)" "named kb (uint scancode) \<noteq> 0"
    and "key_code_from_keysym keysym < 256"
  shows "key_code keysym scancode (Some t) = named kb (uint scancode)"
proof -
  have scancode: "uint scancode = int (unat scancode)" by (rule uint_nat)
  have inside: "unat scancode < length table" using assms(3) scancode by linarith
  then have "table \<noteq> []" by auto
  obtain u where u: "init_keycodes (Some kb) (Some table)
      = Some (u, \<lparr>keyboard_blocks = 0, names_blocks = 0, symbols_blocks = 0\<rparr>)"
    "length u = length table" "\<forall>i < length table. u ! i = (if named kb (int i) \<noteq> 0
      then named kb (int i) else symbol_key kb (int (length table)) (int i))"
    using init_keycodes_table [OF assms(1) \<open>table \<noteq> []\<close>] by blast
  have t: "u = t" using u(1) assms(2) by simp
  have "u ! unat scancode = (if named kb (uint scancode) \<noteq> 0 then named kb (uint scancode)
      else symbol_key kb (int (length table)) (uint scancode))"
    using u(3) inside unfolding scancode by blast
  then have "u ! unat scancode = named kb (uint scancode)" unfolding if_P [OF assms(4)] .
  then show ?thesis using t u(2) assms(3-5) by (simp add: key_code_def Let_def)
qed

text \<open>Every code is one of the key codes of the module, or 0 for an unknown key.\<close>

definition known_code :: "int \<Rightarrow> bool" where
  "known_code code \<longleftrightarrow> code = 0 \<or> 32 \<le> code \<and> code \<le> 96 \<or> code = 161 \<or> 256 \<le> code \<and> code \<le> 348"

lemma known_keysyms: "list_all known_code (map snd keysym_codes)"
  unfolding keysym_codes_def by (simp add: known_code_def)

lemma known_keypad: "list_all known_code (map snd keypad_codes)"
  unfolding keypad_codes_def by (simp add: known_code_def)

lemma known_keymap: "list_all known_code (map fst keymap)"
  unfolding keymap_def by (simp add: known_code_def)

lemma map_of_known: "list_all P (map snd xs) \<Longrightarrow> map_of xs k = Some v \<Longrightarrow> P v"
  by (force simp: list_all_iff dest!: map_of_SomeD)

lemma known_from_keysym: "known_code (key_code_from_keysym keysym)"
proof (cases "map_of keysym_codes keysym")
  case None
  then show ?thesis by (simp add: key_code_from_keysym_def known_code_def)
next
  case (Some code)
  then show ?thesis using map_of_known [OF known_keysyms Some]
    by (simp add: key_code_from_keysym_def) (simp add: known_code_def)
qed

lemma known_from_keysyms: "key_code_from_keysyms s base width = Some code \<Longrightarrow> known_code code"
  using map_of_known [OF known_keypad] known_from_keysym
  by (auto simp: key_code_from_keysyms_def known_code_def [of 0] bind_eq_Some_conv
      split: option.splits if_splits)

lemma known_find_key: "known_code (find_key name)"
proof (cases "find (\<lambda>(_, n). n = name) keymap")
  case (Some entry)
  then have "entry \<in> set keymap" by (metis find_Some_iff nth_mem)
  then have "known_code (fst entry)" using known_keymap by (simp add: list_all_iff)
  then show ?thesis using Some by (simp add: find_key_def split_beta)
qed (simp add: find_key_def known_code_def)

lemma known_alias_key: "known_code (alias_key name aliases)"
  by (induction name aliases rule: alias_key.induct)
    (simp_all add: known_find_key Let_def, simp add: known_code_def)

lemma known_named: "known_code (named kb c)"
  by (auto simp: named_def named_key_def Let_def known_find_key known_alias_key
      known_code_def [of 0] bind_eq_Some_conv split: option.splits)

theorem key_codes_known:
  assumes "sound_keyboard kb" "init_keycodes (Some kb) (Some table) = Some (t, live)"
  shows "list_all known_code t \<and> known_code (key_code keysym scancode (Some t))"
proof (cases "table = []")
  case True
  then show ?thesis using assms(2) known_from_keysym
    by (simp add: init_keycodes_def Let_def key_code_def not_less)
next
  case False
  have symbol: "known_code (symbol_key kb len c)" for len c
  proof (cases "code_range kb len")
    case (Pair low high)
    show ?thesis
    proof (cases "c < low \<or> high < c \<or> symbol_map kb low (high - low + 1) = None")
      case True
      then have "symbol_key kb len c = 0" using Pair by (auto simp: symbol_key_def)
      then show ?thesis by (simp add: known_code_def)
    next
      case False
      then obtain symbols per_code where
        map: "symbol_map kb low (high - low + 1) = Some (symbols, per_code)" by auto
      have "(high - low + 1) * per_code \<le> int (length symbols)"
        using assms(1) map unfolding sound_keyboard_def by blast
      with False obtain key where
        "key_code_from_keysyms (Some symbols) ((c - low) * per_code) per_code = Some key"
        using from_keysyms_in_map [of low c high] by (metis not_less)
      then show ?thesis using known_from_keysyms False Pair map by (simp add: symbol_key_def)
    qed
  qed
  have "list_all known_code t"
    using init_keycodes_table [OF assms(1) False] assms(2) known_named symbol
    by (auto simp: list_all_length)
  moreover have "unat scancode < length t" if "uint scancode < int (length t)"
    using that uint_nat [of scancode] by linarith
  ultimately show ?thesis using known_from_keysym
    by (simp add: key_code_def Let_def list_all_length)
qed

subsection \<open>A keyboard\<close>

text \<open>
  Return by its name, the key of \<open>q\<close> by an alias, and a key without a name the module knows. The layout
  is a French one.
\<close>

definition demo_keyboard :: keyboard where
  "demo_keyboard = \<lparr>min_code = 8, max_code = 255,
     xkb = Some \<lparr>names_ok = True, desc_min = 1, desc_max = 3,
       key_names = Some [''NONE'', ''RTRN'', ''LatQ'', ''I151''],
       key_aliases = Some [(''LatQ'', ''AD01'')]\<rparr>,
     symbol_map = (\<lambda>low n. Some (concat (replicate (nat n) [0x61, 0x41]), 2))\<rparr>"

lemma demo_keyboard_sound: "sound_keyboard demo_keyboard"
proof -
  have "n * 2 \<le> int (length (concat (replicate (nat n) [a, b])))" for n :: int and a b :: int
  proof -
    have "length (concat (replicate k [a, b])) = k * 2" for k by (induction k) simp_all
    then show ?thesis by simp
  qed
  then show ?thesis by (auto simp: sound_keyboard_def demo_keyboard_def)
qed

lemma demo_keys: "find_key ''RTRN'' = 257" "find_key ''AD01'' = 81"
  "find_key ''LatQ'' = 0" "find_key ''I151'' = 0" "find_key ''NONE'' = 0"
  by (simp_all add: find_key_def keymap_def key_name_def)

lemma demo_named: "named demo_keyboard 1 = 257" "named demo_keyboard 2 = 81"
  "named demo_keyboard 3 = 0" "named demo_keyboard 0 = 0"
  by (simp_all add: named_def demo_keyboard_def named_key_def at_index_def Let_def demo_keys)

text \<open>The last key falls back to its symbol, the letter a.\<close>

theorem init_keycodes_exact_witness:
  "init_keycodes (Some demo_keyboard) (Some [7, 7, 7, 7])
    = Some ([0, 257, 81, 65], \<lparr>keyboard_blocks = 0, names_blocks = 0, symbols_blocks = 0\<rparr>)"
proof -
  have symbol: "symbol_key demo_keyboard 4 3 = 65" "symbol_key demo_keyboard 4 0 = 0"
    by (simp_all add: symbol_key_def code_range_def demo_keyboard_def Let_def
        key_code_from_keysyms_def at_index_def keypad_codes_def key_code_from_keysym_def eval_nat_numeral)
  obtain t where t: "init_keycodes (Some demo_keyboard) (Some [7, 7, 7, 7])
      = Some (t, \<lparr>keyboard_blocks = 0, names_blocks = 0, symbols_blocks = 0\<rparr>)" "length t = 4"
    "\<forall>i < 4. t ! i = (if named demo_keyboard (int i) \<noteq> 0 then named demo_keyboard (int i)
      else symbol_key demo_keyboard 4 (int i))"
    using init_keycodes_exact [OF demo_keyboard_sound, of "[7, 7, 7, 7]"] by auto
  have "t ! 0 = 0" "t ! 1 = 257" "t ! 2 = 81" "t ! 3 = 65"
    using t(3) symbol demo_named by simp_all
  moreover have "t = [t ! 0, t ! 1, t ! 2, t ! 3]"
    using t(2) by (intro nth_equalityI) (auto simp: less_Suc_eq eval_nat_numeral)
  ultimately show ?thesis using t(1) by metis
qed

lemma demo_table: "\<exists>t live. init_keycodes (Some demo_keyboard) (Some [7, 7, 7, 7]) = Some (t, live)"
  using init_keycodes_table [OF demo_keyboard_sound, of "[7, 7, 7, 7]"] by blast

theorem key_code_by_position_witness:
  "\<exists>t live. init_keycodes (Some demo_keyboard) (Some [7, 7, 7, 7]) = Some (t, live)
    \<and> key_code 0x61 2 (Some t) = 81"
  using demo_table key_code_by_position [OF demo_keyboard_sound, of "[7, 7, 7, 7]" _ _ 2 "0x61"] demo_named
  by (auto simp: key_code_from_keysym_def)

theorem key_codes_known_witness:
  "\<exists>t live. init_keycodes (Some demo_keyboard) (Some [7, 7, 7, 7]) = Some (t, live)
    \<and> known_code (key_code 0xff0d 3 (Some t))"
  using demo_table key_codes_known [OF demo_keyboard_sound, of "[7, 7, 7, 7]"] by blast

end
