(* ===== verification/X11_Text.thy ===== *)
theory X11_Text
  imports Prelude "HOL-Library.Monad_Syntax"
begin

text \<open>
  The text of key events on X11: \<^verbatim>\<open>v_multiwindow_x11_utf8_decode_next\<close>, \<open>decode_utf8_codes\<close> and
  \<open>char_codes\<close> of \<^verbatim>\<open>x/multiwindow/x11_egl_backend_helpers.h\<close>. A buffer is the list of its bytes, with
  \<open>None\<close> for the null pointer; an access outside it makes the result \<open>None\<close>.
\<close>

subsection \<open>UTF-8\<close>

definition fetch :: "u8 list \<Rightarrow> int \<Rightarrow> u32 option" where
  "fetch bytes i = (if 0 \<le> i \<and> i < int (length bytes) then Some (ucast (bytes ! nat i)) else None)"

text \<open>The code point and the width of the sequence at \<open>i\<close>, 0 for none; the continuation bytes are not looked at.\<close>

definition decode_sequence :: "u8 list \<Rightarrow> int \<Rightarrow> int \<Rightarrow> (u32 \<times> int) option" where
  "decode_sequence bytes count i = do {
     b0 \<leftarrow> fetch bytes i;
     if b0 AND 0x80 = 0 then Some (b0, 1)
     else if b0 AND 0xe0 = 0xc0 \<and> i + 1 < count then do {
       b1 \<leftarrow> fetch bytes (i + 1);
       Some (push_bit 6 (b0 AND 0x1f) OR b1 AND 0x3f, 2) }
     else if b0 AND 0xf0 = 0xe0 \<and> i + 2 < count then do {
       b1 \<leftarrow> fetch bytes (i + 1);
       b2 \<leftarrow> fetch bytes (i + 2);
       Some (push_bit 12 (b0 AND 0x0f) OR push_bit 6 (b1 AND 0x3f) OR b2 AND 0x3f, 3) }
     else if b0 AND 0xf8 = 0xf0 \<and> i + 3 < count then do {
       b1 \<leftarrow> fetch bytes (i + 1);
       b2 \<leftarrow> fetch bytes (i + 2);
       b3 \<leftarrow> fetch bytes (i + 3);
       Some (push_bit 18 (b0 AND 0x07) OR push_bit 12 (b1 AND 0x3f) OR push_bit 6 (b2 AND 0x3f)
         OR b3 AND 0x3f, 4) }
     else Some (0, 0) }"

text \<open>The results are the new offset and the code point, if the function returns 1.\<close>

definition utf8_decode_next :: "u8 list option \<Rightarrow> int \<Rightarrow> int \<Rightarrow> (int \<times> u32 option) option" where
  "utf8_decode_next buf count offset = (case buf of
       None \<Rightarrow> Some (offset, None)
     | Some bytes \<Rightarrow>
         if offset \<ge> count then Some (offset, None) else do {
           (codepoint, width) \<leftarrow> decode_sequence bytes count offset;
           if width = 0 \<or> codepoint \<ge> 0xd800 \<and> codepoint \<le> 0xdfff \<or> codepoint \<ge> 0x110000
           then Some (offset + 1, None)
           else Some (offset + width, Some codepoint) })"

text \<open>
  The loop of \<open>decode_utf8_codes\<close>: \<open>codes\<close> is what has been stored, \<open>total_count\<close> the count of all code
  points. Without fuel the result is \<open>None\<close>.
\<close>

fun decode_codes_loop ::
    "u8 list option \<Rightarrow> int \<Rightarrow> int \<Rightarrow> nat \<Rightarrow> int \<Rightarrow> u32 list \<Rightarrow> int \<Rightarrow> (u32 list \<times> int) option" where
  "decode_codes_loop buf count codes_len 0 offset codes total_count = None" |
  "decode_codes_loop buf count codes_len (Suc fuel) offset codes total_count =
     (if offset < count then do {
        (offset, decoded) \<leftarrow> utf8_decode_next buf count offset;
        case decoded of
          None \<Rightarrow> decode_codes_loop buf count codes_len fuel offset codes total_count
        | Some codepoint \<Rightarrow>
            if codepoint \<noteq> 0 then
              decode_codes_loop buf count codes_len fuel offset
                (if int (length codes) < codes_len then codes @ [codepoint] else codes) (total_count + 1)
            else decode_codes_loop buf count codes_len fuel offset codes total_count }
      else Some (codes, total_count))"

definition decode_utf8_codes :: "u8 list option \<Rightarrow> int \<Rightarrow> int \<Rightarrow> nat \<Rightarrow> (u32 list \<times> int) option" where
  "decode_utf8_codes buf count codes_len fuel = decode_codes_loop buf count codes_len fuel 0 [] 0"

subsection \<open>The text of a key event\<close>

datatype lookup_status = Lookup_None | Lookup_Chars | Lookup_Keysym | Lookup_Both | Buffer_Overflow

definition XIM_STACK_BYTES :: int where "XIM_STACK_BYTES = 128"
definition XIM_MAX_BYTES :: int where "XIM_MAX_BYTES = 32768"

text \<open>
  \<open>lookup n len\<close> is the \<open>n\<close>th call of \<^verbatim>\<open>Xutf8LookupString\<close> with a buffer of \<open>len\<close> bytes: the buffer
  afterwards, the count and the status. \<open>live_blocks\<close> counts the allocated blocks.
\<close>

record char_event =
  has_ic :: bool
  is_key_press :: bool
  lookup_string :: "nat \<Rightarrow> int \<Rightarrow> u8 list \<times> int \<times> lookup_status"
  malloc_ok :: bool

record char_result =
  stored :: "u32 list"
  required_codes :: int
  live_blocks :: int

datatype char_buffer = Stack_Buffer | Heap_Block

definition free_buffer :: "char_buffer \<Rightarrow> int \<Rightarrow> int" where
  "free_buffer b blocks = (if b \<noteq> Stack_Buffer then blocks - 1 else blocks)"

text \<open>From the lookup whose result counts: the checks, the decoding and the release of the buffer.\<close>

definition char_codes_decode ::
    "char_buffer \<Rightarrow> int \<Rightarrow> int \<Rightarrow> u8 list \<times> int \<times> lookup_status \<Rightarrow> int \<Rightarrow> nat \<Rightarrow> char_result option" where
  "char_codes_decode b buf_len blocks found codes_len fuel = (case found of (buf, count, status) \<Rightarrow>
     if status \<noteq> Lookup_Chars \<and> status \<noteq> Lookup_Both \<or> count \<le> 0 \<or> count > buf_len
     then Some \<lparr>stored = [], required_codes = 0, live_blocks = free_buffer b blocks\<rparr>
     else do {
       (codes, total_count) \<leftarrow> decode_utf8_codes (Some buf) count codes_len fuel;
       Some \<lparr>stored = codes, required_codes = total_count, live_blocks = free_buffer b blocks\<rparr> })"

definition char_codes :: "char_event \<Rightarrow> bool \<Rightarrow> int \<Rightarrow> nat \<Rightarrow> char_result option" where
  "char_codes ev has_codes codes_len fuel =
     (if \<not> has_ic ev \<or> \<not> is_key_press ev \<or> \<not> has_codes \<or> codes_len \<le> 0
      then Some \<lparr>stored = [], required_codes = 0, live_blocks = 0\<rparr>
      else case lookup_string ev 0 XIM_STACK_BYTES of (buf, count, status) \<Rightarrow>
        if status = Buffer_Overflow then
          if count \<le> 0 \<or> count > XIM_MAX_BYTES \<or> \<not> malloc_ok ev
          then Some \<lparr>stored = [], required_codes = 0, live_blocks = 0\<rparr>
          else char_codes_decode Heap_Block count 1 (lookup_string ev 1 count) codes_len fuel
        else char_codes_decode Stack_Buffer XIM_STACK_BYTES 0 (buf, count, status) codes_len fuel)"

end
