(* ===== verification/X11_Text_Props.thy ===== *)
theory X11_Text_Props
  imports X11_Text
begin

text \<open>The decoder is total, stays in its buffers, and inverts the UTF-8 encoding of RFC 3629.\<close>

subsection \<open>Totality\<close>

lemma fetch_some [simp]:
  "0 \<le> i \<Longrightarrow> i < int (length bytes) \<Longrightarrow> fetch bytes i = Some (ucast (bytes ! nat i))"
  by (simp add: fetch_def)

lemma decode_sequence_total:
  assumes "0 \<le> i" "i < count" "count \<le> int (length bytes)"
  obtains codepoint width where "decode_sequence bytes count i = Some (codepoint, width)"
    "0 \<le> width" "i + width \<le> count"
proof -
  have "fetch bytes i \<noteq> None" "i + 1 < count \<Longrightarrow> fetch bytes (i + 1) \<noteq> None"
    "i + 2 < count \<Longrightarrow> fetch bytes (i + 2) \<noteq> None" "i + 3 < count \<Longrightarrow> fetch bytes (i + 3) \<noteq> None"
    using assms by simp_all
  then have "\<exists>codepoint width. decode_sequence bytes count i = Some (codepoint, width)
      \<and> 0 \<le> width \<and> i + width \<le> count"
    using assms by (auto simp: decode_sequence_def)
  with that show ?thesis by blast
qed

definition scalar :: "u32 \<Rightarrow> bool" where
  "scalar c \<longleftrightarrow> c < 0x110000 \<and> \<not> (0xd800 \<le> c \<and> c \<le> 0xdfff)"

lemma utf8_decode_next_total:
  assumes "0 \<le> offset" "offset < count" "count \<le> int (length bytes)"
  obtains offset' decoded where "utf8_decode_next (Some bytes) count offset = Some (offset', decoded)"
    "offset < offset'" "offset' \<le> count" "\<forall>c. decoded = Some c \<longrightarrow> scalar c"
proof -
  obtain codepoint width where "decode_sequence bytes count offset = Some (codepoint, width)"
    "0 \<le> width" "offset + width \<le> count"
    by (rule decode_sequence_total [OF assms])
  then have "\<exists>offset' decoded. utf8_decode_next (Some bytes) count offset = Some (offset', decoded)
      \<and> offset < offset' \<and> offset' \<le> count \<and> (\<forall>c. decoded = Some c \<longrightarrow> scalar c)"
    using assms by (auto simp: utf8_decode_next_def scalar_def not_less not_le)
  with that show ?thesis by blast
qed

lemma decode_codes_loop_total:
  assumes "0 \<le> offset" "count \<le> int (length bytes)" "max 0 (count - offset) < int fuel"
    and "int (length codes) \<le> codes_len" "int (length codes) = min total_count codes_len"
    and "\<forall>c \<in> set codes. scalar c \<and> c \<noteq> 0"
  shows "\<exists>codes' n. decode_codes_loop (Some bytes) count codes_len fuel offset codes total_count
      = Some (codes', n)
    \<and> total_count \<le> n \<and> n \<le> total_count + max 0 (count - offset)
    \<and> int (length codes') = min n codes_len \<and> (\<forall>c \<in> set codes'. scalar c \<and> c \<noteq> 0)"
  using assms
proof (induction fuel arbitrary: offset codes total_count)
  case (Suc fuel)
  show ?case
  proof (cases "offset < count")
    case True
    obtain offset' decoded where step: "utf8_decode_next (Some bytes) count offset = Some (offset', decoded)"
      "offset < offset'" "offset' \<le> count" and scalar: "\<forall>c. decoded = Some c \<longrightarrow> scalar c"
      by (rule utf8_decode_next_total [OF Suc.prems(1) True Suc.prems(2)])
    let ?keep = "decoded = None \<or> decoded = Some 0"
    let ?codes = "if ?keep then codes else
      if int (length codes) < codes_len then codes @ [the decoded] else codes"
    let ?n = "if ?keep then total_count else total_count + 1"
    have run: "decode_codes_loop (Some bytes) count codes_len (Suc fuel) offset codes total_count
        = decode_codes_loop (Some bytes) count codes_len fuel offset' ?codes ?n"
      using True step(1) by (auto split: option.split)
    have "\<exists>codes' n. decode_codes_loop (Some bytes) count codes_len fuel offset' ?codes ?n
        = Some (codes', n) \<and> ?n \<le> n \<and> n \<le> ?n + max 0 (count - offset')
      \<and> int (length codes') = min n codes_len \<and> (\<forall>c \<in> set codes'. scalar c \<and> c \<noteq> 0)"
      by (rule Suc.IH) (use Suc.prems step(2,3) scalar in \<open>auto simp: min_def\<close>)
    then show ?thesis unfolding run using step(2,3) by (fastforce split: if_splits)
  qed (use Suc.prems in auto)
qed simp

text \<open>
  Decoding any bytes ends without an access outside the buffer; what it stores are non-zero scalar
  values, as many as there are and fit, and the number reported is that of all of them.
\<close>

theorem decode_utf8_total:
  assumes "count \<le> int (length bytes)" "max 0 count < int fuel" "0 \<le> codes_len"
  shows "\<exists>codes n. decode_utf8_codes (Some bytes) count codes_len fuel = Some (codes, n)
    \<and> 0 \<le> n \<and> n \<le> max 0 count \<and> int (length codes) = min n codes_len
    \<and> (\<forall>c \<in> set codes. scalar c \<and> c \<noteq> 0)"
  using decode_codes_loop_total [of 0 count bytes fuel "[]" codes_len 0] assms
  by (simp add: decode_utf8_codes_def)

subsection \<open>The encoding\<close>

definition utf8 :: "u32 \<Rightarrow> u8 list" where
  "utf8 c = (let n = unat c in
     if n < 0x80 then [of_nat n]
     else if n < 0x800 then [of_nat (0xc0 + n div 64), of_nat (0x80 + n mod 64)]
     else if n < 0x10000 then
       [of_nat (0xe0 + n div 4096), of_nat (0x80 + n div 64 mod 64), of_nat (0x80 + n mod 64)]
     else [of_nat (0xf0 + n div 262144), of_nat (0x80 + n div 4096 mod 64),
       of_nat (0x80 + n div 64 mod 64), of_nat (0x80 + n mod 64)])"

lemma unat_byte: "x < 256 \<Longrightarrow> unat (ucast (of_nat x :: u8) :: u32) = x"
  by (simp add: unsigned_ucast_eq take_bit_eq_mod unat_of_nat)

lemma high_bits:
  assumes "unat (b :: u32) < 256"
  shows "b AND 0x80 = 0 \<longleftrightarrow> unat b < 128" "b AND 0xe0 = 0xc0 \<longleftrightarrow> unat b div 32 = 6"
    "b AND 0xf0 = 0xe0 \<longleftrightarrow> unat b div 16 = 14" "b AND 0xf8 = 0xf0 \<longleftrightarrow> unat b div 8 = 30"
proof -
  have high: "unat (b AND (mask 8 AND NOT (mask k))) = unat b div 2 ^ k * 2 ^ k" if "k \<le> 8" for k
  proof -
    have "unat b div 2 ^ k < 2 ^ (8 - k)"
      using assms that by (simp add: less_mult_imp_div_less flip: power_add)
    then have "unat (take_bit (8 - k) (drop_bit k b)) = unat b div 2 ^ k"
      by (simp add: unsigned_take_bit_eq unat_shiftr take_bit_nat_eq_self)
    moreover have "unat b div 2 ^ k * 2 ^ k < 2 ^ 32"
      by (rule le_less_trans [OF div_times_less_eq_dividend]) (use assms in simp)
    ultimately have "unat (push_bit k (take_bit (8 - k) (drop_bit k b))) = unat b div 2 ^ k * 2 ^ k"
      by (simp only: unat_shiftl) simp
    then show ?thesis
      using slice_eq_mask [of k "8 - k" b] that by (simp add: and.assoc)
  qed
  have masks: "(0x80 :: u32) = mask 8 AND NOT (mask 7)" "(0xe0 :: u32) = mask 8 AND NOT (mask 5)"
    "(0xf0 :: u32) = mask 8 AND NOT (mask 4)" "(0xf8 :: u32) = mask 8 AND NOT (mask 3)"
    by (simp_all add: mask_eq_exp_minus_1)
  show "b AND 0x80 = 0 \<longleftrightarrow> unat b < 128" "b AND 0xe0 = 0xc0 \<longleftrightarrow> unat b div 32 = 6"
    "b AND 0xf0 = 0xe0 \<longleftrightarrow> unat b div 16 = 14" "b AND 0xf8 = 0xf0 \<longleftrightarrow> unat b div 8 = 30"
    using high [of 7] high [of 5] high [of 4] high [of 3] unfolding masks [symmetric]
    by (auto simp: word_unat_eq_iff div_eq_0_iff)
qed

text \<open>What the parts of an encoding are read as.\<close>

lemma low_bits:
  "unat ((b :: u32) AND 0x3f) = unat b mod 64" "unat (b AND 0x1f) = unat b mod 32"
  "unat (b AND 0x0f) = unat b mod 16" "unat (b AND 0x07) = unat b mod 8"
  using unat_mask_and [of b 6] unat_mask_and [of b 5] unat_mask_and [of b 4] unat_mask_and [of b 3]
  by (simp_all add: mask_eq_exp_minus_1)

lemma or_below:
  fixes a b :: u32
  assumes "unat b < 2 ^ k" "2 ^ k dvd unat a"
  shows "a OR b = a + b"
proof (rule disjunctive_add [symmetric])
  fix n
  have "\<not> bit b n" if "\<not> n < k"
  proof -
    have "unat b < 2 ^ n" by (rule less_le_trans [OF assms(1)]) (use that in simp)
    then have "\<not> bit (unat b) n" by (simp add: bit_iff_odd)
    then show ?thesis by (simp add: bit_unsigned_iff)
  qed
  moreover have "\<not> bit a n" if "n < k"
  proof -
    have "2 ^ Suc n dvd unat a"
      using assms(2) that by (metis Suc_leI dvd_trans le_imp_power_dvd)
    then have "\<not> bit (unat a) n"
      by (auto simp: bit_iff_odd dvd_def)
    then show ?thesis by (simp add: bit_unsigned_iff)
  qed
  ultimately show "\<not> bit a n \<or> \<not> bit b n" by blast
qed

text \<open>Decoding the encoding of a scalar value, wherever it stands.\<close>

lemma unat_scalar: "scalar c \<Longrightarrow> unat c < 1114112"
  by (simp add: scalar_def word_less_nat_alt)

lemma length_utf8: "length (utf8 c) = (if unat c < 0x80 then 1 else if unat c < 0x800 then 2
    else if unat c < 0x10000 then 3 else 4)"
  by (simp add: utf8_def Let_def)

lemma unat_push6: "unat (x :: u32) < 2 ^ (32 - k) \<Longrightarrow> k < 32 \<Longrightarrow> unat (push_bit k x) = unat x * 2 ^ k"
proof -
  assume "unat x < 2 ^ (32 - k)" "k < 32"
  then have "unat x * 2 ^ k < 2 ^ (32 - k) * 2 ^ k" by simp
  also have "(2 :: nat) ^ (32 - k) * 2 ^ k = 2 ^ 32" using \<open>k < 32\<close> by (simp flip: power_add)
  finally show ?thesis by (simp add: unat_shiftl)
qed

lemma join2:
  assumes "unat (x :: u32) < 2 ^ 26" "unat y < 64"
  shows "unat (push_bit 6 x OR y) = unat x * 64 + unat y"
proof -
  have "unat (push_bit 6 x) = unat x * 64" using unat_push6 [of x 6] assms(1) by simp
  then have "push_bit 6 x OR y = push_bit 6 x + y" "unat (push_bit 6 x) + unat y < 2 ^ 32"
    using or_below [of y 6 "push_bit 6 x"] assms by simp_all
  then show ?thesis using \<open>unat (push_bit 6 x) = unat x * 64\<close> by (simp add: unat_add_mod)
qed

lemma untag:
  "k < 32 \<Longrightarrow> (0xc0 + k) mod 32 = k" "k < 16 \<Longrightarrow> (0xe0 + k) mod 16 = k"
  "k < 8 \<Longrightarrow> (0xf0 + k) mod 8 = k" "(0x80 + j mod 64) mod 64 = (j mod 64 :: nat)" for k j :: nat
  using mod_mult_self3 [of 6 32 k] mod_mult_self3 [of 14 16 k] mod_mult_self3 [of 30 8 k]
    mod_mult_self3 [of 2 64 "j mod 64"] by simp_all

lemma decode_sequence_utf8:
  assumes "scalar c" "\<And>k. k < length (utf8 c) \<Longrightarrow> fetch bytes (i + int k) = Some (ucast (utf8 c ! k))"
    and "i + int (length (utf8 c)) \<le> count"
  shows "decode_sequence bytes count i = Some (c, int (length (utf8 c)))"
proof -
  define n where "n = unat c"
  have small: "n < 1114112" using unat_scalar [OF assms(1)] by (simp add: n_def)
  consider (1) "n < 0x80" | (2) "0x80 \<le> n" "n < 0x800" | (3) "0x800 \<le> n" "n < 0x10000"
    | (4) "0x10000 \<le> n" by linarith
  then show ?thesis
  proof cases
    case 1
    obtain b where b: "fetch bytes i = Some b" "unat b = n"
      using assms(2) [of 0] 1 unat_byte [of n] by (simp add: utf8_def Let_def n_def)
    then have "b = c" by (simp add: word_unat_eq_iff n_def)
    with b 1 high_bits(1) [of b] show ?thesis
      by (simp add: decode_sequence_def length_utf8 n_def)
  next
    case 2
    have top: "n div 64 < 32" using 2 by (simp add: less_mult_imp_div_less)
    obtain b0 where b0: "fetch bytes i = Some b0" "unat b0 = 0xc0 + n div 64"
      using assms(2) [of 0] 2 unat_byte [of "0xc0 + n div 64"] top by (simp add: utf8_def Let_def n_def)
    obtain b1 where b1: "fetch bytes (i + 1) = Some b1" "unat b1 = 0x80 + n mod 64"
      using assms(2) [of 1] 2 unat_byte [of "0x80 + n mod 64"] by (simp add: utf8_def Let_def n_def)
    have shape: "\<not> b0 AND 0x80 = 0" "b0 AND 0xe0 = 0xc0"
      using high_bits(1,2) [of b0] b0(2) top by simp_all
    have "unat (push_bit 6 (b0 AND 0x1f) OR b1 AND 0x3f) = n"
      using top by (subst join2) (simp_all add: low_bits b0(2) b1(2) untag)
    then have "push_bit 6 (b0 AND 0x1f) OR b1 AND 0x3f = c"
      unfolding n_def by (rule unat_eqI)
    then show ?thesis using shape b0(1) b1(1) assms(3) 2
      by (simp add: decode_sequence_def length_utf8 n_def)
  next
    case 3
    have top: "n div 4096 < 16" using 3 by (simp add: less_mult_imp_div_less)
    obtain b0 where b0: "fetch bytes i = Some b0" "unat b0 = 0xe0 + n div 4096"
      using assms(2) [of 0] 3 unat_byte [of "0xe0 + n div 4096"] top by (simp add: utf8_def Let_def n_def)
    obtain b1 where b1: "fetch bytes (i + 1) = Some b1" "unat b1 = 0x80 + n div 64 mod 64"
      using assms(2) [of 1] 3 unat_byte [of "0x80 + n div 64 mod 64"] by (simp add: utf8_def Let_def n_def)
    obtain b2 where b2: "fetch bytes (i + 2) = Some b2" "unat b2 = 0x80 + n mod 64"
      using assms(2) [of 2] 3 unat_byte [of "0x80 + n mod 64"] by (simp add: utf8_def Let_def n_def)
    have shape: "\<not> b0 AND 0x80 = 0" "b0 AND 0xe0 \<noteq> 0xc0" "b0 AND 0xf0 = 0xe0"
      using high_bits(1-3) [of b0] b0(2) top by auto
    let ?x = "push_bit 6 (b0 AND 0x0f) OR b1 AND 0x3f"
    have x: "unat ?x = n div 64"
      using top div_mult2_eq [of n 64 64]
      by (subst join2) (simp_all add: low_bits b0(2) b1(2) untag)
    have "unat (push_bit 6 ?x OR b2 AND 0x3f) = n"
      using 3 by (subst join2) (simp_all only: x low_bits b2(2) untag, simp_all add: less_mult_imp_div_less)
    then have "push_bit 6 ?x OR b2 AND 0x3f = c" unfolding n_def by (rule unat_eqI)
    moreover have "push_bit 12 (b0 AND 0x0f) OR push_bit 6 (b1 AND 0x3f) = push_bit 6 ?x"
      by (simp add: push_bit_or)
    ultimately have "push_bit 12 (b0 AND 0x0f) OR push_bit 6 (b1 AND 0x3f) OR b2 AND 0x3f = c"
      by (simp only: or.assoc [symmetric])
    then show ?thesis using shape b0(1) b1(1) b2(1) assms(3) 3
      by (simp add: decode_sequence_def length_utf8 n_def)
  next
    case 4
    have top: "n div 262144 < 8" using small by (simp add: less_mult_imp_div_less)
    obtain b0 where b0: "fetch bytes i = Some b0" "unat b0 = 0xf0 + n div 262144"
      using assms(2) [of 0] 4 unat_byte [of "0xf0 + n div 262144"] top by (simp add: utf8_def Let_def n_def)
    obtain b1 where b1: "fetch bytes (i + 1) = Some b1" "unat b1 = 0x80 + n div 4096 mod 64"
      using assms(2) [of 1] 4 unat_byte [of "0x80 + n div 4096 mod 64"] by (simp add: utf8_def Let_def n_def)
    obtain b2 where b2: "fetch bytes (i + 2) = Some b2" "unat b2 = 0x80 + n div 64 mod 64"
      using assms(2) [of 2] 4 unat_byte [of "0x80 + n div 64 mod 64"] by (simp add: utf8_def Let_def n_def)
    obtain b3 where b3: "fetch bytes (i + 3) = Some b3" "unat b3 = 0x80 + n mod 64"
      using assms(2) [of 3] 4 unat_byte [of "0x80 + n mod 64"] by (simp add: utf8_def Let_def n_def)
    have shape: "\<not> b0 AND 0x80 = 0" "b0 AND 0xe0 \<noteq> 0xc0" "b0 AND 0xf0 \<noteq> 0xe0" "b0 AND 0xf8 = 0xf0"
      using high_bits [of b0] b0(2) top by auto
    let ?x = "push_bit 6 (b0 AND 0x07) OR b1 AND 0x3f"
    let ?y = "push_bit 6 ?x OR b2 AND 0x3f"
    have x: "unat ?x = n div 4096"
      using top div_mult2_eq [of n 4096 64]
      by (subst join2) (simp_all add: low_bits b0(2) b1(2) untag)
    have y: "unat ?y = n div 64"
      using small div_mult2_eq [of n 64 64]
      by (subst join2) (simp_all only: x low_bits b2(2) untag, simp_all add: less_mult_imp_div_less)
    have "unat (push_bit 6 ?y OR b3 AND 0x3f) = n"
      using small by (subst join2) (simp_all only: y low_bits b3(2) untag, simp_all add: less_mult_imp_div_less)
    then have "push_bit 6 ?y OR b3 AND 0x3f = c" unfolding n_def by (rule unat_eqI)
    moreover have "push_bit 18 (b0 AND 0x07) OR push_bit 12 (b1 AND 0x3f) OR push_bit 6 (b2 AND 0x3f)
        = push_bit 6 ?y"
      by (simp add: push_bit_or or.assoc)
    ultimately have "push_bit 18 (b0 AND 0x07) OR push_bit 12 (b1 AND 0x3f) OR push_bit 6 (b2 AND 0x3f)
        OR b3 AND 0x3f = c" by (simp only: or.assoc [symmetric])
    then show ?thesis using shape b0(1) b1(1) b2(1) b3(1) assms(3) 4
      by (simp add: decode_sequence_def length_utf8 n_def)
  qed
qed

lemma utf8_decode_next_utf8:
  assumes "scalar c" "bytes = front @ utf8 c @ rest" "int (length (front @ utf8 c)) \<le> count"
  shows "utf8_decode_next (Some bytes) count (int (length front))
    = Some (int (length front) + int (length (utf8 c)), Some c)"
proof -
  have "fetch bytes (int (length front) + int k) = Some (ucast (utf8 c ! k))"
    if "k < length (utf8 c)" for k
    using that by (simp add: fetch_def assms(2) nth_append nat_add_distrib)
  then have "decode_sequence bytes count (int (length front)) = Some (c, int (length (utf8 c)))"
    using assms(3) by (intro decode_sequence_utf8 [OF assms(1)]) simp_all
  then show ?thesis using assms length_utf8 [of c]
    by (auto simp: utf8_decode_next_def scalar_def split: if_splits)
qed

lemma decode_codes_loop_utf8:
  assumes "\<forall>c \<in> set cs. scalar c" "bytes = front @ concat (map utf8 cs) @ padding"
    and "count = int (length (front @ concat (map utf8 cs)))" "length cs < fuel" "int (length codes) \<le> codes_len"
  shows "decode_codes_loop (Some bytes) count codes_len fuel (int (length front)) codes total_count
    = Some (codes @ take (nat codes_len - length codes) (filter (\<lambda>c. c \<noteq> 0) cs),
        total_count + int (length (filter (\<lambda>c. c \<noteq> 0) cs)))"
  using assms
proof (induction cs arbitrary: front codes total_count fuel)
  case Nil
  then show ?case by (cases fuel) simp_all
next
  case (Cons c cs)
  obtain f where f: "fuel = Suc f" using Cons.prems(4) by (cases fuel) auto
  have next_step: "utf8_decode_next (Some bytes) count (int (length front))
      = Some (int (length (front @ utf8 c)), Some c)"
    using utf8_decode_next_utf8 [of c bytes front "concat (map utf8 cs) @ padding" count] Cons.prems by simp
  have "int (length front) < count" using Cons.prems(2,3) length_utf8 [of c] by simp
  then have run: "decode_codes_loop (Some bytes) count codes_len fuel (int (length front)) codes total_count
      = decode_codes_loop (Some bytes) count codes_len f (int (length (front @ utf8 c)))
          (if c \<noteq> 0 \<and> int (length codes) < codes_len then codes @ [c] else codes)
          (if c \<noteq> 0 then total_count + 1 else total_count)"
    using next_step by (simp add: f)
  have "\<forall>c \<in> set cs. scalar c" "bytes = (front @ utf8 c) @ concat (map utf8 cs) @ padding"
    "count = int (length ((front @ utf8 c) @ concat (map utf8 cs)))" "length cs < f"
    using Cons.prems f by simp_all
  note IH = Cons.IH [OF this]
  consider "c = 0" | (stored) "c \<noteq> 0" "int (length codes) < codes_len"
    | (full) "c \<noteq> 0" "int (length codes) = codes_len" using Cons.prems(5) by linarith
  then show ?case
  proof cases
    case stored
    then have "nat codes_len - length codes = Suc (nat codes_len - Suc (length codes))" by linarith
    with stored show ?thesis unfolding run by (subst IH) auto
  qed (unfold run, (subst IH; use Cons.prems(5) in auto)+)
qed

text \<open>C26: The decoder reads exactly what was encoded: for the UTF-8 text of any scalar values it stores the
  non-zero ones, as many as fit, and reports their number.
\<close>

theorem decode_utf8_exact:
  assumes "\<forall>c \<in> set cs. scalar c" "length cs < fuel" "0 \<le> codes_len"
  shows "decode_utf8_codes (Some (concat (map utf8 cs))) (int (length (concat (map utf8 cs)))) codes_len fuel
    = Some (take (nat codes_len) (filter (\<lambda>c. c \<noteq> 0) cs), int (length (filter (\<lambda>c. c \<noteq> 0) cs)))"
  unfolding decode_utf8_codes_def
  using decode_codes_loop_utf8 [OF assms(1) _ _ assms(2), of "concat (map utf8 cs)" "[]" "[]" _ "[]" codes_len 0]
    assms(3) by simp

subsection \<open>Key events\<close>

text \<open>A lookup fills a buffer of the length it was given.\<close>

definition fills_buffer :: "char_event \<Rightarrow> bool" where
  "fills_buffer ev \<longleftrightarrow> (\<forall>n len. 0 \<le> len \<longrightarrow> int (length (fst (lookup_string ev n len))) = len)"

lemma fills_buffer_length:
  "fills_buffer ev \<Longrightarrow> lookup_string ev n len = (buf, count, status) \<Longrightarrow> 0 \<le> len \<Longrightarrow>
   int (length buf) = len"
  unfolding fills_buffer_def by (metis fst_conv)

lemma char_codes_decode_safe:
  assumes "int (length buf) = buf_len" "buf_len < int fuel" "0 < codes_len"
  shows "\<exists>r. char_codes_decode b buf_len blocks (buf, count, status) codes_len fuel = Some r
    \<and> live_blocks r = free_buffer b blocks \<and> int (length (stored r)) \<le> codes_len
    \<and> int (length (stored r)) = min (required_codes r) codes_len
    \<and> (\<forall>c \<in> set (stored r). scalar c \<and> c \<noteq> 0)"
proof (cases "status \<noteq> Lookup_Chars \<and> status \<noteq> Lookup_Both \<or> count \<le> 0 \<or> count > buf_len")
  case False
  then have "\<exists>codes n. decode_utf8_codes (Some buf) count codes_len fuel = Some (codes, n)
      \<and> 0 \<le> n \<and> n \<le> max 0 count \<and> int (length codes) = min n codes_len
      \<and> (\<forall>c \<in> set codes. scalar c \<and> c \<noteq> 0)"
    using decode_codes_loop_total [of 0 count buf fuel "[]" codes_len 0] assms
    by (simp add: decode_utf8_codes_def)
  then show ?thesis using False assms(3) by (auto simp: char_codes_decode_def)
qed (use assms(3) in \<open>auto simp: char_codes_decode_def\<close>)

text \<open>C27: Whatever the input method answers, reading the text of a key event ends without an access outside a
  buffer and frees the block it may have allocated; it stores at most what fits, only scalar values.
\<close>

theorem char_codes_safe:
  assumes "fills_buffer ev" "XIM_MAX_BYTES < int fuel"
  shows "\<exists>r. char_codes ev has_codes codes_len fuel = Some r \<and> live_blocks r = 0
    \<and> int (length (stored r)) \<le> max 0 codes_len
    \<and> int (length (stored r)) = min (required_codes r) (max 0 codes_len)
    \<and> (\<forall>c \<in> set (stored r). scalar c \<and> c \<noteq> 0)"
proof (cases "\<not> has_ic ev \<or> \<not> is_key_press ev \<or> \<not> has_codes \<or> codes_len \<le> 0")
  case True
  then show ?thesis by (auto simp: char_codes_def)
next
  case False
  obtain buf count status where first: "lookup_string ev 0 XIM_STACK_BYTES = (buf, count, status)"
    by (metis prod.exhaust)
  obtain buf' count' status' where second: "lookup_string ev 1 count = (buf', count', status')"
    by (metis prod.exhaust)
  have buf: "int (length buf) = XIM_STACK_BYTES"
    using fills_buffer_length [OF assms(1) first] by (simp add: XIM_STACK_BYTES_def)
  have codes: "0 < codes_len" using False by simp
  show ?thesis
  proof (cases "status = Buffer_Overflow")
    case True
    show ?thesis
    proof (cases "count \<le> 0 \<or> count > XIM_MAX_BYTES \<or> \<not> malloc_ok ev")
      case True
      then show ?thesis using False first codes \<open>status = Buffer_Overflow\<close> by (simp add: char_codes_def)
    next
      case fits: False
      have "int (length buf') = count"
        using fills_buffer_length [OF assms(1) second] fits by simp
      from char_codes_decode_safe [OF this, of fuel codes_len Heap_Block 1 count' status'] show ?thesis
        using False first second True fits assms(2) codes
        by (auto simp: char_codes_def free_buffer_def)
    qed
  next
    case stack: False
    from char_codes_decode_safe [OF buf, of fuel codes_len Stack_Buffer 0 count status] show ?thesis
      using False first stack assms(2) codes
      by (auto simp: char_codes_def free_buffer_def XIM_STACK_BYTES_def XIM_MAX_BYTES_def)
  qed
qed

text \<open>
  The input method as Xlib documents it: the text and its length where the buffer has room for it,
  otherwise only the length.
\<close>

definition types_text :: "char_event \<Rightarrow> u32 list \<Rightarrow> bool" where
  "types_text ev cs \<longleftrightarrow> (let text = concat (map utf8 cs); n = int (length text) in
     \<forall>k len. if n \<le> len
       then \<exists>padding status. lookup_string ev k len = (text @ padding, n, status)
         \<and> status \<in> {Lookup_Chars, Lookup_Both}
       else snd (lookup_string ev k len) = (n, Buffer_Overflow))"

lemma char_codes_decode_exact:
  assumes "\<forall>c \<in> set cs. scalar c" "length cs < fuel" "0 \<le> codes_len" "cs \<noteq> []"
    and "int (length (concat (map utf8 cs))) \<le> buf_len" "status \<in> {Lookup_Chars, Lookup_Both}"
  shows "char_codes_decode b buf_len blocks
      (concat (map utf8 cs) @ padding, int (length (concat (map utf8 cs))), status) codes_len fuel
    = Some \<lparr>stored = take (nat codes_len) (filter (\<lambda>c. c \<noteq> 0) cs),
        required_codes = int (length (filter (\<lambda>c. c \<noteq> 0) cs)), live_blocks = free_buffer b blocks\<rparr>"
proof -
  have "0 < length (concat (map utf8 cs))"
    using assms(4) length_utf8 by (cases cs) (auto split: if_splits)
  moreover have "decode_utf8_codes (Some (concat (map utf8 cs) @ padding))
      (int (length (concat (map utf8 cs)))) codes_len fuel
    = Some (take (nat codes_len) (filter (\<lambda>c. c \<noteq> 0) cs), int (length (filter (\<lambda>c. c \<noteq> 0) cs)))"
    unfolding decode_utf8_codes_def
    using decode_codes_loop_utf8 [OF assms(1) _ _ assms(2), of _ "[]" padding _ "[]" codes_len 0] assms(3)
    by simp
  ultimately show ?thesis using assms(5,6) by (auto simp: char_codes_decode_def)
qed

text \<open>
  A typed text of at most 32768 bytes arrives: the code points that fit are stored in order, and the
  number of all of them is reported, whether the stack buffer is large enough or a block is needed.
\<close>

theorem char_codes_exact:
  assumes "types_text ev cs" "\<forall>c \<in> set cs. scalar c" "cs \<noteq> []"
    and "int (length (concat (map utf8 cs))) \<le> XIM_MAX_BYTES" "XIM_MAX_BYTES < int fuel"
    and "has_ic ev" "is_key_press ev" "malloc_ok ev" "0 < codes_len"
  shows "char_codes ev True codes_len fuel =
    Some \<lparr>stored = take (nat codes_len) (filter (\<lambda>c. c \<noteq> 0) cs),
      required_codes = int (length (filter (\<lambda>c. c \<noteq> 0) cs)), live_blocks = 0\<rparr>"
proof -
  let ?text = "concat (map utf8 cs)"
  have "length cs \<le> length ?text"
    using length_utf8 by (induction cs) (auto intro: add_mono [of 1, simplified] split: if_splits)
  then have fuel: "length cs < fuel" using assms(4,5) by linarith
  have some: "0 < length ?text"
    using assms(3) \<open>length cs \<le> length ?text\<close> by (metis length_greater_0_conv less_le_trans)
  note exact = char_codes_decode_exact [OF assms(2) fuel _ assms(3)]
  show ?thesis
  proof (cases "int (length ?text) \<le> XIM_STACK_BYTES")
    case True
    then obtain padding status where "lookup_string ev 0 XIM_STACK_BYTES = (?text @ padding, int (length ?text), status)"
      "status \<in> {Lookup_Chars, Lookup_Both}"
      using assms(1) unfolding types_text_def Let_def by meson
    then show ?thesis using assms(6-9) exact [OF _ True] True
      by (auto simp: char_codes_def free_buffer_def)
  next
    case False
    then have "snd (lookup_string ev 0 XIM_STACK_BYTES) = (int (length ?text), Buffer_Overflow)"
      using assms(1) unfolding types_text_def Let_def by meson
    moreover obtain padding status where
      "lookup_string ev 1 (int (length ?text)) = (?text @ padding, int (length ?text), status)"
      "status \<in> {Lookup_Chars, Lookup_Both}"
      using assms(1) unfolding types_text_def Let_def by (meson order_refl)
    ultimately show ?thesis using assms(4,6-9) exact [of codes_len "int (length ?text)"] some
      by (auto simp: char_codes_def free_buffer_def split: prod.split)
  qed
qed

subsection \<open>Examples\<close>

theorem decode_utf8_total_witness:
  "\<exists>codes n. decode_utf8_codes (Some [0xe2, 0x41]) 2 4 3 = Some (codes, n)
    \<and> 0 \<le> n \<and> n \<le> 2 \<and> int (length codes) = min n 4 \<and> (\<forall>c \<in> set codes. scalar c \<and> c \<noteq> 0)"
  using decode_utf8_total [of 2 "[0xe2, 0x41]" 3 4] by simp

text \<open>A Latin letter, a zero, the euro sign and a character beyond the basic plane, into two places.\<close>

theorem decode_utf8_exact_witness:
  "decode_utf8_codes (Some [0x41, 0, 0xe2, 0x82, 0xac, 0xf0, 0x9f, 0x98, 0x80]) 9 2 5
    = Some ([0x41, 0x20ac], 3)"
  using decode_utf8_exact [of "[0x41, 0, 0x20ac, 0x1f600]" 5 2]
  by (simp add: scalar_def utf8_def Let_def numeral_2_eq_2 [symmetric])

definition typing :: "u32 list \<Rightarrow> char_event" where
  "typing cs = (let text = concat (map utf8 cs) in \<lparr>has_ic = True, is_key_press = True,
     lookup_string = (\<lambda>n len. if int (length text) \<le> len
       then (text @ replicate (nat len - length text) 0, int (length text), Lookup_Both)
       else (replicate (nat len) 0, int (length text), Buffer_Overflow)),
     malloc_ok = True\<rparr>)"

lemma typing_fills: "fills_buffer (typing cs)"
  by (auto simp: fills_buffer_def typing_def Let_def)

lemma typing_types: "types_text (typing cs) cs"
  by (auto simp: types_text_def typing_def Let_def)

theorem char_codes_safe_witness:
  "\<exists>r. char_codes (typing [0x20ac]) True 4 32769 = Some r \<and> live_blocks r = 0
    \<and> int (length (stored r)) = min (required_codes r) 4"
  using char_codes_safe [OF typing_fills, of 32769 "[0x20ac]" True 4] by (auto simp: XIM_MAX_BYTES_def)

text \<open>A text of 150 bytes, for which the stack buffer is too small.\<close>

theorem char_codes_exact_witness:
  "char_codes (typing (replicate 50 0x20ac)) True 60 32769
    = Some \<lparr>stored = replicate 50 0x20ac, required_codes = 50, live_blocks = 0\<rparr>"
proof -
  have "length (concat (map utf8 (replicate n 0x20ac))) = n * 3" for n
    by (induction n) (simp_all add: length_utf8)
  from this [of 50] show ?thesis
    using char_codes_exact [OF typing_types, of "replicate 50 0x20ac" 32769 60]
    by (simp add: scalar_def XIM_MAX_BYTES_def typing_def Let_def)
qed

end
