(* ===== verification/X11_Checked.thy ===== *)
theory X11_Checked
  imports Host_Monad
begin

unbundle bit_operations_syntax

text \<open>
  The checked requests of the X11 backend (\<^verbatim>\<open>x/multiwindow/x11_egl_backend_helpers.h\<close>): requests whose
  answer or error the backend waits for, on its own connection or on the one it shares with Xlib, and
  the mouse lock made of them.

  The X server is a type variable, the calls of the libraries its operations. A request and the wait
  for its answer are one operation, with the answer, if there is one, and whether an error came. Both
  are blocks the caller has to free: \<open>live\<close> counts them, \<open>locked\<close> the locks of the display and \<open>links\<close> the
  connections opened.
\<close>

subsection \<open>The server and the client\<close>

datatype x_request =
    Map_Window u64 | Unmap_Window u64 | Raise_Window u64 | Move_Window u64 u32 u32
  | Change_Property u64 u64 u64 int u32
  | Selection_Notify u64 u64 u64 u64 u64
  | Select_Events u64 u32
  | Client_Message u64 u64 u64 "u32 list"
  | Warp_Pointer u64 int int | Ungrab_Pointer
  | Set_Selection u64 u64 u64

record property_reply =
  reply_type :: u32
  reply_format :: int
  bytes_after :: u32
  items :: "u32 list"

datatype checked_event = Error_Event | Property_Notify bool u64 u64 | Destroy_Notify u64 | Other_Notify

text \<open>An answer, and whether there is an error.\<close>

type_synonym 'a answer = "'a option \<times> bool"

record 'w x_ops =
  connection_error :: "('w, bool) state"
  shared_connection :: "('w, bool) state"
  display_named :: "('w, bool) state"
  connect_server :: "('w, bool) state"
  request_failed :: "x_request \<Rightarrow> ('w, bool) state"
  attributes_of :: "u64 \<Rightarrow> ('w, (int \<times> u32) answer) state"
  geometry_of :: "u64 \<Rightarrow> ('w, (int \<times> int) answer) state"
  property_of :: "u64 \<Rightarrow> u64 \<Rightarrow> u64 \<Rightarrow> u32 \<Rightarrow> ('w, property_reply answer) state"
  focus_of :: "('w, u32 answer) state"
  translation_of :: "u64 \<Rightarrow> u64 \<Rightarrow> ('w, (bool \<times> int \<times> int) answer) state"
  grab_pointer :: "u64 \<Rightarrow> ('w, bool answer) state"
  selection_owner :: "u64 \<Rightarrow> ('w, u32 answer) state"
  poll_event :: "('w, checked_event option) state"
  flush_ok :: "('w, bool) state"
  flush_display :: "('w, unit) state"

record 'w x_client =
  server :: 'w
  live :: int
  locked :: int
  links :: int

definition on_server :: "('w, 'a) state \<Rightarrow> ('w x_client, 'a) state" where
  "on_server m = State (\<lambda>s. case run_state m (server s) of (a, w) \<Rightarrow> (a, s\<lparr>server := w\<rparr>))"

definition count_live :: "int \<Rightarrow> ('w x_client, unit) state" where
  "count_live n = State (\<lambda>s. ((), s\<lparr>live := live s + n\<rparr>))"

definition blocks_of :: "'a answer \<Rightarrow> int" where
  "blocks_of r = of_bool (fst r \<noteq> None) + of_bool (snd r)"

text \<open>Waiting for an answer allocates it; \<open>free_answer\<close> frees what there is.\<close>

definition await :: "('w, 'a answer) state \<Rightarrow> ('w x_client, 'a answer) state" where
  "await m = do { r \<leftarrow> on_server m; count_live (blocks_of r); State_Monad.return r }"

definition free_answer :: "'a answer \<Rightarrow> ('w x_client, unit) state" where
  "free_answer r = count_live (- blocks_of r)"

text \<open>An answer that was asked for only under a condition.\<close>

definition await_if :: "bool \<Rightarrow> ('w, 'a answer) state \<Rightarrow> ('w x_client, 'a answer) state" where
  "await_if b m = (if b then await m else State_Monad.return (None, False))"

definition lock_display :: "int \<Rightarrow> ('w x_client, unit) state" where
  "lock_display n = State (\<lambda>s. ((), s\<lparr>locked := locked s + n\<rparr>))"

definition count_links :: "int \<Rightarrow> ('w x_client, unit) state" where
  "count_links n = State (\<lambda>s. ((), s\<lparr>links := links s + n\<rparr>))"

definition no_error :: "'w x_ops \<Rightarrow> ('w x_client, bool) state" where
  "no_error ops = negated (on_server (connection_error ops))"

definition answered :: "'a answer \<Rightarrow> bool" where
  "answered r \<longleftrightarrow> fst r \<noteq> None \<and> \<not> snd r"

subsection \<open>Connections\<close>

definition usable_shared_connection :: "'w x_ops \<Rightarrow> bool \<Rightarrow> ('w x_client, bool) state" where
  "usable_shared_connection ops display = all_checks
     [check display, on_server (shared_connection ops), no_error ops]"

definition open_checked_connection :: "'w x_ops \<Rightarrow> bool \<Rightarrow> ('w x_client, bool) state" where
  "open_checked_connection ops display =
     (if \<not> display then State_Monad.return False else do {
        named \<leftarrow> on_server (display_named ops);
        if \<not> named then State_Monad.return False else do {
          connection \<leftarrow> on_server (connect_server ops);
          if_then connection (count_links 1);
          ok \<leftarrow> all_checks [check connection, no_error ops];
          if_then (\<not> ok \<and> connection) (count_links (- 1));
          State_Monad.return ok } })"

definition close_checked_connection :: "bool \<Rightarrow> ('w x_client, unit) state" where
  "close_checked_connection connection = if_then connection (count_links (- 1))"

definition checked_connection_usable :: "'w x_ops \<Rightarrow> bool \<Rightarrow> ('w x_client, bool) state" where
  "checked_connection_usable ops connection = all_checks [check connection, no_error ops]"

subsection \<open>Requests without an answer\<close>

definition void_request_ok :: "'w x_ops \<Rightarrow> x_request \<Rightarrow> ('w x_client, bool) state" where
  "void_request_ok ops request = do {
     failed \<leftarrow> on_server (request_failed ops request);
     count_live (of_bool failed);
     ok \<leftarrow> all_checks [check (\<not> failed), no_error ops];
     count_live (- of_bool failed);
     State_Monad.return ok }"

definition checked_request :: "'w x_ops \<Rightarrow> bool \<Rightarrow> bool \<Rightarrow> x_request \<Rightarrow> ('w x_client, bool) state" where
  "checked_request ops connection valid request = do {
     usable \<leftarrow> checked_connection_usable ops connection;
     if \<not> usable \<or> \<not> valid then State_Monad.return False else void_request_ok ops request }"

definition checked_map_window :: "'w x_ops \<Rightarrow> bool \<Rightarrow> u64 \<Rightarrow> bool \<Rightarrow> ('w x_client, bool) state" where
  "checked_map_window ops connection window mapped = checked_request ops connection (window \<noteq> 0)
     (if mapped then Map_Window window else Unmap_Window window)"

definition checked_raise_window :: "'w x_ops \<Rightarrow> bool \<Rightarrow> u64 \<Rightarrow> ('w x_client, bool) state" where
  "checked_raise_window ops connection window =
     checked_request ops connection (window \<noteq> 0) (Raise_Window window)"

definition checked_move_window :: "'w x_ops \<Rightarrow> bool \<Rightarrow> u64 \<Rightarrow> int \<Rightarrow> int \<Rightarrow> ('w x_client, bool) state" where
  "checked_move_window ops connection window x y = checked_request ops connection (window \<noteq> 0)
     (Move_Window window (word_of_int x) (word_of_int y))"

definition checked_change_property ::
    "'w x_ops \<Rightarrow> bool \<Rightarrow> u64 \<Rightarrow> u64 \<Rightarrow> u64 \<Rightarrow> int \<Rightarrow> u32 \<Rightarrow> bool \<Rightarrow> ('w x_client, bool) state" where
  "checked_change_property ops connection window property type format item_count has_data =
     checked_request ops connection
       (window \<noteq> 0 \<and> property \<noteq> 0 \<and> type \<noteq> 0 \<and> (format = 8 \<or> format = 16 \<or> format = 32)
         \<and> (item_count > 0 \<longrightarrow> has_data))
       (Change_Property window property type format item_count)"

definition checked_selection_notify ::
    "'w x_ops \<Rightarrow> bool \<Rightarrow> u64 \<Rightarrow> u64 \<Rightarrow> u64 \<Rightarrow> u64 \<Rightarrow> u64 \<Rightarrow> ('w x_client, bool) state" where
  "checked_selection_notify ops connection requestor selection target property time = all_checks
     [checked_request ops connection (requestor \<noteq> 0 \<and> selection \<noteq> 0 \<and> target \<noteq> 0)
        (Selection_Notify requestor selection target property time),
      on_server (flush_ok ops)]"

text \<open>The masks of property changes and of the structure of a window.\<close>

definition requestor_mask :: u32 where "requestor_mask = 0x400000 OR 0x20000"

definition checked_property_changes ::
    "'w x_ops \<Rightarrow> bool \<Rightarrow> u64 \<Rightarrow> bool \<Rightarrow> ('w x_client, bool) state" where
  "checked_property_changes ops connection window enabled = do {
     usable \<leftarrow> checked_connection_usable ops connection;
     if \<not> usable \<or> window = 0 then State_Monad.return False else do {
       attributes \<leftarrow> await (attributes_of ops window);
       ok \<leftarrow> all_checks [check (answered attributes), no_error ops];
       free_answer attributes;
       if \<not> ok then State_Monad.return False else
       let mask = snd (the (fst attributes));
           mask = (if enabled then mask OR requestor_mask else mask AND NOT requestor_mask)
       in all_checks [void_request_ok ops (Select_Events window mask), on_server (flush_ok ops)] } }"

definition checked_requestor_events_enabled ::
    "'w x_ops \<Rightarrow> bool \<Rightarrow> u64 \<Rightarrow> ('w x_client, bool) state" where
  "checked_requestor_events_enabled ops connection window = do {
     usable \<leftarrow> checked_connection_usable ops connection;
     if \<not> usable \<or> window = 0 then State_Monad.return False else do {
       attributes \<leftarrow> await (attributes_of ops window);
       ok \<leftarrow> all_checks
         [check (answered attributes \<and> snd (the (fst attributes)) AND requestor_mask = requestor_mask),
          no_error ops];
       free_answer attributes;
       State_Monad.return ok } }"

definition checked_barrier :: "'w x_ops \<Rightarrow> bool \<Rightarrow> ('w x_client, bool) state" where
  "checked_barrier ops connection = do {
     usable \<leftarrow> checked_connection_usable ops connection;
     if \<not> usable then State_Monad.return False else do {
       focus \<leftarrow> await (focus_of ops);
       ok \<leftarrow> all_checks [check (answered focus), no_error ops];
       free_answer focus;
       State_Monad.return ok } }"

text \<open>The results are the code, the window and the property.\<close>

definition poll_checked_property_delete :: "'w x_ops \<Rightarrow> bool \<Rightarrow> ('w x_client, int \<times> u64 \<times> u64) state" where
  "poll_checked_property_delete ops connection = do {
     usable \<leftarrow> checked_connection_usable ops connection;
     if \<not> usable then State_Monad.return (- 1, 0, 0) else do {
       event \<leftarrow> on_server (poll_event ops);
       case event of
         None \<Rightarrow> do {
           ok \<leftarrow> no_error ops;
           State_Monad.return (if ok then 0 else - 1, 0, 0) }
       | Some e \<Rightarrow> do {
           count_live 1;
           let result = (case e of
                Error_Event \<Rightarrow> (- 1, 0, 0)
              | Property_Notify deleted window atom \<Rightarrow> if deleted then (1, window, atom) else (2, 0, 0)
              | Destroy_Notify window \<Rightarrow> (3, window, 0)
              | Other_Notify \<Rightarrow> (2, 0, 0));
           count_live (- 1);
           State_Monad.return result } } }"

subsection \<open>What a window is\<close>

record window_snapshot =
  map_state :: int
  snap_width :: int
  snap_height :: int

definition no_snapshot :: window_snapshot where
  "no_snapshot = \<lparr>map_state = 0, snap_width = 0, snap_height = 0\<rparr>"

definition checked_window_snapshot ::
    "'w x_ops \<Rightarrow> bool \<Rightarrow> u64 \<Rightarrow> ('w x_client, window_snapshot option) state" where
  "checked_window_snapshot ops connection window = do {
     usable \<leftarrow> checked_connection_usable ops connection;
     if \<not> usable \<or> window = 0 then State_Monad.return None else do {
       attributes \<leftarrow> await (attributes_of ops window);
       geometry \<leftarrow> await (geometry_of ops window);
       ok \<leftarrow> all_checks [check (fst attributes \<noteq> None \<and> fst geometry \<noteq> None
         \<and> \<not> snd attributes \<and> \<not> snd geometry), no_error ops];
       let out = (if ok then Some \<lparr>map_state = fst (the (fst attributes)),
         snap_width = fst (the (fst geometry)), snap_height = snd (the (fst geometry))\<rparr> else None);
       free_answer attributes;
       free_answer geometry;
       State_Monad.return out } }"

text \<open>The values 0, 1 and 2 of a map state are unmapped, unviewable and viewable.\<close>

abbreviation (input) viewable :: int where "viewable \<equiv> 2"

definition item_count :: "property_reply \<Rightarrow> int" where
  "item_count r = int (length (items r))"

definition value_bytes :: "property_reply \<Rightarrow> int" where
  "value_bytes r = int (length (items r)) * (reply_format r div 8)"

text \<open>The state of the window manager, with the normal one as the default.\<close>

definition checked_wm_state ::
    "'w x_ops \<Rightarrow> bool \<Rightarrow> u64 \<Rightarrow> u64 \<Rightarrow> ('w x_client, bool \<times> int) state" where
  "checked_wm_state ops connection window wm_state = do {
     usable \<leftarrow> checked_connection_usable ops connection;
     if \<not> usable \<or> window = 0 \<or> wm_state = 0 then State_Monad.return (False, 1) else do {
       reply \<leftarrow> await (property_of ops window wm_state wm_state 2);
       ok \<leftarrow> all_checks [check (answered reply), no_error ops];
       let state = (case fst reply of
            Some r \<Rightarrow>
              if ok \<and> reply_type r = ucast wm_state \<and> reply_format r = 32 \<and> value_bytes r \<ge> 8
              then sint (items r ! 0) else 1
          | None \<Rightarrow> 1);
       free_answer reply;
       State_Monad.return (ok, state) } }"

abbreviation (input) ATOM :: "'a::numeral" where "ATOM \<equiv> 4"

definition checked_property_has_atom ::
    "'w x_ops \<Rightarrow> bool \<Rightarrow> u64 \<Rightarrow> u64 \<Rightarrow> u64 \<Rightarrow> u32 \<Rightarrow> ('w x_client, bool) state" where
  "checked_property_has_atom ops connection window property expected max_atoms = do {
     usable \<leftarrow> checked_connection_usable ops connection;
     if \<not> usable \<or> window = 0 \<or> property = 0 \<or> expected = 0 \<or> max_atoms = 0
     then State_Monad.return False else do {
       reply \<leftarrow> await (property_of ops window property ATOM max_atoms);
       valid \<leftarrow> all_checks [check (answered reply), no_error ops,
         check (case fst reply of None \<Rightarrow> False | Some r \<Rightarrow>
           reply_type r = ATOM \<and> reply_format r = 32 \<and> bytes_after r = 0
           \<and> item_count r \<le> uint max_atoms \<and> value_bytes r = item_count r * 4)];
       let found = valid \<and> list_ex (\<lambda>a. a = ucast expected) (items (the (fst reply)));
       free_answer reply;
       State_Monad.return found } }"

definition get_window_size :: "'w x_ops \<Rightarrow> bool \<Rightarrow> u64 \<Rightarrow> ('w x_client, (int \<times> int) option) state" where
  "get_window_size ops connection window = do {
     snapshot \<leftarrow> checked_window_snapshot ops connection window;
     State_Monad.return (case snapshot of
       None \<Rightarrow> None
     | Some s \<Rightarrow> if snap_width s \<le> 0 \<or> snap_height s \<le> 0 then None
         else Some (snap_width s, snap_height s)) }"

definition render_snapshot ::
    "'w x_ops \<Rightarrow> bool \<Rightarrow> u64 \<Rightarrow> ('w x_client, (int \<times> int \<times> bool) option) state" where
  "render_snapshot ops connection window = do {
     snapshot \<leftarrow> checked_window_snapshot ops connection window;
     State_Monad.return (map_option
       (\<lambda>s. (snap_width s, snap_height s, map_state s = viewable)) snapshot) }"

record x_service_state =
  mapped :: bool
  focused :: bool
  minimized :: bool
  maximized :: bool
  fullscreen :: bool
  position_known :: bool
  pos_x :: int
  pos_y :: int

text \<open>The fields from the answers, when all that was asked for has come.\<close>

definition service_state_of ::
    "u64 \<Rightarrow> window_snapshot \<Rightarrow> u32 \<Rightarrow> (bool \<times> int \<times> int) option \<Rightarrow> property_reply option \<Rightarrow>
     property_reply option \<Rightarrow> u64 \<Rightarrow> u64 \<Rightarrow> u64 \<Rightarrow> u64 \<Rightarrow> x_service_state" where
  "service_state_of window snapshot focus translation wm net wm_state max_h max_v full =
     (let atoms = (case net of
            Some r \<Rightarrow> if reply_type r = ATOM \<and> reply_format r = 32 then items r else []
          | None \<Rightarrow> []);
          has = (\<lambda>a :: u64. list_ex (\<lambda>b. b = ucast a) atoms);
          located = (case translation of Some (same_screen, x, y) \<Rightarrow> same_screen | None \<Rightarrow> False)
      in \<lparr>mapped = map_state snapshot \<noteq> 0, focused = focus = ucast window,
        minimized = (case wm of
            Some r \<Rightarrow> reply_type r = ucast wm_state \<and> reply_format r = 32 \<and> value_bytes r \<ge> 4
              \<and> items r ! 0 = 3
          | None \<Rightarrow> False),
        maximized = has max_h \<and> has max_v, fullscreen = has full,
        position_known = located,
        pos_x = (if located then fst (snd (the translation)) else 0),
        pos_y = (if located then snd (snd (the translation)) else 0)\<rparr>)"

definition query_service_state ::
    "'w x_ops \<Rightarrow> bool \<Rightarrow> u64 \<Rightarrow> u64 \<Rightarrow> u64 \<Rightarrow> u64 \<Rightarrow> u64 \<Rightarrow> u64 \<Rightarrow> u64 \<Rightarrow>
     ('w x_client, x_service_state option) state" where
  "query_service_state ops connection root_window window wm_state net_state max_h max_v full = do {
     snapshot \<leftarrow> checked_window_snapshot ops connection window;
     case snapshot of
       None \<Rightarrow> State_Monad.return None
     | Some snapshot \<Rightarrow> do {
         focus \<leftarrow> await (focus_of ops);
         translation \<leftarrow> await_if (root_window \<noteq> 0) (translation_of ops window root_window);
         wm \<leftarrow> await_if (wm_state \<noteq> 0) (property_of ops window wm_state wm_state 2);
         net \<leftarrow> await_if (net_state \<noteq> 0) (property_of ops window net_state ATOM 1024);
         ok \<leftarrow> all_checks [check (answered focus \<and> (root_window \<noteq> 0 \<longrightarrow> answered translation)
           \<and> (wm_state \<noteq> 0 \<longrightarrow> answered wm) \<and> (net_state \<noteq> 0 \<longrightarrow> answered net)), no_error ops];
         let out = (if ok then Some (service_state_of window snapshot (the (fst focus))
           (fst translation) (fst wm) (fst net) wm_state max_h max_v full) else None);
         free_answer focus;
         free_answer translation;
         free_answer wm;
         free_answer net;
         State_Monad.return out } }"

subsection \<open>Messages\<close>

definition send_net_wm_state ::
    "'w x_ops \<Rightarrow> bool \<Rightarrow> u64 \<Rightarrow> u64 \<Rightarrow> u64 \<Rightarrow> int \<Rightarrow> u64 \<Rightarrow> u64 \<Rightarrow> ('w x_client, bool) state" where
  "send_net_wm_state ops connection root_window window state action first second =
     checked_request ops connection (root_window \<noteq> 0 \<and> window \<noteq> 0 \<and> state \<noteq> 0 \<and> first \<noteq> 0)
       (Client_Message root_window window state [word_of_int action, ucast first, ucast second, 1])"

definition request_focus ::
    "'w x_ops \<Rightarrow> bool \<Rightarrow> u64 \<Rightarrow> u64 \<Rightarrow> u64 \<Rightarrow> ('w x_client, bool) state" where
  "request_focus ops connection root_window window active = do {
     usable \<leftarrow> checked_connection_usable ops connection;
     if \<not> usable \<or> root_window = 0 \<or> window = 0 \<or> active = 0 then State_Monad.return False else do {
       raised \<leftarrow> checked_raise_window ops connection window;
       if \<not> raised then State_Monad.return False
       else void_request_ok ops (Client_Message root_window window active [1, 0]) } }"

text \<open>A message on a connection of its own.\<close>

definition send_event_checked ::
    "'w x_ops \<Rightarrow> bool \<Rightarrow> u64 \<Rightarrow> x_request option \<Rightarrow> ('w x_client, bool) state" where
  "send_event_checked ops display window event =
     (if \<not> display \<or> window = 0 \<or> event = None then State_Monad.return False else do {
        named \<leftarrow> on_server (display_named ops);
        if \<not> named then State_Monad.return False else do {
          connection \<leftarrow> on_server (connect_server ops);
          if_then connection (count_links 1);
          ok \<leftarrow> all_checks [check connection, no_error ops];
          if \<not> ok then do { if_then connection (count_links (- 1)); State_Monad.return False }
          else do {
            sent \<leftarrow> void_request_ok ops (the event);
            count_links (- 1);
            State_Monad.return sent } } })"

subsection \<open>The mouse lock\<close>

definition release_mouse_lock :: "'w x_ops \<Rightarrow> bool \<Rightarrow> ('w x_client, unit) state" where
  "release_mouse_lock ops display = if_then display (do {
     lock_display 1;
     on_server (flush_display ops);
     connection \<leftarrow> usable_shared_connection ops display;
     if_then connection (do {
       _ \<leftarrow> void_request_ok ops Ungrab_Pointer;
       _ \<leftarrow> on_server (flush_ok ops);
       State_Monad.return () });
     lock_display (- 1) })"

text \<open>The pointer to the middle of a viewable window: the middle, when the server has moved it.\<close>

definition warp_to_center :: "'w x_ops \<Rightarrow> bool \<Rightarrow> u64 \<Rightarrow> ('w x_client, (int \<times> int) option) state" where
  "warp_to_center ops connection window = do {
     snapshot \<leftarrow> checked_window_snapshot ops connection window;
     case snapshot of
       None \<Rightarrow> State_Monad.return None
     | Some s \<Rightarrow>
         if map_state s = viewable \<and> snap_width s > 0 \<and> snap_height s > 0 then do {
           let x = snap_width s div 2;
           let y = snap_height s div 2;
           ok \<leftarrow> void_request_ok ops (Warp_Pointer window x y);
           State_Monad.return (if ok then Some (x, y) else None) }
         else State_Monad.return None }"

text \<open>The end of a call on the shared connection.\<close>

definition flush_and_unlock :: "'w x_ops \<Rightarrow> bool \<Rightarrow> ('w x_client, unit) state" where
  "flush_and_unlock ops connection = do {
     if_then connection (do { _ \<leftarrow> on_server (flush_ok ops); State_Monad.return () });
     lock_display (- 1) }"

definition grab_window :: "'w x_ops \<Rightarrow> bool \<Rightarrow> u64 \<Rightarrow> ('w x_client, bool) state" where
  "grab_window ops connection window =
     (if connection then do {
        reply \<leftarrow> await (grab_pointer ops window);
        grabbed \<leftarrow> all_checks [check (answered reply \<and> fst reply = Some True), no_error ops];
        free_answer reply;
        State_Monad.return grabbed }
      else State_Monad.return False)"

definition ungrab_pointer :: "'w x_ops \<Rightarrow> ('w x_client, unit) state" where
  "ungrab_pointer ops = do { _ \<leftarrow> void_request_ok ops Ungrab_Pointer; State_Monad.return () }"

definition acquire_mouse_lock_checked ::
    "'w x_ops \<Rightarrow> bool \<Rightarrow> u64 \<Rightarrow> bool \<Rightarrow> ('w x_client, (int \<times> int) option) state" where
  "acquire_mouse_lock_checked ops display window has_out =
     (if \<not> display \<or> window = 0 \<or> \<not> has_out then State_Monad.return None else do {
        lock_display 1;
        on_server (flush_display ops);
        connection \<leftarrow> usable_shared_connection ops display;
        grabbed \<leftarrow> grab_window ops connection window;
        center \<leftarrow> (if grabbed then warp_to_center ops connection window else State_Monad.return None);
        if_then (center = None \<and> grabbed) (ungrab_pointer ops);
        flush_and_unlock ops connection;
        State_Monad.return center })"

definition center_pointer_checked ::
    "'w x_ops \<Rightarrow> bool \<Rightarrow> u64 \<Rightarrow> bool \<Rightarrow> ('w x_client, (int \<times> int) option) state" where
  "center_pointer_checked ops display window has_out =
     (if \<not> display \<or> window = 0 \<or> \<not> has_out then State_Monad.return None else do {
        lock_display 1;
        on_server (flush_display ops);
        connection \<leftarrow> usable_shared_connection ops display;
        center \<leftarrow> warp_to_center ops connection window;
        flush_and_unlock ops connection;
        State_Monad.return center })"

definition owner_confirmed :: "'w x_ops \<Rightarrow> u64 \<Rightarrow> u64 \<Rightarrow> ('w x_client, bool) state" where
  "owner_confirmed ops selection owner = do {
     reply \<leftarrow> await (selection_owner ops selection);
     ok \<leftarrow> all_checks [check (answered reply \<and> the (fst reply) = ucast owner), no_error ops];
     free_answer reply;
     State_Monad.return ok }"

definition set_selection_owner_checked ::
    "'w x_ops \<Rightarrow> bool \<Rightarrow> u64 \<Rightarrow> u64 \<Rightarrow> u64 \<Rightarrow> ('w x_client, bool) state" where
  "set_selection_owner_checked ops display selection owner time =
     (if \<not> display \<or> selection = 0 \<or> owner = 0 then State_Monad.return False else do {
        lock_display 1;
        on_server (flush_display ops);
        connection \<leftarrow> usable_shared_connection ops display;
        ok \<leftarrow> (if connection then do {
            set \<leftarrow> void_request_ok ops (Set_Selection selection owner time);
            ok \<leftarrow> (if set then owner_confirmed ops selection owner else State_Monad.return False);
            _ \<leftarrow> on_server (flush_ok ops);
            State_Monad.return ok }
          else State_Monad.return False);
        lock_display (- 1);
        State_Monad.return ok })"

end
