(* ===== verification/X11_Checked_Props.thy ===== *)
theory X11_Checked_Props
  imports X11_Checked
begin

text \<open>
  Every call gives back what it takes, and the mouse lock holds the pointer when it says so, as far as the
  server does not end the grab or the connection of its own accord.
\<close>

subsection \<open>Blocks, locks and connections\<close>

definition ledger :: "'w x_client \<Rightarrow> int \<times> int \<times> int" where
  "ledger s = (live s, locked s, links s)"

text \<open>\<open>owes l k n m\<close>: the program \<open>m\<close> still frees \<open>l\<close> blocks, \<open>k\<close> locks and \<open>n\<close> connections.\<close>

definition owes :: "int \<Rightarrow> int \<Rightarrow> int \<Rightarrow> ('w x_client, 'a) state \<Rightarrow> bool" where
  "owes l k n m \<longleftrightarrow> (\<forall>s. wp m (\<lambda>_ s'. ledger s' = (live s - l, locked s - k, links s - n)) s)"

lemma keeps_owes: "keeps ledger m \<longleftrightarrow> owes 0 0 0 m"
  by (simp add: keeps_def owes_def ledger_def)

lemma wp_on_server [wp_simps]:
  "wp (on_server m) Q s = (case run_state m (server s) of (a, w) \<Rightarrow> Q a (s\<lparr>server := w\<rparr>))"
  by (simp add: on_server_def wp_def split: prod.split)

lemma owes_step:
  fixes m :: "('w x_client, 'a) state"
  assumes "\<And>s. wp m (\<lambda>_ s'. ledger s' = (live s + dl, locked s + dk, links s + dn)) s"
    and "\<And>a. owes (l + dl) (k + dk) (n + dn) (f a)"
  shows "owes l k n (State_Monad.bind m f)"
  unfolding owes_def
proof
  fix s :: "'w x_client"
  show "wp (State_Monad.bind m f) (\<lambda>_ s'. ledger s' = (live s - l, locked s - k, links s - n)) s"
  proof (rule wp_follow [OF assms(1)])
    fix a and t :: "'w x_client"
    assume t: "ledger t = (live s + dl, locked s + dk, links s + dn)"
    have "wp (f a) (\<lambda>_ s'. ledger s' = (live t - (l + dl), locked t - (k + dk), links t - (n + dn))) t"
      using assms(2) by (simp add: owes_def)
    then show "wp (f a) (\<lambda>_ s'. ledger s' = (live s - l, locked s - k, links s - n)) t"
      by (rule wp_mono) (use t in \<open>simp add: ledger_def\<close>)
  qed
qed

lemma owes_bind:
  assumes "keeps ledger m" "\<And>a. owes l k n (f a)"
  shows "owes l k n (State_Monad.bind m f)"
  by (rule owes_step [where dl = 0 and dk = 0 and dn = 0])
    (use assms in \<open>simp_all add: keeps_def ledger_def\<close>)

lemma owes_server:
  assumes "\<And>a. owes l k n (f a)"
  shows "owes l k n (State_Monad.bind (on_server m) f)"
  by (rule owes_bind [OF _ assms]) (simp add: keeps_def wp_simps ledger_def split: prod.split)

lemma owes_count:
  assumes "owes (l + d) k n (f ())"
  shows "owes l k n (State_Monad.bind (count_live d) f)"
  by (rule owes_step [where dl = d and dk = 0 and dn = 0])
    (use assms in \<open>simp_all add: count_live_def wp_simps ledger_def\<close>)

lemma owes_await:
  assumes "\<And>r. owes (l + blocks_of r) k n (f r)"
  shows "owes l k n (State_Monad.bind (await m) f)"
  unfolding await_def
  by (simp add: State_Monad.bind_assoc) (intro owes_server owes_count, simp add: assms)

lemma owes_await_if:
  assumes "\<And>r. owes (l + blocks_of r) k n (f r)"
  shows "owes l k n (State_Monad.bind (await_if b m) f)"
  using assms [of "(None, False)"] owes_await [OF assms] by (simp add: await_if_def blocks_of_def)

lemma owes_free:
  assumes "owes (l - blocks_of r) k n (f ())"
  shows "owes l k n (State_Monad.bind (free_answer r) f)"
  unfolding free_answer_def by (rule owes_count) (simp add: assms)

lemma owes_lock:
  assumes "owes l (k + d) n (f ())"
  shows "owes l k n (State_Monad.bind (lock_display d) f)"
  by (rule owes_step [where dl = 0 and dk = d and dn = 0])
    (use assms in \<open>simp_all add: lock_display_def wp_simps ledger_def\<close>)

lemma owes_links:
  assumes "owes l k (n + d) (f ())"
  shows "owes l k n (State_Monad.bind (count_links d) f)"
  by (rule owes_step [where dl = 0 and dk = 0 and dn = d])
    (use assms in \<open>simp_all add: count_links_def wp_simps ledger_def\<close>)

lemma owes_last_links: "l = 0 \<Longrightarrow> k = 0 \<Longrightarrow> n + d = 0 \<Longrightarrow> owes l k n (count_links d)"
  by (simp add: owes_def count_links_def wp_simps) (auto simp: ledger_def algebra_simps)

lemma owes_last_lock: "l = 0 \<Longrightarrow> k + d = 0 \<Longrightarrow> n = 0 \<Longrightarrow> owes l k n (lock_display d)"
  by (simp add: owes_def lock_display_def wp_simps) (auto simp: ledger_def algebra_simps)

lemma owes_if_then:
  assumes "b \<Longrightarrow> owes l k n (State_Monad.bind m f)" "\<not> b \<Longrightarrow> owes l k n (f ())"
  shows "owes l k n (State_Monad.bind (if_then b m) f)"
  using assms by (simp add: if_then_def)

lemma owes_if:
  "(b \<Longrightarrow> owes l k n m) \<Longrightarrow> (\<not> b \<Longrightarrow> owes l k n m') \<Longrightarrow> owes l k n (if b then m else m')"
  by simp

lemma owes_let: "owes l k n (f x) \<Longrightarrow> owes l k n (Let x f)"
  by simp

lemma owes_option:
  "(x = None \<Longrightarrow> owes l k n m) \<Longrightarrow> (\<And>y. x = Some y \<Longrightarrow> owes l k n (f y)) \<Longrightarrow>
   owes l k n (case x of None \<Rightarrow> m | Some y \<Rightarrow> f y)"
  by (cases x) simp_all

lemma owes_return: "l = 0 \<Longrightarrow> k = 0 \<Longrightarrow> n = 0 \<Longrightarrow> owes l k n (State_Monad.return a)"
  by (simp add: owes_def wp_simps ledger_def)

lemma owes_keeps: "keeps ledger m \<Longrightarrow> l = 0 \<Longrightarrow> k = 0 \<Longrightarrow> n = 0 \<Longrightarrow> owes l k n m"
  by (simp add: keeps_owes)

lemma keeps_server: "keeps ledger (on_server m)"
  by (simp add: keeps_def wp_simps ledger_def split: prod.split)

lemma keeps_checks: "list_all (keeps ledger) ms \<Longrightarrow> keeps ledger (all_checks ms)"
  by (induction ms) (auto intro!: keeps_rules)

lemma keeps_no_error: "keeps ledger (no_error ops)"
  unfolding no_error_def negated_def by (intro keeps_bind keeps_return keeps_server)

lemma keeps_usable: "keeps ledger (checked_connection_usable ops connection)"
  unfolding checked_connection_usable_def
  by (rule keeps_checks) (simp add: keeps_return keeps_no_error)

lemma keeps_shared: "keeps ledger (usable_shared_connection ops display)"
  unfolding usable_shared_connection_def
  by (rule keeps_checks) (simp add: keeps_return keeps_no_error keeps_server)

lemma keeps_check_error: "keeps ledger (all_checks [check b, no_error ops])"
  by (rule keeps_checks) (simp add: keeps_return keeps_no_error)

lemma keeps_check_error_check: "keeps ledger (all_checks [check b, no_error ops, check c])"
  by (rule keeps_checks) (simp add: keeps_return keeps_no_error)

lemmas owes_rules = owes_server owes_count owes_await owes_await_if owes_free owes_lock owes_links
  owes_if_then owes_if owes_let owes_option owes_return owes_last_links owes_last_lock

lemma keeps_void: "keeps ledger (void_request_ok ops request)"
  unfolding keeps_owes void_request_ok_def
  by (intro owes_rules owes_bind [OF keeps_check_error]) simp_all

lemmas keeps_parts = keeps_usable keeps_shared keeps_check_error keeps_check_error_check keeps_void
  keeps_return keeps_server

lemma keeps_checked_request: "keeps ledger (checked_request ops connection valid request)"
  unfolding keeps_owes checked_request_def
  by (intro owes_bind [OF keeps_usable] owes_if owes_return owes_keeps [OF keeps_void] refl)

lemma keeps_snapshot: "keeps ledger (checked_window_snapshot ops connection window)"
  unfolding keeps_owes checked_window_snapshot_def
  by (intro owes_bind [OF keeps_usable] owes_bind [OF keeps_check_error] owes_rules) simp_all

lemma keeps_conj: "keeps ledger m \<Longrightarrow> keeps ledger m' \<Longrightarrow> keeps ledger (all_checks [m, m'])"
  by (rule keeps_checks) simp

lemma keeps_changes: "keeps ledger (checked_property_changes ops connection window enabled)"
  unfolding keeps_owes checked_property_changes_def
  by (intro owes_bind [OF keeps_usable] owes_bind [OF keeps_check_error] owes_rules
      owes_keeps [OF keeps_conj [OF keeps_void keeps_server]]) simp_all

lemma keeps_enabled: "keeps ledger (checked_requestor_events_enabled ops connection window)"
  unfolding keeps_owes checked_requestor_events_enabled_def
  by (intro owes_bind [OF keeps_usable] owes_bind [OF keeps_check_error] owes_rules) simp_all

lemma keeps_barrier: "keeps ledger (checked_barrier ops connection)"
  unfolding keeps_owes checked_barrier_def
  by (intro owes_bind [OF keeps_usable] owes_bind [OF keeps_check_error] owes_rules) simp_all

lemma keeps_poll: "keeps ledger (poll_checked_property_delete ops connection)"
  unfolding keeps_owes poll_checked_property_delete_def
  by (intro owes_bind [OF keeps_usable] owes_bind [OF keeps_no_error] owes_rules) simp_all

lemma keeps_wm_state: "keeps ledger (checked_wm_state ops connection window wm_state)"
  unfolding keeps_owes checked_wm_state_def
  by (intro owes_bind [OF keeps_usable] owes_bind [OF keeps_check_error] owes_rules) simp_all

lemma keeps_has_atom:
  "keeps ledger (checked_property_has_atom ops connection window property expected max_atoms)"
  unfolding keeps_owes checked_property_has_atom_def
  by (intro owes_bind [OF keeps_usable] owes_bind [OF keeps_check_error_check] owes_rules) simp_all

lemma keeps_query:
  "keeps ledger (query_service_state ops connection r window wm_state net_state max_h max_v full)"
  unfolding keeps_owes query_service_state_def
  by (intro owes_bind [OF keeps_snapshot] owes_bind [OF keeps_check_error] owes_rules) simp_all

lemma keeps_warp: "keeps ledger (warp_to_center ops connection window)"
  unfolding keeps_owes warp_to_center_def
  by (intro owes_bind [OF keeps_snapshot] owes_bind [OF keeps_void] owes_rules) simp_all

lemma keeps_focus: "keeps ledger (request_focus ops connection r window active)"
  unfolding keeps_owes request_focus_def checked_raise_window_def
  by (intro owes_bind [OF keeps_usable] owes_bind [OF keeps_checked_request] owes_rules
      owes_keeps [OF keeps_void]) simp_all

lemma keeps_send_event: "keeps ledger (send_event_checked ops display window event)"
  unfolding keeps_owes send_event_checked_def
proof (intro owes_rules refl)
  fix named connection
  have failed: "owes 0 0 1 (do { if_then connection (count_links (- 1)); State_Monad.return False })"
    if connection
    using that by (intro owes_rules) simp_all
  have sent: "owes 0 0 1 (do { sent \<leftarrow> void_request_ok ops (the event); count_links (- 1);
      State_Monad.return sent })"
    by (intro owes_bind [OF keeps_void] owes_rules) simp_all
  show "owes 0 0 (0 + 1) (do { ok \<leftarrow> all_checks [check connection, no_error ops];
      if \<not> ok then do { if_then connection (count_links (- 1)); State_Monad.return False }
      else do { sent \<leftarrow> void_request_ok ops (the event); count_links (- 1); State_Monad.return sent } })"
    if connection
    using failed [OF that] sent by (intro owes_bind [OF keeps_check_error] owes_if) simp_all
  show "owes 0 0 0 (do { ok \<leftarrow> all_checks [check connection, no_error ops];
      if \<not> ok then do { if_then connection (count_links (- 1)); State_Monad.return False }
      else do { sent \<leftarrow> void_request_ok ops (the event); count_links (- 1); State_Monad.return sent } })"
    if "\<not> connection"
    using that by (simp add: if_then_def) (simp add: owes_return)
qed

lemma keeps_release: "keeps ledger (release_mouse_lock ops display)"
  unfolding keeps_owes release_mouse_lock_def if_then_def [of display]
  by (intro owes_if owes_return owes_lock owes_last_lock owes_server owes_bind [OF keeps_shared]
      owes_if_then owes_bind [OF keeps_bind [OF keeps_void keeps_bind [OF keeps_server keeps_return]]])
    simp_all

lemma keeps_grab: "keeps ledger (grab_window ops connection window)"
  unfolding keeps_owes grab_window_def by (intro owes_bind [OF keeps_check_error] owes_rules) simp_all

lemma keeps_ungrab: "keeps ledger (ungrab_pointer ops)"
  unfolding ungrab_pointer_def by (intro keeps_bind keeps_void keeps_return)

lemma owes_unlock:
  assumes "owes l (k - 1) n (f ())"
  shows "owes l k n (State_Monad.bind (flush_and_unlock ops connection) f)"
  unfolding flush_and_unlock_def State_Monad.bind_assoc
  by (intro owes_if_then owes_bind [OF keeps_bind [OF keeps_server keeps_return]] owes_lock) (use assms in simp_all)

lemma keeps_acquire: "keeps ledger (acquire_mouse_lock_checked ops display window has_out)"
  unfolding keeps_owes acquire_mouse_lock_checked_def
  by (intro owes_if owes_return owes_server owes_lock owes_bind [OF keeps_shared] owes_bind [OF keeps_grab]
      owes_bind [OF keeps_if [OF keeps_warp keeps_return]] owes_if_then owes_bind [OF keeps_ungrab]
      owes_unlock) simp_all

lemma keeps_center: "keeps ledger (center_pointer_checked ops display window has_out)"
  unfolding keeps_owes center_pointer_checked_def
  by (intro owes_if owes_return owes_server owes_lock owes_bind [OF keeps_shared]
      owes_bind [OF keeps_warp] owes_unlock) simp_all

lemma keeps_confirmed: "keeps ledger (owner_confirmed ops selection owner)"
  unfolding keeps_owes owner_confirmed_def by (intro owes_bind [OF keeps_check_error] owes_rules) simp_all

lemma keeps_selection: "keeps ledger (set_selection_owner_checked ops display selection owner time)"
  unfolding keeps_owes set_selection_owner_checked_def
  by (intro owes_if owes_return owes_server owes_lock owes_bind [OF keeps_shared]
      owes_bind [OF keeps_if [OF keeps_bind [OF keeps_void keeps_bind [OF
        keeps_if [OF keeps_confirmed keeps_return] keeps_bind [OF keeps_server keeps_return]]] keeps_return]])
    simp_all

lemma keeps_map: "keeps ledger (State_Monad.bind m (\<lambda>x. State_Monad.return (f x)))"
  if "keeps ledger m"
  by (intro keeps_bind that keeps_return)

text \<open>C7: Every checked call, whatever the server answers and wherever it stops, frees each answer and error
  exactly once, unlocks the display as often as it has locked it, and closes the connection it has
  opened for itself.
\<close>

theorem checked_calls_balance:
  "keeps ledger (checked_map_window ops connection window b)
   \<and> keeps ledger (checked_raise_window ops connection window)
   \<and> keeps ledger (checked_move_window ops connection window x y)
   \<and> keeps ledger (checked_change_property ops connection window property type format n b)
   \<and> keeps ledger (checked_selection_notify ops connection window selection target property time)
   \<and> keeps ledger (checked_property_changes ops connection window b)
   \<and> keeps ledger (checked_requestor_events_enabled ops connection window)
   \<and> keeps ledger (checked_barrier ops connection)
   \<and> keeps ledger (poll_checked_property_delete ops connection)
   \<and> keeps ledger (checked_window_snapshot ops connection window)
   \<and> keeps ledger (checked_wm_state ops connection window wm_state)
   \<and> keeps ledger (checked_property_has_atom ops connection window property expected max_atoms)
   \<and> keeps ledger (get_window_size ops connection window)
   \<and> keeps ledger (render_snapshot ops connection window)
   \<and> keeps ledger (query_service_state ops connection r window wm_state net_state max_h max_v full)
   \<and> keeps ledger (send_net_wm_state ops connection r window state action first second)
   \<and> keeps ledger (request_focus ops connection r window active)
   \<and> keeps ledger (send_event_checked ops display window event)
   \<and> keeps ledger (release_mouse_lock ops display)
   \<and> keeps ledger (acquire_mouse_lock_checked ops display window has_out)
   \<and> keeps ledger (center_pointer_checked ops display window has_out)
   \<and> keeps ledger (set_selection_owner_checked ops display selection owner time)"
  unfolding checked_map_window_def checked_raise_window_def checked_move_window_def
    checked_change_property_def checked_selection_notify_def get_window_size_def render_snapshot_def
    send_net_wm_state_def
  by (intro conjI keeps_checked_request keeps_conj keeps_server keeps_changes keeps_enabled
      keeps_barrier keeps_poll keeps_snapshot keeps_wm_state keeps_has_atom keeps_map keeps_query
      keeps_focus keeps_send_event keeps_release keeps_acquire keeps_center keeps_selection)

subsection \<open>The pointer\<close>

text \<open>
  What the proofs see of a server's pointer, as seen from this client: \<open>grab\<close> is the window of the
  client's grab of it, \<open>ended\<close> counts the grabs the server has ended of its own accord (the window
  became unviewable, an automatic UngrabPointer), and \<open>broken\<close> says that the connection is lost.
  Whatever the client does that is no request to grab the pointer or to give it back only lets the
  pointer drift: the grab stays or the server ends it. A connection that is lost stays lost.
\<close>

record pointer =
  grab :: "u64 option"
  ended :: nat
  broken :: bool

definition drifts :: "pointer \<Rightarrow> pointer \<Rightarrow> bool" where
  "drifts p q \<longleftrightarrow> (broken p \<longrightarrow> broken q) \<and> ended p \<le> ended q
     \<and> (broken q \<or> grab q = grab p \<or> grab q = None \<and> ended p < ended q)"

text \<open>The grab of a window is in place, unless the server has ended it or the connection is lost.\<close>

definition grabbed_since :: "pointer \<Rightarrow> u64 \<Rightarrow> pointer \<Rightarrow> bool" where
  "grabbed_since p window q \<longleftrightarrow>
     broken q \<or> grab q = Some window \<or> grab q = None \<and> ended p < ended q"

definition ungrabbed :: "pointer \<Rightarrow> bool" where
  "ungrabbed q \<longleftrightarrow> broken q \<or> grab q = None"

lemma drifts_refl [simp]: "drifts p p"
  by (simp add: drifts_def)

lemma drifts_trans: "drifts p q \<Longrightarrow> drifts q r \<Longrightarrow> drifts p r"
  by (auto simp: drifts_def)

lemma grabbed_since_drifts: "grabbed_since p window q \<Longrightarrow> drifts q r \<Longrightarrow> ended p \<le> ended q \<Longrightarrow> grabbed_since p window r"
  by (auto simp: drifts_def grabbed_since_def)

lemma ungrabbed_drifts: "ungrabbed q \<Longrightarrow> drifts q r \<Longrightarrow> ungrabbed r"
  by (auto simp: drifts_def ungrabbed_def)

text \<open>
  The laws of the server, \<open>view\<close> being the pointer of its state. Asking for the connection's error
  tells whether it is lost; a shared connection is always there (Xlib on XCB); a request to ungrab the
  pointer leaves it free whatever comes back; a grab that is granted is in place, and any other answer
  changes nothing.
\<close>

definition drifting :: "('w \<Rightarrow> pointer) \<Rightarrow> ('w, 'a) state \<Rightarrow> bool" where
  "drifting view m \<longleftrightarrow> (\<forall>w. drifts (view w) (view (snd (run_state m w))))"

definition pointer_server :: "'w x_ops \<Rightarrow> ('w \<Rightarrow> pointer) \<Rightarrow> bool" where
  "pointer_server ops view \<longleftrightarrow>
     (drifting view (connection_error ops)
       \<and> (\<forall>w. fst (run_state (connection_error ops) w) \<longrightarrow> broken (view (snd (run_state (connection_error ops) w)))))
     \<and> (drifting view (shared_connection ops) \<and> (\<forall>w. fst (run_state (shared_connection ops) w)))
     \<and> drifting view (flush_ok ops) \<and> drifting view (flush_display ops)
     \<and> (\<forall>window. drifting view (attributes_of ops window)) \<and> (\<forall>window. drifting view (geometry_of ops window))
     \<and> (\<forall>request. request \<noteq> Ungrab_Pointer \<longrightarrow> drifting view (request_failed ops request))
     \<and> (\<forall>w. ungrabbed (view (snd (run_state (request_failed ops Ungrab_Pointer) w))))
     \<and> (\<forall>window w answer w'. run_state (grab_pointer ops window) w = (answer, w') \<longrightarrow>
          (if answer = (Some True, False)
           then ended (view w) \<le> ended (view w') \<and> grabbed_since (view w) window (view w')
           else drifts (view w) (view w')))"

lemma pointer_laws:
  assumes "pointer_server ops view"
  shows "drifting view (connection_error ops)"
    "\<And>w. fst (run_state (connection_error ops) w) \<Longrightarrow> broken (view (snd (run_state (connection_error ops) w)))"
    "drifting view (shared_connection ops)" "\<And>w. fst (run_state (shared_connection ops) w)"
    "drifting view (flush_ok ops)" "drifting view (flush_display ops)"
    "\<And>window. drifting view (attributes_of ops window)" "\<And>window. drifting view (geometry_of ops window)"
    "\<And>request. request \<noteq> Ungrab_Pointer \<Longrightarrow> drifting view (request_failed ops request)"
    "\<And>w. ungrabbed (view (snd (run_state (request_failed ops Ungrab_Pointer) w)))"
    "\<And>window w answer w'. run_state (grab_pointer ops window) w = (answer, w') \<Longrightarrow>
       if answer = (Some True, False)
       then ended (view w) \<le> ended (view w') \<and> grabbed_since (view w) window (view w')
       else drifts (view w) (view w')"
  using assms unfolding pointer_server_def by blast+

text \<open>A program that lets the pointer drift, as an invariant from every start.\<close>

abbreviation at_pointer :: "('w \<Rightarrow> pointer) \<Rightarrow> 'w x_client \<Rightarrow> pointer" where
  "at_pointer view s \<equiv> view (server s)"

definition drift :: "('w \<Rightarrow> pointer) \<Rightarrow> ('w x_client, 'a) state \<Rightarrow> bool" where
  "drift view m \<longleftrightarrow> (\<forall>p. preserves (\<lambda>s. drifts p (at_pointer view s)) m)"

lemma drift_step:
  assumes "drift view m" "\<And>a t. drifts (at_pointer view s) (at_pointer view t) \<Longrightarrow> wp (f a) Q t"
  shows "wp (State_Monad.bind m f) Q s"
  using assms unfolding drift_def by (blast intro: wp_follow preservesD drifts_refl)

lemma drift_server: "drifting view m \<Longrightarrow> drift view (on_server m)"
  by (auto simp: drift_def preserves_def drifting_def wp_simps split: prod.split)
    (metis drifts_trans snd_conv)

named_theorems drift_rules

lemma drift_return [drift_rules]: "drift view (State_Monad.return a)"
  by (simp add: drift_def preserves_return)

lemma drift_bind [drift_rules]:
  "drift view m \<Longrightarrow> (\<And>a. drift view (f a)) \<Longrightarrow> drift view (State_Monad.bind m f)"
  by (simp add: drift_def preserves_bind)

lemma drift_if [drift_rules]:
  "(b \<Longrightarrow> drift view m) \<Longrightarrow> (\<not> b \<Longrightarrow> drift view n) \<Longrightarrow> drift view (if b then m else n)"
  by simp

lemma drift_if_then [drift_rules]: "drift view m \<Longrightarrow> drift view (if_then b m)"
  by (simp add: drift_def preserves_if_then)

lemma drift_option [drift_rules]:
  "drift view m \<Longrightarrow> (\<And>y. drift view (n y)) \<Longrightarrow> drift view (case x of None \<Rightarrow> m | Some y \<Rightarrow> n y)"
  by (cases x) simp_all

lemma drift_counts [drift_rules]: "drift view (count_live n)" "drift view (lock_display n)"
  by (simp_all add: drift_def preserves_def count_live_def lock_display_def wp_simps)

lemma drift_free [drift_rules]: "drift view (free_answer r)"
  unfolding free_answer_def by (rule drift_counts)

lemma drift_await: "drifting view m \<Longrightarrow> drift view (await m)"
  unfolding await_def by (intro drift_rules drift_server)

lemma drift_checks: "list_all (drift view) ms \<Longrightarrow> drift view (all_checks ms)"
  by (induction ms) (auto intro!: drift_rules)

lemma drift_no_error: "pointer_server ops view \<Longrightarrow> drift view (no_error ops)"
  unfolding no_error_def negated_def by (intro drift_rules drift_server pointer_laws(1))

lemma drift_check_error:
  "pointer_server ops view \<Longrightarrow> drift view (all_checks [check b, no_error ops])"
  by (rule drift_checks) (simp add: drift_no_error drift_return)

lemma drift_void:
  assumes "pointer_server ops view" "request \<noteq> Ungrab_Pointer"
  shows "drift view (void_request_ok ops request)"
  unfolding void_request_ok_def
  by (intro drift_check_error [OF assms(1)] drift_rules drift_server pointer_laws(9) [OF assms])

lemma drift_usable: "pointer_server ops view \<Longrightarrow> drift view (checked_connection_usable ops b)"
  unfolding checked_connection_usable_def by (rule drift_check_error)

lemma drift_snapshot:
  assumes "pointer_server ops view"
  shows "drift view (checked_window_snapshot ops connection window)"
  unfolding checked_window_snapshot_def Let_def
  by (intro drift_check_error [OF assms] drift_usable [OF assms] drift_await pointer_laws(7,8) [OF assms]
      drift_rules)

lemma drift_warp:
  assumes "pointer_server ops view"
  shows "drift view (warp_to_center ops connection window)"
  unfolding warp_to_center_def Let_def
  by (intro drift_snapshot [OF assms] drift_void [OF assms] drift_rules) simp

lemma drift_display:
  assumes "pointer_server ops view"
  shows "drift view (on_server (flush_display ops))" "drift view (on_server (flush_ok ops))"
    "drift view (usable_shared_connection ops display)"
proof -
  show "drift view (on_server (flush_display ops))" "drift view (on_server (flush_ok ops))"
    by (intro drift_server pointer_laws [OF assms])+
  show "drift view (usable_shared_connection ops display)" unfolding usable_shared_connection_def
    by (intro drift_checks) (simp add: drift_no_error [OF assms] drift_return drift_server pointer_laws [OF assms])
qed

lemma drift_unlock:
  assumes "pointer_server ops view"
  shows "drift view (flush_and_unlock ops connection)"
  unfolding flush_and_unlock_def by (intro drift_rules drift_display(2) [OF assms])

text \<open>Giving the pointer back.\<close>

lemma ungrab_releases:
  assumes "pointer_server ops view"
  shows "wp (void_request_ok ops Ungrab_Pointer) (\<lambda>_ s'. ungrabbed (at_pointer view s')) s"
  unfolding void_request_ok_def
proof (rule wp_follow)
  show "wp (on_server (request_failed ops Ungrab_Pointer)) (\<lambda>_ s'. ungrabbed (at_pointer view s')) s"
    using pointer_laws(10) [OF assms] by (simp add: wp_simps split: prod.split) (metis snd_conv)
next
  fix failed and t :: "'a x_client"
  assume free: "ungrabbed (at_pointer view t)"
  have "drift view (do { count_live (of_bool failed);
      ok \<leftarrow> all_checks [check (\<not> failed), no_error ops];
      count_live (- of_bool failed);
      State_Monad.return ok })"
    by (intro drift_check_error [OF assms] drift_rules)
  from drift_step [OF this, where f = State_Monad.return and s = t and Q = "\<lambda>_ s'. ungrabbed (at_pointer view s')"]
  show "wp (do { count_live (of_bool failed);
      ok \<leftarrow> all_checks [check (\<not> failed), no_error ops];
      count_live (- of_bool failed);
      State_Monad.return ok }) (\<lambda>_ s'. ungrabbed (at_pointer view s')) t"
    using ungrabbed_drifts [OF free] by (simp add: wp_simps)
qed

lemma ungrab_frees:
  assumes "pointer_server ops view"
  shows "wp (ungrab_pointer ops) (\<lambda>_ s'. ungrabbed (at_pointer view s')) s"
  unfolding ungrab_pointer_def by (rule wp_follow [OF ungrab_releases [OF assms]]) (simp add: wp_simps)

text \<open>A check that fails on an otherwise good answer has lost the connection.\<close>

lemma no_error_tells:
  assumes "pointer_server ops view"
  shows "wp (all_checks [check b, no_error ops])
    (\<lambda>ok t. drifts (at_pointer view s) (at_pointer view t) \<and> (ok \<longrightarrow> b) \<and> (b \<and> \<not> ok \<longrightarrow> broken (at_pointer view t))) s"
proof -
  obtain e w where run: "run_state (connection_error ops) (server s) = (e, w)" by force
  with pointer_laws(1) [OF assms] pointer_laws(2) [OF assms, of "server s"]
  have "drifts (view (server s)) (view w)" "e \<longrightarrow> broken (view w)"
    by (auto simp: drifting_def dest: spec [of _ "server s"])
  then show ?thesis using run by (simp add: wp_simps no_error_def)
qed

text \<open>What the grab is known to be, by what the call has seen: granted, or not.\<close>

definition after_grab :: "pointer \<Rightarrow> u64 \<Rightarrow> bool \<Rightarrow> pointer \<Rightarrow> bool" where
  "after_grab p window granted q \<longleftrightarrow>
     (if granted then ended p \<le> ended q \<and> grabbed_since p window q else broken q \<or> drifts p q)"

lemma after_grab_drifts: "after_grab p window granted q \<Longrightarrow> drifts q r \<Longrightarrow> after_grab p window granted r"
  by (auto simp: after_grab_def drifts_def grabbed_since_def)

lemma drift_after_grab:
  assumes "drift view m" "after_grab p window granted (at_pointer view s)"
    "\<And>a t. after_grab p window granted (at_pointer view t) \<Longrightarrow> wp (f a) Q t"
  shows "wp (State_Monad.bind m f) Q s"
  by (rule drift_step [OF assms(1)]) (rule assms(3), rule after_grab_drifts [OF assms(2)])

lemma grab_holds:
  assumes "pointer_server ops view" "drifts p (at_pointer view s)"
  shows "wp (grab_window ops connection window) (\<lambda>granted t. after_grab p window granted (at_pointer view t)) s"
proof (cases connection)
  case True
  have "wp (do { reply \<leftarrow> await (grab_pointer ops window);
      granted \<leftarrow> all_checks [check (answered reply \<and> fst reply = Some True), no_error ops];
      free_answer reply;
      State_Monad.return granted })
    (\<lambda>granted t. after_grab p window granted (at_pointer view t)) s"
  proof (rule wp_follow)
    show "wp (await (grab_pointer ops window))
        (\<lambda>r t. after_grab p window (r = (Some True, False)) (at_pointer view t)) s"
    proof -
      obtain r w where run: "run_state (grab_pointer ops window) (server s) = (r, w)" by (metis surj_pair)
      have "after_grab p window (r = (Some True, False)) (view w)"
        using pointer_laws(11) [OF assms(1) run] assms(2) drifts_trans
        by (auto simp: after_grab_def grabbed_since_def drifts_def split: if_splits)
      with run show ?thesis by (simp add: await_def count_live_def wp_simps)
    qed
  next
    fix reply and t :: "'a x_client"
    assume start: "after_grab p window (reply = (Some True, False)) (at_pointer view t)"
    have granted: "answered reply \<and> fst reply = Some True \<longleftrightarrow> reply = (Some True, False)"
      by (cases reply) (auto simp: answered_def)
    show "wp (do { granted \<leftarrow> all_checks [check (answered reply \<and> fst reply = Some True), no_error ops];
        free_answer reply;
        State_Monad.return granted })
      (\<lambda>granted t. after_grab p window granted (at_pointer view t)) t"
      unfolding granted
    proof (rule wp_follow [OF no_error_tells [OF assms(1)]])
      fix ok and u :: "'a x_client"
      assume u: "drifts (at_pointer view t) (at_pointer view u) \<and> (ok \<longrightarrow> reply = (Some True, False))
        \<and> (reply = (Some True, False) \<and> \<not> ok \<longrightarrow> broken (at_pointer view u))"
      with after_grab_drifts [OF start conjunct1 [OF u]]
      have "after_grab p window ok (at_pointer view u)"
        by (cases "reply = (Some True, False)"; cases ok) (simp_all add: after_grab_def)
      then show "wp (do { free_answer reply; State_Monad.return ok })
          (\<lambda>granted t. after_grab p window granted (at_pointer view t)) u"
        by (simp add: free_answer_def count_live_def wp_simps)
    qed
  qed
  with True show ?thesis by (simp add: grab_window_def)
next
  case False
  with assms(2) show ?thesis by (simp add: grab_window_def wp_return after_grab_def)
qed

text \<open>The outcome of the call: a middle says that the grab is in place, none that the call has left no grab.\<close>

definition lock_outcome :: "pointer \<Rightarrow> u64 \<Rightarrow> bool \<Rightarrow> pointer \<Rightarrow> bool" where
  "lock_outcome p window held q \<longleftrightarrow>
     (if held then grabbed_since p window q else broken q \<or> grab q = None \<or> grab q = grab p)"

lemma lock_outcome_drifts: "lock_outcome p window held q \<Longrightarrow> ended p \<le> ended q \<Longrightarrow> drifts q r \<Longrightarrow> lock_outcome p window held r"
  by (auto simp: lock_outcome_def drifts_def grabbed_since_def split: if_splits)

lemma give_back_holds:
  assumes "pointer_server ops view" "after_grab p window granted (at_pointer view s)"
    "\<not> granted \<longrightarrow> center = None"
  shows "wp (do { if_then (center = None \<and> granted) (ungrab_pointer ops);
      flush_and_unlock ops connection;
      State_Monad.return center })
    (\<lambda>center t. lock_outcome p window (center \<noteq> None) (at_pointer view t)) s"
proof (cases "center = None \<and> granted")
  case True
  show ?thesis unfolding if_then_def if_P [OF True]
  proof (rule wp_follow [OF ungrab_frees [OF assms(1)]])
    fix u and t :: "'a x_client"
    assume "ungrabbed (at_pointer view t)"
    then show "wp (do { flush_and_unlock ops connection; State_Monad.return center })
        (\<lambda>center t. lock_outcome p window (center \<noteq> None) (at_pointer view t)) t"
      using True by (intro drift_step [OF drift_unlock [OF assms(1)]] wp_done)
        (auto simp: lock_outcome_def drifts_def ungrabbed_def)
  qed
next
  case False
  with assms(3) have same: "granted \<longleftrightarrow> center \<noteq> None" by auto
  show ?thesis unfolding if_then_def if_not_P [OF False]
    by (rule step_return, rule drift_after_grab [OF drift_unlock [OF assms(1)] assms(2)], rule wp_done)
      (use same in \<open>auto simp: lock_outcome_def after_grab_def drifts_def split: if_splits\<close>)
qed

lemma lock_flow:
  assumes "pointer_server ops view" "drifts p (at_pointer view s)"
  shows "wp (do {
      grabbed \<leftarrow> grab_window ops connection window;
      center \<leftarrow> (if grabbed then warp_to_center ops connection window else State_Monad.return None);
      if_then (center = None \<and> grabbed) (ungrab_pointer ops);
      flush_and_unlock ops connection;
      State_Monad.return center })
    (\<lambda>center t. lock_outcome p window (center \<noteq> None) (at_pointer view t)) s"
proof (rule wp_follow [OF grab_holds [OF assms]])
  fix grabbed and t :: "'a x_client"
  assume t: "after_grab p window grabbed (at_pointer view t)"
  show "wp (do {
      center \<leftarrow> (if grabbed then warp_to_center ops connection window else State_Monad.return None);
      if_then (center = None \<and> grabbed) (ungrab_pointer ops);
      flush_and_unlock ops connection;
      State_Monad.return center })
    (\<lambda>center t. lock_outcome p window (center \<noteq> None) (at_pointer view t)) t"
  proof (cases grabbed)
    case True
    show ?thesis unfolding if_P [OF True]
      by (rule drift_after_grab [OF drift_warp [OF assms(1)] t], rule give_back_holds [OF assms(1)])
        (simp_all add: True)
  next
    case False
    show ?thesis unfolding if_not_P [OF False]
      by (rule step_return, rule give_back_holds [OF assms(1)]) (use t False in simp_all)
  qed
qed

lemma acquire_holds:
  assumes "pointer_server ops view"
  shows "wp (acquire_mouse_lock_checked ops display window has_out)
      (\<lambda>center t. lock_outcome (at_pointer view s) window (center \<noteq> None) (at_pointer view t)) s"
proof (cases "\<not> display \<or> window = 0 \<or> \<not> has_out")
  case True
  show ?thesis unfolding acquire_mouse_lock_checked_def if_P [OF True]
    by (rule wp_done) (simp add: lock_outcome_def)
next
  case False
  show ?thesis unfolding acquire_mouse_lock_checked_def if_not_P [OF False]
    by (intro drift_step [OF drift_counts(2) [where view = view]] drift_step [OF drift_display(1) [OF assms]]
        drift_step [OF drift_display(3) [OF assms]] lock_flow [OF assms]) (blast intro: drifts_trans)
qed

text \<open>A shared connection that is not usable is lost.\<close>

lemma shared_usable:
  assumes "pointer_server ops view"
  shows "wp (usable_shared_connection ops True) (\<lambda>usable t. \<not> usable \<longrightarrow> broken (at_pointer view t)) s"
proof -
  obtain b w where run: "run_state (shared_connection ops) (server s) = (b, w)" by force
  obtain e w' where run': "run_state (connection_error ops) w = (e, w')" by force
  have "b" "e \<longrightarrow> broken (view w')"
    using pointer_laws(4) [OF assms, of "server s"] pointer_laws(2) [OF assms, of w] run run' by simp_all
  then show ?thesis using run run' by (simp add: usable_shared_connection_def no_error_def wp_simps)
qed

lemma release_frees:
  assumes "pointer_server ops view"
  shows "wp (release_mouse_lock ops True) (\<lambda>_ t. ungrabbed (at_pointer view t)) s"
proof -
  let ?free = "\<lambda>(_ :: unit) t. ungrabbed (at_pointer view t)"
  have rest: "wp (if_then usable (do { _ \<leftarrow> void_request_ok ops Ungrab_Pointer; _ \<leftarrow> on_server (flush_ok ops); State_Monad.return () }))
      ?free t" if "\<not> usable \<longrightarrow> broken (at_pointer view t)" for usable t
  proof (cases usable)
    case True
    have "wp (do { _ \<leftarrow> void_request_ok ops Ungrab_Pointer; _ \<leftarrow> on_server (flush_ok ops); State_Monad.return () }) ?free t"
      by (rule wp_follow [OF ungrab_releases [OF assms]], rule drift_step [OF drift_display(2) [OF assms]], rule wp_done)
        (rule ungrabbed_drifts)
    with True show ?thesis by (simp add: if_then_def)
  next
    case False
    with that show ?thesis by (simp add: if_then_def wp_simps ungrabbed_def)
  qed
  have last: "wp (lock_display (- 1)) ?free t" if "ungrabbed (at_pointer view t)" for t
    using that by (simp add: lock_display_def wp_simps)
  show ?thesis unfolding release_mouse_lock_def if_then_def [of True] if_True
    by (rule wp_external, rule wp_external, rule wp_follow [OF shared_usable [OF assms]],
      rule wp_follow [OF rest]) (simp_all add: last)
qed

text \<open>C6: The mouse lock, from any state and whatever the server ends of its own accord: a middle is
  returned only with the pointer grabbed for the window, unless the server itself has ended that grab
  since the call began or the connection is lost; without a middle the call leaves no grab it was
  granted (it is as before or gone). After the release no grab is left, unless the connection is lost.
\<close>

theorem mouse_lock_holds:
  assumes "pointer_server ops view"
  shows "wp (acquire_mouse_lock_checked ops display window has_out)
      (\<lambda>center s'. let p = at_pointer view s; q = at_pointer view s' in
         broken q
         \<or> (if center \<noteq> None then grab q = Some window \<or> grab q = None \<and> ended p < ended q
            else grab q = None \<or> grab q = grab p)) s
    \<and> wp (release_mouse_lock ops True)
        (\<lambda>_ s'. broken (at_pointer view s') \<or> grab (at_pointer view s') = None) t"
proof
  show "wp (acquire_mouse_lock_checked ops display window has_out)
      (\<lambda>center s'. let p = at_pointer view s; q = at_pointer view s' in
         broken q
         \<or> (if center \<noteq> None then grab q = Some window \<or> grab q = None \<and> ended p < ended q
            else grab q = None \<or> grab q = grab p)) s"
    by (rule wp_mono [OF acquire_holds [OF assms]]) (simp add: lock_outcome_def grabbed_since_def Let_def split: if_splits)
  show "wp (release_mouse_lock ops True)
      (\<lambda>_ s'. broken (at_pointer view s') \<or> grab (at_pointer view s') = None) t"
    using release_frees [OF assms] by (simp only: ungrabbed_def)
qed

end
