(* ===== verification/X11_Checked_Demo.thy ===== *)
theory X11_Checked_Demo
  imports X11_Checked_Props
begin

text \<open>
  A server with one viewable window, number 7, that answers everything, and the mouse lock on it.
  With \<open>stuck\<close> it refuses to move the pointer, with \<open>ends\<close> it ends the grab by itself when the pointer
  moves, and a lost connection tells so. Its state is the pointer.
\<close>

definition demo_failed :: "bool \<Rightarrow> bool \<Rightarrow> x_request \<Rightarrow> (pointer, bool) state" where
  "demo_failed stuck ends request = State (\<lambda>p.
     case request of
       Ungrab_Pointer \<Rightarrow> (False, p\<lparr>grab := None\<rparr>)
     | Warp_Pointer _ _ _ \<Rightarrow> (stuck, if ends \<and> grab p \<noteq> None then p\<lparr>grab := None, ended := ended p + 1\<rparr> else p)
     | _ \<Rightarrow> (False, p))"

definition demo_grab :: "u64 \<Rightarrow> (pointer, bool answer) state" where
  "demo_grab window = State (\<lambda>p. if grab p = None \<and> window = 7 then ((Some True, False), p\<lparr>grab := Some window\<rparr>)
     else ((Some False, False), p))"

definition demo_server :: "bool \<Rightarrow> bool \<Rightarrow> pointer x_ops" where
  "demo_server stuck ends = \<lparr>connection_error = State (\<lambda>p. (broken p, p)),
     shared_connection = State_Monad.return True, display_named = State_Monad.return True,
     connect_server = State_Monad.return True, request_failed = demo_failed stuck ends,
     attributes_of = (\<lambda>_. State_Monad.return (Some (2, 0), False)),
     geometry_of = (\<lambda>_. State_Monad.return (Some (640, 481), False)),
     property_of = (\<lambda>_ _ _ _. State_Monad.return (None, True)),
     focus_of = State_Monad.return (Some 7, False),
     translation_of = (\<lambda>_ _. State_Monad.return (Some (True, 10, 20), False)),
     grab_pointer = demo_grab, selection_owner = (\<lambda>_. State_Monad.return (Some 7, False)),
     poll_event = State_Monad.return None, flush_ok = State_Monad.return True,
     flush_display = State_Monad.return ()\<rparr>"

definition demo_client :: "pointer x_client" where
  "demo_client = \<lparr>server = \<lparr>grab = None, ended = 0, broken = False\<rparr>, live = 0, locked = 0, links = 0\<rparr>"

lemma demo_pointer_server: "pointer_server (demo_server stuck ends) (\<lambda>p. p)"
  by (auto simp: pointer_server_def demo_server_def drifting_def demo_failed_def demo_grab_def drifts_def
      ungrabbed_def grabbed_since_def State_Monad.return_def split: x_request.split if_splits)

text \<open>The lock on the window, on a server that ends the grab itself.\<close>

theorem mouse_lock_holds_witness:
  "wp (acquire_mouse_lock_checked (demo_server False True) True 7 True)
     (\<lambda>center s. broken (server s)
        \<or> (if center \<noteq> None then grab (server s) = Some 7 \<or> grab (server s) = None \<and> 0 < ended (server s)
           else grab (server s) = None)) demo_client"
  by (rule wp_mono [OF conjunct1 [OF mouse_lock_holds [OF demo_pointer_server [of False True],
      of True 7 True demo_client demo_client]]])
    (simp add: demo_client_def Let_def split: if_splits)

lemmas demo_run = acquire_mouse_lock_checked_def release_mouse_lock_def demo_server_def demo_client_def
  demo_failed_def demo_grab_def
  grab_window_def ungrab_pointer_def flush_and_unlock_def usable_shared_connection_def await_def count_live_def free_answer_def lock_display_def no_error_def
  answered_def warp_to_center_def checked_window_snapshot_def checked_connection_usable_def
  void_request_ok_def wp_simps Let_def negated_def if_then_def

lemma lock_demo:
  "wp (acquire_mouse_lock_checked (demo_server False False) True 7 True)
     (\<lambda>center s. center = Some (320, 240) \<and> grab (server s) = Some 7 \<and> live s = 0 \<and> locked s = 0) demo_client"
  by (simp add: demo_run ex_bool_eq)

lemma stuck_pointer_demo:
  "wp (acquire_mouse_lock_checked (demo_server True False) True 7 True)
     (\<lambda>center s. center = None \<and> grab (server s) = None \<and> live s = 0 \<and> locked s = 0) demo_client"
  by (simp add: demo_run ex_bool_eq)

text \<open>The server takes the grab back although the call succeeds.\<close>

lemma ended_grab_demo:
  "wp (acquire_mouse_lock_checked (demo_server False True) True 7 True)
     (\<lambda>center s. center = Some (320, 240) \<and> server s = \<lparr>grab = None, ended = 1, broken = False\<rparr> \<and> live s = 0) demo_client"
  by (simp add: demo_run ex_bool_eq)

end
