(* ===== verification/X11_Pixels.thy ===== *)
theory X11_Pixels
  imports X11_Checked
begin

unbundle bit_operations_syntax

text \<open>
  Reading back the pixels of a window (\<^verbatim>\<open>v_multiwindow_x11_readback_rgba8\<close>): the image of the server, in
  whatever format its visual has, as four bytes per pixel. The channels of a pixel are cut out by the
  masks of the visual and scaled to a byte.
\<close>

subsection \<open>A channel\<close>

text \<open>The loop that looks for the lowest bit of the mask; it ends only if there is one.\<close>

partial_function (option) lowest_bit :: "u64 \<Rightarrow> nat \<Rightarrow> nat option" where
  "lowest_bit m shift =
     (if drop_bit shift m AND 1 = 0 then lowest_bit m (shift + 1) else Some shift)"

definition scale_mask :: "u64 \<Rightarrow> u64 \<Rightarrow> u8 option" where
  "scale_mask pixel m =
     (if m = 0 then Some 0 else do {
        shift \<leftarrow> lowest_bit m 0;
        let max_value = drop_bit shift m;
        let value = drop_bit shift (pixel AND m);
        Some (ucast ((value * 255 + max_value div 2) div max_value)) })"

subsection \<open>The format of the image\<close>

record pixmap_format =
  format_depth :: u8
  format_bits :: u8
  format_pad :: u8

text \<open>The first format of the depth decides.\<close>

fun image_format :: "pixmap_format list option \<Rightarrow> u8 \<Rightarrow> (u8 \<times> u8) option" where
  "image_format None depth = None" |
  "image_format (Some []) depth = None" |
  "image_format (Some (f # fs)) depth =
     (if format_depth f = depth then
        if format_bits f \<noteq> 0 \<and> format_bits f mod 8 = 0 \<and> format_bits f \<le> 32 \<and> format_pad f \<noteq> 0
        then Some (format_bits f, format_pad f) else None
      else image_format (Some fs) depth)"

subsection \<open>The pixels\<close>

text \<open>An image of Xlib: what \<^verbatim>\<open>XGetPixel\<close> says of it is the function \<open>pixel_at\<close>.\<close>

record x_image =
  bits_per_pixel :: int
  bytes_per_line :: int
  red_mask :: u64
  green_mask :: u64
  blue_mask :: u64
  pixel_at :: "nat \<Rightarrow> nat \<Rightarrow> u64"

text \<open>A write outside the buffer is \<open>None\<close>.\<close>

definition put_byte :: "nat \<Rightarrow> u8 \<Rightarrow> u8 list \<Rightarrow> u8 list option" where
  "put_byte i b pixels = (if i < length pixels then Some (pixels[i := b]) else None)"

definition put_pixel :: "x_image \<Rightarrow> nat \<Rightarrow> nat \<Rightarrow> nat \<Rightarrow> u8 list \<Rightarrow> u8 list option" where
  "put_pixel picture width row column pixels = do {
     let pixel = pixel_at picture column row;
     let target = (row * width + column) * 4;
     red \<leftarrow> scale_mask pixel (red_mask picture);
     pixels \<leftarrow> put_byte target red pixels;
     green \<leftarrow> scale_mask pixel (green_mask picture);
     pixels \<leftarrow> put_byte (target + 1) green pixels;
     blue \<leftarrow> scale_mask pixel (blue_mask picture);
     pixels \<leftarrow> put_byte (target + 2) blue pixels;
     put_byte (target + 3) 255 pixels }"

fun put_pixels :: "x_image \<Rightarrow> nat \<Rightarrow> (nat \<times> nat) list \<Rightarrow> u8 list \<Rightarrow> u8 list option" where
  "put_pixels picture width [] pixels = Some pixels" |
  "put_pixels picture width ((row, column) # rest) pixels = do {
     pixels \<leftarrow> put_pixel picture width row column pixels;
     put_pixels picture width rest pixels }"

subsection \<open>The transaction\<close>

record image_reply =
  reply_depth :: u8
  reply_visual :: u32
  data_length :: int

text \<open>
  The calls that read an image: the setup of the connection, the visuals of a number (whether there is
  an array, and its count) and the image of Xlib on the data of the reply.
\<close>

record 'w image_ops =
  image_of :: "u64 \<Rightarrow> int \<Rightarrow> int \<Rightarrow> int \<Rightarrow> int \<Rightarrow> ('w, image_reply answer) state"
  setup_formats :: "('w, pixmap_format list option) state"
  visuals_of :: "u32 \<Rightarrow> ('w, bool \<times> int) state"
  create_image :: "image_reply \<Rightarrow> int \<Rightarrow> int \<Rightarrow> u8 \<Rightarrow> ('w, x_image option) state"

abbreviation (input) INT16_MAX :: int where "INT16_MAX \<equiv> 32767"
abbreviation (input) UINT16_MAX :: int where "UINT16_MAX \<equiv> 65535"
abbreviation (input) INT_MAX :: int where "INT_MAX \<equiv> 2147483647"

definition readback_area_ok :: "u64 \<Rightarrow> int \<Rightarrow> int \<Rightarrow> int \<Rightarrow> int \<Rightarrow> nat \<Rightarrow> bool" where
  "readback_area_ok window x y width height pixels_len \<longleftrightarrow>
     window \<noteq> 0 \<and> 0 \<le> x \<and> 0 \<le> y \<and> x \<le> INT16_MAX \<and> y \<le> INT16_MAX \<and> 0 < width \<and> 0 < height
     \<and> width \<le> UINT16_MAX \<and> height \<le> UINT16_MAX \<and> int pixels_len = width * height * 4"

definition image_bytes :: "x_image option \<Rightarrow> int \<Rightarrow> int" where
  "image_bytes picture height = (case picture of
       None \<Rightarrow> 0
     | Some i \<Rightarrow> if bytes_per_line i > 0 then bytes_per_line i * height else 0)"

definition image_ok :: "x_image option \<Rightarrow> u8 \<Rightarrow> int \<Rightarrow> int \<Rightarrow> bool" where
  "image_ok picture bits height data_len = (case picture of
       None \<Rightarrow> False
     | Some i \<Rightarrow> bits_per_pixel i = uint bits
         \<and> red_mask i \<noteq> 0 \<and> green_mask i \<noteq> 0 \<and> blue_mask i \<noteq> 0
         \<and> data_len \<ge> 0 \<and> image_bytes picture height \<le> INT_MAX \<and> image_bytes picture height \<le> data_len)"

text \<open>
  \<^verbatim>\<open>XDestroyImage\<close> frees the image and, unless its \<^verbatim>\<open>data\<close> is null, the pixels it points to. The pixels
  of a readback are the body of the answer, which is freed by itself, so the code sets \<^verbatim>\<open>data\<close> to null
  first: the image is destroyed with nothing attached.
\<close>

definition destroy_image :: "x_image option \<Rightarrow> bool \<Rightarrow> ('w x_client, unit) state" where
  "destroy_image picture data_attached =
     count_live (if picture = None then 0 else - (1 + of_bool data_attached))"

text \<open>
  The result is the flag and the buffer afterwards, or \<open>None\<close> if a byte outside it was written. The array
  of visuals and the image are blocks to be freed too.
\<close>

definition readback_rgba8 ::
    "'w x_ops \<Rightarrow> 'w image_ops \<Rightarrow> bool \<Rightarrow> bool \<Rightarrow> u64 \<Rightarrow> int \<Rightarrow> int \<Rightarrow> int \<Rightarrow> int \<Rightarrow> u8 list option \<Rightarrow>
     ('w x_client, (bool \<times> u8 list option) option) state" where
  "readback_rgba8 ops calls display connection window x y width height pixels = do {
     usable \<leftarrow> all_checks [check display, checked_connection_usable ops connection];
     case pixels of
       None \<Rightarrow> State_Monad.return (Some (False, None))
     | Some buffer \<Rightarrow>
       if \<not> usable \<or> \<not> readback_area_ok window x y width height (length buffer)
       then State_Monad.return (Some (False, Some buffer)) else do {
         reply \<leftarrow> await (image_of calls window x y width height);
         setup \<leftarrow> on_server (setup_formats calls);
         alive \<leftarrow> all_checks [check (answered reply \<and> setup \<noteq> None), no_error ops];
         let format = (if alive then image_format setup (reply_depth (the (fst reply))) else None);
         (found, visual_count) \<leftarrow> (if format \<noteq> None
           then on_server (visuals_of calls (reply_visual (the (fst reply))))
           else State_Monad.return (False, 0));
         count_live (of_bool found);
         picture \<leftarrow> (if found \<and> visual_count > 0
           then on_server (create_image calls (the (fst reply)) width height (snd (the format)))
           else State_Monad.return None);
         count_live (of_bool (picture \<noteq> None));
         let data_len = (case fst reply of Some r \<Rightarrow> data_length r | None \<Rightarrow> 0);
         let ok = format \<noteq> None \<and> image_ok picture (fst (the format)) height data_len;
         let written = (if ok
           then put_pixels (the picture) (nat width)
             (List.product [0..<nat height] [0..<nat width]) buffer
           else Some buffer);
         destroy_image picture False;
         count_live (- of_bool found);
         free_answer reply;
         State_Monad.return (map_option (\<lambda>b. (ok, Some b)) written) } }"

record readback_probe =
  attributes_available :: bool
  probe_state :: int
  actual_width :: int
  actual_height :: int
  requested_width :: int
  requested_height :: int
  pixels_length :: u64
  expected_pixels_length :: u64

definition probe_window ::
    "'w x_ops \<Rightarrow> bool \<Rightarrow> u64 \<Rightarrow> int \<Rightarrow> int \<Rightarrow> u64 \<Rightarrow> ('w x_client, readback_probe) state" where
  "probe_window ops connection window width height pixels_len = do {
     snapshot \<leftarrow> checked_window_snapshot ops connection window;
     let probe = \<lparr>attributes_available = False, probe_state = 0, actual_width = 0, actual_height = 0,
       requested_width = width, requested_height = height, pixels_length = pixels_len,
       expected_pixels_length = (if width > 0 \<and> height > 0
         then word_of_int width * word_of_int height * 4 else 0)\<rparr>;
     State_Monad.return (case snapshot of
       None \<Rightarrow> probe
     | Some s \<Rightarrow> probe\<lparr>attributes_available := True, probe_state := map_state s,
         actual_width := snap_width s, actual_height := snap_height s\<rparr>) }"

end
