(* ===== verification/X11_Pixels_Props.thy ===== *)
theory X11_Pixels_Props
  imports X11_Pixels X11_Checked_Props
begin

unbundle bit_operations_syntax

text \<open>What a channel of a pixel becomes, and what a readback leaves in the buffer.\<close>

subsection \<open>A channel\<close>

lemma lowest_bit_least:
  fixes m :: u64
  assumes "m \<noteq> 0"
  shows "\<exists>s < 64. lowest_bit m 0 = Some s \<and> bit m s"
proof -
  obtain n where n: "bit m n" using assms by (metis bit_eqI bit_0_eq bot_apply bot_bool_def)
  define s where "s = (LEAST i. bit m i)"
  have least: "bit m s" "\<And>i. i < s \<Longrightarrow> \<not> bit m i"
    unfolding s_def using n by (auto intro: LeastI dest: not_less_Least)
  have "lowest_bit m k = Some s" if "k \<le> s" for k
    using that
  proof (induction rule: inc_induct)
    case base
    show ?case using least(1) by (subst lowest_bit.simps) (simp add: drop_bit_and_1)
  next
    case (step k)
    then show ?case using least(2) [of k] by (subst lowest_bit.simps) (simp add: drop_bit_and_1)
  qed
  moreover have "s < 64" using least(1) bit_imp_le_length [of m s] by simp
  ultimately show ?thesis using least(1) by blast
qed

lemma nearest_quotient:
  fixes v m :: nat
  assumes "0 < m"
  shows "\<bar>2 * int v - 2 * int m * int ((v + m div 2) div m)\<bar> \<le> int m"
proof -
  define q r h where "q = (v + m div 2) div m" and "r = (v + m div 2) mod m" and "h = m div 2"
  have "v + h = m * q + r" "r < m" "2 * h \<le> m" "m \<le> 2 * h + 1"
    unfolding q_def r_def h_def using assms by (simp_all add: algebra_simps)
  then have "int v + int h = int m * int q + int r" "int r < int m" "2 * int h \<le> int m" "int m \<le> 2 * int h + 1"
    by (simp_all flip: of_nat_add of_nat_mult)
  then have "\<bar>2 * int v - 2 * int m * int q\<bar> \<le> int m" by linarith
  then show ?thesis unfolding q_def .
qed

lemma scaled_byte:
  fixes d e :: u64
  assumes "unat d * 255 + unat e div 2 < 2 ^ 64" "(unat d * 255 + unat e div 2) div unat e < 256"
  shows "unat (ucast ((d * 255 + e div 2) div e) :: u8) = (unat d * 255 + unat e div 2) div unat e"
proof -
  have "unat d * 255 < 2 ^ 64" using assms(1) by linarith
  then have "unat (d * 255 + e div 2) = unat d * 255 + unat e div 2"
    using assms(1) by (simp add: unat_add_mod unat_mult_mod unat_div)
  then show ?thesis using assms(2) by (simp add: unsigned_ucast_eq take_bit_eq_mod unat_div)
qed

lemma scale_mask_value:
  fixes pixel m :: u64
  assumes "m \<noteq> 0" "unat m < 2 ^ 56"
  shows "\<exists>s r. lowest_bit m 0 = Some s \<and> scale_mask pixel m = Some r
    \<and> 0 < unat m div 2 ^ s \<and> unat (pixel AND m) div 2 ^ s \<le> unat m div 2 ^ s
    \<and> unat r = (unat (pixel AND m) div 2 ^ s * 255 + unat m div 2 ^ s div 2) div (unat m div 2 ^ s)"
proof -
  obtain s where s: "s < 64" "lowest_bit m 0 = Some s" "bit m s"
    using lowest_bit_least [OF assms(1)] by blast
  define M where "M = unat m div 2 ^ s"
  define v where "v = unat (pixel AND m) div 2 ^ s"
  have "bit (unat m) s" using s(3) by (simp add: bit_unsigned_iff)
  then have "odd M" unfolding M_def bit_iff_odd .
  then have pos: "0 < M" by (rule odd_pos)
  have "unat (pixel AND m) \<le> unat m" by (simp add: word_and_le1 word_le_nat_alt [symmetric])
  then have le: "v \<le> M" unfolding v_def M_def by (rule div_le_mono)
  have "M \<le> unat m" unfolding M_def by simp
  with assms(2) have small: "v * 255 + M div 2 < 2 ^ 64" using le by simp
  have "(v * 255 + M div 2) div M < 256"
  proof -
    have "v * 255 + M div 2 < M * 256" using le pos by linarith
    then show ?thesis by (simp add: less_mult_imp_div_less mult.commute)
  qed
  then have "unat (ucast ((drop_bit s (pixel AND m) * 255 + drop_bit s m div 2) div drop_bit s m) :: u8)
      = (v * 255 + M div 2) div M"
    using small scaled_byte [of "drop_bit s (pixel AND m)" "drop_bit s m"]
    unfolding unat_shiftr v_def [symmetric] M_def [symmetric] by blast
  then show ?thesis using s(2) pos le assms(1)
    by (auto simp: scale_mask_def Let_def v_def M_def)
qed

text \<open>
  A channel is scaled to the nearest of 256 steps: what is left over is at most half a step of the mask.
  The masks of a visual have at most 32 bits, far below the bound.
\<close>

theorem scale_mask_nearest:
  fixes pixel m :: u64
  assumes "m \<noteq> 0" "unat m < 2 ^ 56"
  shows "\<exists>s r. lowest_bit m 0 = Some s \<and> scale_mask pixel m = Some r
    \<and> (let most = int (unat m div 2 ^ s); value = int (unat (pixel AND m) div 2 ^ s)
       in \<bar>2 * (255 * value) - 2 * most * int (unat r)\<bar> \<le> most)"
proof -
  obtain s r where r: "lowest_bit m 0 = Some s" "scale_mask pixel m = Some r" "0 < unat m div 2 ^ s"
    "unat r = (unat (pixel AND m) div 2 ^ s * 255 + unat m div 2 ^ s div 2) div (unat m div 2 ^ s)"
    using scale_mask_value [OF assms] by blast
  have "\<bar>2 * int (unat (pixel AND m) div 2 ^ s * 255) - 2 * int (unat m div 2 ^ s) * int (unat r)\<bar>
      \<le> int (unat m div 2 ^ s)"
    unfolding r(4) by (rule nearest_quotient [OF r(3)])
  with r(1,2) show ?thesis by (auto simp: Let_def mult_ac)
qed

theorem scale_mask_nearest_witness: "\<exists>r. scale_mask 0xff12 0xf800 = Some r \<and> \<bar>2 * (255 * 31) - 62 * int (unat r)\<bar> \<le> 31"
proof -
  have "lowest_bit 0xf800 0 = Some 11" by (simp add: lowest_bit.simps)
  then show ?thesis
    using scale_mask_nearest [of "0xf800" "0xff12"] by (auto simp: Let_def)
qed

lemma scale_mask_total: "\<exists>r. scale_mask pixel m = Some r"
  using lowest_bit_least [of m] by (auto simp: scale_mask_def Let_def)

subsection \<open>The buffer\<close>

definition rgba :: "x_image \<Rightarrow> nat \<times> nat \<Rightarrow> u8 list" where
  "rgba picture = (\<lambda>(row, column). let pixel = pixel_at picture column row in
     [the (scale_mask pixel (red_mask picture)), the (scale_mask pixel (green_mask picture)),
      the (scale_mask pixel (blue_mask picture)), 255])"

lemma length_rgba: "length (rgba picture p) = 4"
  by (cases p) (simp add: rgba_def Let_def)

lemma length_rgba_pixels: "length (concat (map (rgba picture) ps)) = length ps * 4"
  by (induction ps) (simp_all add: length_rgba)

lemma put_pixel_next:
  assumes "length done = (row * width + column) * 4" "length old = 4"
  shows "put_pixel picture width row column (done @ old @ rest) = Some (done @ rgba picture (row, column) @ rest)"
proof -
  obtain a b c d where "old = [a, b, c, d]"
    using assms(2) by (auto simp: eval_nat_numeral length_Suc_conv)
  moreover obtain x y z where "scale_mask (pixel_at picture column row) (red_mask picture) = Some x"
    "scale_mask (pixel_at picture column row) (green_mask picture) = Some y"
    "scale_mask (pixel_at picture column row) (blue_mask picture) = Some z"
    using scale_mask_total by metis
  ultimately show ?thesis
    unfolding put_pixel_def put_byte_def Let_def assms(1) [symmetric]
    by (simp add: rgba_def list_update_append)
qed

lemma put_pixels_rows:
  assumes "\<forall>i < length ps. fst (ps ! i) * width + snd (ps ! i) = length before + i"
    and "length buffer = length ps * 4"
  shows "put_pixels picture width ps (concat (map (rgba picture) before) @ buffer)
    = Some (concat (map (rgba picture) (before @ ps)))"
  using assms
proof (induction ps arbitrary: before buffer)
  case Nil
  then show ?case by simp
next
  case (Cons p ps)
  obtain row column where p: "p = (row, column)" by force
  let ?done = "concat (map (rgba picture) before)"
  have target: "row * width + column = length before" using Cons.prems(1) p by force
  have "put_pixel picture width row column (?done @ take 4 buffer @ drop 4 buffer)
      = Some (?done @ rgba picture (row, column) @ drop 4 buffer)"
    by (rule put_pixel_next) (use Cons.prems(2) target in \<open>simp_all add: length_rgba_pixels\<close>)
  moreover have "put_pixels picture width ps (concat (map (rgba picture) (before @ [p])) @ drop 4 buffer)
      = Some (concat (map (rgba picture) ((before @ [p]) @ ps)))"
  proof (rule Cons.IH)
    show "\<forall>i < length ps. fst (ps ! i) * width + snd (ps ! i) = length (before @ [p]) + i"
      using Cons.prems(1) by (metis Suc_less_eq add_Suc_right add_Suc length_Cons length_append_singleton nth_Cons_Suc)
    show "length (drop 4 buffer) = length ps * 4" using Cons.prems(2) by simp
  qed
  ultimately show ?case using p by simp
qed

lemma put_pixels_image:
  assumes "length buffer = height * width * 4"
  shows "put_pixels picture width (List.product [0..<height] [0..<width]) buffer
    = Some (concat (map (rgba picture) (List.product [0..<height] [0..<width])))"
proof -
  have "fst (List.product [0..<height] [0..<width] ! i) * width + snd (List.product [0..<height] [0..<width] ! i) = i"
    if "i < height * width" for i
  proof -
    have "0 < width" using that by (cases width) simp_all
    with that show ?thesis by (simp add: product_nth less_mult_imp_div_less)
  qed
  then show ?thesis
    using put_pixels_rows [of "List.product [0..<height] [0..<width]" width "[]" buffer picture] assms
    by simp
qed

subsection \<open>The transaction\<close>

text \<open>What a readback may return: on success the image the X libraries made of the answer, else nothing new.\<close>

definition read_image :: "'w image_ops \<Rightarrow> int \<Rightarrow> int \<Rightarrow> x_image \<Rightarrow> bool" where
  "read_image calls width height picture \<longleftrightarrow> (\<exists>reply pad w.
     fst (run_state (create_image calls reply width height pad) w) = Some picture
     \<and> image_bytes (Some picture) height \<le> data_length reply)"

definition read_result ::
    "'w image_ops \<Rightarrow> int \<Rightarrow> int \<Rightarrow> u8 list option \<Rightarrow> (bool \<times> u8 list option) option \<Rightarrow> bool" where
  "read_result calls width height pixels r \<longleftrightarrow>
     (case r of
        None \<Rightarrow> False
      | Some (False, after) \<Rightarrow> after = pixels
      | Some (True, after) \<Rightarrow> \<exists>picture. read_image calls width height picture
          \<and> after = Some (concat (map (rgba picture) (List.product [0..<nat height] [0..<nat width]))))"

lemma owes_destroyed:
  assumes "owes (l - of_bool (picture \<noteq> None)) k n (f ())"
  shows "owes l k n (State_Monad.bind (destroy_image picture False) f)"
  unfolding destroy_image_def by (rule owes_count) (cases picture; use assms in simp)

lemma readback_keeps:
  "keeps ledger (readback_rgba8 ops calls display connection window x y width height pixels)"
proof -
  have usable: "keeps ledger (all_checks [check display, checked_connection_usable ops connection])"
    by (rule keeps_checks) (simp add: keeps_return keeps_usable)
  show ?thesis
    unfolding keeps_owes readback_rgba8_def
    by (intro owes_bind [OF usable] owes_bind [OF keeps_check_error] owes_bind [OF keeps_if] owes_destroyed owes_rules
        keeps_server keeps_return) (simp_all add: case_prod_unfold owes_rules owes_destroyed)
qed

lemma wp_create_image:
  "wp (if b then on_server (create_image calls reply width height pad) else State_Monad.return None)
     (\<lambda>picture _. picture = None \<or> (\<exists>w. fst (run_state (create_image calls reply width height pad) w) = picture)) s"
  by (auto simp: wp_simps split: prod.split) (metis fst_conv)

lemma wp_checked: "wp (all_checks [check b, m]) (\<lambda>ok _. \<not> ok \<or> b) s"
  by (cases b) (auto simp: wp_simps intro: wp_any)

lemma readback_reads:
  "wp (readback_rgba8 ops calls display connection window x y width height pixels)
     (\<lambda>r _. read_result calls width height pixels r) s"
proof -
  have outcome: "read_result calls width height (Some buffer) (map_option (\<lambda>b. (ok, Some b)) (if ok
      then put_pixels (the picture) (nat width) (List.product [0..<nat height] [0..<nat width]) buffer
      else Some buffer))"
    if given: "readback_area_ok window x y width height (length buffer)"
      "ok = (format \<noteq> None \<and> image_ok picture bits height data_len)"
      "data_len = data_length reply \<or> format = None"
      "picture = None \<or> (\<exists>w. fst (run_state (create_image calls reply width height pad) w) = picture)"
    for buffer ok picture bits data_len pad reply and format :: "(u8 \<times> u8) option"
  proof (cases ok)
    case True
    then obtain p where p: "picture = Some p" "image_bytes (Some p) height \<le> data_length reply"
      using given(2,3) by (cases picture) (auto simp: image_ok_def)
    have "int (length buffer) = int (nat height * nat width * 4)"
      using given(1) by (simp add: readback_area_ok_def)
    then have "length buffer = nat height * nat width * 4" by (simp only: of_nat_eq_iff)
    then show ?thesis using True p given(4)
      by (auto simp: read_result_def read_image_def put_pixels_image)
  qed (simp add: read_result_def)
  show ?thesis
    unfolding readback_rgba8_def
  proof (intro wp_follow [OF wp_create_image] wp_follow [OF wp_checked] wp_external end_case wp_branch
      step_let end_pair wp_done, goal_cases)
    case 1
    then show ?case by (simp add: read_result_def)
  next
    case 2
    then show ?case by (simp add: read_result_def)
  next
    case 3
    then show ?case by hypsubst (rule outcome [OF _ refl], auto simp: answered_def)
  qed
qed

text \<open>C28: A readback into a buffer of any size, from any image: no byte outside the buffer is written. On success
  the buffer holds the pixels of the image row by row, each with its three channels scaled and full
  opacity, and the rows the image spans lie within the data of the answer. On failure the buffer is as it
  was. In either case all blocks are freed.
\<close>

theorem readback_exact:
  "wp (readback_rgba8 ops calls display connection window x y width height pixels)
     (\<lambda>r s'. read_result calls width height pixels r \<and> ledger s' = ledger s) s"
  unfolding wp_conj by (intro conjI readback_reads readback_keeps [unfolded keeps_def, THEN spec])

end
