(* ===== verification/X11_Windows.thy ===== *)
theory X11_Windows
  imports X11_Checked X11_Input
begin

unbundle bit_operations_syntax

text \<open>
  The calls of the X11 backend that go through Xlib (\<^verbatim>\<open>x/multiwindow/x11_egl_backend_helpers.h\<close>): the
  hints of a window, its owner and properties, its creation, the monitors, the work area and the
  notifications about both. What Xlib allocates is counted in \<open>live\<close>.
\<close>

subsection \<open>Xlib\<close>

record size_hints =
  has_size :: bool
  has_min :: bool
  has_max :: bool
  hint_width :: int
  hint_height :: int
  hint_min_width :: int
  hint_min_height :: int
  hint_max_width :: int
  hint_max_height :: int

datatype property_mode = Prop_Replace | Prop_Append

datatype xlib_request =
    Set_Normal_Hints u64 size_hints
  | Store_Property u64 u64 u64 property_mode "u64 list"
  | Select_Monitor_Events u64 | Sync_Display | Update_Configuration
  | Free_Colormap u64

text \<open>A property as Xlib returns it: items of 32 bits arrive as \<^verbatim>\<open>unsigned long\<close>.\<close>

record xlib_property =
  actual_type :: u64
  actual_format :: int
  prop_items :: "u64 list option"

record x_monitor =
  monitor_name :: u64
  is_primary :: int
  mon_x :: int
  mon_y :: int
  mon_width :: int
  mon_height :: int
  mon_width_mm :: int
  mon_height_mm :: int

record x_visual =
  visual_of :: u64
  visual_depth :: int

record 'w xlib_ops =
  intern_atom :: "string \<Rightarrow> bool \<Rightarrow> ('w, u64) state"
  window_property :: "u64 \<Rightarrow> u64 \<Rightarrow> u64 \<Rightarrow> u64 \<Rightarrow> ('w, bool \<times> xlib_property) state"
  request :: "xlib_request \<Rightarrow> ('w, unit) state"
  set_transient :: "u64 \<Rightarrow> u64 \<Rightarrow> ('w, bool) state"
  transient_of :: "u64 \<Rightarrow> ('w, u64 option) state"
  send_event :: "u64 \<Rightarrow> x_request \<Rightarrow> ('w, bool) state"
  event_mask_of :: "u64 \<Rightarrow> ('w, u64 option) state"
  select_input :: "u64 \<Rightarrow> u64 \<Rightarrow> ('w, bool) state"
  visuals_with :: "int \<Rightarrow> int \<Rightarrow> ('w, x_visual list option) state"
  create_colormap :: "u64 \<Rightarrow> u64 \<Rightarrow> ('w, u64) state"
  create_window :: "u64 \<Rightarrow> int \<Rightarrow> int \<Rightarrow> x_visual \<Rightarrow> u64 \<Rightarrow> u64 \<Rightarrow> ('w, u64) state"
  create_input_window :: "u64 \<Rightarrow> u64 \<Rightarrow> ('w, u64) state"
  monitors_of :: "u64 \<Rightarrow> ('w, x_monitor list option \<times> int) state"
  randr_extension :: "('w, (int \<times> int) option) state"
  auto_repeat :: "('w, bool \<times> bool) state"
  font_cursor :: "int \<Rightarrow> ('w, u64) state"
  open_method :: "string option \<Rightarrow> ('w, bool) state"

abbreviation (input) NONE :: u64 where "NONE \<equiv> 0"
abbreviation (input) XA_ATOM :: u64 where "XA_ATOM \<equiv> 4"
abbreviation (input) XA_CARDINAL :: u64 where "XA_CARDINAL \<equiv> 6"

subsection \<open>Hints and owners\<close>

definition size_hints_of :: "int \<Rightarrow> int \<Rightarrow> int \<Rightarrow> int \<Rightarrow> bool \<Rightarrow> size_hints" where
  "size_hints_of width height min_width min_height resizable =
     (let hints = \<lparr>has_size = True, has_min = False, has_max = False, hint_width = width,
        hint_height = height, hint_min_width = 0, hint_min_height = 0, hint_max_width = 0,
        hint_max_height = 0\<rparr>;
          hints = (if min_width > 0 \<or> min_height > 0 then
            hints\<lparr>has_min := True, hint_min_width := if min_width > 0 then min_width else 1,
              hint_min_height := if min_height > 0 then min_height else 1\<rparr>
            else hints)
      in if \<not> resizable then
        hints\<lparr>has_min := True, has_max := True, hint_min_width := width, hint_min_height := height,
          hint_max_width := width, hint_max_height := height\<rparr>
      else hints)"

text \<open>The hints of Motif: only the decorations count, and there are none.\<close>

definition no_decorations :: "u64 list" where "no_decorations = [2, 0, 0, 0, 0]"

definition apply_config_hints ::
    "'w xlib_ops \<Rightarrow> u64 \<Rightarrow> int \<Rightarrow> int \<Rightarrow> int \<Rightarrow> int \<Rightarrow> bool \<Rightarrow> bool \<Rightarrow> bool \<Rightarrow> ('w, bool) state" where
  "apply_config_hints x window width height min_width min_height resizable borderless full = do {
     request x (Set_Normal_Hints window (size_hints_of width height min_width min_height resizable));
     bare \<leftarrow> (if borderless then do {
         motif \<leftarrow> intern_atom x ''_MOTIF_WM_HINTS'' False;
         if motif = NONE then State_Monad.return False else do {
           request x (Store_Property window motif motif Prop_Replace no_decorations);
           State_Monad.return True } }
       else State_Monad.return True);
     if \<not> bare then State_Monad.return False
     else if full then do {
       state \<leftarrow> intern_atom x ''_NET_WM_STATE'' False;
       atom \<leftarrow> intern_atom x ''_NET_WM_STATE_FULLSCREEN'' False;
       if state = NONE \<or> atom = NONE then State_Monad.return False else do {
         request x (Store_Property window state XA_ATOM Prop_Replace [atom]);
         State_Monad.return True } }
     else State_Monad.return True }"

definition apply_owner_modal :: "'w xlib_ops \<Rightarrow> bool \<Rightarrow> u64 \<Rightarrow> u64 \<Rightarrow> bool \<Rightarrow> ('w, bool) state" where
  "apply_owner_modal x display window owner modal =
     (if \<not> display \<or> window = 0 then State_Monad.return False else do {
        owned \<leftarrow> (if owner \<noteq> 0 then set_transient x window owner else State_Monad.return True);
        if \<not> owned then State_Monad.return False
        else if modal then do {
          state \<leftarrow> intern_atom x ''_NET_WM_STATE'' False;
          atom \<leftarrow> intern_atom x ''_NET_WM_STATE_MODAL'' False;
          if state = NONE \<or> atom = NONE then State_Monad.return False else do {
            request x (Store_Property window state XA_ATOM Prop_Append [atom]);
            State_Monad.return True } }
        else State_Monad.return True })"

subsection \<open>Properties\<close>

text \<open>The data of a property is a block of Xlib.\<close>

definition fetch_property ::
    "'w xlib_ops \<Rightarrow> u64 \<Rightarrow> u64 \<Rightarrow> u64 \<Rightarrow> u64 \<Rightarrow> ('w x_client, bool \<times> xlib_property) state" where
  "fetch_property x window property offset count = do {
     r \<leftarrow> on_server (window_property x window property offset count);
     count_live (of_bool (prop_items (snd r) \<noteq> None));
     State_Monad.return r }"

definition free_property :: "bool \<times> xlib_property \<Rightarrow> ('w x_client, unit) state" where
  "free_property r = count_live (- of_bool (prop_items (snd r) \<noteq> None))"

definition items_if :: "u64 \<Rightarrow> bool \<times> xlib_property \<Rightarrow> u64 list option" where
  "items_if type r = (if fst r \<and> actual_type (snd r) = type \<and> actual_format (snd r) = 32
     then prop_items (snd r) else None)"

definition property_has_atom :: "'w xlib_ops \<Rightarrow> u64 \<Rightarrow> u64 \<Rightarrow> u64 \<Rightarrow> ('w x_client, bool) state" where
  "property_has_atom x window property expected =
     (if property = NONE \<or> expected = NONE then State_Monad.return False else do {
        r \<leftarrow> fetch_property x window property 0 1024;
        let found = (case items_if XA_ATOM r of
             None \<Rightarrow> False
           | Some atoms \<Rightarrow> list_ex (\<lambda>a. a = expected) atoms);
        free_property r;
        State_Monad.return found })"

definition root_supports_atom :: "'w xlib_ops \<Rightarrow> bool \<Rightarrow> u64 \<Rightarrow> u64 \<Rightarrow> ('w x_client, bool) state" where
  "root_supports_atom x display root_window atom =
     (if \<not> display \<or> root_window = 0 \<or> atom = 0 then State_Monad.return False else do {
        supported \<leftarrow> on_server (intern_atom x ''_NET_SUPPORTED'' True);
        if supported \<noteq> NONE then property_has_atom x root_window supported atom
        else State_Monad.return False })"

definition owner_modal_matches :: "'w xlib_ops \<Rightarrow> u64 \<Rightarrow> u64 \<Rightarrow> bool \<Rightarrow> ('w x_client, bool) state" where
  "owner_modal_matches x window owner modal = do {
     owned \<leftarrow> (if owner \<noteq> 0 then do {
         actual_owner \<leftarrow> on_server (transient_of x window);
         State_Monad.return (actual_owner = Some owner) }
       else State_Monad.return True);
     if \<not> owned then State_Monad.return False
     else if modal then do {
       state \<leftarrow> on_server (intern_atom x ''_NET_WM_STATE'' False);
       atom \<leftarrow> on_server (intern_atom x ''_NET_WM_STATE_MODAL'' False);
       property_has_atom x window state atom }
     else State_Monad.return True }"

record x_work_area =
  known :: bool
  area_x :: i32
  area_y :: i32
  area_width :: i32
  area_height :: i32

definition no_work_area :: x_work_area where
  "no_work_area = \<lparr>known = False, area_x = 0, area_y = 0, area_width = 0, area_height = 0\<rparr>"

text \<open>The desktop shown, 0 when the window manager does not say.\<close>

definition current_desktop :: "'w xlib_ops \<Rightarrow> u64 \<Rightarrow> u64 \<Rightarrow> ('w x_client, u64) state" where
  "current_desktop x root_window atom =
     (if atom = NONE then State_Monad.return 0 else do {
        r \<leftarrow> fetch_property x root_window atom 0 1;
        let desktop = (case items_if XA_CARDINAL r of Some [d] \<Rightarrow> d | _ \<Rightarrow> 0);
        free_property r;
        State_Monad.return desktop })"

definition work_area :: "'w xlib_ops \<Rightarrow> bool \<Rightarrow> u64 \<Rightarrow> u64 \<Rightarrow> u64 \<Rightarrow> ('w x_client, x_work_area) state" where
  "work_area x display root_window current_desktop_atom work_area_atom =
     (if \<not> display \<or> root_window = 0 \<or> work_area_atom = NONE then State_Monad.return no_work_area else do {
        desktop \<leftarrow> current_desktop x root_window current_desktop_atom;
        r \<leftarrow> fetch_property x root_window work_area_atom (desktop * 4) 4;
        let area = (case items_if XA_CARDINAL r of
             Some [a, b, c, d] \<Rightarrow> \<lparr>known = 0 <s (ucast c :: i32) \<and> 0 <s (ucast d :: i32),
               area_x = ucast a, area_y = ucast b, area_width = ucast c, area_height = ucast d\<rparr>
           | _ \<Rightarrow> no_work_area);
        free_property r;
        State_Monad.return area })"

subsection \<open>Events\<close>

definition send_selection_notify ::
    "'w xlib_ops \<Rightarrow> bool \<Rightarrow> u64 \<Rightarrow> u64 \<Rightarrow> u64 \<Rightarrow> u64 \<Rightarrow> u64 \<Rightarrow> ('w, bool) state" where
  "send_selection_notify x display requestor selection target property time =
     (if \<not> display \<or> requestor = 0 then State_Monad.return False
      else send_event x requestor (Selection_Notify requestor selection target property time))"

definition property_change_mask :: u64 where "property_change_mask = 0x400000"

definition select_property_changes :: "'w xlib_ops \<Rightarrow> bool \<Rightarrow> u64 \<Rightarrow> ('w, bool) state" where
  "select_property_changes x display window =
     (if \<not> display \<or> window = 0 then State_Monad.return False else do {
        attributes \<leftarrow> event_mask_of x window;
        case attributes of
          None \<Rightarrow> State_Monad.return False
        | Some m \<Rightarrow> select_input x window (m OR property_change_mask) })"

definition has_property_changes :: "'w xlib_ops \<Rightarrow> bool \<Rightarrow> u64 \<Rightarrow> ('w, bool) state" where
  "has_property_changes x display window =
     (if \<not> display \<or> window = 0 then State_Monad.return False else do {
        attributes \<leftarrow> event_mask_of x window;
        State_Monad.return (case attributes of
          None \<Rightarrow> False
        | Some m \<Rightarrow> m AND property_change_mask \<noteq> 0) })"

text \<open>Keys, buttons, motion, crossing, focus, structure and properties.\<close>

definition event_mask :: u64 where
  "event_mask = 0x20000 OR 0x400000 OR 0x1 OR 0x2 OR 0x40 OR 0x4 OR 0x8 OR 0x200000 OR 0x10 OR 0x20"

definition enable_detectable_auto_repeat :: "'w xlib_ops \<Rightarrow> bool \<Rightarrow> ('w, bool) state" where
  "enable_detectable_auto_repeat x display =
     (if \<not> display then State_Monad.return False else do {
        (set, supported) \<leftarrow> auto_repeat x;
        State_Monad.return (set \<and> supported) })"

subsection \<open>Monitors\<close>

text \<open>
  The array of the caller has \<open>capacity\<close> entries; what does not fit is only counted. The first array of
  the result is \<open>None\<close> if an entry outside either array is touched.
\<close>

definition copy_monitor :: "x_monitor \<Rightarrow> x_monitor" where
  "copy_monitor m = m\<lparr>is_primary := if is_primary m \<noteq> 0 then 1 else 0\<rparr>"

fun copy_monitors :: "x_monitor list \<Rightarrow> nat list \<Rightarrow> x_monitor list \<Rightarrow> x_monitor list option" where
  "copy_monitors monitors [] out = Some out" |
  "copy_monitors monitors (i # rest) out =
     (if i < length monitors \<and> i < length out
      then copy_monitors monitors rest (out[i := copy_monitor (monitors ! i)]) else None)"

definition x_monitor_snapshot ::
    "'w xlib_ops \<Rightarrow> bool \<Rightarrow> u64 \<Rightarrow> x_monitor list option \<Rightarrow> int \<Rightarrow>
     ('w x_client, (int \<times> x_monitor list option) option) state" where
  "x_monitor_snapshot x display root_window out capacity =
     (if \<not> display \<or> root_window = 0 \<or> capacity < 0 then State_Monad.return (Some (- 1, out)) else do {
        (monitors, count) \<leftarrow> on_server (monitors_of x root_window);
        case monitors of
          None \<Rightarrow> State_Monad.return (Some (if count = 0 then 0 else - 1, out))
        | Some ms \<Rightarrow> do {
            count_live 1;
            let written = (case out of
                 None \<Rightarrow> Some None
               | Some entries \<Rightarrow>
                   map_option Some (copy_monitors ms [0..<nat (min count capacity)] entries));
            count_live (- 1);
            State_Monad.return (map_option (Pair count) written) } })"

definition subscribe_randr :: "'w xlib_ops \<Rightarrow> bool \<Rightarrow> u64 \<Rightarrow> bool \<Rightarrow> ('w, (int \<times> int) option) state" where
  "subscribe_randr x display root_window has_out =
     (if \<not> display \<or> root_window = 0 \<or> \<not> has_out then State_Monad.return None else do {
        extension \<leftarrow> randr_extension x;
        case extension of
          None \<Rightarrow> State_Monad.return None
        | Some bases \<Rightarrow> do {
            request x (Select_Monitor_Events root_window);
            request x Sync_Display;
            State_Monad.return (Some bases) } })"

abbreviation (input) RR_Screen_Change :: int where "RR_Screen_Change \<equiv> 0"
abbreviation (input) RR_Notify :: int where "RR_Notify \<equiv> 1"

definition is_randr_event :: "int \<Rightarrow> int \<Rightarrow> bool" where
  "is_randr_event event_type event_base \<longleftrightarrow> event_base > 0
     \<and> (event_type = event_base + RR_Screen_Change \<or> event_type = event_base + RR_Notify)"

definition update_randr_configuration :: "'w xlib_ops \<Rightarrow> int option \<Rightarrow> int \<Rightarrow> ('w, unit) state" where
  "update_randr_configuration x event_type event_base =
     (if event_type = Some (event_base + RR_Screen_Change) \<and> event_base > 0
      then request x Update_Configuration else State_Monad.return ())"

subsection \<open>Creation\<close>

text \<open>The window and the colormap handed out; the array of visuals is a block of Xlib.\<close>

definition create_egl_window ::
    "'w xlib_ops \<Rightarrow> u64 \<Rightarrow> int \<Rightarrow> int \<Rightarrow> int \<Rightarrow> int \<Rightarrow> ('w x_client, u64 \<times> u64 option) state" where
  "create_egl_window x root_window screen native_visual_id width height = do {
     visuals \<leftarrow> on_server (visuals_with x native_visual_id screen);
     count_live (of_bool (visuals \<noteq> None));
     case visuals of
       Some (v # vs) \<Rightarrow> do {
         colormap \<leftarrow> on_server (create_colormap x root_window (visual_of v));
         window \<leftarrow> on_server (create_window x root_window width height v colormap event_mask);
         if_then (window = 0) (on_server (request x (Free_Colormap colormap)));
         let colormap = (if window = 0 then 0 else colormap);
         count_live (- 1);
         State_Monad.return (window, Some colormap) }
     | _ \<Rightarrow> State_Monad.return (0, None) }"

definition create_clipboard_requestor :: "'w xlib_ops \<Rightarrow> bool \<Rightarrow> u64 \<Rightarrow> ('w, u64) state" where
  "create_clipboard_requestor x display root_window =
     (if \<not> display \<or> root_window = 0 then State_Monad.return 0
      else create_input_window x root_window property_change_mask)"

definition create_cursor_for_shape :: "'w xlib_ops \<Rightarrow> bool \<Rightarrow> int \<Rightarrow> ('w, u64) state" where
  "create_cursor_for_shape x display shape =
     (if \<not> display then State_Monad.return 0 else font_cursor x (cursor_font_shape shape))"

text \<open>The input method of the locale, or else the one of Xlib itself.\<close>

definition open_im :: "'w xlib_ops \<Rightarrow> bool \<Rightarrow> ('w, bool) state" where
  "open_im x display =
     (if \<not> display then State_Monad.return False else do {
        im \<leftarrow> open_method x None;
        if \<not> im then open_method x (Some ''@im=none'') else State_Monad.return True })"

end
