(* ===== verification/X11_Windows_Props.thy ===== *)
theory X11_Windows_Props
  imports X11_Windows X11_Checked_Props
begin

text \<open>What the calls through Xlib hand out, and that they give back what Xlib allocates.\<close>

subsection \<open>Blocks\<close>

lemma owes_fetch:
  assumes "\<And>r. owes (l + of_bool (prop_items (snd r) \<noteq> None)) k n (f r)"
  shows "owes l k n (State_Monad.bind (fetch_property x window property offset count) f)"
  unfolding fetch_property_def
  by (simp only: State_Monad.bind_assoc State_Monad.bind_left_identity) (intro owes_server owes_count assms)

lemma owes_free_property:
  assumes "owes (l - of_bool (prop_items (snd r) \<noteq> None)) k n (f ())"
  shows "owes l k n (State_Monad.bind (free_property r) f)"
  unfolding free_property_def by (rule owes_count) (use assms in simp)

lemma owes_server_result:
  assumes "\<And>w. owes l k n (f (fst (run_state m w)))"
  shows "owes l k n (State_Monad.bind (on_server m) f)"
  unfolding owes_def
proof
  fix s :: "'a x_client"
  have "wp (f (fst (run_state m (server s)))) (\<lambda>_ s'. ledger s' = (live s - l, locked s - k, links s - n))
      (s\<lparr>server := snd (run_state m (server s))\<rparr>)"
    using assms [of "server s", unfolded owes_def, THEN spec,
        of "s\<lparr>server := snd (run_state m (server s))\<rparr>"] by simp
  then show "wp (State_Monad.bind (on_server m) f) (\<lambda>_ s'. ledger s' = (live s - l, locked s - k, links s - n)) s"
    by (simp add: wp_simps case_prod_unfold)
qed

lemma keeps_property_atom: "keeps ledger (property_has_atom x window property expected)"
  unfolding keeps_owes property_has_atom_def
  by (intro owes_fetch owes_free_property owes_rules) simp_all

lemma keeps_root_atom: "keeps ledger (root_supports_atom x display root_window atom)"
  unfolding keeps_owes root_supports_atom_def
  by (intro owes_rules owes_keeps [OF keeps_property_atom]) simp_all

lemma keeps_owner_modal: "keeps ledger (owner_modal_matches x window owner modal)"
  unfolding owner_modal_matches_def
  by (intro keeps_bind keeps_if keeps_server keeps_return keeps_property_atom)

lemma keeps_desktop: "keeps ledger (current_desktop x root_window atom)"
  unfolding keeps_owes current_desktop_def
  by (intro owes_fetch owes_free_property owes_rules) simp_all

lemma keeps_work_area: "keeps ledger (work_area x display root_window desktop_atom area_atom)"
  unfolding keeps_owes work_area_def
  by (intro owes_bind [OF keeps_desktop] owes_fetch owes_free_property owes_rules) simp_all

text \<open>Every property, array and visual that Xlib allocates is freed, on every path.\<close>

theorem xlib_calls_balance:
  assumes "\<And>w. fst (run_state (visuals_with x visual screen) w) \<noteq> Some []"
  shows "keeps ledger (property_has_atom x window property expected)
    \<and> keeps ledger (root_supports_atom x display root_window atom)
    \<and> keeps ledger (owner_modal_matches x window owner modal)
    \<and> keeps ledger (work_area x display root_window desktop_atom area_atom)
    \<and> keeps ledger (x_monitor_snapshot x display root_window out capacity)
    \<and> keeps ledger (create_egl_window x root_window screen visual width height)"
proof -
  have "keeps ledger (x_monitor_snapshot x display root_window out capacity)"
    unfolding keeps_owes x_monitor_snapshot_def
    by (intro owes_if owes_server) (auto simp: Let_def split: prod.split option.split intro!: owes_rules)
  moreover have "keeps ledger (create_egl_window x root_window screen visual width height)"
    unfolding keeps_owes create_egl_window_def
  proof (rule owes_server_result)
    fix w
    show "owes 0 0 0 (do {
        count_live (of_bool (fst (run_state (visuals_with x visual screen) w) \<noteq> None));
        case fst (run_state (visuals_with x visual screen) w) of
          Some (v # vs) \<Rightarrow> do {
            colormap \<leftarrow> on_server (create_colormap x root_window (visual_of v));
            window \<leftarrow> on_server (create_window x root_window width height v colormap event_mask);
            if_then (window = 0) (on_server (request x (Free_Colormap colormap)));
            let colormap = (if window = 0 then 0 else colormap);
            count_live (- 1);
            State_Monad.return (window, Some colormap) }
        | _ \<Rightarrow> State_Monad.return (0, None) })"
      using assms [of w]
      by (cases "fst (run_state (visuals_with x visual screen) w)" rule: option.exhaust)
        (auto simp: Let_def if_then_def split: list.split intro!: owes_rules)
  qed
  ultimately show ?thesis
    by (intro conjI keeps_property_atom keeps_root_atom keeps_owner_modal keeps_work_area)
qed

subsection \<open>Hints\<close>

text \<open>
  A window of fixed size gets its size as both bounds; one that can be resized gets no upper bound, and a
  lower bound exactly if one was asked for. Neither lower bound is ever negative or zero then.
\<close>

theorem size_hints_exact:
  "size_hints_of width height min_width min_height resizable =
     \<lparr>has_size = True, has_min = (\<not> resizable \<or> min_width > 0 \<or> min_height > 0), has_max = (\<not> resizable),
      hint_width = width, hint_height = height,
      hint_min_width = (if \<not> resizable then width else if min_width > 0 \<or> min_height > 0 then max 1 min_width else 0),
      hint_min_height = (if \<not> resizable then height else if min_width > 0 \<or> min_height > 0 then max 1 min_height else 0),
      hint_max_width = (if resizable then 0 else width), hint_max_height = (if resizable then 0 else height)\<rparr>"
  by (simp add: size_hints_of_def)

subsection \<open>Monitors\<close>

lemma copy_monitors_prefix:
  assumes "n \<le> length monitors" "n \<le> length out" "k \<le> n"
  shows "copy_monitors monitors [k..<n] (map copy_monitor (take k monitors) @ drop k out)
    = Some (map copy_monitor (take n monitors) @ drop n out)"
  using assms(3)
proof (induction rule: inc_induct)
  case base
  then show ?case by simp
next
  case (step k)
  have "(map copy_monitor (take k monitors) @ drop k out)[k := copy_monitor (monitors ! k)]
      = map copy_monitor (take (Suc k) monitors) @ drop (Suc k) out"
    using step.hyps assms by (simp add: list_update_append take_Suc_conv_app_nth Cons_nth_drop_Suc [symmetric])
  then show ?case using step assms by (simp add: upt_conv_Cons)
qed

text \<open>
  The snapshot of the monitors: the count is that of the server, the array holds the first of them as far
  as it goes, and no entry outside either array is touched.
\<close>

theorem monitor_snapshot_fits:
  assumes "\<And>w. case run_state (monitors_of x root_window) w of ((ms, count), _) \<Rightarrow>
      (case ms of None \<Rightarrow> True | Some ms \<Rightarrow> count = int (length ms))"
    and "capacity \<le> int (length entries)"
  shows "wp (x_monitor_snapshot x True root_window (Some entries) capacity)
    (\<lambda>r _. r = Some (- 1, Some entries) \<or> r = Some (0, Some entries)
      \<or> (\<exists>ms. r = Some (int (length ms),
          Some (map copy_monitor (take (nat capacity) ms) @ drop (min (length ms) (nat capacity)) entries)))) s"
proof -
  have copied: "copy_monitors ms [0..<nat (min (int (length ms)) capacity)] entries
    = Some (map copy_monitor (take (nat capacity) ms) @ drop (min (length ms) (nat capacity)) entries)"
    if "0 \<le> capacity" for ms
  proof -
    have n: "nat (min (int (length ms)) capacity) = min (length ms) (nat capacity)"
      using that by (auto simp: min_def)
    have "min (length ms) (nat capacity) \<le> length entries" using that assms(2) by simp
    from copy_monitors_prefix [OF _ this, of ms 0] show ?thesis
      unfolding n by (simp add: take_map) (metis min.commute min.idem take_all_iff take_take nle_le)
  qed
  show ?thesis
    using assms(1) [of "server s"] copied
    by (auto simp: x_monitor_snapshot_def wp_simps count_live_def split: prod.splits option.splits)
qed

end
