(* ===== verification/Linux_EGL.thy ===== *)
theory Linux_EGL
  imports Host_Monad "HOL-Library.Sublist"
begin

unbundle bit_operations_syntax

text \<open>
  The primitives that the Linux backends call EGL with
  (\<^verbatim>\<open>x/multiwindow/linux_egl_native_helpers.h\<close>, \<^verbatim>\<open>x/multiwindow/native_render_result.h\<close>). Each makes one
  native call and reports what it returned in a record whose mask says which fields count. Two of them
  do more: the search for an extension in the list of the display, and the choice of a configuration for
  a Wayland surface. EGL is a table of operations; \<open>egl_blocks\<close> counts the blocks allocated.
\<close>

subsection \<open>The report of a native call\<close>

record native_primitive =
  valid_mask :: u64
  return_value :: i64
  handle :: u64
  egl_error :: i64
  native_errno :: i64
  wayland_display_error :: i64
  dxgi_removal_reason :: i64
  observed_count :: u64
  observed_flags :: u64
  selected_value :: i64
  object_identity_0 :: u64
  object_identity_1 :: u64
  object_identity_2 :: u64

definition no_primitive :: native_primitive where
  "no_primitive = \<lparr>valid_mask = 0, return_value = 0, handle = 0, egl_error = 0, native_errno = 0,
     wayland_display_error = 0, dxgi_removal_reason = 0, observed_count = 0, observed_flags = 0,
     selected_value = 0, object_identity_0 = 0, object_identity_1 = 0, object_identity_2 = 0\<rparr>"

abbreviation (input) VALID_RETURN_VALUE :: u64 where "VALID_RETURN_VALUE \<equiv> 1"
abbreviation (input) VALID_HANDLE :: u64 where "VALID_HANDLE \<equiv> 2"
abbreviation (input) VALID_EGL_ERROR :: u64 where "VALID_EGL_ERROR \<equiv> 4"
abbreviation (input) VALID_OBSERVED_COUNT :: u64 where "VALID_OBSERVED_COUNT \<equiv> 64"
abbreviation (input) VALID_OBSERVED_FLAGS :: u64 where "VALID_OBSERVED_FLAGS \<equiv> 128"
abbreviation (input) VALID_SELECTED_VALUE :: u64 where "VALID_SELECTED_VALUE \<equiv> 256"

text \<open>An \<^verbatim>\<open>EGLBoolean\<close> is an unsigned integer.\<close>

abbreviation (input) EGL_FALSE :: u32 where "EGL_FALSE \<equiv> 0"
abbreviation (input) EGL_TRUE :: u32 where "EGL_TRUE \<equiv> 1"

definition capture_return :: "u32 \<Rightarrow> native_primitive" where
  "capture_return v = no_primitive\<lparr>valid_mask := VALID_RETURN_VALUE, return_value := ucast v\<rparr>"

definition capture_handle :: "u64 \<Rightarrow> native_primitive" where
  "capture_handle v = no_primitive\<lparr>valid_mask := VALID_HANDLE, handle := v\<rparr>"

subsection \<open>The list of extensions\<close>

fun strstr :: "string \<Rightarrow> string \<Rightarrow> nat option" where
  "strstr [] needle = (if needle = [] then Some 0 else None)" |
  "strstr (c # cs) needle =
     (if prefix needle (c # cs) then Some 0 else map_option Suc (strstr cs needle))"

lemma strstr_Some: "strstr s needle = Some k \<Longrightarrow> prefix needle (drop k s)"
  by (induction s arbitrary: k) (auto split: if_splits)

lemma strstr_bound: "strstr s needle = Some k \<Longrightarrow> k + length needle \<le> length s"
  by (induction s arbitrary: k) (auto split: if_splits dest: prefix_length_le)

definition char_at :: "string \<Rightarrow> nat \<Rightarrow> char" where
  "char_at s i = (if i < length s then s ! i else CHR 0x00)"

text \<open>The loop, with the required name \<open>c # cs\<close>, which is not empty, and the offset of the cursor.\<close>

function token_loop :: "string \<Rightarrow> char \<Rightarrow> string \<Rightarrow> nat \<Rightarrow> bool" where
  "token_loop extensions c cs cursor = (case strstr (drop cursor extensions) (c # cs) of
       None \<Rightarrow> False
     | Some k \<Rightarrow>
         let cursor = cursor + k;
             starts_token = (cursor = 0 \<or> char_at extensions (cursor - 1) = CHR '' '');
             after = char_at extensions (cursor + length (c # cs))
         in if starts_token \<and> (after = CHR 0x00 \<or> after = CHR '' '') then True
           else token_loop extensions c cs (cursor + length (c # cs)))"
  by pat_completeness auto
termination
  by (relation "measure (\<lambda>(extensions, c, cs, cursor). length extensions - cursor)")
    (auto dest!: strstr_bound)

declare token_loop.simps [simp del]

definition has_extension :: "string option \<Rightarrow> string option \<Rightarrow> bool" where
  "has_extension extensions required = (case (extensions, required) of
       (Some s, Some (c # cs)) \<Rightarrow> token_loop s c cs 0
     | _ \<Rightarrow> False)"

subsection \<open>EGL\<close>

record 'w egl_ops =
  egl_get_error :: "('w, i32) state"
  egl_get_display :: "u64 \<Rightarrow> ('w, u64) state"
  egl_initialize :: "u64 \<Rightarrow> ('w, u32 \<times> i32 \<times> i32) state"
  egl_extensions :: "u64 \<Rightarrow> ('w, (u64 \<times> string) option) state"
  egl_bind_opengl :: "('w, u32) state"
  egl_choose_config :: "u64 \<Rightarrow> (int \<times> int) list \<Rightarrow> int \<Rightarrow> ('w, u32 \<times> u64 list \<times> int) state"
  egl_config_attrib :: "u64 \<Rightarrow> u64 \<Rightarrow> int \<Rightarrow> ('w, u32 \<times> int) state"
  egl_create_context :: "u64 \<Rightarrow> u64 \<Rightarrow> (int \<times> int) list \<Rightarrow> ('w, u64) state"
  egl_create_window_surface :: "u64 \<Rightarrow> u64 \<Rightarrow> u64 \<Rightarrow> ('w, u64) state"
  egl_create_pbuffer_surface :: "u64 \<Rightarrow> u64 \<Rightarrow> (int \<times> int) list \<Rightarrow> ('w, u64) state"
  egl_make_current :: "u64 \<Rightarrow> u64 \<Rightarrow> u64 \<Rightarrow> u64 \<Rightarrow> ('w, u32) state"
  egl_current_surface :: "bool \<Rightarrow> ('w, u64) state"
  egl_current_context :: "('w, u64) state"
  egl_swap_buffers :: "u64 \<Rightarrow> u64 \<Rightarrow> ('w, u32) state"
  egl_destroy_surface :: "u64 \<Rightarrow> u64 \<Rightarrow> ('w, u32) state"
  egl_destroy_context :: "u64 \<Rightarrow> u64 \<Rightarrow> ('w, u32) state"
  egl_terminate :: "u64 \<Rightarrow> ('w, u32) state"
  egl_release_thread :: "('w, u32) state"
  egl_calloc :: "int \<Rightarrow> ('w, bool) state"

record 'w egl_host =
  egl_world :: 'w
  egl_blocks :: int

definition on_egl :: "('w, 'a) state \<Rightarrow> ('w egl_host, 'a) state" where
  "on_egl m = State (\<lambda>s. case run_state m (egl_world s) of (a, w) \<Rightarrow> (a, s\<lparr>egl_world := w\<rparr>))"

definition count_blocks :: "int \<Rightarrow> ('w egl_host, unit) state" where
  "count_blocks n = State (\<lambda>s. ((), s\<lparr>egl_blocks := egl_blocks s + n\<rparr>))"

text \<open>The report is written only if there is a place for it.\<close>

definition report :: "bool \<Rightarrow> native_primitive \<Rightarrow> ('s, native_primitive option) state" where
  "report out p = State_Monad.return (if out then Some p else None)"

definition returns :: "bool \<Rightarrow> ('w, u32) state \<Rightarrow> ('w, native_primitive option) state" where
  "returns out m = do { v \<leftarrow> m; report out (capture_return v) }"

definition hands_out :: "bool \<Rightarrow> ('w, u64) state \<Rightarrow> ('w, native_primitive option) state" where
  "hands_out out m = do { v \<leftarrow> m; report out (capture_handle v) }"

definition get_error where
  "get_error x out = do {
     e \<leftarrow> egl_get_error x;
     report out (no_primitive\<lparr>valid_mask := VALID_EGL_ERROR, egl_error := scast e\<rparr>) }"

definition get_display where
  "get_display x native_display out = hands_out out (egl_get_display x native_display)"

definition initialize where
  "initialize x display out = do {
     (v, major, minor) \<leftarrow> egl_initialize x display;
     let p = capture_return v;
     report out (if v = EGL_TRUE
       then p\<lparr>valid_mask := valid_mask p OR (VALID_OBSERVED_COUNT OR VALID_SELECTED_VALUE),
         observed_count := ucast major, selected_value := scast minor\<rparr>
       else p) }"

definition query_extensions where
  "query_extensions x display out = do {
     extensions \<leftarrow> egl_extensions x display;
     let p = capture_handle (case extensions of Some (address, s) \<Rightarrow> address | None \<Rightarrow> 0);
     report out (case extensions of
         None \<Rightarrow> p
       | Some (address, s) \<Rightarrow> p\<lparr>valid_mask := valid_mask p OR VALID_OBSERVED_FLAGS,
           observed_flags := of_bool (has_extension (Some s) (Some ''EGL_KHR_create_context''))\<rparr>) }"

definition bind_opengl_api where "bind_opengl_api x out = returns out (egl_bind_opengl x)"

text \<open>The attributes of a configuration by their EGL numbers.\<close>

abbreviation (input) EGL_ALPHA_SIZE :: int where "EGL_ALPHA_SIZE \<equiv> 0x3021"
abbreviation (input) EGL_BLUE_SIZE :: int where "EGL_BLUE_SIZE \<equiv> 0x3022"
abbreviation (input) EGL_GREEN_SIZE :: int where "EGL_GREEN_SIZE \<equiv> 0x3023"
abbreviation (input) EGL_RED_SIZE :: int where "EGL_RED_SIZE \<equiv> 0x3024"
abbreviation (input) EGL_DEPTH_SIZE :: int where "EGL_DEPTH_SIZE \<equiv> 0x3025"
abbreviation (input) EGL_STENCIL_SIZE :: int where "EGL_STENCIL_SIZE \<equiv> 0x3026"
abbreviation (input) EGL_NATIVE_VISUAL_ID :: int where "EGL_NATIVE_VISUAL_ID \<equiv> 0x302E"
abbreviation (input) EGL_SAMPLES :: int where "EGL_SAMPLES \<equiv> 0x3031"
abbreviation (input) EGL_SAMPLE_BUFFERS :: int where "EGL_SAMPLE_BUFFERS \<equiv> 0x3032"
abbreviation (input) EGL_SURFACE_TYPE :: int where "EGL_SURFACE_TYPE \<equiv> 0x3033"
abbreviation (input) EGL_RENDERABLE_TYPE :: int where "EGL_RENDERABLE_TYPE \<equiv> 0x3040"
abbreviation (input) EGL_HEIGHT :: int where "EGL_HEIGHT \<equiv> 0x3056"
abbreviation (input) EGL_WIDTH :: int where "EGL_WIDTH \<equiv> 0x3057"
abbreviation (input) EGL_PBUFFER_BIT :: int where "EGL_PBUFFER_BIT \<equiv> 1"
abbreviation (input) EGL_WINDOW_BIT :: int where "EGL_WINDOW_BIT \<equiv> 4"
abbreviation (input) EGL_OPENGL_BIT :: int where "EGL_OPENGL_BIT \<equiv> 8"

definition config_attributes :: "(int \<times> int) list" where
  "config_attributes = [(EGL_SURFACE_TYPE, EGL_WINDOW_BIT OR EGL_PBUFFER_BIT),
     (EGL_RENDERABLE_TYPE, EGL_OPENGL_BIT), (EGL_RED_SIZE, 8), (EGL_GREEN_SIZE, 8), (EGL_BLUE_SIZE, 8),
     (EGL_ALPHA_SIZE, 8), (EGL_DEPTH_SIZE, 24), (EGL_STENCIL_SIZE, 8)]"

definition count_of :: "int \<Rightarrow> u64" where
  "count_of n = (if n > 0 then word_of_int n else 0)"

definition choose_config where
  "choose_config x display out = do {
     (v, configs, count) \<leftarrow> egl_choose_config x display config_attributes 1;
     let p = capture_return v;
     report out (p\<lparr>valid_mask := valid_mask p OR (VALID_HANDLE OR VALID_OBSERVED_COUNT),
       handle := (case configs of [] \<Rightarrow> 0 | c # _ \<Rightarrow> c), observed_count := count_of count\<rparr>) }"

subsection \<open>The configuration of a Wayland surface\<close>

definition wayland_attributes :: "(int \<times> int) list" where
  "wayland_attributes = [(EGL_SURFACE_TYPE, EGL_WINDOW_BIT), (EGL_RENDERABLE_TYPE, EGL_OPENGL_BIT),
     (EGL_RED_SIZE, 8), (EGL_GREEN_SIZE, 8), (EGL_BLUE_SIZE, 8), (EGL_ALPHA_SIZE, 8),
     (EGL_DEPTH_SIZE, 24), (EGL_STENCIL_SIZE, 8), (EGL_SAMPLE_BUFFERS, 0), (EGL_SAMPLES, 0)]"

text \<open>The attributes that are read, in this order; the first that cannot be read ends it.\<close>

definition queried_attributes :: "int list" where
  "queried_attributes = [EGL_SURFACE_TYPE, EGL_RENDERABLE_TYPE, EGL_RED_SIZE, EGL_GREEN_SIZE,
     EGL_BLUE_SIZE, EGL_ALPHA_SIZE, EGL_DEPTH_SIZE, EGL_STENCIL_SIZE, EGL_SAMPLE_BUFFERS, EGL_SAMPLES]"

fun query_attributes :: "'w egl_ops \<Rightarrow> u64 \<Rightarrow> u64 \<Rightarrow> int list \<Rightarrow> ('w, int list option) state" where
  "query_attributes x display config [] = State_Monad.return (Some [])" |
  "query_attributes x display config (a # as) = do {
     (ok, v) \<leftarrow> egl_config_attrib x display config a;
     if ok = 0 then State_Monad.return None else do {
       rest \<leftarrow> query_attributes x display config as;
       State_Monad.return (map_option ((#) v) rest) } }"

definition exact_config :: "int list \<Rightarrow> bool" where
  "exact_config values \<longleftrightarrow> (case values of
       [surface_type, renderable_type, red, green, blue, alpha, depth, stencil, sample_buffers, samples] \<Rightarrow>
         surface_type AND EGL_WINDOW_BIT \<noteq> 0 \<and> renderable_type AND EGL_OPENGL_BIT \<noteq> 0
         \<and> red = 8 \<and> green = 8 \<and> blue = 8 \<and> alpha = 8 \<and> depth = 24 \<and> stencil = 8
         \<and> sample_buffers = 0 \<and> samples = 0
     | _ \<Rightarrow> False)"

text \<open>The loop over the configurations: the one selected and the count of the exact ones.\<close>

fun select_config :: "'w egl_ops \<Rightarrow> u64 \<Rightarrow> u64 list \<Rightarrow> u64 \<Rightarrow> int \<Rightarrow> ('w, (u64 \<times> int) option) state" where
  "select_config x display [] selected exact_count = State_Monad.return (Some (selected, exact_count))" |
  "select_config x display (c # cs) selected exact_count = do {
     queried \<leftarrow> query_attributes x display c queried_attributes;
     case queried of
       None \<Rightarrow> State_Monad.return None
     | Some values \<Rightarrow>
         if exact_config values
         then select_config x display cs (if selected = 0 then c else selected) (exact_count + 1)
         else select_config x display cs selected exact_count }"

definition choose_wayland_config ::
    "'w egl_ops \<Rightarrow> u64 \<Rightarrow> bool \<Rightarrow> ('w egl_host, native_primitive option) state" where
  "choose_wayland_config x display out = do {
     (result, _, count) \<leftarrow> on_egl (egl_choose_config x display wayland_attributes 0);
     (result, selected, exact_count) \<leftarrow>
       (if result = EGL_TRUE \<and> count > 0 then do {
          ok \<leftarrow> on_egl (egl_calloc x count);
          if \<not> ok then State_Monad.return (EGL_FALSE, 0, 0) else do {
            count_blocks 1;
            (result, configs, returned) \<leftarrow> on_egl (egl_choose_config x display wayland_attributes count);
            found \<leftarrow> (if result = EGL_TRUE
              then on_egl (select_config x display (take (nat returned) configs) 0 0)
              else State_Monad.return (Some (0, 0)));
            count_blocks (- 1);
            State_Monad.return (case found of
                None \<Rightarrow> (EGL_FALSE, 0, 0)
              | Some (selected, n) \<Rightarrow> (result, selected, n)) } }
        else State_Monad.return (result, 0, 0));
     let p = capture_return result;
     report out (p\<lparr>valid_mask := valid_mask p OR (VALID_HANDLE OR VALID_OBSERVED_COUNT),
       handle := selected, observed_count := count_of exact_count\<rparr>) }"

subsection \<open>The other calls\<close>

definition get_native_visual where
  "get_native_visual x display config out = do {
     (v, visual) \<leftarrow> egl_config_attrib x display config EGL_NATIVE_VISUAL_ID;
     let p = capture_return v;
     report out (p\<lparr>valid_mask := valid_mask p OR VALID_SELECTED_VALUE,
       selected_value := word_of_int visual\<rparr>) }"

definition create_context where
  "create_context x display config out = hands_out out
     (egl_create_context x display config [(0x3098, 4), (0x30FB, 1), (0x30FD, 1)])"

definition create_window_surface where
  "create_window_surface x display config native_window out = hands_out out
     (egl_create_window_surface x display config native_window)"

definition create_pbuffer_surface where
  "create_pbuffer_surface x display config (width :: i64) (height :: i64) out = hands_out out
     (egl_create_pbuffer_surface x display config
       [(EGL_WIDTH, sint (ucast width :: i32)), (EGL_HEIGHT, sint (ucast height :: i32))])"

definition make_current where
  "make_current x display draw readable context out =
     returns out (egl_make_current x display draw readable context)"

definition get_current_draw_surface where
  "get_current_draw_surface x out = hands_out out (egl_current_surface x True)"

definition get_current_read_surface where
  "get_current_read_surface x out = hands_out out (egl_current_surface x False)"

definition get_current_context where
  "get_current_context x out = hands_out out (egl_current_context x)"

definition swap_buffers where
  "swap_buffers x display surface out = returns out (egl_swap_buffers x display surface)"

definition destroy_surface where
  "destroy_surface x display surface out = returns out (egl_destroy_surface x display surface)"

definition destroy_context where
  "destroy_context x display context out = returns out (egl_destroy_context x display context)"

definition terminate_egl where "terminate_egl x display out = returns out (egl_terminate x display)"

definition release_thread where "release_thread x out = returns out (egl_release_thread x)"

end
