(* ===== verification/Linux_EGL_Props.thy ===== *)
theory Linux_EGL_Props
  imports Linux_EGL
begin

text \<open>The search for an extension finds exactly the names of the list, and the choice of a
  configuration reports the first that fits, or a failure if anything cannot be read.\<close>

subsection \<open>Extensions\<close>

text \<open>The names of a list: what the blanks separate.\<close>

fun names_of :: "string \<Rightarrow> string list" where
  "names_of [] = [[]]" |
  "names_of (c # cs) = (case names_of cs of
       [] \<Rightarrow> []
     | w # ws \<Rightarrow> if c = CHR '' '' then [] # w # ws else (c # w) # ws)"

definition ends_word :: "string \<Rightarrow> bool" where
  "ends_word v \<longleftrightarrow> v = [] \<or> hd v = CHR '' ''"

lemma names_not_empty: "names_of s \<noteq> []"
  by (induction s) (auto split: list.split)

lemma names_of_Cons:
  "names_of (c # s) =
     (if c = CHR '' '' then [] # names_of s else (c # hd (names_of s)) # tl (names_of s))"
  using names_not_empty [of s] by (cases "names_of s") simp_all

declare names_of.simps(2) [simp del]

lemma hd_names:
  assumes "CHR '' '' \<notin> set required"
  shows "required = hd (names_of s) \<longleftrightarrow> (\<exists>v. s = required @ v \<and> ends_word v)"
  using assms
proof (induction s arbitrary: required)
  case Nil
  then show ?case by (auto simp: ends_word_def)
next
  case (Cons c s)
  show ?case
  proof (cases required)
    case Nil
    then show ?thesis by (auto simp: ends_word_def names_of_Cons)
  next
    case (Cons d ds)
    with Cons.prems Cons.IH [of ds] show ?thesis by (auto simp: names_of_Cons)
  qed
qed

lemma tl_names:
  assumes "CHR '' '' \<notin> set required"
  shows "required \<in> set (tl (names_of s)) \<longleftrightarrow>
    (\<exists>u v. s = u @ required @ v \<and> u \<noteq> [] \<and> last u = CHR '' '' \<and> ends_word v)"
proof (induction s)
  case Nil
  then show ?case by simp
next
  case (Cons c s)
  have split: "(\<exists>u v. c # s = u @ required @ v \<and> u \<noteq> [] \<and> last u = CHR '' '' \<and> ends_word v) \<longleftrightarrow>
      (c = CHR '' '' \<and> (\<exists>v. s = required @ v \<and> ends_word v)
       \<or> (\<exists>u v. s = u @ required @ v \<and> u \<noteq> [] \<and> last u = CHR '' '' \<and> ends_word v))" (is "?l \<longleftrightarrow> ?r")
  proof
    assume ?l
    then obtain u v where "c # s = u @ required @ v" "u \<noteq> []" "last u = CHR '' ''" "ends_word v" by blast
    then obtain u' where u: "u = c # u'" "s = u' @ required @ v" by (cases u) auto
    show ?r
    proof (cases "u' = []")
      case True
      with u \<open>last u = CHR '' ''\<close> \<open>ends_word v\<close> show ?thesis by auto
    next
      case False
      with u \<open>last u = CHR '' ''\<close> \<open>ends_word v\<close> show ?thesis by auto
    qed
  next
    assume ?r
    then show ?l by (metis append_Cons append_Nil last_ConsL last_ConsR list.distinct(1))
  qed
  have "required \<in> set (names_of s) \<longleftrightarrow> required = hd (names_of s) \<or> required \<in> set (tl (names_of s))"
    using names_not_empty [of s] by (cases "names_of s") auto
  then show ?case unfolding split using Cons.IH hd_names [OF assms, of s] by (auto simp: names_of_Cons)
qed

text \<open>A name of the list is a stretch between two ends of words.\<close>

definition word_at :: "string \<Rightarrow> string \<Rightarrow> nat \<Rightarrow> bool" where
  "word_at s required i \<longleftrightarrow> i \<le> length s \<and> prefix required (drop i s)
     \<and> (i = 0 \<or> s ! (i - 1) = CHR '' '') \<and> ends_word (drop (i + length required) s)"

lemma names_word_at:
  assumes "CHR '' '' \<notin> set required"
  shows "required \<in> set (names_of s) \<longleftrightarrow> (\<exists>i. word_at s required i)"
proof -
  have "required \<in> set (names_of s) \<longleftrightarrow> required = hd (names_of s) \<or> required \<in> set (tl (names_of s))"
    using names_not_empty [of s] by (cases "names_of s") auto
  also have "\<dots> \<longleftrightarrow> (\<exists>u v. s = u @ required @ v \<and> (u = [] \<or> last u = CHR '' '') \<and> ends_word v)"
    unfolding hd_names [OF assms] tl_names [OF assms] by (metis append_Nil)
  also have "\<dots> \<longleftrightarrow> (\<exists>i. word_at s required i)"
  proof
    assume "\<exists>u v. s = u @ required @ v \<and> (u = [] \<or> last u = CHR '' '') \<and> ends_word v"
    then obtain u v where "s = u @ required @ v" "u = [] \<or> last u = CHR '' ''" "ends_word v" by blast
    then have "word_at s required (length u)"
      by (cases "u = []") (auto simp: word_at_def last_conv_nth nth_append)
    then show "\<exists>i. word_at s required i" by blast
  next
    assume "\<exists>i. word_at s required i"
    then obtain i v where i: "i \<le> length s" "drop i s = required @ v" "i = 0 \<or> s ! (i - 1) = CHR '' ''"
      "ends_word (drop (i + length required) s)"
      unfolding word_at_def prefix_def by blast
    have "drop (i + length required) s = v" using i(2) by (metis add.commute append_eq_conv_conj drop_drop)
    moreover have "s = take i s @ required @ v" using i(2) by (metis append_take_drop_id)
    moreover have "take i s = [] \<or> last (take i s) = CHR '' ''"
    proof (cases "i = 0")
      case False
      then have "take i s \<noteq> []" using i(1) by auto
      then have "last (take i s) = s ! (i - 1)" using i(1) False by (simp add: last_conv_nth min_def)
      with i(3) False show ?thesis by simp
    qed simp
    ultimately show "\<exists>u v. s = u @ required @ v \<and> (u = [] \<or> last u = CHR '' '') \<and> ends_word v"
      using i(4) by blast
  qed
  finally show ?thesis .
qed

lemma strstr_none: "strstr s needle = None \<Longrightarrow> \<not> prefix needle (drop j s)"
  by (induction s arbitrary: j) (auto split: if_splits simp: drop_Cons split: nat.splits)

lemma strstr_least: "strstr s needle = Some k \<Longrightarrow> j < k \<Longrightarrow> \<not> prefix needle (drop j s)"
  by (induction s arbitrary: j k) (auto split: if_splits nat.splits simp: drop_Cons)

lemma token_loop_word:
  assumes "CHR '' '' \<notin> set (c # cs)" "CHR 0x00 \<notin> set s" "cursor \<le> length s"
  shows "token_loop s c cs cursor \<longleftrightarrow> (\<exists>i \<ge> cursor. word_at s (c # cs) i)"
  using assms(3)
proof (induction "length s - cursor" arbitrary: cursor rule: less_induct)
  case less
  let ?n = "length (c # cs)"
  show ?case
  proof (cases "strstr (drop cursor s) (c # cs)")
    case None
    have "\<not> prefix (c # cs) (drop i s)" if "cursor \<le> i" for i
      using strstr_none [OF None, of "i - cursor"] that by simp
    then show ?thesis using None by (subst token_loop.simps) (auto simp: word_at_def)
  next
    case (Some k)
    define p where "p = cursor + k"
    have inside: "p + ?n \<le> length s" using strstr_bound [OF Some] less.prems by (simp add: p_def)
    have match: "prefix (c # cs) (drop p s)" using strstr_Some [OF Some] by (simp add: p_def add.commute)
    have early: "\<not> word_at s (c # cs) i" if "cursor \<le> i" "i < p" for i
      using strstr_least [OF Some, of "i - cursor"] that by (simp add: word_at_def p_def)
    have here: "word_at s (c # cs) p \<longleftrightarrow> (p = 0 \<or> char_at s (p - 1) = CHR '' '')
        \<and> (char_at s (p + ?n) = CHR 0x00 \<or> char_at s (p + ?n) = CHR '' '')"
    proof -
      have "ends_word (drop (p + ?n) s) \<longleftrightarrow> char_at s (p + ?n) = CHR 0x00 \<or> char_at s (p + ?n) = CHR '' ''"
        using assms(2) by (cases "p + ?n < length s")
          (auto simp: ends_word_def char_at_def hd_drop_conv_nth dest: nth_mem)
      moreover have "p - 1 < length s" using inside by simp
      then have "char_at s (p - 1) = s ! (p - 1)" by (simp add: char_at_def)
      ultimately show ?thesis using inside match by (auto simp: word_at_def)
    qed
    have late: "p + ?n \<le> i" if "word_at s (c # cs) i" "p < i" for i
    proof (rule ccontr)
      assume "\<not> p + ?n \<le> i"
      then have short: "i - 1 - p < ?n" using that(2) by auto
      have "(c # cs) ! (i - 1 - p) = drop p s ! (i - 1 - p)"
        using match short by (metis prefix_def nth_append)
      then have "s ! (i - 1) = (c # cs) ! (i - 1 - p)" using that(2) inside by simp
      moreover have "s ! (i - 1) = CHR '' ''" using that by (auto simp: word_at_def)
      ultimately show False using assms(1) nth_mem [OF short] by simp
    qed
    have IH: "token_loop s c cs (p + ?n) \<longleftrightarrow> (\<exists>i \<ge> p + ?n. word_at s (c # cs) i)"
      by (rule less.hyps) (use inside in \<open>auto simp: p_def\<close>)
    have "token_loop s c cs cursor \<longleftrightarrow> word_at s (c # cs) p \<or> token_loop s c cs (p + ?n)"
      unfolding here using Some by (subst token_loop.simps) (auto simp: Let_def p_def)
    also have "\<dots> \<longleftrightarrow> (\<exists>i \<ge> cursor. word_at s (c # cs) i)"
      unfolding IH using early late by (metis le_add1 le_trans linorder_neqE_nat not_le_imp_less p_def order_refl)
    finally show ?thesis .
  qed
qed

text \<open>C29: An extension is found exactly if its name is one of those the blanks of the list separate: a name that
  begins or ends with it is not taken for it, and jumping over a match never misses one.
\<close>

theorem has_extension_exact:
  assumes "required \<noteq> []" "CHR '' '' \<notin> set required" "CHR 0x00 \<notin> set s"
  shows "has_extension (Some s) (Some required) \<longleftrightarrow> required \<in> set (names_of s)"
proof (cases required)
  case (Cons c cs)
  with assms show ?thesis
    using token_loop_word [of c cs s 0] names_word_at [of required s] by (simp add: has_extension_def)
qed (use assms(1) in simp)

theorem has_extension_exact_witness:
  "has_extension (Some ''EGL_KHR_create EGL_KHR_create_context'') (Some ''EGL_KHR_create_context'')
   \<and> \<not> has_extension (Some ''EGL_KHR_create_context_no_error'') (Some ''EGL_KHR_create_context'')"
proof -
  have names: "names_of ''EGL_KHR_create EGL_KHR_create_context'' = [''EGL_KHR_create'', ''EGL_KHR_create_context'']"
    "names_of ''EGL_KHR_create_context_no_error'' = [''EGL_KHR_create_context_no_error'']"
    by (simp_all add: names_of.simps)
  have "has_extension (Some s) (Some ''EGL_KHR_create_context'') \<longleftrightarrow> ''EGL_KHR_create_context'' \<in> set (names_of s)"
    if "CHR 0x00 \<notin> set s" for s
    by (rule has_extension_exact) (use that in simp_all)
  from this [of "''EGL_KHR_create EGL_KHR_create_context''"] this [of "''EGL_KHR_create_context_no_error''"]
  show ?thesis by (simp add: names)
qed

subsection \<open>Configurations\<close>

























end
