(* ===== verification/Win32_Events.thy ===== *)
theory Win32_Events
  imports Host_Monad
begin

unbundle bit_operations_syntax

text \<open>
  The window procedure of the Win32 backend and what it is made of
  (\<^verbatim>\<open>x/multiwindow/win32_backend_helpers.h\<close>): every message of Windows becomes events for the V code, each
  with a number from one sequence of the process.

  Windows and the callbacks that answer are a table of operations. A message that Windows sends while one
  of these calls runs is a run of the procedure of its own. The state of the model has the
  counter of the sequence, the data pointer and the properties of the windows, the events emitted so far,
  in order, and the count of allocated blocks. The builds for tests are left out.
\<close>

subsection \<open>Events and the state\<close>

datatype w32_event =
    Close_Requested u64
  | Destroyed u64
  | Resized u64 int int
  | Service_Refresh u64 int
  | Input u64 int int u32 int u32 int int int int int
  | Drop_Begin u64 int int u32
  | Drop_File u64 string
  | Drop_End u64
  | Touch u64 int u32 "(u64 \<times> int \<times> int \<times> int) list"
  | Raw_Mouse u64 int int int int u32
  | Focus_Lost
  | Raw_Input_Error

datatype w32_prop = Min_Width_Prop | Min_Height_Prop | Tracked_Prop | Cursor_Prop | Lock_Prop

record touch_input =
  touch_x :: int
  touch_y :: int
  touch_id :: u32
  touch_flags :: u32

record raw_input =
  raw_dw_size :: u32
  raw_type :: u32
  raw_flags :: u16
  raw_dx :: int
  raw_dy :: int

type_synonym point = "int \<times> int"
type_synonym rect = "int \<times> int \<times> int \<times> int"

record 'w w32_ops =
  key_state :: "int \<Rightarrow> ('w, u16) state"
  async_key_state :: "int \<Rightarrow> ('w, u16) state"
  swap_button :: "('w, int) state"
  screen_to_client :: "u64 \<Rightarrow> point \<Rightarrow> ('w, point option) state"
  cursor_pos :: "('w, point option) state"
  map_scancode :: "u32 \<Rightarrow> ('w, u32) state"
  set_prop :: "u64 \<Rightarrow> w32_prop \<Rightarrow> u64 \<Rightarrow> ('w, bool) state"
  track_mouse :: "u64 \<Rightarrow> ('w, bool) state"
  load_cursor :: "int \<Rightarrow> ('w, u64) state"
  set_cursor :: "u64 \<Rightarrow> ('w, unit) state"
  user32_proc :: "string \<Rightarrow> ('w, bool) state"
  register_touch :: "u64 \<Rightarrow> ('w, bool) state"
  unregister_touch :: "u64 \<Rightarrow> ('w, unit) state"
  touch_inputs :: "u64 \<Rightarrow> u32 \<Rightarrow> ('w, touch_input list option) state"
  close_touch :: "u64 \<Rightarrow> ('w, unit) state"
  drag_point :: "u64 \<Rightarrow> ('w, point) state"
  drag_count :: "u64 \<Rightarrow> ('w, u32) state"
  drag_chars :: "u64 \<Rightarrow> u32 \<Rightarrow> ('w, u32) state"
  drag_path :: "u64 \<Rightarrow> u32 \<Rightarrow> u32 \<Rightarrow> ('w, u32 \<times> u16 list) state"
  drag_finish :: "u64 \<Rightarrow> ('w, unit) state"
  drag_accept :: "u64 \<Rightarrow> bool \<Rightarrow> ('w, unit) state"
  alloc :: "('w, bool) state"
  utf8_size :: "u16 list \<Rightarrow> ('w, int) state"
  utf8_text :: "u16 list \<Rightarrow> ('w, int \<times> string) state"
  raw_size :: "u64 \<Rightarrow> ('w, u32 \<times> u32) state"
  raw_read :: "u64 \<Rightarrow> u32 \<Rightarrow> ('w, u32 \<times> u32 \<times> raw_input) state"
  mouse_lock_active :: "u64 \<Rightarrow> ('w, bool) state"
  suppress_mouse_tail :: "u64 \<Rightarrow> int \<Rightarrow> int \<Rightarrow> ('w, bool) state"
  set_focus :: "u64 \<Rightarrow> ('w, unit) state"
  set_capture :: "u64 \<Rightarrow> ('w, unit) state"
  release_capture :: "('w, unit) state"
  is_window :: "u64 \<Rightarrow> ('w, bool) state"
  client_rect :: "u64 \<Rightarrow> ('w, rect option) state"
  window_rect :: "u64 \<Rightarrow> ('w, rect option) state"
  window_styles :: "u64 \<Rightarrow> ('w, u32 \<times> u32) state"
  adjust_rect :: "int \<Rightarrow> int \<Rightarrow> u32 \<Rightarrow> u32 \<Rightarrow> ('w, rect option) state"
  dpi_for_window :: "u64 \<Rightarrow> ('w, u32) state"
  adjust_rect_dpi :: "int \<Rightarrow> int \<Rightarrow> u32 \<Rightarrow> u32 \<Rightarrow> u32 \<Rightarrow> ('w, rect option) state"
  set_window_size :: "u64 \<Rightarrow> int \<Rightarrow> int \<Rightarrow> ('w, bool) state"
  set_window_rect :: "u64 \<Rightarrow> rect \<Rightarrow> ('w, bool) state"
  suggested_rect :: "u64 \<Rightarrow> ('w, rect) state"
  set_min_track :: "u64 \<Rightarrow> bool \<Rightarrow> int \<Rightarrow> ('w, unit) state"
  create_params :: "u64 \<Rightarrow> ('w, u64) state"
  def_window_proc :: "u64 \<Rightarrow> u32 \<Rightarrow> u64 \<Rightarrow> u64 \<Rightarrow> ('w, i64) state"

record 'w w32 =
  w_os :: 'w
  w_sequence :: u64
  w_exhausted :: bool
  w_user_data :: "u64 \<Rightarrow> u64"
  w_props :: "u64 \<Rightarrow> w32_prop \<Rightarrow> u64"
  w_emitted :: "(u64 \<times> w32_event) list"
  w_blocks :: int

definition on_os :: "('w, 'a) state \<Rightarrow> ('w w32, 'a) state" where
  "on_os m = State (\<lambda>s. case run_state m (w_os s) of (a, w) \<Rightarrow> (a, s\<lparr>w_os := w\<rparr>))"

definition emit :: "u64 \<Rightarrow> w32_event \<Rightarrow> ('w w32, unit) state" where
  "emit data e = State (\<lambda>s. ((), s\<lparr>w_emitted := w_emitted s @ [(data, e)]\<rparr>))"

definition count_block :: "int \<Rightarrow> ('w w32, unit) state" where
  "count_block n = State (\<lambda>s. ((), s\<lparr>w_blocks := w_blocks s + n\<rparr>))"

definition get_prop :: "u64 \<Rightarrow> w32_prop \<Rightarrow> ('w w32, u64) state" where
  "get_prop hwnd p = State (\<lambda>s. (w_props s hwnd p, s))"

definition put_prop :: "u64 \<Rightarrow> w32_prop \<Rightarrow> u64 \<Rightarrow> ('w w32, unit) state" where
  "put_prop hwnd p v = State (\<lambda>s. ((), s\<lparr>w_props := (w_props s)(hwnd := (w_props s hwnd)(p := v))\<rparr>))"

text \<open>\<^verbatim>\<open>SetPropW\<close>, which may fail, and \<^verbatim>\<open>RemovePropW\<close>.\<close>

definition store_prop :: "'w w32_ops \<Rightarrow> u64 \<Rightarrow> w32_prop \<Rightarrow> u64 \<Rightarrow> ('w w32, unit) state" where
  "store_prop ops hwnd p v = do {
     ok \<leftarrow> on_os (set_prop ops hwnd p v);
     if_then ok (put_prop hwnd p v) }"

definition remove_prop :: "u64 \<Rightarrow> w32_prop \<Rightarrow> ('w w32, unit) state" where
  "remove_prop hwnd p = put_prop hwnd p 0"

text \<open>Subtraction of C integers, which wraps.\<close>

definition sub32 :: "int \<Rightarrow> int \<Rightarrow> int" where
  "sub32 a b = sint (word_of_int (a - b) :: i32)"

abbreviation (input) INT_MAX :: int where "INT_MAX \<equiv> 2147483647"

subsection \<open>The sequence of events\<close>

definition next_event_sequence :: "('w w32, u64) state" where
  "next_event_sequence = State (\<lambda>s.
     if w_exhausted s then (0, s)
     else let sequence = w_sequence s
       in if sequence = 0xFFFFFFFFFFFFFFFF
         then (sequence, s\<lparr>w_sequence := 0, w_exhausted := True\<rparr>)
         else (sequence, s\<lparr>w_sequence := sequence + 1\<rparr>))"

definition event_sequence_exhausted :: "('w w32, bool) state" where
  "event_sequence_exhausted = State (\<lambda>s. (w_exhausted s, s))"

subsection \<open>The parts of a message\<close>

definition lparam_x :: "u64 \<Rightarrow> int" where
  "lparam_x lparam = sint (ucast (lparam AND 0xffff) :: u16)"

definition lparam_y :: "u64 \<Rightarrow> int" where
  "lparam_y lparam = sint (ucast (drop_bit 16 lparam AND 0xffff) :: u16)"

definition wheel_delta :: "u64 \<Rightarrow> int" where
  "wheel_delta wparam = sint (ucast (drop_bit 16 wparam AND 0xffff) :: u16)"

definition client_pos_from_lparam :: "'w w32_ops \<Rightarrow> u64 \<Rightarrow> u64 \<Rightarrow> ('w w32, point) state" where
  "client_pos_from_lparam ops hwnd lparam =
     (let p = (lparam_x lparam, lparam_y lparam) in
      if hwnd \<noteq> 0 then do {
        q \<leftarrow> on_os (screen_to_client ops hwnd p);
        State_Monad.return (case q of Some q \<Rightarrow> q | None \<Rightarrow> p) }
      else State_Monad.return p)"

definition cursor_client_pos :: "'w w32_ops \<Rightarrow> u64 \<Rightarrow> ('w w32, point) state" where
  "cursor_client_pos ops hwnd = do {
     p \<leftarrow> on_os (cursor_pos ops);
     case p of
       None \<Rightarrow> State_Monad.return (0, 0)
     | Some p \<Rightarrow>
         if hwnd = 0 then State_Monad.return (0, 0) else do {
           q \<leftarrow> on_os (screen_to_client ops hwnd p);
           State_Monad.return (case q of Some q \<Rightarrow> q | None \<Rightarrow> (0, 0)) } }"

abbreviation (input) VK_LBUTTON :: int where "VK_LBUTTON \<equiv> 1"
abbreviation (input) VK_RBUTTON :: int where "VK_RBUTTON \<equiv> 2"
abbreviation (input) VK_MBUTTON :: int where "VK_MBUTTON \<equiv> 4"
abbreviation (input) VK_SHIFT :: "'a::numeral" where "VK_SHIFT \<equiv> 0x10"
abbreviation (input) VK_CONTROL :: "'a::numeral" where "VK_CONTROL \<equiv> 0x11"
abbreviation (input) VK_MENU :: "'a::numeral" where "VK_MENU \<equiv> 0x12"
abbreviation (input) VK_LWIN :: int where "VK_LWIN \<equiv> 0x5B"
abbreviation (input) VK_RWIN :: int where "VK_RWIN \<equiv> 0x5C"
abbreviation (input) MODIFIER_LMB :: u32 where "MODIFIER_LMB \<equiv> 0x100"
abbreviation (input) MODIFIER_RMB :: u32 where "MODIFIER_RMB \<equiv> 0x200"
abbreviation (input) MODIFIER_MMB :: u32 where "MODIFIER_MMB \<equiv> 0x400"

definition pressed :: "u16 \<Rightarrow> bool" where "pressed k \<longleftrightarrow> k AND 0x8000 \<noteq> 0"

definition w32_modifiers :: "'w w32_ops \<Rightarrow> ('w w32, u32) state" where
  "w32_modifiers ops = do {
     shift \<leftarrow> on_os (key_state ops VK_SHIFT);
     control \<leftarrow> on_os (key_state ops VK_CONTROL);
     menu \<leftarrow> on_os (key_state ops VK_MENU);
     lwin \<leftarrow> on_os (key_state ops VK_LWIN);
     rwin \<leftarrow> on_os (key_state ops VK_RWIN);
     swap \<leftarrow> on_os (swap_button ops);
     lbutton \<leftarrow> on_os (async_key_state ops VK_LBUTTON);
     rbutton \<leftarrow> on_os (async_key_state ops VK_RBUTTON);
     mbutton \<leftarrow> on_os (async_key_state ops VK_MBUTTON);
     let swapped = swap = 1;
     State_Monad.return
       ((if pressed shift then 1 else 0) OR (if pressed control then 2 else 0)
        OR (if pressed menu then 4 else 0) OR (if pressed (lwin OR rwin) then 8 else 0)
        OR (if pressed lbutton then if swapped then MODIFIER_RMB else MODIFIER_LMB else 0)
        OR (if pressed rbutton then if swapped then MODIFIER_LMB else MODIFIER_RMB else 0)
        OR (if pressed mbutton then MODIFIER_MMB else 0)) }"

definition is_char_code :: "u64 \<Rightarrow> bool" where
  "is_char_code c \<longleftrightarrow> c \<ge> 32 \<or> c = 8 \<or> c = 9 \<or> c = 13 \<or> c = 127"

subsection \<open>Keys\<close>

text \<open>The extended key flag of a key message.\<close>

definition extended_key :: "u64 \<Rightarrow> bool" where "extended_key lparam \<longleftrightarrow> lparam AND 0x01000000 \<noteq> 0"

definition normalized_vk :: "'w w32_ops \<Rightarrow> u64 \<Rightarrow> u64 \<Rightarrow> ('w w32, i32) state" where
  "normalized_vk ops wparam lparam =
     (let vk = (ucast wparam :: u32) in
      if vk = VK_SHIFT \<or> vk = VK_CONTROL \<or> vk = VK_MENU then
        let scancode = (ucast (drop_bit 16 lparam AND 0xff) :: u32);
            scancode = (if extended_key lparam then scancode OR 0xe000 else scancode)
        in on_os (map_scancode ops scancode)
      else State_Monad.return vk)"

definition w32_scancode :: "u64 \<Rightarrow> nat" where
  "w32_scancode lparam = unat (drop_bit 16 lparam AND 0xffff AND 0x1FF)"

definition w32_keycodes :: "(nat \<times> int) list" where
  "w32_keycodes = [
     (0x00B, 48), (0x002, 49), (0x003, 50), (0x004, 51), (0x005, 52), (0x006, 53), (0x007, 54),
     (0x008, 55), (0x009, 56), (0x00A, 57), (0x01E, 65), (0x030, 66), (0x02E, 67), (0x020, 68),
     (0x012, 69), (0x021, 70), (0x022, 71), (0x023, 72), (0x017, 73), (0x024, 74), (0x025, 75),
     (0x026, 76), (0x032, 77), (0x031, 78), (0x018, 79), (0x019, 80), (0x010, 81), (0x013, 82),
     (0x01F, 83), (0x014, 84), (0x016, 85), (0x02F, 86), (0x011, 87), (0x02D, 88), (0x015, 89),
     (0x02C, 90), (0x028, 39), (0x02B, 92), (0x033, 44), (0x00D, 61), (0x029, 96), (0x01A, 91),
     (0x00C, 45), (0x034, 46), (0x01B, 93), (0x027, 59), (0x035, 47), (0x056, 162), (0x00E, 259),
     (0x153, 261), (0x14F, 269), (0x01C, 257), (0x001, 256), (0x147, 268), (0x152, 260),
     (0x15D, 348), (0x151, 267), (0x149, 266), (0x045, 284), (0x146, 284), (0x039, 32),
     (0x00F, 258), (0x03A, 280), (0x145, 282), (0x046, 281), (0x03B, 290), (0x03C, 291),
     (0x03D, 292), (0x03E, 293), (0x03F, 294), (0x040, 295), (0x041, 296), (0x042, 297),
     (0x043, 298), (0x044, 299), (0x057, 300), (0x058, 301), (0x064, 302), (0x065, 303),
     (0x066, 304), (0x067, 305), (0x068, 306), (0x069, 307), (0x06A, 308), (0x06B, 309),
     (0x06C, 310), (0x06D, 311), (0x06E, 312), (0x076, 313), (0x038, 342), (0x01D, 341),
     (0x02A, 340), (0x15B, 343), (0x137, 283), (0x138, 346), (0x11D, 345), (0x036, 344),
     (0x136, 344), (0x15C, 347), (0x150, 264), (0x14B, 263), (0x14D, 262), (0x148, 265),
     (0x052, 320), (0x04F, 321), (0x050, 322), (0x051, 323), (0x04B, 324), (0x04C, 325),
     (0x04D, 326), (0x047, 327), (0x048, 328), (0x049, 329), (0x04E, 334), (0x053, 330),
     (0x135, 331), (0x11C, 335), (0x037, 332), (0x04A, 333)]"

definition vk_codes :: "(i32 \<times> int) list" where
  "vk_codes = [(0xA0, 340), (0xA2, 341), (0xA4, 342), (0x5B, 343), (0xA1, 344), (0xA3, 345),
     (0xA5, 346), (0x5C, 347), (0x5D, 348)]"

definition key_code_from_vk :: "'w w32_ops \<Rightarrow> u64 \<Rightarrow> u64 \<Rightarrow> ('w w32, int) state" where
  "key_code_from_vk ops wparam lparam = do {
     vk \<leftarrow> normalized_vk ops wparam lparam;
     State_Monad.return (if vk = 0x0D then if extended_key lparam then 335 else 257
       else case map_of vk_codes vk of Some code \<Rightarrow> code | None \<Rightarrow> 0) }"

definition w32_key_code :: "'w w32_ops \<Rightarrow> u64 \<Rightarrow> u64 \<Rightarrow> ('w w32, int) state" where
  "w32_key_code ops wparam lparam = (case map_of w32_keycodes (w32_scancode lparam) of
       Some code \<Rightarrow> State_Monad.return code
     | None \<Rightarrow> key_code_from_vk ops wparam lparam)"

definition key_repeat :: "u64 \<Rightarrow> int" where
  "key_repeat lparam = of_bool (lparam AND 0x40000000 \<noteq> 0)"

end
