(* ===== verification/Win32_Sizes.thy ===== *)
theory Win32_Sizes
  imports Win32_Events
begin

unbundle bit_operations_syntax

text \<open>
  Sizes and creation of Win32 windows (\<^verbatim>\<open>x/multiwindow/win32_backend_helpers.h\<close>): the frame for a client
  area, the client area of an exact size, the creation in a context of the right resolution, and the
  commands on a created window.
\<close>

subsection \<open>Frames\<close>

definition rect_width :: "rect \<Rightarrow> int" where
  "rect_width r = (case r of (x0, y0, x1, y1) \<Rightarrow> sub32 x1 x0)"

definition rect_height :: "rect \<Rightarrow> int" where
  "rect_height r = (case r of (x0, y0, x1, y1) \<Rightarrow> sub32 y1 y0)"

definition rect_size :: "rect \<Rightarrow> int \<times> int" where
  "rect_size r = (rect_width r, rect_height r)"

definition adjusted_size :: "'w w32_ops \<Rightarrow> int \<Rightarrow> int \<Rightarrow> u32 \<Rightarrow> u32 \<Rightarrow> ('w w32, (int \<times> int) option) state" where
  "adjusted_size ops width height style ex_style = do {
     r \<leftarrow> on_os (adjust_rect ops width height style ex_style);
     State_Monad.return (map_option rect_size r) }"

text \<open>The frame by the resolution of the window, if Windows knows it.\<close>

definition size_by_dpi :: "'w w32_ops \<Rightarrow> u64 \<Rightarrow> int \<Rightarrow> int \<Rightarrow> u32 \<Rightarrow> u32 \<Rightarrow> ('w w32, (int \<times> int) option) state" where
  "size_by_dpi ops hwnd width height style ex_style = do {
     get_dpi \<leftarrow> on_os (user32_proc ops ''GetDpiForWindow'');
     adjust \<leftarrow> on_os (user32_proc ops ''AdjustWindowRectExForDpi'');
     dpi \<leftarrow> (if get_dpi then on_os (dpi_for_window ops hwnd) else State_Monad.return 0);
     if adjust \<and> dpi \<noteq> 0 then do {
       r \<leftarrow> on_os (adjust_rect_dpi ops width height style ex_style dpi);
       State_Monad.return (map_option rect_size r) }
     else State_Monad.return None }"

text \<open>The frame by what the window has around its client area now.\<close>

definition size_by_frame :: "'w w32_ops \<Rightarrow> u64 \<Rightarrow> int \<Rightarrow> int \<Rightarrow> ('w w32, (int \<times> int) option) state" where
  "size_by_frame ops hwnd width height = do {
     client \<leftarrow> on_os (client_rect ops hwnd);
     case client of
       None \<Rightarrow> State_Monad.return None
     | Some c \<Rightarrow> do {
         window \<leftarrow> on_os (window_rect ops hwnd);
         State_Monad.return (case window of
             None \<Rightarrow> None
           | Some w \<Rightarrow>
               let extra_width = sub32 (rect_width w) (rect_width c);
                   extra_height = sub32 (rect_height w) (rect_height c)
               in if rect_width c \<ge> 0 \<and> rect_height c \<ge> 0 \<and> extra_width \<ge> 0 \<and> extra_height \<ge> 0
                   \<and> width \<le> INT_MAX - extra_width \<and> height \<le> INT_MAX - extra_height
                 then Some (width + extra_width, height + extra_height) else None) } }"

definition adjusted_size_for_window ::
    "'w w32_ops \<Rightarrow> u64 \<Rightarrow> int \<Rightarrow> int \<Rightarrow> u32 \<Rightarrow> u32 \<Rightarrow> ('w w32, (int \<times> int) option) state" where
  "adjusted_size_for_window ops hwnd width height style ex_style =
     (if width < 0 \<or> height < 0 then State_Monad.return None else do {
        alive \<leftarrow> (if hwnd \<noteq> 0 then on_os (is_window ops hwnd) else State_Monad.return False);
        by_dpi \<leftarrow> (if alive then size_by_dpi ops hwnd width height style ex_style else State_Monad.return None);
        by_frame \<leftarrow> (if alive \<and> by_dpi = None then size_by_frame ops hwnd width height
          else State_Monad.return None);
        case (by_dpi, by_frame) of
          (Some d, _) \<Rightarrow> State_Monad.return (Some d)
        | (None, Some f) \<Rightarrow> State_Monad.return (Some f)
        | (None, None) \<Rightarrow> adjusted_size ops width height style ex_style })"

subsection \<open>A client area of an exact size\<close>

text \<open>Whether the client area has the size, if it can be read.\<close>

definition client_size :: "'w w32_ops \<Rightarrow> u64 \<Rightarrow> ('w w32, (int \<times> int) option) state" where
  "client_size ops hwnd = do {
     r \<leftarrow> on_os (client_rect ops hwnd);
     State_Monad.return (map_option rect_size r) }"

definition correct_frame :: "'w w32_ops \<Rightarrow> u64 \<Rightarrow> int \<Rightarrow> int \<Rightarrow> int \<times> int \<Rightarrow> ('w w32, bool) state" where
  "correct_frame ops hwnd width height actual = do {
     window \<leftarrow> on_os (window_rect ops hwnd);
     case window of
       None \<Rightarrow> State_Monad.return False
     | Some r \<Rightarrow>
         let corrected_width = rect_width r + width - fst actual;
             corrected_height = rect_height r + height - snd actual
         in if corrected_width \<le> 0 \<or> corrected_width > INT_MAX \<or> corrected_height \<le> 0
             \<or> corrected_height > INT_MAX
           then State_Monad.return False else do {
             moved \<leftarrow> on_os (set_window_size ops hwnd corrected_width corrected_height);
             if \<not> moved then State_Monad.return False else do {
               size \<leftarrow> client_size ops hwnd;
               State_Monad.return (size = Some (width, height)) } } }"

definition set_exact_client_size ::
    "'w w32_ops \<Rightarrow> u64 \<Rightarrow> int \<Rightarrow> int \<Rightarrow> u32 \<Rightarrow> u32 \<Rightarrow> ('w w32, bool) state" where
  "set_exact_client_size ops hwnd width height style ex_style = do {
     alive \<leftarrow> (if hwnd \<noteq> 0 then on_os (is_window ops hwnd) else State_Monad.return False);
     if \<not> alive \<or> width < 0 \<or> height < 0 then State_Monad.return False else do {
       size \<leftarrow> client_size ops hwnd;
       if size = None then State_Monad.return False
       else if size = Some (width, height) then State_Monad.return True else do {
         frame \<leftarrow> adjusted_size_for_window ops hwnd width height style ex_style;
         case frame of
           None \<Rightarrow> State_Monad.return False
         | Some (frame_width, frame_height) \<Rightarrow> do {
             moved \<leftarrow> on_os (set_window_size ops hwnd frame_width frame_height);
             size \<leftarrow> (if moved then client_size ops hwnd else State_Monad.return None);
             case size of
               None \<Rightarrow> State_Monad.return False
             | Some actual \<Rightarrow>
                 if actual = (width, height) then State_Monad.return True
                 else correct_frame ops hwnd width height actual } } } }"

subsection \<open>Creation\<close>

definition window_style :: "bool \<Rightarrow> bool \<Rightarrow> bool \<Rightarrow> u32" where
  "window_style resizable borderless full =
     (if borderless \<or> full then 0x80000000 OR 0x04000000 OR 0x02000000
      else (let style = 0x00C00000 OR 0x00080000 OR 0x00020000 OR 0x04000000 OR 0x02000000
        in if resizable then style OR (0x00040000 OR 0x00010000) else style))"

definition window_ex_style :: "bool \<Rightarrow> bool \<Rightarrow> u32" where
  "window_ex_style borderless full = (if borderless \<or> full then 0x00040000 else 0x00040000 OR 0x00000100)"

text \<open>
  The calls of the creation. The context of the resolution is a handle, 0 for none; setting one returns
  the one before, or 0 when that fails.
\<close>

record 'w create_ops =
  set_dpi_context :: "u64 \<Rightarrow> ('w, u64) state"
  create_native :: "u32 \<Rightarrow> u32 \<Rightarrow> u16 list \<Rightarrow> int \<Rightarrow> int \<Rightarrow> u64 \<Rightarrow> u64 \<Rightarrow> ('w, u64) state"
  destroy_native :: "u64 \<Rightarrow> ('w, bool) state"
  show_native :: "u64 \<Rightarrow> bool \<Rightarrow> ('w, unit) state"
  update_native :: "u64 \<Rightarrow> ('w, unit) state"
  window_visible :: "u64 \<Rightarrow> ('w, bool) state"
  window_iconic :: "u64 \<Rightarrow> ('w, bool) state"
  window_enabled :: "u64 \<Rightarrow> ('w, bool) state"
  enable_native :: "u64 \<Rightarrow> bool \<Rightarrow> ('w, unit) state"
  owner_window :: "u64 \<Rightarrow> ('w, u64) state"
  set_text :: "u64 \<Rightarrow> u16 list \<Rightarrow> ('w, bool) state"
  register_native_class :: "('w, bool) state"
  class_exists :: "('w, bool) state"
  next_message :: "('w, u32 option) state"
  dispatch_message :: "('w, unit) state"

definition PER_MONITOR_V2 :: u64 where "PER_MONITOR_V2 = - 4"

definition set_hwnd_int_prop :: "'w w32_ops \<Rightarrow> u64 \<Rightarrow> w32_prop \<Rightarrow> int \<Rightarrow> ('w w32, unit) state" where
  "set_hwnd_int_prop ops hwnd p v =
     (if v > 0 then store_prop ops hwnd p (word_of_int v) else remove_prop hwnd p)"

text \<open>The context for a window of high resolution: the one before, to be restored.\<close>

definition try_per_monitor_v2_context ::
    "'w w32_ops \<Rightarrow> 'w create_ops \<Rightarrow> bool \<Rightarrow> ('w w32, u64) state" where
  "try_per_monitor_v2_context ops c high_dpi =
     (if high_dpi then do {
        found \<leftarrow> on_os (user32_proc ops ''SetThreadDpiAwarenessContext'');
        if found then on_os (set_dpi_context c PER_MONITOR_V2) else State_Monad.return 0 }
      else State_Monad.return 0)"

definition restore_dpi_context :: "'w create_ops \<Rightarrow> u64 \<Rightarrow> ('w w32, bool) state" where
  "restore_dpi_context c previous =
     (if previous \<noteq> 0 then do {
        r \<leftarrow> on_os (set_dpi_context c previous);
        State_Monad.return (r \<noteq> 0) }
      else State_Monad.return True)"

definition native_window ::
    "'w w32_ops \<Rightarrow> 'w create_ops \<Rightarrow> u16 list \<Rightarrow> int \<times> int \<Rightarrow> int \<times> int \<Rightarrow> int \<times> int \<Rightarrow> u32 \<Rightarrow> u32 \<Rightarrow>
     u64 \<Rightarrow> u64 \<Rightarrow> ('w w32, u64) state" where
  "native_window ops c title frame client minimum style ex_style owner data = do {
     hwnd \<leftarrow> on_os (create_native c ex_style style title (fst frame) (snd frame) owner data);
     if hwnd = 0 then State_Monad.return 0 else do {
       set_hwnd_int_prop ops hwnd Min_Width_Prop (fst minimum);
       set_hwnd_int_prop ops hwnd Min_Height_Prop (snd minimum);
       exact \<leftarrow> set_exact_client_size ops hwnd (fst client) (snd client) style ex_style;
       if exact then State_Monad.return hwnd else do {
         _ \<leftarrow> on_os (destroy_native c hwnd);
         State_Monad.return 0 } } }"

definition register_touch_window :: "'w w32_ops \<Rightarrow> u64 \<Rightarrow> ('w w32, bool) state" where
  "register_touch_window ops hwnd = do {
     found \<leftarrow> on_os (user32_proc ops ''RegisterTouchWindow'');
     if found then on_os (register_touch ops hwnd) else State_Monad.return False }"

definition show_window :: "'w create_ops \<Rightarrow> u64 \<Rightarrow> bool \<Rightarrow> ('w w32, unit) state" where
  "show_window c hwnd full = do {
     on_os (show_native c hwnd full);
     on_os (update_native c hwnd) }"

definition w32_create_window ::
    "'w w32_ops \<Rightarrow> 'w create_ops \<Rightarrow> u16 list \<Rightarrow> int \<Rightarrow> int \<Rightarrow> int \<Rightarrow> int \<Rightarrow> bool \<Rightarrow> bool \<Rightarrow> bool \<Rightarrow> bool \<Rightarrow>
     bool \<Rightarrow> u64 \<Rightarrow> u64 \<Rightarrow> ('w w32, u64) state" where
  "w32_create_window ops c title width height min_width min_height resizable high_dpi borderless full
     visible owner data = do {
     let style = window_style resizable borderless full;
     let ex_style = window_ex_style borderless full;
     owned \<leftarrow> (if owner \<noteq> 0 then on_os (is_window ops owner) else State_Monad.return True);
     if \<not> owned then State_Monad.return 0 else do {
       let client = (max width min_width, max height min_height);
       previous \<leftarrow> try_per_monitor_v2_context ops c high_dpi;
       frame \<leftarrow> adjusted_size_for_window ops owner (fst client) (snd client) style ex_style;
       case frame of
         None \<Rightarrow> do {
           _ \<leftarrow> restore_dpi_context c previous;
           State_Monad.return 0 }
       | Some frame \<Rightarrow> do {
           hwnd \<leftarrow> native_window ops c title frame client (min_width, min_height) style ex_style owner data;
           restored \<leftarrow> restore_dpi_context c previous;
           if \<not> restored then do {
             if_then (hwnd \<noteq> 0) (do { _ \<leftarrow> on_os (destroy_native c hwnd); State_Monad.return () });
             State_Monad.return 0 }
           else do {
             if_then (hwnd \<noteq> 0) (do {
               on_os (drag_accept ops hwnd True);
               _ \<leftarrow> register_touch_window ops hwnd;
               State_Monad.return () });
             if_then (hwnd \<noteq> 0 \<and> visible) (show_window c hwnd full);
             State_Monad.return hwnd } } } }"

subsection \<open>Commands on a created window\<close>

definition w32_live :: "'w w32_ops \<Rightarrow> u64 \<Rightarrow> ('w w32, bool) state" where
  "w32_live ops hwnd = (if hwnd \<noteq> 0 then on_os (is_window ops hwnd) else State_Monad.return False)"

definition owner_matches :: "'w w32_ops \<Rightarrow> 'w create_ops \<Rightarrow> u64 \<Rightarrow> u64 \<Rightarrow> ('w w32, bool) state" where
  "owner_matches ops c hwnd owner =
     (if hwnd = 0 \<or> owner = 0 then State_Monad.return False else all_checks
        [on_os (is_window ops hwnd), on_os (is_window ops owner),
         do { actual \<leftarrow> on_os (owner_window c hwnd); State_Monad.return (actual = owner) }])"

definition is_window_enabled :: "'w w32_ops \<Rightarrow> 'w create_ops \<Rightarrow> u64 \<Rightarrow> ('w w32, bool) state" where
  "is_window_enabled ops c hwnd = all_checks [w32_live ops hwnd, on_os (window_enabled c hwnd)]"

definition set_window_enabled :: "'w w32_ops \<Rightarrow> 'w create_ops \<Rightarrow> u64 \<Rightarrow> bool \<Rightarrow> ('w w32, bool) state" where
  "set_window_enabled ops c hwnd enabled = do {
     alive \<leftarrow> w32_live ops hwnd;
     if \<not> alive then State_Monad.return False else do {
       before \<leftarrow> on_os (window_enabled c hwnd);
       if_then (before \<noteq> enabled) (on_os (enable_native c hwnd enabled));
       after \<leftarrow> on_os (window_enabled c hwnd);
       State_Monad.return (after = enabled) } }"

definition show_created_window :: "'w w32_ops \<Rightarrow> 'w create_ops \<Rightarrow> u64 \<Rightarrow> bool \<Rightarrow> ('w w32, bool) state" where
  "show_created_window ops c hwnd full = do {
     alive \<leftarrow> w32_live ops hwnd;
     if \<not> alive then State_Monad.return False else do {
       show_window c hwnd full;
       on_os (window_visible c hwnd) } }"

definition w32_destroy_window :: "'w create_ops \<Rightarrow> u64 \<Rightarrow> ('w w32, bool) state" where
  "w32_destroy_window c hwnd =
     (if hwnd = 0 then State_Monad.return True else on_os (destroy_native c hwnd))"

definition set_window_text :: "'w create_ops \<Rightarrow> u64 \<Rightarrow> u16 list \<Rightarrow> ('w w32, bool) state" where
  "set_window_text c hwnd title = on_os (set_text c hwnd title)"

definition set_client_size ::
    "'w w32_ops \<Rightarrow> u64 \<Rightarrow> int \<Rightarrow> int \<Rightarrow> int \<Rightarrow> int \<Rightarrow> bool \<Rightarrow> bool \<Rightarrow> bool \<Rightarrow> ('w w32, bool) state" where
  "set_client_size ops hwnd width height min_width min_height resizable borderless full =
     set_exact_client_size ops hwnd (max width min_width) (max height min_height)
       (window_style resizable borderless full) (window_ex_style borderless full)"

definition client_width :: "'w w32_ops \<Rightarrow> u64 \<Rightarrow> ('w w32, int) state" where
  "client_width ops hwnd = do {
     r \<leftarrow> on_os (client_rect ops hwnd);
     State_Monad.return (case r of None \<Rightarrow> 0 | Some r \<Rightarrow> rect_width r) }"

definition client_height :: "'w w32_ops \<Rightarrow> u64 \<Rightarrow> ('w w32, int) state" where
  "client_height ops hwnd = do {
     r \<leftarrow> on_os (client_rect ops hwnd);
     State_Monad.return (case r of None \<Rightarrow> 0 | Some r \<Rightarrow> rect_height r) }"

definition register_class :: "'w create_ops \<Rightarrow> ('w w32, bool) state" where
  "register_class c = do {
     ok \<leftarrow> on_os (register_native_class c);
     if ok then State_Monad.return True else on_os (class_exists c) }"

abbreviation (input) WM_QUIT_CODE :: u32 where "WM_QUIT_CODE \<equiv> 0x0012"

text \<open>The messages that are waiting; without fuel \<open>None\<close>.\<close>

fun pump_messages :: "'w create_ops \<Rightarrow> nat \<Rightarrow> int \<Rightarrow> ('w w32, int option) state" where
  "pump_messages c 0 count = State_Monad.return None" |
  "pump_messages c (Suc fuel) count = do {
     m \<leftarrow> on_os (next_message c);
     case m of
       None \<Rightarrow> State_Monad.return (Some count)
     | Some code \<Rightarrow> do {
         if_then (code \<noteq> WM_QUIT_CODE) (on_os (dispatch_message c));
         pump_messages c fuel (count + 1) } }"

end
