(* ===== verification/Win32_Proc.thy ===== *)
theory Win32_Proc
  imports Win32_Sizes
begin

unbundle bit_operations_syntax

text \<open>
  The window procedure itself (\<^verbatim>\<open>v_multiwindow_win32_wnd_proc\<close>), with the events made of dropped files,
  touches and raw mouse input, the cursor and the sizes of windows.
\<close>

subsection \<open>The cursor and the tracking of the mouse\<close>

definition cursor_ids :: "(int \<times> int) list" where
  "cursor_ids = [(1, 32649), (2, 32646), (15, 32646), (16, 32646), (20, 32646), (17, 32513),
     (18, 32515), (19, 32648), (3, 32645), (4, 32645), (12, 32645), (5, 32644), (6, 32644),
     (11, 32644), (7, 32643), (10, 32643), (13, 32643), (8, 32642), (9, 32642), (14, 32642)]"

definition cursor_id_for_shape :: "int \<Rightarrow> int" where
  "cursor_id_for_shape shape = (case map_of cursor_ids shape of Some c \<Rightarrow> c | None \<Rightarrow> 32512)"

definition hwnd_int_prop :: "u64 \<Rightarrow> w32_prop \<Rightarrow> ('w w32, int) state" where
  "hwnd_int_prop hwnd p = do { v \<leftarrow> get_prop hwnd p; State_Monad.return (sint (ucast v :: i32)) }"

definition apply_cursor_shape :: "'w w32_ops \<Rightarrow> u64 \<Rightarrow> ('w w32, bool) state" where
  "apply_cursor_shape ops hwnd = do {
     shape \<leftarrow> hwnd_int_prop hwnd Cursor_Prop;
     cursor \<leftarrow> on_os (load_cursor ops (cursor_id_for_shape shape));
     if cursor = 0 then State_Monad.return False else do {
       on_os (set_cursor ops cursor);
       State_Monad.return True } }"

definition set_cursor_shape :: "'w w32_ops \<Rightarrow> u64 \<Rightarrow> int \<Rightarrow> ('w w32, bool) state" where
  "set_cursor_shape ops hwnd shape =
     (if hwnd = 0 then State_Monad.return False else do {
        set_hwnd_int_prop ops hwnd Cursor_Prop shape;
        apply_cursor_shape ops hwnd })"

definition begin_mouse_tracking :: "'w w32_ops \<Rightarrow> u64 \<Rightarrow> ('w w32, bool) state" where
  "begin_mouse_tracking ops hwnd = do {
     tracked \<leftarrow> get_prop hwnd Tracked_Prop;
     if tracked \<noteq> 0 then State_Monad.return False else do {
       ok \<leftarrow> on_os (track_mouse ops hwnd);
       if \<not> ok then State_Monad.return False else do {
         store_prop ops hwnd Tracked_Prop 1;
         State_Monad.return True } } }"

definition end_mouse_tracking :: "u64 \<Rightarrow> ('w w32, unit) state" where
  "end_mouse_tracking hwnd = remove_prop hwnd Tracked_Prop"

subsection \<open>Dropped files\<close>

definition wide_to_utf8_alloc :: "'w w32_ops \<Rightarrow> u16 list option \<Rightarrow> ('w w32, string option) state" where
  "wide_to_utf8_alloc ops wide = (case wide of
       None \<Rightarrow> State_Monad.return None
     | Some w \<Rightarrow> do {
         required \<leftarrow> on_os (utf8_size ops w);
         if required \<le> 0 then State_Monad.return None else do {
           ok \<leftarrow> on_os (alloc ops);
           if \<not> ok then State_Monad.return None else do {
             count_block 1;
             (n, utf8) \<leftarrow> on_os (utf8_text ops w);
             if n \<le> 0 then do { count_block (- 1); State_Monad.return None }
             else State_Monad.return (Some utf8) } } })"

definition emit_drop_file :: "'w w32_ops \<Rightarrow> u64 \<Rightarrow> u64 \<Rightarrow> u64 \<Rightarrow> u32 \<Rightarrow> ('w w32, unit) state" where
  "emit_drop_file ops data hdrop sequence i = do {
     chars \<leftarrow> on_os (drag_chars ops hdrop i);
     if chars = 0 then State_Monad.return () else do {
       ok \<leftarrow> on_os (alloc ops);
       if \<not> ok then State_Monad.return () else do {
         count_block 1;
         (n, wide) \<leftarrow> on_os (drag_path ops hdrop i (chars + 1));
         if_then (n \<noteq> 0) (do {
           path \<leftarrow> wide_to_utf8_alloc ops (Some wide);
           case path of
             None \<Rightarrow> State_Monad.return ()
           | Some p \<Rightarrow> do { emit data (Drop_File sequence p); count_block (- 1) } });
         count_block (- 1) } } }"

fun emit_all :: "('w w32, unit) state list \<Rightarrow> ('w w32, unit) state" where
  "emit_all [] = State_Monad.return ()" |
  "emit_all (m # ms) = do { m; emit_all ms }"

definition emit_drop_files :: "'w w32_ops \<Rightarrow> u64 \<Rightarrow> u64 \<Rightarrow> u64 \<Rightarrow> ('w w32, unit) state" where
  "emit_drop_files ops hwnd data hdrop =
     (if data = 0 \<or> hdrop = 0 then if_then (hdrop \<noteq> 0) (on_os (drag_finish ops hdrop)) else do {
        (x, y) \<leftarrow> on_os (drag_point ops hdrop);
        sequence \<leftarrow> next_event_sequence;
        modifiers \<leftarrow> w32_modifiers ops;
        emit data (Drop_Begin sequence x y modifiers);
        count \<leftarrow> on_os (drag_count ops hdrop);
        emit_all (map (\<lambda>i. emit_drop_file ops data hdrop sequence (of_nat i)) [0..<unat count]);
        emit data (Drop_End sequence);
        on_os (drag_finish ops hdrop) })"

subsection \<open>Touches\<close>

definition MAX_TOUCH_POINTS :: nat where "MAX_TOUCH_POINTS = 8"

text \<open>A touch is in hundredths of a pixel of the screen.\<close>

definition touch_point :: "'w w32_ops \<Rightarrow> u64 \<Rightarrow> touch_input \<Rightarrow> ('w w32, u64 \<times> int \<times> int \<times> int) state" where
  "touch_point ops hwnd t = do {
     let p = (touch_x t sdiv 100, touch_y t sdiv 100);
     q \<leftarrow> on_os (screen_to_client ops hwnd p);
     let (x, y) = (case q of Some q \<Rightarrow> q | None \<Rightarrow> p);
     State_Monad.return (ucast (touch_id t), x, y, 1) }"

text \<open>
  \<open>filled\<close> is what the four arrays hold so far; they have room for \<open>MAX_TOUCH_POINTS\<close>, and the result says
  whether every write was inside.
\<close>

fun touch_group_loop ::
    "'w w32_ops \<Rightarrow> u64 \<Rightarrow> u64 \<Rightarrow> u32 \<Rightarrow> int \<Rightarrow> u64 \<Rightarrow> u32 \<Rightarrow> touch_input list \<Rightarrow>
     (u64 \<times> int \<times> int \<times> int) list \<Rightarrow> ('w w32, bool) state" where
  "touch_group_loop ops hwnd data flag kind sequence modifiers [] filled = do {
     if_then (length filled > 0) (emit data (Touch sequence kind modifiers filled));
     State_Monad.return True }" |
  "touch_group_loop ops hwnd data flag kind sequence modifiers (t # ts) filled =
     (if touch_flags t AND flag = 0
      then touch_group_loop ops hwnd data flag kind sequence modifiers ts filled
      else do {
        point \<leftarrow> touch_point ops hwnd t;
        if length filled \<ge> MAX_TOUCH_POINTS then State_Monad.return False else
        let filled = filled @ [point] in
        if length filled = MAX_TOUCH_POINTS then do {
          emit data (Touch sequence kind modifiers filled);
          touch_group_loop ops hwnd data flag kind sequence modifiers ts [] }
        else touch_group_loop ops hwnd data flag kind sequence modifiers ts filled })"

definition emit_touch_group where
  "emit_touch_group ops hwnd data inputs flag kind sequence modifiers =
     touch_group_loop ops hwnd data flag kind sequence modifiers inputs []"

text \<open>The array of \<open>count\<close> zeroed touches, with the touches of Windows at its start.\<close>

definition no_touch :: touch_input where
  "no_touch = \<lparr>touch_x = 0, touch_y = 0, touch_id = 0, touch_flags = 0\<rparr>"

definition touch_array :: "nat \<Rightarrow> touch_input list \<Rightarrow> touch_input list" where
  "touch_array n inputs = take n inputs @ replicate (n - length inputs) no_touch"

abbreviation (input) TOUCH_MOVE :: u32 where "TOUCH_MOVE \<equiv> 1"
abbreviation (input) TOUCH_DOWN :: u32 where "TOUCH_DOWN \<equiv> 2"
abbreviation (input) TOUCH_UP :: u32 where "TOUCH_UP \<equiv> 4"

definition get_touch_input_info :: "'w w32_ops \<Rightarrow> u64 \<Rightarrow> u32 \<Rightarrow> ('w w32, touch_input list option) state" where
  "get_touch_input_info ops handle count = do {
     found \<leftarrow> on_os (user32_proc ops ''GetTouchInputInfo'');
     if found then on_os (touch_inputs ops handle count) else State_Monad.return None }"

definition close_touch_input_handle :: "'w w32_ops \<Rightarrow> u64 \<Rightarrow> ('w w32, unit) state" where
  "close_touch_input_handle ops handle = do {
     found \<leftarrow> on_os (user32_proc ops ''CloseTouchInputHandle'');
     if_then found (on_os (close_touch ops handle)) }"

definition unregister_touch_window :: "'w w32_ops \<Rightarrow> u64 \<Rightarrow> ('w w32, unit) state" where
  "unregister_touch_window ops hwnd = do {
     found \<leftarrow> on_os (user32_proc ops ''UnregisterTouchWindow'');
     if_then found (on_os (unregister_touch ops hwnd)) }"

definition emit_touch_event :: "'w w32_ops \<Rightarrow> u64 \<Rightarrow> u64 \<Rightarrow> u64 \<Rightarrow> u64 \<Rightarrow> ('w w32, bool) state" where
  "emit_touch_event ops hwnd data wparam lparam =
     (let count = (ucast (wparam AND 0xffff) :: u32) in
      if data = 0 \<or> count = 0 \<or> lparam = 0 then State_Monad.return False else do {
        ok \<leftarrow> on_os (alloc ops);
        if \<not> ok then State_Monad.return False else do {
          count_block 1;
          inputs \<leftarrow> get_touch_input_info ops lparam count;
          case inputs of
            None \<Rightarrow> do { count_block (- 1); State_Monad.return False }
          | Some inputs \<Rightarrow> do {
              let inputs = touch_array (unat count) inputs;
              close_touch_input_handle ops lparam;
              sequence \<leftarrow> next_event_sequence;
              modifiers \<leftarrow> w32_modifiers ops;
              _ \<leftarrow> emit_touch_group ops hwnd data inputs TOUCH_DOWN 15 sequence modifiers;
              _ \<leftarrow> emit_touch_group ops hwnd data inputs TOUCH_MOVE 16 sequence modifiers;
              _ \<leftarrow> emit_touch_group ops hwnd data inputs TOUCH_UP 17 sequence modifiers;
              count_block (- 1);
              State_Monad.return True } } })"

subsection \<open>Raw mouse input\<close>

datatype raw_result = Raw_Error | Raw_Ignored | Raw_Delivered

text \<open>The sizes of the structures on a 64 bit Windows.\<close>

definition RAWINPUTHEADER_SIZE :: u32 where "RAWINPUTHEADER_SIZE = 24"
definition RAWINPUT_SIZE :: u32 where "RAWINPUT_SIZE = 48"
definition RAW_INPUT_MAX_BYTES :: u32 where "RAW_INPUT_MAX_BYTES = 64 * 1024"

text \<open>What is read of the block, between its allocation and its release: the motion, or why there is none.\<close>

definition raw_motion :: "'w w32_ops \<Rightarrow> u64 \<Rightarrow> u64 \<Rightarrow> u32 \<Rightarrow> ('w w32, raw_result + point \<times> point) state" where
  "raw_motion ops hwnd lparam bytes = do {
     (read, copied, raw) \<leftarrow> on_os (raw_read ops lparam bytes);
     if read = - 1 \<or> read \<noteq> bytes \<or> copied \<noteq> bytes \<or> raw_dw_size raw \<noteq> bytes
     then State_Monad.return (Inl Raw_Error)
     else if raw_type raw \<noteq> 0 then State_Monad.return (Inl Raw_Ignored)
     else if bytes < RAWINPUT_SIZE then State_Monad.return (Inl Raw_Error)
     else if raw_flags raw AND 1 \<noteq> 0 then State_Monad.return (Inl Raw_Ignored)
     else if raw_dx raw = 0 \<and> raw_dy raw = 0 then State_Monad.return (Inl Raw_Ignored)
     else do {
       cursor \<leftarrow> on_os (cursor_pos ops);
       case cursor of
         None \<Rightarrow> State_Monad.return (Inl Raw_Error)
       | Some p \<Rightarrow> do {
           client \<leftarrow> on_os (screen_to_client ops hwnd p);
           State_Monad.return (case client of
               None \<Rightarrow> Inl Raw_Error
             | Some q \<Rightarrow> Inr (q, (raw_dx raw, raw_dy raw))) } } }"

definition emit_raw_mouse_event :: "'w w32_ops \<Rightarrow> u64 \<Rightarrow> u64 \<Rightarrow> u64 \<Rightarrow> ('w w32, raw_result) state" where
  "emit_raw_mouse_event ops hwnd data lparam = do {
     found \<leftarrow> (if hwnd = 0 \<or> data = 0 \<or> lparam = 0 then State_Monad.return False
       else on_os (user32_proc ops ''GetRawInputData''));
     if \<not> found then State_Monad.return Raw_Error else do {
       (read, bytes) \<leftarrow> on_os (raw_size ops lparam);
       if read = - 1 \<or> read \<noteq> 0 \<or> bytes < RAWINPUTHEADER_SIZE \<or> bytes > RAW_INPUT_MAX_BYTES
       then State_Monad.return Raw_Error else do {
         ok \<leftarrow> on_os (alloc ops);
         if \<not> ok then State_Monad.return Raw_Error else do {
           count_block 1;
           motion \<leftarrow> raw_motion ops hwnd lparam bytes;
           count_block (- 1);
           case motion of
             Inl r \<Rightarrow> State_Monad.return r
           | Inr ((x, y), (dx, dy)) \<Rightarrow> do {
               active \<leftarrow> on_os (mouse_lock_active ops data);
               if \<not> active then State_Monad.return Raw_Error else do {
                 sequence \<leftarrow> next_event_sequence;
                 if sequence = 0 then State_Monad.return Raw_Error else do {
                   modifiers \<leftarrow> w32_modifiers ops;
                   emit data (Raw_Mouse sequence x y dx dy modifiers);
                   State_Monad.return Raw_Delivered } } } } } } }"

subsection \<open>The messages\<close>

text \<open>
  A handler gives the value it returns to Windows, or \<open>None\<close> where the source leaves the switch and
  Windows answers.
\<close>

abbreviation (input) LBUTTON :: int where "LBUTTON \<equiv> 0"
abbreviation (input) RBUTTON :: int where "RBUTTON \<equiv> 1"
abbreviation (input) MBUTTON :: int where "MBUTTON \<equiv> 2"
abbreviation (input) BUTTON_INVALID :: int where "BUTTON_INVALID \<equiv> 256"

text \<open>The next number and the modifiers of the moment, for an input event.\<close>

definition input_event ::
    "'w w32_ops \<Rightarrow> u64 \<Rightarrow> int \<Rightarrow> int \<Rightarrow> u32 \<Rightarrow> int \<Rightarrow> int \<Rightarrow> point \<Rightarrow> point \<Rightarrow> ('w w32, unit) state" where
  "input_event ops data kind key ch rep button pos wheel = do {
     sequence \<leftarrow> next_event_sequence;
     modifiers \<leftarrow> w32_modifiers ops;
     emit data (Input sequence kind key ch rep modifiers button (fst pos) (snd pos) (fst wheel) (snd wheel)) }"

definition plain_event :: "'w w32_ops \<Rightarrow> u64 \<Rightarrow> int \<Rightarrow> ('w w32, unit) state" where
  "plain_event ops data kind = input_event ops data kind 0 0 0 BUTTON_INVALID (0, 0) (0, 0)"

definition on_close :: "u64 \<Rightarrow> ('w w32, i64 option) state" where
  "on_close data =
     (if data \<noteq> 0 then do {
        sequence \<leftarrow> next_event_sequence;
        emit data (Close_Requested sequence);
        State_Monad.return (Some 0) }
      else State_Monad.return None)"

definition set_user_data :: "u64 \<Rightarrow> u64 \<Rightarrow> ('w w32, unit) state" where
  "set_user_data hwnd v = State (\<lambda>s. ((), s\<lparr>w_user_data := (w_user_data s)(hwnd := v)\<rparr>))"

definition on_destroy :: "'w w32_ops \<Rightarrow> u64 \<Rightarrow> u64 \<Rightarrow> ('w w32, i64 option) state" where
  "on_destroy ops hwnd data =
     (if data \<noteq> 0 then do {
        remove_prop hwnd Lock_Prop;
        sequence \<leftarrow> next_event_sequence;
        emit data (Destroyed sequence);
        set_user_data hwnd 0;
        remove_prop hwnd Min_Width_Prop;
        remove_prop hwnd Min_Height_Prop;
        remove_prop hwnd Cursor_Prop;
        end_mouse_tracking hwnd;
        unregister_touch_window ops hwnd;
        on_os (drag_accept ops hwnd False);
        State_Monad.return (Some 0) }
      else State_Monad.return None)"

definition on_set_focus :: "'w w32_ops \<Rightarrow> u64 \<Rightarrow> ('w w32, i64 option) state" where
  "on_set_focus ops data =
     (if data \<noteq> 0 then do { plain_event ops data 10; State_Monad.return (Some 0) }
      else State_Monad.return None)"

definition on_kill_focus :: "'w w32_ops \<Rightarrow> u64 \<Rightarrow> ('w w32, i64 option) state" where
  "on_kill_focus ops data =
     (if data \<noteq> 0 then do {
        emit data Focus_Lost;
        plain_event ops data 11;
        State_Monad.return (Some 0) }
      else State_Monad.return None)"

abbreviation (input) HTCLIENT :: u64 where "HTCLIENT \<equiv> 1"

definition on_set_cursor :: "'w w32_ops \<Rightarrow> u64 \<Rightarrow> u64 \<Rightarrow> ('w w32, i64 option) state" where
  "on_set_cursor ops hwnd lparam =
     (if lparam AND 0xffff = HTCLIENT then do {
        applied \<leftarrow> apply_cursor_shape ops hwnd;
        State_Monad.return (if applied then Some 1 else None) }
      else State_Monad.return None)"

definition on_min_max :: "'w w32_ops \<Rightarrow> u64 \<Rightarrow> u64 \<Rightarrow> ('w w32, i64 option) state" where
  "on_min_max ops hwnd lparam = do {
     min_width \<leftarrow> hwnd_int_prop hwnd Min_Width_Prop;
     min_height \<leftarrow> hwnd_int_prop hwnd Min_Height_Prop;
     if min_width > 0 \<or> min_height > 0 then do {
       (style, ex_style) \<leftarrow> on_os (window_styles ops hwnd);
       frame \<leftarrow> adjusted_size_for_window ops hwnd (max min_width 1) (max min_height 1) style ex_style;
       case frame of
         None \<Rightarrow> State_Monad.return None
       | Some (frame_width, frame_height) \<Rightarrow> do {
           if_then (min_width > 0) (on_os (set_min_track ops lparam True frame_width));
           if_then (min_height > 0) (on_os (set_min_track ops lparam False frame_height));
           State_Monad.return (Some 0) } }
     else State_Monad.return None }"

abbreviation (input) SIZE_MINIMIZED :: u64 where "SIZE_MINIMIZED \<equiv> 1"

definition on_size :: "'w w32_ops \<Rightarrow> u64 \<Rightarrow> u64 \<Rightarrow> u64 \<Rightarrow> ('w w32, i64 option) state" where
  "on_size ops hwnd data wparam =
     (if data = 0 then State_Monad.return None
      else if wparam = SIZE_MINIMIZED then do { plain_event ops data 12; State_Monad.return None }
      else do {
        plain_event ops data 13;
        r \<leftarrow> on_os (client_rect ops hwnd);
        case r of
          None \<Rightarrow> State_Monad.return None
        | Some r \<Rightarrow> do {
            sequence \<leftarrow> next_event_sequence;
            emit data (Resized sequence (rect_width r) (rect_height r));
            State_Monad.return None } })"

definition service_refresh :: "u64 \<Rightarrow> int \<Rightarrow> ('w w32, unit) state" where
  "service_refresh data reason = do {
     sequence \<leftarrow> next_event_sequence;
     emit data (Service_Refresh sequence reason) }"

definition on_display_change :: "u64 \<Rightarrow> ('w w32, i64 option) state" where
  "on_display_change data =
     (if data \<noteq> 0 then do { service_refresh data 1; State_Monad.return (Some 0) }
      else State_Monad.return None)"

definition on_dpi_changed :: "'w w32_ops \<Rightarrow> u64 \<Rightarrow> u64 \<Rightarrow> u64 \<Rightarrow> ('w w32, i64 option) state" where
  "on_dpi_changed ops hwnd data lparam =
     (if data \<noteq> 0 \<and> lparam \<noteq> 0 then do {
        suggested \<leftarrow> on_os (suggested_rect ops lparam);
        moved \<leftarrow> on_os (set_window_rect ops hwnd suggested);
        if_then moved (service_refresh data 2);
        State_Monad.return (Some 0) }
      else State_Monad.return None)"

definition on_pos_changed :: "u64 \<Rightarrow> ('w w32, i64 option) state" where
  "on_pos_changed data = do { if_then (data \<noteq> 0) (service_refresh data 3); State_Monad.return None }"

subsection \<open>The mouse\<close>

text \<open>The property of the mouse lock holds the data of the window that has it.\<close>

definition mouse_locked :: "u64 \<Rightarrow> u64 \<Rightarrow> ('w w32, bool) state" where
  "mouse_locked hwnd data = do { v \<leftarrow> get_prop hwnd Lock_Prop; State_Monad.return (v = data) }"

definition mouse_event :: "u64 \<Rightarrow> int \<Rightarrow> u32 \<Rightarrow> point \<Rightarrow> ('w w32, unit) state" where
  "mouse_event data kind modifiers pos = do {
     sequence \<leftarrow> next_event_sequence;
     emit data (Input sequence kind 0 0 0 modifiers BUTTON_INVALID (fst pos) (snd pos) 0 0) }"

definition on_mouse_move :: "'w w32_ops \<Rightarrow> u64 \<Rightarrow> u64 \<Rightarrow> u64 \<Rightarrow> ('w w32, i64 option) state" where
  "on_mouse_move ops hwnd data lparam =
     (if data = 0 then State_Monad.return None else do {
        locked \<leftarrow> mouse_locked hwnd data;
        if locked then State_Monad.return (Some 0) else do {
          let x = lparam_x lparam;
          let y = lparam_y lparam;
          suppress \<leftarrow> on_os (suppress_mouse_tail ops data x y);
          modifiers \<leftarrow> w32_modifiers ops;
          entered \<leftarrow> begin_mouse_tracking ops hwnd;
          if_then entered (mouse_event data 8 modifiers (x, y));
          if_then (\<not> suppress) (mouse_event data 7 modifiers (x, y));
          State_Monad.return (Some 0) } })"

definition on_mouse_leave :: "'w w32_ops \<Rightarrow> u64 \<Rightarrow> u64 \<Rightarrow> ('w w32, i64 option) state" where
  "on_mouse_leave ops hwnd data =
     (if data = 0 then State_Monad.return None else do {
        locked \<leftarrow> mouse_locked hwnd data;
        end_mouse_tracking hwnd;
        if locked then State_Monad.return (Some 0) else do {
          pos \<leftarrow> cursor_client_pos ops hwnd;
          input_event ops data 9 0 0 0 BUTTON_INVALID pos (0, 0);
          State_Monad.return (Some 0) } })"

definition on_raw_input :: "'w w32_ops \<Rightarrow> u64 \<Rightarrow> u64 \<Rightarrow> u64 \<Rightarrow> u64 \<Rightarrow> ('w w32, i64 option) state" where
  "on_raw_input ops hwnd data wparam lparam = do {
     locked \<leftarrow> mouse_locked hwnd data;
     raw_result \<leftarrow> (if data \<noteq> 0 \<and> locked \<and> (ucast (wparam AND 0xff) :: u32) = 0 then do {
         active \<leftarrow> on_os (mouse_lock_active ops data);
         if active then emit_raw_mouse_event ops hwnd data lparam else State_Monad.return Raw_Error }
       else State_Monad.return Raw_Ignored);
     if_then (raw_result = Raw_Error) (emit data Raw_Input_Error);
     State_Monad.return None }"

definition on_button_down :: "'w w32_ops \<Rightarrow> u64 \<Rightarrow> u64 \<Rightarrow> int \<Rightarrow> u64 \<Rightarrow> ('w w32, i64 option) state" where
  "on_button_down ops hwnd data button lparam =
     (if data = 0 then State_Monad.return None else do {
        on_os (set_focus ops hwnd);
        on_os (set_capture ops hwnd);
        input_event ops data 4 0 0 0 button (lparam_x lparam, lparam_y lparam) (0, 0);
        State_Monad.return (Some 0) })"

definition on_button_up :: "'w w32_ops \<Rightarrow> u64 \<Rightarrow> int \<Rightarrow> u64 \<Rightarrow> u64 \<Rightarrow> ('w w32, i64 option) state" where
  "on_button_up ops data button wparam lparam =
     (if data = 0 then State_Monad.return None else do {
        input_event ops data 5 0 0 0 button (lparam_x lparam, lparam_y lparam) (0, 0);
        if_then (wparam AND (0x1 OR 0x2 OR 0x10) = 0) (on_os (release_capture ops));
        State_Monad.return (Some 0) })"

definition on_wheel :: "'w w32_ops \<Rightarrow> u64 \<Rightarrow> u64 \<Rightarrow> bool \<Rightarrow> u64 \<Rightarrow> u64 \<Rightarrow> ('w w32, i64 option) state" where
  "on_wheel ops hwnd data horizontal wparam lparam =
     (if data = 0 then State_Monad.return None else do {
        let delta = wheel_delta wparam;
        pos \<leftarrow> client_pos_from_lparam ops hwnd lparam;
        input_event ops data 6 0 0 0 BUTTON_INVALID pos
          (if horizontal then delta else 0, if horizontal then 0 else delta);
        State_Monad.return (Some 0) })"

subsection \<open>The keyboard\<close>

definition on_key_down :: "'w w32_ops \<Rightarrow> u64 \<Rightarrow> u64 \<Rightarrow> u64 \<Rightarrow> ('w w32, i64 option) state" where
  "on_key_down ops data wparam lparam =
     (if data = 0 then State_Monad.return None else do {
        key_code \<leftarrow> w32_key_code ops wparam lparam;
        if key_code = 0 then State_Monad.return None else do {
          sequence \<leftarrow> next_event_sequence;
          modifiers \<leftarrow> w32_modifiers ops;
          emit data (Input sequence 1 key_code 0 (key_repeat lparam) modifiers BUTTON_INVALID 0 0 0 0);
          if_then (key_code = 86 \<and> modifiers = 2)
            (emit data (Input sequence 14 0 0 0 modifiers BUTTON_INVALID 0 0 0 0));
          State_Monad.return (Some 0) } })"

text \<open>A key with Alt: the event is made, and Windows answers all the same.\<close>

definition on_sys_key :: "'w w32_ops \<Rightarrow> u64 \<Rightarrow> int \<Rightarrow> bool \<Rightarrow> u64 \<Rightarrow> u64 \<Rightarrow> ('w w32, i64 option) state" where
  "on_sys_key ops data kind repeats wparam lparam =
     (if data = 0 then State_Monad.return None else do {
        key_code \<leftarrow> w32_key_code ops wparam lparam;
        if_then (key_code \<noteq> 0) (input_event ops data kind key_code 0
          (if repeats then key_repeat lparam else 0) BUTTON_INVALID (0, 0) (0, 0));
        State_Monad.return None })"

definition on_key_up :: "'w w32_ops \<Rightarrow> u64 \<Rightarrow> u64 \<Rightarrow> u64 \<Rightarrow> ('w w32, i64 option) state" where
  "on_key_up ops data wparam lparam =
     (if data = 0 then State_Monad.return None else do {
        key_code \<leftarrow> w32_key_code ops wparam lparam;
        if key_code = 0 then State_Monad.return None else do {
          input_event ops data 2 key_code 0 0 BUTTON_INVALID (0, 0) (0, 0);
          State_Monad.return (Some 0) } })"

definition on_char :: "'w w32_ops \<Rightarrow> u64 \<Rightarrow> u64 \<Rightarrow> u64 \<Rightarrow> ('w w32, i64 option) state" where
  "on_char ops data wparam lparam =
     (if data \<noteq> 0 \<and> is_char_code wparam then do {
        input_event ops data 3 0 (ucast wparam) (key_repeat lparam) BUTTON_INVALID (0, 0) (0, 0);
        State_Monad.return (Some 0) }
      else State_Monad.return None)"

subsection \<open>Files and touches\<close>

definition on_drop_files :: "'w w32_ops \<Rightarrow> u64 \<Rightarrow> u64 \<Rightarrow> u64 \<Rightarrow> ('w w32, i64 option) state" where
  "on_drop_files ops hwnd data wparam =
     (if data = 0 then State_Monad.return None else do {
        emit_drop_files ops hwnd data wparam;
        State_Monad.return (Some 0) })"

definition on_touch :: "'w w32_ops \<Rightarrow> u64 \<Rightarrow> u64 \<Rightarrow> u64 \<Rightarrow> u64 \<Rightarrow> ('w w32, i64 option) state" where
  "on_touch ops hwnd data wparam lparam = do {
     handled \<leftarrow> emit_touch_event ops hwnd data wparam lparam;
     State_Monad.return (if handled then Some 0 else None) }"

subsection \<open>The window procedure\<close>

definition message_case ::
    "'w w32_ops \<Rightarrow> u64 \<Rightarrow> u64 \<Rightarrow> u32 \<Rightarrow> u64 \<Rightarrow> u64 \<Rightarrow> ('w w32, i64 option) state" where
  "message_case ops hwnd data msg wparam lparam =
     (if msg = 0x0010 then on_close data
      else if msg = 0x0002 then on_destroy ops hwnd data
      else if msg = 0x0007 then on_set_focus ops data
      else if msg = 0x0008 then on_kill_focus ops data
      else if msg = 0x0020 then on_set_cursor ops hwnd lparam
      else if msg = 0x0024 then on_min_max ops hwnd lparam
      else if msg = 0x0005 then on_size ops hwnd data wparam
      else if msg = 0x007E then on_display_change data
      else if msg = 0x02E0 then on_dpi_changed ops hwnd data lparam
      else if msg = 0x0047 then on_pos_changed data
      else if msg = 0x0200 then on_mouse_move ops hwnd data lparam
      else if msg = 0x00FF then on_raw_input ops hwnd data wparam lparam
      else if msg = 0x02A3 then on_mouse_leave ops hwnd data
      else if msg = 0x0201 then on_button_down ops hwnd data LBUTTON lparam
      else if msg = 0x0204 then on_button_down ops hwnd data RBUTTON lparam
      else if msg = 0x0207 then on_button_down ops hwnd data MBUTTON lparam
      else if msg = 0x0202 then on_button_up ops data LBUTTON wparam lparam
      else if msg = 0x0205 then on_button_up ops data RBUTTON wparam lparam
      else if msg = 0x0208 then on_button_up ops data MBUTTON wparam lparam
      else if msg = 0x020A then on_wheel ops hwnd data False wparam lparam
      else if msg = 0x020E then on_wheel ops hwnd data True wparam lparam
      else if msg = 0x0100 then on_key_down ops data wparam lparam
      else if msg = 0x0104 then on_sys_key ops data 1 True wparam lparam
      else if msg = 0x0101 then on_key_up ops data wparam lparam
      else if msg = 0x0105 then on_sys_key ops data 2 False wparam lparam
      else if msg = 0x0102 then on_char ops data wparam lparam
      else if msg = 0x0233 then on_drop_files ops hwnd data wparam
      else if msg = 0x0240 then on_touch ops hwnd data wparam lparam
      else State_Monad.return None)"

abbreviation (input) WM_NCCREATE :: u32 where "WM_NCCREATE \<equiv> 0x0081"

definition wnd_proc :: "'w w32_ops \<Rightarrow> u64 \<Rightarrow> u32 \<Rightarrow> u64 \<Rightarrow> u64 \<Rightarrow> ('w w32, i64) state" where
  "wnd_proc ops hwnd msg wparam lparam = do {
     data \<leftarrow> State (\<lambda>s. (w_user_data s hwnd, s));
     if msg = WM_NCCREATE then do {
       data \<leftarrow> (if lparam \<noteq> 0 then on_os (create_params ops lparam) else State_Monad.return 0);
       set_user_data hwnd data;
       State_Monad.return 1 }
     else do {
       answer \<leftarrow> message_case ops hwnd data msg wparam lparam;
       case answer of
         Some v \<Rightarrow> State_Monad.return v
       | None \<Rightarrow> on_os (def_window_proc ops hwnd msg wparam lparam) } }"

end
