(* ===== verification/Win32_Protocol.thy ===== *)
theory Win32_Protocol
  imports Win32_Proc
begin

text \<open>
  What every message of the window procedure does with the numbers and the events, as an interface: an
  invariant that holds between two messages, one that holds while a drawn number is in use, and the three
  laws that tie them. The handlers are gone through once, inside the locale; its interpretations are the
  order of the numbers, the addressee of the events and the motion a message may make.
\<close>

subsection \<open>What the procedure does not touch\<close>

text \<open>The part of the state the invariants speak of.\<close>

definition log_view :: "'w w32 \<Rightarrow> u64 \<times> bool \<times> (u64 \<times> w32_event) list" where
  "log_view s = (w_sequence s, w_exhausted s, w_emitted s)"

named_theorems quiet_rules

lemma quiet_os [quiet_rules]: "keeps log_view (on_os m)"
  by (simp add: keeps_def on_os_def wp_def log_view_def split: prod.splits)

lemma quiet_get_prop [quiet_rules]: "keeps log_view (get_prop hwnd p)"
  by (simp add: keeps_def get_prop_def wp_def)

lemma quiet_put_prop [quiet_rules]: "keeps log_view (put_prop hwnd p v)"
  by (simp add: keeps_def put_prop_def wp_def log_view_def)

lemma quiet_blocks [quiet_rules]: "keeps log_view (count_block n)"
  by (simp add: keeps_def count_block_def wp_def log_view_def)

lemma quiet_user_data [quiet_rules]: "keeps log_view (set_user_data hwnd v)"
  by (simp add: keeps_def set_user_data_def wp_def log_view_def)

lemma preserves_all:
  "(\<And>m. m \<in> set ms \<Longrightarrow> preserves I m) \<Longrightarrow> preserves I (emit_all ms)"
  by (induction ms) (simp_all add: preserves_return preserves_bind)

subsection \<open>The parts that emit nothing\<close>

lemma quiet_modifiers [quiet_rules]: "keeps log_view (w32_modifiers ops)"
  unfolding w32_modifiers_def by (intro keeps_rules quiet_rules)

lemma quiet_lparam_pos [quiet_rules]: "keeps log_view (client_pos_from_lparam ops hwnd lparam)"
  unfolding client_pos_from_lparam_def by (intro keeps_rules quiet_rules)

lemma quiet_cursor_pos [quiet_rules]: "keeps log_view (cursor_client_pos ops hwnd)"
  unfolding cursor_client_pos_def by (intro keeps_rules quiet_rules)

lemma quiet_key_code [quiet_rules]: "keeps log_view (w32_key_code ops wparam lparam)"
  unfolding w32_key_code_def key_code_from_vk_def normalized_vk_def by (intro keeps_rules quiet_rules)

lemma quiet_store [quiet_rules]: "keeps log_view (store_prop ops hwnd p v)"
  unfolding store_prop_def by (intro keeps_rules quiet_rules)

lemma quiet_remove [quiet_rules]: "keeps log_view (remove_prop hwnd p)"
  unfolding remove_prop_def by (intro keeps_rules quiet_rules)

lemma quiet_int_prop [quiet_rules]: "keeps log_view (hwnd_int_prop hwnd p)"
  unfolding hwnd_int_prop_def by (intro keeps_rules quiet_rules)

lemma quiet_cursor [quiet_rules]: "keeps log_view (apply_cursor_shape ops hwnd)"
  unfolding apply_cursor_shape_def by (intro keeps_rules quiet_rules)

lemma quiet_tracking [quiet_rules]:
  "keeps log_view (begin_mouse_tracking ops hwnd)" "keeps log_view (end_mouse_tracking hwnd)"
  unfolding begin_mouse_tracking_def end_mouse_tracking_def by (intro keeps_rules quiet_rules)+

lemma quiet_locked [quiet_rules]: "keeps log_view (mouse_locked hwnd data)"
  unfolding mouse_locked_def by (intro keeps_rules quiet_rules)

lemma quiet_frame [quiet_rules]: "keeps log_view (adjusted_size_for_window ops hwnd width height style ex_style)"
  unfolding adjusted_size_for_window_def size_by_dpi_def size_by_frame_def adjusted_size_def
  by (intro keeps_rules quiet_rules)

lemma quiet_touch [quiet_rules]:
  "keeps log_view (unregister_touch_window ops hwnd)"
  "keeps log_view (get_touch_input_info ops handle count)"
  "keeps log_view (close_touch_input_handle ops handle)"
  "keeps log_view (touch_point ops hwnd t)"
  unfolding unregister_touch_window_def get_touch_input_info_def close_touch_input_handle_def
    touch_point_def by (intro keeps_rules quiet_rules)+

lemma quiet_utf8 [quiet_rules]: "keeps log_view (wide_to_utf8_alloc ops wide)"
  unfolding wide_to_utf8_alloc_def by (intro keeps_rules quiet_rules)

lemma quiet_motion [quiet_rules]: "keeps log_view (raw_motion ops hwnd lparam bytes)"
  unfolding raw_motion_def by (intro keeps_rules quiet_rules)

subsection \<open>The numbers of events\<close>

fun event_number :: "w32_event \<Rightarrow> u64 option" where
  "event_number (Close_Requested q) = Some q" |
  "event_number (Destroyed q) = Some q" |
  "event_number (Resized q _ _) = Some q" |
  "event_number (Service_Refresh q _) = Some q" |
  "event_number (Input q _ _ _ _ _ _ _ _ _ _) = Some q" |
  "event_number (Drop_Begin q _ _ _) = Some q" |
  "event_number (Drop_File q _) = Some q" |
  "event_number (Drop_End q) = Some q" |
  "event_number (Touch q _ _ _) = Some q" |
  "event_number (Raw_Mouse q _ _ _ _ _) = Some q" |
  "event_number Focus_Lost = None" |
  "event_number Raw_Input_Error = None"

text \<open>The message that makes an event about motion: the pointer entering, moving or leaving, or raw input.\<close>

definition kind_motion :: "int \<Rightarrow> u32 option" where
  "kind_motion kind = (if kind = 7 \<or> kind = 8 then Some 0x0200 else if kind = 9 then Some 0x02A3 else None)"

fun motion_of :: "w32_event \<Rightarrow> u32 option" where
  "motion_of (Input _ kind _ _ _ _ _ _ _ _ _) = kind_motion kind" |
  "motion_of (Raw_Mouse _ _ _ _ _ _) = Some 0x00FF" |
  "motion_of Raw_Input_Error = Some 0x00FF" |
  "motion_of _ = None"

text \<open>\<open>allowed\<close> are the events a message may make: at least every one that is not about motion.\<close>

locale event_protocol =
  fixes between :: "'w w32 \<Rightarrow> bool"
    and holding :: "u64 \<Rightarrow> 'w w32 \<Rightarrow> bool"
    and allowed :: "w32_event \<Rightarrow> bool"
    and data :: u64
  assumes between_view: "log_view s = log_view t \<Longrightarrow> between s \<Longrightarrow> between t"
    and holding_view: "log_view s = log_view t \<Longrightarrow> holding q s \<Longrightarrow> holding q t"
    and holding_between: "holding q s \<Longrightarrow> between s"
    and draws: "between s \<Longrightarrow> wp next_event_sequence holding s"
    and unmoving: "motion_of e = None \<Longrightarrow> allowed e"
    and emits: "data \<noteq> 0 \<Longrightarrow> allowed e \<Longrightarrow> event_number e = Some q \<Longrightarrow> preserves (holding q) (emit data e)"
    and remarks: "data \<noteq> 0 \<Longrightarrow> allowed e \<Longrightarrow> event_number e = None \<Longrightarrow> preserves between (emit data e)"
begin

lemma quiet_between: "keeps log_view m \<Longrightarrow> preserves between m"
  unfolding preserves_def by (auto elim!: keeps_mono intro: between_view [OF sym])

lemma quiet_holding: "keeps log_view m \<Longrightarrow> preserves (holding q) m"
  unfolding preserves_def by (auto elim!: keeps_mono intro: holding_view [OF sym])

lemmas quiet = quiet_rules [THEN quiet_between] quiet_rules [THEN quiet_holding]

lemma draw:
  assumes "\<And>q. preserves (holding q) (f q)"
  shows "preserves between (State_Monad.bind next_event_sequence f)"
  unfolding preserves_def
proof (intro allI impI)
  fix s assume "between s"
  show "wp (State_Monad.bind next_event_sequence f) (\<lambda>_. between) s"
  proof (rule wp_follow [OF draws [OF \<open>between s\<close>]])
    fix q s' assume "holding q s'"
    with assms show "wp (f q) (\<lambda>_. between) s'"
      by (blast intro: wp_mono preservesD holding_between)
  qed
qed

text \<open>The handlers, from the inside out.\<close>

lemmas steps = draw preserves_rules preserves_all quiet emits remarks

text \<open>\<open>may m\<close>: the events about the motion \<open>m\<close> are allowed.\<close>

definition may :: "u32 option \<Rightarrow> bool" where
  "may m \<longleftrightarrow> (\<forall>e. motion_of e = m \<longrightarrow> allowed e)"

lemma mayD: "may m \<Longrightarrow> motion_of e = m \<Longrightarrow> allowed e"
  by (simp add: may_def)

lemma may_None: "may None"
  using unmoving by (simp add: may_def)

lemma input:
  assumes "data \<noteq> 0" "may (kind_motion kind)"
  shows "preserves between (input_event ops data kind key ch rep button pos wheel)"
  unfolding input_event_def by (intro steps) (simp_all add: assms(1) mayD [OF assms(2)])

lemma plain:
  "data \<noteq> 0 \<Longrightarrow> may (kind_motion kind) \<Longrightarrow> preserves between (plain_event ops data kind)"
  unfolding plain_event_def by (rule input)

lemma mouse:
  assumes "data \<noteq> 0" "may (kind_motion kind)"
  shows "preserves between (mouse_event data kind modifiers pos)"
  unfolding mouse_event_def by (intro steps) (simp_all add: assms(1) mayD [OF assms(2)])

lemma refresh: "data \<noteq> 0 \<Longrightarrow> preserves between (service_refresh data reason)"
  unfolding service_refresh_def by (intro steps) (simp_all add: unmoving)

lemma drop_file: "data \<noteq> 0 \<Longrightarrow> preserves (holding q) (emit_drop_file ops data hdrop q i)"
  unfolding emit_drop_file_def by (intro steps) (simp_all add: unmoving)

lemma drop_files: "preserves between (emit_drop_files ops hwnd data hdrop)"
  unfolding emit_drop_files_def by (intro steps) (auto intro: drop_file unmoving)

lemma touch_group:
  "data \<noteq> 0 \<Longrightarrow> preserves (holding q) (touch_group_loop ops hwnd data flag kind q modifiers ts filled)"
proof (induction ts arbitrary: filled)
  case Nil
  show ?case unfolding touch_group_loop.simps by (intro steps) (simp_all add: Nil unmoving)
next
  case (Cons t ts)
  show ?case unfolding touch_group_loop.simps by (intro steps) (simp_all add: Cons unmoving)
qed

lemma touch: "preserves between (emit_touch_event ops hwnd data wparam lparam)"
  unfolding emit_touch_event_def emit_touch_group_def by (intro steps touch_group) auto

lemma raw:
  assumes "data \<noteq> 0" "may (Some 0x00FF)"
  shows "preserves between (emit_raw_mouse_event ops hwnd data lparam)"
  unfolding emit_raw_mouse_event_def by (intro steps) (auto simp: assms(1) mayD [OF assms(2)])

lemmas parts = input plain mouse refresh drop_files touch raw steps

lemmas permits = unmoving may_None kind_motion_def

lemma window_messages:
  "preserves between (on_close data)"
  "preserves between (on_destroy ops hwnd data)"
  "preserves between (on_set_focus ops data)"
  "preserves between (on_kill_focus ops data)"
  "preserves between (on_set_cursor ops hwnd lparam)"
  "preserves between (on_min_max ops hwnd lparam)"
  "preserves between (on_size ops hwnd data wparam)"
  "preserves between (on_display_change data)"
  "preserves between (on_dpi_changed ops hwnd data lparam)"
  "preserves between (on_pos_changed data)"
  unfolding on_close_def on_destroy_def on_set_focus_def on_kill_focus_def on_set_cursor_def
    on_min_max_def on_size_def on_display_change_def on_dpi_changed_def on_pos_changed_def
  by (intro parts; simp add: permits)+

lemma raw_message:
  assumes "may (Some 0x00FF)"
  shows "preserves between (on_raw_input ops hwnd data wparam lparam)"
proof (cases "data = 0")
  case True
  then show ?thesis
    unfolding on_raw_input_def by (simp add: if_then_def) (intro steps)
next
  case False
  then show ?thesis
    unfolding on_raw_input_def by (intro parts) (simp_all add: assms mayD [OF assms])
qed

lemma motion_messages:
  "may (Some 0x0200) \<Longrightarrow> preserves between (on_mouse_move ops hwnd data lparam)"
  "may (Some 0x02A3) \<Longrightarrow> preserves between (on_mouse_leave ops hwnd data)"
  unfolding on_mouse_move_def on_mouse_leave_def by (intro parts; simp add: permits)+

lemma mouse_messages:
  "preserves between (on_button_down ops hwnd data button lparam)"
  "preserves between (on_button_up ops data button wparam lparam)"
  "preserves between (on_wheel ops hwnd data horizontal wparam lparam)"
  unfolding on_button_down_def on_button_up_def on_wheel_def
  by (intro parts; simp add: permits)+

lemma key_messages:
  "preserves between (on_key_down ops data wparam lparam)"
  "preserves between (on_sys_key ops data 1 repeats wparam lparam)"
  "preserves between (on_sys_key ops data 2 repeats wparam lparam)"
  "preserves between (on_key_up ops data wparam lparam)"
  "preserves between (on_char ops data wparam lparam)"
  "preserves between (on_drop_files ops hwnd data wparam)"
  "preserves between (on_touch ops hwnd data wparam lparam)"
  unfolding on_key_down_def on_sys_key_def on_key_up_def on_char_def on_drop_files_def on_touch_def
  by (intro parts; simp add: permits)+

theorem message:
  assumes "may (Some msg)"
  shows "preserves between (message_case ops hwnd data msg wparam lparam)"
  unfolding message_case_def
  by (intro preserves_if preserves_return window_messages raw_message motion_messages mouse_messages
      key_messages) (use assms in simp_all)

end

end
