(* ===== verification/Win32_Touch_Props.thy ===== *)
theory Win32_Touch_Props
  imports Win32_Protocol
begin

unbundle bit_operations_syntax

text \<open>
  Touches, and the blocks the window procedure allocates: the groups in which touches are delivered, and
  that every run frees what it allocates.
\<close>

subsection \<open>Groups of touches\<close>

text \<open>A list cut in pieces of \<open>Suc n\<close>, the last with what is left.\<close>

function groups :: "nat \<Rightarrow> 'a list \<Rightarrow> 'a list list" where
  "groups n [] = []" |
  "groups n (x # xs) = take (Suc n) (x # xs) # groups n (drop (Suc n) (x # xs))"
  by pat_completeness auto
termination by (relation "measure (length \<circ> snd)") auto

fun client_points :: "'w w32_ops \<Rightarrow> u64 \<Rightarrow> touch_input list \<Rightarrow> ('w, (u64 \<times> int \<times> int \<times> int) list) state" where
  "client_points ops hwnd [] = State_Monad.return []" |
  "client_points ops hwnd (t # ts) = do {
     let p = (touch_x t sdiv 100, touch_y t sdiv 100);
     q \<leftarrow> screen_to_client ops hwnd p;
     let (x, y) = (case q of Some q \<Rightarrow> q | None \<Rightarrow> p);
     points \<leftarrow> client_points ops hwnd ts;
     State_Monad.return ((ucast (touch_id t), x, y, 1) # points) }"

text \<open>All flagged touches, converted first, then delivered in groups of at most eight.\<close>

definition grouped_delivery ::
    "'w w32_ops \<Rightarrow> u64 \<Rightarrow> u64 \<Rightarrow> touch_input list \<Rightarrow> u32 \<Rightarrow> int \<Rightarrow> u64 \<Rightarrow> u32 \<Rightarrow> ('w w32, bool) state" where
  "grouped_delivery ops hwnd data inputs flag kind sequence modifiers = do {
     points \<leftarrow> on_os (client_points ops hwnd (filter (\<lambda>t. touch_flags t AND flag \<noteq> 0) inputs));
     emit_all (map (\<lambda>g. emit data (Touch sequence kind modifiers g)) (groups 7 points));
     State_Monad.return True }"

lemma on_os_return [simp]: "on_os (State_Monad.return a) = State_Monad.return a"
  by (simp add: on_os_def State_Monad.return_def)

lemma on_os_bind: "on_os (State_Monad.bind m f) = State_Monad.bind (on_os m) (\<lambda>a. on_os (f a))"
  by (auto simp: on_os_def State_Monad.bind_def split: prod.splits)

lemma log_of_other: "s\<lparr>w_os := w, w_emitted := es\<rparr> = s\<lparr>w_emitted := es, w_os := w\<rparr>"
  by (cases s) simp

lemma emit_commutes:
  "State_Monad.bind (emit d e) (\<lambda>_. State_Monad.bind (on_os m) f) =
   State_Monad.bind (on_os m) (\<lambda>a. State_Monad.bind (emit d e) (\<lambda>_. f a))"
  by (simp add: on_os_def emit_def State_Monad.bind_def fun_eq_iff log_of_other split: prod.split)

lemma groups_full: "length xs = Suc n \<Longrightarrow> groups n (xs @ ys) = xs # groups n ys"
  by (cases xs) simp_all

lemma groups_rest: "xs \<noteq> [] \<Longrightarrow> length xs \<le> n \<Longrightarrow> groups n xs = [xs]"
  by (cases xs) simp_all

lemma touch_point_os:
  "touch_point ops hwnd t = on_os (do {
     let p = (touch_x t sdiv 100, touch_y t sdiv 100);
     q \<leftarrow> screen_to_client ops hwnd p;
     let (x, y) = (case q of Some q \<Rightarrow> q | None \<Rightarrow> p);
     State_Monad.return (ucast (touch_id t), x, y, 1) })"
  by (simp add: touch_point_def on_os_bind Let_def split_def)

lemma touch_loop_groups:
  "length filled \<le> 7 \<Longrightarrow>
   touch_group_loop ops hwnd data flag kind sequence modifiers ts filled = do {
     points \<leftarrow> on_os (client_points ops hwnd (filter (\<lambda>t. touch_flags t AND flag \<noteq> 0) ts));
     emit_all (map (\<lambda>g. emit data (Touch sequence kind modifiers g)) (groups 7 (filled @ points)));
     State_Monad.return True }"
proof (induction ts arbitrary: filled)
  case Nil
  then show ?case by (cases "filled = []") (simp_all add: if_then_def groups_rest)
next
  case (Cons t ts)
  show ?case
  proof (cases "touch_flags t AND flag = 0")
    case True
    then show ?thesis using Cons by simp
  next
    case False
    let ?rest = "\<lambda>ps. State_Monad.bind (emit_all (map (\<lambda>g. emit data (Touch sequence kind modifiers g)) (groups 7 ps)))
      (\<lambda>_. State_Monad.return True)"
    have "touch_group_loop ops hwnd data flag kind sequence modifiers (t # ts) filled =
      State_Monad.bind (touch_point ops hwnd t) (\<lambda>p.
        State_Monad.bind (on_os (client_points ops hwnd (filter (\<lambda>t. touch_flags t AND flag \<noteq> 0) ts)))
          (\<lambda>ps. ?rest (filled @ p # ps)))"
      (is "_ = ?then")
    proof (cases "length filled = 7")
      case True
      then have "groups 7 (filled @ p # ps) = (filled @ [p]) # groups 7 ps" for p ps
        using groups_full [of "filled @ [p]" 7 ps] by simp
      with True False Cons show ?thesis by (simp add: MAX_TOUCH_POINTS_def emit_commutes)
    next
      case short: False
      with False Cons show ?thesis by (simp add: MAX_TOUCH_POINTS_def)
    qed
    also have "?then = State_Monad.bind (on_os (client_points ops hwnd (filter (\<lambda>t. touch_flags t AND flag \<noteq> 0) (t # ts))))
        (\<lambda>ps. ?rest (filled @ ps))"
      using False by (simp add: touch_point_os on_os_bind Let_def split_def)
    finally show ?thesis .
  qed
qed

text \<open>C15: The loop over the touches of one kind never writes beyond its arrays of eight, and does what
  converting all of them and cutting the list in groups of at most eight would do.
\<close>

theorem touch_groups_exact:
  "emit_touch_group ops hwnd data inputs flag kind sequence modifiers =
   grouped_delivery ops hwnd data inputs flag kind sequence modifiers"
  unfolding emit_touch_group_def grouped_delivery_def by (subst touch_loop_groups) simp_all

subsection \<open>Every block is freed\<close>

text \<open>\<open>frees n m\<close>: run with \<open>n\<close> blocks of its own allocated, \<open>m\<close> ends with none of them.\<close>

definition frees :: "int \<Rightarrow> ('w w32, 'a) state \<Rightarrow> bool" where
  "frees n m \<longleftrightarrow> (\<forall>s. wp m (\<lambda>_ s'. w_blocks s' = w_blocks s - n) s)"

lemma frees_keeps: "frees 0 m = keeps w_blocks m"
  by (simp add: frees_def keeps_def)

lemma freesD: "frees n m \<Longrightarrow> w_blocks s - n = b \<Longrightarrow> wp m (\<lambda>_ s'. w_blocks s' = b) s"
  unfolding frees_def by blast

named_theorems frees_rules

lemma frees_count [frees_rules]:
  "frees (n + k) (f ()) \<Longrightarrow> frees n (State_Monad.bind (count_block k) f)"
  unfolding frees_def [of n] by (auto simp: count_block_def wp_simps intro!: freesD)

lemma frees_last [frees_rules]: "n + k = 0 \<Longrightarrow> frees n (count_block k)"
  by (simp add: frees_def count_block_def wp_simps)

lemma frees_step:
  assumes "keeps w_blocks m" "\<And>a. frees n (f a)"
  shows "frees n (State_Monad.bind m f)"
  unfolding frees_def
proof
  fix s
  show "wp (State_Monad.bind m f) (\<lambda>_ s'. w_blocks s' = w_blocks s - n) s"
    by (rule keeps_step [OF assms(1)]) (rule freesD [OF assms(2)], simp)
qed

lemma frees_return [frees_rules]: "n = 0 \<Longrightarrow> frees n (State_Monad.return a)"
  by (simp add: frees_keeps keeps_return)

lemma frees_choice [frees_rules]:
  "(b \<Longrightarrow> frees n m) \<Longrightarrow> (\<not> b \<Longrightarrow> frees n m') \<Longrightarrow> frees n (if b then m else m')"
  "frees n (f x) \<Longrightarrow> frees n (Let x f)"
  "(\<And>a c. frees n (g a c)) \<Longrightarrow> frees n (case p of (a, c) \<Rightarrow> g a c)"
  "frees n m \<Longrightarrow> (\<And>y. frees n (h y)) \<Longrightarrow> frees n (case z of None \<Rightarrow> m | Some y \<Rightarrow> h y)"
  by (auto split: prod.split option.split)

subsection \<open>The parts without blocks\<close>

named_theorems blockless

lemma block_os [blockless]: "keeps w_blocks (on_os m)"
  by (simp add: keeps_def on_os_def wp_def split: prod.splits)

lemma block_parts [blockless]:
  "keeps w_blocks (get_prop hwnd p)" "keeps w_blocks (put_prop hwnd p v)" "keeps w_blocks (emit d e)"
  "keeps w_blocks next_event_sequence" "keeps w_blocks (set_user_data hwnd v)"
  by (simp_all add: keeps_def get_prop_def put_prop_def emit_def next_event_sequence_def set_user_data_def
      wp_def Let_def)

lemma block_all: "(\<And>m. m \<in> set ms \<Longrightarrow> keeps w_blocks m) \<Longrightarrow> keeps w_blocks (emit_all ms)"
  by (induction ms) (simp_all add: keeps_return keeps_bind)

lemma block_modifiers [blockless]: "keeps w_blocks (w32_modifiers ops)"
  unfolding w32_modifiers_def by (intro keeps_rules blockless)

lemma block_reads [blockless]:
  "keeps w_blocks (client_pos_from_lparam ops hwnd lparam)" "keeps w_blocks (cursor_client_pos ops hwnd)"
  "keeps w_blocks (w32_key_code ops wparam lparam)" "keeps w_blocks (hwnd_int_prop hwnd p)"
  "keeps w_blocks (mouse_locked hwnd data)"
  "keeps w_blocks (adjusted_size_for_window ops hwnd width height style ex_style)"
  unfolding client_pos_from_lparam_def cursor_client_pos_def w32_key_code_def key_code_from_vk_def
    normalized_vk_def hwnd_int_prop_def mouse_locked_def adjusted_size_for_window_def size_by_dpi_def
    size_by_frame_def adjusted_size_def
  by (intro keeps_rules blockless)+

lemma block_writes [blockless]:
  "keeps w_blocks (store_prop ops hwnd p v)" "keeps w_blocks (remove_prop hwnd p)"
  unfolding store_prop_def remove_prop_def by (intro keeps_rules blockless)+

lemma block_calls [blockless]:
  "keeps w_blocks (apply_cursor_shape ops hwnd)" "keeps w_blocks (begin_mouse_tracking ops hwnd)"
  "keeps w_blocks (end_mouse_tracking hwnd)" "keeps w_blocks (unregister_touch_window ops hwnd)"
  "keeps w_blocks (get_touch_input_info ops handle count)" "keeps w_blocks (close_touch_input_handle ops handle)"
  "keeps w_blocks (raw_motion ops hwnd lparam bytes)" "keeps w_blocks (mouse_event data kind modifiers pos)"
  "keeps w_blocks (service_refresh data reason)"
  "keeps w_blocks (input_event ops data kind key ch rep button pos wheel)"
  unfolding apply_cursor_shape_def begin_mouse_tracking_def end_mouse_tracking_def unregister_touch_window_def
    get_touch_input_info_def close_touch_input_handle_def raw_motion_def mouse_event_def service_refresh_def
    input_event_def
  by (intro keeps_rules blockless)+

lemma block_plain [blockless]: "keeps w_blocks (plain_event ops data kind)"
  unfolding plain_event_def by (rule block_calls)

lemma block_touches [blockless]:
  "keeps w_blocks (emit_touch_group ops hwnd data inputs flag kind sequence modifiers)"
  unfolding emit_touch_group_def by (subst touch_loop_groups) (auto intro!: keeps_rules block_all blockless)

subsection \<open>The parts with blocks\<close>

lemmas frees_by_steps = frees_rules frees_step

lemma path_block:
  "wp (wide_to_utf8_alloc ops wide) (\<lambda>r s'. w_blocks s' = w_blocks s + (if r = None then 0 else 1)) s"
  unfolding wide_to_utf8_alloc_def
  by (cases wide) (auto simp: wp_simps count_block_def on_os_def wp_def split: prod.splits)

lemma frees_path:
  assumes "frees n (f None)" "\<And>p. frees (n + 1) (f (Some p))"
  shows "frees n (State_Monad.bind (wide_to_utf8_alloc ops wide) f)"
  unfolding frees_def
proof
  fix s
  show "wp (State_Monad.bind (wide_to_utf8_alloc ops wide) f) (\<lambda>_ s'. w_blocks s' = w_blocks s - n) s"
  proof (rule wp_follow [OF path_block])
    fix r :: "string option" and s' :: "'a w32"
    assume "w_blocks s' = w_blocks s + (if r = None then 0 else 1)"
    then show "wp (f r) (\<lambda>_ s''. w_blocks s'' = w_blocks s - n) s'"
      by (cases r) (simp_all add: freesD [OF assms(1)] freesD [OF assms(2)])
  qed
qed

lemma block_path:
  "keeps w_blocks (do {
     path \<leftarrow> wide_to_utf8_alloc ops wide;
     case path of None \<Rightarrow> State_Monad.return ()
       | Some p \<Rightarrow> do { emit data (Drop_File sequence p); count_block (- 1) } })"
  unfolding frees_keeps [symmetric]
  by (rule frees_path; simp; intro frees_by_steps blockless; simp)

lemma block_drop_file: "keeps w_blocks (emit_drop_file ops data hdrop sequence i)"
  unfolding frees_keeps [symmetric] emit_drop_file_def if_then_def
  by (intro frees_by_steps blockless keeps_if keeps_return block_path) simp_all

lemma block_drop_files: "keeps w_blocks (emit_drop_files ops hwnd data hdrop)"
  unfolding emit_drop_files_def by (auto intro!: keeps_rules block_all blockless block_drop_file)

lemma block_touch: "keeps w_blocks (emit_touch_event ops hwnd data wparam lparam)"
  unfolding frees_keeps [symmetric] emit_touch_event_def
  by (intro frees_by_steps blockless) simp_all

lemma keeps_sum_of:
  "(\<And>y. keeps v (f y)) \<Longrightarrow> (\<And>y. keeps v (g y)) \<Longrightarrow> keeps v (case x of Inl y \<Rightarrow> f y | Inr y \<Rightarrow> g y)"
  by (cases x) simp_all

lemma block_raw: "keeps w_blocks (emit_raw_mouse_event ops hwnd data lparam)"
proof -
  have rest: "keeps w_blocks (case motion of Inl r \<Rightarrow> State_Monad.return r
      | Inr ((x, y), (dx, dy)) \<Rightarrow> do {
          active \<leftarrow> on_os (mouse_lock_active ops data);
          if \<not> active then State_Monad.return Raw_Error else do {
            sequence \<leftarrow> next_event_sequence;
            if sequence = 0 then State_Monad.return Raw_Error else do {
              modifiers \<leftarrow> w32_modifiers ops;
              emit data (Raw_Mouse sequence x y dx dy modifiers);
              State_Monad.return Raw_Delivered } } })" for motion
    by (intro keeps_rules blockless)
  show ?thesis
    unfolding frees_keeps [symmetric] emit_raw_mouse_event_def
    by (intro frees_by_steps blockless keeps_if keeps_return) (simp_all add: rest frees_keeps)
qed

lemma block_messages:
  "keeps w_blocks (message_case ops hwnd data msg wparam lparam)"
  unfolding message_case_def on_close_def on_destroy_def on_set_focus_def on_kill_focus_def on_set_cursor_def
    on_min_max_def on_size_def on_display_change_def on_dpi_changed_def on_pos_changed_def on_mouse_move_def
    on_raw_input_def on_mouse_leave_def on_button_down_def on_button_up_def on_wheel_def on_key_down_def
    on_sys_key_def on_key_up_def on_char_def on_drop_files_def on_touch_def
  by (intro keeps_rules blockless block_drop_files block_touch block_raw)

text \<open>C16: Every message leaves as many blocks allocated as there were, on every path through dropped files,
  touches and raw input.
\<close>

theorem w32_messages_free_blocks:
  "wp (wnd_proc ops hwnd msg wparam lparam) (\<lambda>_ s'. w_blocks s' = w_blocks s) s"
proof -
  have "keeps w_blocks (State (\<lambda>s. (w_user_data s hwnd, s)))" by (simp add: keeps_def wp_def)
  then have "keeps w_blocks (wnd_proc ops hwnd msg wparam lparam)"
    unfolding wnd_proc_def by (intro keeps_rules blockless block_messages)
  then show ?thesis by (simp add: keeps_def)
qed

end
