(* ===== verification/Win32_Sizes_Props.thy ===== *)
theory Win32_Sizes_Props
  imports Win32_Sizes
begin

unbundle bit_operations_syntax

text \<open>
  The two contracts of \<open>Win32_Sizes\<close>: a window whose frame Windows keeps gets a client area of exactly the
  wanted size, and the creation of a window does all of its work or leaves no window behind.
\<close>

lemma wp_on_os [wp_simps]:
  "wp (on_os m) Q s = wp m (\<lambda>a w. Q a (s\<lparr>w_os := w\<rparr>)) (w_os s)"
  by (simp add: on_os_def wp_def split: prod.split)

lemma sint_i32: "sint (word_of_int k :: i32) = signed_take_bit 31 k"
  by transfer simp

lemma sub32_exact: "- 2147483648 \<le> a - b \<Longrightarrow> a - b \<le> INT_MAX \<Longrightarrow> sub32 a b = a - b"
  unfolding sub32_def sint_i32 by (simp add: signed_take_bit_int_eq_self)

lemma sub32_bound: "sub32 a b \<le> INT_MAX"
  unfolding sub32_def using sint_lt [of "word_of_int (a - b) :: i32"] by simp

subsection \<open>A client area of an exact size\<close>

text \<open>
  \<open>outer\<close> is the size of the window with its frame of \<open>ex\<close> by \<open>ey\<close>, which its client area leaves out.
  What Windows answers about frames for a style may be anything.
\<close>

definition fixed_frame :: "'w w32_ops \<Rightarrow> u64 \<Rightarrow> ('w \<Rightarrow> int \<times> int) \<Rightarrow> int \<Rightarrow> int \<Rightarrow> bool" where
  "fixed_frame ops hwnd outer ex ey \<longleftrightarrow> hwnd \<noteq> 0 \<and> 0 \<le> ex \<and> ex \<le> INT_MAX \<and> 0 \<le> ey \<and> ey \<le> INT_MAX
     \<and> (\<forall>w. wp (is_window ops hwnd) (\<lambda>r w'. r \<and> outer w' = outer w) w)
     \<and> (\<forall>w. wp (client_rect ops hwnd)
          (\<lambda>r w'. r = Some (0, 0, fst (outer w) - ex, snd (outer w) - ey) \<and> outer w' = outer w) w)
     \<and> (\<forall>w. wp (window_rect ops hwnd)
          (\<lambda>r w'. (\<exists>x y. r = Some (x, y, x + fst (outer w), y + snd (outer w))) \<and> outer w' = outer w) w)
     \<and> (\<forall>W H w. wp (set_window_size ops hwnd W H) (\<lambda>r w'. r \<and> outer w' = (max W ex, max H ey)) w)
     \<and> (\<forall>name. keeps outer (user32_proc ops name)) \<and> keeps outer (dpi_for_window ops hwnd)
     \<and> (\<forall>width height style ex_style dpi. keeps outer (adjust_rect_dpi ops width height style ex_style dpi))"

text \<open>The window as it is: larger than its frame, and within what an \<open>int\<close> holds.\<close>

definition framed :: "('w \<Rightarrow> int \<times> int) \<Rightarrow> int \<Rightarrow> int \<Rightarrow> 'w \<Rightarrow> bool" where
  "framed outer ex ey w \<longleftrightarrow> ex \<le> fst (outer w) \<and> fst (outer w) \<le> INT_MAX
     \<and> ey \<le> snd (outer w) \<and> snd (outer w) \<le> INT_MAX"

lemma client_rect_frame:
  assumes "fixed_frame ops hwnd outer ex ey" "framed outer ex ey (w_os s)"
  shows "wp (on_os (client_rect ops hwnd)) (\<lambda>r s'. outer (w_os s') = outer (w_os s)
    \<and> (\<exists>q. r = Some q \<and> rect_width q = fst (outer (w_os s)) - ex
        \<and> rect_height q = snd (outer (w_os s)) - ey)) s"
proof -
  have "wp (client_rect ops hwnd) (\<lambda>r w'. r = Some (0, 0, fst (outer (w_os s)) - ex, snd (outer (w_os s)) - ey)
      \<and> outer w' = outer (w_os s)) (w_os s)"
    using assms(1) by (simp add: fixed_frame_def)
  then show ?thesis
    unfolding wp_on_os
    by (rule wp_mono) (use assms in \<open>auto simp: rect_width_def rect_height_def framed_def fixed_frame_def sub32_exact\<close>)
qed

lemma client_size_frame:
  assumes "fixed_frame ops hwnd outer ex ey" "framed outer ex ey (w_os s)"
  shows "wp (client_size ops hwnd) (\<lambda>r s'. outer (w_os s') = outer (w_os s)
    \<and> r = Some (fst (outer (w_os s)) - ex, snd (outer (w_os s)) - ey)) s"
  unfolding client_size_def
  by (rule wp_follow [OF client_rect_frame [OF assms]]) (auto simp: wp_return rect_size_def)

lemma window_rect_frame:
  assumes "fixed_frame ops hwnd outer ex ey" "framed outer ex ey (w_os s)"
  shows "wp (on_os (window_rect ops hwnd)) (\<lambda>r s'. outer (w_os s') = outer (w_os s)
    \<and> (\<exists>q. r = Some q \<and> rect_width q = fst (outer (w_os s)) \<and> rect_height q = snd (outer (w_os s)))) s"
proof -
  have "wp (window_rect ops hwnd) (\<lambda>r w'. (\<exists>x y. r = Some (x, y, x + fst (outer (w_os s)), y + snd (outer (w_os s))))
      \<and> outer w' = outer (w_os s)) (w_os s)"
    using assms(1) by (simp add: fixed_frame_def)
  then show ?thesis
    unfolding wp_on_os
    by (rule wp_mono) (use assms in \<open>auto simp: rect_width_def rect_height_def framed_def fixed_frame_def sub32_exact\<close>)
qed

lemma resize_frame:
  assumes "fixed_frame ops hwnd outer ex ey" "W \<le> INT_MAX" "H \<le> INT_MAX"
  shows "wp (on_os (set_window_size ops hwnd W H)) (\<lambda>r s'. r \<and> outer (w_os s') = (max W ex, max H ey)
    \<and> framed outer ex ey (w_os s')) s"
proof -
  have "wp (set_window_size ops hwnd W H) (\<lambda>r w'. r \<and> outer w' = (max W ex, max H ey)) (w_os s)"
    using assms(1) by (simp add: fixed_frame_def)
  then show ?thesis
    unfolding wp_on_os by (rule wp_mono) (use assms in \<open>auto simp: framed_def fixed_frame_def\<close>)
qed

lemma correction_exact:
  assumes frame: "fixed_frame ops hwnd outer ex ey" "framed outer ex ey (w_os s)"
    and room: "0 < width + ex" "width + ex \<le> INT_MAX" "0 < height + ey" "height + ey \<le> INT_MAX" "0 \<le> width" "0 \<le> height"
    and actual: "actual = (fst (outer (w_os s)) - ex, snd (outer (w_os s)) - ey)"
  shows "wp (correct_frame ops hwnd width height actual)
    (\<lambda>ok s'. ok \<and> outer (w_os s') = (width + ex, height + ey)) s"
  unfolding correct_frame_def
proof (rule wp_follow [OF window_rect_frame [OF frame]])
  fix r and s' :: "'a w32"
  assume "outer (w_os s') = outer (w_os s) \<and> (\<exists>q. r = Some q \<and> rect_width q = fst (outer (w_os s))
    \<and> rect_height q = snd (outer (w_os s)))"
  then obtain q where q: "r = Some q" "rect_width q + width - fst actual = width + ex"
      "rect_height q + height - snd actual = height + ey"
    using actual by auto
  have moved: "wp (on_os (set_window_size ops hwnd (width + ex) (height + ey)))
      (\<lambda>ok s'. ok \<and> outer (w_os s') = (width + ex, height + ey) \<and> framed outer ex ey (w_os s')) s'"
    by (rule wp_mono [OF resize_frame [OF frame(1) room(2,4)]]) (use room in auto)
  have reads: "wp (client_size ops hwnd) (\<lambda>r s''. r = Some (width, height) \<and> outer (w_os s'') = (width + ex, height + ey)) t"
    if "outer (w_os t) = (width + ex, height + ey)" "framed outer ex ey (w_os t)" for t :: "'a w32"
    by (rule wp_mono [OF client_size_frame [OF frame(1) that(2)]]) (simp add: that(1))
  show "wp (case r of None \<Rightarrow> State_Monad.return False | Some r \<Rightarrow>
      let corrected_width = rect_width r + width - fst actual;
          corrected_height = rect_height r + height - snd actual
      in if corrected_width \<le> 0 \<or> corrected_width > INT_MAX \<or> corrected_height \<le> 0
             \<or> corrected_height > INT_MAX
           then State_Monad.return False else do {
             moved \<leftarrow> on_os (set_window_size ops hwnd corrected_width corrected_height);
             if \<not> moved then State_Monad.return False else do {
               size \<leftarrow> client_size ops hwnd;
               State_Monad.return (size = Some (width, height)) } })
      (\<lambda>ok s'. ok \<and> outer (w_os s') = (width + ex, height + ey)) s'"
    unfolding q(1) option.case Let_def q(2,3)
    using room by (intro wp_branch wp_follow [OF moved] wp_follow [OF reads] wp_done) simp_all
qed

lemma rect_size_bound: "rect_size r = (W, H) \<Longrightarrow> W \<le> INT_MAX \<and> H \<le> INT_MAX"
  using sub32_bound by (auto simp: rect_size_def rect_width_def rect_height_def split_def)

lemma keeps_os: "keeps v m \<Longrightarrow> keeps (\<lambda>s. v (w_os s)) (on_os m)"
  unfolding keeps_def wp_on_os by simp

text \<open>Whatever size is estimated first, it is one that an \<open>int\<close> holds, and nothing has moved.\<close>

lemma estimate_frame:
  assumes frame: "fixed_frame ops hwnd outer ex ey" "framed outer ex ey (w_os s)"
    and room: "0 \<le> width" "width + ex \<le> INT_MAX" "0 \<le> height" "height + ey \<le> INT_MAX"
  shows "wp (adjusted_size_for_window ops hwnd width height style ex_style)
    (\<lambda>r s'. outer (w_os s') = outer (w_os s)
      \<and> (\<exists>W H. r = Some (W, H) \<and> W \<le> INT_MAX \<and> H \<le> INT_MAX)) s"
proof -
  let ?O = "\<lambda>s'. outer (w_os s') = outer (w_os s)"
  have alive: "wp (on_os (is_window ops hwnd)) (\<lambda>r s'. r \<and> ?O s') s"
    using frame(1) by (simp add: wp_on_os fixed_frame_def)
  have by_dpi: "wp (size_by_dpi ops hwnd width height style ex_style) (\<lambda>r s'. ?O s'
      \<and> (case r of None \<Rightarrow> True | Some (W, H) \<Rightarrow> W \<le> INT_MAX \<and> H \<le> INT_MAX)) t" if "?O t" for t
  proof -
    have "keeps (\<lambda>s. outer (w_os s)) (size_by_dpi ops hwnd width height style ex_style)"
      unfolding size_by_dpi_def using frame(1)
      by (intro keeps_rules keeps_os) (simp_all add: fixed_frame_def)
    then have "wp (size_by_dpi ops hwnd width height style ex_style) (\<lambda>r s'. ?O s') t"
      by (rule keeps_mono) (simp add: that)
    moreover have "wp (size_by_dpi ops hwnd width height style ex_style)
        (\<lambda>r s'. case r of None \<Rightarrow> True | Some (W, H) \<Rightarrow> W \<le> INT_MAX \<and> H \<le> INT_MAX) t"
      unfolding size_by_dpi_def
      by (intro wp_external wp_branch wp_done) (auto dest: rect_size_bound split: option.split)
    ultimately show ?thesis by (simp add: wp_conj)
  qed
  have by_frame: "wp (size_by_frame ops hwnd width height) (\<lambda>r s'. ?O s' \<and> r = Some (width + ex, height + ey)) t"
    if "?O t" for t
  proof -
    have still: "framed outer ex ey (w_os t)" if "?O t" for t
      using that frame(2) by (simp add: framed_def)
    have window: "wp (on_os (window_rect ops hwnd)) (\<lambda>r s'. ?O s' \<and> (\<exists>q. r = Some q
        \<and> rect_width q = fst (outer (w_os s)) \<and> rect_height q = snd (outer (w_os s)))) t'" if "?O t'" for t'
      using window_rect_frame [OF frame(1) still [OF that]] that by simp
    have frames: "sub32 (fst (outer (w_os s))) (fst (outer (w_os s)) - ex) = ex"
        "sub32 (snd (outer (w_os s))) (snd (outer (w_os s)) - ey) = ey"
      using frame by (simp_all add: sub32_exact fixed_frame_def)
    show ?thesis
      unfolding size_by_frame_def
    proof (rule wp_follow [OF client_rect_frame [OF frame(1) still [OF that]]], elim conjE exE, goal_cases)
      case (1 r t' q)
      with that have "?O t'" by simp
      show ?case
        unfolding 1(2) option.case
        by (rule wp_follow [OF window [OF \<open>?O t'\<close>]])
          (use 1 that frame room in \<open>auto simp: wp_return frames fixed_frame_def framed_def Let_def\<close>)
    qed
  qed
  show ?thesis
    unfolding adjusted_size_for_window_def
  proof (intro wp_branch, goal_cases)
    case 2
    have "hwnd \<noteq> 0" using frame(1) by (simp add: fixed_frame_def)
    show ?case
      unfolding if_P [OF \<open>hwnd \<noteq> 0\<close>]
    proof (rule wp_follow [OF alive], elim conjE, goal_cases)
      case (1 up t)
      show ?case
        unfolding if_P [OF 1(1)]
      proof (rule wp_follow [OF by_dpi [OF 1(2)]], elim conjE, goal_cases)
        case (1 r t)
        then show ?case
          using \<open>up\<close> room wp_mono [OF by_frame [OF 1(1)]]
          by (cases r) (auto simp: wp_simps simp del: wp_on_os)
      qed
    qed
  qed (use room in simp)
qed

text \<open>C11: For a window whose frame Windows keeps, the command ends with a client area of exactly the wanted
  size, however wrong the estimate of the frame was: the second resize corrects by what was missed.
\<close>

theorem exact_client_size_reached:
  assumes "fixed_frame ops hwnd outer ex ey" "framed outer ex ey (w_os s)"
    and "0 \<le> width" "0 < width + ex" "width + ex \<le> INT_MAX"
    and "0 \<le> height" "0 < height + ey" "height + ey \<le> INT_MAX"
  shows "wp (set_exact_client_size ops hwnd width height style ex_style)
     (\<lambda>ok s'. ok \<and> outer (w_os s') = (width + ex, height + ey)) s"
proof -
  have up: "hwnd \<noteq> 0" using assms(1) by (simp add: fixed_frame_def)
  have alive: "wp (on_os (is_window ops hwnd)) (\<lambda>r s'. r \<and> outer (w_os s') = outer (w_os s)) s"
    using assms(1) by (simp add: wp_on_os fixed_frame_def)
  have still: "framed outer ex ey (w_os t)" if "outer (w_os t) = outer (w_os s)" for t :: "'a w32"
    using that assms(2) by (simp add: framed_def)
  have resized: "wp (do {
      moved \<leftarrow> on_os (set_window_size ops hwnd W H);
      r \<leftarrow> (if moved then client_size ops hwnd else State_Monad.return None);
      case r of None \<Rightarrow> State_Monad.return False
      | Some actual \<Rightarrow> if actual = (width, height) then State_Monad.return True
          else correct_frame ops hwnd width height actual })
      (\<lambda>ok s'. ok \<and> outer (w_os s') = (width + ex, height + ey)) t"
    if "W \<le> INT_MAX" "H \<le> INT_MAX" for W H t
  proof (rule wp_follow [OF resize_frame [OF assms(1) that]], elim conjE, goal_cases)
    case (1 moved t)
    show ?case
      unfolding if_P [OF 1(1)]
      by (rule wp_follow [OF client_size_frame [OF assms(1) 1(3)]])
        (use 1 assms in \<open>auto simp: wp_return framed_def intro!: correction_exact\<close>)
  qed
  show ?thesis
    unfolding set_exact_client_size_def if_P [OF up]
  proof (rule wp_follow [OF alive], elim conjE, intro wp_branch, goal_cases)
    case (2 up t)
    show ?case
    proof (rule wp_follow [OF client_size_frame [OF assms(1) still [OF 2(2)]]], elim conjE,
        intro wp_branch, goal_cases)
      case (3 r t')
      then have "framed outer ex ey (w_os t')" using 2 still by simp
      from estimate_frame [OF assms(1) this assms(3,5,6,8)] show ?case
        by (rule wp_follow) (auto intro: resized)
    qed (use 2 in \<open>auto simp: wp_return prod_eq_iff\<close>)
  qed (use assms in auto)
qed

subsection \<open>The creation of a window\<close>

text \<open>One window more, or none.\<close>

definition created :: "u64 \<Rightarrow> u64 set \<times> u64 \<Rightarrow> u64 set \<times> u64 \<Rightarrow> bool" where
  "created h before after \<longleftrightarrow> snd after = snd before
     \<and> (if h = 0 then fst after = fst before else h \<notin> fst before \<and> fst after = insert h (fst before))"

text \<open>What setting the context to \<open>v\<close> does when it gives \<open>r\<close>.\<close>

definition context_set :: "u64 \<Rightarrow> u64 \<Rightarrow> u64 set \<times> u64 \<Rightarrow> u64 set \<times> u64 \<Rightarrow> bool" where
  "context_set v r before after \<longleftrightarrow> fst after = fst before
     \<and> (if r = 0 then snd after = snd before else r = snd before \<and> snd after = v)"

text \<open>
  What the documentation of Windows promises: \<open>host\<close> is the set of windows with the context of the thread.
  A window created is a new one, a window that exists can be destroyed, setting a context gives the one
  before or fails without effect, and no other call changes either.
\<close>

definition windows_work :: "'w w32_ops \<Rightarrow> 'w create_ops \<Rightarrow> ('w \<Rightarrow> u64 set \<times> u64) \<Rightarrow> bool" where
  "windows_work ops c host \<longleftrightarrow>
     (\<forall>h. keeps host (is_window ops h)) \<and> (\<forall>name. keeps host (user32_proc ops name))
     \<and> (\<forall>h. keeps host (dpi_for_window ops h)) \<and> (\<forall>h. keeps host (client_rect ops h))
     \<and> (\<forall>h. keeps host (window_rect ops h)) \<and> (\<forall>x y a b. keeps host (adjust_rect ops x y a b))
     \<and> (\<forall>x y a b d. keeps host (adjust_rect_dpi ops x y a b d))
     \<and> (\<forall>h x y. keeps host (set_window_size ops h x y)) \<and> (\<forall>h p v. keeps host (set_prop ops h p v))
     \<and> (\<forall>h b. keeps host (drag_accept ops h b)) \<and> (\<forall>h. keeps host (register_touch ops h))
     \<and> (\<forall>h b. keeps host (show_native c h b)) \<and> (\<forall>h. keeps host (update_native c h))
     \<and> (\<forall>ex_style style title x y owner data w. wp (create_native c ex_style style title x y owner data)
          (\<lambda>h w'. created h (host w) (host w')) w)
     \<and> (\<forall>h w. h \<in> fst (host w) \<longrightarrow>
          wp (destroy_native c h) (\<lambda>r w'. r \<and> host w' = (fst (host w) - {h}, snd (host w))) w)
     \<and> (\<forall>v w. wp (set_dpi_context c v) (\<lambda>r w'. context_set v r (host w) (host w')) w)"

abbreviation (input) host_of :: "('w \<Rightarrow> 'h) \<Rightarrow> 'w w32 \<Rightarrow> 'h" where "host_of host \<equiv> \<lambda>s. host (w_os s)"

lemma host_still:
  "keeps (host_of host) (put_prop hwnd p v)" "keeps (host_of host) (remove_prop hwnd p)"
  by (simp_all add: keeps_def put_prop_def remove_prop_def wp_def)

lemma host_calls:
  assumes "windows_work ops c host"
  shows "keeps (host_of host) (on_os (is_window ops h))" "keeps (host_of host) (on_os (user32_proc ops name))"
    "keeps (host_of host) (on_os (dpi_for_window ops h))" "keeps (host_of host) (on_os (client_rect ops h))"
    "keeps (host_of host) (on_os (window_rect ops h))"
    "keeps (host_of host) (on_os (adjust_rect ops width height style ex_style))"
    "keeps (host_of host) (on_os (adjust_rect_dpi ops width height style ex_style dpi))"
    "keeps (host_of host) (on_os (set_window_size ops h width height))"
    "keeps (host_of host) (on_os (set_prop ops h p v))" "keeps (host_of host) (on_os (drag_accept ops h b))"
    "keeps (host_of host) (on_os (register_touch ops h))" "keeps (host_of host) (on_os (show_native c h b))"
    "keeps (host_of host) (on_os (update_native c h))"
  using assms by (simp_all add: windows_work_def keeps_os)

lemma host_parts:
  assumes "windows_work ops c host"
  shows "keeps (host_of host) (adjusted_size_for_window ops h width height style ex_style)"
    "keeps (host_of host) (set_hwnd_int_prop ops h p v)"
    "keeps (host_of host) (set_exact_client_size ops h width height style ex_style)"
    "keeps (host_of host) (register_touch_window ops h)" "keeps (host_of host) (show_window c h full)"
  unfolding adjusted_size_for_window_def size_by_dpi_def size_by_frame_def adjusted_size_def
    set_hwnd_int_prop_def store_prop_def set_exact_client_size_def correct_frame_def client_size_def
    register_touch_window_def show_window_def
  by (intro keeps_rules host_calls [OF assms] host_still)+

lemma create_native_creates:
  assumes "windows_work ops c host"
  shows "wp (on_os (create_native c ex_style style title x y owner data))
    (\<lambda>h s'. created h (host (w_os s)) (host (w_os s'))) s"
  using assms by (simp add: wp_on_os windows_work_def)

lemma destroy_native_destroys:
  assumes "windows_work ops c host" "h \<in> fst (host (w_os s))"
  shows "wp (on_os (destroy_native c h)) (\<lambda>r s'. host (w_os s') = (fst (host (w_os s)) - {h}, snd (host (w_os s)))) s"
proof -
  have "wp (destroy_native c h) (\<lambda>r w'. r \<and> host w' = (fst (host (w_os s)) - {h}, snd (host (w_os s)))) (w_os s)"
    using assms by (simp add: windows_work_def)
  then show ?thesis unfolding wp_on_os by (rule wp_mono) simp
qed

lemma native_window_creates:
  assumes work: "windows_work ops c host"
  shows "wp (native_window ops c title frame client minimum style ex_style owner data)
    (\<lambda>h s'. created h (host (w_os s)) (host (w_os s'))) s"
  unfolding native_window_def
proof (rule wp_follow [OF create_native_creates [OF work]], intro wp_branch, goal_cases)
  case (1 h s')
  then show ?case by (simp add: wp_return)
next
  case (2 h s')
  have undone: "wp (do { _ \<leftarrow> on_os (destroy_native c h); State_Monad.return (0 :: u64) })
      (\<lambda>h s'. created h (host (w_os s)) (host (w_os s'))) t" if "host (w_os t) = host (w_os s')" for t
    by (rule wp_follow [OF destroy_native_destroys [OF work]])
      (use 2 that in \<open>auto simp: wp_return created_def\<close>)
  show ?case
    by (intro keeps_step [OF host_parts(2) [OF work]] keeps_step [OF host_parts(3) [OF work]] wp_branch)
      (use 2 in \<open>auto simp: wp_return intro: undone\<close>)
qed

text \<open>The context is taken, and given back if it can be.\<close>

lemma set_context:
  assumes "windows_work ops c host"
  shows "wp (on_os (set_dpi_context c v)) (\<lambda>r s'. context_set v r (host (w_os s)) (host (w_os s'))) s"
  using assms by (simp add: wp_on_os windows_work_def)

lemma context_taken:
  assumes work: "windows_work ops c host"
  shows "wp (try_per_monitor_v2_context ops c high_dpi)
    (\<lambda>previous s'. fst (host (w_os s')) = fst (host (w_os s))
      \<and> (if previous = 0 then snd (host (w_os s')) = snd (host (w_os s))
         else high_dpi \<and> previous = snd (host (w_os s)) \<and> snd (host (w_os s')) = PER_MONITOR_V2)) s"
proof (cases high_dpi)
  case False
  then show ?thesis by (simp add: try_per_monitor_v2_context_def wp_return)
next
  case True
  show ?thesis
    unfolding try_per_monitor_v2_context_def if_P [OF True]
    by (intro keeps_step [OF host_calls(2) [OF work]] wp_branch wp_mono [OF set_context [OF work]] wp_done)
      (use True in \<open>auto simp: context_set_def split: if_splits\<close>)
qed

lemma context_restored:
  assumes work: "windows_work ops c host"
  shows "wp (restore_dpi_context c previous)
    (\<lambda>ok s'. fst (host (w_os s')) = fst (host (w_os s))
      \<and> (if previous = 0 then ok \<and> snd (host (w_os s')) = snd (host (w_os s))
         else snd (host (w_os s')) = (if ok then previous else snd (host (w_os s))))) s"
  unfolding restore_dpi_context_def
  by (intro wp_branch wp_follow [OF set_context [OF work]] wp_done) (auto simp: context_set_def split: if_splits)

lemma shown_window:
  assumes work: "windows_work ops c host"
  shows "wp (do {
      if_then (h \<noteq> 0) (do {
        on_os (drag_accept ops h True);
        _ \<leftarrow> register_touch_window ops h;
        State_Monad.return () });
      if_then (h \<noteq> 0 \<and> visible) (show_window c h full);
      State_Monad.return h }) (\<lambda>r s'. r = h \<and> host (w_os s') = host (w_os s)) s"
  by (rule keeps_step [where view = "host_of host"], (intro keeps_rules host_calls [OF work] host_parts [OF work])[1],
      rule keeps_step [where view = "host_of host"], (intro keeps_rules host_calls [OF work] host_parts [OF work])[1])
    (simp add: wp_return)

text \<open>C12: Creating a window gives a new window with the context of the thread as before, or no window remains.
  The context stays changed only if no window is given, and only to the one the code asked for.
\<close>

theorem create_window_all_or_nothing:
  assumes "windows_work ops c host"
  shows "wp (w32_create_window ops c title width height min_width min_height resizable high_dpi borderless full
       visible owner data)
     (\<lambda>h s'. created h (host (w_os s)) (host (w_os s'))
        \<or> h = 0 \<and> high_dpi \<and> host (w_os s') = (fst (host (w_os s)), PER_MONITOR_V2)) s"
  (is "wp _ ?done s")
proof -
  let ?H = "host (w_os s)"
  have owned: "keeps (host_of host) (if owner \<noteq> 0 then on_os (is_window ops owner) else State_Monad.return True)"
    by (intro keeps_rules host_calls [OF assms])
  have finished: "wp (do {
      restored \<leftarrow> restore_dpi_context c previous;
      if \<not> restored then do {
        if_then (h \<noteq> 0) (do { _ \<leftarrow> on_os (destroy_native c h); State_Monad.return () });
        State_Monad.return 0 }
      else do {
        if_then (h \<noteq> 0) (do {
          on_os (drag_accept ops h True);
          _ \<leftarrow> register_touch_window ops h;
          State_Monad.return () });
        if_then (h \<noteq> 0 \<and> visible) (show_window c h full);
        State_Monad.return h } }) ?done t"
    if "created h (fst ?H, taken) (host (w_os t))"
      "if previous = 0 then taken = snd ?H else high_dpi \<and> previous = snd ?H \<and> taken = PER_MONITOR_V2"
    for h taken previous t
  proof (rule wp_follow [OF context_restored [OF assms]], intro wp_branch, goal_cases)
    case (1 restored t')
    then have host: "host (w_os t') = (fst (host (w_os t)), PER_MONITOR_V2)" "high_dpi" "taken = PER_MONITOR_V2"
      using that by (auto simp: prod_eq_iff created_def split: if_splits)
    show ?case
    proof (cases "h = 0")
      case True
      with host that show ?thesis by (simp add: wp_simps created_def)
    next
      case False
      then have "h \<in> fst (host (w_os t'))" "fst (host (w_os t)) - {h} = fst ?H"
        using host(1) that by (auto simp: created_def)
      with False host show ?thesis
        unfolding if_then_def if_P [OF False]
        by (intro step_assoc wp_follow [OF destroy_native_destroys [OF assms]]) (simp_all add: wp_return)
    qed
  next
    case (2 restored t')
    then have "created h ?H (host (w_os t'))"
      using that by (auto simp: created_def split: if_splits)
    then show ?case
      by (intro wp_mono [OF shown_window [OF assms]]) simp
  qed
  show ?thesis
    unfolding w32_create_window_def Let_def
  proof (rule keeps_step [OF owned], intro wp_branch, goal_cases)
    case (2 up t)
    show ?case
    proof (rule wp_follow [OF context_taken [OF assms]], rule keeps_step [OF host_parts(1) [OF assms]],
        intro end_case, goal_cases)
      case (1 previous t1 frame t2)
      with 2 show ?case
        by (intro wp_follow [OF context_restored [OF assms]] wp_done)
          (auto simp: created_def prod_eq_iff split: if_splits)
    next
      case (2 previous t1 _ t2 frame)
      show ?case
        by (rule wp_follow [OF native_window_creates [OF assms]], rule finished [where taken = "snd (host (w_os t2))"])
          (use 2 \<open>host_of host t = host_of host s\<close> in \<open>auto simp: created_def split: if_splits\<close>)
    qed
  qed (simp add: wp_return created_def)
qed

end
