(* ===== verification/Win32_Sizes_Demo.thy ===== *)
theory Win32_Sizes_Demo
  imports Win32_Sizes_Props
begin

text \<open>
  A small Windows for the contracts of \<open>Win32_Sizes_Props\<close>: one window may exist, its frame is 16 by 39, and
  what is answered about frames is wrong, so that the correction of the size is needed.
\<close>

record demo_windows =
  d_outer :: "int \<times> int"
  d_windows :: "u64 set"
  d_context :: u64

definition demo_read :: "(demo_windows \<Rightarrow> 'a) \<Rightarrow> (demo_windows, 'a) state" where
  "demo_read f = State (\<lambda>w. (f w, w))"

definition demo_ops :: "demo_windows w32_ops" where
  "demo_ops = \<lparr>
     key_state = \<lambda>_. State_Monad.return 0, async_key_state = \<lambda>_. State_Monad.return 0,
     swap_button = State_Monad.return 0, screen_to_client = \<lambda>_ p. State_Monad.return (Some p),
     cursor_pos = State_Monad.return (Some (0, 0)), map_scancode = \<lambda>_. State_Monad.return 0,
     set_prop = \<lambda>_ _ _. State_Monad.return True, track_mouse = \<lambda>_. State_Monad.return True,
     load_cursor = \<lambda>_. State_Monad.return 1, set_cursor = \<lambda>_. State_Monad.return (),
     user32_proc = \<lambda>_. State_Monad.return True, register_touch = \<lambda>_. State_Monad.return True,
     unregister_touch = \<lambda>_. State_Monad.return (), touch_inputs = \<lambda>_ _. State_Monad.return None,
     close_touch = \<lambda>_. State_Monad.return (), drag_point = \<lambda>_. State_Monad.return (0, 0),
     drag_count = \<lambda>_. State_Monad.return 0, drag_chars = \<lambda>_ _. State_Monad.return 0,
     drag_path = \<lambda>_ _ _. State_Monad.return (0, []), drag_finish = \<lambda>_. State_Monad.return (),
     drag_accept = \<lambda>_ _. State_Monad.return (), alloc = State_Monad.return True,
     utf8_size = \<lambda>_. State_Monad.return 0, utf8_text = \<lambda>_. State_Monad.return (0, []),
     raw_size = \<lambda>_. State_Monad.return (0, 0),
     raw_read = \<lambda>_ _. State_Monad.return (0, 0, \<lparr>raw_dw_size = 0, raw_type = 0, raw_flags = 0, raw_dx = 0, raw_dy = 0\<rparr>),
     mouse_lock_active = \<lambda>_. State_Monad.return False,
     suppress_mouse_tail = \<lambda>_ _ _. State_Monad.return False, set_focus = \<lambda>_. State_Monad.return (),
     set_capture = \<lambda>_. State_Monad.return (), release_capture = State_Monad.return (),
     is_window = \<lambda>_. State_Monad.return True,
     client_rect = \<lambda>_. demo_read (\<lambda>w. Some (0, 0, fst (d_outer w) - 16, snd (d_outer w) - 39)),
     window_rect = \<lambda>_. demo_read (\<lambda>w. Some (100, 50, 100 + fst (d_outer w), 50 + snd (d_outer w))),
     window_styles = \<lambda>_. State_Monad.return (0, 0),
     adjust_rect = \<lambda>width height _ _. State_Monad.return (Some (0, 0, width, height)),
     dpi_for_window = \<lambda>_. State_Monad.return 96,
     adjust_rect_dpi = \<lambda>width height _ _ _. State_Monad.return (Some (0, 0, width, height)),
     set_window_size = \<lambda>_ x y. State (\<lambda>w. (True, w\<lparr>d_outer := (max x 16, max y 39)\<rparr>)),
     set_window_rect = \<lambda>_ _. State_Monad.return True,
     suggested_rect = \<lambda>_. State_Monad.return (0, 0, 0, 0), set_min_track = \<lambda>_ _ _. State_Monad.return (),
     create_params = \<lambda>_. State_Monad.return 0,
     def_window_proc = \<lambda>_ _ _ _. State_Monad.return 0\<rparr>"

definition demo_creation :: "demo_windows create_ops" where
  "demo_creation = \<lparr>
     set_dpi_context = \<lambda>v. State (\<lambda>w. (d_context w, if d_context w = 0 then w else w\<lparr>d_context := v\<rparr>)),
     create_native = \<lambda>_ _ _ _ _ _ _. State (\<lambda>w. if 7 \<in> d_windows w then (0, w)
       else (7, w\<lparr>d_windows := insert 7 (d_windows w)\<rparr>)),
     destroy_native = \<lambda>h. State (\<lambda>w. (True, w\<lparr>d_windows := d_windows w - {h}\<rparr>)),
     show_native = \<lambda>_ _. State_Monad.return (), update_native = \<lambda>_. State_Monad.return (),
     window_visible = \<lambda>_. State_Monad.return True, window_iconic = \<lambda>_. State_Monad.return False,
     window_enabled = \<lambda>_. State_Monad.return True, enable_native = \<lambda>_ _. State_Monad.return (),
     owner_window = \<lambda>_. State_Monad.return 0, set_text = \<lambda>_ _. State_Monad.return True,
     register_native_class = State_Monad.return True, class_exists = State_Monad.return False,
     next_message = State_Monad.return None, dispatch_message = State_Monad.return ()\<rparr>"

definition demo_windows_start :: "demo_windows w32" where
  "demo_windows_start = \<lparr>w_os = \<lparr>d_outer = (100, 100), d_windows = {}, d_context = 1\<rparr>, w_sequence = 1,
     w_exhausted = False, w_user_data = (\<lambda>_. 0), w_props = (\<lambda>_ _. 0), w_emitted = [], w_blocks = 0\<rparr>"

lemma demo_frame: "fixed_frame demo_ops 7 d_outer 16 39"
  by (simp add: fixed_frame_def demo_ops_def demo_read_def keeps_return wp_simps)

lemma demo_work: "windows_work demo_ops demo_creation (\<lambda>w. (d_windows w, d_context w))"
  by (auto simp: windows_work_def demo_ops_def demo_creation_def demo_read_def keeps_def wp_simps
      created_def context_set_def split: prod.splits)

theorem exact_client_size_reached_witness:
  "wp (set_exact_client_size demo_ops 7 640 480 0 0)
     (\<lambda>ok s'. ok \<and> d_outer (w_os s') = (656, 519)) demo_windows_start"
  using exact_client_size_reached [OF demo_frame, of demo_windows_start 640 480 0 0]
  by (simp add: framed_def demo_windows_start_def)

theorem create_window_all_or_nothing_witness:
  "wp (w32_create_window demo_ops demo_creation [] 640 480 320 200 True True False False True 0 5)
     (\<lambda>h s'. created h ({}, 1) (d_windows (w_os s'), d_context (w_os s'))
        \<or> h = 0 \<and> (d_windows (w_os s'), d_context (w_os s')) = ({}, PER_MONITOR_V2)) demo_windows_start"
  using create_window_all_or_nothing [OF demo_work, of "[]" 640 480 320 200 True True False False True 0 5
      demo_windows_start]
  by (simp add: demo_windows_start_def)

end
