(* ===== verification/Wayland_Io.thy ===== *)
theory Wayland_Io
  imports Linux_EGL
begin

unbundle bit_operations_syntax

text \<open>
  The parts of the Wayland backend that decide something (\<^verbatim>\<open>x/multiwindow/wayland_backend_helpers.h\<close>): the calls
  on the display that report in a record, the write that keeps a broken pipe from killing the process, the
  shared memory of a buffer, the versions that are bound, and the release of objects.

  The system and the Wayland library are tables of operations. A call that sets \<^verbatim>\<open>errno\<close> returns its value
  beside its result.
\<close>

abbreviation (input) EINTR :: int where "EINTR \<equiv> 4"
abbreviation (input) EPIPE :: int where "EPIPE \<equiv> 32"
abbreviation (input) VALID_ERRNO :: u64 where "VALID_ERRNO \<equiv> 8"
abbreviation (input) VALID_WAYLAND_DISPLAY_ERROR :: u64 where "VALID_WAYLAND_DISPLAY_ERROR \<equiv> 16"
abbreviation (input) INT32_MAX :: int where "INT32_MAX \<equiv> 2147483647"

subsection \<open>Calls on the display\<close>

type_synonym pollfd = "int \<times> u16"

record 'w display_ops =
  wl_flush :: "u64 \<Rightarrow> ('w, int \<times> int) state"
  wl_roundtrip :: "u64 \<Rightarrow> ('w, int \<times> int) state"
  wl_dispatch_pending :: "u64 \<Rightarrow> ('w, int \<times> int) state"
  wl_prepare_read :: "u64 \<Rightarrow> ('w, int) state"
  wl_cancel_read :: "u64 \<Rightarrow> ('w, unit) state"
  wl_read_events :: "u64 \<Rightarrow> ('w, int \<times> int) state"
  wl_get_fd :: "u64 \<Rightarrow> ('w, int \<times> int) state"
  wl_get_error :: "u64 \<Rightarrow> ('w, int) state"
  poll_fds :: "pollfd list option \<Rightarrow> int \<Rightarrow> ('w, int \<times> int \<times> u16 list) state"

definition wayland_result :: "int \<Rightarrow> int \<Rightarrow> native_primitive" where
  "wayland_result result e =
     (let p = no_primitive\<lparr>valid_mask := VALID_RETURN_VALUE, return_value := word_of_int result\<rparr>
      in if result < 0
         then p\<lparr>valid_mask := valid_mask p OR VALID_ERRNO, native_errno := word_of_int e\<rparr>
         else p)"

text \<open>A call that ends with its result and \<^verbatim>\<open>errno\<close>, for a display that is not \<^verbatim>\<open>NULL\<close>.\<close>

definition display_call ::
    "bool \<Rightarrow> u64 \<Rightarrow> ('w, int \<times> int) state \<Rightarrow> ('w, native_primitive option) state" where
  "display_call out display call =
     (if display = 0 then report out no_primitive else do {
        (result, e) \<leftarrow> call;
        report out (wayland_result result (if result < 0 then e else 0)) })"

text \<open>The loop of the flush while it is interrupted; \<open>None\<close> without fuel.\<close>

fun flush_loop :: "'w display_ops \<Rightarrow> nat \<Rightarrow> u64 \<Rightarrow> ('w, (int \<times> int) option) state" where
  "flush_loop x 0 display = State_Monad.return None" |
  "flush_loop x (Suc fuel) display = do {
     (result, e) \<leftarrow> wl_flush x display;
     if result < 0 \<and> e = EINTR then flush_loop x fuel display else State_Monad.return (Some (result, e)) }"

definition wayland_flush ::
    "'w display_ops \<Rightarrow> nat \<Rightarrow> bool \<Rightarrow> u64 \<Rightarrow> ('w, native_primitive option option) state" where
  "wayland_flush x fuel out display =
     (if display = 0 then do { p \<leftarrow> report out no_primitive; State_Monad.return (Some p) } else do {
        r \<leftarrow> flush_loop x fuel display;
        case r of
          None \<Rightarrow> State_Monad.return None
        | Some (result, e) \<Rightarrow> do {
            p \<leftarrow> report out (wayland_result result (if result < 0 then e else 0));
            State_Monad.return (Some p) } })"

definition wayland_roundtrip where
  "wayland_roundtrip x out display = display_call out display (wl_roundtrip x display)"

definition wayland_dispatch_pending where
  "wayland_dispatch_pending x out display = display_call out display (wl_dispatch_pending x display)"

definition wayland_read_events where
  "wayland_read_events x out display = display_call out display (wl_read_events x display)"

definition wayland_get_fd where
  "wayland_get_fd x out display = display_call out display (wl_get_fd x display)"

definition wayland_prepare_read ::
    "'w display_ops \<Rightarrow> bool \<Rightarrow> u64 \<Rightarrow> ('w, native_primitive option) state" where
  "wayland_prepare_read x out display =
     (if display = 0 then report out no_primitive else do {
        result \<leftarrow> wl_prepare_read x display;
        let p = wayland_result result 0;
        report out (p\<lparr>valid_mask := valid_mask p AND NOT VALID_ERRNO\<rparr>) })"

definition wayland_cancel_read ::
    "'w display_ops \<Rightarrow> bool \<Rightarrow> u64 \<Rightarrow> ('w, native_primitive option) state" where
  "wayland_cancel_read x out display =
     (if display = 0 then report out no_primitive else do {
        wl_cancel_read x display;
        report out no_primitive })"

definition display_error ::
    "'w display_ops \<Rightarrow> bool \<Rightarrow> u64 \<Rightarrow> ('w, native_primitive option) state" where
  "display_error x out display =
     (if out \<and> display \<noteq> 0 then do {
        e \<leftarrow> wl_get_error x display;
        report out (no_primitive\<lparr>valid_mask := VALID_WAYLAND_DISPLAY_ERROR, wayland_display_error := word_of_int e\<rparr>) }
      else report out no_primitive)"

definition wayland_poll ::
    "'w display_ops \<Rightarrow> bool \<Rightarrow> pollfd list option \<Rightarrow> int \<Rightarrow> ('w, native_primitive option) state" where
  "wayland_poll x out fds timeout = do {
     (result, e, revents) \<leftarrow> poll_fds x fds timeout;
     let flags = (if result \<ge> 0 \<and> fds \<noteq> None
       then foldl (\<lambda>flags r. flags OR ucast r) 0 (take (length (the fds)) revents) else 0);
     let p = wayland_result result (if result < 0 then e else 0);
     report out (if result \<ge> 0
       then p\<lparr>valid_mask := valid_mask p OR VALID_OBSERVED_FLAGS, observed_flags := flags\<rparr> else p) }"

subsection \<open>Writing to a pipe that may be broken\<close>

text \<open>
  \<open>sigpipe_sets\<close> builds the set of the one signal, \<open>block_sigpipe\<close> blocks it and returns the mask before,
  \<open>sigpipe_pending\<close> says whether it is pending, \<open>take_sigpipe\<close> is \<^verbatim>\<open>sigtimedwait\<close> without waiting.
\<close>

record 'w pipe_ops =
  sigpipe_sets :: "('w, int option) state"
  block_sigpipe :: "('w, int \<times> u64) state"
  set_mask :: "u64 \<Rightarrow> ('w, int) state"
  sigpipe_pending :: "('w, int + bool) state"
  take_sigpipe :: "('w, int \<times> int) state"
  write_fd :: "int \<Rightarrow> u8 list \<Rightarrow> ('w, int \<times> int) state"

text \<open>At most eight attempts; \<open>attempts\<close> are done.\<close>

function write_attempts :: "'w pipe_ops \<Rightarrow> int \<Rightarrow> u8 list \<Rightarrow> nat \<Rightarrow> ('w, int \<times> int) state" where
  "write_attempts x fd buffer attempts = do {
     (result, e) \<leftarrow> write_fd x fd buffer;
     if result < 0 \<and> e = EINTR \<and> attempts + 1 < 8 then write_attempts x fd buffer (attempts + 1)
     else State_Monad.return (result, e) }"
  by pat_completeness auto
termination by (relation "measure (\<lambda>(_, _, _, attempts). 8 - attempts)") auto

declare write_attempts.simps [simp del]

text \<open>The loop that takes the signal, again while it is interrupted; \<open>None\<close> without fuel.\<close>

fun drain_sigpipe :: "'w pipe_ops \<Rightarrow> nat \<Rightarrow> ('w, unit option) state" where
  "drain_sigpipe x 0 = State_Monad.return None" |
  "drain_sigpipe x (Suc fuel) = do {
     (r, e) \<leftarrow> take_sigpipe x;
     if r < 0 \<and> e = EINTR then drain_sigpipe x fuel else State_Monad.return (Some ()) }"

definition safe_write ::
    "'w pipe_ops \<Rightarrow> nat \<Rightarrow> int \<Rightarrow> u8 list \<Rightarrow> ('w, (int \<times> int) option) state" where
  "safe_write x fuel fd buffer = do {
     sets \<leftarrow> sigpipe_sets x;
     case sets of
       Some e \<Rightarrow> State_Monad.return (Some (- 1, e))
     | None \<Rightarrow> do {
         (mask_result, old_mask) \<leftarrow> block_sigpipe x;
         if mask_result \<noteq> 0 then State_Monad.return (Some (- 1, mask_result)) else do {
           pending \<leftarrow> sigpipe_pending x;
           case pending of
             Inl saved_errno \<Rightarrow> do {
               restore_result \<leftarrow> set_mask x old_mask;
               State_Monad.return (Some (- 1, if restore_result \<noteq> 0 then restore_result else saved_errno)) }
           | Inr had_pending_sigpipe \<Rightarrow> do {
               (result, saved_errno) \<leftarrow> write_attempts x fd buffer 0;
               drained \<leftarrow> (if result < 0 \<and> saved_errno = EPIPE \<and> \<not> had_pending_sigpipe
                 then drain_sigpipe x fuel else State_Monad.return (Some ()));
               case drained of
                 None \<Rightarrow> State_Monad.return None
               | Some _ \<Rightarrow> do {
                   restore_result \<leftarrow> set_mask x old_mask;
                   State_Monad.return (Some (if restore_result \<noteq> 0 then (- 1, restore_result)
                     else (result, saved_errno))) } } } } }"

subsection \<open>The states of a toplevel\<close>

text \<open>The array has a size in bytes, which counts only if it is a whole number of items.\<close>

definition toplevel_state_contains :: "(nat \<times> u32 list) option \<Rightarrow> u32 \<Rightarrow> bool" where
  "toplevel_state_contains states expected = (case states of
       None \<Rightarrow> False
     | Some (bytes, items) \<Rightarrow> bytes mod 4 = 0 \<and> expected \<in> set (take (bytes div 4) items))"

subsection \<open>Shared memory\<close>

definition PATH_MAX :: nat where "PATH_MAX = 4096"

definition template_path :: "string option \<Rightarrow> string" where
  "template_path runtime_dir = (case runtime_dir of
       None \<Rightarrow> ''/tmp/v-multiwindow-shm-XXXXXX''
     | Some d \<Rightarrow>
         let path = d @ ''/v-multiwindow-shm-XXXXXX''
         in if d \<noteq> [] \<and> length path < PATH_MAX then path else ''/tmp/v-multiwindow-shm-XXXXXX'')"

text \<open>The stride and the size of a buffer, in bytes, as \<^verbatim>\<open>size_t\<close> computes them.\<close>

definition shm_layout :: "int \<Rightarrow> int \<Rightarrow> (int \<times> int) option" where
  "shm_layout width height =
     (if width \<le> 0 \<or> height \<le> 0 \<or> width > INT32_MAX div 4 then None else
      let stride = width * 4
      in if stride = 0 \<or> height > INT32_MAX div stride then None
         else let bytes = stride * height
           in if stride > INT32_MAX \<or> bytes = 0 \<or> bytes > INT32_MAX then None else Some (stride, bytes))"

record 'w shm_ops =
  runtime_directory :: "('w, string option) state"
  mkstemp :: "string \<Rightarrow> ('w, int) state"
  unlink :: "string \<Rightarrow> ('w, unit) state"
  ftruncate :: "int \<Rightarrow> int \<Rightarrow> ('w, int) state"
  close_descriptor :: "int \<Rightarrow> ('w, unit) state"
  map_memory :: "int \<Rightarrow> int \<Rightarrow> ('w, bool) state"
  unmap_memory :: "int \<Rightarrow> ('w, unit) state"
  create_pool :: "u64 \<Rightarrow> int \<Rightarrow> int \<Rightarrow> ('w, u64) state"
  create_buffer :: "u64 \<Rightarrow> int \<Rightarrow> int \<Rightarrow> int \<Rightarrow> ('w, u64) state"
  destroy_pool :: "u64 \<Rightarrow> ('w, unit) state"

text \<open>What a call has open: files, mappings and pools; \<open>shm_pixels\<close> is the mapping as it was last painted.\<close>

record 'w shm_host =
  shm_os :: 'w
  open_files :: int
  mappings :: int
  open_pools :: int
  shm_pixels :: "u32 list option"

definition on_shm :: "('w, 'a) state \<Rightarrow> ('w shm_host, 'a) state" where
  "on_shm m = State (\<lambda>s. case run_state m (shm_os s) of (a, w) \<Rightarrow> (a, s\<lparr>shm_os := w\<rparr>))"

definition count_open :: "int \<Rightarrow> int \<Rightarrow> int \<Rightarrow> ('w shm_host, unit) state" where
  "count_open f n p = State (\<lambda>s. ((), s\<lparr>open_files := open_files s + f, mappings := mappings s + n,
     open_pools := open_pools s + p\<rparr>))"

definition close_file :: "'w shm_ops \<Rightarrow> int \<Rightarrow> ('w shm_host, unit) state" where
  "close_file x fd = do { on_shm (close_descriptor x fd); count_open (- 1) 0 0 }"

definition create_tmpfile :: "'w shm_ops \<Rightarrow> int \<Rightarrow> ('w shm_host, int) state" where
  "create_tmpfile x bytes = do {
     runtime_dir \<leftarrow> on_shm (runtime_directory x);
     let path = template_path runtime_dir;
     fd \<leftarrow> on_shm (mkstemp x path);
     if fd < 0 then State_Monad.return (- 1) else do {
       count_open 1 0 0;
       on_shm (unlink x path);
       r \<leftarrow> on_shm (ftruncate x fd bytes);
       if r < 0 then do { close_file x fd; State_Monad.return (- 1) }
       else State_Monad.return fd } }"

text \<open>The loop that paints, on a mapping of as many pixels as its bytes hold; \<open>None\<close> for a write outside.\<close>

fun paint :: "nat list \<Rightarrow> u32 list \<Rightarrow> u32 list option" where
  "paint [] pixels = Some pixels" |
  "paint (i # is) pixels = (if i < length pixels then paint is (pixels[i := 0xff202020]) else None)"

definition unmap :: "'w shm_ops \<Rightarrow> int \<Rightarrow> ('w shm_host, unit) state" where
  "unmap x bytes = do { on_shm (unmap_memory x bytes); count_open 0 (- 1) 0 }"

definition create_shm_buffer :: "'w shm_ops \<Rightarrow> u64 \<Rightarrow> int \<Rightarrow> int \<Rightarrow> ('w shm_host, u64) state" where
  "create_shm_buffer x shm width height =
     (if shm = 0 then State_Monad.return 0 else case shm_layout width height of
        None \<Rightarrow> State_Monad.return 0
      | Some (stride, bytes) \<Rightarrow> do {
          fd \<leftarrow> create_tmpfile x bytes;
          if fd < 0 then State_Monad.return 0 else do {
            mapped \<leftarrow> on_shm (map_memory x fd bytes);
            if \<not> mapped then do { close_file x fd; State_Monad.return 0 } else do {
              count_open 0 1 0;
              State (\<lambda>s. ((), s\<lparr>shm_pixels := paint [0..<nat width * nat height] (replicate (nat bytes div 4) 0)\<rparr>));
              pool \<leftarrow> on_shm (create_pool x shm fd bytes);
              if pool = 0 then do { unmap x bytes; close_file x fd; State_Monad.return 0 } else do {
                count_open 0 0 1;
                buffer \<leftarrow> on_shm (create_buffer x pool width height stride);
                on_shm (destroy_pool x pool);
                count_open 0 0 (- 1);
                unmap x bytes;
                close_file x fd;
                State_Monad.return buffer } } } })"

subsection \<open>What is bound\<close>

datatype wl_interface =
    Compositor | Xdg_Wm_Base | Decoration_Manager | Cursor_Shape_Manager | Relative_Pointer_Manager
  | Pointer_Constraints | Seat | Data_Device_Manager | Shm | Xdg_Exporter | Fractional_Scale_Manager
  | Viewporter | Output

definition compositor_bind_version :: "u32 \<Rightarrow> u32" where
  "compositor_bind_version version = (if version < 4 then version else 4)"

definition seat_bind_version :: "u32 \<Rightarrow> u32" where
  "seat_bind_version version = (if version < 5 then version else 5)"

definition output_bind_version :: "u32 \<Rightarrow> u32" where
  "output_bind_version version = (if version < 4 then version else 4)"

type_synonym 'w registry_bind = "u64 \<Rightarrow> u32 \<Rightarrow> wl_interface \<Rightarrow> u32 \<Rightarrow> ('w, u64) state"

definition bind_compositor :: "'w registry_bind \<Rightarrow> u64 \<Rightarrow> u32 \<Rightarrow> u32 \<Rightarrow> ('w, u64) state" where
  "bind_compositor b registry name version = b registry name Compositor (compositor_bind_version version)"

definition bind_seat :: "'w registry_bind \<Rightarrow> u64 \<Rightarrow> u32 \<Rightarrow> u32 \<Rightarrow> ('w, u64) state" where
  "bind_seat b registry name version = b registry name Seat (seat_bind_version version)"

definition bind_output :: "'w registry_bind \<Rightarrow> u64 \<Rightarrow> u32 \<Rightarrow> u32 \<Rightarrow> ('w, u64) state" where
  "bind_output b registry name version = b registry name Output (output_bind_version version)"

definition bind_data_device_manager :: "'w registry_bind \<Rightarrow> u64 \<Rightarrow> u32 \<Rightarrow> u32 \<Rightarrow> ('w, u64) state" where
  "bind_data_device_manager b registry name version =
     (if version < 3 then State_Monad.return 0 else b registry name Data_Device_Manager 3)"

definition bind_first :: "wl_interface \<Rightarrow> 'w registry_bind \<Rightarrow> u64 \<Rightarrow> u32 \<Rightarrow> u32 \<Rightarrow> ('w, u64) state" where
  "bind_first i b registry name version =
     (if version < 1 then State_Monad.return 0 else b registry name i 1)"

definition bind_xdg_decoration_manager where "bind_xdg_decoration_manager = bind_first Decoration_Manager"
definition bind_cursor_shape_manager where "bind_cursor_shape_manager = bind_first Cursor_Shape_Manager"
definition bind_relative_pointer_manager where
  "bind_relative_pointer_manager = bind_first Relative_Pointer_Manager"
definition bind_pointer_constraints where "bind_pointer_constraints = bind_first Pointer_Constraints"
definition bind_xdg_foreign_exporter where "bind_xdg_foreign_exporter = bind_first Xdg_Exporter"
definition bind_fractional_scale_manager where
  "bind_fractional_scale_manager = bind_first Fractional_Scale_Manager"
definition bind_viewporter where "bind_viewporter = bind_first Viewporter"

definition bind_xdg_wm_base :: "'w registry_bind \<Rightarrow> u64 \<Rightarrow> u32 \<Rightarrow> ('w, u64) state" where
  "bind_xdg_wm_base b registry name = b registry name Xdg_Wm_Base 1"

definition bind_shm :: "'w registry_bind \<Rightarrow> u64 \<Rightarrow> u32 \<Rightarrow> ('w, u64) state" where
  "bind_shm b registry name = b registry name Shm 1"

subsection \<open>Objects that are released\<close>

datatype wl_device = Pointer_Device | Keyboard_Device | Touch_Device | Seat_Device

text \<open>A device is released by a request where its version has one, and destroyed on this side otherwise.\<close>

record 'w object_ops =
  object_version :: "u64 \<Rightarrow> ('w, u32) state"
  release_request :: "wl_device \<Rightarrow> u64 \<Rightarrow> u32 \<Rightarrow> ('w, unit) state"
  destroy_device :: "wl_device \<Rightarrow> u64 \<Rightarrow> ('w, unit) state"
  release_output :: "u64 \<Rightarrow> ('w, unit) state"
  destroy_output :: "u64 \<Rightarrow> ('w, unit) state"
  destroy_callback :: "u64 \<Rightarrow> ('w, unit) state"
  destroy_proxy :: "u64 \<Rightarrow> ('w, unit) state"
  frame_done :: "u64 \<Rightarrow> u64 \<Rightarrow> u32 \<Rightarrow> ('w, int) state"
  frame_destroyed :: "u64 \<Rightarrow> u64 \<Rightarrow> ('w, unit) state"
  create_surface :: "u64 \<Rightarrow> ('w, u64) state"
  destroy_wl_surface :: "u64 \<Rightarrow> ('w, unit) state"
  create_egl_window :: "u64 \<Rightarrow> int \<Rightarrow> int \<Rightarrow> ('w, u64) state"
  resize_egl_window :: "u64 \<Rightarrow> int \<Rightarrow> int \<Rightarrow> ('w, unit) state"
  destroy_egl_window :: "u64 \<Rightarrow> ('w, unit) state"
  surface_frame_callback :: "u64 \<Rightarrow> ('w, u64) state"

definition release_since :: "'w object_ops \<Rightarrow> wl_device \<Rightarrow> u32 \<Rightarrow> u64 \<Rightarrow> ('w, unit) state" where
  "release_since x device since object = if_then (object \<noteq> 0) (do {
     version \<leftarrow> object_version x object;
     if version \<ge> since then release_request x device object version
     else destroy_device x device object })"

definition pointer_destroy where "pointer_destroy x = release_since x Pointer_Device 3"
definition keyboard_destroy where "keyboard_destroy x = release_since x Keyboard_Device 3"
definition touch_destroy where "touch_destroy x = release_since x Touch_Device 3"
definition seat_destroy where "seat_destroy x = release_since x Seat_Device 5"

definition output_destroy :: "'w object_ops \<Rightarrow> u64 \<Rightarrow> u32 \<Rightarrow> ('w, unit) state" where
  "output_destroy x output bound_version =
     (if bound_version \<ge> 3 then release_output x output else destroy_output x output)"

definition frame_done_trampoline :: "'w object_ops \<Rightarrow> u64 \<Rightarrow> u64 \<Rightarrow> u32 \<Rightarrow> ('w, unit) state" where
  "frame_done_trampoline x data callback time = do {
     authorization \<leftarrow> frame_done x data callback time;
     if_then (authorization \<noteq> 0) (do {
       (if authorization = 1 then destroy_callback x callback
        else if_then (callback \<noteq> 0) (destroy_proxy x callback));
       frame_destroyed x data callback }) }"

definition surface_frame :: "'w object_ops \<Rightarrow> bool \<Rightarrow> u64 \<Rightarrow> ('w, native_primitive option) state" where
  "surface_frame x out surface =
     (if surface = 0 then report out no_primitive else do {
        callback \<leftarrow> surface_frame_callback x surface;
        report out (capture_handle callback) })"

definition destroy_frame_callback :: "'w object_ops \<Rightarrow> bool \<Rightarrow> u64 \<Rightarrow> ('w, native_primitive option) state" where
  "destroy_frame_callback x out callback = do {
     if_then (callback \<noteq> 0) (destroy_callback x callback);
     report out no_primitive }"

definition create_anchor_surface :: "'w object_ops \<Rightarrow> bool \<Rightarrow> u64 \<Rightarrow> ('w, native_primitive option) state" where
  "create_anchor_surface x out compositor =
     (if compositor = 0 then report out no_primitive else do {
        surface \<leftarrow> create_surface x compositor;
        report out (capture_handle surface) })"

definition destroy_anchor_surface ::
    "'w object_ops \<Rightarrow> bool \<Rightarrow> u64 \<Rightarrow> bool \<Rightarrow> ('w, native_primitive option) state" where
  "destroy_anchor_surface x out surface marshal =
     (if surface = 0 then report out no_primitive else do {
        (if marshal then destroy_wl_surface x surface else destroy_proxy x surface);
        report out (no_primitive\<lparr>valid_mask := VALID_OBSERVED_FLAGS, observed_flags := (if marshal then 1 else 2)\<rparr>) })"

definition wayland_egl_create_window ::
    "'w object_ops \<Rightarrow> bool \<Rightarrow> u64 \<Rightarrow> int \<Rightarrow> int \<Rightarrow> ('w, native_primitive option) state" where
  "wayland_egl_create_window x out surface width height =
     (if surface = 0 then report out no_primitive else do {
        window \<leftarrow> create_egl_window x surface width height;
        report out (capture_handle window) })"

definition wayland_egl_resize_window ::
    "'w object_ops \<Rightarrow> bool \<Rightarrow> u64 \<Rightarrow> int \<Rightarrow> int \<Rightarrow> ('w, native_primitive option) state" where
  "wayland_egl_resize_window x out window width height = do {
     if_then (window \<noteq> 0) (resize_egl_window x window width height);
     report out no_primitive }"

definition wayland_egl_destroy_window :: "'w object_ops \<Rightarrow> bool \<Rightarrow> u64 \<Rightarrow> ('w, native_primitive option) state" where
  "wayland_egl_destroy_window x out window = do {
     if_then (window \<noteq> 0) (destroy_egl_window x window);
     report out no_primitive }"

end
