(* ===== verification/Wayland_Io_Props.thy ===== *)
theory Wayland_Io_Props
  imports Wayland_Io
begin

unbundle bit_operations_syntax

text \<open>
  What the parts of the Wayland backend promise: a write to a broken pipe leaves the signals of the thread as
  they were, and a buffer of shared memory is painted within its mapping and leaves nothing open.
\<close>

subsection \<open>The write and the signal\<close>

definition SIGPIPE_BIT :: u64 where "SIGPIPE_BIT = 0x1000"

definition blocks_sigpipe :: "u64 \<Rightarrow> bool" where "blocks_sigpipe m \<longleftrightarrow> m AND SIGPIPE_BIT \<noteq> 0"

text \<open>The thread: its mask, whether the signal is pending, and whether it has struck.\<close>

record sigpipe_view =
  thread_mask :: u64
  sigpipe_waits :: bool
  sigpipe_struck :: bool

text \<open>
  What POSIX promises for a thread that nobody else sends the signal: a write to a broken pipe makes it pending
  while it is blocked, a mask that does not block it lets it strike, and \<open>take_sigpipe\<close> takes it or finds none,
  unless it is interrupted, which \<open>interrupts\<close> bounds.
\<close>

definition pipes_work :: "'w pipe_ops \<Rightarrow> ('w \<Rightarrow> sigpipe_view) \<Rightarrow> ('w \<Rightarrow> nat) \<Rightarrow> bool" where
  "pipes_work x view interrupts \<longleftrightarrow>
     (\<forall>w. wp (sigpipe_sets x) (\<lambda>_ w'. view w' = view w \<and> interrupts w' \<le> interrupts w) w)
     \<and> (\<forall>w. wp (block_sigpipe x) (\<lambda>(r, old) w'. interrupts w' \<le> interrupts w
          \<and> (if r = 0 then old = thread_mask (view w)
               \<and> view w' = (view w)\<lparr>thread_mask := old OR SIGPIPE_BIT\<rparr> else view w' = view w)) w)
     \<and> (\<forall>m w. wp (set_mask x m) (\<lambda>r w'. r = 0 \<and> interrupts w' \<le> interrupts w
          \<and> view w' = (view w)\<lparr>thread_mask := m, sigpipe_waits := sigpipe_waits (view w) \<and> blocks_sigpipe m,
              sigpipe_struck := sigpipe_struck (view w) \<or> sigpipe_waits (view w) \<and> \<not> blocks_sigpipe m\<rparr>) w)
     \<and> (\<forall>w. wp (sigpipe_pending x) (\<lambda>r w'. view w' = view w \<and> interrupts w' \<le> interrupts w
          \<and> (case r of Inl e \<Rightarrow> True | Inr b \<Rightarrow> b = sigpipe_waits (view w))) w)
     \<and> (\<forall>fd buffer w. blocks_sigpipe (thread_mask (view w)) \<longrightarrow>
          wp (write_fd x fd buffer) (\<lambda>(r, e) w'. interrupts w' \<le> interrupts w
            \<and> view w' = (view w)\<lparr>sigpipe_waits := sigpipe_waits (view w) \<or> r < 0 \<and> e = EPIPE\<rparr>) w)
     \<and> (\<forall>w. wp (take_sigpipe x) (\<lambda>(r, e) w'.
          if r < 0 \<and> e = EINTR then view w' = view w \<and> interrupts w' < interrupts w
          else view w' = (view w)\<lparr>sigpipe_waits := False\<rparr>) w)"

lemma attempts_view:
  assumes "pipes_work x view interrupts" "blocks_sigpipe (thread_mask (view w))"
  shows "wp (write_attempts x fd buffer attempts) (\<lambda>(r, e) w'. interrupts w' \<le> interrupts w
    \<and> view w' = (view w)\<lparr>sigpipe_waits := sigpipe_waits (view w) \<or> r < 0 \<and> e = EPIPE\<rparr>) w"
  using assms
proof (induction x fd buffer attempts arbitrary: w rule: write_attempts.induct)
  case (1 x fd buffer attempts)
  have "wp (write_fd x fd buffer) (\<lambda>(r, e) w'. interrupts w' \<le> interrupts w
      \<and> view w' = (view w)\<lparr>sigpipe_waits := sigpipe_waits (view w) \<or> r < 0 \<and> e = EPIPE\<rparr>) w"
    using "1.prems" by (simp add: pipes_work_def)
  then show ?case
    unfolding write_attempts.simps [of x fd buffer attempts]
  proof (rule wp_follow, clarify, intro wp_branch, goal_cases)
    case (1 r e w')
    then have "view w' = view w" by simp
    have "wp (write_attempts x fd buffer (attempts + 1)) (\<lambda>(r, e) w''. interrupts w'' \<le> interrupts w'
        \<and> view w'' = (view w')\<lparr>sigpipe_waits := sigpipe_waits (view w') \<or> r < 0 \<and> e = EPIPE\<rparr>) w'"
      by (rule "1.IH" [OF \<open>r < 0 \<and> e = EINTR \<and> attempts + 1 < 8\<close>]) (use 1 "1.prems" \<open>view w' = view w\<close> in simp_all)
    then show ?case
      by (rule wp_mono) (use 1 \<open>view w' = view w\<close> in auto)
  qed (simp add: wp_return)
qed

lemma drained_view:
  assumes "pipes_work x view interrupts"
  shows "interrupts w < fuel \<Longrightarrow> wp (drain_sigpipe x fuel)
    (\<lambda>r w'. r = Some () \<and> view w' = (view w)\<lparr>sigpipe_waits := False\<rparr>) w"
proof (induction fuel arbitrary: w)
  case (Suc fuel)
  have "wp (take_sigpipe x) (\<lambda>(r, e) w'.
      if r < 0 \<and> e = EINTR then view w' = view w \<and> interrupts w' < interrupts w
      else view w' = (view w)\<lparr>sigpipe_waits := False\<rparr>) w"
    using assms by (simp add: pipes_work_def)
  then show ?case
    unfolding drain_sigpipe.simps
  proof (rule wp_follow, clarify, intro wp_branch, goal_cases)
    case (1 r e w')
    then show ?case using wp_mono [OF Suc.IH, of w'] Suc.prems by simp
  qed (simp add: wp_return)
qed simp

text \<open>C13: The write leaves the signals of the thread as they were, a broken pipe included: the mask is restored, the
  signal is pending afterwards exactly if it was before, and it never strikes. More fuel than the loop is
  interrupted is enough for a result.
\<close>

theorem safe_write_contains_sigpipe:
  assumes "pipes_work x view interrupts" "interrupts w < fuel"
    and "sigpipe_waits (view w) \<longrightarrow> blocks_sigpipe (thread_mask (view w))"
  shows "wp (safe_write x fuel fd buffer) (\<lambda>r w'. r \<noteq> None \<and> view w' = view w) w"
proof -
  let ?set = "\<lambda>m w w'. view w' = (view w)\<lparr>thread_mask := m, sigpipe_waits := sigpipe_waits (view w) \<and> blocks_sigpipe m,
      sigpipe_struck := sigpipe_struck (view w) \<or> sigpipe_waits (view w) \<and> \<not> blocks_sigpipe m\<rparr>"
  have sets: "wp (sigpipe_sets x) (\<lambda>_ w'. view w' = view w \<and> interrupts w' \<le> interrupts w) w"
    and block: "wp (block_sigpipe x) (\<lambda>(r, old) w'. interrupts w' \<le> interrupts v
          \<and> (if r = 0 then old = thread_mask (view v)
               \<and> view w' = (view v)\<lparr>thread_mask := old OR SIGPIPE_BIT\<rparr> else view w' = view v)) v"
    and set: "wp (set_mask x m) (\<lambda>r w'. r = 0 \<and> interrupts w' \<le> interrupts v \<and> ?set m v w') v"
    and pending: "wp (sigpipe_pending x) (\<lambda>r w'. view w' = view v \<and> interrupts w' \<le> interrupts v
          \<and> (case r of Inl e \<Rightarrow> True | Inr b \<Rightarrow> b = sigpipe_waits (view v))) v" for m v
    using assms(1) by (simp_all add: pipes_work_def)
  have "(m OR SIGPIPE_BIT) AND SIGPIPE_BIT = SIGPIPE_BIT" for m
    by (rule bit_eqI) (auto simp: bit_and_iff bit_or_iff)
  then have blocked: "blocks_sigpipe (m OR SIGPIPE_BIT)" for m
    by (simp add: blocks_sigpipe_def SIGPIPE_BIT_def)
  text \<open>Restoring the mask from a state that differs in nothing else.\<close>
  have restore: "wp (do { r \<leftarrow> set_mask x (thread_mask (view w)); State_Monad.return (Some (f r)) })
      (\<lambda>r w'. r \<noteq> None \<and> view w' = view w) v"
    if "view v = (view w)\<lparr>thread_mask := m\<rparr>" for f :: "int \<Rightarrow> int \<times> int" and v m
    by (rule wp_follow [OF set]) (use that assms(3) in \<open>auto simp: wp_return\<close>)
  show ?thesis
    unfolding safe_write_def
  proof (rule wp_follow [OF sets], intro end_case, goal_cases)
    case (1 _ v1)
    show ?case
    proof (rule wp_follow [OF block], clarify, intro wp_branch, goal_cases)
      case (2 mask_result old v2)
      note v2 = 2 \<open>view v1 = view w \<and> interrupts v1 \<le> interrupts w\<close>
      show ?case
      proof (rule wp_follow [OF pending], elim conjE, goal_cases)
        case (1 answer v3)
        show ?case
        proof (cases answer)
          case (Inl e)
          have "old = thread_mask (view w)" "view v3 = (view w)\<lparr>thread_mask := thread_mask (view w) OR SIGPIPE_BIT\<rparr>"
            using 1 v2 by auto
          then show ?thesis unfolding Inl sum.case by (simp only:) (rule restore)
        next
          case (Inr had)
          have v3: "view v3 = (view w)\<lparr>thread_mask := thread_mask (view w) OR SIGPIPE_BIT\<rparr>" "interrupts v3 \<le> interrupts w"
            and had: "had = sigpipe_waits (view w)" and old: "old = thread_mask (view w)"
            using 1 v2 Inr by auto
          show ?thesis
            unfolding Inr sum.case
          proof (rule wp_follow [OF attempts_view [OF assms(1)]], goal_cases)
            case 1
            show ?case using v3 blocked by simp
          next
            case (2 written v4)
            obtain r e where written: "written = (r, e)" by (cases written)
            have v4: "view v4 = (view v3)\<lparr>sigpipe_waits := had \<or> r < 0 \<and> e = EPIPE\<rparr>" "interrupts v4 < fuel"
              using 2 v3 had written assms(2) by auto
            have "wp (if r < 0 \<and> e = EPIPE \<and> \<not> had then drain_sigpipe x fuel else State_Monad.return (Some ()))
                (\<lambda>d v5. d = Some () \<and> view v5 = (view w)\<lparr>thread_mask := thread_mask (view w) OR SIGPIPE_BIT\<rparr>) v4"
              using v3 v4 had by (auto simp: wp_return intro!: wp_mono [OF drained_view [OF assms(1)]])
            then show ?case
              unfolding written prod.case old
              by (rule wp_follow, elim conjE) (simp only: option.case, rule restore)
          qed
        qed
      qed
    qed (use 1 in \<open>auto simp: wp_return\<close>)
  qed (simp_all add: wp_return)
qed

subsection \<open>Shared memory\<close>

lemma le_div_iff: "0 < s \<Longrightarrow> h \<le> m div s \<longleftrightarrow> h * s \<le> m" for h m s :: int
proof
  assume "0 < s" "h \<le> m div s"
  then have "h * s \<le> m div s * s" by simp
  also have "\<dots> \<le> m" using \<open>0 < s\<close> pos_mod_sign [of s m] div_mult_mod_eq [of m s] by linarith
  finally show "h * s \<le> m" .
next
  assume "0 < s" "h * s \<le> m"
  then show "h \<le> m div s" using zdiv_mono1 [of "h * s" m s] by simp
qed

lemma shm_layout_exact:
  "shm_layout width height =
     (if 0 < width \<and> 0 < height \<and> width * 4 * height \<le> INT32_MAX
      then Some (width * 4, width * 4 * height) else None)"
proof (cases "0 < width \<and> 0 < height")
  case True
  have "height \<le> INT32_MAX div (width * 4) \<longleftrightarrow> width * 4 * height \<le> INT32_MAX"
    using True by (simp add: le_div_iff mult.commute)
  moreover have "width * 4 \<le> width * 4 * height" using True by simp
  ultimately show ?thesis using True by (auto simp: shm_layout_def Let_def)
qed (auto simp: shm_layout_def)

lemma paint_all:
  "k \<le> length pixels \<Longrightarrow>
   paint [k..<length pixels] pixels = Some (take k pixels @ replicate (length pixels - k) 0xff202020)"
proof (induction "length pixels - k" arbitrary: k pixels)
  case (Suc n)
  then have "paint [k..<length pixels] pixels = paint [Suc k..<length pixels] (pixels[k := 0xff202020])"
    by (simp add: upt_conv_Cons)
  also have "\<dots> = Some (take (Suc k) (pixels[k := 0xff202020]) @ replicate (length pixels - Suc k) 0xff202020)"
    using Suc(1) [of "pixels[k := 0xff202020]" "Suc k"] Suc(2,3) by simp
  also have "take (Suc k) (pixels[k := 0xff202020]) = take k pixels @ [0xff202020]"
    using Suc(2,3) by (simp add: take_Suc_conv_app_nth)
  finally show ?case using Suc(2,3) by (simp add: Suc_diff_Suc replicate_app_Cons_same flip: replicate_Suc)
qed simp

definition shm_book :: "'w shm_host \<Rightarrow> int \<times> int \<times> int \<times> u32 list option" where
  "shm_book s = (open_files s, mappings s, open_pools s, shm_pixels s)"

lemma keeps_shm: "keeps shm_book (on_shm m)"
  by (simp add: keeps_def on_shm_def wp_def shm_book_def split: prod.split)

lemma shm_follow:
  "(\<And>a s'. shm_book s' = shm_book s \<Longrightarrow> wp (f a) Q s') \<Longrightarrow> wp (State_Monad.bind (on_shm m) f) Q s"
  by (rule keeps_step [OF keeps_shm])

lemma change_follow:
  "wp (f ()) Q (g s) \<Longrightarrow> wp (State_Monad.bind (State (\<lambda>s. ((), g s))) f) Q s"
  by (simp add: wp_simps)

text \<open>C14: Whatever the system answers, creating a buffer leaves no file, mapping or pool open, and every pixel is
  written inside the mapping; a buffer that is given has all of its pixels painted.
\<close>

theorem shm_buffer_safe:
  "wp (create_shm_buffer x shm width height)
     (\<lambda>buffer s'. open_files s' = open_files s \<and> mappings s' = mappings s \<and> open_pools s' = open_pools s
        \<and> (shm_pixels s' = Some (replicate (nat width * nat height) 0xff202020)
            \<or> buffer = 0 \<and> shm_pixels s' = shm_pixels s)) s"
proof (cases "shm_layout width height")
  case None
  then show ?thesis by (simp add: create_shm_buffer_def wp_simps)
next
  case (Some layout)
  then obtain stride bytes where layout: "shm_layout width height = Some (stride, bytes)" by (cases layout) auto
  then have "nat bytes div 4 = nat width * nat height"
    by (auto simp: shm_layout_exact nat_mult_distrib split: if_splits)
  then have painted: "paint [0..<nat width * nat height] (replicate (nat bytes div 4) 0) =
      Some (replicate (nat width * nat height) 0xff202020)"
    using paint_all [of 0 "replicate (nat bytes div 4) 0"] by simp
  show ?thesis
    unfolding create_shm_buffer_def layout option.case prod.case painted create_tmpfile_def close_file_def unmap_def
      count_open_def Let_def
    by (intro wp_branch step_assoc step_if step_return shm_follow change_follow wp_done)
      (auto simp: shm_book_def)
qed

subsection \<open>Versions\<close>

text \<open>No version is asked for that the server does not have.\<close>

lemma versions_offered:
  "compositor_bind_version version \<le> version" "compositor_bind_version version \<le> 4"
  "seat_bind_version version \<le> version" "seat_bind_version version \<le> 5"
  "output_bind_version version \<le> version" "output_bind_version version \<le> 4"
  by (auto simp: compositor_bind_version_def seat_bind_version_def output_bind_version_def not_less
      intro: order_less_imp_le)

subsection \<open>A broken pipe\<close>

text \<open>Every write finds the pipe broken, and taking the signal is interrupted as often as the state says.\<close>

record demo_pipe =
  demo_view :: sigpipe_view
  demo_interrupts :: nat

definition change_view :: "(sigpipe_view \<Rightarrow> sigpipe_view) \<Rightarrow> 'a \<Rightarrow> (demo_pipe, 'a) state" where
  "change_view f a = State (\<lambda>w. (a, w\<lparr>demo_view := f (demo_view w)\<rparr>))"

definition demo_pipe_ops :: "demo_pipe pipe_ops" where
  "demo_pipe_ops = \<lparr>
     sigpipe_sets = State_Monad.return None,
     block_sigpipe = State (\<lambda>w. ((0, thread_mask (demo_view w)),
       w\<lparr>demo_view := (demo_view w)\<lparr>thread_mask := thread_mask (demo_view w) OR SIGPIPE_BIT\<rparr>\<rparr>)),
     set_mask = \<lambda>m. change_view (\<lambda>v. v\<lparr>thread_mask := m, sigpipe_waits := sigpipe_waits v \<and> blocks_sigpipe m,
       sigpipe_struck := sigpipe_struck v \<or> sigpipe_waits v \<and> \<not> blocks_sigpipe m\<rparr>) 0,
     sigpipe_pending = State (\<lambda>w. (Inr (sigpipe_waits (demo_view w)), w)),
     take_sigpipe = State (\<lambda>w. case demo_interrupts w of
         Suc n \<Rightarrow> ((- 1, EINTR), w\<lparr>demo_interrupts := n\<rparr>)
       | 0 \<Rightarrow> ((if sigpipe_waits (demo_view w) then (13, 0) else (- 1, 11)),
           w\<lparr>demo_view := (demo_view w)\<lparr>sigpipe_waits := False\<rparr>\<rparr>)),
     write_fd = \<lambda>_ _. change_view (\<lambda>v. v\<lparr>sigpipe_waits := True\<rparr>) (- 1, EPIPE)\<rparr>"

definition demo_pipe_start :: demo_pipe where
  "demo_pipe_start = \<lparr>demo_view = \<lparr>thread_mask = 0, sigpipe_waits = False, sigpipe_struck = False\<rparr>, demo_interrupts = 2\<rparr>"

lemma demo_pipes_work: "pipes_work demo_pipe_ops demo_view demo_interrupts"
  by (simp add: pipes_work_def demo_pipe_ops_def change_view_def wp_simps split: nat.split)

theorem safe_write_contains_sigpipe_witness:
  "wp (safe_write demo_pipe_ops 3 7 [65])
     (\<lambda>r w'. r \<noteq> None \<and> demo_view w' = \<lparr>thread_mask = 0, sigpipe_waits = False, sigpipe_struck = False\<rparr>)
     demo_pipe_start"
  using safe_write_contains_sigpipe [OF demo_pipes_work, of demo_pipe_start 3 7 "[65]"]
  by (simp add: demo_pipe_start_def)

end
