(* ===== verification/Readback_Native.thy ===== *)
theory Readback_Native
  imports Readback
begin

text \<open>
  The readback machine on Direct3D 11,
  \<^verbatim>\<open>vlib/x/multiwindow/win32_readback_d3d11_native.h\<close> with
  \<^verbatim>\<open>vlib/x/multiwindow/win32_readback_d3d11_diagnostics.h\<close>: the object that owns a machine, a reference to
  the device and one to the immediate context, the table of operations that the machine calls, and the
  entry points. Direct3D is the table \<open>d3d_calls\<close> on a world of type \<open>'w\<close>.

  The machine's world is the native object, which holds the Direct3D world in \<open>native_com\<close>; the pointer
  from the object back to its machine is the flag \<open>native_machine\<close>. Out parameters are part of the
  result, so that the checks of their pointers have no counterpart; neither has a \<open>NULL\<close> object.
  An \<open>HRESULT\<close> is an \<open>int\<close>. Names lose the prefixes \<open>v_multiwindow_win32_readback_\<close> and
  \<open>v_multiwindow_win32_d3d11_readback_\<close>; those of the wrappers of single methods begin with \<open>com_\<close>.
\<close>

subsection \<open>Direct3D\<close>

definition S_OK :: int where "S_OK = 0"
definition E_FAIL :: int where "E_FAIL = - 2147467259"
definition E_INVALIDARG :: int where "E_INVALIDARG = - 2147024809"
definition DXGI_UNSUPPORTED :: int where "DXGI_UNSUPPORTED = - 2005270524"
definition NATIVE_MAGIC :: u64 where "NATIVE_MAGIC = 0x564D574433443131"

lemmas hresults = S_OK_def E_FAIL_def E_INVALIDARG_def DXGI_UNSUPPORTED_def

definition failed :: "int \<Rightarrow> bool" where "failed result \<longleftrightarrow> result < 0"

record texture_desc =
  tex_width :: u32
  tex_height :: u32
  tex_mips :: u32
  tex_array :: u32
  tex_format :: u32
  tex_samples :: u32
  tex_quality :: u32
  tex_usage :: u32
  tex_bind :: u32
  tex_cpu :: u32
  tex_misc :: u32

definition zero_desc :: texture_desc where
  "zero_desc = \<lparr>tex_width = 0, tex_height = 0, tex_mips = 0, tex_array = 0, tex_format = 0,
     tex_samples = 0, tex_quality = 0, tex_usage = 0, tex_bind = 0, tex_cpu = 0, tex_misc = 0\<rparr>"

record query_desc =
  query_kind :: u32
  query_misc :: u32

record d3d_box =
  box_left :: u32
  box_top :: u32
  box_front :: u32
  box_right :: u32
  box_bottom :: u32
  box_back :: u32

record iid =
  iid_first :: u32
  iid_words :: "u16 list"
  iid_bytes :: "u8 list"

definition iid_texture2d :: iid where
  "iid_texture2d = \<lparr>iid_first = 0x6f15aaf2, iid_words = [0xd208, 0x4e89],
     iid_bytes = [0x9a, 0xb4, 0x48, 0x95, 0x35, 0xd3, 0x4f, 0x9c]\<rparr>"

text \<open>The methods, each with the object it is called on first; subresource numbers, offsets and flags
  are arguments.\<close>

record 'w d3d_calls =
  d3d_add_ref :: "nat \<Rightarrow> 'w \<Rightarrow> u32 \<times> 'w"
  d3d_release :: "nat \<Rightarrow> 'w \<Rightarrow> u32 \<times> 'w"
  d3d_get_desc :: "nat \<Rightarrow> 'w \<Rightarrow> texture_desc \<times> 'w"
  d3d_texture_device :: "nat \<Rightarrow> 'w \<Rightarrow> nat \<times> 'w"
  d3d_context_device :: "nat \<Rightarrow> 'w \<Rightarrow> nat \<times> 'w"
  d3d_context_type :: "nat \<Rightarrow> 'w \<Rightarrow> u32 \<times> 'w"
  d3d_create_texture :: "nat \<Rightarrow> texture_desc \<Rightarrow> 'w \<Rightarrow> (int \<times> nat) \<times> 'w"
  d3d_create_query :: "nat \<Rightarrow> query_desc \<Rightarrow> 'w \<Rightarrow> (int \<times> nat) \<times> 'w"
  d3d_copy_subresource ::
    "nat \<Rightarrow> nat \<Rightarrow> u32 \<Rightarrow> u32 \<times> u32 \<times> u32 \<Rightarrow> nat \<Rightarrow> u32 \<Rightarrow> d3d_box \<Rightarrow> 'w \<Rightarrow> 'w"
  d3d_end :: "nat \<Rightarrow> nat \<Rightarrow> 'w \<Rightarrow> 'w"
  d3d_get_data :: "nat \<Rightarrow> nat \<Rightarrow> u32 \<Rightarrow> u32 \<Rightarrow> 'w \<Rightarrow> int \<times> 'w"
  d3d_map :: "nat \<Rightarrow> nat \<Rightarrow> u32 \<Rightarrow> u32 \<Rightarrow> u32 \<Rightarrow> 'w \<Rightarrow> (int \<times> (nat \<Rightarrow> u8) option \<times> u32) \<times> 'w"
  d3d_unmap :: "nat \<Rightarrow> nat \<Rightarrow> u32 \<Rightarrow> 'w \<Rightarrow> 'w"
  d3d_removed_reason :: "nat \<Rightarrow> 'w \<Rightarrow> int \<times> 'w"
  dxgi_get_buffer :: "nat \<Rightarrow> u32 \<Rightarrow> iid \<Rightarrow> 'w \<Rightarrow> (int \<times> nat) \<times> 'w"

definition com_add_ref :: "'w d3d_calls \<Rightarrow> nat \<Rightarrow> 'w \<Rightarrow> u32 \<times> 'w" where
  "com_add_ref d object w = (if object = 0 then (0, w) else d3d_add_ref d object w)"

definition com_release :: "'w d3d_calls \<Rightarrow> nat \<Rightarrow> 'w \<Rightarrow> u32 \<times> 'w" where
  "com_release d object w = (if object = 0 then (0, w) else d3d_release d object w)"

definition com_copy_region :: "'w d3d_calls \<Rightarrow> nat \<Rightarrow> nat \<Rightarrow> nat \<Rightarrow> d3d_box \<Rightarrow> 'w \<Rightarrow> 'w" where
  "com_copy_region d context destination source box w =
     d3d_copy_subresource d context destination 0 (0, 0, 0) source 0 box w"

abbreviation (input) GETDATA_DONOTFLUSH :: u32 where "GETDATA_DONOTFLUSH \<equiv> 1"
abbreviation (input) MAP_READ :: u32 where "MAP_READ \<equiv> 1"
abbreviation (input) MAP_DO_NOT_WAIT :: u32 where "MAP_DO_NOT_WAIT \<equiv> 0x100000"
abbreviation (input) CONTEXT_IMMEDIATE :: u32 where "CONTEXT_IMMEDIATE \<equiv> 0"
abbreviation (input) QUERY_EVENT :: u32 where "QUERY_EVENT \<equiv> 0"
abbreviation (input) USAGE_STAGING :: u32 where "USAGE_STAGING \<equiv> 3"
abbreviation (input) CPU_ACCESS_READ :: u32 where "CPU_ACCESS_READ \<equiv> 0x20000"

definition com_get_data :: "'w d3d_calls \<Rightarrow> nat \<Rightarrow> nat \<Rightarrow> 'w \<Rightarrow> int \<times> 'w" where
  "com_get_data d context q w = d3d_get_data d context q 0 GETDATA_DONOTFLUSH w"

definition com_map_texture ::
  "'w d3d_calls \<Rightarrow> nat \<Rightarrow> nat \<Rightarrow> 'w \<Rightarrow> (int \<times> (nat \<Rightarrow> u8) option \<times> u32) \<times> 'w" where
  "com_map_texture d context texture w = d3d_map d context texture 0 MAP_READ MAP_DO_NOT_WAIT w"

definition com_unmap_texture :: "'w d3d_calls \<Rightarrow> nat \<Rightarrow> nat \<Rightarrow> 'w \<Rightarrow> 'w" where
  "com_unmap_texture d context texture w = d3d_unmap d context texture 0 w"

definition com_swapchain_buffer :: "'w d3d_calls \<Rightarrow> nat \<Rightarrow> 'w \<Rightarrow> (int \<times> nat) \<times> 'w" where
  "com_swapchain_buffer d swapchain w = dxgi_get_buffer d swapchain 0 iid_texture2d w"

subsection \<open>The native object\<close>

record 'w readback_native =
  native_magic :: u64
  native_device :: nat
  native_context :: nat
  native_machine :: bool
  native_hresult :: int
  native_reason :: int
  native_com :: 'w

definition native_valid :: "'w readback_native \<Rightarrow> bool" where
  "native_valid n \<longleftrightarrow> native_magic n = NATIVE_MAGIC \<and> native_device n \<noteq> 0 \<and> native_context n \<noteq> 0
     \<and> native_machine n"

definition source_device_matches ::
  "'w d3d_calls \<Rightarrow> 'w readback_native \<Rightarrow> nat \<Rightarrow> bool \<times> 'w readback_native" where
  "source_device_matches d n texture =
     (let (source_device, w) = d3d_texture_device d texture (native_com n);
          matches = (source_device \<noteq> 0 \<and> source_device = native_device n)
      in (matches, n\<lparr>native_com := snd (com_release d source_device w)\<rparr>))"

abbreviation (input) FORMAT_R8G8B8A8_UNORM :: u32 where "FORMAT_R8G8B8A8_UNORM \<equiv> 28"
abbreviation (input) FORMAT_R8G8B8A8_UNORM_SRGB :: u32 where "FORMAT_R8G8B8A8_UNORM_SRGB \<equiv> 29"
abbreviation (input) FORMAT_B8G8R8A8_UNORM :: u32 where "FORMAT_B8G8R8A8_UNORM \<equiv> 87"
abbreviation (input) FORMAT_B8G8R8A8_UNORM_SRGB :: u32 where "FORMAT_B8G8R8A8_UNORM_SRGB \<equiv> 91"

definition native_format :: "u32 \<Rightarrow> u32" where
  "native_format f =
     (if f = FORMAT_B8G8R8A8_UNORM \<or> f = FORMAT_B8G8R8A8_UNORM_SRGB then FORMAT_BGRA8
      else if f = FORMAT_R8G8B8A8_UNORM \<or> f = FORMAT_R8G8B8A8_UNORM_SRGB then FORMAT_RGBA8
      else 0)"

text \<open>\<open>refuse\<close> keeps the code that the caller may ask for afterwards.\<close>

definition refuse :: "int \<Rightarrow> 'w readback_native \<Rightarrow> 'w readback_native" where
  "refuse result n = n\<lparr>native_hresult := result\<rparr>"

subsection \<open>The operations of the machine\<close>

definition native_retain_source ::
  "'w d3d_calls \<Rightarrow> nat \<Rightarrow> 'w readback_native \<Rightarrow> bool \<times> 'w readback_native" where
  "native_retain_source d source n =
     (if \<not> native_valid n \<or> source = 0 then (False, refuse E_INVALIDARG n)
      else
        (let (matches, n) = source_device_matches d n source
         in if \<not> matches then (False, refuse E_INVALIDARG n)
            else (True, n\<lparr>native_com := snd (com_add_ref d source (native_com n)),
                          native_hresult := S_OK\<rparr>)))"

definition native_release_source ::
  "'w d3d_calls \<Rightarrow> nat \<Rightarrow> 'w readback_native \<Rightarrow> 'w readback_native" where
  "native_release_source d source n = n\<lparr>native_com := snd (com_release d source (native_com n))\<rparr>"

definition native_describe_source ::
  "'w d3d_calls \<Rightarrow> nat \<Rightarrow> 'w readback_native \<Rightarrow> (int \<times> u32 \<times> u32 \<times> u32) \<times> 'w readback_native"
where
  "native_describe_source d source n =
     (if \<not> native_valid n \<or> source = 0 then ((E_INVALIDARG, 0, 0, 0), refuse E_INVALIDARG n)
      else
        (let (matches, n) = source_device_matches d n source
         in if \<not> matches then ((E_INVALIDARG, 0, 0, 0), refuse E_INVALIDARG n)
            else
              (let (desc, w) = d3d_get_desc d source (native_com n);
                   n = n\<lparr>native_com := w\<rparr>
               in if native_format (tex_format desc) = 0 \<or> tex_width desc = 0 \<or> tex_height desc = 0
                     \<or> tex_mips desc = 0 \<or> tex_array desc \<noteq> 1 \<or> tex_samples desc \<noteq> 1
                  then ((DXGI_UNSUPPORTED, 0, 0, 0), refuse DXGI_UNSUPPORTED n)
                  else ((D3D_OK, tex_width desc, tex_height desc, native_format (tex_format desc)),
                        n\<lparr>native_hresult := S_OK\<rparr>))))"

definition staging_desc :: "u32 \<Rightarrow> u32 \<Rightarrow> u32 \<Rightarrow> texture_desc" where
  "staging_desc wd ht fmt = zero_desc\<lparr>tex_width := wd, tex_height := ht, tex_mips := 1,
     tex_array := 1, tex_format := fmt, tex_samples := 1, tex_usage := USAGE_STAGING,
     tex_cpu := CPU_ACCESS_READ\<rparr>"

text \<open>The end of a creation that failed: what came back is released, the result is an error.\<close>

definition creation_failed ::
  "'w d3d_calls \<Rightarrow> int \<Rightarrow> nat \<Rightarrow> 'w readback_native \<Rightarrow> (int \<times> nat) \<times> 'w readback_native" where
  "creation_failed d result object n =
     ((if failed result then result else E_FAIL, 0),
      n\<lparr>native_com := snd (com_release d object (native_com n))\<rparr>)"

definition native_copy_region ::
  "'w d3d_calls \<Rightarrow> nat \<Rightarrow> u32 \<Rightarrow> u32 \<Rightarrow> u32 \<Rightarrow> u32 \<Rightarrow> 'w readback_native
    \<Rightarrow> (int \<times> nat) \<times> 'w readback_native" where
  "native_copy_region d source x y wd ht n =
     (if \<not> native_valid n \<or> source = 0 \<or> wd = 0 \<or> ht = 0
      then ((E_INVALIDARG, 0), refuse E_INVALIDARG n)
      else
        (let (desc, w) = d3d_get_desc d source (native_com n);
             n = n\<lparr>native_com := w\<rparr>
         in if native_format (tex_format desc) = 0 \<or> tex_array desc \<noteq> 1 \<or> tex_mips desc = 0
               \<or> tex_samples desc \<noteq> 1 \<or> x > tex_width desc \<or> y > tex_height desc
               \<or> wd > tex_width desc - x \<or> ht > tex_height desc - y
            then ((DXGI_UNSUPPORTED, 0), refuse DXGI_UNSUPPORTED n)
            else
              (let ((result, staged), w) =
                     d3d_create_texture d (native_device n) (staging_desc wd ht (tex_format desc))
                       (native_com n);
                   n = n\<lparr>native_com := w, native_hresult := result\<rparr>
               in if failed result \<or> staged = 0 then creation_failed d result staged n
                  else
                    (let box = \<lparr>box_left = x, box_top = y, box_front = 0, box_right = x + wd,
                                box_bottom = y + ht, box_back = 1\<rparr>
                     in ((D3D_OK, staged),
                         n\<lparr>native_com := com_copy_region d (native_context n) staged source box
                             (native_com n),
                           native_hresult := S_OK\<rparr>)))))"

definition native_end_event_query ::
  "'w d3d_calls \<Rightarrow> 'w readback_native \<Rightarrow> (int \<times> nat) \<times> 'w readback_native" where
  "native_end_event_query d n =
     (if \<not> native_valid n then ((E_INVALIDARG, 0), refuse E_INVALIDARG n)
      else
        (let ((result, q), w) =
               d3d_create_query d (native_device n) \<lparr>query_kind = QUERY_EVENT, query_misc = 0\<rparr>
                 (native_com n);
             n = n\<lparr>native_com := w, native_hresult := result\<rparr>
         in if failed result \<or> q = 0 then creation_failed d result q n
            else ((D3D_OK, q),
                  n\<lparr>native_com := d3d_end d (native_context n) q (native_com n),
                    native_hresult := S_OK\<rparr>)))"

definition native_get_event_data ::
  "'w d3d_calls \<Rightarrow> nat \<Rightarrow> 'w readback_native \<Rightarrow> int \<times> 'w readback_native" where
  "native_get_event_data d q n =
     (if \<not> native_valid n \<or> q = 0 then (E_INVALIDARG, refuse E_INVALIDARG n)
      else
        (let (result, w) = com_get_data d (native_context n) q (native_com n)
         in (result, n\<lparr>native_com := w, native_hresult := result\<rparr>)))"

definition native_map_staging ::
  "'w d3d_calls \<Rightarrow> nat \<Rightarrow> 'w readback_native
    \<Rightarrow> (int \<times> (nat \<Rightarrow> u8) option \<times> u64) \<times> 'w readback_native" where
  "native_map_staging d staged n =
     (if \<not> native_valid n \<or> staged = 0 then ((E_INVALIDARG, None, 0), refuse E_INVALIDARG n)
      else
        (let ((result, data, row_pitch), w) =
               com_map_texture d (native_context n) staged (native_com n);
             n = n\<lparr>native_com := w, native_hresult := result\<rparr>
         in if failed result then ((result, None, 0), n)
            else if data = None \<or> row_pitch = 0 then
              ((E_FAIL, None, 0),
               n\<lparr>native_com := com_unmap_texture d (native_context n) staged (native_com n),
                 native_hresult := E_FAIL\<rparr>)
            else ((D3D_OK, data, ucast row_pitch), n)))"

definition native_unmap_staging ::
  "'w d3d_calls \<Rightarrow> nat \<Rightarrow> 'w readback_native \<Rightarrow> 'w readback_native" where
  "native_unmap_staging d staged n =
     (if native_valid n \<and> staged \<noteq> 0
      then n\<lparr>native_com := com_unmap_texture d (native_context n) staged (native_com n)\<rparr> else n)"

definition native_release_staging ::
  "'w d3d_calls \<Rightarrow> nat \<Rightarrow> 'w readback_native \<Rightarrow> 'w readback_native" where
  "native_release_staging d staged n = n\<lparr>native_com := snd (com_release d staged (native_com n))\<rparr>"

definition native_release_query ::
  "'w d3d_calls \<Rightarrow> nat \<Rightarrow> 'w readback_native \<Rightarrow> 'w readback_native" where
  "native_release_query d q n = n\<lparr>native_com := snd (com_release d q (native_com n))\<rparr>"

definition record_removed_reason :: "int \<Rightarrow> int \<Rightarrow> int option \<Rightarrow> int option" where
  "record_removed_reason primary observed target = map_option (\<lambda>old. observed) target"

definition native_device_removed_reason ::
  "'w d3d_calls \<Rightarrow> 'w readback_native \<Rightarrow> int \<times> 'w readback_native" where
  "native_device_removed_reason d n =
     (if \<not> native_valid n then (E_INVALIDARG, n)
      else
        (let (result, w) = d3d_removed_reason d (native_device n) (native_com n)
         in (result, n\<lparr>native_com := w,
               native_reason := the (record_removed_reason (native_hresult n) result
                 (Some (native_reason n)))\<rparr>)))"

definition native_ops :: "'w d3d_calls \<Rightarrow> 'w readback_native raw_ops" where
  "native_ops d =
     \<lparr>raw_retain_source = Some (native_retain_source d),
      raw_release_source = Some (native_release_source d),
      raw_describe_source = Some (native_describe_source d),
      raw_copy_region = Some (native_copy_region d),
      raw_end_event_query = Some (native_end_event_query d),
      raw_get_event_data = Some (native_get_event_data d),
      raw_map_staging = Some (native_map_staging d),
      raw_unmap_staging = Some (native_unmap_staging d),
      raw_release_staging = Some (native_release_staging d),
      raw_release_query = Some (native_release_query d),
      raw_device_removed_reason = Some (native_device_removed_reason d)\<rparr>"

subsection \<open>Creation and destruction\<close>

type_synonym 'w native_readback = "'w readback_native readback_machine"

definition native_release_both :: "'w d3d_calls \<Rightarrow> 'w readback_native \<Rightarrow> 'w" where
  "native_release_both d n =
     (let w = snd (com_release d (native_context n) (native_com n))
      in snd (com_release d (native_device n) w))"

text \<open>What \<open>calloc\<close> and the allocation of the machine answer are the first arguments after the thread.\<close>

definition native_create ::
  "'w d3d_calls \<Rightarrow> u64 \<Rightarrow> bool \<Rightarrow> bool \<Rightarrow> nat \<Rightarrow> nat \<Rightarrow> u64 \<Rightarrow> u64 \<Rightarrow> 'w
    \<Rightarrow> 'w native_readback option \<times> 'w" where
  "native_create d tid alloc alloc_machine device context si rg w =
     (if device = 0 \<or> context = 0 \<or> si = 0 \<or> rg = 0 then (None, w)
      else
        (let (context_type, w) = d3d_context_type d context w
         in if context_type \<noteq> CONTEXT_IMMEDIATE then (None, w)
            else
              (let (context_device, w) = d3d_context_device d context w;
                   device_matches = (context_device \<noteq> 0 \<and> context_device = device);
                   w = snd (com_release d context_device w)
               in if \<not> device_matches \<or> \<not> alloc then (None, w)
                  else
                    (let w = snd (com_add_ref d device w);
                         w = snd (com_add_ref d context w);
                         n = \<lparr>native_magic = NATIVE_MAGIC, native_device = device,
                              native_context = context, native_machine = False,
                              native_hresult = S_OK, native_reason = 0, native_com = w\<rparr>
                     in case readback_create tid alloc_machine (Some (native_ops d)) n of
                          None \<Rightarrow> (None, native_release_both d n)
                        | Some m \<Rightarrow>
                            (let m = m\<lparr>world := (world m)\<lparr>native_machine := True\<rparr>\<rparr>;
                                 (ok, m) = readback_bind tid m si rg
                             in if ok then (Some m, native_com (world m))
                                else (None, native_release_both d
                                        (case readback_destroy tid m of
                                           (_, Inl n) \<Rightarrow> n
                                         | (_, Inr m) \<Rightarrow> world m)))))))"

definition native_destroy ::
  "'w d3d_calls \<Rightarrow> u64 \<Rightarrow> 'w native_readback \<Rightarrow> bool \<times> ('w + 'w native_readback)" where
  "native_destroy d tid m =
     (if \<not> native_valid (world m) then (False, Inr m)
      else case readback_destroy tid m of
        (True, Inl n) \<Rightarrow> (True, Inl (native_release_both d n))
      | (_, _) \<Rightarrow> (False, Inr m))"

subsection \<open>The entry points\<close>

definition native_stage_source ::
  "u64 \<Rightarrow> 'w native_readback \<Rightarrow> nat \<Rightarrow> u64 \<Rightarrow> u64 \<Rightarrow> u64 \<Rightarrow> u64 \<Rightarrow> u32 \<Rightarrow> u32 \<Rightarrow> u32
    \<Rightarrow> u32 \<Rightarrow> u32 \<Rightarrow> u64 \<Rightarrow> bool \<Rightarrow> bool \<times> 'w native_readback" where
  "native_stage_source tid m source req si rg slot gen x y wd ht frame resize_pending =
     (if \<not> native_valid (world m) \<or> source = 0 then (False, m)
      else
        (let m = m\<lparr>world := (world m)\<lparr>native_hresult := S_OK\<rparr>\<rparr>;
             (staged, m) =
               readback_stage tid m req si rg slot gen source x y wd ht frame resize_pending
         in if \<not> staged \<and> failed (native_hresult (world m))
            then (staged, snd (readback_notify_failure tid m si rg 1)) else (staged, m)))"

definition native_stage_window ::
  "'w d3d_calls \<Rightarrow> u64 \<Rightarrow> 'w native_readback \<Rightarrow> nat \<Rightarrow> u64 \<Rightarrow> u64 \<Rightarrow> u64 \<Rightarrow> u64 \<Rightarrow> u32
    \<Rightarrow> u32 \<Rightarrow> u32 \<Rightarrow> u32 \<Rightarrow> u32 \<Rightarrow> u64 \<Rightarrow> bool \<Rightarrow> bool \<times> 'w native_readback" where
  "native_stage_window d tid m swapchain req si rg slot gen x y wd ht frame resize_pending =
     (if \<not> native_valid (world m) \<or> \<not> readback_is_owner tid m \<or> swapchain = 0 then (False, m)
      else
        (let ((result, source), w) = com_swapchain_buffer d swapchain (native_com (world m));
             m = m\<lparr>world := (world m)\<lparr>native_com := w, native_hresult := result\<rparr>\<rparr>
         in if failed result \<or> source = 0 then
              (let m = m\<lparr>world := native_release_source d source (world m)\<rparr>
               in (False, snd (readback_notify_failure tid m si rg 1)))
            else
              (let (staged, m) =
                     native_stage_source tid m source req si rg slot gen x y wd ht frame
                       resize_pending
               in (staged, m\<lparr>world := native_release_source d source (world m)\<rparr>))))"

definition native_stage_image ::
  "u64 \<Rightarrow> 'w native_readback \<Rightarrow> nat \<Rightarrow> u64 \<Rightarrow> u64 \<Rightarrow> u64 \<Rightarrow> u64 \<Rightarrow> u32 \<Rightarrow> u32 \<Rightarrow> u32
    \<Rightarrow> u32 \<Rightarrow> u32 \<Rightarrow> u64 \<Rightarrow> bool \<Rightarrow> bool \<times> 'w native_readback" where
  "native_stage_image tid m texture req si rg slot gen x y wd ht frame resize_pending =
     native_stage_source tid m texture req si rg slot gen x y wd ht frame resize_pending"

definition native_resolve ::
  "u64 \<Rightarrow> 'w native_readback \<Rightarrow> u64 \<Rightarrow> u32 \<Rightarrow> u64 \<Rightarrow> int \<Rightarrow> int \<Rightarrow> bool \<times> 'w native_readback"
where
  "native_resolve tid m slot gen frame succeeded origin =
     (if native_valid (world m) then readback_resolve tid m slot gen frame succeeded origin
      else (False, m))"

definition native_resize_submitted :: "u64 \<Rightarrow> 'w native_readback \<Rightarrow> u64 \<Rightarrow> u32 \<Rightarrow> bool" where
  "native_resize_submitted tid m slot gen =
     (native_valid (world m) \<and> readback_resize_submitted tid m slot gen)"

definition native_notify_failure ::
  "u64 \<Rightarrow> 'w native_readback \<Rightarrow> u64 \<Rightarrow> u64 \<Rightarrow> int \<Rightarrow> bool \<times> 'w native_readback" where
  "native_notify_failure tid m si rg origin =
     (if native_valid (world m) then readback_notify_failure tid m si rg origin else (False, m))"

definition native_poll ::
  "(nat \<Rightarrow> (nat \<Rightarrow> u8) option) \<Rightarrow> u64 \<Rightarrow> 'w native_readback \<Rightarrow> bool \<times> 'w native_readback" where
  "native_poll alloc tid m =
     (if native_valid (world m) then readback_poll alloc tid m else (False, m))"

definition native_take ::
  "u64 \<Rightarrow> 'w native_readback \<Rightarrow> readback_result option \<times> 'w native_readback" where
  "native_take tid m = (if native_valid (world m) then readback_take tid m else (None, m))"

definition native_copy ::
  "u64 \<Rightarrow> 'w native_readback \<Rightarrow> u64 \<Rightarrow> u8 list option \<Rightarrow> u64
    \<Rightarrow> u8 list option \<times> 'w native_readback" where
  "native_copy tid m req dest capacity =
     (if native_valid (world m) then readback_copy tid m req dest capacity else (None, m))"

definition native_release :: "u64 \<Rightarrow> 'w native_readback \<Rightarrow> u64 \<Rightarrow> bool \<times> 'w native_readback" where
  "native_release tid m req =
     (if native_valid (world m) then readback_release tid m req else (False, m))"

definition native_cancel :: "u64 \<Rightarrow> 'w native_readback \<Rightarrow> u64 \<Rightarrow> bool \<times> 'w native_readback" where
  "native_cancel tid m req =
     (if native_valid (world m) then readback_cancel tid m req else (False, m))"

definition native_quiesce_window ::
  "u64 \<Rightarrow> 'w native_readback \<Rightarrow> u64 \<Rightarrow> u32 \<Rightarrow> nat \<times> 'w native_readback" where
  "native_quiesce_window tid m slot gen =
     (if native_valid (world m) then readback_quiesce_window tid m slot gen else (0, m))"

definition native_restart ::
  "u64 \<Rightarrow> 'w native_readback \<Rightarrow> u64 \<Rightarrow> u64 \<Rightarrow> bool \<times> 'w native_readback" where
  "native_restart tid m si rg =
     (if native_valid (world m) then readback_restart tid m si rg else (False, m))"

definition native_stop :: "u64 \<Rightarrow> 'w native_readback \<Rightarrow> bool \<times> 'w native_readback" where
  "native_stop tid m = (if native_valid (world m) then readback_stop tid m else (False, m))"

definition native_active :: "u64 \<Rightarrow> 'w native_readback \<Rightarrow> nat" where
  "native_active tid m = (if native_valid (world m) then readback_active tid m else 0)"

definition native_last_hresult :: "'w native_readback \<Rightarrow> int" where
  "native_last_hresult m =
     (if native_valid (world m) then native_hresult (world m) else E_INVALIDARG)"

definition native_last_reason :: "'w native_readback \<Rightarrow> int" where
  "native_last_reason m =
     (if native_valid (world m) then native_reason (world m) else E_INVALIDARG)"

subsection \<open>Sequences of calls\<close>

datatype native_call =
    Stage_window nat u64 u64 u64 u64 u32 u32 u32 u32 u32 u64 bool
  | Stage_image nat u64 u64 u64 u64 u32 u32 u32 u32 u32 u64 bool
  | Native_resolve u64 u32 u64 int int
  | Native_notify u64 u64 int
  | Native_poll "nat \<Rightarrow> (nat \<Rightarrow> u8) option"
  | Native_take
  | Native_copy u64 "u8 list option" u64
  | Native_release u64
  | Native_cancel u64
  | Native_quiesce u64 u32
  | Native_restart u64 u64
  | Native_stop

fun native_exec ::
  "'w d3d_calls \<Rightarrow> u64 \<Rightarrow> native_call \<Rightarrow> 'w native_readback \<Rightarrow> 'w native_readback" where
  "native_exec d tid (Stage_window sc req si rg slot gen x y wd ht frame rz) m =
     snd (native_stage_window d tid m sc req si rg slot gen x y wd ht frame rz)" |
  "native_exec d tid (Stage_image tex req si rg slot gen x y wd ht frame rz) m =
     snd (native_stage_image tid m tex req si rg slot gen x y wd ht frame rz)" |
  "native_exec d tid (Native_resolve slot gen frame ok origin) m =
     snd (native_resolve tid m slot gen frame ok origin)" |
  "native_exec d tid (Native_notify si rg origin) m =
     snd (native_notify_failure tid m si rg origin)" |
  "native_exec d tid (Native_poll alloc) m = snd (native_poll alloc tid m)" |
  "native_exec d tid Native_take m = snd (native_take tid m)" |
  "native_exec d tid (Native_copy req dest cap) m = snd (native_copy tid m req dest cap)" |
  "native_exec d tid (Native_release req) m = snd (native_release tid m req)" |
  "native_exec d tid (Native_cancel req) m = snd (native_cancel tid m req)" |
  "native_exec d tid (Native_quiesce slot gen) m = snd (native_quiesce_window tid m slot gen)" |
  "native_exec d tid (Native_restart si rg) m = snd (native_restart tid m si rg)" |
  "native_exec d tid Native_stop m = snd (native_stop tid m)"

end
