(* ===== verification/Readback_Native_Laws.thy ===== *)
theory Readback_Native_Laws
  imports Readback_Native Readback_Ledger
begin

text \<open>
  References. What Direct3D documents is stated over a view of its world: how many references of each
  object this code holds, which textures and queries it has created and not yet given back, and the
  description of each texture. Every use of an object is only specified for one that is held and in the
  way the documentation allows: a box inside the source and as large as the destination, a map of a
  staging texture that may be read. From these laws follows the contract \<open>d3d11_handles\<close> that the
  machine relies on.
\<close>

subsection \<open>What Direct3D documents\<close>

record 'w d3d_view =
  v_sound :: "'w \<Rightarrow> bool"
  v_held :: "'w \<Rightarrow> nat \<Rightarrow> int"
  v_textures :: "'w \<Rightarrow> nat set"
  v_queries :: "'w \<Rightarrow> nat set"
  v_desc :: "'w \<Rightarrow> nat \<Rightarrow> texture_desc"

definition d3d_unchanged :: "'w d3d_view \<Rightarrow> 'w \<Rightarrow> 'w \<Rightarrow> bool" where
  "d3d_unchanged v w w' \<longleftrightarrow> v_sound v w' \<and> v_held v w' = v_held v w
     \<and> v_textures v w' = v_textures v w \<and> v_queries v w' = v_queries v w \<and> v_desc v w' = v_desc v w"

definition d3d_made :: "'w d3d_view \<Rightarrow> 'w \<Rightarrow> nat set" where
  "d3d_made v w = v_textures v w \<union> v_queries v w"

text \<open>A pointer that comes back holds one reference, a null pointer none; an object the caller is only
  lent is not one that the caller has created.\<close>

definition d3d_lent :: "'w d3d_view \<Rightarrow> nat \<Rightarrow> 'w \<Rightarrow> 'w \<Rightarrow> bool" where
  "d3d_lent v obj w w' \<longleftrightarrow>
     (if obj = 0 then d3d_unchanged v w w'
      else obj \<notin> d3d_made v w \<and> v_sound v w' \<and> v_held v w' = (v_held v w)(obj := v_held v w obj + 1)
        \<and> v_textures v w' = v_textures v w \<and> v_queries v w' = v_queries v w
        \<and> v_desc v w' = v_desc v w)"

definition d3d_dropped :: "'w d3d_view \<Rightarrow> nat \<Rightarrow> 'w \<Rightarrow> 'w \<Rightarrow> bool" where
  "d3d_dropped v obj w w' \<longleftrightarrow>
     v_sound v w' \<and> v_held v w' = (v_held v w)(obj := v_held v w obj - 1)
     \<and> v_textures v w' = v_textures v w - (if v_held v w obj = 1 then {obj} else {})
     \<and> v_queries v w' = v_queries v w - (if v_held v w obj = 1 then {obj} else {})
     \<and> v_desc v w' = v_desc v w"

definition count_laws :: "'w d3d_calls \<Rightarrow> 'w d3d_view \<Rightarrow> 'w \<Rightarrow> bool" where
  "count_laws d v w \<longleftrightarrow>
     ((\<forall>obj. 0 \<le> v_held v w obj) \<and> v_held v w 0 = 0) \<and>
     (\<forall>obj. obj \<noteq> 0 \<and> obj \<notin> d3d_made v w \<longrightarrow> d3d_lent v obj w (snd (d3d_add_ref d obj w))) \<and>
     (\<forall>obj. obj \<noteq> 0 \<and> 0 < v_held v w obj \<longrightarrow> d3d_dropped v obj w (snd (d3d_release d obj w))) \<and>
     (\<forall>t. case d3d_texture_device d t w of (dev, w') \<Rightarrow> d3d_lent v dev w w') \<and>
     (\<forall>c. case d3d_context_device d c w of (dev, w') \<Rightarrow> d3d_lent v dev w w') \<and>
     (\<forall>sc. case dxgi_get_buffer d sc 0 iid_texture2d w of ((res, t), w') \<Rightarrow> d3d_lent v t w w')"

definition texture_made :: "'w d3d_view \<Rightarrow> texture_desc \<Rightarrow> nat \<Rightarrow> 'w \<Rightarrow> 'w \<Rightarrow> bool" where
  "texture_made v desc h w w' \<longleftrightarrow>
     (if h = 0 then d3d_unchanged v w w'
      else v_held v w h = 0 \<and> h \<notin> d3d_made v w \<and> v_sound v w' \<and> v_held v w' = (v_held v w)(h := 1)
        \<and> v_textures v w' = insert h (v_textures v w) \<and> v_queries v w' = v_queries v w
        \<and> v_desc v w' = (v_desc v w)(h := desc))"

definition query_made :: "'w d3d_view \<Rightarrow> nat \<Rightarrow> 'w \<Rightarrow> 'w \<Rightarrow> bool" where
  "query_made v h w w' \<longleftrightarrow>
     (if h = 0 then d3d_unchanged v w w'
      else v_held v w h = 0 \<and> h \<notin> d3d_made v w \<and> v_sound v w' \<and> v_held v w' = (v_held v w)(h := 1)
        \<and> v_queries v w' = insert h (v_queries v w) \<and> v_textures v w' = v_textures v w
        \<and> v_desc v w' = v_desc v w)"

definition creation_laws :: "'w d3d_calls \<Rightarrow> 'w d3d_view \<Rightarrow> 'w \<Rightarrow> bool" where
  "creation_laws d v w \<longleftrightarrow>
     (\<forall>dev desc. 0 < v_held v w dev \<longrightarrow> (case d3d_create_texture d dev desc w of ((res, h), w') \<Rightarrow>
        texture_made v desc h w w')) \<and>
     (\<forall>dev desc. 0 < v_held v w dev \<longrightarrow> (case d3d_create_query d dev desc w of ((res, h), w') \<Rightarrow>
        query_made v h w w'))"

definition box_fits :: "texture_desc \<Rightarrow> texture_desc \<Rightarrow> d3d_box \<Rightarrow> bool" where
  "box_fits src dst b \<longleftrightarrow>
     unat (box_left b) < unat (box_right b) \<and> unat (box_right b) \<le> unat (tex_width src)
     \<and> unat (box_top b) < unat (box_bottom b) \<and> unat (box_bottom b) \<le> unat (tex_height src)
     \<and> box_front b = 0 \<and> box_back b = 1
     \<and> tex_width dst = box_right b - box_left b \<and> tex_height dst = box_bottom b - box_top b
     \<and> tex_format dst = tex_format src \<and> tex_samples dst = tex_samples src"

definition readable_staging :: "texture_desc \<Rightarrow> bool" where
  "readable_staging desc \<longleftrightarrow> tex_usage desc = USAGE_STAGING \<and> tex_cpu desc = CPU_ACCESS_READ"

definition use_laws :: "'w d3d_calls \<Rightarrow> 'w d3d_view \<Rightarrow> 'w \<Rightarrow> bool" where
  "use_laws d v w \<longleftrightarrow>
     (\<forall>t. case d3d_get_desc d t w of (desc, w') \<Rightarrow> desc = v_desc v w t \<and> d3d_unchanged v w w') \<and>
     (\<forall>c. d3d_unchanged v w (snd (d3d_context_type d c w))) \<and>
     (\<forall>dev. 0 < v_held v w dev \<longrightarrow> d3d_unchanged v w (snd (d3d_removed_reason d dev w))) \<and>
     (\<forall>c dst src b. 0 < v_held v w c \<and> dst \<in> v_textures v w
        \<and> box_fits (v_desc v w src) (v_desc v w dst) b \<longrightarrow>
        d3d_unchanged v w (com_copy_region d c dst src b w)) \<and>
     (\<forall>c q. 0 < v_held v w c \<and> q \<in> v_queries v w \<longrightarrow>
        d3d_unchanged v w (d3d_end d c q w) \<and> d3d_unchanged v w (snd (com_get_data d c q w))) \<and>
     (\<forall>c t. 0 < v_held v w c \<and> t \<in> v_textures v w \<and> readable_staging (v_desc v w t) \<longrightarrow>
        d3d_unchanged v w (snd (com_map_texture d c t w)) \<and>
        d3d_unchanged v w (com_unmap_texture d c t w))"

definition d3d_laws :: "'w d3d_calls \<Rightarrow> 'w d3d_view \<Rightarrow> bool" where
  "d3d_laws d v \<longleftrightarrow>
     (\<forall>w. v_sound v w \<longrightarrow> count_laws d v w \<and> creation_laws d v w \<and> use_laws d v w)"

text \<open>The laws as rules.\<close>

lemma count_law:
  assumes "d3d_laws d v" "v_sound v w"
  shows "0 \<le> v_held v w obj" and "v_held v w 0 = 0"
    and "obj \<noteq> 0 \<and> obj \<notin> d3d_made v w \<longrightarrow> d3d_lent v obj w (snd (d3d_add_ref d obj w))"
    and "obj \<noteq> 0 \<and> 0 < v_held v w obj \<longrightarrow> d3d_dropped v obj w (snd (d3d_release d obj w))"
    and "case d3d_texture_device d t w of (dev, w') \<Rightarrow> d3d_lent v dev w w'"
    and "case d3d_context_device d c w of (dev, w') \<Rightarrow> d3d_lent v dev w w'"
    and "case dxgi_get_buffer d sc 0 iid_texture2d w of ((res, b), w') \<Rightarrow> d3d_lent v b w w'"
proof -
  have "count_laws d v w" using assms by (simp add: d3d_laws_def)
  note law = this [unfolded count_laws_def]
  show "0 \<le> v_held v w obj" by (rule spec [OF conjunct1 [OF conjunct1 [OF law]]])
  show "v_held v w 0 = 0" by (rule conjunct2 [OF conjunct1 [OF law]])
  note law = law [THEN conjunct2]
  show "obj \<noteq> 0 \<and> obj \<notin> d3d_made v w \<longrightarrow> d3d_lent v obj w (snd (d3d_add_ref d obj w))"
    by (rule spec [OF conjunct1 [OF law]])
  note law = law [THEN conjunct2]
  show "obj \<noteq> 0 \<and> 0 < v_held v w obj \<longrightarrow> d3d_dropped v obj w (snd (d3d_release d obj w))"
    by (rule spec [OF conjunct1 [OF law]])
  note law = law [THEN conjunct2]
  show "case d3d_texture_device d t w of (dev, w') \<Rightarrow> d3d_lent v dev w w'"
    by (rule spec [OF conjunct1 [OF law]])
  note law = law [THEN conjunct2]
  show "case d3d_context_device d c w of (dev, w') \<Rightarrow> d3d_lent v dev w w'"
    by (rule spec [OF conjunct1 [OF law]])
  show "case dxgi_get_buffer d sc 0 iid_texture2d w of ((res, b), w') \<Rightarrow> d3d_lent v b w w'"
    by (rule spec [OF conjunct2 [OF law]])
qed

lemma use_law:
  assumes "d3d_laws d v" "v_sound v w"
  shows "case d3d_get_desc d t w of (desc, w') \<Rightarrow> desc = v_desc v w t \<and> d3d_unchanged v w w'"
    and "d3d_unchanged v w (snd (d3d_context_type d c w))"
    and "0 < v_held v w dev \<longrightarrow> d3d_unchanged v w (snd (d3d_removed_reason d dev w))"
    and "0 < v_held v w c \<and> dst \<in> v_textures v w \<and> box_fits (v_desc v w src) (v_desc v w dst) b \<longrightarrow>
      d3d_unchanged v w (com_copy_region d c dst src b w)"
    and "0 < v_held v w c \<and> q \<in> v_queries v w \<longrightarrow>
      d3d_unchanged v w (d3d_end d c q w) \<and> d3d_unchanged v w (snd (com_get_data d c q w))"
    and "0 < v_held v w c \<and> t \<in> v_textures v w \<and> readable_staging (v_desc v w t) \<longrightarrow>
      d3d_unchanged v w (snd (com_map_texture d c t w)) \<and>
      d3d_unchanged v w (com_unmap_texture d c t w)"
proof -
  have "use_laws d v w" using assms by (simp add: d3d_laws_def)
  note law = this [unfolded use_laws_def]
  show "case d3d_get_desc d t w of (desc, w') \<Rightarrow> desc = v_desc v w t \<and> d3d_unchanged v w w'"
    by (rule spec [OF conjunct1 [OF law]])
  note law = law [THEN conjunct2]
  show "d3d_unchanged v w (snd (d3d_context_type d c w))" by (rule spec [OF conjunct1 [OF law]])
  note law = law [THEN conjunct2]
  show "0 < v_held v w dev \<longrightarrow> d3d_unchanged v w (snd (d3d_removed_reason d dev w))"
    by (rule spec [OF conjunct1 [OF law]])
  note law = law [THEN conjunct2]
  show "0 < v_held v w c \<and> dst \<in> v_textures v w \<and> box_fits (v_desc v w src) (v_desc v w dst) b \<longrightarrow>
      d3d_unchanged v w (com_copy_region d c dst src b w)"
    by (rule conjunct1 [OF law, THEN spec, THEN spec, THEN spec, THEN spec])
  note law = law [THEN conjunct2]
  show "0 < v_held v w c \<and> q \<in> v_queries v w \<longrightarrow>
      d3d_unchanged v w (d3d_end d c q w) \<and> d3d_unchanged v w (snd (com_get_data d c q w))"
    by (rule conjunct1 [OF law, THEN spec, THEN spec])
  show "0 < v_held v w c \<and> t \<in> v_textures v w \<and> readable_staging (v_desc v w t) \<longrightarrow>
      d3d_unchanged v w (snd (com_map_texture d c t w)) \<and>
      d3d_unchanged v w (com_unmap_texture d c t w)"
    by (rule conjunct2 [OF law, THEN spec, THEN spec])
qed

lemma creation_law:
  assumes "d3d_laws d v" "v_sound v w"
  shows "0 < v_held v w dev \<longrightarrow> (case d3d_create_texture d dev desc w of ((res, h), w') \<Rightarrow>
        texture_made v desc h w w')"
    and "0 < v_held v w dev \<longrightarrow> (case d3d_create_query d dev qdesc w of ((res, h), w') \<Rightarrow>
        query_made v h w w')"
proof -
  have "creation_laws d v w" using assms by (simp add: d3d_laws_def)
  note law = this [unfolded creation_laws_def]
  show "0 < v_held v w dev \<longrightarrow> (case d3d_create_texture d dev desc w of ((res, h), w') \<Rightarrow>
        texture_made v desc h w w')"
    by (rule conjunct1 [OF law, THEN spec, THEN spec])
  show "0 < v_held v w dev \<longrightarrow> (case d3d_create_query d dev qdesc w of ((res, h), w') \<Rightarrow>
        query_made v h w w')"
    by (rule conjunct2 [OF law, THEN spec, THEN spec])
qed

lemma add_ref_lent:
  "d3d_laws d v \<Longrightarrow> v_sound v w \<Longrightarrow> obj \<noteq> 0 \<Longrightarrow> obj \<notin> d3d_made v w \<Longrightarrow>
   d3d_lent v obj w (snd (com_add_ref d obj w))"
  using count_law(3) [of d v w obj] by (simp add: com_add_ref_def)

lemma release_drops:
  "d3d_laws d v \<Longrightarrow> v_sound v w \<Longrightarrow> obj \<noteq> 0 \<Longrightarrow> 0 < v_held v w obj \<Longrightarrow>
   d3d_dropped v obj w (snd (com_release d obj w))"
  using count_law(4) [of d v w obj] by (simp add: com_release_def)

lemma buffer_lent:
  "d3d_laws d v \<Longrightarrow> v_sound v w \<Longrightarrow> com_swapchain_buffer d sc w = ((res, t), w') \<Longrightarrow> d3d_lent v t w w'"
  using count_law(7) [of d v w sc] by (simp add: com_swapchain_buffer_def)

subsection \<open>The view of the native object\<close>

text \<open>The object's own references: one of the device, one of the context.\<close>

definition own_refs :: "nat \<Rightarrow> nat \<Rightarrow> nat \<Rightarrow> int" where
  "own_refs device context obj = of_bool (obj = device) + of_bool (obj = context)"

lemma own_refs_pos: "0 \<le> own_refs a b obj" by (simp add: own_refs_def)

lemma own_refs_self: "0 < own_refs a b a" "0 < own_refs a b b" by (simp_all add: own_refs_def)

abbreviation own :: "'w readback_native \<Rightarrow> nat \<Rightarrow> int" where
  "own n \<equiv> own_refs (native_device n) (native_context n)"

definition native_good :: "'w d3d_view \<Rightarrow> 'w readback_native \<Rightarrow> bool" where
  "native_good v n \<longleftrightarrow> native_valid n \<and> v_sound v (native_com n)
     \<and> native_device n \<notin> d3d_made v (native_com n) \<and> native_context n \<notin> d3d_made v (native_com n)
     \<and> 0 \<notin> d3d_made v (native_com n)
     \<and> v_textures v (native_com n) \<inter> v_queries v (native_com n) = {}
     \<and> (\<forall>obj \<in> d3d_made v (native_com n). v_held v (native_com n) obj = 1)
     \<and> (\<forall>obj. obj \<notin> d3d_made v (native_com n) \<longrightarrow> own n obj \<le> v_held v (native_com n) obj)
     \<and> (\<forall>t \<in> v_textures v (native_com n). readable_staging (v_desc v (native_com n) t))"

definition native_refs :: "'w d3d_view \<Rightarrow> 'w readback_native \<Rightarrow> nat \<Rightarrow> int" where
  "native_refs v n obj = (if obj \<in> d3d_made v (native_com n) then 0
     else v_held v (native_com n) obj - own n obj)"

text \<open>A step that leaves the object and all counts as they are.\<close>

definition same_object :: "'w readback_native \<Rightarrow> 'w readback_native \<Rightarrow> bool" where
  "same_object n n' \<longleftrightarrow> native_magic n' = native_magic n \<and> native_device n' = native_device n
     \<and> native_context n' = native_context n \<and> native_machine n' = native_machine n"

abbreviation textures :: "'w d3d_view \<Rightarrow> 'w readback_native \<Rightarrow> nat set" where
  "textures v n \<equiv> v_textures v (native_com n)"

abbreviation events :: "'w d3d_view \<Rightarrow> 'w readback_native \<Rightarrow> nat set" where
  "events v n \<equiv> v_queries v (native_com n)"

definition native_kept :: "'w d3d_view \<Rightarrow> 'w readback_native \<Rightarrow> 'w readback_native \<Rightarrow> bool" where
  "native_kept v n n' \<longleftrightarrow> native_good v n' \<and> textures v n' = textures v n \<and> events v n' = events v n
     \<and> native_refs v n' = native_refs v n"

lemma good_held:
  assumes "native_good v n"
  shows "0 < v_held v (native_com n) (native_device n)" "0 < v_held v (native_com n) (native_context n)"
proof -
  have "own n obj \<le> v_held v (native_com n) obj" if "obj = native_device n \<or> obj = native_context n" for obj
    using assms that by (auto simp: native_good_def)
  then show "0 < v_held v (native_com n) (native_device n)"
    "0 < v_held v (native_com n) (native_context n)"
    by (smt (verit, best) own_refs_self)+
qed

lemma unchanged_kept:
  assumes "native_good v n" "same_object n n'" "d3d_unchanged v (native_com n) (native_com n')"
  shows "native_kept v n n'"
  using assms
  by (simp add: native_kept_def native_good_def native_refs_def d3d_unchanged_def same_object_def
      native_valid_def d3d_made_def fun_eq_iff)

lemma kept_refl: "native_good v n \<Longrightarrow> native_kept v n n"
  by (simp add: native_kept_def)

lemma kept_trans: "native_kept v a b \<Longrightarrow> native_kept v b c \<Longrightarrow> native_kept v a c"
  by (simp add: native_kept_def)

text \<open>Codes that are kept for later do not matter.\<close>

lemma kept_fields:
  assumes "native_kept v n n'" "same_object n' n''" "native_com n'' = native_com n'"
  shows "native_kept v n n''"
proof -
  have good: "native_good v n'" using assms(1) by (simp add: native_kept_def)
  then have "d3d_unchanged v (native_com n') (native_com n'')"
    using assms(3) by (simp add: d3d_unchanged_def native_good_def)
  with good assms(2) have "native_kept v n' n''" by (rule unchanged_kept)
  with assms(1) show ?thesis by (rule kept_trans)
qed

lemma same_object_simps [simp]:
  "same_object n n"
  "same_object n (n\<lparr>native_com := w\<rparr>)" "same_object n (n\<lparr>native_hresult := r\<rparr>)"
  "same_object n (n\<lparr>native_com := w, native_hresult := r\<rparr>)"
  "same_object n (n\<lparr>native_com := w, native_reason := r\<rparr>)" "same_object n (refuse r n)"
  "native_com (refuse r n) = native_com n"
  by (simp_all add: same_object_def refuse_def)

subsection \<open>References that come and go\<close>

lemma not_made: "native_good v n \<Longrightarrow> 0 < native_refs v n obj \<Longrightarrow> obj \<notin> d3d_made v (native_com n)"
  by (simp add: native_refs_def split: if_splits)

lemma gained_good:
  assumes good: "native_good v n" and lent: "d3d_lent v obj (native_com n) w" and obj: "obj \<noteq> 0"
  shows "native_good v (n\<lparr>native_com := w\<rparr>)"
    and "textures v (n\<lparr>native_com := w\<rparr>) = textures v n" and "events v (n\<lparr>native_com := w\<rparr>) = events v n"
    and "native_refs v (n\<lparr>native_com := w\<rparr>) = (native_refs v n)(obj := native_refs v n obj + 1)"
    and "0 < native_refs v (n\<lparr>native_com := w\<rparr>) obj"
proof -
  have made: "d3d_made v w = d3d_made v (native_com n)" and o: "obj \<notin> d3d_made v (native_com n)"
    using lent obj by (simp_all add: d3d_lent_def d3d_made_def)
  have own: "own n obj \<le> v_held v (native_com n) obj" using good o by (simp add: native_good_def)
  show "native_good v (n\<lparr>native_com := w\<rparr>)"
    using good lent obj o by (auto simp: native_good_def d3d_lent_def made native_valid_def)
  show "textures v (n\<lparr>native_com := w\<rparr>) = textures v n" "events v (n\<lparr>native_com := w\<rparr>) = events v n"
    using lent obj by (simp_all add: d3d_lent_def)
  show "native_refs v (n\<lparr>native_com := w\<rparr>) = (native_refs v n)(obj := native_refs v n obj + 1)"
    using lent obj o by (auto simp: native_refs_def d3d_lent_def made)
  show "0 < native_refs v (n\<lparr>native_com := w\<rparr>) obj"
    using lent obj o own by (simp add: native_refs_def d3d_lent_def made)
qed

lemma dropped_good:
  assumes good: "native_good v n" and dropped: "d3d_dropped v obj (native_com n) w"
    and pos: "0 < native_refs v n obj"
  shows "native_good v (n\<lparr>native_com := w\<rparr>)"
    and "textures v (n\<lparr>native_com := w\<rparr>) = textures v n" and "events v (n\<lparr>native_com := w\<rparr>) = events v n"
    and "native_refs v (n\<lparr>native_com := w\<rparr>) = (native_refs v n)(obj := native_refs v n obj - 1)"
proof -
  have o: "obj \<notin> d3d_made v (native_com n)" using good pos by (rule not_made)
  then have views: "v_textures v w = textures v n" "v_queries v w = events v n"
    using dropped by (auto simp: d3d_dropped_def d3d_made_def)
  then have made: "d3d_made v w = d3d_made v (native_com n)" by (simp add: d3d_made_def)
  have own: "own n obj < v_held v (native_com n) obj" using pos o by (simp add: native_refs_def)
  show "native_good v (n\<lparr>native_com := w\<rparr>)"
    using good dropped o own
    by (auto simp: native_good_def d3d_dropped_def made views native_valid_def)
  show "textures v (n\<lparr>native_com := w\<rparr>) = textures v n" "events v (n\<lparr>native_com := w\<rparr>) = events v n"
    using views by simp_all
  show "native_refs v (n\<lparr>native_com := w\<rparr>) = (native_refs v n)(obj := native_refs v n obj - 1)"
    using dropped o by (auto simp: native_refs_def d3d_dropped_def made)
qed

text \<open>An object that was created and given back.\<close>

lemma handed_back_good:
  assumes good: "native_good v n" and dropped: "d3d_dropped v obj (native_com n) w"
    and made: "obj \<in> d3d_made v (native_com n)"
  shows "native_good v (n\<lparr>native_com := w\<rparr>)"
    and "textures v (n\<lparr>native_com := w\<rparr>) = textures v n - {obj}"
    and "events v (n\<lparr>native_com := w\<rparr>) = events v n - {obj}"
    and "native_refs v (n\<lparr>native_com := w\<rparr>) = native_refs v n"
proof -
  have one: "v_held v (native_com n) obj = 1" using good made by (simp add: native_good_def)
  then have views: "v_textures v w = textures v n - {obj}" "v_queries v w = events v n - {obj}"
    using dropped by (auto simp: d3d_dropped_def)
  then have rest: "d3d_made v w = d3d_made v (native_com n) - {obj}" by (auto simp: d3d_made_def)
  have own: "own n obj = 0" using good made by (auto simp: native_good_def own_refs_def)
  show "native_good v (n\<lparr>native_com := w\<rparr>)"
    using good dropped one own
    by (auto simp: native_good_def d3d_dropped_def rest views native_valid_def)
  show "textures v (n\<lparr>native_com := w\<rparr>) = textures v n - {obj}"
    "events v (n\<lparr>native_com := w\<rparr>) = events v n - {obj}" using views by simp_all
  show "native_refs v (n\<lparr>native_com := w\<rparr>) = native_refs v n"
  proof (rule ext)
    fix x show "native_refs v (n\<lparr>native_com := w\<rparr>) x = native_refs v n x"
      using dropped made one own
      by (cases "x = obj") (simp_all add: native_refs_def d3d_dropped_def rest)
  qed
qed

text \<open>A lent pointer that is given back at once.\<close>

lemma lent_and_released:
  assumes laws: "d3d_laws d v" and good: "native_good v n" and lent: "d3d_lent v obj (native_com n) w"
  shows "native_kept v n (n\<lparr>native_com := snd (com_release d obj w)\<rparr>)"
proof (cases "obj = 0")
  case True
  with lent have "d3d_unchanged v (native_com n) w" by (simp add: d3d_lent_def)
  with good show ?thesis by (simp add: com_release_def True unchanged_kept)
next
  case False
  note g = gained_good [OF good lent False]
  have "own n obj < v_held v w obj" using g(5) not_made [OF g(1,5)] by (simp add: native_refs_def)
  then have "0 < v_held v w obj" using own_refs_pos [of "native_device n" "native_context n" obj] by linarith
  then have "d3d_dropped v obj w (snd (com_release d obj w))"
    using release_drops [OF laws _ False] g(1) by (simp add: native_good_def)
  from dropped_good [OF g(1) _ g(5), of "snd (com_release d obj w)"] this show ?thesis
    using g by (simp add: native_kept_def fun_eq_iff)
qed

subsection \<open>The operations under the laws\<close>

lemma good_sound: "native_good v n \<Longrightarrow> v_sound v (native_com n)"
  by (simp add: native_good_def)

lemma refuse_kept: "native_kept v n n' \<Longrightarrow> native_kept v n (refuse r n')"
  by (erule kept_fields) simp_all

lemma matches_kept:
  assumes laws: "d3d_laws d v" and good: "native_good v n"
    and run: "source_device_matches d n texture = (ok, n')"
  shows "native_kept v n n'"
proof -
  obtain dev w where dev: "d3d_texture_device d texture (native_com n) = (dev, w)" by fastforce
  from lent_and_released [OF laws good count_law(5) [OF laws good_sound [OF good], of texture, unfolded dev prod.case]] run
  show ?thesis by (auto simp: source_device_matches_def dev Let_def)
qed

lemma get_desc_law:
  assumes "d3d_laws d v" "native_good v n" "d3d_get_desc d t (native_com n) = (desc, w)"
  shows "desc = v_desc v (native_com n) t" "native_kept v n (n\<lparr>native_com := w\<rparr>)"
    "v_desc v w = v_desc v (native_com n)"
proof -
  have u: "desc = v_desc v (native_com n) t \<and> d3d_unchanged v (native_com n) w"
    using use_law(1) [OF assms(1) good_sound [OF assms(2)], of t] by (simp add: assms(3))
  then show "desc = v_desc v (native_com n) t" "v_desc v w = v_desc v (native_com n)"
    by (simp_all add: d3d_unchanged_def)
  show "native_kept v n (n\<lparr>native_com := w\<rparr>)" using u assms(2) by (simp add: unchanged_kept)
qed

lemma describe_kept:
  assumes laws: "d3d_laws d v" and good: "native_good v n"
    and run: "native_describe_source d source n = (out, n')"
  shows "native_kept v n n'"
proof -
  obtain ok n1 where m: "source_device_matches d n source = (ok, n1)" by fastforce
  obtain desc w where g: "d3d_get_desc d source (native_com n1) = (desc, w)" by fastforce
  have k1: "native_kept v n n1" using laws good m by (rule matches_kept)
  then have "native_good v n1" by (simp add: native_kept_def)
  from get_desc_law(2) [OF laws this g] k1 have k2: "native_kept v n (n1\<lparr>native_com := w\<rparr>)"
    by (rule kept_trans [rotated])
  have k3: "native_kept v n (n1\<lparr>native_com := w, native_hresult := S_OK\<rparr>)"
    using k2 by (rule kept_fields) (simp_all add: same_object_def)
  show ?thesis
    using run refuse_kept [OF kept_refl [OF good]] refuse_kept [OF k1] refuse_kept [OF k2] k3
    by (auto simp: native_describe_source_def Let_def m g split: if_splits)
qed

lemma get_data_kept:
  assumes laws: "d3d_laws d v" and good: "native_good v n" and q: "q \<in> events v n"
    and run: "native_get_event_data d q n = (res, n')"
  shows "native_kept v n n'"
proof -
  have "d3d_unchanged v (native_com n) (snd (com_get_data d (native_context n) q (native_com n)))"
    using use_law(5) [OF laws good_sound [OF good]] good_held [OF good] q by simp
  then have "native_kept v n (n\<lparr>native_com := snd (com_get_data d (native_context n) q (native_com n)),
      native_hresult := r\<rparr>)" for r
    using good by (simp add: unchanged_kept)
  then show ?thesis
    using run refuse_kept [OF kept_refl [OF good]]
    by (auto simp: native_get_event_data_def Let_def split: if_splits prod.splits)
qed

lemma good_staging:
  "native_good v n \<Longrightarrow> t \<in> textures v n \<Longrightarrow> readable_staging (v_desc v (native_com n) t)"
  by (simp add: native_good_def)

lemma unmap_texture_kept:
  assumes laws: "d3d_laws d v" and good: "native_good v n" and t: "t \<in> textures v n"
  shows "native_kept v n (n\<lparr>native_com := com_unmap_texture d (native_context n) t (native_com n)\<rparr>)"
proof -
  have "d3d_unchanged v (native_com n) (com_unmap_texture d (native_context n) t (native_com n))"
    using use_law(6) [OF laws good_sound [OF good]] good_held [OF good] good_staging [OF good t] t
    by simp
  with good show ?thesis by (simp add: unchanged_kept)
qed

lemma map_texture_kept:
  assumes laws: "d3d_laws d v" and good: "native_good v n" and t: "t \<in> textures v n"
    and run: "com_map_texture d (native_context n) t (native_com n) = (out, w)"
  shows "native_kept v n (n\<lparr>native_com := w, native_hresult := r\<rparr>)"
proof -
  have "d3d_unchanged v (native_com n) (snd (com_map_texture d (native_context n) t (native_com n)))"
    using use_law(6) [OF laws good_sound [OF good]] good_held [OF good] good_staging [OF good t] t
    by simp
  with good run show ?thesis by (simp add: unchanged_kept)
qed

lemma map_kept:
  assumes laws: "d3d_laws d v" and good: "native_good v n" and t: "t \<in> textures v n"
    and run: "native_map_staging d t n = (out, n')"
  shows "native_kept v n n'"
proof -
  obtain res data pitch w where
    m: "com_map_texture d (native_context n) t (native_com n) = ((res, data, pitch), w)"
    by (metis prod.exhaust)
  let ?n1 = "n\<lparr>native_com := w, native_hresult := res\<rparr>"
  have k: "native_kept v n ?n1" using laws good t m by (rule map_texture_kept)
  then have "native_good v ?n1" "t \<in> textures v ?n1" using t by (simp_all add: native_kept_def)
  from kept_trans [OF k unmap_texture_kept [OF laws this]]
  have "native_kept v n (n\<lparr>native_com := com_unmap_texture d (native_context n) t w,
      native_hresult := E_FAIL\<rparr>)"
    by (rule kept_fields) (simp_all add: same_object_def)
  with k run refuse_kept [OF kept_refl [OF good]] show ?thesis
    by (auto simp: native_map_staging_def Let_def m split: if_splits)
qed

lemma unmap_kept:
  assumes "d3d_laws d v" "native_good v n" "t \<in> textures v n" "n' = native_unmap_staging d t n"
  shows "native_kept v n n'"
  using unmap_texture_kept [OF assms(1-3)] kept_refl [OF assms(2)] assms(4)
  by (simp add: native_unmap_staging_def)

lemma reason_kept:
  assumes laws: "d3d_laws d v" and good: "native_good v n"
    and run: "native_device_removed_reason d n = (res, n')"
  shows "native_kept v n n'"
proof -
  have "d3d_unchanged v (native_com n) (snd (d3d_removed_reason d (native_device n) (native_com n)))"
    using use_law(3) [OF laws good_sound [OF good]] good_held [OF good] by simp
  then have "native_kept v n (n\<lparr>native_com := snd (d3d_removed_reason d (native_device n) (native_com n)),
      native_reason := r\<rparr>)" for r
    using good by (simp add: unchanged_kept)
  then show ?thesis
    using run kept_refl [OF good]
    by (auto simp: native_device_removed_reason_def Let_def split: if_splits prod.splits)
qed

subsection \<open>Creations\<close>

text \<open>A texture or a query that is created joins the others; what a failed creation gave is released.\<close>

lemma joins:
  assumes good: "native_good v n" and n': "n' = n\<lparr>native_com := w, native_hresult := r\<rparr>"
    and h: "h \<noteq> 0" "v_held v (native_com n) h = 0" "h \<notin> d3d_made v (native_com n)"
    and w: "v_sound v w" "v_held v w = (v_held v (native_com n))(h := 1)"
    and all: "d3d_made v w = insert h (d3d_made v (native_com n))"
    and apart: "v_textures v w \<inter> v_queries v w = {}"
    and desc: "\<forall>t \<in> v_textures v w. readable_staging (v_desc v w t)"
  shows "native_good v n'" "native_refs v n' = native_refs v n"
proof -
  have "own n h \<le> v_held v (native_com n) h" using good h(3) by (simp add: native_good_def)
  then have own: "own n h = 0"
    using own_refs_pos [of "native_device n" "native_context n" h] h(2) by linarith
  have other: "h \<noteq> native_device n" "h \<noteq> native_context n"
    using own own_refs_self by (metis less_irrefl)+
  have fields: "native_com n' = w" "native_valid n' = native_valid n" "own n' = own n"
    "native_device n' = native_device n" "native_context n' = native_context n"
    by (simp_all add: n' native_valid_def)
  show "native_good v n'"
    unfolding native_good_def fields all
  proof (intro conjI)
    show "\<forall>obj \<in> insert h (d3d_made v (native_com n)). v_held v w obj = 1"
      using good w(2) by (simp add: native_good_def)
    show "\<forall>obj. obj \<notin> insert h (d3d_made v (native_com n)) \<longrightarrow> own n obj \<le> v_held v w obj"
      using good w(2) by (simp add: native_good_def)
  qed (use good h w(1) other apart desc in \<open>simp_all add: native_good_def\<close>)
  show "native_refs v n' = native_refs v n"
    unfolding native_refs_def fields all using h(2) own w(2) by (auto simp: fun_eq_iff)
qed

lemma texture_joins:
  assumes good: "native_good v n" and made: "texture_made v desc h (native_com n) w" and h: "h \<noteq> 0"
    and desc: "readable_staging desc" and n': "n' = n\<lparr>native_com := w, native_hresult := r\<rparr>"
  shows "native_good v n'" "native_refs v n' = native_refs v n"
    and "h \<notin> textures v n" "v_textures v w = insert h (textures v n)" "v_queries v w = events v n"
    and "v_desc v w = (v_desc v (native_com n))(h := desc)"
proof -
  note m = made [unfolded texture_made_def, simplified h if_False]
  show views: "h \<notin> textures v n" "v_textures v w = insert h (textures v n)"
    "v_queries v w = events v n" "v_desc v w = (v_desc v (native_com n))(h := desc)"
    using m by (simp_all add: d3d_made_def)
  have all: "d3d_made v w = insert h (d3d_made v (native_com n))" by (simp add: d3d_made_def views)
  have apart: "v_textures v w \<inter> v_queries v w = {}"
    using good m by (simp add: native_good_def d3d_made_def)
  have desc: "\<forall>t \<in> v_textures v w. readable_staging (v_desc v w t)"
    using good desc by (simp add: native_good_def views)
  show "native_good v n'" "native_refs v n' = native_refs v n"
    using m by (auto intro!: joins [OF good n' h _ _ _ _ all apart desc])
qed

lemma query_joins:
  assumes good: "native_good v n" and made: "query_made v h (native_com n) w" and h: "h \<noteq> 0"
    and n': "n' = n\<lparr>native_com := w, native_hresult := r\<rparr>"
  shows "native_good v n'" "native_refs v n' = native_refs v n"
    and "h \<notin> events v n" "v_textures v w = textures v n" "v_queries v w = insert h (events v n)"
proof -
  note m = made [unfolded query_made_def, simplified h if_False]
  show views: "h \<notin> events v n" "v_textures v w = textures v n" "v_queries v w = insert h (events v n)"
    using m by (simp_all add: d3d_made_def)
  have all: "d3d_made v w = insert h (d3d_made v (native_com n))" by (simp add: d3d_made_def views)
  have apart: "v_textures v w \<inter> v_queries v w = {}"
    using good m by (simp add: native_good_def d3d_made_def)
  have desc: "\<forall>t \<in> v_textures v w. readable_staging (v_desc v w t)"
    using good m by (simp add: native_good_def)
  show "native_good v n'" "native_refs v n' = native_refs v n"
    using m by (auto intro!: joins [OF good n' h _ _ _ _ all apart desc])
qed

lemma native_no_null: "native_good v n \<Longrightarrow> 0 \<notin> textures v n" "native_good v n \<Longrightarrow> 0 \<notin> events v n"
  by (simp_all add: native_good_def d3d_made_def)

text \<open>What a failed creation leaves: the object that came back all the same is released.\<close>

lemma made_and_released:
  assumes laws: "d3d_laws d v" and good: "native_good v n1" and h: "h \<in> d3d_made v (native_com n1)"
    and new: "h \<notin> T \<union> E" and views: "textures v n1 \<union> events v n1 = insert h (T \<union> E)"
    "T \<subseteq> textures v n1" "E \<subseteq> events v n1"
    and run: "n2 = n1\<lparr>native_com := snd (com_release d h (native_com n1))\<rparr>"
  shows "native_good v n2 \<and> native_refs v n2 = native_refs v n1 \<and> textures v n2 = T \<and> events v n2 = E"
proof -
  have "h \<noteq> 0" "v_held v (native_com n1) h = 1" using good h by (auto simp: native_good_def)
  then have dropped: "d3d_dropped v h (native_com n1) (snd (com_release d h (native_com n1)))"
    using release_drops [OF laws good_sound [OF good]] by simp
  have "textures v n1 \<inter> events v n1 = {}" using good by (simp add: native_good_def)
  then have "textures v n1 - {h} = T" "events v n1 - {h} = E" using new views by blast+
  with handed_back_good [OF good dropped h] show ?thesis by (simp add: run)
qed

lemma span_fits:
  fixes x wd w :: u32
  assumes "\<not> w < x" "\<not> w - x < wd" "wd \<noteq> 0"
  shows "unat x < unat (x + wd)" "unat (x + wd) \<le> unat w"
proof -
  have lt: "unat w < 2 ^ 32" using unsigned_less [of w] by simp
  have le: "unat x + unat wd \<le> unat w" "0 < unat wd"
    using assms by (simp_all add: word_le_nat_alt unat_sub not_less unat_gt_0)
  then have "unat (x + wd) = unat x + unat wd"
    using lt by (intro unat_add_lem [THEN iffD1]) simp
  with le show "unat x < unat (x + wd)" "unat (x + wd) \<le> unat w" by simp_all
qed

lemma failed_texture_kept:
  assumes laws: "d3d_laws d v" and good: "native_good v n"
    and made: "texture_made v desc h (native_com n) w" and desc: "readable_staging desc"
    and n1: "n1 = n\<lparr>native_com := w, native_hresult := r\<rparr>"
    and run: "creation_failed d r h n1 = ((res, k), n')"
  shows "k = 0 \<and> native_kept v n n'"
proof (cases "h = 0")
  case True
  with made have "d3d_unchanged v (native_com n) w" by (simp add: texture_made_def)
  then have "native_kept v n n1" using good by (simp add: n1 unchanged_kept)
  with run show ?thesis by (auto simp: creation_failed_def com_release_def True)
next
  case False
  note j = texture_joins [OF good made False desc n1]
  have "h \<in> d3d_made v (native_com n1)" by (simp add: d3d_made_def n1 j)
  moreover have "h \<notin> textures v n \<union> events v n"
    using made False by (simp add: texture_made_def d3d_made_def)
  ultimately have "native_good v n' \<and> native_refs v n' = native_refs v n1 \<and> textures v n' = textures v n
      \<and> events v n' = events v n"
    using run by (intro made_and_released [OF laws j(1)]) (auto simp: creation_failed_def n1 j)
  with j(2) run show ?thesis by (simp add: native_kept_def creation_failed_def)
qed

lemma failed_query_kept:
  assumes laws: "d3d_laws d v" and good: "native_good v n"
    and made: "query_made v h (native_com n) w"
    and n1: "n1 = n\<lparr>native_com := w, native_hresult := r\<rparr>"
    and run: "creation_failed d r h n1 = ((res, k), n')"
  shows "k = 0 \<and> native_kept v n n'"
proof (cases "h = 0")
  case True
  with made have "d3d_unchanged v (native_com n) w" by (simp add: query_made_def)
  then have "native_kept v n n1" using good by (simp add: n1 unchanged_kept)
  with run show ?thesis by (auto simp: creation_failed_def com_release_def True)
next
  case False
  note j = query_joins [OF good made False n1]
  have "h \<in> d3d_made v (native_com n1)" by (simp add: d3d_made_def n1 j)
  moreover have "h \<notin> textures v n \<union> events v n"
    using made False by (simp add: query_made_def d3d_made_def)
  ultimately have "native_good v n' \<and> native_refs v n' = native_refs v n1 \<and> textures v n' = textures v n
      \<and> events v n' = events v n"
    using run by (intro made_and_released [OF laws j(1)]) (auto simp: creation_failed_def n1 j)
  with j(2) run show ?thesis by (simp add: native_kept_def creation_failed_def)
qed

lemma copy_region_counts:
  assumes laws: "d3d_laws d v" and good: "native_good v n" and src: "0 < native_refs v n source"
    and run: "native_copy_region d source x y wd ht n = ((res, h), n')"
  shows "native_good v n' \<and> events v n' = events v n \<and> native_refs v n' = native_refs v n \<and>
    (if h = 0 then textures v n' = textures v n
     else h \<notin> textures v n \<and> textures v n' = insert h (textures v n))"
proof (cases "native_valid n \<and> source \<noteq> 0 \<and> wd \<noteq> 0 \<and> ht \<noteq> 0")
  case False
  then show ?thesis
    using run refuse_kept [OF kept_refl [OF good]]
    by (auto simp: native_copy_region_def native_kept_def)
next
  case valid: True
  obtain desc w1 where g: "d3d_get_desc d source (native_com n) = (desc, w1)" by fastforce
  let ?n1 = "n\<lparr>native_com := w1\<rparr>"
  note read = get_desc_law [OF laws good g]
  have good1: "native_good v ?n1" using read(2) by (simp add: native_kept_def)
  let ?bad = "native_format (tex_format desc) = 0 \<or> tex_array desc \<noteq> 1 \<or> tex_mips desc = 0
    \<or> tex_samples desc \<noteq> 1 \<or> x > tex_width desc \<or> y > tex_height desc
    \<or> wd > tex_width desc - x \<or> ht > tex_height desc - y"
  let ?desc = "staging_desc wd ht (tex_format desc)"
  obtain r stg w2 where c: "d3d_create_texture d (native_device n) ?desc w1 = ((r, stg), w2)"
    by (metis prod.exhaust)
  let ?n2 = "n\<lparr>native_com := w2, native_hresult := r\<rparr>"
  have made: "texture_made v ?desc stg (native_com ?n1) w2"
    using creation_law(1) [OF laws good_sound [OF good1], of "native_device n" ?desc]
      good_held(1) [OF good1] by (simp add: c)
  have staging: "readable_staging ?desc" by (simp add: readable_staging_def staging_desc_def)
  have n2: "?n2 = ?n1\<lparr>native_com := w2, native_hresult := r\<rparr>" by simp
  consider (bad) ?bad | (failed) "\<not> ?bad" "failed r \<or> stg = 0" | (ok) "\<not> ?bad" "\<not> failed r" "stg \<noteq> 0"
    by blast
  then show ?thesis
  proof cases
    case bad
    then have "n' = refuse DXGI_UNSUPPORTED ?n1 \<and> h = 0"
      using run valid by (auto simp: native_copy_region_def g)
    with refuse_kept [OF read(2)] show ?thesis by (simp add: native_kept_def)
  next
    case failed
    then have "creation_failed d r stg ?n2 = ((res, h), n')"
      using run valid by (simp add: native_copy_region_def g c)
    from failed_texture_kept [OF laws good1 made staging n2 this] kept_trans [OF read(2)]
    have "h = 0" "native_kept v n n'" by blast+
    then show ?thesis by (simp add: native_kept_def)
  next
    case ok
    note j = texture_joins [OF good1 made ok(3) staging n2]
    let ?box = "\<lparr>box_left = x, box_top = y, box_front = 0, box_right = x + wd, box_bottom = y + ht,
      box_back = 1\<rparr>"
    have out: "h = stg" "n' = ?n2\<lparr>native_com := com_copy_region d (native_context n) stg source ?box w2,
        native_hresult := S_OK\<rparr>"
      using run ok valid by (auto simp: native_copy_region_def g c)
    have "0 < native_refs v ?n1 source" using src read(2) by (simp add: native_kept_def)
    then have "0 < v_held v w1 source"
      using own_refs_pos [of "native_device n" "native_context n" source]
      by (simp add: native_refs_def split: if_splits)
    moreover have "v_held v w1 stg = 0" using made ok(3) by (simp add: texture_made_def)
    ultimately have other: "source \<noteq> stg" by auto
    have descs: "v_desc v w2 source = desc" "v_desc v w2 stg = ?desc"
      using j(6) other read(1,3) by simp_all
    have fits: "box_fits (v_desc v w2 source) (v_desc v w2 stg) ?box"
      using span_fits [of "tex_width desc" x wd] span_fits [of "tex_height desc" y ht] ok(1) valid
      unfolding descs by (simp add: box_fits_def staging_desc_def zero_desc_def not_less)
    have "d3d_unchanged v w2 (com_copy_region d (native_context n) stg source ?box w2)"
      using use_law(4) [OF laws good_sound [OF j(1)], of "native_context n" stg source ?box]
        good_held(2) [OF j(1)] fits j(4) by simp
    then have "native_kept v ?n2 n'" using j(1) by (intro unchanged_kept) (simp_all add: out same_object_def)
    then show ?thesis using j read(2) ok(3) by (simp add: out(1) native_kept_def)
  qed
qed

lemma end_query_counts:
  assumes laws: "d3d_laws d v" and good: "native_good v n"
    and run: "native_end_event_query d n = ((res, h), n')"
  shows "native_good v n' \<and> textures v n' = textures v n \<and> native_refs v n' = native_refs v n \<and>
    (if h = 0 then events v n' = events v n
     else h \<notin> events v n \<and> events v n' = insert h (events v n))"
proof -
  have valid: "native_valid n" using good by (simp add: native_good_def)
  let ?desc = "\<lparr>query_kind = QUERY_EVENT, query_misc = 0\<rparr>"
  obtain r q w1 where c: "d3d_create_query d (native_device n) ?desc (native_com n) = ((r, q), w1)"
    by (metis prod.exhaust)
  let ?n1 = "n\<lparr>native_com := w1, native_hresult := r\<rparr>"
  have made: "query_made v q (native_com n) w1"
    using creation_law(2) [OF laws good_sound [OF good], of "native_device n" ?desc]
      good_held(1) [OF good] by (simp add: c)
  show ?thesis
  proof (cases "failed r \<or> q = 0")
    case True
    then have "creation_failed d r q ?n1 = ((res, h), n')"
      using run valid by (simp add: native_end_event_query_def c)
    from failed_query_kept [OF laws good made refl this] show ?thesis by (simp add: native_kept_def)
  next
    case False
    then have q: "q \<noteq> 0" by simp
    note j = query_joins [OF good made q refl [of ?n1]]
    have out: "h = q" "n' = ?n1\<lparr>native_com := d3d_end d (native_context n) q w1,
        native_hresult := S_OK\<rparr>"
      using run False valid by (auto simp: native_end_event_query_def c)
    have "d3d_unchanged v w1 (d3d_end d (native_context n) q w1)"
      using use_law(5) [OF laws good_sound [OF j(1)], of "native_context n" q]
        good_held(2) [OF j(1)] j(5) by simp
    then have "native_kept v ?n1 n'" using j(1) by (intro unchanged_kept) (simp_all add: out same_object_def)
    then show ?thesis using j q by (simp add: out(1) native_kept_def)
  qed
qed

subsection \<open>The contract of the machine\<close>

text \<open>A source that the machine retains is not one of its own objects.\<close>

lemma native_retains:
  assumes laws: "d3d_laws d v" and good: "native_good v n"
    and foreign: "source \<notin> d3d_made v (native_com n)"
    and run: "native_retain_source d source n = (ok, n')"
  shows "native_good v n' \<and> textures v n' = textures v n \<and> events v n' = events v n \<and>
    (if ok then native_refs v n' = (native_refs v n)(source := native_refs v n source + 1)
       \<and> 0 < native_refs v n' source
     else native_refs v n' = native_refs v n)"
proof -
  obtain same n1 where m: "source_device_matches d n source = (same, n1)" by fastforce
  have k: "native_kept v n n1" using laws good m by (rule matches_kept)
  then have good1: "native_good v n1" and views: "textures v n1 = textures v n"
    "events v n1 = events v n" "native_refs v n1 = native_refs v n"
    by (simp_all add: native_kept_def)
  consider (refused) "ok = False" "n' = refuse E_INVALIDARG n \<or> n' = refuse E_INVALIDARG n1"
    | (taken) "ok = True" "source \<noteq> 0"
        "n' = n1\<lparr>native_com := snd (com_add_ref d source (native_com n1)), native_hresult := S_OK\<rparr>"
    using run by (auto simp: native_retain_source_def m split: if_splits)
  then show ?thesis
  proof cases
    case refused
    then have "native_kept v n n'" using refuse_kept [OF kept_refl [OF good]] refuse_kept [OF k] by blast
    then show ?thesis using refused(1) by (simp add: native_kept_def)
  next
    case taken
    let ?w = "snd (com_add_ref d source (native_com n1))"
    have "source \<notin> d3d_made v (native_com n1)" using foreign views by (simp add: d3d_made_def)
    then have "d3d_lent v source (native_com n1) ?w"
      using add_ref_lent [OF laws good_sound [OF good1]] taken(2) by simp
    note g = gained_good [OF good1 this taken(2)]
    have "native_kept v (n1\<lparr>native_com := ?w\<rparr>) n'"
      using kept_refl [OF g(1)] by (rule kept_fields) (simp_all add: taken(3) same_object_def)
    then show ?thesis using g views by (simp add: taken(1) native_kept_def)
  qed
qed

lemma native_release_counts:
  assumes laws: "d3d_laws d v" and good: "native_good v n" and pos: "0 < native_refs v n obj"
  shows "native_good v (native_release_source d obj n)
    \<and> textures v (native_release_source d obj n) = textures v n
    \<and> events v (native_release_source d obj n) = events v n
    \<and> native_refs v (native_release_source d obj n) = (native_refs v n)(obj := native_refs v n obj - 1)"
proof -
  have "obj \<notin> d3d_made v (native_com n)" using good pos by (rule not_made)
  then have held: "0 < v_held v (native_com n) obj"
    using pos own_refs_pos [of "native_device n" "native_context n" obj] by (simp add: native_refs_def)
  then have "obj \<noteq> 0" using count_law(2) [OF laws good_sound [OF good]] by (metis less_irrefl)
  with held have "d3d_dropped v obj (native_com n) (snd (com_release d obj (native_com n)))"
    using release_drops [OF laws good_sound [OF good]] by simp
  from dropped_good [OF good this pos] show ?thesis by (simp add: native_release_source_def)
qed

lemma native_hands_back:
  assumes laws: "d3d_laws d v" and good: "native_good v n" and made: "obj \<in> d3d_made v (native_com n)"
    and run: "n' = n\<lparr>native_com := snd (com_release d obj (native_com n))\<rparr>"
  shows "native_good v n' \<and> textures v n' = textures v n - {obj} \<and> events v n' = events v n - {obj}
    \<and> native_refs v n' = native_refs v n"
proof -
  have "obj \<noteq> 0" "v_held v (native_com n) obj = 1" using good made by (auto simp: native_good_def)
  then have "d3d_dropped v obj (native_com n) (snd (com_release d obj (native_com n)))"
    using release_drops [OF laws good_sound [OF good]] by simp
  from handed_back_good [OF good this made] show ?thesis by (simp add: run)
qed

lemma native_table [simp]:
  "retain_source (ops_of_raw (native_ops d)) = native_retain_source d"
  "release_source (ops_of_raw (native_ops d)) = native_release_source d"
  "describe_source (ops_of_raw (native_ops d)) = native_describe_source d"
  "copy_region (ops_of_raw (native_ops d)) = native_copy_region d"
  "end_event_query (ops_of_raw (native_ops d)) = native_end_event_query d"
  "get_event_data (ops_of_raw (native_ops d)) = native_get_event_data d"
  "map_staging (ops_of_raw (native_ops d)) = native_map_staging d"
  "unmap_staging (ops_of_raw (native_ops d)) = native_unmap_staging d"
  "release_staging (ops_of_raw (native_ops d)) = native_release_staging d"
  "release_query (ops_of_raw (native_ops d)) = native_release_query d"
  "device_removed_reason (ops_of_raw (native_ops d)) = native_device_removed_reason d"
  by (simp_all add: ops_of_raw_def native_ops_def)

lemma native_handles:
  assumes laws: "d3d_laws d v"
  shows "d3d11_handles (ops_of_raw (native_ops d)) (native_good v) (textures v) (events v) (native_refs v)"
proof (unfold_locales, unfold native_table, goal_cases)
  case (1 w s w')
  then show ?case using native_release_counts [OF laws] by blast
next
  case (2 w s desc w')
  then show ?case using describe_kept [OF laws] unfolding native_kept_def by blast
next
  case (3 w s x y wd ht res h w')
  then show ?case using copy_region_counts [OF laws] by blast
next
  case (4 w res h w')
  then show ?case using end_query_counts [OF laws] by blast
next
  case (5 w q res w')
  then show ?case using get_data_kept [OF laws] unfolding native_kept_def by blast
next
  case (6 w h out w')
  then show ?case using map_kept [OF laws] unfolding native_kept_def by blast
next
  case (7 w h w')
  then show ?case using unmap_kept [OF laws] unfolding native_kept_def by blast
next
  case (8 w h w')
  then have "h \<in> d3d_made v (native_com w)" "h \<notin> events v w"
    by (auto simp: d3d_made_def native_good_def)
  with native_hands_back [OF laws 8(1), of h w'] 8(3) show ?case
    by (simp add: native_release_staging_def)
next
  case (9 w h w')
  then have "h \<in> d3d_made v (native_com w)" "h \<notin> textures v w"
    by (auto simp: d3d_made_def native_good_def)
  with native_hands_back [OF laws 9(1), of h w'] 9(3) show ?case
    by (simp add: native_release_query_def)
next
  case (10 w res w')
  then show ?case using reason_kept [OF laws] unfolding native_kept_def by blast
qed

end
