(* ===== verification/Readback_Native_Props.thy ===== *)
theory Readback_Native_Props
  imports Readback_Native_Laws
begin

text \<open>
  The balance of all references that the readback on Direct3D holds, from the creation of the native
  object over any sequence of calls to its destruction, on any Direct3D that keeps \<open>d3d_laws\<close>. The ledger
  of the machine carries it: it holds of the table of native operations by \<open>native_handles\<close>.
\<close>

subsection \<open>The machine on Direct3D\<close>

abbreviation native_ledger ::
  "'w d3d_calls \<Rightarrow> 'w d3d_view \<Rightarrow> (nat \<Rightarrow> int) \<Rightarrow> 'w native_readback \<Rightarrow> bool" where
  "native_ledger d v \<equiv> d3d11_handles.m_ledger (ops_of_raw (native_ops d)) (native_good v) (textures v)
     (events v) (native_refs v)"

definition balanced :: "'w d3d_calls \<Rightarrow> 'w d3d_view \<Rightarrow> (nat \<Rightarrow> int) \<Rightarrow> 'w native_readback \<Rightarrow> bool" where
  "balanced d v c m \<longleftrightarrow> machine_ok m \<and> native_ledger d v c m"

lemma native_ledger_iff:
  assumes "d3d_laws d v"
  shows "native_ledger d v c m \<longleftrightarrow> ops m = ops_of_raw (native_ops d) \<and> native_good v (world m)
    \<and> native_refs v (world m) = c \<and> handles_once staging (records m) \<and> handles_once query (records m)
    \<and> textures v (world m) = handles staging (records m)
    \<and> events v (world m) = handles query (records m)"
  using d3d11_handles.m_ledger_def [OF native_handles [OF assms]]
    d3d11_handles.ledger_def [OF native_handles [OF assms]] by simp

lemma balanced_world:
  assumes laws: "d3d_laws d v" and b: "balanced d v c m"
    and w: "native_good v w" "textures v w = textures v (world m)" "events v w = events v (world m)"
    "native_refs v w = c'"
  shows "balanced d v c' (m\<lparr>world := w\<rparr>)"
  using b w by (simp add: balanced_def native_ledger_iff [OF laws])

lemma balanced_kept:
  assumes "d3d_laws d v" "balanced d v c m" "native_kept v (world m) w"
  shows "balanced d v c (m\<lparr>world := w\<rparr>)"
  using assms by (intro balanced_world) (auto simp: native_kept_def balanced_def native_ledger_iff)

lemma balanced_exec:
  assumes laws: "d3d_laws d v" and b: "balanced d v c m"
    and src: "\<forall>s \<in> staged_sources k. s \<notin> d3d_made v (native_com (world m))"
  shows "balanced d v c (readback_exec tid k m)"
proof -
  have good: "native_good v (world m)" using b by (simp add: balanced_def native_ledger_iff [OF laws])
  have "d3d11_handles.well_retained (ops_of_raw (native_ops d)) (native_good v) (textures v) (events v)
      (native_refs v) s (world m)" if "s \<notin> d3d_made v (native_com (world m))" for s
    unfolding d3d11_handles.well_retained_def [OF native_handles [OF laws]] native_table
    by (rule prod.case_eq_if [THEN iffD2])
      (rule native_retains [OF laws good that surjective_pairing])
  then show ?thesis
    using b src exec_ok d3d11_handles.m_ledger_exec [OF native_handles [OF laws]]
    unfolding balanced_def by blast
qed

lemma balanced_good: "d3d_laws d v \<Longrightarrow> balanced d v c m \<Longrightarrow> native_good v (world m)"
  by (simp add: balanced_def native_ledger_iff)

lemma balanced_refs: "d3d_laws d v \<Longrightarrow> balanced d v c m \<Longrightarrow> native_refs v (world m) = c"
  by (simp add: balanced_def native_ledger_iff)

lemma balanced_handles:
  assumes "d3d_laws d v" "balanced d v c m"
  shows "d3d_made v (native_com (world m)) = handles staging (records m) \<union> handles query (records m)"
  using assms by (simp add: balanced_def native_ledger_iff d3d_made_def)

lemma balanced_notify:
  "d3d_laws d v \<Longrightarrow> balanced d v c m \<Longrightarrow> balanced d v c (snd (readback_notify_failure tid m si rg origin))"
  using balanced_exec [of d v c m "Notify si rg origin" tid] by simp

lemma balanced_stage_source:
  assumes laws: "d3d_laws d v" and b: "balanced d v c m"
    and src: "source \<notin> d3d_made v (native_com (world m))"
  shows "balanced d v c
    (snd (native_stage_source tid m source req si rg slot gen x y wd ht frame rz))"
proof (cases "native_valid (world m) \<and> source \<noteq> 0")
  case False
  then show ?thesis using b by (auto simp: native_stage_source_def)
next
  case True
  let ?m = "m\<lparr>world := (world m)\<lparr>native_hresult := S_OK\<rparr>\<rparr>"
  have "native_kept v (world m) ((world m)\<lparr>native_hresult := S_OK\<rparr>)"
    using kept_refl [OF balanced_good [OF laws b]] by (rule kept_fields) simp_all
  then have b1: "balanced d v c ?m" using laws b by (rule balanced_kept [rotated 2])
  obtain ok m2 where s: "readback_stage tid ?m req si rg slot gen source x y wd ht frame rz = (ok, m2)"
    by fastforce
  have "balanced d v c m2"
    using balanced_exec [OF laws b1, of "Stage req si rg slot gen source x y wd ht frame rz" tid] src
    by (simp add: s)
  then show ?thesis
    using True balanced_notify [OF laws] by (simp add: native_stage_source_def s)
qed

lemma balanced_release:
  assumes laws: "d3d_laws d v" and b: "balanced d v c m" and pos: "0 < c obj"
  shows "balanced d v (c(obj := c obj - 1)) (m\<lparr>world := native_release_source d obj (world m)\<rparr>)"
  using native_release_counts [OF laws balanced_good [OF laws b], of obj] balanced_refs [OF laws b] pos
  by (intro balanced_world [OF laws b]) auto

lemma balanced_stage_window:
  assumes laws: "d3d_laws d v" and b: "balanced d v c m"
  shows "balanced d v c
    (snd (native_stage_window d tid m sc req si rg slot gen x y wd ht frame rz))"
proof (cases "native_valid (world m) \<and> readback_is_owner tid m \<and> sc \<noteq> 0")
  case False
  then show ?thesis using b by (auto simp: native_stage_window_def)
next
  case True
  obtain res src w where g: "com_swapchain_buffer d sc (native_com (world m)) = ((res, src), w)"
    by (metis prod.exhaust)
  let ?n = "(world m)\<lparr>native_com := w, native_hresult := res\<rparr>"
  let ?m = "m\<lparr>world := ?n\<rparr>"
  note good = balanced_good [OF laws b]
  have lent: "d3d_lent v src (native_com (world m)) w" using laws good_sound [OF good] g by (rule buffer_lent)
  show ?thesis
  proof (cases "src = 0")
    case null: True
    then have "d3d_unchanged v (native_com (world m)) w" using lent by (simp add: d3d_lent_def)
    then have "native_kept v (world m) (native_release_source d src ?n)"
      using good
      by (intro unchanged_kept)
        (simp_all add: native_release_source_def com_release_def null same_object_def)
    then have "balanced d v c (m\<lparr>world := native_release_source d src ?n\<rparr>)"
      using laws b by (rule balanced_kept [rotated 2])
    then show ?thesis
      using True null balanced_notify [OF laws] by (simp add: native_stage_window_def g)
  next
    case False
    note gain = gained_good [OF good lent False]
    have n: "native_kept v ((world m)\<lparr>native_com := w\<rparr>) ?n"
      using kept_refl [OF gain(1)] by (rule kept_fields) (simp_all add: same_object_def)
    let ?c = "c(src := c src + 1)"
    have b1: "balanced d v ?c ?m"
      using n gain balanced_refs [OF laws b]
      by (intro balanced_world [OF laws b]) (simp_all add: native_kept_def)
    have pos: "0 < ?c src" using n gain balanced_refs [OF laws b] by (simp add: native_kept_def)
    have home: "balanced d v c (m'\<lparr>world := native_release_source d src (world m')\<rparr>)"
      if "balanced d v ?c m'" for m'
    proof -
      have "?c(src := ?c src - 1) = c" by (simp add: fun_eq_iff)
      then show ?thesis using balanced_release [OF laws that pos] by (simp only:)
    qed
    have "src \<notin> d3d_made v w" using not_made [OF gain(1,5)] by simp
    then have "balanced d v ?c
        (snd (native_stage_source tid ?m src req si rg slot gen x y wd ht frame rz))"
      by (intro balanced_stage_source [OF laws b1]) simp
    with True False home [OF this] balanced_notify [OF laws home [OF b1]] show ?thesis
      by (simp add: native_stage_window_def g split_beta Let_def)
  qed
qed

text \<open>A caller does not stage the machine's own textures, which it never gets to see.\<close>

fun foreign_source :: "native_call \<Rightarrow> 'w native_readback \<Rightarrow> bool" where
  "foreign_source (Stage_image tex req si rg slot gen x y wd ht frame rz) m \<longleftrightarrow>
     tex \<notin> handles staging (records m) \<union> handles query (records m)" |
  "foreign_source k m \<longleftrightarrow> True"

lemma balanced_call:
  assumes laws: "d3d_laws d v" and b: "balanced d v c m" and f: "foreign_source k m"
  shows "balanced d v c (native_exec d tid k m)"
proof -
  have valid: "native_valid (world m)" using balanced_good [OF laws b] by (simp add: native_good_def)
  note exec = balanced_exec [OF laws b, of _ tid]
  show ?thesis
  proof (cases k)
    case (Stage_window sc req si rg slot gen x y wd ht frame rz)
    then show ?thesis by (simp add: balanced_stage_window [OF laws b])
  next
    case (Stage_image tex req si rg slot gen x y wd ht frame rz)
    then show ?thesis
      using f balanced_handles [OF laws b]
      by (simp add: native_stage_image_def balanced_stage_source [OF laws b])
  next
    case (Native_resolve slot gen frame ok origin)
    then show ?thesis using exec [of "Resolve slot gen frame ok origin"] valid by (simp add: native_resolve_def)
  next
    case (Native_notify si rg origin)
    then show ?thesis using exec [of "Notify si rg origin"] valid by (simp add: native_notify_failure_def)
  next
    case (Native_poll alloc)
    then show ?thesis using exec [of "Poll alloc"] valid by (simp add: native_poll_def)
  next
    case Native_take
    then show ?thesis using exec [of Take] valid by (simp add: native_take_def)
  next
    case (Native_copy req dest cap)
    then show ?thesis using exec [of "Copy req dest cap"] valid by (simp add: native_copy_def)
  next
    case (Native_release req)
    then show ?thesis using exec [of "Release req"] valid by (simp add: native_release_def)
  next
    case (Native_cancel req)
    then show ?thesis using exec [of "Cancel req"] valid by (simp add: native_cancel_def)
  next
    case (Native_quiesce slot gen)
    then show ?thesis using exec [of "Quiesce slot gen"] valid by (simp add: native_quiesce_window_def)
  next
    case (Native_restart si rg)
    then show ?thesis using exec [of "Restart si rg"] valid by (simp add: native_restart_def)
  next
    case Native_stop
    then show ?thesis using exec [of Stop] valid by (simp add: native_stop_def)
  qed
qed

subsection \<open>Creation and destruction\<close>

definition no_objects :: "'w d3d_view \<Rightarrow> 'w \<Rightarrow> (nat \<Rightarrow> int) \<Rightarrow> bool" where
  "no_objects v w held \<longleftrightarrow> v_sound v w \<and> d3d_made v w = {} \<and> v_held v w = held"

lemma release_one:
  assumes laws: "d3d_laws d v" and w: "no_objects v w held" and obj: "0 < held obj"
  shows "no_objects v (snd (com_release d obj w)) (held(obj := held obj - 1))"
proof -
  have held: "v_sound v w" "v_held v w = held" "d3d_made v w = {}" using w by (simp_all add: no_objects_def)
  then have "obj \<noteq> 0" using count_law(2) [OF laws held(1)] obj by (metis less_irrefl)
  then have "d3d_dropped v obj w (snd (com_release d obj w))"
    using release_drops [OF laws held(1)] obj held(2) by simp
  then show ?thesis using held by (auto simp: no_objects_def d3d_dropped_def d3d_made_def)
qed

lemma add_one:
  assumes laws: "d3d_laws d v" and w: "no_objects v w held" and obj: "obj \<noteq> 0"
  shows "no_objects v (snd (com_add_ref d obj w)) (held(obj := held obj + 1))"
  using add_ref_lent [OF laws _ obj, of w] w obj
  by (auto simp: no_objects_def d3d_lent_def d3d_made_def)

lemma release_both:
  assumes laws: "d3d_laws d v" and held: "\<forall>obj. 0 \<le> held obj"
    and w: "no_objects v (native_com n) (\<lambda>obj. held obj + own n obj)"
  shows "no_objects v (native_release_both d n) held"
proof -
  let ?held = "\<lambda>obj. held obj + own n obj"
  let ?c = "native_context n" and ?dev = "native_device n"
  have "0 < ?held ?c" using held own_refs_self(2) [where a = ?dev and b = ?c] by (simp add: add_nonneg_pos)
  from release_one [OF laws w this]
  have w1: "no_objects v (snd (com_release d ?c (native_com n))) (?held(?c := ?held ?c - 1))" .
  have "0 < (?held(?c := ?held ?c - 1)) ?dev" using held by (auto simp: own_refs_def add_nonneg_pos)
  from release_one [OF laws w1 this]
  show ?thesis by (simp add: native_release_both_def own_refs_def fun_eq_iff fun_upd_def no_objects_def)
qed

lemma cleared_objects:
  assumes laws: "d3d_laws d v" and b: "balanced d v c m"
  shows "no_objects v (native_com (world (readback_clear_all m)))
    (\<lambda>obj. c obj + own (world (readback_clear_all m)) obj)"
proof -
  let ?m = "readback_clear_all m"
  have l: "native_ledger d v c ?m"
    using d3d11_handles.m_ledger_clear_all [OF native_handles [OF laws]] b by (simp add: balanced_def)
  have "records ?m = replicate MAX_RECORDS zero_record"
    using b by (intro clear_all_records) (simp add: balanced_def)
  then have "d3d_made v (native_com (world ?m)) = {}"
    using l by (simp add: native_ledger_iff [OF laws] d3d_made_def handles_def image_constant_conv)
  with l show ?thesis
    by (auto simp: native_ledger_iff [OF laws] no_objects_def native_good_def native_refs_def fun_eq_iff
        diff_eq_eq)
qed

text \<open>A destruction is the owner's, and gives everything back, or changes nothing.\<close>

definition destruction_balanced ::
  "'w d3d_view \<Rightarrow> (nat \<Rightarrow> int) \<Rightarrow> u64 \<Rightarrow> 'w native_readback
    \<Rightarrow> bool \<times> ('w + 'w native_readback) \<Rightarrow> bool" where
  "destruction_balanced v held tid m out \<longleftrightarrow> (case out of
      (gone, Inl w) \<Rightarrow> gone \<and> readback_is_owner tid m \<and> no_objects v w held
    | (gone, Inr m') \<Rightarrow> \<not> gone \<and> \<not> readback_is_owner tid m \<and> m' = m)"

lemma destroy_balances:
  assumes laws: "d3d_laws d v" and b: "balanced d v c m" and c: "\<forall>obj. 0 \<le> c obj"
  shows "destruction_balanced v c tid m (native_destroy d tid m)"
  using release_both [OF laws c cleared_objects [OF laws b]] balanced_good [OF laws b]
  by (simp add: native_destroy_def readback_destroy_def native_good_def destruction_balanced_def)

lemma fresh_balanced:
  assumes laws: "d3d_laws d v" and w: "no_objects v w (\<lambda>obj. held obj + own_refs device context obj)"
    and held: "\<forall>obj. 0 \<le> held obj" and some: "device \<noteq> 0" "context \<noteq> 0"
    and n: "n = \<lparr>native_magic = NATIVE_MAGIC, native_device = device, native_context = context,
      native_machine = False, native_hresult = S_OK, native_reason = 0, native_com = w\<rparr>"
    and m: "readback_create tid alloc (Some (native_ops d)) n = Some m"
  shows "balanced d v held (m\<lparr>world := (world m)\<lparr>native_machine := True\<rparr>\<rparr>)"
proof -
  have ok: "machine_ok m" using m by (rule create_ok)
  have fields: "world m = n" "records m = replicate MAX_RECORDS zero_record"
    "ops m = ops_of_raw (native_ops d)"
    using m by (auto simp: readback_create_def split: if_splits)
  have none: "handles sel (records m) = {}" "handles_once sel (records m)" if "sel zero_record = 0" for sel
    using that by (auto simp: fields handles_def handles_once_def)
  have made: "d3d_made v w = {}" "v_textures v w = {}" "v_queries v w = {}"
    using w by (simp_all add: no_objects_def d3d_made_def)
  have "native_good v (n\<lparr>native_machine := True\<rparr>)"
    using w held some by (simp add: native_good_def native_valid_def n no_objects_def made)
  moreover have "native_refs v (n\<lparr>native_machine := True\<rparr>) = held"
    using w by (simp add: native_refs_def n no_objects_def made fun_eq_iff)
  ultimately show ?thesis
    using ok none fields by (simp add: balanced_def native_ledger_iff [OF laws] n made)
qed

text \<open>What creating the object leaves: no reference on any failure, else an object in balance.\<close>

definition creation_balanced ::
  "'w d3d_calls \<Rightarrow> 'w d3d_view \<Rightarrow> (nat \<Rightarrow> int) \<Rightarrow> 'w native_readback option \<times> 'w \<Rightarrow> bool" where
  "creation_balanced d v held out \<longleftrightarrow>
     (case fst out of None \<Rightarrow> no_objects v (snd out) held
      | Some m \<Rightarrow> balanced d v held m \<and> snd out = native_com (world m))"

lemma bind_balanced:
  assumes laws: "d3d_laws d v" and b: "balanced d v c m"
  shows "balanced d v c (snd (readback_bind tid m si rg))"
  using balanced_exec [OF laws b, of "Bind si rg" tid] by simp

lemma refused_bind: "readback_bind tid m si rg = (False, m') \<Longrightarrow> m' = m"
  by (simp add: readback_bind_def split: if_splits)

lemma context_lent_back:
  assumes laws: "d3d_laws d v" and w: "no_objects v w held"
    and run: "d3d_context_device d c w = (dev, w')"
  shows "no_objects v (snd (com_release d dev w')) held"
proof -
  have sound: "v_sound v w" using w by (simp add: no_objects_def)
  have lent: "d3d_lent v dev w w'" using count_law(6) [OF laws sound, of c] by (simp add: run)
  show ?thesis
  proof (cases "dev = 0")
    case True
    with lent w show ?thesis by (simp add: d3d_lent_def d3d_unchanged_def com_release_def no_objects_def d3d_made_def)
  next
    case False
    then have "no_objects v w' (held(dev := held dev + 1))"
      using lent w by (simp add: d3d_lent_def no_objects_def d3d_made_def)
    moreover have "0 \<le> held dev" using count_law(1) [OF laws sound] w by (simp add: no_objects_def)
    ultimately show ?thesis using release_one [OF laws, of w' "held(dev := held dev + 1)" dev] by simp
  qed
qed

lemma create_balances:
  assumes laws: "d3d_laws d v" and w: "no_objects v w held"
  shows "creation_balanced d v held
    (native_create d tid alloc alloc_machine device context si rg w)"
proof (cases "device = 0 \<or> context = 0 \<or> si = 0 \<or> rg = 0")
  case True
  then show ?thesis using w by (auto simp: native_create_def creation_balanced_def)
next
  case some: False
  have sound: "v_sound v w" using w by (simp add: no_objects_def)
  have pos: "\<forall>obj. 0 \<le> held obj" using count_law(1) [OF laws sound] w by (simp add: no_objects_def)
  obtain ty w1 where ty: "d3d_context_type d context w = (ty, w1)" by fastforce
  obtain dev w2 where dev: "d3d_context_device d context w1 = (dev, w2)" by fastforce
  let ?w3 = "snd (com_release d dev w2)"
  have "d3d_unchanged v w w1" using use_law(2) [OF laws sound, of "context"] by (simp add: ty)
  then have w1: "no_objects v w1 held" using w by (simp add: no_objects_def d3d_unchanged_def d3d_made_def)
  have w3: "no_objects v ?w3 held" using laws w1 dev by (rule context_lent_back)
  let ?w5 = "snd (com_add_ref d context (snd (com_add_ref d device ?w3)))"
  let ?n = "\<lparr>native_magic = NATIVE_MAGIC, native_device = device, native_context = context,
    native_machine = False, native_hresult = S_OK, native_reason = 0, native_com = ?w5\<rparr>"
  let ?held1 = "held(device := held device + 1)"
  have "?held1(context := ?held1 context + 1) = (\<lambda>obj. held obj + own_refs device context obj)"
    by (simp add: own_refs_def fun_eq_iff)
  then have w5: "no_objects v ?w5 (\<lambda>obj. held obj + own_refs device context obj)"
    using add_one [OF laws add_one [OF laws w3]] some by (metis (no_types))
  have run: "native_create d tid alloc alloc_machine device context si rg w =
      (if ty \<noteq> CONTEXT_IMMEDIATE then (None, w1)
       else if \<not> (dev \<noteq> 0 \<and> dev = device) \<or> \<not> alloc then (None, ?w3)
       else case readback_create tid alloc_machine (Some (native_ops d)) ?n of
          None \<Rightarrow> (None, native_release_both d ?n)
        | Some m \<Rightarrow> (case readback_bind tid (m\<lparr>world := (world m)\<lparr>native_machine := True\<rparr>\<rparr>) si rg of
            (ok, m) \<Rightarrow> if ok then (Some m, native_com (world m))
              else (None, native_release_both d
                (case readback_destroy tid m of (_, Inl n) \<Rightarrow> n | (_, Inr m) \<Rightarrow> world m))))"
    using some by (simp only: native_create_def if_False ty dev Let_def prod.case)
  consider (early) "ty \<noteq> CONTEXT_IMMEDIATE"
    | (other) "ty = CONTEXT_IMMEDIATE" "\<not> (dev \<noteq> 0 \<and> dev = device) \<or> \<not> alloc"
    | (unmade) "ty = CONTEXT_IMMEDIATE" "\<not> (\<not> (dev \<noteq> 0 \<and> dev = device) \<or> \<not> alloc)"
        "readback_create tid alloc_machine (Some (native_ops d)) ?n = None"
    | (made) m where "ty = CONTEXT_IMMEDIATE" "\<not> (\<not> (dev \<noteq> 0 \<and> dev = device) \<or> \<not> alloc)"
        "readback_create tid alloc_machine (Some (native_ops d)) ?n = Some m"
    by blast
  then show ?thesis
  proof cases
    case early
    with w1 show ?thesis unfolding run by (simp add: creation_balanced_def)
  next
    case other
    with w3 show ?thesis unfolding run by (simp add: creation_balanced_def)
  next
    case unmade
    then show ?thesis
      unfolding run using release_both [OF laws pos, of ?n] w5 by (simp add: creation_balanced_def)
  next
    case (made m)
    let ?m = "m\<lparr>world := (world m)\<lparr>native_machine := True\<rparr>\<rparr>"
    have b: "balanced d v held ?m"
      using fresh_balanced [OF laws w5 pos _ _ refl made(3)] some by simp
    obtain ok m' where bind: "readback_bind tid ?m si rg = (ok, m')" by fastforce
    have b': "balanced d v held m'" using bind_balanced [OF laws b, of tid si rg] by (simp add: bind)
    have "no_objects v (native_release_both d
        (case readback_destroy tid m' of (_, Inl n) \<Rightarrow> n | (_, Inr m) \<Rightarrow> world m)) held"
      if "\<not> ok"
    proof (cases "readback_is_owner tid m'")
      case True
      then show ?thesis
        using release_both [OF laws pos cleared_objects [OF laws b']] by (simp add: readback_destroy_def)
    next
      case False
      have "world m = ?n" using made(3) by (auto simp: readback_create_def split: if_splits)
      moreover have "m' = ?m" using bind that by (simp add: refused_bind)
      ultimately have "world m' = ?n\<lparr>native_machine := True\<rparr>" by simp
      then show ?thesis
        using False release_both [OF laws pos, of "?n\<lparr>native_machine := True\<rparr>"] w5
        by (simp add: readback_destroy_def)
    qed
    with made b' show ?thesis unfolding run by (simp add: bind creation_balanced_def)
  qed
qed

subsection \<open>The balance over any sequence of calls\<close>

inductive native_calls ::
  "'w d3d_calls \<Rightarrow> 'w native_readback \<Rightarrow> 'w native_readback \<Rightarrow> bool"
  for d :: "'w d3d_calls" and m0 :: "'w native_readback" where
  created: "native_calls d m0 m0"
| called: "native_calls d m0 m \<Longrightarrow> foreign_source k m \<Longrightarrow> native_calls d m0 (native_exec d tid k m)"

lemma calls_balanced:
  assumes laws: "d3d_laws d v" and "native_calls d m0 m" and "balanced d v c m0"
  shows "balanced d v c m"
  using assms(2,3) by (induction rule: native_calls.induct) (auto intro: balanced_call [OF laws])

text \<open>The objects of a machine in balance: the live textures and queries are those of its records, each
  held once, and of every other object only the two references of its own are held beyond those at the
  start.\<close>

definition objects_exact ::
  "'w d3d_view \<Rightarrow> (nat \<Rightarrow> int) \<Rightarrow> 'w native_readback \<Rightarrow> bool" where
  "objects_exact v held m \<longleftrightarrow>
     (let w = native_com (world m); T = handles staging (records m); Q = handles query (records m)
      in v_textures v w = T \<and> v_queries v w = Q \<and> T \<inter> Q = {}
        \<and> handles_once staging (records m) \<and> handles_once query (records m)
        \<and> v_held v w = (\<lambda>obj. if obj \<in> T \<union> Q then 1 else held obj + own (world m) obj))"

lemma balanced_exact:
  assumes laws: "d3d_laws d v" and b: "balanced d v held m"
  shows "objects_exact v held m"
proof -
  have good: "native_good v (world m)" using laws b by (rule balanced_good)
  have held: "v_held v (native_com (world m)) obj =
      (if obj \<in> d3d_made v (native_com (world m)) then 1 else held obj + own (world m) obj)" for obj
    using good fun_cong [OF balanced_refs [OF laws b], of obj]
    by (auto simp: native_good_def native_refs_def)
  show ?thesis
    using b good held
    by (auto simp: objects_exact_def Let_def balanced_def native_ledger_iff [OF laws] native_good_def
        d3d_made_def fun_eq_iff)
qed

text \<open>C3: On any Direct3D that keeps to its documentation, creating the object either fails and
  leaves every reference count as it was, or gives an object of which holds, after any sequence of calls
  by any threads: the textures and queries alive are exactly those of the machine's records, each held by
  one record and referenced once, every other object has its count from the start apart from the device
  and the context, and destroying the object by its owner releases them all, while a destruction by
  another thread changes nothing. All uses on the way are within the documentation: no method is called
  on an object that is not held, a copied box lies inside its source and fills its destination, and only
  staging textures that may be read are mapped.\<close>

theorem native_objects_balanced:
  assumes laws: "d3d_laws d v" and sound: "v_sound v w0"
    and fresh: "v_textures v w0 = {}" "v_queries v w0 = {}"
  shows "case native_create d tid alloc alloc_machine device context si rg w0 of
      (None, w) \<Rightarrow> no_objects v w (v_held v w0)
    | (Some m0, w) \<Rightarrow> (\<forall>m. native_calls d m0 m \<longrightarrow> objects_exact v (v_held v w0) m
        \<and> (\<forall>tid. destruction_balanced v (v_held v w0) tid m (native_destroy d tid m)))"
proof -
  let ?held = "v_held v w0"
  have w0: "no_objects v w0 ?held" using sound fresh by (simp add: no_objects_def d3d_made_def)
  have pos: "\<forall>obj. 0 \<le> ?held obj" using count_law(1) [OF laws sound] by simp
  obtain out w where run: "native_create d tid alloc alloc_machine device context si rg w0 = (out, w)"
    by fastforce
  have "creation_balanced d v ?held (out, w)" using create_balances [OF laws w0] run by metis
  moreover have "objects_exact v ?held m
      \<and> (\<forall>tid. destruction_balanced v ?held tid m (native_destroy d tid m))"
    if "balanced d v ?held m0" "native_calls d m0 m" for m0 m
    using calls_balanced [OF laws that(2,1)] balanced_exact [OF laws] destroy_balances [OF laws _ pos]
    by blast
  ultimately show ?thesis by (cases out) (simp add: run creation_balanced_def, simp add: run creation_balanced_def, blast)
qed

end
