(* ===== verification/Readback_Native_Demo.thy ===== *)
theory Readback_Native_Demo
  imports Readback_Native_Props
begin

text \<open>
  A small Direct3D that keeps the laws, to run the readback on: the device 1, its immediate context 2, a
  texture 3 of the caller and a swap chain whose buffer is the texture 5. Objects are created from
  number 10 on, and an event is signalled as soon as it is asked for.
\<close>

record small_d3d =
  sm_held :: "nat \<Rightarrow> int"
  sm_next :: nat
  sm_kind :: "nat \<Rightarrow> nat"
  sm_desc :: "nat \<Rightarrow> texture_desc"

text \<open>The kind of an object is 1 for a texture that was created, 2 for a query and 0 for all others.\<close>

definition sm_textures :: "small_d3d \<Rightarrow> nat set" where
  "sm_textures w = {t. sm_kind w t = 1}"

definition sm_queries :: "small_d3d \<Rightarrow> nat set" where
  "sm_queries w = {q. sm_kind w q = 2}"

definition sm_take :: "nat \<Rightarrow> small_d3d \<Rightarrow> small_d3d" where
  "sm_take obj w = w\<lparr>sm_held := (sm_held w)(obj := sm_held w obj + 1),
     sm_next := max (sm_next w) (Suc obj)\<rparr>"

definition sm_drop :: "nat \<Rightarrow> small_d3d \<Rightarrow> small_d3d" where
  "sm_drop obj w = w\<lparr>sm_held := (sm_held w)(obj := sm_held w obj - 1),
     sm_kind := (if sm_held w obj = 1 then (sm_kind w)(obj := 0) else sm_kind w)\<rparr>"

definition sm_new :: "nat \<Rightarrow> small_d3d \<Rightarrow> small_d3d" where
  "sm_new kind w = w\<lparr>sm_held := (sm_held w)(sm_next w := 1), sm_next := Suc (sm_next w),
     sm_kind := (sm_kind w)(sm_next w := kind)\<rparr>"

definition small_calls :: "small_d3d d3d_calls" where
  "small_calls =
     \<lparr>d3d_add_ref = (\<lambda>obj w. (0, sm_take obj w)),
      d3d_release = (\<lambda>obj w. (0, sm_drop obj w)),
      d3d_get_desc = (\<lambda>t w. (sm_desc w t, w)),
      d3d_texture_device = (\<lambda>t w. (1, sm_take 1 w)),
      d3d_context_device = (\<lambda>c w. (1, sm_take 1 w)),
      d3d_context_type = (\<lambda>c w. (CONTEXT_IMMEDIATE, w)),
      d3d_create_texture = (\<lambda>dev desc w. ((S_OK, sm_next w),
        (sm_new 1 w)\<lparr>sm_desc := (sm_desc w)(sm_next w := desc)\<rparr>)),
      d3d_create_query = (\<lambda>dev desc w. ((S_OK, sm_next w), sm_new 2 w)),
      d3d_copy_subresource = (\<lambda>c dst i offset src j box w. w),
      d3d_end = (\<lambda>c q w. w),
      d3d_get_data = (\<lambda>c q len flags w. (S_OK, w)),
      d3d_map = (\<lambda>c t i ty flags w. ((S_OK, Some (\<lambda>k. of_nat k), 16), w)),
      d3d_unmap = (\<lambda>c t i w. w),
      d3d_removed_reason = (\<lambda>dev w. (S_OK, w)),
      dxgi_get_buffer = (\<lambda>sc i id w. ((S_OK, 5), sm_take 5 w))\<rparr>"

definition small_sound :: "small_d3d \<Rightarrow> bool" where
  "small_sound w \<longleftrightarrow> (\<forall>obj. 0 \<le> sm_held w obj) \<and> sm_held w 0 = 0 \<and> 10 \<le> sm_next w
     \<and> (\<forall>obj \<ge> sm_next w. sm_held w obj = 0)
     \<and> (\<forall>obj. sm_kind w obj \<noteq> 0 \<longrightarrow> 10 \<le> obj \<and> obj < sm_next w)"

definition small_view :: "small_d3d d3d_view" where
  "small_view = \<lparr>v_sound = small_sound, v_held = sm_held, v_textures = sm_textures,
     v_queries = sm_queries, v_desc = sm_desc\<rparr>"

lemma small_view_simps [simp]:
  "v_sound small_view = small_sound" "v_held small_view = sm_held"
  "v_textures small_view = sm_textures" "v_queries small_view = sm_queries"
  "v_desc small_view = sm_desc" "d3d_made small_view w = sm_textures w \<union> sm_queries w"
  by (simp_all add: small_view_def d3d_made_def)

lemma small_take:
  assumes "small_sound w" "obj \<noteq> 0" "obj \<notin> sm_textures w \<union> sm_queries w"
  shows "d3d_lent small_view obj w (sm_take obj w)"
proof -
  have "o' < max (sm_next w) (Suc obj)" if "sm_kind w o' \<noteq> 0" for o'
    using assms(1) that by (auto simp: small_sound_def less_max_iff_disj)
  with assms show ?thesis
    by (auto simp: d3d_lent_def sm_take_def small_sound_def sm_textures_def sm_queries_def)
qed

lemma small_laws: "d3d_laws small_calls small_view"
  unfolding d3d_laws_def
proof (intro allI impI conjI)
  fix w assume "v_sound small_view w"
  then have w: "small_sound w" by simp
  have "sm_kind w obj = 0" if "obj < 10" for obj
    using w that unfolding small_sound_def by (meson not_less)
  then have low: "1 \<notin> sm_textures w \<union> sm_queries w" "5 \<notin> sm_textures w \<union> sm_queries w"
    by (simp_all add: sm_textures_def sm_queries_def)
  have drop: "d3d_dropped small_view obj w (sm_drop obj w)" if "0 < sm_held w obj" for obj
  proof -
    have "obj \<noteq> 0" using w that by (metis small_sound_def less_irrefl)
    with w that show ?thesis by (auto simp: d3d_dropped_def sm_drop_def small_sound_def sm_textures_def sm_queries_def)
  qed
  show "count_laws small_calls small_view w"
    using w small_take [OF w] drop low
    by (auto simp: count_laws_def small_calls_def small_sound_def)
  have fresh: "sm_kind w (sm_next w) = 0" "sm_held w (sm_next w) = 0" "sm_next w \<noteq> 0"
    using w by (auto simp: small_sound_def)
  show "creation_laws small_calls small_view w"
    using w fresh
    by (auto simp: creation_laws_def texture_made_def query_made_def small_calls_def sm_new_def
        small_sound_def less_Suc_eq sm_textures_def sm_queries_def)
  show "use_laws small_calls small_view w"
    using w by (simp add: use_laws_def small_calls_def d3d_unchanged_def com_copy_region_def
        com_get_data_def com_map_texture_def com_unmap_texture_def)
qed

definition small_start :: small_d3d where
  "small_start = \<lparr>sm_held = (\<lambda>obj. 0), sm_next = 10, sm_kind = (\<lambda>obj. 0),
     sm_desc = (\<lambda>t. zero_desc\<lparr>tex_width := 4, tex_height := 4, tex_mips := 1, tex_array := 1,
       tex_format := FORMAT_B8G8R8A8_UNORM, tex_samples := 1\<rparr>)\<rparr>"

lemma small_start_sound:
  "v_sound small_view small_start" "v_textures small_view small_start = {}"
  "v_queries small_view small_start = {}"
  by (simp_all add: small_start_def small_sound_def sm_textures_def sm_queries_def)

text \<open>The caller's texture is staged and the buffer of its swap chain too.\<close>

definition small_native :: "small_d3d native_readback" where
  "small_native = the (fst (native_create small_calls 1 True True 1 2 51 2 small_start))"

definition small_image :: native_call where
  "small_image = Stage_image 3 501 51 2 1 8 1 1 2 3 61 False"

definition small_window :: native_call where
  "small_window = Stage_window 4 502 51 2 1 8 0 0 4 4 61 False"

lemma small_created: "fst (native_create small_calls 1 True True 1 2 51 2 small_start) \<noteq> None"
  by code_simp

text \<open>The staged textures are the only ones alive, and the destruction gives them back.\<close>

theorem native_objects_balanced_witness:
  "d3d_laws small_calls small_view
    \<and> objects_exact small_view (\<lambda>obj. 0)
        (native_exec small_calls 1 small_window (native_exec small_calls 1 small_image small_native))
    \<and> destruction_balanced small_view (\<lambda>obj. 0) 1
        (native_exec small_calls 1 small_window (native_exec small_calls 1 small_image small_native))
        (native_destroy small_calls 1
          (native_exec small_calls 1 small_window (native_exec small_calls 1 small_image small_native)))"
proof -
  obtain w where run: "native_create small_calls 1 True True 1 2 51 2 small_start = (Some small_native, w)"
    using small_created unfolding small_native_def by (metis option.exhaust_sel prod.collapse)
  have start: "native_calls small_calls small_native small_native" by (rule created)
  have "foreign_source small_image small_native" by code_simp
  then have "native_calls small_calls small_native (native_exec small_calls 1 small_image small_native)"
    using start by (rule called [rotated])
  then have "native_calls small_calls small_native
      (native_exec small_calls 1 small_window (native_exec small_calls 1 small_image small_native))"
    by (rule called) (simp add: small_window_def)
  moreover have "v_held small_view small_start = (\<lambda>obj. 0)" by (simp add: small_start_def)
  ultimately show ?thesis
    using native_objects_balanced [OF small_laws small_start_sound, of 1 True True 1 2 51 2,
        unfolded run prod.case option.case] small_laws
    by metis
qed

end
