(* ===== verification/Spec2Isabelle.thy ===== *)
theory Spec2Isabelle
  imports Int128_Text Int128_From_Float Readback_Props Win32_Clipboard_Props Win32_Window_Demo Run_Signals_Demo Segfault_Demo Execute_Capture_Demo X11_Input_Props X11_Text_Props X11_Checked_Demo X11_Pixels_Props X11_Windows_Props Linux_EGL_Props Win32_Proc_Props Win32_Touch_Props Win32_Sizes_Demo Wayland_Io_Props Readback_Native_Demo
begin

text \<open>
  A verification development for C code of the V repository: the runtime helpers the compiler
  puts into generated programs, the native backends of the windowing module, and the signal
  forwarding of the command \<^verbatim>\<open>v run\<close>.

  \<^bold>\<open>The program\<close>. V is a compiler written in V that emits C. What is written in C, and is not a
  vendored library, is of two kinds. Runtime helpers are emitted into every program
  (\<^verbatim>\<open>vlib/v/gen/c/int128_helpers.h\<close>, \<^verbatim>\<open>vlib/v/gen/c/int128_string.h\<close>). Native backends sit between
  V code and the operating system: the module \<^verbatim>\<open>x.multiwindow\<close> keeps one service object per window
  and one readback machine per Direct3D device, which V code drives through opaque pointers.

  \<^bold>\<open>Conventions\<close>. A w-bit integer is a word of that width, with \<open>int\<close> where the code only compares
  small statuses. A C struct is a record, an enumeration a datatype, a pointer to an object of the
  model an address with 0 for null, a pointer to a block an \<open>option\<close>. An access outside a block is
  \<open>None\<close>. Code outside \<^verbatim>\<open>src/\<close> (COM, Windows, POSIX) is a record of operations, each a
  state transformer of a type variable for the outside world; nothing is assumed of them unless a
  theorem says so in its hypotheses. Signed overflow wraps, which is how V compiles its C
  (\<^verbatim>\<open>-fwrapv\<close>).

  \<^bold>\<open>128 bit integers\<close> (\<open>Int128_Native\<close>, \<open>Int128_Portable\<close>, \<open>Int128_Value\<close>, \<open>Int128_Arith\<close>,
  \<open>Int128_Equiv\<close>, \<open>Int128_Division\<close>, \<open>Int128_Text\<close>, \<open>Int128_Float\<close>, \<open>Int128_From_Float\<close>). The header
  has two implementations of every helper: on the compiler's own 128 bit type and on a pair of 64
  bit limbs. \<open>to_w128\<close> reads a pair as a 128 bit word. The theorems say that the portable helpers
  are the native ones on these readings: arithmetic, bits and shifts, comparisons, division with
  its guards, conversions from and to integers and doubles. A double is the rational number it
  stands for; conversions round once, to nearest, ties to even. The printers of
  \<^verbatim>\<open>int128_string.h\<close> call the helpers of either implementation, so they are proved once in the locale
  \<open>decimal_rep\<close>, which both interpret.

  \<^bold>\<open>Readback machine\<close> (\<open>Readback\<close>, \<open>Readback_Inv\<close>, \<open>Readback_Pixels\<close>, \<open>Readback_Ledger\<close>,
  \<open>Readback_Props\<close>; \<^verbatim>\<open>x/multiwindow/win32_readback_d3d11_helpers.h\<close>). 64 records pass through staging,
  copying, resolving, polling, taking and release. The invariant, the order of the phases and the
  single delivery are proved for every operations table. Resource balance needs to know what the
  operations do: the locale \<open>d3d11_handles\<close> states it, \<open>d3d11_ops\<close> adds that any source is retained, and \<open>Fake_COM\<close>, a model of the repository's own
  provider \<^verbatim>\<open>testdata/win32_readback_d3d11_fake_com.h\<close>, interprets it.

  \<^bold>\<open>Windows services\<close> (\<^verbatim>\<open>x/multiwindow/win32_service_native.h\<close>). \<open>Host_Monad\<close> has the state monad,
  chains of checks and weakest preconditions. \<open>Win32_Clipboard\<close> and \<open>Win32_Clipboard_Props\<close>: the scan of
  foreign UTF-16 text against a reference definition on lists of units, and the write and read
  transactions with the ownership of every global and heap block. \<open>Win32_Monitors\<close>: the growing
  array of the monitor snapshot. \<open>Win32_Mouse\<close> and \<open>Win32_Mouse_Lock\<close>: the service object, the
  process-wide owner cell and the protocols that acquire, clean up and restore the mouse lock;
  \<open>Win32_Mouse_Inv\<close> proves the rule of every operation and the invariant of a process of services,
  \<open>Win32_Mouse_Inventory\<close> that the comparisons of device lists are comparisons of multisets, and
  \<open>Win32_Mouse_Props\<close> exclusion, the meaning of each status and, for a desktop whose queries tell the
  truth, that an unlock leaves no trace. \<open>Win32_Window\<close> and \<open>Win32_Window_Props\<close>: creation, fullscreen with
  its roll back, the window commands, the owner cell as the implementation of a mutex, and, over queries that
  report the facts of the desktop, for which windows a service is made and that it owns them. The
  theories ending in \<open>_Demo\<close> run the model on small desktops and hold the witnesses.

  \<^bold>\<open>Win32 backend\<close> (\<^verbatim>\<open>x/multiwindow/win32_backend_helpers.h\<close>). \<open>Win32_Events\<close> has the state of the process (the
  counter of the event numbers, the data and properties of the windows, the log of events, the count of blocks)
  over a table of Windows calls, and the parts of a message; \<open>Win32_Sizes\<close> the sizes and the creation of windows;
  \<open>Win32_Proc\<close> the window procedure with a handler for each message. \<open>Win32_Protocol\<close> goes through the handlers once,
  in a locale whose laws are what a message may do with numbers and events; \<open>Win32_Proc_Props\<close> interprets it for
  the order of the numbers, for the addressee of the events and for the motion that each message may make, and has
  the end of a window and the way motion takes under the mouse lock. \<open>Win32_Touch_Props\<close> has the groups of touches and the blocks;
  \<open>Win32_Sizes_Props\<close> the exact client area and the creation, with a Windows for them in \<open>Win32_Sizes_Demo\<close>.

  \<^bold>\<open>Run signals\<close> (\<^verbatim>\<open>v/driver/run_signals_nix.c\<close> and its caller in \<^verbatim>\<open>run_signals_nix.c.v\<close>). \<open>Run_Signals\<close> has
  the globals of the file, the handler, the observer process and the functions \<open>begin\<close>, \<open>set_pid\<close>,
  \<open>wait\<close>, \<open>kill\<close> and \<open>finish\<close>; a signal may arrive after every system call, and its handler then runs
  to the end. \<open>Run_Signals_Inv\<close> proves, in the kernel that records every \<^verbatim>\<open>kill\<close>, whom a session signals;
  \<open>Run_Signals_Mask\<close> that every function gives back the signal mask; \<open>Run_Signals_Session\<close> that \<open>finish\<close>
  takes down what \<open>begin\<close> set up; \<open>Run_Signals_Run\<close> and \<open>Run_Signals_Live\<close> put them together for a whole
  run and prove that it returns; \<open>Run_Signals_Terminal\<close> records what the driver sees and puts in the foreground of
  the terminal and proves, in the locale \<open>terminal_calls\<close>, that it does not end owing the terminal to the program;
  \<open>Run_Signals_Props\<close> states what follows for the user, and
  \<open>Run_Signals_Demo\<close> is a kernel on which all the assumed laws hold.

  \<^bold>\<open>Stack overflow handler\<close> (\<^verbatim>\<open>vlib/builtin/segfault_handler_nix.h\<close>). \<open>Segfault\<close> has the handler of
  \<^verbatim>\<open>SIGSEGV\<close> and \<^verbatim>\<open>SIGBUS\<close>, the backtrace, the header at the base of the alternate stack and the
  installation. \<open>Segfault_Props\<close> proves that the backtrace ends and prints the runs of equal frames of
  the frame chain, that after the installation exactly the faults in the window of the main stack are
  reported, how often the handler of before runs, and that the write loop writes everything.
  \<open>Segfault_Demo\<close> has a stack of three frames and the witnesses.

  \<^bold>\<open>Capture of child output\<close> (\<^verbatim>\<open>vlib/os/execute_capture_nix.h\<close>). \<open>Execute_Capture\<close> has the functions that
  start a child behind a pipe, on the table of file descriptors, for both builds.
  \<open>Execute_Capture_Props\<close> proves, for a caller whose standard descriptors are open, what parent and child hold
  afterwards, and that a failure leaves nothing behind; \<open>Execute_Capture_Demo\<close> has the witnesses and the cases in which the output is lost.

  \<^bold>\<open>Readback on Direct3D 11\<close> (\<^verbatim>\<open>x/multiwindow/win32_readback_d3d11_native.h\<close>). \<open>Readback_Native\<close> has the
  object that owns a readback machine, the table of operations it gives the machine, and its entry points,
  over a table of Direct3D methods. \<open>Readback_Native_Laws\<close> states what Direct3D documents and derives the
  contract \<open>d3d11_handles\<close> of \<open>Readback_Ledger\<close> from it; \<open>Readback_Native_Props\<close> proves that every reference is
  given back, and \<open>Readback_Native_Demo\<close> is a small Direct3D on which the laws hold.

  \<^bold>\<open>X11 backend\<close> (\<^verbatim>\<open>x/multiwindow/x11_egl_backend_helpers.h\<close>). \<open>X11_Text\<close> has the decoding of composed text and
  its buffer, \<open>X11_Text_Props\<close> that every well-formed text comes out exactly and no byte outside a buffer is
  touched. \<open>X11_Input\<close> has the fields of events, the modifiers and the key code table of a keyboard;
  \<open>X11_Input_Props\<close> says what the table holds. \<open>X11_Checked\<close> has the requests whose answer is awaited, over a
  table of the calls of the X libraries, and the mouse lock made of them; \<open>X11_Checked_Props\<close> proves that each of
  them gives back the blocks, locks and connections it holds, and that a lock reported is a pointer grabbed, with a
  server that may end a grab of its own accord and a connection that may be lost.
  \<open>X11_Pixels\<close> has the readback of a window and \<open>X11_Pixels_Props\<close> what it leaves in the buffer;
  \<open>X11_Windows\<close> and \<open>X11_Windows_Props\<close> the calls through Xlib: hints, owners, properties, monitors and the
  creation of a window.

  \<^bold>\<open>Wayland backend\<close> (\<^verbatim>\<open>x/multiwindow/wayland_backend_helpers.h\<close>). \<open>Wayland_Io\<close> has the parts that decide
  something: the calls on the display with the reports of \<open>Linux_EGL\<close>, the write that keeps a broken pipe from
  killing the process, the shared memory of a buffer, versions and releases. \<open>Wayland_Io_Props\<close> proves that the
  write leaves the signals of the thread as they were, and that a buffer leaves nothing open and is painted
  inside its mapping.

  \<^bold>\<open>Linux EGL\<close> (\<^verbatim>\<open>x/multiwindow/linux_egl_native_helpers.h\<close>). \<open>Linux_EGL\<close> has the primitives and the record they
  report in; \<open>Linux_EGL_Props\<close> proves that the search for an extension is membership in the list of names,
  and exactly what the choice of a configuration for a Wayland surface reports.

  \<^bold>\<open>Bounds\<close>. Loops are structural or have a measure; the readback machine has the 64 records of the
  source, the division its 128 passes, the clipboard scan at most 16 MiB.
  The loops of the run signals wait for other processes, so they have fuel, and \<open>run_returns\<close> says
  that any fuel above the number of events still to come is enough. The walk along the frame pointers
  has fuel too, and the size of the stack in bytes is enough.

  \<^bold>\<open>Not modelled\<close>. The compiler itself, which is V code. The vendored libraries under
  \<^verbatim>\<open>thirdparty/\<close>. Failure injection that the test builds compile into the Windows services. Inside one
  call of a service no other thread changes the owner cell: a call is one step, as each object
  belongs to one thread and every access to the cell is a single interlocked operation. The Cocoa
  backend, the device and swap chain calls of Direct3D, TLS and the like are listed in the manifest as not
  modelled; of the Wayland backend the listener tables and the requests of a single call are left out, of
  the Win32 backend the conversions of the render metrics in floating point. Of the run signals, the handler is not itself interrupted
  by another signal, a forked child is followed only as the observer, and the build without system
  headers is left out. Where several paths of a function free the same block before they return, the model
  has the block freed once, behind the branches (\<open>emit_raw_mouse_event\<close>, \<open>poll_checked_property_delete\<close>,
  \<open>checked_property_changes\<close>); a write to the pipe of the observer that is interrupted and repeated is one
  operation; \<open>put_bytes\<close> drops what lies behind its buffer, so that an access there is not an error of the
  model (\<open>normalize_pixels\<close> gives the whole content of the buffer, in which every row has its place).
\<close>

end
